(* ===== verification/Prelude.thy ===== *)
theory Prelude
  imports Main "HOL-Library.Word" "HOL-Library.Monad_Syntax"
begin

text \<open>
  Shared vocabulary of the development: machine integers, the way a run of the firmware
  can stop (a failed \<open>ASSERT\<close>, which is a dead loop on these boards, or an access outside a
  buffer), EFI status codes, byte memories and the lemmas the component theories share.

  \<^item> \<open>'a run\<close> is the result of C code: \<^term>\<open>None\<close> when the code does not return normally
    (failed \<open>ASSERT\<close>, NULL dereference, access outside an object), \<^term>\<open>Some\<close> otherwise.
    The \<open>do\<close> notation of \<open>Monad_Syntax\<close> threads it.
  \<^item> \<open>efi_status\<close> is the library's status type. The numeric encoding belongs to MdePkg and is
    not fixed here: \<open>EFI_ERROR\<close> is the library's test "the top bit is set", which holds of
    exactly the error codes. Rockchip's HAL returns lengths through the same type, so a
    non-error status carries a number and \<open>EFI_SUCCESS\<close> is the number 0.
  \<^item> A byte memory is a function from addresses to bytes; \<open>rd\<close> reads a byte list from it and
    \<open>wr\<close> writes one into it.
\<close>

unbundle bit_operations_syntax

section \<open>Machine integers\<close>

type_synonym u8 = "8 word"
type_synonym u16 = "16 word"
type_synonym u32 = "32 word"
type_synonym u64 = "64 word"

section \<open>Runs that may stop\<close>

type_synonym 'a run = "'a option"

definition assert_that :: "bool \<Rightarrow> unit run" where
  "assert_that b = (if b then Some () else None)"

section \<open>EFI status codes\<close>

datatype efi_error =
    EFI_INVALID_PARAMETER | EFI_UNSUPPORTED | EFI_BAD_BUFFER_SIZE | EFI_BUFFER_TOO_SMALL
  | EFI_NOT_READY | EFI_DEVICE_ERROR | EFI_OUT_OF_RESOURCES | EFI_NO_MEDIA | EFI_NOT_FOUND
  | EFI_ACCESS_DENIED | EFI_TIMEOUT | EFI_ABORTED | EFI_NO_RESPONSE

datatype efi_status = Value nat | Error efi_error

abbreviation EFI_SUCCESS :: efi_status where
  "EFI_SUCCESS \<equiv> Value 0"

fun EFI_ERROR :: "efi_status \<Rightarrow> bool" where
  "EFI_ERROR (Value n) = False"
| "EFI_ERROR (Error e) = True"

lemma EFI_ERROR_iff: "EFI_ERROR s \<longleftrightarrow> (\<exists>e. s = Error e)"
  by (cases s) auto

section \<open>Byte memories\<close>

type_synonym mem = "nat \<Rightarrow> u8"

definition rd :: "mem \<Rightarrow> nat \<Rightarrow> nat \<Rightarrow> u8 list" where
  "rd m a n = map (\<lambda>i. m (a + i)) [0..<n]"

definition wr :: "mem \<Rightarrow> nat \<Rightarrow> u8 list \<Rightarrow> mem" where
  "wr m a bs = (\<lambda>x. if a \<le> x \<and> x < a + length bs then bs ! (x - a) else m x)"

definition fill :: "mem \<Rightarrow> nat \<Rightarrow> nat \<Rightarrow> u8 \<Rightarrow> mem" where
  "fill m a n v = (\<lambda>x. if a \<le> x \<and> x < a + n then v else m x)"

named_theorems mem_simps "reading from and writing to byte memories"

lemma length_rd [simp]: "length (rd m a n) = n"
  by (simp add: rd_def)

lemma nth_rd [simp]: "i < n \<Longrightarrow> rd m a n ! i = m (a + i)"
  by (simp add: rd_def)

lemma rd_0 [simp]: "rd m a 0 = []"
  by (simp add: rd_def)

lemma rd_add: "rd m a (n + k) = rd m a n @ rd m (a + n) k"
  by (rule nth_equalityI) (auto simp: nth_append)

lemma wr_Nil [simp]: "wr m a [] = m"
  by (rule ext) (auto simp: wr_def)

lemma wr_in [mem_simps]: "a \<le> x \<Longrightarrow> x < a + length bs \<Longrightarrow> wr m a bs x = bs ! (x - a)"
  by (simp add: wr_def)

lemma wr_out [mem_simps]: "x < a \<or> a + length bs \<le> x \<Longrightarrow> wr m a bs x = m x"
  by (auto simp: wr_def)

lemma fill_in [mem_simps]: "a \<le> x \<Longrightarrow> x < a + n \<Longrightarrow> fill m a n v x = v"
  by (simp add: fill_def)

lemma fill_out [mem_simps]: "x < a \<or> a + n \<le> x \<Longrightarrow> fill m a n v x = m x"
  by (auto simp: fill_def)

lemma wr_append: "wr m a (bs @ cs) = wr (wr m a bs) (a + length bs) cs"
  by (rule ext) (auto simp: wr_def nth_append)

lemma rd_wr_same: "length bs = n \<Longrightarrow> rd (wr m a bs) a n = bs"
  by (rule nth_equalityI) (auto simp: wr_def)

lemma rd_wr_other: "a + n \<le> b \<or> b + length bs \<le> a \<Longrightarrow> rd (wr m b bs) a n = rd m a n"
  by (rule nth_equalityI) (auto simp: wr_def)

lemma rd_cong: "(\<And>x. a \<le> x \<Longrightarrow> x < a + n \<Longrightarrow> m x = m' x) \<Longrightarrow> rd m a n = rd m' a n"
  by (rule nth_equalityI) auto

section \<open>Word arithmetic on small values\<close>

named_theorems word_nat "unat of word operations that do not wrap"

lemma unat_add_no_wrap [word_nat]:
  "unat (x :: 'a::len word) + unat y < 2 ^ LENGTH('a) \<Longrightarrow> unat (x + y) = unat x + unat y"
  by (simp add: unat_word_ariths)

lemma unat_mult_no_wrap [word_nat]:
  "unat (x :: 'a::len word) * unat y < 2 ^ LENGTH('a) \<Longrightarrow> unat (x * y) = unat x * unat y"
  by (simp add: unat_word_ariths)

lemma unat_sub_no_wrap [word_nat]:
  "(y :: 'a::len word) \<le> x \<Longrightarrow> unat (x - y) = unat x - unat y"
  by (simp add: unat_sub_if_size word_le_nat_alt)

lemma unat_ucast_small:
  assumes "unat (w :: 'a :: len word) < 2 ^ LENGTH('b)"
  shows "unat (ucast w :: 'b :: len word) = unat w"
  using assms by (simp add: unsigned_ucast_eq take_bit_nat_eq_self)

lemma unat_of_nat_small: "n < 2 ^ LENGTH('a) \<Longrightarrow> unat (of_nat n :: 'a :: len word) = n"
  by (simp add: unsigned_of_nat take_bit_nat_eq_self)

lemma unat_bound: "unat (w :: 'a :: len word) < 2 ^ LENGTH('a)"
  by (rule unsigned_less)

lemma word_eqI_unat: "unat v = unat w \<Longrightarrow> v = (w :: 'a :: len word)"
  by (simp add: word_unat_eq_iff)

lemma unat_align_down: "unat (b AND NOT (mask n)) = unat b - unat b mod 2 ^ n" for b :: "'a :: len word"
proof -
  have "(b AND NOT (mask n)) AND take_bit n b = 0"
    by (rule bit_word_eqI) (auto simp: bit_simps)
  then have "(b AND NOT (mask n)) + take_bit n b = (b AND NOT (mask n)) OR take_bit n b"
    by (rule disjunctive_add_eq_or)
  also have "\<dots> = b"
    by (rule bit_word_eqI) (auto simp: bit_simps)
  finally have "b AND NOT (mask n) = b - take_bit n b"
    by (simp add: eq_diff_eq)
  moreover have "unat (take_bit n b) = unat b mod 2 ^ n"
    by (simp add: unsigned_take_bit_eq flip: take_bit_eq_mod)
  moreover have "take_bit n b \<le> b"
    by (simp add: word_le_nat_alt unsigned_take_bit_eq)
  ultimately show ?thesis
    by (simp add: unat_sub)
qed

end
