(* ===== verification/UsbHcMem.thy ===== *)
theory UsbHcMem
  imports Prelude "HOL-Library.Multiset"
begin

text \<open>
  The memory pool of the OHCI driver (\<open>Drivers/OhciDxe/UsbHcMem.c\<close>, \<open>UsbHcMem.h\<close>). A pool is a
  list of blocks of DMA memory, the head first and never released; a block carries one bit
  per 64-byte unit. Allocation is first fit over the bit arrays.

  The list of blocks models the chain of \<open>Next\<close> pointers, and a block is named by its position
  in the chain. \<open>gBS->FreePool\<close>, \<open>AllocateZeroPool\<close> and the DMA library are outside the
  repository: what they answer is the record \<open>dma_env\<close>, and the calls made are logged as
  \<open>mem_ev\<close> so that leaks can be stated.
\<close>

section \<open>State\<close>

record usbhc_mem_block =
  Bits :: "u8 list"
  BitsLen :: nat
  Buf :: nat
  BufHost :: nat
  BufLen :: nat
  Mapping :: nat

record usbhc_mem_pool =
  Check4G :: bool
  Which4G :: nat
  Blocks :: "usbhc_mem_block list"

text \<open>
  The answers of the services one allocation may call: the page size, whether the two
  \<open>AllocateZeroPool\<close> calls succeed, the host address \<open>DmaAllocateBuffer\<close> returns, and the bytes,
  bus address and mapping \<open>DmaMap\<close> returns.
\<close>

record dma_env =
  EFI_PAGE_SIZE :: nat
  block_alloc_ok :: bool
  bits_alloc_ok :: bool
  DmaAllocateBuffer :: "nat option"
  DmaMap :: "(nat \<times> nat \<times> nat) option"

datatype mem_obj = ObjBlock | ObjBits | ObjBuffer nat nat | ObjMapping nat
datatype mem_ev = Acquire mem_obj | Release mem_obj

section \<open>Bit arrays\<close>

definition USBHC_MEM_UNIT :: nat where
  "USBHC_MEM_UNIT = 64"

definition USBHC_MEM_DEFAULT_PAGES :: nat where
  "USBHC_MEM_DEFAULT_PAGES = 16"

definition USBHC_MEM_ROUND :: "u64 \<Rightarrow> u64" where
  "USBHC_MEM_ROUND len = (len + 63) AND NOT 63"

definition USB_HC_BIT :: "nat \<Rightarrow> u64" where
  "USB_HC_BIT a = push_bit a 1"

definition USB_HC_BIT_IS_SET :: "u8 \<Rightarrow> nat \<Rightarrow> bool" where
  "USB_HC_BIT_IS_SET d b \<longleftrightarrow> (ucast d AND USB_HC_BIT b) = USB_HC_BIT b"

definition NEXT_BIT :: "nat \<Rightarrow> nat \<Rightarrow> nat \<times> nat" where
  "NEXT_BIT byte b = (if b + 1 > 7 then (byte + 1, 0) else (byte, b + 1))"

definition USB_HC_HIGH_32BIT :: "nat \<Rightarrow> nat" where
  "USB_HC_HIGH_32BIT addr = (addr div 2 ^ 32) mod 2 ^ 32"

text \<open>The search loop: (Available, StartByte, StartBit) when it is left.\<close>

function alloc_search ::
  "u8 list \<Rightarrow> nat \<Rightarrow> nat \<Rightarrow> nat \<Rightarrow> nat \<Rightarrow> nat \<Rightarrow> nat \<Rightarrow> nat \<Rightarrow> nat \<times> nat \<times> nat" where
  "alloc_search bits len units byte b avail sbyte sbit =
     (if byte < len then
        if \<not> USB_HC_BIT_IS_SET (bits ! byte) b then
          if units \<le> avail + 1 then (avail + 1, sbyte, sbit)
          else alloc_search bits len units (fst (NEXT_BIT byte b)) (snd (NEXT_BIT byte b))
                 (avail + 1) sbyte sbit
        else alloc_search bits len units (fst (NEXT_BIT byte b)) (snd (NEXT_BIT byte b))
               0 (fst (NEXT_BIT byte b)) (snd (NEXT_BIT byte b))
      else (avail, sbyte, sbit))"
  by pat_completeness auto
termination
  by (relation "measures [\<lambda>(bits, len, units, byte, b, _). len - byte,
                          \<lambda>(bits, len, units, byte, b, _). 8 - b]")
     (auto simp: NEXT_BIT_def)

declare alloc_search.simps [simp del]

text \<open>The marking loop, with its \<open>ASSERT\<close> and the bounds of the bit array.\<close>

fun mark_bits :: "nat \<Rightarrow> u8 list \<Rightarrow> nat \<Rightarrow> nat \<Rightarrow> u8 list run" where
  "mark_bits 0 bits byte b = Some bits"
| "mark_bits (Suc n) bits byte b =
     (if length bits \<le> byte \<or> USB_HC_BIT_IS_SET (bits ! byte) b then None
      else mark_bits n (bits[byte := ucast (ucast (bits ! byte) OR USB_HC_BIT b)])
             (fst (NEXT_BIT byte b)) (snd (NEXT_BIT byte b)))"

text \<open>The loop of \<open>UsbHcFreeMem\<close> that resets the bits.\<close>

fun clear_bits :: "nat \<Rightarrow> u8 list \<Rightarrow> nat \<Rightarrow> nat \<Rightarrow> u8 list run" where
  "clear_bits 0 bits byte b = Some bits"
| "clear_bits (Suc n) bits byte b =
     (if length bits \<le> byte \<or> \<not> USB_HC_BIT_IS_SET (bits ! byte) b then None
      else clear_bits n (bits[byte := ucast (ucast (bits ! byte) XOR USB_HC_BIT b)])
             (fst (NEXT_BIT byte b)) (snd (NEXT_BIT byte b)))"

section \<open>Operations on blocks\<close>

definition UsbHcAllocMemFromBlock ::
  "usbhc_mem_block \<Rightarrow> nat \<Rightarrow> (usbhc_mem_block \<times> nat option) run" where
  "UsbHcAllocMemFromBlock blk units = do {
     assert_that (units \<noteq> 0);
     (case alloc_search (Bits blk) (BitsLen blk) units 0 0 0 0 0 of
        (avail, sbyte, sbit) \<Rightarrow>
          if avail < units then Some (blk, None)
          else do {
            bits \<leftarrow> mark_bits units (Bits blk) sbyte sbit;
            Some (blk\<lparr>Bits := bits\<rparr>, Some (BufHost blk + (sbyte * 8 + sbit) * USBHC_MEM_UNIT))
          })
   }"

definition UsbHcIsMemBlockEmpty :: "usbhc_mem_block \<Rightarrow> bool" where
  "UsbHcIsMemBlockEmpty blk \<longleftrightarrow> (\<forall>i < BitsLen blk. Bits blk ! i = 0)"

text \<open>
  The assertion of the code that eight units fit into a page is a fact about its constants, 512 and
  4096 bytes. Page counts come from a 64-bit size divided by the page size, so the size in bytes does not
  wrap for a buffer that exists.
\<close>

definition UsbHcAllocMemBlock ::
  "dma_env \<Rightarrow> usbhc_mem_pool \<Rightarrow> nat \<Rightarrow> usbhc_mem_block option \<times> mem_ev list" where
  "UsbHcAllocMemBlock env pool pages =
     (if \<not> block_alloc_ok env then (None, [])
      else
        let len = pages * EFI_PAGE_SIZE env;
            bitslen = len div (USBHC_MEM_UNIT * 8)
        in if \<not> bits_alloc_ok env then (None, [Acquire ObjBlock, Release ObjBlock])
           else case DmaAllocateBuffer env of
             None \<Rightarrow> (None, [Acquire ObjBlock, Acquire ObjBits, Release ObjBits, Release ObjBlock])
           | Some host \<Rightarrow>
               let got = [Acquire ObjBlock, Acquire ObjBits, Acquire (ObjBuffer host pages)];
                   undo = [Release (ObjBuffer host pages), Release ObjBits, Release ObjBlock]
               in case DmaMap env of
                 None \<Rightarrow> (None, got @ undo)
               | Some (bytes, mapped, mapping) \<Rightarrow>
                   if bytes \<noteq> pages * EFI_PAGE_SIZE env
                   then (None, got @ [Acquire (ObjMapping mapping)] @ undo)
                   else if Check4G pool \<and> Which4G pool \<noteq> USB_HC_HIGH_32BIT mapped
                   then (None, got @ [Acquire (ObjMapping mapping)] @ [Release (ObjMapping mapping)] @ undo)
                   else (Some \<lparr>Bits = replicate bitslen 0, BitsLen = bitslen, Buf = mapped,
                               BufHost = host, BufLen = len, Mapping = mapping\<rparr>,
                         got @ [Acquire (ObjMapping mapping)]))"

definition UsbHcFreeMemBlock :: "dma_env \<Rightarrow> usbhc_mem_block \<Rightarrow> mem_ev list" where
  "UsbHcFreeMemBlock env blk =
     [Release (ObjMapping (Mapping blk)),
      Release (ObjBuffer (BufHost blk)
        ((BufLen blk + EFI_PAGE_SIZE env - 1) div EFI_PAGE_SIZE env)),
      Release ObjBits, Release ObjBlock]"

definition contains_range :: "usbhc_mem_block \<Rightarrow> nat \<Rightarrow> nat \<Rightarrow> bool" where
  "contains_range blk a n \<longleftrightarrow> BufHost blk \<le> a \<and> a + n \<le> BufHost blk + BufLen blk"

section \<open>Operations on the pool\<close>

definition UsbHcInsertMemBlockToPool ::
  "usbhc_mem_block list \<Rightarrow> usbhc_mem_block \<Rightarrow> usbhc_mem_block list run" where
  "UsbHcInsertMemBlockToPool blks new =
     (case blks of [] \<Rightarrow> None | head # rest \<Rightarrow> Some (head # new # rest))"

definition UsbHcUnlinkMemBlock :: "usbhc_mem_block list \<Rightarrow> nat \<Rightarrow> usbhc_mem_block list" where
  "UsbHcUnlinkMemBlock blks i = (if i = 0 then blks else take i blks @ drop (Suc i) blks)"

definition UsbHcInitMemPool ::
  "dma_env \<Rightarrow> bool \<Rightarrow> bool \<Rightarrow> nat \<Rightarrow> usbhc_mem_pool option \<times> mem_ev list" where
  "UsbHcInitMemPool env pool_alloc_ok check4g which4g =
     (if \<not> pool_alloc_ok then (None, [])
      else let pool = \<lparr>Check4G = check4g, Which4G = which4g, Blocks = []\<rparr>
           in case UsbHcAllocMemBlock env pool USBHC_MEM_DEFAULT_PAGES of
                (None, ev) \<Rightarrow> (None, ev)
              | (Some blk, ev) \<Rightarrow> (Some (pool\<lparr>Blocks := [blk]\<rparr>), ev))"

fun UsbHcFreeMemPool_loop :: "dma_env \<Rightarrow> usbhc_mem_block list \<Rightarrow> mem_ev list" where
  "UsbHcFreeMemPool_loop env [] = []"
| "UsbHcFreeMemPool_loop env (b # bs) = UsbHcFreeMemBlock env b @ UsbHcFreeMemPool_loop env bs"

definition UsbHcFreeMemPool :: "dma_env \<Rightarrow> usbhc_mem_pool \<Rightarrow> (efi_status \<times> mem_ev list) run" where
  "UsbHcFreeMemPool env pool =
     (case Blocks pool of
        [] \<Rightarrow> None
      | head # rest \<Rightarrow>
          Some (EFI_SUCCESS, UsbHcFreeMemPool_loop env rest @ UsbHcFreeMemBlock env head))"

text \<open>The first loop of \<open>UsbHcAllocateMem\<close>.\<close>

fun alloc_in_blocks ::
  "usbhc_mem_block list \<Rightarrow> nat \<Rightarrow> (usbhc_mem_block list \<times> nat option) run" where
  "alloc_in_blocks [] units = Some ([], None)"
| "alloc_in_blocks (b # bs) units =
     Option.bind (UsbHcAllocMemFromBlock b units) (\<lambda>(b', r).
       case r of
         Some a \<Rightarrow> Some (b' # bs, Some a)
       | None \<Rightarrow> Option.bind (alloc_in_blocks bs units) (\<lambda>(bs', r'). Some (b' # bs', r')))"

definition pages_for :: "dma_env \<Rightarrow> nat \<Rightarrow> nat" where
  "pages_for env sz =
     (if sz > USBHC_MEM_DEFAULT_PAGES * EFI_PAGE_SIZE env
      then (sz + EFI_PAGE_SIZE env - 1) div EFI_PAGE_SIZE env + 1
      else USBHC_MEM_DEFAULT_PAGES)"

definition UsbHcAllocateMem ::
  "dma_env \<Rightarrow> usbhc_mem_pool \<Rightarrow> mem \<Rightarrow> u64 \<Rightarrow>
     (usbhc_mem_pool \<times> mem \<times> nat option \<times> mem_ev list) run" where
  "UsbHcAllocateMem env pool m sz =
     (let allocsize = unat (USBHC_MEM_ROUND sz);
          units = allocsize div USBHC_MEM_UNIT
      in do {
        assert_that (Blocks pool \<noteq> []);
        (bs, r) \<leftarrow> alloc_in_blocks (Blocks pool) units;
        (case r of
           Some a \<Rightarrow> Some (pool\<lparr>Blocks := bs\<rparr>, fill m a (unat sz) 0, Some a, [])
         | None \<Rightarrow>
             (case UsbHcAllocMemBlock env pool (pages_for env allocsize) of
                (None, ev) \<Rightarrow> Some (pool, m, None, ev)
              | (Some new, ev) \<Rightarrow> do {
                  bs \<leftarrow> UsbHcInsertMemBlockToPool (Blocks pool) new;
                  (new', r) \<leftarrow> UsbHcAllocMemFromBlock new units;
                  (case r of
                     None \<Rightarrow> Some (pool\<lparr>Blocks := bs[1 := new']\<rparr>, m, None, ev)
                   | Some a \<Rightarrow> Some (pool\<lparr>Blocks := bs[1 := new']\<rparr>,
                                     fill m a (unat sz) 0, Some a, ev))
                }))
      })"

text \<open>The loop of \<open>UsbHcFreeMem\<close>: the changed chain and the position of the block found.\<close>

fun free_in_blocks ::
  "usbhc_mem_block list \<Rightarrow> nat \<Rightarrow> nat \<Rightarrow> (usbhc_mem_block list \<times> nat option) run" where
  "free_in_blocks [] a n = Some ([], None)"
| "free_in_blocks (b # bs) a n =
     (if contains_range b a n then
        Option.bind (clear_bits (n div USBHC_MEM_UNIT) (Bits b)
                       ((a - BufHost b) div USBHC_MEM_UNIT div 8)
                       ((a - BufHost b) div USBHC_MEM_UNIT mod 8))
          (\<lambda>bits. Some (b\<lparr>Bits := bits\<rparr> # bs, Some 0))
      else Option.bind (free_in_blocks bs a n)
             (\<lambda>(bs', i). Some (b # bs', map_option Suc i)))"

definition UsbHcFreeMem ::
  "dma_env \<Rightarrow> usbhc_mem_pool \<Rightarrow> nat \<Rightarrow> u64 \<Rightarrow> (usbhc_mem_pool \<times> mem_ev list) run" where
  "UsbHcFreeMem env pool a sz = do {
     (bs, found) \<leftarrow> free_in_blocks (Blocks pool) a (unat (USBHC_MEM_ROUND sz));
     i \<leftarrow> found;
     (if i \<noteq> 0 \<and> UsbHcIsMemBlockEmpty (bs ! i)
      then Some (pool\<lparr>Blocks := UsbHcUnlinkMemBlock bs i\<rparr>, UsbHcFreeMemBlock env (bs ! i))
      else Some (pool\<lparr>Blocks := bs\<rparr>, []))
   }"

fun find_block :: "usbhc_mem_block list \<Rightarrow> nat \<Rightarrow> nat \<Rightarrow> usbhc_mem_block option" where
  "find_block [] a n = None"
| "find_block (b # bs) a n = (if contains_range b a n then Some b else find_block bs a n)"

text \<open>\<open>Mem == NULL\<close> is the address 0.\<close>

definition UsbHcGetAddressForHostMem :: "usbhc_mem_pool \<Rightarrow> nat \<Rightarrow> u64 \<Rightarrow> nat run" where
  "UsbHcGetAddressForHostMem pool a sz =
     (if a = 0 then Some 0
      else do {
        b \<leftarrow> find_block (Blocks pool) a (unat (USBHC_MEM_ROUND sz));
        Some (Buf b + (a - BufHost b))
      })"

section \<open>The bit array as a set of units\<close>

definition unit_set :: "u8 list \<Rightarrow> nat set" where
  "unit_set bits = {u. u < 8 * length bits \<and> bit (bits ! (u div 8)) (u mod 8)}"

lemma USB_HC_BIT_IS_SET_bit: "b < 8 \<Longrightarrow> USB_HC_BIT_IS_SET d b \<longleftrightarrow> bit d b"
proof -
  assume b: "b < 8"
  have "bit (ucast d AND (push_bit b 1 :: u64)) n = (n = b \<and> bit d b)" for n
    using b by (auto simp: bit_simps push_bit_of_1)
  moreover have "bit (push_bit b 1 :: u64) n = (n = b)" for n
    using b by (auto simp: bit_simps push_bit_of_1)
  ultimately show ?thesis
    by (auto simp: USB_HC_BIT_IS_SET_def USB_HC_BIT_def intro: bit_eqI) (metis (full_types))
qed

lemma NEXT_BIT_index: "b < 8 \<Longrightarrow> 8 * fst (NEXT_BIT y b) + snd (NEXT_BIT y b) = Suc (8 * y + b)"
  by (auto simp: NEXT_BIT_def)

lemma NEXT_BIT_less: "b < 8 \<Longrightarrow> snd (NEXT_BIT y b) < 8"
  by (auto simp: NEXT_BIT_def)

lemma unit_set_mem: "b < 8 \<Longrightarrow> y < length bits \<Longrightarrow> 8 * y + b \<in> unit_set bits \<longleftrightarrow> bit (bits ! y) b"
  by (auto simp: unit_set_def)

lemma set_bit_u8: "b < 8 \<Longrightarrow> ucast (ucast (d :: u8) OR USB_HC_BIT b) = Bit_Operations.set_bit b d"
  by (rule bit_word_eqI) (auto simp: bit_simps USB_HC_BIT_def push_bit_of_1)

lemma flip_bit_u8: "b < 8 \<Longrightarrow> ucast (ucast (d :: u8) XOR USB_HC_BIT b) = flip_bit b d"
  by (rule bit_word_eqI) (auto simp: bit_simps USB_HC_BIT_def push_bit_of_1)

lemma unit_set_update:
  assumes "b < 8" "y < length bits"
  shows "unit_set (bits[y := Bit_Operations.set_bit b (bits ! y)]) = insert (8 * y + b) (unit_set bits)" (is ?A)
    and "bit (bits ! y) b \<Longrightarrow> unit_set (bits[y := flip_bit b (bits ! y)]) = unit_set bits - {8 * y + b}" (is "_ \<Longrightarrow> ?B")
proof -
  have split: "u = 8 * y + b \<longleftrightarrow> u div 8 = y \<and> u mod 8 = b" for u
    using assms by auto
  show ?A
    using assms by (auto simp: unit_set_def nth_list_update bit_simps split)
  show ?B if "bit (bits ! y) b"
    using assms that by (auto simp: unit_set_def nth_list_update bit_simps split)
qed

definition free_run :: "u8 list \<Rightarrow> nat \<Rightarrow> nat \<Rightarrow> bool" where
  "free_run bits s n \<longleftrightarrow> s + n \<le> 8 * length bits \<and> (\<forall>u \<in> {s..<s + n}. u \<notin> unit_set bits)"

lemma free_runD: "free_run bits s n \<Longrightarrow> s \<le> u \<Longrightarrow> u < s + n \<Longrightarrow> u \<notin> unit_set bits"
  by (auto simp: free_run_def)

lemma alloc_search_result:
  assumes "alloc_search bits len units y b av sy sb = (av', sy', sb')"
    and "length bits = len" "b < 8" "sb < 8" "8 * sy + sb + av = 8 * y + b" "8 * y + b \<le> 8 * len"
    and "av < units" "\<forall>u \<in> {8 * sy + sb..<8 * y + b}. u \<notin> unit_set bits"
    and "\<forall>t < 8 * sy + sb. \<not> free_run bits t units"
  shows "(if av' < units then \<forall>t. \<not> free_run bits t units
          else free_run bits (8 * sy' + sb') units \<and> (\<forall>t < 8 * sy' + sb'. \<not> free_run bits t units))"
  using assms
proof (induction bits len units y b av sy sb rule: alloc_search.induct)
  case (1 bits len units y b av sy sb)
  note hyps = "1.prems"(2-)
  let ?u = "8 * y + b"
  show ?case
  proof (cases "y < len")
    case False
    then have "\<not> free_run bits t units" for t
      using hyps by (cases "t < 8 * sy + sb") (auto simp: free_run_def)
    then show ?thesis
      using False "1.prems"(1) hyps(6) by (simp add: alloc_search.simps [of bits len units y b av sy sb])
  next
    case True
    then have in_bits: "y < length bits" and lim: "Suc ?u \<le> 8 * len"
      using hyps by auto
    show ?thesis
    proof (cases "USB_HC_BIT_IS_SET (bits ! y) b")
      case False
      then have free: "?u \<notin> unit_set bits"
        using hyps in_bits by (simp add: unit_set_mem USB_HC_BIT_IS_SET_bit)
      have ext: "\<forall>u \<in> {8 * sy + sb..<Suc ?u}. u \<notin> unit_set bits"
        using hyps(7) free by (auto simp: less_Suc_eq)
      show ?thesis
      proof (cases "units \<le> av + 1")
        case True
        then have "8 * sy + sb + units = Suc ?u"
          using hyps by auto
        then have "free_run bits (8 * sy + sb) units"
          using ext lim hyps(1) by (auto simp: free_run_def)
        then show ?thesis
          using True False \<open>y < len\<close> "1.prems"(1) hyps
          by (simp add: alloc_search.simps [of bits len units y b av sy sb])
      next
        case more: False
        show ?thesis
          by (rule "1.IH"(1) [OF \<open>y < len\<close> False more])
             (use "1.prems"(1) hyps ext more False \<open>y < len\<close> lim in
               \<open>auto simp: alloc_search.simps [of bits len units y b av sy sb] NEXT_BIT_index NEXT_BIT_less\<close>)
      qed
    next
      case set: True
      then have taken: "?u \<in> unit_set bits"
        using hyps in_bits by (simp add: unit_set_mem USB_HC_BIT_IS_SET_bit)
      have "\<not> free_run bits t units" if "t \<le> ?u" for t
        using hyps(4-6,8) taken that free_runD [of bits t units ?u] by (cases "t < 8 * sy + sb") auto
      then have none: "\<forall>t < Suc ?u. \<not> free_run bits t units"
        by (simp add: less_Suc_eq_le)
      show ?thesis
        by (rule "1.IH"(2) [OF \<open>y < len\<close>])
           (use "1.prems"(1) hyps none set \<open>y < len\<close> lim in
             \<open>auto simp: alloc_search.simps [of bits len units y b av sy sb] NEXT_BIT_index NEXT_BIT_less\<close>)
    qed
  qed
qed

lemma mark_bits_spec:
  assumes "b < 8" "free_run bits (8 * y + b) n"
  shows "\<exists>bits'. mark_bits n bits y b = Some bits' \<and> length bits' = length bits \<and>
           unit_set bits' = unit_set bits \<union> {8 * y + b..<8 * y + b + n}"
  using assms
proof (induction n bits y b rule: mark_bits.induct)
  case (1 bits y b)
  then show ?case by simp
next
  case (2 n bits y b)
  let ?bits = "bits[y := Bit_Operations.set_bit b (bits ! y)]"
  have y: "y < length bits" and free: "8 * y + b \<notin> unit_set bits"
    using "2.prems" free_runD [of bits "8 * y + b" "Suc n" "8 * y + b"] by (auto simp: free_run_def)
  then have ok: "\<not> (length bits \<le> y \<or> USB_HC_BIT_IS_SET (bits ! y) b)"
    using "2.prems" by (simp add: unit_set_mem USB_HC_BIT_IS_SET_bit)
  have us: "unit_set ?bits = insert (8 * y + b) (unit_set bits)"
    using "2.prems" y by (simp add: unit_set_update)
  have nb: "snd (NEXT_BIT y b) < 8" "8 * fst (NEXT_BIT y b) + snd (NEXT_BIT y b) = Suc (8 * y + b)"
    using "2.prems"(1) by (simp_all add: NEXT_BIT_less NEXT_BIT_index)
  have run: "free_run ?bits (8 * fst (NEXT_BIT y b) + snd (NEXT_BIT y b)) n"
    using "2.prems"(2) us nb(2) by (auto simp: free_run_def)
  obtain bits' where bits': "mark_bits n ?bits (fst (NEXT_BIT y b)) (snd (NEXT_BIT y b)) = Some bits'"
    "length bits' = length bits"
    "unit_set bits' = insert (8 * y + b) (unit_set bits) \<union> {Suc (8 * y + b)..<Suc (8 * y + b) + n}"
    using "2.IH" [OF ok, unfolded set_bit_u8 [OF "2.prems"(1)], OF nb(1) run] unfolding nb(2) us by auto
  have "insert (8 * y + b) {Suc (8 * y + b)..<Suc (8 * y + b) + n} = {8 * y + b..<8 * y + b + Suc n}"
    by auto
  then show ?case
    using ok bits' "2.prems"(1) by (auto simp: set_bit_u8)
qed

lemma clear_bits_spec:
  assumes "b < 8" "8 * y + b + n \<le> 8 * length bits" "{8 * y + b..<8 * y + b + n} \<subseteq> unit_set bits"
  shows "\<exists>bits'. clear_bits n bits y b = Some bits' \<and> length bits' = length bits \<and>
           unit_set bits' = unit_set bits - {8 * y + b..<8 * y + b + n}"
  using assms
proof (induction n bits y b rule: clear_bits.induct)
  case (1 bits y b)
  then show ?case by simp
next
  case (2 n bits y b)
  let ?bits = "bits[y := flip_bit b (bits ! y)]"
  have y: "y < length bits" and set: "bit (bits ! y) b"
    using "2.prems" by (auto simp: subset_iff simp flip: unit_set_mem)
  then have ok: "\<not> (length bits \<le> y \<or> \<not> USB_HC_BIT_IS_SET (bits ! y) b)"
    using "2.prems" by (simp add: USB_HC_BIT_IS_SET_bit)
  have us: "unit_set ?bits = unit_set bits - {8 * y + b}"
    using "2.prems" y set by (simp add: unit_set_update)
  have sub: "{Suc (8 * y + b)..<Suc (8 * y + b + n)} \<subseteq> unit_set bits - {8 * y + b}"
    using "2.prems"(3) by auto
  obtain bits' where "clear_bits n ?bits (fst (NEXT_BIT y b)) (snd (NEXT_BIT y b)) = Some bits'"
    "length bits' = length bits"
    "unit_set bits' = unit_set bits - {8 * y + b} - {Suc (8 * y + b)..<Suc (8 * y + b) + n}"
    using "2.IH" [OF ok] "2.prems" sub by (auto simp: flip_bit_u8 NEXT_BIT_index NEXT_BIT_less us)
  then show ?case
    using ok "2.prems" by (auto simp: flip_bit_u8)
qed

section \<open>Blocks and chains as sets of bytes\<close>

definition block_ok :: "usbhc_mem_block \<Rightarrow> bool" where
  "block_ok b \<longleftrightarrow> length (Bits b) = BitsLen b \<and> BufLen b = 512 * BitsLen b"

definition region :: "nat \<Rightarrow> nat \<Rightarrow> nat set" where
  "region a n = {a..<a + 64 * n}"

definition block_range :: "usbhc_mem_block \<Rightarrow> nat set" where
  "block_range b = {BufHost b..<BufHost b + BufLen b}"

definition block_bytes :: "usbhc_mem_block \<Rightarrow> nat set" where
  "block_bytes b = {x. BufHost b \<le> x \<and> (x - BufHost b) div 64 \<in> unit_set (Bits b)}"

definition in_block :: "usbhc_mem_block \<Rightarrow> nat \<Rightarrow> nat \<Rightarrow> bool" where
  "in_block b a n \<longleftrightarrow> (\<exists>s. a = BufHost b + 64 * s \<and> s + n \<le> 8 * BitsLen b)"

definition chain_bytes :: "usbhc_mem_block list \<Rightarrow> nat set" where
  "chain_bytes bs = (\<Union>b \<in> set bs. block_bytes b)"

fun disjoint_blocks :: "usbhc_mem_block list \<Rightarrow> bool" where
  "disjoint_blocks [] = True"
| "disjoint_blocks (b # bs) =
     ((\<forall>c \<in> set bs. block_range b \<inter> block_range c = {}) \<and> disjoint_blocks bs)"

definition chain_ok :: "usbhc_mem_block list \<Rightarrow> bool" where
  "chain_ok bs \<longleftrightarrow> (\<forall>b \<in> set bs. block_ok b) \<and> disjoint_blocks bs"

text \<open>What allocation and release leave alone: everything but the bits.\<close>

definition shape :: "usbhc_mem_block \<Rightarrow> usbhc_mem_block" where
  "shape b = b\<lparr>Bits := []\<rparr>"

lemma region_index:
  "x \<in> region (h + 64 * s) n \<longleftrightarrow> h \<le> x \<and> (x - h) div 64 \<in> {s..<s + n}"
proof (cases "h \<le> x")
  case True
  then obtain k where "x = h + k"
    using le_Suc_ex by blast
  moreover have "64 * s \<le> k \<longleftrightarrow> s \<le> k div 64" "k < 64 * s + 64 * n \<longleftrightarrow> k div 64 < s + n"
    by (auto simp: less_mult_imp_div_less mult.commute)
  ultimately show ?thesis
    by (auto simp: region_def)
qed (auto simp: region_def)

lemma block_bytes_range: "block_ok b \<Longrightarrow> block_bytes b \<subseteq> block_range b"
  by (auto simp: block_bytes_def block_range_def block_ok_def unit_set_def)

lemma region_range: "block_ok b \<Longrightarrow> in_block b a n \<Longrightarrow> region a n \<subseteq> block_range b"
  by (auto simp: in_block_def block_range_def block_ok_def region_def)

lemma shape_eq:
  assumes "shape b = shape c"
  shows "BufHost b = BufHost c" "BufLen b = BufLen c" "BitsLen b = BitsLen c" "Buf b = Buf c"
    "Mapping b = Mapping c"
    "block_range b = block_range c" "in_block b a n = in_block c a n"
  using assms by (cases b; cases c; simp add: shape_def block_range_def in_block_def)+

lemma shape_Bits [simp]: "shape (b\<lparr>Bits := x\<rparr>) = shape b"
  by (simp add: shape_def)

lemma block_range_shape: "block_range (shape b) = block_range b"
  by (simp add: block_range_def shape_def)

lemma disjoint_blocks_shape: "map shape bs = map shape cs \<Longrightarrow> disjoint_blocks bs = disjoint_blocks cs"
proof (induction bs arbitrary: cs)
  case (Cons b bs)
  then obtain c cs' where cs: "cs = c # cs'" "shape b = shape c" "map shape bs = map shape cs'"
    by (cases cs) auto
  have ranges: "block_range ` set bs = block_range ` set cs'"
  proof -
    have "map block_range (map shape bs) = map block_range (map shape cs')"
      using cs(3) by simp
    then have "map block_range bs = map block_range cs'"
      by (simp add: comp_def block_range_shape)
    then show ?thesis
      by (metis list.set_map)
  qed
  have "(\<forall>x \<in> set bs. block_range b \<inter> block_range x = {}) \<longleftrightarrow>
      (\<forall>r \<in> block_range ` set bs. block_range b \<inter> r = {})"
    by simp
  also have "\<dots> \<longleftrightarrow> (\<forall>x \<in> set cs'. block_range c \<inter> block_range x = {})"
    unfolding ranges using shape_eq(6) [OF cs(2)] by simp
  finally show ?case
    using Cons.IH [OF cs(3)] cs(1) by simp
qed simp

lemma alloc_search_bit:
  "alloc_search bits len units y b av sy sb = (av', sy', sb') \<Longrightarrow> b < 8 \<Longrightarrow> sb < 8 \<Longrightarrow> sb' < 8"
proof (induction bits len units y b av sy sb rule: alloc_search.induct)
  case (1 bits len units y b av sy sb)
  show ?case
    using "1.prems" "1.IH" NEXT_BIT_less [of b y]
    by (auto simp: alloc_search.simps [of bits len units y b av sy sb] split: if_splits)
qed

section \<open>Allocation from a block is first fit, and complete\<close>

lemma UsbHcAllocMemFromBlock_spec:
  assumes "block_ok b" "n \<noteq> 0"
  obtains (none) "UsbHcAllocMemFromBlock b n = Some (b, None)" "\<forall>t. \<not> free_run (Bits b) t n"
  | (found) s bits where
      "UsbHcAllocMemFromBlock b n = Some (b\<lparr>Bits := bits\<rparr>, Some (BufHost b + 64 * s))"
      "free_run (Bits b) s n" "\<forall>t < s. \<not> free_run (Bits b) t n" "length bits = length (Bits b)"
      "unit_set bits = unit_set (Bits b) \<union> {s..<s + n}"
proof -
  obtain av sy sb where srch: "alloc_search (Bits b) (BitsLen b) n 0 0 0 0 0 = (av, sy, sb)"
    by (metis prod.exhaust)
  have res: "if av < n then \<forall>t. \<not> free_run (Bits b) t n
      else free_run (Bits b) (8 * sy + sb) n \<and> (\<forall>t < 8 * sy + sb. \<not> free_run (Bits b) t n)"
    by (rule alloc_search_result [OF srch]) (use assms in \<open>auto simp: block_ok_def\<close>)
  have sb8: "sb < 8"
    using alloc_search_bit [OF srch] by simp
  show thesis
  proof (cases "av < n")
    case True
    then show thesis
      using res srch assms(2) none
      by (simp add: UsbHcAllocMemFromBlock_def assert_that_def)
  next
    case False
    then have run: "free_run (Bits b) (8 * sy + sb) n"
        and first: "\<forall>t < 8 * sy + sb. \<not> free_run (Bits b) t n"
      using res by auto
    obtain bits where "mark_bits n (Bits b) sy sb = Some bits" "length bits = length (Bits b)"
      "unit_set bits = unit_set (Bits b) \<union> {8 * sy + sb..<8 * sy + sb + n}"
      using mark_bits_spec [OF sb8 run] by blast
    moreover from this have "UsbHcAllocMemFromBlock b n =
        Some (b\<lparr>Bits := bits\<rparr>, Some (BufHost b + 64 * (8 * sy + sb)))"
      using False srch assms(2)
      by (simp add: UsbHcAllocMemFromBlock_def assert_that_def USBHC_MEM_UNIT_def mult.commute)
    ultimately show thesis
      using found run first by blast
  qed
qed

section \<open>Allocation and release over the chain\<close>

lemma block_bytes_mark:
  assumes "free_run (Bits b) s n" "unit_set bits = unit_set (Bits b) \<union> {s..<s + n}"
  shows "block_bytes (b\<lparr>Bits := bits\<rparr>) = block_bytes b \<union> region (BufHost b + 64 * s) n"
    and "region (BufHost b + 64 * s) n \<inter> block_bytes b = {}"
  using assms by (auto simp: block_bytes_def region_index free_run_def)

lemma block_bytes_clear:
  assumes "unit_set bits = unit_set (Bits b) - {s..<s + n}"
  shows "block_bytes (b\<lparr>Bits := bits\<rparr>) = block_bytes b - region (BufHost b + 64 * s) n"
  using assms by (auto simp: block_bytes_def region_index)

lemma chain_ok_Cons:
  "chain_ok (b # bs) \<longleftrightarrow> block_ok b \<and> (\<forall>c \<in> set bs. block_range b \<inter> block_range c = {}) \<and> chain_ok bs"
  by (auto simp: chain_ok_def)

lemma chain_bytes_Cons [simp]: "chain_bytes (b # bs) = block_bytes b \<union> chain_bytes bs"
  by (simp add: chain_bytes_def)

lemma chain_bytes_Nil [simp]: "chain_bytes [] = {}"
  by (simp add: chain_bytes_def)

lemma chain_bytes_range: "chain_ok bs \<Longrightarrow> chain_bytes bs \<subseteq> (\<Union>b \<in> set bs. block_range b)"
  using block_bytes_range by (fastforce simp: chain_ok_def chain_bytes_def)

lemma chain_shape:
  assumes "map shape bs = map shape cs"
  shows "(\<Union>b \<in> set bs. block_range b) = (\<Union>b \<in> set cs. block_range b)"
    and "(\<exists>b \<in> set bs. in_block b a n) = (\<exists>b \<in> set cs. in_block b a n)"
proof -
  have "set (map shape bs) = set (map shape cs)"
    using assms by simp
  then have "block_range ` shape ` set bs = block_range ` shape ` set cs"
    and ib: "(\<exists>b \<in> shape ` set bs. in_block b a n) = (\<exists>b \<in> shape ` set cs. in_block b a n)"
    by simp_all
  then show "(\<Union>b \<in> set bs. block_range b) = (\<Union>b \<in> set cs. block_range b)"
    by (simp add: image_image block_range_shape)
  show "(\<exists>b \<in> set bs. in_block b a n) = (\<exists>b \<in> set cs. in_block b a n)"
    using ib by (simp add: in_block_def shape_def)
qed

lemma alloc_in_blocks_spec:
  assumes "chain_ok bs" "n \<noteq> 0"
  shows "\<exists>bs' r. alloc_in_blocks bs n = Some (bs', r) \<and> map shape bs' = map shape bs \<and> chain_ok bs' \<and>
    (case r of
       None \<Rightarrow> bs' = bs \<and> (\<forall>b \<in> set bs. \<forall>t. \<not> free_run (Bits b) t n)
     | Some a \<Rightarrow> region a n \<inter> chain_bytes bs = {} \<and> chain_bytes bs' = chain_bytes bs \<union> region a n \<and>
                 (\<exists>b \<in> set bs. in_block b a n))"
  using assms(1)
proof (induction bs)
  case Nil
  then show ?case by simp
next
  case (Cons b bs)
  then have b: "block_ok b" and apart: "\<forall>c \<in> set bs. block_range b \<inter> block_range c = {}"
    and bs: "chain_ok bs"
    by (auto simp: chain_ok_Cons)
  show ?case
  proof (cases rule: UsbHcAllocMemFromBlock_spec [OF b assms(2), case_names none found])
    case none
    obtain bs' r where IH: "alloc_in_blocks bs n = Some (bs', r)" "map shape bs' = map shape bs"
      "chain_ok bs'"
      "case r of None \<Rightarrow> bs' = bs \<and> (\<forall>b \<in> set bs. \<forall>t. \<not> free_run (Bits b) t n)
        | Some a \<Rightarrow> region a n \<inter> chain_bytes bs = {} \<and> chain_bytes bs' = chain_bytes bs \<union> region a n \<and>
            (\<exists>b \<in> set bs. in_block b a n)"
      using Cons.IH [OF bs] by blast
    have apart': "\<forall>c \<in> set bs'. block_range b \<inter> block_range c = {}"
      using apart chain_shape(1) [OF IH(2)] by blast
    have far: "\<not> (x \<in> region a n \<and> x \<in> block_bytes b)" if "c \<in> set bs" "in_block c a n" for a c x
      using region_range [of c a n] block_bytes_range [OF b] that apart bs
      by (fastforce simp: chain_ok_def)
    show ?thesis
    proof (cases r)
      case None
      then show ?thesis
        using none IH apart' b by (auto simp: chain_ok_Cons)
    next
      case (Some a)
      then have "region a n \<inter> block_bytes b = {}"
        using IH(4) far by fastforce
      then show ?thesis
        using Some none IH apart' b by (auto simp: chain_ok_Cons)
    qed
  next
    case (found s bits)
    let ?b = "b\<lparr>Bits := bits\<rparr>" and ?a = "BufHost b + 64 * s"
    have ib: "in_block b ?a n"
      using found(2) b by (auto simp: in_block_def free_run_def block_ok_def)
    have "region ?a n \<subseteq> block_range b"
      by (rule region_range [OF b ib])
    then have "region ?a n \<inter> chain_bytes bs = {}"
      using apart chain_bytes_range [OF bs] by blast
    moreover have "chain_ok (?b # bs)"
      using b apart bs found(4) by (auto simp: chain_ok_Cons block_ok_def block_range_def)
    ultimately show ?thesis
      using found(1) ib block_bytes_mark [OF found(2,5)] by auto
  qed
qed

text \<open>Release: the block that contains the region is unique, and its bits are the region's.\<close>

lemma contains_range_in_block:
  assumes "block_ok b" "in_block b a n" "block_ok c" "contains_range c a (64 * n)" "n \<noteq> 0"
  shows "block_range b \<inter> block_range c \<noteq> {}"
proof -
  have "a \<in> block_range b"
    using assms by (auto simp: in_block_def block_range_def block_ok_def)
  moreover have "a \<in> block_range c"
    using assms by (auto simp: contains_range_def block_range_def)
  ultimately show ?thesis by blast
qed

lemma free_in_blocks_spec:
  assumes "chain_ok bs" "n \<noteq> 0" "region a n \<subseteq> chain_bytes bs" "\<exists>b \<in> set bs. in_block b a n"
  shows "\<exists>bs' i. free_in_blocks bs a (64 * n) = Some (bs', Some i) \<and> i < length bs' \<and>
    map shape bs' = map shape bs \<and> chain_ok bs' \<and> chain_bytes bs' = chain_bytes bs - region a n"
  using assms(1,3,4)
proof (induction bs)
  case Nil
  then show ?case by simp
next
  case (Cons b bs)
  then have b: "block_ok b" and apart: "\<forall>c \<in> set bs. block_range b \<inter> block_range c = {}"
    and bs: "chain_ok bs"
    by (auto simp: chain_ok_Cons)
  show ?case
  proof (cases "in_block b a n")
    case True
    then obtain s where s: "a = BufHost b + 64 * s" "s + n \<le> 8 * BitsLen b"
      by (auto simp: in_block_def)
    have "region a n \<inter> chain_bytes bs = {}"
      using region_range [OF b True] chain_bytes_range [OF bs] apart by blast
    then have "region a n \<subseteq> block_bytes b"
      using Cons.prems(2) by auto
    have units: "{s..<s + n} \<subseteq> unit_set (Bits b)"
    proof
      fix u assume "u \<in> {s..<s + n}"
      then have "BufHost b + 64 * u \<in> region a n"
        by (simp add: s(1) region_index)
      then show "u \<in> unit_set (Bits b)"
        using \<open>region a n \<subseteq> block_bytes b\<close> by (auto simp: block_bytes_def)
    qed
    have here: "contains_range b a (64 * n)"
      using s b by (auto simp: contains_range_def block_ok_def)
    have idx: "8 * (s div 8) + s mod 8 = s"
      by simp
    obtain bits where bits: "clear_bits n (Bits b) (s div 8) (s mod 8) = Some bits"
      "length bits = length (Bits b)" "unit_set bits = unit_set (Bits b) - {s..<s + n}"
      using clear_bits_spec [of "s mod 8" "s div 8" n "Bits b"] units s b unfolding idx
      by (auto simp: block_ok_def)
    have "free_in_blocks (b # bs) a (64 * n) = Some (b\<lparr>Bits := bits\<rparr> # bs, Some 0)"
      using here bits(1) s(1) by (simp add: USBHC_MEM_UNIT_def)
    moreover have "chain_ok (b\<lparr>Bits := bits\<rparr> # bs)"
      using b apart bs bits(2) by (auto simp: chain_ok_Cons block_ok_def block_range_def)
    moreover have "chain_bytes (b\<lparr>Bits := bits\<rparr> # bs) = chain_bytes (b # bs) - region a n"
      using block_bytes_clear [OF bits(3)] \<open>region a n \<inter> chain_bytes bs = {}\<close> s(1) by auto
    ultimately show ?thesis by auto
  next
    case False
    then obtain c where c: "c \<in> set bs" "in_block c a n"
      using Cons.prems(3) by auto
    then have "block_ok c"
      using bs by (auto simp: chain_ok_def)
    then have skip: "\<not> contains_range b a (64 * n)"
      using contains_range_in_block [of c a n b] c b assms(2) apart by blast
    have far: "region a n \<inter> block_bytes b = {}"
      using region_range [of c a n] block_bytes_range [OF b] c apart \<open>block_ok c\<close> by blast
    have "region a n \<subseteq> chain_bytes bs"
      using Cons.prems(2) far by auto
    then obtain bs' i where IH: "free_in_blocks bs a (64 * n) = Some (bs', Some i)" "i < length bs'"
      "map shape bs' = map shape bs" "chain_ok bs'" "chain_bytes bs' = chain_bytes bs - region a n"
      using Cons.IH [OF bs] c by blast
    have apart': "\<forall>c \<in> set bs'. block_range b \<inter> block_range c = {}"
      using apart chain_shape(1) [OF IH(3)] by blast
    then show ?thesis
      using IH skip far b by (auto simp: chain_ok_Cons)
  qed
qed

section \<open>The pool as a state machine\<close>

definition units_of :: "u64 \<Rightarrow> nat" where
  "units_of sz = unat (USBHC_MEM_ROUND sz) div 64"

lemma USBHC_MEM_ROUND_div: "unat (USBHC_MEM_ROUND sz) = 64 * (unat (sz + 63) div 64)"
proof -
  have mask: "(63 :: u64) = mask 6"
    by (simp add: mask_eq_exp_minus_1)
  have "(x :: u64) AND NOT 63 = push_bit 6 (drop_bit 6 x)" for x
    unfolding mask by (rule bit_word_eqI) (auto simp: bit_simps)
  moreover have "unat (push_bit 6 (drop_bit 6 x) :: u64) = 64 * (unat x div 64)" for x :: u64
  proof -
    have "64 * (unat x div 64) < 2 ^ 64"
      using unsigned_less [of x, where ?'a = nat] div_times_less_eq_dividend [of "unat x" 64]
      by (simp add: mult.commute)
    moreover have "unat (push_bit 6 y) = (64 * unat y) mod 2 ^ 64" for y :: u64
      by (simp add: push_bit_eq_mult unat_word_ariths mult.commute)
    moreover have "unat (drop_bit 6 x) = unat x div 64"
      using unat_drop_bit_eq [of 6 x] drop_bit_eq_div [of 6 "unat x"] by simp
    ultimately show ?thesis
      by simp
  qed
  ultimately show ?thesis
    by (simp add: USBHC_MEM_ROUND_def)
qed

lemma USBHC_MEM_ROUND_units: "unat (USBHC_MEM_ROUND sz) = 64 * units_of sz"
  by (simp add: USBHC_MEM_ROUND_div units_of_def)

lemma units_of_cover: "units_of sz \<noteq> 0 \<Longrightarrow> unat sz \<le> 64 * units_of sz"
proof -
  assume pos: "units_of sz \<noteq> 0"
  have 63: "unat (63 :: u64) = 63"
    by simp
  have "unat (sz + 63) = (unat sz + 63) mod 2 ^ 64"
    by (simp add: unat_word_ariths)
  moreover have "unat sz < 2 ^ 64"
    using unsigned_less [of sz, where ?'a = nat] by simp
  ultimately have "unat (sz + 63) = unat sz + 63 \<or> unat (sz + 63) < 63"
    by (auto simp: mod_if)
  moreover have "units_of sz = unat (sz + 63) div 64"
    by (simp add: units_of_def USBHC_MEM_ROUND_div)
  ultimately show ?thesis
    using pos by auto
qed

text \<open>An outstanding allocation is its address and the size that was asked for.\<close>

definition live_region :: "nat \<times> u64 \<Rightarrow> nat set" where
  "live_region x = region (fst x) (units_of (snd x))"

definition in_chain :: "usbhc_mem_block list \<Rightarrow> nat \<times> u64 \<Rightarrow> bool" where
  "in_chain bs x \<longleftrightarrow> (\<exists>b \<in> set bs. in_block b (fst x) (units_of (snd x)))"

definition live_ok :: "usbhc_mem_block list \<Rightarrow> (nat \<times> u64) set \<Rightarrow> bool" where
  "live_ok bs live \<longleftrightarrow>
     (\<forall>x \<in> live. units_of (snd x) \<noteq> 0 \<and> in_chain bs x) \<and>
     chain_bytes bs = (\<Union>x \<in> live. live_region x) \<and>
     (\<forall>x \<in> live. \<forall>y \<in> live. x \<noteq> y \<longrightarrow> live_region x \<inter> live_region y = {})"

definition pool_inv :: "usbhc_mem_pool \<Rightarrow> (nat \<times> u64) set \<Rightarrow> bool" where
  "pool_inv pool live \<longleftrightarrow> Blocks pool \<noteq> [] \<and> chain_ok (Blocks pool) \<and> live_ok (Blocks pool) live"

text \<open>
  What the code relies on: pages are whole numbers of 512 bytes, and the DMA library hands
  out memory that no block of the pool holds already.
\<close>

definition env_ok :: "dma_env \<Rightarrow> usbhc_mem_block list \<Rightarrow> nat \<Rightarrow> bool" where
  "env_ok env bs pages \<longleftrightarrow>
     0 < EFI_PAGE_SIZE env \<and> 512 dvd EFI_PAGE_SIZE env \<and>
     (\<forall>host. DmaAllocateBuffer env = Some host \<longrightarrow>
        (\<forall>b \<in> set bs. {host..<host + pages * EFI_PAGE_SIZE env} \<inter> block_range b = {}))"

lemma region_nonempty: "n \<noteq> 0 \<Longrightarrow> a \<in> region a n"
  by (simp add: region_def)

lemma live_okD:
  assumes "live_ok bs live" "x \<in> live"
  shows "units_of (snd x) \<noteq> 0" "in_chain bs x" "live_region x \<subseteq> chain_bytes bs"
  using assms by (auto simp: live_ok_def)

lemma live_ok_insert:
  assumes "live_ok bs live" "units_of (snd x) \<noteq> 0" "in_chain bs' x"
    and keep: "\<And>y. in_chain bs y \<Longrightarrow> in_chain bs' y"
    and "live_region x \<inter> chain_bytes bs = {}"
    and "chain_bytes bs' = chain_bytes bs \<union> live_region x"
  shows "live_ok bs' (insert x live)"
  unfolding live_ok_def
proof (intro conjI ballI impI)
  fix y assume y: "y \<in> insert x live"
  then show "units_of (snd y) \<noteq> 0" "in_chain bs' y"
    using assms(2,3) live_okD(1,2) [OF assms(1)] keep by blast+
  fix z assume z: "z \<in> insert x live" and "y \<noteq> z"
  have "live_region v \<inter> live_region x = {}" if "v \<in> live" for v
    using assms(5) live_okD(3) [OF assms(1) that] by blast
  then show "live_region y \<inter> live_region z = {}"
    using y z \<open>y \<noteq> z\<close> assms(1) unfolding live_ok_def by blast
qed (use assms(1,6) in \<open>auto simp: live_ok_def\<close>)

lemma live_ok_remove:
  assumes "live_ok bs live" "x \<in> live"
    and keep: "\<And>y. y \<in> live - {x} \<Longrightarrow> in_chain bs' y"
    and "chain_bytes bs' = chain_bytes bs - live_region x"
  shows "live_ok bs' (live - {x})"
proof -
  have far: "live_region y \<inter> live_region x = {}" if "y \<in> live - {x}" for y
    using assms(1,2) that unfolding live_ok_def by blast
  have "chain_bytes bs = (\<Union>y \<in> live. live_region y)"
    using assms(1) by (simp add: live_ok_def)
  then have "chain_bytes bs' = (\<Union>y \<in> live - {x}. live_region y)"
    using far assms(4) by auto
  moreover have "\<forall>y \<in> live - {x}. units_of (snd y) \<noteq> 0 \<and> in_chain bs' y"
    using keep live_okD(1) [OF assms(1)] by blast
  moreover have "\<forall>y \<in> live - {x}. \<forall>z \<in> live - {x}. y \<noteq> z \<longrightarrow> live_region y \<inter> live_region z = {}"
    using assms(1) unfolding live_ok_def by (meson DiffD1)
  ultimately show ?thesis
    unfolding live_ok_def by blast
qed

subsection \<open>Allocation\<close>

lemma UsbHcAllocMemBlock_fresh:
  assumes "UsbHcAllocMemBlock env pool pages = (Some b, ev)" "env_ok env bs pages"
  shows "block_ok b" "unit_set (Bits b) = {}" "BufLen b = pages * EFI_PAGE_SIZE env"
    "\<forall>c \<in> set bs. block_range b \<inter> block_range c = {}" "DmaAllocateBuffer env = Some (BufHost b)"
proof -
  let ?len = "pages * EFI_PAGE_SIZE env"
  obtain host mapped mapping where h: "DmaAllocateBuffer env = Some host"
    and b: "b = \<lparr>Bits = replicate (?len div 512) 0, BitsLen = ?len div 512, Buf = mapped,
                 BufHost = host, BufLen = ?len, Mapping = mapping\<rparr>"
    using assms(1)
    by (auto simp: UsbHcAllocMemBlock_def USBHC_MEM_UNIT_def Let_def split: if_splits option.splits prod.splits)
  have "512 dvd ?len"
    using assms(2) by (auto simp: env_ok_def)
  then show "block_ok b"
    by (auto simp: b block_ok_def)
  show "unit_set (Bits b) = {}"
    by (auto simp: b unit_set_def)
  show "BufLen b = ?len"
    by (simp add: b)
  show "\<forall>c \<in> set bs. block_range b \<inter> block_range c = {}"
    using assms(2) h by (auto simp only: env_ok_def b block_range_def usbhc_mem_block.simps)
  show "DmaAllocateBuffer env = Some (BufHost b)"
    using h by (simp add: b)
qed

lemma pages_for_enough: "0 < EFI_PAGE_SIZE env \<Longrightarrow> n \<le> pages_for env n * EFI_PAGE_SIZE env"
proof -
  assume pos: "0 < EFI_PAGE_SIZE env"
  have "n \<le> (n + EFI_PAGE_SIZE env - 1) div EFI_PAGE_SIZE env * EFI_PAGE_SIZE env"
    using pos div_mult_mod_eq [of "n + EFI_PAGE_SIZE env - 1" "EFI_PAGE_SIZE env"]
      mod_less_divisor [OF pos, of "n + EFI_PAGE_SIZE env - 1"] by linarith
  then show ?thesis
    by (simp add: pages_for_def)
qed

lemma UsbHcAllocateMem_inv:
  assumes inv: "pool_inv pool live" and env: "env_ok env (Blocks pool) (pages_for env (64 * units_of sz))"
    and run: "UsbHcAllocateMem env pool m sz = Some (pool', m', r, ev)"
  shows "pool_inv pool' (case r of None \<Rightarrow> live | Some a \<Rightarrow> insert (a, sz) live)"
    and "units_of sz \<noteq> 0"
    and "m' = (case r of None \<Rightarrow> m | Some a \<Rightarrow> fill m a (unat sz) 0)"
    and "r = None \<Longrightarrow> fst (UsbHcAllocMemBlock env pool (pages_for env (64 * units_of sz))) = None"
    and "r = Some a \<Longrightarrow> live_region (a, sz) \<inter> chain_bytes (Blocks pool) = {}"
    and "c \<in> set (Blocks pool') \<Longrightarrow> shape c \<in> shape ` set (Blocks pool) \<or>
      (DmaAllocateBuffer env = Some (BufHost c) \<and> BufLen c = pages_for env (64 * units_of sz) * EFI_PAGE_SIZE env)"
proof -
  let ?n = "units_of sz" and ?bs = "Blocks pool"
  have ok: "?bs \<noteq> []" "chain_ok ?bs" "live_ok ?bs live"
    using inv by (auto simp: pool_inv_def)
  have units: "unat (USBHC_MEM_ROUND sz) = 64 * ?n" "64 * ?n div USBHC_MEM_UNIT = ?n"
    by (simp_all add: USBHC_MEM_UNIT_def USBHC_MEM_ROUND_units)
  show n: "?n \<noteq> 0"
  proof
    assume "?n = 0"
    then have "alloc_in_blocks ?bs ?n = None"
      using ok(1) by (cases ?bs) (auto simp: UsbHcAllocMemFromBlock_def assert_that_def)
    then show False
      using run ok(1) \<open>?n = 0\<close> by (simp add: UsbHcAllocateMem_def Let_def USBHC_MEM_UNIT_def USBHC_MEM_ROUND_units assert_that_def)
  qed
  obtain bs' r0 where search: "alloc_in_blocks ?bs ?n = Some (bs', r0)"
    and shp: "map shape bs' = map shape ?bs" and ok': "chain_ok bs'"
    and r0: "case r0 of None \<Rightarrow> bs' = ?bs \<and> (\<forall>b \<in> set ?bs. \<forall>t. \<not> free_run (Bits b) t ?n)
      | Some a \<Rightarrow> region a ?n \<inter> chain_bytes ?bs = {} \<and> chain_bytes bs' = chain_bytes ?bs \<union> region a ?n \<and>
          (\<exists>b \<in> set ?bs. in_block b a ?n)"
    using alloc_in_blocks_spec [OF ok(2) n] by blast
  have start: "(case r0 of
       Some a \<Rightarrow> Some (pool\<lparr>Blocks := bs'\<rparr>, fill m a (unat sz) 0, Some a, [])
     | None \<Rightarrow>
         (case UsbHcAllocMemBlock env pool (pages_for env (64 * ?n)) of
            (None, ev) \<Rightarrow> Some (pool, m, None, ev)
          | (Some new, ev) \<Rightarrow> do {
              bs \<leftarrow> UsbHcInsertMemBlockToPool ?bs new;
              (new', r) \<leftarrow> UsbHcAllocMemFromBlock new ?n;
              (case r of
                 None \<Rightarrow> Some (pool\<lparr>Blocks := bs[1 := new']\<rparr>, m, None, ev)
               | Some a \<Rightarrow> Some (pool\<lparr>Blocks := bs[1 := new']\<rparr>, fill m a (unat sz) 0, Some a, ev))
            })) = Some (pool', m', r, ev)"
    using run unfolding UsbHcAllocateMem_def Let_def units search by (simp add: assert_that_def ok(1))
  have "pool_inv pool' (case r of None \<Rightarrow> live | Some a \<Rightarrow> insert (a, sz) live) \<and>
    m' = (case r of None \<Rightarrow> m | Some a \<Rightarrow> fill m a (unat sz) 0) \<and>
    (r = None \<longrightarrow> fst (UsbHcAllocMemBlock env pool (pages_for env (64 * ?n))) = None) \<and>
    (\<forall>a. r = Some a \<longrightarrow> live_region (a, sz) \<inter> chain_bytes ?bs = {}) \<and>
    (\<forall>c \<in> set (Blocks pool'). shape c \<in> shape ` set ?bs \<or>
      (DmaAllocateBuffer env = Some (BufHost c) \<and> BufLen c = pages_for env (64 * ?n) * EFI_PAGE_SIZE env))"
  proof (cases r0)
    case (Some a)
    then have out: "pool' = pool\<lparr>Blocks := bs'\<rparr>" "r = Some a" "m' = fill m a (unat sz) 0"
      using start by auto
    have "bs' \<noteq> []"
      using shp ok(1) by auto
    moreover have "live_ok bs' (insert (a, sz) live)"
    proof (rule live_ok_insert [OF ok(3)])
      show "units_of (snd (a, sz)) \<noteq> 0"
        using n by simp
      show "in_chain bs' (a, sz)" "\<And>y. in_chain ?bs y \<Longrightarrow> in_chain bs' y"
        using r0 Some by (simp_all add: in_chain_def chain_shape(2) [OF shp])
      show "live_region (a, sz) \<inter> chain_bytes ?bs = {}"
        "chain_bytes bs' = chain_bytes ?bs \<union> live_region (a, sz)"
        using r0 Some by (simp_all add: live_region_def)
    qed
    moreover have "shape ` set bs' = shape ` set ?bs"
      using arg_cong [OF shp, of set] by simp
    ultimately show ?thesis
      using out ok' r0 Some by (auto simp: pool_inv_def live_region_def)
  next
    case None
    show ?thesis
    proof (cases "UsbHcAllocMemBlock env pool (pages_for env (64 * ?n))")
      case (Pair new ev')
      show ?thesis
      proof (cases new)
        case None
        then show ?thesis
          using start Pair \<open>r0 = None\<close> inv by auto
      next
        case (Some b)
        note fresh = UsbHcAllocMemBlock_fresh [OF Pair [unfolded Some] env]
        obtain h rest where bs: "?bs = h # rest"
          using ok(1) by (cases ?bs) auto
        have "64 * ?n \<le> BufLen b"
          unfolding fresh(3) using env by (intro pages_for_enough) (simp add: env_ok_def)
        then have "?n \<le> 8 * BitsLen b"
          using fresh(1) by (simp add: block_ok_def)
        then have "free_run (Bits b) 0 ?n"
          using fresh(1,2) by (auto simp: free_run_def block_ok_def)
        then obtain s bits where al: "UsbHcAllocMemFromBlock b ?n =
              Some (b\<lparr>Bits := bits\<rparr>, Some (BufHost b + 64 * s))"
            "free_run (Bits b) s ?n" "length bits = length (Bits b)"
            "unit_set bits = unit_set (Bits b) \<union> {s..<s + ?n}"
          by (cases rule: UsbHcAllocMemFromBlock_spec [OF fresh(1) n]) auto
        let ?b = "b\<lparr>Bits := bits\<rparr>" and ?a = "BufHost b + 64 * s"
        have out: "pool' = pool\<lparr>Blocks := h # ?b # rest\<rparr>" "r = Some ?a" "m' = fill m ?a (unat sz) 0"
          using start Pair Some \<open>r0 = None\<close> al(1) bs
          by (auto simp: UsbHcInsertMemBlockToPool_def)
        have ib: "in_block b ?a ?n"
          using al(2) fresh(1) by (auto simp: in_block_def free_run_def block_ok_def)
        have reg: "region ?a ?n \<inter> chain_bytes ?bs = {}"
          using region_range [OF fresh(1) ib] chain_bytes_range [OF ok(2)] fresh(4) by blast
        have "block_bytes b = {}"
          using fresh(2) by (simp add: block_bytes_def)
        then have bytes: "chain_bytes (h # ?b # rest) = chain_bytes ?bs \<union> region ?a ?n"
          using block_bytes_mark(1) [OF al(2,4)] bs by auto
        have "chain_ok (h # ?b # rest)"
          using ok(2) fresh(1,4) al(3) bs
          by (auto simp: chain_ok_Cons block_ok_def block_range_def)
        moreover have "live_ok (h # ?b # rest) (insert (?a, sz) live)"
        proof (rule live_ok_insert [OF ok(3)])
          show "units_of (snd (?a, sz)) \<noteq> 0"
            using n by simp
          show "in_chain (h # ?b # rest) (?a, sz)"
            using ib by (simp add: in_chain_def in_block_def)
          show "in_chain (h # ?b # rest) y" if "in_chain ?bs y" for y
            using that bs by (auto simp: in_chain_def)
          show "live_region (?a, sz) \<inter> chain_bytes ?bs = {}"
            "chain_bytes (h # ?b # rest) = chain_bytes ?bs \<union> live_region (?a, sz)"
            using reg bytes by (simp_all add: live_region_def)
        qed
        moreover have "\<forall>c \<in> set (h # ?b # rest). shape c \<in> shape ` set ?bs \<or>
            (DmaAllocateBuffer env = Some (BufHost c) \<and> BufLen c = pages_for env (64 * ?n) * EFI_PAGE_SIZE env)"
          using bs fresh(3,5) by simp
        ultimately show ?thesis
          using out reg by (simp add: pool_inv_def live_region_def)
      qed
    qed
  qed
  then show "pool_inv pool' (case r of None \<Rightarrow> live | Some a \<Rightarrow> insert (a, sz) live)"
    and "m' = (case r of None \<Rightarrow> m | Some a \<Rightarrow> fill m a (unat sz) 0)"
    and "r = None \<Longrightarrow> fst (UsbHcAllocMemBlock env pool (pages_for env (64 * units_of sz))) = None"
    and "r = Some a \<Longrightarrow> live_region (a, sz) \<inter> chain_bytes (Blocks pool) = {}"
    and "c \<in> set (Blocks pool') \<Longrightarrow> shape c \<in> shape ` set (Blocks pool) \<or>
      (DmaAllocateBuffer env = Some (BufHost c) \<and> BufLen c = pages_for env (64 * units_of sz) * EFI_PAGE_SIZE env)"
    by auto
qed

subsection \<open>Release\<close>

lemma disjoint_blocks_append:
  "disjoint_blocks (bs @ cs) \<longleftrightarrow> disjoint_blocks bs \<and> disjoint_blocks cs \<and>
     (\<forall>b \<in> set bs. \<forall>c \<in> set cs. block_range b \<inter> block_range c = {})"
  by (induction bs) auto

lemma UsbHcIsMemBlockEmpty_bytes:
  assumes "block_ok b"
  shows "UsbHcIsMemBlockEmpty b \<longleftrightarrow> block_bytes b = {}"
proof
  assume "UsbHcIsMemBlockEmpty b"
  then have "Bits b ! i = 0" if "i < length (Bits b)" for i
    using assms that by (auto simp: UsbHcIsMemBlockEmpty_def block_ok_def)
  then show "block_bytes b = {}"
    by (auto simp: block_bytes_def unit_set_def)
next
  assume empty: "block_bytes b = {}"
  have "u \<notin> unit_set (Bits b)" for u
  proof
    assume "u \<in> unit_set (Bits b)"
    then have "BufHost b + 64 * u \<in> block_bytes b"
      by (simp add: block_bytes_def)
    then show False
      using empty by simp
  qed
  then have none: "\<not> bit (Bits b ! (u div 8)) (u mod 8)" if "u < 8 * length (Bits b)" for u
    using that by (auto simp: unit_set_def)
  have "Bits b ! i = 0" if "i < BitsLen b" for i
  proof (rule bit_word_eqI)
    fix k assume k: "k < LENGTH(8)"
    have "(8 * i + k) div 8 = i" "(8 * i + k) mod 8 = k"
      using k by auto
    then show "bit (Bits b ! i) k = bit (0 :: u8) k"
      using none [of "8 * i + k"] that k assms by (auto simp: block_ok_def)
  qed
  then show "UsbHcIsMemBlockEmpty b"
    by (simp add: UsbHcIsMemBlockEmpty_def)
qed

lemma unlink_split:
  assumes "i < length bs" "i \<noteq> 0"
  obtains l r where "bs = l @ bs ! i # r" "UsbHcUnlinkMemBlock bs i = l @ r" "l \<noteq> []"
proof
  show "bs = take i bs @ bs ! i # drop (Suc i) bs"
    using assms(1) by (rule id_take_nth_drop)
  show "UsbHcUnlinkMemBlock bs i = take i bs @ drop (Suc i) bs"
    using assms(2) by (simp add: UsbHcUnlinkMemBlock_def)
  show "take i bs \<noteq> []"
    using assms by auto
qed

lemma in_chain_unlink:
  assumes "chain_ok (l @ b # r)" "block_bytes b = {}" "in_chain (l @ b # r) x"
    "units_of (snd x) \<noteq> 0" "live_region x \<subseteq> chain_bytes (l @ b # r)"
  shows "in_chain (l @ r) x"
proof (rule ccontr)
  assume "\<not> in_chain (l @ r) x"
  then have ib: "in_block b (fst x) (units_of (snd x))"
    using assms(3) by (auto simp: in_chain_def)
  have bok: "block_ok b" and lrok: "chain_ok (l @ r)"
    and apart: "\<forall>c \<in> set (l @ r). block_range b \<inter> block_range c = {}"
    using assms(1) by (auto simp: chain_ok_def disjoint_blocks_append)
  have "fst x \<in> live_region x"
    using region_nonempty [OF assms(4)] by (simp add: live_region_def)
  moreover have "live_region x \<subseteq> block_range b"
    using region_range [OF bok ib] by (simp add: live_region_def)
  moreover have "fst x \<in> chain_bytes (l @ r)"
    using assms(2,5) calculation(1) by (auto simp: chain_bytes_def)
  ultimately show False
    using chain_bytes_range [OF lrok] apart by blast
qed

lemma UsbHcFreeMem_inv:
  assumes inv: "pool_inv pool live" and live: "(a, sz) \<in> live"
  shows "\<exists>pool' ev. UsbHcFreeMem env pool a sz = Some (pool', ev) \<and> pool_inv pool' (live - {(a, sz)}) \<and>
    shape ` set (Blocks pool') \<subseteq> shape ` set (Blocks pool)"
proof -
  let ?bs = "Blocks pool" and ?n = "units_of sz"
  have ok: "?bs \<noteq> []" "chain_ok ?bs" "live_ok ?bs live"
    using inv by (auto simp: pool_inv_def)
  have lv: "?n \<noteq> 0" "in_chain ?bs (a, sz)" "region a ?n \<subseteq> chain_bytes ?bs"
    using live_okD [OF ok(3) live] by (auto simp: live_region_def)
  have inb: "\<exists>b \<in> set ?bs. in_block b a ?n"
    using lv(2) by (simp add: in_chain_def)
  obtain bs' i where fr: "free_in_blocks ?bs a (64 * ?n) = Some (bs', Some i)" "i < length bs'"
    "map shape bs' = map shape ?bs" "chain_ok bs'" "chain_bytes bs' = chain_bytes ?bs - region a ?n"
    using free_in_blocks_spec [OF ok(2) lv(1,3) inb] by blast
  have shp: "shape ` set bs' = shape ` set ?bs"
    using arg_cong [OF fr(3), of set] by simp
  have live': "live_ok bs' (live - {(a, sz)})"
  proof (rule live_ok_remove [OF ok(3) live])
    fix y assume "y \<in> live - {(a, sz)}"
    then have "in_chain ?bs y"
      using live_okD(2) [OF ok(3)] by blast
    then show "in_chain bs' y"
      by (simp add: in_chain_def chain_shape(2) [OF fr(3)])
  qed (use fr(5) in \<open>simp add: live_region_def\<close>)
  show ?thesis
  proof (cases "i \<noteq> 0 \<and> UsbHcIsMemBlockEmpty (bs' ! i)")
    case False
    have "bs' \<noteq> []"
      using fr(2) by auto
    then show ?thesis
      using fr(1,4) False live' shp
      by (auto simp: UsbHcFreeMem_def USBHC_MEM_ROUND_units pool_inv_def)
  next
    case True
    obtain l r where lr: "bs' = l @ bs' ! i # r" "UsbHcUnlinkMemBlock bs' i = l @ r" "l \<noteq> []"
      using unlink_split [OF fr(2)] True by blast
    let ?b = "bs' ! i"
    have whole: "chain_ok (l @ ?b # r)"
      by (simp only: lr(1) [symmetric] fr(4))
    then have bok: "block_ok ?b" and lrok: "chain_ok (l @ r)"
      by (auto simp: chain_ok_def disjoint_blocks_append)
    have empty: "block_bytes ?b = {}"
      using True UsbHcIsMemBlockEmpty_bytes [OF bok] by blast
    have "chain_bytes (l @ r) = chain_bytes bs'"
      using arg_cong [OF lr(1), of chain_bytes] empty by (simp add: chain_bytes_def)
    moreover have "in_chain (l @ r) y" if "y \<in> live - {(a, sz)}" for y
    proof -
      note y = live_okD [OF live' that]
      show ?thesis
        using in_chain_unlink [of l ?b r y] fr(4) empty y unfolding lr(1) [symmetric] by blast
    qed
    ultimately have "live_ok (l @ r) (live - {(a, sz)})"
      using live' unfolding live_ok_def by simp
    moreover have "shape ` set (l @ r) \<subseteq> shape ` set ?bs"
      using lr(1) unfolding shp [symmetric] by (metis Un_upper1 Un_mono image_mono set_append set_subset_Cons subset_refl)
    ultimately show ?thesis
      using fr(1) True lr(2,3) lrok
      by (auto simp: UsbHcFreeMem_def USBHC_MEM_ROUND_units pool_inv_def)
  qed
qed

subsection \<open>Reachable pools\<close>

inductive usb_step :: "usbhc_mem_pool \<times> (nat \<times> u64) set \<Rightarrow> usbhc_mem_pool \<times> (nat \<times> u64) set \<Rightarrow> bool" where
  alloc: "env_ok env (Blocks pool) (pages_for env (64 * units_of sz)) \<Longrightarrow>
    UsbHcAllocateMem env pool m sz = Some (pool', m', Some a, ev) \<Longrightarrow>
    usb_step (pool, live) (pool', insert (a, sz) live)"
| alloc_fail: "env_ok env (Blocks pool) (pages_for env (64 * units_of sz)) \<Longrightarrow>
    UsbHcAllocateMem env pool m sz = Some (pool', m', None, ev) \<Longrightarrow>
    usb_step (pool, live) (pool', live)"
| free: "(a, sz) \<in> live \<Longrightarrow> UsbHcFreeMem env pool a sz = Some (pool', ev) \<Longrightarrow>
    usb_step (pool, live) (pool', live - {(a, sz)})"

inductive usb_reachable :: "usbhc_mem_pool \<times> (nat \<times> u64) set \<Rightarrow> bool" where
  init: "env_ok env [] USBHC_MEM_DEFAULT_PAGES \<Longrightarrow>
    UsbHcInitMemPool env True chk which = (Some pool, ev) \<Longrightarrow> usb_reachable (pool, {})"
| step: "usb_reachable s \<Longrightarrow> usb_step s s' \<Longrightarrow> usb_reachable s'"

inductive_cases usb_stepE: "usb_step s s'"

lemma UsbHcInitMemPool_inv:
  assumes "env_ok env [] USBHC_MEM_DEFAULT_PAGES" "UsbHcInitMemPool env ok chk which = (Some pool, ev)"
  shows "pool_inv pool {}"
proof -
  obtain b where b: "Blocks pool = [b]"
    "UsbHcAllocMemBlock env \<lparr>Check4G = chk, Which4G = which, Blocks = []\<rparr> USBHC_MEM_DEFAULT_PAGES = (Some b, ev)"
    using assms(2) by (auto simp: UsbHcInitMemPool_def Let_def split: if_splits prod.splits option.splits)
  note f = UsbHcAllocMemBlock_fresh [OF b(2) assms(1)]
  then show ?thesis
    using b(1) by (auto simp: pool_inv_def chain_ok_def live_ok_def block_bytes_def)
qed

lemma usb_step_inv: "usb_step s s' \<Longrightarrow> pool_inv (fst s) (snd s) \<Longrightarrow> pool_inv (fst s') (snd s')"
proof (induction rule: usb_step.induct)
  case (alloc env pool sz m pool' m' a ev live)
  then show ?case
    using UsbHcAllocateMem_inv(1) [of pool live env sz m pool' m' "Some a" ev] by simp
next
  case (alloc_fail env pool sz m pool' m' ev live)
  then show ?case
    using UsbHcAllocateMem_inv(1) [of pool live env sz m pool' m' None ev] by simp
next
  case (free a sz live env pool pool' ev)
  then show ?case
    using UsbHcFreeMem_inv [of pool live a sz env] by auto
qed

lemma usb_reachable_inv: "usb_reachable s \<Longrightarrow> pool_inv (fst s) (snd s)"
  by (induction rule: usb_reachable.induct) (auto intro: UsbHcInitMemPool_inv usb_step_inv)

section \<open>What the pool promises\<close>

lemma unit_set_inj:
  assumes "length xs = length ys" "unit_set xs = unit_set ys"
  shows "xs = ys"
proof (rule nth_equalityI)
  fix i assume i: "i < length xs"
  show "xs ! i = ys ! i"
  proof (rule bit_word_eqI)
    fix k assume "k < LENGTH(8)"
    then have k: "(8 * i + k) div 8 = i" "(8 * i + k) mod 8 = k" "k < 8"
      by auto
    have "8 * i + k \<in> unit_set xs \<longleftrightarrow> 8 * i + k \<in> unit_set ys"
      using assms(2) by simp
    then show "bit (xs ! i) k = bit (ys ! i) k"
      using i assms(1) k by (simp add: unit_set_def)
  qed
qed (rule assms(1))

definition byte_range :: "nat \<times> u64 \<Rightarrow> nat set" where
  "byte_range x = {fst x..<fst x + unat (snd x)}"

lemma byte_range_live: "units_of (snd x) \<noteq> 0 \<Longrightarrow> byte_range x \<subseteq> live_region x"
  using units_of_cover [of "snd x"] by (auto simp: byte_range_def live_region_def region_def)

lemma UsbHcAllocateMem_total:
  assumes inv: "pool_inv pool live" and env: "env_ok env (Blocks pool) (pages_for env (64 * units_of sz))"
    and n: "units_of sz \<noteq> 0"
  shows "UsbHcAllocateMem env pool m sz \<noteq> None"
proof -
  let ?n = "units_of sz" and ?bs = "Blocks pool"
  have ok: "?bs \<noteq> []" "chain_ok ?bs"
    using inv by (auto simp: pool_inv_def)
  have units: "unat (USBHC_MEM_ROUND sz) = 64 * ?n" "64 * ?n div USBHC_MEM_UNIT = ?n"
    by (simp_all add: USBHC_MEM_UNIT_def USBHC_MEM_ROUND_units)
  obtain bs' r where search: "alloc_in_blocks ?bs ?n = Some (bs', r)"
    using alloc_in_blocks_spec [OF ok(2) n] by blast
  obtain h rest where bs: "?bs = h # rest"
    using ok(1) by (cases ?bs) auto
  have "UsbHcAllocMemFromBlock b ?n \<noteq> None"
    if "UsbHcAllocMemBlock env pool (pages_for env (64 * ?n)) = (Some b, ev)" for b ev
    by (rule UsbHcAllocMemFromBlock_spec [OF UsbHcAllocMemBlock_fresh(1) [OF that env] n]) auto
  then show ?thesis
    unfolding UsbHcAllocateMem_def Let_def units search
    by (auto simp: assert_that_def bs UsbHcInsertMemBlockToPool_def split: option.splits prod.splits)
qed

lemma fill_zero: "rd (fill m a n 0) a n = replicate n 0"
  by (rule nth_equalityI) (auto simp: fill_def)

lemma find_block_mem: "find_block bs a n = Some b \<Longrightarrow> b \<in> set bs \<and> contains_range b a n"
  by (induction bs) (auto split: if_splits)

lemma find_block_exists: "b \<in> set bs \<Longrightarrow> contains_range b a n \<Longrightarrow> find_block bs a n \<noteq> None"
  by (induction bs) auto

fun acquired :: "mem_ev list \<Rightarrow> mem_obj multiset" where
  "acquired [] = {#}"
| "acquired (Acquire x # es) = add_mset x (acquired es)"
| "acquired (Release x # es) = acquired es"

fun released :: "mem_ev list \<Rightarrow> mem_obj multiset" where
  "released [] = {#}"
| "released (Acquire x # es) = released es"
| "released (Release x # es) = add_mset x (released es)"

lemma acquired_append [simp]: "acquired (xs @ ys) = acquired xs + acquired ys"
  by (induction xs rule: acquired.induct) auto

lemma released_append [simp]: "released (xs @ ys) = released xs + released ys"
  by (induction xs rule: released.induct) auto

lemma acquired_FreeMemPool_loop [simp]: "acquired (UsbHcFreeMemPool_loop env bs) = {#}"
  by (induction bs) (auto simp: UsbHcFreeMemBlock_def)

lemma released_FreeMemPool_loop:
  "released (UsbHcFreeMemPool_loop env bs) = (\<Sum>b \<in># mset bs. released (UsbHcFreeMemBlock env b))"
  by (induction bs) auto

definition demo_env :: dma_env where
  "demo_env = \<lparr>EFI_PAGE_SIZE = 512, block_alloc_ok = True, bits_alloc_ok = True,
     DmaAllocateBuffer = Some 65536, DmaMap = Some (8192, 2147483648, 7)\<rparr>"

definition demo_pool :: usbhc_mem_pool where
  "demo_pool = the (fst (UsbHcInitMemPool demo_env True False 0))"

lemma demo_env_ok: "env_ok demo_env [] USBHC_MEM_DEFAULT_PAGES"
  by (simp add: env_ok_def demo_env_def)


lemma demo_pool_Blocks: "UsbHcInitMemPool demo_env True False 0 =
   (Some \<lparr>Check4G = False, Which4G = 0, Blocks = [\<lparr>Bits = replicate 16 0, BitsLen = 16, Buf = 2147483648,
      BufHost = 65536, BufLen = 8192, Mapping = 7\<rparr>]\<rparr>,
    [Acquire ObjBlock, Acquire ObjBits, Acquire (ObjBuffer 65536 16), Acquire (ObjMapping 7)])"
  by (simp add: UsbHcInitMemPool_def demo_env_def UsbHcAllocMemBlock_def USBHC_MEM_DEFAULT_PAGES_def
      USBHC_MEM_UNIT_def Let_def)

lemma demo_pool_eq: "demo_pool = \<lparr>Check4G = False, Which4G = 0, Blocks = [\<lparr>Bits = replicate 16 0,
    BitsLen = 16, Buf = 2147483648, BufHost = 65536, BufLen = 8192, Mapping = 7\<rparr>]\<rparr>"
  by (simp add: demo_pool_def demo_pool_Blocks)

lemmas usb_bits = USB_HC_BIT_IS_SET_def USB_HC_BIT_def NEXT_BIT_def

lemmas usb_eval = USBHC_MEM_ROUND_def USBHC_MEM_UNIT_def UsbHcAllocMemFromBlock_def
  UsbHcAllocateMem_def Let_def assert_that_def USB_HC_BIT_IS_SET_def USB_HC_BIT_def NEXT_BIT_def

lemma mark_bits_numeral: "mark_bits (numeral k) bits byte b =
     (if length bits \<le> byte \<or> USB_HC_BIT_IS_SET (bits ! byte) b then None
      else mark_bits (pred_numeral k) (bits[byte := ucast (ucast (bits ! byte) OR USB_HC_BIT b)])
             (fst (NEXT_BIT byte b)) (snd (NEXT_BIT byte b)))"
  by (simp add: numeral_eq_Suc)

definition demo_pool1 :: usbhc_mem_pool where
  "demo_pool1 = demo_pool\<lparr>Blocks := [hd (Blocks demo_pool)\<lparr>Bits := (replicate 16 0)[0 := 3]\<rparr>]\<rparr>"

definition demo_pool2 :: usbhc_mem_pool where
  "demo_pool2 = demo_pool\<lparr>Blocks := [hd (Blocks demo_pool)\<lparr>Bits := (replicate 16 0)[0 := 31]\<rparr>]\<rparr>"

lemma demo_search1: "alloc_search (replicate 16 0) 16 2 0 0 0 0 0 = (2, 0, 0)"
  by (simp add: alloc_search.simps usb_bits)

lemma demo_mark1: "mark_bits 2 (replicate 16 0) 0 0 = Some ((replicate 16 0)[0 := 3])"
  by (simp add: mark_bits_numeral usb_bits)

lemma demo_search2: "alloc_search ((replicate 16 0)[0 := 3]) 16 3 0 0 0 0 0 = (3, 0, 2)"
  by (simp add: alloc_search.simps usb_bits)

lemma demo_mark2: "mark_bits 3 ((replicate 16 0)[0 := 3]) 0 2 = Some ((replicate 16 0)[0 := 31])"
  by (simp add: mark_bits_numeral usb_bits)

lemma demo_alloc1:
  "UsbHcAllocateMem demo_env demo_pool m 100 = Some (demo_pool1, fill m 65536 100 0, Some 65536, [])"
  by (simp add: demo_pool1_def demo_pool_eq usb_eval demo_search1 demo_mark1)

lemma demo_alloc2:
  "UsbHcAllocateMem demo_env demo_pool1 m 150 = Some (demo_pool2, fill m 65664 150 0, Some 65664, [])"
  by (simp add: demo_pool1_def demo_pool2_def demo_pool_eq usb_eval demo_search2 demo_mark2)

lemma demo_reachable0: "usb_reachable (demo_pool, {})"
  by (rule usb_reachable.init [OF demo_env_ok, where chk = False and which = 0])
     (simp add: demo_pool_def demo_pool_Blocks)

text \<open>With \<open>DmaAllocateBuffer\<close> failing, an allocation can only be served from the pool.\<close>

lemma UsbHcAllocateMem_local:
  "UsbHcAllocateMem env pool m sz = Some (pool', m', r, []) \<Longrightarrow> r \<noteq> None \<Longrightarrow>
   UsbHcAllocateMem (env\<lparr>DmaAllocateBuffer := None\<rparr>) pool m sz = Some (pool', m', r, [])"
  by (auto simp: UsbHcAllocateMem_def Let_def UsbHcAllocMemBlock_def assert_that_def
      split: option.splits prod.splits if_splits Option.bind_splits)

lemma env_ok_no_dma:
  "0 < EFI_PAGE_SIZE env \<Longrightarrow> 512 dvd EFI_PAGE_SIZE env \<Longrightarrow> env_ok (env\<lparr>DmaAllocateBuffer := None\<rparr>) bs n"
  by (simp add: env_ok_def)

lemma demo_reachable: "usb_reachable (demo_pool2, {(65664, 150), (65536, 100)})"
proof -
  have sz: "0 < EFI_PAGE_SIZE demo_env" "512 dvd EFI_PAGE_SIZE demo_env"
    by (simp_all add: demo_env_def)
  have "usb_reachable (demo_pool1, {(65536, 100)})"
    using usb_reachable.step [OF demo_reachable0 usb_step.alloc [OF env_ok_no_dma [OF sz]
        UsbHcAllocateMem_local [OF demo_alloc1]]] by simp
  from usb_reachable.step [OF this usb_step.alloc [OF env_ok_no_dma [OF sz]
        UsbHcAllocateMem_local [OF demo_alloc2]]]
  show ?thesis by simp
qed

text \<open>
  C3: In every state the pool can reach, the byte ranges handed out and not yet freed are
  pairwise disjoint.
\<close>

theorem usb_live_disjoint:
  assumes "usb_reachable (pool, live)" "x \<in> live" "y \<in> live" "x \<noteq> y"
  shows "byte_range x \<inter> byte_range y = {}"
proof -
  have ok: "live_ok (Blocks pool) live"
    using usb_reachable_inv [OF assms(1)] by (simp add: pool_inv_def)
  have "live_region x \<inter> live_region y = {}"
    using ok assms(2-4) unfolding live_ok_def by blast
  then show ?thesis
    using byte_range_live live_okD(1) [OF ok] assms(2,3) by blast
qed

theorem usb_live_disjoint_witness: "byte_range (65664, 150) \<inter> byte_range (65536, 100) = {}"
  by (rule usb_live_disjoint [OF demo_reachable]) simp_all

text \<open>
  Every byte range handed out and not yet freed lies inside the DMA memory of one block of
  the pool.
\<close>

theorem usb_live_in_block:
  assumes "usb_reachable (pool, live)" "x \<in> live"
  shows "\<exists>b \<in> set (Blocks pool). byte_range x \<subseteq> block_range b"
proof -
  have inv: "chain_ok (Blocks pool)" "live_ok (Blocks pool) live"
    using usb_reachable_inv [OF assms(1)] by (auto simp: pool_inv_def)
  obtain b where b: "b \<in> set (Blocks pool)" "in_block b (fst x) (units_of (snd x))"
    using live_okD(2) [OF inv(2) assms(2)] by (auto simp: in_chain_def)
  then have "live_region x \<subseteq> block_range b"
    using region_range inv(1) by (auto simp: live_region_def chain_ok_def)
  then show ?thesis
    using byte_range_live [OF live_okD(1) [OF inv(2) assms(2)]] b(1) by blast
qed

theorem usb_live_in_block_witness:
  "\<exists>b \<in> set (Blocks demo_pool2). byte_range (65536, 100) \<subseteq> block_range b"
  by (rule usb_live_in_block [OF demo_reachable]) simp

text \<open>
  Freeing what is allocated never fails an \<open>ASSERT\<close>, whatever was allocated and freed
  before, and leads to a reachable state again.
\<close>

theorem usb_free_never_stops:
  assumes "usb_reachable (pool, live)" "(a, sz) \<in> live"
  shows "\<exists>pool' ev. UsbHcFreeMem env pool a sz = Some (pool', ev) \<and>
    usb_reachable (pool', live - {(a, sz)})"
  using UsbHcFreeMem_inv [of pool live a sz env] usb_reachable_inv [OF assms(1)] assms
  by (auto intro: usb_reachable.step usb_step.free)

theorem usb_free_never_stops_witness:
  "\<exists>pool' ev. UsbHcFreeMem demo_env demo_pool2 65536 100 = Some (pool', ev) \<and>
    usb_reachable (pool', {(65664, 150), (65536, 100)} - {(65536, 100)})"
  by (rule usb_free_never_stops [OF demo_reachable]) simp

text \<open>
  An allocation of a non-empty size that does not wrap returns normally in every reachable
  state. It answers NULL only when no new DMA block can be had and then leaves the state and
  memory alone; otherwise exactly the bytes asked for are zeroed, the range is disjoint from
  everything live, and the state is reachable again.
\<close>

theorem usb_allocate:
  assumes "usb_reachable (pool, live)" "units_of sz \<noteq> 0"
    "env_ok env (Blocks pool) (pages_for env (64 * units_of sz))"
  shows "\<exists>pool' m' r ev. UsbHcAllocateMem env pool m sz = Some (pool', m', r, ev) \<and>
    (case r of
       None \<Rightarrow> m' = m \<and> fst (UsbHcAllocMemBlock env pool (pages_for env (64 * units_of sz))) = None
     | Some a \<Rightarrow> usb_reachable (pool', insert (a, sz) live) \<and>
         rd m' a (unat sz) = replicate (unat sz) 0 \<and>
         (\<forall>x. x \<notin> byte_range (a, sz) \<longrightarrow> m' x = m x))"
proof -
  note inv = usb_reachable_inv [OF assms(1), simplified]
  obtain pool' m' r ev where run: "UsbHcAllocateMem env pool m sz = Some (pool', m', r, ev)"
    using UsbHcAllocateMem_total [OF inv assms(3,2), of m] by auto
  note post = UsbHcAllocateMem_inv(3,4) [OF inv assms(3) run]
  show ?thesis
  proof (cases r)
    case None
    then show ?thesis
      using run post by auto
  next
    case (Some a)
    have "usb_reachable (pool', insert (a, sz) live)"
      using assms(1) usb_step.alloc [OF assms(3) run [unfolded Some]] by (rule usb_reachable.step)
    then show ?thesis
      using run Some post(1)
      by (auto simp: fill_zero byte_range_def not_le not_less intro!: fill_out)
  qed
qed

theorem usb_allocate_witness:
  "\<exists>pool' m' r ev.
    UsbHcAllocateMem (demo_env\<lparr>DmaAllocateBuffer := None\<rparr>) demo_pool (\<lambda>_. 1) 100 = Some (pool', m', r, ev) \<and>
    (case r of
       None \<Rightarrow> m' = (\<lambda>_. 1) \<and>
         fst (UsbHcAllocMemBlock (demo_env\<lparr>DmaAllocateBuffer := None\<rparr>) demo_pool
           (pages_for (demo_env\<lparr>DmaAllocateBuffer := None\<rparr>) (64 * units_of 100))) = None
     | Some a \<Rightarrow> usb_reachable (pool', insert (a, 100) {}) \<and>
         rd m' a (unat (100 :: u64)) = replicate (unat (100 :: u64)) 0 \<and>
         (\<forall>x. x \<notin> byte_range (a, 100) \<longrightarrow> m' x = (\<lambda>_. 1) x))"
  by (rule usb_allocate [OF demo_reachable0])
     (simp_all add: units_of_def USBHC_MEM_ROUND_def env_ok_def demo_env_def)

text \<open>
  C23: Allocation from a block is first fit and complete: it answers NULL exactly when no run of
  that many free units exists, and otherwise the lowest such run, whose units become used while
  every other unit keeps its state.
\<close>

theorem UsbHcAllocMemFromBlock_first_fit:
  assumes "block_ok b" "n \<noteq> 0"
  shows "\<exists>b' r. UsbHcAllocMemFromBlock b n = Some (b', r) \<and> shape b' = shape b \<and>
    (case r of
       None \<Rightarrow> b' = b \<and> (\<forall>t. \<not> free_run (Bits b) t n)
     | Some a \<Rightarrow> \<exists>s. a = BufHost b + 64 * s \<and> free_run (Bits b) s n \<and>
         (\<forall>t < s. \<not> free_run (Bits b) t n) \<and>
         unit_set (Bits b') = unit_set (Bits b) \<union> {s..<s + n})"
  by (cases rule: UsbHcAllocMemFromBlock_spec [OF assms, case_names none found]) auto

theorem UsbHcAllocMemFromBlock_first_fit_witness:
  "\<exists>b' r. UsbHcAllocMemFromBlock (hd (Blocks demo_pool)) 2 = Some (b', r) \<and>
     shape b' = shape (hd (Blocks demo_pool)) \<and>
    (case r of
       None \<Rightarrow> b' = hd (Blocks demo_pool) \<and> (\<forall>t. \<not> free_run (Bits (hd (Blocks demo_pool))) t 2)
     | Some a \<Rightarrow> \<exists>s. a = BufHost (hd (Blocks demo_pool)) + 64 * s \<and>
         free_run (Bits (hd (Blocks demo_pool))) s 2 \<and>
         (\<forall>t < s. \<not> free_run (Bits (hd (Blocks demo_pool))) t 2) \<and>
         unit_set (Bits b') = unit_set (Bits (hd (Blocks demo_pool))) \<union> {s..<s + 2})"
  by (rule UsbHcAllocMemFromBlock_first_fit)
     (simp_all add: demo_pool_eq block_ok_def)

text \<open>Freeing right after an allocation, block by block.\<close>

lemma alloc_free_block:
  assumes "block_ok b" "n \<noteq> 0" "UsbHcAllocMemFromBlock b n = Some (b', Some a)"
  shows "free_in_blocks (b' # bs) a (64 * n) = Some (b # bs, Some 0)"
proof -
  obtain s bits where r: "b' = b\<lparr>Bits := bits\<rparr>" "a = BufHost b + 64 * s" "free_run (Bits b) s n"
    "length bits = length (Bits b)" "unit_set bits = unit_set (Bits b) \<union> {s..<s + n}"
    using assms(3) by (cases rule: UsbHcAllocMemFromBlock_spec [OF assms(1,2), case_names none found]) auto
  have idx: "8 * (s div 8) + s mod 8 = s"
    by simp
  have within: "s + n \<le> 8 * length bits"
    using r(3,4) by (simp add: free_run_def)
  obtain bits' where c: "clear_bits n bits (s div 8) (s mod 8) = Some bits'"
    "length bits' = length bits" "unit_set bits' = unit_set bits - {s..<s + n}"
    using clear_bits_spec [of "s mod 8" "s div 8" n bits] within unfolding idx r(5) by auto
  have "unit_set bits' = unit_set (Bits b)"
    using c(3) r(3,5) by (auto simp: free_run_def)
  then have "bits' = Bits b"
    using c(2) r(4) by (intro unit_set_inj) auto
  moreover have "contains_range b' a (64 * n)"
    using r assms(1) within by (simp add: contains_range_def block_ok_def)
  ultimately show ?thesis
    using c(1) r(1,2) by (simp add: USBHC_MEM_UNIT_def)
qed

lemma alloc_free_chain:
  assumes "n \<noteq> 0"
  shows "chain_ok bs \<Longrightarrow> alloc_in_blocks bs n = Some (bs', Some a) \<Longrightarrow>
    \<exists>i < length bs. free_in_blocks bs' a (64 * n) = Some (bs, Some i)"
proof (induction bs arbitrary: bs')
  case (Cons b bs)
  then have b: "block_ok b" and apart: "\<forall>c \<in> set bs. block_range b \<inter> block_range c = {}" and bs: "chain_ok bs"
    by (auto simp: chain_ok_Cons)
  show ?case
  proof (cases rule: UsbHcAllocMemFromBlock_spec [OF b assms, case_names none found])
    case none
    then obtain cs where cs: "bs' = b # cs" "alloc_in_blocks bs n = Some (cs, Some a)"
      using Cons.prems(2) by (auto split: Option.bind_splits)
    obtain i where i: "i < length bs" "free_in_blocks cs a (64 * n) = Some (bs, Some i)"
      using Cons.IH [OF bs cs(2)] by blast
    obtain c where c: "c \<in> set bs" "in_block c a n" "block_ok c"
      using alloc_in_blocks_spec [OF bs assms] cs(2) bs by (auto simp: chain_ok_def)
    have "\<not> contains_range b a (64 * n)"
      using contains_range_in_block [OF c(3,2) b] assms apart c(1) by blast
    then show ?thesis
      using i cs(1) by (intro exI [of _ "Suc i"]) simp
  next
    case (found s bits)
    then have "bs' = b\<lparr>Bits := bits\<rparr> # bs" "a = BufHost b + 64 * s"
      using Cons.prems(2) by auto
    then show ?thesis
      using alloc_free_block [OF b assms, of "b\<lparr>Bits := bits\<rparr>" a bs] found(1) by (intro exI [of _ 0]) simp
  qed
qed simp

text \<open>Every block but the head holds something that is live: an empty one is released at once.\<close>

definition tail_used :: "usbhc_mem_block list \<Rightarrow> bool" where
  "tail_used bs \<longleftrightarrow> (\<forall>b \<in> set (tl bs). unit_set (Bits b) \<noteq> {})"

lemma block_bytes_empty: "block_bytes b = {} \<longleftrightarrow> unit_set (Bits b) = {}"
proof
  assume none: "block_bytes b = {}"
  have "BufHost b + 64 * u \<in> block_bytes b" if "u \<in> unit_set (Bits b)" for u
    using that by (simp add: block_bytes_def)
  then show "unit_set (Bits b) = {}"
    using none by blast
qed (simp add: block_bytes_def)

lemma empty_block: "block_ok b \<Longrightarrow> UsbHcIsMemBlockEmpty b \<longleftrightarrow> unit_set (Bits b) = {}"
  by (simp add: UsbHcIsMemBlockEmpty_bytes block_bytes_empty)

lemma alloc_in_blocks_used:
  assumes "n \<noteq> 0"
  shows "chain_ok bs \<Longrightarrow> alloc_in_blocks bs n = Some (bs', r) \<Longrightarrow>
    list_all2 (\<lambda>b b'. unit_set (Bits b) \<subseteq> unit_set (Bits b')) bs bs'"
proof (induction bs arbitrary: bs')
  case (Cons b bs)
  then have b: "block_ok b" and bs: "chain_ok bs"
    by (auto simp: chain_ok_Cons)
  show ?case
  proof (cases rule: UsbHcAllocMemFromBlock_spec [OF b assms, case_names none found])
    case none
    then obtain cs where "bs' = b # cs" "alloc_in_blocks bs n = Some (cs, r)"
      using Cons.prems(2) by (auto split: Option.bind_splits)
    then show ?thesis
      using Cons.IH [OF bs] by simp
  next
    case (found s bits)
    then show ?thesis
      using Cons.prems(2) by (auto simp: list_all2_refl)
  qed
qed simp

lemma list_all2_tl: "list_all2 R xs ys \<Longrightarrow> list_all2 R (tl xs) (tl ys)"
  by (cases xs; cases ys) auto

lemma tail_used_mono: "list_all2 (\<lambda>b b'. unit_set (Bits b) \<subseteq> unit_set (Bits b')) bs bs' \<Longrightarrow> tail_used bs \<Longrightarrow> tail_used bs'"
  by (drule list_all2_tl) (fastforce simp: tail_used_def list_all2_conv_all_nth all_set_conv_all_nth)

lemma free_in_blocks_frame:
  "free_in_blocks bs a k = Some (bs', Some i) \<Longrightarrow> i < length bs \<and> (\<exists>b. bs' = bs[i := b])"
proof (induction bs arbitrary: bs' i)
  case (Cons b bs)
  show ?case
  proof (cases "contains_range b a k")
    case True
    then show ?thesis
      using Cons.prems by (auto split: Option.bind_splits)
  next
    case False
    then obtain cs j where "free_in_blocks bs a k = Some (cs, Some j)" "bs' = b # cs" "i = Suc j"
      using Cons.prems by (auto split: Option.bind_splits)
    then show ?thesis
      using Cons.IH by fastforce
  qed
qed simp

lemma tail_used_replace:
  assumes "tail_used bs" "i < length bs" "i = 0 \<or> unit_set (Bits b) \<noteq> {}"
  shows "tail_used (bs[i := b])"
  using assms by (cases bs; cases i) (auto simp: tail_used_def dest!: set_update_subset_insert [THEN subsetD])

lemma tail_used_unlink: "tail_used bs \<Longrightarrow> tail_used (UsbHcUnlinkMemBlock (bs[i := b]) i)"
proof (cases "i = 0")
  case False
  assume used: "tail_used bs"
  have "set (tl (take i bs @ drop (Suc i) bs)) \<subseteq> set (tl bs)"
    using False by (cases bs; cases i) (auto dest: in_set_takeD in_set_dropD)
  then show ?thesis
    using used False by (auto simp: tail_used_def UsbHcUnlinkMemBlock_def)
qed (auto simp: UsbHcUnlinkMemBlock_def tail_used_def split: list.splits intro: list.exhaust [of bs])

lemma UsbHcAllocateMem_cases:
  assumes inv: "pool_inv pool live" and env: "env_ok env (Blocks pool) (pages_for env (64 * units_of sz))"
    and n: "units_of sz \<noteq> 0" and run: "UsbHcAllocateMem env pool m sz = Some (pool', m', r, ev)"
  obtains (here) bs a where "alloc_in_blocks (Blocks pool) (units_of sz) = Some (bs, Some a)"
      "pool' = pool\<lparr>Blocks := bs\<rparr>" "r = Some a" "ev = []"
  | (full) "pool' = pool" "r = None"
  | (grown) b b' a h rest where "UsbHcAllocMemBlock env pool (pages_for env (64 * units_of sz)) = (Some b, ev)"
      "UsbHcAllocMemFromBlock b (units_of sz) = Some (b', Some a)" "Blocks pool = h # rest"
      "pool' = pool\<lparr>Blocks := h # b' # rest\<rparr>" "r = Some a"
proof -
  let ?n = "units_of sz" and ?bs = "Blocks pool"
  have ok: "?bs \<noteq> []" "chain_ok ?bs"
    using inv by (auto simp: pool_inv_def)
  have units: "unat (USBHC_MEM_ROUND sz) = 64 * ?n" "64 * ?n div USBHC_MEM_UNIT = ?n"
    by (simp_all add: USBHC_MEM_UNIT_def USBHC_MEM_ROUND_units)
  obtain bs' r0 where search: "alloc_in_blocks ?bs ?n = Some (bs', r0)"
    using alloc_in_blocks_spec [OF ok(2) n] by blast
  obtain h rest where bs: "?bs = h # rest"
    using ok(1) by (cases ?bs) auto
  note start = run [unfolded UsbHcAllocateMem_def Let_def units search, simplified assert_that_def ok(1), simplified]
  show thesis
  proof (cases r0)
    case (Some a)
    then show thesis
      using here [of bs' a] start search by simp
  next
    case None
    show thesis
    proof (cases "UsbHcAllocMemBlock env pool (pages_for env (64 * ?n))")
      case (Pair new ev')
      show thesis
      proof (cases new)
        case None
        then show thesis
          using full start Pair \<open>r0 = None\<close> by simp
      next
        case (Some b)
        note fresh = UsbHcAllocMemBlock_fresh [OF Pair [unfolded Some] env]
        have "64 * ?n \<le> BufLen b"
          unfolding fresh(3) using env by (intro pages_for_enough) (simp add: env_ok_def)
        then have "free_run (Bits b) 0 ?n"
          using fresh(1,2) by (auto simp: free_run_def block_ok_def)
        then obtain b' a where al: "UsbHcAllocMemFromBlock b ?n = Some (b', Some a)"
          by (cases rule: UsbHcAllocMemFromBlock_spec [OF fresh(1) n]) auto
        then show thesis
          using start Pair Some \<open>r0 = None\<close> bs
          by (intro grown [of b b' a h rest]) (auto simp: UsbHcInsertMemBlockToPool_def)
      qed
    qed
  qed
qed

lemma alloc_marks: "block_ok b \<Longrightarrow> n \<noteq> 0 \<Longrightarrow> UsbHcAllocMemFromBlock b n = Some (b', Some a) \<Longrightarrow>
    unit_set (Bits b') \<noteq> {} \<and> shape b' = shape b \<and> in_block b a n"
  by (cases rule: UsbHcAllocMemFromBlock_spec [of b n, case_names ok n none found])
    (auto simp: in_block_def free_run_def block_ok_def)

lemma UsbHcAllocateMem_used:
  assumes inv: "pool_inv pool live" and env: "env_ok env (Blocks pool) (pages_for env (64 * units_of sz))"
    and run: "UsbHcAllocateMem env pool m sz = Some (pool', m', r, ev)" and used: "tail_used (Blocks pool)"
  shows "tail_used (Blocks pool')"
proof -
  have n: "units_of sz \<noteq> 0"
    by (rule UsbHcAllocateMem_inv(2) [OF inv env run])
  have ok: "chain_ok (Blocks pool)"
    using inv by (simp add: pool_inv_def)
  show ?thesis
  proof (cases rule: UsbHcAllocateMem_cases [OF inv env n run, case_names here full grown])
    case (here bs a)
    then show ?thesis
      using tail_used_mono [OF alloc_in_blocks_used [OF n ok here(1)] used] by simp
  next
    case (grown b b' a h rest)
    then have "unit_set (Bits b') \<noteq> {}"
      using alloc_marks [OF UsbHcAllocMemBlock_fresh(1) [OF grown(1) env] n] by blast
    then show ?thesis
      using used grown(3,4) by (simp add: tail_used_def)
  qed (use used in simp)
qed

lemma UsbHcFreeMem_used:
  assumes inv: "pool_inv pool live" and live: "(a, sz) \<in> live" and used: "tail_used (Blocks pool)"
    and run: "UsbHcFreeMem env pool a sz = Some (pool', ev)"
  shows "tail_used (Blocks pool')"
proof -
  let ?n = "units_of sz"
  have ok: "chain_ok (Blocks pool)" "live_ok (Blocks pool) live"
    using inv by (auto simp: pool_inv_def)
  have lv: "?n \<noteq> 0" "\<exists>b \<in> set (Blocks pool). in_block b a ?n" "region a ?n \<subseteq> chain_bytes (Blocks pool)"
    using live_okD [OF ok(2) live] by (auto simp: live_region_def in_chain_def)
  obtain bs i where fr: "free_in_blocks (Blocks pool) a (64 * ?n) = Some (bs, Some i)" "i < length bs" "chain_ok bs"
    using free_in_blocks_spec [OF ok(1) lv(1,3,2)] by blast
  obtain b where b: "bs = (Blocks pool)[i := b]" "i < length (Blocks pool)"
    using free_in_blocks_frame [OF fr(1)] by blast
  have "block_ok b"
    using fr(3) b by (simp add: chain_ok_def set_update_memI)
  then have "tail_used bs" if "i = 0 \<or> \<not> UsbHcIsMemBlockEmpty b"
    using tail_used_replace [OF used b(2), of b] that b(1) empty_block [of b] by blast
  then show ?thesis
    using run fr(1) b tail_used_unlink [OF used, of i b]
    by (auto simp: UsbHcFreeMem_def USBHC_MEM_ROUND_units split: if_splits)
qed

lemma usb_reachable_used: "usb_reachable s \<Longrightarrow> tail_used (Blocks (fst s))"
proof (induction rule: usb_reachable.induct)
  case (init env chk which pool ev)
  then show ?case
    by (auto simp: UsbHcInitMemPool_def Let_def tail_used_def split: if_splits prod.splits option.splits)
next
  case (step s s')
  have inv: "pool_inv (fst s) (snd s)"
    by (rule usb_reachable_inv [OF step(1)])
  show ?case
    using step(2)
  proof (cases rule: usb_step.cases)
    case (alloc env pool sz m pool' m' a ev live)
    then show ?thesis
      using UsbHcAllocateMem_used [of pool live env sz m pool'] inv step.IH by simp
  next
    case (alloc_fail env pool sz m pool' m' ev live)
    then show ?thesis
      using UsbHcAllocateMem_used [of pool live env sz m pool'] inv step.IH by simp
  next
    case (free a sz live env pool pool' ev)
    then show ?thesis
      using UsbHcFreeMem_used [of pool live a sz env pool' ev] inv step.IH by simp
  qed
qed

lemma UsbHcFreeMemBlock_returns:
  assumes "UsbHcAllocMemBlock env pool pages = (Some b, ev)" "0 < EFI_PAGE_SIZE env" "shape b' = shape b"
  shows "released (UsbHcFreeMemBlock env b') = acquired ev" "released ev = {#}" "acquired (UsbHcFreeMemBlock env b') = {#}"
proof -
  have "(pages * EFI_PAGE_SIZE env + EFI_PAGE_SIZE env - 1) div EFI_PAGE_SIZE env = pages"
    using assms(2) by (intro div_nat_eqI) (auto simp: mult.commute [of pages])
  then show "released (UsbHcFreeMemBlock env b') = acquired ev" "released ev = {#}" "acquired (UsbHcFreeMemBlock env b') = {#}"
    using assms(1) shape_eq(1,2,5) [OF assms(3)]
    by (auto simp: UsbHcAllocMemBlock_def UsbHcFreeMemBlock_def Let_def split: if_splits option.splits prod.splits)
qed

text \<open>
  C24: In every state the pool can reach, freeing what \<open>UsbHcAllocateMem\<close> just returned does not stop and gives back
  the very pool there was, block for block and bit for bit, whether the memory came from a block of the pool or from a
  new one: the new one is unlinked again. Together the two calls release exactly what they acquire: a new block's two
  structures, its buffer and its mapping. The DMA library hands out memory that no block of the pool holds.
\<close>

theorem usb_alloc_free_roundtrip:
  assumes "usb_reachable (pool, live)" "env_ok env (Blocks pool) (pages_for env (64 * units_of sz))"
    and "UsbHcAllocateMem env pool m sz = Some (pool', m', Some a, ev)"
  shows "\<exists>ev'. UsbHcFreeMem env pool' a sz = Some (pool, ev') \<and> acquired ev + acquired ev' = released ev + released ev'"
proof -
  let ?n = "units_of sz"
  have inv: "pool_inv pool live" and used: "tail_used (Blocks pool)"
    using usb_reachable_inv [OF assms(1)] usb_reachable_used [OF assms(1)] by simp_all
  have n: "?n \<noteq> 0" and ok: "chain_ok (Blocks pool)"
    using UsbHcAllocateMem_inv(2) [OF inv assms(2,3)] inv by (simp_all add: pool_inv_def)
  show ?thesis
  proof (cases rule: UsbHcAllocateMem_cases [OF inv assms(2) n assms(3), case_names here full grown])
    case (here bs a')
    obtain i where i: "i < length (Blocks pool)" "free_in_blocks bs a (64 * ?n) = Some (Blocks pool, Some i)"
      using alloc_free_chain [OF n ok here(1)] here(3) by auto
    have "\<not> (i \<noteq> 0 \<and> UsbHcIsMemBlockEmpty (Blocks pool ! i))"
    proof
      assume e: "i \<noteq> 0 \<and> UsbHcIsMemBlockEmpty (Blocks pool ! i)"
      have "block_ok (Blocks pool ! i)"
        using ok i(1) by (simp add: chain_ok_def)
      then have "unit_set (Bits (Blocks pool ! i)) = {}"
        using e empty_block by blast
      moreover have "Blocks pool ! i \<in> set (tl (Blocks pool))"
        using e i(1) by (cases "Blocks pool"; cases i) simp_all
      ultimately show False
        using used by (auto simp: tail_used_def)
    qed
    then show ?thesis
      using i here by (auto simp: UsbHcFreeMem_def USBHC_MEM_ROUND_units)
  next
    case (grown b b' a' h rest)
    note fresh = UsbHcAllocMemBlock_fresh [OF grown(1) assms(2)]
    have a: "a' = a"
      using grown(5) by simp
    note marks = alloc_marks [OF fresh(1) n grown(2)]
    have "\<not> contains_range h a (64 * ?n)"
      using contains_range_in_block [of b a ?n h] marks fresh(1,4) n ok grown(3) a by (auto simp: chain_ok_Cons)
    then have fr: "free_in_blocks (h # b' # rest) a (64 * ?n) = Some (h # b # rest, Some 1)"
      using alloc_free_block [OF fresh(1) n grown(2), of rest] a by simp
    have "UsbHcIsMemBlockEmpty b"
      using fresh(1,2) empty_block by blast
    then have "UsbHcFreeMem env pool' a sz = Some (pool, UsbHcFreeMemBlock env b)"
      using fr grown(3,4) by (simp add: UsbHcFreeMem_def USBHC_MEM_ROUND_units UsbHcUnlinkMemBlock_def)
    moreover have "0 < EFI_PAGE_SIZE env"
      using assms(2) by (simp add: env_ok_def)
    ultimately show ?thesis
      using UsbHcFreeMemBlock_returns [OF grown(1) _ refl] by simp
  qed simp
qed

definition big_env :: dma_env where
  "big_env = demo_env\<lparr>DmaAllocateBuffer := Some 131072, DmaMap := Some (9728, 131072, 9)\<rparr>"

theorem usb_alloc_free_roundtrip_witness:
  "\<exists>pool' m' a ev ev'. UsbHcAllocateMem big_env demo_pool (\<lambda>_. 1) 9000 = Some (pool', m', Some a, ev) \<and>
    UsbHcFreeMem big_env pool' a 9000 = Some (demo_pool, ev') \<and> acquired ev + acquired ev' = released ev + released ev'"
proof -
  have n: "units_of 9000 = 141"
    by (simp add: units_of_def USBHC_MEM_ROUND_def)
  have pages: "pages_for big_env (64 * units_of 9000) = 19"
    by (simp add: n pages_for_def big_env_def demo_env_def USBHC_MEM_DEFAULT_PAGES_def)
  have env: "env_ok big_env (Blocks demo_pool) (pages_for big_env (64 * units_of 9000))"
    unfolding pages by (auto simp: env_ok_def big_env_def demo_env_def demo_pool_eq block_range_def)
  have "fst (UsbHcAllocMemBlock big_env demo_pool 19) \<noteq> None"
    by (simp add: UsbHcAllocMemBlock_def big_env_def demo_env_def demo_pool_eq Let_def)
  then obtain pool' m' a ev where run: "UsbHcAllocateMem big_env demo_pool (\<lambda>_. 1) 9000 = Some (pool', m', Some a, ev)"
    using usb_allocate [OF demo_reachable0 _ env, of "\<lambda>_. 1"] n unfolding pages by (auto split: option.splits)
  show ?thesis
    using usb_alloc_free_roundtrip [OF demo_reachable0 env run] run by blast
qed

text \<open>
  A failed block allocation releases everything it acquired, except when the DMA mapping
  exists but is too short: then exactly the mapping stays behind.
\<close>

theorem UsbHcAllocMemBlock_failure:
  assumes "UsbHcAllocMemBlock env pool pages = (None, ev)"
  shows "acquired ev = released ev \<or>
    (\<exists>bytes mapped mapping. DmaMap env = Some (bytes, mapped, mapping) \<and>
       bytes \<noteq> pages * EFI_PAGE_SIZE env \<and> acquired ev = add_mset (ObjMapping mapping) (released ev))"
  using assms by (auto simp: UsbHcAllocMemBlock_def Let_def split: if_splits option.splits prod.splits)

theorem UsbHcAllocMemBlock_failure_witness:
  "acquired [Acquire ObjBlock, Acquire ObjBits, Release ObjBits, Release ObjBlock] =
     released [Acquire ObjBlock, Acquire ObjBits, Release ObjBits, Release ObjBlock] \<or>
    (\<exists>bytes mapped mapping. DmaMap (demo_env\<lparr>DmaAllocateBuffer := None\<rparr>) = Some (bytes, mapped, mapping) \<and>
       bytes \<noteq> 16 * EFI_PAGE_SIZE (demo_env\<lparr>DmaAllocateBuffer := None\<rparr>) \<and>
       acquired [Acquire ObjBlock, Acquire ObjBits, Release ObjBits, Release ObjBlock] = add_mset (ObjMapping mapping)
         (released [Acquire ObjBlock, Acquire ObjBits, Release ObjBits, Release ObjBlock]))"
  by (rule UsbHcAllocMemBlock_failure [where pool = demo_pool])
     (simp add: UsbHcAllocMemBlock_def demo_env_def)

text \<open>
  Releasing a block gives back exactly the objects that its allocation acquired.
\<close>

theorem UsbHcFreeMemBlock_balance:
  assumes "UsbHcAllocMemBlock env pool pages = (Some b, ev)" "0 < EFI_PAGE_SIZE env"
  shows "released (UsbHcFreeMemBlock env b) = acquired ev \<and> released ev = {#}"
proof -
  have "(pages * EFI_PAGE_SIZE env + EFI_PAGE_SIZE env - 1) div EFI_PAGE_SIZE env = pages"
    using assms(2) by (intro div_nat_eqI) (auto simp: mult.commute [of pages])
  then show ?thesis
    using assms(1)
    by (auto simp: UsbHcAllocMemBlock_def UsbHcFreeMemBlock_def Let_def split: if_splits option.splits prod.splits)
qed

theorem UsbHcFreeMemBlock_balance_witness:
  "released (UsbHcFreeMemBlock demo_env (hd (Blocks demo_pool))) =
     acquired [Acquire ObjBlock, Acquire ObjBits, Acquire (ObjBuffer 65536 16), Acquire (ObjMapping 7)] \<and>
   released [Acquire ObjBlock, Acquire ObjBits, Acquire (ObjBuffer 65536 16), Acquire (ObjMapping 7)] = {#}"
  by (rule UsbHcFreeMemBlock_balance [where pages = 16 and pool = demo_pool])
     (simp_all add: demo_pool_eq demo_env_def UsbHcAllocMemBlock_def USBHC_MEM_UNIT_def Let_def)

text \<open>
  The bus address of a live range is defined: it is found in the block that holds the range,
  at the same offset, and the whole range stays inside the block's mapping.
\<close>

theorem usb_host_address:
  assumes "usb_reachable (pool, live)" "(a, sz) \<in> live" "a \<noteq> 0"
  shows "\<exists>b \<in> set (Blocks pool). BufHost b \<le> a \<and> a - BufHost b + unat sz \<le> BufLen b \<and>
    UsbHcGetAddressForHostMem pool a sz = Some (Buf b + (a - BufHost b))"
proof -
  have inv: "chain_ok (Blocks pool)" "live_ok (Blocks pool) live"
    using usb_reachable_inv [OF assms(1)] by (auto simp: pool_inv_def)
  have n: "units_of sz \<noteq> 0"
    using live_okD(1) [OF inv(2) assms(2)] by simp
  obtain c where c: "c \<in> set (Blocks pool)" "in_block c a (units_of sz)"
    using live_okD(2) [OF inv(2) assms(2)] by (auto simp: in_chain_def)
  then have "contains_range c a (64 * units_of sz)"
    using inv(1) by (auto simp: contains_range_def in_block_def chain_ok_def block_ok_def)
  then obtain b where "find_block (Blocks pool) a (64 * units_of sz) = Some b"
    using find_block_exists [OF c(1)] by auto
  moreover from this have "b \<in> set (Blocks pool)" "contains_range b a (64 * units_of sz)"
    using find_block_mem by blast+
  ultimately show ?thesis
    using units_of_cover [OF n] assms(3)
    by (auto simp: contains_range_def UsbHcGetAddressForHostMem_def USBHC_MEM_ROUND_units)
qed

theorem usb_host_address_witness:
  "\<exists>b \<in> set (Blocks demo_pool2). BufHost b \<le> 65664 \<and> 65664 - BufHost b + unat (150 :: u64) \<le> BufLen b \<and>
    UsbHcGetAddressForHostMem demo_pool2 65664 150 = Some (Buf b + (65664 - BufHost b))"
  by (rule usb_host_address [OF demo_reachable]) simp_all

end
