(* ===== verification/Fspi.thy ===== *)
theory Fspi
  imports Prelude
begin

text \<open>
  The driver of the flexible serial peripheral interface (\<open>Library/FspiLib/FspiLib.c\<close>,
  \<open>Include/Library/Fspi.h\<close>, \<open>Include/Library/SpiMem.h\<close>).

  The controller is hardware: it is the parameter \<open>fspi_hw\<close>, what a register read answers (and
  does, for the FIFO port), what a register write does, and what waiting does. The operations are
  the driver's register sequences over it, with the polling loops and their time-outs. A transfer
  buffer is given by what lies behind its pointer (the transmit loop reads whole words, so up to
  three bytes past the length); received bytes are returned in the order they are stored.
\<close>

section \<open>The controller\<close>

datatype fspi_reg =
    CTRL0 | ICLR | RCVR | AX0 | ABIT0 | FSR | SR | DLL_CTRL0 | EXT_AX | MODE | LEN_CTRL | LEN_EXT
  | CMD | ADDR | DATA | CTRL1 | AX1 | DLL_CTRL1

record 'h fspi_hw =
  reg_rd :: "'h \<Rightarrow> fspi_reg \<Rightarrow> u32 \<times> 'h"
  reg_wr :: "'h \<Rightarrow> fspi_reg \<Rightarrow> u32 \<Rightarrow> 'h"
  HAL_CPUDelayUs :: "'h \<Rightarrow> nat \<Rightarrow> 'h"

record HAL_FSPI_HOST =
  host_cs :: u8
  host_mode :: u8

section \<open>Transfer descriptions\<close>

datatype SPI_MEM_DATA_DIR = HAL_SPI_MEM_DATA_IN | HAL_SPI_MEM_DATA_OUT

record HAL_SPI_MEM_OP =
  cmd_buswidth :: u8
  cmd_opcode :: u8
  addr_nbytes :: u8
  addr_buswidth :: u8
  addr_val :: u32
  dummy_nbytes :: u8
  dummy_buswidth :: u8
  data_buswidth :: u8
  data_dir :: SPI_MEM_DATA_DIR
  data_nbytes :: u32
  data_buf :: "(nat \<Rightarrow> u8) option"

definition HAL_SPI_CPHA :: u32 where "HAL_SPI_CPHA = 1"
definition HAL_SPI_CPOL :: u32 where "HAL_SPI_CPOL = 2"
definition HAL_SPI_MODE_3 :: u32 where "HAL_SPI_MODE_3 = HAL_SPI_CPOL OR HAL_SPI_CPHA"
definition HAL_SPI_TX_QUAD :: u32 where "HAL_SPI_TX_QUAD = 1024"
definition HAL_SPI_RX_DUAL :: u32 where "HAL_SPI_RX_DUAL = 4096"
definition HAL_SPI_RX_QUAD :: u32 where "HAL_SPI_RX_QUAD = 8192"

definition FSPI_LINES_X1 :: u32 where "FSPI_LINES_X1 = 0"
definition FSPI_LINES_X2 :: u32 where "FSPI_LINES_X2 = 1"
definition FSPI_LINES_X4 :: u32 where "FSPI_LINES_X4 = 2"

section \<open>The register words\<close>

text \<open>The bit fields of \<open>FSPICTRL_DATA\<close> and \<open>FSPICMD_DATA\<close> that the driver sets.\<close>

record FSPICTRL_DATA =
  ctrl_sps :: u32
  ctrl_cmdlines :: u32
  ctrl_addrlines :: u32
  ctrl_datalines :: u32

record FSPICMD_DATA =
  cmd_cmd :: u32
  cmd_dummybits :: u32
  cmd_rw :: u32
  cmd_addrbits :: u32
  cmd_cs :: u32

definition FSPICTRL_d32 :: "FSPICTRL_DATA \<Rightarrow> u32" where
  "FSPICTRL_d32 c = push_bit 1 (ctrl_sps c AND 1) OR push_bit 8 (ctrl_cmdlines c AND 3) OR
     push_bit 10 (ctrl_addrlines c AND 3) OR push_bit 12 (ctrl_datalines c AND 3)"

definition FSPICMD_d32 :: "FSPICMD_DATA \<Rightarrow> u32" where
  "FSPICMD_d32 c = (cmd_cmd c AND 255) OR push_bit 8 (cmd_dummybits c AND 15) OR
     push_bit 12 (cmd_rw c AND 1) OR push_bit 14 (cmd_addrbits c AND 3) OR
     push_bit 30 (cmd_cs c AND 3)"

definition fsr_txlevel :: "u32 \<Rightarrow> nat" where
  "fsr_txlevel fsr = unat (drop_bit 8 fsr AND 31)"

definition fsr_rxlevel :: "u32 \<Rightarrow> nat" where
  "fsr_rxlevel fsr = unat (drop_bit 16 fsr AND 31)"

definition fsr_tx_empty :: "u32 \<Rightarrow> bool" where
  "fsr_tx_empty fsr \<longleftrightarrow> fsr AND 2 \<noteq> 0"

definition fsr_rx_empty :: "u32 \<Rightarrow> bool" where
  "fsr_rx_empty fsr \<longleftrightarrow> fsr AND 4 \<noteq> 0"

definition sr_busy :: "u32 \<Rightarrow> bool" where
  "sr_busy sr \<longleftrightarrow> sr AND 1 \<noteq> 0"

definition word_of :: "u8 \<Rightarrow> u8 \<Rightarrow> u8 \<Rightarrow> u8 \<Rightarrow> u32" where
  "word_of a b c d = ucast a OR push_bit 8 (ucast b) OR push_bit 16 (ucast c) OR push_bit 24 (ucast d)"

definition byte_of :: "u32 \<Rightarrow> nat \<Rightarrow> u8" where
  "byte_of w i = ucast (drop_bit (8 * i) w AND 255)"

section \<open>Reset and continuous mode\<close>

fun reset_loop :: "'h fspi_hw \<Rightarrow> 'h \<Rightarrow> nat \<Rightarrow> 'h" where
  "reset_loop hw s 0 = snd (reg_rd hw s RCVR)"
| "reset_loop hw s (Suc timeout) =
     (let (r, s) = reg_rd hw s RCVR
      in if r = 1 then reset_loop hw (HAL_CPUDelayUs hw s 1) timeout else s)"

definition FSPI_Reset :: "'h fspi_hw \<Rightarrow> 'h \<Rightarrow> 'h" where
  "FSPI_Reset hw s = reg_wr hw (reset_loop hw (reg_wr hw s RCVR 1) 10000) ICLR 0xFFFFFFFF"

definition FSPI_ContModeInit :: "'h fspi_hw \<Rightarrow> HAL_FSPI_HOST \<Rightarrow> 'h \<Rightarrow> 'h" where
  "FSPI_ContModeInit hw host s =
     (let s = reg_wr hw s EXT_AX (push_bit 8 0xA5 OR 0x5A)
      in if host_cs host = 0 then reg_wr hw s AX0 0
         else if host_cs host = 1 then reg_wr hw s AX1 0
         else s)"

definition FSPI_ContModeDeInit :: "'h fspi_hw \<Rightarrow> 'h \<Rightarrow> 'h" where
  "FSPI_ContModeDeInit hw s = reg_wr hw s EXT_AX (push_bit 8 0x77 OR 0x88)"

section \<open>Transfers\<close>

definition xfer_cmd :: "HAL_FSPI_HOST \<Rightarrow> HAL_SPI_MEM_OP \<Rightarrow> FSPICMD_DATA" where
  "xfer_cmd host op =
     \<lparr>cmd_cmd = ucast (cmd_opcode op),
      cmd_dummybits =
        (if dummy_nbytes op = 0 then 0
         else if dummy_buswidth op = 4 then ucast (dummy_nbytes op) * 2
         else if dummy_buswidth op = 2 then ucast (dummy_nbytes op) * 4
         else ucast (dummy_nbytes op) * 8),
      cmd_rw =
        (if data_nbytes op \<noteq> 0 \<and> data_dir op = HAL_SPI_MEM_DATA_OUT \<or>
            data_nbytes op = 0 \<and> addr_nbytes op \<noteq> 0 then 1 else 0),
      cmd_addrbits =
        (if addr_nbytes op = 0 then 0 else if addr_nbytes op = 4 then 2
         else if addr_nbytes op = 3 then 1 else 3),
      cmd_cs = ucast (host_cs host)\<rparr>"

definition xfer_ctrl :: "HAL_FSPI_HOST \<Rightarrow> HAL_SPI_MEM_OP \<Rightarrow> FSPICTRL_DATA" where
  "xfer_ctrl host op =
     \<lparr>ctrl_sps = ucast (host_mode host) AND HAL_SPI_CPHA,
      ctrl_cmdlines = (if cmd_buswidth op = 4 then FSPI_LINES_X4 else 0),
      ctrl_addrlines =
        (if addr_nbytes op = 0 then 0
         else if addr_buswidth op = 4 then FSPI_LINES_X4 else FSPI_LINES_X1),
      ctrl_datalines =
        (if data_nbytes op \<noteq> 0 then
           (if data_buswidth op = 4 then FSPI_LINES_X4
            else if data_buswidth op = 2 then FSPI_LINES_X2 else FSPI_LINES_X1)
         else if cmd_buswidth op = 4 then FSPI_LINES_X4 else 0)\<rparr>"

definition HAL_FSPI_XferStart :: "'h fspi_hw \<Rightarrow> HAL_FSPI_HOST \<Rightarrow> 'h \<Rightarrow> HAL_SPI_MEM_OP \<Rightarrow> 'h" where
  "HAL_FSPI_XferStart hw host s op =
     (let s = (if addr_nbytes op \<noteq> 0 \<and> addr_nbytes op \<noteq> 4 \<and> addr_nbytes op \<noteq> 3
               then reg_wr hw s ABIT0 (ucast (addr_nbytes op) * 8 - 1) else s);
          s = reg_wr hw s LEN_EXT (data_nbytes op);
          (fsr, s) = reg_rd hw s FSR;
          (reset, s) =
            (if \<not> fsr_tx_empty fsr then (True, s)
             else let (fsr, s) = reg_rd hw s FSR
                  in if \<not> fsr_rx_empty fsr then (True, s)
                     else let (sr, s) = reg_rd hw s SR in (sr_busy sr, s));
          s = (if reset then FSPI_Reset hw s else s);
          s = (if host_cs host = 0 then reg_wr hw s CTRL0 (FSPICTRL_d32 (xfer_ctrl host op))
               else if host_cs host = 1 then reg_wr hw s CTRL1 (FSPICTRL_d32 (xfer_ctrl host op))
               else s);
          s = reg_wr hw s CMD (FSPICMD_d32 (xfer_cmd host op))
      in if addr_nbytes op \<noteq> 0 then reg_wr hw s ADDR (addr_val op) else s)"

text \<open>One burst of the transmit loop: \<open>count\<close> words from the buffer, starting at \<open>off\<close>.\<close>

fun tx_words :: "'h fspi_hw \<Rightarrow> 'h \<Rightarrow> (nat \<Rightarrow> u8) \<Rightarrow> nat \<Rightarrow> nat \<Rightarrow> 'h" where
  "tx_words hw s buf off 0 = s"
| "tx_words hw s buf off (Suc count) =
     tx_words hw (reg_wr hw s DATA (word_of (buf off) (buf (off + 1)) (buf (off + 2)) (buf (off + 3))))
       buf (off + 4) count"

function tx_loop ::
  "'h fspi_hw \<Rightarrow> 'h \<Rightarrow> (nat \<Rightarrow> u8) \<Rightarrow> nat \<Rightarrow> nat \<Rightarrow> nat \<Rightarrow> 'h \<times> efi_status" where
  "tx_loop hw s buf off 0 timeout = (s, EFI_SUCCESS)"
| "tx_loop hw s buf off (Suc w) timeout =
     (let (fsr, s) = reg_rd hw s FSR
      in if 0 < fsr_txlevel fsr then
           let count = min (Suc w) (fsr_txlevel fsr)
           in tx_loop hw (tx_words hw s buf off count) buf (off + 4 * count) (Suc w - count) 0
         else if 10000 < timeout then (HAL_CPUDelayUs hw s 1, Error EFI_TIMEOUT)
         else tx_loop hw (HAL_CPUDelayUs hw s 1) buf off (Suc w) (timeout + 1))"
  by pat_completeness auto
termination
  by (relation "measures [\<lambda>(hw, s, buf, off, words, timeout). words,
                          \<lambda>(hw, s, buf, off, words, timeout). 10002 - timeout]") auto

declare tx_loop.simps(2) [simp del]

fun rx_words :: "'h fspi_hw \<Rightarrow> 'h \<Rightarrow> nat \<Rightarrow> 'h \<times> u8 list" where
  "rx_words hw s 0 = (s, [])"
| "rx_words hw s (Suc count) =
     (let (w, s) = reg_rd hw s DATA;
          (s, bs) = rx_words hw s count
      in (s, [byte_of w 0, byte_of w 1, byte_of w 2, byte_of w 3] @ bs))"

function rx_loop :: "'h fspi_hw \<Rightarrow> 'h \<Rightarrow> nat \<Rightarrow> nat \<Rightarrow> 'h \<times> u8 list \<times> efi_status" where
  "rx_loop hw s 0 timeout = (s, [], EFI_SUCCESS)"
| "rx_loop hw s (Suc w) timeout =
     (let (fsr, s) = reg_rd hw s FSR
      in if 0 < fsr_rxlevel fsr then
           let count = min (Suc w) (fsr_rxlevel fsr);
               (s, bs) = rx_words hw s count;
               (s, cs, ret) = rx_loop hw s (Suc w - count) 0
           in (s, bs @ cs, ret)
         else if 10000 < timeout then (HAL_CPUDelayUs hw s 1, [], Error EFI_TIMEOUT)
         else rx_loop hw (HAL_CPUDelayUs hw s 1) (Suc w) (timeout + 1))"
  by pat_completeness auto
termination
  by (relation "measures [\<lambda>(hw, s, words, timeout). words, \<lambda>(hw, s, words, timeout). 10002 - timeout]")
     auto

declare rx_loop.simps(2) [simp del]

function rx_tail :: "'h fspi_hw \<Rightarrow> 'h \<Rightarrow> nat \<Rightarrow> nat \<Rightarrow> 'h \<times> u8 list \<times> efi_status option" where
  "rx_tail hw s bytes timeout =
     (if bytes = 0 then (s, [], None)
      else let (fsr, s) = reg_rd hw s FSR
           in if 0 < fsr_rxlevel fsr then
                let (w, s) = reg_rd hw s DATA in (s, map (byte_of w) [0..<bytes], None)
              else if 10000 < timeout then (HAL_CPUDelayUs hw s 1, [], Some (Error EFI_TIMEOUT))
              else rx_tail hw (HAL_CPUDelayUs hw s 1) bytes (timeout + 1))"
  by pat_completeness auto
termination
  by (relation "measure (\<lambda>(hw, s, bytes, timeout). 10002 - timeout)") auto

declare rx_tail.simps [simp del]

text \<open>
  A time-out in the word loop does not end the receive: the remaining bytes are still polled for,
  after whatever words were stored, and the error is kept.
\<close>

definition HAL_FSPI_XferData ::
  "'h fspi_hw \<Rightarrow> 'h \<Rightarrow> u32 \<Rightarrow> (nat \<Rightarrow> u8) \<Rightarrow> SPI_MEM_DATA_DIR \<Rightarrow> ('h \<times> u8 list \<times> efi_status) run" where
  "HAL_FSPI_XferData hw s len data dir = do {
     assert_that (len \<noteq> 0);
     (if dir = HAL_SPI_MEM_DATA_OUT then
        let buf = (if len < 4 then (\<lambda>i. if i < unat len then data i else 0) else data);
            (s, ret) = tx_loop hw s buf 0 (unat (drop_bit 2 (len + 3))) 0
        in Some (s, [], ret)
      else
        let (s, bs, ret) = rx_loop hw s (unat (drop_bit 2 len)) 0;
            (s, cs, ret') = rx_tail hw s (unat (len AND 3)) 0
        in Some (s, bs @ cs, case ret' of None \<Rightarrow> ret | Some e \<Rightarrow> e))
   }"

function done_loop :: "'h fspi_hw \<Rightarrow> 'h \<Rightarrow> nat \<Rightarrow> 'h \<times> efi_status" where
  "done_loop hw s timeout =
     (let (sr, s) = reg_rd hw s SR
      in if \<not> sr_busy sr then (s, EFI_SUCCESS)
         else if 100000 < timeout then (HAL_CPUDelayUs hw s 1, Error EFI_TIMEOUT)
         else done_loop hw (HAL_CPUDelayUs hw s 1) (timeout + 1))"
  by pat_completeness auto
termination
  by (relation "measure (\<lambda>(hw, s, timeout). 100002 - timeout)") auto

declare done_loop.simps [simp del]

definition HAL_FSPI_XferDone :: "'h fspi_hw \<Rightarrow> 'h \<Rightarrow> 'h \<times> efi_status" where
  "HAL_FSPI_XferDone hw s = (let (s, ret) = done_loop hw s 0 in (HAL_CPUDelayUs hw s 1, ret))"

definition HAL_FSPI_SpiXfer ::
  "'h fspi_hw \<Rightarrow> HAL_FSPI_HOST \<Rightarrow> 'h \<Rightarrow> HAL_SPI_MEM_OP \<Rightarrow> ('h \<times> u8 list \<times> efi_status) run" where
  "HAL_FSPI_SpiXfer hw host s op =
     (let s = HAL_FSPI_XferStart hw host s op
      in case data_buf op of
           None \<Rightarrow> let (s, ret) = HAL_FSPI_XferDone hw s in Some (s, [], ret)
         | Some data \<Rightarrow> do {
             (s, bs, ret) \<leftarrow> HAL_FSPI_XferData hw s (data_nbytes op) data (data_dir op);
             (if ret \<noteq> EFI_SUCCESS then Some (s, bs, ret)
              else let (s, ret) = HAL_FSPI_XferDone hw s in Some (s, bs, ret))
           })"

section \<open>Initialisation\<close>

function init_loop :: "'h fspi_hw \<Rightarrow> 'h \<Rightarrow> nat \<Rightarrow> 'h \<times> efi_status" where
  "init_loop hw s timeout =
     (let (sr, s) = reg_rd hw s SR
      in if \<not> sr_busy sr then (s, EFI_SUCCESS)
         else if 1000 < timeout then (HAL_CPUDelayUs hw s 1, Error EFI_TIMEOUT)
         else init_loop hw (HAL_CPUDelayUs hw s 1) (timeout + 1))"
  by pat_completeness auto
termination
  by (relation "measure (\<lambda>(hw, s, timeout). 1002 - timeout)") auto

declare init_loop.simps [simp del]

definition HAL_FSPI_Init :: "'h fspi_hw \<Rightarrow> HAL_FSPI_HOST \<Rightarrow> 'h \<Rightarrow> 'h \<times> efi_status" where
  "HAL_FSPI_Init hw host s =
     (let (s, ret) = init_loop hw (reg_wr hw s MODE 0) 0
      in if ret \<noteq> EFI_SUCCESS then (s, ret)
         else let s = FSPI_ContModeInit hw host s;
                  s = reg_wr hw s CTRL0 0
              in (reg_wr hw s LEN_CTRL 1, EFI_SUCCESS))"

definition HAL_FSPI_DeInit :: "'h fspi_hw \<Rightarrow> 'h \<Rightarrow> 'h \<times> efi_status" where
  "HAL_FSPI_DeInit hw s = (FSPI_Reset hw (FSPI_ContModeDeInit hw (reg_wr hw s MODE 0)), EFI_SUCCESS)"

definition HAL_FSPI_SetDelayLines :: "'h fspi_hw \<Rightarrow> HAL_FSPI_HOST \<Rightarrow> 'h \<Rightarrow> u8 \<Rightarrow> 'h \<times> efi_status" where
  "HAL_FSPI_SetDelayLines hw host s cells =
     (reg_wr hw s (if host_cs host = 0 then DLL_CTRL0 else DLL_CTRL1) (push_bit 15 1 OR ucast cells),
      EFI_SUCCESS)"

definition HAL_FSPI_GetMaxIoSize :: u32 where
  "HAL_FSPI_GetMaxIoSize = 0xFFFFFFFF"

section \<open>Bytes of a register word\<close>

lemma and_masks:
  "x AND 255 = take_bit 8 x" "x AND 31 = take_bit 5 x" "x AND 15 = take_bit 4 x"
  "x AND 3 = take_bit 2 x" "x AND 1 = take_bit 1 x" for x :: u32
  by (simp_all add: take_bit_eq_mask mask_eq_exp_minus_1)

lemma byte_of_word_of_0 [simp]: "byte_of (word_of a b c d) 0 = a"
  by (rule bit_word_eqI) (auto simp: byte_of_def word_of_def and_masks bit_simps dest: bit_imp_le_length)

lemma byte_of_word_of_1 [simp]: "byte_of (word_of a b c d) (Suc 0) = b"
  by (rule bit_word_eqI) (auto simp: byte_of_def word_of_def and_masks bit_simps dest: bit_imp_le_length)

lemma byte_of_word_of_2 [simp]: "byte_of (word_of a b c d) 2 = c"
  by (rule bit_word_eqI) (auto simp: byte_of_def word_of_def and_masks bit_simps dest: bit_imp_le_length)

lemma byte_of_word_of_3 [simp]: "byte_of (word_of a b c d) 3 = d"
  by (rule bit_word_eqI) (auto simp: byte_of_def word_of_def and_masks bit_simps dest: bit_imp_le_length)

end
