(* ===== verification/NorFlash.thy ===== *)
theory NorFlash
  imports Fspi
begin

text \<open>
  The SPI NOR flash driver (\<open>Drivers/NorFlashDxe/NorFlashDxe.c\<close>, \<open>Include/Library/Snor.h\<close>):
  register and data transactions, status polling, the read, program, erase and overwrite
  operations of the HAL, chip detection and set-up, and the \<open>UNI_NOR_FLASH_PROTOCOL\<close>
  functions with the read-modify-write update.

  The driver talks to the bus through \<open>HAL_FSPI_SpiXfer\<close> only, here the component \<open>spi_xfer\<close> of
  \<open>nor_env\<close>; theory \<open>NorChip\<close> instantiates it with the FSPI driver. Buffers are addresses in a
  byte memory. Uninitialised locals hold the bytes \<open>uninit\<close>.
\<close>

section \<open>Environment and data\<close>

record 'h nor_env =
  spi_xfer :: "'h \<Rightarrow> HAL_SPI_MEM_OP \<Rightarrow> ('h \<times> u8 list \<times> efi_status) run"
  NanoSecondDelay :: "'h \<Rightarrow> nat \<Rightarrow> 'h"
  EfiAtRuntime :: bool
  NorFspiEnableClock :: "'h \<Rightarrow> 'h"
  uninit :: "nat \<Rightarrow> u8"

record FLASH_INFO =
  flash_ID :: u32
  blockSize :: u8
  info_sectorSize :: u8
  readCmd :: u8
  progCmd :: u8
  readCmd_4 :: u8
  progCmd_4 :: u8
  sectorEraseCmd :: u8
  blockEraseCmd :: u8
  feature :: u8
  density :: u8
  QEBits :: u8

record SPI_NOR =
  spi :: HAL_FSPI_HOST
  info :: FLASH_INFO
  pageSize :: u32
  addrWidth :: u8
  eraseOpcodeSec :: u8
  eraseOpcodeBlk :: u8
  readOpcode :: u8
  readDummy :: u8
  programOpcode :: u8
  readProto :: nat
  writeProto :: nat
  nor_size :: u32
  sectorSize :: u32
  eraseSize :: u32

datatype NOR_ERASE_TYPE = ERASE_SECTOR | ERASE_BLOCK64K | ERASE_CHIP

definition FLASH_ENTRY ::
  "u32 \<Rightarrow> u8 \<Rightarrow> u8 \<Rightarrow> u8 \<Rightarrow> u8 \<Rightarrow> u8 \<Rightarrow> u8 \<Rightarrow> u8 \<Rightarrow> u8 \<Rightarrow> u8 \<Rightarrow> u8 \<Rightarrow> u8 \<Rightarrow> FLASH_INFO" where
  "FLASH_ENTRY i bsz ssz rc pc rc4 pc4 sec blk fea den qe =
     \<lparr>flash_ID = i, blockSize = bsz, info_sectorSize = ssz, readCmd = rc, progCmd = pc, readCmd_4 = rc4,
      progCmd_4 = pc4, sectorEraseCmd = sec, blockEraseCmd = blk, feature = fea, density = den,
      QEBits = qe\<rparr>"

definition s_spiFlashbl :: "FLASH_INFO list" where
  "s_spiFlashbl =
    [FLASH_ENTRY 0xc84016 128 8 0x03 0x02 0x6B 0x32 0x20 0xD8 0x0D 13 9,
     FLASH_ENTRY 0xc84017 128 8 0x03 0x02 0x6B 0x32 0x20 0xD8 0x0D 14 9,
     FLASH_ENTRY 0xc84018 128 8 0x03 0x02 0x6B 0x32 0x20 0xD8 0x0C 15 9,
     FLASH_ENTRY 0xc84019 128 8 0x13 0x12 0x6C 0x3E 0x21 0xDC 0x1C 16 6,
     FLASH_ENTRY 0xc86017 128 8 0x03 0x02 0x6B 0x32 0x20 0xD8 0x0D 14 9,
     FLASH_ENTRY 0xc86016 128 8 0x03 0x02 0x6B 0x32 0x20 0xD8 0x0D 13 9,
     FLASH_ENTRY 0xc86019 128 8 0x03 0x02 0x6B 0x32 0x20 0xD8 0x0D 16 9,
     FLASH_ENTRY 0xef4016 128 8 0x03 0x02 0x6B 0x32 0x20 0xD8 0x0C 13 9,
     FLASH_ENTRY 0xef4017 128 8 0x03 0x02 0x6B 0x32 0x20 0xD8 0x0C 14 9,
     FLASH_ENTRY 0xef4018 128 8 0x03 0x02 0x6B 0x32 0x20 0xD8 0x0C 15 9,
     FLASH_ENTRY 0xef4019 128 8 0x13 0x02 0x6C 0x32 0x20 0xD8 0x3C 16 9,
     FLASH_ENTRY 0xef6016 128 8 0x03 0x02 0x6B 0x32 0x20 0xD8 0x0C 13 9,
     FLASH_ENTRY 0xef6019 128 8 0x13 0x02 0x6C 0x32 0x20 0xD8 0x3C 16 9,
     FLASH_ENTRY 0xef6017 128 8 0x03 0x02 0x6B 0x32 0x20 0xD8 0x0C 14 9,
     FLASH_ENTRY 0xef7017 128 8 0x03 0x02 0x6B 0x32 0x20 0xD8 0x0C 14 9,
     FLASH_ENTRY 0xef7018 128 8 0x03 0x02 0x6B 0x32 0x20 0xD8 0x0C 15 9,
     FLASH_ENTRY 0xc22016 128 8 0x03 0x02 0x6B 0x38 0x20 0xD8 0x0E 13 6,
     FLASH_ENTRY 0xc22017 128 8 0x03 0x02 0x6B 0x38 0x20 0xD8 0x0E 14 6,
     FLASH_ENTRY 0xc22018 128 8 0x03 0x02 0x6B 0x38 0x20 0xD8 0x0E 15 6,
     FLASH_ENTRY 0xc22538 128 8 0x03 0x02 0x6B 0x32 0x20 0xD8 0x0E 15 6,
     FLASH_ENTRY 0xc22019 128 8 0x13 0x12 0x6C 0x3E 0x21 0xDC 0x1E 16 6,
     FLASH_ENTRY 0x204016 128 8 0x03 0x02 0x6B 0x32 0x20 0xD8 0x0C 13 9,
     FLASH_ENTRY 0x206017 128 8 0x03 0x02 0x6B 0x32 0x20 0xD8 0x0D 14 6,
     FLASH_ENTRY 0x206018 128 8 0x03 0x02 0x6B 0x32 0x20 0xD8 0x0D 15 6,
     FLASH_ENTRY 0x206019 128 8 0x13 0x12 0x6C 0x3E 0x21 0xDC 0x1D 16 6,
     FLASH_ENTRY 0x207017 128 8 0x03 0x02 0x6B 0x32 0x20 0xD8 0x0C 14 0,
     FLASH_ENTRY 0x204118 128 8 0x03 0x02 0x6B 0x32 0x20 0xD8 0x0C 15 9,
     FLASH_ENTRY 0x204117 128 8 0x03 0x02 0x6B 0x32 0x20 0xD8 0x0C 14 9,
     FLASH_ENTRY 0x0b4017 128 8 0x03 0x02 0x6B 0x32 0x20 0xD8 0x0D 14 9,
     FLASH_ENTRY 0x0b4018 128 8 0x03 0x02 0x6B 0x32 0x20 0xD8 0x0D 15 9,
     FLASH_ENTRY 0x0b4016 128 8 0x03 0x02 0x6B 0x32 0x20 0xD8 0x0D 13 9,
     FLASH_ENTRY 0x0b4015 128 8 0x03 0x02 0x6B 0x32 0x20 0xD8 0x0D 12 9,
     FLASH_ENTRY 0x1c7017 128 8 0x03 0x02 0x6B 0x32 0x20 0xD8 0x0C 14 0,
     FLASH_ENTRY 0x1c7018 128 8 0x03 0x02 0x6B 0x32 0x20 0xD8 0x0C 15 0,
     FLASH_ENTRY 0x1c7016 128 8 0x03 0x02 0x6B 0x32 0x20 0xD8 0x0C 13 0,
     FLASH_ENTRY 0x1c3815 128 8 0x03 0x02 0x6B 0x32 0x20 0xD8 0x0C 12 0,
     FLASH_ENTRY 0x1c3816 128 8 0x03 0x02 0x6B 0x32 0x20 0xD8 0x0C 13 0,
     FLASH_ENTRY 0x1c3817 128 8 0x03 0x02 0x6B 0x32 0x20 0xD8 0x0C 14 0,
     FLASH_ENTRY 0x1c7019 128 8 0x13 0x12 0x6C 0x34 0x21 0xDC 0x3C 16 0,
     FLASH_ENTRY 0x856017 128 8 0x03 0x02 0x6B 0x32 0x20 0xD8 0x0C 14 9,
     FLASH_ENTRY 0x856018 128 8 0x03 0x02 0x6B 0x32 0x20 0xD8 0x0C 15 9,
     FLASH_ENTRY 0x856015 128 8 0x03 0x02 0x6B 0x32 0x20 0xD8 0x0D 12 9,
     FLASH_ENTRY 0xf83217 128 8 0x03 0x02 0x6B 0x32 0x20 0xD8 0x0D 14 9,
     FLASH_ENTRY 0xf84317 128 8 0x03 0x02 0x6B 0x32 0x20 0xD8 0x0D 14 9,
     FLASH_ENTRY 0x856016 128 8 0x03 0x02 0x6B 0x32 0x20 0xD8 0x0C 13 9,
     FLASH_ENTRY 0x5e4017 128 8 0x03 0x02 0x6B 0x32 0x20 0xD8 0x0C 14 9,
     FLASH_ENTRY 0x5e4018 128 8 0x03 0x02 0x6B 0x32 0x20 0xD8 0x0C 15 9,
     FLASH_ENTRY 0x5e5018 128 8 0x03 0x02 0x6B 0x32 0x20 0xD8 0x0C 15 9,
     FLASH_ENTRY 0x684018 128 8 0x03 0x02 0x6B 0x32 0x20 0xD8 0x0C 15 9,
     FLASH_ENTRY 0x684017 128 8 0x03 0x02 0x6B 0x32 0x20 0xD8 0x0C 14 9,
     FLASH_ENTRY 0x856017 128 8 0x03 0x02 0x6B 0x32 0x20 0xD8 0x0C 14 9,
     FLASH_ENTRY 0xA14017 128 8 0x03 0x02 0x6B 0x32 0x20 0xD8 0x0C 14 9,
     FLASH_ENTRY 0xf83217 128 8 0x03 0x02 0x6B 0x32 0x20 0xD8 0x0D 14 9,
     FLASH_ENTRY 0xf84218 128 8 0x03 0x02 0x6B 0x32 0x20 0xD8 0x0D 15 9]"

definition s_commonSpiFlash :: FLASH_INFO where
  "s_commonSpiFlash = FLASH_ENTRY 0 128 8 0x03 0x02 0x6B 0x32 0x20 0xD8 0x00 0 0"

definition FEA_STATUE_MASK :: u8 where "FEA_STATUE_MASK = 3"
definition FEA_STATUE_MODE0 :: u8 where "FEA_STATUE_MODE0 = 0"
definition FEA_STATUE_MODE2 :: u8 where "FEA_STATUE_MODE2 = 2"
definition FEA_4BYTE_ADDR :: u8 where "FEA_4BYTE_ADDR = 16"
definition FEA_4BYTE_ADDR_MODE :: u8 where "FEA_4BYTE_ADDR_MODE = 32"

definition SPINOR_OP_WREN :: u8 where "SPINOR_OP_WREN = 0x06"
definition SPINOR_OP_RDSR :: u8 where "SPINOR_OP_RDSR = 0x05"
definition SPINOR_OP_WRSR :: u8 where "SPINOR_OP_WRSR = 0x01"
definition SPINOR_OP_RDSR1 :: u8 where "SPINOR_OP_RDSR1 = 0x35"
definition SPINOR_OP_WRSR1 :: u8 where "SPINOR_OP_WRSR1 = 0x31"
definition SPINOR_OP_RDSR2 :: u8 where "SPINOR_OP_RDSR2 = 0x15"
definition SPINOR_OP_RDCR :: u8 where "SPINOR_OP_RDCR = 0x15"
definition SPINOR_OP_CHIP_ERASE :: u8 where "SPINOR_OP_CHIP_ERASE = 0xC7"
definition SPINOR_OP_RDID :: u8 where "SPINOR_OP_RDID = 0x9F"
definition SPINOR_OP_READ_UUID :: u8 where "SPINOR_OP_READ_UUID = 0x4B"
definition SPINOR_OP_READ_SFDP :: u8 where "SPINOR_OP_READ_SFDP = 0x5A"
definition SPINOR_OP_EN4B :: u8 where "SPINOR_OP_EN4B = 0xB7"
definition SPINOR_OP_READ_1_1_2 :: u8 where "SPINOR_OP_READ_1_1_2 = 0x3B"
definition SPINOR_OP_READ_1_4_4 :: u8 where "SPINOR_OP_READ_1_4_4 = 0xEB"
definition SPINOR_OP_PP_1_4_4 :: u8 where "SPINOR_OP_PP_1_4_4 = 0x38"

definition SNOR_PROTO_STR :: "nat \<Rightarrow> nat \<Rightarrow> nat \<Rightarrow> nat" where
  "SNOR_PROTO_STR a b c = push_bit 8 a OR push_bit 4 b OR c"

definition SNOR_GET_PROTOCOL_ADDR_BITS :: "nat \<Rightarrow> u8" where
  "SNOR_GET_PROTOCOL_ADDR_BITS proto = of_nat (drop_bit 4 proto AND 15)"

definition SNOR_GET_PROTOCOL_DATA_BITS :: "nat \<Rightarrow> u8" where
  "SNOR_GET_PROTOCOL_DATA_BITS proto = of_nat (proto AND 15)"

definition READ_MAX_IOSIZE :: u32 where
  "READ_MAX_IOSIZE = 1024 * 8"

text \<open>What lies behind a pointer; NULL is the address 0.\<close>

definition ptr :: "mem \<Rightarrow> nat \<Rightarrow> (nat \<Rightarrow> u8) option" where
  "ptr m a = (if a = 0 then None else Some (\<lambda>i. m (a + i)))"

text \<open>An array of \<open>n\<close> bytes on the stack after a transfer stored \<open>bs\<close> in it.\<close>

definition local_bytes :: "'h nor_env \<Rightarrow> nat \<Rightarrow> u8 list \<Rightarrow> u8 list" where
  "local_bytes env n bs = map (\<lambda>i. if i < length bs then bs ! i else uninit env i) [0..<n]"

section \<open>Transactions\<close>

definition cmd_op :: "u8 \<Rightarrow> HAL_SPI_MEM_OP" where
  "cmd_op opcode =
     \<lparr>cmd_buswidth = 1, cmd_opcode = opcode, addr_nbytes = 0, addr_buswidth = 0, addr_val = 0,
      dummy_nbytes = 0, dummy_buswidth = 0, data_buswidth = 0, data_dir = HAL_SPI_MEM_DATA_IN,
      data_nbytes = 0, data_buf = None\<rparr>"

definition SNOR_ReadWriteReg ::
  "'h nor_env \<Rightarrow> 'h \<Rightarrow> HAL_SPI_MEM_OP \<Rightarrow> (nat \<Rightarrow> u8) option \<Rightarrow> ('h \<times> u8 list \<times> efi_status) run" where
  "SNOR_ReadWriteReg env s op buf = spi_xfer env s (op\<lparr>data_buf := buf\<rparr>)"

definition SNOR_ReadReg ::
  "'h nor_env \<Rightarrow> 'h \<Rightarrow> u8 \<Rightarrow> u32 \<Rightarrow> ('h \<times> u8 list \<times> efi_status) run" where
  "SNOR_ReadReg env s code len =
     SNOR_ReadWriteReg env s
       ((cmd_op code)\<lparr>data_buswidth := 1, data_dir := HAL_SPI_MEM_DATA_IN, data_nbytes := len\<rparr>)
       (Some (uninit env))"

definition SNOR_WriteReg ::
  "'h nor_env \<Rightarrow> 'h \<Rightarrow> u8 \<Rightarrow> (nat \<Rightarrow> u8) option \<Rightarrow> u32 \<Rightarrow> ('h \<times> efi_status) run" where
  "SNOR_WriteReg env s opcode buf len = do {
     (s, _, ret) \<leftarrow> SNOR_ReadWriteReg env s
       ((cmd_op opcode)\<lparr>data_buswidth := 1, data_dir := HAL_SPI_MEM_DATA_OUT, data_nbytes := len\<rparr>) buf;
     Some (s, ret)
   }"

text \<open>The result is the number of bytes: 0 after a failed transfer.\<close>

definition read_op :: "SPI_NOR \<Rightarrow> mem \<Rightarrow> u32 \<Rightarrow> u32 \<Rightarrow> nat \<Rightarrow> HAL_SPI_MEM_OP" where
  "read_op nor m from len buf =
     (let abits = SNOR_GET_PROTOCOL_ADDR_BITS (readProto nor)
      in \<lparr>cmd_buswidth = 1, cmd_opcode = readOpcode nor, addr_nbytes = addrWidth nor,
          addr_buswidth = abits, addr_val = from,
          dummy_nbytes = ucast (drop_bit 3 (ucast (readDummy nor) * ucast abits :: u32)),
          dummy_buswidth = abits,
          data_buswidth = SNOR_GET_PROTOCOL_DATA_BITS (readProto nor),
          data_dir = HAL_SPI_MEM_DATA_IN, data_nbytes = len, data_buf = ptr m buf\<rparr>)"

definition SNOR_ReadData ::
  "'h nor_env \<Rightarrow> SPI_NOR \<Rightarrow> 'h \<Rightarrow> mem \<Rightarrow> u32 \<Rightarrow> u32 \<Rightarrow> nat \<Rightarrow> ('h \<times> mem \<times> nat) run" where
  "SNOR_ReadData env nor s m from len buf = do {
     (s, bs, ret) \<leftarrow> spi_xfer env s (read_op nor m from len buf);
     Some (s, wr m buf bs, if ret \<noteq> EFI_SUCCESS then 0 else unat len)
   }"

definition prog_op :: "SPI_NOR \<Rightarrow> mem \<Rightarrow> u32 \<Rightarrow> u32 \<Rightarrow> nat \<Rightarrow> HAL_SPI_MEM_OP" where
  "prog_op nor m to len buf =
     \<lparr>cmd_buswidth = 1, cmd_opcode = programOpcode nor, addr_nbytes = addrWidth nor,
      addr_buswidth = SNOR_GET_PROTOCOL_ADDR_BITS (writeProto nor), addr_val = to,
      dummy_nbytes = 0, dummy_buswidth = 0,
      data_buswidth = SNOR_GET_PROTOCOL_DATA_BITS (writeProto nor),
      data_dir = HAL_SPI_MEM_DATA_OUT, data_nbytes = len, data_buf = ptr m buf\<rparr>"

definition SNOR_WriteData ::
  "'h nor_env \<Rightarrow> SPI_NOR \<Rightarrow> 'h \<Rightarrow> mem \<Rightarrow> u32 \<Rightarrow> u32 \<Rightarrow> nat \<Rightarrow> ('h \<times> nat) run" where
  "SNOR_WriteData env nor s m to len buf = do {
     (s, _, ret) \<leftarrow> spi_xfer env s (prog_op nor m to len buf);
     Some (s, if ret \<noteq> EFI_SUCCESS then 0 else unat len)
   }"

definition addr_op :: "SPI_NOR \<Rightarrow> u8 \<Rightarrow> u32 \<Rightarrow> HAL_SPI_MEM_OP" where
  "addr_op nor opcode addr =
     (cmd_op opcode)\<lparr>addr_nbytes := addrWidth nor, addr_val := addr, addr_buswidth := 1\<rparr>"

definition run_op :: "'h nor_env \<Rightarrow> 'h \<Rightarrow> HAL_SPI_MEM_OP \<Rightarrow> ('h \<times> efi_status) run" where
  "run_op env s op = do { (s, _, ret) \<leftarrow> spi_xfer env s op; Some (s, ret) }"

definition SNOR_EraseSec :: "'h nor_env \<Rightarrow> SPI_NOR \<Rightarrow> 'h \<Rightarrow> u32 \<Rightarrow> ('h \<times> efi_status) run" where
  "SNOR_EraseSec env nor s addr = run_op env s (addr_op nor (eraseOpcodeSec nor) addr)"

definition SNOR_EraseBlk :: "'h nor_env \<Rightarrow> SPI_NOR \<Rightarrow> 'h \<Rightarrow> u32 \<Rightarrow> ('h \<times> efi_status) run" where
  "SNOR_EraseBlk env nor s addr = run_op env s (addr_op nor (eraseOpcodeBlk nor) addr)"

definition SNOR_EraseChip :: "'h nor_env \<Rightarrow> 'h \<Rightarrow> ('h \<times> efi_status) run" where
  "SNOR_EraseChip env s = run_op env s (cmd_op SPINOR_OP_CHIP_ERASE)"

definition flash_id :: "u8 list \<Rightarrow> u32" where
  "flash_id b = push_bit 16 (ucast (b ! 0)) OR push_bit 8 (ucast (b ! 1)) OR ucast (b ! 2)"

definition SNOR_GerFlashInfo :: "u8 list \<Rightarrow> FLASH_INFO option" where
  "SNOR_GerFlashInfo flashId = find (\<lambda>e. flash_ID e = flash_id flashId) s_spiFlashbl"

definition SNOR_WriteEnable :: "'h nor_env \<Rightarrow> 'h \<Rightarrow> ('h \<times> efi_status) run" where
  "SNOR_WriteEnable env s = SNOR_WriteReg env s SPINOR_OP_WREN None 0"

fun SNOR_WaitBusy :: "'h nor_env \<Rightarrow> 'h \<Rightarrow> nat \<Rightarrow> ('h \<times> efi_status) run" where
  "SNOR_WaitBusy env s 0 = Some (s, Error EFI_NOT_READY)"
| "SNOR_WaitBusy env s (Suc timeout) = do {
     (s, bs, ret) \<leftarrow> SNOR_ReadReg env s SPINOR_OP_RDSR 1;
     (if ret \<noteq> EFI_SUCCESS then Some (s, ret)
      else if (local_bytes env 1 bs ! 0) AND 1 = 0 then Some (s, EFI_SUCCESS)
      else SNOR_WaitBusy env (NanoSecondDelay env s 500) timeout)
   }"

section \<open>Status registers\<close>

definition SNOR_ReadStatus ::
  "'h nor_env \<Rightarrow> SPI_NOR \<Rightarrow> 'h \<Rightarrow> nat \<Rightarrow> ('h \<times> u8 list \<times> efi_status) run" where
  "SNOR_ReadStatus env nor s regIndex =
     (let i = feature (info nor) AND FEA_STATUE_MASK;
          readStatCmd = [SPINOR_OP_RDSR, SPINOR_OP_RDSR1, SPINOR_OP_RDSR2];
          readStatCmd = (if i = FEA_STATUE_MODE2 then readStatCmd[1 := SPINOR_OP_RDCR] else readStatCmd)
      in if regIndex < 3 then SNOR_ReadReg env s (readStatCmd ! regIndex) 1 else None)"

definition SNOR_WriteStatus ::
  "'h nor_env \<Rightarrow> SPI_NOR \<Rightarrow> 'h \<Rightarrow> nat \<Rightarrow> u8 \<Rightarrow> ('h \<times> efi_status) run" where
  "SNOR_WriteStatus env nor s regIndex status =
     (if regIndex \<ge> 2 then None
      else if feature (info nor) AND FEA_STATUE_MASK = FEA_STATUE_MODE0 then do {
        (s, _) \<leftarrow> SNOR_WriteEnable env s;
        (s, ret) \<leftarrow> SNOR_WriteReg env s ([SPINOR_OP_WRSR, SPINOR_OP_WRSR1] ! regIndex) (Some (\<lambda>i. status)) 1;
        (if ret \<noteq> EFI_SUCCESS then Some (s, Error EFI_DEVICE_ERROR)
         else do {
           (s, ret) \<leftarrow> SNOR_WaitBusy env s 10000;
           Some (s, if ret \<noteq> EFI_SUCCESS then ret else EFI_SUCCESS)
         })
      } else do {
        (s, bs, ret) \<leftarrow> SNOR_ReadStatus env nor s (if regIndex = 0 then 1 else 0);
        (if ret \<noteq> EFI_SUCCESS then Some (s, ret)
         else do {
           other \<leftarrow> Some (local_bytes env 1 bs ! 0);
           (s, _) \<leftarrow> SNOR_WriteEnable env s;
           (s, ret) \<leftarrow> SNOR_WriteReg env s SPINOR_OP_WRSR
             (Some (\<lambda>i. if i = regIndex then status else other)) 2;
           (if ret \<noteq> EFI_SUCCESS then Some (s, ret)
            else do {
              (s, _) \<leftarrow> SNOR_WaitBusy env s 10000;
              Some (s, EFI_SUCCESS)
            })
         })
      })"

definition SNOR_EnableQE :: "'h nor_env \<Rightarrow> SPI_NOR \<Rightarrow> 'h \<Rightarrow> ('h \<times> efi_status) run" where
  "SNOR_EnableQE env nor s =
     (let regIndex = unat (drop_bit 3 (QEBits (info nor)));
          bitOffset = unat (QEBits (info nor) AND 7)
      in do {
        (s, bs, ret) \<leftarrow> SNOR_ReadStatus env nor s regIndex;
        (if ret \<noteq> EFI_SUCCESS then Some (s, ret)
         else let status = local_bytes env 1 bs ! 0
              in if bit status bitOffset then Some (s, EFI_SUCCESS)
                 else SNOR_WriteStatus env nor s regIndex (status OR push_bit bitOffset 1))
      })"

definition SNOR_Enter4byte :: "'h nor_env \<Rightarrow> 'h \<Rightarrow> ('h \<times> efi_status) run" where
  "SNOR_Enter4byte env s = SNOR_WriteReg env s SPINOR_OP_EN4B None 0"

definition SNOR_ReadSFDP :: "'h nor_env \<Rightarrow> 'h \<Rightarrow> u32 \<Rightarrow> ('h \<times> u8 list \<times> efi_status) run" where
  "SNOR_ReadSFDP env s addr =
     spi_xfer env s
       \<lparr>cmd_buswidth = 1, cmd_opcode = SPINOR_OP_READ_SFDP, addr_nbytes = 3, addr_buswidth = 1,
        addr_val = addr, dummy_nbytes = 1, dummy_buswidth = 1, data_buswidth = 1,
        data_dir = HAL_SPI_MEM_DATA_IN, data_nbytes = 1, data_buf = Some (uninit env)\<rparr>"

definition SNOR_InfoAdjust :: "'h nor_env \<Rightarrow> 'h \<Rightarrow> FLASH_INFO \<Rightarrow> ('h \<times> FLASH_INFO) run" where
  "SNOR_InfoAdjust env s fi =
     (if flash_ID fi = 0xC84019 then do {
        (s, bs, _) \<leftarrow> SNOR_ReadSFDP env s 0x09;
        Some (s, if local_bytes env 1 bs ! 0 = 0x06 then fi\<lparr>QEBits := 9, progCmd_4 := 0x34\<rparr> else fi)
      } else Some (s, fi))"

section \<open>Reading, programming, erasing\<close>

function read_loop ::
  "'h nor_env \<Rightarrow> SPI_NOR \<Rightarrow> 'h \<Rightarrow> mem \<Rightarrow> u32 \<Rightarrow> nat \<Rightarrow> u32 \<Rightarrow> ('h \<times> mem \<times> nat option) run" where
  "read_loop env nor s m from pBuf remain =
     (if remain = 0 then Some (s, m, None)
      else let sz = min READ_MAX_IOSIZE remain
           in case SNOR_ReadData env nor s m from sz pBuf of
                None \<Rightarrow> None
              | Some (s, m, ret) \<Rightarrow>
                  if ret \<noteq> unat sz then Some (s, m, Some ret)
                  else read_loop env nor s m (from + sz) (pBuf + unat sz) (remain - sz))"
  by pat_completeness auto
termination
proof (relation "measure (\<lambda>(env, nor, s, m, from, pBuf, remain). unat remain)", goal_cases)
  case (2 env nor s m a pBuf remain sz)
  have "0 < min READ_MAX_IOSIZE remain" "min READ_MAX_IOSIZE remain \<le> remain"
    using 2(1) by (auto simp: READ_MAX_IOSIZE_def min_def word_gt_0)
  then show ?case
    using 2(1,2) by (simp add: unat_sub_no_wrap word_less_nat_alt word_le_nat_alt)
qed simp

declare read_loop.simps [simp del]

definition out_of_range :: "SPI_NOR \<Rightarrow> u32 \<Rightarrow> u32 \<Rightarrow> bool" where
  "out_of_range nor a len \<longleftrightarrow> a \<ge> nor_size nor \<or> len > nor_size nor \<or> a + len > nor_size nor"

definition HAL_SNOR_ReadData ::
  "'h nor_env \<Rightarrow> SPI_NOR \<Rightarrow> 'h \<Rightarrow> mem \<Rightarrow> u32 \<Rightarrow> nat \<Rightarrow> u32 \<Rightarrow> ('h \<times> mem \<times> efi_status) run" where
  "HAL_SNOR_ReadData env nor s m from buf len =
     (if out_of_range nor from len then Some (s, m, Error EFI_DEVICE_ERROR)
      else do {
        (s, m, early) \<leftarrow> read_loop env nor s m from buf len;
        Some (s, m, Value (case early of None \<Rightarrow> unat len | Some ret \<Rightarrow> ret))
      })"

function prog_loop ::
  "'h nor_env \<Rightarrow> SPI_NOR \<Rightarrow> 'h \<Rightarrow> mem \<Rightarrow> u32 \<Rightarrow> nat \<Rightarrow> u32 \<Rightarrow> ('h \<times> nat option) run" where
  "prog_loop env nor s m to pBuf remain =
     (if remain = 0 then Some (s, None)
      else let sz = min (pageSize nor - (to AND (pageSize nor - 1))) remain
           in if sz = 0 then None
              else case SNOR_WriteEnable env s of
                None \<Rightarrow> None
              | Some (s, _) \<Rightarrow>
                (case SNOR_WriteData env nor s m to sz pBuf of
                   None \<Rightarrow> None
                 | Some (s, ret) \<Rightarrow>
                     if ret \<noteq> unat sz then Some (s, Some ret)
                     else (case SNOR_WaitBusy env s 10000 of
                        None \<Rightarrow> None
                      | Some (s, _) \<Rightarrow>
                          prog_loop env nor s m (to + sz) (pBuf + unat sz) (remain - sz))))"
  by pat_completeness auto
termination
proof (relation "measure (\<lambda>(env, nor, s, m, to, pBuf, remain). unat remain)", goal_cases)
  case (2 env nor s m to pBuf remain sz)
  have "0 < sz" "sz \<le> remain"
    using 2(2,3) by (auto simp: word_gt_0)
  then show ?case
    by (simp add: unat_sub_no_wrap word_less_nat_alt word_le_nat_alt)
qed simp

declare prog_loop.simps [simp del]

definition HAL_SNOR_ProgData ::
  "'h nor_env \<Rightarrow> SPI_NOR \<Rightarrow> 'h \<Rightarrow> mem \<Rightarrow> u32 \<Rightarrow> nat \<Rightarrow> u32 \<Rightarrow> ('h \<times> efi_status) run" where
  "HAL_SNOR_ProgData env nor s m to buf len =
     (if out_of_range nor to len then Some (s, Error EFI_DEVICE_ERROR)
      else do {
        (s, early) \<leftarrow> prog_loop env nor s m to buf len;
        Some (s, Value (case early of None \<Rightarrow> unat len | Some ret \<Rightarrow> ret))
      })"

definition erase_timeout :: "NOR_ERASE_TYPE \<Rightarrow> nat" where
  "erase_timeout t = (case t of ERASE_SECTOR \<Rightarrow> 400 | ERASE_BLOCK64K \<Rightarrow> 2000 | ERASE_CHIP \<Rightarrow> 40000)"

definition HAL_SNOR_Erase ::
  "'h nor_env \<Rightarrow> SPI_NOR \<Rightarrow> 'h \<Rightarrow> u32 \<Rightarrow> NOR_ERASE_TYPE \<Rightarrow> ('h \<times> efi_status) run" where
  "HAL_SNOR_Erase env nor s addr eraseType =
     (if addr \<ge> nor_size nor then Some (s, Error EFI_DEVICE_ERROR)
      else do {
        (s, _) \<leftarrow> SNOR_WriteEnable env s;
        (s, ret) \<leftarrow> (case eraseType of
           ERASE_SECTOR \<Rightarrow> SNOR_EraseSec env nor s addr
         | ERASE_BLOCK64K \<Rightarrow> SNOR_EraseBlk env nor s addr
         | ERASE_CHIP \<Rightarrow> SNOR_EraseChip env s);
        (if ret \<noteq> EFI_SUCCESS then Some (s, ret)
         else SNOR_WaitBusy env s (erase_timeout eraseType * 1000))
      })"

definition HAL_SNOR_Read ::
  "'h nor_env \<Rightarrow> SPI_NOR \<Rightarrow> 'h \<Rightarrow> mem \<Rightarrow> u32 \<Rightarrow> u32 \<Rightarrow> nat \<Rightarrow> ('h \<times> mem \<times> efi_status) run" where
  "HAL_SNOR_Read env nor s m sec nSec pData = do {
     (s, m, ret) \<leftarrow> HAL_SNOR_ReadData env nor s m (sec * sectorSize nor) pData (nSec * sectorSize nor);
     Some (s, m, if ret \<noteq> Value (unat (nSec * sectorSize nor)) then ret else Value (unat nSec))
   }"

definition HAL_SNOR_Write ::
  "'h nor_env \<Rightarrow> SPI_NOR \<Rightarrow> 'h \<Rightarrow> mem \<Rightarrow> u32 \<Rightarrow> u32 \<Rightarrow> nat \<Rightarrow> ('h \<times> efi_status) run" where
  "HAL_SNOR_Write env nor s m sec nSec pData = do {
     (s, ret) \<leftarrow> HAL_SNOR_ProgData env nor s m (sec * sectorSize nor) pData (nSec * sectorSize nor);
     Some (s, if ret \<noteq> Value (unat (nSec * sectorSize nor)) then ret else Value (unat nSec))
   }"

fun overwrite_loop ::
  "'h nor_env \<Rightarrow> SPI_NOR \<Rightarrow> 'h \<Rightarrow> mem \<Rightarrow> u32 \<Rightarrow> nat \<Rightarrow> nat \<Rightarrow> ('h \<times> efi_status option) run" where
  "overwrite_loop env nor s m sec pBuf 0 = Some (s, None)"
| "overwrite_loop env nor s m sec pBuf (Suc remaining) = do {
     (s, ret) \<leftarrow> HAL_SNOR_Erase env nor s (sec * sectorSize nor) ERASE_SECTOR;
     (if ret \<noteq> EFI_SUCCESS then Some (s, Some ret)
      else do {
        (s, ret) \<leftarrow> HAL_SNOR_ProgData env nor s m (sec * sectorSize nor) pBuf (sectorSize nor);
        (if ret \<noteq> Value (unat (sectorSize nor)) then Some (s, Some ret)
         else overwrite_loop env nor s m (sec + 1) (pBuf + unat (sectorSize nor)) remaining)
      })
   }"

definition HAL_SNOR_OverWrite ::
  "'h nor_env \<Rightarrow> SPI_NOR \<Rightarrow> 'h \<Rightarrow> mem \<Rightarrow> u32 \<Rightarrow> u32 \<Rightarrow> nat \<Rightarrow> ('h \<times> efi_status) run" where
  "HAL_SNOR_OverWrite env nor s m sec nSec pData = do {
     (s, early) \<leftarrow> overwrite_loop env nor s m sec pData (unat nSec);
     Some (s, case early of None \<Rightarrow> Value (unat nSec) | Some ret \<Rightarrow> ret)
   }"

section \<open>Detection and set-up\<close>

definition HAL_SNOR_ReadID :: "'h nor_env \<Rightarrow> 'h \<Rightarrow> ('h \<times> u8 list \<times> efi_status) run" where
  "HAL_SNOR_ReadID env s = do {
     (s, bs, ret) \<leftarrow> SNOR_ReadReg env s SPINOR_OP_RDID 3;
     Some (s, bs, if ret \<noteq> EFI_SUCCESS then Error EFI_DEVICE_ERROR else EFI_SUCCESS)
   }"

definition HAL_SNOR_GetCapacity :: "SPI_NOR \<Rightarrow> u32" where
  "HAL_SNOR_GetCapacity nor = nor_size nor"

definition HAL_SNOR_IsFlashSupported :: "u8 list \<Rightarrow> bool" where
  "HAL_SNOR_IsFlashSupported flashId = list_ex (\<lambda>e. flash_ID e = flash_id flashId) s_spiFlashbl"

definition HAL_SNOR_ReadUUID :: "'h nor_env \<Rightarrow> 'h \<Rightarrow> mem \<Rightarrow> nat \<Rightarrow> ('h \<times> mem \<times> efi_status) run" where
  "HAL_SNOR_ReadUUID env s m buf = do {
     (s, bs, ret) \<leftarrow> spi_xfer env s
       \<lparr>cmd_buswidth = 1, cmd_opcode = SPINOR_OP_READ_UUID, addr_nbytes = 4, addr_buswidth = 1,
        addr_val = 0, dummy_nbytes = 0, dummy_buswidth = 1, data_buswidth = 1,
        data_dir = HAL_SPI_MEM_DATA_IN, data_nbytes = 8, data_buf = ptr m buf\<rparr>;
     Some (s, wr m buf bs, ret)
   }"

definition mode_has :: "SPI_NOR \<Rightarrow> u32 \<Rightarrow> bool" where
  "mode_has nor flag \<longleftrightarrow> ucast (host_mode (spi nor)) AND flag \<noteq> 0"

definition common_flash :: "u8 list \<Rightarrow> FLASH_INFO" where
  "common_flash idByte = s_commonSpiFlash\<lparr>flash_ID := flash_id idByte, density := idByte ! 2 - 9\<rparr>"

text \<open>The fields set from the chip's table entry; a capacity that needs bit 32 is undefined.\<close>

definition nor_defaults :: "SPI_NOR \<Rightarrow> FLASH_INFO \<Rightarrow> SPI_NOR run" where
  "nor_defaults nor fi =
     (if 32 \<le> unat (density fi) + 9 then None
      else Some (nor\<lparr>info := fi, pageSize := 256, addrWidth := 3,
        eraseOpcodeSec := sectorEraseCmd fi, eraseOpcodeBlk := blockEraseCmd fi,
        readOpcode := readCmd fi, readProto := SNOR_PROTO_STR 1 1 1, readDummy := 0,
        programOpcode := progCmd fi, writeProto := SNOR_PROTO_STR 1 1 1,
        sectorSize := ucast (info_sectorSize fi) * 512,
        nor_size := push_bit (unat (density fi) + 9) 1,
        eraseSize := ucast (info_sectorSize fi) * 512\<rparr>))"

definition init_read_mode :: "'h nor_env \<Rightarrow> SPI_NOR \<Rightarrow> 'h \<Rightarrow> ('h \<times> SPI_NOR) run" where
  "init_read_mode env nor s =
     (if mode_has nor HAL_SPI_RX_QUAD then do {
        (s, ret) \<leftarrow> (if QEBits (info nor) \<noteq> 0 then SNOR_EnableQE env nor s else Some (s, EFI_SUCCESS));
        Some (s, if ret = EFI_SUCCESS
                 then (if readCmd_4 (info nor) = SPINOR_OP_READ_1_4_4
                       then nor\<lparr>readOpcode := readCmd_4 (info nor), readDummy := 6,
                                readProto := SNOR_PROTO_STR 1 4 4\<rparr>
                       else nor\<lparr>readOpcode := readCmd_4 (info nor), readDummy := 8,
                                readProto := SNOR_PROTO_STR 1 1 4\<rparr>)
                 else nor)
      } else Some (s, if mode_has nor HAL_SPI_RX_DUAL
                      then nor\<lparr>readOpcode := SPINOR_OP_READ_1_1_2, readDummy := 8,
                               readProto := SNOR_PROTO_STR 1 1 2\<rparr>
                      else nor))"

definition init_write_mode :: "'h nor_env \<Rightarrow> SPI_NOR \<Rightarrow> 'h \<Rightarrow> ('h \<times> SPI_NOR) run" where
  "init_write_mode env nor s =
     (if mode_has nor HAL_SPI_TX_QUAD \<and> QEBits (info nor) \<noteq> 0 then do {
        (s, ret) \<leftarrow> SNOR_EnableQE env nor s;
        Some (s, if ret = EFI_SUCCESS
                 then nor\<lparr>programOpcode := progCmd_4 (info nor),
                          writeProto := (if progCmd_4 (info nor) = SPINOR_OP_PP_1_4_4
                                         then SNOR_PROTO_STR 1 4 4 else SNOR_PROTO_STR 1 1 4)\<rparr>
                 else nor)
      } else Some (s, nor))"

definition init_addr_mode :: "'h nor_env \<Rightarrow> SPI_NOR \<Rightarrow> 'h \<Rightarrow> ('h \<times> SPI_NOR) run" where
  "init_addr_mode env nor s =
     (let nor = (if feature (info nor) AND FEA_4BYTE_ADDR \<noteq> 0 then nor\<lparr>addrWidth := 4\<rparr> else nor)
      in if feature (info nor) AND FEA_4BYTE_ADDR_MODE \<noteq> 0
         then do { (s, _) \<leftarrow> SNOR_Enter4byte env s; Some (s, nor) }
         else Some (s, nor))"

definition HAL_SNOR_Init :: "'h nor_env \<Rightarrow> SPI_NOR \<Rightarrow> 'h \<Rightarrow> ('h \<times> SPI_NOR \<times> efi_status) run" where
  "HAL_SNOR_Init env nor s = do {
     (s, bs, _) \<leftarrow> HAL_SNOR_ReadID env s;
     (let idByte = local_bytes env 5 bs
      in if idByte ! 0 = 0xFF \<or> idByte ! 0 = 0x00 then Some (s, nor, Error EFI_DEVICE_ERROR)
         else if SNOR_GerFlashInfo idByte = None \<and> (mode_has nor HAL_SPI_RX_QUAD \<or> mode_has nor HAL_SPI_TX_QUAD)
         then Some (s, nor, Error EFI_NO_MEDIA)
         else do {
           (s, fi) \<leftarrow> (case SNOR_GerFlashInfo idByte of
              None \<Rightarrow> Some (s, common_flash idByte)
            | Some fi \<Rightarrow> SNOR_InfoAdjust env s fi);
           nor \<leftarrow> nor_defaults nor fi;
           (s, nor) \<leftarrow> init_read_mode env nor s;
           (s, nor) \<leftarrow> init_write_mode env nor s;
           (s, nor) \<leftarrow> init_addr_mode env nor s;
           Some (s, nor, EFI_SUCCESS)
         })
   }"

text \<open>The host configuration of \<open>InitializeFlash\<close>: \<open>mode\<close> is one byte wide.\<close>

definition init_host :: HAL_FSPI_HOST where
  "init_host =
     (let mode = (ucast HAL_SPI_MODE_3 :: u8);
          mode = (ucast (ucast mode OR (HAL_SPI_TX_QUAD OR HAL_SPI_RX_QUAD)) :: u8)
      in \<lparr>host_cs = 0, host_mode = mode\<rparr>)"

definition zero_nor :: SPI_NOR where
  "zero_nor = \<lparr>spi = \<lparr>host_cs = 0, host_mode = 0\<rparr>, info = FLASH_ENTRY 0 0 0 0 0 0 0 0 0 0 0 0,
     pageSize = 0, addrWidth = 0, eraseOpcodeSec = 0, eraseOpcodeBlk = 0, readOpcode = 0,
     readDummy = 0, programOpcode = 0, readProto = 0, writeProto = 0, nor_size = 0,
     sectorSize = 0, eraseSize = 0\<rparr>"

text \<open>
  The driver entry point: the pool allocation, \<open>NorFspiIomux\<close> with \<open>HAL_FSPI_Init\<close> (as \<open>hw_init\<close>),
  and the boot service calls are outside; the protocol stays installed (\<open>True\<close>) unless the event
  registration fails.
\<close>

definition InitializeFlash ::
  "'h nor_env \<Rightarrow> ('h \<Rightarrow> 'h) \<Rightarrow> bool \<Rightarrow> efi_status \<Rightarrow> efi_status \<Rightarrow> 'h \<Rightarrow>
     ('h \<times> SPI_NOR \<times> bool \<times> efi_status) run" where
  "InitializeFlash env hw_init alloc_ok install create_event s =
     (if \<not> alloc_ok then Some (s, zero_nor, False, Error EFI_OUT_OF_RESOURCES)
      else do {
        (s, nor, _) \<leftarrow> HAL_SNOR_Init env (zero_nor\<lparr>spi := init_host\<rparr>) (hw_init s);
        (if EFI_ERROR create_event then Some (s, nor, False, create_event)
         else Some (s, nor, install = EFI_SUCCESS, create_event))
      })"

section \<open>The protocol\<close>

definition runtime_clock :: "'h nor_env \<Rightarrow> 'h \<Rightarrow> 'h" where
  "runtime_clock env s = (if EfiAtRuntime env then NorFspiEnableClock env s else s)"

text \<open>
  The length is a multiple of the sector size here (\<open>Erase\<close> has checked it), so the guard against a
  wrapping \<open>ulLen -= EraseSize\<close> is never taken; it is what makes the recursion well-founded.
\<close>

function erase_loop ::
  "'h nor_env \<Rightarrow> SPI_NOR \<Rightarrow> 'h \<Rightarrow> u32 \<Rightarrow> u32 \<Rightarrow> ('h \<times> efi_status) run" where
  "erase_loop env nor s Offset ulLen =
     (if ulLen = 0 then Some (s, EFI_SUCCESS)
      else if ulLen < sectorSize nor \<or> sectorSize nor = 0 then None
      else case HAL_SNOR_Erase env nor s Offset ERASE_SECTOR of
             None \<Rightarrow> None
           | Some (s, st) \<Rightarrow>
               if EFI_ERROR st then Some (s, st)
               else erase_loop env nor s (Offset + sectorSize nor) (ulLen - sectorSize nor))"
  by pat_completeness auto
termination
proof (relation "measure (\<lambda>(env, nor, s, Offset, ulLen). unat ulLen)", goal_cases)
  case (2 env nor s Offset ulLen)
  then have "sectorSize nor \<le> ulLen" "0 < unat (sectorSize nor)"
    by (simp_all add: not_less unat_gt_0)
  then show ?case
    by (simp add: unat_sub_no_wrap word_le_nat_alt)
qed simp

declare erase_loop.simps [simp del]

definition Erase :: "'h nor_env \<Rightarrow> SPI_NOR \<Rightarrow> 'h \<Rightarrow> u32 \<Rightarrow> u32 \<Rightarrow> ('h \<times> efi_status) run" where
  "Erase env nor s Offset ulLen =
     (let s = runtime_clock env s
      in if sectorSize nor = 0 then None
         else if Offset mod sectorSize nor \<noteq> 0 \<or> ulLen mod sectorSize nor \<noteq> 0
         then Some (s, Error EFI_DEVICE_ERROR)
         else erase_loop env nor s Offset ulLen)"

definition GetSize :: "SPI_NOR \<Rightarrow> u32" where
  "GetSize nor = HAL_SNOR_GetCapacity nor"

definition Write :: "'h nor_env \<Rightarrow> SPI_NOR \<Rightarrow> 'h \<Rightarrow> mem \<Rightarrow> u32 \<Rightarrow> nat \<Rightarrow> u32 \<Rightarrow> ('h \<times> efi_status) run" where
  "Write env nor s m Offset buf ulLen = HAL_SNOR_ProgData env nor (runtime_clock env s) m Offset buf ulLen"

definition Read ::
  "'h nor_env \<Rightarrow> SPI_NOR \<Rightarrow> 'h \<Rightarrow> mem \<Rightarrow> u32 \<Rightarrow> nat \<Rightarrow> u32 \<Rightarrow> ('h \<times> mem \<times> efi_status) run" where
  "Read env nor s m Offset buf ulLen = HAL_SNOR_ReadData env nor (runtime_clock env s) m Offset buf ulLen"

text \<open>
  One sector of an update. \<open>TmpBuf\<close> has \<open>EraseSize\<close> bytes, and as in the code nothing keeps the copy
  of an unaligned update inside them: what does not fit overwrites the memory behind the buffer.
\<close>

definition SpiFlashUpdateBlock ::
  "'h nor_env \<Rightarrow> SPI_NOR \<Rightarrow> 'h \<Rightarrow> mem \<Rightarrow> u32 \<Rightarrow> u32 \<Rightarrow> nat \<Rightarrow> nat \<Rightarrow> nat \<Rightarrow> nat \<Rightarrow>
     ('h \<times> mem \<times> efi_status) run" where
  "SpiFlashUpdateBlock env nor s m Offset Align ToUpdate Buf TmpBuf EraseSize = do {
     (s, m, st) \<leftarrow>
       (if ToUpdate \<noteq> EraseSize
        then HAL_SNOR_ReadData env nor (runtime_clock env s) m (Offset - Align) TmpBuf (of_nat EraseSize)
        else Some (runtime_clock env s, m, EFI_SUCCESS));
     (if EFI_ERROR st then Some (s, m, st)
      else do {
        (s, st) \<leftarrow> HAL_SNOR_Erase env nor s Offset ERASE_SECTOR;
        (if EFI_ERROR st then Some (s, m, st)
         else if Align \<noteq> 0 then do {
           m \<leftarrow> Some (wr m (TmpBuf + unat Align) (rd m Buf ToUpdate));
           (s, st) \<leftarrow> HAL_SNOR_ProgData env nor s m (Offset - Align) TmpBuf (of_nat EraseSize);
           Some (s, m, if EFI_ERROR st then st else EFI_SUCCESS)
         } else do {
           (s, st) \<leftarrow> HAL_SNOR_ProgData env nor s m Offset Buf (of_nat ToUpdate);
           (if EFI_ERROR st then Some (s, m, st)
            else if ToUpdate \<noteq> EraseSize then do {
              (s, st) \<leftarrow> HAL_SNOR_ProgData env nor s m (Offset + of_nat ToUpdate) (TmpBuf + ToUpdate)
                (of_nat (EraseSize - ToUpdate));
              Some (s, m, if EFI_ERROR st then st else EFI_SUCCESS)
            } else Some (s, m, EFI_SUCCESS))
         })
      })
   }"

function update_loop ::
  "'h nor_env \<Rightarrow> SPI_NOR \<Rightarrow> 'h \<Rightarrow> mem \<Rightarrow> u32 \<Rightarrow> u32 \<Rightarrow> nat \<Rightarrow> nat \<Rightarrow> nat \<Rightarrow> ('h \<times> mem \<times> efi_status) run" where
  "update_loop env nor s m Offset Align Buffer left TmpBuf =
     (if left = 0 then Some (s, m, EFI_SUCCESS)
      else let ToUpdate = min left (unat (sectorSize nor))
           in if ToUpdate = 0 then None
              else case SpiFlashUpdateBlock env nor s m Offset Align ToUpdate Buffer TmpBuf (unat (sectorSize nor)) of
                     None \<Rightarrow> None
                   | Some (s, m, st) \<Rightarrow>
                       if EFI_ERROR st then Some (s, m, st)
                       else update_loop env nor s m (Offset + of_nat ToUpdate) Align
                              (Buffer + ToUpdate) (left - ToUpdate) TmpBuf)"
  by pat_completeness auto
termination
  by (relation "measure (\<lambda>(env, nor, s, m, Offset, Align, Buffer, left, TmpBuf). left)") auto

declare update_loop.simps [simp del]

text \<open>\<open>AllocateZeroPool\<close> answers the address of the temporary buffer, or \<^term>\<open>None\<close>.\<close>

definition Update ::
  "'h nor_env \<Rightarrow> nat option \<Rightarrow> SPI_NOR \<Rightarrow> 'h \<Rightarrow> mem \<Rightarrow> u32 \<Rightarrow> nat \<Rightarrow> u32 \<Rightarrow> ('h \<times> mem \<times> efi_status) run" where
  "Update env tmp nor s m Offset Buffer ulLength =
     (case tmp of
        None \<Rightarrow> Some (s, m, Error EFI_OUT_OF_RESOURCES)
      | Some t \<Rightarrow>
          update_loop env nor s (fill m t (unat (sectorSize nor)) 0) Offset
            (Offset AND (sectorSize nor - 1)) Buffer (unat ulLength) t)"

end
