(* ===== verification/NorPort.thy ===== *)
theory NorPort
  imports NorFlash
begin

text \<open>
  The interface between the NOR driver and the bus: the transactions of a JEDEC serial NOR chip
  as documented by the parts in the driver's table (read, page program with wrap-around in its
  256-byte page, sector, block and chip erase, write enable, status, identification), and the
  locale \<open>nor_port\<close> of a bus that performs them. The correctness of the driver's operations is
  proved once in the locale; theory \<open>NorChip\<close> interprets it on \<open>HAL_FSPI_SpiXfer\<close>.
\<close>

section \<open>The chip\<close>

record nor_chip =
  content :: mem
  WEL :: bool
  busy :: nat
  jedec :: "u8 list"
  t_prog :: nat
  t_erase :: nat

definition op_addr :: "HAL_SPI_MEM_OP \<Rightarrow> nat" where
  "op_addr op = unat (addr_val op) mod 2 ^ (8 * unat (addr_nbytes op))"

definition op_data :: "HAL_SPI_MEM_OP \<Rightarrow> u8 list" where
  "op_data op = (case data_buf op of None \<Rightarrow> [] | Some f \<Rightarrow> map f [0..<unat (data_nbytes op)])"

definition page_program :: "mem \<Rightarrow> nat \<Rightarrow> u8 list \<Rightarrow> mem" where
  "page_program c a bs =
     (\<lambda>x. let i = (x + 256 - a mod 256) mod 256
          in if x div 256 = a div 256 \<and> i < length bs then c x AND bs ! i else c x)"

definition erase_unit :: "nat \<Rightarrow> mem \<Rightarrow> nat \<Rightarrow> mem" where
  "erase_unit n c a = (\<lambda>x. if x div n = a div n then 0xFF else c x)"

definition read_codes :: "u8 list" where "read_codes = [0x03, 0x13, 0x3B, 0x6B, 0x6C, 0xEB]"
definition prog_codes :: "u8 list" where "prog_codes = [0x02, 0x12, 0x32, 0x34, 0x38, 0x3E]"
definition sector_codes :: "u8 list" where "sector_codes = [0x20, 0x21]"
definition block_codes :: "u8 list" where "block_codes = [0xD8, 0xDC]"

text \<open>Dummy clocks between address and data, in bytes on the address lines.\<close>

definition read_dummy :: "u8 \<Rightarrow> u8" where
  "read_dummy opc = (if opc = 0x03 \<or> opc = 0x13 then 0 else if opc = 0xEB then 3 else 1)"

definition start_modify :: "nor_chip \<Rightarrow> nat \<Rightarrow> mem \<Rightarrow> nor_chip" where
  "start_modify ch t c = (if WEL ch then ch\<lparr>content := c, WEL := False, busy := t\<rparr> else ch)"

definition chip_exec :: "nor_chip \<Rightarrow> HAL_SPI_MEM_OP \<Rightarrow> nor_chip" where
  "chip_exec ch op =
     (let opc = cmd_opcode op
      in if opc = SPINOR_OP_RDSR then ch\<lparr>busy := busy ch - 1\<rparr>
         else if opc = SPINOR_OP_WREN then ch\<lparr>WEL := True\<rparr>
         else if opc \<in> set prog_codes then
           start_modify ch (t_prog ch) (page_program (content ch) (op_addr op) (op_data op))
         else if opc \<in> set sector_codes then
           start_modify ch (t_erase ch) (erase_unit 4096 (content ch) (op_addr op))
         else if opc \<in> set block_codes then
           start_modify ch (t_erase ch) (erase_unit 65536 (content ch) (op_addr op))
         else if opc = SPINOR_OP_CHIP_ERASE then start_modify ch (t_erase ch) (\<lambda>_. 0xFF)
         else ch)"

definition chip_reply :: "nor_chip \<Rightarrow> HAL_SPI_MEM_OP \<Rightarrow> u8 list" where
  "chip_reply ch op =
     (let opc = cmd_opcode op
      in if opc = SPINOR_OP_RDSR then [if 0 < busy ch then 1 else 0]
         else if opc = SPINOR_OP_RDID then jedec ch
         else if opc \<in> set read_codes then rd (content ch) (op_addr op) (unat (data_nbytes op))
         else [])"

definition takes_in :: "HAL_SPI_MEM_OP \<Rightarrow> bool" where
  "takes_in op \<longleftrightarrow> data_dir op = HAL_SPI_MEM_DATA_IN \<and> data_nbytes op \<noteq> 0 \<and> data_buf op \<noteq> None"

definition has_addr :: "HAL_SPI_MEM_OP \<Rightarrow> bool" where
  "has_addr op \<longleftrightarrow> addr_nbytes op = 3 \<or> addr_nbytes op = 4"

definition no_data :: "HAL_SPI_MEM_OP \<Rightarrow> bool" where
  "no_data op \<longleftrightarrow> data_nbytes op = 0 \<and> data_buf op = None"

text \<open>
  The well-formed transactions a chip in state \<open>ch\<close> answers: while a program or erase is going
  on, the status register only.
\<close>

definition accepts :: "nor_chip \<Rightarrow> HAL_SPI_MEM_OP \<Rightarrow> bool" where
  "accepts ch op \<longleftrightarrow>
     (let opc = cmd_opcode op
      in if opc = SPINOR_OP_RDSR then addr_nbytes op = 0 \<and> takes_in op \<and> data_nbytes op = 1 \<and> dummy_nbytes op = 0
         else busy ch = 0 \<and>
           (if opc = SPINOR_OP_WREN \<or> opc = SPINOR_OP_CHIP_ERASE
            then addr_nbytes op = 0 \<and> no_data op \<and> dummy_nbytes op = 0
            else if opc = SPINOR_OP_RDID
            then addr_nbytes op = 0 \<and> takes_in op \<and> data_nbytes op = 3 \<and> dummy_nbytes op = 0
            else if opc \<in> set read_codes
            then has_addr op \<and> takes_in op \<and> dummy_nbytes op = read_dummy opc
            else if opc \<in> set prog_codes
            then has_addr op \<and> data_dir op = HAL_SPI_MEM_DATA_OUT \<and> data_buf op \<noteq> None \<and>
                 data_nbytes op \<noteq> 0 \<and> data_nbytes op \<le> 256 \<and> dummy_nbytes op = 0
            else (opc \<in> set sector_codes \<or> opc \<in> set block_codes) \<and>
                 has_addr op \<and> no_data op \<and> dummy_nbytes op = 0))"

locale nor_port =
  fixes env :: "'h nor_env" and ready :: "'h \<Rightarrow> bool" and chip :: "'h \<Rightarrow> nor_chip"
  assumes xfer: "ready h \<Longrightarrow> accepts (chip h) op \<Longrightarrow>
      \<exists>h'. spi_xfer env h op = Some (h', chip_reply (chip h) op, EFI_SUCCESS) \<and>
           ready h' \<and> chip h' = chip_exec (chip h) op"
    and delay: "ready h \<Longrightarrow> ready (NanoSecondDelay env h n) \<and> chip (NanoSecondDelay env h n) = chip h"
    and clock: "ready h \<Longrightarrow> ready (NorFspiEnableClock env h) \<and> chip (NorFspiEnableClock env h) = chip h"

text \<open>The driver's description of the chip matches the chip.\<close>

definition nor_ok :: "SPI_NOR \<Rightarrow> nor_chip \<Rightarrow> bool" where
  "nor_ok nor ch \<longleftrightarrow>
     pageSize nor = 256 \<and> sectorSize nor = 4096 \<and> (addrWidth nor = 3 \<or> addrWidth nor = 4) \<and>
     readOpcode nor \<in> set read_codes \<and>
     dummy_nbytes (read_op nor (\<lambda>_. 0) 0 0 0) = read_dummy (readOpcode nor) \<and>
     programOpcode nor \<in> set prog_codes \<and> eraseOpcodeSec nor \<in> set sector_codes \<and>
     unat (nor_size nor) \<le> 2 ^ (8 * unat (addrWidth nor)) \<and> unat (nor_size nor) \<le> 2 ^ 31 \<and>
     4096 dvd unat (nor_size nor) \<and> t_prog ch < 10000 \<and> t_erase ch < 400000"

lemmas opcode_defs = SPINOR_OP_RDSR_def SPINOR_OP_WREN_def SPINOR_OP_CHIP_ERASE_def SPINOR_OP_RDID_def
  read_codes_def prog_codes_def sector_codes_def block_codes_def

text \<open>Programming a run of bytes without page structure.\<close>

definition program :: "mem \<Rightarrow> nat \<Rightarrow> u8 list \<Rightarrow> mem" where
  "program c a bs = (\<lambda>x. if a \<le> x \<and> x < a + length bs then c x AND bs ! (x - a) else c x)"

lemma program_Nil [simp]: "program c a [] = c"
  by (rule ext) (auto simp: program_def)

lemma program_append: "program c a (xs @ ys) = program (program c a xs) (a + length xs) ys"
  by (rule ext) (auto simp: program_def nth_append)

lemma page_program_linear:
  assumes "a mod 256 + length bs \<le> 256"
  shows "page_program c a bs = program c a bs"
proof (rule ext)
  fix x
  let ?i = "(x + 256 - a mod 256) mod 256"
  show "page_program c a bs x = program c a bs x"
  proof (cases "x div 256 = a div 256")
    case True
    define q where "q = a div 256"
    define xm where "xm = x mod 256"
    define am where "am = a mod 256"
    have x: "x = 256 * q + xm" and a: "a = 256 * q + am" and small: "xm < 256" "am < 256"
      unfolding q_def xm_def am_def by (simp_all add: True [symmetric])
        (metis True mult_div_mod_eq)
    have i: "?i = (if am \<le> xm then xm - am else xm + 256 - am)"
    proof (cases "am \<le> xm")
      case le: True
      then have "x + 256 - am = (xm - am) + 256 * (q + 1)"
        unfolding x by simp
      then have "(x + 256 - am) mod 256 = (xm - am) mod 256"
        by (simp only: mod_mult_self2)
      then show ?thesis
        using le small by (simp add: am_def [symmetric])
    next
      case lt: False
      then have "x + 256 - am = (xm + 256 - am) + 256 * q"
        using small unfolding x by simp
      then have "(x + 256 - am) mod 256 = (xm + 256 - am) mod 256"
        by (simp only: mod_mult_self2)
      then show ?thesis
        using lt small by (simp add: am_def [symmetric])
    qed
    show ?thesis
    proof (cases "am \<le> xm")
      case le: True
      then have "a \<le> x" "x - a = xm - am"
        using x a by linarith+
      then show ?thesis
        using True i le by (auto simp: page_program_def program_def Let_def)
    next
      case lt: False
      then have "x < a"
        using x a by linarith
      moreover have "?i = xm + 256 - am"
        using i lt by simp
      moreover have "am + length bs \<le> 256"
        using assms by (simp add: am_def)
      ultimately have "x < a" "\<not> ?i < length bs"
        by linarith+
      then show ?thesis
        by (simp add: page_program_def program_def Let_def)
    qed
  next
    case False
    have "x div 256 = a div 256" if "a \<le> x" "x < a + length bs"
    proof (rule antisym)
      have "x < (q + 1) * 256" if "q * 256 + r = a" "r + length bs \<le> 256" for q r
        using that \<open>x < a + length bs\<close> by simp
      from this [OF div_mult_mod_eq assms] have "x div 256 < a div 256 + 1"
        by (rule less_mult_imp_div_less)
      then show "x div 256 \<le> a div 256"
        by linarith
      show "a div 256 \<le> x div 256"
        using that(1) by (rule div_le_mono)
    qed
    then have "\<not> (a \<le> x \<and> x < a + length bs)"
      using False by blast
    then show ?thesis
      using False by (auto simp: page_program_def program_def Let_def)
  qed
qed

context nor_port
begin

lemma xferE:
  assumes "ready h" "accepts (chip h) op"
  obtains h' where "spi_xfer env h op = Some (h', chip_reply (chip h) op, EFI_SUCCESS)"
    "ready h'" "chip h' = chip_exec (chip h) op"
  using xfer [OF assms] by blast

lemma write_enable:
  assumes "ready h" "busy (chip h) = 0"
  obtains h' where "SNOR_WriteEnable env h = Some (h', EFI_SUCCESS)" "ready h'"
    "chip h' = (chip h)\<lparr>WEL := True\<rparr>"
proof -
  let ?op = "(cmd_op SPINOR_OP_WREN)\<lparr>data_buswidth := 1, data_dir := HAL_SPI_MEM_DATA_OUT, data_nbytes := 0,
    data_buf := None\<rparr>"
  have "accepts (chip h) ?op"
    using assms(2) by (simp add: accepts_def opcode_defs cmd_op_def no_data_def Let_def)
  then obtain h' where "spi_xfer env h ?op = Some (h', chip_reply (chip h) ?op, EFI_SUCCESS)"
    "ready h'" "chip h' = chip_exec (chip h) ?op"
    using xferE assms(1) by blast
  then show thesis
    using that by (simp add: SNOR_WriteEnable_def SNOR_WriteReg_def SNOR_ReadWriteReg_def
        chip_exec_def opcode_defs cmd_op_def Let_def)
qed

lemma wait_busy:
  assumes "ready h" "busy (chip h) < timeout"
  shows "\<exists>h'. SNOR_WaitBusy env h timeout = Some (h', EFI_SUCCESS) \<and> ready h' \<and>
    chip h' = (chip h)\<lparr>busy := 0\<rparr>"
  using assms
proof (induction timeout arbitrary: h)
  case (Suc n)
  let ?op = "(cmd_op SPINOR_OP_RDSR)\<lparr>data_buswidth := 1, data_dir := HAL_SPI_MEM_DATA_IN, data_nbytes := 1,
    data_buf := Some (uninit env)\<rparr>"
  have "accepts (chip h) ?op"
    by (simp add: accepts_def opcode_defs cmd_op_def takes_in_def Let_def)
  then obtain h' where h': "spi_xfer env h ?op = Some (h', chip_reply (chip h) ?op, EFI_SUCCESS)"
    "ready h'" "chip h' = chip_exec (chip h) ?op"
    using xferE Suc.prems(1) by blast
  have step: "SNOR_ReadReg env h SPINOR_OP_RDSR 1 = Some (h', [if 0 < busy (chip h) then 1 else 0], EFI_SUCCESS)"
    and ch: "chip h' = (chip h)\<lparr>busy := busy (chip h) - 1\<rparr>"
    using h' by (simp_all add: SNOR_ReadReg_def SNOR_ReadWriteReg_def chip_reply_def chip_exec_def
        opcode_defs cmd_op_def Let_def)
  show ?case
  proof (cases "busy (chip h) = 0")
    case True
    have "chip h' = (chip h)\<lparr>busy := 0\<rparr>"
      using ch True by simp
    then show ?thesis
      using step True h'(2) by (simp add: local_bytes_def)
  next
    case False
    let ?d = "NanoSecondDelay env h' 500"
    have d: "ready ?d" "chip ?d = chip h'"
      using delay [OF h'(2)] by auto
    have "busy (chip ?d) < n"
      using d(2) ch False Suc.prems(2) by simp
    then obtain h'' where "SNOR_WaitBusy env ?d n = Some (h'', EFI_SUCCESS)" "ready h''"
      "chip h'' = (chip ?d)\<lparr>busy := 0\<rparr>"
      using Suc.IH [OF d(1)] by blast
    then show ?thesis
      using step False d(2) ch by (simp add: local_bytes_def)
  qed
qed simp

end

text \<open>The command codes of different kinds are different.\<close>

lemma read_code:
  "c \<in> set read_codes \<Longrightarrow> c \<noteq> SPINOR_OP_RDSR \<and> c \<noteq> SPINOR_OP_WREN \<and> c \<noteq> SPINOR_OP_CHIP_ERASE \<and>
     c \<noteq> SPINOR_OP_RDID \<and> c \<notin> set prog_codes \<and> c \<notin> set sector_codes \<and> c \<notin> set block_codes"
  by (auto simp: opcode_defs)

lemma prog_code:
  "c \<in> set prog_codes \<Longrightarrow> c \<noteq> SPINOR_OP_RDSR \<and> c \<noteq> SPINOR_OP_WREN \<and> c \<noteq> SPINOR_OP_CHIP_ERASE \<and>
     c \<noteq> SPINOR_OP_RDID \<and> c \<notin> set read_codes"
  by (auto simp: opcode_defs)

lemma sector_code:
  "c \<in> set sector_codes \<Longrightarrow> c \<noteq> SPINOR_OP_RDSR \<and> c \<noteq> SPINOR_OP_WREN \<and> c \<noteq> SPINOR_OP_CHIP_ERASE \<and>
     c \<noteq> SPINOR_OP_RDID \<and> c \<notin> set read_codes \<and> c \<notin> set prog_codes"
  by (auto simp: opcode_defs)

context nor_port
begin

lemma nor_okD:
  assumes "nor_ok nor ch"
  shows "pageSize nor = 256" "sectorSize nor = 4096" "t_prog ch < 10000" "t_erase ch < 400000"
    "addrWidth nor = 3 \<or> addrWidth nor = 4"
  using assms by (auto simp: nor_ok_def)

lemma nor_ok_cong: "t_prog ch' = t_prog ch \<Longrightarrow> t_erase ch' = t_erase ch \<Longrightarrow> nor_ok nor ch' = nor_ok nor ch"
  by (simp add: nor_ok_def)

lemma nor_addr_small:
  assumes "nor_ok nor ch" "unat a < unat (nor_size nor)"
  shows "unat a mod 2 ^ (8 * unat (addrWidth nor)) = unat a"
  using assms by (intro mod_less) (auto simp: nor_ok_def)

lemma read_data:
  assumes "ready h" "busy (chip h) = 0" "nor_ok nor (chip h)" "unat from < unat (nor_size nor)"
    "len \<noteq> 0" "buf \<noteq> 0"
  shows "\<exists>h'. SNOR_ReadData env nor h m from len buf =
      Some (h', wr m buf (rd (content (chip h)) (unat from) (unat len)), unat len) \<and>
    ready h' \<and> chip h' = chip h"
proof -
  let ?op = "read_op nor m from len buf"
  have code: "cmd_opcode ?op \<in> set read_codes" "cmd_opcode ?op = readOpcode nor"
    using assms(3) by (auto simp: read_op_def nor_ok_def Let_def)
  have "dummy_nbytes ?op = read_dummy (readOpcode nor)"
    using assms(3) by (simp add: read_op_def nor_ok_def Let_def)
  then have acc: "accepts (chip h) ?op"
    using assms(2,5,6) code nor_okD(5) [OF assms(3)] read_code [OF code(1)] by (simp add: accepts_def Let_def takes_in_def read_op_def ptr_def has_addr_def)
  obtain h' where h': "spi_xfer env h ?op = Some (h', chip_reply (chip h) ?op, EFI_SUCCESS)"
    "ready h'" "chip h' = chip_exec (chip h) ?op"
    using xferE [OF assms(1) acc] by blast
  have "op_addr ?op = unat from"
    using nor_addr_small [OF assms(3,4)] by (simp add: op_addr_def read_op_def Let_def)
  then have "chip_reply (chip h) ?op = rd (content (chip h)) (unat from) (unat len)"
    using code read_code [OF code(1)] by (simp add: chip_reply_def Let_def read_op_def)
  moreover have "chip h' = chip h"
    using h'(3) read_code [OF code(1)] by (simp add: chip_exec_def Let_def)
  ultimately show ?thesis
    using h' by (simp add: SNOR_ReadData_def)
qed

lemma write_data:
  assumes "ready h" "busy (chip h) = 0" "WEL (chip h)" "nor_ok nor (chip h)"
    "unat to < unat (nor_size nor)" "len \<noteq> 0" "len \<le> 256" "buf \<noteq> 0"
  shows "\<exists>h'. SNOR_WriteData env nor h m to len buf = Some (h', unat len) \<and> ready h' \<and>
    chip h' = (chip h)\<lparr>content := page_program (content (chip h)) (unat to) (rd m buf (unat len)),
                       WEL := False, busy := t_prog (chip h)\<rparr>"
proof -
  let ?op = "prog_op nor m to len buf"
  have code: "cmd_opcode ?op \<in> set prog_codes" "cmd_opcode ?op = programOpcode nor"
    using assms(4) by (auto simp: prog_op_def nor_ok_def)
  have acc: "accepts (chip h) ?op"
    using assms(2,6-8) code nor_okD(5) [OF assms(4)] prog_code [OF code(1)]
    by (simp add: accepts_def Let_def prog_op_def ptr_def has_addr_def)
  obtain h' where h': "spi_xfer env h ?op = Some (h', chip_reply (chip h) ?op, EFI_SUCCESS)"
    "ready h'" "chip h' = chip_exec (chip h) ?op"
    using xferE [OF assms(1) acc] by blast
  have "op_addr ?op = unat to"
    using nor_addr_small [OF assms(4,5)] by (simp add: op_addr_def prog_op_def)
  moreover have "op_data ?op = rd m buf (unat len)"
    using assms(8) by (simp add: op_data_def prog_op_def ptr_def rd_def)
  ultimately have "chip h' = (chip h)\<lparr>content := page_program (content (chip h)) (unat to) (rd m buf (unat len)),
                       WEL := False, busy := t_prog (chip h)\<rparr>"
    using h'(3) code prog_code [OF code(1)] assms(3) by (simp add: chip_exec_def Let_def start_modify_def)
  then show ?thesis
    using h' by (simp add: SNOR_WriteData_def)
qed

end

lemma unat_mod_page: "unat ((a :: u32) AND (256 - 1)) = unat a mod 256"
proof -
  have "a AND (256 - 1) = take_bit 8 a"
    by (simp add: take_bit_eq_mask mask_eq_exp_minus_1)
  then show ?thesis
    by (simp only: unsigned_take_bit_eq) (simp add: take_bit_eq_mod)
qed

lemma unat_u32_less: "unat (a :: u32) < 2 ^ 32"
  using unsigned_less [of a, where ?'a = nat] by simp

lemma unat_add_u32: "unat (a :: u32) + unat b < 2 ^ 32 \<Longrightarrow> unat (a + b) = unat a + unat b"
  by (simp add: unat_add_no_wrap)

lemma unat_min: "unat (min a (b :: u32)) = min (unat a) (unat b)"
  by (simp add: min_def word_le_nat_alt)

lemma nor_size_le: "nor_ok nor ch \<Longrightarrow> unat (nor_size nor) \<le> 2147483648"
  by (simp add: nor_ok_def)

lemma in_range_iff:
  assumes "nor_ok nor ch"
  shows "out_of_range nor a len \<longleftrightarrow> unat (nor_size nor) \<le> unat a \<or> unat (nor_size nor) < unat a + unat len"
proof -
  have "unat (a + len) = unat a + unat len" if "unat a < unat (nor_size nor)" "unat len \<le> unat (nor_size nor)"
    using that nor_size_le [OF assms] by (intro unat_add_u32) simp
  then show ?thesis
    by (cases "unat a < unat (nor_size nor) \<and> unat len \<le> unat (nor_size nor)")
       (auto simp: out_of_range_def word_le_nat_alt word_less_nat_alt)
qed

lemma read_loop_0 [simp]: "read_loop env nor s m a buf 0 = Some (s, m, None)"
  by (simp add: read_loop.simps)

lemma prog_loop_0 [simp]: "prog_loop env nor s m a buf 0 = Some (s, None)"
  by (simp add: prog_loop.simps)

lemma chip_same: "\<exists>w. ch = ch\<lparr>content := content ch, WEL := w\<rparr>"
  by (rule exI [of _ "WEL ch"]) simp

context nor_port
begin

lemma read_all:
  assumes "ready h" "busy (chip h) = 0" "nor_ok nor (chip h)"
    "unat from + unat remain \<le> unat (nor_size nor)" "buf \<noteq> 0"
  shows "\<exists>h'. read_loop env nor h m from buf remain =
      Some (h', wr m buf (rd (content (chip h)) (unat from) (unat remain)), None) \<and>
    ready h' \<and> chip h' = chip h"
  using assms
proof (induction "unat remain" arbitrary: h m "from" buf remain rule: less_induct)
  case less
  show ?case
  proof (cases "remain = 0")
    case True
    then show ?thesis
      using less.prems(1) by simp
  next
    case False
    let ?sz = "min READ_MAX_IOSIZE remain"
    have pos: "0 < unat remain"
      using False by (simp add: unat_gt_0)
    have sz: "0 < unat ?sz" "unat ?sz \<le> unat remain" "?sz \<le> remain" "?sz \<noteq> 0"
      using pos by (auto simp: unat_min READ_MAX_IOSIZE_def min_def word_le_nat_alt)
    have rest: "unat (remain - ?sz) = unat remain - unat ?sz"
      using sz(3) by (rule unat_sub_no_wrap)
    have step: "unat (from + ?sz) = unat from + unat ?sz"
      using sz(2) less.prems(4) nor_size_le [OF less.prems(3)] by (intro unat_add_u32) simp
    have start: "unat from < unat (nor_size nor)"
      using less.prems(4) pos by linarith
    obtain h1 where h1: "SNOR_ReadData env nor h m from ?sz buf =
        Some (h1, wr m buf (rd (content (chip h)) (unat from) (unat ?sz)), unat ?sz)"
      "ready h1" "chip h1 = chip h"
      using read_data [OF less.prems(1-3) start sz(4) less.prems(5)] by blast
    let ?m1 = "wr m buf (rd (content (chip h)) (unat from) (unat ?sz))"
    obtain h2 where h2: "read_loop env nor h1 ?m1 (from + ?sz) (buf + unat ?sz) (remain - ?sz) =
        Some (h2, wr ?m1 (buf + unat ?sz)
          (rd (content (chip h1)) (unat (from + ?sz)) (unat (remain - ?sz))), None)"
      "ready h2" "chip h2 = chip h1"
      using less.hyps [of "remain - ?sz" h1 "from + ?sz" "buf + unat ?sz" ?m1] h1(2,3) less.prems
        rest step sz(1,2) by auto
    have "wr ?m1 (buf + unat ?sz) (rd (content (chip h)) (unat from + unat ?sz) (unat remain - unat ?sz)) =
        wr m buf (rd (content (chip h)) (unat from) (unat ?sz) @
          rd (content (chip h)) (unat from + unat ?sz) (unat remain - unat ?sz))"
      by (simp add: wr_append)
    also have "\<dots> = wr m buf (rd (content (chip h)) (unat from) (unat remain))"
      using sz(2) rd_add [of "content (chip h)" "unat from" "unat ?sz" "unat remain - unat ?sz"] by simp
    finally have join: "wr ?m1 (buf + unat ?sz)
        (rd (content (chip h)) (unat from + unat ?sz) (unat remain - unat ?sz)) =
        wr m buf (rd (content (chip h)) (unat from) (unat remain))" .
    show ?thesis
      using False h1 h2 join rest step
      by (subst read_loop.simps) (simp add: Let_def)
  qed
qed

lemma prog_all:
  assumes "ready h" "busy (chip h) = 0" "nor_ok nor (chip h)"
    "unat to + unat remain \<le> unat (nor_size nor)" "buf \<noteq> 0"
  shows "\<exists>h' w. prog_loop env nor h m to buf remain = Some (h', None) \<and> ready h' \<and>
    chip h' = (chip h)\<lparr>content := program (content (chip h)) (unat to) (rd m buf (unat remain)), WEL := w\<rparr>"
  using assms
proof (induction "unat remain" arbitrary: h to buf remain rule: less_induct)
  case less
  show ?case
  proof (cases "remain = 0")
    case True
    then show ?thesis
      using less.prems(1) chip_same [of "chip h"] by simp
  next
    case False
    note ok = nor_okD [OF less.prems(3)]
    let ?sz = "min (pageSize nor - (to AND (pageSize nor - 1))) remain"
    have off: "unat (256 - (to AND (256 - 1))) = 256 - unat to mod 256"
    proof -
      have "to AND (256 - 1) \<le> 256"
        unfolding word_le_nat_alt unat_mod_page by simp
      then show ?thesis
        unfolding unat_mod_page [symmetric] by (subst unat_sub_no_wrap) simp_all
    qed
    have pos: "0 < unat remain"
      using False by (simp add: unat_gt_0)
    have usz: "unat ?sz = min (256 - unat to mod 256) (unat remain)"
      unfolding ok(1) unat_min off ..
    have sz: "0 < unat ?sz" "unat ?sz \<le> unat remain" "unat to mod 256 + unat ?sz \<le> 256"
      using pos mod_less_divisor [of 256 "unat to"] unfolding usz by linarith+
    have sz': "?sz \<noteq> 0" "?sz \<le> 256" "?sz \<le> remain"
      using sz by (auto simp: word_le_nat_alt unat_gt_0)
    have rest: "unat (remain - ?sz) = unat remain - unat ?sz"
      using sz'(3) by (rule unat_sub_no_wrap)
    have step: "unat (to + ?sz) = unat to + unat ?sz"
      using sz(2) less.prems(4) nor_size_le [OF less.prems(3)] by (intro unat_add_u32) simp
    have start: "unat to < unat (nor_size nor)"
      using less.prems(4) pos by linarith
    let ?c = "content (chip h)" and ?bs = "rd m buf (unat ?sz)"
    obtain h1 where h1: "SNOR_WriteEnable env h = Some (h1, EFI_SUCCESS)" "ready h1"
      "chip h1 = (chip h)\<lparr>WEL := True\<rparr>"
      using write_enable [OF less.prems(1,2)] by blast
    have ok1: "nor_ok nor (chip h1)"
      using less.prems(3) h1(3) by (simp add: nor_ok_def)
    obtain h2 where h2: "SNOR_WriteData env nor h1 m to ?sz buf = Some (h2, unat ?sz)" "ready h2"
      "chip h2 = (chip h1)\<lparr>content := page_program (content (chip h1)) (unat to) ?bs,
                     WEL := False, busy := t_prog (chip h1)\<rparr>"
      using write_data [OF h1(2) _ _ ok1 start sz'(1,2) less.prems(5), of m] h1(3) less.prems(2) by auto
    have "busy (chip h2) < 10000"
      using h2(3) h1(3) ok(3) by simp
    then obtain h3 where h3: "SNOR_WaitBusy env h2 10000 = Some (h3, EFI_SUCCESS)" "ready h3"
      "chip h3 = (chip h2)\<lparr>busy := 0\<rparr>"
      using wait_busy [OF h2(2)] by blast
    have c3: "chip h3 = (chip h)\<lparr>content := program ?c (unat to) ?bs, WEL := False\<rparr>"
      using h3(3) h2(3) h1(3) less.prems(2) sz(3) by (simp add: page_program_linear)
    obtain h4 w where h4: "prog_loop env nor h3 m (to + ?sz) (buf + unat ?sz) (remain - ?sz) = Some (h4, None)"
      "ready h4"
      "chip h4 = (chip h3)\<lparr>content := program (content (chip h3)) (unat (to + ?sz))
         (rd m (buf + unat ?sz) (unat (remain - ?sz))), WEL := w\<rparr>"
    proof -
      have "nor_ok nor (chip h3)" "busy (chip h3) = 0"
        using less.prems(2,3) c3 by (simp_all add: nor_ok_def)
      then show thesis
        using less.hyps [of "remain - ?sz" h3 "to + ?sz" "buf + unat ?sz"] that h3(2) less.prems(4,5)
          rest step sz(1,2) by auto
    qed
    have "program (program ?c (unat to) ?bs) (unat to + unat ?sz) (rd m (buf + unat ?sz) (unat remain - unat ?sz)) =
        program ?c (unat to) (?bs @ rd m (buf + unat ?sz) (unat remain - unat ?sz))"
      by (simp add: program_append)
    also have "?bs @ rd m (buf + unat ?sz) (unat remain - unat ?sz) = rd m buf (unat remain)"
      using sz(2) rd_add [of m buf "unat ?sz" "unat remain - unat ?sz"] by simp
    finally have "chip h4 = (chip h)\<lparr>content := program ?c (unat to) (rd m buf (unat remain)), WEL := w\<rparr>"
      using h4(3) c3 rest step by simp
    moreover have "prog_loop env nor h m to buf remain = Some (h4, None)"
      using False sz'(1) h1(1) h2(1) h3(1) h4(1)
      by (subst prog_loop.simps) (simp add: Let_def)
    ultimately show ?thesis
      using h4(2) by blast
  qed
qed

end

lemma erased_program:
  assumes "length bs = n" "n dvd a" "0 < n"
  shows "program (erase_unit n c a) a bs = wr c a bs"
proof (rule ext)
  fix x
  obtain k where k: "a = n * k"
    using assms(2) by blast
  have "x div n = a div n \<longleftrightarrow> a \<le> x \<and> x < a + n"
  proof
    assume "x div n = a div n"
    then have "x div n = k"
      using k assms(3) by simp
    then have "n * k \<le> x" "x < n * Suc k"
      using mult_div_mod_eq [of n x] mod_less_divisor [OF assms(3), of x] by auto
    then show "a \<le> x \<and> x < a + n"
      using k by simp
  next
    assume "a \<le> x \<and> x < a + n"
    then have "x div n = k"
      using k by (intro div_nat_eqI) auto
    then show "x div n = a div n"
      using k assms(3) by simp
  qed
  moreover have "(0xFF :: u8) AND b = b" for b
  proof -
    have "(0xFF :: u8) = - 1"
      by simp
    then show ?thesis
      by (simp only: and.left_neutral)
  qed
  ultimately show "program (erase_unit n c a) a bs x = wr c a bs x"
    using assms(1) by (simp add: program_def erase_unit_def wr_def)
qed

context nor_port
begin

lemma HAL_SNOR_ReadData_ok:
  assumes "ready h" "busy (chip h) = 0" "nor_ok nor (chip h)" "unat from < unat (nor_size nor)"
    "unat from + unat len \<le> unat (nor_size nor)" "buf \<noteq> 0"
  shows "\<exists>h'. HAL_SNOR_ReadData env nor h m from buf len =
      Some (h', wr m buf (rd (content (chip h)) (unat from) (unat len)), Value (unat len)) \<and>
    ready h' \<and> chip h' = chip h"
  using read_all [OF assms(1-3,5,6), of m] in_range_iff [OF assms(3), of "from" len] assms(4,5)
  by (auto simp: HAL_SNOR_ReadData_def)

lemma HAL_SNOR_ProgData_ok:
  assumes "ready h" "busy (chip h) = 0" "nor_ok nor (chip h)" "unat to < unat (nor_size nor)"
    "unat to + unat len \<le> unat (nor_size nor)" "buf \<noteq> 0"
  shows "\<exists>h' w. HAL_SNOR_ProgData env nor h m to buf len = Some (h', Value (unat len)) \<and> ready h' \<and>
    chip h' = (chip h)\<lparr>content := program (content (chip h)) (unat to) (rd m buf (unat len)), WEL := w\<rparr>"
  using prog_all [OF assms(1-3,5,6), of m] in_range_iff [OF assms(3), of to len] assms(4,5)
  by (auto simp: HAL_SNOR_ProgData_def)

lemma HAL_SNOR_Erase_ok:
  assumes "ready h" "busy (chip h) = 0" "nor_ok nor (chip h)" "unat addr < unat (nor_size nor)"
  shows "\<exists>h'. HAL_SNOR_Erase env nor h addr ERASE_SECTOR = Some (h', EFI_SUCCESS) \<and> ready h' \<and>
    chip h' = (chip h)\<lparr>content := erase_unit 4096 (content (chip h)) (unat addr), WEL := False\<rparr>"
proof -
  let ?op = "addr_op nor (eraseOpcodeSec nor) addr"
  obtain h1 where h1: "SNOR_WriteEnable env h = Some (h1, EFI_SUCCESS)" "ready h1"
    "chip h1 = (chip h)\<lparr>WEL := True\<rparr>"
    using write_enable [OF assms(1,2)] by blast
  have code: "eraseOpcodeSec nor \<in> set sector_codes"
    using assms(3) by (simp add: nor_ok_def)
  have acc: "accepts (chip h1) ?op"
    using sector_code [OF code] code nor_okD(5) [OF assms(3)] assms(2) h1(3)
    by (simp add: accepts_def Let_def addr_op_def cmd_op_def has_addr_def no_data_def)
  obtain h2 where h2: "spi_xfer env h1 ?op = Some (h2, chip_reply (chip h1) ?op, EFI_SUCCESS)"
    "ready h2" "chip h2 = chip_exec (chip h1) ?op"
    using xferE [OF h1(2) acc] by blast
  have "op_addr ?op = unat addr"
    using nor_addr_small [OF assms(3,4)] by (simp add: op_addr_def addr_op_def cmd_op_def)
  then have c2: "chip h2 = (chip h)\<lparr>content := erase_unit 4096 (content (chip h)) (unat addr),
      WEL := False, busy := t_erase (chip h)\<rparr>"
    using h2(3) h1(3) sector_code [OF code] code
    by (simp add: chip_exec_def Let_def start_modify_def addr_op_def cmd_op_def)
  have "busy (chip h2) < 400000"
    using c2 nor_okD(4) [OF assms(3)] by simp
  then obtain h3 where "SNOR_WaitBusy env h2 400000 = Some (h3, EFI_SUCCESS)" "ready h3"
    "chip h3 = (chip h2)\<lparr>busy := 0\<rparr>"
    using wait_busy [OF h2(2)] by blast
  then show ?thesis
    using h1(1) h2(1) c2 assms(2,4)
    by (simp add: HAL_SNOR_Erase_def SNOR_EraseSec_def run_op_def erase_timeout_def word_le_nat_alt not_le)
qed

end

text \<open>The chip is ready, idle, matches the driver's description and holds \<open>c\<close>.\<close>

definition nor_idle :: "('h \<Rightarrow> bool) \<Rightarrow> ('h \<Rightarrow> nor_chip) \<Rightarrow> SPI_NOR \<Rightarrow> 'h \<Rightarrow> mem \<Rightarrow> bool" where
  "nor_idle ready chip nor h c \<longleftrightarrow>
     ready h \<and> busy (chip h) = 0 \<and> nor_ok nor (chip h) \<and> content (chip h) = c"

lemma wr_rd_same: "wr c a (rd c a n) = c"
  by (rule ext) (auto simp: wr_def)

lemma fill_0 [simp]: "fill c a 0 v = c"
  by (rule ext) (auto simp: fill_def)

lemma wr_append_rd: "wr c a (bs @ rd c (a + length bs) k) = wr c a bs"
  by (rule ext) (auto simp: wr_def nth_append)

context nor_port
begin

lemma idle_read:
  assumes "nor_idle ready chip nor h c" "unat from < unat (nor_size nor)"
    "unat from + unat len \<le> unat (nor_size nor)" "buf \<noteq> 0"
  shows "\<exists>h'. HAL_SNOR_ReadData env nor h m from buf len =
      Some (h', wr m buf (rd c (unat from) (unat len)), Value (unat len)) \<and> nor_idle ready chip nor h' c"
  using HAL_SNOR_ReadData_ok [of h nor "from" len buf m] assms by (auto simp: nor_idle_def)

lemma idle_prog:
  assumes "nor_idle ready chip nor h c" "unat to < unat (nor_size nor)"
    "unat to + unat len \<le> unat (nor_size nor)" "buf \<noteq> 0"
  shows "\<exists>h'. HAL_SNOR_ProgData env nor h m to buf len = Some (h', Value (unat len)) \<and>
    nor_idle ready chip nor h' (program c (unat to) (rd m buf (unat len)))"
  using HAL_SNOR_ProgData_ok [of h nor to len buf m] assms by (fastforce simp: nor_idle_def nor_ok_def)

lemma idle_erase:
  assumes "nor_idle ready chip nor h c" "unat addr < unat (nor_size nor)"
  shows "\<exists>h'. HAL_SNOR_Erase env nor h addr ERASE_SECTOR = Some (h', EFI_SUCCESS) \<and>
    nor_idle ready chip nor h' (erase_unit 4096 c (unat addr))"
  using HAL_SNOR_Erase_ok [of h nor addr] assms by (fastforce simp: nor_idle_def nor_ok_def)

lemma idle_clock:
  "nor_idle ready chip nor h c \<Longrightarrow> nor_idle ready chip nor (runtime_clock env h) c"
  using clock by (simp add: nor_idle_def runtime_clock_def)

lemma idle_ok: "nor_idle ready chip nor h c \<Longrightarrow> sectorSize nor = 4096 \<and> 4096 dvd unat (nor_size nor) \<and>
    unat (nor_size nor) \<le> 2147483648"
  by (simp add: nor_idle_def nor_ok_def)

lemma overwrite_all:
  assumes "nor_idle ready chip nor h c" "(unat sec + n) * 4096 \<le> unat (nor_size nor)" "buf \<noteq> 0"
  shows "\<exists>h'. overwrite_loop env nor h m sec buf n = Some (h', None) \<and>
    nor_idle ready chip nor h' (wr c (unat sec * 4096) (rd m buf (n * 4096)))"
  using assms
proof (induction n arbitrary: h c sec buf)
  case (Suc n)
  note ok = idle_ok [OF Suc.prems(1)]
  have a: "unat (sec * 4096) = unat sec * 4096"
    using Suc.prems(2) ok by (subst unat_mult_no_wrap) simp_all
  have start: "unat (sec * 4096) < unat (nor_size nor)"
    and stop: "unat (sec * 4096) + unat (4096 :: u32) \<le> unat (nor_size nor)"
    using Suc.prems(2) unfolding a by simp_all
  have next_sec: "unat (sec + 1) = unat sec + 1"
    using Suc.prems(2) ok by (subst unat_add_no_wrap) simp_all
  obtain h1 where h1: "HAL_SNOR_Erase env nor h (sec * 4096) ERASE_SECTOR = Some (h1, EFI_SUCCESS)"
    "nor_idle ready chip nor h1 (erase_unit 4096 c (unat sec * 4096))"
    using idle_erase [OF Suc.prems(1) start] unfolding a by blast
  let ?c = "wr c (unat sec * 4096) (rd m buf 4096)"
  obtain h2 where h2: "HAL_SNOR_ProgData env nor h1 m (sec * 4096) buf 4096 = Some (h2, Value 4096)"
    "nor_idle ready chip nor h2 ?c"
    using idle_prog [OF h1(2) start stop Suc.prems(3), of m] unfolding a by (auto simp: erased_program)
  have "(unat (sec + 1) + n) * 4096 \<le> unat (nor_size nor)" "buf + 4096 \<noteq> 0"
    using Suc.prems(2) next_sec by simp_all
  then obtain h3 where h3: "overwrite_loop env nor h2 m (sec + 1) (buf + 4096) n = Some (h3, None)"
    "nor_idle ready chip nor h3 (wr ?c (unat (sec + 1) * 4096) (rd m (buf + 4096) (n * 4096)))"
    using Suc.IH [OF h2(2)] by blast
  have "wr ?c (unat sec * 4096 + 4096) (rd m (buf + 4096) (n * 4096)) =
      wr c (unat sec * 4096) (rd m buf 4096 @ rd m (buf + 4096) (n * 4096))"
    by (simp add: wr_append)
  also have "rd m buf 4096 @ rd m (buf + 4096) (n * 4096) = rd m buf (Suc n * 4096)"
    by (simp add: rd_add)
  finally have "nor_idle ready chip nor h3 (wr c (unat sec * 4096) (rd m buf (Suc n * 4096)))"
    using h3(2) next_sec by (simp add: algebra_simps)
  then show ?case
    using h1(1) h2(1) h3(1) ok by simp
qed simp

lemma HAL_SNOR_OverWrite_ok:
  assumes "nor_idle ready chip nor h c" "(unat sec + unat nSec) * 4096 \<le> unat (nor_size nor)" "buf \<noteq> 0"
  shows "\<exists>h'. HAL_SNOR_OverWrite env nor h m sec nSec buf = Some (h', Value (unat nSec)) \<and>
    nor_idle ready chip nor h' (wr c (unat sec * 4096) (rd m buf (unat nSec * 4096)))"
  using overwrite_all [OF assms, of m] by (auto simp: HAL_SNOR_OverWrite_def)

lemma erase_all:
  assumes "nor_idle ready chip nor h c" "4096 dvd unat Offset" "unat len = n * 4096"
    "unat Offset + unat len \<le> unat (nor_size nor)"
  shows "\<exists>h'. erase_loop env nor h Offset len = Some (h', EFI_SUCCESS) \<and>
    nor_idle ready chip nor h' (fill c (unat Offset) (unat len) 0xFF)"
  using assms
proof (induction n arbitrary: h c Offset len)
  case 0
  then show ?case
    by (auto simp: erase_loop.simps [of env nor h Offset 0] unat_eq_zero)
next
  case (Suc n)
  note ok = idle_ok [OF Suc.prems(1)]
  have le: "4096 \<le> len"
    using Suc.prems(3) by (simp add: word_le_nat_alt)
  have rest: "unat (len - 4096) = n * 4096"
    using unat_sub_no_wrap [OF le] Suc.prems(3) by simp
  have a: "unat (Offset + 4096) = unat Offset + 4096"
    using Suc.prems(3,4) ok by (subst unat_add_no_wrap) simp_all
  obtain h1 where h1: "HAL_SNOR_Erase env nor h Offset ERASE_SECTOR = Some (h1, EFI_SUCCESS)"
    "nor_idle ready chip nor h1 (erase_unit 4096 c (unat Offset))"
    using idle_erase [OF Suc.prems(1), of Offset] Suc.prems(3,4) by auto
  have dvd: "4096 dvd unat (Offset + 4096)"
    using a Suc.prems(2) by simp
  have bound: "unat (Offset + 4096) + unat (len - 4096) \<le> unat (nor_size nor)"
    using a rest Suc.prems(3,4) by simp
  obtain h2 where h2: "erase_loop env nor h1 (Offset + 4096) (len - 4096) = Some (h2, EFI_SUCCESS)"
    "nor_idle ready chip nor h2
       (fill (erase_unit 4096 c (unat Offset)) (unat (Offset + 4096)) (unat (len - 4096)) 0xFF)"
    using Suc.IH [OF h1(2) dvd rest bound] by blast
  have "fill (erase_unit 4096 c (unat Offset)) (unat Offset + 4096) (n * 4096) 0xFF =
      fill c (unat Offset) (unat len) 0xFF"
  proof (rule ext)
    fix x
    obtain k where k: "unat Offset = 4096 * k"
      using Suc.prems(2) by blast
    have "x div 4096 = k \<longleftrightarrow> 4096 * k \<le> x \<and> x < 4096 * k + 4096"
      using mult_div_mod_eq [of 4096 x] mod_less_divisor [of 4096 x] div_nat_eqI [of 4096 k x] by auto
    then show "fill (erase_unit 4096 c (unat Offset)) (unat Offset + 4096) (n * 4096) 0xFF x =
        fill c (unat Offset) (unat len) 0xFF x"
      using k Suc.prems(3) by (auto simp: fill_def erase_unit_def)
  qed
  then have idle: "nor_idle ready chip nor h2 (fill c (unat Offset) (unat len) 0xFF)"
    using h2(2) a rest by simp
  have "len \<noteq> 0" "\<not> len < 4096"
    using le Suc.prems(3) by (auto simp: not_less)
  then have "erase_loop env nor h Offset len = Some (h2, EFI_SUCCESS)"
    using h1(1) h2(1) ok by (subst erase_loop.simps) simp
  then show ?case
    using idle by blast
qed

end

lemma rd_drop: "k \<le> n \<Longrightarrow> rd m (a + k) (n - k) = drop k (rd m a n)"
  by (rule nth_equalityI) (auto simp: add.assoc)

lemma unaligned_merge:
  assumes "length old = 4096" "length new = n" "a \<le> 4096" "base + a = off" "old = rd c base 4096"
  shows "wr c base (rd (wr (wr m tmp old) (tmp + a) new) tmp 4096) = wr c off (take (4096 - a) new)"
proof (rule ext)
  fix x
  have "wr c base (rd (wr (wr m tmp old) (tmp + a) new) tmp 4096) x =
      (if base \<le> x \<and> x < base + 4096 then wr (wr m tmp old) (tmp + a) new (tmp + (x - base)) else c x)"
    by (auto simp: wr_def)
  then show "wr c base (rd (wr (wr m tmp old) (tmp + a) new) tmp 4096) x = wr c off (take (4096 - a) new) x"
    using assms by (auto simp: wr_def)
qed

lemma low_bits_12: "unat ((off :: u32) AND (4096 - 1)) = unat off mod 4096"
proof -
  have "off AND (4096 - 1) = take_bit 12 off"
    by (simp add: take_bit_eq_mask mask_eq_exp_minus_1)
  then have "unat (off AND (4096 - 1)) = take_bit 12 (unat off)"
    by (simp only: unsigned_take_bit_eq)
  then show ?thesis
    by (simp add: take_bit_eq_mod)
qed

context nor_port
begin

text \<open>One sector of an aligned update: the new bytes and, behind them, the old ones.\<close>

lemma update_block:
  assumes idle: "nor_idle ready chip nor h c" and al: "4096 dvd unat Offset"
    and n: "0 < n" "n \<le> 4096" and room: "unat Offset + n \<le> unat (nor_size nor)"
    and buf: "buf \<noteq> 0" "tmp \<noteq> 0" "tmp + 4096 \<le> buf \<or> buf + n \<le> tmp"
  shows "\<exists>h' m'. SpiFlashUpdateBlock env nor h m Offset 0 n buf tmp 4096 = Some (h', m', EFI_SUCCESS) \<and>
    nor_idle ready chip nor h' (wr c (unat Offset) (rd m buf n)) \<and>
    (\<forall>x. x < tmp \<or> tmp + 4096 \<le> x \<longrightarrow> m' x = m x)"
proof -
  note ok = idle_ok [OF idle]
  have start: "unat Offset < unat (nor_size nor)"
    using n room by linarith
  have full: "unat Offset + 4096 \<le> unat (nor_size nor)"
  proof -
    obtain i j where "unat Offset = 4096 * i" "unat (nor_size nor) = 4096 * j"
      using al ok by (auto simp: dvd_def)
    then show ?thesis
      using start by simp
  qed
  have of_n: "unat (of_nat n :: u32) = n"
    using n(2) by (simp add: unat_of_nat)
  let ?off = "unat Offset"
  obtain h0 m0 where h0: "(if n \<noteq> 4096 then HAL_SNOR_ReadData env nor (runtime_clock env h) m (Offset - 0) tmp (of_nat 4096)
      else Some (runtime_clock env h, m, EFI_SUCCESS)) = Some (h0, m0, Value (if n \<noteq> 4096 then 4096 else 0))"
    "nor_idle ready chip nor h0 c" "n \<noteq> 4096 \<longrightarrow> m0 = wr m tmp (rd c ?off 4096)" "n = 4096 \<longrightarrow> m0 = m"
  proof (cases "n = 4096")
    case True
    then show thesis
      using that idle_clock [OF idle] by auto
  next
    case False
    have "unat Offset + unat (4096 :: u32) \<le> unat (nor_size nor)"
      using full by simp
    from idle_read [OF idle_clock [OF idle] start this buf(2), of m] False
    show thesis
      using that by auto
  qed
  have m0: "rd m0 buf n = rd m buf n"
    using h0(3,4) buf(3) by (cases "n = 4096") (auto intro: rd_wr_other)
  obtain h1 where h1: "HAL_SNOR_Erase env nor h0 Offset ERASE_SECTOR = Some (h1, EFI_SUCCESS)"
    "nor_idle ready chip nor h1 (erase_unit 4096 c ?off)"
    using idle_erase [OF h0(2) start] by blast
  obtain h2 where h2: "HAL_SNOR_ProgData env nor h1 m0 Offset buf (of_nat n) = Some (h2, Value n)"
    "nor_idle ready chip nor h2 (program (erase_unit 4096 c ?off) ?off (rd m buf n))"
    using idle_prog [OF h1(2) start _ buf(1), of "of_nat n" m0] room m0 unfolding of_n by auto
  show ?thesis
  proof (cases "n = 4096")
    case True
    then show ?thesis
      using h0 h1(1) h2 by (auto simp: SpiFlashUpdateBlock_def erased_program [OF _ al])
  next
    case False
    have mid: "unat (Offset + of_nat n) = ?off + n"
      using room ok of_n by (subst unat_add_no_wrap) simp_all
    have tail: "unat (of_nat (4096 - n) :: u32) = 4096 - n"
      by (simp add: unat_of_nat)
    have tail_rd: "rd m0 (tmp + n) (4096 - n) = rd c (?off + n) (4096 - n)"
      using h0(3) False n(2) rd_wr_same [of "rd c ?off 4096" 4096 m tmp] by (simp add: rd_drop)
    have "unat (Offset + of_nat n) < unat (nor_size nor)"
      "unat (Offset + of_nat n) + unat (of_nat (4096 - n) :: u32) \<le> unat (nor_size nor)" "tmp + n \<noteq> 0"
      using full mid tail n False by linarith+
    then obtain h3 where h3: "HAL_SNOR_ProgData env nor h2 m0 (Offset + of_nat n) (tmp + n) (of_nat (4096 - n)) =
        Some (h3, Value (4096 - n))"
      "nor_idle ready chip nor h3 (program (program (erase_unit 4096 c ?off) ?off (rd m buf n)) (?off + n)
         (rd c (?off + n) (4096 - n)))"
      using idle_prog [OF h2(2), of "Offset + of_nat n" "of_nat (4096 - n)" "tmp + n" m0] mid tail tail_rd
      by auto
    have "program (program (erase_unit 4096 c ?off) ?off (rd m buf n)) (?off + n) (rd c (?off + n) (4096 - n)) =
        program (erase_unit 4096 c ?off) ?off (rd m buf n @ rd c (?off + n) (4096 - n))"
      by (simp add: program_append)
    also have "\<dots> = wr c ?off (rd m buf n @ rd c (?off + n) (4096 - n))"
      using n(2) al by (intro erased_program) simp_all
    also have "\<dots> = wr c ?off (rd m buf n)"
      using wr_append_rd [of c ?off "rd m buf n" "4096 - n"] by simp
    finally show ?thesis
      using h0 h1(1) h2(1) h3 False
      by (auto simp: SpiFlashUpdateBlock_def wr_out)
  qed
qed

text \<open>
  One sector of an update that starts inside it: the bytes up to the end of the sector reach the
  chip, the others the memory behind the temporary buffer.
\<close>

lemma update_block_unaligned:
  assumes idle: "nor_idle ready chip nor h c" and n: "n < 4096" and al: "unat Align = unat Offset mod 4096" "Align \<noteq> 0"
    and start: "unat Offset < unat (nor_size nor)" and tmp: "tmp \<noteq> 0" "tmp + 4096 \<le> buf \<or> buf + n \<le> tmp"
  shows "\<exists>h' m'. SpiFlashUpdateBlock env nor h m Offset Align n buf tmp 4096 = Some (h', m', EFI_SUCCESS) \<and>
    nor_idle ready chip nor h' (wr c (unat Offset) (rd m buf (min n (4096 - unat Align)))) \<and>
    (\<forall>x \<ge> tmp + 4096. m' x = (if x < tmp + unat Align + n then m (buf + (x - (tmp + unat Align))) else m x))"
proof -
  note ok = idle_ok [OF idle]
  define base where "base = unat (Offset - Align)"
  have base: "base + unat Align = unat Offset" "4096 dvd base"
    using unat_sub_no_wrap [of Align Offset] al(1) unfolding base_def
    by (simp_all add: word_le_nat_alt flip: minus_mod_eq_mult_div)
  have "base div 4096 = unat Offset div 4096"
  proof -
    obtain k where "base = 4096 * k"
      using base(2) by blast
    moreover have "unat Align < 4096"
      using al(1) by simp
    ultimately show ?thesis
      using base(1) by (simp add: div_nat_eqI)
  qed
  then have unit: "erase_unit 4096 c (unat Offset) = erase_unit 4096 c base"
    by (simp add: erase_unit_def fun_eq_iff)
  have room: "base + 4096 \<le> unat (nor_size nor)"
  proof -
    obtain i j where "base = 4096 * i" "unat (nor_size nor) = 4096 * j"
      using base(2) ok by (auto simp: dvd_def)
    moreover from this have "i < j"
      using base(1) start by linarith
    ultimately show ?thesis by linarith
  qed
  have at: "unat (Offset - Align) < unat (nor_size nor)" "unat (Offset - Align) + unat (4096 :: u32) \<le> unat (nor_size nor)"
    using room by (simp_all add: base_def)
  let ?m1 = "wr m tmp (rd c base 4096)"
  let ?m2 = "wr ?m1 (tmp + unat Align) (rd ?m1 buf n)"
  have data: "rd ?m1 buf n = rd m buf n"
    using tmp(2) by (intro rd_wr_other) auto
  obtain h1 where h1: "HAL_SNOR_ReadData env nor (runtime_clock env h) m (Offset - Align) tmp 4096 = Some (h1, ?m1, Value 4096)"
    "nor_idle ready chip nor h1 c"
    using idle_read [OF idle_clock [OF idle] at tmp(1), of m] by (auto simp: base_def)
  obtain h2 where h2: "HAL_SNOR_Erase env nor h1 Offset ERASE_SECTOR = Some (h2, EFI_SUCCESS)"
    "nor_idle ready chip nor h2 (erase_unit 4096 c base)"
    using idle_erase [OF h1(2) start] unit by auto
  obtain h3 where h3: "HAL_SNOR_ProgData env nor h2 ?m2 (Offset - Align) tmp 4096 = Some (h3, Value 4096)"
    "nor_idle ready chip nor h3 (program (erase_unit 4096 c base) base (rd ?m2 tmp 4096))"
    using idle_prog [OF h2(2) at tmp(1), of ?m2] by (auto simp: base_def)
  have "program (erase_unit 4096 c base) base (rd ?m2 tmp 4096) = wr c base (rd ?m2 tmp 4096)"
    by (rule erased_program) (simp_all add: base(2))
  also have "\<dots> = wr c (unat Offset) (take (4096 - unat Align) (rd m buf n))"
    unfolding data using al(1) base(1) by (intro unaligned_merge) (simp_all add: less_imp_le)
  also have "take (4096 - unat Align) (rd m buf n) = rd m buf (min n (4096 - unat Align))"
    by (rule nth_equalityI) auto
  finally have "nor_idle ready chip nor h3 (wr c (unat Offset) (rd m buf (min n (4096 - unat Align))))"
    using h3(2) by simp
  moreover have "SpiFlashUpdateBlock env nor h m Offset Align n buf tmp 4096 = Some (h3, ?m2, EFI_SUCCESS)"
    using n al(2) h1(1) h2(1) h3(1) by (simp add: SpiFlashUpdateBlock_def)
  moreover have "\<forall>x \<ge> tmp + 4096. ?m2 x = (if x < tmp + unat Align + n then m (buf + (x - (tmp + unat Align))) else m x)"
    unfolding data using al(1) mod_less_divisor [of 4096 "unat Offset"] by (auto simp: wr_def)
  ultimately show ?thesis
    by blast
qed

lemma update_all:
  assumes "nor_idle ready chip nor h c" "4096 dvd unat Offset"
    "unat Offset + left \<le> unat (nor_size nor)" "buf \<noteq> 0" "tmp \<noteq> 0"
    "tmp + 4096 \<le> buf \<or> buf + left \<le> tmp"
  shows "\<exists>h' m'. update_loop env nor h m Offset 0 buf left tmp = Some (h', m', EFI_SUCCESS) \<and>
    nor_idle ready chip nor h' (wr c (unat Offset) (rd m buf left))"
  using assms
proof (induction left arbitrary: h c m Offset buf rule: less_induct)
  case (less left)
  note ok = idle_ok [OF less.prems(1)]
  show ?case
  proof (cases "left = 0")
    case True
    then show ?thesis
      using less.prems(1) by (simp add: update_loop.simps [of env nor h m Offset 0 buf 0 tmp])
  next
    case False
    let ?n = "min left 4096"
    have n: "0 < ?n" "?n \<le> 4096" "?n \<le> left"
      using False by auto
    have room: "unat Offset + ?n \<le> unat (nor_size nor)" and sep: "tmp + 4096 \<le> buf \<or> buf + ?n \<le> tmp"
      using less.prems(3,6) n(3) by linarith+
    obtain h1 m1 where h1: "SpiFlashUpdateBlock env nor h m Offset 0 ?n buf tmp 4096 = Some (h1, m1, EFI_SUCCESS)"
      "nor_idle ready chip nor h1 (wr c (unat Offset) (rd m buf ?n))"
      "\<forall>x. x < tmp \<or> tmp + 4096 \<le> x \<longrightarrow> m1 x = m x"
      using update_block [OF less.prems(1,2) n(1,2) room less.prems(4,5) sep, of m] by blast
    have step: "update_loop env nor h m Offset 0 buf left tmp =
        update_loop env nor h1 m1 (Offset + of_nat ?n) 0 (buf + ?n) (left - ?n) tmp"
      using False n(1) h1(1) ok by (subst update_loop.simps) (auto simp: Let_def)
    show ?thesis
    proof (cases "left \<le> 4096")
      case True
      then show ?thesis
        using step h1(2) by (auto simp: update_loop.simps [of env nor h1 m1 _ 0 _ 0 tmp])
    next
      case big: False
      then have n4: "?n = 4096"
        by simp
      have off: "unat (Offset + of_nat ?n) = unat Offset + 4096"
        using less.prems(3) ok big unfolding n4 by (subst unat_add_no_wrap) simp_all
      have al: "4096 dvd unat (Offset + of_nat ?n)"
        using off less.prems(2) by simp
      have room': "unat (Offset + of_nat ?n) + (left - ?n) \<le> unat (nor_size nor)"
        and sep': "tmp + 4096 \<le> buf + ?n \<or> buf + ?n + (left - ?n) \<le> tmp"
        and small: "left - ?n < left" and b: "buf + ?n \<noteq> 0"
        using less.prems(3,4,6) off big unfolding n4 by auto
      obtain h2 m2 where h2: "update_loop env nor h1 m1 (Offset + of_nat ?n) 0 (buf + ?n) (left - ?n) tmp =
          Some (h2, m2, EFI_SUCCESS)"
        "nor_idle ready chip nor h2
           (wr (wr c (unat Offset) (rd m buf ?n)) (unat (Offset + of_nat ?n)) (rd m1 (buf + ?n) (left - ?n)))"
        using less.IH [OF small h1(2) al room' b less.prems(5) sep', of m1] by blast
      have "rd m1 (buf + ?n) (left - ?n) = rd m (buf + ?n) (left - ?n)"
        using h1(3) less.prems(6) n4 by (intro rd_cong) auto
      moreover have "rd m buf ?n @ rd m (buf + ?n) (left - ?n) = rd m buf left"
        using rd_add [of m buf ?n "left - ?n"] n(3) by simp
      ultimately have "nor_idle ready chip nor h2 (wr c (unat Offset) (rd m buf left))"
        using h2(2) off n4 wr_append [of c "unat Offset" "rd m buf ?n" "rd m (buf + ?n) (left - ?n)"] by simp
      then show ?thesis
        using step h2(1) by auto
    qed
  qed
qed

lemma Update_ok:
  assumes "nor_idle ready chip nor h c" "4096 dvd unat Offset"
    "unat Offset + unat len \<le> unat (nor_size nor)" "buf \<noteq> 0" "tmp \<noteq> 0"
    "tmp + 4096 \<le> buf \<or> buf + unat len \<le> tmp"
  shows "\<exists>h' m'. Update env (Some tmp) nor h m Offset buf len = Some (h', m', EFI_SUCCESS) \<and>
    nor_idle ready chip nor h' (wr c (unat Offset) (rd m buf (unat len)))"
proof -
  note ok = idle_ok [OF assms(1)]
  have "Offset AND (4096 - 1) = 0"
    using low_bits_12 [of Offset] assms(2) by (simp add: unat_eq_zero dvd_eq_mod_eq_0)
  moreover have "rd (fill m tmp 4096 0) buf (unat len) = rd m buf (unat len)"
    using assms(6) by (intro rd_cong) (auto simp: fill_def)
  ultimately show ?thesis
    using update_all [OF assms(1-3,4,5,6), of "fill m tmp 4096 0"] ok by (auto simp: Update_def)
qed

lemma Update_unaligned:
  assumes "nor_idle ready chip nor h c" "unat Offset mod 4096 \<noteq> 0" "unat Offset < unat (nor_size nor)"
    "unat len < 4096" "tmp \<noteq> 0" "tmp + 4096 \<le> buf \<or> buf + unat len \<le> tmp"
  shows "\<exists>h' m'. Update env (Some tmp) nor h m Offset buf len = Some (h', m', EFI_SUCCESS) \<and>
    nor_idle ready chip nor h' (wr c (unat Offset) (rd m buf (min (unat len) (4096 - unat Offset mod 4096)))) \<and>
    (\<forall>x \<ge> tmp + 4096. m' x =
      (if x < tmp + unat Offset mod 4096 + unat len then m (buf + (x - (tmp + unat Offset mod 4096))) else m x))"
proof -
  note ok = idle_ok [OF assms(1)]
  let ?Align = "Offset AND (4096 - 1)" and ?m0 = "fill m tmp 4096 0"
  have al: "unat ?Align = unat Offset mod 4096" "?Align \<noteq> 0"
    using low_bits_12 [of Offset] assms(2) by auto
  have run: "Update env (Some tmp) nor h m Offset buf len = update_loop env nor h ?m0 Offset ?Align buf (unat len) tmp"
    using ok by (simp add: Update_def)
  have data: "rd ?m0 buf k = rd m buf k" if "k \<le> unat len" for k
    using assms(6) that by (intro rd_cong) (auto simp: fill_def)
  show ?thesis
  proof (cases "len = 0")
    case True
    have "update_loop env nor h ?m0 Offset ?Align buf 0 tmp = Some (h, ?m0, EFI_SUCCESS)"
      by (subst update_loop.simps) simp
    then show ?thesis
      using assms(1) mod_less_divisor [of 4096 "unat Offset"] True unfolding run
      by (auto simp: fill_def)
  next
    case False
    then have pos: "unat len \<noteq> 0"
      by (simp add: unat_eq_zero)
    obtain h1 m1 where b: "SpiFlashUpdateBlock env nor h ?m0 Offset ?Align (unat len) buf tmp 4096 = Some (h1, m1, EFI_SUCCESS)"
      "nor_idle ready chip nor h1 (wr c (unat Offset) (rd ?m0 buf (min (unat len) (4096 - unat ?Align))))"
      "\<forall>x \<ge> tmp + 4096. m1 x = (if x < tmp + unat ?Align + unat len then ?m0 (buf + (x - (tmp + unat ?Align))) else ?m0 x)"
      using update_block_unaligned [OF assms(1,4) al assms(3,5,6), of ?m0] by blast
    have "update_loop env nor h ?m0 Offset ?Align buf (unat len) tmp = Some (h1, m1, EFI_SUCCESS)"
      using pos assms(4) b(1) ok
      by (subst update_loop.simps) (simp add: Let_def update_loop.simps [of env nor h1 m1 _ _ _ 0 tmp])
    moreover have "nor_idle ready chip nor h1 (wr c (unat Offset) (rd m buf (min (unat len) (4096 - unat Offset mod 4096))))"
      using b(2) by (simp only: data al(1) min.cobounded1)
    moreover have "m1 x = (if x < tmp + unat Offset mod 4096 + unat len then m (buf + (x - (tmp + unat Offset mod 4096))) else m x)"
      if "tmp + 4096 \<le> x" for x
    proof -
      have "unat Offset mod 4096 < 4096"
        by simp
      then have "buf + (x - (tmp + unat Offset mod 4096)) < buf + unat len" if "x < tmp + unat Offset mod 4096 + unat len"
        using that \<open>tmp + 4096 \<le> x\<close> by linarith
      then show ?thesis
        using b(3) [rule_format, OF that] assms(6) that unfolding al(1) by (auto simp: fill_def)
    qed
    ultimately show ?thesis
      unfolding run by blast
  qed
qed

end

end
