(* ===== verification/NorChip.thy ===== *)
theory NorChip
  imports NorPort
begin

text \<open>
  A serial NOR chip behind the FSPI controller at register level, and the interpretation of
  \<open>nor_port\<close> on \<open>HAL_FSPI_SpiXfer\<close> over it: writing the command (or the address, when there is
  one) starts the transaction, the FIFOs report any schedule of fill levels, and the chip executes
  a program command when its last data word arrives. The schedule is part of the state, so the
  polling loops of the driver run against stalls and bursts of every shape.
\<close>

section \<open>Bit fields\<close>

lemma FSPICMD_cmd: "FSPICMD_d32 c AND 255 = cmd_cmd c AND 255"
  by (rule bit_word_eqI) (auto simp: FSPICMD_d32_def and_masks bit_simps)

lemma FSPICMD_rw: "bit (FSPICMD_d32 c) 12 = bit (cmd_rw c) 0"
  by (simp add: FSPICMD_d32_def and_masks(1-4) bit_simps)

lemma FSPICMD_addrbits: "drop_bit 14 (FSPICMD_d32 c) AND 3 = cmd_addrbits c AND 3"
  by (rule bit_word_eqI) (auto simp: FSPICMD_d32_def and_masks bit_simps)

definition fsr_word :: "nat \<Rightarrow> nat \<Rightarrow> bool \<Rightarrow> u32" where
  "fsr_word tx rx rx_empty = push_bit 1 1 OR (if rx_empty then push_bit 2 1 else 0) OR
     push_bit 8 (take_bit 5 (of_nat tx)) OR push_bit 16 (take_bit 5 (of_nat rx))"

lemma bit_4: "bit (4 :: int) n \<longleftrightarrow> n = 2"
proof -
  have "bit (2 ^ 2 :: int) n \<longleftrightarrow> n = 2"
    unfolding bit_exp_iff by (auto simp: possible_bit_def)
  then show ?thesis
    by simp
qed

lemma fsr_word_tx: "drop_bit 8 (fsr_word tx rx e) AND 31 = take_bit 5 (of_nat tx)"
  by (rule bit_word_eqI) (auto simp: fsr_word_def and_masks bit_simps bit_4)

lemma fsr_word_rx: "drop_bit 16 (fsr_word tx rx e) AND 31 = take_bit 5 (of_nat rx)"
  by (rule bit_word_eqI) (auto simp: fsr_word_def and_masks bit_simps bit_4)

lemma unat_take_5: "n < 32 \<Longrightarrow> unat (take_bit 5 (of_nat n :: u32)) = n"
  by (simp only: unsigned_take_bit_eq) (simp add: unat_of_nat take_bit_eq_mod)

lemma fsr_word_levels:
  "tx < 32 \<Longrightarrow> fsr_txlevel (fsr_word tx rx e) = tx"
  "rx < 32 \<Longrightarrow> fsr_rxlevel (fsr_word tx rx e) = rx"
  by (simp_all only: fsr_txlevel_def fsr_rxlevel_def fsr_word_tx fsr_word_rx unat_take_5)

lemma fsr_word_empty: "fsr_tx_empty (fsr_word tx rx e)" "fsr_rx_empty (fsr_word tx rx True)"
proof -
  have "bit (fsr_word tx rx e AND 2) 1" "bit (fsr_word tx rx True AND 4) 2"
    by (simp_all add: fsr_word_def bit_simps)
  then show "fsr_tx_empty (fsr_word tx rx e)" "fsr_rx_empty (fsr_word tx rx True)"
    by (auto simp: fsr_tx_empty_def fsr_rx_empty_def)
qed

section \<open>The controller with a chip\<close>

record nor_sim =
  sim_chip :: nor_chip
  sim_len :: u32
  sim_cmd :: u32
  sim_addr :: u32
  sim_tx :: "u8 list"
  sim_rx :: "u8 list"
  sim_levels :: "nat list"

text \<open>The transaction described by the registers, with the data collected.\<close>

definition sim_op :: "nor_sim \<Rightarrow> u8 list \<Rightarrow> HAL_SPI_MEM_OP" where
  "sim_op s bs =
     \<lparr>cmd_buswidth = 1, cmd_opcode = ucast (sim_cmd s AND 255),
      addr_nbytes = (let a = drop_bit 14 (sim_cmd s) AND 3 in if a = 2 then 4 else if a = 1 then 3 else 0),
      addr_buswidth = 1, addr_val = sim_addr s, dummy_nbytes = 0, dummy_buswidth = 1, data_buswidth = 1,
      data_dir = HAL_SPI_MEM_DATA_IN, data_nbytes = sim_len s, data_buf = Some (\<lambda>i. bs ! i)\<rparr>"

definition sim_write_dir :: "nor_sim \<Rightarrow> bool" where
  "sim_write_dir s \<longleftrightarrow> bit (sim_cmd s) 12"

definition sim_exec :: "nor_sim \<Rightarrow> u8 list \<Rightarrow> nor_sim" where
  "sim_exec s bs = s\<lparr>sim_chip := chip_exec (sim_chip s) (sim_op s bs)\<rparr>"

definition sim_start :: "nor_sim \<Rightarrow> nor_sim" where
  "sim_start s =
     (if sim_len s = 0 then sim_exec s []
      else if sim_write_dir s then s
      else (sim_exec s [])\<lparr>sim_rx := take (unat (sim_len s)) (chip_reply (sim_chip s) (sim_op s []))\<rparr>)"

definition sim_level :: "nor_sim \<Rightarrow> nat" where
  "sim_level s = (case sim_levels s of [] \<Rightarrow> 31 | l # _ \<Rightarrow> min l 31)"

definition sim_rd :: "nor_sim \<Rightarrow> fspi_reg \<Rightarrow> u32 \<times> nor_sim" where
  "sim_rd s r =
     (case r of
        FSR \<Rightarrow> (fsr_word (sim_level s) (min (sim_level s) ((length (sim_rx s) + 3) div 4)) (sim_rx s = []),
                s\<lparr>sim_levels := tl (sim_levels s)\<rparr>)
      | DATA \<Rightarrow> (let b = sim_rx s @ [0, 0, 0, 0] in word_of (b ! 0) (b ! 1) (b ! 2) (b ! 3),
                s\<lparr>sim_rx := drop 4 (sim_rx s)\<rparr>)
      | _ \<Rightarrow> (0, s))"

definition sim_wr :: "nor_sim \<Rightarrow> fspi_reg \<Rightarrow> u32 \<Rightarrow> nor_sim" where
  "sim_wr s r v =
     (case r of
        LEN_EXT \<Rightarrow> s\<lparr>sim_len := v\<rparr>
      | CMD \<Rightarrow>
          (let s = s\<lparr>sim_cmd := v, sim_tx := [], sim_rx := []\<rparr>
           in if drop_bit 14 v AND 3 = 0 then sim_start s else s)
      | ADDR \<Rightarrow> sim_start (s\<lparr>sim_addr := v\<rparr>)
      | DATA \<Rightarrow>
          (let s = s\<lparr>sim_tx := sim_tx s @ [byte_of v 0, byte_of v 1, byte_of v 2, byte_of v 3]\<rparr>
           in if unat (sim_len s) \<le> length (sim_tx s)
              then sim_exec (s\<lparr>sim_tx := []\<rparr>) (take (unat (sim_len s)) (sim_tx s)) else s)
      | _ \<Rightarrow> s)"

definition sim_hw :: "nor_sim fspi_hw" where
  "sim_hw = \<lparr>reg_rd = sim_rd, reg_wr = sim_wr, HAL_CPUDelayUs = (\<lambda>s _. s)\<rparr>"

definition sim_ready :: "nor_sim \<Rightarrow> bool" where
  "sim_ready s \<longleftrightarrow> sim_rx s = [] \<and> length (sim_levels s) \<le> 10000 \<and> length (jedec (sim_chip s)) = 3"

definition fspi_env :: "HAL_FSPI_HOST \<Rightarrow> bool \<Rightarrow> (nat \<Rightarrow> u8) \<Rightarrow> nor_sim nor_env" where
  "fspi_env host runtime junk =
     \<lparr>spi_xfer = HAL_FSPI_SpiXfer sim_hw host, NanoSecondDelay = (\<lambda>s _. s), EfiAtRuntime = runtime,
      NorFspiEnableClock = (\<lambda>s. s), uninit = junk\<rparr>"

lemma sim_hw_simps [simp]:
  "reg_rd sim_hw = sim_rd" "reg_wr sim_hw = sim_wr" "HAL_CPUDelayUs sim_hw s n = s"
  by (simp_all add: sim_hw_def)

lemma sim_rd_FSR: "sim_rd s FSR =
    (fsr_word (sim_level s) (min (sim_level s) ((length (sim_rx s) + 3) div 4)) (sim_rx s = []),
     s\<lparr>sim_levels := tl (sim_levels s)\<rparr>)"
  by (simp add: sim_rd_def)

lemma sim_level_less: "sim_level s < 32"
  by (auto simp: sim_level_def min_less_iff_disj split: list.splits)

lemma sim_level_zero: "sim_level s = 0 \<Longrightarrow> sim_levels s \<noteq> []"
  by (auto simp: sim_level_def)

lemma fsr_sim [simp]:
  "fsr_txlevel (fst (sim_rd s FSR)) = sim_level s"
  "fsr_rxlevel (fst (sim_rd s FSR)) = min (sim_level s) ((length (sim_rx s) + 3) div 4)"
  "fsr_tx_empty (fst (sim_rd s FSR))"
  "sim_rx s = [] \<Longrightarrow> fsr_rx_empty (fst (sim_rd s FSR))"
  "snd (sim_rd s FSR) = s\<lparr>sim_levels := tl (sim_levels s)\<rparr>"
  using sim_level_less [of s] by (simp_all add: sim_rd_FSR fsr_word_levels fsr_word_empty)

section \<open>Transmit\<close>

lemma chip_exec_cong:
  assumes "cmd_opcode op = cmd_opcode op'" "op_addr op = op_addr op'"
    "cmd_opcode op \<in> set prog_codes \<Longrightarrow> op_data op = op_data op'"
  shows "chip_exec ch op = chip_exec ch op'"
  using assms by (auto simp: chip_exec_def Let_def)

text \<open>A pending program transaction: \<open>k\<close> words of the buffer have arrived.\<close>

definition tx_pending :: "nor_sim \<Rightarrow> (nat \<Rightarrow> u8) \<Rightarrow> nat \<Rightarrow> bool" where
  "tx_pending s buf off \<longleftrightarrow> sim_tx s = map buf [0..<off] \<and> off < unat (sim_len s)"

definition tx_done :: "nor_sim \<Rightarrow> (nat \<Rightarrow> u8) \<Rightarrow> nor_sim \<Rightarrow> bool" where
  "tx_done s buf s' \<longleftrightarrow> sim_rx s' = sim_rx s \<and> length (sim_levels s') \<le> length (sim_levels s) \<and>
     sim_chip s' = chip_exec (sim_chip s) (sim_op s (map buf [0..<unat (sim_len s)]))"

lemma map_upt_4:
  "map buf [0..<off] @ [buf off, buf (Suc off), buf (Suc (Suc off)), buf (off + 3)] = map buf [0..<off + 4]"
  by (simp add: numeral_eq_Suc)

lemma sim_wr_DATA:
  assumes "tx_pending s buf off"
  shows "let s' = sim_wr s DATA (word_of (buf off) (buf (off + 1)) (buf (off + 2)) (buf (off + 3)))
    in if off + 4 < unat (sim_len s)
       then tx_pending s' buf (off + 4) \<and> s' = s\<lparr>sim_tx := map buf [0..<off + 4]\<rparr>
       else tx_done s buf s'"
proof -
  have "take (unat (sim_len s)) (map buf [0..<off + 4]) = map buf [0..<unat (sim_len s)]"
    if "unat (sim_len s) \<le> off + 4"
    using that by (simp add: take_map)
  then show ?thesis
    using assms
    by (auto simp: sim_wr_def tx_pending_def tx_done_def map_upt_4 sim_exec_def sim_op_def Let_def)
qed

lemma sim_op_tx [simp]: "sim_op (s\<lparr>sim_tx := t\<rparr>) = sim_op s" "sim_op (s\<lparr>sim_levels := l\<rparr>) = sim_op s"
  by (simp_all add: sim_op_def fun_eq_iff)

lemma tx_words_pending:
  assumes "tx_pending s buf off" "off + 4 * count < unat (sim_len s)"
  shows "tx_words sim_hw s buf off count = s\<lparr>sim_tx := map buf [0..<off + 4 * count]\<rparr>"
  using assms
proof (induction count arbitrary: s off)
  case 0
  then show ?case
    by (simp add: tx_pending_def)
next
  case (Suc count)
  let ?s' = "sim_wr s DATA (word_of (buf off) (buf (off + 1)) (buf (off + 2)) (buf (off + 3)))"
  have p: "tx_pending ?s' buf (off + 4)" and e: "?s' = s\<lparr>sim_tx := map buf [0..<off + 4]\<rparr>"
    using sim_wr_DATA [OF Suc.prems(1)] Suc.prems(2) by (auto simp: Let_def split: if_splits)
  have "off + 4 + 4 * count < unat (sim_len ?s')"
    using Suc.prems(2) unfolding e by simp
  from Suc.IH [OF p this] show ?case
    unfolding e by (simp add: e [simplified] algebra_simps)
qed

lemma tx_words_done:
  assumes "tx_pending s buf off" "off + 4 * count < unat (sim_len s)" "unat (sim_len s) \<le> off + 4 * count + 4"
  shows "tx_done s buf (tx_words sim_hw s buf off (Suc count))"
  using assms
proof (induction count arbitrary: s off)
  case 0
  then show ?case
    using sim_wr_DATA [OF 0(1)] by (auto simp: Let_def split: if_splits)
next
  case (Suc count)
  let ?s' = "sim_wr s DATA (word_of (buf off) (buf (off + 1)) (buf (off + 2)) (buf (off + 3)))"
  have p: "tx_pending ?s' buf (off + 4)" and e: "?s' = s\<lparr>sim_tx := map buf [0..<off + 4]\<rparr>"
    using sim_wr_DATA [OF Suc.prems(1)] Suc.prems(2) by (auto simp: Let_def split: if_splits)
  have "off + 4 + 4 * count < unat (sim_len ?s')" "unat (sim_len ?s') \<le> off + 4 + 4 * count + 4"
    using Suc.prems(2,3) unfolding e by simp_all
  from Suc.IH [OF p this] have "tx_done s buf (tx_words sim_hw ?s' buf (off + 4) (Suc count))"
    unfolding e by (simp add: tx_done_def)
  then show ?case
    by simp
qed

lemma tx_loop_done:
  assumes "tx_pending s buf off" "unat (sim_len s) \<le> off + 4 * w" "off + 4 * w < unat (sim_len s) + 4"
    "timeout + length (sim_levels s) \<le> 10001"
  shows "\<exists>s'. tx_loop sim_hw s buf off w timeout = (s', EFI_SUCCESS) \<and> tx_done s buf s'"
  using assms
proof (induction "sim_hw" s buf off w timeout rule: tx_loop.induct)
  case (1 s buf off timeout)
  then show ?case
    by (simp add: tx_pending_def)
next
  case (2 s buf off w timeout)
  let ?s = "s\<lparr>sim_levels := tl (sim_levels s)\<rparr>"
  have pend: "tx_pending ?s buf off"
    using "2.prems"(1) by (simp add: tx_pending_def)
  have rd: "sim_rd s FSR = (fst (sim_rd s FSR), ?s)"
    by (simp add: prod_eq_iff)
  show ?case
  proof (cases "sim_level s = 0")
    case True
    then have ne: "sim_levels s \<noteq> []"
      by (rule sim_level_zero)
    then have t: "\<not> 10000 < timeout" "timeout + 1 + length (sim_levels ?s) \<le> 10001"
      using "2.prems"(4) by (cases "sim_levels s"; simp)+
    have "\<exists>s'. tx_loop sim_hw ?s buf off (Suc w) (timeout + 1) = (s', EFI_SUCCESS) \<and> tx_done ?s buf s'"
      by (rule "2.hyps"(2) [unfolded sim_hw_simps, OF refl rd [symmetric] _ t(1) pend _ _ t(2)]) (use True "2.prems"(2,3) in simp_all)
    moreover have "tx_loop sim_hw s buf off (Suc w) timeout = tx_loop sim_hw ?s buf off (Suc w) (timeout + 1)"
      using True t(1) by (simp add: tx_loop.simps(2) [of sim_hw s] Let_def split_beta)
    ultimately show ?thesis
      by (auto simp: tx_done_def)
  next
    case False
    let ?c = "min (Suc w) (sim_level s)"
    have step: "tx_loop sim_hw s buf off (Suc w) timeout =
        tx_loop sim_hw (tx_words sim_hw ?s buf off ?c) buf (off + 4 * ?c) (Suc w - ?c) 0"
      using False by (simp add: tx_loop.simps(2) [of sim_hw s] Let_def split_beta)
    show ?thesis
    proof (cases "?c = Suc w")
      case True
      have "tx_done ?s buf (tx_words sim_hw ?s buf off (Suc w))"
        using "2.prems"(2,3) by (intro tx_words_done [OF pend]) auto
      then show ?thesis
        using step unfolding True by (auto simp: tx_done_def)
    next
      case part: False
      then have c: "0 < ?c" "?c < Suc w"
        using False by auto
      let ?t = "tx_words sim_hw ?s buf off ?c"
      have small: "off + 4 * ?c < unat (sim_len ?s)"
        using c "2.prems"(3) by simp
      have t: "?t = ?s\<lparr>sim_tx := map buf [0..<off + 4 * ?c]\<rparr>"
        using tx_words_pending [OF pend small] .
      then have pend': "tx_pending ?t buf (off + 4 * ?c)"
        using small by (simp add: tx_pending_def)
      have len: "unat (sim_len ?t) \<le> off + 4 * ?c + 4 * (Suc w - ?c)"
          "off + 4 * ?c + 4 * (Suc w - ?c) < unat (sim_len ?t) + 4"
          "0 + length (sim_levels ?t) \<le> 10001"
        using "2.prems"(2-4) c unfolding t by simp_all
      have lvl: "0 < fsr_txlevel (fst (sim_rd s FSR))"
        using False by simp
      have c_eq: "?c = min (Suc w) (fsr_txlevel (fst (sim_rd s FSR)))"
        by simp
      have "\<exists>s'. tx_loop sim_hw ?t buf (off + 4 * ?c) (Suc w - ?c) 0 = (s', EFI_SUCCESS) \<and> tx_done ?t buf s'"
        by (rule "2.hyps"(1) [unfolded sim_hw_simps, OF refl rd [symmetric] lvl c_eq pend' len])
      then show ?thesis
        using step t by (auto simp: tx_done_def)
    qed
  qed
qed

section \<open>Receive\<close>

lemma four_bytes:
  assumes "4 \<le> length xs"
  obtains a b c d ys where "xs = a # b # c # d # ys"
  using assms by (auto simp: numeral_eq_Suc Suc_le_length_iff)

lemma sim_rd_DATA:
  "sim_rx s = a # b # c # d # r \<Longrightarrow> sim_rd s DATA = (word_of a b c d, s\<lparr>sim_rx := r\<rparr>)"
  by (simp add: sim_rd_def numeral_eq_Suc)

lemma rx_words_sim:
  "4 * count \<le> length (sim_rx s) \<Longrightarrow>
   rx_words sim_hw s count = (s\<lparr>sim_rx := drop (4 * count) (sim_rx s)\<rparr>, take (4 * count) (sim_rx s))"
proof (induction count arbitrary: s)
  case (Suc count)
  obtain a b c d r where rx: "sim_rx s = a # b # c # d # r"
  proof -
    have "4 \<le> length (sim_rx s)"
      using Suc.prems by simp
    then show thesis
      using that by (rule four_bytes)
  qed
  have "rx_words sim_hw (s\<lparr>sim_rx := r\<rparr>) count = (s\<lparr>sim_rx := drop (4 * count) r\<rparr>, take (4 * count) r)"
    using Suc.IH [of "s\<lparr>sim_rx := r\<rparr>"] Suc.prems rx by simp
  moreover have "4 * Suc count = Suc (Suc (Suc (Suc (4 * count))))"
    by simp
  ultimately show ?case
    unfolding \<open>4 * Suc count = _\<close> using rx by (simp add: sim_rd_DATA [OF rx] Let_def)
qed simp

lemma rx_loop_done:
  assumes "4 * w \<le> length (sim_rx s)" "timeout + length (sim_levels s) \<le> 10001"
  shows "\<exists>l. rx_loop sim_hw s w timeout =
      (s\<lparr>sim_rx := drop (4 * w) (sim_rx s), sim_levels := l\<rparr>, take (4 * w) (sim_rx s), EFI_SUCCESS) \<and>
    length l \<le> length (sim_levels s)"
  using assms
proof (induction "sim_hw" s w timeout rule: rx_loop.induct)
  case (1 s timeout)
  then show ?case
    by (auto intro!: exI [of _ "sim_levels s"])
next
  case (2 s w timeout)
  let ?s = "s\<lparr>sim_levels := tl (sim_levels s)\<rparr>"
  have rd: "sim_rd s FSR = (fst (sim_rd s FSR), ?s)"
    by (simp add: prod_eq_iff)
  have avail: "0 < (length (sim_rx s) + 3) div 4" "Suc w \<le> (length (sim_rx s) + 3) div 4"
    using "2.prems"(1) by auto
  show ?case
  proof (cases "sim_level s = 0")
    case True
    then have ne: "sim_levels s \<noteq> []"
      by (rule sim_level_zero)
    then have t: "\<not> 10000 < timeout" "timeout + 1 + length (sim_levels ?s) \<le> 10001"
      using "2.prems"(2) by (cases "sim_levels s"; simp)+
    obtain l where "rx_loop sim_hw ?s (Suc w) (timeout + 1) =
      (?s\<lparr>sim_rx := drop (4 * Suc w) (sim_rx ?s), sim_levels := l\<rparr>, take (4 * Suc w) (sim_rx ?s), EFI_SUCCESS)"
      "length l \<le> length (sim_levels ?s)"
      using "2.hyps"(2) [unfolded sim_hw_simps, OF refl rd [symmetric] _ t(1) _ t(2)] True "2.prems"(1) by auto
    moreover have "rx_loop sim_hw s (Suc w) timeout = rx_loop sim_hw ?s (Suc w) (timeout + 1)"
      using True t(1) by (simp add: rx_loop.simps(2) [of sim_hw s] Let_def split_beta)
    ultimately show ?thesis
      by (auto intro!: exI [of _ l])
  next
    case False
    define c where "c = min (Suc w) (fsr_rxlevel (fst (sim_rd s FSR)))"
    have c: "0 < c" "c \<le> Suc w"
      using False avail by (auto simp: c_def)
    let ?t = "?s\<lparr>sim_rx := drop (4 * c) (sim_rx s)\<rparr>"
    have words: "rx_words sim_hw ?s c = (?t, take (4 * c) (sim_rx s))"
    proof -
      have "4 * c \<le> length (sim_rx ?s)"
        using mult_le_mono2 [OF c(2), of 4] "2.prems"(1) by simp
      from rx_words_sim [OF this] show ?thesis
        by simp
    qed
    have lvl: "0 < fsr_rxlevel (fst (sim_rd s FSR))"
      using False avail by simp
    have pre: "4 * (Suc w - c) \<le> length (sim_rx ?t)" "0 + length (sim_levels ?t) \<le> 10001"
      using "2.prems" c by simp_all
    obtain l where l: "rx_loop sim_hw ?t (Suc w - c) 0 =
      (?t\<lparr>sim_rx := drop (4 * (Suc w - c)) (sim_rx ?t), sim_levels := l\<rparr>,
       take (4 * (Suc w - c)) (sim_rx ?t), EFI_SUCCESS)"
      "length l \<le> length (sim_levels ?t)"
      using "2.hyps"(1) [unfolded sim_hw_simps, OF refl rd [symmetric] lvl c_def words [symmetric] refl pre] by blast
    have sum: "4 * c + 4 * (Suc w - c) = 4 * Suc w"
      unfolding add_mult_distrib2 [symmetric] le_add_diff_inverse [OF c(2)] ..
    have join: "take (4 * c) (sim_rx s) @ take (4 * (Suc w - c)) (drop (4 * c) (sim_rx s)) = take (4 * Suc w) (sim_rx s)"
      unfolding sum [symmetric] take_add ..
    have "rx_loop sim_hw s (Suc w) timeout =
        (let (s', cs, ret) = rx_loop sim_hw ?t (Suc w - c) 0 in (s', take (4 * c) (sim_rx s) @ cs, ret))"
      using lvl by (subst rx_loop.simps(2)) (simp add: Let_def split_beta words c_def [symmetric] del: fsr_sim(2))
    also have "\<dots> = (s\<lparr>sim_rx := drop (4 * Suc w) (sim_rx s), sim_levels := l\<rparr>, take (4 * Suc w) (sim_rx s), EFI_SUCCESS)"
      unfolding l(1) using join sum by (simp add: Let_def add.commute)
    finally show ?thesis
      using l(2) by (auto intro!: exI [of _ l])
  qed
qed

lemma rx_tail_done:
  assumes "length (sim_rx s) = b" "b < 4" "timeout + length (sim_levels s) \<le> 10001"
  shows "\<exists>l. rx_tail sim_hw s b timeout = (s\<lparr>sim_rx := [], sim_levels := l\<rparr>, sim_rx s, None) \<and>
    length l \<le> length (sim_levels s)"
  using assms
proof (induction "length (sim_levels s)" arbitrary: s timeout rule: less_induct)
  case less
  let ?s = "s\<lparr>sim_levels := tl (sim_levels s)\<rparr>"
  show ?case
  proof (cases "b = 0")
    case True
    then show ?thesis
      using less.prems(1) by (auto simp: rx_tail.simps [of sim_hw s 0 timeout] intro!: exI [of _ "sim_levels s"])
  next
    case False
    then have avail: "(b + 3) div 4 = 1"
      using less.prems(2) by simp
    show ?thesis
    proof (cases "sim_level s = 0")
      case True
      then have ne: "sim_levels s \<noteq> []"
        by (rule sim_level_zero)
      then have t: "\<not> 10000 < timeout" "timeout + 1 + length (sim_levels ?s) \<le> 10001"
        "length (sim_levels ?s) < length (sim_levels s)"
        using less.prems(3) by (cases "sim_levels s"; simp)+
      obtain l where "rx_tail sim_hw ?s b (timeout + 1) = (?s\<lparr>sim_rx := [], sim_levels := l\<rparr>, sim_rx ?s, None)"
        "length l \<le> length (sim_levels ?s)"
        using less.hyps [OF t(3) _ less.prems(2) t(2)] less.prems(1) by auto
      moreover have "rx_tail sim_hw s b timeout = rx_tail sim_hw ?s b (timeout + 1)"
        using True False t(1) by (simp add: rx_tail.simps [of sim_hw s b timeout] Let_def split_beta)
      ultimately show ?thesis
        by (auto intro!: exI [of _ l])
    next
      case level: False
      have "map (byte_of (fst (sim_rd ?s DATA))) [0..<b] = sim_rx s"
      proof -
        consider x where "sim_rx s = [x]" | x y where "sim_rx s = [x, y]" | x y z where "sim_rx s = [x, y, z]"
          using less.prems(1,2) False by (auto simp: numeral_eq_Suc less_Suc_eq length_Suc_conv)
        then show ?thesis
          using less.prems(1) byte_of_word_of_2 [unfolded numeral_2_eq_2]
          by cases (auto simp: sim_rd_def Let_def numeral_eq_Suc)
      qed
      moreover have "snd (sim_rd ?s DATA) = ?s\<lparr>sim_rx := []\<rparr>"
        using less.prems(1,2) by (simp add: sim_rd_def Let_def)
      ultimately have "rx_tail sim_hw s b timeout = (?s\<lparr>sim_rx := []\<rparr>, sim_rx s, None)"
        using False level less.prems(1) avail
        by (simp add: rx_tail.simps [of sim_hw s b timeout] Let_def split_beta)
      then show ?thesis
        by (auto intro!: exI [of _ "tl (sim_levels s)"])
    qed
  qed
qed

lemma unat_div_mod_4:
  "unat (drop_bit 2 (len :: u32)) = unat len div 4" "unat (len AND 3) = unat len mod 4"
proof -
  show "unat (drop_bit 2 len) = unat len div 4"
    using unat_drop_bit_eq [of 2 len] drop_bit_eq_div [of 2 "unat len"] by simp
  show "unat (len AND 3) = unat len mod 4"
    unfolding and_masks(4) by (simp only: unsigned_take_bit_eq) (simp add: take_bit_eq_mod)
qed

lemma XferData_in:
  assumes "length (sim_rx s) = unat len" "len \<noteq> 0" "length (sim_levels s) \<le> 10000"
  shows "\<exists>l. HAL_FSPI_XferData sim_hw s len data HAL_SPI_MEM_DATA_IN =
      Some (s\<lparr>sim_rx := [], sim_levels := l\<rparr>, sim_rx s, EFI_SUCCESS) \<and> length l \<le> length (sim_levels s)"
proof -
  let ?w = "unat len div 4" and ?b = "unat len mod 4"
  obtain l where l: "rx_loop sim_hw s ?w 0 =
      (s\<lparr>sim_rx := drop (4 * ?w) (sim_rx s), sim_levels := l\<rparr>, take (4 * ?w) (sim_rx s), EFI_SUCCESS)"
    "length l \<le> length (sim_levels s)"
    using rx_loop_done [of ?w s 0] assms by auto
  let ?s = "s\<lparr>sim_rx := drop (4 * ?w) (sim_rx s), sim_levels := l\<rparr>"
  have "length (sim_rx ?s) = ?b"
    using assms(1) by (simp add: minus_mult_div_eq_mod)
  then obtain l' where l': "rx_tail sim_hw ?s ?b 0 = (?s\<lparr>sim_rx := [], sim_levels := l'\<rparr>, sim_rx ?s, None)"
    "length l' \<le> length l"
    using rx_tail_done [of ?s ?b 0] assms(3) l(2) by auto
  have "HAL_FSPI_XferData sim_hw s len data HAL_SPI_MEM_DATA_IN =
      Some (s\<lparr>sim_rx := [], sim_levels := l'\<rparr>, sim_rx s, EFI_SUCCESS)"
    using assms(2) by (simp add: HAL_FSPI_XferData_def assert_that_def unat_div_mod_4 l(1) l'(1) Let_def)
  then show ?thesis
    using l(2) l'(2) by auto
qed

lemma tx_done_cong: "map f [0..<unat (sim_len s)] = map g [0..<unat (sim_len s)] \<Longrightarrow> tx_done s f s' = tx_done s g s'"
  by (simp only: tx_done_def)

lemma XferData_out:
  assumes "sim_tx s = []" "sim_len s = len" "len \<noteq> 0" "len \<le> 256" "length (sim_levels s) \<le> 10000"
  shows "\<exists>s'. HAL_FSPI_XferData sim_hw s len data HAL_SPI_MEM_DATA_OUT = Some (s', [], EFI_SUCCESS) \<and>
    tx_done s data s'"
proof -
  let ?buf = "if len < 4 then (\<lambda>i. if i < unat len then data i else 0) else data"
  have n: "0 < unat len" "unat len \<le> 256"
    using assms(3,4) by (auto simp: unat_gt_0 word_le_nat_alt)
  have "unat (len + 3) = unat len + 3"
    using n(2) by (subst unat_add_no_wrap) simp_all
  then have w: "unat (drop_bit 2 (len + 3)) = (unat len + 3) div 4"
    by (simp only: unat_div_mod_4)
  have "\<exists>s'. tx_loop sim_hw s ?buf 0 ((unat len + 3) div 4) 0 = (s', EFI_SUCCESS) \<and> tx_done s ?buf s'"
    by (rule tx_loop_done) (use assms n in \<open>auto simp: tx_pending_def\<close>)
  moreover have "tx_done s ?buf s' = tx_done s data s'" for s'
    using assms(2) by (intro tx_done_cong) auto
  ultimately show ?thesis
    using assms(3) w by (auto simp: HAL_FSPI_XferData_def assert_that_def Let_def)
qed

lemma XferDone_sim [simp]: "HAL_FSPI_XferDone sim_hw s = (s, EFI_SUCCESS)"
  by (simp add: HAL_FSPI_XferDone_def done_loop.simps [of sim_hw s 0] sim_rd_def sr_busy_def)

definition sim_setup :: "HAL_FSPI_HOST \<Rightarrow> nor_sim \<Rightarrow> HAL_SPI_MEM_OP \<Rightarrow> nat list \<Rightarrow> nor_sim" where
  "sim_setup host s op l =
     s\<lparr>sim_len := data_nbytes op, sim_levels := l, sim_cmd := FSPICMD_d32 (xfer_cmd host op),
       sim_tx := [], sim_rx := [], sim_addr := (if addr_nbytes op \<noteq> 0 then addr_val op else sim_addr s)\<rparr>"

lemma accepts_addr: "accepts ch op \<Longrightarrow> addr_nbytes op = 0 \<or> addr_nbytes op = 3 \<or> addr_nbytes op = 4"
  by (auto simp: accepts_def has_addr_def Let_def split: if_splits)

lemma addrbits_field:
  "addr_nbytes op = 0 \<or> addr_nbytes op = 3 \<or> addr_nbytes op = 4 \<Longrightarrow>
   drop_bit 14 (FSPICMD_d32 (xfer_cmd host op)) AND 3 =
     (if addr_nbytes op = 0 then 0 else if addr_nbytes op = 4 then 2 else 1)"
  unfolding FSPICMD_addrbits by (auto simp: xfer_cmd_def)

lemma XferStart_sim:
  assumes "sim_rx s = []" "accepts ch op"
  shows "\<exists>l. HAL_FSPI_XferStart sim_hw host s op = sim_start (sim_setup host s op l) \<and>
    length l \<le> length (sim_levels s)"
proof -
  note a = accepts_addr [OF assms(2)]
  let ?l = "tl (tl (sim_levels s))"
  have "HAL_FSPI_XferStart sim_hw host s op = sim_start (sim_setup host s op ?l)"
    using a assms(1)
    by (auto simp: HAL_FSPI_XferStart_def split_beta Let_def sim_setup_def sim_wr_def addrbits_field
        sim_rd_def [of _ SR] sr_busy_def)
  then show ?thesis
    by auto
qed

section \<open>The bus law\<close>

lemma sim_op_setup:
  assumes "accepts ch op"
  shows "cmd_opcode (sim_op (sim_setup host s op l) bs) = cmd_opcode op"
    "op_addr (sim_op (sim_setup host s op l) bs) = op_addr op"
    "data_nbytes (sim_op (sim_setup host s op l) bs) = data_nbytes op"
proof -
  note a = accepts_addr [OF assms]
  have "(ucast (ucast c AND (255 :: u32)) :: u8) = c" for c :: u8
    unfolding and_masks by (rule bit_word_eqI) (auto simp: bit_simps)
  then show "cmd_opcode (sim_op (sim_setup host s op l) bs) = cmd_opcode op"
    by (simp add: sim_op_def sim_setup_def FSPICMD_cmd) (simp add: xfer_cmd_def)
  show "op_addr (sim_op (sim_setup host s op l) bs) = op_addr op"
    using a by (auto simp: op_addr_def sim_op_def sim_setup_def addrbits_field Let_def)
  show "data_nbytes (sim_op (sim_setup host s op l) bs) = data_nbytes op"
    by (simp add: sim_op_def sim_setup_def)
qed

lemma sim_dir_setup:
  "sim_write_dir (sim_setup host s op l) \<longleftrightarrow>
     data_nbytes op \<noteq> 0 \<and> data_dir op = HAL_SPI_MEM_DATA_OUT \<or> data_nbytes op = 0 \<and> addr_nbytes op \<noteq> 0"
  by (simp add: sim_write_dir_def sim_setup_def FSPICMD_rw) (simp add: xfer_cmd_def)

lemma sim_setup_simps [simp]:
  "sim_chip (sim_setup host s op l) = sim_chip s" "sim_rx (sim_setup host s op l) = []"
  "sim_tx (sim_setup host s op l) = []" "sim_levels (sim_setup host s op l) = l"
  "sim_len (sim_setup host s op l) = data_nbytes op"
  by (simp_all add: sim_setup_def)

lemma chip_exec_setup:
  assumes "accepts ch op" "cmd_opcode op \<in> set prog_codes \<Longrightarrow> bs = op_data op"
  shows "chip_exec c (sim_op (sim_setup host s op l) bs) = chip_exec c op"
proof (rule chip_exec_cong)
  show "op_data (sim_op (sim_setup host s op l) bs) = op_data op"
    if "cmd_opcode (sim_op (sim_setup host s op l) bs) \<in> set prog_codes"
  proof -
    have p: "cmd_opcode op \<in> set prog_codes"
      using that sim_op_setup(1) [OF assms(1)] by simp
    then have "length bs = unat (data_nbytes op)"
      using assms prog_code [OF p] by (auto simp: op_data_def accepts_def Let_def)
    then have "map ((!) bs) [0..<unat (data_nbytes op)] = bs"
      by (metis map_nth)
    then show ?thesis
      using assms(2) [OF p] by (simp add: op_data_def sim_op_def)
  qed
qed (use sim_op_setup [OF assms(1)] in simp_all)

lemma chip_reply_setup:
  "accepts ch op \<Longrightarrow> chip_reply c (sim_op (sim_setup host s op l) bs) = chip_reply c op"
  using sim_op_setup [of ch op host s l bs] by (simp add: chip_reply_def Let_def)

text \<open>What the accepted transactions look like on the wire.\<close>

lemma accepts_cases:
  assumes "accepts ch op" "length (jedec ch) = 3"
  obtains (nodata) "no_data op" "cmd_opcode op \<notin> set prog_codes" "chip_reply ch op = []"
  | (receive) "takes_in op" "cmd_opcode op \<notin> set prog_codes" "length (chip_reply ch op) = unat (data_nbytes op)"
  | (send) "data_dir op = HAL_SPI_MEM_DATA_OUT" "data_buf op \<noteq> None" "data_nbytes op \<noteq> 0" "data_nbytes op \<le> 256"
      "cmd_opcode op \<in> set prog_codes" "chip_reply ch op = []"
proof -
  let ?c = "cmd_opcode op"
  have np: "SPINOR_OP_RDSR \<notin> set prog_codes" "SPINOR_OP_WREN \<notin> set prog_codes"
    "SPINOR_OP_CHIP_ERASE \<notin> set prog_codes" "SPINOR_OP_RDID \<notin> set prog_codes"
    "SPINOR_OP_WREN \<noteq> SPINOR_OP_RDSR" "SPINOR_OP_WREN \<noteq> SPINOR_OP_RDID" "SPINOR_OP_WREN \<notin> set read_codes"
    "SPINOR_OP_CHIP_ERASE \<noteq> SPINOR_OP_RDSR" "SPINOR_OP_CHIP_ERASE \<noteq> SPINOR_OP_RDID"
    "SPINOR_OP_CHIP_ERASE \<notin> set read_codes" "SPINOR_OP_RDID \<noteq> SPINOR_OP_RDSR"
    by (simp_all add: opcode_defs)
  consider "?c = SPINOR_OP_RDSR" | "?c = SPINOR_OP_WREN" | "?c = SPINOR_OP_CHIP_ERASE" | "?c = SPINOR_OP_RDID"
    | "?c \<in> set read_codes" | "?c \<in> set prog_codes" | "?c \<in> set sector_codes" | "?c \<in> set block_codes"
    using assms(1) by (auto simp: accepts_def Let_def split: if_splits)
  then show thesis
  proof cases
    case 1
    then show thesis
      using assms np by (intro receive) (simp_all add: accepts_def chip_reply_def Let_def)
  next
    case 2
    then show thesis
      using assms np by (intro nodata) (simp_all add: accepts_def chip_reply_def Let_def)
  next
    case 3
    then show thesis
      using assms np by (intro nodata) (simp_all add: accepts_def chip_reply_def Let_def split: if_splits)
  next
    case 4
    then show thesis
      using assms np by (intro receive) (simp_all add: accepts_def chip_reply_def Let_def split: if_splits)
  next
    case 5
    then show thesis
      using assms read_code [OF 5] by (intro receive) (simp_all add: accepts_def chip_reply_def Let_def)
  next
    case 6
    then show thesis
      using assms prog_code [OF 6] by (intro send) (simp_all add: accepts_def chip_reply_def Let_def)
  next
    case 7
    then show thesis
      using assms sector_code [OF 7] by (intro nodata) (simp_all add: accepts_def chip_reply_def Let_def)
  next
    case 8
    then have "?c \<noteq> SPINOR_OP_RDSR \<and> ?c \<noteq> SPINOR_OP_WREN \<and> ?c \<noteq> SPINOR_OP_CHIP_ERASE \<and>
        ?c \<noteq> SPINOR_OP_RDID \<and> ?c \<notin> set read_codes \<and> ?c \<notin> set prog_codes"
      by (auto simp: opcode_defs)
    then show thesis
      using assms by (intro nodata) (simp_all add: accepts_def chip_reply_def Let_def)
  qed
qed

lemma jedec_exec [simp]: "jedec (chip_exec ch op) = jedec ch"
  by (simp add: chip_exec_def start_modify_def Let_def)

lemma sim_xfer:
  assumes "sim_ready s" "accepts (sim_chip s) op"
  shows "\<exists>s'. HAL_FSPI_SpiXfer sim_hw host s op = Some (s', chip_reply (sim_chip s) op, EFI_SUCCESS) \<and>
    sim_ready s' \<and> sim_chip s' = chip_exec (sim_chip s) op"
proof -
  have r: "sim_rx s = []" "length (sim_levels s) \<le> 10000" "length (jedec (sim_chip s)) = 3"
    using assms(1) by (simp_all add: sim_ready_def)
  obtain l where start: "HAL_FSPI_XferStart sim_hw host s op = sim_start (sim_setup host s op l)"
    and l: "length l \<le> 10000"
    using XferStart_sim [OF r(1) assms(2), of host] r(2) by auto
  let ?s = "sim_setup host s op l"
  show ?thesis
  proof (cases rule: accepts_cases [OF assms(2) r(3), case_names nodata receive send])
    case nodata
    then have "sim_start ?s = sim_exec ?s []"
      by (simp add: sim_start_def no_data_def)
    then show ?thesis
      using nodata start l r(3) chip_exec_setup [OF assms(2), of "[]" "sim_chip s" host s l]
      by (simp add: HAL_FSPI_SpiXfer_def no_data_def sim_exec_def sim_ready_def)
  next
    case receive
    have "\<not> sim_write_dir ?s" "data_nbytes op \<noteq> 0"
      using receive(1) by (auto simp: sim_dir_setup takes_in_def)
    then have st: "sim_start ?s = ?s\<lparr>sim_chip := chip_exec (sim_chip s) op, sim_rx := chip_reply (sim_chip s) op\<rparr>"
      using receive(2,3) chip_exec_setup [OF assms(2), of "[]" "sim_chip s" host s l]
        chip_reply_setup [OF assms(2), of "sim_chip s" host s l "[]"]
      by (simp add: sim_start_def sim_exec_def)
    obtain data where data: "data_buf op = Some data" "data_dir op = HAL_SPI_MEM_DATA_IN"
      using receive(1) by (auto simp: takes_in_def)
    let ?t = "?s\<lparr>sim_chip := chip_exec (sim_chip s) op, sim_rx := chip_reply (sim_chip s) op\<rparr>"
    obtain l' where "HAL_FSPI_XferData sim_hw ?t (data_nbytes op) data HAL_SPI_MEM_DATA_IN =
        Some (?t\<lparr>sim_rx := [], sim_levels := l'\<rparr>, chip_reply (sim_chip s) op, EFI_SUCCESS)" "length l' \<le> length l"
      using XferData_in [of ?t "data_nbytes op" data] receive(3) \<open>data_nbytes op \<noteq> 0\<close> l by auto
    then show ?thesis
      using start st data l r(3) by (simp add: HAL_FSPI_SpiXfer_def sim_ready_def)
  next
    case send
    then have st: "sim_start ?s = ?s"
      by (simp add: sim_start_def sim_dir_setup)
    obtain data where data: "data_buf op = Some data"
      using send(2) by auto
    obtain s' where s': "HAL_FSPI_XferData sim_hw ?s (data_nbytes op) data HAL_SPI_MEM_DATA_OUT =
        Some (s', [], EFI_SUCCESS)" "tx_done ?s data s'"
      using XferData_out [of ?s "data_nbytes op" data] send(3,4) l by auto
    have "map data [0..<unat (data_nbytes op)] = op_data op"
      using data by (simp add: op_data_def)
    then have "sim_chip s' = chip_exec (sim_chip s) op"
      using s'(2) chip_exec_setup [OF assms(2), of "op_data op" "sim_chip s" host s l]
      by (simp add: tx_done_def)
    then show ?thesis
      using start st data send s' l r(3)
      by (auto simp: HAL_FSPI_SpiXfer_def sim_ready_def tx_done_def)
  qed
qed

interpretation bus: nor_port "fspi_env host runtime junk" sim_ready sim_chip
  for host :: HAL_FSPI_HOST and runtime :: bool and junk :: "nat \<Rightarrow> u8"
proof
  show "\<exists>h'. spi_xfer (fspi_env host runtime junk) h op = Some (h', chip_reply (sim_chip h) op, EFI_SUCCESS) \<and>
      sim_ready h' \<and> sim_chip h' = chip_exec (sim_chip h) op"
    if "sim_ready h" "accepts (sim_chip h) op" for h op
    using sim_xfer [OF that] by (simp add: fspi_env_def)
qed (simp_all add: fspi_env_def)

end
