(* ===== verification/NorProps.thy ===== *)
theory NorProps
  imports NorChip
begin

text \<open>
  The properties of the NOR driver on the FSPI bus: what reading, programming, erasing,
  overwriting and updating leave in the chip, range checks, error reporting, and detection.
\<close>

section \<open>A concrete chip\<close>

definition demo_chip :: nor_chip where
  "demo_chip = \<lparr>content = (\<lambda>x. of_nat (x mod 251)), WEL = False, busy = 0, jedec = [0xC8, 0x40, 0x17],
     t_prog = 3, t_erase = 7\<rparr>"

definition demo_sim :: nor_sim where
  "demo_sim = \<lparr>sim_chip = demo_chip, sim_len = 0, sim_cmd = 0, sim_addr = 0, sim_tx = [], sim_rx = [],
     sim_levels = [0, 3, 0, 0, 1, 15]\<rparr>"

definition demo_nor :: SPI_NOR where
  "demo_nor = zero_nor\<lparr>spi := init_host, pageSize := 256, addrWidth := 3, eraseOpcodeSec := 0x20,
     eraseOpcodeBlk := 0xD8, readOpcode := 0x03, programOpcode := 0x02, readProto := SNOR_PROTO_STR 1 1 1,
     writeProto := SNOR_PROTO_STR 1 1 1, nor_size := 0x800000, sectorSize := 4096, eraseSize := 4096\<rparr>"

definition demo_bus :: "nor_sim nor_env" where
  "demo_bus = fspi_env init_host False (\<lambda>_. 0)"

lemma demo_idle: "nor_idle sim_ready sim_chip demo_nor demo_sim (content demo_chip)"
  by (simp add: nor_idle_def sim_ready_def demo_sim_def demo_chip_def nor_ok_def demo_nor_def
      zero_nor_def read_op_def read_dummy_def opcode_defs Let_def)

lemmas demo_nor_size = demo_nor_def zero_nor_def

section \<open>The bus\<close>

text \<open>
  C18: A transfer of the FSPI driver performs the chip transaction that its description names, for
  every schedule of FIFO fill levels with fewer than 10001 polls: it succeeds, the bytes received
  are the chip's reply, the chip state is the transaction's result, and the bus is ready again.
\<close>

theorem fspi_transfer:
  assumes "sim_ready s" "accepts (sim_chip s) op"
  shows "\<exists>s'. HAL_FSPI_SpiXfer sim_hw host s op = Some (s', chip_reply (sim_chip s) op, EFI_SUCCESS) \<and>
    sim_ready s' \<and> sim_chip s' = chip_exec (sim_chip s) op"
  by (rule sim_xfer [OF assms])

theorem fspi_transfer_witness:
  "\<exists>s'. HAL_FSPI_SpiXfer sim_hw init_host demo_sim (read_op demo_nor (\<lambda>_. 0) 5 10 64) =
      Some (s', chip_reply (sim_chip demo_sim) (read_op demo_nor (\<lambda>_. 0) 5 10 64), EFI_SUCCESS) \<and>
    sim_ready s' \<and> sim_chip s' = chip_exec (sim_chip demo_sim) (read_op demo_nor (\<lambda>_. 0) 5 10 64)"
  by (rule fspi_transfer)
     (simp_all add: sim_ready_def demo_sim_def demo_chip_def accepts_def opcode_defs read_op_def
        demo_nor_def zero_nor_def takes_in_def has_addr_def ptr_def read_dummy_def Let_def)

text \<open>
  If the transmit FIFO never has room, the transmit loop gives up with \<open>EFI_TIMEOUT\<close>.
\<close>

theorem fspi_tx_timeout:
  assumes "\<And>s. fsr_txlevel (fst (reg_rd hw s FSR)) = 0" "len \<noteq> 0" "len \<le> 256"
  shows "\<exists>s'. HAL_FSPI_XferData hw s len data HAL_SPI_MEM_DATA_OUT = Some (s', [], Error EFI_TIMEOUT)"
proof -
  have stuck: "snd (tx_loop hw s buf off (Suc w) t) = Error EFI_TIMEOUT" for s buf off w t
  proof (induction "10001 - t" arbitrary: s t)
    case (0 t s)
    then show ?case
      using assms(1) [of s] by (simp add: tx_loop.simps(2) [of hw s] Let_def split_beta)
  next
    case (Suc n t s)
    then show ?case
      using assms(1) [of s] by (simp add: tx_loop.simps(2) [of hw s] Let_def split_beta)
  qed
  have "0 < unat len" "unat len \<le> 256"
    using assms(2,3) by (auto simp: unat_gt_0 word_le_nat_alt)
  moreover from this have "unat (len + 3) = unat len + 3"
    by (subst unat_add_no_wrap) simp_all
  ultimately have "unat (drop_bit 2 (len + 3)) \<noteq> 0"
    by (simp add: unat_div_mod_4)
  then obtain w where "unat (drop_bit 2 (len + 3)) = Suc w"
    using not0_implies_Suc by blast
  then show ?thesis
    using assms(2) stuck by (simp add: HAL_FSPI_XferData_def assert_that_def Let_def split_beta)
qed

theorem fspi_tx_timeout_witness:
  "\<exists>s'. HAL_FSPI_XferData \<lparr>reg_rd = (\<lambda>s _. (0, s)), reg_wr = (\<lambda>s _ _. s), HAL_CPUDelayUs = (\<lambda>s n. s + n)\<rparr>
      (0 :: nat) 7 (\<lambda>_. 0) HAL_SPI_MEM_DATA_OUT = Some (s', [], Error EFI_TIMEOUT)"
  by (rule fspi_tx_timeout) (simp_all add: fsr_txlevel_def)

section \<open>The NOR driver\<close>

text \<open>
  Reading returns the chip's bytes, in one piece whatever the 8 KiB chunking, and leaves the
  chip as it was.
\<close>

theorem nor_read:
  assumes "nor_idle sim_ready sim_chip nor s c" "unat from < unat (nor_size nor)"
    "unat from + unat len \<le> unat (nor_size nor)" "buf \<noteq> 0"
  shows "\<exists>s'. HAL_SNOR_ReadData (fspi_env host rt junk) nor s m from buf len =
      Some (s', wr m buf (rd c (unat from) (unat len)), Value (unat len)) \<and>
    nor_idle sim_ready sim_chip nor s' c"
  by (rule bus.idle_read [OF assms])

theorem nor_read_witness:
  "\<exists>s'. HAL_SNOR_ReadData (fspi_env init_host False (\<lambda>_. 0)) demo_nor demo_sim (\<lambda>_. 0) 4094 64 9000 =
      Some (s', wr (\<lambda>_. 0) 64 (rd (content demo_chip) (unat (4094 :: u32)) (unat (9000 :: u32))), Value (unat (9000 :: u32))) \<and>
    nor_idle sim_ready sim_chip demo_nor s' (content demo_chip)"
  by (rule nor_read [OF demo_idle]) (simp_all add: demo_nor_size)

text \<open>
  C17: Programming across page boundaries clears exactly the bits that are zero in the data, at
  exactly the addresses asked for: the splitting never lets a page wrap.
\<close>

theorem nor_program:
  assumes "nor_idle sim_ready sim_chip nor s c" "unat to < unat (nor_size nor)"
    "unat to + unat len \<le> unat (nor_size nor)" "buf \<noteq> 0"
  shows "\<exists>s'. HAL_SNOR_ProgData (fspi_env host rt junk) nor s m to buf len = Some (s', Value (unat len)) \<and>
    nor_idle sim_ready sim_chip nor s' (program c (unat to) (rd m buf (unat len)))"
  by (rule bus.idle_prog [OF assms])

theorem nor_program_witness:
  "\<exists>s'. HAL_SNOR_ProgData (fspi_env init_host False (\<lambda>_. 0)) demo_nor demo_sim (\<lambda>_. 0x5A) 250 64 600 =
      Some (s', Value (unat (600 :: u32))) \<and>
    nor_idle sim_ready sim_chip demo_nor s'
      (program (content demo_chip) (unat (250 :: u32)) (rd (\<lambda>_. 0x5A) 64 (unat (600 :: u32))))"
  by (rule nor_program [OF demo_idle]) (simp_all add: demo_nor_size)

text \<open>
  The protocol's erase of whole sectors sets exactly the bytes of the range to 0xFF.
\<close>

theorem nor_erase_range:
  assumes "nor_idle sim_ready sim_chip nor s c" "4096 dvd unat off" "4096 dvd unat len"
    "unat off + unat len \<le> unat (nor_size nor)"
  shows "\<exists>s'. Erase (fspi_env host rt junk) nor s off len = Some (s', EFI_SUCCESS) \<and>
    nor_idle sim_ready sim_chip nor s' (fill c (unat off) (unat len) 0xFF)"
proof -
  obtain n where n: "unat len = n * 4096"
    using assms(3) by (auto simp: dvd_def mult.commute)
  have "sectorSize nor = 4096"
    using assms(1) by (simp add: nor_idle_def nor_ok_def)
  moreover have "off mod 4096 = 0" "len mod 4096 = 0"
    using assms(2,3) by (simp_all add: unat_eq_zero [symmetric] unat_mod_distrib dvd_eq_mod_eq_0)
  ultimately show ?thesis
    using bus.erase_all [OF bus.idle_clock [OF assms(1)] assms(2) n assms(4)]
    by (auto simp: Erase_def Let_def)
qed

theorem nor_erase_range_witness:
  "\<exists>s'. Erase (fspi_env init_host False (\<lambda>_. 0)) demo_nor demo_sim 8192 12288 = Some (s', EFI_SUCCESS) \<and>
    nor_idle sim_ready sim_chip demo_nor s' (fill (content demo_chip) (unat (8192 :: u32)) (unat (12288 :: u32)) 0xFF)"
  by (rule nor_erase_range [OF demo_idle]) (simp_all add: demo_nor_size)

text \<open>
  Overwriting whole sectors leaves the chip with exactly the new data there and everything
  else unchanged.
\<close>

theorem nor_overwrite:
  assumes "nor_idle sim_ready sim_chip nor s c" "(unat sec + unat nSec) * 4096 \<le> unat (nor_size nor)" "buf \<noteq> 0"
  shows "\<exists>s'. HAL_SNOR_OverWrite (fspi_env host rt junk) nor s m sec nSec buf = Some (s', Value (unat nSec)) \<and>
    nor_idle sim_ready sim_chip nor s' (wr c (unat sec * 4096) (rd m buf (unat nSec * 4096)))"
  by (rule bus.HAL_SNOR_OverWrite_ok [OF assms])

theorem nor_overwrite_witness:
  "\<exists>s'. HAL_SNOR_OverWrite (fspi_env init_host False (\<lambda>_. 0)) demo_nor demo_sim (\<lambda>_. 1) 5 2 64 =
      Some (s', Value (unat (2 :: u32))) \<and>
    nor_idle sim_ready sim_chip demo_nor s'
      (wr (content demo_chip) (unat (5 :: u32) * 4096) (rd (\<lambda>_. 1) 64 (unat (2 :: u32) * 4096)))"
  by (rule nor_overwrite [OF demo_idle]) (simp_all add: demo_nor_size)

text \<open>
  C15: An update at a sector boundary, of any length, writes exactly its bytes; the rest of the last
  sector survives the erase.
\<close>

theorem nor_update_aligned:
  assumes "nor_idle sim_ready sim_chip nor s c" "4096 dvd unat off"
    "unat off + unat len \<le> unat (nor_size nor)" "buf \<noteq> 0" "tmp \<noteq> 0"
    "tmp + 4096 \<le> buf \<or> buf + unat len \<le> tmp"
  shows "\<exists>s' m'. Update (fspi_env host rt junk) (Some tmp) nor s m off buf len = Some (s', m', EFI_SUCCESS) \<and>
    nor_idle sim_ready sim_chip nor s' (wr c (unat off) (rd m buf (unat len)))"
  by (rule bus.Update_ok [OF assms])

theorem nor_update_aligned_witness:
  "\<exists>s' m'. Update (fspi_env init_host False (\<lambda>_. 0)) (Some 64) demo_nor demo_sim (\<lambda>_. 9) 4096 10000 5000 =
      Some (s', m', EFI_SUCCESS) \<and>
    nor_idle sim_ready sim_chip demo_nor s'
      (wr (content demo_chip) (unat (4096 :: u32)) (rd (\<lambda>_. 9) 10000 (unat (5000 :: u32))))"
  by (rule nor_update_aligned [OF demo_idle]) (simp_all add: demo_nor_size)

text \<open>
  A range that leaves the chip is refused with \<open>EFI_DEVICE_ERROR\<close> before any bus transaction,
  even when start plus length wraps around 32 bits.
\<close>

theorem nor_out_of_range:
  assumes "unat (nor_size nor) \<le> 2 ^ 31" "unat (nor_size nor) < unat off + unat len"
  shows "HAL_SNOR_ReadData env nor s m off buf len = Some (s, m, Error EFI_DEVICE_ERROR) \<and>
    HAL_SNOR_ProgData env nor s m off buf len = Some (s, Error EFI_DEVICE_ERROR)"
proof -
  have "unat (off + len) = unat off + unat len"
    if "unat off < unat (nor_size nor)" "unat len \<le> unat (nor_size nor)"
    using that assms(1) by (intro unat_add_u32) simp
  then have "out_of_range nor off len"
    using assms(2) by (cases "unat off < unat (nor_size nor) \<and> unat len \<le> unat (nor_size nor)")
      (auto simp: out_of_range_def word_le_nat_alt word_less_nat_alt)
  then show ?thesis
    by (simp add: HAL_SNOR_ReadData_def HAL_SNOR_ProgData_def)
qed

theorem nor_out_of_range_witness:
  "HAL_SNOR_ReadData demo_bus demo_nor demo_sim (\<lambda>_. 0) 0xFFFFFFF0 64 0x20 =
      Some (demo_sim, (\<lambda>_. 0), Error EFI_DEVICE_ERROR) \<and>
    HAL_SNOR_ProgData demo_bus demo_nor demo_sim (\<lambda>_. 0) 0xFFFFFFF0 64 0x20 =
      Some (demo_sim, Error EFI_DEVICE_ERROR)"
  by (rule nor_out_of_range) (simp_all add: demo_nor_size)

text \<open>
  A transfer that fails at the start of a read is reported as the status 0, which is
  \<open>EFI_SUCCESS\<close>: the caller of the protocol's \<open>Read\<close> cannot tell it from a successful read.
\<close>

theorem nor_read_failure_is_success:
  assumes "\<not> out_of_range nor from len" "len \<noteq> 0"
    "spi_xfer env (runtime_clock env s) (read_op nor m from (min READ_MAX_IOSIZE len) buf) = Some (s', bs, Error e)"
  shows "Read env nor s m from buf len = Some (s', wr m buf bs, EFI_SUCCESS)"
proof -
  have "min READ_MAX_IOSIZE len \<noteq> 0"
    using assms(2) by (auto simp: READ_MAX_IOSIZE_def min_def)
  then have "0 \<noteq> unat (min READ_MAX_IOSIZE len)"
    by (metis unat_eq_zero)
  then show ?thesis
    using assms by (simp add: Read_def HAL_SNOR_ReadData_def read_loop.simps [of env nor _ m "from" buf len]
        SNOR_ReadData_def Let_def)
qed

definition dead_bus :: "nor_sim nor_env" where
  "dead_bus = demo_bus\<lparr>spi_xfer := (\<lambda>s op. Some (s, [], Error EFI_TIMEOUT))\<rparr>"

theorem nor_read_failure_is_success_witness:
  "Read dead_bus demo_nor demo_sim (\<lambda>_. 7) 0 64 100 = Some (demo_sim, wr (\<lambda>_. 7) 64 [], EFI_SUCCESS)"
  by (rule nor_read_failure_is_success)
     (simp_all add: dead_bus_def demo_bus_def fspi_env_def runtime_clock_def out_of_range_def demo_nor_size)

text \<open>
  C27: An update of less than a sector that starts inside a sector returns success after it has erased
  the sector and programmed it again. The chip then has the new bytes from the start up to the end
  of the sector, and everything else is as it was. Bytes that do not fit into the sector are not
  written to the chip: the copy into the temporary buffer of one sector runs past its end and
  puts them into the memory behind it. The caller's buffer is not in the temporary buffer.
\<close>

theorem nor_update_unaligned_overrun:
  assumes "nor_idle sim_ready sim_chip nor s c" "unat off mod 4096 \<noteq> 0"
    "unat off < unat (nor_size nor)" "unat len < 4096" "tmp \<noteq> 0" "tmp + 4096 \<le> buf \<or> buf + unat len \<le> tmp"
  shows "\<exists>s' m'. Update (fspi_env host rt junk) (Some tmp) nor s m off buf len = Some (s', m', EFI_SUCCESS) \<and>
    nor_idle sim_ready sim_chip nor s' (wr c (unat off) (rd m buf (min (unat len) (4096 - unat off mod 4096)))) \<and>
    (\<forall>x \<ge> tmp + 4096. m' x =
      (if x < tmp + unat off mod 4096 + unat len then m (buf + (x - (tmp + unat off mod 4096))) else m x))"
  by (rule bus.Update_unaligned [OF assms])

theorem nor_update_unaligned_overrun_witness:
  "\<exists>s' m'. Update (fspi_env init_host False (\<lambda>_. 0)) (Some 64) demo_nor demo_sim (\<lambda>_. 9) 100 10000 4095 = Some (s', m', EFI_SUCCESS) \<and>
    nor_idle sim_ready sim_chip demo_nor s' (wr (content demo_chip) 100 (rd (\<lambda>_. 9) 10000 3996)) \<and> m' 4160 = 9 \<and> m' 4258 = 9"
  using nor_update_unaligned_overrun [OF demo_idle, of 100 4095 64 10000 init_host False "\<lambda>_. 0" "\<lambda>_. 9"]
  by (fastforce simp: demo_nor_size)

section \<open>Detection\<close>

lemma drop_bit_flash_id: "drop_bit 16 (flash_id b) = ucast (b ! 0)"
  by (rule bit_word_eqI) (auto simp: flash_id_def bit_simps dest: bit_imp_le_length)

text \<open>What the table promises of every entry, decided by evaluation.\<close>

definition entry_ok :: "FLASH_INFO \<Rightarrow> bool" where
  "entry_ok fi \<longleftrightarrow>
     info_sectorSize fi = 8 \<and> (readCmd fi = 0x03 \<or> readCmd fi = 0x13) \<and>
     (progCmd fi = 0x02 \<or> progCmd fi = 0x12) \<and>
     (sectorEraseCmd fi = 0x20 \<or> sectorEraseCmd fi = 0x21) \<and> 12 \<le> density fi \<and> density fi \<le> 16 \<and>
     drop_bit 16 (flash_ID fi) \<noteq> 0 \<and> drop_bit 16 (flash_ID fi) \<noteq> 0xFF \<and>
     (flash_ID fi = 0xC86019 \<or> density fi \<le> 15 \<or> feature fi AND FEA_4BYTE_ADDR \<noteq> 0)"

lemma table_ok: "list_all entry_ok s_spiFlashbl"
  by (simp add: s_spiFlashbl_def FLASH_ENTRY_def entry_ok_def FEA_4BYTE_ADDR_def)

lemma mode_lost: "mode_has (zero_nor\<lparr>spi := init_host\<rparr>) HAL_SPI_RX_QUAD = False"
    "mode_has (zero_nor\<lparr>spi := init_host\<rparr>) HAL_SPI_TX_QUAD = False"
    "mode_has (zero_nor\<lparr>spi := init_host\<rparr>) HAL_SPI_RX_DUAL = False"
  by (simp_all add: mode_has_def init_host_def zero_nor_def HAL_SPI_MODE_3_def HAL_SPI_CPOL_def
      HAL_SPI_CPHA_def HAL_SPI_TX_QUAD_def HAL_SPI_RX_QUAD_def HAL_SPI_RX_DUAL_def)

text \<open>The description that detection ends with, for a chip of the table.\<close>

definition described :: "FLASH_INFO \<Rightarrow> SPI_NOR" where
  "described fi = zero_nor\<lparr>spi := init_host, info := fi, pageSize := 256,
     addrWidth := (if feature fi AND FEA_4BYTE_ADDR \<noteq> 0 then 4 else 3),
     eraseOpcodeSec := sectorEraseCmd fi, eraseOpcodeBlk := blockEraseCmd fi,
     readOpcode := readCmd fi, readProto := SNOR_PROTO_STR 1 1 1, readDummy := 0,
     programOpcode := progCmd fi, writeProto := SNOR_PROTO_STR 1 1 1,
     sectorSize := ucast (info_sectorSize fi) * 512,
     nor_size := push_bit (unat (density fi) + 9) 1,
     eraseSize := ucast (info_sectorSize fi) * 512\<rparr>"

lemma described_simps:
  "info (described fi) = fi" "spi (described fi) = init_host"
  by (simp_all add: described_def)

lemma entry_density: "entry_ok fi \<Longrightarrow> 12 \<le> unat (density fi) \<and> unat (density fi) \<le> 16"
  by (auto simp: entry_ok_def word_le_nat_alt)

lemma nor_size_described: "entry_ok fi \<Longrightarrow> unat (nor_size (described fi)) = 2 ^ (unat (density fi) + 9)"
proof -
  assume "entry_ok fi"
  then have small: "unat (density fi) + 9 < 32"
    using entry_density [of fi] by simp
  have "unat (push_bit (unat (density fi) + 9) 1 :: u32) = 2 ^ (unat (density fi) + 9) mod 2 ^ 32"
  proof -
    have "unat (push_bit k (1 :: u32)) = take_bit LENGTH(32) (push_bit k (unat (1 :: u32)))" for k
      by (rule unsigned_push_bit_eq)
    then show ?thesis
      by (simp only: take_bit_eq_mod push_bit_eq_mult) simp
  qed
  also have "\<dots> = 2 ^ (unat (density fi) + 9)"
    using small by (intro mod_less power_strict_increasing) simp_all
  finally show ?thesis
    by (simp add: described_def)
qed

lemma described_ok:
  assumes "entry_ok fi" "flash_ID fi \<noteq> 0xC86019" "t_prog ch < 10000" "t_erase ch < 400000"
  shows "nor_ok (described fi) ch"
proof -
  note e = assms(1) [unfolded entry_ok_def]
  have d: "12 \<le> unat (density fi)" "unat (density fi) \<le> 16"
    using entry_density [OF assms(1)] by auto
  have "(4096 :: nat) dvd 2 ^ (unat (density fi) + 9)"
    using d(1) le_imp_power_dvd [of 12 "unat (density fi) + 9" "2 :: nat"] by simp
  moreover have "(2 :: nat) ^ (unat (density fi) + 9) \<le> 2 ^ 31"
    using d(2) by (intro power_increasing) simp_all
  moreover have "(2 :: nat) ^ (unat (density fi) + 9) \<le> 2 ^ (8 * unat (addrWidth (described fi)))"
  proof (cases "feature fi AND FEA_4BYTE_ADDR = 0")
    case True
    then have "unat (density fi) \<le> 15"
      using e assms(2) by (auto simp: word_le_nat_alt)
    then show ?thesis
      using True by (intro power_increasing) (simp_all add: described_def)
  next
    case False
    then show ?thesis
      using d(2) by (intro power_increasing) (simp_all add: described_def)
  qed
  moreover have "readOpcode (described fi) \<in> set read_codes" "programOpcode (described fi) \<in> set prog_codes"
    "eraseOpcodeSec (described fi) \<in> set sector_codes"
    using e by (auto simp: described_def opcode_defs)
  moreover have "dummy_nbytes (read_op (described fi) (\<lambda>_. 0) 0 0 0) = read_dummy (readOpcode (described fi))"
    using e by (auto simp: described_def read_op_def read_dummy_def Let_def)
  moreover have "pageSize (described fi) = 256" "sectorSize (described fi) = 4096"
    "addrWidth (described fi) = 3 \<or> addrWidth (described fi) = 4"
    using e by (simp_all add: described_def)
  ultimately show ?thesis
    using assms(3,4) by (simp add: nor_ok_def nor_size_described [OF assms(1)])
qed

lemma find_table:
  assumes "SNOR_GerFlashInfo b = Some fi"
  shows "entry_ok fi" "flash_ID fi = flash_id b"
  using assms table_ok by (auto simp: SNOR_GerFlashInfo_def find_Some_iff list_all_iff)

lemma read_id:
  assumes "sim_ready s" "busy (sim_chip s) = 0"
  shows "\<exists>s'. HAL_SNOR_ReadID (fspi_env host rt junk) s = Some (s', jedec (sim_chip s), EFI_SUCCESS) \<and>
    sim_ready s' \<and> sim_chip s' = sim_chip s"
proof -
  let ?op = "(cmd_op SPINOR_OP_RDID)\<lparr>data_buswidth := 1, data_dir := HAL_SPI_MEM_DATA_IN, data_nbytes := 3,
    data_buf := Some junk\<rparr>"
  have "accepts (sim_chip s) ?op"
    using assms(2) by (simp add: accepts_def opcode_defs cmd_op_def takes_in_def Let_def)
  then obtain s' where "HAL_FSPI_SpiXfer sim_hw host s ?op = Some (s', chip_reply (sim_chip s) ?op, EFI_SUCCESS)"
    "sim_ready s'" "sim_chip s' = chip_exec (sim_chip s) ?op"
    using sim_xfer [OF assms(1)] by blast
  then show ?thesis
    by (simp add: HAL_SNOR_ReadID_def SNOR_ReadReg_def SNOR_ReadWriteReg_def fspi_env_def chip_reply_def
        chip_exec_def opcode_defs cmd_op_def Let_def)
qed

text \<open>
  C26: Detection of a chip of the table, on the bus of the driver: initialisation ends with a
  description that matches the chip (so that reading, programming, erasing and updating are
  correct), its capacity is the table's, and it uses single-line reads and programs although the
  entry point asks for quad mode: the mode flags do not fit the one-byte \<open>mode\<close> field. The entry
  of the GD25Q256E and the entries that need SFDP data or the enter-4-byte command are excluded.
\<close>

theorem nor_init_detects:
  assumes "sim_ready s" "busy (sim_chip s) = 0" "SNOR_GerFlashInfo (jedec (sim_chip s)) = Some fi"
    "flash_ID fi \<noteq> 0xC84019" "flash_ID fi \<noteq> 0xC86019" "feature fi AND FEA_4BYTE_ADDR_MODE = 0"
    "t_prog (sim_chip s) < 10000" "t_erase (sim_chip s) < 400000"
  shows "\<exists>s' nor. HAL_SNOR_Init (fspi_env host rt junk) (zero_nor\<lparr>spi := init_host\<rparr>) s =
      Some (s', nor, EFI_SUCCESS) \<and>
    nor_idle sim_ready sim_chip nor s' (content (sim_chip s)) \<and>
    unat (nor_size nor) = 512 * 2 ^ unat (density fi) \<and>
    readProto nor = SNOR_PROTO_STR 1 1 1 \<and> writeProto nor = SNOR_PROTO_STR 1 1 1"
proof -
  let ?env = "fspi_env host rt junk" and ?j = "jedec (sim_chip s)"
  obtain s' where s': "HAL_SNOR_ReadID ?env s = Some (s', ?j, EFI_SUCCESS)" "sim_ready s'" "sim_chip s' = sim_chip s"
    using read_id [OF assms(1,2)] by blast
  have j: "length ?j = 3"
    using assms(1) by (simp add: sim_ready_def)
  let ?b = "local_bytes ?env 5 ?j"
  have b: "?b ! 0 = ?j ! 0" "?b ! 1 = ?j ! 1" "?b ! 2 = ?j ! 2"
    using j by (simp_all add: local_bytes_def numeral_2_eq_2)
  then have found: "SNOR_GerFlashInfo ?b = Some fi"
    using assms(3) by (simp add: SNOR_GerFlashInfo_def flash_id_def)
  note e = find_table [OF found]
  have first: "?b ! 0 \<noteq> 0xFF" "?b ! 0 \<noteq> 0"
    using e(1) drop_bit_flash_id [of ?b] unfolding e(2) [symmetric] by (auto simp: entry_ok_def)
  have "\<not> 32 \<le> unat (density fi) + 9"
    using entry_density [OF e(1)] by simp
  then have "HAL_SNOR_Init ?env (zero_nor\<lparr>spi := init_host\<rparr>) s = Some (s', described fi, EFI_SUCCESS)"
    using s'(1) first found assms(4,6) mode_lost
    by (simp add: HAL_SNOR_Init_def SNOR_InfoAdjust_def nor_defaults_def init_read_mode_def init_write_mode_def
        init_addr_mode_def mode_has_def described_def Let_def zero_nor_def)
  moreover have "nor_ok (described fi) (sim_chip s')"
    using described_ok [OF e(1) assms(5)] assms(7,8) s'(3) by simp
  moreover have "unat (nor_size (described fi)) = 512 * 2 ^ unat (density fi)"
    using nor_size_described [OF e(1)] by (simp add: power_add)
  ultimately show ?thesis
    using s' assms(2) by (auto simp: nor_idle_def described_def)
qed

lemma demo_detect: "SNOR_GerFlashInfo (jedec (sim_chip demo_sim)) =
    Some (FLASH_ENTRY 0xc84017 128 8 0x03 0x02 0x6B 0x32 0x20 0xD8 0x0D 14 9)"
  by (simp add: SNOR_GerFlashInfo_def demo_sim_def demo_chip_def flash_id_def s_spiFlashbl_def FLASH_ENTRY_def)

theorem nor_init_detects_witness:
  "\<exists>s' nor. HAL_SNOR_Init (fspi_env init_host False (\<lambda>_. 0)) (zero_nor\<lparr>spi := init_host\<rparr>) demo_sim =
      Some (s', nor, EFI_SUCCESS) \<and>
    nor_idle sim_ready sim_chip nor s' (content (sim_chip demo_sim)) \<and>
    unat (nor_size nor) =
      512 * 2 ^ unat (density (FLASH_ENTRY 0xc84017 128 8 0x03 0x02 0x6B 0x32 0x20 0xD8 0x0D 14 9)) \<and>
    readProto nor = SNOR_PROTO_STR 1 1 1 \<and> writeProto nor = SNOR_PROTO_STR 1 1 1"
  by (rule nor_init_detects [OF _ _ demo_detect])
     (simp_all add: demo_sim_def demo_chip_def sim_ready_def FLASH_ENTRY_def FEA_4BYTE_ADDR_MODE_def)

text \<open>
  The table entry of the GD25Q256E describes 32 MiB but three address bytes: the description
  made from it addresses the byte at 16 MiB by the bus address 0.
\<close>

theorem gd25q256e_aliases:
  "\<exists>fi nor. fi \<in> set s_spiFlashbl \<and> flash_ID fi = 0xC86019 \<and>
    nor_defaults (zero_nor\<lparr>spi := init_host\<rparr>) fi = Some nor \<and>
    init_addr_mode env nor s = Some (s, nor) \<and>
    nor_size nor = 0x2000000 \<and> \<not> out_of_range nor 0x1000000 1 \<and>
    op_addr (read_op nor m 0x1000000 1 buf) = 0"
proof -
  let ?fi = "FLASH_ENTRY 0xc86019 128 8 0x03 0x02 0x6B 0x32 0x20 0xD8 0x0D 16 9"
  have "?fi \<in> set s_spiFlashbl"
    by (simp add: s_spiFlashbl_def)
  moreover have "nor_defaults (zero_nor\<lparr>spi := init_host\<rparr>) ?fi =
      Some ((described ?fi))"
    by (simp add: nor_defaults_def described_def FLASH_ENTRY_def FEA_4BYTE_ADDR_def)
  moreover have "init_addr_mode env (described ?fi) s = Some (s, described ?fi)"
    by (simp add: init_addr_mode_def described_def FLASH_ENTRY_def FEA_4BYTE_ADDR_def FEA_4BYTE_ADDR_MODE_def)
  moreover have "nor_size (described ?fi) = 0x2000000" "addrWidth (described ?fi) = 3" "flash_ID ?fi = 0xC86019"
    by (simp_all add: described_def FLASH_ENTRY_def FEA_4BYTE_ADDR_def push_bit_eq_mult)
  ultimately show ?thesis
    by (intro exI [of _ ?fi] exI [of _ "described ?fi"])
       (simp add: out_of_range_def op_addr_def read_op_def Let_def)
qed

end
