(* ===== verification/RkFvb.thy ===== *)
theory RkFvb
  imports Prelude
begin

text \<open>
  The firmware volume block driver behind the variable store (\<open>Drivers/RkFvbDxe/RkFvbDxe.c\<close>,
  \<open>RkFvbDxe.h\<close>): a shadow of the NV store in memory, written through to SPI flash when that is
  the NV medium and dumped to the boot disk otherwise.

  The \<open>UNI_NOR_FLASH_PROTOCOL\<close> it uses is the record \<open>flash_protocol\<close>, whose contract is the locale
  \<open>flash_store\<close> (theory \<open>FvbStore\<close>, interpreted there on the NOR driver). The layout of the EFI
  volume and variable store headers and the attribute masks belong to MdePkg: they are the records
  \<open>fv_layout\<close> and \<open>fvb2_masks\<close>. Boot services, the disk and the device handles are parameters.
\<close>

section \<open>Environment and data\<close>

record 'h flash_protocol =
  fp_GetSize :: "'h \<Rightarrow> u32"
  fp_Erase :: "'h \<Rightarrow> u32 \<Rightarrow> u32 \<Rightarrow> ('h \<times> efi_status) run"
  fp_Write :: "'h \<Rightarrow> mem \<Rightarrow> u32 \<Rightarrow> nat \<Rightarrow> u32 \<Rightarrow> ('h \<times> efi_status) run"
  fp_Read :: "'h \<Rightarrow> mem \<Rightarrow> u32 \<Rightarrow> nat \<Rightarrow> u32 \<Rightarrow> ('h \<times> mem \<times> efi_status) run"

record fvb2_masks =
  READ_DISABLED_CAP :: u32
  READ_ENABLED_CAP :: u32
  READ_STATUS :: u32
  WRITE_DISABLED_CAP :: u32
  WRITE_ENABLED_CAP :: u32
  WRITE_STATUS :: u32
  LOCK_CAP :: u32
  LOCK_STATUS :: u32
  STICKY_WRITE :: u32
  MEMORY_MAPPED :: u32
  ERASE_POLARITY :: u32
  READ_LOCK_CAP :: u32
  WRITE_LOCK_CAP :: u32
  ALIGNMENT :: u32

text \<open>
  Reading the fields of the headers at an address, and the image of the combined header that
  assigning all its fields produces.
\<close>

record fv_layout =
  hdr_magic_ok :: "mem \<Rightarrow> nat \<Rightarrow> bool"
  hdr_FvLength :: "mem \<Rightarrow> nat \<Rightarrow> nat"
  hdr_guid_ok :: "mem \<Rightarrow> nat \<Rightarrow> bool"
  hdr_HeaderLength :: "mem \<Rightarrow> nat \<Rightarrow> nat"
  hdr_Attributes :: "mem \<Rightarrow> nat \<Rightarrow> u32"
  CalculateSum16 :: "mem \<Rightarrow> nat \<Rightarrow> nat \<Rightarrow> u16"
  var_guid_ok :: "mem \<Rightarrow> nat \<Rightarrow> bool"
  var_Size :: "mem \<Rightarrow> nat \<Rightarrow> nat"
  header_length :: nat
  header_image :: "nat \<Rightarrow> u32 \<Rightarrow> nat \<Rightarrow> nat \<Rightarrow> nat \<Rightarrow> u8 list"

record fvb_pcds =
  PcdFlashNvStorageVariableBase64 :: nat
  PcdFlashNvStorageVariableSize :: nat
  PcdFlashNvStorageFtwWorkingBase64 :: nat
  PcdFlashNvStorageFtwWorkingSize :: nat
  PcdFlashNvStorageFtwSpareBase64 :: nat
  PcdFlashNvStorageFtwSpareSize :: nat
  PcdRkFvbNvStorageSpiOffset :: nat
  PcdFdBaseAddress :: nat
  PcdNvStoragePreferSpiFlash :: bool

datatype RKATAG_BOOTDEV_TYPE =
    RkAtagBootDevTypeUnknown | RkAtagBootDevTypeEmmc | RkAtagBootDevTypeSd0
  | RkAtagBootDevTypeSpiNor | RkAtagBootDevTypeMtdBlkSpiNor | RkAtagBootDevTypeOther

record FVB_DEVICE =
  SpiFlashProtocol :: bool
  IsSpiFlashAvailable :: bool
  IsFvbHeaderValid :: bool
  DiskDevice :: "nat option"
  DiskMediaId :: nat
  DiskDataInvalidated :: bool
  RegionBaseAddress :: nat
  Size :: nat
  FvbOffset :: nat
  FvbSize :: nat
  StartLba :: nat
  BlockSize :: nat
  LastBlock :: nat

definition mRkFvbFlashInstanceTemplate :: FVB_DEVICE where
  "mRkFvbFlashInstanceTemplate =
     \<lparr>SpiFlashProtocol = False, IsSpiFlashAvailable = False, IsFvbHeaderValid = False,
      DiskDevice = None, DiskMediaId = 0, DiskDataInvalidated = False, RegionBaseAddress = 0,
      Size = 256 * 1024, FvbOffset = 0, FvbSize = 0, StartLba = 0, BlockSize = 0, LastBlock = 0\<rparr>"

definition GET_DATA_OFFSET :: "nat \<Rightarrow> nat \<Rightarrow> nat \<Rightarrow> nat" where
  "GET_DATA_OFFSET base lba lba_size = (base + lba * lba_size) mod 2 ^ 64"

definition EFI_FVB2_CAPABILITIES :: "fvb2_masks \<Rightarrow> u32" where
  "EFI_FVB2_CAPABILITIES k = READ_DISABLED_CAP k OR READ_ENABLED_CAP k OR WRITE_DISABLED_CAP k OR
     WRITE_ENABLED_CAP k OR LOCK_CAP k"

definition EFI_FVB2_STATUS :: "fvb2_masks \<Rightarrow> u32" where
  "EFI_FVB2_STATUS k = READ_STATUS k OR WRITE_STATUS k OR LOCK_STATUS k"

text \<open>The shadow buffer is one object of \<open>FvbSize\<close> bytes; an access outside it stops the run.\<close>

definition in_shadow :: "FVB_DEVICE \<Rightarrow> nat \<Rightarrow> nat \<Rightarrow> bool" where
  "in_shadow dev a n \<longleftrightarrow> RegionBaseAddress dev \<le> a \<and> a + n \<le> RegionBaseAddress dev + FvbSize dev"

section \<open>Attributes, address and geometry\<close>

definition FvbGetAttributes :: "fv_layout \<Rightarrow> FVB_DEVICE \<Rightarrow> mem \<Rightarrow> u32 \<times> efi_status" where
  "FvbGetAttributes ly dev m = (hdr_Attributes ly m (RegionBaseAddress dev), EFI_SUCCESS)"

definition UnchangedAttributes :: "fvb2_masks \<Rightarrow> u32" where
  "UnchangedAttributes k =
     READ_DISABLED_CAP k OR READ_ENABLED_CAP k OR WRITE_DISABLED_CAP k OR WRITE_ENABLED_CAP k OR
     LOCK_CAP k OR STICKY_WRITE k OR ERASE_POLARITY k OR READ_LOCK_CAP k OR WRITE_LOCK_CAP k OR
     ALIGNMENT k OR MEMORY_MAPPED k"

text \<open>The status, and \<open>*Attributes\<close> afterwards.\<close>

definition FvbSetAttributes ::
  "fvb2_masks \<Rightarrow> fv_layout \<Rightarrow> FVB_DEVICE \<Rightarrow> mem \<Rightarrow> u32 \<Rightarrow> u32 \<times> efi_status" where
  "FvbSetAttributes k ly dev m attrs =
     (let old = fst (FvbGetAttributes ly dev m);
          caps = old AND EFI_FVB2_CAPABILITIES k;
          old_status = old AND EFI_FVB2_STATUS k;
          new_status = attrs AND EFI_FVB2_STATUS k
      in if (old AND UnchangedAttributes k) XOR (attrs AND UnchangedAttributes k) \<noteq> 0
         then (attrs, Error EFI_INVALID_PARAMETER)
         else if old AND LOCK_STATUS k \<noteq> 0 \<and> old_status XOR new_status \<noteq> 0
         then (attrs, Error EFI_ACCESS_DENIED)
         else if caps AND READ_DISABLED_CAP k = 0 \<and> new_status AND READ_STATUS k = 0
         then (attrs, Error EFI_INVALID_PARAMETER)
         else if caps AND READ_ENABLED_CAP k = 0 \<and> new_status AND READ_STATUS k \<noteq> 0
         then (attrs, Error EFI_INVALID_PARAMETER)
         else if caps AND WRITE_DISABLED_CAP k = 0 \<and> new_status AND WRITE_STATUS k = 0
         then (attrs, Error EFI_INVALID_PARAMETER)
         else if caps AND WRITE_ENABLED_CAP k = 0 \<and> new_status AND WRITE_STATUS k \<noteq> 0
         then (attrs, Error EFI_INVALID_PARAMETER)
         else if caps AND LOCK_CAP k = 0 \<and> new_status AND LOCK_STATUS k \<noteq> 0
         then (attrs, Error EFI_INVALID_PARAMETER)
         else ((old AND (0xFFFFFFFF AND NOT (EFI_FVB2_STATUS k))) OR new_status, EFI_SUCCESS))"

definition FvbGetPhysicalAddress :: "FVB_DEVICE \<Rightarrow> nat \<times> efi_status" where
  "FvbGetPhysicalAddress dev = (RegionBaseAddress dev, EFI_SUCCESS)"

definition FvbGetBlockSize :: "FVB_DEVICE \<Rightarrow> nat \<Rightarrow> (nat \<times> nat) option \<times> efi_status" where
  "FvbGetBlockSize dev lba =
     (if LastBlock dev < lba then (None, Error EFI_INVALID_PARAMETER)
      else (Some (BlockSize dev, LastBlock dev - lba + 1), EFI_SUCCESS))"

section \<open>Reading, writing, erasing\<close>

definition FvbRead ::
  "FVB_DEVICE \<Rightarrow> mem \<Rightarrow> nat \<Rightarrow> u64 \<Rightarrow> u64 \<Rightarrow> nat \<Rightarrow> (mem \<times> efi_status) run" where
  "FvbRead dev m Lba Offset NumBytes Buffer =
     (if of_nat (BlockSize dev) \<le> Offset \<or> of_nat (BlockSize dev) < NumBytes \<or>
         of_nat (BlockSize dev) < Offset + NumBytes
      then Some (m, Error EFI_BAD_BUFFER_SIZE)
      else if NumBytes = 0 then Some (m, EFI_SUCCESS)
      else let DataOffset = GET_DATA_OFFSET (RegionBaseAddress dev + unat Offset) (StartLba dev + Lba) (BlockSize dev)
           in do {
             assert_that (in_shadow dev DataOffset (unat NumBytes));
             Some (wr m Buffer (rd m DataOffset (unat NumBytes)), EFI_SUCCESS)
           })"

definition FvbWrite ::
  "'h flash_protocol \<Rightarrow> FVB_DEVICE \<Rightarrow> 'h \<Rightarrow> mem \<Rightarrow> nat \<Rightarrow> nat \<Rightarrow> nat \<Rightarrow> nat \<Rightarrow>
     (FVB_DEVICE \<times> 'h \<times> mem \<times> efi_status) run" where
  "FvbWrite P dev h m Lba Offset NumBytes Buffer =
     (let DataOffset = GET_DATA_OFFSET (FvbOffset dev + Offset) (StartLba dev + Lba) (BlockSize dev)
      in do {
        (h, Status) \<leftarrow> (if IsSpiFlashAvailable dev
                       then fp_Write P h m (of_nat DataOffset) Buffer (of_nat NumBytes)
                       else Some (h, EFI_SUCCESS));
        (if EFI_ERROR Status then Some (dev, h, m, Status)
         else let DataOffset = GET_DATA_OFFSET (RegionBaseAddress dev + Offset) (StartLba dev + Lba) (BlockSize dev)
              in do {
                assert_that (in_shadow dev DataOffset NumBytes);
                Some (dev\<lparr>DiskDataInvalidated := True\<rparr>, h, wr m DataOffset (rd m Buffer NumBytes), EFI_SUCCESS)
              })
      })"

text \<open>The inner loop of \<open>FvbEraseBlocks\<close> over the blocks of one range.\<close>

fun erase_range ::
  "'h flash_protocol \<Rightarrow> FVB_DEVICE \<Rightarrow> 'h \<Rightarrow> mem \<Rightarrow> nat \<Rightarrow> nat \<Rightarrow>
     (FVB_DEVICE \<times> 'h \<times> mem \<times> efi_status) run" where
  "erase_range P dev h m StartingLba 0 = Some (dev, h, m, EFI_SUCCESS)"
| "erase_range P dev h m StartingLba (Suc NumOfLba) =
     (let BlockAddress = GET_DATA_OFFSET (FvbOffset dev) (StartLba dev + StartingLba) (BlockSize dev)
      in do {
        (h, Status) \<leftarrow> (if IsSpiFlashAvailable dev
                       then fp_Erase P h (of_nat BlockAddress) (of_nat (BlockSize dev))
                       else Some (h, EFI_SUCCESS));
        (if EFI_ERROR Status then Some (dev, h, m, Error EFI_DEVICE_ERROR)
         else let BlockAddress = GET_DATA_OFFSET (RegionBaseAddress dev) (StartLba dev + StartingLba) (BlockSize dev)
              in do {
                assert_that (in_shadow dev BlockAddress (BlockSize dev));
                erase_range P (dev\<lparr>DiskDataInvalidated := True\<rparr>) h
                  (fill m BlockAddress (BlockSize dev) 0xFF) (StartingLba + 1) NumOfLba
              })
      })"

fun erase_ranges ::
  "'h flash_protocol \<Rightarrow> FVB_DEVICE \<Rightarrow> 'h \<Rightarrow> mem \<Rightarrow> (nat \<times> nat) list \<Rightarrow>
     (FVB_DEVICE \<times> 'h \<times> mem \<times> efi_status) run" where
  "erase_ranges P dev h m [] = Some (dev, h, m, EFI_SUCCESS)"
| "erase_ranges P dev h m ((lba, n) # args) = do {
     (dev, h, m, Status) \<leftarrow> erase_range P dev h m lba n;
     (if EFI_ERROR Status then Some (dev, h, m, Status) else erase_ranges P dev h m args)
   }"

text \<open>The variable arguments are the list of ranges before \<open>EFI_LBA_LIST_TERMINATOR\<close>.\<close>

definition FvbEraseBlocks ::
  "fvb2_masks \<Rightarrow> fv_layout \<Rightarrow> 'h flash_protocol \<Rightarrow> FVB_DEVICE \<Rightarrow> 'h \<Rightarrow> mem \<Rightarrow> (nat \<times> nat) list \<Rightarrow>
     (FVB_DEVICE \<times> 'h \<times> mem \<times> efi_status) run" where
  "FvbEraseBlocks k ly P dev h m args =
     (if IsFvbHeaderValid dev \<and> fst (FvbGetAttributes ly dev m) AND WRITE_STATUS k = 0
      then Some (dev, h, m, Error EFI_ACCESS_DENIED)
      else if list_ex (\<lambda>(lba, n). n = 0 \<or> LastBlock dev < (StartLba dev + lba + n - 1) mod 2 ^ 64) args
      then Some (dev, h, m, Error EFI_INVALID_PARAMETER)
      else erase_ranges P dev h m args)"

text \<open>
  The virtual address change handler converts the pointers inside the flash protocol: without
  one, \<open>SpiFlashProtocol\<close> is NULL and the handler dereferences it.
\<close>

definition FvbVirtualNotifyEvent :: "(nat \<Rightarrow> nat) \<Rightarrow> FVB_DEVICE \<Rightarrow> FVB_DEVICE run" where
  "FvbVirtualNotifyEvent convert dev =
     (if \<not> SpiFlashProtocol dev then None
      else Some (dev\<lparr>RegionBaseAddress := convert (RegionBaseAddress dev)\<rparr>))"

section \<open>Headers\<close>

definition header_attributes :: "fvb2_masks \<Rightarrow> u32" where
  "header_attributes k = READ_ENABLED_CAP k OR READ_STATUS k OR STICKY_WRITE k OR ERASE_POLARITY k OR
     WRITE_STATUS k OR WRITE_ENABLED_CAP k OR MEMORY_MAPPED k"

definition layout_asserts :: "fvb_pcds \<Rightarrow> nat \<Rightarrow> bool" where
  "layout_asserts pcd bsz \<longleftrightarrow>
     PcdFlashNvStorageVariableBase64 pcd + PcdFlashNvStorageVariableSize pcd =
       PcdFlashNvStorageFtwWorkingBase64 pcd \<and>
     PcdFlashNvStorageFtwWorkingBase64 pcd + PcdFlashNvStorageFtwWorkingSize pcd =
       PcdFlashNvStorageFtwSpareBase64 pcd \<and>
     bsz \<le> PcdFlashNvStorageVariableSize pcd \<and> 0 < PcdFlashNvStorageVariableSize pcd \<and>
     bsz \<le> PcdFlashNvStorageFtwWorkingSize pcd \<and> 0 < PcdFlashNvStorageFtwWorkingSize pcd \<and>
     bsz \<le> PcdFlashNvStorageFtwSpareSize pcd \<and> 0 < PcdFlashNvStorageFtwSpareSize pcd \<and>
     PcdFlashNvStorageFtwWorkingBase64 pcd mod bsz = 0 \<and>
     PcdFlashNvStorageFtwSpareBase64 pcd mod bsz = 0"

text \<open>\<open>Headers\<close> is a pool buffer at the address \<open>scratch\<close>.\<close>

definition FvbInitFvAndVariableStoreHeaders ::
  "fvb2_masks \<Rightarrow> fv_layout \<Rightarrow> fvb_pcds \<Rightarrow> 'h flash_protocol \<Rightarrow> nat \<Rightarrow> FVB_DEVICE \<Rightarrow> 'h \<Rightarrow> mem \<Rightarrow>
     (FVB_DEVICE \<times> 'h \<times> mem \<times> efi_status) run" where
  "FvbInitFvAndVariableStoreHeaders k ly pcd P scratch dev h m = do {
     assert_that (layout_asserts pcd (BlockSize dev));
     (let image = header_image ly (FvbSize dev) (header_attributes k) (LastBlock dev + 1) (BlockSize dev)
                    (PcdFlashNvStorageVariableSize pcd - header_length ly)
      in FvbWrite P dev h (wr m scratch image) 0 0 (length image) scratch)
   }"

definition FvbValidateFvHeader :: "fv_layout \<Rightarrow> fvb_pcds \<Rightarrow> FVB_DEVICE \<Rightarrow> mem \<Rightarrow> efi_status" where
  "FvbValidateFvHeader ly pcd dev m =
     (let a = RegionBaseAddress dev; v = a + hdr_HeaderLength ly m a
      in if \<not> hdr_magic_ok ly m a \<or> hdr_FvLength ly m a \<noteq> FvbSize dev then Error EFI_NOT_FOUND
         else if \<not> hdr_guid_ok ly m a then Error EFI_NOT_FOUND
         else if CalculateSum16 ly m a (hdr_HeaderLength ly m a) \<noteq> 0 then Error EFI_NOT_FOUND
         else if \<not> var_guid_ok ly m v then Error EFI_NOT_FOUND
         else if var_Size ly m v \<noteq> PcdFlashNvStorageVariableSize pcd - hdr_HeaderLength ly m a
         then Error EFI_NOT_FOUND
         else EFI_SUCCESS)"

definition FvbPrepareFvHeader ::
  "fvb2_masks \<Rightarrow> fv_layout \<Rightarrow> fvb_pcds \<Rightarrow> 'h flash_protocol \<Rightarrow> nat \<Rightarrow> bool \<Rightarrow> FVB_DEVICE \<Rightarrow> 'h \<Rightarrow> mem \<Rightarrow>
     (FVB_DEVICE \<times> 'h \<times> mem \<times> efi_status) run" where
  "FvbPrepareFvHeader k ly pcd P scratch default_settings dev h m =
     (if default_settings \<or> EFI_ERROR (FvbValidateFvHeader ly pcd dev m)
      then let dev = dev\<lparr>IsFvbHeaderValid := False\<rparr>
           in do {
             (dev, h, m, Status) \<leftarrow> FvbEraseBlocks k ly P dev h m [(0, FvbSize dev div BlockSize dev)];
             (if EFI_ERROR Status then Some (dev, h, m, Status)
              else do {
                (dev, h, m, Status) \<leftarrow> FvbInitFvAndVariableStoreHeaders k ly pcd P scratch dev h m;
                Some (dev, h, m, if EFI_ERROR Status then Status else EFI_SUCCESS)
              })
           }
      else Some (dev\<lparr>IsFvbHeaderValid := True\<rparr>, h, m, EFI_SUCCESS))"

section \<open>Configuration\<close>

record boot_answers =
  locate_spi :: bool
  AllocatePages_ok :: bool
  AllocatePool :: nat
  install_protocols :: efi_status
  default_settings :: bool
  header_scratch :: nat
  boot_device :: RKATAG_BOOTDEV_TYPE

definition flash_description :: "fvb_pcds \<Rightarrow> FVB_DEVICE \<Rightarrow> FVB_DEVICE" where
  "flash_description pcd dev =
     (let bsz = 4096
      in dev\<lparr>FvbSize := PcdFlashNvStorageVariableSize pcd + PcdFlashNvStorageFtwWorkingSize pcd +
                PcdFlashNvStorageFtwSpareSize pcd,
             FvbOffset := (if PcdRkFvbNvStorageSpiOffset pcd \<noteq> 0 then PcdRkFvbNvStorageSpiOffset pcd
                           else PcdFlashNvStorageVariableBase64 pcd - PcdFdBaseAddress pcd),
             BlockSize := bsz, LastBlock := Size dev div bsz - 1\<rparr>)"

definition boots_from_spi :: "RKATAG_BOOTDEV_TYPE \<Rightarrow> bool" where
  "boots_from_spi t \<longleftrightarrow> t = RkAtagBootDevTypeSpiNor \<or> t = RkAtagBootDevTypeMtdBlkSpiNor"

text \<open>The shadow's first content: SPI flash when that is the medium, zeroes otherwise.\<close>

definition load_shadow ::
  "fvb_pcds \<Rightarrow> boot_answers \<Rightarrow> 'h flash_protocol \<Rightarrow> FVB_DEVICE \<Rightarrow> 'h \<Rightarrow> mem \<Rightarrow>
     (FVB_DEVICE \<times> 'h \<times> mem) run" where
  "load_shadow pcd ans P dev h m =
     (let base = RegionBaseAddress dev; n = FvbSize dev; m = fill m base n 0
      in if \<not> IsSpiFlashAvailable dev then Some (dev, h, m)
         else if \<not> boots_from_spi (boot_device ans) \<and> \<not> PcdNvStoragePreferSpiFlash pcd
         then Some (dev\<lparr>IsSpiFlashAvailable := False\<rparr>, h, m)
         else do {
           (h, m, Status) \<leftarrow> fp_Read P h m (of_nat (FvbOffset dev)) base (of_nat n);
           Some (dev, h, if EFI_ERROR Status then fill m base n 0 else m)
         })"

definition FvbConfigureFlashInstance ::
  "fvb2_masks \<Rightarrow> fv_layout \<Rightarrow> fvb_pcds \<Rightarrow> boot_answers \<Rightarrow> 'h flash_protocol \<Rightarrow> FVB_DEVICE \<Rightarrow> 'h \<Rightarrow> mem \<Rightarrow>
     (FVB_DEVICE \<times> 'h \<times> mem \<times> efi_status) run" where
  "FvbConfigureFlashInstance k ly pcd ans P dev h m =
     (let dev = (if locate_spi ans
                 then dev\<lparr>SpiFlashProtocol := True,
                          IsSpiFlashAvailable := fp_GetSize P h \<noteq> 0 \<or> IsSpiFlashAvailable dev\<rparr>
                 else dev);
          dev = flash_description pcd dev;
          dev = dev\<lparr>RegionBaseAddress := (if AllocatePages_ok ans then PcdFlashNvStorageVariableBase64 pcd
                                          else AllocatePool ans)\<rparr>
      in if RegionBaseAddress dev = 0 then Some (dev, h, m, Error EFI_OUT_OF_RESOURCES)
         else do {
           (dev, h, m) \<leftarrow> load_shadow pcd ans P dev h m;
           (if EFI_ERROR (install_protocols ans) then Some (dev, h, m, install_protocols ans)
            else FvbPrepareFvHeader k ly pcd P (header_scratch ans) (default_settings ans) dev h m)
         })"

section \<open>The boot disk\<close>

record 'd disk_env =
  LocateDevicePath :: "nat \<Rightarrow> efi_status"
  HandleProtocol_DiskIo :: "nat \<Rightarrow> efi_status"
  WriteDisk :: "'d \<Rightarrow> nat \<Rightarrow> nat \<Rightarrow> nat \<Rightarrow> u8 list \<Rightarrow> 'd \<times> efi_status"
  ReadDisk :: "'d \<Rightarrow> nat \<Rightarrow> nat \<Rightarrow> nat \<Rightarrow> nat \<Rightarrow> u8 list \<times> efi_status"
  fdt_header_size :: nat
  FdtCheckHeader :: "u8 list \<Rightarrow> int"
  FdtTotalSize :: "u8 list \<Rightarrow> nat"
  FdtPathOffset :: "u8 list \<Rightarrow> string \<Rightarrow> int"
  PcdFitImageFlashAddress :: nat

definition FvbDiskDumpNvData ::
  "'d disk_env \<Rightarrow> FVB_DEVICE \<Rightarrow> mem \<Rightarrow> 'd \<Rightarrow> nat \<Rightarrow> nat \<Rightarrow> 'd \<times> efi_status" where
  "FvbDiskDumpNvData E dev m d Device MediaId =
     (if EFI_ERROR (LocateDevicePath E Device) then (d, LocateDevicePath E Device)
      else if EFI_ERROR (HandleProtocol_DiskIo E Device) then (d, HandleProtocol_DiskIo E Device)
      else WriteDisk E d Device MediaId (GET_DATA_OFFSET (FvbOffset dev) (StartLba dev) (BlockSize dev))
             (rd m (RegionBaseAddress dev) (FvbSize dev)))"

definition FvbDiskNvDumpHandler :: "'d disk_env \<Rightarrow> FVB_DEVICE \<Rightarrow> mem \<Rightarrow> 'd \<Rightarrow> FVB_DEVICE \<times> 'd" where
  "FvbDiskNvDumpHandler E dev m d =
     (case DiskDevice dev of
        None \<Rightarrow> (dev, d)
      | Some Device \<Rightarrow>
          if \<not> DiskDataInvalidated dev then (dev, d)
          else let (d, Status) = FvbDiskDumpNvData E dev m d Device (DiskMediaId dev)
               in if EFI_ERROR Status then (dev, d)
                  else (dev\<lparr>DiskDataInvalidated := False\<rparr>, d))"

record block_handle =
  dp_hw_vendor :: bool
  dp_NonDiscoverable :: "(bool \<times> nat) option"
  dp_id :: nat
  dp_duplicated :: bool
  HandleProtocol_BlockIo :: efi_status
  MediaPresent :: bool
  ReadOnly :: bool
  MediaId :: nat
  ConnectController :: efi_status
  fdt_pool_ok :: bool

record FVB_RK_BOOT_DEVICE =
  AtagBootDevType :: RKATAG_BOOTDEV_TYPE
  ControllerBaseAddress :: nat

definition mFvbSecondaryRkBootDevices :: "nat \<Rightarrow> nat \<Rightarrow> FVB_RK_BOOT_DEVICE list" where
  "mFvbSecondaryRkBootDevices PcdRkSdmmcBaseAddress PcdDwcSdhciBaseAddress =
     [\<lparr>AtagBootDevType = RkAtagBootDevTypeSd0, ControllerBaseAddress = PcdRkSdmmcBaseAddress\<rparr>,
      \<lparr>AtagBootDevType = RkAtagBootDevTypeEmmc, ControllerBaseAddress = PcdDwcSdhciBaseAddress\<rparr>]"

definition FvbCheckRkBootDeviceSupported :: "block_handle \<Rightarrow> FVB_RK_BOOT_DEVICE \<Rightarrow> bool" where
  "FvbCheckRkBootDeviceSupported h bd \<longleftrightarrow>
     dp_hw_vendor h \<and>
     (case dp_NonDiscoverable h of
        None \<Rightarrow> False
      | Some (is_mem, base) \<Rightarrow> is_mem \<and> base = ControllerBaseAddress bd)"

definition FvbCheckBootDiskDeviceHasFirmware :: "'d disk_env \<Rightarrow> 'd \<Rightarrow> block_handle \<Rightarrow> bool run" where
  "FvbCheckBootDiskDeviceHasFirmware E d h = do {
     assert_that (\<not> EFI_ERROR (HandleProtocol_DiskIo E (dp_id h)));
     (let Offset = PcdFitImageFlashAddress E;
          (hdr, Status) = ReadDisk E d (dp_id h) (MediaId h) Offset (fdt_header_size E)
      in if EFI_ERROR Status then Some False
         else if FdtCheckHeader E hdr \<noteq> 0 then Some False
         else do {
           assert_that (fdt_pool_ok h);
           (let (fdt, Status) = ReadDisk E d (dp_id h) (MediaId h) Offset (FdtTotalSize E hdr)
            in if EFI_ERROR Status then Some False
               else Some (0 \<le> FdtPathOffset E fdt ''/images/edk2''))
         })
   }"

definition FvbProcessBootDiskDeviceHandle ::
  "'d disk_env \<Rightarrow> FVB_DEVICE \<Rightarrow> mem \<Rightarrow> 'd \<Rightarrow> block_handle \<Rightarrow> FVB_RK_BOOT_DEVICE \<Rightarrow> (FVB_DEVICE \<times> 'd) run" where
  "FvbProcessBootDiskDeviceHandle E dev m d h bd =
     (if \<not> FvbCheckRkBootDeviceSupported h bd then Some (dev, d)
      else do {
        assert_that (\<not> EFI_ERROR (HandleProtocol_BlockIo h));
        assert_that (dp_duplicated h);
        (if \<not> MediaPresent h \<or> ReadOnly h \<or> EFI_ERROR (ConnectController h) then Some (dev, d)
         else do {
           found \<leftarrow> FvbCheckBootDiskDeviceHasFirmware E d h;
           (if \<not> found then Some (dev, d)
            else let (d, Status) = FvbDiskDumpNvData E dev m d (dp_id h) (MediaId h)
                 in if EFI_ERROR Status then Some (dev, d)
                    else Some (dev\<lparr>DiskDevice := Some (dp_id h), DiskMediaId := MediaId h\<rparr>, d))
         })
      })"

text \<open>
  The search over controllers and handles; the result also says whether a disk was adopted.
  \<open>install\<close> is the status of tagging its handle, which is asserted.
\<close>

fun find_in_handles ::
  "'d disk_env \<Rightarrow> efi_status \<Rightarrow> FVB_DEVICE \<Rightarrow> mem \<Rightarrow> 'd \<Rightarrow> block_handle list \<Rightarrow> FVB_RK_BOOT_DEVICE \<Rightarrow>
     (FVB_DEVICE \<times> 'd \<times> bool) run" where
  "find_in_handles E install dev m d [] bd = Some (dev, d, False)"
| "find_in_handles E install dev m d (h # hs) bd = do {
     (dev, d) \<leftarrow> FvbProcessBootDiskDeviceHandle E dev m d h bd;
     (if DiskDevice dev \<noteq> None then do {
        assert_that (\<not> EFI_ERROR install);
        Some (dev, d, True)
      } else find_in_handles E install dev m d hs bd)
   }"

fun find_in_devices ::
  "'d disk_env \<Rightarrow> efi_status \<Rightarrow> FVB_DEVICE \<Rightarrow> mem \<Rightarrow> 'd \<Rightarrow> block_handle list \<Rightarrow> FVB_RK_BOOT_DEVICE list \<Rightarrow>
     (FVB_DEVICE \<times> 'd) run" where
  "find_in_devices E install dev m d hs [] = Some (dev, d)"
| "find_in_devices E install dev m d hs (bd # bds) = do {
     (dev, d, found) \<leftarrow> find_in_handles E install dev m d hs bd;
     (if found then Some (dev, d) else find_in_devices E install dev m d hs bds)
   }"

definition FvbFindBootDiskDevice ::
  "'d disk_env \<Rightarrow> efi_status \<Rightarrow> block_handle list option \<Rightarrow> FVB_RK_BOOT_DEVICE list \<Rightarrow>
     FVB_DEVICE \<Rightarrow> mem \<Rightarrow> 'd \<Rightarrow> (FVB_DEVICE \<times> 'd) run" where
  "FvbFindBootDiskDevice E install handles bds dev m d =
     (case handles of
        None \<Rightarrow> Some (dev, d)
      | Some hs \<Rightarrow> do { assert_that (hs \<noteq> []); find_in_devices E install dev m d hs bds })"

section \<open>Events and entry point\<close>

datatype fvb_event = VirtualAddressChange | EndOfDxe | ReadyToBoot | ResetNotify

text \<open>
  The ready-to-boot handler: its three boot service calls are asserted; the dump it runs is the
  handler's.
\<close>

definition FvbReadyToBootEventHandler ::
  "'d disk_env \<Rightarrow> efi_status \<Rightarrow> efi_status \<Rightarrow> efi_status \<Rightarrow> FVB_DEVICE \<Rightarrow> mem \<Rightarrow> 'd \<Rightarrow> (FVB_DEVICE \<times> 'd) run" where
  "FvbReadyToBootEventHandler E create register close dev m d = do {
     assert_that (\<not> EFI_ERROR create);
     assert_that (\<not> EFI_ERROR register);
     r \<leftarrow> Some (FvbDiskNvDumpHandler E dev m d);
     assert_that (\<not> EFI_ERROR close);
     Some r
   }"

record entry_answers =
  copy_pool_ok :: bool
  install_formatted :: efi_status
  create_va_event :: efi_status
  create_end_of_dxe :: efi_status
  locate_reset :: efi_status
  register_reset :: efi_status
  create_ready_to_boot :: efi_status

definition FvbInstallDiskNvDumpEventHandlers :: "entry_answers \<Rightarrow> fvb_event list run" where
  "FvbInstallDiskNvDumpEventHandlers ans = do {
     assert_that (\<not> EFI_ERROR (locate_reset ans));
     assert_that (\<not> EFI_ERROR (register_reset ans));
     assert_that (\<not> EFI_ERROR (create_ready_to_boot ans));
     Some [ResetNotify, ReadyToBoot]
   }"

definition FvbInstallDiskNotifyHandler :: "entry_answers \<Rightarrow> fvb_event list run" where
  "FvbInstallDiskNotifyHandler ans = do {
     assert_that (\<not> EFI_ERROR (create_end_of_dxe ans));
     Some [EndOfDxe]
   }"

text \<open>The entry point: the device, whether it stays installed, the events registered, the status.\<close>

definition RkFvbEntryPoint ::
  "fvb2_masks \<Rightarrow> fv_layout \<Rightarrow> fvb_pcds \<Rightarrow> boot_answers \<Rightarrow> entry_answers \<Rightarrow> 'h flash_protocol \<Rightarrow> 'h \<Rightarrow> mem \<Rightarrow>
     (FVB_DEVICE \<times> 'h \<times> mem \<times> bool \<times> fvb_event list \<times> efi_status) run" where
  "RkFvbEntryPoint k ly pcd ans ents P h m =
     (if \<not> copy_pool_ok ents
      then Some (mRkFvbFlashInstanceTemplate, h, m, False, [], Error EFI_OUT_OF_RESOURCES)
      else do {
        (dev, h, m, Status) \<leftarrow> FvbConfigureFlashInstance k ly pcd ans P mRkFvbFlashInstanceTemplate h m;
        (if EFI_ERROR Status then Some (dev, h, m, False, [], Status)
         else if EFI_ERROR (install_formatted ents) then Some (dev, h, m, False, [], install_formatted ents)
         else if EFI_ERROR (create_va_event ents) then Some (dev, h, m, False, [], create_va_event ents)
         else if \<not> IsSpiFlashAvailable dev then do {
           e1 \<leftarrow> FvbInstallDiskNotifyHandler ents;
           e2 \<leftarrow> FvbInstallDiskNvDumpEventHandlers ents;
           Some (dev, h, m, True, [VirtualAddressChange] @ e1 @ e2, create_va_event ents)
         } else Some (dev, h, m, True, [VirtualAddressChange], create_va_event ents))
      })"

end
