(* ===== verification/FvbStore.thy ===== *)
theory FvbStore
  imports RkFvb NorProps
begin

text \<open>
  The contract between the volume driver and the flash protocol, its interpretation on the NOR
  driver, and the properties of the volume: the shadow equals the flash, whatever is written and
  erased; the boot disk, once adopted and clean, equals the shadow; attributes and error paths.
\<close>

section \<open>The flash contract\<close>

locale flash_store =
  fixes P :: "'h flash_protocol" and holds :: "'h \<Rightarrow> mem \<Rightarrow> bool" and cap :: nat
  assumes capacity: "holds h c \<Longrightarrow> cap \<le> 2147483648"
    and p_size: "holds h c \<Longrightarrow> unat (fp_GetSize P h) = cap"
    and p_read: "holds h c \<Longrightarrow> off < cap \<Longrightarrow> off + n \<le> cap \<Longrightarrow> buf \<noteq> 0 \<Longrightarrow>
      \<exists>h'. fp_Read P h m (of_nat off) buf (of_nat n) = Some (h', wr m buf (rd c off n), Value n) \<and> holds h' c"
    and p_write: "holds h c \<Longrightarrow> off < cap \<Longrightarrow> off + n \<le> cap \<Longrightarrow> buf \<noteq> 0 \<Longrightarrow>
      \<exists>h'. fp_Write P h m (of_nat off) buf (of_nat n) = Some (h', Value n) \<and>
           holds h' (program c off (rd m buf n))"
    and p_erase: "holds h c \<Longrightarrow> 4096 dvd off \<Longrightarrow> off + 4096 \<le> cap \<Longrightarrow>
      \<exists>h'. fp_Erase P h (of_nat off) 4096 = Some (h', EFI_SUCCESS) \<and> holds h' (fill c off 4096 0xFF)"

text \<open>A device whose NV store lies in the flash and whose shadow is a proper buffer.\<close>

definition dev_ok :: "nat \<Rightarrow> FVB_DEVICE \<Rightarrow> bool" where
  "dev_ok cap dev \<longleftrightarrow>
     BlockSize dev = 4096 \<and> StartLba dev = 0 \<and> 4096 dvd FvbOffset dev \<and> 4096 dvd FvbSize dev \<and>
     FvbOffset dev + FvbSize dev \<le> cap \<and> RegionBaseAddress dev \<noteq> 0 \<and>
     RegionBaseAddress dev + FvbSize dev < 2 ^ 63 \<and> 0 < FvbSize dev"

definition shadow :: "FVB_DEVICE \<Rightarrow> mem \<Rightarrow> u8 list" where
  "shadow dev m = rd m (RegionBaseAddress dev) (FvbSize dev)"

definition same_place :: "FVB_DEVICE \<Rightarrow> FVB_DEVICE \<Rightarrow> bool" where
  "same_place dev dev' \<longleftrightarrow>
     RegionBaseAddress dev' = RegionBaseAddress dev \<and> FvbSize dev' = FvbSize dev \<and>
     FvbOffset dev' = FvbOffset dev \<and> StartLba dev' = StartLba dev \<and> BlockSize dev' = BlockSize dev \<and>
     LastBlock dev' = LastBlock dev \<and> IsSpiFlashAvailable dev' = IsSpiFlashAvailable dev"

definition coherent :: "('h \<Rightarrow> mem \<Rightarrow> bool) \<Rightarrow> FVB_DEVICE \<Rightarrow> 'h \<Rightarrow> mem \<Rightarrow> bool" where
  "coherent holds dev h m \<longleftrightarrow>
     (\<exists>c. holds h c \<and> (\<forall>i < FvbSize dev. m (RegionBaseAddress dev + i) = c (FvbOffset dev + i)))"

lemma dev_ok_same: "same_place dev dev' \<Longrightarrow> dev_ok cap dev' = dev_ok cap dev"
  by (simp add: dev_ok_def same_place_def)

lemma coherent_same: "same_place dev dev' \<Longrightarrow> coherent holds dev' = coherent holds dev"
  by (simp add: coherent_def same_place_def fun_eq_iff)

text \<open>New data that only clears bits of what the shadow holds at \<open>a\<close>.\<close>

definition clears :: "mem \<Rightarrow> nat \<Rightarrow> u8 list \<Rightarrow> bool" where
  "clears m a bs \<longleftrightarrow> (\<forall>i < length bs. m (a + i) AND bs ! i = bs ! i)"

text \<open>The shadow after erasing a list of block ranges.\<close>

definition erased :: "FVB_DEVICE \<Rightarrow> (nat \<times> nat) list \<Rightarrow> mem \<Rightarrow> mem" where
  "erased dev args m =
     (\<lambda>x. if \<exists>r \<in> set args. RegionBaseAddress dev + fst r * 4096 \<le> x \<and>
                            x < RegionBaseAddress dev + (fst r + snd r) * 4096
          then 0xFF else m x)"

text \<open>The device as the entry point configures it when it uses SPI flash.\<close>

definition configured :: "fvb_pcds \<Rightarrow> boot_answers \<Rightarrow> FVB_DEVICE" where
  "configured pcd ans =
     (flash_description pcd mRkFvbFlashInstanceTemplate)\<lparr>SpiFlashProtocol := True, IsSpiFlashAvailable := True,
        RegionBaseAddress := (if AllocatePages_ok ans then PcdFlashNvStorageVariableBase64 pcd else AllocatePool ans)\<rparr>"

text \<open>
  The headers of a volume of \<open>n\<close> bytes at \<open>a\<close> are valid: the firmware volume header has its revision and
  signature, the length of the volume, the NV data GUID and a zero checksum; the variable store header behind it has
  one of the two GUIDs of a variable store and the size that is left of the variable area. The stored volume is kept when the flash, read to its place in
  memory, has such headers and the user has not asked for the default settings.
\<close>

definition headers_valid :: "fv_layout \<Rightarrow> fvb_pcds \<Rightarrow> nat \<Rightarrow> mem \<Rightarrow> nat \<Rightarrow> bool" where
  "headers_valid ly pcd n m a \<longleftrightarrow>
     hdr_magic_ok ly m a \<and> hdr_FvLength ly m a = n \<and> hdr_guid_ok ly m a \<and>
     CalculateSum16 ly m a (hdr_HeaderLength ly m a) = 0 \<and>
     var_guid_ok ly m (a + hdr_HeaderLength ly m a) \<and>
     var_Size ly m (a + hdr_HeaderLength ly m a) = PcdFlashNvStorageVariableSize pcd - hdr_HeaderLength ly m a"

definition keeps_store :: "fv_layout \<Rightarrow> fvb_pcds \<Rightarrow> boot_answers \<Rightarrow> mem \<Rightarrow> mem \<Rightarrow> bool" where
  "keeps_store ly pcd ans c m \<longleftrightarrow>
     (let dev = configured pcd ans
      in \<not> default_settings ans \<and>
         headers_valid ly pcd (FvbSize dev)
           (wr m (RegionBaseAddress dev) (rd c (FvbOffset dev) (FvbSize dev))) (RegionBaseAddress dev))"

text \<open>
  What the platform provides: an SPI protocol that is the NV medium, a layout that passes the
  driver's assertions and fits the volume, and a pool buffer for the headers beside the shadow.
\<close>

definition spi_boot :: "fv_layout \<Rightarrow> fvb_pcds \<Rightarrow> boot_answers \<Rightarrow> fvb2_masks \<Rightarrow> nat \<Rightarrow> bool" where
  "spi_boot ly pcd ans k cap \<longleftrightarrow>
     (let dev = configured pcd ans;
          image = header_image ly (FvbSize dev) (header_attributes k) (LastBlock dev + 1) (BlockSize dev)
                    (PcdFlashNvStorageVariableSize pcd - header_length ly)
      in locate_spi ans \<and> (boots_from_spi (boot_device ans) \<or> PcdNvStoragePreferSpiFlash pcd) \<and>
         install_protocols ans = EFI_SUCCESS \<and> dev_ok cap dev \<and> FvbSize dev \<le> 262144 \<and>
         layout_asserts pcd 4096 \<and> length image \<le> FvbSize dev \<and> header_scratch ans \<noteq> 0 \<and>
         (header_scratch ans + length image \<le> RegionBaseAddress dev \<or>
          RegionBaseAddress dev + FvbSize dev \<le> header_scratch ans))"

lemma ff_and [simp]: "0xFF AND (b :: u8) = b"
proof -
  have "(0xFF :: u8) = - 1"
    by simp
  then show ?thesis
    by (simp only: and.left_neutral)
qed

context flash_store
begin

lemma volume_write:
  assumes ok: "dev_ok cap dev" and spi: "IsSpiFlashAvailable dev" and coh: "coherent holds dev h m"
    and room: "Lba * 4096 + Offset + n \<le> FvbSize dev" "Lba * 4096 + Offset < FvbSize dev" and buf: "Buffer \<noteq> 0"
    and clr: "clears m (RegionBaseAddress dev + (Lba * 4096 + Offset)) (rd m Buffer n)"
  shows "\<exists>h'. FvbWrite P dev h m Lba Offset n Buffer =
      Some (dev\<lparr>DiskDataInvalidated := True\<rparr>, h',
            wr m (RegionBaseAddress dev + (Lba * 4096 + Offset)) (rd m Buffer n), EFI_SUCCESS) \<and>
    coherent holds (dev\<lparr>DiskDataInvalidated := True\<rparr>) h'
      (wr m (RegionBaseAddress dev + (Lba * 4096 + Offset)) (rd m Buffer n))"
proof -
  let ?k = "Lba * 4096 + Offset" and ?base = "RegionBaseAddress dev" and ?bs = "rd m Buffer n"
  obtain c where c: "holds h c" "\<forall>i < FvbSize dev. m (?base + i) = c (FvbOffset dev + i)"
    using coh by (auto simp: coherent_def)
  note d = ok [unfolded dev_ok_def]
  have flash: "FvbOffset dev + ?k < cap" "FvbOffset dev + ?k + n \<le> cap"
    using d room by linarith+
  obtain h' where h': "fp_Write P h m (of_nat (FvbOffset dev + ?k)) Buffer (of_nat n) = Some (h', Value n)"
    "holds h' (program c (FvbOffset dev + ?k) ?bs)"
    using p_write [OF c(1) flash buf] by blast
  have o1: "GET_DATA_OFFSET (FvbOffset dev + Offset) (StartLba dev + Lba) (BlockSize dev) = FvbOffset dev + ?k"
    using d flash(1) capacity [OF c(1)] by (simp add: GET_DATA_OFFSET_def)
  have o2: "GET_DATA_OFFSET (?base + Offset) (StartLba dev + Lba) (BlockSize dev) = ?base + ?k"
    using d room by (simp add: GET_DATA_OFFSET_def)
  have inb: "in_shadow dev (?base + ?k) n"
    using room by (simp add: in_shadow_def)
  have "wr m (?base + ?k) ?bs (?base + i) = program c (FvbOffset dev + ?k) ?bs (FvbOffset dev + i)"
    if "i < FvbSize dev" for i
  proof (cases "?k \<le> i \<and> i < ?k + n")
    case True
    then have lt: "i - ?k < n" and eq: "?base + ?k + (i - ?k) = ?base + i"
      by linarith+
    from clr [unfolded clears_def length_rd, rule_format, OF lt]
    have "m (?base + i) AND ?bs ! (i - ?k) = ?bs ! (i - ?k)"
      unfolding eq .
    then show ?thesis
      using True c(2) that by (simp add: wr_def program_def)
  next
    case False
    then show ?thesis
      using c(2) that by (auto simp: wr_def program_def)
  qed
  then have "coherent holds (dev\<lparr>DiskDataInvalidated := True\<rparr>) h' (wr m (?base + ?k) ?bs)"
    using h'(2) by (auto simp: coherent_def)
  then show ?thesis
    using h'(1) spi o1 o2 inb by (simp add: FvbWrite_def Let_def assert_that_def)
qed

lemma volume_erase:
  assumes "dev_ok cap dev" "IsSpiFlashAvailable dev" "coherent holds dev h m" "(Lba + k) * 4096 \<le> FvbSize dev"
  shows "\<exists>h' dev'. erase_range P dev h m Lba k =
      Some (dev', h', fill m (RegionBaseAddress dev + Lba * 4096) (k * 4096) 0xFF, EFI_SUCCESS) \<and>
    dev' = dev\<lparr>DiskDataInvalidated := DiskDataInvalidated dev \<or> k \<noteq> 0\<rparr> \<and>
    coherent holds dev' h' (fill m (RegionBaseAddress dev + Lba * 4096) (k * 4096) 0xFF)"
  using assms
proof (induction k arbitrary: dev h m Lba)
  case 0
  then show ?case by simp
next
  case (Suc k)
  let ?base = "RegionBaseAddress dev" and ?dev = "dev\<lparr>DiskDataInvalidated := True\<rparr>"
  let ?m = "fill m (?base + Lba * 4096) 4096 0xFF"
  obtain c where c: "holds h c" "\<forall>i < FvbSize dev. m (?base + i) = c (FvbOffset dev + i)"
    using Suc.prems(3) by (auto simp: coherent_def)
  note d = Suc.prems(1) [unfolded dev_ok_def]
  have flash: "FvbOffset dev + Lba * 4096 + 4096 \<le> cap" and al: "4096 dvd FvbOffset dev + Lba * 4096"
    using d Suc.prems(4) by auto
  obtain h1 where h1: "fp_Erase P h (of_nat (FvbOffset dev + Lba * 4096)) 4096 = Some (h1, EFI_SUCCESS)"
    "holds h1 (fill c (FvbOffset dev + Lba * 4096) 4096 0xFF)"
    using p_erase [OF c(1) al flash] by blast
  have o1: "GET_DATA_OFFSET (FvbOffset dev) (StartLba dev + Lba) (BlockSize dev) = FvbOffset dev + Lba * 4096"
    using d flash capacity [OF c(1)] by (simp add: GET_DATA_OFFSET_def)
  have o2: "GET_DATA_OFFSET ?base (StartLba dev + Lba) (BlockSize dev) = ?base + Lba * 4096"
    using d Suc.prems(4) by (simp add: GET_DATA_OFFSET_def)
  have inb: "in_shadow dev (?base + Lba * 4096) 4096"
    using Suc.prems(4) by (simp add: in_shadow_def)
  have "coherent holds ?dev h1 ?m"
    using h1(2) c(2) by (auto simp: coherent_def fill_def intro!: exI [of _ "fill c (FvbOffset dev + Lba * 4096) 4096 0xFF"])
  moreover have "dev_ok cap ?dev" "(Lba + 1 + k) * 4096 \<le> FvbSize ?dev"
    using Suc.prems(1,4) by (simp_all add: dev_ok_def)
  ultimately obtain h2 dev2 where h2: "erase_range P ?dev h1 ?m (Lba + 1) k =
      Some (dev2, h2, fill ?m (?base + (Lba + 1) * 4096) (k * 4096) 0xFF, EFI_SUCCESS)"
    "dev2 = ?dev" "coherent holds dev2 h2 (fill ?m (?base + (Lba + 1) * 4096) (k * 4096) 0xFF)"
    using Suc.IH [of ?dev h1 ?m "Lba + 1"] Suc.prems(2) by auto
  have "fill ?m (?base + (Lba + 1) * 4096) (k * 4096) 0xFF = fill m (?base + Lba * 4096) (Suc k * 4096) 0xFF"
    by (rule ext) (auto simp: fill_def)
  then show ?case
    using h1(1) h2 o1 o2 inb Suc.prems(2) d by (simp add: Let_def assert_that_def)
qed

lemma volume_erase_blocks:
  assumes "dev_ok cap dev" "IsSpiFlashAvailable dev" "coherent holds dev h m"
    "\<forall>x \<in> set args. (fst x + snd x) * 4096 \<le> FvbSize dev"
  shows "\<exists>dev' h'. erase_ranges P dev h m args = Some (dev', h', erased dev args m, EFI_SUCCESS) \<and>
    same_place dev dev' \<and> IsFvbHeaderValid dev' = IsFvbHeaderValid dev \<and>
    coherent holds dev' h' (erased dev args m)"
  using assms
proof (induction args arbitrary: dev h m)
  case Nil
  then show ?case
    by (auto simp: same_place_def erased_def)
next
  case (Cons x args)
  obtain lba n where x: "x = (lba, n)"
    by (cases x)
  have room: "(lba + n) * 4096 \<le> FvbSize dev"
    using Cons.prems(4) x by simp
  let ?m = "fill m (RegionBaseAddress dev + lba * 4096) (n * 4096) 0xFF"
  obtain dev1 h1 where e1: "erase_range P dev h m lba n = Some (dev1, h1, ?m, EFI_SUCCESS)"
    "dev1 = dev\<lparr>DiskDataInvalidated := DiskDataInvalidated dev \<or> n \<noteq> 0\<rparr>" "coherent holds dev1 h1 ?m"
    using volume_erase [OF Cons.prems(1-3) room] by blast
  have same: "same_place dev dev1" "IsFvbHeaderValid dev1 = IsFvbHeaderValid dev"
    using e1(2) by (simp_all add: same_place_def)
  have prem1: "dev_ok cap dev1" "IsSpiFlashAvailable dev1"
    "\<forall>x \<in> set args. (fst x + snd x) * 4096 \<le> FvbSize dev1"
    using Cons.prems dev_ok_same [OF same(1), of cap] same by (simp_all add: same_place_def)
  obtain dev2 h2 where e2: "erase_ranges P dev1 h1 ?m args = Some (dev2, h2, erased dev1 args ?m, EFI_SUCCESS)"
    "same_place dev1 dev2" "IsFvbHeaderValid dev2 = IsFvbHeaderValid dev1" "coherent holds dev2 h2 (erased dev1 args ?m)"
    using Cons.IH [OF prem1(1,2) e1(3) prem1(3)] by blast
  have "erased dev1 args ?m = erased dev (x # args) m"
    using same x by (auto simp: erased_def same_place_def fill_def fun_eq_iff add_mult_distrib)
  then show ?case
    using e1(1) e2 x same by (auto simp: same_place_def)
qed

lemma volume_load:
  assumes "holds h c" "dev_ok cap dev"
  shows "\<exists>h'. fp_Read P h m (of_nat (FvbOffset dev)) (RegionBaseAddress dev) (of_nat (FvbSize dev)) =
      Some (h', wr m (RegionBaseAddress dev) (rd c (FvbOffset dev) (FvbSize dev)), Value (FvbSize dev)) \<and>
    holds h' c \<and>
    coherent holds dev h' (wr m (RegionBaseAddress dev) (rd c (FvbOffset dev) (FvbSize dev)))"
proof -
  have "FvbOffset dev < cap" "FvbOffset dev + FvbSize dev \<le> cap" "RegionBaseAddress dev \<noteq> 0"
    using assms(2) by (auto simp: dev_ok_def)
  from p_read [OF assms(1) this, of m] obtain h' where
    "fp_Read P h m (of_nat (FvbOffset dev)) (RegionBaseAddress dev) (of_nat (FvbSize dev)) =
      Some (h', wr m (RegionBaseAddress dev) (rd c (FvbOffset dev) (FvbSize dev)), Value (FvbSize dev))"
    "holds h' c"
    by blast
  then show ?thesis
    by (intro exI [of _ h']) (auto simp: coherent_def wr_def)
qed

lemma volume_format:
  assumes ok: "dev_ok cap dev" "IsSpiFlashAvailable dev" "coherent holds dev h m"
    and room: "LastBlock dev = 63" "FvbSize dev \<le> 262144" "layout_asserts pcd 4096"
    and image: "hdr = header_image ly (FvbSize dev) (header_attributes k) (LastBlock dev + 1) (BlockSize dev)
                    (PcdFlashNvStorageVariableSize pcd - header_length ly)" "length hdr \<le> FvbSize dev"
    and scratch: "scratch \<noteq> 0" "scratch + length hdr \<le> RegionBaseAddress dev \<or>
      RegionBaseAddress dev + FvbSize dev \<le> scratch"
    and bad: "d \<or> EFI_ERROR (FvbValidateFvHeader ly pcd dev m)"
  shows "\<exists>dev' h' m'. FvbPrepareFvHeader k ly pcd P scratch d dev h m = Some (dev', h', m', EFI_SUCCESS) \<and>
    same_place dev dev' \<and> \<not> IsFvbHeaderValid dev' \<and> coherent holds dev' h' m' \<and>
    shadow dev m' = hdr @ replicate (FvbSize dev - length hdr) 0xFF"
proof -
  let ?dev = "dev\<lparr>IsFvbHeaderValid := False\<rparr>" and ?args = "[(0, FvbSize dev div BlockSize dev)]"
  have d: "BlockSize dev = 4096" "StartLba dev = 0" "4096 dvd FvbSize dev" "0 < FvbSize dev"
    using ok(1) by (simp_all add: dev_ok_def)
  have n: "FvbSize dev div 4096 * 4096 = FvbSize dev"
    using d(3) by simp
  have ok1: "dev_ok cap ?dev" "IsSpiFlashAvailable ?dev" "coherent holds ?dev h m"
    "\<forall>x \<in> set ?args. (fst x + snd x) * 4096 \<le> FvbSize ?dev"
    using ok d n by (simp_all add: dev_ok_def coherent_def)
  let ?m1 = "erased ?dev ?args m"
  obtain dev1 h1 where e: "erase_ranges P ?dev h m ?args = Some (dev1, h1, ?m1, EFI_SUCCESS)"
    "same_place ?dev dev1" "\<not> IsFvbHeaderValid dev1" "coherent holds dev1 h1 ?m1"
    using volume_erase_blocks [OF ok1] by auto
  have pos: "FvbSize dev div 4096 \<noteq> 0" "\<not> 63 < FvbSize dev div 4096 - 1"
    using d room n by auto
  have erase: "FvbEraseBlocks k ly P ?dev h m ?args = Some (dev1, h1, ?m1, EFI_SUCCESS)"
    using e(1) d room(1) pos by (simp add: FvbEraseBlocks_def)
  let ?m2 = "wr ?m1 scratch hdr"
  have all_ff: "?m1 x = 0xFF" if "RegionBaseAddress dev \<le> x" "x < RegionBaseAddress dev + FvbSize dev" for x
    using that d n by (simp add: erased_def)
  have m2: "?m2 x = 0xFF" if "RegionBaseAddress dev \<le> x" "x < RegionBaseAddress dev + FvbSize dev" for x
    using that scratch(2) all_ff [OF that] by (auto simp: wr_def)
  have same: "same_place dev dev1"
    using e(2) by (simp add: same_place_def)
  note place = same [unfolded same_place_def]
  have coh: "coherent holds dev1 h1 ?m2"
    using e(4) m2 all_ff place unfolding coherent_def by auto
  have img: "rd ?m2 scratch (length hdr) = hdr"
    by (rule rd_wr_same) simp
  have clr: "clears ?m2 (RegionBaseAddress dev1 + (0 * 4096 + 0)) (rd ?m2 scratch (length hdr))"
    using m2 image(2) place unfolding img clears_def by auto
  have w: "\<exists>h2. FvbWrite P dev1 h1 ?m2 0 0 (length hdr) scratch =
      Some (dev1\<lparr>DiskDataInvalidated := True\<rparr>, h2, wr ?m2 (RegionBaseAddress dev) hdr, EFI_SUCCESS) \<and>
    coherent holds (dev1\<lparr>DiskDataInvalidated := True\<rparr>) h2 (wr ?m2 (RegionBaseAddress dev) hdr)"
    using volume_write [of dev1 h1 ?m2 0 0 "length hdr" scratch] clr coh scratch(1) image(2) d ok(1,2)
      dev_ok_same [OF same, of cap] place unfolding img by simp
  then obtain h2 where h2: "FvbWrite P dev1 h1 ?m2 0 0 (length hdr) scratch =
      Some (dev1\<lparr>DiskDataInvalidated := True\<rparr>, h2, wr ?m2 (RegionBaseAddress dev) hdr, EFI_SUCCESS)"
    "coherent holds (dev1\<lparr>DiskDataInvalidated := True\<rparr>) h2 (wr ?m2 (RegionBaseAddress dev) hdr)"
    by blast
  have "shadow dev (wr ?m2 (RegionBaseAddress dev) hdr) = hdr @ replicate (FvbSize dev - length hdr) 0xFF"
    using image(2) m2 by (auto simp: shadow_def nth_append wr_def intro!: nth_equalityI)
  moreover have "FvbInitFvAndVariableStoreHeaders k ly pcd P scratch dev1 h1 ?m1 =
      Some (dev1\<lparr>DiskDataInvalidated := True\<rparr>, h2, wr ?m2 (RegionBaseAddress dev) hdr, EFI_SUCCESS)"
    using h2(1) place d room image(1)
    by (simp add: FvbInitFvAndVariableStoreHeaders_def assert_that_def Let_def)
  ultimately show ?thesis
    using bad erase same e(3) h2(2) by (auto simp: FvbPrepareFvHeader_def Let_def same_place_def)
qed

lemma volume_configure:
  assumes c: "holds h c" and spi: "spi_boot ly pcd ans k cap"
  shows "\<exists>dev' h' m'. FvbConfigureFlashInstance k ly pcd ans P mRkFvbFlashInstanceTemplate h m =
      Some (dev', h', m', EFI_SUCCESS) \<and>
    same_place (configured pcd ans) dev' \<and> coherent holds dev' h' m' \<and>
    IsFvbHeaderValid dev' = keeps_store ly pcd ans c m \<and>
    shadow dev' m' =
      (if keeps_store ly pcd ans c m then rd c (FvbOffset dev') (FvbSize dev')
       else let hdr = header_image ly (FvbSize dev') (header_attributes k) (LastBlock dev' + 1) (BlockSize dev')
                    (PcdFlashNvStorageVariableSize pcd - header_length ly)
            in hdr @ replicate (FvbSize dev' - length hdr) 0xFF)"
proof -
  define dev where "dev = configured pcd ans"
  define hdr where "hdr = header_image ly (FvbSize dev) (header_attributes k) (LastBlock dev + 1) (BlockSize dev)
                    (PcdFlashNvStorageVariableSize pcd - header_length ly)"
  note b = spi [unfolded spi_boot_def Let_def, folded dev_def, folded hdr_def]
  have ok: "dev_ok cap dev" and avail: "IsSpiFlashAvailable dev" "LastBlock dev = 63"
    using b by (auto simp: dev_def configured_def flash_description_def mRkFvbFlashInstanceTemplate_def Let_def)
  have size: "fp_GetSize P h \<noteq> 0"
    using p_size [OF c] ok by (auto simp: dev_ok_def)
  let ?m0 = "fill m (RegionBaseAddress dev) (FvbSize dev) 0"
  let ?m1 = "wr ?m0 (RegionBaseAddress dev) (rd c (FvbOffset dev) (FvbSize dev))"
  obtain h1 where h1: "fp_Read P h ?m0 (of_nat (FvbOffset dev)) (RegionBaseAddress dev) (of_nat (FvbSize dev)) =
      Some (h1, ?m1, Value (FvbSize dev))" "holds h1 c" "coherent holds dev h1 ?m1"
    using volume_load [OF c ok] by blast
  have load: "load_shadow pcd ans P dev h m = Some (dev, h1, ?m1)"
    using h1(1) avail b by (auto simp: load_shadow_def Let_def)
  have conf: "FvbConfigureFlashInstance k ly pcd ans P mRkFvbFlashInstanceTemplate h m =
      FvbPrepareFvHeader k ly pcd P (header_scratch ans) (default_settings ans) dev h1 ?m1"
  proof -
    have "RegionBaseAddress dev \<noteq> 0"
      using ok by (simp add: dev_ok_def)
    then show ?thesis
      using load b size
      by (simp add: FvbConfigureFlashInstance_def Let_def dev_def configured_def flash_description_def
          mRkFvbFlashInstanceTemplate_def)
  qed
  have m1: "?m1 = wr m (RegionBaseAddress dev) (rd c (FvbOffset dev) (FvbSize dev))"
    by (auto simp: wr_def fill_def fun_eq_iff)
  have keep: "keeps_store ly pcd ans c m \<longleftrightarrow> \<not> (default_settings ans \<or> EFI_ERROR (FvbValidateFvHeader ly pcd dev ?m1))"
    unfolding m1 keeps_store_def Let_def dev_def [symmetric] headers_valid_def FvbValidateFvHeader_def by (auto simp: Let_def)
  show ?thesis
  proof (cases "keeps_store ly pcd ans c m")
    case False
    obtain dev' h' m' where r: "FvbPrepareFvHeader k ly pcd P (header_scratch ans) (default_settings ans) dev h1 ?m1 =
        Some (dev', h', m', EFI_SUCCESS)" "same_place dev dev'" "\<not> IsFvbHeaderValid dev'"
      "coherent holds dev' h' m'" "shadow dev m' = hdr @ replicate (FvbSize dev - length hdr) 0xFF"
      using volume_format [OF ok avail(1) h1(3) avail(2) _ _ hdr_def _ _ _ , of "header_scratch ans" "default_settings ans"] b
        keep False by blast
    then show ?thesis
      using conf False unfolding hdr_def
      by (intro exI [of _ dev'] exI [of _ h'] exI [of _ m'])
         (simp add: same_place_def shadow_def dev_def [symmetric] Let_def)
  next
    case True
    have "coherent holds (dev\<lparr>IsFvbHeaderValid := True\<rparr>) h1 ?m1"
      using h1(3) by (simp add: coherent_def)
    moreover have "shadow dev ?m1 = rd c (FvbOffset dev) (FvbSize dev)"
      by (simp add: shadow_def rd_wr_same)
    ultimately show ?thesis
      using True keep conf
      by (simp add: FvbPrepareFvHeader_def same_place_def shadow_def dev_def [symmetric] Let_def)
  qed
qed

end

text \<open>
  The states the volume goes through once the entry point has configured it: writes that only
  clear bits and erasures of blocks of the volume, by the variable driver, whatever status they
  return, and any change of memory outside the shadow (\<open>FvbRead\<close> into a buffer among them).
\<close>

inductive fvb_reachable ::
  "fvb2_masks \<Rightarrow> fv_layout \<Rightarrow> fvb_pcds \<Rightarrow> boot_answers \<Rightarrow> 'h flash_protocol \<Rightarrow> 'h \<Rightarrow> mem \<Rightarrow>
     FVB_DEVICE \<Rightarrow> 'h \<Rightarrow> mem \<Rightarrow> bool"
  for k ly pcd ans P h0 m0 where
  fvb_boot: "FvbConfigureFlashInstance k ly pcd ans P mRkFvbFlashInstanceTemplate h0 m0 =
      Some (dev, h, m, EFI_SUCCESS) \<Longrightarrow> fvb_reachable k ly pcd ans P h0 m0 dev h m"
| fvb_write: "fvb_reachable k ly pcd ans P h0 m0 dev h m \<Longrightarrow>
      Lba * 4096 + Offset + n \<le> FvbSize dev \<Longrightarrow> Lba * 4096 + Offset < FvbSize dev \<Longrightarrow> Buffer \<noteq> 0 \<Longrightarrow>
      clears m (RegionBaseAddress dev + (Lba * 4096 + Offset)) (rd m Buffer n) \<Longrightarrow>
      FvbWrite P dev h m Lba Offset n Buffer = Some (dev', h', m', st) \<Longrightarrow>
      fvb_reachable k ly pcd ans P h0 m0 dev' h' m'"
| fvb_erase: "fvb_reachable k ly pcd ans P h0 m0 dev h m \<Longrightarrow>
      \<forall>x \<in> set args. (fst x + snd x) * 4096 \<le> FvbSize dev \<Longrightarrow>
      FvbEraseBlocks k ly P dev h m args = Some (dev', h', m', st) \<Longrightarrow>
      fvb_reachable k ly pcd ans P h0 m0 dev' h' m'"
| fvb_other: "fvb_reachable k ly pcd ans P h0 m0 dev h m \<Longrightarrow>
      \<forall>x. RegionBaseAddress dev \<le> x \<and> x < RegionBaseAddress dev + FvbSize dev \<longrightarrow> m' x = m x \<Longrightarrow>
      fvb_reachable k ly pcd ans P h0 m0 dev h m'"

context flash_store
begin

text \<open>The invariant of the volume.\<close>

lemma volume_invariant:
  assumes "fvb_reachable k ly pcd ans P h0 m0 dev h m" "holds h0 c" "spi_boot ly pcd ans k cap"
  shows "same_place (configured pcd ans) dev \<and> coherent holds dev h m"
  using assms
proof (induction rule: fvb_reachable.induct)
  case (fvb_boot dev h m)
  then show ?case
    using volume_configure [OF fvb_boot.prems, of m0] by auto
next
  case (fvb_write dev h m Lba Offset n Buffer dev' h' m' st)
  then have IH: "same_place (configured pcd ans) dev" "coherent holds dev h m"
    by blast+
  have ok: "dev_ok cap dev" "IsSpiFlashAvailable dev"
    using dev_ok_same [OF IH(1), of cap] IH(1) fvb_write.prems(2)
    by (simp_all add: spi_boot_def Let_def same_place_def configured_def)
  have "dev' = dev\<lparr>DiskDataInvalidated := True\<rparr> \<and> coherent holds dev' h' m'"
    using volume_write [OF ok IH(2) fvb_write.hyps(2-5)] fvb_write.hyps(6) by auto
  then show ?case
    using IH(1) by (auto simp: same_place_def)
next
  case (fvb_erase dev h m args dev' h' m' st)
  then have IH: "same_place (configured pcd ans) dev" "coherent holds dev h m"
    by blast+
  have ok: "dev_ok cap dev" "IsSpiFlashAvailable dev"
    using dev_ok_same [OF IH(1), of cap] IH(1) fvb_erase.prems(2)
    by (simp_all add: spi_boot_def Let_def same_place_def configured_def)
  obtain dev2 h2 where "erase_ranges P dev h m args = Some (dev2, h2, erased dev args m, EFI_SUCCESS)"
    "same_place dev dev2" "coherent holds dev2 h2 (erased dev args m)"
    using volume_erase_blocks [OF ok IH(2) fvb_erase.hyps(2)] by blast
  then show ?case
    using fvb_erase.hyps(3) IH by (auto simp: FvbEraseBlocks_def same_place_def split: if_splits)
next
  case (fvb_other dev h m m')
  then show ?case
    by (auto simp: coherent_def)
qed

lemma reachable_ok:
  assumes "fvb_reachable k ly pcd ans P h0 m0 dev h m" "holds h0 c" "spi_boot ly pcd ans k cap"
  shows "dev_ok cap dev" "IsSpiFlashAvailable dev" "coherent holds dev h m"
proof -
  have inv: "same_place (configured pcd ans) dev" "coherent holds dev h m"
    using volume_invariant [OF assms] by blast+
  then show "dev_ok cap dev" "IsSpiFlashAvailable dev" "coherent holds dev h m"
    using dev_ok_same [OF inv(1), of cap] assms(3)
    by (simp_all add: spi_boot_def Let_def same_place_def configured_def)
qed

end

end
