(* ===== verification/FvbProps.thy ===== *)
theory FvbProps
  imports FvbStore
begin

text \<open>
  The flash contract discharged by the NOR driver, and the properties of the volume.
\<close>

section \<open>The volume on the NOR driver\<close>

definition nor_protocol :: "'h nor_env \<Rightarrow> SPI_NOR \<Rightarrow> 'h flash_protocol" where
  "nor_protocol env nor =
     \<lparr>fp_GetSize = (\<lambda>_. GetSize nor), fp_Erase = Erase env nor, fp_Write = Write env nor, fp_Read = Read env nor\<rparr>"

lemma small_nat: "(n :: nat) < 2 ^ 32 \<Longrightarrow> unat (of_nat n :: u32) = n"
  by (simp add: unat_of_nat take_bit_nat_eq_self)

interpretation vol: flash_store "nor_protocol (fspi_env host runtime junk) nor"
  "nor_idle sim_ready sim_chip nor" "unat (nor_size nor)"
  for host :: HAL_FSPI_HOST and runtime :: bool and junk :: "nat \<Rightarrow> u8" and nor :: SPI_NOR
proof
  fix h c m and off n buf :: nat
  let ?env = "fspi_env host runtime junk"
  assume idle: "nor_idle sim_ready sim_chip nor h c"
  note clk = bus.idle_clock [OF idle, where host = host and runtime = runtime and junk = junk]
  show cap: "unat (nor_size nor) \<le> 2147483648"
    using bus.idle_ok [OF idle] by simp
  show "unat (fp_GetSize (nor_protocol ?env nor) h) = unat (nor_size nor)"
    by (simp add: nor_protocol_def GetSize_def HAL_SNOR_GetCapacity_def)
  show "\<exists>h'. fp_Read (nor_protocol ?env nor) h m (word_of_nat off) buf (word_of_nat n) =
      Some (h', wr m buf (rd c off n), Value n) \<and> nor_idle sim_ready sim_chip nor h' c"
    if "off < unat (nor_size nor)" "off + n \<le> unat (nor_size nor)" "buf \<noteq> 0"
    using bus.idle_read [OF clk, of "of_nat off" "of_nat n" buf host runtime junk m] that cap
    by (simp add: nor_protocol_def Read_def small_nat)
  show "\<exists>h'. fp_Write (nor_protocol ?env nor) h m (word_of_nat off) buf (word_of_nat n) =
      Some (h', Value n) \<and> nor_idle sim_ready sim_chip nor h' (program c off (rd m buf n))"
    if "off < unat (nor_size nor)" "off + n \<le> unat (nor_size nor)" "buf \<noteq> 0"
    using bus.idle_prog [OF clk, of "of_nat off" "of_nat n" buf host runtime junk m] that cap
    by (simp add: nor_protocol_def Write_def small_nat)
  show "\<exists>h'. fp_Erase (nor_protocol ?env nor) h (word_of_nat off) 4096 = Some (h', EFI_SUCCESS) \<and>
      nor_idle sim_ready sim_chip nor h' (fill c off 4096 0xFF)"
    if "4096 dvd off" "off + 4096 \<le> unat (nor_size nor)"
  proof -
    have "(of_nat off :: u32) mod 4096 = 0"
      using that cap by (simp add: word_arith_nat_mod small_nat dvd_imp_mod_0)
    then show ?thesis
      using bus.erase_all [OF clk, of "of_nat off" 4096 1 host runtime junk] that cap bus.idle_ok [OF idle]
      by (simp add: nor_protocol_def Erase_def small_nat Let_def)
  qed
qed


lemma coherent_nor:
  "coherent (nor_idle sim_ready sim_chip nor) dev s m \<Longrightarrow>
    shadow dev m = rd (content (sim_chip s)) (FvbOffset dev) (FvbSize dev)"
  by (auto simp: coherent_def shadow_def nor_idle_def intro!: nth_equalityI)

section \<open>A concrete platform\<close>

definition demo_pcds :: fvb_pcds where
  "demo_pcds = \<lparr>PcdFlashNvStorageVariableBase64 = 0x415C0000, PcdFlashNvStorageVariableSize = 0x10000,
     PcdFlashNvStorageFtwWorkingBase64 = 0x415D0000, PcdFlashNvStorageFtwWorkingSize = 0x10000,
     PcdFlashNvStorageFtwSpareBase64 = 0x415E0000, PcdFlashNvStorageFtwSpareSize = 0x10000,
     PcdRkFvbNvStorageSpiOffset = 0xFC0000, PcdFdBaseAddress = 0x40600000, PcdNvStoragePreferSpiFlash = True\<rparr>"

definition demo_masks :: fvb2_masks where
  "demo_masks = \<lparr>READ_DISABLED_CAP = 1, READ_ENABLED_CAP = 2, READ_STATUS = 4, WRITE_DISABLED_CAP = 8,
     WRITE_ENABLED_CAP = 0x10, WRITE_STATUS = 0x20, LOCK_CAP = 0x40, LOCK_STATUS = 0x80, STICKY_WRITE = 0x200,
     MEMORY_MAPPED = 0x400, ERASE_POLARITY = 0x800, READ_LOCK_CAP = 0x1000, WRITE_LOCK_CAP = 0x4000,
     ALIGNMENT = 0x1F0000\<rparr>"

definition demo_layout :: fv_layout where
  "demo_layout = \<lparr>hdr_magic_ok = (\<lambda>m a. rd m (a + 40) 4 = [0x5F, 0x46, 0x56, 0x48]),
     hdr_FvLength = (\<lambda>m a. unat (m (a + 34)) * 0x10000), hdr_guid_ok = (\<lambda>m a. m a = 0x8D),
     hdr_HeaderLength = (\<lambda>m a. unat (m (a + 48))), hdr_Attributes = (\<lambda>m a. ucast (m (a + 44))),
     CalculateSum16 = (\<lambda>m a n. sum_list (map ucast (rd m a n))), var_guid_ok = (\<lambda>m a. m a = 0x78),
     var_Size = (\<lambda>m a. unat (m (a + 17)) * 256), header_length = 72,
     header_image = (\<lambda>len attrs blocks bsz vsz. replicate 40 0 @ [0x5F, 0x46, 0x56, 0x48, ucast attrs] @ replicate 55 0)\<rparr>"

definition demo_answers :: boot_answers where
  "demo_answers = \<lparr>locate_spi = True, AllocatePages_ok = True, AllocatePool = 0, install_protocols = EFI_SUCCESS,
     default_settings = True, header_scratch = 0x1000, boot_device = RkAtagBootDevTypeEmmc\<rparr>"

definition demo_nor16 :: SPI_NOR where
  "demo_nor16 = demo_nor\<lparr>nor_size := 0x1000000\<rparr>"

abbreviation demo_flash :: "nor_sim flash_protocol" where
  "demo_flash \<equiv> nor_protocol (fspi_env init_host False (\<lambda>_. 0)) demo_nor16"

lemma demo_idle16: "nor_idle sim_ready sim_chip demo_nor16 demo_sim (content demo_chip)"
  by (simp add: nor_idle_def sim_ready_def demo_sim_def demo_chip_def nor_ok_def demo_nor_def demo_nor16_def
      zero_nor_def read_op_def read_dummy_def opcode_defs Let_def)

lemma demo_boot: "spi_boot demo_layout demo_pcds demo_answers demo_masks (unat (nor_size demo_nor16))"
  by (simp add: spi_boot_def Let_def configured_def flash_description_def mRkFvbFlashInstanceTemplate_def
      demo_pcds_def demo_answers_def demo_layout_def demo_nor16_def dev_ok_def layout_asserts_def)

lemma demo_fvb_reachable:
  "\<exists>dev s m. fvb_reachable demo_masks demo_layout demo_pcds demo_answers demo_flash demo_sim (\<lambda>_. 0) dev s m \<and>
    same_place (configured demo_pcds demo_answers) dev \<and> \<not> IsFvbHeaderValid dev"
proof -
  obtain dev s m where "FvbConfigureFlashInstance demo_masks demo_layout demo_pcds demo_answers demo_flash
      mRkFvbFlashInstanceTemplate demo_sim (\<lambda>_. 0) = Some (dev, s, m, EFI_SUCCESS)"
    "same_place (configured demo_pcds demo_answers) dev"
    "IsFvbHeaderValid dev = keeps_store demo_layout demo_pcds demo_answers (content demo_chip) (\<lambda>_. 0)"
    using vol.volume_configure [OF demo_idle16 demo_boot, where m = "\<lambda>_. 0"] by blast
  then show ?thesis
    by (auto simp: keeps_store_def Let_def demo_answers_def intro: fvb_boot)
qed

lemma demo_place:
  assumes "same_place (configured demo_pcds demo_answers) dev"
  shows "RegionBaseAddress dev = 0x415C0000" "FvbSize dev = 0x30000" "LastBlock dev = 63" "FvbOffset dev = 0xFC0000"
    "BlockSize dev = 4096" "StartLba dev = 0"
  using assms by (simp_all add: same_place_def configured_def flash_description_def mRkFvbFlashInstanceTemplate_def
      demo_pcds_def demo_answers_def Let_def)

section \<open>Properties\<close>

text \<open>
  C16: When the platform boots with SPI flash as the NV medium, the entry point's configuration
  always succeeds. Exactly when the headers in the flash are valid (revision, signature, length, GUID and checksum
  of the volume header, GUID and size of the variable store header, read where the volume lies in memory) and the default
  settings are not asked for, the flash stays as it is and the shadow is its content; otherwise
  the volume is formatted: the shadow is the new headers followed by erased bytes, and the flash holds the same. The flag
  \<open>IsFvbHeaderValid\<close> says which of the two it was.
\<close>

theorem fvb_configure:
  assumes "nor_idle sim_ready sim_chip nor s c" "spi_boot ly pcd ans k (unat (nor_size nor))"
  shows "\<exists>dev' s' m'. FvbConfigureFlashInstance k ly pcd ans (nor_protocol (fspi_env host rt junk) nor)
        mRkFvbFlashInstanceTemplate s m = Some (dev', s', m', EFI_SUCCESS) \<and>
    same_place (configured pcd ans) dev' \<and> IsFvbHeaderValid dev' = keeps_store ly pcd ans c m \<and>
    shadow dev' m' = rd (content (sim_chip s')) (FvbOffset dev') (FvbSize dev') \<and>
    shadow dev' m' =
      (if keeps_store ly pcd ans c m then rd c (FvbOffset dev') (FvbSize dev')
       else let hdr = header_image ly (FvbSize dev') (header_attributes k) (LastBlock dev' + 1) (BlockSize dev')
                    (PcdFlashNvStorageVariableSize pcd - header_length ly)
            in hdr @ replicate (FvbSize dev' - length hdr) 0xFF)"
  using vol.volume_configure [OF assms, where host = host and runtime = rt and junk = junk and m = m]
  by (fastforce dest: coherent_nor)

theorem fvb_configure_witness:
  "\<exists>dev' s' m'. FvbConfigureFlashInstance demo_masks demo_layout demo_pcds demo_answers demo_flash
        mRkFvbFlashInstanceTemplate demo_sim (\<lambda>_. 0) = Some (dev', s', m', EFI_SUCCESS) \<and>
    same_place (configured demo_pcds demo_answers) dev' \<and>
    IsFvbHeaderValid dev' = keeps_store demo_layout demo_pcds demo_answers (content demo_chip) (\<lambda>_. 0) \<and>
    shadow dev' m' = rd (content (sim_chip s')) (FvbOffset dev') (FvbSize dev') \<and>
    shadow dev' m' =
      (if keeps_store demo_layout demo_pcds demo_answers (content demo_chip) (\<lambda>_. 0)
       then rd (content demo_chip) (FvbOffset dev') (FvbSize dev')
       else let hdr = header_image demo_layout (FvbSize dev') (header_attributes demo_masks) (LastBlock dev' + 1) (BlockSize dev')
                    (PcdFlashNvStorageVariableSize demo_pcds - header_length demo_layout)
            in hdr @ replicate (FvbSize dev' - length hdr) 0xFF)"
  by (rule fvb_configure [OF demo_idle16 demo_boot])

text \<open>
  C1: In every state the volume reaches through writes that only clear bits and block erasures,
  the shadow in memory is byte for byte the NV region of the SPI flash, and the geometry of the
  volume is the configured one.
\<close>

theorem fvb_coherent:
  assumes "fvb_reachable k ly pcd ans (nor_protocol (fspi_env host rt junk) nor) s0 m0 dev s m"
    "nor_idle sim_ready sim_chip nor s0 c" "spi_boot ly pcd ans k (unat (nor_size nor))"
  shows "shadow dev m = rd (content (sim_chip s)) (FvbOffset dev) (FvbSize dev) \<and>
    same_place (configured pcd ans) dev"
  using vol.volume_invariant [OF assms] by (blast dest: coherent_nor)

theorem fvb_coherent_witness:
  "\<exists>dev s m. fvb_reachable demo_masks demo_layout demo_pcds demo_answers demo_flash demo_sim (\<lambda>_. 0) dev s m \<and>
    shadow dev m = rd (content (sim_chip s)) (FvbOffset dev) (FvbSize dev) \<and>
    same_place (configured demo_pcds demo_answers) dev"
  using demo_fvb_reachable fvb_coherent [OF _ demo_idle16 demo_boot] by blast





text \<open>
  C21: In every such state, erasing ranges of blocks of the volume, with the header not yet valid or
  writing enabled, succeeds, sets exactly those blocks to \<open>0xFF\<close> in the shadow and leaves shadow and
  flash in agreement.
\<close>

theorem fvb_erase_flash:
  assumes "fvb_reachable k ly pcd ans (nor_protocol (fspi_env host rt junk) nor) s0 m0 dev s m"
    "nor_idle sim_ready sim_chip nor s0 c" "spi_boot ly pcd ans k (unat (nor_size nor))"
    "\<forall>r \<in> set args. 0 < snd r \<and> fst r + snd r \<le> FvbSize dev div 4096"
    "IsFvbHeaderValid dev \<longrightarrow> hdr_Attributes ly m (RegionBaseAddress dev) AND WRITE_STATUS k \<noteq> 0"
  shows "\<exists>dev' s'. FvbEraseBlocks k ly (nor_protocol (fspi_env host rt junk) nor) dev s m args =
      Some (dev', s', erased dev args m, EFI_SUCCESS) \<and> same_place dev dev' \<and>
    shadow dev (erased dev args m) = rd (content (sim_chip s')) (FvbOffset dev) (FvbSize dev)"
proof -
  note ok = vol.reachable_ok [OF assms(1-3)] and inv = vol.volume_invariant [OF assms(1-3)]
  have b: "StartLba dev = 0" "LastBlock dev = 63" "FvbSize dev \<le> 262144"
    using inv assms(3) by (auto simp: spi_boot_def Let_def same_place_def configured_def flash_description_def
        mRkFvbFlashInstanceTemplate_def)
  have fits: "(fst r + snd r) * 4096 \<le> FvbSize dev" "\<not> (snd r = 0 \<or> LastBlock dev < (StartLba dev + fst r + snd r - 1) mod 2 ^ 64)"
    if "r \<in> set args" for r
  proof -
    have r: "0 < snd r" "fst r + snd r \<le> FvbSize dev div 4096"
      using assms(4) that by blast+
    then show "(fst r + snd r) * 4096 \<le> FvbSize dev"
      using div_times_less_eq_dividend [of "FvbSize dev" 4096] mult_le_mono1 [OF r(2), of 4096] by linarith
    have "FvbSize dev div 4096 \<le> 64"
      using b(3) by (simp add: div_le_mono [of _ 262144 4096, simplified])
    then show "\<not> (snd r = 0 \<or> LastBlock dev < (StartLba dev + fst r + snd r - 1) mod 2 ^ 64)"
      using r b mod_less_eq_dividend [of "StartLba dev + fst r + snd r - 1" "2 ^ 64"] by linarith
  qed
  have "\<not> list_ex (\<lambda>(lba, n). n = 0 \<or> LastBlock dev < (StartLba dev + lba + n - 1) mod 2 ^ 64) args"
    by (auto simp: list_ex_iff dest!: fits(2))
  then have "FvbEraseBlocks k ly (nor_protocol (fspi_env host rt junk) nor) dev s m args =
      erase_ranges (nor_protocol (fspi_env host rt junk) nor) dev s m args"
    using assms(5) by (auto simp: FvbEraseBlocks_def FvbGetAttributes_def)
  then show ?thesis
    using vol.volume_erase_blocks [OF ok, where args = args and host = host and runtime = rt and junk = junk] fits(1)
    by (fastforce dest: coherent_nor simp: shadow_def same_place_def)
qed

theorem fvb_erase_flash_witness:
  "\<exists>dev s m dev' s'. FvbEraseBlocks demo_masks demo_layout demo_flash dev s m [(0, 2), (47, 1)] =
      Some (dev', s', erased dev [(0, 2), (47, 1)] m, EFI_SUCCESS) \<and> same_place dev dev' \<and>
    shadow dev (erased dev [(0, 2), (47, 1)] m) = rd (content (sim_chip s')) (FvbOffset dev) (FvbSize dev)"
proof -
  obtain dev s m where r: "fvb_reachable demo_masks demo_layout demo_pcds demo_answers demo_flash demo_sim (\<lambda>_. 0) dev s m"
    "same_place (configured demo_pcds demo_answers) dev" "\<not> IsFvbHeaderValid dev"
    using demo_fvb_reachable by blast
  have "\<exists>dev' s'. FvbEraseBlocks demo_masks demo_layout demo_flash dev s m [(0, 2), (47, 1)] =
      Some (dev', s', erased dev [(0, 2), (47, 1)] m, EFI_SUCCESS) \<and> same_place dev dev' \<and>
    shadow dev (erased dev [(0, 2), (47, 1)] m) = rd (content (sim_chip s')) (FvbOffset dev) (FvbSize dev)"
    by (rule fvb_erase_flash [OF r(1) demo_idle16 demo_boot]) (simp_all add: demo_place [OF r(2)] r(3))
  then show ?thesis
    by blast
qed

end
