(* ===== verification/FvbDisk.thy ===== *)
theory FvbDisk
  imports FvbProps
begin

text \<open>
  The boot disk as the NV medium, the volume's attributes, and the volume's geometry.
  \<open>disk_writes\<close> is the documented behaviour of \<open>EFI_DISK_IO_PROTOCOL.WriteDisk\<close>: after a write that
  reports success, the medium holds the bytes at the offset.
\<close>

section \<open>Disk and shadow\<close>

definition disk_writes :: "'d disk_env \<Rightarrow> ('d \<Rightarrow> nat \<Rightarrow> mem) \<Rightarrow> bool" where
  "disk_writes E media \<longleftrightarrow>
     (\<forall>d disk mid off bs. \<not> EFI_ERROR (snd (WriteDisk E d disk mid off bs)) \<longrightarrow>
        media (fst (WriteDisk E d disk mid off bs)) disk = wr (media d disk) off bs)"

definition disk_copy :: "('d \<Rightarrow> nat \<Rightarrow> mem) \<Rightarrow> FVB_DEVICE \<Rightarrow> 'd \<Rightarrow> nat \<Rightarrow> u8 list" where
  "disk_copy media dev d disk =
     rd (media d disk) (GET_DATA_OFFSET (FvbOffset dev) (StartLba dev) (BlockSize dev)) (FvbSize dev)"

definition disk_clean :: "('d \<Rightarrow> nat \<Rightarrow> mem) \<Rightarrow> FVB_DEVICE \<Rightarrow> mem \<Rightarrow> 'd \<Rightarrow> bool" where
  "disk_clean media dev m d \<longleftrightarrow>
     (\<forall>disk. DiskDevice dev = Some disk \<and> \<not> DiskDataInvalidated dev \<longrightarrow> disk_copy media dev d disk = shadow dev m)"

text \<open>
  The states of a volume backed by a disk: any client writes and erasures, the search for the
  boot disk at the end of DXE, while none is adopted, the dump handler (ready to boot, image
  installation, reset), and changes of memory outside the shadow.
\<close>

inductive disk_reachable ::
  "fvb2_masks \<Rightarrow> fv_layout \<Rightarrow> 'h flash_protocol \<Rightarrow> 'd disk_env \<Rightarrow> FVB_DEVICE \<Rightarrow> 'h \<Rightarrow> mem \<Rightarrow> 'd \<Rightarrow>
     FVB_DEVICE \<Rightarrow> 'h \<Rightarrow> mem \<Rightarrow> 'd \<Rightarrow> bool"
  for k ly P E dev0 h0 m0 d0 where
  disk_start: "disk_reachable k ly P E dev0 h0 m0 d0 dev0 h0 m0 d0"
| disk_write: "disk_reachable k ly P E dev0 h0 m0 d0 dev h m d \<Longrightarrow>
      FvbWrite P dev h m Lba Offset n Buffer = Some (dev', h', m', st) \<Longrightarrow>
      disk_reachable k ly P E dev0 h0 m0 d0 dev' h' m' d"
| disk_erase: "disk_reachable k ly P E dev0 h0 m0 d0 dev h m d \<Longrightarrow>
      FvbEraseBlocks k ly P dev h m args = Some (dev', h', m', st) \<Longrightarrow>
      disk_reachable k ly P E dev0 h0 m0 d0 dev' h' m' d"
| disk_find: "disk_reachable k ly P E dev0 h0 m0 d0 dev h m d \<Longrightarrow> DiskDevice dev = None \<Longrightarrow>
      FvbFindBootDiskDevice E install handles bds dev m d = Some (dev', d') \<Longrightarrow>
      disk_reachable k ly P E dev0 h0 m0 d0 dev' h m d'"
| disk_dump: "disk_reachable k ly P E dev0 h0 m0 d0 dev h m d \<Longrightarrow>
      FvbDiskNvDumpHandler E dev m d = (dev', d') \<Longrightarrow>
      disk_reachable k ly P E dev0 h0 m0 d0 dev' h m d'"
| disk_other: "disk_reachable k ly P E dev0 h0 m0 d0 dev h m d \<Longrightarrow>
      \<forall>x. RegionBaseAddress dev \<le> x \<and> x < RegionBaseAddress dev + FvbSize dev \<longrightarrow> m' x = m x \<Longrightarrow>
      disk_reachable k ly P E dev0 h0 m0 d0 dev h m' d"

lemma dump_copies:
  assumes "disk_writes E media" "FvbDiskDumpNvData E dev m d disk mid = (d', st)" "\<not> EFI_ERROR st"
  shows "disk_copy media dev d' disk = shadow dev m"
proof -
  let ?off = "GET_DATA_OFFSET (FvbOffset dev) (StartLba dev) (BlockSize dev)"
  let ?w = "WriteDisk E d disk mid ?off (shadow dev m)"
  have w: "d' = fst ?w" "\<not> EFI_ERROR (snd ?w)"
    using assms(2,3) by (auto simp: FvbDiskDumpNvData_def shadow_def split: if_splits)
  then have "media d' disk = wr (media d disk) ?off (shadow dev m)"
    using assms(1) by (simp add: disk_writes_def)
  then show ?thesis
    by (simp add: disk_copy_def rd_wr_same shadow_def)
qed

lemma process_handle_clean:
  assumes "disk_writes E media" "DiskDevice dev = None"
    "FvbProcessBootDiskDeviceHandle E dev m d h bd = Some (dev', d')"
  shows "disk_clean media dev' m d'"
  using assms dump_copies [OF assms(1), of dev m d "dp_id h" "MediaId h"]
  by (auto simp: FvbProcessBootDiskDeviceHandle_def disk_clean_def shadow_def disk_copy_def Let_def
      split: if_splits prod.splits bind_splits)

lemma find_in_handles_clean:
  assumes "disk_writes E media"
  shows "DiskDevice dev = None \<Longrightarrow> find_in_handles E install dev m d hs bd = Some (dev', d', found) \<Longrightarrow>
    disk_clean media dev' m d' \<and> (\<not> found \<longrightarrow> DiskDevice dev' = None)"
proof (induction hs arbitrary: dev d)
  case Nil
  then show ?case
    by (simp add: disk_clean_def)
next
  case (Cons h hs)
  obtain dev1 d1 where p: "FvbProcessBootDiskDeviceHandle E dev m d h bd = Some (dev1, d1)"
    using Cons.prems(2) by (auto split: bind_splits)
  show ?case
    using Cons.IH [of dev1 d1] Cons.prems(2) p process_handle_clean [OF assms Cons.prems(1) p]
    by (auto simp: assert_that_def split: if_splits)
qed

lemma find_in_devices_clean:
  assumes "disk_writes E media"
  shows "DiskDevice dev = None \<Longrightarrow> find_in_devices E install dev m d hs bds = Some (dev', d') \<Longrightarrow>
    disk_clean media dev' m d'"
proof (induction bds arbitrary: dev d)
  case Nil
  then show ?case
    by (simp add: disk_clean_def)
next
  case (Cons bd bds)
  obtain dev1 d1 found where p: "find_in_handles E install dev m d hs bd = Some (dev1, d1, found)"
    using Cons.prems(2) by (auto split: bind_splits)
  show ?case
    using Cons.IH [of dev1 d1] Cons.prems(2) p find_in_handles_clean [OF assms Cons.prems(1) p]
    by (auto split: if_splits)
qed

lemma dump_handler_clean:
  assumes "disk_writes E media" "FvbDiskNvDumpHandler E dev m d = (dev', d')" "disk_clean media dev m d"
  shows "disk_clean media dev' m d'"
  using assms dump_copies [OF assms(1)]
  by (auto simp: FvbDiskNvDumpHandler_def disk_clean_def shadow_def disk_copy_def split: option.splits if_splits prod.splits)

lemma erase_range_flag:
  "erase_range P dev h m lba n = Some (dev', h', m', st) \<Longrightarrow>
    dev' = dev \<and> m' = m \<or> (\<exists>b. dev' = dev\<lparr>DiskDataInvalidated := True\<rparr>)"
proof (induction n arbitrary: dev h m lba)
  case (Suc n)
  then show ?case
    by (fastforce simp: Let_def assert_that_def split: bind_splits if_splits prod.splits)
qed simp

lemma erase_ranges_flag:
  "erase_ranges P dev h m args = Some (dev', h', m', st) \<Longrightarrow>
    dev' = dev \<and> m' = m \<or> dev' = dev\<lparr>DiskDataInvalidated := True\<rparr>"
proof (induction args arbitrary: dev h m)
  case (Cons x args)
  obtain lba n where "x = (lba, n)"
    by (cases x)
  then show ?case
    using Cons by (fastforce dest!: erase_range_flag split: bind_splits if_splits prod.splits)
qed simp

lemma disk_invariant:
  assumes "disk_reachable k ly P E dev0 h0 m0 d0 dev h m d" "disk_writes E media" "DiskDevice dev0 = None"
  shows "disk_clean media dev m d"
  using assms
proof (induction rule: disk_reachable.induct)
  case disk_start
  then show ?case by (simp add: disk_clean_def)
next
  case (disk_write dev h m d Lba Offset n Buffer dev' h' m' st)
  then show ?case
    by (auto simp: FvbWrite_def disk_clean_def Let_def assert_that_def split: bind_splits if_splits prod.splits)
next
  case (disk_erase dev h m d args dev' h' m' st)
  then show ?case
    by (auto simp: FvbEraseBlocks_def disk_clean_def dest!: erase_ranges_flag split: if_splits)
next
  case (disk_find dev h m d install handles bds dev' d')
  then show ?case
    using find_in_devices_clean [OF disk_find.prems(1) disk_find.hyps(2)]
    by (auto simp: FvbFindBootDiskDevice_def assert_that_def split: option.splits if_splits)
next
  case (disk_dump dev h m d dev' d')
  then show ?case
    using dump_handler_clean [OF disk_dump.prems(1) disk_dump.hyps(2)] by simp
next
  case (disk_other dev h m d m')
  then show ?case
    by (auto simp: disk_clean_def shadow_def intro!: nth_equalityI)
qed

lemma mask_all [simp]: "0xFFFFFFFF AND (x :: u32) = x"
proof -
  have "(0xFFFFFFFF :: u32) = - 1"
    by simp
  then show ?thesis
    by (simp only: and.left_neutral)
qed

section \<open>Properties\<close>

text \<open>
  C2: Whatever the clients write and erase, whenever and however often the dump handler runs, and
  whatever writes to the disk fail: once a boot disk has been adopted and no change is pending, the
  NV region of that disk holds exactly the shadow.
\<close>

theorem fvb_disk_clean:
  assumes "disk_reachable k ly P E dev0 h0 m0 d0 dev h m d" "disk_writes E media" "DiskDevice dev0 = None"
    "DiskDevice dev = Some disk" "\<not> DiskDataInvalidated dev"
  shows "rd (media d disk) (GET_DATA_OFFSET (FvbOffset dev) (StartLba dev) (BlockSize dev)) (FvbSize dev) =
    rd m (RegionBaseAddress dev) (FvbSize dev)"
  using disk_invariant [OF assms(1-3)] assms(4,5) by (simp add: disk_clean_def disk_copy_def shadow_def)

definition demo_disk :: "mem disk_env" where
  "demo_disk = \<lparr>LocateDevicePath = (\<lambda>_. EFI_SUCCESS), HandleProtocol_DiskIo = (\<lambda>_. EFI_SUCCESS),
     WriteDisk = (\<lambda>d disk mid off bs. (wr d off bs, EFI_SUCCESS)),
     ReadDisk = (\<lambda>d disk mid off n. (rd d off n, EFI_SUCCESS)), fdt_header_size = 40,
     FdtCheckHeader = (\<lambda>_. 0), FdtTotalSize = (\<lambda>_. 64), FdtPathOffset = (\<lambda>_ _. 0), PcdFitImageFlashAddress = 0x800000\<rparr>"

definition demo_handle :: block_handle where
  "demo_handle = \<lparr>dp_hw_vendor = True, dp_NonDiscoverable = Some (True, 0x2A330000), dp_id = 5, dp_duplicated = True,
     HandleProtocol_BlockIo = EFI_SUCCESS, MediaPresent = True, ReadOnly = False, MediaId = 1,
     ConnectController = EFI_SUCCESS, fdt_pool_ok = True\<rparr>"

definition demo_dev :: FVB_DEVICE where
  "demo_dev = (configured demo_pcds demo_answers)\<lparr>IsSpiFlashAvailable := False\<rparr>"

lemma demo_disk_writes: "disk_writes demo_disk (\<lambda>d _. d)"
  by (simp add: disk_writes_def demo_disk_def)

lemma demo_adopt:
  "FvbFindBootDiskDevice demo_disk EFI_SUCCESS (Some [demo_handle])
      (mFvbSecondaryRkBootDevices 0x2A310000 0x2A330000) demo_dev (\<lambda>_. 7) (\<lambda>_. 0) =
    Some (demo_dev\<lparr>DiskDevice := Some 5, DiskMediaId := 1\<rparr>,
          wr (\<lambda>_. 0) 0xFC0000 (rd (\<lambda>_. 7) 0x415C0000 0x30000))"
  by (simp add: FvbFindBootDiskDevice_def assert_that_def mFvbSecondaryRkBootDevices_def
      FvbProcessBootDiskDeviceHandle_def FvbCheckRkBootDeviceSupported_def FvbCheckBootDiskDeviceHasFirmware_def
      FvbDiskDumpNvData_def demo_handle_def demo_disk_def demo_dev_def configured_def flash_description_def
      mRkFvbFlashInstanceTemplate_def demo_pcds_def demo_answers_def Let_def GET_DATA_OFFSET_def)

theorem fvb_disk_clean_witness:
  "\<exists>dev d. FvbFindBootDiskDevice demo_disk EFI_SUCCESS (Some [demo_handle])
      (mFvbSecondaryRkBootDevices 0x2A310000 0x2A330000) demo_dev (\<lambda>_. 7) (\<lambda>_. 0) = Some (dev, d) \<and>
    rd d (GET_DATA_OFFSET (FvbOffset dev) (StartLba dev) (BlockSize dev)) (FvbSize dev) =
    rd (\<lambda>_. 7) (RegionBaseAddress dev) (FvbSize dev)"
proof -
  let ?dev = "demo_dev\<lparr>DiskDevice := Some 5, DiskMediaId := 1\<rparr>"
  have none: "DiskDevice demo_dev = None" and flag: "\<not> DiskDataInvalidated ?dev"
    by (simp_all add: demo_dev_def configured_def flash_description_def mRkFvbFlashInstanceTemplate_def Let_def)
  have "disk_reachable demo_masks demo_layout demo_flash demo_disk demo_dev demo_sim (\<lambda>_. 7) (\<lambda>_. 0)
      ?dev demo_sim (\<lambda>_. 7) (wr (\<lambda>_. 0) 0xFC0000 (rd (\<lambda>_. 7) 0x415C0000 0x30000))"
    by (rule disk_find [OF disk_start none demo_adopt])
  from fvb_disk_clean [OF this demo_disk_writes none _ flag, of 5]
  show ?thesis
    by (intro exI conjI) (rule demo_adopt, simp)
qed

text \<open>
  C25: The ready-to-boot handler persists the volume: with an adopted disk whose device path and
  protocol resolve and whose write succeeds, the disk holds the shadow afterwards and nothing is
  pending, whether or not a change was pending before.
\<close>

theorem fvb_ready_to_boot:
  assumes "disk_reachable k ly P E dev0 h0 m0 d0 dev h m d" "disk_writes E media" "DiskDevice dev0 = None"
    "DiskDevice dev = Some disk" "\<not> EFI_ERROR (LocateDevicePath E disk)" "\<not> EFI_ERROR (HandleProtocol_DiskIo E disk)"
    "\<And>mid off bs. \<not> EFI_ERROR (snd (WriteDisk E d disk mid off bs))"
    "\<not> EFI_ERROR create" "\<not> EFI_ERROR register" "\<not> EFI_ERROR close"
  shows "\<exists>d'. FvbReadyToBootEventHandler E create register close dev m d =
      Some (dev\<lparr>DiskDataInvalidated := False\<rparr>, d') \<and> disk_copy media dev d' disk = shadow dev m"
proof -
  note clean = disk_invariant [OF assms(1-3)]
  obtain d' where h: "FvbDiskNvDumpHandler E dev m d = (dev\<lparr>DiskDataInvalidated := False\<rparr>, d')"
  proof (cases "DiskDataInvalidated dev")
    case True
    then show ?thesis
      using assms(4-7) that
      by (auto simp: FvbDiskNvDumpHandler_def FvbDiskDumpNvData_def split_beta)
  next
    case False
    then have "dev\<lparr>DiskDataInvalidated := False\<rparr> = dev"
      by simp
    then show ?thesis
      using False assms(4) that [of d] by (simp add: FvbDiskNvDumpHandler_def)
  qed
  have "disk_clean media (dev\<lparr>DiskDataInvalidated := False\<rparr>) m d'"
    using dump_handler_clean [OF assms(2) h clean] .
  then show ?thesis
    using h assms(4,8-10)
    by (simp add: FvbReadyToBootEventHandler_def assert_that_def disk_clean_def disk_copy_def shadow_def)
qed

text \<open>
  \<open>FvbSetAttributes\<close>, when it succeeds, answers with the old attributes in which exactly the
  three status bits are those asked for; the other attributes asked for are the old ones; and a
  locked volume keeps all its attributes.
\<close>

theorem fvb_set_attributes:
  assumes "FvbSetAttributes k ly dev m attrs = (out, EFI_SUCCESS)" "hdr_Attributes ly m (RegionBaseAddress dev) = old"
  shows "out AND NOT (EFI_FVB2_STATUS k) = old AND NOT (EFI_FVB2_STATUS k) \<and>
    out AND EFI_FVB2_STATUS k = attrs AND EFI_FVB2_STATUS k \<and>
    old AND UnchangedAttributes k = attrs AND UnchangedAttributes k \<and>
    (old AND LOCK_STATUS k \<noteq> 0 \<longrightarrow> out = old)"
proof -
  let ?s = "EFI_FVB2_STATUS k"
  have out: "out = (old AND NOT ?s) OR (attrs AND ?s)"
    and same: "(old AND UnchangedAttributes k) XOR (attrs AND UnchangedAttributes k) = 0"
    and lock: "old AND LOCK_STATUS k \<noteq> 0 \<longrightarrow> (old AND ?s) XOR (attrs AND ?s) = 0"
    using assms by (auto simp: FvbSetAttributes_def FvbGetAttributes_def Let_def split: if_splits)
  have xor: "a = b" if "a XOR b = 0" for a b :: u32
    using that by (metis xor.assoc xor.left_neutral xor_self_eq xor.right_neutral)
  have "out = old" if "old AND ?s = attrs AND ?s"
    unfolding out that [symmetric] by (rule bit_word_eqI) (auto simp: bit_simps)
  moreover have "out AND NOT ?s = old AND NOT ?s" "out AND ?s = attrs AND ?s"
    unfolding out by (rule bit_word_eqI; auto simp: bit_simps)+
  ultimately show ?thesis
    using xor [OF same] lock xor by blast
qed

lemma demo_mask_values:
  "EFI_FVB2_STATUS demo_masks = 0xA4" "EFI_FVB2_CAPABILITIES demo_masks = 0x5B" "UnchangedAttributes demo_masks = 0x1F5E5B"
  by (simp_all add: demo_masks_def EFI_FVB2_STATUS_def EFI_FVB2_CAPABILITIES_def UnchangedAttributes_def)

lemma demo_set_attributes:
  "hdr_Attributes ly m (RegionBaseAddress dev) = 0x3F \<Longrightarrow>
    FvbSetAttributes demo_masks ly dev m 0x1B = (0x1B, EFI_SUCCESS)"
  unfolding FvbSetAttributes_def FvbGetAttributes_def Let_def demo_mask_values fst_conv
  by (simp add: demo_masks_def del: mask_all)

theorem fvb_set_attributes_witness:
  "FvbSetAttributes demo_masks demo_layout mRkFvbFlashInstanceTemplate (\<lambda>_. 0x3F) 0x1B = (0x1B, EFI_SUCCESS) \<and>
    (0x1B :: u32) AND NOT (EFI_FVB2_STATUS demo_masks) = 0x3F AND NOT (EFI_FVB2_STATUS demo_masks)"
proof -
  have h: "hdr_Attributes demo_layout (\<lambda>_. 0x3F) (RegionBaseAddress mRkFvbFlashInstanceTemplate) = 0x3F"
    by (simp add: demo_layout_def)
  from fvb_set_attributes [OF demo_set_attributes [OF h] h] demo_set_attributes [OF h] show ?thesis
    by blast
qed

text \<open>
  On a volume of 48 blocks (192 KiB of NV store) the geometry reports 64 blocks, because
  \<open>LastBlock\<close> is derived from the template's 256 KiB: erasing block 48 passes every check and runs
  past the shadow buffer.
\<close>

theorem fvb_erase_past_shadow:
  assumes "BlockSize dev = 4096" "StartLba dev = 0" "LastBlock dev = LastBlock (configured pcd ans)" "FvbSize dev = 0x30000"
    "RegionBaseAddress dev + FvbSize dev < 2 ^ 63" "\<not> IsSpiFlashAvailable dev" "\<not> IsFvbHeaderValid dev"
  shows "FvbGetBlockSize dev 48 = (Some (4096, 16), EFI_SUCCESS) \<and> FvbEraseBlocks k ly P dev h m [(48, 1)] = None"
proof -
  have "LastBlock dev = 63"
    using assms(3) by (simp add: configured_def flash_description_def mRkFvbFlashInstanceTemplate_def Let_def)
  then show ?thesis
    using assms by (simp add: FvbGetBlockSize_def FvbEraseBlocks_def GET_DATA_OFFSET_def in_shadow_def
        assert_that_def Let_def)
qed

theorem fvb_erase_past_shadow_witness:
  "FvbGetBlockSize demo_dev 48 = (Some (4096, 16), EFI_SUCCESS) \<and>
    FvbEraseBlocks demo_masks demo_layout demo_flash demo_dev demo_sim (\<lambda>_. 0) [(48, 1)] = None"
  by (rule fvb_erase_past_shadow [where pcd = demo_pcds and ans = demo_answers])
     (simp_all add: demo_dev_def configured_def flash_description_def mRkFvbFlashInstanceTemplate_def demo_pcds_def
        demo_answers_def Let_def)

theorem fvb_ready_to_boot_witness:
  "\<exists>dev d d'. FvbReadyToBootEventHandler demo_disk EFI_SUCCESS EFI_SUCCESS EFI_SUCCESS dev (\<lambda>_. 7) d =
      Some (dev\<lparr>DiskDataInvalidated := False\<rparr>, d') \<and> disk_copy (\<lambda>d _. d) dev d' 5 = shadow dev (\<lambda>_. 7) \<and>
    DiskDataInvalidated dev"
proof -
  let ?dev = "demo_dev\<lparr>DiskDevice := Some 5, DiskMediaId := 1\<rparr>" and ?P = "demo_flash"
  let ?d = "wr (\<lambda>_. 0) 0xFC0000 (rd (\<lambda>_. 7) 0x415C0000 0x30000)"
  have none: "DiskDevice demo_dev = None"
    by (simp add: demo_dev_def configured_def flash_description_def mRkFvbFlashInstanceTemplate_def Let_def)
  have same: "wr (\<lambda>_. 7) a (rd (\<lambda>_. 7) 64 4) = (\<lambda>_. 7)" for a
  proof
    fix x
    show "wr (\<lambda>_. 7) a (rd (\<lambda>_. 7) 64 4) x = 7"
    proof (cases "a \<le> x \<and> x < a + 4")
      case True
      then have "x - a < 4"
        by linarith
      with True show ?thesis
        by (simp add: wr_in)
    qed (auto simp: wr_out)
  qed
  have w: "FvbWrite ?P ?dev demo_sim (\<lambda>_. 7) 0 16 4 64 = Some (?dev\<lparr>DiskDataInvalidated := True\<rparr>, demo_sim, (\<lambda>_. 7), EFI_SUCCESS)"
    using same by (simp add: FvbWrite_def demo_dev_def configured_def flash_description_def mRkFvbFlashInstanceTemplate_def
        demo_pcds_def demo_answers_def GET_DATA_OFFSET_def in_shadow_def assert_that_def Let_def)
  have "disk_reachable demo_masks demo_layout ?P demo_disk demo_dev demo_sim (\<lambda>_. 7) (\<lambda>_. 0)
      (?dev\<lparr>DiskDataInvalidated := True\<rparr>) demo_sim (\<lambda>_. 7) ?d"
    by (rule disk_write [OF disk_find [OF disk_start none demo_adopt] w])
  from fvb_ready_to_boot [OF this demo_disk_writes none, of 5 EFI_SUCCESS EFI_SUCCESS EFI_SUCCESS]
  have "\<exists>d'. FvbReadyToBootEventHandler demo_disk EFI_SUCCESS EFI_SUCCESS EFI_SUCCESS
      (?dev\<lparr>DiskDataInvalidated := True\<rparr>) (\<lambda>_. 7) ?d =
      Some ((?dev\<lparr>DiskDataInvalidated := True\<rparr>)\<lparr>DiskDataInvalidated := False\<rparr>, d') \<and>
      disk_copy (\<lambda>d _. d) (?dev\<lparr>DiskDataInvalidated := True\<rparr>) d' 5 = shadow (?dev\<lparr>DiskDataInvalidated := True\<rparr>) (\<lambda>_. 7)"
    by (simp add: demo_disk_def)
  moreover have "DiskDataInvalidated (?dev\<lparr>DiskDataInvalidated := True\<rparr>)"
    by simp
  ultimately show ?thesis
    by blast
qed

end
