(* ===== verification/BaseVariable.thy ===== *)
theory BaseVariable
  imports Prelude
begin

text \<open>
  The read-only variable service of the SEC phase (\<open>Library/BaseVariableLib/BaseVariableLib.c\<close>): the
  chain of variable headers in the NV store, the index table that caches the positions of the live
  ones, and the view of a store whose upper part is still in the spare block of an interrupted
  fault-tolerant write.

  The layouts and constants of the variable store and of the fault-tolerant write areas belong to
  MdeModulePkg: they are the fields of the record \<open>var_format\<close>, where a header is a function of the
  bytes it occupies. Memory is one byte memory; addresses are natural numbers that do not wrap, while
  the offset in the fault-tolerant work space is a \<open>UINTN\<close> that does. The static buffer \<open>mVariableHeaderFtw\<close> lies at \<open>ftw_buffer\<close>. A failed \<open>ASSERT\<close> and a walk that
  outlives its fuel are \<^term>\<open>None\<close>.
\<close>

section \<open>Data\<close>

record VARIABLE_HEADER =
  StartId :: u16
  vh_State :: u8
  vh_Attributes :: u32
  vh_NameSize :: u32
  vh_DataSize :: u32
  vh_VendorGuid :: "u8 list"

record VARIABLE_STORE_HEADER =
  vs_Signature :: "u8 list"
  vs_Size :: u32
  vs_Format :: u8
  vs_State :: u8

record FTW_WORKING_HEADER =
  fw_Signature :: "u8 list"
  fw_Valid :: bool
  fw_Invalid :: bool
  fw_WriteQueueSize :: nat

record FTW_WRITE_HEADER =
  fh_Complete :: bool
  fh_NumberOfWrites :: nat
  fh_PrivateDataSize :: nat

record FTW_WRITE_RECORD =
  fr_SpareComplete :: bool
  fr_DestinationComplete :: bool
  fr_RelativeOffset :: int

record var_format =
  plain_size :: nat
  auth_size :: nat
  plain_header :: "u8 list \<Rightarrow> VARIABLE_HEADER"
  auth_header :: "u8 list \<Rightarrow> VARIABLE_HEADER"
  store_size :: nat
  store_header :: "u8 list \<Rightarrow> VARIABLE_STORE_HEADER"
  HEADER_ALIGN :: "nat \<Rightarrow> nat"
  GET_PAD_SIZE :: "nat \<Rightarrow> nat"
  VARIABLE_DATA :: u16
  VAR_ADDED :: u8
  VAR_IN_DELETED_TRANSITION :: u8
  VARIABLE_STORE_FORMATTED :: u8
  VARIABLE_STORE_HEALTHY :: u8
  gEfiAuthenticatedVariableGuid :: "u8 list"
  gEfiVariableGuid :: "u8 list"
  gEdkiiWorkingBlockSignatureGuid :: "u8 list"
  gEfiSystemNvDataFvGuid :: "u8 list"
  fv_signature_ok :: "mem \<Rightarrow> nat \<Rightarrow> bool"
  fv_guid :: "mem \<Rightarrow> nat \<Rightarrow> u8 list"
  fv_HeaderLength :: "mem \<Rightarrow> nat \<Rightarrow> nat"
  index_max :: nat
  working_size :: nat
  working_header :: "mem \<Rightarrow> nat \<Rightarrow> FTW_WORKING_HEADER"
  write_header_size :: nat
  write_header :: "mem \<Rightarrow> nat \<Rightarrow> FTW_WRITE_HEADER"
  write_record_size :: nat
  write_record :: "mem \<Rightarrow> nat \<Rightarrow> FTW_WRITE_RECORD"
  FTW_WRITE_TOTAL_SIZE :: "nat \<Rightarrow> nat \<Rightarrow> nat"
  FTW_RECORD_SIZE :: "nat \<Rightarrow> nat"
  ftw_buffer :: nat

record nv_pcds =
  PcdEmuVariableNvModeEnable :: bool
  PcdVariableSize :: nat
  PcdVariableBase64 :: nat
  PcdVariableBase :: nat
  PcdFtwWorkingBase64 :: nat
  PcdFtwWorkingBase :: nat
  PcdFtwWorkingSize :: nat
  PcdFtwSpareBase64 :: nat
  PcdFtwSpareBase :: nat
  PcdFtwSpareSize :: nat

record FTW_LAST_WRITE_DATA =
  TargetAddress :: nat
  SpareAddress :: nat
  LastWriteLength :: nat

record VARIABLE_INDEX_TABLE =
  ix_StartPtr :: nat
  ix_EndPtr :: nat
  ix_Index :: "nat list"
  ix_GoneThrough :: bool

datatype VARIABLE_STORE_TYPE = VariableStoreTypeHob | VariableStoreTypeNv
datatype VARIABLE_STORE_STATUS = EfiRaw | EfiValid | EfiInvalid

record VARIABLE_STORE_INFO =
  VariableStoreHeader :: "nat option"
  IndexTable :: bool
  FtwLastWriteData :: "FTW_LAST_WRITE_DATA option"
  AuthFlag :: bool

text \<open>The memory and the static variables of the library.\<close>

record bv_state =
  bv_mem :: mem
  mFtwLastWriteData :: FTW_LAST_WRITE_DATA
  mFtwLastWriteDataInitialized :: bool
  mVariableHeaderFtwMerged :: bool
  mVariableIndexTable :: VARIABLE_INDEX_TABLE

record VARIABLE_POINTER_TRACK =
  CurrPtr :: nat
  StartPtr :: nat
  EndPtr :: nat

section \<open>The fault-tolerant write area\<close>

text \<open>
  The walk over the write headers. The offset is reduced to 64 bits, as the \<open>UINTN\<close> of the code. The
  fuel is one more than the bytes of the work space: a walk that outlives it has been at some offset
  before and goes round for ever.
\<close>

fun last_header :: "var_format \<Rightarrow> mem \<Rightarrow> nat \<Rightarrow> nat \<Rightarrow> nat \<Rightarrow> nat \<Rightarrow> (nat \<times> efi_status) run" where
  "last_header F m base wsize 0 Offset = None"
| "last_header F m base wsize (Suc fuel) Offset =
     (let h = write_header F m (base + Offset)
      in if \<not> fh_Complete h then Some (base + Offset, EFI_SUCCESS)
         else let Offset' = (Offset + FTW_WRITE_TOTAL_SIZE F (fh_NumberOfWrites h) (fh_PrivateDataSize h)) mod 2 ^ 64
              in if wsize \<le> Offset' then Some (base + Offset, Error EFI_ABORTED)
                 else last_header F m base wsize fuel Offset')"

definition FtwGetLastWriteHeader :: "var_format \<Rightarrow> mem \<Rightarrow> nat \<Rightarrow> nat \<Rightarrow> (nat \<times> efi_status) run" where
  "FtwGetLastWriteHeader F m base wsize = last_header F m base wsize (Suc wsize) (working_size F)"

fun last_record :: "var_format \<Rightarrow> mem \<Rightarrow> nat \<Rightarrow> nat \<Rightarrow> nat \<Rightarrow> nat + nat" where
  "last_record F m priv rec 0 = Inr rec"
| "last_record F m priv rec (Suc n) =
     (if \<not> fr_DestinationComplete (write_record F m rec) then Inl rec
      else last_record F m priv (rec + write_record_size F + (if priv \<noteq> 0 then priv else 0)) n)"

definition FtwGetLastWriteRecord :: "var_format \<Rightarrow> mem \<Rightarrow> nat \<Rightarrow> nat \<times> efi_status" where
  "FtwGetLastWriteRecord F m hdr =
     (let h = write_header F m hdr
      in case last_record F m (fh_PrivateDataSize h) (hdr + write_header_size F) (fh_NumberOfWrites h) of
           Inl rec \<Rightarrow> (rec, EFI_SUCCESS)
         | Inr rec \<Rightarrow> (rec - FTW_RECORD_SIZE F (fh_PrivateDataSize h), EFI_SUCCESS))"

definition IsValidWorkSpace :: "var_format \<Rightarrow> mem \<Rightarrow> nat \<Rightarrow> nat \<Rightarrow> bool run" where
  "IsValidWorkSpace F m base len =
     (let h = working_header F m base
      in if base = 0 then Some False
         else if \<not> fw_Valid h \<or> fw_Invalid h then Some False
         else if fw_WriteQueueSize h + working_size F \<noteq> len then Some False
         else if fw_Signature h = gEdkiiWorkingBlockSignatureGuid F then Some True
         else if fw_Signature h \<noteq> gEfiSystemNvDataFvGuid F then Some False
         else if m (base + working_size F) \<noteq> 0xFF then None
         else Some True)"

text \<open>The search for a work space in the spare area, downwards in steps of one GUID.\<close>

fun find_workspace :: "var_format \<Rightarrow> mem \<Rightarrow> nat \<Rightarrow> nat \<Rightarrow> nat \<Rightarrow> nat \<times> nat" where
  "find_workspace F m spare 0 a = (0, a)"
| "find_workspace F m spare (Suc fuel) a =
     (if a < spare then (0, a)
      else if rd m a 16 = gEdkiiWorkingBlockSignatureGuid F then (a, a)
      else find_workspace F m spare fuel (a - 16))"

definition FaultTolerantWriteInitialize :: "var_format \<Rightarrow> nv_pcds \<Rightarrow> bv_state \<Rightarrow> bv_state run" where
  "FaultTolerantWriteInitialize F pcd st =
     (if mFtwLastWriteDataInitialized st then Some st
      else let m = bv_mem st;
               work = (if PcdFtwWorkingBase64 pcd = 0 then PcdFtwWorkingBase pcd else PcdFtwWorkingBase64 pcd);
               wlen = PcdFtwWorkingSize pcd;
               spare = (if PcdFtwSpareBase64 pcd = 0 then PcdFtwSpareBase pcd else PcdFtwSpareBase64 pcd);
               slen = PcdFtwSpareSize pcd
           in do {
             assert_that (work \<noteq> 0 \<and> spare \<noteq> 0);
             valid \<leftarrow> IsValidWorkSpace F m work wlen;
             st \<leftarrow> (if valid then do {
                 (hdr, Status) \<leftarrow> FtwGetLastWriteHeader F m work wlen;
                 (if EFI_ERROR Status then Some st
                  else let (rec, _) = FtwGetLastWriteRecord F m hdr; r = write_record F m rec
                       in if fr_SpareComplete r \<and> \<not> fr_DestinationComplete r
                          then Some (st\<lparr>mFtwLastWriteData :=
                            \<lparr>TargetAddress = nat ((int spare + fr_RelativeOffset r) mod 2 ^ 64),
                             SpareAddress = spare, LastWriteLength = slen\<rparr>\<rparr>)
                          else Some st)
               } else let (found, a) = find_workspace F m spare (Suc slen) (spare + slen - wlen)
                      in do {
                        ok \<leftarrow> IsValidWorkSpace F m found wlen;
                        Some (if found \<noteq> 0 \<and> ok
                              then st\<lparr>mFtwLastWriteData :=
                                \<lparr>TargetAddress = work - (a - spare), SpareAddress = spare, LastWriteLength = slen\<rparr>\<rparr>
                              else st)
                      });
             Some (st\<lparr>mFtwLastWriteDataInitialized := True\<rparr>)
           })"

section \<open>Headers, names and data\<close>

definition store_at :: "var_format \<Rightarrow> mem \<Rightarrow> nat \<Rightarrow> VARIABLE_STORE_HEADER" where
  "store_at F m a = store_header F (rd m a (store_size F))"

definition GetStartPointer :: "var_format \<Rightarrow> nat \<Rightarrow> nat" where
  "GetStartPointer F vs = HEADER_ALIGN F (vs + store_size F)"

definition GetEndPointer :: "var_format \<Rightarrow> mem \<Rightarrow> nat \<Rightarrow> nat" where
  "GetEndPointer F m vs = HEADER_ALIGN F (vs + unat (vs_Size (store_at F m vs)))"

definition GetVariableHeaderSize :: "var_format \<Rightarrow> bool \<Rightarrow> nat" where
  "GetVariableHeaderSize F auth = (if auth then auth_size F else plain_size F)"

text \<open>The header at \<open>a\<close> read as \<open>VARIABLE_HEADER\<close> or as \<open>AUTHENTICATED_VARIABLE_HEADER\<close>.\<close>

definition header_at :: "var_format \<Rightarrow> bool \<Rightarrow> mem \<Rightarrow> nat \<Rightarrow> VARIABLE_HEADER" where
  "header_at F auth m a =
     (if auth then auth_header F (rd m a (auth_size F)) else plain_header F (rd m a (plain_size F)))"

definition IsValidVariableHeader :: "var_format \<Rightarrow> mem \<Rightarrow> nat \<Rightarrow> bool" where
  "IsValidVariableHeader F m a \<longleftrightarrow> a \<noteq> 0 \<and> StartId (header_at F False m a) = VARIABLE_DATA F"

definition erased_header :: "VARIABLE_HEADER \<Rightarrow> bool" where
  "erased_header h \<longleftrightarrow> vh_State h = - 1 \<or> vh_DataSize h = - 1 \<or> vh_NameSize h = - 1 \<or> vh_Attributes h = - 1"

definition NameSizeOfVariable :: "var_format \<Rightarrow> mem \<Rightarrow> nat \<Rightarrow> bool \<Rightarrow> nat" where
  "NameSizeOfVariable F m a auth =
     (let h = header_at F auth m a in if erased_header h then 0 else unat (vh_NameSize h))"

definition DataSizeOfVariable :: "var_format \<Rightarrow> mem \<Rightarrow> nat \<Rightarrow> bool \<Rightarrow> nat" where
  "DataSizeOfVariable F m a auth =
     (let h = header_at F auth m a in if erased_header h then 0 else unat (vh_DataSize h))"

definition GetVariableNamePtr :: "var_format \<Rightarrow> nat \<Rightarrow> bool \<Rightarrow> nat" where
  "GetVariableNamePtr F a auth = a + GetVariableHeaderSize F auth"

definition GetVendorGuid :: "var_format \<Rightarrow> mem \<Rightarrow> nat \<Rightarrow> bool \<Rightarrow> u8 list" where
  "GetVendorGuid F m a auth = vh_VendorGuid (header_at F auth m a)"

definition GetVariableDataPtr :: "var_format \<Rightarrow> mem \<Rightarrow> nat \<Rightarrow> nat \<Rightarrow> bool \<Rightarrow> nat" where
  "GetVariableDataPtr F m Variable VariableHeader auth =
     GetVariableNamePtr F Variable auth + NameSizeOfVariable F m VariableHeader auth +
     GET_PAD_SIZE F (NameSizeOfVariable F m VariableHeader auth)"

definition GetNextVariablePtr :: "var_format \<Rightarrow> VARIABLE_STORE_INFO \<Rightarrow> mem \<Rightarrow> nat \<Rightarrow> nat \<Rightarrow> nat" where
  "GetNextVariablePtr F I m Variable VariableHeader =
     (let Value = HEADER_ALIGN F
            (GetVariableDataPtr F m Variable VariableHeader (AuthFlag I) +
             DataSizeOfVariable F m VariableHeader (AuthFlag I) +
             GET_PAD_SIZE F (DataSizeOfVariable F m VariableHeader (AuthFlag I)))
      in case FtwLastWriteData I of
           None \<Rightarrow> Value
         | Some w \<Rightarrow>
             if Variable < TargetAddress w \<and> TargetAddress w \<le> Value
             then SpareAddress w + (Value - TargetAddress w) else Value)"

definition GetVariableStoreStatus :: "var_format \<Rightarrow> mem \<Rightarrow> nat \<Rightarrow> VARIABLE_STORE_STATUS" where
  "GetVariableStoreStatus F m vs =
     (let h = store_at F m vs
      in if (vs_Signature h = gEfiAuthenticatedVariableGuid F \<or> vs_Signature h = gEfiVariableGuid F) \<and>
            vs_Format h = VARIABLE_STORE_FORMATTED F \<and> vs_State h = VARIABLE_STORE_HEALTHY F
         then EfiValid
         else if vs_Signature h = replicate 16 0xFF \<and> vs_Size h = - 1 \<and> vs_Format h = 0xFF \<and> vs_State h = 0xFF
         then EfiRaw
         else EfiInvalid)"

definition CompareVariableName :: "VARIABLE_STORE_INFO \<Rightarrow> mem \<Rightarrow> nat \<Rightarrow> nat \<Rightarrow> nat \<Rightarrow> bool" where
  "CompareVariableName I m Name1 Name2 NameSize =
     (case FtwLastWriteData I of
        None \<Rightarrow> rd m Name1 NameSize = rd m Name2 NameSize
      | Some w \<Rightarrow>
          if Name1 < TargetAddress w \<and> TargetAddress w < Name1 + NameSize
          then let p = TargetAddress w - Name1
               in rd m Name1 p = rd m Name2 p \<and>
                  rd m (SpareAddress w) (NameSize - p) = rd m (Name2 + p) (NameSize - p)
          else if Name2 < TargetAddress w \<and> TargetAddress w < Name2 + NameSize
          then let p = TargetAddress w - Name2
               in rd m Name2 p = rd m Name1 p \<and>
                  rd m (SpareAddress w) (NameSize - p) = rd m (Name1 + p) (NameSize - p)
          else rd m Name1 NameSize = rd m Name2 NameSize)"

text \<open>Whether the variable matches (\<open>PtrTrack->CurrPtr\<close> is then \<open>Variable\<close>).\<close>

definition CompareWithValidVariable ::
  "var_format \<Rightarrow> VARIABLE_STORE_INFO \<Rightarrow> mem \<Rightarrow> nat \<Rightarrow> nat \<Rightarrow> nat \<Rightarrow> u8 list \<Rightarrow> bool run" where
  "CompareWithValidVariable F I m Variable VariableHeader VariableName VendorGuid =
     (if rd m VariableName 2 = [0, 0] then Some True
      else if VendorGuid = GetVendorGuid F m VariableHeader (AuthFlag I)
      then do {
        assert_that (NameSizeOfVariable F m VariableHeader (AuthFlag I) \<noteq> 0);
        Some (CompareVariableName I m VariableName (GetVariableNamePtr F Variable (AuthFlag I))
                (NameSizeOfVariable F m VariableHeader (AuthFlag I)))
      }
      else Some False)"

section \<open>The store and its headers\<close>

definition GetVariableStore ::
  "var_format \<Rightarrow> nv_pcds \<Rightarrow> VARIABLE_STORE_TYPE \<Rightarrow> bv_state \<Rightarrow> (bv_state \<times> VARIABLE_STORE_INFO) run" where
  "GetVariableStore F pcd ty st =
     (let none = \<lparr>VariableStoreHeader = None, IndexTable = False, FtwLastWriteData = None, AuthFlag = False\<rparr>
      in case ty of
           VariableStoreTypeHob \<Rightarrow> Some (st, none)
         | VariableStoreTypeNv \<Rightarrow>
             if PcdEmuVariableNvModeEnable pcd then Some (st, none)
             else let base = (if PcdVariableBase64 pcd \<noteq> 0 then PcdVariableBase64 pcd else PcdVariableBase pcd)
                  in do {
                    assert_that (base \<noteq> 0);
                    st \<leftarrow> FaultTolerantWriteInitialize F pcd st;
                    (let w = mFtwLastWriteData st; m = bv_mem st;
                         FvHeader = (if TargetAddress w = base then SpareAddress w else base);
                         ftw = (if base < TargetAddress w \<and> TargetAddress w < base + PcdVariableSize pcd
                                then Some w else None)
                     in if \<not> fv_signature_ok F m FvHeader \<or> fv_guid F m FvHeader \<noteq> gEfiSystemNvDataFvGuid F
                        then Some (st, none\<lparr>FtwLastWriteData := ftw\<rparr>)
                        else let vs = FvHeader + fv_HeaderLength F m FvHeader;
                                 auth = (vs_Signature (store_at F m vs) = gEfiAuthenticatedVariableGuid F);
                                 ix = mVariableIndexTable st
                             in Some (if ix_StartPtr ix = 0
                                      then st\<lparr>mVariableIndexTable :=
                                        \<lparr>ix_StartPtr = GetStartPointer F vs, ix_EndPtr = GetEndPointer F m vs,
                                         ix_Index = [], ix_GoneThrough = False\<rparr>\<rparr>
                                      else st,
                                      \<lparr>VariableStoreHeader = Some vs, IndexTable = True, FtwLastWriteData = ftw,
                                       AuthFlag = auth\<rparr>))
                  })"

text \<open>
  The state, \<open>*VariableHeader\<close> and the result. A header that straddles the target address is
  assembled in the static buffer, once.
\<close>

definition GetVariableHeader ::
  "var_format \<Rightarrow> VARIABLE_STORE_INFO \<Rightarrow> bv_state \<Rightarrow> nat \<Rightarrow> bv_state \<times> nat \<times> bool" where
  "GetVariableHeader F I st Variable =
     (let m = bv_mem st; n = GetVariableHeaderSize F (AuthFlag I);
          End = (case VariableStoreHeader I of None \<Rightarrow> 0 | Some vs \<Rightarrow> GetEndPointer F m vs)
      in if Variable = 0 then (st, 0, False)
         else case FtwLastWriteData I of
           None \<Rightarrow>
             if End \<le> Variable then (st, Variable, False)
             else (st, Variable, IsValidVariableHeader F m Variable)
         | Some w \<Rightarrow>
             if SpareAddress w < Variable \<and> End \<le> Variable - SpareAddress w + TargetAddress w
             then (st, Variable, False)
             else if Variable < TargetAddress w \<and> TargetAddress w < Variable + n
             then let p = TargetAddress w - Variable;
                      st = (if mVariableHeaderFtwMerged st then st
                            else st\<lparr>bv_mem := wr (wr m (ftw_buffer F) (rd m Variable p))
                                                 (ftw_buffer F + p) (rd m (SpareAddress w) (n - p)),
                                    mVariableHeaderFtwMerged := True\<rparr>)
                  in (st, ftw_buffer F, IsValidVariableHeader F (bv_mem st) (ftw_buffer F))
             else (st, Variable, IsValidVariableHeader F m Variable))"

definition GetVariableNameOrData :: "VARIABLE_STORE_INFO \<Rightarrow> mem \<Rightarrow> nat \<Rightarrow> nat \<Rightarrow> nat \<Rightarrow> mem" where
  "GetVariableNameOrData I m NameOrData Size Buffer =
     (case FtwLastWriteData I of
        None \<Rightarrow> wr m Buffer (rd m NameOrData Size)
      | Some w \<Rightarrow>
          if NameOrData < TargetAddress w \<and> TargetAddress w < NameOrData + Size
          then let p = TargetAddress w - NameOrData; m = wr m Buffer (rd m NameOrData p)
               in wr m (Buffer + p) (rd m (SpareAddress w) (Size - p))
          else wr m Buffer (rd m NameOrData Size))"

section \<open>Finding a variable\<close>

definition is_added :: "var_format \<Rightarrow> mem \<Rightarrow> nat \<Rightarrow> bool" where
  "is_added F m h \<longleftrightarrow> vh_State (header_at F False m h) = VAR_ADDED F"

definition is_in_deleted :: "var_format \<Rightarrow> mem \<Rightarrow> nat \<Rightarrow> bool" where
  "is_in_deleted F m h \<longleftrightarrow> vh_State (header_at F False m h) = VAR_IN_DELETED_TRANSITION F AND VAR_ADDED F"

text \<open>
  The traversal of the index table: \<open>Inl\<close> the variable found, or \<open>Inr\<close> of \<open>InDeletedVariable\<close>,
  \<open>MaxIndex\<close> and \<open>VariableHeader\<close>.
\<close>

fun find_index ::
  "var_format \<Rightarrow> VARIABLE_STORE_INFO \<Rightarrow> nat \<Rightarrow> u8 list \<Rightarrow> nat \<Rightarrow> nat \<Rightarrow> nat \<Rightarrow> nat \<Rightarrow> nat \<Rightarrow> bv_state \<Rightarrow>
     nat list \<Rightarrow> (bv_state \<times> (nat + nat \<times> nat \<times> nat)) run" where
  "find_index F I name guid Index Offset InDeleted MaxIndex VariableHeader st [] =
     Some (st, Inr (InDeleted, MaxIndex, VariableHeader))"
| "find_index F I name guid Index Offset InDeleted MaxIndex VariableHeader st (d # ds) =
     (let Offset = Offset + d; MaxIndex = ix_StartPtr (mVariableIndexTable st) + Offset;
          (st, h, _) = GetVariableHeader F I st MaxIndex
      in do {
        assert_that (Index < index_max F);
        eq \<leftarrow> CompareWithValidVariable F I (bv_mem st) MaxIndex h name guid;
        (if eq \<and> \<not> is_in_deleted F (bv_mem st) h then Some (st, Inl MaxIndex)
         else find_index F I name guid (Suc Index) Offset (if eq then MaxIndex else InDeleted) MaxIndex h st ds)
      })"

text \<open>Recording a live variable in the index table.\<close>

definition record_index ::
  "var_format \<Rightarrow> bool \<Rightarrow> nat \<Rightarrow> nat \<Rightarrow> bool \<Rightarrow> bv_state \<Rightarrow> bv_state \<times> nat \<times> bool" where
  "record_index F table Variable LastVariable StopRecord st =
     (let ix = mVariableIndexTable st
      in if table \<and> \<not> StopRecord
         then if 0xFFFF < Variable - LastVariable \<or> index_max F \<le> length (ix_Index ix)
              then (st, LastVariable, True)
              else (st\<lparr>mVariableIndexTable := ix\<lparr>ix_Index := ix_Index ix @ [Variable - LastVariable]\<rparr>\<rparr>, Variable, False)
         else (st, LastVariable, StopRecord))"

text \<open>The walk through the store: \<open>Inl\<close> the variable found, or \<open>Inr\<close> of \<open>InDeletedVariable\<close> and \<open>StopRecord\<close>.\<close>

fun find_walk ::
  "nat \<Rightarrow> var_format \<Rightarrow> VARIABLE_STORE_INFO \<Rightarrow> nat \<Rightarrow> u8 list \<Rightarrow> nat \<Rightarrow> nat \<Rightarrow> nat \<Rightarrow> bool \<Rightarrow> bv_state \<Rightarrow>
     (bv_state \<times> (nat + nat \<times> bool)) run" where
  "find_walk 0 F I name guid Variable LastVariable InDeleted StopRecord st = None"
| "find_walk (Suc fuel) F I name guid Variable LastVariable InDeleted StopRecord st =
     (let (st, h, ok) = GetVariableHeader F I st Variable
      in if \<not> ok then Some (st, Inr (InDeleted, StopRecord))
         else if is_added F (bv_mem st) h \<or> is_in_deleted F (bv_mem st) h
         then let (st, LastVariable, StopRecord) = record_index F (IndexTable I) Variable LastVariable StopRecord st
              in do {
                eq \<leftarrow> CompareWithValidVariable F I (bv_mem st) Variable h name guid;
                (if eq \<and> \<not> is_in_deleted F (bv_mem st) h then Some (st, Inl Variable)
                 else find_walk fuel F I name guid (GetNextVariablePtr F I (bv_mem st) Variable h) LastVariable
                        (if eq then Variable else InDeleted) StopRecord st)
              }
         else find_walk fuel F I name guid (GetNextVariablePtr F I (bv_mem st) Variable h) LastVariable
                InDeleted StopRecord st)"

definition found_or_not :: "nat \<Rightarrow> efi_status" where
  "found_or_not p = (if p = 0 then Error EFI_NOT_FOUND else EFI_SUCCESS)"

text \<open>\<open>PtrTrack\<close> is unchanged when the store is missing, invalid or erased.\<close>

definition FindVariableEx ::
  "nat \<Rightarrow> var_format \<Rightarrow> VARIABLE_STORE_INFO \<Rightarrow> bv_state \<Rightarrow> nat \<Rightarrow> u8 list \<Rightarrow> VARIABLE_POINTER_TRACK \<Rightarrow>
     (bv_state \<times> VARIABLE_POINTER_TRACK \<times> efi_status) run" where
  "FindVariableEx fuel F I st name guid PtrTrack =
     (case VariableStoreHeader I of
        None \<Rightarrow> Some (st, PtrTrack, Error EFI_INVALID_PARAMETER)
      | Some vs \<Rightarrow>
          if GetVariableStoreStatus F (bv_mem st) vs \<noteq> EfiValid then Some (st, PtrTrack, Error EFI_UNSUPPORTED)
          else if NOT (vs_Size (store_at F (bv_mem st) vs)) = 0 then Some (st, PtrTrack, Error EFI_NOT_FOUND)
          else let ix = mVariableIndexTable st; Start = GetStartPointer F vs;
                   track = \<lparr>CurrPtr = CurrPtr PtrTrack, StartPtr = Start, EndPtr = GetEndPointer F (bv_mem st) vs\<rparr>
               in do {
                 (st, r) \<leftarrow> find_index F I name guid 0 0 0 0 0 st (if IndexTable I then ix_Index ix else []);
                 (case r of
                    Inl v \<Rightarrow> Some (st, track\<lparr>CurrPtr := v\<rparr>, EFI_SUCCESS)
                  | Inr (InDeleted, MaxIndex, h) \<Rightarrow>
                      if IndexTable I \<and> ix_GoneThrough ix
                      then Some (st, track\<lparr>CurrPtr := InDeleted\<rparr>, found_or_not InDeleted)
                      else do {
                        (st, r) \<leftarrow> (if MaxIndex \<noteq> 0
                          then find_walk fuel F I name guid (GetNextVariablePtr F I (bv_mem st) MaxIndex h) MaxIndex InDeleted False st
                          else find_walk fuel F I name guid Start Start InDeleted False st);
                        (case r of
                           Inl v \<Rightarrow> Some (st, track\<lparr>CurrPtr := v\<rparr>, EFI_SUCCESS)
                         | Inr (InDeleted, StopRecord) \<Rightarrow>
                             let ix = mVariableIndexTable st
                             in Some (if IndexTable I \<and> \<not> StopRecord
                                      then st\<lparr>mVariableIndexTable := ix\<lparr>ix_GoneThrough := True\<rparr>\<rparr> else st,
                                      track\<lparr>CurrPtr := InDeleted\<rparr>, found_or_not InDeleted))
                      })
               })"

text \<open>The loop over the store types.\<close>

fun find_in_stores ::
  "nat \<Rightarrow> var_format \<Rightarrow> nv_pcds \<Rightarrow> VARIABLE_STORE_TYPE list \<Rightarrow> bv_state \<Rightarrow> nat \<Rightarrow> u8 list \<Rightarrow> VARIABLE_POINTER_TRACK \<Rightarrow>
     VARIABLE_STORE_INFO \<Rightarrow> (bv_state \<times> VARIABLE_POINTER_TRACK \<times> VARIABLE_STORE_INFO \<times> efi_status) run" where
  "find_in_stores fuel F pcd [] st name guid track I = Some (st, track, I, Error EFI_NOT_FOUND)"
| "find_in_stores fuel F pcd (ty # tys) st name guid track I = do {
     (st, I) \<leftarrow> GetVariableStore F pcd ty st;
     (st, track, Status) \<leftarrow> FindVariableEx fuel F I st name guid track;
     (if \<not> EFI_ERROR Status then Some (st, track, I, Status)
      else find_in_stores fuel F pcd tys st name guid track I)
   }"

definition no_track :: VARIABLE_POINTER_TRACK where
  "no_track = \<lparr>CurrPtr = 0, StartPtr = 0, EndPtr = 0\<rparr>"

definition no_store :: VARIABLE_STORE_INFO where
  "no_store = \<lparr>VariableStoreHeader = None, IndexTable = False, FtwLastWriteData = None, AuthFlag = False\<rparr>"

definition FindVariable ::
  "nat \<Rightarrow> var_format \<Rightarrow> nv_pcds \<Rightarrow> bv_state \<Rightarrow> nat \<Rightarrow> u8 list \<Rightarrow>
     (bv_state \<times> VARIABLE_POINTER_TRACK \<times> VARIABLE_STORE_INFO \<times> efi_status) run" where
  "FindVariable fuel F pcd st name guid =
     find_in_stores fuel F pcd [VariableStoreTypeHob, VariableStoreTypeNv] st name guid no_track no_store"

section \<open>The services\<close>

text \<open>
  The pointers may be NULL: the name and the data are addresses, the GUID is \<^term>\<open>None\<close> for NULL,
  \<open>DataSize\<close> is \<^term>\<open>None\<close> for NULL. The result has \<open>*Attributes\<close>, \<open>*DataSize\<close> and the status.
\<close>

definition BaseGetVariable ::
  "nat \<Rightarrow> var_format \<Rightarrow> nv_pcds \<Rightarrow> bv_state \<Rightarrow> nat \<Rightarrow> u8 list option \<Rightarrow> nat option \<Rightarrow> nat \<Rightarrow>
     (bv_state \<times> u32 option \<times> nat option \<times> efi_status) run" where
  "BaseGetVariable fuel F pcd st VariableName VariableGuid DataSize Data =
     (case (VariableGuid, DataSize) of
        (Some guid, Some cap) \<Rightarrow>
          if VariableName = 0 then Some (st, None, DataSize, Error EFI_INVALID_PARAMETER)
          else if rd (bv_mem st) VariableName 2 = [0, 0] then Some (st, None, DataSize, Error EFI_NOT_FOUND)
          else do {
            (st, track, I, Status) \<leftarrow> FindVariable fuel F pcd st VariableName guid;
            (if EFI_ERROR Status then Some (st, None, DataSize, Status)
             else let (st, h, _) = GetVariableHeader F I st (CurrPtr track);
                      n = DataSizeOfVariable F (bv_mem st) h (AuthFlag I)
                  in if n \<le> cap
                     then if Data = 0 then Some (st, None, DataSize, Error EFI_INVALID_PARAMETER)
                          else let st = st\<lparr>bv_mem := GetVariableNameOrData I (bv_mem st)
                                      (GetVariableDataPtr F (bv_mem st) (CurrPtr track) h (AuthFlag I)) n Data\<rparr>
                               in Some (st, Some (vh_Attributes (header_at F False (bv_mem st) h)), Some n, EFI_SUCCESS)
                     else Some (st, Some (vh_Attributes (header_at F False (bv_mem st) h)), Some n,
                                Error EFI_BUFFER_TOO_SMALL))
          }
      | _ \<Rightarrow> Some (st, None, DataSize, Error EFI_INVALID_PARAMETER))"

text \<open>
  The enumeration loop of \<open>BaseGetNextVariableName\<close>: \<open>stores\<close> are the headers of the HOB and the NV
  store, \<open>IHob\<close> the info of the former. The name is written to \<open>VariableName\<close>; the results are
  \<open>*VariableNameSize\<close>, \<open>*VariableGuid\<close> and the status.
\<close>

fun current_store :: "var_format \<Rightarrow> (VARIABLE_STORE_TYPE \<times> nat option) list \<Rightarrow> nat \<Rightarrow>
    (VARIABLE_STORE_TYPE \<times> nat option) list option" where
  "current_store F [] Start = None"
| "current_store F ((ty, vs) # rest) Start =
     (if \<exists>a. vs = Some a \<and> Start = GetStartPointer F a then Some rest else current_store F rest Start)"

fun next_store :: "(VARIABLE_STORE_TYPE \<times> nat option) list \<Rightarrow> (VARIABLE_STORE_TYPE \<times> nat) option" where
  "next_store [] = None"
| "next_store ((ty, None) # rest) = next_store rest"
| "next_store ((ty, Some a) # rest) = Some (ty, a)"

definition lookup_store :: "(VARIABLE_STORE_TYPE \<times> nat option) list \<Rightarrow> VARIABLE_STORE_TYPE \<Rightarrow> nat option" where
  "lookup_store stores ty = (case map_of stores ty of Some vs \<Rightarrow> vs | None \<Rightarrow> None)"

fun next_name ::
  "nat \<Rightarrow> nat \<Rightarrow> var_format \<Rightarrow> nv_pcds \<Rightarrow> VARIABLE_STORE_INFO \<Rightarrow> (VARIABLE_STORE_TYPE \<times> nat option) list \<Rightarrow>
     VARIABLE_STORE_INFO \<Rightarrow> bv_state \<Rightarrow> VARIABLE_POINTER_TRACK \<Rightarrow> nat \<Rightarrow> nat \<Rightarrow> u8 list \<Rightarrow>
     (bv_state \<times> nat \<times> u8 list \<times> efi_status) run" where
  "next_name 0 fuel F pcd IHob stores I st track VariableName cap guid = None"
| "next_name (Suc n) fuel F pcd IHob stores I st track VariableName cap guid =
     (let (st, h, ok) = GetVariableHeader F I st (CurrPtr track)
      in if \<not> ok then (case current_store F stores (StartPtr track) of
           None \<Rightarrow> None
         | Some rest \<Rightarrow> (case next_store rest of
              None \<Rightarrow> Some (st, cap, guid, Error EFI_NOT_FOUND)
            | Some (ty, a) \<Rightarrow> do {
                (st, I) \<leftarrow> GetVariableStore F pcd ty st;
                next_name n fuel F pcd IHob stores I st
                  \<lparr>CurrPtr = GetStartPointer F a, StartPtr = GetStartPointer F a, EndPtr = GetEndPointer F (bv_mem st) a\<rparr>
                  VariableName cap guid
              }))
         else if is_added F (bv_mem st) h \<or> is_in_deleted F (bv_mem st) h
         then do {
           (st, skip1) \<leftarrow> (if is_in_deleted F (bv_mem st) h then do {
               (st, t, Status) \<leftarrow> FindVariableEx fuel F I st (GetVariableNamePtr F (CurrPtr track) (AuthFlag I))
                                  (GetVendorGuid F (bv_mem st) h (AuthFlag I)) no_track;
               Some (st, \<not> EFI_ERROR Status \<and> CurrPtr t \<noteq> CurrPtr track)
             } else Some (st, False));
           (st, skip2) \<leftarrow> (if \<not> skip1 \<and> (\<exists>a. lookup_store stores VariableStoreTypeHob = Some a) \<and>
                               (\<exists>a. lookup_store stores VariableStoreTypeNv = Some a \<and> StartPtr track = GetStartPointer F a)
             then do {
               (st, t, Status) \<leftarrow> FindVariableEx fuel F IHob st (GetVariableNamePtr F (CurrPtr track) (AuthFlag I))
                                  (GetVendorGuid F (bv_mem st) h (AuthFlag I)) no_track;
               Some (st, \<not> EFI_ERROR Status)
             } else Some (st, False));
           (if skip1 \<or> skip2
            then next_name n fuel F pcd IHob stores I st
                   (track\<lparr>CurrPtr := GetNextVariablePtr F I (bv_mem st) (CurrPtr track) h\<rparr>) VariableName cap guid
            else let len = NameSizeOfVariable F (bv_mem st) h (AuthFlag I)
                 in do {
                   assert_that (len \<noteq> 0);
                   (if len \<le> cap
                    then let st = st\<lparr>bv_mem := GetVariableNameOrData I (bv_mem st)
                                  (GetVariableNamePtr F (CurrPtr track) (AuthFlag I)) len VariableName\<rparr>
                         in Some (st, len, GetVendorGuid F (bv_mem st) h (AuthFlag I), EFI_SUCCESS)
                    else Some (st, len, guid, Error EFI_BUFFER_TOO_SMALL))
                 })
         }
         else next_name n fuel F pcd IHob stores I st
                (track\<lparr>CurrPtr := GetNextVariablePtr F I (bv_mem st) (CurrPtr track) h\<rparr>) VariableName cap guid)"

definition BaseGetNextVariableName ::
  "nat \<Rightarrow> var_format \<Rightarrow> nv_pcds \<Rightarrow> bv_state \<Rightarrow> nat option \<Rightarrow> nat \<Rightarrow> u8 list option \<Rightarrow>
     (bv_state \<times> nat option \<times> u8 list option \<times> efi_status) run" where
  "BaseGetNextVariableName fuel F pcd st VariableNameSize VariableName VariableGuid =
     (case (VariableNameSize, VariableGuid) of
        (Some cap, Some guid) \<Rightarrow>
          if VariableName = 0 then Some (st, VariableNameSize, VariableGuid, Error EFI_INVALID_PARAMETER)
          else do {
            (st, track, I, Status) \<leftarrow> FindVariable fuel F pcd st VariableName guid;
            (if CurrPtr track = 0 \<or> Status \<noteq> EFI_SUCCESS then Some (st, VariableNameSize, VariableGuid, Status)
             else do {
               (st, track) \<leftarrow> Some (if rd (bv_mem st) VariableName 2 \<noteq> [0, 0]
                 then let (st, h, _) = GetVariableHeader F I st (CurrPtr track)
                      in (st, track\<lparr>CurrPtr := GetNextVariablePtr F I (bv_mem st) (CurrPtr track) h\<rparr>)
                 else (st, track));
               (st, IHob) \<leftarrow> GetVariableStore F pcd VariableStoreTypeHob st;
               (st, INv) \<leftarrow> GetVariableStore F pcd VariableStoreTypeNv st;
               (st, cap, guid, Status) \<leftarrow> next_name fuel fuel F pcd IHob
                 [(VariableStoreTypeHob, VariableStoreHeader IHob), (VariableStoreTypeNv, VariableStoreHeader INv)]
                 I st track VariableName cap guid;
               Some (st, Some cap, Some guid, Status)
             })
          }
      | _ \<Rightarrow> Some (st, VariableNameSize, VariableGuid, Error EFI_INVALID_PARAMETER))"

end
