(* ===== verification/VarSearch.thy ===== *)
theory VarSearch
  imports BaseVariable
begin

text \<open>
  What the search of \<open>BaseVariableLib\<close> computes. The store is read through a logical memory, in which
  the spare block of an interrupted fault-tolerant write has replaced the upper part of the NV
  store; the specification walks the chain of headers there. The search, with its index table and
  its physical pointers, is proved to return what the specification says.
\<close>

section \<open>The logical store\<close>

definition view :: "VARIABLE_STORE_INFO \<Rightarrow> mem \<Rightarrow> mem" where
  "view I m = (case FtwLastWriteData I of
     None \<Rightarrow> m
   | Some w \<Rightarrow> (\<lambda>x. if x < TargetAddress w then m x else m (SpareAddress w + (x - TargetAddress w))))"

definition phys :: "VARIABLE_STORE_INFO \<Rightarrow> nat \<Rightarrow> nat" where
  "phys I a = (case FtwLastWriteData I of
     None \<Rightarrow> a
   | Some w \<Rightarrow> if a < TargetAddress w then a else SpareAddress w + (a - TargetAddress w))"

definition store_start :: "var_format \<Rightarrow> VARIABLE_STORE_INFO \<Rightarrow> nat" where
  "store_start F I = (case VariableStoreHeader I of None \<Rightarrow> 0 | Some vs \<Rightarrow> GetStartPointer F vs)"

definition store_end :: "var_format \<Rightarrow> VARIABLE_STORE_INFO \<Rightarrow> mem \<Rightarrow> nat" where
  "store_end F I m = (case VariableStoreHeader I of None \<Rightarrow> 0 | Some vs \<Rightarrow> GetEndPointer F m vs)"

text \<open>The header at a logical address, its size, its successor, and where the chain stops.\<close>

definition lheader :: "var_format \<Rightarrow> VARIABLE_STORE_INFO \<Rightarrow> mem \<Rightarrow> nat \<Rightarrow> VARIABLE_HEADER" where
  "lheader F I m a = header_at F False (view I m) a"

definition lname_size :: "var_format \<Rightarrow> VARIABLE_STORE_INFO \<Rightarrow> mem \<Rightarrow> nat \<Rightarrow> nat" where
  "lname_size F I m a = NameSizeOfVariable F (view I m) a (AuthFlag I)"

definition lname :: "var_format \<Rightarrow> VARIABLE_STORE_INFO \<Rightarrow> nat \<Rightarrow> nat" where
  "lname F I a = a + GetVariableHeaderSize F (AuthFlag I)"

definition lnext :: "var_format \<Rightarrow> VARIABLE_STORE_INFO \<Rightarrow> mem \<Rightarrow> nat \<Rightarrow> nat" where
  "lnext F I m a = GetNextVariablePtr F (I\<lparr>FtwLastWriteData := None\<rparr>) (view I m) a a"

definition chain_stops :: "var_format \<Rightarrow> VARIABLE_STORE_INFO \<Rightarrow> mem \<Rightarrow> nat \<Rightarrow> bool" where
  "chain_stops F I m a \<longleftrightarrow> store_end F I m \<le> a \<or> StartId (lheader F I m a) \<noteq> VARIABLE_DATA F"

fun visits_n :: "nat \<Rightarrow> var_format \<Rightarrow> VARIABLE_STORE_INFO \<Rightarrow> mem \<Rightarrow> nat \<Rightarrow> nat list" where
  "visits_n 0 F I m a = [a]"
| "visits_n (Suc k) F I m a = a # (if chain_stops F I m a then [] else visits_n k F I m (lnext F I m a))"

text \<open>The addresses the walk looks at from \<open>a\<close> on; all but the last are variables.\<close>

definition visits :: "var_format \<Rightarrow> VARIABLE_STORE_INFO \<Rightarrow> mem \<Rightarrow> nat \<Rightarrow> nat list" where
  "visits F I m a = visits_n (store_end F I m - a) F I m a"

definition live_at :: "var_format \<Rightarrow> VARIABLE_STORE_INFO \<Rightarrow> mem \<Rightarrow> nat \<Rightarrow> bool" where
  "live_at F I m a \<longleftrightarrow> \<not> chain_stops F I m a \<and>
     (vh_State (lheader F I m a) = VAR_ADDED F \<or>
      vh_State (lheader F I m a) = VAR_IN_DELETED_TRANSITION F AND VAR_ADDED F)"

definition lmatch :: "var_format \<Rightarrow> VARIABLE_STORE_INFO \<Rightarrow> mem \<Rightarrow> nat \<Rightarrow> u8 list \<Rightarrow> nat \<Rightarrow> bool" where
  "lmatch F I m name guid a \<longleftrightarrow>
     rd m name 2 = [0, 0] \<or>
     guid = GetVendorGuid F (view I m) a (AuthFlag I) \<and>
     rd m name (lname_size F I m a) = rd (view I m) (lname F I a) (lname_size F I m a)"

definition lsettled :: "var_format \<Rightarrow> VARIABLE_STORE_INFO \<Rightarrow> mem \<Rightarrow> nat \<Rightarrow> u8 list \<Rightarrow> nat \<Rightarrow> bool" where
  "lsettled F I m name guid a \<longleftrightarrow> lmatch F I m name guid a \<and>
     vh_State (lheader F I m a) \<noteq> VAR_IN_DELETED_TRANSITION F AND VAR_ADDED F"

text \<open>
  The specification of the search: the first matching variable that is not being deleted, or else
  the last matching one that is, or else nothing.
\<close>

definition lookup_var :: "var_format \<Rightarrow> VARIABLE_STORE_INFO \<Rightarrow> mem \<Rightarrow> nat \<Rightarrow> u8 list \<Rightarrow> nat option" where
  "lookup_var F I m name guid =
     (let live = filter (live_at F I m) (visits F I m (store_start F I))
      in case List.find (lsettled F I m name guid) live of
           Some a \<Rightarrow> Some a
         | None \<Rightarrow> (case filter (lmatch F I m name guid) live of [] \<Rightarrow> None | as \<Rightarrow> Some (last as)))"

section \<open>Assumptions\<close>

definition format_ok :: "var_format \<Rightarrow> bool" where
  "format_ok F \<longleftrightarrow> 0 < plain_size F \<and> plain_size F \<le> auth_size F \<and> (\<forall>x. x \<le> HEADER_ALIGN F x)"

text \<open>
  An interrupted write, seen from a search for \<open>name\<close>: the target lies inside the store and below
  the spare block, at a distance the alignment preserves; no header, with the first byte of its
  name, crosses the target; the name searched for is outside the store.
\<close>

definition ftw_ok :: "var_format \<Rightarrow> VARIABLE_STORE_INFO \<Rightarrow> mem \<Rightarrow> nat \<Rightarrow> bool" where
  "ftw_ok F I m name \<longleftrightarrow> (case FtwLastWriteData I of
     None \<Rightarrow> True
   | Some w \<Rightarrow>
       TargetAddress w \<le> SpareAddress w \<and> store_start F I < TargetAddress w \<and> TargetAddress w < store_end F I m \<and>
       (\<forall>x. HEADER_ALIGN F (x + (SpareAddress w - TargetAddress w)) =
            HEADER_ALIGN F x + (SpareAddress w - TargetAddress w)) \<and>
       (\<forall>a \<in> set (visits F I m (store_start F I)). a < TargetAddress w \<longrightarrow> lname F I a < TargetAddress w) \<and>
       (\<forall>a \<in> set (visits F I m (store_start F I)).
          \<not> (name < TargetAddress w \<and> TargetAddress w < name + lname_size F I m a)))"

section \<open>The chain\<close>

lemma header_size_pos: "format_ok F \<Longrightarrow> 0 < GetVariableHeaderSize F auth"
  by (auto simp: format_ok_def GetVariableHeaderSize_def)

lemma lnext_gt: "format_ok F \<Longrightarrow> a < lnext F I m a"
proof -
  assume F: "format_ok F"
  let ?v = "GetVariableDataPtr F (view I m) a a (AuthFlag I) + DataSizeOfVariable F (view I m) a (AuthFlag I) +
      GET_PAD_SIZE F (DataSizeOfVariable F (view I m) a (AuthFlag I))"
  have "a < ?v"
    using header_size_pos [OF F, of "AuthFlag I"] by (simp add: GetVariableDataPtr_def GetVariableNamePtr_def)
  also have "?v \<le> HEADER_ALIGN F ?v"
    using F by (simp add: format_ok_def)
  finally show ?thesis
    by (simp add: lnext_def GetNextVariablePtr_def)
qed

lemma lnext_closer:
  assumes "format_ok F" "\<not> chain_stops F I m a"
  shows "store_end F I m - lnext F I m a < store_end F I m - a"
  using lnext_gt [OF assms(1), of a I m] assms(2) by (auto simp: chain_stops_def)

lemma visits_n_fuel:
  "format_ok F \<Longrightarrow> store_end F I m - a \<le> k \<Longrightarrow> store_end F I m - a \<le> k' \<Longrightarrow>
    visits_n k F I m a = visits_n k' F I m a"
proof (induction k arbitrary: k' a)
  case 0
  then have "chain_stops F I m a"
    by (simp add: chain_stops_def)
  then show ?case
    by (cases k') simp_all
next
  case (Suc k)
  show ?case
  proof (cases "chain_stops F I m a")
    case True
    then show ?thesis
      by (cases k') simp_all
  next
    case False
    then obtain j where "k' = Suc j"
      using Suc.prems(3) by (cases k') (auto simp: chain_stops_def)
    then show ?thesis
      using Suc.IH [OF Suc.prems(1), of "lnext F I m a" j] Suc.prems lnext_closer [OF Suc.prems(1) False] by simp
  qed
qed

lemma visits_rec:
  assumes "format_ok F"
  shows "visits F I m a = a # (if chain_stops F I m a then [] else visits F I m (lnext F I m a))"
proof -
  have "visits F I m a = visits_n (Suc (store_end F I m - a)) F I m a"
    unfolding visits_def by (rule visits_n_fuel [OF assms]) simp_all
  moreover have "visits_n (store_end F I m - a) F I m (lnext F I m a) = visits F I m (lnext F I m a)"
    if "\<not> chain_stops F I m a"
    unfolding visits_def by (rule visits_n_fuel [OF assms]) (use lnext_closer [OF assms that] in simp_all)
  ultimately show ?thesis
    by simp
qed

lemma visits_induct [case_names step]:
  assumes "format_ok F" "\<And>a. (\<not> chain_stops F I m a \<Longrightarrow> Q (lnext F I m a)) \<Longrightarrow> Q a"
  shows "Q a"
proof (induction "store_end F I m - a" arbitrary: a rule: less_induct)
  case less
  then show ?case
    using assms(2) lnext_closer [OF assms(1)] by blast
qed

lemma visits_self: "format_ok F \<Longrightarrow> a \<in> set (visits F I m a)"
  by (subst visits_rec) auto

lemma visits_next:
  assumes "format_ok F" "b \<in> set (visits F I m a)" "\<not> chain_stops F I m b"
  shows "lnext F I m b \<in> set (visits F I m a)"
  using assms(2)
proof (induction a rule: visits_induct [OF assms(1), where I = I and m = m, case_names step])
  case (step a)
  show ?case
  proof (cases "a = b")
    case True
    then show ?thesis
      using assms(3) visits_self [OF assms(1)] by (subst visits_rec [OF assms(1)]) simp
  next
    case False
    have "b = a \<or> \<not> chain_stops F I m a \<and> b \<in> set (visits F I m (lnext F I m a))"
      using step(2) by (subst (asm) visits_rec [OF assms(1)]) (simp split: if_splits)
    with False show ?thesis
      using step(1) by (subst visits_rec [OF assms(1)]) simp
  qed
qed

lemma visits_ge:
  assumes "format_ok F" "b \<in> set (visits F I m a)"
  shows "a \<le> b"
  using assms(2)
proof (induction a rule: visits_induct [OF assms(1), where I = I and m = m, case_names step])
  case (step a)
  have "b = a \<or> \<not> chain_stops F I m a \<and> b \<in> set (visits F I m (lnext F I m a))"
    using step(2) by (subst (asm) visits_rec [OF assms(1)]) (simp split: if_splits)
  then show ?case
    using step(1) lnext_gt [OF assms(1), of a I m] by auto
qed

text \<open>A variable of the chain splits it.\<close>

lemma visits_split:
  assumes "format_ok F" "b \<in> set (visits F I m a)"
  shows "\<exists>pre. visits F I m a = pre @ visits F I m b \<and> (\<forall>x \<in> set pre. x < b)"
  using assms(2)
proof (induction a rule: visits_induct [OF assms(1), where I = I and m = m, case_names step])
  case (step a)
  show ?case
  proof (cases "a = b")
    case True
    then show ?thesis
      by (intro exI [of _ "[]"]) simp
  next
    case False
    then have n: "\<not> chain_stops F I m a" "b \<in> set (visits F I m (lnext F I m a))"
      using step(2) by (subst (asm) visits_rec [OF assms(1)]; simp split: if_splits)+
    then obtain pre where "visits F I m (lnext F I m a) = pre @ visits F I m b" "\<forall>x \<in> set pre. x < b"
      using step(1) by blast
    moreover have "a < b"
      using visits_ge [OF assms(1) n(2)] lnext_gt [OF assms(1), of a I m] by simp
    ultimately show ?thesis
      using n(1) by (intro exI [of _ "a # pre"]) (subst visits_rec [OF assms(1)], simp)
  qed
qed

section \<open>The physical walk is the logical walk\<close>

text \<open>A store that can be searched, and the addresses the search may reach.\<close>

definition search_ok :: "var_format \<Rightarrow> VARIABLE_STORE_INFO \<Rightarrow> mem \<Rightarrow> nat \<Rightarrow> bool" where
  "search_ok F I m name \<longleftrightarrow>
     format_ok F \<and> VariableStoreHeader I \<noteq> None \<and> 0 < store_start F I \<and> ftw_ok F I m name"

abbreviation reached :: "var_format \<Rightarrow> VARIABLE_STORE_INFO \<Rightarrow> mem \<Rightarrow> nat \<Rightarrow> bool" where
  "reached F I m a \<equiv> a \<in> set (visits F I m (store_start F I))"

lemma search_okD:
  assumes "search_ok F I m name"
  shows "format_ok F" "0 < store_start F I" "ftw_ok F I m name"
  using assms by (simp_all add: search_ok_def)

lemma ftw_okD:
  assumes "search_ok F I m name" "FtwLastWriteData I = Some w" "reached F I m a"
  shows "TargetAddress w \<le> SpareAddress w" "store_start F I < TargetAddress w" "TargetAddress w < store_end F I m"
    "HEADER_ALIGN F (x + (SpareAddress w - TargetAddress w)) = HEADER_ALIGN F x + (SpareAddress w - TargetAddress w)"
    "a < TargetAddress w \<Longrightarrow> a + GetVariableHeaderSize F (AuthFlag I) < TargetAddress w"
    "\<not> (name < TargetAddress w \<and> TargetAddress w < name + lname_size F I m a)"
  using assms by (auto simp: search_ok_def ftw_ok_def lname_def)

lemma phys_ge: "search_ok F I m name \<Longrightarrow> a \<le> phys I a"
  by (auto simp: search_ok_def ftw_ok_def phys_def split: option.splits)

lemma phys_mono: "search_ok F I m name \<Longrightarrow> a < b \<Longrightarrow> phys I a < phys I b"
  by (auto simp: search_ok_def ftw_ok_def phys_def split: option.splits)

lemma phys_start: "search_ok F I m name \<Longrightarrow> phys I (store_start F I) = store_start F I"
  by (auto simp: search_ok_def ftw_ok_def phys_def split: option.splits)

lemma reached_pos: "search_ok F I m name \<Longrightarrow> reached F I m a \<Longrightarrow> 0 < a"
  using visits_ge [of F a I m "store_start F I"] by (auto simp: search_ok_def)

lemma rd_phys:
  assumes "search_ok F I m name" "reached F I m a" "k \<le> GetVariableHeaderSize F (AuthFlag I)"
  shows "rd m (phys I a) k = rd (view I m) a k"
proof (cases "FtwLastWriteData I")
  case None
  then show ?thesis
    by (simp add: phys_def view_def)
next
  case (Some w)
  note d = ftw_okD [OF assms(1) Some assms(2)]
  show ?thesis
    using Some d(1,5) assms(3) by (intro nth_equalityI) (auto simp: phys_def view_def add.assoc)
qed

lemma header_phys:
  assumes "search_ok F I m name" "reached F I m a" "auth = False \<or> auth = AuthFlag I"
  shows "header_at F auth m (phys I a) = header_at F auth (view I m) a"
proof -
  have "plain_size F \<le> GetVariableHeaderSize F (AuthFlag I)"
    using assms(1) by (simp add: search_ok_def format_ok_def GetVariableHeaderSize_def)
  then show ?thesis
    using rd_phys [OF assms(1,2)] assms(3) by (auto simp: header_at_def GetVariableHeaderSize_def)
qed

lemma GetVariableHeader_phys:
  assumes "search_ok F I (bv_mem st) name" "reached F I (bv_mem st) a"
  shows "GetVariableHeader F I st (phys I a) = (st, phys I a, \<not> chain_stops F I (bv_mem st) a)"
proof -
  let ?m = "bv_mem st"
  have pos: "phys I a \<noteq> 0"
    using reached_pos [OF assms] phys_ge [OF assms(1), of a] by simp
  obtain vs where vs: "VariableStoreHeader I = Some vs"
    using assms(1) by (auto simp: search_ok_def)
  have valid: "IsValidVariableHeader F ?m (phys I a) = (StartId (lheader F I ?m a) = VARIABLE_DATA F)"
    using header_phys [OF assms, of False] pos by (simp add: IsValidVariableHeader_def lheader_def)
  show ?thesis
  proof (cases "FtwLastWriteData I")
    case None
    then show ?thesis
      using pos vs valid by (auto simp: GetVariableHeader_def Let_def phys_def chain_stops_def store_end_def)
  next
    case (Some w)
    note d = ftw_okD [OF assms(1) Some assms(2)]
    show ?thesis
      using pos vs valid Some d(1,3,5)
      by (auto simp: GetVariableHeader_def Let_def phys_def chain_stops_def store_end_def)
  qed
qed

lemma sizes_phys:
  assumes "search_ok F I m name" "reached F I m a"
  shows "NameSizeOfVariable F m (phys I a) (AuthFlag I) = lname_size F I m a"
    "DataSizeOfVariable F m (phys I a) (AuthFlag I) = DataSizeOfVariable F (view I m) a (AuthFlag I)"
    "GetVendorGuid F m (phys I a) (AuthFlag I) = GetVendorGuid F (view I m) a (AuthFlag I)"
  using header_phys [OF assms, of "AuthFlag I"]
  by (simp_all add: NameSizeOfVariable_def DataSizeOfVariable_def lname_size_def GetVendorGuid_def)

lemma GetNextVariablePtr_phys:
  assumes "search_ok F I m name" "reached F I m a"
  shows "GetNextVariablePtr F I m (phys I a) (phys I a) = phys I (lnext F I m a)"
proof -
  define n where "n = GetVariableHeaderSize F (AuthFlag I) + lname_size F I m a + GET_PAD_SIZE F (lname_size F I m a) +
      DataSizeOfVariable F (view I m) a (AuthFlag I) + GET_PAD_SIZE F (DataSizeOfVariable F (view I m) a (AuthFlag I))"
  have next_val: "lnext F I m a = HEADER_ALIGN F (a + n)"
    by (simp add: lnext_def GetNextVariablePtr_def GetVariableDataPtr_def GetVariableNamePtr_def n_def lname_size_def add.assoc)
  have val: "GetVariableDataPtr F m (phys I a) (phys I a) (AuthFlag I) + DataSizeOfVariable F m (phys I a) (AuthFlag I) +
      GET_PAD_SIZE F (DataSizeOfVariable F m (phys I a) (AuthFlag I)) = phys I a + n"
    by (simp add: GetVariableDataPtr_def GetVariableNamePtr_def n_def sizes_phys [OF assms] add.assoc)
  have up: "a < lnext F I m a"
    by (rule lnext_gt) (use assms(1) in \<open>simp add: search_ok_def\<close>)
  show ?thesis
  proof (cases "FtwLastWriteData I")
    case None
    then show ?thesis
      using val next_val by (simp add: GetNextVariablePtr_def phys_def)
  next
    case (Some w)
    note d = ftw_okD [OF assms(1) Some assms(2)]
    show ?thesis
    proof (cases "a < TargetAddress w")
      case True
      then show ?thesis
        using Some val next_val by (simp add: GetNextVariablePtr_def phys_def)
    next
      case False
      then have "\<not> phys I a < TargetAddress w"
        using Some d(1) by (simp add: phys_def)
      then have "GetNextVariablePtr F I m (phys I a) (phys I a) = HEADER_ALIGN F (phys I a + n)"
        using Some val by (simp add: GetNextVariablePtr_def Let_def)
      also have "phys I a + n = a + n + (SpareAddress w - TargetAddress w)"
        using Some False d(1) by (simp add: phys_def)
      also have "HEADER_ALIGN F (a + n + (SpareAddress w - TargetAddress w)) =
          HEADER_ALIGN F (a + n) + (SpareAddress w - TargetAddress w)"
        by (rule d(4))
      also have "\<dots> = phys I (lnext F I m a)"
        using Some next_val False up d(1) by (simp add: phys_def)
      finally show ?thesis .
    qed
  qed
qed

lemma CompareVariableName_phys:
  assumes "search_ok F I m name" "reached F I m a"
  shows "CompareVariableName I m name (GetVariableNamePtr F (phys I a) (AuthFlag I)) (lname_size F I m a) =
    (rd m name (lname_size F I m a) = rd (view I m) (lname F I a) (lname_size F I m a))"
proof (cases "FtwLastWriteData I")
  case None
  then show ?thesis
    by (simp add: CompareVariableName_def phys_def view_def lname_def GetVariableNamePtr_def)
next
  case (Some w)
  note d = ftw_okD [OF assms(1) Some assms(2)]
  let ?n = "lname_size F I m a" and ?b = "lname F I a"
  show ?thesis
  proof (cases "a < TargetAddress w")
    case True
    then have b: "?b < TargetAddress w" "GetVariableNamePtr F (phys I a) (AuthFlag I) = ?b"
      using d(5) Some by (simp_all add: lname_def GetVariableNamePtr_def phys_def)
    show ?thesis
    proof (cases "TargetAddress w < ?b + ?n")
      case True
      let ?p = "TargetAddress w - ?b"
      have n: "?n = ?p + (?n - ?p)"
        using True b(1) by simp
      have v1: "rd (view I m) ?b ?p = rd m ?b ?p"
        using Some b(1) by (intro rd_cong) (simp add: view_def)
      have v2: "rd (view I m) (?b + ?p) (?n - ?p) = rd m (SpareAddress w) (?n - ?p)"
        using Some b(1) by (intro nth_equalityI) (simp_all add: view_def)
      have "(rd m name ?n = rd (view I m) ?b ?n) \<longleftrightarrow>
          rd m name ?p = rd m ?b ?p \<and> rd m (name + ?p) (?n - ?p) = rd m (SpareAddress w) (?n - ?p)"
        by (subst (1 2) n) (simp add: rd_add v1 v2)
      then show ?thesis
        using Some d(6) b True by (auto simp: CompareVariableName_def Let_def)
    next
      case False
      then have "rd (view I m) ?b ?n = rd m ?b ?n"
        using Some by (intro rd_cong) (simp add: view_def)
      then show ?thesis
        using Some d(6) b False by (auto simp: CompareVariableName_def)
    qed
  next
    case False
    then have "rd (view I m) ?b ?n = rd m (GetVariableNamePtr F (phys I a) (AuthFlag I)) ?n"
      using Some by (intro nth_equalityI) (simp_all add: view_def phys_def lname_def GetVariableNamePtr_def add.assoc)
    moreover have "\<not> GetVariableNamePtr F (phys I a) (AuthFlag I) < TargetAddress w"
      using Some False d(1) by (simp add: phys_def GetVariableNamePtr_def)
    ultimately show ?thesis
      using Some d(6) by (auto simp: CompareVariableName_def)
  qed
qed

text \<open>No variable with the vendor GUID searched for has an empty name: the \<open>ASSERT\<close> of the comparison.\<close>

definition names_ok :: "var_format \<Rightarrow> VARIABLE_STORE_INFO \<Rightarrow> mem \<Rightarrow> nat \<Rightarrow> u8 list \<Rightarrow> bool" where
  "names_ok F I m name guid \<longleftrightarrow>
     rd m name 2 = [0, 0] \<or>
     (\<forall>a \<in> set (visits F I m (store_start F I)).
        live_at F I m a \<and> guid = GetVendorGuid F (view I m) a (AuthFlag I) \<longrightarrow> lname_size F I m a \<noteq> 0)"

lemma CompareWithValidVariable_phys:
  assumes "search_ok F I m name" "names_ok F I m name guid" "reached F I m a" "live_at F I m a"
  shows "CompareWithValidVariable F I m (phys I a) (phys I a) name guid = Some (lmatch F I m name guid a)"
  using assms(2-4) CompareVariableName_phys [OF assms(1,3)]
  by (auto simp: CompareWithValidVariable_def lmatch_def names_ok_def assert_that_def sizes_phys [OF assms(1,3)])

lemma state_phys:
  assumes "search_ok F I m name" "reached F I m a"
  shows "is_added F m (phys I a) \<longleftrightarrow> vh_State (lheader F I m a) = VAR_ADDED F"
    "is_in_deleted F m (phys I a) \<longleftrightarrow> vh_State (lheader F I m a) = VAR_IN_DELETED_TRANSITION F AND VAR_ADDED F"
  using header_phys [OF assms, of False] by (simp_all add: is_added_def is_in_deleted_def lheader_def)

section \<open>The index table\<close>

text \<open>The addresses that distances from \<open>b\<close> on describe, and recording distances.\<close>

fun place :: "nat \<Rightarrow> nat list \<Rightarrow> nat list" where
  "place b [] = []"
| "place b (d # ds) = (b + d) # place (b + d) ds"

definition add_index :: "nat list \<Rightarrow> bv_state \<Rightarrow> bv_state" where
  "add_index ds st = st\<lparr>mVariableIndexTable := (mVariableIndexTable st)
     \<lparr>ix_Index := ix_Index (mVariableIndexTable st) @ ds\<rparr>\<rparr>"

lemma add_index_simps [simp]:
  "add_index [] st = st" "add_index es (add_index ds st) = add_index (ds @ es) st"
  "bv_mem (add_index ds st) = bv_mem st"
  "ix_Index (mVariableIndexTable (add_index ds st)) = ix_Index (mVariableIndexTable st) @ ds"
  "ix_StartPtr (mVariableIndexTable (add_index ds st)) = ix_StartPtr (mVariableIndexTable st)"
  "ix_GoneThrough (mVariableIndexTable (add_index ds st)) = ix_GoneThrough (mVariableIndexTable st)"
  by (simp_all add: add_index_def)

lemma place_append: "place b (ds @ es) = place b ds @ place (last (b # place b ds)) es"
  by (induction ds arbitrary: b) auto

abbreviation live_from :: "var_format \<Rightarrow> VARIABLE_STORE_INFO \<Rightarrow> mem \<Rightarrow> nat \<Rightarrow> nat list" where
  "live_from F I m a \<equiv> filter (live_at F I m) (visits F I m a)"

text \<open>The choice among live variables, with the pointer \<open>InDeletedVariable\<close> so far.\<close>

fun pick :: "var_format \<Rightarrow> VARIABLE_STORE_INFO \<Rightarrow> mem \<Rightarrow> nat \<Rightarrow> u8 list \<Rightarrow> nat \<Rightarrow> nat list \<Rightarrow> nat + nat" where
  "pick F I m name guid d [] = Inr d"
| "pick F I m name guid d (a # as) =
     (if lsettled F I m name guid a then Inl (phys I a)
      else pick F I m name guid (if lmatch F I m name guid a then phys I a else d) as)"

lemma live_from_rec:
  assumes "format_ok F"
  shows "live_from F I m a =
    (if chain_stops F I m a then [] else (if live_at F I m a then [a] else []) @ live_from F I m (lnext F I m a))"
  by (subst visits_rec [OF assms]) (simp add: live_at_def)

lemma find_walk_ok:
  assumes ok: "search_ok F I m name" "names_ok F I m name guid"
  shows "reached F I m a \<Longrightarrow> bv_mem st = m \<Longrightarrow> store_end F I m - a < fuel \<Longrightarrow> prv \<le> phys I a \<Longrightarrow>
    length (ix_Index (mVariableIndexTable st)) \<le> index_max F \<Longrightarrow>
    \<exists>new rest stop'. find_walk fuel F I name guid (phys I a) prv d stop st =
        Some (add_index new st, case pick F I m name guid d (live_from F I m a) of
                                  Inl v \<Rightarrow> Inl v | Inr d \<Rightarrow> Inr (d, stop')) \<and>
      map (phys I) (live_from F I m a) = place prv new @ rest \<and>
      length (ix_Index (mVariableIndexTable (add_index new st))) \<le> index_max F \<and>
      (stop \<or> \<not> IndexTable I \<longrightarrow> new = []) \<and>
      (IndexTable I \<and> \<not> stop' \<and> (\<exists>d'. pick F I m name guid d (live_from F I m a) = Inr d') \<longrightarrow> rest = [] \<and> \<not> stop)"
proof (induction fuel arbitrary: a st prv d stop)
  case 0
  then show ?case by simp
next
  case (Suc fuel)
  note F = search_okD(1) [OF ok(1)]
  let ?ix = "mVariableIndexTable st" and ?next = "lnext F I m a" and ?L = "live_from F I m"
  have hdr: "GetVariableHeader F I st (phys I a) = (st, phys I a, \<not> chain_stops F I m a)"
    using GetVariableHeader_phys [of F I st name a] ok(1) Suc.prems(1,2) by simp
  show ?case
  proof (cases "chain_stops F I m a")
    case True
    then have "?L a = []"
      by (subst live_from_rec [OF F]) simp
    then show ?thesis
      using hdr True Suc.prems(5) by (intro exI [of _ "[]"] exI [of _ stop]) auto
  next
    case go: False
    have next_reached: "reached F I m ?next"
      by (rule visits_next [OF F Suc.prems(1) go])
    have closer: "store_end F I m - ?next < fuel"
      using lnext_closer [OF F go] Suc.prems(3) by simp
    have step: "phys I a < phys I ?next"
      by (rule phys_mono [OF ok(1) lnext_gt [OF F]])
    have nxt: "GetNextVariablePtr F I m (phys I a) (phys I a) = phys I ?next"
      by (rule GetNextVariablePtr_phys [OF ok(1) Suc.prems(1)])
    note state = state_phys [OF ok(1) Suc.prems(1)]
    show ?thesis
    proof (cases "live_at F I m a")
      case dead: False
      have L: "?L a = ?L ?next"
        using go dead by (subst live_from_rec [OF F]) simp
      obtain new rest stop' where
        "find_walk fuel F I name guid (phys I ?next) prv d stop st =
          Some (add_index new st, case pick F I m name guid d (?L ?next) of Inl v \<Rightarrow> Inl v | Inr d \<Rightarrow> Inr (d, stop'))"
        "map (phys I) (?L ?next) = place prv new @ rest"
        "length (ix_Index (mVariableIndexTable (add_index new st))) \<le> index_max F"
        "stop \<or> \<not> IndexTable I \<longrightarrow> new = []"
        "IndexTable I \<and> \<not> stop' \<and> (\<exists>d'. pick F I m name guid d (?L ?next) = Inr d') \<longrightarrow> rest = [] \<and> \<not> stop"
        using Suc.IH [OF next_reached Suc.prems(2) closer, of prv d stop] step Suc.prems(4,5) by auto
      moreover have "\<not> is_added F m (phys I a) \<and> \<not> is_in_deleted F m (phys I a)"
        using go dead by (simp add: state live_at_def)
      ultimately show ?thesis
        using hdr go nxt Suc.prems(2) unfolding L by (intro exI [of _ new] exI [of _ rest] exI [of _ stop']) auto
    next
      case live: True
      have L: "?L a = a # ?L ?next"
        using go live by (subst live_from_rec [OF F]) simp
      have lv: "is_added F m (phys I a) \<or> is_in_deleted F m (phys I a)"
        using live by (auto simp: state live_at_def)
      have cmp: "CompareWithValidVariable F I m (phys I a) (phys I a) name guid = Some (lmatch F I m name guid a)"
        by (rule CompareWithValidVariable_phys [OF ok Suc.prems(1) live])
      have settled: "lsettled F I m name guid a = (lmatch F I m name guid a \<and> \<not> is_in_deleted F m (phys I a))"
        by (simp add: lsettled_def state)
      let ?dist = "phys I a - prv"
      define rec where "rec = (IndexTable I \<and> \<not> stop \<and> \<not> (0xFFFF < ?dist \<or> index_max F \<le> length (ix_Index ?ix)))"
      define new0 where "new0 = (if rec then [?dist] else [])"
      define last' where "last' = (if rec then phys I a else prv)"
      define stop1 where "stop1 = (if IndexTable I then \<not> rec else stop)"
      have recorded: "record_index F (IndexTable I) (phys I a) prv stop st = (add_index new0 st, last', stop1)"
        by (auto simp: record_index_def Let_def rec_def new0_def last'_def stop1_def add_index_def)
      have len0: "length (ix_Index (mVariableIndexTable (add_index new0 st))) \<le> index_max F"
        using Suc.prems(5) by (auto simp: new0_def rec_def)
      have placed: "place prv new0 = (if rec then [phys I a] else [])" "rec \<Longrightarrow> List.last (prv # place prv new0) = phys I a"
        using Suc.prems(4) by (auto simp: new0_def)
      show ?thesis
      proof (cases "lsettled F I m name guid a")
        case True
        show ?thesis
          using hdr go lv recorded cmp settled True Suc.prems(2) len0 placed(1) unfolding L
          by (intro exI [of _ new0] exI [of _ "if rec then map (phys I) (?L ?next) else phys I a # map (phys I) (?L ?next)"]
                exI [of _ stop1]) (auto simp: new0_def rec_def)
      next
        case False
        let ?d = "if lmatch F I m name guid a then phys I a else d"
        have le: "last' \<le> phys I ?next" and mem: "bv_mem (add_index new0 st) = m"
          using step Suc.prems(2,4) by (simp_all add: last'_def)
        obtain new rest stop' where IH:
          "find_walk fuel F I name guid (phys I ?next) last' ?d stop1 (add_index new0 st) =
            Some (add_index new (add_index new0 st),
                  case pick F I m name guid ?d (?L ?next) of Inl v \<Rightarrow> Inl v | Inr d \<Rightarrow> Inr (d, stop'))"
          "map (phys I) (?L ?next) = place last' new @ rest"
          "length (ix_Index (mVariableIndexTable (add_index new (add_index new0 st)))) \<le> index_max F"
          "stop1 \<or> \<not> IndexTable I \<longrightarrow> new = []"
          "IndexTable I \<and> \<not> stop' \<and> (\<exists>d'. pick F I m name guid ?d (?L ?next) = Inr d') \<longrightarrow> rest = [] \<and> \<not> stop1"
          using Suc.IH [OF next_reached mem closer le len0, of ?d stop1] by blast
        have walk: "find_walk (Suc fuel) F I name guid (phys I a) prv d stop st =
            Some (add_index (new0 @ new) st,
                  case pick F I m name guid d (?L a) of Inl v \<Rightarrow> Inl v | Inr d \<Rightarrow> Inr (d, stop'))"
          using hdr go lv recorded cmp settled False Suc.prems(2) nxt IH(1) unfolding L by auto
        have placing: "map (phys I) (?L a) = place prv (new0 @ new) @ (if rec then rest else phys I a # map (phys I) (?L ?next))"
        proof (cases rec)
          case True
          then show ?thesis
            using IH(2) placed unfolding L place_append by (simp add: last'_def)
        next
          case False
          then have "new0 = []" "new = []"
            using IH(4) by (auto simp: new0_def stop1_def)
          then show ?thesis
            using False unfolding L by simp
        qed
        have pk: "pick F I m name guid d (?L a) = pick F I m name guid ?d (?L ?next)"
          using False unfolding L by simp
        have "length (ix_Index (mVariableIndexTable (add_index (new0 @ new) st))) \<le> index_max F"
          using IH(3) by simp
        moreover have "stop \<or> \<not> IndexTable I \<longrightarrow> new0 @ new = []"
          using IH(4) by (auto simp: new0_def rec_def stop1_def)
        moreover have "IndexTable I \<and> \<not> stop' \<and> (\<exists>d'. pick F I m name guid d (?L a) = Inr d') \<longrightarrow>
            (if rec then rest else phys I a # map (phys I) (?L ?next)) = [] \<and> \<not> stop"
          using IH(5) unfolding pk by (auto simp: rec_def stop1_def)
        ultimately show ?thesis
          using walk placing by blast
      qed
    qed
  qed
qed

lemma find_index_ok:
  assumes ok: "search_ok F I m name" "names_ok F I m name guid"
  shows "bv_mem st = m \<Longrightarrow> place (ix_StartPtr (mVariableIndexTable st) + Offset) ds = map (phys I) as \<Longrightarrow>
    \<forall>a \<in> set as. reached F I m a \<and> live_at F I m a \<Longrightarrow> Index + length ds \<le> index_max F \<Longrightarrow>
    find_index F I name guid Index Offset d mx h st ds =
      Some (st, case pick F I m name guid d as of
                  Inl v \<Rightarrow> Inl v
                | Inr d \<Rightarrow> Inr (d, if as = [] then mx else phys I (last as), if as = [] then h else phys I (last as)))"
proof (induction ds arbitrary: as Offset Index d mx h)
  case Nil
  then show ?case by simp
next
  case (Cons x ds)
  obtain a bs where as: "as = a # bs" "ix_StartPtr (mVariableIndexTable st) + (Offset + x) = phys I a"
    "place (phys I a) ds = map (phys I) bs"
    using Cons.prems(2) by (cases as) (auto simp: add.assoc)
  have a: "reached F I m a" "live_at F I m a"
    using Cons.prems(3) as(1) by auto
  have hdr: "GetVariableHeader F I st (phys I a) = (st, phys I a, True)"
    using GetVariableHeader_phys [of F I st name a] ok(1) a Cons.prems(1) by (simp add: live_at_def)
  have cmp: "CompareWithValidVariable F I m (phys I a) (phys I a) name guid = Some (lmatch F I m name guid a)"
    by (rule CompareWithValidVariable_phys [OF ok a])
  have settled: "lsettled F I m name guid a = (lmatch F I m name guid a \<and> \<not> is_in_deleted F m (phys I a))"
    by (simp add: lsettled_def state_phys [OF ok(1) a(1)])
  have IH: "find_index F I name guid (Suc Index) (Offset + x) d' (phys I a) (phys I a) st ds =
      Some (st, case pick F I m name guid d' bs of
                  Inl v \<Rightarrow> Inl v
                | Inr d \<Rightarrow> Inr (d, if bs = [] then phys I a else phys I (last bs), if bs = [] then phys I a else phys I (last bs)))" for d'
    by (rule Cons.IH) (use Cons.prems as in auto)
  show ?case
    using hdr cmp settled IH as(1,2) Cons.prems(1,4)
    by (auto simp: assert_that_def Let_def split: sum.splits)
qed

lemma pick_append:
  "pick F I m name guid d (xs @ ys) = (case pick F I m name guid d xs of Inl v \<Rightarrow> Inl v | Inr d' \<Rightarrow> pick F I m name guid d' ys)"
  by (induction xs arbitrary: d) auto

lemma pick_find:
  "pick F I m name guid d xs = (case List.find (lsettled F I m name guid) xs of
     Some a \<Rightarrow> Inl (phys I a)
   | None \<Rightarrow> Inr (case filter (lmatch F I m name guid) xs of [] \<Rightarrow> d | as \<Rightarrow> phys I (last as)))"
  by (induction xs arbitrary: d) (auto split: list.splits option.splits)

lemma pick_Inl: "pick F I m name guid d xs = Inl v \<Longrightarrow> \<exists>a \<in> set xs. v = phys I a"
  by (induction xs arbitrary: d) (auto split: if_splits)

text \<open>The index table describes an initial segment of the live variables, and all of them once gone through.\<close>

definition index_ok :: "var_format \<Rightarrow> VARIABLE_STORE_INFO \<Rightarrow> bv_state \<Rightarrow> bool" where
  "index_ok F I st \<longleftrightarrow>
     (let ix = mVariableIndexTable st; start = store_start F I
      in length (ix_Index ix) \<le> index_max F \<and>
         (IndexTable I \<longrightarrow> ix_StartPtr ix = start \<and>
            (\<exists>rest. map (phys I) (live_from F I (bv_mem st) start) = place start (ix_Index ix) @ rest \<and>
                    (ix_GoneThrough ix \<longrightarrow> rest = []))))"

lemma live_reached: "a \<in> set (live_from F I m (store_start F I)) \<Longrightarrow> reached F I m a \<and> live_at F I m a"
  by simp

lemma live_after:
  assumes "format_ok F" "live_from F I m (store_start F I) = as @ ys" "as \<noteq> []"
  shows "live_from F I m (lnext F I m (last as)) = ys"
proof -
  let ?b = "last as"
  have "?b \<in> set (live_from F I m (store_start F I))"
    using assms(2,3) by simp
  then have b: "reached F I m ?b" "live_at F I m ?b"
    by (simp_all only: set_filter mem_Collect_eq)
  obtain pre where pre: "visits F I m (store_start F I) = pre @ visits F I m ?b" "\<forall>x \<in> set pre. x < ?b"
    using visits_split [OF assms(1) b(1)] by blast
  have "live_from F I m ?b = ?b # live_from F I m (lnext F I m ?b)"
    using b(2) by (subst live_from_rec [OF assms(1)]) (simp add: live_at_def)
  moreover have "as @ ys = butlast as @ ?b # ys"
    using append_butlast_last_id [OF assms(3)] by (metis append.assoc append_Cons append_Nil)
  ultimately have "butlast as @ ?b # ys = filter (live_at F I m) pre @ ?b # live_from F I m (lnext F I m ?b)"
    using assms(2) pre(1) by (metis filter_append)
  moreover have "?b \<notin> set (filter (live_at F I m) pre)"
    using pre(2) by auto
  moreover have "?b \<notin> set (live_from F I m (lnext F I m ?b))"
    using visits_ge [OF assms(1), of ?b I m "lnext F I m ?b"] lnext_gt [OF assms(1), of ?b I m] by auto
  ultimately show ?thesis
    by (metis append_Cons_eq_iff)
qed

lemma length_place [simp]: "length (place b ds) = length ds"
  by (induction ds arbitrary: b) auto

text \<open>The search returns what the specification says, and keeps the table sound.\<close>

lemma FindVariableEx_ok:
  assumes ok: "search_ok F I (bv_mem st) name" "names_ok F I (bv_mem st) name guid" "index_ok F I st"
    and vs: "VariableStoreHeader I = Some vs" "GetVariableStoreStatus F (bv_mem st) vs = EfiValid"
      "vs_Size (store_at F (bv_mem st) vs) \<noteq> - 1"
    and fuel: "store_end F I (bv_mem st) < fuel"
  shows "\<exists>st' found. FindVariableEx fuel F I st name guid track =
      Some (st', \<lparr>CurrPtr = found, StartPtr = store_start F I, EndPtr = store_end F I (bv_mem st)\<rparr>, found_or_not found) \<and>
    found = (case lookup_var F I (bv_mem st) name guid of None \<Rightarrow> 0 | Some a \<Rightarrow> phys I a) \<and>
    bv_mem st' = bv_mem st \<and> index_ok F I st'"
proof -
  define m where "m = bv_mem st"
  define start where "start = store_start F I"
  define L where "L = live_from F I m start"
  define ix where "ix = (if IndexTable I then ix_Index (mVariableIndexTable st) else [])"
  note F = search_okD(1) [OF ok(1)]
  have start: "GetStartPointer F vs = start" "GetEndPointer F m vs = store_end F I m" "0 < start" "phys I start = start"
    "reached F I m start"
    using vs(1) search_okD(2) [OF ok(1)] phys_start [OF ok(1)] visits_self [OF F]
    by (simp_all add: start_def store_start_def store_end_def m_def)
  have not_erased: "NOT (vs_Size (store_at F m vs)) \<noteq> 0"
    using vs(3) by (metis m_def bit.compl_zero bit.double_compl)
  obtain rest where rest: "map (phys I) L = place start ix @ rest"
    "IndexTable I \<and> ix_GoneThrough (mVariableIndexTable st) \<longrightarrow> rest = []" and len: "length (ix_Index (mVariableIndexTable st)) \<le> index_max F"
  proof (cases "IndexTable I")
    case True
    then show ?thesis
      using ok(3) that by (auto simp: index_ok_def Let_def ix_def L_def m_def start_def)
  next
    case False
    then show ?thesis
      using ok(3) that by (auto simp: index_ok_def Let_def ix_def)
  qed
  define as where "as = take (length ix) L"
  define ys where "ys = drop (length ix) L"
  have L: "L = as @ ys" and as: "map (phys I) as = place start ix" and ys: "map (phys I) ys = rest"
    using rest(1) by (simp_all add: as_def ys_def take_map [symmetric] drop_map [symmetric])
  have as_live: "\<forall>a \<in> set as. reached F I m a \<and> live_at F I m a"
  proof
    fix a assume "a \<in> set as"
    then have "a \<in> set L"
      using L by simp
    then show "reached F I m a \<and> live_at F I m a"
      unfolding L_def start_def by simp
  qed
  have found: "(case pick F I m name guid 0 L of Inl v \<Rightarrow> v | Inr d \<Rightarrow> d) =
      (case lookup_var F I m name guid of None \<Rightarrow> 0 | Some a \<Rightarrow> phys I a)"
    by (auto simp: pick_find lookup_var_def L_def start_def Let_def split: option.splits list.splits)
  have Inl_pos: "0 < v" if "pick F I m name guid d xs = Inl v" "set xs \<subseteq> set L" for d xs v
  proof -
    have "\<exists>a \<in> set L. v = phys I a"
      using pick_Inl [OF that(1)] that(2) by blast
    then obtain a where a: "a \<in> set L" "v = phys I a"
      by blast
    have "reached F I m a"
      using a(1) unfolding L_def start_def by simp
    then show ?thesis
      using reached_pos [OF ok(1), of a] phys_ge [OF ok(1), of a] a(2) by (simp add: m_def)
  qed
  have index: "find_index F I name guid 0 0 0 0 0 st ix =
      Some (st, case pick F I m name guid 0 as of
                  Inl v \<Rightarrow> Inl v
                | Inr d \<Rightarrow> Inr (d, if as = [] then 0 else phys I (last as), if as = [] then 0 else phys I (last as)))"
    unfolding m_def
  proof (rule find_index_ok [OF ok(1,2) refl _ as_live [unfolded m_def]])
    show "place (ix_StartPtr (mVariableIndexTable st) + 0) ix = map (phys I) as"
      using ok(3) as by (cases "IndexTable I") (simp_all add: index_ok_def Let_def ix_def start_def)
    show "0 + length ix \<le> index_max F"
      using len by (simp add: ix_def)
  qed
  define a0 where "a0 = (if as = [] then start else lnext F I m (last as))"
  define prv where "prv = (if as = [] then start else phys I (last as))"
  have a0: "reached F I m a0" "live_from F I m a0 = ys" "prv \<le> phys I a0" "last (start # place start ix) = prv"
  proof -
    show "reached F I m a0"
      using start(5) as_live visits_next [OF F, of "last as" I m] by (auto simp: a0_def live_at_def start_def)
    show "live_from F I m a0 = ys"
      using L live_after [OF F, of I m as ys] by (auto simp: a0_def L_def start_def)
    show "prv \<le> phys I a0"
      using phys_mono [OF ok(1) lnext_gt [OF F, of "last as" I m]] start(4) by (simp add: a0_def prv_def)
    show "last (start # place start ix) = prv"
      using as by (cases "as = []") (auto simp: prv_def last_map simp flip: as)
  qed
  have size: "store_end F I m - a0 < fuel"
    using fuel by (simp add: m_def)
  have head: "FindVariableEx fuel F I st name guid track =
      (case pick F I m name guid 0 as of
         Inl v \<Rightarrow> Some (st, \<lparr>CurrPtr = v, StartPtr = start, EndPtr = store_end F I m\<rparr>, EFI_SUCCESS)
       | Inr d \<Rightarrow>
           if IndexTable I \<and> ix_GoneThrough (mVariableIndexTable st)
           then Some (st, \<lparr>CurrPtr = d, StartPtr = start, EndPtr = store_end F I m\<rparr>, found_or_not d)
           else do {
             (st, r) \<leftarrow> find_walk fuel F I name guid (phys I a0) prv d False st;
             (case r of
                Inl v \<Rightarrow> Some (st, \<lparr>CurrPtr = v, StartPtr = start, EndPtr = store_end F I m\<rparr>, EFI_SUCCESS)
              | Inr (d, StopRecord) \<Rightarrow>
                  Some (if IndexTable I \<and> \<not> StopRecord
                        then st\<lparr>mVariableIndexTable := (mVariableIndexTable st)\<lparr>ix_GoneThrough := True\<rparr>\<rparr> else st,
                        \<lparr>CurrPtr = d, StartPtr = start, EndPtr = store_end F I m\<rparr>, found_or_not d))
           })"
  proof -
    have nz: "phys I (last as) \<noteq> 0" if "as \<noteq> []"
      using reached_pos [OF ok(1), of "last as"] phys_ge [OF ok(1), of "last as"] as_live that by (auto simp: m_def)
    have nxt: "GetNextVariablePtr F I m (phys I (last as)) (phys I (last as)) = phys I a0" if "as \<noteq> []"
      using GetNextVariablePtr_phys [OF ok(1), of "last as"] as_live that by (simp add: a0_def m_def)
    show ?thesis
      using vs(1,2) not_erased index nz nxt start(1,2,4)
      by (auto simp: FindVariableEx_def Let_def m_def [symmetric] ix_def [symmetric] a0_def prv_def
          split: sum.splits)
  qed
  have track: "start = store_start F I" "store_end F I m = store_end F I (bv_mem st)"
    by (simp_all add: start_def m_def)
  have pick_L: "pick F I m name guid 0 L = (case pick F I m name guid 0 as of Inl v \<Rightarrow> Inl v | Inr d \<Rightarrow> pick F I m name guid d ys)"
    by (simp only: L pick_append)
  show ?thesis
  proof (cases "pick F I m name guid 0 as")
    case (Inl v)
    then have "0 < v"
      using Inl_pos L by fastforce
    then show ?thesis
      using head Inl pick_L found ok(3) by (simp add: found_or_not_def m_def track)
  next
    case (Inr d)
    show ?thesis
    proof (cases "IndexTable I \<and> ix_GoneThrough (mVariableIndexTable st)")
      case True
      then have "ys = []"
        using rest(2) ys by simp
      then show ?thesis
        using head Inr True pick_L found ok(3) by (simp add: m_def track)
    next
      case False
      obtain new rest' stop' where walk: "find_walk fuel F I name guid (phys I a0) prv d False st =
            Some (add_index new st, case pick F I m name guid d ys of Inl v \<Rightarrow> Inl v | Inr d \<Rightarrow> Inr (d, stop'))"
          "map (phys I) ys = place prv new @ rest'"
          "length (ix_Index (mVariableIndexTable (add_index new st))) \<le> index_max F"
          "\<not> IndexTable I \<longrightarrow> new = []"
          "IndexTable I \<and> \<not> stop' \<and> (\<exists>d'. pick F I m name guid d ys = Inr d') \<longrightarrow> rest' = []"
        using find_walk_ok [OF ok(1,2) a0(1) [unfolded m_def] refl size [unfolded m_def] a0(3) len, of d False]
        unfolding a0(2) [unfolded m_def] m_def by blast
      note head' = head [unfolded Inr sum.case if_not_P [OF False]]
      have table: "map (phys I) L = place start (ix_Index (mVariableIndexTable (add_index new st))) @ rest'" if "IndexTable I"
        using that L as walk(2) a0(4) by (simp add: place_append ix_def)
      have "ix_StartPtr (mVariableIndexTable st) = start" if "IndexTable I"
        using ok(3) that by (simp add: index_ok_def Let_def start_def)
      note sound = this table walk(3)
      have ix1: "index_ok F I (add_index new st)"
        using sound False by (auto simp: index_ok_def Let_def L_def m_def start_def)
      have ix2: "index_ok F I ((add_index new st)\<lparr>mVariableIndexTable :=
          (mVariableIndexTable (add_index new st))\<lparr>ix_GoneThrough := True\<rparr>\<rparr>)" if "rest' = []"
        using sound that by (auto simp: index_ok_def Let_def L_def m_def start_def)
      show ?thesis
      proof (cases "pick F I m name guid d ys")
        case Inl': (Inl v)
        then have "0 < v"
          using Inl_pos [of d ys] L by fastforce
        then show ?thesis
          using head' walk(1) Inl' Inr pick_L found ix1 by (simp add: found_or_not_def m_def track)
      next
        case Inr': (Inr d')
        then show ?thesis
          using head' Inr walk(1,5) pick_L found ix1 ix2 by (auto simp: m_def track)
      qed
    qed
  qed
qed

end
