(* ===== verification/VarProps.thy ===== *)
theory VarProps
  imports VarSearch
begin

text \<open>
  The properties of the read-only variable service: the search with its cache and its two-part
  store, the service that copies a variable out, and the walk over the write records.
\<close>

section \<open>Reading a variable\<close>

definition ldata :: "var_format \<Rightarrow> VARIABLE_STORE_INFO \<Rightarrow> mem \<Rightarrow> nat \<Rightarrow> nat" where
  "ldata F I m a = GetVariableDataPtr F (view I m) a a (AuthFlag I)"

definition ldata_size :: "var_format \<Rightarrow> VARIABLE_STORE_INFO \<Rightarrow> mem \<Rightarrow> nat \<Rightarrow> nat" where
  "ldata_size F I m a = DataSizeOfVariable F (view I m) a (AuthFlag I)"

text \<open>
  The caller's buffer is apart from the header of the variable, whose attributes are read after
  the copy, and from the spare block.
\<close>

definition buffer_ok :: "var_format \<Rightarrow> VARIABLE_STORE_INFO \<Rightarrow> mem \<Rightarrow> nat \<Rightarrow> nat \<Rightarrow> bool" where
  "buffer_ok F I m a Data \<longleftrightarrow>
     (Data + ldata_size F I m a \<le> phys I a \<or> phys I a + GetVariableHeaderSize F (AuthFlag I) \<le> Data) \<and>
     (case FtwLastWriteData I of
        None \<Rightarrow> True
      | Some w \<Rightarrow> Data + ldata_size F I m a \<le> SpareAddress w \<or> SpareAddress w + ldata_size F I m a \<le> Data)"

text \<open>A store that the service finds usable, after it has been opened.\<close>

definition opened :: "var_format \<Rightarrow> nv_pcds \<Rightarrow> bv_state \<Rightarrow> bv_state \<Rightarrow> VARIABLE_STORE_INFO \<Rightarrow> nat \<Rightarrow> u8 list \<Rightarrow> nat \<Rightarrow> bool" where
  "opened F pcd st st1 I name guid fuel \<longleftrightarrow>
     GetVariableStore F pcd VariableStoreTypeNv st = Some (st1, I) \<and> bv_mem st1 = bv_mem st \<and>
     search_ok F I (bv_mem st) name \<and> names_ok F I (bv_mem st) name guid \<and> index_ok F I st1 \<and>
     (\<exists>vs. VariableStoreHeader I = Some vs \<and> GetVariableStoreStatus F (bv_mem st) vs = EfiValid \<and>
           vs_Size (store_at F (bv_mem st) vs) \<noteq> - 1) \<and>
     store_end F I (bv_mem st) < fuel"

lemma choice_member:
  assumes "(case List.find Q L of Some a \<Rightarrow> Some a
    | None \<Rightarrow> (case filter R L of [] \<Rightarrow> None | as \<Rightarrow> Some (last as))) = Some a" "\<And>x. Q x \<Longrightarrow> R x"
  shows "a \<in> set L \<and> R a"
proof (cases "List.find Q L")
  case None
  then have f: "filter R L \<noteq> []" "a = last (filter R L)"
    using assms(1) by (auto split: list.splits)
  have "last (filter R L) \<in> set (filter R L)"
    by (rule last_in_set [OF f(1)])
  then show ?thesis
    unfolding f(2) by simp
next
  case (Some b)
  have "find P xs = Some b \<Longrightarrow> b \<in> set xs \<and> P b" for P and xs :: "'a list"
    by (induction xs) (auto split: if_splits)
  from this [OF Some] show ?thesis
    using assms Some by simp
qed

lemma lookup_var_live:
  assumes "lookup_var F I m name guid = Some a"
  shows "reached F I m a" "live_at F I m a" "lmatch F I m name guid a"
proof -
  have "a \<in> set (live_from F I m (store_start F I)) \<and> lmatch F I m name guid a"
    by (rule choice_member [OF assms [unfolded lookup_var_def Let_def]]) (simp add: lsettled_def)
  then show "reached F I m a" "live_at F I m a" "lmatch F I m name guid a"
    by simp_all
qed

lemma FindVariable_ok:
  assumes "opened F pcd st st1 I name guid fuel"
  shows "\<exists>st2. FindVariable fuel F pcd st name guid = Some (st2,
        \<lparr>CurrPtr = (case lookup_var F I (bv_mem st) name guid of None \<Rightarrow> 0 | Some a \<Rightarrow> phys I a),
         StartPtr = store_start F I, EndPtr = store_end F I (bv_mem st)\<rparr>, I,
        (case lookup_var F I (bv_mem st) name guid of None \<Rightarrow> Error EFI_NOT_FOUND | Some a \<Rightarrow> EFI_SUCCESS)) \<and>
      bv_mem st2 = bv_mem st \<and> index_ok F I st2"
proof -
  obtain vs where o: "GetVariableStore F pcd VariableStoreTypeNv st = Some (st1, I)" "bv_mem st1 = bv_mem st"
    "search_ok F I (bv_mem st1) name" "names_ok F I (bv_mem st1) name guid" "index_ok F I st1"
    "VariableStoreHeader I = Some vs" "GetVariableStoreStatus F (bv_mem st1) vs = EfiValid"
    "vs_Size (store_at F (bv_mem st1) vs) \<noteq> - 1" "store_end F I (bv_mem st1) < fuel"
    using assms by (auto simp: opened_def)
  let ?found = "case lookup_var F I (bv_mem st) name guid of None \<Rightarrow> 0 | Some a \<Rightarrow> phys I a"
  obtain st2 where f: "FindVariableEx fuel F I st1 name guid no_track =
      Some (st2, \<lparr>CurrPtr = ?found, StartPtr = store_start F I, EndPtr = store_end F I (bv_mem st)\<rparr>, found_or_not ?found)"
    "bv_mem st2 = bv_mem st" "index_ok F I st2"
    using FindVariableEx_ok [OF o(3-9), of no_track] o(2) by auto
  have hob: "GetVariableStore F pcd VariableStoreTypeHob st = Some (st, no_store)"
    by (simp add: GetVariableStore_def no_store_def)
  have skip: "FindVariableEx fuel F no_store st name guid no_track = Some (st, no_track, Error EFI_INVALID_PARAMETER)"
    by (simp add: FindVariableEx_def no_store_def)
  have "0 < phys I a" if "lookup_var F I (bv_mem st) name guid = Some a" for a
    using reached_pos [OF o(3), of a] phys_ge [OF o(3), of a] lookup_var_live(1) [OF that] o(2) by simp
  then have "found_or_not ?found = (case lookup_var F I (bv_mem st) name guid of None \<Rightarrow> Error EFI_NOT_FOUND | Some a \<Rightarrow> EFI_SUCCESS)"
    by (auto simp: found_or_not_def split: option.splits)
  then show ?thesis
    using o(1) f hob skip by (auto simp: FindVariable_def split: option.splits)
qed

lemma data_phys:
  assumes "search_ok F I m name" "reached F I m a"
  shows "GetVariableDataPtr F m (phys I a) (phys I a) (AuthFlag I) = ldata F I m a + (phys I a - a)"
proof -
  have "phys I a = a + (phys I a - a)"
    using phys_ge [OF assms(1), of a] by simp
  then show ?thesis
    unfolding GetVariableDataPtr_def GetVariableNamePtr_def sizes_phys [OF assms] ldata_def lname_size_def
    by simp
qed

text \<open>Copying data that does not cross from below the target with its pointer beyond it.\<close>

lemma copy_view:
  assumes ok: "search_ok F I m name" "reached F I m a"
    and cross: "\<And>w. FtwLastWriteData I = Some w \<Longrightarrow> a < TargetAddress w \<Longrightarrow> ldata F I m a < TargetAddress w"
    and buf: "buffer_ok F I m a Data"
  shows "GetVariableNameOrData I m (ldata F I m a + (phys I a - a)) (ldata_size F I m a) Data =
    wr m Data (rd (view I m) (ldata F I m a) (ldata_size F I m a))"
proof (cases "FtwLastWriteData I")
  case None
  then show ?thesis
    by (simp add: GetVariableNameOrData_def phys_def view_def)
next
  case (Some w)
  note d = ftw_okD [OF ok(1) Some ok(2)]
  let ?p = "ldata F I m a" and ?n = "ldata_size F I m a" and ?T = "TargetAddress w" and ?S = "SpareAddress w"
  have up: "a \<le> ?p"
    by (simp add: ldata_def GetVariableDataPtr_def GetVariableNamePtr_def)
  show ?thesis
  proof (cases "a < ?T")
    case True
    then have p: "?p < ?T" "phys I a = a"
      using cross [OF Some] Some by (simp_all add: phys_def)
    show ?thesis
    proof (cases "?T < ?p + ?n")
      case split: True
      let ?k = "?T - ?p"
      have n: "?n = ?k + (?n - ?k)"
        using split p(1) by simp
      have low: "rd (view I m) ?p ?k = rd m ?p ?k"
        using Some p(1) by (intro rd_cong) (simp add: view_def)
      have high: "rd (view I m) (?p + ?k) (?n - ?k) = rd m ?S (?n - ?k)"
        using Some p(1) by (intro nth_equalityI) (simp_all add: view_def)
      have spare: "rd (wr m Data (rd m ?p ?k)) ?S (?n - ?k) = rd m ?S (?n - ?k)"
        using buf Some n by (intro rd_wr_other) (auto simp: buffer_ok_def)
      have "wr m Data (rd (view I m) ?p ?n) = wr (wr m Data (rd m ?p ?k)) (Data + ?k) (rd m ?S (?n - ?k))"
        by (subst n) (simp add: rd_add wr_append low high)
      then show ?thesis
        using Some p split spare by (simp add: GetVariableNameOrData_def Let_def)
    next
      case False
      then have "rd (view I m) ?p ?n = rd m ?p ?n"
        using Some by (intro rd_cong) (simp add: view_def)
      then show ?thesis
        using Some p False by (simp add: GetVariableNameOrData_def)
    qed
  next
    case False
    then have pa: "phys I a = ?S + (a - ?T)" "\<not> ?p + (phys I a - a) < ?T"
      using Some up by (simp_all add: phys_def)
    have "rd (view I m) ?p ?n = rd m (?p + (phys I a - a)) ?n"
      using Some pa(1) False up d(1) by (intro nth_equalityI) (simp_all add: view_def ac_simps)
    then show ?thesis
      using Some pa(2) by (simp add: GetVariableNameOrData_def)
  qed
qed

text \<open>Where the data of a variable that begins below the target begins at or beyond it, the bytes of the NV store are copied.\<close>

lemma copy_stale:
  assumes "FtwLastWriteData I = Some w" "a < TargetAddress w" "TargetAddress w \<le> ldata F I m a"
  shows "GetVariableNameOrData I m (ldata F I m a + (phys I a - a)) (ldata_size F I m a) Data =
    wr m Data (rd m (ldata F I m a) (ldata_size F I m a))"
  using assms by (simp add: GetVariableNameOrData_def phys_def)

lemma BaseGetVariable_found:
  assumes "opened F pcd st st1 I name guid fuel" "name \<noteq> 0" "rd (bv_mem st) name 2 \<noteq> [0, 0]"
    "lookup_var F I (bv_mem st) name guid = Some a" "buffer_ok F I (bv_mem st) a Data"
  shows "\<exists>st2. BaseGetVariable fuel F pcd st name (Some guid) (Some cap) Data = Some (
      if ldata_size F I (bv_mem st) a \<le> cap
      then if Data = 0 then (st2, None, Some cap, Error EFI_INVALID_PARAMETER)
           else (st2\<lparr>bv_mem := GetVariableNameOrData I (bv_mem st) (ldata F I (bv_mem st) a + (phys I a - a))
                       (ldata_size F I (bv_mem st) a) Data\<rparr>,
                 Some (vh_Attributes (lheader F I (bv_mem st) a)), Some (ldata_size F I (bv_mem st) a), EFI_SUCCESS)
      else (st2, Some (vh_Attributes (lheader F I (bv_mem st) a)), Some (ldata_size F I (bv_mem st) a),
            Error EFI_BUFFER_TOO_SMALL)) \<and>
    bv_mem st2 = bv_mem st \<and> index_ok F I st2"
proof -
  define m where "m = bv_mem st"
  have ok: "search_ok F I m name" "bv_mem st1 = m"
    using assms(1) by (simp_all add: opened_def m_def)
  note live = lookup_var_live [OF assms(4), folded m_def]
  obtain st2 where f: "FindVariable fuel F pcd st name guid =
      Some (st2, \<lparr>CurrPtr = phys I a, StartPtr = store_start F I, EndPtr = store_end F I m\<rparr>, I, EFI_SUCCESS)"
    "bv_mem st2 = m" "index_ok F I st2"
    using FindVariable_ok [OF assms(1)] assms(4) by (auto simp: m_def)
  have hdr: "GetVariableHeader F I st2 (phys I a) = (st2, phys I a, True)"
    using GetVariableHeader_phys [of F I st2 name a] ok(1) live(1,2) f(2) by (simp add: live_at_def)
  have size: "DataSizeOfVariable F m (phys I a) (AuthFlag I) = ldata_size F I m a"
    using sizes_phys(2) [OF ok(1) live(1)] by (simp add: ldata_size_def)
  have attrs: "vh_Attributes (header_at F False m (phys I a)) = vh_Attributes (lheader F I m a)"
    using header_phys [OF ok(1) live(1), of False] by (simp add: lheader_def)
  let ?copy = "GetVariableNameOrData I m (ldata F I m a + (phys I a - a)) (ldata_size F I m a) Data"
  have keep: "?copy x = m x" if "x < Data \<or> Data + ldata_size F I m a \<le> x" for x
    using that by (auto simp: GetVariableNameOrData_def Let_def wr_def split: option.splits)
  have plain: "plain_size F \<le> GetVariableHeaderSize F (AuthFlag I)"
    using ok(1) by (simp add: search_ok_def format_ok_def GetVariableHeaderSize_def)
  have "rd ?copy (phys I a) (plain_size F) = rd m (phys I a) (plain_size F)"
    using assms(5) plain by (intro rd_cong keep) (auto simp: buffer_ok_def m_def)
  then have attrs2: "vh_Attributes (header_at F False ?copy (phys I a)) = vh_Attributes (lheader F I m a)"
    using attrs by (simp add: header_at_def)
  have res: "BaseGetVariable fuel F pcd st name (Some guid) (Some cap) Data = Some (
      if ldata_size F I m a \<le> cap
      then if Data = 0 then (st2, None, Some cap, Error EFI_INVALID_PARAMETER)
           else (st2\<lparr>bv_mem := ?copy\<rparr>, Some (vh_Attributes (lheader F I m a)), Some (ldata_size F I m a), EFI_SUCCESS)
      else (st2, Some (vh_Attributes (lheader F I m a)), Some (ldata_size F I m a), Error EFI_BUFFER_TOO_SMALL))"
    using assms(2,3) f hdr size attrs attrs2 data_phys [OF ok(1) live(1)]
    by (simp add: BaseGetVariable_def Let_def m_def)
  show ?thesis
    using res f(2,3) unfolding m_def by blast
qed

section \<open>An interrupted write\<close>

text \<open>
  A store of two variables in compact formats. The target address 112 lies between the name and
  the data of the first variable, so the spare block at 200 holds the data of the first and the
  whole of the second.
\<close>

definition demo_header :: "u8 list \<Rightarrow> VARIABLE_HEADER" where
  "demo_header bs = \<lparr>StartId = ucast (bs ! 0), vh_State = bs ! 1, vh_Attributes = ucast (bs ! 2),
     vh_NameSize = ucast (bs ! 3), vh_DataSize = ucast (bs ! 4), vh_VendorGuid = [bs ! 5]\<rparr>"

definition demo_format :: var_format where
  "demo_format = \<lparr>plain_size = 6, auth_size = 6, plain_header = demo_header, auth_header = demo_header,
     store_size = 4,
     store_header = (\<lambda>bs. \<lparr>vs_Signature = [bs ! 0], vs_Size = ucast (bs ! 1), vs_Format = bs ! 2, vs_State = bs ! 3\<rparr>),
     HEADER_ALIGN = (\<lambda>x. x), GET_PAD_SIZE = (\<lambda>x. 0), VARIABLE_DATA = 0xAA, VAR_ADDED = 0x3F,
     VAR_IN_DELETED_TRANSITION = 0xFE, VARIABLE_STORE_FORMATTED = 1, VARIABLE_STORE_HEALTHY = 2,
     gEfiAuthenticatedVariableGuid = [8], gEfiVariableGuid = [7], gEdkiiWorkingBlockSignatureGuid = [6],
     gEfiSystemNvDataFvGuid = [5], fv_signature_ok = (\<lambda>m a. True), fv_guid = (\<lambda>m a. [5]),
     fv_HeaderLength = (\<lambda>m a. 10), index_max = 8, working_size = 8,
     working_header = (\<lambda>m a. \<lparr>fw_Signature = [6], fw_Valid = True, fw_Invalid = False, fw_WriteQueueSize = 0\<rparr>),
     write_header_size = 2,
     write_header = (\<lambda>m a. \<lparr>fh_Complete = (m a = 1), fh_NumberOfWrites = unat (m (a + 1)), fh_PrivateDataSize = 0\<rparr>),
     write_record_size = 4,
     write_record = (\<lambda>m a. \<lparr>fr_SpareComplete = True, fr_DestinationComplete = False, fr_RelativeOffset = 0\<rparr>),
     FTW_WRITE_TOTAL_SIZE = (\<lambda>n p. 2 + n * (4 + p)), FTW_RECORD_SIZE = (\<lambda>p. 4 + p), ftw_buffer = 400\<rparr>"

definition demo_store :: mem where
  "demo_store = wr (wr (wr (\<lambda>x. 0xFF) 100 ([7, 40, 1, 2] @ [0xAA, 0x3F, 3, 2, 4, 9] @ [97, 0] @ [1, 1, 1, 1]))
     200 ([2, 2, 2, 2] @ [0xAA, 0x3F, 3, 2, 2, 9] @ [98, 0] @ [5, 6])) 300 [98, 0, 97, 0]"

definition demo_pcds :: nv_pcds where
  "demo_pcds = \<lparr>PcdEmuVariableNvModeEnable = False, PcdVariableSize = 60, PcdVariableBase64 = 0,
     PcdVariableBase = 90, PcdFtwWorkingBase64 = 0, PcdFtwWorkingBase = 500, PcdFtwWorkingSize = 20,
     PcdFtwSpareBase64 = 0, PcdFtwSpareBase = 200, PcdFtwSpareSize = 60\<rparr>"

definition demo_ftw :: FTW_LAST_WRITE_DATA where
  "demo_ftw = \<lparr>TargetAddress = 112, SpareAddress = 200, LastWriteLength = 60\<rparr>"

definition demo_info :: VARIABLE_STORE_INFO where
  "demo_info = \<lparr>VariableStoreHeader = Some 100, IndexTable = True, FtwLastWriteData = Some demo_ftw, AuthFlag = False\<rparr>"

definition demo_state :: bv_state where
  "demo_state = \<lparr>bv_mem = demo_store, mFtwLastWriteData = demo_ftw, mFtwLastWriteDataInitialized = True,
     mVariableHeaderFtwMerged = False,
     mVariableIndexTable = \<lparr>ix_StartPtr = 0, ix_EndPtr = 0, ix_Index = [], ix_GoneThrough = False\<rparr>\<rparr>"

definition demo_state1 :: bv_state where
  "demo_state1 = demo_state\<lparr>mVariableIndexTable :=
     \<lparr>ix_StartPtr = 104, ix_EndPtr = 140, ix_Index = [], ix_GoneThrough = False\<rparr>\<rparr>"

lemma demo_bytes:
  "rd demo_store 100 4 = [7, 40, 1, 2]"
  "rd (view demo_info demo_store) 104 6 = [0xAA, 0x3F, 3, 2, 4, 9]"
  "rd (view demo_info demo_store) 110 2 = [97, 0]"
  "rd (view demo_info demo_store) 112 4 = [2, 2, 2, 2]"
  "rd (view demo_info demo_store) 116 6 = [0xAA, 0x3F, 3, 2, 2, 9]"
  "rd (view demo_info demo_store) 122 2 = [98, 0]"
  "rd (view demo_info demo_store) 124 2 = [5, 6]"
  "rd (view demo_info demo_store) 126 6 = [0xFF, 0xFF, 0xFF, 0xFF, 0xFF, 0xFF]"
  "rd demo_store 300 2 = [98, 0]" "rd demo_store 302 2 = [97, 0]" "rd demo_store 112 4 = [1, 1, 1, 1]"
  by (simp_all add: rd_def demo_store_def wr_def view_def demo_info_def demo_ftw_def upt_rec)

lemma demo_format_ok: "format_ok demo_format"
  by (simp add: format_ok_def demo_format_def)

lemma demo_bounds: "store_start demo_format demo_info = 104" "store_end demo_format demo_info demo_store = 140"
  using demo_bytes(1)
  by (simp_all add: store_start_def store_end_def demo_info_def GetStartPointer_def GetEndPointer_def store_at_def demo_format_def)

lemma demo_headers:
  "header_at demo_format auth m a = demo_header (rd m a 6)"
  by (simp add: header_at_def demo_format_def)

lemma demo_chain:
  "chain_stops demo_format demo_info demo_store 104 = False"
  "chain_stops demo_format demo_info demo_store 116 = False"
  "chain_stops demo_format demo_info demo_store 126"
  "lnext demo_format demo_info demo_store 104 = 116"
  "lnext demo_format demo_info demo_store 116 = 126"
  using demo_bytes demo_bounds
  by (simp_all add: chain_stops_def lheader_def demo_headers demo_header_def lnext_def GetNextVariablePtr_def
      GetVariableDataPtr_def GetVariableNamePtr_def GetVariableHeaderSize_def NameSizeOfVariable_def
      DataSizeOfVariable_def erased_header_def)
     (simp_all add: demo_format_def demo_info_def)

lemma demo_visits: "visits demo_format demo_info demo_store 104 = [104, 116, 126]"
  using demo_chain by (simp add: visits_rec [OF demo_format_ok, of demo_info demo_store 104]
      visits_rec [OF demo_format_ok, of demo_info demo_store 116] visits_rec [OF demo_format_ok, of demo_info demo_store 126])

lemma demo_live: "live_from demo_format demo_info demo_store 104 = [104, 116]"
  using demo_chain demo_bytes by (simp add: demo_visits live_at_def lheader_def demo_headers demo_header_def)
     (simp add: demo_format_def)

lemma demo_names: "lname_size demo_format demo_info demo_store 104 = 2" "lname_size demo_format demo_info demo_store 116 = 2"
    "lname demo_format demo_info 104 = 110" "lname demo_format demo_info 116 = 122"
  using demo_bytes by (simp_all add: lname_size_def NameSizeOfVariable_def demo_headers demo_header_def erased_header_def
      lname_def GetVariableHeaderSize_def) (simp_all add: demo_format_def)

lemma demo_match: "lmatch demo_format demo_info demo_store name [9] 104 \<longleftrightarrow> rd demo_store name 2 = [0, 0] \<or> rd demo_store name 2 = [97, 0]"
    "lmatch demo_format demo_info demo_store name [9] 116 \<longleftrightarrow> rd demo_store name 2 = [0, 0] \<or> rd demo_store name 2 = [98, 0]"
  using demo_bytes by (simp_all add: lmatch_def demo_names GetVendorGuid_def demo_headers demo_header_def)

lemma demo_settled: "lsettled demo_format demo_info demo_store name [9] a \<longleftrightarrow> lmatch demo_format demo_info demo_store name [9] a"
    if "a \<in> {104, 116}"
proof -
  have "vh_State (lheader demo_format demo_info demo_store 104) = 0x3F"
    "vh_State (lheader demo_format demo_info demo_store 116) = 0x3F"
    using demo_bytes by (simp_all add: lheader_def demo_headers demo_header_def)
  moreover have "VAR_IN_DELETED_TRANSITION demo_format AND VAR_ADDED demo_format = 0x3E"
    by (simp add: demo_format_def)
  ultimately show ?thesis
    using that by (auto simp: lsettled_def)
qed

lemma demo_lookup: "lookup_var demo_format demo_info demo_store 300 [9] = Some 116"
    "lookup_var demo_format demo_info demo_store 302 [9] = Some 104"
  using demo_bytes by (simp_all add: lookup_var_def demo_bounds demo_live demo_settled demo_match)

lemma demo_opened: "opened demo_format demo_pcds demo_state demo_state1 demo_info 300 [9] 200"
    "opened demo_format demo_pcds demo_state demo_state1 demo_info 302 [9] 200"
proof -
  have get: "GetVariableStore demo_format demo_pcds VariableStoreTypeNv demo_state = Some (demo_state1, demo_info)"
    using demo_bytes(1) by (simp add: GetVariableStore_def demo_pcds_def FaultTolerantWriteInitialize_def assert_that_def
        demo_state_def demo_state1_def demo_info_def demo_ftw_def Let_def store_at_def GetStartPointer_def GetEndPointer_def)
      (simp add: demo_format_def)
  have m: "bv_mem demo_state1 = demo_store" "bv_mem demo_state = demo_store"
    by (simp_all add: demo_state1_def demo_state_def)
  have status: "GetVariableStoreStatus demo_format demo_store 100 = EfiValid" "vs_Size (store_at demo_format demo_store 100) \<noteq> - 1"
    using demo_bytes(1) by (simp_all add: GetVariableStoreStatus_def store_at_def Let_def demo_format_def)
  have vs: "VariableStoreHeader demo_info = Some 100" "FtwLastWriteData demo_info = Some demo_ftw"
    by (simp_all add: demo_info_def)
  have ftw: "ftw_ok demo_format demo_info demo_store name" if "name \<in> {300, 302}" for name
    using that by (auto simp: ftw_ok_def vs demo_bounds demo_visits lname_def GetVariableHeaderSize_def)
      (simp_all add: demo_format_def demo_ftw_def demo_info_def)
  have names: "names_ok demo_format demo_info demo_store name [9]" for name
    by (simp add: names_ok_def demo_bounds demo_visits demo_names demo_chain live_at_def)
  have index: "index_ok demo_format demo_info demo_state1"
    by (simp add: index_ok_def demo_bounds m demo_live Let_def) (simp add: demo_state1_def)
  show "opened demo_format demo_pcds demo_state demo_state1 demo_info 300 [9] 200"
    "opened demo_format demo_pcds demo_state demo_state1 demo_info 302 [9] 200"
    using get m status vs(1) ftw names index demo_format_ok demo_bounds by (simp_all add: opened_def search_ok_def)
qed

lemma demo_data:
  "ldata demo_format demo_info demo_store 116 = 124" "ldata_size demo_format demo_info demo_store 116 = 2"
  "vh_Attributes (lheader demo_format demo_info demo_store 116) = 3"
  "ldata demo_format demo_info demo_store 104 = 112" "ldata_size demo_format demo_info demo_store 104 = 4"
  "vh_Attributes (lheader demo_format demo_info demo_store 104) = 3"
  using demo_bytes demo_names by (simp_all add: ldata_def GetVariableDataPtr_def GetVariableNamePtr_def lname_def
      lname_size_def [symmetric] ldata_size_def DataSizeOfVariable_def demo_headers demo_header_def erased_header_def lheader_def)
    (simp_all add: demo_format_def)

lemma demo_sel:
  "FtwLastWriteData demo_info = Some demo_ftw" "TargetAddress demo_ftw = 112" "SpareAddress demo_ftw = 200"
  "GetVariableHeaderSize demo_format auth = 6" "phys demo_info 104 = 104" "phys demo_info 116 = 204"
  by (simp_all add: demo_info_def demo_ftw_def GetVariableHeaderSize_def demo_format_def phys_def)

section \<open>Properties\<close>

text \<open>
  C5: On a store that opens as valid (its size not all ones, the format's alignment never moving an
  address down, the index table sound, one step of fuel per byte), the search of the variable
  service terminates and returns what the specification of the search returns: the first live
  variable of the given name and vendor that is not being deleted, or else the last one that is, or
  else \<open>EFI_NOT_FOUND\<close>. Every live variable of the vendor has a name; an empty name matches any
  variable. The index table may be empty, cover part of the store or all of it; the search writes no
  memory and leaves a table that is sound for the next search. An interrupted write may have left
  the part of the store from a target address on in the spare block. The target then lies after the
  start of the first header and before the end of the store, not above the spare block and at a
  distance the alignment keeps; the name searched for does not straddle it; and a header of the chain
  that begins below the target ends below it together with the first byte of its name. A header that
  reaches or crosses the target is excluded: the code does not redirect the pointer to its name, and
  compares the bytes that the NV store still holds.
\<close>

theorem find_variable:
  assumes "opened F pcd st st1 I name guid fuel"
  shows "\<exists>st2. FindVariable fuel F pcd st name guid = Some (st2,
        \<lparr>CurrPtr = (case lookup_var F I (bv_mem st) name guid of None \<Rightarrow> 0 | Some a \<Rightarrow> phys I a),
         StartPtr = store_start F I, EndPtr = store_end F I (bv_mem st)\<rparr>, I,
        (case lookup_var F I (bv_mem st) name guid of None \<Rightarrow> Error EFI_NOT_FOUND | Some a \<Rightarrow> EFI_SUCCESS)) \<and>
      bv_mem st2 = bv_mem st \<and> index_ok F I st2"
  by (rule FindVariable_ok [OF assms])

theorem find_variable_witness:
  "\<exists>st2. FindVariable 200 demo_format demo_pcds demo_state 300 [9] = Some (st2,
        \<lparr>CurrPtr = 204, StartPtr = 104, EndPtr = 140\<rparr>, demo_info, EFI_SUCCESS) \<and>
      bv_mem st2 = demo_store \<and> index_ok demo_format demo_info st2"
  using find_variable [OF demo_opened(1)] demo_lookup(1) demo_bounds
  by (simp add: demo_state_def phys_def demo_info_def demo_ftw_def)

text \<open>
  C12: Reading a variable with a name that is not empty copies out the variable of the specification.
  The store opens as valid (its size not all ones, the alignment never moving an address down, the
  index table sound, one step of fuel per byte), and every live variable of the vendor has a name.
  With no matching variable the result is \<open>EFI_NOT_FOUND\<close>. Otherwise a buffer that is too small gets
  the size and the attributes and \<open>EFI_BUFFER_TOO_SMALL\<close>, a NULL buffer of sufficient size is
  \<open>EFI_INVALID_PARAMETER\<close>, and a buffer that fits receives exactly the data of the logical store,
  assembled from the NV store and the spare block where an interrupted write divides it. The buffer is
  apart from the header of the variable and from the spare block. Where a write was interrupted, its
  target lies after the start of the first header and before the end of the store, not above the spare
  block and at a distance the alignment keeps; the name asked for does not straddle it. Two layouts
  are excluded, as the code does not redirect a pointer computed from a header below the target: a
  header of the chain that begins below the target and reaches or crosses it with the first byte of
  its name, and a found variable that begins below the target and has its data at or beyond it.
\<close>

theorem base_get_variable:
  assumes "opened F pcd st st1 I name guid fuel" "name \<noteq> 0" "rd (bv_mem st) name 2 \<noteq> [0, 0]"
    and "\<And>a. lookup_var F I (bv_mem st) name guid = Some a \<Longrightarrow> buffer_ok F I (bv_mem st) a Data"
    and "\<And>a w. lookup_var F I (bv_mem st) name guid = Some a \<Longrightarrow> FtwLastWriteData I = Some w \<Longrightarrow>
           a < TargetAddress w \<Longrightarrow> ldata F I (bv_mem st) a < TargetAddress w"
  shows "\<exists>st2. bv_mem st2 = bv_mem st \<and> index_ok F I st2 \<and>
    BaseGetVariable fuel F pcd st name (Some guid) (Some cap) Data = Some (
      case lookup_var F I (bv_mem st) name guid of
        None \<Rightarrow> (st2, None, Some cap, Error EFI_NOT_FOUND)
      | Some a \<Rightarrow>
          let n = ldata_size F I (bv_mem st) a; attrs = vh_Attributes (lheader F I (bv_mem st) a)
          in if cap < n then (st2, Some attrs, Some n, Error EFI_BUFFER_TOO_SMALL)
             else if Data = 0 then (st2, None, Some cap, Error EFI_INVALID_PARAMETER)
             else (st2\<lparr>bv_mem := wr (bv_mem st) Data (rd (view I (bv_mem st)) (ldata F I (bv_mem st) a) n)\<rparr>,
                   Some attrs, Some n, EFI_SUCCESS))"
proof (cases "lookup_var F I (bv_mem st) name guid")
  case None
  then show ?thesis
    using FindVariable_ok [OF assms(1)] assms(2,3) by (auto simp: BaseGetVariable_def)
next
  case (Some a)
  have "search_ok F I (bv_mem st) name"
    using assms(1) by (simp add: opened_def)
  note copy = copy_view [OF this lookup_var_live(1) [OF Some] assms(5) [OF Some] assms(4) [OF Some]]
  show ?thesis
    using BaseGetVariable_found [OF assms(1-3) Some assms(4) [OF Some], of cap] Some copy by (auto simp: Let_def)
qed

theorem base_get_variable_witness:
  "\<exists>st2. bv_mem st2 = demo_store \<and> index_ok demo_format demo_info st2 \<and>
    BaseGetVariable 200 demo_format demo_pcds demo_state 300 (Some [9]) (Some 8) 320 =
      Some (st2\<lparr>bv_mem := wr demo_store 320 [5, 6]\<rparr>, Some 3, Some 2, EFI_SUCCESS)"
proof -
  have m: "bv_mem demo_state = demo_store"
    by (simp add: demo_state_def)
  have buf: "buffer_ok demo_format demo_info demo_store 116 320"
    by (simp add: buffer_ok_def demo_data demo_sel)
  have cross: "ldata demo_format demo_info (bv_mem demo_state) a < TargetAddress w"
    if "lookup_var demo_format demo_info (bv_mem demo_state) 300 [9] = Some a" "FtwLastWriteData demo_info = Some w"
      "a < TargetAddress w" for a w
    using that demo_lookup(1) demo_sel by (auto simp: m)
  have buf: "buffer_ok demo_format demo_info (bv_mem demo_state) a 320"
    if "lookup_var demo_format demo_info (bv_mem demo_state) 300 [9] = Some a" for a
    using that buf demo_lookup(1) by (simp add: m)
  have name: "(300 :: nat) \<noteq> 0" "rd (bv_mem demo_state) 300 2 \<noteq> [0, 0]"
    using demo_bytes(9) by (simp_all add: m)
  let ?m = "bv_mem demo_state"
  have "\<exists>st2. bv_mem st2 = ?m \<and> index_ok demo_format demo_info st2 \<and>
    BaseGetVariable 200 demo_format demo_pcds demo_state 300 (Some [9]) (Some 8) 320 = Some (
      case lookup_var demo_format demo_info ?m 300 [9] of
        None \<Rightarrow> (st2, None, Some 8, Error EFI_NOT_FOUND)
      | Some a \<Rightarrow>
          let n = ldata_size demo_format demo_info ?m a; attrs = vh_Attributes (lheader demo_format demo_info ?m a)
          in if 8 < n then (st2, Some attrs, Some n, Error EFI_BUFFER_TOO_SMALL)
             else if (320 :: nat) = 0 then (st2, None, Some 8, Error EFI_INVALID_PARAMETER)
             else (st2\<lparr>bv_mem := wr ?m 320 (rd (view demo_info ?m) (ldata demo_format demo_info ?m a) n)\<rparr>,
                   Some attrs, Some n, EFI_SUCCESS))"
    by (rule base_get_variable [OF demo_opened(1) name]) (erule buf, erule (2) cross)
  then show ?thesis
    unfolding m demo_lookup(1) option.case Let_def demo_data demo_bytes(7) by simp
qed

text \<open>
  C28: Where an interrupted write leaves the header and the name of a variable below the target
  address and its data beyond it, the data pointer is not redirected to the spare block: reading
  the variable succeeds and copies the bytes that the NV store still holds at that address, not the
  bytes of the logical store.
\<close>

theorem base_get_variable_stale:
  assumes "opened F pcd st st1 I name guid fuel" "name \<noteq> 0" "rd (bv_mem st) name 2 \<noteq> [0, 0]"
    and "lookup_var F I (bv_mem st) name guid = Some a" "buffer_ok F I (bv_mem st) a Data"
    and "FtwLastWriteData I = Some w" "a < TargetAddress w" "TargetAddress w \<le> ldata F I (bv_mem st) a"
    and "ldata_size F I (bv_mem st) a \<le> cap" "Data \<noteq> 0"
  shows "\<exists>st2. BaseGetVariable fuel F pcd st name (Some guid) (Some cap) Data =
      Some (st2\<lparr>bv_mem := wr (bv_mem st) Data (rd (bv_mem st) (ldata F I (bv_mem st) a) (ldata_size F I (bv_mem st) a))\<rparr>,
            Some (vh_Attributes (lheader F I (bv_mem st) a)), Some (ldata_size F I (bv_mem st) a), EFI_SUCCESS)"
  using BaseGetVariable_found [OF assms(1-5), of cap] assms(9,10) copy_stale [OF assms(6-8)] by auto

theorem base_get_variable_stale_witness:
  "\<exists>st2. BaseGetVariable 200 demo_format demo_pcds demo_state 302 (Some [9]) (Some 8) 320 =
      Some (st2\<lparr>bv_mem := wr demo_store 320 [1, 1, 1, 1]\<rparr>, Some 3, Some 4, EFI_SUCCESS) \<and>
    rd (view demo_info demo_store) (ldata demo_format demo_info demo_store 104) 4 = [2, 2, 2, 2]"
proof -
  have m: "bv_mem demo_state = demo_store"
    by (simp add: demo_state_def)
  have buf: "buffer_ok demo_format demo_info demo_store 104 320"
    by (simp add: buffer_ok_def demo_data demo_sel)
  have "FtwLastWriteData demo_info = Some demo_ftw" "(104 :: nat) < TargetAddress demo_ftw" "TargetAddress demo_ftw \<le> 112"
    by (simp_all add: demo_info_def demo_ftw_def)
  then show ?thesis
    using base_get_variable_stale [OF demo_opened(2), of 104 320 demo_ftw 8] demo_lookup(2) demo_bytes demo_data buf by (simp add: m)
qed

text \<open>
  The layout the search excludes: a header that begins below the target and whose name begins at or
  beyond it. The name pointer is not redirected, so the name asked for is compared with the bytes of
  the NV store and not with the name in the logical store.
\<close>

lemma compare_name_stale:
  assumes "FtwLastWriteData I = Some w" "a < TargetAddress w" "TargetAddress w \<le> lname F I a"
    and "rd m name 2 \<noteq> [0, 0]" "guid = GetVendorGuid F m h (AuthFlag I)"
    and "NameSizeOfVariable F m h (AuthFlag I) = n" "n \<noteq> 0"
    and "\<not> (name < TargetAddress w \<and> TargetAddress w < name + n)"
  shows "CompareWithValidVariable F I m a h name guid = Some (rd m name n = rd m (lname F I a) n)"
  using assms by (auto simp: CompareWithValidVariable_def CompareVariableName_def GetVariableNamePtr_def
      lname_def assert_that_def)

section \<open>The last write\<close>

text \<open>The offsets the walk over the write headers would visit if it never stopped.\<close>

fun ftw_offset :: "var_format \<Rightarrow> mem \<Rightarrow> nat \<Rightarrow> nat \<Rightarrow> nat" where
  "ftw_offset F m base 0 = working_size F"
| "ftw_offset F m base (Suc k) =
     (let h = write_header F m (base + ftw_offset F m base k)
      in (ftw_offset F m base k + FTW_WRITE_TOTAL_SIZE F (fh_NumberOfWrites h) (fh_PrivateDataSize h)) mod 2 ^ 64)"

abbreviation ftw_complete :: "var_format \<Rightarrow> mem \<Rightarrow> nat \<Rightarrow> nat \<Rightarrow> bool" where
  "ftw_complete F m base k \<equiv> fh_Complete (write_header F m (base + ftw_offset F m base k))"

text \<open>The walk goes past its \<open>k\<close>-th header.\<close>

definition ftw_passes :: "var_format \<Rightarrow> mem \<Rightarrow> nat \<Rightarrow> nat \<Rightarrow> nat \<Rightarrow> bool" where
  "ftw_passes F m base wsize k \<longleftrightarrow> ftw_complete F m base k \<and> ftw_offset F m base (Suc k) < wsize"

lemma last_header_step:
  "last_header F m base wsize (Suc fuel) (ftw_offset F m base j) =
    (if ftw_passes F m base wsize j then last_header F m base wsize fuel (ftw_offset F m base (Suc j))
     else Some (base + ftw_offset F m base j, if ftw_complete F m base j then Error EFI_ABORTED else EFI_SUCCESS))"
  by (auto simp: ftw_passes_def Let_def)

lemma last_header_cases:
  "case last_header F m base wsize fuel (ftw_offset F m base j) of
     None \<Rightarrow> \<forall>i < fuel. ftw_passes F m base wsize (j + i)
   | Some r \<Rightarrow> \<exists>k. (\<forall>i < k. ftw_passes F m base wsize (j + i)) \<and> \<not> ftw_passes F m base wsize (j + k) \<and>
       r = (base + ftw_offset F m base (j + k), if ftw_complete F m base (j + k) then Error EFI_ABORTED else EFI_SUCCESS)"
proof (induction fuel arbitrary: j)
  case 0
  then show ?case by simp
next
  case (Suc fuel)
  show ?case
  proof (cases "ftw_passes F m base wsize j")
    case False
    then show ?thesis
      unfolding last_header_step by (auto intro!: exI [of _ 0])
  next
    case True
    have all: "(\<forall>i < Suc n. ftw_passes F m base wsize (j + i)) \<longleftrightarrow>
        (\<forall>i < n. ftw_passes F m base wsize (Suc j + i))" for n
      using True by (auto simp: less_Suc_eq_0_disj)
    show ?thesis
    proof (cases "last_header F m base wsize fuel (ftw_offset F m base (Suc j))")
      case None
      then show ?thesis
        using True Suc.IH [of "Suc j"] unfolding last_header_step by (simp only: if_True option.case all)
    next
      case (Some r)
      then obtain k where "\<forall>i < k. ftw_passes F m base wsize (Suc j + i)" "\<not> ftw_passes F m base wsize (j + Suc k)"
        "r = (base + ftw_offset F m base (j + Suc k),
          if ftw_complete F m base (j + Suc k) then Error EFI_ABORTED else EFI_SUCCESS)"
        using Suc.IH [of "Suc j"] by (auto simp del: ftw_offset.simps)
      then show ?thesis
        using True Some unfolding last_header_step if_P [OF True] Some option.case all [symmetric] by blast
    qed
  qed
qed

text \<open>More headers passed than the work space has offsets: one offset has come up twice, and the walk repeats.\<close>

lemma ftw_offset_repeats:
  "ftw_offset F m base i = ftw_offset F m base j \<Longrightarrow> ftw_offset F m base (i + n) = ftw_offset F m base (j + n)"
  by (induction n) (simp_all add: Let_def)

lemma ftw_walk_repeats:
  assumes "\<forall>i < Suc wsize. ftw_passes F m base wsize i"
  shows "(\<forall>k. ftw_passes F m base wsize k) \<and> (\<exists>k. ftw_offset F m base (Suc k) \<le> ftw_offset F m base k)"
proof -
  let ?o = "ftw_offset F m base"
  have "?o ` {1..Suc wsize} \<subseteq> {..<wsize}"
  proof
    fix y
    assume "y \<in> ?o ` {1..Suc wsize}"
    then obtain x where x: "y = ?o x" "1 \<le> x" "x \<le> Suc wsize"
      by auto
    then obtain i where "y = ?o (Suc i)" "i < Suc wsize"
      by (cases x) auto
    then show "y \<in> {..<wsize}"
      using assms by (simp add: ftw_passes_def del: ftw_offset.simps)
  qed
  then have "\<not> inj_on ?o {1..Suc wsize}"
    using card_inj_on_le [of ?o "{1..Suc wsize}" "{..<wsize}"] by auto
  then obtain i j where "?o i = ?o j" "i \<noteq> j" "i \<in> {1..Suc wsize}" "j \<in> {1..Suc wsize}"
    by (auto simp: inj_on_def simp del: ftw_offset.simps)
  then obtain i j where ij: "?o i = ?o j" "i < j" "j \<le> Suc wsize"
    by (metis atLeastAtMost_iff linorder_neqE_nat)
  have passes: "ftw_passes F m base wsize k" for k
  proof (induction k rule: less_induct)
    case (less k)
    show ?case
    proof (cases "k < Suc wsize")
      case False
      then have k: "k = j + (k - j)" "i + (k - j) < k"
        using ij by simp_all
      have eq: "?o (i + (k - j)) = ?o k" "?o (Suc (i + (k - j))) = ?o (Suc k)"
        using ftw_offset_repeats [OF ij(1), where n = "k - j"] ftw_offset_repeats [OF ij(1), where n = "Suc (k - j)"] k(1) by simp_all
      show ?thesis
        using less.IH [OF k(2)] unfolding ftw_passes_def eq .
    qed (use assms in simp)
  qed
  moreover have "\<exists>k. ?o (Suc k) \<le> ?o k"
  proof (rule ccontr)
    assume "\<nexists>k. ?o (Suc k) \<le> ?o k"
    then have "strict_mono ?o"
      by (auto simp: strict_mono_Suc_iff not_le simp del: ftw_offset.simps)
    then have "?o i < ?o j"
      using ij(2) by (simp only: strict_mono_less)
    then show False
      using ij(1) by simp
  qed
  ultimately show ?thesis by blast
qed

text \<open>
  C29: The search for the last fault-tolerant write returns the first header that is not complete,
  with success, provided every header before it is complete and is followed by one inside the work
  space; a complete header whose successor lies at or past the end of the space is returned with
  EFI_ABORTED. It returns nothing exactly when every header is complete and none leaves the space.
  The loop of the code then never ends, and at some header the offset has not advanced: the UINTN
  has wrapped around, or the size of the write is zero. An offset that always advances therefore
  ends the search.
\<close>

theorem ftw_last_write_header:
  "case FtwGetLastWriteHeader F m base wsize of
     None \<Rightarrow> (\<forall>k. ftw_complete F m base k \<and> ftw_offset F m base (Suc k) < wsize) \<and>
       (\<exists>k. ftw_offset F m base (Suc k) \<le> ftw_offset F m base k)
   | Some (h, Status) \<Rightarrow> \<exists>k. (\<forall>i < k. ftw_complete F m base i \<and> ftw_offset F m base (Suc i) < wsize) \<and>
       h = base + ftw_offset F m base k \<and>
       (if ftw_complete F m base k then Status = Error EFI_ABORTED \<and> wsize \<le> ftw_offset F m base (Suc k)
        else Status = EFI_SUCCESS)"
proof (cases "FtwGetLastWriteHeader F m base wsize")
  case None
  then show ?thesis
    using last_header_cases [where fuel = "Suc wsize" and j = 0 and F = F and m = m and base = base and wsize = wsize] ftw_walk_repeats [where wsize = wsize and F = F and m = m and base = base]
    unfolding FtwGetLastWriteHeader_def by (simp add: ftw_passes_def del: ftw_offset.simps(2) last_header.simps)
next
  case (Some r)
  then obtain k where "\<forall>i < k. ftw_passes F m base wsize i" "\<not> ftw_passes F m base wsize k"
    "r = (base + ftw_offset F m base k, if ftw_complete F m base k then Error EFI_ABORTED else EFI_SUCCESS)"
    using last_header_cases [where fuel = "Suc wsize" and j = 0 and F = F and m = m and base = base and wsize = wsize]
    unfolding FtwGetLastWriteHeader_def by (auto simp del: ftw_offset.simps(2) last_header.simps)
  then show ?thesis
    unfolding Some by (auto simp: ftw_passes_def not_less simp del: ftw_offset.simps intro!: exI [of _ k])
qed

text \<open>A work space whose first header is complete and asks for \<open>2 ^ 64\<close> bytes: the search never ends.\<close>

definition endless_format :: var_format where
  "endless_format = demo_format\<lparr>working_size := 1, FTW_WRITE_TOTAL_SIZE := \<lambda>n p. 2 ^ 64,
     write_header := \<lambda>m a. \<lparr>fh_Complete = True, fh_NumberOfWrites = 1, fh_PrivateDataSize = 0\<rparr>\<rparr>"

lemma endless_walk: "last_header endless_format m base 2 fuel 1 = None"
proof (induction fuel)
  case (Suc fuel)
  have "(1 + 2 ^ 64) mod 2 ^ 64 = (1 :: nat)" by simp
  then show ?case using Suc by (simp add: endless_format_def Let_def del: One_nat_def)
qed simp

theorem ftw_last_write_header_witness:
  "FtwGetLastWriteHeader endless_format demo_store 500 2 = None \<and>
    (\<forall>k. ftw_complete endless_format demo_store 500 k \<and> ftw_offset endless_format demo_store 500 (Suc k) < 2)"
proof -
  have "FtwGetLastWriteHeader endless_format demo_store 500 2 = None"
    using endless_walk by (simp add: FtwGetLastWriteHeader_def endless_format_def)
  then show ?thesis
    using ftw_last_write_header [where F = endless_format and m = demo_store and base = 500 and wsize = 2] by (simp del: ftw_offset.simps)
qed

end
