(* ===== verification/VarServices.thy ===== *)
theory VarServices
  imports Prelude
begin

text \<open>
  The variable services of the runtime table, as the drivers of the repository call them, and the
  contract they rely on. A \<open>CHAR16\<close> string is the list of its characters before the terminating 0.
\<close>

section \<open>The services\<close>

text \<open>
  The outcome of \<open>GetVariable\<close>: \<open>*Attributes\<close> and \<open>*DataSize\<close> where they are written, the bytes
  written to \<open>Data\<close>, and the status.
\<close>

record get_result =
  got_Attributes :: "u32 option"
  got_DataSize :: "nat option"
  got_Data :: "u8 list"
  got_Status :: efi_status

text \<open>
  Calls with non-NULL arguments and without \<open>Attributes\<close>: the name, the vendor, and for
  \<open>SetVariable\<close> the attributes, \<open>DataSize\<close> and the object that \<open>Data\<close> points to.
\<close>

record 's runtime_services =
  GetVariable :: "u16 list \<Rightarrow> u8 list \<Rightarrow> nat \<Rightarrow> 's \<Rightarrow> get_result run"
  SetVariable :: "u16 list \<Rightarrow> u8 list \<Rightarrow> u32 \<Rightarrow> nat \<Rightarrow> u8 list \<Rightarrow> 's \<Rightarrow> ('s \<times> efi_status) run"

type_synonym var_key = "u16 list \<times> u8 list"
type_synonym var_value = "u32 \<times> u8 list"

definition L :: "string \<Rightarrow> u16 list" where
  "L s = map (\<lambda>c. word_of_nat (of_char c)) s"

lemma inj_L: "L s = L t \<longleftrightarrow> s = t"
proof
  have "inj (\<lambda>c :: char. word_of_nat (of_char c) :: u16)"
  proof (rule injI)
    fix c d :: char
    assume "(word_of_nat (of_char c) :: u16) = word_of_nat (of_char d)"
    then have "unat (word_of_nat (of_char c) :: u16) = unat (word_of_nat (of_char d) :: u16)"
      by simp
    moreover have "unat (word_of_nat (of_char e) :: u16) = of_char e" for e :: char
    proof -
      have "(of_char e :: nat) < 256"
        by (metis of_char_mod_256 mod_less_divisor zero_less_numeral)
      then have "(of_char e :: nat) < 2 ^ 16"
        by (rule less_le_trans) simp
      from take_bit_nat_eq_self [OF this] show ?thesis
        by (simp add: unsigned_of_nat)
    qed
    ultimately show "c = d"
      by simp
  qed
  then show "L s = L t \<Longrightarrow> s = t"
    by (simp add: L_def inj_map_eq_map)
qed simp

lemma L_Nil [simp]: "L s = [] \<longleftrightarrow> s = []"
  by (simp add: L_def)

section \<open>The contract\<close>

text \<open>
  What the drivers rely on, for a store seen as a map: reading returns the stored data if the
  buffer is large enough and its size otherwise; writing an object of at least the given size
  either stores its first bytes, or fails and changes no other variable; more bytes than the
  object has cannot be read from it.
\<close>

definition read_result :: "var_value option \<Rightarrow> nat \<Rightarrow> get_result \<Rightarrow> bool" where
  "read_result v n r \<longleftrightarrow> (case v of
     None \<Rightarrow> got_DataSize r = Some n \<and> got_Data r = [] \<and> got_Status r = Error EFI_NOT_FOUND
   | Some (attrs, bytes) \<Rightarrow> got_DataSize r = Some (length bytes) \<and>
       (if n < length bytes then got_Data r = [] \<and> got_Status r = Error EFI_BUFFER_TOO_SMALL
        else got_Data r = bytes \<and> got_Status r = EFI_SUCCESS))"

locale variable_services =
  fixes R :: "'s runtime_services"
    and access :: u32
    and store :: "'s \<Rightarrow> var_key \<rightharpoonup> var_value"
    and ok :: "'s \<Rightarrow> bool"
  assumes get: "ok s \<Longrightarrow> name \<noteq> [] \<Longrightarrow> \<exists>r. GetVariable R name guid n s = Some r \<and> read_result (store s (name, guid)) n r"
    and set: "ok s \<Longrightarrow> name \<noteq> [] \<Longrightarrow> attrs AND access \<noteq> 0 \<Longrightarrow> 0 < n \<Longrightarrow> n \<le> length bytes \<Longrightarrow>
      \<exists>s' status. SetVariable R name guid attrs n bytes s = Some (s', status) \<and> ok s' \<and>
        (if EFI_ERROR status then \<forall>k. k \<noteq> (name, guid) \<longrightarrow> store s' k = store s k
         else store s' = (store s)((name, guid) \<mapsto> (attrs, take n bytes)))"
    and set_too_long: "ok s \<Longrightarrow> name \<noteq> [] \<Longrightarrow> attrs AND access \<noteq> 0 \<Longrightarrow> length bytes < n \<Longrightarrow>
      SetVariable R name guid attrs n bytes s = None"

end
