(* ===== verification/ConfigSetup.thy ===== *)
theory ConfigSetup
  imports VarServices
begin

text \<open>
  The drivers that set the configuration up from variables: the network stack
  (\<open>Drivers/NetworkStackConfigDxe\<close>) and the display, table and PHY settings of
  \<open>RK3576/Drivers/RK3576Dxe\<close> (\<open>Display.c\<close>, \<open>ConfigTable.c\<close>, \<open>ComboPhy.c\<close>).

  The PCD database is outside the repository: it is a state with the two setters of
  \<open>pcd_services\<close>, and default values are fields of the records below. The attribute bits of UEFI are
  the record \<open>efi_attrs\<close>. A local buffer that \<open>GetVariable\<close> may leave unwritten starts with the given
  bytes.
\<close>

section \<open>Buffers, attributes and PCDs\<close>

record efi_attrs =
  NON_VOLATILE :: u32
  BOOTSERVICE_ACCESS :: u32
  RUNTIME_ACCESS :: u32

datatype pcd_value = PcdBoolean bool | Pcd8 u8 | Pcd16 u16 | Pcd32 u32

record 'p pcd_services =
  PcdSet :: "string \<Rightarrow> pcd_value \<Rightarrow> 'p \<Rightarrow> 'p \<times> efi_status"
  PcdSetPtr :: "string \<Rightarrow> nat \<Rightarrow> u8 list \<Rightarrow> 'p \<Rightarrow> 'p \<times> efi_status"

text \<open>\<open>PcdSet\<close> or \<open>PcdSetPtrS\<close> followed by \<open>ASSERT_EFI_ERROR\<close>.\<close>

definition asserted :: "'p \<times> efi_status \<Rightarrow> 'p run" where
  "asserted r = do { assert_that (\<not> EFI_ERROR (snd r)); Some (fst r) }"

definition bytes32 :: "u32 \<Rightarrow> u8 list" where
  "bytes32 w = [ucast w, ucast (drop_bit 8 w), ucast (drop_bit 16 w), ucast (drop_bit 24 w)]"

definition word32 :: "u8 list \<Rightarrow> u32" where
  "word32 bs = ucast (bs ! 0) OR push_bit 8 (ucast (bs ! 1)) OR push_bit 16 (ucast (bs ! 2)) OR push_bit 24 (ucast (bs ! 3))"

text \<open>The buffer, its size and the status after \<open>GetVariable\<close> on a local object.\<close>

definition get_into ::
  "'s runtime_services \<Rightarrow> u16 list \<Rightarrow> u8 list \<Rightarrow> u8 list \<Rightarrow> 's \<Rightarrow> (u8 list \<times> nat \<times> efi_status) run" where
  "get_into R name guid buf s = do {
     r \<leftarrow> GetVariable R name guid (length buf) s;
     Some (got_Data r @ drop (length (got_Data r)) buf,
           case got_DataSize r of None \<Rightarrow> length buf | Some n \<Rightarrow> n, got_Status r)
   }"

section \<open>The network stack\<close>

definition network_states :: "string list" where
  "network_states = [''gNetworkStackEnabledProtocolGuid'', ''gNetworkStackIpv4EnabledProtocolGuid'',
     ''gNetworkStackIpv6EnabledProtocolGuid'', ''gNetworkStackPxeBootEnabledProtocolGuid'',
     ''gNetworkStackHttpBootEnabledProtocolGuid'']"

text \<open>The protocols installed, where \<open>install\<close> gives the status of an installation.\<close>

fun apply_states :: "(string \<Rightarrow> efi_status) \<Rightarrow> nat \<Rightarrow> (string \<times> u8) list \<Rightarrow> string list run" where
  "apply_states install Index [] = Some []"
| "apply_states install Index ((protocol, enabled) # rest) =
     (if enabled \<noteq> 0 then do {
        assert_that (\<not> EFI_ERROR (install protocol));
        ps \<leftarrow> apply_states install (Suc Index) rest;
        Some (protocol # ps)
      }
      else if Index = 0 then Some []
      else apply_states install (Suc Index) rest)"

definition NetworkStackConfigApply :: "(string \<Rightarrow> efi_status) \<Rightarrow> u8 list \<Rightarrow> string list run" where
  "NetworkStackConfigApply install Config = apply_states install 0 (zip network_states Config)"

definition InstallHiiPages :: "efi_status \<Rightarrow> bool \<Rightarrow> efi_status" where
  "InstallHiiPages path_status has_packages =
     (if EFI_ERROR path_status then path_status
      else if \<not> has_packages then Error EFI_OUT_OF_RESOURCES
      else EFI_SUCCESS)"

definition NetworkStackConfigInitialize ::
  "'s runtime_services \<Rightarrow> efi_attrs \<Rightarrow> u8 list \<Rightarrow> u8 list \<Rightarrow> (string \<Rightarrow> efi_status) \<Rightarrow> efi_status \<Rightarrow> bool \<Rightarrow> 's \<Rightarrow>
     ('s \<times> string list \<times> efi_status) run" where
  "NetworkStackConfigInitialize R A guid defaults install path_status has_packages s = do {
     (Config, n, Status) \<leftarrow> get_into R (L ''NetworkStackConfigData'') guid defaults s;
     s \<leftarrow> (if EFI_ERROR Status then do {
         (s, Status) \<leftarrow> SetVariable R (L ''NetworkStackConfigData'') guid (NON_VOLATILE A OR BOOTSERVICE_ACCESS A) n Config s;
         assert_that (\<not> EFI_ERROR Status);
         Some s
       } else Some s);
     installed \<leftarrow> NetworkStackConfigApply install Config;
     Some (s, installed, InstallHiiPages path_status has_packages)
   }"

section \<open>The display\<close>

definition DISPLAY_MODE_NATIVE :: u32 where
  "DISPLAY_MODE_NATIVE = 0x80000000"

definition VOP_OUTPUT_IF_NUMS :: nat where
  "VOP_OUTPUT_IF_NUMS = 13"

record display_pcds =
  PcdDisplayConnectors :: "u32 list"
  PcdDisplayModePresetDefault :: "u8 list option"
  PcdDisplayModeCustomDefault :: "u8 list option"
  PcdDisplayForceOutputDefault :: bool
  PcdDisplayDuplicateOutputDefault :: bool
  PcdDisplayRotationDefault :: u16
  PcdHdmiSignalingModeDefault :: u8

text \<open>Reading a variable unless the settings are being reset.\<close>

definition read_setting ::
  "'s runtime_services \<Rightarrow> u8 list \<Rightarrow> bool \<Rightarrow> string \<Rightarrow> u8 list \<Rightarrow> 's \<Rightarrow> (u8 list \<times> nat \<times> efi_status) run" where
  "read_setting R guid Reset name buf s =
     (if Reset then Some (buf, length buf, Error EFI_NOT_FOUND) else get_into R (L name) guid buf s)"

text \<open>A setting that is given its default when there is no variable for it.\<close>

definition seed_setting ::
  "'s runtime_services \<Rightarrow> 'p pcd_services \<Rightarrow> u8 list \<Rightarrow> bool \<Rightarrow> string \<Rightarrow> u8 list \<Rightarrow> string \<Rightarrow> pcd_value \<Rightarrow> 's \<Rightarrow> 'p \<Rightarrow> 'p run" where
  "seed_setting R P guid Reset name buf pcd value s p = do {
     (_, _, Status) \<leftarrow> read_setting R guid Reset name buf s;
     (if EFI_ERROR Status then asserted (PcdSet P pcd value p) else Some p)
   }"

definition seed_mode_preset ::
  "'s runtime_services \<Rightarrow> 'p pcd_services \<Rightarrow> efi_attrs \<Rightarrow> u8 list \<Rightarrow> display_pcds \<Rightarrow> u8 list \<Rightarrow> bool \<Rightarrow> 's \<Rightarrow> 'p \<Rightarrow> ('s \<times> 'p) run" where
  "seed_mode_preset R P A guid E stack Reset s p = do {
     PcdData \<leftarrow> PcdDisplayModePresetDefault E;
     (s, Status) \<leftarrow> SetVariable R (L ''DisplayModeDefault'') guid (BOOTSERVICE_ACCESS A) 4 PcdData s;
     assert_that (\<not> EFI_ERROR Status);
     (ModePreset, _, Status) \<leftarrow> read_setting R guid Reset ''DisplayModePreset'' stack s;
     (if EFI_ERROR Status \<or>
         word32 ModePreset = DISPLAY_MODE_NATIVE \<and> word32 PcdData \<noteq> DISPLAY_MODE_NATIVE \<or>
         word32 PcdData = DISPLAY_MODE_NATIVE \<and> word32 ModePreset \<noteq> DISPLAY_MODE_NATIVE
      then do {
        p \<leftarrow> Some (fst (PcdSetPtr P ''PcdDisplayModePreset'' 4 PcdData p));
        (s, _) \<leftarrow> SetVariable R (L ''DisplayModePreset'') guid
                   (NON_VOLATILE A OR BOOTSERVICE_ACCESS A OR RUNTIME_ACCESS A) 4 PcdData s;
        Some (s, p)
      } else Some (s, p))
   }"

definition seed_mode_custom ::
  "'s runtime_services \<Rightarrow> 'p pcd_services \<Rightarrow> efi_attrs \<Rightarrow> u8 list \<Rightarrow> display_pcds \<Rightarrow> u8 list \<Rightarrow> bool \<Rightarrow> 's \<Rightarrow> 'p \<Rightarrow> ('s \<times> 'p) run" where
  "seed_mode_custom R P A guid E stack Reset s p = do {
     PcdData \<leftarrow> PcdDisplayModeCustomDefault E;
     (s, Status) \<leftarrow> SetVariable R (L ''DisplayModeCustomDefault'') guid (BOOTSERVICE_ACCESS A) (length stack) PcdData s;
     assert_that (\<not> EFI_ERROR Status);
     (_, n, Status) \<leftarrow> read_setting R guid Reset ''DisplayModeCustom'' stack s;
     p \<leftarrow> (if EFI_ERROR Status then asserted (PcdSetPtr P ''PcdDisplayModeCustom'' n PcdData p) else Some p);
     Some (s, p)
   }"

definition seed_connectors_priority ::
  "'s runtime_services \<Rightarrow> 'p pcd_services \<Rightarrow> u8 list \<Rightarrow> display_pcds \<Rightarrow> u8 list \<Rightarrow> bool \<Rightarrow> 's \<Rightarrow> 'p \<Rightarrow> 'p run" where
  "seed_connectors_priority R P guid E stack Reset s p = do {
     (_, n, Status) \<leftarrow> read_setting R guid Reset ''DisplayConnectorsPriority'' stack s;
     (if EFI_ERROR Status
      then let Order = concat (map bytes32 (PcdDisplayConnectors E))
           in asserted (PcdSetPtr P ''PcdDisplayConnectorsPriority'' n
                         (Order @ replicate (4 * VOP_OUTPUT_IF_NUMS - length Order) 0) p)
      else Some p)
   }"

text \<open>The locals \<open>ModePreset\<close>, \<open>ModeCustom\<close>, \<open>ConnectorsPriority\<close>, \<open>Var8\<close> and \<open>Var16\<close> start as given.\<close>

record display_stack =
  st_ModePreset :: "u8 list"
  st_ModeCustom :: "u8 list"
  st_ConnectorsPriority :: "u8 list"
  st_Var8 :: "u8 list"
  st_Var16 :: "u8 list"

definition InitializeDisplayVariables ::
  "'s runtime_services \<Rightarrow> 'p pcd_services \<Rightarrow> efi_attrs \<Rightarrow> u8 list \<Rightarrow> display_pcds \<Rightarrow> display_stack \<Rightarrow> bool \<Rightarrow> 's \<Rightarrow> 'p \<Rightarrow>
     ('s \<times> 'p \<times> efi_status) run" where
  "InitializeDisplayVariables R P A guid E K Reset s p =
     (let Connectors = PcdDisplayConnectors E; ConnectorsMask = foldl (OR) 0 Connectors
      in do {
        assert_that (length Connectors \<le> VOP_OUTPUT_IF_NUMS);
        p \<leftarrow> asserted (PcdSet P ''PcdDisplayConnectorsMask'' (Pcd32 ConnectorsMask) p);
        (if ConnectorsMask = 0 then Some (s, p, Error EFI_UNSUPPORTED)
         else do {
           (s, _) \<leftarrow> SetVariable R (L ''DisplayConnectorsMask'') guid (BOOTSERVICE_ACCESS A) 4 (bytes32 ConnectorsMask) s;
           (s, p) \<leftarrow> seed_mode_preset R P A guid E (st_ModePreset K) Reset s p;
           (s, p) \<leftarrow> seed_mode_custom R P A guid E (st_ModeCustom K) Reset s p;
           p \<leftarrow> seed_connectors_priority R P guid E (st_ConnectorsPriority K) Reset s p;
           p \<leftarrow> seed_setting R P guid Reset ''DisplayForceOutput'' (st_Var8 K) ''PcdDisplayForceOutput''
                  (PcdBoolean (PcdDisplayForceOutputDefault E)) s p;
           p \<leftarrow> seed_setting R P guid Reset ''DisplayDuplicateOutput'' (st_Var8 K) ''PcdDisplayDuplicateOutput''
                  (PcdBoolean (PcdDisplayDuplicateOutputDefault E)) s p;
           p \<leftarrow> seed_setting R P guid Reset ''DisplayRotation'' (st_Var16 K) ''PcdDisplayRotation''
                  (Pcd16 (PcdDisplayRotationDefault E)) s p;
           p \<leftarrow> seed_setting R P guid Reset ''HdmiSignalingMode'' (st_Var8 K) ''PcdHdmiSignalingMode''
                  (Pcd8 (PcdHdmiSignalingModeDefault E)) s p;
           Some (s, p, EFI_SUCCESS)
         })
      })"

section \<open>The configuration tables and the PHYs\<close>

definition IsAcpiPcieEcamCompatModeSupported :: "u32 \<Rightarrow> bool" where
  "IsAcpiPcieEcamCompatModeSupported mode \<longleftrightarrow> mode = 0 \<or> mode = 1 \<or> mode = 2 \<or> mode = 4"

definition mFdtCompatModeVarTable :: "(u32 \<times> string) list" where
  "mFdtCompatModeVarTable = [(1, ''FdtCompatModeVendorSupported''), (2, ''FdtCompatModeMainlineSupported'')]"

record table_pcds =
  PcdConfigTableModeDefault :: u32
  PcdAcpiPcieEcamCompatModeDefault :: u32
  PcdFdtCompatModeDefault :: u32
  PcdFdtForceGopDefault :: u8
  PcdFdtSupportOverridesDefault :: u8
  PcdFdtOverrideFixupDefault :: u8
  PcdFdtOverrideBasePathDefault :: "u8 list"
  PcdFdtOverrideOverlayPathDefault :: "u8 list"

text \<open>The loop over the FDT modes: the first one supported.\<close>

fun publish_fdt_modes ::
  "'s runtime_services \<Rightarrow> efi_attrs \<Rightarrow> u8 list \<Rightarrow> (u32 \<Rightarrow> bool) \<Rightarrow> (u32 \<times> string) list \<Rightarrow> u32 \<Rightarrow> 's \<Rightarrow> ('s \<times> u32) run" where
  "publish_fdt_modes R A guid supported [] First s = Some (s, First)"
| "publish_fdt_modes R A guid supported ((mode, name) # rest) First s = do {
     (s, Status) \<leftarrow> SetVariable R (L name) guid (BOOTSERVICE_ACCESS A) 1 [if supported mode then 1 else 0] s;
     assert_that (\<not> EFI_ERROR Status);
     publish_fdt_modes R A guid supported rest (if supported mode \<and> First = 0 then mode else First) s
   }"

definition seed_override_path ::
  "'s runtime_services \<Rightarrow> 'p pcd_services \<Rightarrow> u8 list \<Rightarrow> string \<Rightarrow> string \<Rightarrow> u8 list \<Rightarrow> u8 list \<Rightarrow> 's \<Rightarrow> 'p \<Rightarrow> 'p run" where
  "seed_override_path R P guid name pcd dflt stack s p = do {
     (Path, n, Status) \<leftarrow> get_into R (L name) guid stack s;
     (if EFI_ERROR Status \<or> take 2 Path = [0x20, 0]
      then do {
        assert_that (length dflt \<le> n);
        asserted (PcdSetPtr P pcd n dflt p)
      } else Some p)
   }"

definition SetupConfigTableVariables ::
  "'s runtime_services \<Rightarrow> 'p pcd_services \<Rightarrow> efi_attrs \<Rightarrow> u8 list \<Rightarrow> table_pcds \<Rightarrow> (u32 \<Rightarrow> bool) \<Rightarrow> u8 list \<Rightarrow> u8 list \<Rightarrow>
     u8 list \<Rightarrow> 's \<Rightarrow> 'p \<Rightarrow> ('s \<times> 'p) run" where
  "SetupConfigTableVariables R P A guid E supported var8 var32 stack s p = do {
     (var32, _, Status) \<leftarrow> get_into R (L ''ConfigTableMode'') guid var32 s;
     p \<leftarrow> (if EFI_ERROR Status then asserted (PcdSet P ''PcdConfigTableMode'' (Pcd32 (PcdConfigTableModeDefault E)) p) else Some p);
     (var32, _, Status) \<leftarrow> get_into R (L ''AcpiPcieEcamCompatMode'') guid var32 s;
     p \<leftarrow> (if EFI_ERROR Status \<or> \<not> IsAcpiPcieEcamCompatModeSupported (word32 var32)
           then asserted (PcdSet P ''PcdAcpiPcieEcamCompatMode'' (Pcd32 (PcdAcpiPcieEcamCompatModeDefault E)) p) else Some p);
     (s, First) \<leftarrow> publish_fdt_modes R A guid supported mFdtCompatModeVarTable 0 s;
     (var32, _, Status) \<leftarrow> get_into R (L ''FdtCompatMode'') guid var32 s;
     p \<leftarrow> (if EFI_ERROR Status \<or> \<not> supported (word32 var32)
           then asserted (PcdSet P ''PcdFdtCompatMode''
                  (Pcd32 (if supported (PcdFdtCompatModeDefault E) then PcdFdtCompatModeDefault E else First)) p)
           else Some p);
     p \<leftarrow> seed_setting R P guid False ''FdtForceGop'' var8 ''PcdFdtForceGop'' (Pcd8 (PcdFdtForceGopDefault E)) s p;
     p \<leftarrow> seed_setting R P guid False ''FdtSupportOverrides'' var8 ''PcdFdtSupportOverrides'' (Pcd8 (PcdFdtSupportOverridesDefault E)) s p;
     p \<leftarrow> seed_setting R P guid False ''FdtOverrideFixup'' var8 ''PcdFdtOverrideFixup'' (Pcd8 (PcdFdtOverrideFixupDefault E)) s p;
     p \<leftarrow> seed_override_path R P guid ''FdtOverrideBasePath'' ''PcdFdtOverrideBasePath'' (PcdFdtOverrideBasePathDefault E) stack s p;
     p \<leftarrow> seed_override_path R P guid ''FdtOverrideOverlayPath'' ''PcdFdtOverrideOverlayPath'' (PcdFdtOverrideOverlayPathDefault E) stack s p;
     Some (s, p)
   }"

definition setup_combo_phy ::
  "'s runtime_services \<Rightarrow> 'p pcd_services \<Rightarrow> u8 list \<Rightarrow> string \<Rightarrow> string \<Rightarrow> bool \<Rightarrow> u32 \<Rightarrow> u8 list \<Rightarrow> 's \<Rightarrow> 'p \<Rightarrow> (u8 list \<times> 'p) run" where
  "setup_combo_phy R P guid name pcd switchable dflt var32 s p = do {
     (var32, n, Status) \<leftarrow> get_into R (L name) guid var32 s;
     p \<leftarrow> (if EFI_ERROR Status \<or> n \<noteq> 4 \<or> \<not> switchable
           then asserted (PcdSet P pcd (Pcd32 dflt) p)
           else asserted (PcdSet P pcd (Pcd32 (word32 var32)) p));
     Some (var32, p)
   }"

definition SetupComboPhyVariables ::
  "'s runtime_services \<Rightarrow> 'p pcd_services \<Rightarrow> u8 list \<Rightarrow> bool \<Rightarrow> bool \<Rightarrow> u32 \<Rightarrow> u32 \<Rightarrow> u8 list \<Rightarrow> 's \<Rightarrow> 'p \<Rightarrow> 'p run" where
  "SetupComboPhyVariables R P guid switchable0 switchable1 default0 default1 var32 s p = do {
     (var32, p) \<leftarrow> setup_combo_phy R P guid ''ComboPhy0Mode'' ''PcdComboPhy0Mode'' switchable0 default0 var32 s p;
     (var32, p) \<leftarrow> setup_combo_phy R P guid ''ComboPhy1Mode'' ''PcdComboPhy1Mode'' switchable1 default1 var32 s p;
     Some p
   }"

section \<open>What the drivers do, from the contract\<close>

text \<open>A PCD database that takes every value offered to it that lies inside the buffer.\<close>

definition pcd_ok :: "'p pcd_services \<Rightarrow> bool" where
  "pcd_ok P \<longleftrightarrow> (\<forall>name value p. \<not> EFI_ERROR (snd (PcdSet P name value p))) \<and>
     (\<forall>name n bytes p. n \<le> length bytes \<longrightarrow> \<not> EFI_ERROR (snd (PcdSetPtr P name n bytes p)))"

lemma asserted_set [simp]: "pcd_ok P \<Longrightarrow> asserted (PcdSet P name value p) = Some (fst (PcdSet P name value p))"
  by (simp add: pcd_ok_def asserted_def assert_that_def)

lemma asserted_ptr [simp]:
  "pcd_ok P \<Longrightarrow> n \<le> length bytes \<Longrightarrow> asserted (PcdSetPtr P name n bytes p) = Some (fst (PcdSetPtr P name n bytes p))"
  by (simp add: pcd_ok_def asserted_def assert_that_def)

lemma access_OR:
  assumes "(x :: u32) AND access \<noteq> 0"
  shows "(y OR x) AND access \<noteq> 0" "(x OR y) AND access \<noteq> 0"
proof -
  have "(y OR x) AND access = (y AND access) OR (x AND access)" "(x OR y) AND access = (x AND access) OR (y AND access)"
    by (rule bit_word_eqI; auto simp: bit_simps)+
  moreover have "u OR (x AND access) = 0 \<Longrightarrow> x AND access = 0" for u :: u32
    by (rule bit_word_eqI) (metis bit_or_iff bit_0_eq bot_apply bot_bool_def)
  ultimately show "(y OR x) AND access \<noteq> 0" "(x OR y) AND access \<noteq> 0"
    using assms by (metis or.commute)+
qed

text \<open>The data of a read: the stored bytes over what the buffer held.\<close>

definition read_over :: "var_value option \<Rightarrow> u8 list \<Rightarrow> u8 list \<times> nat \<times> efi_status" where
  "read_over v buf = (case v of
     None \<Rightarrow> (buf, length buf, Error EFI_NOT_FOUND)
   | Some (attrs, bytes) \<Rightarrow>
       if length buf < length bytes then (buf, length bytes, Error EFI_BUFFER_TOO_SMALL)
       else (bytes @ drop (length bytes) buf, length bytes, EFI_SUCCESS))"

context variable_services
begin

lemma get_into_ok:
  assumes "ok s" "name \<noteq> []"
  shows "get_into R name guid buf s = Some (read_over (store s (name, guid)) buf)"
  using get [OF assms, of guid "length buf"]
  by (auto simp: get_into_def read_result_def read_over_def split: option.splits if_splits)

lemma network_config:
  assumes "ok s" "BOOTSERVICE_ACCESS A AND access \<noteq> 0" "length defaults = 5"
  shows "case store s (L ''NetworkStackConfigData'', guid) of
      None \<Rightarrow> \<exists>s' status.
        SetVariable R (L ''NetworkStackConfigData'') guid (NON_VOLATILE A OR BOOTSERVICE_ACCESS A) 5 defaults s = Some (s', status) \<and>
        ok s' \<and>
        (\<not> EFI_ERROR status \<longrightarrow>
          store s' = (store s)((L ''NetworkStackConfigData'', guid) \<mapsto> (NON_VOLATILE A OR BOOTSERVICE_ACCESS A, defaults))) \<and>
        NetworkStackConfigInitialize R A guid defaults install path_status has_packages s =
          (if EFI_ERROR status then None else do {
             installed \<leftarrow> NetworkStackConfigApply install defaults;
             Some (s', installed, InstallHiiPages path_status has_packages)
           })
    | Some (attrs, bytes) \<Rightarrow>
        NetworkStackConfigInitialize R A guid defaults install path_status has_packages s =
          (if 5 < length bytes then None else do {
             installed \<leftarrow> NetworkStackConfigApply install (bytes @ drop (length bytes) defaults);
             Some (s, installed, InstallHiiPages path_status has_packages)
           })"
proof (cases "store s (L ''NetworkStackConfigData'', guid)")
  case None
  have attrs: "(NON_VOLATILE A OR BOOTSERVICE_ACCESS A) AND access \<noteq> 0"
    by (rule access_OR [OF assms(2)])
  obtain s' status where set: "SetVariable R (L ''NetworkStackConfigData'') guid
      (NON_VOLATILE A OR BOOTSERVICE_ACCESS A) 5 defaults s = Some (s', status)" "ok s'"
    "\<not> EFI_ERROR status \<longrightarrow>
       store s' = (store s)((L ''NetworkStackConfigData'', guid) \<mapsto> (NON_VOLATILE A OR BOOTSERVICE_ACCESS A, defaults))"
    using set [OF assms(1) _ attrs, of "L ''NetworkStackConfigData''" 5 defaults guid] assms(3) by (auto split: if_splits)
  show ?thesis
    using None set get_into_ok [OF assms(1), of "L ''NetworkStackConfigData''" guid defaults] assms(3)
    by (auto simp: NetworkStackConfigInitialize_def read_over_def assert_that_def)
next
  case (Some v)
  have attrs: "(NON_VOLATILE A OR BOOTSERVICE_ACCESS A) AND access \<noteq> 0"
    by (rule access_OR [OF assms(2)])
  have "SetVariable R (L ''NetworkStackConfigData'') guid (NON_VOLATILE A OR BOOTSERVICE_ACCESS A) n defaults s = None"
    if "5 < n" for n
    using set_too_long [OF assms(1) _ attrs, of "L ''NetworkStackConfigData''" defaults n guid] that assms(3) by simp
  then show ?thesis
    using Some get_into_ok [OF assms(1), of "L ''NetworkStackConfigData''" guid defaults] assms(3)
    by (auto simp: NetworkStackConfigInitialize_def read_over_def split: prod.splits)
qed

end

text \<open>A provider that never runs out of resources.\<close>

locale reliable_services = variable_services R access store ok
  for R :: "'s runtime_services" and access :: u32 and store :: "'s \<Rightarrow> var_key \<rightharpoonup> var_value" and ok :: "'s \<Rightarrow> bool" +
  assumes reliable: "ok s \<Longrightarrow> name \<noteq> [] \<Longrightarrow> attrs AND access \<noteq> 0 \<Longrightarrow> 0 < n \<Longrightarrow> n \<le> length bytes \<Longrightarrow>
    SetVariable R name guid attrs n bytes s = Some (s', status) \<Longrightarrow> \<not> EFI_ERROR status"

text \<open>What becomes of the stored display mode, for a given default.\<close>

definition kept_preset :: "u32 \<Rightarrow> u8 list \<Rightarrow> var_value option \<Rightarrow> var_value" where
  "kept_preset attrs dflt v = (case v of
     None \<Rightarrow> (attrs, dflt)
   | Some (a, choice) \<Rightarrow>
       if (word32 choice = DISPLAY_MODE_NATIVE) = (word32 dflt = DISPLAY_MODE_NATIVE) then (a, choice) else (attrs, dflt))"

definition fits :: "('k \<rightharpoonup> 'a \<times> 'b list) \<Rightarrow> 'k \<Rightarrow> nat \<Rightarrow> bool" where
  "fits f k n \<longleftrightarrow> (case f k of None \<Rightarrow> True | Some (_, bytes) \<Rightarrow> length bytes \<le> n)"

context reliable_services
begin

lemma set_ok:
  assumes "ok s" "name \<noteq> []" "attrs AND access \<noteq> 0" "0 < n" "n \<le> length bytes"
  shows "\<exists>s' status. SetVariable R name guid attrs n bytes s = Some (s', status) \<and> \<not> EFI_ERROR status \<and> ok s' \<and>
    store s' = (store s)((name, guid) \<mapsto> (attrs, take n bytes))"
proof -
  obtain s' status where s': "SetVariable R name guid attrs n bytes s = Some (s', status)" "ok s'"
    "\<not> EFI_ERROR status \<longrightarrow> store s' = (store s)((name, guid) \<mapsto> (attrs, take n bytes))"
    using set [OF assms, of guid] by (auto split: if_splits)
  then show ?thesis
    using reliable [OF assms s'(1)] by blast
qed

lemma read_setting_ok:
  "ok s \<Longrightarrow> name \<noteq> [] \<Longrightarrow> read_setting R guid False name buf s = Some (read_over (store s (L name, guid)) buf)"
  by (simp add: read_setting_def get_into_ok)

lemma seed_setting_ok:
  assumes "pcd_ok P" "ok s" "name \<noteq> []"
  shows "\<exists>p'. seed_setting R P guid False name buf pcd value s p = Some p'"
  using assms by (auto simp: seed_setting_def read_setting_ok split: prod.splits)

lemma seed_connectors_priority_ok:
  assumes "pcd_ok P" "ok s" "length (PcdDisplayConnectors E) \<le> VOP_OUTPUT_IF_NUMS" "length stack = 4 * VOP_OUTPUT_IF_NUMS"
    and "fits (store s) (L ''DisplayConnectorsPriority'', guid) (4 * VOP_OUTPUT_IF_NUMS)"
  shows "\<exists>p'. seed_connectors_priority R P guid E stack False s p = Some p'"
proof -
  have "length (concat (map bytes32 cs)) = 4 * length cs" for cs
    by (induction cs) (simp_all add: bytes32_def)
  then show ?thesis
    using assms by (auto simp: seed_connectors_priority_def read_setting_ok read_over_def fits_def Let_def split: option.splits prod.splits)
qed

lemma seed_mode_custom_ok:
  assumes "pcd_ok P" "ok s" "BOOTSERVICE_ACCESS A AND access \<noteq> 0"
    and "PcdDisplayModeCustomDefault E = Some dflt" "length dflt = 56" "length stack = 56"
    and "fits (store s) (L ''DisplayModeCustom'', guid) 56"
  shows "\<exists>s' p'. seed_mode_custom R P A guid E stack False s p = Some (s', p') \<and> ok s' \<and>
    store s' = (store s)((L ''DisplayModeCustomDefault'', guid) \<mapsto> (BOOTSERVICE_ACCESS A, dflt))"
proof -
  obtain s' status where s': "SetVariable R (L ''DisplayModeCustomDefault'') guid (BOOTSERVICE_ACCESS A) 56 dflt s = Some (s', status)"
    "\<not> EFI_ERROR status" "ok s'" "store s' = (store s)((L ''DisplayModeCustomDefault'', guid) \<mapsto> (BOOTSERVICE_ACCESS A, dflt))"
    using set_ok [OF assms(2) _ assms(3), of "L ''DisplayModeCustomDefault''" 56 dflt guid] assms(5) by auto
  have "store s' (L ''DisplayModeCustom'', guid) = store s (L ''DisplayModeCustom'', guid)"
    using s'(4) by (simp add: inj_L)
  then show ?thesis
    using assms s' by (auto simp: seed_mode_custom_def read_setting_ok read_over_def fits_def assert_that_def split: option.splits prod.splits)
qed

lemma seed_mode_preset_ok:
  assumes "ok s" "BOOTSERVICE_ACCESS A AND access \<noteq> 0"
    and "PcdDisplayModePresetDefault E = Some dflt" "length dflt = 4" "length stack = 4"
    and "\<And>a d. store s (L ''DisplayModePreset'', guid) = Some (a, d) \<Longrightarrow> length d = 4"
  shows "\<exists>s' p'. seed_mode_preset R P A guid E stack False s p = Some (s', p') \<and> ok s' \<and>
    store s' = (store s)((L ''DisplayModeDefault'', guid) \<mapsto> (BOOTSERVICE_ACCESS A, dflt),
      (L ''DisplayModePreset'', guid) \<mapsto>
        kept_preset (NON_VOLATILE A OR BOOTSERVICE_ACCESS A OR RUNTIME_ACCESS A) dflt (store s (L ''DisplayModePreset'', guid)))"
proof -
  let ?k = "(L ''DisplayModePreset'', guid)" and ?a = "NON_VOLATILE A OR BOOTSERVICE_ACCESS A OR RUNTIME_ACCESS A"
  obtain s1 st1 where s1: "SetVariable R (L ''DisplayModeDefault'') guid (BOOTSERVICE_ACCESS A) 4 dflt s = Some (s1, st1)"
    "\<not> EFI_ERROR st1" "ok s1" "store s1 = (store s)((L ''DisplayModeDefault'', guid) \<mapsto> (BOOTSERVICE_ACCESS A, dflt))"
    using set_ok [OF assms(1) _ assms(2), of "L ''DisplayModeDefault''" 4 dflt guid] assms(4) by auto
  have same: "store s1 ?k = store s ?k"
    using s1(4) by (simp add: inj_L)
  have "?a AND access \<noteq> 0"
    by (rule access_OR(1) [OF access_OR(2) [OF assms(2)]])
  then obtain s2 st2 where s2: "SetVariable R (L ''DisplayModePreset'') guid ?a 4 dflt s1 = Some (s2, st2)"
    "ok s2" "store s2 = (store s1)(?k \<mapsto> (?a, dflt))"
    using set_ok [OF s1(3), of "L ''DisplayModePreset''" ?a 4 dflt guid] assms(4) by auto
  show ?thesis
  proof (cases "store s ?k")
    case None
    then show ?thesis
      using assms s1 s2 same
      by (simp add: seed_mode_preset_def read_setting_ok read_over_def assert_that_def kept_preset_def)
  next
    case (Some v)
    then obtain a d where v: "v = (a, d)" "length d = 4"
      using assms(6) by (cases v) auto
    show ?thesis
    proof (cases "(word32 d = DISPLAY_MODE_NATIVE) = (word32 dflt = DISPLAY_MODE_NATIVE)")
      case True
      have "(store s1)(?k \<mapsto> (a, d)) = store s1"
        using same Some v(1) by (simp add: fun_upd_idem)
      then show ?thesis
        using True assms s1 same Some v
        by (auto simp: seed_mode_preset_def read_setting_ok read_over_def assert_that_def kept_preset_def)
    next
      case False
      then show ?thesis
        using assms s1 s2 same Some v
        by (auto simp: seed_mode_preset_def read_setting_ok read_over_def assert_that_def kept_preset_def)
    qed
  qed
qed

lemma display_variables:
  assumes "ok s" "pcd_ok P" "BOOTSERVICE_ACCESS A AND access \<noteq> 0"
    and "foldl (OR) 0 (PcdDisplayConnectors E) \<noteq> 0" "length (PcdDisplayConnectors E) \<le> VOP_OUTPUT_IF_NUMS"
    and "PcdDisplayModePresetDefault E = Some dflt" "length dflt = 4"
    and "PcdDisplayModeCustomDefault E = Some custom" "length custom = 56"
    and "length (st_ModePreset K) = 4" "length (st_ModeCustom K) = 56" "length (st_ConnectorsPriority K) = 4 * VOP_OUTPUT_IF_NUMS"
    and "\<And>a d. store s (L ''DisplayModePreset'', guid) = Some (a, d) \<Longrightarrow> length d = 4"
    and "fits (store s) (L ''DisplayModeCustom'', guid) 56"
    and "fits (store s) (L ''DisplayConnectorsPriority'', guid) (4 * VOP_OUTPUT_IF_NUMS)"
  shows "\<exists>s' p'. InitializeDisplayVariables R P A guid E K False s p = Some (s', p', EFI_SUCCESS) \<and> ok s' \<and>
    store s' = (store s)(
      (L ''DisplayConnectorsMask'', guid) \<mapsto> (BOOTSERVICE_ACCESS A, bytes32 (foldl (OR) 0 (PcdDisplayConnectors E))),
      (L ''DisplayModeDefault'', guid) \<mapsto> (BOOTSERVICE_ACCESS A, dflt),
      (L ''DisplayModePreset'', guid) \<mapsto>
        kept_preset (NON_VOLATILE A OR BOOTSERVICE_ACCESS A OR RUNTIME_ACCESS A) dflt (store s (L ''DisplayModePreset'', guid)),
      (L ''DisplayModeCustomDefault'', guid) \<mapsto> (BOOTSERVICE_ACCESS A, custom))"
proof -
  define p0 where "p0 = fst (PcdSet P ''PcdDisplayConnectorsMask'' (Pcd32 (foldl (OR) 0 (PcdDisplayConnectors E))) p)"
  obtain s1 st1 where s1: "SetVariable R (L ''DisplayConnectorsMask'') guid (BOOTSERVICE_ACCESS A) 4
        (bytes32 (foldl (OR) 0 (PcdDisplayConnectors E))) s = Some (s1, st1)" "ok s1"
      "store s1 = (store s)((L ''DisplayConnectorsMask'', guid) \<mapsto>
        (BOOTSERVICE_ACCESS A, bytes32 (foldl (OR) 0 (PcdDisplayConnectors E))))"
    using set_ok [OF assms(1) _ assms(3), of "L ''DisplayConnectorsMask''" 4
        "bytes32 (foldl (OR) 0 (PcdDisplayConnectors E))" guid] by (auto simp: bytes32_def)
  have same1: "store s1 (L name, guid) = store s (L name, guid)" if "name \<noteq> ''DisplayConnectorsMask''" for name
    using s1(3) that by (simp add: inj_L)
  obtain s2 p2 where s2: "seed_mode_preset R P A guid E (st_ModePreset K) False s1 p0 = Some (s2, p2)" "ok s2"
      "store s2 = (store s1)((L ''DisplayModeDefault'', guid) \<mapsto> (BOOTSERVICE_ACCESS A, dflt),
        (L ''DisplayModePreset'', guid) \<mapsto>
          kept_preset (NON_VOLATILE A OR BOOTSERVICE_ACCESS A OR RUNTIME_ACCESS A) dflt (store s (L ''DisplayModePreset'', guid)))"
    using seed_mode_preset_ok [OF s1(2) assms(3,6,7,10), of guid P p0] assms(13) same1 [of "''DisplayModePreset''"] by auto
  have same2: "store s2 (L name, guid) = store s (L name, guid)"
    if "name \<notin> {''DisplayConnectorsMask'', ''DisplayModeDefault'', ''DisplayModePreset''}" for name
    using s2(3) same1 that by (simp add: inj_L)
  obtain s3 p3 where s3: "seed_mode_custom R P A guid E (st_ModeCustom K) False s2 p2 = Some (s3, p3)" "ok s3"
      "store s3 = (store s2)((L ''DisplayModeCustomDefault'', guid) \<mapsto> (BOOTSERVICE_ACCESS A, custom))"
    using seed_mode_custom_ok [OF assms(2) s2(2) assms(3,8,9,11), of guid p2] assms(14) same2 [of "''DisplayModeCustom''"]
    by (auto simp: fits_def)
  have "store s3 (L ''DisplayConnectorsPriority'', guid) = store s (L ''DisplayConnectorsPriority'', guid)"
    using s3(3) same2 by (simp add: inj_L)
  then obtain p4 where p4: "seed_connectors_priority R P guid E (st_ConnectorsPriority K) False s3 p3 = Some p4"
    using seed_connectors_priority_ok [OF assms(2) s3(2) assms(5,12), of guid p3] assms(15) by (auto simp: fits_def)
  have seed: "\<exists>p'. seed_setting R P guid False name buf pcd v s3 q = Some p'" if "name \<noteq> []" for name buf pcd v q
    by (rule seed_setting_ok [OF assms(2) s3(2) that])
  obtain p5 where p5: "seed_setting R P guid False ''DisplayForceOutput'' (st_Var8 K) ''PcdDisplayForceOutput''
      (PcdBoolean (PcdDisplayForceOutputDefault E)) s3 p4 = Some p5"
    using seed by blast
  obtain p6 where p6: "seed_setting R P guid False ''DisplayDuplicateOutput'' (st_Var8 K) ''PcdDisplayDuplicateOutput''
      (PcdBoolean (PcdDisplayDuplicateOutputDefault E)) s3 p5 = Some p6"
    using seed by blast
  obtain p7 where p7: "seed_setting R P guid False ''DisplayRotation'' (st_Var16 K) ''PcdDisplayRotation''
      (Pcd16 (PcdDisplayRotationDefault E)) s3 p6 = Some p7"
    using seed by blast
  obtain p8 where p8: "seed_setting R P guid False ''HdmiSignalingMode'' (st_Var8 K) ''PcdHdmiSignalingMode''
      (Pcd8 (PcdHdmiSignalingModeDefault E)) s3 p7 = Some p8"
    using seed by blast
  have "InitializeDisplayVariables R P A guid E K False s p = Some (s3, p8, EFI_SUCCESS)"
    using assms(2,4,5) s1(1) s2(1) s3(1) p4 p5 p6 p7 p8
    by (simp add: InitializeDisplayVariables_def assert_that_def Let_def p0_def)
  then show ?thesis
    using s3(2,3) s2(3) s1(3) by auto
qed

end

end
