(* ===== verification/VarStub.thy ===== *)
theory VarStub
  imports ConfigSetup
begin

text \<open>
  The volatile variable service (\<open>Drivers/VariableStubDxe/VariableStubDxe.c\<close>): a list of variables
  in RAM behind \<open>GetVariable\<close>, \<open>GetNextVariableName\<close>, \<open>SetVariable\<close> and \<open>QueryVariableInfo\<close>.

  A pointer argument that may be NULL is an option. The list entry that \<open>FindVar\<close> returns is its position. The pool of
  UefiLib is outside the repository: \<open>grant n\<close> says whether its \<open>n\<close>-th allocation succeeds, and the
  state counts the allocations made and the blocks that are still held. The attribute bits of
  UEFI that make a variable accessible are the argument \<open>access\<close>.
\<close>

section \<open>State\<close>

record STUB_VAR_ENTRY =
  ve_VendorGuid :: "u8 list"
  ve_Name :: "u16 list"
  ve_Attributes :: u32
  ve_DataSize :: nat
  ve_Data :: "u8 list option"

record stub_state =
  mVarList :: "STUB_VAR_ENTRY list"
  pool_calls :: nat
  pool_live :: nat

definition StrSize :: "u16 list \<Rightarrow> nat" where
  "StrSize s = 2 * (length s + 1)"

definition AllocatePool :: "(nat \<Rightarrow> bool) \<Rightarrow> stub_state \<Rightarrow> stub_state \<times> bool" where
  "AllocatePool grant st =
     (let ok = grant (pool_calls st)
      in (st\<lparr>pool_calls := Suc (pool_calls st), pool_live := pool_live st + (if ok then 1 else 0)\<rparr>, ok))"

text \<open>The pool is a number of live buffers; that a free names a buffer of its own is not tracked.\<close>

definition FreePool :: "stub_state \<Rightarrow> stub_state run" where
  "FreePool st = (if pool_live st = 0 then None else Some (st\<lparr>pool_live := pool_live st - 1\<rparr>))"

section \<open>Operations\<close>

fun FindVar :: "STUB_VAR_ENTRY list \<Rightarrow> u16 list \<Rightarrow> u8 list \<Rightarrow> nat option" where
  "FindVar [] name guid = None"
| "FindVar (e # es) name guid =
     (if ve_VendorGuid e = guid \<and> ve_Name e = name then Some 0 else map_option Suc (FindVar es name guid))"

definition FreeVar :: "nat \<Rightarrow> stub_state \<Rightarrow> stub_state run" where
  "FreeVar k st =
     (let e = mVarList st ! k
      in do {
        st \<leftarrow> Some (st\<lparr>mVarList := take k (mVarList st) @ drop (Suc k) (mVarList st)\<rparr>);
        st \<leftarrow> FreePool st;
        st \<leftarrow> (if ve_Data e \<noteq> None then FreePool st else Some st);
        FreePool st
      })"

definition got :: "u32 option \<Rightarrow> nat option \<Rightarrow> u8 list \<Rightarrow> efi_status \<Rightarrow> get_result run" where
  "got attrs n bytes status =
     Some \<lparr>got_Attributes = attrs, got_DataSize = n, got_Data = bytes, got_Status = status\<rparr>"

definition StubGetVariable ::
  "stub_state \<Rightarrow> u16 list option \<Rightarrow> u8 list option \<Rightarrow> nat option \<Rightarrow> bool \<Rightarrow> get_result run" where
  "StubGetVariable st VariableName VendorGuid DataSize has_Data =
     (case (VariableName, VendorGuid, DataSize) of
        (Some name, Some guid, Some n) \<Rightarrow>
          if name = [] then got None (Some n) [] (Error EFI_NOT_FOUND)
          else (case FindVar (mVarList st) name guid of
            None \<Rightarrow> got None (Some n) [] (Error EFI_NOT_FOUND)
          | Some k \<Rightarrow>
              let e = mVarList st ! k
              in if n < ve_DataSize e
                 then got (Some (ve_Attributes e)) (Some (ve_DataSize e)) [] (Error EFI_BUFFER_TOO_SMALL)
                 else if \<not> has_Data
                 then got (Some (ve_Attributes e)) (Some n) [] (Error EFI_INVALID_PARAMETER)
                 else do {
                   bytes \<leftarrow> ve_Data e;
                   assert_that (ve_DataSize e \<le> length bytes);
                   got (Some (ve_Attributes e)) (Some (ve_DataSize e)) (take (ve_DataSize e) bytes) EFI_SUCCESS
                 })
      | _ \<Rightarrow> got None DataSize [] (Error EFI_INVALID_PARAMETER))"

text \<open>\<open>*VariableNameSize\<close>, the name and the GUID written, and the status.\<close>

definition next_entry :: "stub_state \<Rightarrow> u16 list \<Rightarrow> u8 list \<Rightarrow> (STUB_VAR_ENTRY option, efi_error) sum" where
  "next_entry st name guid =
     (if name = [] then Inl (case mVarList st of [] \<Rightarrow> None | e # _ \<Rightarrow> Some e)
      else case FindVar (mVarList st) name guid of
        None \<Rightarrow> Inr EFI_INVALID_PARAMETER
      | Some k \<Rightarrow> Inl (if Suc k < length (mVarList st) then Some (mVarList st ! Suc k) else None))"

definition StubGetNextVariableName ::
  "stub_state \<Rightarrow> nat option \<Rightarrow> u16 list option \<Rightarrow> u8 list option \<Rightarrow>
     nat option \<times> u16 list option \<times> u8 list option \<times> efi_status" where
  "StubGetNextVariableName st VariableNameSize VariableName VendorGuid =
     (case (VariableNameSize, VariableName, VendorGuid) of
        (Some n, Some name, Some guid) \<Rightarrow>
          (case next_entry st name guid of
             Inr err \<Rightarrow> (Some n, Some name, Some guid, Error err)
           | Inl None \<Rightarrow> (Some n, Some name, Some guid, Error EFI_NOT_FOUND)
           | Inl (Some e) \<Rightarrow>
               if n < StrSize (ve_Name e) then (Some (StrSize (ve_Name e)), Some name, Some guid, Error EFI_BUFFER_TOO_SMALL)
               else (Some (StrSize (ve_Name e)), Some (ve_Name e), Some (ve_VendorGuid e), EFI_SUCCESS))
      | _ \<Rightarrow> (VariableNameSize, VariableName, VendorGuid, Error EFI_INVALID_PARAMETER))"

definition replace_data :: "(nat \<Rightarrow> bool) \<Rightarrow> nat \<Rightarrow> u32 \<Rightarrow> u8 list \<Rightarrow> stub_state \<Rightarrow> (stub_state \<times> efi_status) run" where
  "replace_data grant k attrs bytes st =
     (let e = mVarList st ! k
      in do {
        st \<leftarrow> (if ve_Data e \<noteq> None then FreePool st else Some st);
        st \<leftarrow> Some (st\<lparr>mVarList := (mVarList st)[k := e\<lparr>ve_Data := None\<rparr>]\<rparr>);
        (st, ok) \<leftarrow> Some (AllocatePool grant st);
        (if \<not> ok then do { st \<leftarrow> FreeVar k st; Some (st, Error EFI_OUT_OF_RESOURCES) }
         else Some (st\<lparr>mVarList := (mVarList st)[k := e\<lparr>ve_Data := Some bytes, ve_DataSize := length bytes, ve_Attributes := attrs\<rparr>]\<rparr>,
                    EFI_SUCCESS))
      })"

definition insert_var :: "(nat \<Rightarrow> bool) \<Rightarrow> u16 list \<Rightarrow> u8 list \<Rightarrow> u32 \<Rightarrow> u8 list \<Rightarrow> stub_state \<Rightarrow> (stub_state \<times> efi_status) run" where
  "insert_var grant name guid attrs bytes st =
     (let (st, entry_ok) = AllocatePool grant st
      in if \<not> entry_ok then Some (st, Error EFI_OUT_OF_RESOURCES)
         else let (st, name_ok) = AllocatePool grant st; (st, data_ok) = AllocatePool grant st
              in if \<not> name_ok \<or> \<not> data_ok
                 then do {
                   st \<leftarrow> (if name_ok then FreePool st else Some st);
                   st \<leftarrow> (if data_ok then FreePool st else Some st);
                   st \<leftarrow> FreePool st;
                   Some (st, Error EFI_OUT_OF_RESOURCES)
                 }
                 else Some (st\<lparr>mVarList := mVarList st @ [\<lparr>ve_VendorGuid = guid, ve_Name = name, ve_Attributes = attrs,
                                  ve_DataSize = length bytes, ve_Data = Some bytes\<rparr>]\<rparr>, EFI_SUCCESS))"

definition StubSetVariable ::
  "(nat \<Rightarrow> bool) \<Rightarrow> u32 \<Rightarrow> u16 list option \<Rightarrow> u8 list option \<Rightarrow> u32 \<Rightarrow> nat \<Rightarrow> u8 list option \<Rightarrow> stub_state \<Rightarrow>
     (stub_state \<times> efi_status) run" where
  "StubSetVariable grant access VariableName VendorGuid Attrs DataSize Data st =
     (case (VariableName, VendorGuid) of
        (Some name, Some guid) \<Rightarrow>
          if name = [] \<or> DataSize \<noteq> 0 \<and> Data = None then Some (st, Error EFI_INVALID_PARAMETER)
          else let found = FindVar (mVarList st) name guid
               in if DataSize = 0 \<or> Attrs AND access = 0
                  then (case found of
                          Some k \<Rightarrow> do { st \<leftarrow> FreeVar k st; Some (st, EFI_SUCCESS) }
                        | None \<Rightarrow> Some (st, Error EFI_NOT_FOUND))
                  else do {
                    bytes \<leftarrow> Data;
                    assert_that (DataSize \<le> length bytes);
                    (case found of
                       Some k \<Rightarrow> replace_data grant k Attrs (take DataSize bytes) st
                     | None \<Rightarrow> insert_var grant name guid Attrs (take DataSize bytes) st)
                  }
      | _ \<Rightarrow> Some (st, Error EFI_INVALID_PARAMETER))"

definition StubQueryVariableInfo :: "bool \<Rightarrow> bool \<Rightarrow> bool \<Rightarrow> (nat \<times> nat \<times> nat) option \<times> efi_status" where
  "StubQueryVariableInfo has_max has_rem has_size =
     (if \<not> has_max \<or> \<not> has_rem \<or> \<not> has_size then (None, Error EFI_INVALID_PARAMETER)
      else (Some (0x100000, 0x100000, 0x10000), EFI_SUCCESS))"

section \<open>Specification\<close>

definition entry_key :: "STUB_VAR_ENTRY \<Rightarrow> var_key" where
  "entry_key e = (ve_Name e, ve_VendorGuid e)"

definition entry_value :: "STUB_VAR_ENTRY \<Rightarrow> var_value" where
  "entry_value e = (ve_Attributes e, case ve_Data e of None \<Rightarrow> [] | Some bytes \<Rightarrow> bytes)"

text \<open>The store as a map from names and vendors to attributes and data.\<close>

definition stored :: "stub_state \<Rightarrow> var_key \<rightharpoonup> var_value" where
  "stored st = map_of (map (\<lambda>e. (entry_key e, entry_value e)) (mVarList st))"

text \<open>
  Well-formed stores: keys are distinct, every variable has a name, data of the recorded size and
  an access attribute, and the pool holds exactly the three blocks of every variable.
\<close>

definition entry_ok :: "u32 \<Rightarrow> STUB_VAR_ENTRY \<Rightarrow> bool" where
  "entry_ok access e \<longleftrightarrow> ve_Name e \<noteq> [] \<and> ve_Attributes e AND access \<noteq> 0 \<and> ve_DataSize e \<noteq> 0 \<and>
     (case ve_Data e of None \<Rightarrow> False | Some bytes \<Rightarrow> length bytes = ve_DataSize e)"

definition stub_ok :: "u32 \<Rightarrow> stub_state \<Rightarrow> bool" where
  "stub_ok access st \<longleftrightarrow> distinct (map entry_key (mVarList st)) \<and> (\<forall>e \<in> set (mVarList st). entry_ok access e) \<and>
     pool_live st = 3 * length (mVarList st)"

section \<open>Lists of variables\<close>

lemma FindVar_Some:
  "FindVar es name guid = Some k \<Longrightarrow> k < length es \<and> entry_key (es ! k) = (name, guid)"
  by (induction es arbitrary: k) (auto simp: entry_key_def split: if_splits)

lemma FindVar_None: "FindVar es name guid = None \<longleftrightarrow> (name, guid) \<notin> set (map entry_key es)"
  by (induction es) (auto simp: entry_key_def)

lemma FindVar_nth:
  "distinct (map entry_key es) \<Longrightarrow> k < length es \<Longrightarrow> entry_key (es ! k) = (name, guid) \<Longrightarrow> FindVar es name guid = Some k"
proof (induction es arbitrary: k)
  case (Cons e es)
  show ?case
  proof (cases k)
    case 0
    then show ?thesis
      using Cons.prems(3) by (simp add: entry_key_def)
  next
    case (Suc j)
    then have "(name, guid) \<in> set (map entry_key es)"
      using Cons.prems(2,3) by (metis Suc_less_eq length_Cons length_map nth_Cons_Suc nth_map nth_mem)
    then have "entry_key e \<noteq> (name, guid)"
      using Cons.prems(1) by auto
    then have "\<not> (ve_VendorGuid e = guid \<and> ve_Name e = name)"
      by (auto simp: entry_key_def)
    moreover have "FindVar es name guid = Some j"
      using Cons Suc by simp
    ultimately show ?thesis
      using Suc by simp
  qed
qed simp

lemma map_of_FindVar:
  "map_of (map (\<lambda>e. (entry_key e, f e)) es) (name, guid) = map_option (\<lambda>k. f (es ! k)) (FindVar es name guid)"
  by (induction es) (auto simp: entry_key_def option.map_comp comp_def)

lemma stored_FindVar:
  "stored st (name, guid) = map_option (\<lambda>k. entry_value (mVarList st ! k)) (FindVar (mVarList st) name guid)"
  unfolding stored_def by (rule map_of_FindVar)

text \<open>Removing and replacing the entry at a position.\<close>

lemma split_at: "k < length xs \<Longrightarrow> xs = take k xs @ xs ! k # drop (Suc k) xs"
  by (rule id_take_nth_drop)

lemma map_of_remove:
  assumes "distinct (map entry_key es)" "k < length es"
  shows "map_of (map (\<lambda>e. (entry_key e, f e)) (take k es @ drop (Suc k) es)) =
    (map_of (map (\<lambda>e. (entry_key e, f e)) es))(entry_key (es ! k) := None)"
proof -
  define as where "as = take k es"
  define bs where "bs = drop (Suc k) es"
  have es: "es = as @ es ! k # bs"
    using split_at [OF assms(2)] by (simp add: as_def bs_def)
  have "distinct (map entry_key (as @ es ! k # bs))"
    using assms(1) es by metis
  then have "entry_key (es ! k) \<notin> entry_key ` set as" "entry_key (es ! k) \<notin> entry_key ` set bs"
    by auto
  then have none: "map_of (map (\<lambda>e. (entry_key e, f e)) as) (entry_key (es ! k)) = None"
    "map_of (map (\<lambda>e. (entry_key e, f e)) bs) (entry_key (es ! k)) = None"
    by (simp_all add: map_of_eq_None_iff image_image)
  have "map_of (map (\<lambda>e. (entry_key e, f e)) es) =
      map_of (map (\<lambda>e. (entry_key e, f e)) (as @ es ! k # bs))"
    using es by metis
  then show ?thesis
    using none unfolding as_def [symmetric] bs_def [symmetric]
    by (auto simp: fun_eq_iff map_add_def split: option.splits)
qed

lemma map_of_update:
  assumes "distinct (map entry_key es)" "k < length es" "entry_key e = entry_key (es ! k)"
  shows "map_of (map (\<lambda>e. (entry_key e, f e)) (es[k := e])) =
    (map_of (map (\<lambda>e. (entry_key e, f e)) es))(entry_key (es ! k) \<mapsto> f e)"
proof -
  define as where "as = take k es"
  define bs where "bs = drop (Suc k) es"
  have es: "es = as @ es ! k # bs" "es[k := e] = as @ e # bs"
    using split_at [OF assms(2)] assms(2) by (simp_all add: as_def bs_def upd_conv_take_nth_drop)
  have "distinct (map entry_key (as @ es ! k # bs))"
    using assms(1) es by metis
  then have none: "map_of (map (\<lambda>e. (entry_key e, f e)) as) (entry_key (es ! k)) = None"
    by (auto simp: map_of_eq_None_iff image_image)
  have "map_of (map (\<lambda>e. (entry_key e, f e)) es) = map_of (map (\<lambda>e. (entry_key e, f e)) (as @ es ! k # bs))"
    using es by metis
  then show ?thesis
    using none unfolding es(2) by (auto simp: fun_eq_iff map_add_def assms(3) split: option.splits)
qed

lemma keys_remove:
  assumes "distinct (map entry_key es)" "k < length es"
  shows "distinct (map entry_key (take k es @ drop (Suc k) es))"
proof -
  have "distinct (map entry_key (take k es @ es ! k # drop (Suc k) es))"
    using assms(1) split_at [OF assms(2)] by metis
  then show ?thesis
    by auto
qed

lemma keys_update:
  "distinct (map entry_key es) \<Longrightarrow> k < length es \<Longrightarrow> entry_key e = entry_key (es ! k) \<Longrightarrow>
    map entry_key (es[k := e]) = map entry_key es"
  by (simp add: map_update) (metis length_map list_update_id nth_map)

lemma length_remove: "k < length es \<Longrightarrow> Suc (length (take k es @ drop (Suc k) es)) = length es"
  by simp

section \<open>Setting a variable\<close>

lemma FreeVar_ok:
  assumes "stub_ok access st" "k < length (mVarList st)"
  shows "\<exists>st'. FreeVar k st = Some st' \<and> stub_ok access st' \<and>
    stored st' = (stored st)(entry_key (mVarList st ! k) := None)"
proof -
  let ?es = "mVarList st"
  have "entry_ok access (?es ! k)"
    using assms by (simp add: stub_ok_def)
  then have data: "ve_Data (?es ! k) \<noteq> None"
    by (auto simp: entry_ok_def split: option.splits)
  have live: "pool_live st = 3 + 3 * length (take k ?es @ drop (Suc k) ?es)"
    using assms length_remove [OF assms(2)] by (simp add: stub_ok_def)
  have entries: "set (take k ?es @ drop (Suc k) ?es) \<subseteq> set ?es"
    by (auto dest: in_set_takeD in_set_dropD)
  show ?thesis
    using data live entries assms keys_remove [of ?es k] map_of_remove [of ?es k entry_value]
    by (auto simp: FreeVar_def FreePool_def stub_ok_def stored_def Let_def)
qed

lemma replace_data_ok:
  assumes ok: "stub_ok access st" and k: "k < length (mVarList st)"
    and e: "entry_ok access \<lparr>ve_VendorGuid = snd (entry_key (mVarList st ! k)), ve_Name = fst (entry_key (mVarList st ! k)),
      ve_Attributes = attrs, ve_DataSize = length bytes, ve_Data = Some bytes\<rparr>"
  shows "\<exists>st' status. replace_data grant k attrs bytes st = Some (st', status) \<and> stub_ok access st' \<and>
    (if grant (pool_calls st)
     then status = EFI_SUCCESS \<and> stored st' = (stored st)(entry_key (mVarList st ! k) \<mapsto> (attrs, bytes))
     else status = Error EFI_OUT_OF_RESOURCES \<and> stored st' = (stored st)(entry_key (mVarList st ! k) := None))"
proof -
  let ?es = "mVarList st"
  have "entry_ok access (?es ! k)"
    using ok k by (simp add: stub_ok_def)
  then have data: "ve_Data (?es ! k) \<noteq> None"
    by (auto simp: entry_ok_def split: option.splits)
  have live: "pool_live st = 3 + 3 * length (take k ?es @ drop (Suc k) ?es)"
    using ok length_remove [OF k] by (simp add: stub_ok_def)
  show ?thesis
  proof (cases "grant (pool_calls st)")
    case True
    let ?e = "(?es ! k)\<lparr>ve_Data := Some bytes, ve_DataSize := length bytes, ve_Attributes := attrs\<rparr>"
    have key: "entry_key ?e = entry_key (?es ! k)" "entry_value ?e = (attrs, bytes)" "entry_ok access ?e"
      using e by (simp_all add: entry_key_def entry_value_def entry_ok_def)
    have "set (?es[k := ?e]) \<subseteq> insert ?e (set ?es)"
      by (rule set_update_subset_insert)
    moreover have "replace_data grant k attrs bytes st =
        Some (st\<lparr>pool_calls := Suc (pool_calls st), mVarList := ?es[k := ?e]\<rparr>, EFI_SUCCESS)"
      using True data live k by (simp add: replace_data_def FreePool_def AllocatePool_def Let_def)
    ultimately show ?thesis
      using True ok k key(2,3) keys_update [OF _ k key(1)] map_of_update [OF _ k key(1), of entry_value]
      by (auto simp: stub_ok_def stored_def)
  next
    case False
    have entries: "set (take k ?es @ drop (Suc k) ?es) \<subseteq> set ?es"
      by (auto dest: in_set_takeD in_set_dropD)
    have "replace_data grant k attrs bytes st =
        Some (st\<lparr>pool_calls := Suc (pool_calls st), pool_live := pool_live st - 3,
                 mVarList := take k ?es @ drop (Suc k) ?es\<rparr>, Error EFI_OUT_OF_RESOURCES)"
      using False data live k
      by (simp add: replace_data_def FreePool_def AllocatePool_def FreeVar_def Let_def)
    then show ?thesis
      using False ok k live entries keys_remove [of ?es k] map_of_remove [of ?es k entry_value]
      by (auto simp: stub_ok_def stored_def)
  qed
qed

lemma insert_var_ok:
  assumes ok: "stub_ok access st" and new: "stored st (name, guid) = None"
    and e: "entry_ok access \<lparr>ve_VendorGuid = guid, ve_Name = name, ve_Attributes = attrs,
      ve_DataSize = length bytes, ve_Data = Some bytes\<rparr>"
  shows "\<exists>st' status. insert_var grant name guid attrs bytes st = Some (st', status) \<and> stub_ok access st' \<and>
    (if grant (pool_calls st) \<and> grant (Suc (pool_calls st)) \<and> grant (Suc (Suc (pool_calls st)))
     then status = EFI_SUCCESS \<and> stored st' = (stored st)((name, guid) \<mapsto> (attrs, bytes))
     else status = Error EFI_OUT_OF_RESOURCES \<and> stored st' = stored st)"
proof -
  let ?e = "\<lparr>ve_VendorGuid = guid, ve_Name = name, ve_Attributes = attrs, ve_DataSize = length bytes, ve_Data = Some bytes\<rparr>"
  have "FindVar (mVarList st) name guid = None"
    using new by (simp add: stored_FindVar)
  then have key: "entry_key ?e \<notin> entry_key ` set (mVarList st)" "entry_value ?e = (attrs, bytes)" "entry_key ?e = (name, guid)"
    by (simp_all add: FindVar_None entry_key_def entry_value_def)
  then have none: "map_of (map (\<lambda>e. (entry_key e, entry_value e)) (mVarList st)) (name, guid) = None"
    by (simp add: map_of_eq_None_iff image_image)
  have "(map_of (map (\<lambda>e. (entry_key e, entry_value e)) (mVarList st @ [?e]))) =
      (map_of (map (\<lambda>e. (entry_key e, entry_value e)) (mVarList st)))((name, guid) \<mapsto> (attrs, bytes))"
    using none key(2,3) by (auto simp: fun_eq_iff map_add_def split: option.splits)
  then show ?thesis
    using ok e key(1,3) by (auto simp: insert_var_def AllocatePool_def FreePool_def stub_ok_def stored_def Let_def)
qed

text \<open>The effect of \<open>SetVariable\<close> on the map.\<close>

lemma StubSetVariable_ok:
  assumes ok: "stub_ok access st" and name: "name \<noteq> []" and data: "DataSize \<le> length bytes"
  shows "\<exists>st' status. StubSetVariable grant access (Some name) (Some guid) attrs DataSize (Some bytes) st = Some (st', status) \<and>
    stub_ok access st' \<and>
    (if DataSize = 0 \<or> attrs AND access = 0
     then stored st' = (stored st)((name, guid) := None) \<and>
       status = (if stored st (name, guid) = None then Error EFI_NOT_FOUND else EFI_SUCCESS)
     else status = EFI_SUCCESS \<and> stored st' = (stored st)((name, guid) \<mapsto> (attrs, take DataSize bytes)) \<or>
       status = Error EFI_OUT_OF_RESOURCES \<and> stored st' = (stored st)((name, guid) := None) \<and> (\<exists>n. \<not> grant n))"
proof (cases "FindVar (mVarList st) name guid")
  case None
  then have new: "stored st (name, guid) = None"
    by (simp add: stored_FindVar)
  then have same: "(stored st)((name, guid) := None) = stored st"
    by (auto simp: fun_eq_iff)
  show ?thesis
  proof (cases "DataSize = 0 \<or> attrs AND access = 0")
    case True
    then show ?thesis
      using None new same ok name by (auto simp: StubSetVariable_def Let_def)
  next
    case False
    then have "entry_ok access \<lparr>ve_VendorGuid = guid, ve_Name = name, ve_Attributes = attrs,
        ve_DataSize = length (take DataSize bytes), ve_Data = Some (take DataSize bytes)\<rparr>"
      using name data by (simp add: entry_ok_def)
    from insert_var_ok [OF ok new this, of grant] show ?thesis
      using None False name data same by (auto simp: StubSetVariable_def assert_that_def Let_def split: if_splits)
  qed
next
  case (Some k)
  note k = FindVar_Some [OF Some]
  show ?thesis
  proof (cases "DataSize = 0 \<or> attrs AND access = 0")
    case True
    then show ?thesis
      using Some FreeVar_ok [OF ok conjunct1 [OF k]] k name by (auto simp: StubSetVariable_def Let_def stored_FindVar)
  next
    case False
    have "entry_ok access \<lparr>ve_VendorGuid = snd (entry_key (mVarList st ! k)), ve_Name = fst (entry_key (mVarList st ! k)),
        ve_Attributes = attrs, ve_DataSize = length (take DataSize bytes), ve_Data = Some (take DataSize bytes)\<rparr>"
      using False name data k by (simp add: entry_ok_def)
    from replace_data_ok [OF ok conjunct1 [OF k] this, of grant] show ?thesis
      using Some False name data k by (auto simp: StubSetVariable_def assert_that_def Let_def split: if_splits)
  qed
qed

text \<open>Reading.\<close>

lemma StubGetVariable_ok:
  assumes ok: "stub_ok access st" and name: "name \<noteq> []"
  shows "StubGetVariable st (Some name) (Some guid) (Some n) has_Data =
    (case stored st (name, guid) of
       None \<Rightarrow> got None (Some n) [] (Error EFI_NOT_FOUND)
     | Some (attrs, bytes) \<Rightarrow>
         if n < length bytes then got (Some attrs) (Some (length bytes)) [] (Error EFI_BUFFER_TOO_SMALL)
         else if \<not> has_Data then got (Some attrs) (Some n) [] (Error EFI_INVALID_PARAMETER)
         else got (Some attrs) (Some (length bytes)) bytes EFI_SUCCESS)"
proof (cases "FindVar (mVarList st) name guid")
  case None
  then show ?thesis
    using name by (simp add: StubGetVariable_def stored_FindVar)
next
  case (Some k)
  then have "entry_ok access (mVarList st ! k)"
    using FindVar_Some [OF Some] ok by (simp add: stub_ok_def)
  then show ?thesis
    using name Some
    by (auto simp: StubGetVariable_def stored_FindVar entry_ok_def entry_value_def assert_that_def Let_def split: option.splits)
qed

section \<open>The variable services\<close>

definition stub_services :: "(nat \<Rightarrow> bool) \<Rightarrow> u32 \<Rightarrow> stub_state runtime_services" where
  "stub_services grant access = \<lparr>
     GetVariable = (\<lambda>name guid n st. StubGetVariable st (Some name) (Some guid) (Some n) True),
     SetVariable = (\<lambda>name guid attrs n bytes st. StubSetVariable grant access (Some name) (Some guid) attrs n (Some bytes) st)\<rparr>"

interpretation stub: variable_services "stub_services grant access" access stored "stub_ok access"
proof
  fix st :: stub_state and name :: "u16 list" and guid n
  assume "stub_ok access st" "name \<noteq> []"
  then show "\<exists>r. GetVariable (stub_services grant access) name guid n st = Some r \<and> read_result (stored st (name, guid)) n r"
    by (auto simp: stub_services_def StubGetVariable_ok got_def read_result_def split: option.splits)
next
  fix st :: stub_state and name :: "u16 list" and guid and attrs :: u32 and n and bytes :: "u8 list"
  assume a: "stub_ok access st" "name \<noteq> []" "attrs AND access \<noteq> 0" "0 < n" "n \<le> length bytes"
  show "\<exists>s' status. SetVariable (stub_services grant access) name guid attrs n bytes st = Some (s', status) \<and> stub_ok access s' \<and>
      (if EFI_ERROR status then \<forall>k. k \<noteq> (name, guid) \<longrightarrow> stored s' k = stored st k
       else stored s' = (stored st)((name, guid) \<mapsto> (attrs, take n bytes)))"
  proof -
    obtain st' status where
      "StubSetVariable grant access (Some name) (Some guid) attrs n (Some bytes) st = Some (st', status)" "stub_ok access st'"
      "status = EFI_SUCCESS \<and> stored st' = (stored st)((name, guid) \<mapsto> (attrs, take n bytes)) \<or>
       status = Error EFI_OUT_OF_RESOURCES \<and> stored st' = (stored st)((name, guid) := None)"
      using StubSetVariable_ok [OF a(1,2,5), of grant guid attrs] a(3,4) by auto
    then show ?thesis
      by (intro exI [of _ st'] exI [of _ status]) (auto simp: stub_services_def)
  qed
next
  fix st :: stub_state and name :: "u16 list" and guid and attrs :: u32 and n and bytes :: "u8 list"
  assume "stub_ok access st" "name \<noteq> []" "attrs AND access \<noteq> 0" "length bytes < n"
  then show "SetVariable (stub_services grant access) name guid attrs n bytes st = None"
    by (auto simp: stub_services_def StubSetVariable_def assert_that_def Let_def split: option.splits)
qed

end
