(* ===== verification/VarConfig.thy ===== *)
theory VarConfig
  imports VarStub
begin

text \<open>
  The properties of the volatile variable service, and of the drivers that read and write their
  configuration through it.
\<close>

section \<open>Enumerating the store\<close>

text \<open>A caller that asks for the next name until the call fails, with room for \<open>n\<close> bytes.\<close>

fun enumerate_vars :: "nat \<Rightarrow> stub_state \<Rightarrow> nat \<Rightarrow> u16 list \<Rightarrow> u8 list \<Rightarrow> var_key list \<times> efi_status" where
  "enumerate_vars 0 st n name guid = ([], EFI_SUCCESS)"
| "enumerate_vars (Suc fuel) st n name guid =
     (case StubGetNextVariableName st (Some n) (Some name) (Some guid) of
        (_, Some name', Some guid', status) \<Rightarrow>
          if EFI_ERROR status then ([], status)
          else let (ks, status) = enumerate_vars fuel st n name' guid' in ((name', guid') # ks, status)
      | (_, _, _, status) \<Rightarrow> ([], status))"

lemma next_entry_at:
  assumes "stub_ok access st" "k < length (mVarList st)" "entry_key (mVarList st ! k) = (name, guid)"
  shows "next_entry st name guid = Inl (if Suc k < length (mVarList st) then Some (mVarList st ! Suc k) else None)"
proof -
  have "entry_ok access (mVarList st ! k)" "distinct (map entry_key (mVarList st))"
    using assms(1,2) by (simp_all add: stub_ok_def)
  moreover have "ve_Name (mVarList st ! k) = name"
    using assms(3) by (simp add: entry_key_def)
  ultimately show ?thesis
    using FindVar_nth [OF _ assms(2,3)] by (auto simp: next_entry_def entry_ok_def)
qed

lemma enumerate_step:
  assumes "next_entry st name guid = Inl (if k < length (mVarList st) then Some (mVarList st ! k) else None)"
    and "\<And>e. e \<in> set (mVarList st) \<Longrightarrow> StrSize (ve_Name e) \<le> n"
  shows "enumerate_vars (Suc fuel) st n name guid =
    (if k < length (mVarList st)
     then let e = mVarList st ! k; (ks, status) = enumerate_vars fuel st n (ve_Name e) (ve_VendorGuid e)
          in (entry_key e # ks, status)
     else ([], Error EFI_NOT_FOUND))"
proof (cases "k < length (mVarList st)")
  case True
  then have "\<not> n < StrSize (ve_Name (mVarList st ! k))"
    using assms(2) by (simp add: leD)
  then show ?thesis
    using assms(1) True by (simp add: StubGetNextVariableName_def entry_key_def Let_def split_def)
next
  case False
  then show ?thesis
    using assms(1) by (simp add: StubGetNextVariableName_def)
qed

lemma enumerate_from:
  assumes ok: "stub_ok access st" and room: "\<And>e. e \<in> set (mVarList st) \<Longrightarrow> StrSize (ve_Name e) \<le> n"
  shows "next_entry st name guid = Inl (if k < length (mVarList st) then Some (mVarList st ! k) else None) \<Longrightarrow>
    length (mVarList st) - k < fuel \<Longrightarrow>
    enumerate_vars fuel st n name guid = (map entry_key (drop k (mVarList st)), Error EFI_NOT_FOUND)"
proof (induction fuel arbitrary: k name guid)
  case 0
  then show ?case by simp
next
  case (Suc fuel)
  note step = enumerate_step [OF Suc.prems(1) room]
  show ?case
  proof (cases "k < length (mVarList st)")
    case True
    let ?e = "mVarList st ! k"
    have "next_entry st (ve_Name ?e) (ve_VendorGuid ?e) =
        Inl (if Suc k < length (mVarList st) then Some (mVarList st ! Suc k) else None)"
      by (rule next_entry_at [OF ok True]) (simp add: entry_key_def)
    from Suc.IH [OF this] have "enumerate_vars fuel st n (ve_Name ?e) (ve_VendorGuid ?e) =
        (map entry_key (drop (Suc k) (mVarList st)), Error EFI_NOT_FOUND)"
      using Suc.prems(2) True by simp
    then show ?thesis
      using step True by (simp add: Let_def Cons_nth_drop_Suc [symmetric])
  next
    case False
    then show ?thesis
      using step by simp
  qed
qed

text \<open>
  C31: Enumerating a well-formed store from the empty name, with a buffer that holds every name,
  terminates after one call more than there are variables: it yields the name and vendor of every
  stored variable exactly once, in the order of insertion, and ends with \<open>EFI_NOT_FOUND\<close>.
\<close>

theorem stub_enumeration:
  assumes "stub_ok access st" "\<And>e. e \<in> set (mVarList st) \<Longrightarrow> StrSize (ve_Name e) \<le> n" "length (mVarList st) < fuel"
  shows "enumerate_vars fuel st n [] guid = (map entry_key (mVarList st), Error EFI_NOT_FOUND) \<and>
    distinct (map entry_key (mVarList st)) \<and> set (map entry_key (mVarList st)) = dom (stored st)"
proof -
  have "next_entry st [] guid = Inl (if 0 < length (mVarList st) then Some (mVarList st ! 0) else None)"
    by (cases "mVarList st") (simp_all add: next_entry_def)
  moreover have "dom (stored st) = entry_key ` set (mVarList st)"
    by (simp add: stored_def dom_map_of_conv_image_fst image_image)
  ultimately show ?thesis
    using enumerate_from [OF assms(1,2), of "[]" guid 0 fuel] assms by (simp add: stub_ok_def)
qed

definition demo_stub :: stub_state where
  "demo_stub = \<lparr>mVarList = [\<lparr>ve_VendorGuid = [9], ve_Name = L ''A'', ve_Attributes = 6, ve_DataSize = 2, ve_Data = Some [1, 2]\<rparr>,
       \<lparr>ve_VendorGuid = [9], ve_Name = L ''B'', ve_Attributes = 2, ve_DataSize = 1, ve_Data = Some [3]\<rparr>],
     pool_calls = 6, pool_live = 6\<rparr>"

lemma demo_stub_ok: "stub_ok 7 demo_stub"
  by (simp add: stub_ok_def demo_stub_def entry_ok_def entry_key_def inj_L)

theorem stub_enumeration_witness:
  "enumerate_vars 3 demo_stub 16 [] [0] = ([(L ''A'', [9]), (L ''B'', [9])], Error EFI_NOT_FOUND)"
proof -
  have room: "StrSize (ve_Name e) \<le> 16" if "e \<in> set (mVarList demo_stub)" for e
    using that by (auto simp: demo_stub_def StrSize_def L_def)
  show ?thesis
    using stub_enumeration [OF demo_stub_ok room, of 3 "[0]"] by (simp add: demo_stub_def entry_key_def)
qed

section \<open>Setting and reading\<close>

text \<open>
  C14: \<open>SetVariable\<close> refines the update of a map from names and vendors to attributes and data, and
  keeps the store well-formed: keys stay distinct, and the pool holds exactly the blocks of the
  stored variables on every path, so that nothing leaks when an allocation fails half way. Zero
  size or no access attribute deletes; otherwise the value is replaced or added; when the pool is
  exhausted the error is reported and a variable that was to be replaced is gone.
\<close>

theorem stub_set_variable:
  assumes "stub_ok access st" "name \<noteq> []" "DataSize \<le> length bytes"
  shows "\<exists>st' status. StubSetVariable grant access (Some name) (Some guid) attrs DataSize (Some bytes) st = Some (st', status) \<and>
    stub_ok access st' \<and>
    (if DataSize = 0 \<or> attrs AND access = 0
     then stored st' = (stored st)((name, guid) := None) \<and>
       status = (if stored st (name, guid) = None then Error EFI_NOT_FOUND else EFI_SUCCESS)
     else status = EFI_SUCCESS \<and> stored st' = (stored st)((name, guid) \<mapsto> (attrs, take DataSize bytes)) \<or>
       status = Error EFI_OUT_OF_RESOURCES \<and> stored st' = (stored st)((name, guid) := None) \<and> (\<exists>n. \<not> grant n))"
  by (rule StubSetVariable_ok [OF assms])

theorem stub_set_variable_witness:
  "\<exists>st'. StubSetVariable (\<lambda>n. True) 7 (Some (L ''A'')) (Some [9]) 3 2 (Some [8, 9, 10]) demo_stub = Some (st', EFI_SUCCESS) \<and>
    stub_ok 7 st' \<and> stored st' = (stored demo_stub)((L ''A'', [9]) \<mapsto> (3, [8, 9]))"
  using stub_set_variable [OF demo_stub_ok, of "L ''A''" 2 "[8, 9, 10]" "\<lambda>n. True" "[9]" 3] by auto

text \<open>
  C30: A variable that was set can be read back: after a successful \<open>SetVariable\<close>, \<open>GetVariable\<close> with
  a large enough buffer returns its attributes and exactly its data, with a smaller buffer the
  size and \<open>EFI_BUFFER_TOO_SMALL\<close>, and every other variable reads as before.
\<close>

theorem stub_set_get_roundtrip:
  assumes "stub_ok access st" "name \<noteq> []" "0 < DataSize" "DataSize \<le> length bytes" "attrs AND access \<noteq> 0"
    and "StubSetVariable grant access (Some name) (Some guid) attrs DataSize (Some bytes) st = Some (st', EFI_SUCCESS)"
  shows "StubGetVariable st' (Some name) (Some guid) (Some n) True =
      (if n < DataSize then got (Some attrs) (Some DataSize) [] (Error EFI_BUFFER_TOO_SMALL)
       else got (Some attrs) (Some DataSize) (take DataSize bytes) EFI_SUCCESS) \<and>
    (\<forall>name' guid'. name' \<noteq> [] \<longrightarrow> (name', guid') \<noteq> (name, guid) \<longrightarrow>
       StubGetVariable st' (Some name') (Some guid') (Some n) True = StubGetVariable st (Some name') (Some guid') (Some n) True)"
proof -
  have "stub_ok access st'" "stored st' = (stored st)((name, guid) \<mapsto> (attrs, take DataSize bytes))"
    using StubSetVariable_ok [OF assms(1,2,4), of grant guid attrs] assms(3,5,6) by auto
  then show ?thesis
    using assms by (auto simp: StubGetVariable_ok)
qed

theorem stub_set_get_roundtrip_witness:
  "\<exists>st'. StubGetVariable st' (Some (L ''C'')) (Some [1]) (Some 4) True = got (Some 2) (Some 3) [5, 6, 7] EFI_SUCCESS"
proof -
  obtain st' where "StubSetVariable (\<lambda>n. True) 7 (Some (L ''C'')) (Some [1]) 2 3 (Some [5, 6, 7]) demo_stub = Some (st', EFI_SUCCESS)"
    using StubSetVariable_ok [OF demo_stub_ok, of "L ''C''" 3 "[5, 6, 7]" "\<lambda>n. True" "[1]" 2] by auto
  from stub_set_get_roundtrip [OF demo_stub_ok _ _ _ _ this, of 4] show ?thesis
    by auto
qed

section \<open>Configuration\<close>

interpretation reliable_stub: reliable_services "stub_services (\<lambda>n. True) access" access stored "stub_ok access"
proof
  fix st :: stub_state and name :: "u16 list" and guid and attrs :: u32 and n and bytes :: "u8 list" and st' status
  assume a: "stub_ok access st" "name \<noteq> []" "attrs AND access \<noteq> 0" "0 < n" "n \<le> length bytes"
    "SetVariable (stub_services (\<lambda>n. True) access) name guid attrs n bytes st = Some (st', status)"
  show "\<not> EFI_ERROR status"
    using StubSetVariable_ok [OF a(1,2,5), of "\<lambda>n. True" guid attrs] a(3,4,6) by (auto simp: stub_services_def)
qed

text \<open>
  The network stack driver on the volatile store. Without a stored configuration it stores the
  defaults and applies them; a stored configuration of at most five bytes is applied over the
  defaults; a longer one makes it write back as many bytes as the stored variable has, reading
  beyond its own five-byte configuration.
\<close>

theorem network_stack_config:
  assumes "stub_ok access st" "BOOTSERVICE_ACCESS A AND access \<noteq> 0" "length defaults = 5"
  shows "case stored st (L ''NetworkStackConfigData'', guid) of
      None \<Rightarrow> \<exists>st' status.
        SetVariable (stub_services grant access) (L ''NetworkStackConfigData'') guid (NON_VOLATILE A OR BOOTSERVICE_ACCESS A) 5 defaults st =
          Some (st', status) \<and> stub_ok access st' \<and>
        (\<not> EFI_ERROR status \<longrightarrow>
          stored st' = (stored st)((L ''NetworkStackConfigData'', guid) \<mapsto> (NON_VOLATILE A OR BOOTSERVICE_ACCESS A, defaults))) \<and>
        NetworkStackConfigInitialize (stub_services grant access) A guid defaults install path_status has_packages st =
          (if EFI_ERROR status then None else do {
             installed \<leftarrow> NetworkStackConfigApply install defaults;
             Some (st', installed, InstallHiiPages path_status has_packages)
           })
    | Some (attrs, bytes) \<Rightarrow>
        NetworkStackConfigInitialize (stub_services grant access) A guid defaults install path_status has_packages st =
          (if 5 < length bytes then None else do {
             installed \<leftarrow> NetworkStackConfigApply install (bytes @ drop (length bytes) defaults);
             Some (st, installed, InstallHiiPages path_status has_packages)
           })"
  by (rule stub.network_config [OF assms])

definition demo_long_config :: stub_state where
  "demo_long_config = \<lparr>mVarList = [\<lparr>ve_VendorGuid = [9], ve_Name = L ''NetworkStackConfigData'', ve_Attributes = 3, ve_DataSize = 6,
       ve_Data = Some [1, 1, 1, 1, 1, 1]\<rparr>], pool_calls = 3, pool_live = 3\<rparr>"

theorem network_stack_config_witness:
  "NetworkStackConfigInitialize (stub_services (\<lambda>n. True) 7) \<lparr>NON_VOLATILE = 1, BOOTSERVICE_ACCESS = 2, RUNTIME_ACCESS = 4\<rparr> [9]
     [1, 1, 1, 1, 1] (\<lambda>p. EFI_SUCCESS) EFI_SUCCESS True demo_long_config = None"
proof -
  have "stub_ok 7 demo_long_config"
    "stored demo_long_config (L ''NetworkStackConfigData'', [9]) = Some (3, [1, 1, 1, 1, 1, 1])"
    by (simp_all add: stub_ok_def demo_long_config_def entry_ok_def stored_def entry_key_def entry_value_def)
  then show ?thesis
    using network_stack_config [of 7 demo_long_config "\<lparr>NON_VOLATILE = 1, BOOTSERVICE_ACCESS = 2, RUNTIME_ACCESS = 4\<rparr>"
        "[1, 1, 1, 1, 1]", where guid = "[9]" and grant = "\<lambda>n. True" and install = "\<lambda>p. EFI_SUCCESS"
        and path_status = EFI_SUCCESS and has_packages = True] by simp
qed

text \<open>
  On every boot the display driver replaces the stored display mode by the default of the board
  whenever exactly one of the two is the native mode: a user's choice survives only if it and the
  default are both native or both not. The other variables it writes are the hints for the setup
  form, and nothing else in the store changes.
\<close>

theorem display_mode_choice:
  assumes "stub_ok access st" "pcd_ok P" "BOOTSERVICE_ACCESS A AND access \<noteq> 0"
    and "foldl (OR) 0 (PcdDisplayConnectors E) \<noteq> 0" "length (PcdDisplayConnectors E) \<le> VOP_OUTPUT_IF_NUMS"
    and "PcdDisplayModePresetDefault E = Some dflt" "length dflt = 4"
    and "PcdDisplayModeCustomDefault E = Some custom" "length custom = 56"
    and "length (st_ModePreset K) = 4" "length (st_ModeCustom K) = 56" "length (st_ConnectorsPriority K) = 4 * VOP_OUTPUT_IF_NUMS"
    and "stored st (L ''DisplayModePreset'', guid) = Some (a, choice)" "length choice = 4"
    and "fits (stored st) (L ''DisplayModeCustom'', guid) 56"
    and "fits (stored st) (L ''DisplayConnectorsPriority'', guid) (4 * VOP_OUTPUT_IF_NUMS)"
  shows "\<exists>st' p'. InitializeDisplayVariables (stub_services (\<lambda>n. True) access) P A guid E K False st p = Some (st', p', EFI_SUCCESS) \<and>
    stub_ok access st' \<and>
    stored st' (L ''DisplayModePreset'', guid) = Some (
      if (word32 choice = DISPLAY_MODE_NATIVE) = (word32 dflt = DISPLAY_MODE_NATIVE) then (a, choice)
      else (NON_VOLATILE A OR BOOTSERVICE_ACCESS A OR RUNTIME_ACCESS A, dflt)) \<and>
    (\<forall>k. k \<notin> (\<lambda>name. (L name, guid)) ` {''DisplayConnectorsMask'', ''DisplayModeDefault'', ''DisplayModePreset'', ''DisplayModeCustomDefault''} \<longrightarrow>
       stored st' k = stored st k)"
proof -
  have len: "length d = 4" if "stored st (L ''DisplayModePreset'', guid) = Some (a, d)" for a d
    using that assms(13,14) by simp
  obtain st' p' where st': "InitializeDisplayVariables (stub_services (\<lambda>n. True) access) P A guid E K False st p = Some (st', p', EFI_SUCCESS)"
    "stub_ok access st'"
    "stored st' = (stored st)(
      (L ''DisplayConnectorsMask'', guid) \<mapsto> (BOOTSERVICE_ACCESS A, bytes32 (foldl (OR) 0 (PcdDisplayConnectors E))),
      (L ''DisplayModeDefault'', guid) \<mapsto> (BOOTSERVICE_ACCESS A, dflt),
      (L ''DisplayModePreset'', guid) \<mapsto>
        kept_preset (NON_VOLATILE A OR BOOTSERVICE_ACCESS A OR RUNTIME_ACCESS A) dflt (stored st (L ''DisplayModePreset'', guid)),
      (L ''DisplayModeCustomDefault'', guid) \<mapsto> (BOOTSERVICE_ACCESS A, custom))"
    using reliable_stub.display_variables [OF assms(1-12) _ assms(15,16), where p = p] len by blast
  then show ?thesis
    using assms(13) by (auto simp: kept_preset_def inj_L)
qed

definition demo_pcd_services :: "(string \<rightharpoonup> pcd_value) pcd_services" where
  "demo_pcd_services = \<lparr>PcdSet = (\<lambda>name value p. (p(name \<mapsto> value), EFI_SUCCESS)),
     PcdSetPtr = (\<lambda>name n bytes p. (p, EFI_SUCCESS))\<rparr>"

definition demo_display :: display_pcds where
  "demo_display = \<lparr>PcdDisplayConnectors = [8], PcdDisplayModePresetDefault = Some [0, 0, 0, 0x80],
     PcdDisplayModeCustomDefault = Some (replicate 56 0), PcdDisplayForceOutputDefault = False,
     PcdDisplayDuplicateOutputDefault = False, PcdDisplayRotationDefault = 0, PcdHdmiSignalingModeDefault = 0\<rparr>"

definition demo_chosen :: stub_state where
  "demo_chosen = \<lparr>mVarList = [\<lparr>ve_VendorGuid = [9], ve_Name = L ''DisplayModePreset'', ve_Attributes = 7, ve_DataSize = 4,
       ve_Data = Some [15, 0, 0, 0]\<rparr>], pool_calls = 3, pool_live = 3\<rparr>"

theorem display_mode_choice_witness:
  "\<exists>st' p'. InitializeDisplayVariables (stub_services (\<lambda>n. True) 7) demo_pcd_services
      \<lparr>NON_VOLATILE = 1, BOOTSERVICE_ACCESS = 2, RUNTIME_ACCESS = 4\<rparr> [9] demo_display
      \<lparr>st_ModePreset = replicate 4 0, st_ModeCustom = replicate 56 0, st_ConnectorsPriority = replicate 52 0,
       st_Var8 = [0], st_Var16 = [0, 0]\<rparr> False demo_chosen Map.empty = Some (st', p', EFI_SUCCESS) \<and>
    stored st' (L ''DisplayModePreset'', [9]) = Some (7, [0, 0, 0, 0x80])"
proof -
  let ?A = "\<lparr>NON_VOLATILE = 1, BOOTSERVICE_ACCESS = 2, RUNTIME_ACCESS = 4\<rparr>"
  let ?K = "\<lparr>st_ModePreset = replicate 4 0, st_ModeCustom = replicate 56 0, st_ConnectorsPriority = replicate 52 0,
      st_Var8 = [0], st_Var16 = [0, 0]\<rparr>"
  have st: "stub_ok 7 demo_chosen" "stored demo_chosen (L ''DisplayModePreset'', [9]) = Some (7, [15, 0, 0, 0])"
    "fits (stored demo_chosen) (L ''DisplayModeCustom'', [9]) 56"
    "fits (stored demo_chosen) (L ''DisplayConnectorsPriority'', [9]) (4 * VOP_OUTPUT_IF_NUMS)"
    by (simp_all add: stub_ok_def demo_chosen_def entry_ok_def stored_def entry_key_def entry_value_def fits_def inj_L)
  have E: "pcd_ok demo_pcd_services" "BOOTSERVICE_ACCESS ?A AND 7 \<noteq> 0"
    "foldl (OR) 0 (PcdDisplayConnectors demo_display) \<noteq> 0" "length (PcdDisplayConnectors demo_display) \<le> VOP_OUTPUT_IF_NUMS"
    "PcdDisplayModePresetDefault demo_display = Some [0, 0, 0, 0x80]" "length [0, 0, 0, 0x80 :: u8] = 4"
    "PcdDisplayModeCustomDefault demo_display = Some (replicate 56 0)" "length (replicate 56 (0 :: u8)) = 56"
    by (simp_all add: pcd_ok_def demo_pcd_services_def demo_display_def VOP_OUTPUT_IF_NUMS_def)
  have K: "length (st_ModePreset ?K) = 4" "length (st_ModeCustom ?K) = 56" "length (st_ConnectorsPriority ?K) = 4 * VOP_OUTPUT_IF_NUMS"
    by (simp_all add: VOP_OUTPUT_IF_NUMS_def)
  have "word32 [15, 0, 0, 0] \<noteq> DISPLAY_MODE_NATIVE" "word32 [0, 0, 0, 0x80] = DISPLAY_MODE_NATIVE"
    by (simp_all add: word32_def DISPLAY_MODE_NATIVE_def)
  then show ?thesis
    using display_mode_choice [OF st(1) E K st(2) _ st(3,4), where p = Map.empty] by auto
qed

end
