(* ===== verification/I2cBus.thy ===== *)
theory I2cBus
  imports Prelude
begin

text \<open>
  The interface of the I2C master protocol (\<open>EFI_I2C_REQUEST_PACKET\<close> of the PI specification) and
  the contract of a device with byte registers behind it, on which the clock, port expander and
  regulator drivers rely.
\<close>

section \<open>Requests\<close>

text \<open>One operation of a request packet; a read carries the buffer that it fills.\<close>

datatype i2c_op = I2cWr "u8 list" | I2cRd "u8 list"

type_synonym 's i2c_queue = "i2c_op list \<Rightarrow> 's \<Rightarrow> 's \<times> i2c_op list \<times> efi_status"

section \<open>Register devices\<close>

fun put_regs :: "u8 \<Rightarrow> u8 list \<Rightarrow> (u8 \<Rightarrow> u8) \<Rightarrow> u8 \<Rightarrow> u8" where
  "put_regs r [] f = f"
| "put_regs r (b # bs) f = put_regs (r + 1) bs (f(r := b))"

fun get_regs :: "u8 \<Rightarrow> nat \<Rightarrow> (u8 \<Rightarrow> u8) \<Rightarrow> u8 list" where
  "get_regs r 0 f = []"
| "get_regs r (Suc n) f = f r # get_regs (r + 1) n f"

lemma length_get_regs [simp]: "length (get_regs r n f) = n"
  by (induction n arbitrary: r) auto

lemma put_regs_other: "(\<And>i. i < length bs \<Longrightarrow> x \<noteq> r + of_nat i) \<Longrightarrow> put_regs r bs f x = f x"
proof (induction bs arbitrary: r f)
  case (Cons b bs)
  have "x \<noteq> r"
    using Cons.prems [of 0] by simp
  have "x \<noteq> (r + 1) + of_nat i" if "i < length bs" for i
    using Cons.prems [of "Suc i"] that by (simp add: add.assoc)
  then have "put_regs (r + 1) bs (f(r := b)) x = (f(r := b)) x"
    by (rule Cons.IH)
  then show ?case
    using \<open>x \<noteq> r\<close> by simp
qed simp

lemma of_nat_u8_neq_0:
  assumes "0 < k" "k < 256"
  shows "(of_nat k :: u8) \<noteq> 0"
proof
  assume "(of_nat k :: u8) = 0"
  then have "k mod 256 = 0"
    by (simp add: word_of_nat_eq_0_iff dvd_eq_mod_eq_0)
  then show False
    using assms by simp
qed

lemma get_put_regs:
  "length bs \<le> 256 \<Longrightarrow> get_regs r (length bs) (put_regs r bs f) = bs"
proof (induction bs arbitrary: r f)
  case (Cons b bs)
  have "put_regs (r + 1) bs (f(r := b)) r = (f(r := b)) r"
  proof (rule put_regs_other)
    fix i assume "i < length bs"
    then have "(of_nat (Suc i) :: u8) \<noteq> 0"
      using Cons.prems by (intro of_nat_u8_neq_0) auto
    then show "r \<noteq> r + 1 + of_nat i"
      by (simp add: add.assoc)
  qed
  then show ?case
    using Cons by simp
qed simp

text \<open>
  The contract: writing a register number followed by bytes puts them into consecutive registers,
  and writing a register number followed by a read returns consecutive registers and changes none.
\<close>

locale i2c_registers =
  fixes queue :: "'s i2c_queue"
    and regs :: "'s \<Rightarrow> u8 \<Rightarrow> u8"
    and idle :: "'s \<Rightarrow> bool"
    and maxlen :: nat
  assumes write_regs: "idle s \<Longrightarrow> length bs < maxlen \<Longrightarrow>
      \<exists>s'. queue [I2cWr (r # bs)] s = (s', [I2cWr (r # bs)], EFI_SUCCESS) \<and> idle s' \<and> regs s' = put_regs r bs (regs s)"
    and read_regs: "idle s \<Longrightarrow> 0 < length buf \<Longrightarrow> length buf < maxlen \<Longrightarrow>
      \<exists>s'. queue [I2cWr [r], I2cRd buf] s = (s', [I2cWr [r], I2cRd (get_regs r (length buf) (regs s))], EFI_SUCCESS) \<and>
        idle s' \<and> regs s' = regs s"

end
