(* ===== verification/I2cCtl.thy ===== *)
theory I2cCtl
  imports I2cBus
begin

text \<open>
  The I2C controller driver (\<open>Drivers/I2c/I2cDxe/I2cDxe.c\<close>): clock dividers, start and stop
  conditions, FIFO transfers in chunks of 32 bytes, and \<open>I2cStartRequest\<close>, which serves the
  requests of the device drivers; then the enumeration of the devices that the PCDs list.

  The hardware and the services are the parameter \<open>i2c_env\<close>: register reads and writes, the delay,
  the task priority services, the signalling of an event and the question whether boot services
  have ended. The debug dump of the registers is left out; it changes nothing the driver reads.
\<close>

section \<open>The controller\<close>

datatype i2c_reg =
    I2C_CON | I2C_CLKDIV | I2C_MRXADDR | I2C_MTXCNT | I2C_MRXCNT | I2C_IEN | I2C_IPD | I2C_TXDATA nat | I2C_RXDATA nat

record 'h i2c_env =
  MmioRead :: "'h \<Rightarrow> i2c_reg \<Rightarrow> u32 \<times> 'h"
  MmioWrite :: "'h \<Rightarrow> i2c_reg \<Rightarrow> u32 \<Rightarrow> 'h"
  MicroSecondDelay :: "'h \<Rightarrow> 'h"
  RaiseTPL :: "'h \<Rightarrow> nat \<Rightarrow> nat \<times> 'h"
  RestoreTPL :: "'h \<Rightarrow> nat \<Rightarrow> 'h"
  SignalEvent :: "'h \<Rightarrow> 'h"
  EfiAtRuntime :: "'h \<Rightarrow> bool"

record I2C_MASTER_CONTEXT =
  Config :: u64
  Bus :: nat
  RuntimeSupport :: bool

definition RK_I2C_FIFO_SIZE :: nat where "RK_I2C_FIFO_SIZE = 32"
definition I2C_TIMEOUT_US :: nat where "I2C_TIMEOUT_US = 100000"
definition I2C_READY_TIMEOUT :: nat where "I2C_READY_TIMEOUT = 100"
definition TPL_HIGH_LEVEL :: nat where "TPL_HIGH_LEVEL = 31"

definition I2C_CON_EN :: u32 where "I2C_CON_EN = 1"
definition I2C_CON_MOD :: "u32 \<Rightarrow> u32" where "I2C_CON_MOD m = push_bit 1 m"
definition I2C_MODE_TX :: u32 where "I2C_MODE_TX = 0"
definition I2C_MODE_TRX :: u32 where "I2C_MODE_TRX = 1"
definition I2C_MODE_RX :: u32 where "I2C_MODE_RX = 2"
definition I2C_CON_START :: u32 where "I2C_CON_START = 8"
definition I2C_CON_STOP :: u32 where "I2C_CON_STOP = 16"
definition I2C_CON_LASTACK :: u32 where "I2C_CON_LASTACK = 32"
definition I2C_CON_SDA_CFG :: "u32 \<Rightarrow> u32" where "I2C_CON_SDA_CFG cfg = push_bit 8 cfg"
definition I2C_CON_STA_CFG :: "u32 \<Rightarrow> u32" where "I2C_CON_STA_CFG cfg = push_bit 12 cfg"
definition I2C_CON_VERSION :: u32 where "I2C_CON_VERSION = 0xff0000"
definition I2C_MBTFIEN :: u32 where "I2C_MBTFIEN = 4"
definition I2C_MBRFIEN :: u32 where "I2C_MBRFIEN = 8"
definition I2C_STARTIEN :: u32 where "I2C_STARTIEN = 16"
definition I2C_NAKRCVIEN :: u32 where "I2C_NAKRCVIEN = 64"
definition I2C_MBTFIPD :: u32 where "I2C_MBTFIPD = 4"
definition I2C_MBRFIPD :: u32 where "I2C_MBRFIPD = 8"
definition I2C_STARTIPD :: u32 where "I2C_STARTIPD = 16"
definition I2C_STOPIPD :: u32 where "I2C_STOPIPD = 32"
definition I2C_NAKRCVIPD :: u32 where "I2C_NAKRCVIPD = 64"
definition I2C_IPD_ALL_CLEAN :: u32 where "I2C_IPD_ALL_CLEAN = 0x7f"

lemmas i2c_defs = I2C_CON_EN_def I2C_CON_MOD_def I2C_MODE_TX_def I2C_MODE_TRX_def I2C_MODE_RX_def
  I2C_CON_START_def I2C_CON_STOP_def I2C_CON_LASTACK_def I2C_CON_SDA_CFG_def I2C_CON_STA_CFG_def
  I2C_CON_VERSION_def I2C_MBTFIEN_def I2C_MBRFIEN_def I2C_STARTIEN_def I2C_NAKRCVIEN_def
  I2C_MBTFIPD_def I2C_MBRFIPD_def I2C_STARTIPD_def I2C_STOPIPD_def I2C_NAKRCVIPD_def I2C_IPD_ALL_CLEAN_def

definition I2C_CLKDIV_VAL :: "u32 \<Rightarrow> u32 \<Rightarrow> u32" where
  "I2C_CLKDIV_VAL divl divh = (divl AND 0xffff) OR (push_bit 16 divh AND 0xffff0000)"

definition I2C_MRXADDR_SET :: "u64 \<Rightarrow> u64 \<Rightarrow> u64" where
  "I2C_MRXADDR_SET vld addr = push_bit 24 vld OR addr"

definition I2cGetVersion :: "'h i2c_env \<Rightarrow> 'h \<Rightarrow> u32 \<times> 'h" where
  "I2cGetVersion E s = (let (r, s) = MmioRead E s I2C_CON in (drop_bit 16 (r AND I2C_CON_VERSION), s))"

section \<open>Clock dividers\<close>

record I2C_SPEC_VALUES =
  MinLowNs :: u32
  MinHighNs :: u32
  MaxRiseNs :: u32
  MaxFallNs :: u32

definition StandardModeSpec :: I2C_SPEC_VALUES where
  "StandardModeSpec = \<lparr>MinLowNs = 4700, MinHighNs = 4000, MaxRiseNs = 1000, MaxFallNs = 300\<rparr>"

definition FastModeSpec :: I2C_SPEC_VALUES where
  "FastModeSpec = \<lparr>MinLowNs = 1300, MinHighNs = 600, MaxRiseNs = 300, MaxFallNs = 300\<rparr>"

definition FastModeplusSpec :: I2C_SPEC_VALUES where
  "FastModeplusSpec = \<lparr>MinLowNs = 500, MinHighNs = 260, MaxRiseNs = 120, MaxFallNs = 120\<rparr>"

definition I2cGetSpec :: "u32 \<Rightarrow> I2C_SPEC_VALUES" where
  "I2cGetSpec Speed = (if Speed = 1000 then FastModeplusSpec else if Speed = 400 then FastModeSpec else StandardModeSpec)"

definition DIV_ROUND_UP :: "u32 \<Rightarrow> u32 \<Rightarrow> u32" where
  "DIV_ROUND_UP x y = (x + y - 1) div y"

text \<open>
  \<open>Div\<close> is a signed \<open>int\<close>, converted from the unsigned difference. A division by zero does not
  trap on this processor: it gives 0, like the division of words.
\<close>

definition I2cCalBaudRate :: "'h i2c_env \<Rightarrow> u32 \<Rightarrow> u32 \<Rightarrow> 'h \<Rightarrow> 'h" where
  "I2cCalBaudRate E Target ClkRate s =
     (let Div = sint (DIV_ROUND_UP ClkRate (Target * 8) - 2);
          (Divl, Divh) = (if 0 \<le> Div then (Div div 2, if Div mod 2 = 0 then Div div 2 else (Div + 2 - 1) div 2) else (0, 0))
      in MmioWrite E s I2C_CLKDIV (I2C_CLKDIV_VAL (word_of_int Divl) (word_of_int Divh)))"

text \<open>The setup flag and the nominal speed of a target frequency, and the two divisors for it.\<close>

definition speed_mode :: "u32 \<Rightarrow> (u32 \<times> u32) option" where
  "speed_mode Target =
     (if Target \<le> 100000 \<and> 1000 \<le> Target then Some (1, 100)
      else if Target \<le> 400000 \<and> 100000 \<le> Target then Some (0, 400)
      else if Target \<le> 1000000 \<and> 400000 < Target then Some (0, 1000)
      else None)"

definition baud_divisors :: "I2C_SPEC_VALUES \<Rightarrow> u32 \<Rightarrow> u32 \<Rightarrow> u32 \<times> u32" where
  "baud_divisors Spec ClkRate Speed =
     (let MinTotalDiv = DIV_ROUND_UP ClkRate (Speed * 8);
          MinHighDiv = DIV_ROUND_UP (ClkRate * (MaxRiseNs Spec + MinHighNs Spec)) (8 * 1000000);
          MinLowDiv = DIV_ROUND_UP (ClkRate * (MaxFallNs Spec + MinLowNs Spec)) (8 * 1000000);
          MinHighDiv = (if MinHighDiv < 1 then 2 else MinHighDiv);
          MinLowDiv = (if MinLowDiv < 1 then 2 else MinLowDiv);
          MinHoldDiv = MinHighDiv + MinLowDiv
      in if MinTotalDiv \<le> MinHoldDiv then (MinHighDiv - 1, MinLowDiv - 1)
         else let ExtraDiv = MinTotalDiv - MinHoldDiv;
                  ExtraLowDiv = DIV_ROUND_UP (MinLowDiv * ExtraDiv) MinHoldDiv
              in (MinHighDiv + (ExtraDiv - ExtraLowDiv) - 1, MinLowDiv + ExtraLowDiv - 1))"

definition I2cAdapterBaudRate ::
  "'h i2c_env \<Rightarrow> I2C_MASTER_CONTEXT \<Rightarrow> u32 \<Rightarrow> u32 \<Rightarrow> 'h \<Rightarrow> 'h \<times> I2C_MASTER_CONTEXT \<times> efi_status" where
  "I2cAdapterBaudRate E c Target ClkRate s =
     (case speed_mode Target of
        None \<Rightarrow> (s, c, Error EFI_INVALID_PARAMETER)
      | Some (StartSetup, Speed) \<Rightarrow>
          let (HighDiv, LowDiv) = baud_divisors (I2cGetSpec Speed) (DIV_ROUND_UP ClkRate 1000) (DIV_ROUND_UP Target 1000)
          in if 0xffff < HighDiv \<or> 0xffff < LowDiv then (s, c, Error EFI_UNSUPPORTED)
             else (MmioWrite E s I2C_CLKDIV (push_bit 16 HighDiv OR LowDiv),
                   c\<lparr>Config := ucast (I2C_CON_SDA_CFG 1 OR I2C_CON_STA_CFG StartSetup)\<rparr>, EFI_SUCCESS))"

section \<open>Start and stop\<close>

definition I2cDisable :: "'h i2c_env \<Rightarrow> 'h \<Rightarrow> 'h" where
  "I2cDisable E s = MmioWrite E (MmioWrite E (MmioWrite E s I2C_IEN 0) I2C_IPD I2C_IPD_ALL_CLEAN) I2C_CON 0"

text \<open>
  The polling loop of the start condition: \<open>Timeout\<close> is an unsigned counter, which the loop test
  decrements past zero when the time is over.
\<close>

fun start_loop :: "'h i2c_env \<Rightarrow> nat \<Rightarrow> 'h \<Rightarrow> 'h \<times> u64" where
  "start_loop E 0 s = (s, 0 - 1)"
| "start_loop E (Suc n) s =
     (let (r, s) = MmioRead E s I2C_IPD
      in if r AND I2C_STARTIPD \<noteq> 0 then (MmioWrite E s I2C_IPD I2C_STARTIPD, of_nat n)
         else start_loop E n (MicroSecondDelay E s))"

definition I2cStartEnable :: "'h i2c_env \<Rightarrow> I2C_MASTER_CONTEXT \<Rightarrow> u32 \<Rightarrow> nat \<Rightarrow> 'h \<Rightarrow> 'h \<times> efi_status" where
  "I2cStartEnable E c Con Timeout s =
     (let s = MmioWrite E s I2C_IPD I2C_IPD_ALL_CLEAN;
          s = MmioWrite E s I2C_IEN I2C_STARTIEN;
          s = MmioWrite E s I2C_CON (I2C_CON_EN OR I2C_CON_START OR Con OR ucast (Config c));
          (s, Timeout) = start_loop E Timeout s
      in (s, if Timeout \<le> 0 then Error EFI_TIMEOUT else EFI_SUCCESS))"

text \<open>The same loop with a signed counter.\<close>

fun stop_loop :: "'h i2c_env \<Rightarrow> nat \<Rightarrow> 'h \<Rightarrow> 'h \<times> int" where
  "stop_loop E 0 s = (s, - 1)"
| "stop_loop E (Suc n) s =
     (let (r, s) = MmioRead E s I2C_IPD
      in if r AND I2C_STOPIPD \<noteq> 0 then (MmioWrite E s I2C_IPD I2C_STOPIPD, int n)
         else stop_loop E n (MicroSecondDelay E s))"

definition I2cStop :: "'h i2c_env \<Rightarrow> I2C_MASTER_CONTEXT \<Rightarrow> 'h \<Rightarrow> 'h \<times> efi_status" where
  "I2cStop E c s =
     (let s = MmioWrite E s I2C_IPD I2C_IPD_ALL_CLEAN;
          s = MmioWrite E s I2C_CON (I2C_CON_EN OR I2C_CON_STOP OR ucast (Config c));
          s = MmioWrite E s I2C_IEN I2C_CON_STOP;
          (s, TimeOut) = stop_loop E I2C_READY_TIMEOUT s
      in (s, if TimeOut \<le> 0 then Error EFI_TIMEOUT else EFI_SUCCESS))"

section \<open>Transfers\<close>

text \<open>
  Waiting for the end of a chunk: the remaining value of the counter, which the chunks of one
  transfer share, or \<^term>\<open>None\<close> when the device did not acknowledge.
\<close>

fun wait_loop :: "'h i2c_env \<Rightarrow> u32 \<Rightarrow> nat \<Rightarrow> 'h \<Rightarrow> 'h \<times> int option" where
  "wait_loop E fin 0 s = (s, Some (- 1))"
| "wait_loop E fin (Suc n) s =
     (let (r, s) = MmioRead E s I2C_IPD
      in if r AND I2C_NAKRCVIPD \<noteq> 0 then (MmioWrite E s I2C_IPD I2C_NAKRCVIPD, None)
         else let (r, s) = MmioRead E s I2C_IPD
              in if r AND fin \<noteq> 0 then (MmioWrite E s I2C_IPD fin, Some (int n))
                 else wait_loop E fin n (MicroSecondDelay E s))"

text \<open>The bytes that are read from the receive registers of a chunk of \<open>n\<close> bytes.\<close>

fun drain_words :: "'h i2c_env \<Rightarrow> nat \<Rightarrow> nat list \<Rightarrow> 'h \<Rightarrow> 'h \<times> u8 list" where
  "drain_words E n [] s = (s, [])"
| "drain_words E n (i # is) s =
     (let (RxData, s) = MmioRead E s (I2C_RXDATA i);
          (s, bs) = drain_words E n is s
      in (s, map (\<lambda>j. ucast (drop_bit (j * 8) RxData AND 0xff)) [0..<min 4 (n - i * 4)] @ bs))"

definition word_count :: "nat \<Rightarrow> nat" where
  "word_count n = (n + 4 - 1) div 4"

text \<open>
  The chunks of a read. The result has the new contents of the buffer: \<open>got\<close> is what is stored
  at its start, \<open>Buf\<close> what it held.
\<close>

function read_chunks ::
  "'h i2c_env \<Rightarrow> I2C_MASTER_CONTEXT \<Rightarrow> u8 list \<Rightarrow> u8 list \<Rightarrow> nat \<Rightarrow> bool \<Rightarrow> nat \<Rightarrow> nat \<Rightarrow> 'h \<Rightarrow> 'h \<times> u8 list \<times> nat \<times> efi_status" where
  "read_chunks E c Buf got remain SndChunk TimeOut Read s =
     (if remain = 0 then (s, got @ drop (length got) Buf, length Buf, EFI_SUCCESS)
      else let (Con, n) = (if RK_I2C_FIFO_SIZE < remain then (I2C_CON_EN, 32) else (I2C_CON_EN OR I2C_CON_LASTACK, remain));
               (s, Status) = (if SndChunk
                 then (MmioWrite E s I2C_CON (Con OR I2C_CON_MOD I2C_MODE_RX OR ucast (Config c)), EFI_SUCCESS)
                 else I2cStartEnable E c (Con OR I2C_CON_MOD I2C_MODE_TRX) I2C_TIMEOUT_US s)
           in if EFI_ERROR Status then (s, got @ drop (length got) Buf, Read, Status)
              else let s = MmioWrite E s I2C_IEN (I2C_MBRFIEN OR I2C_NAKRCVIEN);
                       s = MmioWrite E s I2C_MRXCNT (of_nat n);
                       (s, w) = wait_loop E I2C_MBRFIPD TimeOut s
                   in case w of
                        None \<Rightarrow> (s, got @ drop (length got) Buf, Read, Error EFI_NO_RESPONSE)
                      | Some TimeOut \<Rightarrow>
                          if TimeOut \<le> 0 then (s, got @ drop (length got) Buf, Read, Error EFI_TIMEOUT)
                          else let (s, bs) = drain_words E n [0..<word_count n] s
                               in read_chunks E c Buf (got @ bs) (remain - n) True (nat TimeOut) n s)"
  by auto
termination
  by (relation "measure (\<lambda>(E, c, Buf, got, remain, SndChunk, TimeOut, Read, s). remain)")
    (auto simp: RK_I2C_FIFO_SIZE_def split: if_splits)

declare read_chunks.simps [simp del]

definition I2cReadOperation ::
  "'h i2c_env \<Rightarrow> I2C_MASTER_CONTEXT \<Rightarrow> u64 \<Rightarrow> u8 list \<Rightarrow> bool \<Rightarrow> 'h \<Rightarrow> 'h \<times> u8 list \<times> nat \<times> efi_status" where
  "I2cReadOperation E c SlaveAddress Buf Snd s =
     (let s = (if Snd then MmioWrite E s I2C_CON 0 else s);
          s = MmioWrite E s I2C_MRXADDR (ucast (I2C_MRXADDR_SET 1 (push_bit 1 SlaveAddress OR 1)))
      in read_chunks E c Buf [] (length Buf mod 2 ^ 32) False I2C_TIMEOUT_US 0 s)"

text \<open>
  Filling word \<open>i\<close> of the transmit registers: \<open>k\<close> is the number of byte positions left, \<open>PBuf\<close> the
  bytes still to be sent, and the first byte of the first chunk is the address.
\<close>

fun fill_word :: "bool \<Rightarrow> u64 \<Rightarrow> nat \<Rightarrow> nat \<Rightarrow> nat \<Rightarrow> u8 list \<Rightarrow> u32 \<Rightarrow> u32 \<times> u8 list" where
  "fill_word at_buf SlaveAddress n i 0 PBuf TxData = (TxData, PBuf)"
| "fill_word at_buf SlaveAddress n i (Suc k) PBuf TxData =
     (let j = 3 - k
      in if i * 4 + j = n then (TxData, PBuf)
         else if i = 0 \<and> j = 0 \<and> at_buf then fill_word at_buf SlaveAddress n i k PBuf (TxData OR ucast (push_bit 1 SlaveAddress))
         else fill_word at_buf SlaveAddress n i k (tl PBuf) (TxData OR push_bit (j * 8) (ucast (hd PBuf))))"

fun fill_words :: "'h i2c_env \<Rightarrow> bool \<Rightarrow> u64 \<Rightarrow> nat \<Rightarrow> nat list \<Rightarrow> u8 list \<Rightarrow> 'h \<Rightarrow> 'h \<times> u8 list" where
  "fill_words E at_buf SlaveAddress n [] PBuf s = (s, PBuf)"
| "fill_words E at_buf SlaveAddress n (i # is) PBuf s =
     (let (TxData, PBuf) = fill_word at_buf SlaveAddress n i 4 PBuf 0
      in fill_words E at_buf SlaveAddress n is PBuf (MmioWrite E s (I2C_TXDATA i) TxData))"

function write_chunks ::
  "'h i2c_env \<Rightarrow> I2C_MASTER_CONTEXT \<Rightarrow> u64 \<Rightarrow> u8 list \<Rightarrow> u8 list \<Rightarrow> nat \<Rightarrow> bool \<Rightarrow> nat \<Rightarrow> nat \<Rightarrow> 'h \<Rightarrow> 'h \<times> nat \<times> efi_status" where
  "write_chunks E c SlaveAddress Buf PBuf remain Next TimeOut Sent s =
     (if remain = 0 then (s, length Buf, EFI_SUCCESS)
      else let n = (if RK_I2C_FIFO_SIZE < remain then 32 else remain);
               (s, PBuf) = fill_words E (length PBuf = length Buf) SlaveAddress n [0..<word_count n] PBuf s;
               (s, Status) = (if \<not> Next
                 then I2cStartEnable E c (I2C_CON_EN OR I2C_CON_MOD I2C_MODE_TX) I2C_TIMEOUT_US s
                 else (MmioWrite E s I2C_CON (I2C_CON_EN OR I2C_CON_MOD I2C_MODE_TX OR ucast (Config c)), EFI_SUCCESS))
           in if EFI_ERROR Status then (s, Sent, Status)
              else let s = MmioWrite E s I2C_IEN (I2C_MBTFIEN OR I2C_NAKRCVIEN);
                       s = MmioWrite E s I2C_MTXCNT (of_nat n);
                       (s, w) = wait_loop E I2C_MBTFIPD TimeOut s
                   in case w of
                        None \<Rightarrow> (s, Sent, Error EFI_NO_RESPONSE)
                      | Some TimeOut \<Rightarrow>
                          if TimeOut \<le> 0 then (s, Sent, Error EFI_TIMEOUT)
                          else write_chunks E c SlaveAddress Buf PBuf (remain - n) True (nat TimeOut) n s)"
  by auto
termination
  by (relation "measure (\<lambda>(E, c, A, Buf, PBuf, remain, Next, TimeOut, Sent, s). remain)")
    (auto simp: RK_I2C_FIFO_SIZE_def split: if_splits)

declare write_chunks.simps [simp del]

definition I2cWriteOperation ::
  "'h i2c_env \<Rightarrow> I2C_MASTER_CONTEXT \<Rightarrow> u64 \<Rightarrow> u8 list \<Rightarrow> 'h \<Rightarrow> 'h \<times> nat \<times> efi_status" where
  "I2cWriteOperation E c SlaveAddress Buf s =
     write_chunks E c SlaveAddress Buf Buf ((length Buf + 1) mod 2 ^ 32) False I2C_TIMEOUT_US 0 s"

section \<open>Requests\<close>

fun op_length :: "i2c_op \<Rightarrow> nat" where
  "op_length (I2cWr bs) = length bs"
| "op_length (I2cRd bs) = length bs"

fun is_read :: "i2c_op \<Rightarrow> bool" where
  "is_read (I2cWr bs) = False"
| "is_read (I2cRd bs) = True"

text \<open>
  The operations from number \<open>i\<close> on. An operation that has run has its new \<open>LengthInBytes\<close>; the
  final status is the local \<open>Status\<close>, which \<open>I2cStartRequest\<close> does not look at again.
\<close>

fun run_operations ::
  "'h i2c_env \<Rightarrow> I2C_MASTER_CONTEXT \<Rightarrow> u64 \<Rightarrow> nat \<Rightarrow> i2c_op list \<Rightarrow> 'h \<Rightarrow> 'h \<times> (i2c_op \<times> nat) list \<times> efi_status" where
  "run_operations E c SlaveAddress i [] s = (s, [], EFI_SUCCESS)"
| "run_operations E c SlaveAddress i (Operation # rest) s =
     (let (s, new, Transmitted, Status) = (case Operation of
            I2cRd Buf \<Rightarrow> (let (s, Buf, n, Status) = I2cReadOperation E c SlaveAddress Buf (i = 1) s in (s, I2cRd Buf, n, Status))
          | I2cWr Buf \<Rightarrow> (let (s, n, Status) = I2cWriteOperation E c SlaveAddress Buf s in (s, I2cWr Buf, n, Status)))
      in if EFI_ERROR Status then (s, (new, Transmitted) # map (\<lambda>op. (op, op_length op)) rest, Status)
         else let (s, ops, Status) = run_operations E c SlaveAddress (i + 1) rest s
              in (s, (new, Transmitted) # ops, Status))"

text \<open>The result has the operations, the new \<open>*I2cStatus\<close> (when it is given) and the status returned.\<close>

definition I2cStartRequest ::
  "'h i2c_env \<Rightarrow> I2C_MASTER_CONTEXT \<Rightarrow> u64 \<Rightarrow> i2c_op list \<Rightarrow> bool \<Rightarrow> efi_status option \<Rightarrow> 'h \<Rightarrow>
     'h \<times> (i2c_op \<times> nat) list \<times> efi_status option \<times> efi_status" where
  "I2cStartRequest E c SlaveAddress ops has_event I2cStatus s =
     (let AtRuntime = EfiAtRuntime E s; same = map (\<lambda>op. (op, op_length op)) ops
      in if AtRuntime \<and> has_event then (s, same, I2cStatus, Error EFI_UNSUPPORTED)
         else let (Tpl, s) = (if \<not> AtRuntime then RaiseTPL E s TPL_HIGH_LEVEL else (0, s))
              in if 2 < length ops \<or> length ops = 2 \<and> is_read (hd ops) then (s, same, I2cStatus, Error EFI_INVALID_PARAMETER)
                 else let (s, ops, Status) = run_operations E c SlaveAddress 0 ops s;
                          (s, Status) = I2cStop E c s;
                          s = I2cDisable E s;
                          s = (if \<not> AtRuntime then RestoreTPL E s Tpl else s);
                          s = (if has_event then SignalEvent E s else s)
                      in (s, ops, map_option (\<lambda>_. EFI_SUCCESS) I2cStatus, EFI_SUCCESS))"

definition I2cSetBusFrequency :: efi_status where "I2cSetBusFrequency = EFI_SUCCESS"
definition I2cReset :: efi_status where "I2cReset = EFI_SUCCESS"

text \<open>The status parameter of \<open>I2cEnableConf\<close> is not written: the assignment is to the pointer.\<close>

definition I2cEnableConf :: "'h i2c_env \<Rightarrow> bool \<Rightarrow> efi_status option \<Rightarrow> 'h \<Rightarrow> 'h \<times> efi_status option \<times> efi_status" where
  "I2cEnableConf E has_event I2cStatus s = (if has_event then SignalEvent E s else s, I2cStatus, EFI_SUCCESS)"

section \<open>Enumeration\<close>

record EFI_I2C_DEVICE =
  DeviceIndex :: nat
  SlaveAddressArray :: "nat list"

text \<open>
  \<open>pools\<close> are the outcomes of the three allocations of \<open>I2cAllocDevice\<close>. After a failure the device
  is freed, yet the caller's pointer has been set: that is \<open>Dangling\<close>.
\<close>

datatype device_ptr = NoDevice | Device EFI_I2C_DEVICE | Dangling

definition I2cAllocDevice :: "bool \<times> bool \<times> bool \<Rightarrow> nat \<Rightarrow> nat \<Rightarrow> device_ptr \<Rightarrow> device_ptr \<times> efi_status" where
  "I2cAllocDevice pools SlaveAddress OnBus ptr =
     (let (p1, p2, p3) = pools
      in if \<not> p1 then (ptr, Error EFI_OUT_OF_RESOURCES)
         else if \<not> p2 \<or> \<not> p3 then (Dangling, Error EFI_OUT_OF_RESOURCES)
         else (Device \<lparr>DeviceIndex = (SlaveAddress AND 0xffff) OR push_bit 16 OnBus, SlaveAddressArray = [SlaveAddress]\<rparr>, EFI_SUCCESS))"

text \<open>
  \<open>pcds\<close> is the list of (address, bus) that \<open>PcdI2cSlaveAddresses\<close> and \<open>PcdI2cSlaveBuses\<close> give.
  Reading through a dangling pointer is \<^term>\<open>None\<close>.
\<close>

fun first_on_bus :: "nat \<Rightarrow> (nat \<times> nat) list \<Rightarrow> nat option" where
  "first_on_bus bus [] = None"
| "first_on_bus bus ((address, b) # rest) = (if b \<noteq> bus then first_on_bus bus rest else Some address)"

fun next_on_bus :: "nat \<Rightarrow> nat \<Rightarrow> (nat \<times> nat) list \<Rightarrow> nat option" where
  "next_on_bus bus address [] = None"
| "next_on_bus bus address ((a, b) # rest) =
     (if b = bus \<and> a = address
      then (case first_on_bus bus rest of Some n \<Rightarrow> Some n | None \<Rightarrow> next_on_bus bus address rest)
      else next_on_bus bus address rest)"

definition I2cEnumerate ::
  "(nat \<times> nat) list \<Rightarrow> I2C_MASTER_CONTEXT \<Rightarrow> bool \<times> bool \<times> bool \<Rightarrow> device_ptr \<Rightarrow> (device_ptr \<times> efi_status) run" where
  "I2cEnumerate pcds c pools ptr =
     (case ptr of
        NoDevice \<Rightarrow> (case first_on_bus (Bus c) pcds of
          None \<Rightarrow> Some (ptr, EFI_SUCCESS)
        | Some a \<Rightarrow> Some (fst (I2cAllocDevice pools a (Bus c) ptr), EFI_SUCCESS))
      | Device d \<Rightarrow> (case next_on_bus (Bus c) (DeviceIndex d AND 0xffff) pcds of
          None \<Rightarrow> Some (NoDevice, EFI_SUCCESS)
        | Some a \<Rightarrow> Some (fst (I2cAllocDevice pools a (Bus c) ptr), EFI_SUCCESS))
      | Dangling \<Rightarrow> (if \<exists>(a, b) \<in> set pcds. b = Bus c then None else Some (NoDevice, EFI_SUCCESS)))"

section \<open>Controllers\<close>

text \<open>
  \<open>I2cInitialiseController\<close> with the outcomes of its allocations and services; the result is the
  installed context, \<open>None\<close> when it is freed.
\<close>

record init_outcomes =
  path_pool :: bool
  context_pool :: bool
  add_space :: efi_status
  set_attributes :: efi_status
  create_event :: efi_status
  install :: efi_status
  PcdI2cBaudRate :: u32
  PcdI2cClockFrequency :: u32

definition I2cInitialiseController ::
  "'h i2c_env \<Rightarrow> init_outcomes \<Rightarrow> nat \<Rightarrow> bool \<Rightarrow> 'h \<Rightarrow> 'h \<times> I2C_MASTER_CONTEXT option \<times> efi_status" where
  "I2cInitialiseController E res BusId Runtime s =
     (if \<not> path_pool res then (s, None, Error EFI_OUT_OF_RESOURCES)
      else if \<not> context_pool res then (s, None, Error EFI_OUT_OF_RESOURCES)
      else let c = \<lparr>Config = 0, Bus = BusId, RuntimeSupport = Runtime\<rparr>
           in if Runtime \<and> EFI_ERROR (add_space res) then (s, None, add_space res)
              else if Runtime \<and> EFI_ERROR (set_attributes res) then (s, None, set_attributes res)
              else if Runtime \<and> EFI_ERROR (create_event res) then (s, None, create_event res)
              else let (v, s) = I2cGetVersion E s;
                       (s, c) = (if 1 \<le> v
                         then (let (s, c, _) = I2cAdapterBaudRate E c (PcdI2cBaudRate res) (PcdI2cClockFrequency res) s in (s, c))
                         else (I2cCalBaudRate E (PcdI2cBaudRate res) (PcdI2cClockFrequency res) s, c))
                   in if EFI_ERROR (install res) then (s, None, install res) else (s, Some c, EFI_SUCCESS))"

text \<open>
  The loop of \<open>I2cInitialise\<close> over (bus, runtime support) pairs: \<open>init_bus\<close> selects the pins of a bus
  and initialises its controller.
\<close>

definition I2C_COUNT :: nat where "I2C_COUNT = 9"

fun init_buses :: "(nat \<Rightarrow> bool \<Rightarrow> 's \<Rightarrow> 's \<times> efi_status) \<Rightarrow> nat set \<Rightarrow> (nat \<times> bool) list \<Rightarrow> 's \<Rightarrow> 's \<times> efi_status" where
  "init_buses init_bus Configured [] s = (s, EFI_SUCCESS)"
| "init_buses init_bus Configured ((b, runtime) # rest) s =
     (if I2C_COUNT - 1 < b then init_buses init_bus Configured rest s
      else if b \<in> Configured then init_buses init_bus Configured rest s
      else let (s, Status) = init_bus b runtime s
           in if EFI_ERROR Status then (s, Status) else init_buses init_bus (insert b Configured) rest s)"

end
