(* ===== verification/Rtc.thy ===== *)
theory Rtc
  imports I2cBus
begin

text \<open>
  The PCF8563 clock (\<open>Library/Pcf8563RealTimeClockLib/Pcf8563RealTimeClockLib.c\<close>): setting and
  reading the time over I2C. The BCD conversions of BaseLib and \<open>EpochToEfiTime\<close> are parameters; a
  conversion whose \<open>ASSERT\<close> fails is \<^term>\<open>None\<close>.
\<close>

section \<open>Data\<close>

record EFI_TIME =
  Year :: u16
  Month :: u8
  Day :: u8
  Hour :: u8
  Minute :: u8
  Second :: u8
  Nanosecond :: u32

record bcd_lib =
  BcdToDecimal8 :: "u8 \<Rightarrow> u8 run"
  DecimalToBcd8 :: "u8 \<Rightarrow> u8 run"

record EFI_TIME_CAPABILITIES =
  Resolution :: nat
  Accuracy :: nat
  SetsToZero :: bool

definition PCF8563_DATA_REG_OFFSET :: u8 where "PCF8563_DATA_REG_OFFSET = 0x2"
definition PCF8563_CLOCK_INVALID :: u8 where "PCF8563_CLOCK_INVALID = 0x80"
definition PCF8563_SECONDS_MASK :: u8 where "PCF8563_SECONDS_MASK = 0x7f"
definition PCF8563_MINUTES_MASK :: u8 where "PCF8563_MINUTES_MASK = 0x7f"
definition PCF8563_HOURS_MASK :: u8 where "PCF8563_HOURS_MASK = 0x3f"
definition PCF8563_DAYS_MASK :: u8 where "PCF8563_DAYS_MASK = 0x3f"
definition PCF8563_MONTHS_MASK :: u8 where "PCF8563_MONTHS_MASK = 0x1f"
definition PCF8563_CENTURY_MASK :: u8 where "PCF8563_CENTURY_MASK = 0x80"
definition EPOCH_BASE :: u16 where "EPOCH_BASE = 2000"

lemmas pcf_defs = PCF8563_DATA_REG_OFFSET_def PCF8563_CLOCK_INVALID_def PCF8563_SECONDS_MASK_def
  PCF8563_MINUTES_MASK_def PCF8563_HOURS_MASK_def PCF8563_DAYS_MASK_def PCF8563_MONTHS_MASK_def
  PCF8563_CENTURY_MASK_def EPOCH_BASE_def

text \<open>The bytes of \<open>RTC_DATETIME\<close>.\<close>

record RTC_DATETIME =
  VL_seconds :: u8
  Minutes :: u8
  Hours :: u8
  Days :: u8
  Weekdays :: u8
  Century_months :: u8
  Years :: u8

definition datetime_bytes :: "RTC_DATETIME \<Rightarrow> u8 list" where
  "datetime_bytes d = [VL_seconds d, Minutes d, Hours d, Days d, Weekdays d, Century_months d, Years d]"

definition datetime_of :: "u8 list \<Rightarrow> RTC_DATETIME" where
  "datetime_of bs = \<lparr>VL_seconds = bs ! 0, Minutes = bs ! 1, Hours = bs ! 2, Days = bs ! 3, Weekdays = bs ! 4,
     Century_months = bs ! 5, Years = bs ! 6\<rparr>"

section \<open>Operations\<close>

text \<open>\<open>connected\<close> says that \<open>mI2cMaster\<close> is not NULL.\<close>

definition LibSetTime :: "bcd_lib \<Rightarrow> 's i2c_queue \<Rightarrow> bool \<Rightarrow> EFI_TIME \<Rightarrow> 's \<Rightarrow> ('s \<times> efi_status) run" where
  "LibSetTime B queue connected t s =
     (if \<not> connected then Some (s, Error EFI_DEVICE_ERROR)
      else do {
        seconds \<leftarrow> DecimalToBcd8 B (Second t);
        minutes \<leftarrow> DecimalToBcd8 B (Minute t);
        hours \<leftarrow> DecimalToBcd8 B (Hour t);
        days \<leftarrow> DecimalToBcd8 B (Day t);
        months \<leftarrow> DecimalToBcd8 B (Month t);
        years \<leftarrow> DecimalToBcd8 B (ucast (Year t mod 100));
        (if EPOCH_BASE + 100 \<le> Year t \<and> EPOCH_BASE + 200 \<le> Year t then Some (s, Error EFI_DEVICE_ERROR)
         else let months = (if EPOCH_BASE + 100 \<le> Year t then months OR PCF8563_CENTURY_MASK else months);
                  d = \<lparr>VL_seconds = seconds, Minutes = minutes, Hours = hours, Days = days, Weekdays = 0,
                       Century_months = months, Years = years\<rparr>;
                  (s, _, Status) = queue [I2cWr (PCF8563_DATA_REG_OFFSET # datetime_bytes d)] s
              in Some (s, if EFI_ERROR Status then Error EFI_DEVICE_ERROR else EFI_SUCCESS))
      })"

definition read_buffer :: "i2c_op list \<Rightarrow> u8 list" where
  "read_buffer ops = (case ops of [_, I2cRd bs] \<Rightarrow> bs | _ \<Rightarrow> [])"

text \<open>
  The result has the new \<open>*Time\<close>, \<open>*Capabilities\<close> and the status. \<open>stack\<close> is what the local
  \<open>DateTime\<close> holds before the request, \<open>built\<close> is \<open>EpochToEfiTime (BUILD_EPOCH)\<close>.
\<close>

definition LibGetTime ::
  "bcd_lib \<Rightarrow> EFI_TIME \<Rightarrow> 's i2c_queue \<Rightarrow> bool \<Rightarrow> u8 list \<Rightarrow> EFI_TIME option \<Rightarrow> bool \<Rightarrow> 's \<Rightarrow>
     ('s \<times> EFI_TIME option \<times> EFI_TIME_CAPABILITIES option \<times> efi_status) run" where
  "LibGetTime B built queue connected stack Time has_capabilities s =
     (case Time of
        None \<Rightarrow> Some (s, Time, None, Error EFI_INVALID_PARAMETER)
      | Some t \<Rightarrow>
          if \<not> connected then Some (s, Time, None, Error EFI_DEVICE_ERROR)
          else let (s, ops, Status) = queue [I2cWr [PCF8563_DATA_REG_OFFSET], I2cRd stack] s
               in if EFI_ERROR Status then Some (s, Time, None, Error EFI_DEVICE_ERROR)
                  else let d = datetime_of (read_buffer ops); t = t\<lparr>Nanosecond := 0\<rparr>
                       in do {
                         (s, t) \<leftarrow> (if VL_seconds d AND PCF8563_CLOCK_INVALID \<noteq> 0
                           then do { (s, _) \<leftarrow> LibSetTime B queue connected built s; Some (s, built) }
                           else do {
                             sec \<leftarrow> BcdToDecimal8 B (VL_seconds d AND PCF8563_SECONDS_MASK);
                             mins \<leftarrow> BcdToDecimal8 B (Minutes d AND PCF8563_MINUTES_MASK);
                             hour \<leftarrow> BcdToDecimal8 B (Hours d AND PCF8563_HOURS_MASK);
                             day \<leftarrow> BcdToDecimal8 B (Days d AND PCF8563_DAYS_MASK);
                             month \<leftarrow> BcdToDecimal8 B (Century_months d AND PCF8563_MONTHS_MASK);
                             year \<leftarrow> BcdToDecimal8 B (Years d);
                             Some (s, t\<lparr>Second := sec, Minute := mins, Hour := hour, Day := day, Month := month,
                               Year := ucast year + EPOCH_BASE +
                                 (if Century_months d AND PCF8563_CENTURY_MASK \<noteq> 0 then 100 else 0)\<rparr>)
                           });
                         Some (s, Some t,
                           if has_capabilities then Some \<lparr>Resolution = 1, Accuracy = 0, SetsToZero = True\<rparr> else None,
                           EFI_SUCCESS)
                       })"

definition LibGetWakeupTime :: efi_status where
  "LibGetWakeupTime = Error EFI_UNSUPPORTED"

definition LibSetWakeupTime :: "bool \<Rightarrow> efi_status" where
  "LibSetWakeupTime Enabled = Error EFI_UNSUPPORTED"

section \<open>BCD\<close>

definition bcd :: "u8 \<Rightarrow> u8" where
  "bcd v = (v div 10) * 16 + v mod 10"

text \<open>What BaseLib documents of its conversions of two-digit numbers.\<close>

definition bcd_ok :: "bcd_lib \<Rightarrow> bool" where
  "bcd_ok B \<longleftrightarrow> (\<forall>v < 100. DecimalToBcd8 B v = Some (bcd v) \<and> BcdToDecimal8 B (bcd v) = Some v)"

lemma unat_bcd:
  assumes "v < 100"
  shows "unat (bcd v) = unat v div 10 * 16 + unat v mod 10"
proof -
  have v: "unat v < 100"
    using assms by (simp add: word_less_nat_alt)
  have "unat (v div 10) = unat v div 10" "unat (v mod 10) = unat v mod 10"
    by (simp_all add: unat_div unat_mod)
  moreover have "unat v div 10 * 16 + unat v mod 10 < 256"
    using v by linarith
  ultimately show ?thesis
    unfolding bcd_def by (simp add: unat_word_ariths)
qed

lemma take_bit_small:
  assumes "unat (w :: 'a :: len word) < 2 ^ n"
  shows "take_bit n w = w"
proof -
  have "unat (take_bit n w) = unat w"
    using assms by (simp add: unsigned_take_bit_eq take_bit_nat_eq_self)
  then show ?thesis
    by (metis word_unat_eq_iff)
qed

lemma and_mask_id: "unat (w :: u8) < 2 ^ n \<Longrightarrow> w AND mask n = w"
  using take_bit_small by (simp add: take_bit_eq_mask)

lemma bcd_masked:
  assumes "v < 100"
  shows "v < 80 \<Longrightarrow> bcd v AND 0x7F = bcd v" "v < 40 \<Longrightarrow> bcd v AND 0x3F = bcd v" "v < 20 \<Longrightarrow> bcd v AND 0x1F = bcd v"
    "v < 80 \<Longrightarrow> bcd v AND 0x80 = 0"
proof -
  have lt: "unat (bcd v) < 16 * 2 ^ k" if "unat v < 10 * 2 ^ k" for k
  proof -
    have "unat v div 10 < 2 ^ k" "unat v mod 10 < 10"
      using that by (simp_all add: less_mult_imp_div_less mult.commute)
    then show ?thesis
      unfolding unat_bcd [OF assms] by linarith
  qed
  have m: "(0x7F :: u8) = mask 7" "(0x3F :: u8) = mask 6" "(0x1F :: u8) = mask 5"
    by (simp_all add: mask_eq_exp_minus_1)
  show seven: "bcd v AND 0x7F = bcd v" if "v < 80"
    using that lt [of 3] unfolding m by (intro and_mask_id) (simp add: word_less_nat_alt)
  show "bcd v AND 0x3F = bcd v" if "v < 40"
    using that lt [of 2] unfolding m by (intro and_mask_id) (simp add: word_less_nat_alt)
  show "bcd v AND 0x1F = bcd v" if "v < 20"
    using that lt [of 1] unfolding m by (intro and_mask_id) (simp add: word_less_nat_alt)
  show "bcd v AND 0x80 = 0" if "v < 80"
  proof -
    have "bcd v AND 0x80 = (bcd v AND 0x7F) AND 0x80"
      using seven [OF that] by simp
    also have "\<dots> = 0"
      by (simp add: and.assoc)
    finally show ?thesis .
  qed
qed

section \<open>Round trip\<close>

text \<open>A time that the clock can hold, and what it gives back.\<close>

definition settable :: "EFI_TIME \<Rightarrow> bool" where
  "settable t \<longleftrightarrow> Year t < 2200 \<and> Month t \<le> 12 \<and> Day t \<le> 31 \<and> Hour t < 24 \<and> Minute t < 60 \<and> Second t < 60"

definition clock_year :: "u16 \<Rightarrow> u16" where
  "clock_year y = 2000 + y mod 100 + (if 2100 \<le> y then 100 else 0)"

lemma century_mod: "k * 100 \<le> n \<Longrightarrow> m = k * 100 \<Longrightarrow> n mod 100 = (n - m) mod (100 :: nat)"
  by (metis le_add_diff_inverse2 mod_mult_self3 mult.commute add.commute mod_mult_self2)

lemma clock_year_id: "2000 \<le> y \<Longrightarrow> y < 2200 \<Longrightarrow> clock_year y = y"
proof -
  assume y: "2000 \<le> y" "y < 2200"
  then have n: "2000 \<le> unat y" "unat y < 2200"
    by (simp_all add: word_le_nat_alt word_less_nat_alt)
  have m: "unat (2000 + y mod 100) = 2000 + unat y mod 100"
    by (simp add: unat_word_ariths unat_mod)
  show ?thesis
  proof (cases "2100 \<le> y")
    case True
    then have "unat (2000 + y mod 100 + 100) = 2000 + unat y mod 100 + 100"
      using m by (simp add: unat_word_ariths)
    moreover have "2100 \<le> unat y"
      using True by (simp add: word_le_nat_alt)
    then have "unat y mod 100 = (unat y - 2100) mod 100"
      by (intro century_mod [of 21]) simp_all
    then have "2000 + unat y mod 100 + 100 = unat y"
      using n \<open>2100 \<le> unat y\<close> by simp
    ultimately have "unat (2000 + y mod 100 + 100) = unat y"
      by simp
    then show ?thesis
      using True by (simp add: clock_year_def word_unat_eq_iff)
  next
    case False
    then have "unat y < 2100"
      by (simp add: word_le_nat_alt)
    moreover have "unat y mod 100 = (unat y - 2000) mod 100"
      using n(1) by (intro century_mod [of 20]) simp_all
    ultimately have "2000 + unat y mod 100 = unat y"
      using n by simp
    then have "unat (2000 + y mod 100) = unat y"
      using m by simp
    then show ?thesis
      using False by (simp add: clock_year_def word_unat_eq_iff)
  qed
qed

text \<open>The clock registers among the registers of the device.\<close>

definition clock_holds :: "RTC_DATETIME \<Rightarrow> (u8 \<Rightarrow> u8) \<Rightarrow> bool" where
  "clock_holds d f \<longleftrightarrow> get_regs PCF8563_DATA_REG_OFFSET 7 f = datetime_bytes d"

lemma small_ucast:
  assumes "(y :: u16) < 100"
  shows "(ucast y :: u8) < 100" "ucast (ucast y :: u8) = y"
proof -
  have "unat y < 100"
    using assms by (simp add: word_less_nat_alt)
  then have "unat (ucast y :: u8) = unat y"
    by (simp add: unsigned_ucast_eq take_bit_small take_bit_nat_eq_self_iff)
  then show "(ucast y :: u8) < 100" "ucast (ucast y :: u8) = y"
    using \<open>unat y < 100\<close> by (simp_all add: word_less_nat_alt word_unat_eq_iff unsigned_ucast_eq take_bit_small)
qed

lemma year_in_century: "(y :: u16) mod 100 < 100"
  by (simp add: word_less_nat_alt unat_mod)

text \<open>The registers for a time, and the time that \<open>LibGetTime\<close> makes of them.\<close>

definition clock_time :: "EFI_TIME \<Rightarrow> RTC_DATETIME" where
  "clock_time t = \<lparr>VL_seconds = bcd (Second t), Minutes = bcd (Minute t), Hours = bcd (Hour t), Days = bcd (Day t),
      Weekdays = 0, Century_months = (if 2100 \<le> Year t then bcd (Month t) OR 0x80 else bcd (Month t)),
      Years = bcd (ucast (Year t mod 100))\<rparr>"

lemma decode_time:
  assumes "bcd_ok B" "settable t"
    "queue [I2cWr [PCF8563_DATA_REG_OFFSET], I2cRd stack] s = (s', [x, I2cRd (datetime_bytes (clock_time t))], EFI_SUCCESS)"
  shows "LibGetTime B built queue True stack (Some t0) caps s = Some (s',
      Some \<lparr>Year = clock_year (Year t), Month = Month t, Day = Day t, Hour = Hour t, Minute = Minute t,
        Second = Second t, Nanosecond = 0\<rparr>,
      if caps then Some \<lparr>Resolution = 1, Accuracy = 0, SetsToZero = True\<rparr> else None, EFI_SUCCESS)"
proof -
  have d: "datetime_of (datetime_bytes (clock_time t)) = clock_time t"
    by (simp add: datetime_of_def datetime_bytes_def clock_time_def)
  have t: "Second t < 100" "Minute t < 100" "Hour t < 100" "Day t < 100" "Month t < 100" "Second t < 80" "Minute t < 80"
      "Hour t < 40" "Day t < 40" "Month t < 20" "Month t < 80"
    using assms(2) by (auto simp: settable_def intro: order.strict_trans order.strict_trans1)
  note y = small_ucast [OF year_in_century [of "Year t"]]
  have month: "(bcd (Month t) OR 0x80) AND 0x1F = bcd (Month t)" "(bcd (Month t) OR 0x80) AND 0x80 \<noteq> 0"
    using bcd_masked [OF t(5)] t(10) by (simp_all add: bit.conj_disj_distrib2)
  show ?thesis
    using assms(3) d t y month bcd_masked [OF t(1)] bcd_masked [OF t(2)] bcd_masked [OF t(3)] bcd_masked [OF t(4)]
      bcd_masked [OF t(5)] assms(1)
    by (auto simp: LibGetTime_def Let_def read_buffer_def bcd_ok_def pcf_defs clock_year_def clock_time_def)
qed

lemma LibSetTime_queue:
  assumes "bcd_ok B" "settable t"
    "queue [I2cWr (PCF8563_DATA_REG_OFFSET # datetime_bytes (clock_time t))] s = (s', ops, EFI_SUCCESS)"
  shows "LibSetTime B queue True t s = Some (s', EFI_SUCCESS)"
proof -
  have t: "Second t < 100" "Minute t < 100" "Hour t < 100" "Day t < 100" "Month t < 100"
    using assms(2) by (auto simp: settable_def intro: order.strict_trans order.strict_trans1)
  note y = small_ucast(1) [OF year_in_century [of "Year t"]]
  have "\<not> (2200 \<le> Year t)"
    using assms(2) by (simp add: settable_def not_le)
  then show ?thesis
    using t y assms(1,3)
    by (cases "2100 \<le> Year t") (simp_all add: LibSetTime_def bcd_ok_def Let_def clock_time_def pcf_defs)
qed

context i2c_registers
begin

lemma set_time:
  assumes "idle s" "7 < maxlen" "bcd_ok B" "settable t"
  shows "\<exists>s'. LibSetTime B queue True t s = Some (s', EFI_SUCCESS) \<and> idle s' \<and>
    clock_holds (clock_time t) (regs s')"
proof -
  let ?d = "clock_time t"
  have len: "length (datetime_bytes ?d) = 7"
    by (simp add: datetime_bytes_def)
  then obtain s' where s': "queue [I2cWr (PCF8563_DATA_REG_OFFSET # datetime_bytes ?d)] s =
      (s', [I2cWr (PCF8563_DATA_REG_OFFSET # datetime_bytes ?d)], EFI_SUCCESS)" "idle s'"
    "regs s' = put_regs PCF8563_DATA_REG_OFFSET (datetime_bytes ?d) (regs s)"
    using write_regs [OF assms(1), of "datetime_bytes ?d" PCF8563_DATA_REG_OFFSET] assms(2) by auto
  have holds: "clock_holds ?d (regs s')"
    using get_put_regs [of "datetime_bytes ?d" PCF8563_DATA_REG_OFFSET "regs s"] s'(3) len by (simp add: clock_holds_def)
  have "LibSetTime B queue True t s = Some (s', EFI_SUCCESS)"
    using assms(3,4) s'(1) by (rule LibSetTime_queue)
  then show ?thesis
    using s'(2) holds by blast
qed

lemma get_time:
  assumes "idle s" "7 < maxlen" "bcd_ok B" "settable t" "length stack = 7"
    and "clock_holds (clock_time t) (regs s)"
  shows "\<exists>s'. LibGetTime B built queue True stack (Some t0) caps s = Some (s',
      Some \<lparr>Year = clock_year (Year t), Month = Month t, Day = Day t, Hour = Hour t, Minute = Minute t,
        Second = Second t, Nanosecond = 0\<rparr>,
      if caps then Some \<lparr>Resolution = 1, Accuracy = 0, SetsToZero = True\<rparr> else None, EFI_SUCCESS) \<and>
    idle s' \<and> regs s' = regs s"
proof -
  obtain s' where s': "queue [I2cWr [PCF8563_DATA_REG_OFFSET], I2cRd stack] s =
      (s', [I2cWr [PCF8563_DATA_REG_OFFSET], I2cRd (datetime_bytes (clock_time t))], EFI_SUCCESS)" "idle s'" "regs s' = regs s"
    using read_regs [OF assms(1), of stack PCF8563_DATA_REG_OFFSET] assms(2,5,6) by (auto simp: clock_holds_def)
  then show ?thesis
    using decode_time [OF assms(3,4), of queue stack s s'] by blast
qed

end

end
