(* ===== verification/Pca9555.thy ===== *)
theory Pca9555
  imports I2cBus
begin

text \<open>
  The PCA9555 port expander (\<open>Drivers/Pca9555Dxe/Pca9555Dxe.c\<close>): sixteen pins in two banks, behind
  registers that are read and written over I2C. The I2C I/O protocols in the system are the list
  \<open>handles\<close>, each with the status of opening it and its device index; \<open>queue k\<close> sends requests
  through the \<open>k\<close>-th. The macro \<open>GPIO_PIN\<close> of EmbeddedPkg and the outcomes of pool allocations are
  parameters; the checks of pin numbers are those of a build with \<open>ASSERT\<close> enabled.
\<close>

section \<open>Data\<close>

definition PCA9555_INPUT_REG_BASE :: nat where "PCA9555_INPUT_REG_BASE = 0x00"
definition PCA9555_OUTPUT_REG_BASE :: nat where "PCA9555_OUTPUT_REG_BASE = 0x02"
definition PCA9555_INVERSION_REG_BASE :: nat where "PCA9555_INVERSION_REG_BASE = 0x04"
definition PCA9555_CONTROL_REG_BASE :: nat where "PCA9555_CONTROL_REG_BASE = 0x06"
definition PCA9555_NUM_GPIO :: nat where "PCA9555_NUM_GPIO = 16"
definition PCA9555_NUM_BANKS :: nat where "PCA9555_NUM_BANKS = 2"
definition PCA95XX_BANK_SIZE :: nat where "PCA95XX_BANK_SIZE = 8"

lemmas pca_defs = PCA9555_INPUT_REG_BASE_def PCA9555_OUTPUT_REG_BASE_def PCA9555_INVERSION_REG_BASE_def
  PCA9555_CONTROL_REG_BASE_def PCA9555_NUM_GPIO_def PCA9555_NUM_BANKS_def PCA95XX_BANK_SIZE_def

record PCA9555_CONTEXT =
  I2cAddress :: nat
  I2cBus :: nat

datatype gpio_mode = GPIO_MODE_INPUT | GPIO_MODE_OUTPUT_0 | GPIO_MODE_OUTPUT_1 | GPIO_MODE_OTHER

definition I2C_DEVICE_INDEX :: "nat \<Rightarrow> nat \<Rightarrow> nat" where
  "I2C_DEVICE_INDEX Bus Address = (Address AND 0xFFFF) OR push_bit 16 Bus"

section \<open>Register transfers\<close>

text \<open>\<open>pool\<close> says whether the allocation succeeds. The result has the byte at \<open>*Buffer\<close>.\<close>

definition Pca95xxI2cTransfer :: "bool \<Rightarrow> 's i2c_queue \<Rightarrow> u8 \<Rightarrow> u8 \<Rightarrow> bool \<Rightarrow> 's \<Rightarrow> 's \<times> u8 \<times> efi_status" where
  "Pca95xxI2cTransfer pool queue Address Buffer Read s =
     (if \<not> pool then (s, Buffer, Error EFI_OUT_OF_RESOURCES)
      else if Read
      then let (s, ops, Status) = queue [I2cWr [Address], I2cRd [Buffer]] s
           in (s, case ops of [_, I2cRd (b # _)] \<Rightarrow> b | _ \<Rightarrow> Buffer, Status)
      else let (s, ops, Status) = queue [I2cWr [Address, Buffer]] s in (s, Buffer, Status))"

definition Pca95xxReadRegs :: "bool \<Rightarrow> 's i2c_queue \<Rightarrow> u8 \<Rightarrow> u8 \<Rightarrow> 's \<Rightarrow> 's \<times> u8 \<times> efi_status" where
  "Pca95xxReadRegs pool queue Reg RegVal s = Pca95xxI2cTransfer pool queue Reg RegVal True s"

definition Pca95xxWriteRegs :: "bool \<Rightarrow> 's i2c_queue \<Rightarrow> nat \<Rightarrow> u8 \<Rightarrow> 's \<Rightarrow> 's \<times> efi_status" where
  "Pca95xxWriteRegs pool queue Reg RegVal s =
     (let (s, _, Status) = Pca95xxI2cTransfer pool queue (of_nat Reg) RegVal False s in (s, Status))"

fun write_banks :: "bool \<Rightarrow> 's i2c_queue \<Rightarrow> nat list \<Rightarrow> 's \<Rightarrow> 's \<times> efi_status" where
  "write_banks pool queue [] s = (s, EFI_SUCCESS)"
| "write_banks pool queue (Reg # Regs) s =
     (let (s, Status) = Pca95xxWriteRegs pool queue Reg 0 s
      in if EFI_ERROR Status then (s, Status) else write_banks pool queue Regs s)"

definition Pca9555Probe ::
  "bool \<Rightarrow> bool \<Rightarrow> 's i2c_queue \<Rightarrow> PCA9555_CONTEXT \<Rightarrow> PCA9555_CONTEXT option \<Rightarrow> 's \<Rightarrow> 's \<times> PCA9555_CONTEXT option \<times> efi_status" where
  "Pca9555Probe context_pool pool queue pcds context s =
     (if context \<noteq> None then (s, context, EFI_SUCCESS)
      else if \<not> context_pool then (s, None, Error EFI_OUT_OF_RESOURCES)
      else let (s, Status) = write_banks pool queue (map (\<lambda>i. PCA9555_INVERSION_REG_BASE + i) [0..<PCA9555_NUM_BANKS]) s
           in if EFI_ERROR Status then (s, None, Status)
              else let (s, Status) = write_banks pool queue (map (\<lambda>i. PCA9555_OUTPUT_REG_BASE + i) [0..<PCA9555_NUM_BANKS]) s
                   in if EFI_ERROR Status then (s, None, Status) else (s, Some pcds, EFI_SUCCESS))"

definition Pca9555Unprobe :: "PCA9555_CONTEXT option \<Rightarrow> PCA9555_CONTEXT option \<times> efi_status" where
  "Pca9555Unprobe context = (None, EFI_SUCCESS)"

section \<open>Pins\<close>

definition pin_bit :: "nat \<Rightarrow> u8" where
  "pin_bit GpioPin = push_bit (GpioPin mod PCA95XX_BANK_SIZE) 1"

text \<open>The result of a pin read is the status or the value; the register number is a \<open>UINT8\<close>.\<close>

definition Pca9555ReadPinReg ::
  "bool \<Rightarrow> 's i2c_queue \<Rightarrow> PCA9555_CONTEXT option \<Rightarrow> nat \<Rightarrow> nat \<Rightarrow> 's \<Rightarrow> 's \<times> (efi_status + nat)" where
  "Pca9555ReadPinReg pool queue context BaseReg GpioPin s =
     (if context = None then (s, Inl (Error EFI_UNSUPPORTED))
      else let (s, RegVal, Status) = Pca95xxReadRegs pool queue (of_nat (BaseReg + GpioPin div PCA95XX_BANK_SIZE)) 0 s
           in if EFI_ERROR Status then (s, Inl Status)
              else (s, Inr (if RegVal AND pin_bit GpioPin \<noteq> 0 then 1 else 0)))"

definition write_pin_reg ::
  "bool \<Rightarrow> 's i2c_queue \<Rightarrow> PCA9555_CONTEXT option \<Rightarrow> nat \<Rightarrow> nat \<Rightarrow> nat \<Rightarrow> 's \<Rightarrow> 's \<times> efi_status" where
  "write_pin_reg pool queue context BaseReg GpioPin Val s =
     (if context = None then (s, Error EFI_UNSUPPORTED)
      else let Bank = GpioPin div PCA95XX_BANK_SIZE;
               (s, RegVal, Status) = Pca95xxReadRegs pool queue (of_nat (BaseReg + Bank)) 0 s
           in if EFI_ERROR Status then (s, Status)
              else Pca95xxWriteRegs pool queue (BaseReg + Bank)
                     (if Val \<noteq> 0 then RegVal OR pin_bit GpioPin else RegVal AND NOT (pin_bit GpioPin)) s)"

definition Pca9555WritePinOutReg :: "bool \<Rightarrow> 's i2c_queue \<Rightarrow> PCA9555_CONTEXT option \<Rightarrow> nat \<Rightarrow> nat \<Rightarrow> 's \<Rightarrow> 's \<times> efi_status" where
  "Pca9555WritePinOutReg pool queue context GpioPin Val s =
     write_pin_reg pool queue context PCA9555_OUTPUT_REG_BASE GpioPin Val s"

definition Pca9555WritePinCtrlReg :: "bool \<Rightarrow> 's i2c_queue \<Rightarrow> PCA9555_CONTEXT option \<Rightarrow> nat \<Rightarrow> nat \<Rightarrow> 's \<Rightarrow> 's \<times> efi_status" where
  "Pca9555WritePinCtrlReg pool queue context GpioPin Val s =
     write_pin_reg pool queue context PCA9555_CONTROL_REG_BASE GpioPin Val s"

section \<open>The GPIO protocol\<close>

text \<open>The position of the device's I2C I/O protocol; \<open>located\<close> is the status of the search for handles.\<close>

fun find_i2c :: "nat \<Rightarrow> nat \<Rightarrow> (efi_status \<times> nat) list \<Rightarrow> efi_status + nat" where
  "find_i2c wanted Index [] = Inl (Error EFI_NOT_FOUND)"
| "find_i2c wanted Index ((Status, device) # rest) =
     (if EFI_ERROR Status then Inl Status
      else if device = wanted then Inr Index
      else find_i2c wanted (Suc Index) rest)"

definition Pca9555GetI2c :: "efi_status \<Rightarrow> (efi_status \<times> nat) list \<Rightarrow> PCA9555_CONTEXT option \<Rightarrow> efi_status + nat" where
  "Pca9555GetI2c located handles context =
     (case context of
        None \<Rightarrow> Inl (Error EFI_UNSUPPORTED)
      | Some c \<Rightarrow>
          if EFI_ERROR located then Inl located
          else find_i2c (I2C_DEVICE_INDEX (I2cBus c) (I2cAddress c)) 0 handles)"

definition Pca9555ValidatePin :: "nat \<Rightarrow> efi_status" where
  "Pca9555ValidatePin GpioPin = (if PCA9555_NUM_GPIO \<le> GpioPin then Error EFI_INVALID_PARAMETER else EFI_SUCCESS)"

record pca_env =
  pca_pool :: bool
  pca_located :: efi_status
  pca_handles :: "(efi_status \<times> nat) list"
  GPIO_PIN :: "nat \<Rightarrow> nat"

definition Pca9555Get ::
  "pca_env \<Rightarrow> (nat \<Rightarrow> 's i2c_queue) \<Rightarrow> PCA9555_CONTEXT option \<Rightarrow> nat \<Rightarrow> 's \<Rightarrow> ('s \<times> (efi_status + nat)) run" where
  "Pca9555Get E queue context Gpio s = do {
     assert_that (\<not> EFI_ERROR (Pca9555ValidatePin (GPIO_PIN E Gpio)));
     (case Pca9555GetI2c (pca_located E) (pca_handles E) context of
        Inl Status \<Rightarrow> Some (s, Inl Status)
      | Inr k \<Rightarrow> Some (Pca9555ReadPinReg (pca_pool E) (queue k) context PCA9555_INPUT_REG_BASE Gpio s))
   }"

definition Pca9555Set ::
  "pca_env \<Rightarrow> (nat \<Rightarrow> 's i2c_queue) \<Rightarrow> PCA9555_CONTEXT option \<Rightarrow> nat \<Rightarrow> gpio_mode \<Rightarrow> 's \<Rightarrow> ('s \<times> efi_status) run" where
  "Pca9555Set E queue context Gpio Mode s =
     (let GpioPin = GPIO_PIN E Gpio
      in do {
        assert_that (\<not> EFI_ERROR (Pca9555ValidatePin GpioPin));
        (case Pca9555GetI2c (pca_located E) (pca_handles E) context of
           Inl Status \<Rightarrow> Some (s, Status)
         | Inr k \<Rightarrow> Some (
             if Mode = GPIO_MODE_OUTPUT_0 \<or> Mode = GPIO_MODE_OUTPUT_1
             then let (s, Status) = Pca9555WritePinOutReg (pca_pool E) (queue k) context GpioPin (if Mode = GPIO_MODE_OUTPUT_0 then 0 else 1) s
                  in if EFI_ERROR Status then (s, Status)
                     else let (s, Status) = Pca9555WritePinCtrlReg (pca_pool E) (queue k) context GpioPin 0 s
                          in if EFI_ERROR Status then (s, Status) else (s, EFI_SUCCESS)
             else if Mode = GPIO_MODE_INPUT
             then let (s, Status) = Pca9555WritePinCtrlReg (pca_pool E) (queue k) context GpioPin 1 s
                  in if EFI_ERROR Status then (s, Status) else (s, EFI_SUCCESS)
             else (s, Error EFI_UNSUPPORTED)))
      })"

definition Pca9555GetMode ::
  "pca_env \<Rightarrow> (nat \<Rightarrow> 's i2c_queue) \<Rightarrow> PCA9555_CONTEXT option \<Rightarrow> nat \<Rightarrow> 's \<Rightarrow> ('s \<times> (efi_status + gpio_mode)) run" where
  "Pca9555GetMode E queue context Gpio s = do {
     assert_that (\<not> EFI_ERROR (Pca9555ValidatePin (GPIO_PIN E Gpio)));
     (case Pca9555GetI2c (pca_located E) (pca_handles E) context of
        Inl Status \<Rightarrow> Some (s, Inl Status)
      | Inr k \<Rightarrow> Some (
          case Pca9555ReadPinReg (pca_pool E) (queue k) context PCA9555_CONTROL_REG_BASE Gpio s of
            (s, Inl Status) \<Rightarrow> (s, Inl Status)
          | (s, Inr RegVal) \<Rightarrow>
              if RegVal = 0
              then (case Pca9555ReadPinReg (pca_pool E) (queue k) context PCA9555_OUTPUT_REG_BASE Gpio s of
                      (s, Inl Status) \<Rightarrow> (s, Inl Status)
                    | (s, Inr RegVal) \<Rightarrow> (s, Inr (if RegVal \<noteq> 0 then GPIO_MODE_OUTPUT_1 else GPIO_MODE_OUTPUT_0)))
              else (s, Inr GPIO_MODE_INPUT)))
   }"

definition Pca9555SetPull :: efi_status where
  "Pca9555SetPull = Error EFI_UNSUPPORTED"

text \<open>The driver binding: \<open>opened\<close> is the status of opening the I2C I/O protocol of the controller.\<close>

definition Pca9555Supported :: "efi_status \<Rightarrow> bool \<Rightarrow> nat \<Rightarrow> PCA9555_CONTEXT \<Rightarrow> efi_status" where
  "Pca9555Supported opened guid_matches device pcds =
     (if EFI_ERROR opened then Error EFI_UNSUPPORTED
      else if guid_matches \<and> device = I2C_DEVICE_INDEX (I2cBus pcds) (I2cAddress pcds) then EFI_SUCCESS
      else opened)"

definition Pca9555Start ::
  "efi_status \<Rightarrow> efi_status \<Rightarrow> bool \<Rightarrow> bool \<Rightarrow> 's i2c_queue \<Rightarrow> PCA9555_CONTEXT \<Rightarrow> PCA9555_CONTEXT option \<Rightarrow> 's \<Rightarrow>
     's \<times> PCA9555_CONTEXT option \<times> efi_status" where
  "Pca9555Start opened installed context_pool pool queue pcds context s =
     (if EFI_ERROR opened then (s, context, Error EFI_UNSUPPORTED)
      else let (s, context, Status) = Pca9555Probe context_pool pool queue pcds context s
           in if EFI_ERROR Status then (s, context, Status)
              else if EFI_ERROR installed then (s, context, installed)
              else (s, context, EFI_SUCCESS))"

section \<open>What the pins do, from the contract of the device\<close>

context i2c_registers
begin

lemma read_reg_ok:
  assumes "idle s" "1 < maxlen"
  shows "\<exists>s'. Pca95xxReadRegs True queue Reg v s = (s', regs s Reg, EFI_SUCCESS) \<and> idle s' \<and> regs s' = regs s"
  using read_regs [OF assms(1), of "[v]" Reg] assms(2) by (auto simp: Pca95xxReadRegs_def Pca95xxI2cTransfer_def)

lemma write_reg_ok:
  assumes "idle s" "1 < maxlen"
  shows "\<exists>s'. Pca95xxWriteRegs True queue Reg v s = (s', EFI_SUCCESS) \<and> idle s' \<and> regs s' = (regs s)(of_nat Reg := v)"
  using write_regs [OF assms(1), of "[v]" "of_nat Reg"] assms(2)
  by (auto simp: Pca95xxWriteRegs_def Pca95xxI2cTransfer_def)

lemma write_pin_ok:
  assumes "idle s" "1 < maxlen"
  shows "\<exists>s'. write_pin_reg True queue (Some c) base pin v s = (s', EFI_SUCCESS) \<and> idle s' \<and>
    regs s' = (regs s)(of_nat (base + pin div 8) :=
      if v \<noteq> 0 then regs s (of_nat (base + pin div 8)) OR pin_bit pin else regs s (of_nat (base + pin div 8)) AND NOT (pin_bit pin))"
proof -
  let ?r = "of_nat (base + pin div 8) :: u8"
  obtain s1 where s1: "Pca95xxReadRegs True queue ?r 0 s = (s1, regs s ?r, EFI_SUCCESS)" "idle s1" "regs s1 = regs s"
    using read_reg_ok [OF assms] by blast
  obtain s2 where "Pca95xxWriteRegs True queue (base + pin div 8)
      (if v \<noteq> 0 then regs s ?r OR pin_bit pin else regs s ?r AND NOT (pin_bit pin)) s1 = (s2, EFI_SUCCESS)" "idle s2"
    "regs s2 = (regs s1)(?r := if v \<noteq> 0 then regs s ?r OR pin_bit pin else regs s ?r AND NOT (pin_bit pin))"
    using write_reg_ok [OF s1(2) assms(2)] by blast
  then show ?thesis
    using s1 by (auto simp: write_pin_reg_def PCA95XX_BANK_SIZE_def Let_def)
qed

lemma read_pin_ok:
  assumes "idle s" "1 < maxlen"
  shows "\<exists>s'. Pca9555ReadPinReg True queue (Some c) base pin s =
      (s', Inr (if regs s (of_nat (base + pin div 8)) AND pin_bit pin \<noteq> 0 then 1 else 0)) \<and> idle s' \<and> regs s' = regs s"
  using read_reg_ok [OF assms, of "of_nat (base + pin div 8)" 0]
  by (auto simp: Pca9555ReadPinReg_def PCA95XX_BANK_SIZE_def)

lemma probe_ok:
  assumes "idle s" "1 < maxlen"
  shows "\<exists>s'. Pca9555Probe True True queue pcds None s = (s', Some pcds, EFI_SUCCESS) \<and> idle s' \<and>
    regs s' = (regs s)(4 := 0, 5 := 0, 2 := 0, 3 := 0)"
proof -
  obtain s1 where s1: "Pca95xxWriteRegs True queue 4 0 s = (s1, EFI_SUCCESS)" "idle s1" "regs s1 = (regs s)(4 := 0)"
    using write_reg_ok [OF assms, of 4 0] by auto
  obtain s2 where s2: "Pca95xxWriteRegs True queue 5 0 s1 = (s2, EFI_SUCCESS)" "idle s2" "regs s2 = (regs s1)(5 := 0)"
    using write_reg_ok [OF s1(2) assms(2), of 5 0] by auto
  obtain s3 where s3: "Pca95xxWriteRegs True queue 2 0 s2 = (s3, EFI_SUCCESS)" "idle s3" "regs s3 = (regs s2)(2 := 0)"
    using write_reg_ok [OF s2(2) assms(2), of 2 0] by auto
  obtain s4 where s4: "Pca95xxWriteRegs True queue 3 0 s3 = (s4, EFI_SUCCESS)" "idle s4" "regs s4 = (regs s3)(3 := 0)"
    using write_reg_ok [OF s3(2) assms(2), of 3 0] by auto
  show ?thesis
    using s1 s2 s3 s4 by (simp add: Pca9555Probe_def pca_defs upt_rec eval_nat_numeral)
qed

end

section \<open>Pins and bits\<close>

text \<open>The value and the direction of a pin in the registers.\<close>

definition pin_out :: "(u8 \<Rightarrow> u8) \<Rightarrow> nat \<Rightarrow> bool" where
  "pin_out f pin \<longleftrightarrow> bit (f (of_nat (2 + pin div 8))) (pin mod 8)"

definition pin_input :: "(u8 \<Rightarrow> u8) \<Rightarrow> nat \<Rightarrow> bool" where
  "pin_input f pin \<longleftrightarrow> bit (f (of_nat (6 + pin div 8))) (pin mod 8)"

lemma bit_pin_bit: "n < 8 \<Longrightarrow> bit (pin_bit pin) n \<longleftrightarrow> n = pin mod 8"
  by (auto simp: pin_bit_def PCA95XX_BANK_SIZE_def bit_simps)

lemma pin_bit_test: "(v AND pin_bit pin \<noteq> 0) = bit v (pin mod 8)"
proof -
  have "v AND pin_bit pin = (if bit v (pin mod 8) then pin_bit pin else 0)"
    by (rule bit_word_eqI) (auto simp: bit_simps bit_pin_bit)
  moreover have "pin_bit pin \<noteq> 0"
    using bit_pin_bit [of "pin mod 8" pin] by (metis bit_0_eq bot_apply bot_bool_def mod_less_divisor zero_less_numeral)
  ultimately show ?thesis
    by simp
qed

lemma bit_set_pin:
  assumes "n < 8"
  shows "bit (if v then w OR pin_bit pin else w AND NOT (pin_bit pin)) n = (if n = pin mod 8 then v else bit w n)"
  using assms by (auto simp: bit_simps bit_pin_bit)

lemma bank_regs:
  assumes "p < 16" "q < 16" "b = 2 \<or> b = 6" "c = 2 \<or> c = 6"
  shows "(of_nat (b + p div 8) = (of_nat (c + q div 8) :: u8)) = (b = c \<and> p div 8 = q div 8)"
proof -
  have "p div 8 = 0 \<or> p div 8 = 1" "q div 8 = 0 \<or> q div 8 = 1"
    using assms(1,2) by linarith+
  then show ?thesis
    using assms(3,4) by auto
qed

lemma pin_div: "p div 8 = q div 8 \<and> p mod 8 = q mod 8 \<longleftrightarrow> p = (q :: nat)"
  by (metis mod_div_mult_eq)

text \<open>Setting a bit of one pin, seen from every pin.\<close>

lemma set_pin_view:
  assumes "p < 16" "pin < 16" "b = 2 \<or> b = 6"
  shows "bit ((f(of_nat (b + pin div 8) := if v then f (of_nat (b + pin div 8)) OR pin_bit pin
           else f (of_nat (b + pin div 8)) AND NOT (pin_bit pin))) (of_nat (b + p div 8))) (p mod 8) =
         (if p = pin then v else bit (f (of_nat (b + p div 8)) :: u8) (p mod 8))"
    "c = 2 \<or> c = 6 \<Longrightarrow> c \<noteq> b \<Longrightarrow> (f(of_nat (b + pin div 8) := w)) (of_nat (c + p div 8)) = f (of_nat (c + p div 8) :: u8)"
proof -
  show "c = 2 \<or> c = 6 \<Longrightarrow> c \<noteq> b \<Longrightarrow> (f(of_nat (b + pin div 8) := w)) (of_nat (c + p div 8)) = f (of_nat (c + p div 8) :: u8)"
    using bank_regs [OF assms(1,2), of c b] assms(3) by auto
  show "bit ((f(of_nat (b + pin div 8) := if v then f (of_nat (b + pin div 8)) OR pin_bit pin
           else f (of_nat (b + pin div 8)) AND NOT (pin_bit pin))) (of_nat (b + p div 8))) (p mod 8) =
         (if p = pin then v else bit (f (of_nat (b + p div 8)) :: u8) (p mod 8))"
  proof (cases "p div 8 = pin div 8")
    case True
    have "bit (if v then f (of_nat (b + pin div 8)) OR pin_bit pin else f (of_nat (b + pin div 8)) AND NOT (pin_bit pin)) (p mod 8) =
        (if p mod 8 = pin mod 8 then v else bit (f (of_nat (b + pin div 8))) (p mod 8))"
      by (rule bit_set_pin) simp
    then show ?thesis
      using True pin_div [of p pin] by auto
  next
    case False
    then show ?thesis
      using bank_regs [OF assms(1,2), of b b] assms(3) by auto
  qed
qed

text \<open>\<open>Get\<close> and \<open>GetMode\<close> address the register with the whole GPIO number; its port is cut off with the register number.\<close>

lemma gpio_port:
  assumes "g mod 65536 = pin"
  shows "(of_nat (base + g div 8) :: u8) = of_nat (base + pin div 8)" "pin_bit g = pin_bit pin"
proof -
  have g: "g = pin + 8 * (256 * (32 * (g div 65536)))"
    using mod_div_mult_eq [of g 65536] assms by simp
  have "g div 8 = pin div 8 + 256 * (32 * (g div 65536))"
    by (subst g) (simp only: div_mult_self2 [OF numeral_neq_zero])
  then have "(of_nat (base + g div 8) :: u8) = of_nat (base + pin div 8) + 256 * (32 * of_nat (g div 65536))"
    by (simp only: of_nat_add of_nat_mult add.assoc of_nat_numeral)
  moreover have "(256 :: u8) = 0"
    by simp
  ultimately show "(of_nat (base + g div 8) :: u8) = of_nat (base + pin div 8)"
    by (simp only: mult_zero_left add_0_right)
  have "g mod 8 = pin mod 8"
    by (subst g) (simp only: mod_mult_self2)
  then show "pin_bit g = pin_bit pin"
    by (simp add: pin_bit_def PCA95XX_BANK_SIZE_def)
qed

definition pin_mode :: "(u8 \<Rightarrow> u8) \<Rightarrow> nat \<Rightarrow> gpio_mode" where
  "pin_mode f pin = (if pin_input f pin then GPIO_MODE_INPUT else if pin_out f pin then GPIO_MODE_OUTPUT_1 else GPIO_MODE_OUTPUT_0)"

text \<open>The environment finds the protocol of the device at position \<open>k\<close>.\<close>

definition pca_found :: "pca_env \<Rightarrow> PCA9555_CONTEXT \<Rightarrow> nat \<Rightarrow> bool" where
  "pca_found E c k \<longleftrightarrow> pca_pool E \<and> Pca9555GetI2c (pca_located E) (pca_handles E) (Some c) = Inr k \<and>
     (\<forall>g. GPIO_PIN E g = g mod 65536)"

context i2c_registers
begin

lemma pca_set:
  assumes "idle s" "1 < maxlen" "pca_found E c k" "q k = queue" "g mod 65536 = pin" "pin < 16" "mode \<noteq> GPIO_MODE_OTHER"
  shows "\<exists>s'. Pca9555Set E q (Some c) g mode s = Some (s', EFI_SUCCESS) \<and> idle s' \<and>
    (\<forall>p < 16. pin_input (regs s') p = (if p = pin then mode = GPIO_MODE_INPUT else pin_input (regs s) p) \<and>
       pin_out (regs s') p = (if p = pin \<and> mode \<noteq> GPIO_MODE_INPUT then mode = GPIO_MODE_OUTPUT_1 else pin_out (regs s) p))"
proof -
  have E: "pca_pool E" "Pca9555GetI2c (pca_located E) (pca_handles E) (Some c) = Inr k" "GPIO_PIN E g = pin"
    using assms(3,5) by (simp_all add: pca_found_def)
  have valid: "\<not> EFI_ERROR (Pca9555ValidatePin pin)"
    using assms(6) by (simp add: Pca9555ValidatePin_def PCA9555_NUM_GPIO_def)
  show ?thesis
  proof (cases "mode = GPIO_MODE_INPUT")
    case True
    obtain s1 where s1: "write_pin_reg True queue (Some c) 6 pin 1 s = (s1, EFI_SUCCESS)" "idle s1"
      "regs s1 = (regs s)(of_nat (6 + pin div 8) := if True then regs s (of_nat (6 + pin div 8)) OR pin_bit pin
         else regs s (of_nat (6 + pin div 8)) AND NOT (pin_bit pin))"
      using write_pin_ok [OF assms(1,2), of c 6 pin 1] by auto
    have "Pca9555Set E q (Some c) g mode s = Some (s1, EFI_SUCCESS)"
      using E valid True s1(1) assms(4)
      by (simp add: Pca9555Set_def assert_that_def Pca9555WritePinCtrlReg_def PCA9555_CONTROL_REG_BASE_def Let_def)
    moreover have "pin_input (regs s1) p = (if p = pin then True else pin_input (regs s) p)" "pin_out (regs s1) p = pin_out (regs s) p"
      if "p < 16" for p
      using set_pin_view(1) [OF that assms(6), of 6 "regs s" True] set_pin_view(2) [OF that assms(6), of 6 2 "regs s"]
      unfolding pin_input_def pin_out_def s1(3) by simp_all
    ultimately show ?thesis
      using s1(2) True by auto
  next
    case False
    let ?v = "mode = GPIO_MODE_OUTPUT_1"
    have mode: "mode = GPIO_MODE_OUTPUT_0 \<or> mode = GPIO_MODE_OUTPUT_1" "mode = GPIO_MODE_OUTPUT_0 \<longleftrightarrow> \<not> ?v"
      using False assms(7) by (cases mode; simp)+
    obtain s1 where s1: "write_pin_reg True queue (Some c) 2 pin (if mode = GPIO_MODE_OUTPUT_0 then 0 else 1) s = (s1, EFI_SUCCESS)" "idle s1"
      "regs s1 = (regs s)(of_nat (2 + pin div 8) := if ?v then regs s (of_nat (2 + pin div 8)) OR pin_bit pin
         else regs s (of_nat (2 + pin div 8)) AND NOT (pin_bit pin))"
      using write_pin_ok [OF assms(1,2), of c 2 pin "if mode = GPIO_MODE_OUTPUT_0 then 0 else 1"] mode(2) by auto
    obtain s2 where s2: "write_pin_reg True queue (Some c) 6 pin 0 s1 = (s2, EFI_SUCCESS)" "idle s2"
      "regs s2 = (regs s1)(of_nat (6 + pin div 8) := if False then regs s1 (of_nat (6 + pin div 8)) OR pin_bit pin
         else regs s1 (of_nat (6 + pin div 8)) AND NOT (pin_bit pin))"
      using write_pin_ok [OF s1(2) assms(2), of c 6 pin 0] by auto
    have "Pca9555Set E q (Some c) g mode s = Some (s2, EFI_SUCCESS)"
      using E valid mode(1) s1(1) s2(1) assms(4)
      by (simp add: Pca9555Set_def assert_that_def Pca9555WritePinCtrlReg_def Pca9555WritePinOutReg_def
          PCA9555_CONTROL_REG_BASE_def PCA9555_OUTPUT_REG_BASE_def Let_def)
    moreover have "pin_input (regs s2) p = (if p = pin then False else pin_input (regs s) p)"
      "pin_out (regs s2) p = (if p = pin then ?v else pin_out (regs s) p)" if "p < 16" for p
    proof -
      have "pin_input (regs s2) p = (if p = pin then False else pin_input (regs s1) p)" "pin_out (regs s2) p = pin_out (regs s1) p"
        using set_pin_view(1) [OF that assms(6), of 6 "regs s1" False] set_pin_view(2) [OF that assms(6), of 6 2 "regs s1"]
        unfolding pin_input_def pin_out_def s2(3) by simp_all
      moreover have "pin_input (regs s1) p = pin_input (regs s) p" "pin_out (regs s1) p = (if p = pin then ?v else pin_out (regs s) p)"
        using set_pin_view(1) [OF that assms(6), of 2 "regs s" ?v] set_pin_view(2) [OF that assms(6), of 2 6 "regs s"]
        unfolding pin_input_def pin_out_def s1(3) by simp_all
      ultimately show "pin_input (regs s2) p = (if p = pin then False else pin_input (regs s) p)"
        "pin_out (regs s2) p = (if p = pin then ?v else pin_out (regs s) p)"
        by simp_all
    qed
    ultimately show ?thesis
      using s2(2) False by auto
  qed
qed

lemma pca_get_mode:
  assumes "idle s" "1 < maxlen" "pca_found E c k" "q k = queue" "g mod 65536 = pin" "pin < 16"
  shows "\<exists>s'. Pca9555GetMode E q (Some c) g s = Some (s', Inr (pin_mode (regs s) pin)) \<and> idle s' \<and> regs s' = regs s"
proof -
  have E: "pca_pool E" "Pca9555GetI2c (pca_located E) (pca_handles E) (Some c) = Inr k" "GPIO_PIN E g = pin"
    using assms(3,5) by (simp_all add: pca_found_def)
  have valid: "\<not> EFI_ERROR (Pca9555ValidatePin pin)"
    using assms(6) by (simp add: Pca9555ValidatePin_def PCA9555_NUM_GPIO_def)
  have read: "\<exists>s'. Pca9555ReadPinReg True queue (Some c) base g t = (s', Inr (if bit (regs t (of_nat (base + pin div 8))) (pin mod 8) then 1 else 0)) \<and>
      idle s' \<and> regs s' = regs t" if "idle t" for base t
    using read_pin_ok [OF that assms(2), of c base g] unfolding gpio_port [OF assms(5)] pin_bit_test .
  obtain s1 where s1: "Pca9555ReadPinReg True queue (Some c) 6 g s = (s1, Inr (if pin_input (regs s) pin then 1 else 0))" "idle s1" "regs s1 = regs s"
    using read [OF assms(1), of 6] unfolding pin_input_def by blast
  obtain s2 where "Pca9555ReadPinReg True queue (Some c) 2 g s1 = (s2, Inr (if pin_out (regs s) pin then 1 else 0))" "idle s2" "regs s2 = regs s"
    using read [OF s1(2), of 2] unfolding pin_out_def s1(3) by blast
  then show ?thesis
    using E valid s1 assms(4)
    by (auto simp: Pca9555GetMode_def assert_that_def pin_mode_def PCA9555_CONTROL_REG_BASE_def PCA9555_OUTPUT_REG_BASE_def)
qed

end

end
