(* ===== verification/Rk860x.thy ===== *)
theory Rk860x
  imports I2cBus
begin

text \<open>
  The RK860x voltage regulators (\<open>Drivers/I2c/Rk860xRegulatorDxe/Rk860xRegulatorDxe.c\<close>): register
  access over I2C, the two chip variants, and the voltage and enable settings. Pool allocations
  are parameters: \<open>pool\<close> for the request packet, \<open>data\<close> for the buffer of a write.
\<close>

section \<open>Data\<close>

record RK860X_REGULATOR_CONFIG =
  VolReg :: u8
  SleepReg :: u8
  EnReg :: u8
  SleepEnReg :: u8
  VolMask :: u8
  NumVoltages :: u16
  VselMin :: u32
  VselStep :: u32

definition RK860X_VSEL0_A :: u8 where "RK860X_VSEL0_A = 0x00"
definition RK860X_VSEL1_A :: u8 where "RK860X_VSEL1_A = 0x01"
definition RK860X_VSEL0_B :: u8 where "RK860X_VSEL0_B = 0x06"
definition RK860X_VSEL1_B :: u8 where "RK860X_VSEL1_B = 0x07"
definition RK860X_VSEL_BUCK_EN :: u8 where "RK860X_VSEL_BUCK_EN = 0x80"
definition RK860X_ID1 :: u8 where "RK860X_ID1 = 0x03"
definition RK860X_DIE_ID_MASK :: u8 where "RK860X_DIE_ID_MASK = 0x0F"
definition RK860X_MAX_VOLTAGE :: u32 where "RK860X_MAX_VOLTAGE = 1500000"

lemmas rk860x_defs = RK860X_VSEL0_A_def RK860X_VSEL1_A_def RK860X_VSEL0_B_def RK860X_VSEL1_B_def
  RK860X_VSEL_BUCK_EN_def RK860X_ID1_def RK860X_DIE_ID_MASK_def RK860X_MAX_VOLTAGE_def

section \<open>Register access\<close>

record rk860x_pool =
  pool :: bool
  data :: bool

definition Rk860xRegulatorRead :: "rk860x_pool \<Rightarrow> 's i2c_queue \<Rightarrow> u8 list \<Rightarrow> u8 list \<Rightarrow> 's \<Rightarrow> 's \<times> u8 list \<times> efi_status" where
  "Rk860xRegulatorRead A queue RegAddress Buffer s =
     (if \<not> pool A then (s, Buffer, Error EFI_OUT_OF_RESOURCES)
      else let (s, ops, Status) = queue [I2cWr RegAddress, I2cRd Buffer] s
           in (s, case ops of [_, I2cRd bs] \<Rightarrow> bs | _ \<Rightarrow> Buffer, Status))"

definition Rk860xRegulatorWrite :: "rk860x_pool \<Rightarrow> 's i2c_queue \<Rightarrow> u8 list \<Rightarrow> u8 list \<Rightarrow> 's \<Rightarrow> 's \<times> efi_status" where
  "Rk860xRegulatorWrite A queue RegAddress Buffer s =
     (if \<not> pool A then (s, Error EFI_OUT_OF_RESOURCES)
      else if \<not> data A then (s, Error EFI_OUT_OF_RESOURCES)
      else let (s, _, Status) = queue [I2cWr (RegAddress @ Buffer)] s in (s, Status))"

text \<open>\<open>stack\<close> is what the local variable holds before the read.\<close>

definition Rk860xRegulatorReadRegister :: "rk860x_pool \<Rightarrow> 's i2c_queue \<Rightarrow> u8 \<Rightarrow> u8 \<Rightarrow> 's \<Rightarrow> 's \<times> u8 \<times> efi_status" where
  "Rk860xRegulatorReadRegister A queue Address stack s =
     (let (s, bs, Status) = Rk860xRegulatorRead A queue [Address] [stack] s in (s, bs ! 0, Status))"

definition Rk860xRegulatorWriteRegister :: "rk860x_pool \<Rightarrow> 's i2c_queue \<Rightarrow> u8 \<Rightarrow> u8 \<Rightarrow> 's \<Rightarrow> 's \<times> efi_status" where
  "Rk860xRegulatorWriteRegister A queue Address Val s = Rk860xRegulatorWrite A queue [Address] [Val] s"

definition Rk860xRegulatorClearAndSetRegister ::
  "rk860x_pool \<Rightarrow> 's i2c_queue \<Rightarrow> u8 \<Rightarrow> u8 \<Rightarrow> u8 \<Rightarrow> u8 \<Rightarrow> 's \<Rightarrow> 's \<times> efi_status" where
  "Rk860xRegulatorClearAndSetRegister A queue Address Clear Bits stack s =
     (let (s, v, Status) = Rk860xRegulatorReadRegister A queue Address stack s
      in if EFI_ERROR Status then (s, Status)
         else Rk860xRegulatorWriteRegister A queue Address ((v AND NOT Clear) OR Bits) s)"

section \<open>Voltage and enable\<close>

definition Rk860xRegulatorGetVoltage ::
  "rk860x_pool \<Rightarrow> 's i2c_queue \<Rightarrow> RK860X_REGULATOR_CONFIG \<Rightarrow> bool \<Rightarrow> u8 \<Rightarrow> 's \<Rightarrow> 's \<times> (efi_status + u32)" where
  "Rk860xRegulatorGetVoltage A queue C Suspend stack s =
     (let (s, v, Status) = Rk860xRegulatorReadRegister A queue (if Suspend then SleepReg C else VolReg C) stack s
      in if EFI_ERROR Status then (s, Inl Status)
         else (s, Inr (ucast (v AND VolMask C) * VselStep C + VselMin C)))"

definition Rk860xRegulatorSetVoltage ::
  "rk860x_pool \<Rightarrow> 's i2c_queue \<Rightarrow> RK860X_REGULATOR_CONFIG \<Rightarrow> u32 \<Rightarrow> bool \<Rightarrow> u8 \<Rightarrow> 's \<Rightarrow> 's \<times> efi_status" where
  "Rk860xRegulatorSetVoltage A queue C Voltage Suspend stack s =
     Rk860xRegulatorClearAndSetRegister A queue (if Suspend then SleepReg C else VolReg C) (VolMask C)
       (ucast ((Voltage - VselMin C) div VselStep C)) stack s"

definition Rk860xRegulatorGetEnable ::
  "rk860x_pool \<Rightarrow> 's i2c_queue \<Rightarrow> RK860X_REGULATOR_CONFIG \<Rightarrow> bool \<Rightarrow> u8 \<Rightarrow> 's \<Rightarrow> 's \<times> (efi_status + u8)" where
  "Rk860xRegulatorGetEnable A queue C Suspend stack s =
     (let (s, v, Status) = Rk860xRegulatorReadRegister A queue (if Suspend then SleepEnReg C else EnReg C) stack s
      in if EFI_ERROR Status then (s, Inl Status) else (s, Inr (v AND RK860X_VSEL_BUCK_EN)))"

definition Rk860xRegulatorSetEnable ::
  "rk860x_pool \<Rightarrow> 's i2c_queue \<Rightarrow> RK860X_REGULATOR_CONFIG \<Rightarrow> bool \<Rightarrow> bool \<Rightarrow> u8 \<Rightarrow> 's \<Rightarrow> 's \<times> efi_status" where
  "Rk860xRegulatorSetEnable A queue C Enable Suspend stack s =
     Rk860xRegulatorClearAndSetRegister A queue (if Suspend then SleepEnReg C else EnReg C) RK860X_VSEL_BUCK_EN
       (if Enable then RK860X_VSEL_BUCK_EN else 0) stack s"

definition chip_00_01 :: RK860X_REGULATOR_CONFIG where
  "chip_00_01 = \<lparr>VolReg = RK860X_VSEL0_A, SleepReg = RK860X_VSEL1_A, EnReg = RK860X_VSEL0_A, SleepEnReg = RK860X_VSEL1_A,
     VolMask = 0x3F, NumVoltages = 64, VselMin = 712500, VselStep = 12500\<rparr>"

definition chip_02_03 :: RK860X_REGULATOR_CONFIG where
  "chip_02_03 = \<lparr>VolReg = RK860X_VSEL0_B, SleepReg = RK860X_VSEL1_B, EnReg = RK860X_VSEL0_A, SleepEnReg = RK860X_VSEL1_A,
     VolMask = 0xff, NumVoltages = 160, VselMin = 500000, VselStep = 6250\<rparr>"

definition Rk860xRegulatorInitConfig ::
  "rk860x_pool \<Rightarrow> 's i2c_queue \<Rightarrow> u8 \<Rightarrow> RK860X_REGULATOR_CONFIG \<Rightarrow> 's \<Rightarrow> 's \<times> RK860X_REGULATOR_CONFIG \<times> efi_status" where
  "Rk860xRegulatorInitConfig A queue stack C s =
     (let (s, v, Status) = Rk860xRegulatorReadRegister A queue RK860X_ID1 stack s
      in if EFI_ERROR Status then (s, C, Status)
         else if v AND RK860X_DIE_ID_MASK = 8 then (s, chip_00_01, Status)
         else if v AND RK860X_DIE_ID_MASK = 10 then (s, chip_02_03, Status)
         else (s, C, Error EFI_UNSUPPORTED))"

text \<open>The entry of the device in the PCD tables, and the preferred range given for it.\<close>

definition le32 :: "u8 list \<Rightarrow> nat \<Rightarrow> u32" where
  "le32 bs i = ucast (bs ! i) OR push_bit 8 (ucast (bs ! (i + 1))) OR push_bit 16 (ucast (bs ! (i + 2))) OR
     push_bit 24 (ucast (bs ! (i + 3)))"

definition preferred_bound :: "u8 list \<Rightarrow> nat \<Rightarrow> nat \<Rightarrow> u32 \<Rightarrow> u32" where
  "preferred_bound voltages addresses_size Index supported =
     (if length voltages div 4 = addresses_size then le32 voltages (4 * Index) else supported)"

section \<open>What the regulators do, from the contract of the device\<close>

definition pools_ok :: "rk860x_pool \<Rightarrow> bool" where
  "pools_ok A \<longleftrightarrow> pool A \<and> data A"

context i2c_registers
begin

lemma read_register_ok:
  assumes "idle s" "1 < maxlen" "pools_ok A"
  shows "\<exists>s'. Rk860xRegulatorReadRegister A queue r stack s = (s', regs s r, EFI_SUCCESS) \<and> idle s' \<and> regs s' = regs s"
  using read_regs [OF assms(1), of "[stack]" r] assms(2,3)
  by (auto simp: Rk860xRegulatorReadRegister_def Rk860xRegulatorRead_def pools_ok_def)

lemma clear_and_set_ok:
  assumes "idle s" "1 < maxlen" "pools_ok A"
  shows "\<exists>s'. Rk860xRegulatorClearAndSetRegister A queue r clr bits stack s = (s', EFI_SUCCESS) \<and> idle s' \<and>
    regs s' = (regs s)(r := (regs s r AND NOT clr) OR bits)"
proof -
  obtain s1 where s1: "Rk860xRegulatorReadRegister A queue r stack s = (s1, regs s r, EFI_SUCCESS)" "idle s1" "regs s1 = regs s"
    using read_register_ok [OF assms] by blast
  obtain s2 where "queue [I2cWr (r # [(regs s r AND NOT clr) OR bits])] s1 = (s2, [I2cWr (r # [(regs s r AND NOT clr) OR bits])], EFI_SUCCESS)"
    "idle s2" "regs s2 = put_regs r [(regs s r AND NOT clr) OR bits] (regs s1)"
    using write_regs [OF s1(2), of "[(regs s r AND NOT clr) OR bits]" r] assms(2) by auto
  then show ?thesis
    using s1 assms(3)
    by (auto simp: Rk860xRegulatorClearAndSetRegister_def Rk860xRegulatorWriteRegister_def Rk860xRegulatorWrite_def pools_ok_def)
qed

text \<open>Setting and reading back a voltage code that fits the mask.\<close>

lemma set_voltage_ok:
  assumes "idle s" "1 < maxlen" "pools_ok A"
  shows "\<exists>s'. Rk860xRegulatorSetVoltage A queue C v suspend stack s = (s', EFI_SUCCESS) \<and> idle s' \<and>
    regs s' = (let r = if suspend then SleepReg C else VolReg C
               in (regs s)(r := (regs s r AND NOT (VolMask C)) OR ucast ((v - VselMin C) div VselStep C)))"
  using clear_and_set_ok [OF assms] by (simp add: Rk860xRegulatorSetVoltage_def Let_def)

lemma get_voltage_ok:
  assumes "idle s" "1 < maxlen" "pools_ok A"
  shows "\<exists>s'. Rk860xRegulatorGetVoltage A queue C suspend stack s =
      (s', Inr (ucast (regs s (if suspend then SleepReg C else VolReg C) AND VolMask C) * VselStep C + VselMin C)) \<and>
    idle s' \<and> regs s' = regs s"
  using read_register_ok [OF assms, of "if suspend then SleepReg C else VolReg C" stack]
  by (auto simp: Rk860xRegulatorGetVoltage_def)

lemma get_enable_ok:
  assumes "idle s" "1 < maxlen" "pools_ok A"
  shows "\<exists>s'. Rk860xRegulatorGetEnable A queue C suspend stack s =
      (s', Inr (regs s (if suspend then SleepEnReg C else EnReg C) AND RK860X_VSEL_BUCK_EN)) \<and> idle s' \<and> regs s' = regs s"
  using read_register_ok [OF assms, of "if suspend then SleepEnReg C else EnReg C" stack]
  by (auto simp: Rk860xRegulatorGetEnable_def)

lemma set_enable_ok:
  assumes "idle s" "1 < maxlen" "pools_ok A"
  shows "\<exists>s'. Rk860xRegulatorSetEnable A queue C enable suspend stack s = (s', EFI_SUCCESS) \<and> idle s' \<and>
    regs s' = (let r = if suspend then SleepEnReg C else EnReg C
               in (regs s)(r := (regs s r AND NOT RK860X_VSEL_BUCK_EN) OR (if enable then RK860X_VSEL_BUCK_EN else 0)))"
  using clear_and_set_ok [OF assms] by (simp add: Rk860xRegulatorSetEnable_def Let_def)

end

section \<open>Voltage codes\<close>

text \<open>The code of a voltage in the supported range fits the mask of its chip.\<close>

lemma voltage_code:
  assumes "C = chip_00_01 \<or> C = chip_02_03" "VselMin C \<le> v" "v \<le> RK860X_MAX_VOLTAGE"
  shows "unat ((v - VselMin C) div VselStep C) \<le> unat (VolMask C)"
    "(ucast ((v - VselMin C) div VselStep C) :: u8) AND VolMask C = ucast ((v - VselMin C) div VselStep C)"
    "ucast (ucast ((v - VselMin C) div VselStep C) :: u8) = (v - VselMin C) div VselStep C"
proof -
  let ?k = "(v - VselMin C) div VselStep C"
  have "unat v \<le> 1500000"
    using assms(3) by (simp add: RK860X_MAX_VOLTAGE_def word_le_nat_alt)
  moreover have "unat ?k = (unat v - unat (VselMin C)) div unat (VselStep C)"
    using assms(2) by (simp add: unat_div unat_sub_no_wrap)
  ultimately have k: "unat ?k \<le> (1500000 - unat (VselMin C)) div unat (VselStep C)"
    by (simp add: div_le_mono diff_le_mono)
  also have "\<dots> \<le> unat (VolMask C)"
    using assms(1) by (auto simp: chip_00_01_def chip_02_03_def)
  finally show fits: "unat ?k \<le> unat (VolMask C)" .
  have "unat (VolMask C) < 2 ^ LENGTH(8)"
    by (rule unsigned_less)
  then have c: "unat ?k < 256"
    using fits by simp
  have u: "unat (ucast ?k :: u8) = unat ?k"
    using c by (intro unat_ucast_small) simp
  show "ucast (ucast ?k :: u8) = ?k"
    using u c unat_ucast_small [of "ucast ?k :: u8", where 'b=32] by (simp add: word_unat_eq_iff)
  obtain n where n: "VolMask C = mask n" "unat (VolMask C) < 2 ^ n"
  proof -
    have "VolMask C = mask 6 \<and> unat (VolMask C) < 2 ^ 6 \<or> VolMask C = mask 8 \<and> unat (VolMask C) < 2 ^ 8"
      using assms(1) by (auto simp: chip_00_01_def chip_02_03_def mask_eq_exp_minus_1)
    then show ?thesis
      using that by blast
  qed
  have "unat (ucast ?k :: u8) < 2 ^ n"
    using u fits n(2) by simp
  then have "take_bit n (ucast ?k :: u8) = ucast ?k"
    by (metis take_bit_nat_eq_self unsigned_take_bit_eq word_unat_eq_iff)
  then show "(ucast ?k :: u8) AND VolMask C = ucast ?k"
    by (simp add: n(1) take_bit_eq_mask)
qed

end
