(* ===== verification/I2cSim.thy ===== *)
theory I2cSim
  imports I2cCtl Fspi Rtc Pca9555 Rk860x
begin

text \<open>
  An I2C controller with a register device on its bus, at the level of the registers that the
  driver reads and writes, and the interpretation of \<open>i2c_registers\<close> on \<open>I2cStartRequest\<close> over it.

  The device has a register pointer: the first byte written after a start condition sets it, and
  every further byte written or read goes to the register it points to and advances it. A transfer
  to another address is not acknowledged. Every event of the controller (start, stop, end of a
  chunk) shows in the pending register after a number of polls that the schedule \<open>lat\<close> gives; the
  pending bits do not depend on the enable register.
\<close>

section \<open>The simulated hardware\<close>

record device =
  want_ptr :: bool
  dev_ptr :: u8
  dev_regs :: "u8 \<Rightarrow> u8"

record i2c_sim =
  con :: u32
  ipd :: u32
  mrxaddr :: u32
  txd :: "nat \<Rightarrow> u32"
  rxd :: "nat \<Rightarrow> u32"
  pend :: "(nat \<times> u32) option"
  evt :: nat
  lat :: "nat \<Rightarrow> nat"
  addressing :: bool
  dev_addr :: "7 word"
  dev :: device
  tpl :: nat
  runtime :: bool

definition settle :: "i2c_sim \<Rightarrow> i2c_sim" where
  "settle s = (case pend s of Some (0, b) \<Rightarrow> s\<lparr>ipd := ipd s OR b, pend := None\<rparr> | _ \<Rightarrow> s)"

definition sched :: "u32 \<Rightarrow> i2c_sim \<Rightarrow> i2c_sim" where
  "sched b s = s\<lparr>pend := Some (lat s (evt s), b), evt := evt s + 1\<rparr>"

definition pass_time :: "i2c_sim \<Rightarrow> i2c_sim" where
  "pass_time s = (case pend s of Some (Suc n, b) \<Rightarrow> s\<lparr>pend := Some (n, b)\<rparr> | _ \<Rightarrow> s)"

fun dev_put :: "u8 list \<Rightarrow> device \<Rightarrow> device" where
  "dev_put [] d = d"
| "dev_put (b # bs) d =
     (if want_ptr d then dev_put bs (d\<lparr>dev_ptr := b, want_ptr := False\<rparr>)
      else dev_put bs (d\<lparr>dev_regs := (dev_regs d)(dev_ptr d := b), dev_ptr := dev_ptr d + 1\<rparr>))"

lemma dev_put_append: "dev_put (xs @ ys) d = dev_put ys (dev_put xs d)"
  by (induction xs d rule: dev_put.induct) auto

definition tx_bytes :: "nat \<Rightarrow> (nat \<Rightarrow> u32) \<Rightarrow> u8 list" where
  "tx_bytes n t = map (\<lambda>k. byte_of (t (k div 4)) (k mod 4)) [0..<n]"

definition transmit :: "nat \<Rightarrow> i2c_sim \<Rightarrow> i2c_sim" where
  "transmit n s =
     (if addressing s
      then if hd (tx_bytes n (txd s)) = push_bit 1 (ucast (dev_addr s))
           then sched I2C_MBTFIPD (s\<lparr>addressing := False, dev := dev_put (tl (tx_bytes n (txd s))) (dev s\<lparr>want_ptr := True\<rparr>)\<rparr>)
           else sched I2C_NAKRCVIPD (s\<lparr>addressing := False\<rparr>)
      else sched I2C_MBTFIPD (s\<lparr>dev := dev_put (tx_bytes n (txd s)) (dev s)\<rparr>))"

definition at_byte :: "u8 list \<Rightarrow> nat \<Rightarrow> u8" where
  "at_byte bs k = (if k < length bs then bs ! k else 0)"

definition pack :: "u8 list \<Rightarrow> u32" where
  "pack bs = word_of (at_byte bs 0) (at_byte bs 1) (at_byte bs 2) (at_byte bs 3)"

definition give :: "nat \<Rightarrow> i2c_sim \<Rightarrow> i2c_sim" where
  "give n s = sched I2C_MBRFIPD (s\<lparr>rxd := (\<lambda>i. pack (drop (4 * i) (get_regs (dev_ptr (dev s)) n (dev_regs (dev s))))),
     dev := dev s\<lparr>dev_ptr := dev_ptr (dev s) + of_nat n\<rparr>\<rparr>)"

definition receive :: "nat \<Rightarrow> i2c_sim \<Rightarrow> i2c_sim" where
  "receive n s =
     (if addressing s
      then if mrxaddr s = push_bit 24 1 OR push_bit 1 (ucast (dev_addr s)) OR 1
           then give n (s\<lparr>addressing := False\<rparr>) else sched I2C_NAKRCVIPD (s\<lparr>addressing := False\<rparr>)
      else give n s)"

fun sim_rd :: "i2c_sim \<Rightarrow> i2c_reg \<Rightarrow> u32 \<times> i2c_sim" where
  "sim_rd s I2C_IPD = (ipd (settle s), s)"
| "sim_rd s I2C_CON = (con s, s)"
| "sim_rd s I2C_MRXADDR = (mrxaddr s, s)"
| "sim_rd s (I2C_TXDATA i) = (txd s i, s)"
| "sim_rd s (I2C_RXDATA i) = (rxd s i, s)"
| "sim_rd s _ = (0, s)"

fun sim_wr :: "i2c_sim \<Rightarrow> i2c_reg \<Rightarrow> u32 \<Rightarrow> i2c_sim" where
  "sim_wr s I2C_IPD w = (let s = settle s in s\<lparr>ipd := ipd s AND NOT w\<rparr>)"
| "sim_wr s I2C_CON w =
     (if \<not> bit w 0 then s\<lparr>con := w, pend := None, addressing := False\<rparr>
      else if bit w 3 then sched I2C_STARTIPD (s\<lparr>con := w, addressing := True\<rparr>)
      else if bit w 4 then sched I2C_STOPIPD (s\<lparr>con := w, addressing := False\<rparr>)
      else s\<lparr>con := w\<rparr>)"
| "sim_wr s I2C_MRXADDR w = s\<lparr>mrxaddr := w\<rparr>"
| "sim_wr s (I2C_TXDATA i) w = s\<lparr>txd := (txd s)(i := w)\<rparr>"
| "sim_wr s I2C_MTXCNT w = transmit (unat w) s"
| "sim_wr s I2C_MRXCNT w = receive (unat w) s"
| "sim_wr s _ w = s"

definition sim_env :: "i2c_sim i2c_env" where
  "sim_env = \<lparr>MmioRead = sim_rd, MmioWrite = sim_wr, MicroSecondDelay = pass_time,
     RaiseTPL = (\<lambda>s n. (tpl s, s\<lparr>tpl := n\<rparr>)), RestoreTPL = (\<lambda>s n. s\<lparr>tpl := n\<rparr>), SignalEvent = (\<lambda>s. s),
     EfiAtRuntime = runtime\<rparr>"

lemma sim_env_simps [simp]:
  "MmioRead sim_env = sim_rd" "MmioWrite sim_env = sim_wr" "MicroSecondDelay sim_env = pass_time"
  "RaiseTPL sim_env s n = (tpl s, s\<lparr>tpl := n\<rparr>)" "RestoreTPL sim_env s n = s\<lparr>tpl := n\<rparr>" "SignalEvent sim_env s = s"
  "EfiAtRuntime sim_env s = runtime s"
  by (simp_all add: sim_env_def)

section \<open>Polling\<close>

lemma ipd_bits [simp]:
  "I2C_STARTIPD AND I2C_NAKRCVIPD = 0" "I2C_MBTFIPD AND I2C_NAKRCVIPD = 0" "I2C_MBRFIPD AND I2C_NAKRCVIPD = 0"
  "I2C_STARTIPD \<noteq> 0" "I2C_STOPIPD \<noteq> 0" "I2C_MBTFIPD \<noteq> 0" "I2C_MBRFIPD \<noteq> 0" "I2C_NAKRCVIPD \<noteq> 0"
  by (simp_all add: i2c_defs)

lemma start_poll:
  "pend s = Some (k, I2C_STARTIPD) \<Longrightarrow> ipd s = 0 \<Longrightarrow> k < n \<Longrightarrow>
     start_loop sim_env n s = (s\<lparr>pend := None\<rparr>, of_nat (n - 1 - k))"
proof (induction n arbitrary: s k)
  case (Suc n)
  then show ?case
    by (cases k) (simp_all add: settle_def pass_time_def)
qed simp

lemma wait_poll:
  "pend s = Some (k, fin) \<Longrightarrow> ipd s = 0 \<Longrightarrow> k < n \<Longrightarrow> fin \<noteq> 0 \<Longrightarrow> fin AND I2C_NAKRCVIPD = 0 \<Longrightarrow>
     wait_loop sim_env fin n s = (s\<lparr>pend := None\<rparr>, Some (int (n - 1 - k)))"
proof (induction n arbitrary: s k)
  case (Suc n)
  then show ?case
    by (cases k) (simp_all add: settle_def pass_time_def)
qed simp

lemma wait_poll_nak:
  "pend s = Some (k, I2C_NAKRCVIPD) \<Longrightarrow> ipd s = 0 \<Longrightarrow> k < n \<Longrightarrow> fin AND I2C_NAKRCVIPD = 0 \<Longrightarrow>
     wait_loop sim_env fin n s = (s\<lparr>pend := None\<rparr>, None)"
proof (induction n arbitrary: s k)
  case (Suc n)
  then show ?case
    by (cases k) (simp_all add: settle_def pass_time_def and.commute)
qed simp

lemma stop_poll:
  "pend s = None \<or> pend s = Some (k, I2C_STOPIPD) \<Longrightarrow> ipd s = 0 \<Longrightarrow>
     \<exists>p t. stop_loop sim_env n s = (s\<lparr>pend := p\<rparr>, t) \<and> (p = None \<or> (\<exists>k. p = Some (k, I2C_STOPIPD)))"
proof (induction n arbitrary: s k)
  case 0
  then show ?case
    by (auto intro!: exI [of _ "pend s"])
next
  case (Suc n)
  show ?case
  proof (cases "pend s = Some (0, I2C_STOPIPD)")
    case True
    then have "stop_loop sim_env (Suc n) s = (s\<lparr>pend := None\<rparr>, int n)"
      using Suc.prems by (simp add: settle_def)
    then show ?thesis
      by blast
  next
    case False
    have "\<exists>k'. pend (pass_time s) = None \<or> pend (pass_time s) = Some (k', I2C_STOPIPD)"
      "pass_time s\<lparr>pend := p\<rparr> = s\<lparr>pend := p\<rparr>" "ipd (pass_time s) = 0" for p
      using Suc.prems by (auto simp: pass_time_def split: nat.splits option.splits)
    moreover have "ipd (settle s) = 0"
      using Suc.prems False by (auto simp: settle_def split: nat.splits option.splits)
    ultimately show ?thesis
      using Suc.IH [of "pass_time s"] by auto
  qed
qed

section \<open>Start and stop conditions\<close>

definition sim_ok :: "i2c_sim \<Rightarrow> bool" where
  "sim_ok s \<longleftrightarrow> ipd s = 0 \<and> pend s = None \<and> (\<forall>e. lat s e < 10000)"

lemma of_nat_u64_pos:
  assumes "0 < k" "k < 2 ^ 64"
  shows "\<not> (of_nat k :: u64) \<le> 0"
proof -
  have "unat (of_nat k :: u64) = k"
    using assms(2) by (simp add: unat_of_nat)
  then show ?thesis
    using assms(1) by (auto simp: word_le_nat_alt)
qed

lemma start_sim:
  assumes "sim_ok s"
  shows "I2cStartEnable sim_env c Con I2C_TIMEOUT_US s =
    (s\<lparr>con := I2C_CON_EN OR I2C_CON_START OR Con OR ucast (Config c), addressing := True, evt := evt s + 1\<rparr>, EFI_SUCCESS)"
proof -
  let ?w = "I2C_CON_EN OR I2C_CON_START OR Con OR ucast (Config c)"
  let ?s = "s\<lparr>con := ?w, addressing := True, evt := evt s + 1, pend := Some (lat s (evt s), I2C_STARTIPD)\<rparr>"
  have l: "lat s (evt s) < 10000"
    using assms by (simp add: sim_ok_def)
  have w: "bit ?w 0" "bit ?w 3"
    by (simp_all add: i2c_defs bit_simps bit_numeral_rec)
  have "start_loop sim_env I2C_TIMEOUT_US ?s = (?s\<lparr>pend := None\<rparr>, of_nat (I2C_TIMEOUT_US - 1 - lat s (evt s)))"
    using assms l by (intro start_poll) (auto simp: sim_ok_def I2C_TIMEOUT_US_def intro: less_trans)
  moreover have "\<not> (of_nat (I2C_TIMEOUT_US - 1 - lat s (evt s)) :: u64) \<le> 0"
    using l by (intro of_nat_u64_pos) (simp_all add: I2C_TIMEOUT_US_def)
  moreover have "sim_wr (sim_wr (sim_wr s I2C_IPD I2C_IPD_ALL_CLEAN) I2C_IEN I2C_STARTIEN) I2C_CON ?w = ?s"
    using w assms by (simp add: sim_ok_def settle_def sched_def)
  moreover have "?s\<lparr>pend := None\<rparr> = s\<lparr>con := ?w, addressing := True, evt := evt s + 1\<rparr>"
    using assms by (simp add: sim_ok_def)
  ultimately show ?thesis
    unfolding I2cStartEnable_def sim_env_simps Let_def by simp
qed

text \<open>The configuration bits do not contain a start condition; those of \<open>I2cAdapterBaudRate\<close> do not.\<close>

definition config_ok :: "I2C_MASTER_CONTEXT \<Rightarrow> bool" where
  "config_ok c \<longleftrightarrow> \<not> bit (ucast (Config c) :: u32) 3 \<and> \<not> bit (ucast (Config c) :: u32) 4"

lemma stop_disable_sim:
  assumes "sim_ok s" "\<not> bit (ucast (Config c) :: u32) 3"
  shows "I2cDisable sim_env (fst (I2cStop sim_env c s)) = s\<lparr>con := 0, addressing := False, evt := evt s + 1\<rparr>"
proof -
  let ?w = "I2C_CON_EN OR I2C_CON_STOP OR ucast (Config c)"
  let ?s = "s\<lparr>con := ?w, addressing := False, evt := evt s + 1, pend := Some (lat s (evt s), I2C_STOPIPD)\<rparr>"
  have w: "bit ?w 0" "bit ?w 4" "\<not> bit ?w 3"
    using assms(2) by (simp_all add: i2c_defs bit_simps bit_numeral_rec)
  have s: "sim_wr (sim_wr (sim_wr s I2C_IPD I2C_IPD_ALL_CLEAN) I2C_CON ?w) I2C_IEN I2C_CON_STOP = ?s"
    using w assms(1) by (simp add: sim_ok_def settle_def sched_def)
  obtain p t where p: "stop_loop sim_env I2C_READY_TIMEOUT ?s = (?s\<lparr>pend := p\<rparr>, t)"
    "p = None \<or> (\<exists>k. p = Some (k, I2C_STOPIPD))"
    using stop_poll [of ?s] assms(1) by (fastforce simp: sim_ok_def)
  have "sim_wr (sim_wr (sim_wr (?s\<lparr>pend := p\<rparr>) I2C_IEN 0) I2C_IPD I2C_IPD_ALL_CLEAN) I2C_CON 0 =
      s\<lparr>con := 0, addressing := False, evt := evt s + 1\<rparr>"
    using p(2) assms(1) by (auto simp: sim_ok_def settle_def i2c_defs split: nat.splits)
  then show ?thesis
    unfolding I2cStop_def I2cDisable_def sim_env_simps Let_def s p(1) by simp
qed

section \<open>Sending\<close>

lemma pack_simps:
  "pack [] = 0" "pack [a] = ucast a" "pack [a, b] = ucast a OR push_bit 8 (ucast b)"
  "pack [a, b, c] = ucast a OR push_bit 8 (ucast b) OR push_bit 16 (ucast c)"
  "pack (a # b # c # d # xs) = ucast a OR push_bit 8 (ucast b) OR push_bit 16 (ucast c) OR push_bit 24 (ucast d)"
  by (simp_all add: pack_def at_byte_def word_of_def)

definition addr_byte :: "7 word \<Rightarrow> u8" where
  "addr_byte a = push_bit 1 (ucast a)"

lemma ucast_push_ucast:
  "k \<le> 1 \<Longrightarrow> (ucast (push_bit k (ucast (a :: 7 word) :: u64)) :: u32) = ucast (push_bit k (ucast a) :: u8)"
  "k \<le> 1 \<Longrightarrow> (ucast (push_bit k (ucast (a :: 7 word) :: u64)) :: u32) = push_bit k (ucast a)"
  by (rule bit_word_eqI, auto simp: bit_simps dest: bit_imp_le_length)+

lemma addr_byte_sent: "(ucast (push_bit 1 (ucast a :: u64)) :: u32) = ucast (addr_byte a)"
  unfolding addr_byte_def by (rule ucast_push_ucast) simp

lemma fill_word_plain:
  assumes "\<not> (i = 0 \<and> at)" "n - i * 4 \<le> length p" "i * 4 < n"
  shows "fill_word at A n i 4 p 0 = (pack (take (n - i * 4) p), drop (min 4 (n - i * 4)) p)"
proof -
  obtain m where m: "n = i * 4 + Suc m"
    using assms(3) by (metis less_imp_Suc_add add_Suc_right)
  consider "m = 0" | "m = 1" | "m = 2" | q where "m = Suc (Suc (Suc q))"
    by (metis One_nat_def Suc_1 not0_implies_Suc)
  then show ?thesis
    using assms(1,2) unfolding m
    by cases (auto simp: Suc_le_length_iff eval_nat_numeral pack_simps or.assoc)
qed

lemma fill_word_at: "0 < i \<or> k < 4 \<Longrightarrow> fill_word True A n i k p w = fill_word False A n i k p w"
  by (induction k arbitrary: p w) (auto simp: Let_def)

lemma fill_word_addr:
  assumes "0 < n"
  shows "fill_word True (ucast a) n 0 4 p 0 = fill_word False (ucast a) n 0 4 (addr_byte a # p) 0"
proof -
  have "fill_word True (ucast a) n 0 (Suc 3) p 0 = fill_word False (ucast a) n 0 (Suc 3) (addr_byte a # p) 0"
    using assms unfolding fill_word.simps(2)
    by (simp add: addr_byte_sent [simplified] fill_word_at [of 0 3] del: fill_word.simps(2))
  then show ?thesis
    by simp
qed

lemma fill_words_at: "\<forall>i \<in> set is. 0 < i \<Longrightarrow> fill_words E True A n is p s = fill_words E False A n is p s"
  by (induction "is" arbitrary: p s) (simp_all add: fill_word_at split: prod.split)

lemma word_count_Suc: "0 < n \<Longrightarrow> word_count n = Suc ((n - 1) div 4)"
  by (cases n) (auto simp: word_count_def)

lemma fill_words_addr:
  assumes "0 < n"
  shows "fill_words E True (ucast a) n [0..<word_count n] p s = fill_words E False (ucast a) n [0..<word_count n] (addr_byte a # p) s"
proof -
  have "[0..<word_count n] = 0 # [1..<word_count n]"
    using assms by (simp add: word_count_Suc upt_conv_Cons)
  then show ?thesis
    using assms by (simp add: fill_word_addr fill_words_at [of "[Suc 0..<word_count n]" E] split: prod.splits)
qed

definition fifo :: "u8 list \<Rightarrow> nat \<Rightarrow> nat \<Rightarrow> (nat \<Rightarrow> u32) \<Rightarrow> nat \<Rightarrow> u32" where
  "fifo bs i w f k = (if i \<le> k \<and> k < w then pack (drop (4 * (k - i)) bs) else f k)"

lemma pack_take: "4 \<le> m \<Longrightarrow> pack (take m p) = pack p"
  by (simp add: pack_def at_byte_def)

lemma fifo_step:
  "i < w \<Longrightarrow> fifo (drop 4 bs) (Suc i) w (f(i := pack bs)) = fifo bs i w f"
proof
  fix k
  assume "i < w"
  show "fifo (drop 4 bs) (Suc i) w (f(i := pack bs)) k = fifo bs i w f k"
  proof (cases "i < k")
    case True
    then have "4 + 4 * (k - Suc i) = 4 * (k - i)"
      by simp
    then show ?thesis
      using True by (simp add: fifo_def add.commute)
  qed (use \<open>i < w\<close> in \<open>auto simp: fifo_def\<close>)
qed

lemma fill_words_plain:
  assumes "n - 4 * i \<le> length p" "i \<le> word_count n"
  shows "fill_words sim_env False A n [i..<word_count n] p s =
    (s\<lparr>txd := fifo (take (n - 4 * i) p) i (word_count n) (txd s)\<rparr>, drop (n - 4 * i) p)"
  using assms
proof (induction "word_count n - i" arbitrary: i p s)
  case 0
  then have "i = word_count n" "n \<le> 4 * i"
    by (auto simp: word_count_def)
  moreover have "fifo [] i i f = f" for f
    by (rule ext) (auto simp: fifo_def)
  ultimately show ?case
    by simp
next
  case (Suc d)
  then have i: "i < word_count n" "4 * i < n"
    by (auto simp: word_count_def)
  let ?s = "s\<lparr>txd := (txd s)(i := pack (take (n - 4 * i) p))\<rparr>" and ?p = "drop (min 4 (n - 4 * i)) p"
  have w: "fill_word False A n i 4 p 0 = (pack (take (n - 4 * i) p), ?p)"
    using fill_word_plain [of i False n p A] Suc.prems i by (simp add: mult.commute)
  have "fill_words sim_env False A n [Suc i..<word_count n] ?p ?s =
      (?s\<lparr>txd := fifo (take (n - 4 * Suc i) ?p) (Suc i) (word_count n) (txd ?s)\<rparr>, drop (n - 4 * Suc i) ?p)"
    using Suc by (intro Suc.hyps) auto
  moreover have "drop (n - 4 * Suc i) ?p = drop (n - 4 * i) p"
    using i(2) by (cases "n - 4 * i \<le> 4") auto
  moreover have "take (n - 4 * Suc i) ?p = drop 4 (take (n - 4 * i) p)"
    by (cases "n - 4 * i \<le> 4") (auto simp: drop_take add.commute)
  moreover have "fifo (drop 4 (take (n - 4 * i) p)) (Suc i) (word_count n) (txd ?s) = fifo (take (n - 4 * i) p) i (word_count n) (txd s)"
    using i(1) fifo_step by simp
  ultimately show ?case
    using i(1) w by (simp add: upt_conv_Cons)
qed

lemma byte_of_pack: "j < 4 \<Longrightarrow> byte_of (pack bs) j = at_byte bs j"
  unfolding pack_def using byte_of_word_of_2 byte_of_word_of_3 by (auto simp: less_Suc_eq eval_nat_numeral)

lemma tx_bytes_fifo:
  assumes "n \<le> length bs"
  shows "tx_bytes n (fifo (take n bs) 0 (word_count n) f) = take n bs"
proof (rule nth_equalityI)
  fix k
  assume "k < length (tx_bytes n (fifo (take n bs) 0 (word_count n) f))"
  then have k: "k < n"
    by (simp add: tx_bytes_def)
  then have "k div 4 < word_count n"
    by (simp add: word_count_def)
  moreover have "4 * (k div 4) + k mod 4 = k"
    by simp
  then have "k mod 4 < n - 4 * (k div 4)"
    using k by linarith
  ultimately show "tx_bytes n (fifo (take n bs) 0 (word_count n) f) ! k = take n bs ! k"
    using k assms by (simp add: tx_bytes_def fifo_def byte_of_pack at_byte_def)
next
  show "length (tx_bytes n (fifo (take n bs) 0 (word_count n) f)) = length (take n bs)"
    using assms by (simp add: tx_bytes_def)
qed

text \<open>The end of a chunk that the device has acknowledged.\<close>

lemma wait_sim:
  assumes "sim_ok s" "fin = I2C_MBTFIPD \<or> fin = I2C_MBRFIPD" "10000 < T"
  shows "\<exists>T'. wait_loop sim_env fin T (sched fin s) = (s\<lparr>evt := evt s + 1\<rparr>, Some (int T')) \<and> T \<le> T' + 10000"
proof -
  have l: "lat s (evt s) < 10000"
    using assms(1) by (simp add: sim_ok_def)
  have "wait_loop sim_env fin T (sched fin s) = (sched fin s\<lparr>pend := None\<rparr>, Some (int (T - 1 - lat s (evt s))))"
    using assms l by (intro wait_poll) (auto simp: sched_def sim_ok_def intro: less_trans [of _ 10000])
  moreover have "sched fin s\<lparr>pend := None\<rparr> = s\<lparr>evt := evt s + 1\<rparr>"
    using assms(1) by (simp add: sched_def sim_ok_def)
  ultimately show ?thesis
    using l assms(3) by (intro exI [of _ "T - 1 - lat s (evt s)"]) auto
qed

lemma write_rest:
  assumes "sim_ok s" "\<not> addressing s" "config_ok c" "length P < length Buf" "length P \<le> 32 * m" "10000 * m < T"
  shows "\<exists>t w e. write_chunks sim_env c A Buf P (length P) True T Sent s =
    (s\<lparr>txd := t, con := w, evt := e, dev := dev_put P (dev s)\<rparr>, length Buf, EFI_SUCCESS)"
  using assms
proof (induction m arbitrary: s P T Sent)
  case 0
  then have "write_chunks sim_env c A Buf P (length P) True T Sent s =
      (s\<lparr>txd := txd s, con := con s, evt := evt s, dev := dev_put P (dev s)\<rparr>, length Buf, EFI_SUCCESS)"
    by (simp add: write_chunks.simps)
  then show ?case
    by blast
next
  case (Suc m)
  show ?case
  proof (cases "P = []")
    case True
    then have "write_chunks sim_env c A Buf P (length P) True T Sent s =
        (s\<lparr>txd := txd s, con := con s, evt := evt s, dev := dev_put P (dev s)\<rparr>, length Buf, EFI_SUCCESS)"
      by (simp add: write_chunks.simps)
    then show ?thesis
      by blast
  next
    case False
    define n where "n = (if 32 < length P then 32 else length P)"
    have n: "n \<le> length P" "0 < n" "n \<le> 32"
      using False by (auto simp: n_def)
    let ?t = "fifo (take n P) 0 (word_count n) (txd s)"
    let ?w = "I2C_CON_EN OR I2C_CON_MOD I2C_MODE_TX OR ucast (Config c)"
    let ?s = "s\<lparr>txd := ?t, con := ?w, dev := dev_put (take n P) (dev s)\<rparr>"
    have fill: "fill_words sim_env False A n [0..<word_count n] P s = (s\<lparr>txd := ?t\<rparr>, drop n P)"
      using fill_words_plain [of n 0 P A s] n by simp
    have w: "bit ?w 0" "\<not> bit ?w 3" "\<not> bit ?w 4"
      using Suc.prems(3) by (auto simp: config_ok_def i2c_defs bit_simps bit_numeral_rec)
    have mt: "transmit n (s\<lparr>txd := ?t, con := ?w\<rparr>) = sched I2C_MBTFIPD ?s"
      using Suc.prems(2) n by (simp add: transmit_def tx_bytes_fifo)
    have "sim_ok ?s"
      using Suc.prems(1) by (simp add: sim_ok_def)
    then obtain T' where T': "wait_loop sim_env I2C_MBTFIPD T (sched I2C_MBTFIPD ?s) = (?s\<lparr>evt := evt ?s + 1\<rparr>, Some (int T'))" "T \<le> T' + 10000"
      using wait_sim [of ?s I2C_MBTFIPD T] Suc.prems(6) by auto
    have "unat (of_nat n :: u32) = n"
      using n(3) by (simp add: unat_of_nat)
    then have step: "write_chunks sim_env c A Buf P (length P) True T Sent s =
        write_chunks sim_env c A Buf (drop n P) (length P - n) True T' n (?s\<lparr>evt := evt ?s + 1\<rparr>)"
      using False Suc.prems(4,6) fill w mt T'
      by (subst write_chunks.simps) (simp add: n_def [symmetric] RK_I2C_FIFO_SIZE_def)
    have "\<exists>t w e. write_chunks sim_env c A Buf (drop n P) (length (drop n P)) True T' n (?s\<lparr>evt := evt ?s + 1\<rparr>) =
      (?s\<lparr>evt := evt ?s + 1\<rparr>\<lparr>txd := t, con := w, evt := e, dev := dev_put (drop n P) (dev (?s\<lparr>evt := evt ?s + 1\<rparr>))\<rparr>, length Buf, EFI_SUCCESS)"
      using Suc.prems n T'(2) by (intro Suc.IH) (auto simp: sim_ok_def n_def)
    moreover have "dev_put (drop n P) (dev_put (take n P) d) = dev_put P d" for d
      by (simp add: dev_put_append [symmetric])
    ultimately show ?thesis
      unfolding step by simp
  qed
qed

text \<open>A whole write: the address, then the bytes.\<close>

lemma write_operation_sim:
  assumes "sim_ok s" "config_ok c" "length Buf < 255" "dev_addr s = a"
  shows "\<exists>t w e. I2cWriteOperation sim_env c (ucast a) Buf s =
    (s\<lparr>addressing := False, txd := t, con := w, evt := e, dev := dev_put Buf (dev s\<lparr>want_ptr := True\<rparr>)\<rparr>, length Buf, EFI_SUCCESS)"
proof -
  let ?P = "addr_byte a # Buf" and ?d = "dev s\<lparr>want_ptr := True\<rparr>"
  define n where "n = (if 32 < length Buf + 1 then 32 else length Buf + 1)"
  have n: "n \<le> length ?P" "0 < n" "n \<le> 32"
    by (auto simp: n_def)
  let ?t = "fifo (take n ?P) 0 (word_count n) (txd s)"
  let ?w = "I2C_CON_EN OR I2C_CON_START OR (I2C_CON_EN OR I2C_CON_MOD I2C_MODE_TX) OR ucast (Config c)"
  let ?s1 = "s\<lparr>txd := ?t, con := ?w, addressing := True, evt := evt s + 1\<rparr>"
  let ?s = "?s1\<lparr>addressing := False, dev := dev_put (take (n - 1) Buf) ?d\<rparr>"
  have fill: "fill_words sim_env True (ucast a) n [0..<word_count n] Buf s = (s\<lparr>txd := ?t\<rparr>, drop (n - 1) Buf)"
    using fill_words_addr [of n sim_env a Buf s] fill_words_plain [of n 0 ?P "ucast a" s] n by (simp add: drop_Cons')
  have start: "I2cStartEnable sim_env c (I2C_CON_EN OR I2C_CON_MOD I2C_MODE_TX) I2C_TIMEOUT_US (s\<lparr>txd := ?t\<rparr>) = (?s1, EFI_SUCCESS)"
    using start_sim [of "s\<lparr>txd := ?t\<rparr>" c "I2C_CON_EN OR I2C_CON_MOD I2C_MODE_TX"] assms(1) by (simp add: sim_ok_def)
  have "tx_bytes n ?t = addr_byte a # take (n - 1) Buf"
    using n tx_bytes_fifo [of n ?P "txd s"] by (simp add: take_Cons')
  then have mt: "transmit n ?s1 = sched I2C_MBTFIPD ?s"
    using assms(4) by (simp add: transmit_def addr_byte_def)
  have "sim_ok ?s"
    using assms(1) by (simp add: sim_ok_def)
  then obtain T' where T': "wait_loop sim_env I2C_MBTFIPD I2C_TIMEOUT_US (sched I2C_MBTFIPD ?s) = (?s\<lparr>evt := evt ?s + 1\<rparr>, Some (int T'))" "90000 \<le> T'"
    using wait_sim [of ?s I2C_MBTFIPD I2C_TIMEOUT_US] by (auto simp: I2C_TIMEOUT_US_def)
  have u: "unat (of_nat n :: u32) = n" "(length Buf + 1) mod 2 ^ 32 = Suc (length Buf)"
    using n(3) assms(3) by (simp_all add: unat_of_nat)
  have nn: "(if RK_I2C_FIFO_SIZE < Suc (length Buf) then 32 else Suc (length Buf)) = n"
    by (simp add: n_def RK_I2C_FIFO_SIZE_def)
  have step: "I2cWriteOperation sim_env c (ucast a) Buf s =
      write_chunks sim_env c (ucast a) Buf (drop (n - 1) Buf) (length (drop (n - 1) Buf)) True T' n (?s\<lparr>evt := evt ?s + 1\<rparr>)"
    using fill start mt T' n u(1) unfolding I2cWriteOperation_def u(2)
    by (subst write_chunks.simps, subst nn) simp
  have "\<exists>t w e. write_chunks sim_env c (ucast a) Buf (drop (n - 1) Buf) (length (drop (n - 1) Buf)) True T' n (?s\<lparr>evt := evt ?s + 1\<rparr>) =
    (?s\<lparr>evt := evt ?s + 1\<rparr>\<lparr>txd := t, con := w, evt := e, dev := dev_put (drop (n - 1) Buf) (dev (?s\<lparr>evt := evt ?s + 1\<rparr>))\<rparr>, length Buf, EFI_SUCCESS)"
  proof (cases "n - 1 < length Buf \<and> 1 < n")
    case True
    then show ?thesis
      using assms \<open>sim_ok ?s\<close> T'(2) by (intro write_rest [where m = 8]) (auto simp: sim_ok_def n_def)
  next
    case False
    then have "drop (n - 1) Buf = []"
      by (auto simp: n_def split: if_splits)
    then show ?thesis
      by (subst write_chunks.simps) (auto intro!: exI [of _ ?t] exI [of _ ?w] exI [of _ "evt ?s + 1"])
  qed
  moreover have "dev_put (drop (n - 1) Buf) (dev_put (take (n - 1) Buf) d) = dev_put Buf d" for d
    by (simp add: dev_put_append [symmetric])
  ultimately show ?thesis
    unfolding step by simp
qed

section \<open>Receiving\<close>

lemma get_regs_add: "get_regs r (n + k) f = get_regs r n f @ get_regs (r + of_nat n) k f"
  by (induction n arbitrary: r) (simp_all add: add.assoc)

lemma drain_sim:
  assumes "rxd s = (\<lambda>i. pack (drop (4 * i) G))" "length G = n" "i \<le> word_count n"
  shows "drain_words sim_env n [i..<word_count n] s = (s, drop (4 * i) G)"
  using assms(3)
proof (induction "word_count n - i" arbitrary: i)
  case 0
  then show ?case
    using assms(2) by (auto simp: word_count_def)
next
  case (Suc d)
  then have i: "i < word_count n" "4 * i < n"
    by (auto simp: word_count_def)
  have "map (\<lambda>j. ucast (drop_bit (j * 8) (rxd s i) AND 0xff)) [0..<min 4 (n - i * 4)] = take 4 (drop (4 * i) G)"
  proof (rule nth_equalityI)
    fix j
    assume "j < length (map (\<lambda>j. ucast (drop_bit (j * 8) (rxd s i) AND 0xff) :: u8) [0..<min 4 (n - i * 4)])"
    then have j: "j < 4" "j < n - i * 4"
      by simp_all
    then have "ucast (drop_bit (j * 8) (rxd s i) AND 0xff) = at_byte (drop (4 * i) G) j"
      using byte_of_pack [OF j(1), of "drop (4 * i) G"] by (simp add: assms(1) byte_of_def mult.commute)
    then show "map (\<lambda>j. ucast (drop_bit (j * 8) (rxd s i) AND 0xff)) [0..<min 4 (n - i * 4)] ! j = take 4 (drop (4 * i) G) ! j"
      using j assms(2) by (simp add: at_byte_def mult.commute)
  qed (simp add: assms(2) mult.commute)
  moreover have "drain_words sim_env n [Suc i..<word_count n] s = (s, drop (4 * Suc i) G)"
    using Suc by (intro Suc.hyps) auto
  moreover have "take 4 (drop (4 * i) G) @ drop (4 * Suc i) G = drop (4 * i) G"
    by (metis append_take_drop_id drop_drop mult_Suc_right)
  ultimately show ?case
    using i(1) by (simp add: upt_conv_Cons)
qed

definition dev_skip :: "nat \<Rightarrow> device \<Rightarrow> device" where
  "dev_skip n d = d\<lparr>dev_ptr := dev_ptr d + of_nat n\<rparr>"

definition dev_get :: "nat \<Rightarrow> device \<Rightarrow> u8 list" where
  "dev_get n d = get_regs (dev_ptr d) n (dev_regs d)"

lemma dev_get_add: "dev_get (n + k) d = dev_get n d @ dev_get k (dev_skip n d)"
  by (simp add: dev_get_def dev_skip_def get_regs_add)

lemma dev_skip_add: "dev_skip k (dev_skip n d) = dev_skip (n + k) d"
  by (simp add: dev_skip_def add.assoc)

lemma length_dev_get [simp]: "length (dev_get n d) = n"
  by (simp add: dev_get_def)

lemma give_def2: "give n s = sched I2C_MBRFIPD (s\<lparr>rxd := (\<lambda>i. pack (drop (4 * i) (dev_get n (dev s)))), dev := dev_skip n (dev s)\<rparr>)"
  by (simp add: give_def dev_get_def dev_skip_def)

lemma read_rest:
  assumes "sim_ok s" "\<not> addressing s" "config_ok c" "remain \<le> 32 * m" "10000 * m < T" "length got + remain = length Buf"
  shows "\<exists>x w e. read_chunks sim_env c Buf got remain True T Read s =
    (s\<lparr>rxd := x, con := w, evt := e, dev := dev_skip remain (dev s)\<rparr>, got @ dev_get remain (dev s), length Buf, EFI_SUCCESS)"
  using assms
proof (induction m arbitrary: s remain got T Read)
  case 0
  then have "read_chunks sim_env c Buf got remain True T Read s =
      (s\<lparr>rxd := rxd s, con := con s, evt := evt s, dev := dev_skip remain (dev s)\<rparr>, got @ dev_get remain (dev s), length Buf, EFI_SUCCESS)"
    by (simp add: read_chunks.simps dev_get_def dev_skip_def)
  then show ?case
    by blast
next
  case (Suc m)
  show ?case
  proof (cases "remain = 0")
    case True
    then have "read_chunks sim_env c Buf got remain True T Read s =
        (s\<lparr>rxd := rxd s, con := con s, evt := evt s, dev := dev_skip remain (dev s)\<rparr>, got @ dev_get remain (dev s), length Buf, EFI_SUCCESS)"
      using Suc.prems(6) by (simp add: read_chunks.simps dev_get_def dev_skip_def)
    then show ?thesis
      by blast
  next
    case False
    define n where "n = (if 32 < remain then 32 else remain)"
    define Con where "Con = (if 32 < remain then I2C_CON_EN else I2C_CON_EN OR I2C_CON_LASTACK)"
    have n: "n \<le> remain" "0 < n" "n \<le> 32"
      using False by (auto simp: n_def)
    let ?w = "Con OR I2C_CON_MOD I2C_MODE_RX OR ucast (Config c)"
    let ?G = "dev_get n (dev s)"
    let ?s = "s\<lparr>con := ?w, rxd := (\<lambda>i. pack (drop (4 * i) ?G)), dev := dev_skip n (dev s)\<rparr>"
    have w: "bit ?w 0" "\<not> bit ?w 3" "\<not> bit ?w 4"
      using Suc.prems(3) by (auto simp: Con_def config_ok_def i2c_defs bit_simps bit_numeral_rec)
    have rc: "receive n (s\<lparr>con := ?w\<rparr>) = sched I2C_MBRFIPD ?s"
      using Suc.prems(2) by (simp add: receive_def give_def2)
    have "sim_ok ?s"
      using Suc.prems(1) by (simp add: sim_ok_def)
    then obtain T' where T': "wait_loop sim_env I2C_MBRFIPD T (sched I2C_MBRFIPD ?s) = (?s\<lparr>evt := evt ?s + 1\<rparr>, Some (int T'))" "T \<le> T' + 10000"
      using wait_sim [of ?s I2C_MBRFIPD T] Suc.prems(5) by auto
    have drain: "drain_words sim_env n [0..<word_count n] (?s\<lparr>evt := evt ?s + 1\<rparr>) = (?s\<lparr>evt := evt ?s + 1\<rparr>, ?G)"
      by (subst drain_sim [where G = ?G]) simp_all
    have "unat (of_nat n :: u32) = n"
      using n(3) by (simp add: unat_of_nat)
    moreover have "(if RK_I2C_FIFO_SIZE < remain then (I2C_CON_EN, 32) else (I2C_CON_EN OR I2C_CON_LASTACK, remain)) = (Con, n)"
      by (simp add: Con_def n_def RK_I2C_FIFO_SIZE_def)
    ultimately have step: "read_chunks sim_env c Buf got remain True T Read s =
        read_chunks sim_env c Buf (got @ ?G) (remain - n) True T' n (?s\<lparr>evt := evt ?s + 1\<rparr>)"
      using False Suc.prems(5) w rc T' drain
      by (subst read_chunks.simps) simp
    have "\<exists>x w e. read_chunks sim_env c Buf (got @ ?G) (remain - n) True T' n (?s\<lparr>evt := evt ?s + 1\<rparr>) =
      (?s\<lparr>evt := evt ?s + 1\<rparr>\<lparr>rxd := x, con := w, evt := e, dev := dev_skip (remain - n) (dev (?s\<lparr>evt := evt ?s + 1\<rparr>))\<rparr>,
       (got @ ?G) @ dev_get (remain - n) (dev (?s\<lparr>evt := evt ?s + 1\<rparr>)), length Buf, EFI_SUCCESS)"
      using Suc.prems n T'(2) by (intro Suc.IH) (auto simp: sim_ok_def n_def)
    moreover have "dev_get n (dev s) @ dev_get (remain - n) (dev_skip n (dev s)) = dev_get remain (dev s)"
      using n(1) dev_get_add [of n "remain - n" "dev s"] by simp
    ultimately show ?thesis
      using n(1) unfolding step by (simp add: dev_skip_add)
  qed
qed

lemma read_first:
  assumes "sim_ok s" "config_ok c" "0 < length Buf" "length Buf < 255"
    "mrxaddr s = push_bit 24 1 OR push_bit 1 (ucast (dev_addr s)) OR 1"
  shows "\<exists>x w e. read_chunks sim_env c Buf [] (length Buf) False I2C_TIMEOUT_US 0 s =
    (s\<lparr>addressing := False, rxd := x, con := w, evt := e, dev := dev_skip (length Buf) (dev s)\<rparr>,
     dev_get (length Buf) (dev s), length Buf, EFI_SUCCESS)"
proof -
  let ?l = "length Buf"
  define n where "n = (if 32 < ?l then 32 else ?l)"
  define Con where "Con = (if 32 < ?l then I2C_CON_EN else I2C_CON_EN OR I2C_CON_LASTACK)"
  have n: "n \<le> ?l" "0 < n" "n \<le> 32"
    using assms(3) by (auto simp: n_def)
  let ?w = "I2C_CON_EN OR I2C_CON_START OR (Con OR I2C_CON_MOD I2C_MODE_TRX) OR ucast (Config c)"
  let ?G = "dev_get n (dev s)"
  let ?s1 = "s\<lparr>con := ?w, addressing := True, evt := evt s + 1\<rparr>"
  let ?s = "?s1\<lparr>addressing := False, rxd := (\<lambda>i. pack (drop (4 * i) ?G)), dev := dev_skip n (dev s)\<rparr>"
  have start: "I2cStartEnable sim_env c (Con OR I2C_CON_MOD I2C_MODE_TRX) I2C_TIMEOUT_US s = (?s1, EFI_SUCCESS)"
    using start_sim [OF assms(1), of c "Con OR I2C_CON_MOD I2C_MODE_TRX"] .
  have rc: "receive n ?s1 = sched I2C_MBRFIPD ?s"
    using assms(5) by (simp add: receive_def give_def2)
  have "sim_ok ?s"
    using assms(1) by (simp add: sim_ok_def)
  then obtain T' where T': "wait_loop sim_env I2C_MBRFIPD I2C_TIMEOUT_US (sched I2C_MBRFIPD ?s) = (?s\<lparr>evt := evt ?s + 1\<rparr>, Some (int T'))" "90000 \<le> T'"
    using wait_sim [of ?s I2C_MBRFIPD I2C_TIMEOUT_US] by (auto simp: I2C_TIMEOUT_US_def)
  have drain: "drain_words sim_env n [0..<word_count n] (?s\<lparr>evt := evt ?s + 1\<rparr>) = (?s\<lparr>evt := evt ?s + 1\<rparr>, ?G)"
    by (subst drain_sim [where G = ?G]) simp_all
  have u: "unat (of_nat n :: u32) = n"
    using n(3) by (simp add: unat_of_nat)
  have "(if RK_I2C_FIFO_SIZE < ?l then (I2C_CON_EN, 32) else (I2C_CON_EN OR I2C_CON_LASTACK, ?l)) = (Con, n)"
    by (simp add: Con_def n_def RK_I2C_FIFO_SIZE_def)
  then have step: "read_chunks sim_env c Buf [] ?l False I2C_TIMEOUT_US 0 s =
      read_chunks sim_env c Buf ?G (?l - n) True T' n (?s\<lparr>evt := evt ?s + 1\<rparr>)"
    using assms(3) start rc T' drain u
    by (subst read_chunks.simps) simp
  have "\<exists>x w e. read_chunks sim_env c Buf ?G (?l - n) True T' n (?s\<lparr>evt := evt ?s + 1\<rparr>) =
    (?s\<lparr>evt := evt ?s + 1\<rparr>\<lparr>rxd := x, con := w, evt := e, dev := dev_skip (?l - n) (dev (?s\<lparr>evt := evt ?s + 1\<rparr>))\<rparr>,
     ?G @ dev_get (?l - n) (dev (?s\<lparr>evt := evt ?s + 1\<rparr>)), ?l, EFI_SUCCESS)"
    using assms n \<open>sim_ok ?s\<close> T'(2) by (intro read_rest [where m = 8]) (auto simp: sim_ok_def n_def)
  moreover have "?G @ dev_get (?l - n) (dev_skip n (dev s)) = dev_get ?l (dev s)"
    using n(1) dev_get_add [of n "?l - n" "dev s"] by simp
  ultimately show ?thesis
    using n(1) unfolding step by (simp add: dev_skip_add)
qed

lemma mrxaddr_word: "ucast (I2C_MRXADDR_SET 1 (push_bit 1 (ucast (a :: 7 word)) OR 1)) = (push_bit 24 1 OR push_bit 1 (ucast a) OR 1 :: u32)"
  unfolding I2C_MRXADDR_SET_def ucast_push_ucast(2) [symmetric, OF order.refl]
  by (simp add: unsigned_or_eq)

lemma read_operation_sim:
  assumes "sim_ok s" "config_ok c" "0 < length Buf" "length Buf < 255" "dev_addr s = a"
  shows "\<exists>m x w e. I2cReadOperation sim_env c (ucast a) Buf b s =
    (s\<lparr>mrxaddr := m, rxd := x, con := w, evt := e, addressing := False,
       dev := dev_skip (length Buf) (dev s)\<rparr>, dev_get (length Buf) (dev s), length Buf, EFI_SUCCESS)"
proof -
  let ?A = "push_bit 24 1 OR push_bit 1 (ucast a) OR 1 :: u32"
  define s1 where "s1 = (if b then sim_wr s I2C_CON 0 else s)\<lparr>mrxaddr := ?A\<rparr>"
  have s1: "s1 = s\<lparr>mrxaddr := ?A, con := con s1, addressing := addressing s1\<rparr>"
    using assms(1) by (simp add: s1_def sim_ok_def)
  have "sim_ok s1"
    using assms(1) by (simp add: s1_def sim_ok_def)
  moreover have "mrxaddr s1 = push_bit 24 1 OR push_bit 1 (ucast (dev_addr s1)) OR 1"
    using assms(5) by (simp add: s1_def)
  ultimately obtain x w e where r: "read_chunks sim_env c Buf [] (length Buf) False I2C_TIMEOUT_US 0 s1 =
      (s1\<lparr>addressing := False, rxd := x, con := w, evt := e, dev := dev_skip (length Buf) (dev s1)\<rparr>,
       dev_get (length Buf) (dev s1), length Buf, EFI_SUCCESS)"
    using read_first [OF _ assms(2,3,4)] by blast
  have "length Buf mod 2 ^ 32 = length Buf"
    using assms(4) by simp
  then have "I2cReadOperation sim_env c (ucast a) Buf b s = read_chunks sim_env c Buf [] (length Buf) False I2C_TIMEOUT_US 0 s1"
    unfolding I2cReadOperation_def s1_def Let_def mrxaddr_word by simp
  moreover have "dev s1 = dev s"
    by (subst s1) simp
  moreover have "s1\<lparr>addressing := False, rxd := x, con := w, evt := e, dev := dev_skip (length Buf) (dev s)\<rparr> =
      s\<lparr>mrxaddr := ?A, rxd := x, con := w, evt := e, addressing := False, dev := dev_skip (length Buf) (dev s)\<rparr>"
    by (subst s1) simp
  ultimately show ?thesis
    using r by auto
qed

section \<open>Requests\<close>

text \<open>
  A request as the device drivers issue it: with an event and a status to fill in, as the I2C host
  of the firmware does it, or without, as the clock library does it.
\<close>

definition master_queue :: "'h i2c_env \<Rightarrow> I2C_MASTER_CONTEXT \<Rightarrow> u64 \<Rightarrow> bool \<Rightarrow> 'h i2c_queue" where
  "master_queue E c A hosted ops s =
     (let (s, ops, st, ret) = I2cStartRequest E c A ops hosted (if hosted then Some (Error EFI_NOT_READY) else None) s
      in (s, map fst ops, if EFI_ERROR ret then ret else (case st of Some x \<Rightarrow> x | None \<Rightarrow> ret)))"

definition bus_idle :: "I2C_MASTER_CONTEXT \<Rightarrow> 7 word \<Rightarrow> bool \<Rightarrow> i2c_sim \<Rightarrow> bool" where
  "bus_idle c a hosted s \<longleftrightarrow> sim_ok s \<and> config_ok c \<and> dev_addr s = a \<and> \<not> want_ptr (dev s) \<and> \<not> (hosted \<and> runtime s)"

definition sim_regs :: "i2c_sim \<Rightarrow> u8 \<Rightarrow> u8" where
  "sim_regs s = dev_regs (dev s)"

lemma dev_put_regs:
  "\<not> want_ptr d \<Longrightarrow> dev_put bs d = d\<lparr>dev_ptr := dev_ptr d + of_nat (length bs), dev_regs := put_regs (dev_ptr d) bs (dev_regs d)\<rparr>"
  by (induction bs d rule: dev_put.induct) (simp_all add: add.assoc)

lemma request_sim:
  assumes "bus_idle c a hosted s"
    "\<And>s0 t0. s0 = (if runtime s then s else s\<lparr>tpl := t0\<rparr>) \<Longrightarrow>
       \<exists>m x t w e. run_operations sim_env c (ucast a) 0 ops s0 =
         (s0\<lparr>mrxaddr := m, rxd := x, addressing := False, txd := t, con := w, evt := e, dev := d\<rparr>, out, EFI_SUCCESS)"
    "length ops \<le> 2" "\<not> (length ops = 2 \<and> is_read (hd ops))"
  shows "\<exists>m x t w e. master_queue sim_env c (ucast a) hosted ops s =
    (s\<lparr>mrxaddr := m, rxd := x, addressing := False, txd := t, con := w, evt := e, dev := d\<rparr>, map fst out, EFI_SUCCESS)"
proof -
  let ?s0 = "if runtime s then s else s\<lparr>tpl := TPL_HIGH_LEVEL\<rparr>"
  obtain m x t w e where r: "run_operations sim_env c (ucast a) 0 ops ?s0 =
      (?s0\<lparr>mrxaddr := m, rxd := x, addressing := False, txd := t, con := w, evt := e, dev := d\<rparr>, out, EFI_SUCCESS)"
    using assms(2) [OF refl, of TPL_HIGH_LEVEL] by blast
  let ?s1 = "?s0\<lparr>mrxaddr := m, rxd := x, addressing := False, txd := t, con := w, evt := e, dev := d\<rparr>"
  have "sim_ok ?s1"
    using assms(1) by (simp add: bus_idle_def sim_ok_def)
  then have "I2cDisable sim_env (fst (I2cStop sim_env c ?s1)) = ?s1\<lparr>con := 0, addressing := False, evt := evt ?s1 + 1\<rparr>"
    using assms(1) by (intro stop_disable_sim) (simp_all add: bus_idle_def config_ok_def)
  then have "master_queue sim_env c (ucast a) hosted ops s =
      (s\<lparr>mrxaddr := m, rxd := x, addressing := False, txd := t, con := 0, evt := e + 1, dev := d\<rparr>, map fst out, EFI_SUCCESS)"
    using r assms(1,3,4)
    by (cases "runtime s"; cases "I2cStop sim_env c ?s1")
      (auto simp: master_queue_def I2cStartRequest_def bus_idle_def)
  then show ?thesis
    by blast
qed

text \<open>A write of a register number and bytes.\<close>

lemma run_write_sim:
  assumes "sim_ok s" "config_ok c" "length bs < 254" "dev_addr s = a"
  shows "\<exists>m x t w e. run_operations sim_env c (ucast a) i [I2cWr (r # bs)] s =
    (s\<lparr>mrxaddr := m, rxd := x, addressing := False, txd := t, con := w, evt := e, dev := dev_put (r # bs) (dev s\<lparr>want_ptr := True\<rparr>)\<rparr>,
     [(I2cWr (r # bs), Suc (length bs))], EFI_SUCCESS)"
proof -
  obtain t w e where "I2cWriteOperation sim_env c (ucast a) (r # bs) s =
      (s\<lparr>addressing := False, txd := t, con := w, evt := e, dev := dev_put (r # bs) (dev s\<lparr>want_ptr := True\<rparr>)\<rparr>, Suc (length bs), EFI_SUCCESS)"
    using write_operation_sim [OF assms(1,2) _ assms(4), of "r # bs"] assms(3) by auto
  then have "run_operations sim_env c (ucast a) i [I2cWr (r # bs)] s =
      (s\<lparr>mrxaddr := mrxaddr s, rxd := rxd s, addressing := False, txd := t, con := w, evt := e, dev := dev_put (r # bs) (dev s\<lparr>want_ptr := True\<rparr>)\<rparr>,
       [(I2cWr (r # bs), Suc (length bs))], EFI_SUCCESS)"
    by simp
  then show ?thesis
    by blast
qed

text \<open>A write of a register number, then a read.\<close>

lemma run_read_sim:
  assumes "sim_ok s" "config_ok c" "0 < length buf" "length buf < 254" "dev_addr s = a"
  shows "\<exists>m x t w e. run_operations sim_env c (ucast a) 0 [I2cWr [r], I2cRd buf] s =
    (s\<lparr>mrxaddr := m, rxd := x, addressing := False, txd := t, con := w, evt := e,
       dev := dev_skip (length buf) (dev s\<lparr>dev_ptr := r, want_ptr := False\<rparr>)\<rparr>,
     [(I2cWr [r], 1), (I2cRd (get_regs r (length buf) (dev_regs (dev s))), length buf)], EFI_SUCCESS)"
proof -
  let ?d = "dev s\<lparr>dev_ptr := r, want_ptr := False\<rparr>"
  obtain t w e where wr: "I2cWriteOperation sim_env c (ucast a) [r] s =
      (s\<lparr>addressing := False, txd := t, con := w, evt := e, dev := ?d\<rparr>, 1, EFI_SUCCESS)"
    using write_operation_sim [OF assms(1,2) _ assms(5), of "[r]"] by auto
  let ?s = "s\<lparr>addressing := False, txd := t, con := w, evt := e, dev := ?d\<rparr>"
  have "sim_ok ?s"
    using assms(1) by (simp add: sim_ok_def)
  then obtain m x w' e' where "I2cReadOperation sim_env c (ucast a) buf True ?s =
      (?s\<lparr>mrxaddr := m, rxd := x, con := w', evt := e', addressing := False, dev := dev_skip (length buf) ?d\<rparr>,
       get_regs r (length buf) (dev_regs (dev s)), length buf, EFI_SUCCESS)"
    using read_operation_sim [of ?s c buf a True] assms by (auto simp: dev_get_def)
  then have "run_operations sim_env c (ucast a) 0 [I2cWr [r], I2cRd buf] s =
      (s\<lparr>mrxaddr := m, rxd := x, addressing := False, txd := t, con := w', evt := e', dev := dev_skip (length buf) ?d\<rparr>,
       [(I2cWr [r], 1), (I2cRd (get_regs r (length buf) (dev_regs (dev s))), length buf)], EFI_SUCCESS)"
    using wr by simp
  then show ?thesis
    by blast
qed

interpretation i2c: i2c_registers "master_queue sim_env c (ucast a) hosted" sim_regs "bus_idle c a hosted" 254
proof
  fix s r and bs :: "u8 list"
  assume s: "bus_idle c a hosted s" and bs: "length bs < 254"
  let ?d = "dev_put (r # bs) (dev s\<lparr>want_ptr := True\<rparr>)"
  have "\<exists>m x t w e. master_queue sim_env c (ucast a) hosted [I2cWr (r # bs)] s =
      (s\<lparr>mrxaddr := m, rxd := x, addressing := False, txd := t, con := w, evt := e, dev := ?d\<rparr>,
       map fst [(I2cWr (r # bs), Suc (length bs))], EFI_SUCCESS)"
  proof (rule request_sim [OF s])
    fix s0 t0
    assume s0: "s0 = (if runtime s then s else s\<lparr>tpl := t0\<rparr>)"
    then have "sim_ok s0" "config_ok c" "dev_addr s0 = a" "dev s0 = dev s"
      using s by (simp_all add: bus_idle_def sim_ok_def)
    then show "\<exists>m x t w e. run_operations sim_env c (ucast a) 0 [I2cWr (r # bs)] s0 =
        (s0\<lparr>mrxaddr := m, rxd := x, addressing := False, txd := t, con := w, evt := e, dev := ?d\<rparr>,
         [(I2cWr (r # bs), Suc (length bs))], EFI_SUCCESS)"
      using run_write_sim [of s0 c bs a 0 r] bs by simp
  qed simp_all
  then obtain m x t w e where "master_queue sim_env c (ucast a) hosted [I2cWr (r # bs)] s =
      (s\<lparr>mrxaddr := m, rxd := x, addressing := False, txd := t, con := w, evt := e, dev := ?d\<rparr>, [I2cWr (r # bs)], EFI_SUCCESS)"
    by auto
  then show "\<exists>s'. master_queue sim_env c (ucast a) hosted [I2cWr (r # bs)] s = (s', [I2cWr (r # bs)], EFI_SUCCESS) \<and>
      bus_idle c a hosted s' \<and> sim_regs s' = put_regs r bs (sim_regs s)"
    using s by (auto simp: bus_idle_def sim_ok_def sim_regs_def dev_put_regs)
next
  fix s r and buf :: "u8 list"
  assume s: "bus_idle c a hosted s" and buf: "0 < length buf" "length buf < 254"
  let ?d = "dev_skip (length buf) (dev s\<lparr>dev_ptr := r, want_ptr := False\<rparr>)"
  let ?out = "[(I2cWr [r], 1), (I2cRd (get_regs r (length buf) (dev_regs (dev s))), length buf)]"
  have "\<exists>m x t w e. master_queue sim_env c (ucast a) hosted [I2cWr [r], I2cRd buf] s =
      (s\<lparr>mrxaddr := m, rxd := x, addressing := False, txd := t, con := w, evt := e, dev := ?d\<rparr>, map fst ?out, EFI_SUCCESS)"
  proof (rule request_sim [OF s])
    fix s0 t0
    assume s0: "s0 = (if runtime s then s else s\<lparr>tpl := t0\<rparr>)"
    then have "sim_ok s0" "config_ok c" "dev_addr s0 = a" "dev s0 = dev s"
      using s by (simp_all add: bus_idle_def sim_ok_def)
    then show "\<exists>m x t w e. run_operations sim_env c (ucast a) 0 [I2cWr [r], I2cRd buf] s0 =
        (s0\<lparr>mrxaddr := m, rxd := x, addressing := False, txd := t, con := w, evt := e, dev := ?d\<rparr>, ?out, EFI_SUCCESS)"
      using run_read_sim [of s0 c buf a r] buf by simp
  qed simp_all
  then obtain m x t w e where "master_queue sim_env c (ucast a) hosted [I2cWr [r], I2cRd buf] s =
      (s\<lparr>mrxaddr := m, rxd := x, addressing := False, txd := t, con := w, evt := e, dev := ?d\<rparr>, map fst ?out, EFI_SUCCESS)"
    by auto
  then show "\<exists>s'. master_queue sim_env c (ucast a) hosted [I2cWr [r], I2cRd buf] s =
      (s', [I2cWr [r], I2cRd (get_regs r (length buf) (sim_regs s))], EFI_SUCCESS) \<and> bus_idle c a hosted s' \<and> sim_regs s' = sim_regs s"
    using s by (auto simp: bus_idle_def sim_ok_def sim_regs_def dev_skip_def)
qed

end
