(* ===== verification/I2cProps.thy ===== *)
theory I2cProps
  imports I2cSim
begin

text \<open>
  What the I2C drivers do together: the clock, the port expander and the regulators over the
  controller driver and the simulated controller, the errors that the controller driver swallows,
  the clock dividers, and the enumeration of the devices.
\<close>

section \<open>A device that does not answer\<close>

lemma wait_nak_sim:
  assumes "sim_ok s" "fin = I2C_MBTFIPD \<or> fin = I2C_MBRFIPD"
  shows "wait_loop sim_env fin I2C_TIMEOUT_US (sched I2C_NAKRCVIPD s) = (s\<lparr>evt := evt s + 1\<rparr>, None)"
proof -
  have l: "lat s (evt s) < 10000"
    using assms(1) by (simp add: sim_ok_def)
  have "wait_loop sim_env fin I2C_TIMEOUT_US (sched I2C_NAKRCVIPD s) = (sched I2C_NAKRCVIPD s\<lparr>pend := None\<rparr>, None)"
    using assms l by (intro wait_poll_nak) (auto simp: sched_def sim_ok_def I2C_TIMEOUT_US_def intro: less_trans)
  moreover have "sched I2C_NAKRCVIPD s\<lparr>pend := None\<rparr> = s\<lparr>evt := evt s + 1\<rparr>"
    using assms(1) by (simp add: sched_def sim_ok_def)
  ultimately show ?thesis
    by simp
qed

lemma addr_byte_inj: "addr_byte a = addr_byte b \<longleftrightarrow> a = b"
proof
  assume eq: "addr_byte a = addr_byte b"
  have b: "bit (push_bit k (ucast x) :: u8) (k + n) \<longleftrightarrow> bit (x :: 7 word) n" if "n < 7" "k \<le> 1" for k n x
    using that by (auto simp: bit_simps)
  show "a = b"
  proof (rule bit_word_eqI)
    fix n
    assume "n < LENGTH(7)"
    then show "bit a n = bit b n"
      using eq b [of n 1 a] b [of n 1 b] unfolding addr_byte_def by simp
  qed
qed simp

lemma write_nak_sim:
  assumes "sim_ok s" "length Buf < 32" "dev_addr s \<noteq> a"
  shows "\<exists>t w. I2cWriteOperation sim_env c (ucast a) Buf s =
    (s\<lparr>addressing := False, txd := t, con := w, evt := evt s + 2\<rparr>, 0, Error EFI_NO_RESPONSE)"
proof -
  let ?n = "Suc (length Buf)" and ?P = "addr_byte a # Buf"
  let ?t = "fifo (take ?n ?P) 0 (word_count ?n) (txd s)"
  let ?w = "I2C_CON_EN OR I2C_CON_START OR (I2C_CON_EN OR I2C_CON_MOD I2C_MODE_TX) OR ucast (Config c)"
  let ?s1 = "s\<lparr>txd := ?t, con := ?w, addressing := True, evt := evt s + 1\<rparr>"
  have fill: "fill_words sim_env True (ucast a) ?n [0..<word_count ?n] Buf s = (s\<lparr>txd := ?t\<rparr>, [])"
    using fill_words_addr [of ?n sim_env a Buf s] fill_words_plain [of ?n 0 ?P "ucast a" s] by simp
  have start: "I2cStartEnable sim_env c (I2C_CON_EN OR I2C_CON_MOD I2C_MODE_TX) I2C_TIMEOUT_US (s\<lparr>txd := ?t\<rparr>) = (?s1, EFI_SUCCESS)"
    using start_sim [of "s\<lparr>txd := ?t\<rparr>" c "I2C_CON_EN OR I2C_CON_MOD I2C_MODE_TX"] assms(1) by (simp add: sim_ok_def)
  have "tx_bytes ?n ?t = ?P"
    using tx_bytes_fifo [of ?n ?P "txd s"] by simp
  then have mt: "transmit ?n ?s1 = sched I2C_NAKRCVIPD (?s1\<lparr>addressing := False\<rparr>)"
    using assms(3) addr_byte_inj [of a "dev_addr s"] by (auto simp: transmit_def addr_byte_def)
  have wait: "wait_loop sim_env I2C_MBTFIPD I2C_TIMEOUT_US (sched I2C_NAKRCVIPD (?s1\<lparr>addressing := False\<rparr>)) =
      (?s1\<lparr>addressing := False\<rparr>\<lparr>evt := evt (?s1\<lparr>addressing := False\<rparr>) + 1\<rparr>, None)"
    using assms(1) by (intro wait_nak_sim) (simp_all add: sim_ok_def)
  have u: "unat (of_nat ?n :: u32) = ?n" "(length Buf + 1) mod 2 ^ 32 = ?n"
    using assms(2) by (simp_all add: unat_of_nat del: of_nat_Suc)
  have nn: "(if RK_I2C_FIFO_SIZE < ?n then 32 else ?n) = ?n"
    using assms(2) by (simp add: RK_I2C_FIFO_SIZE_def)
  have "I2cWriteOperation sim_env c (ucast a) Buf s =
      (s\<lparr>addressing := False, txd := ?t, con := ?w, evt := evt s + 2\<rparr>, 0, Error EFI_NO_RESPONSE)"
    using fill start mt wait u(1) unfolding I2cWriteOperation_def u(2)
    by (subst write_chunks.simps, subst nn) simp
  then show ?thesis
    by blast
qed

text \<open>A request to an address that nobody answers: the write ends without an acknowledgement and the rest is not tried.\<close>

lemma request_nak_sim:
  assumes "sim_ok s" "config_ok c" "dev_addr s \<noteq> a" "length bs < 32" "length rest \<le> 1"
  shows "\<exists>s1 s'. run_operations sim_env c (ucast a) 0 (I2cWr bs # rest) (if runtime s then s else s\<lparr>tpl := TPL_HIGH_LEVEL\<rparr>) =
      (s1, (I2cWr bs, 0) # map (\<lambda>op. (op, op_length op)) rest, Error EFI_NO_RESPONSE) \<and>
    I2cStartRequest sim_env c (ucast a) (I2cWr bs # rest) False None s =
      (s', (I2cWr bs, 0) # map (\<lambda>op. (op, op_length op)) rest, None, EFI_SUCCESS) \<and>
    con s' = 0 \<and> \<not> addressing s' \<and> sim_ok s' \<and> dev s' = dev s \<and> dev_addr s' = dev_addr s \<and> tpl s' = tpl s"
proof -
  let ?s0 = "if runtime s then s else s\<lparr>tpl := TPL_HIGH_LEVEL\<rparr>"
  have "sim_ok ?s0" "dev_addr ?s0 \<noteq> a"
    using assms(1,3) by (simp_all add: sim_ok_def)
  then obtain t w where r: "I2cWriteOperation sim_env c (ucast a) bs ?s0 =
      (?s0\<lparr>addressing := False, txd := t, con := w, evt := evt ?s0 + 2\<rparr>, 0, Error EFI_NO_RESPONSE)"
    using write_nak_sim [OF _ assms(4), of ?s0 a c] by blast
  let ?s1 = "?s0\<lparr>addressing := False, txd := t, con := w, evt := evt ?s0 + 2\<rparr>"
  have ops: "run_operations sim_env c (ucast a) 0 (I2cWr bs # rest) ?s0 =
      (?s1, (I2cWr bs, 0) # map (\<lambda>op. (op, op_length op)) rest, Error EFI_NO_RESPONSE)"
    using r by simp
  have "sim_ok ?s1"
    using assms(1) by (simp add: sim_ok_def)
  then have "I2cDisable sim_env (fst (I2cStop sim_env c ?s1)) = ?s1\<lparr>con := 0, addressing := False, evt := evt ?s1 + 1\<rparr>"
    using assms(2) by (intro stop_disable_sim) (simp_all add: config_ok_def)
  then have "I2cStartRequest sim_env c (ucast a) (I2cWr bs # rest) False None s =
      (s\<lparr>addressing := False, txd := t, con := 0, evt := evt s + 3\<rparr>,
       (I2cWr bs, 0) # map (\<lambda>op. (op, op_length op)) rest, None, EFI_SUCCESS)"
    using r assms(5)
    by (cases "runtime s"; cases "I2cStop sim_env c ?s1") (auto simp: I2cStartRequest_def)
  then show ?thesis
    using assms(1) ops by (auto simp: sim_ok_def)
qed

text \<open>What \<open>LibGetTime\<close> makes of seven bytes: \<open>built\<close> when they say that the clock has stopped.\<close>

definition time_of_bytes :: "bcd_lib \<Rightarrow> EFI_TIME \<Rightarrow> EFI_TIME \<Rightarrow> u8 list \<Rightarrow> EFI_TIME run" where
  "time_of_bytes B built t bs =
     (if bs ! 0 AND PCF8563_CLOCK_INVALID \<noteq> 0 then Some built
      else do {
        sec \<leftarrow> BcdToDecimal8 B (bs ! 0 AND PCF8563_SECONDS_MASK);
        mins \<leftarrow> BcdToDecimal8 B (bs ! 1 AND PCF8563_MINUTES_MASK);
        hour \<leftarrow> BcdToDecimal8 B (bs ! 2 AND PCF8563_HOURS_MASK);
        day \<leftarrow> BcdToDecimal8 B (bs ! 3 AND PCF8563_DAYS_MASK);
        month \<leftarrow> BcdToDecimal8 B (bs ! 5 AND PCF8563_MONTHS_MASK);
        year \<leftarrow> BcdToDecimal8 B (bs ! 6);
        Some (t\<lparr>Nanosecond := 0, Second := sec, Minute := mins, Hour := hour, Day := day, Month := month,
          Year := ucast year + EPOCH_BASE + (if bs ! 5 AND PCF8563_CENTURY_MASK \<noteq> 0 then 100 else 0)\<rparr>)
      })"

lemma master_queue_start:
  "I2cStartRequest E c A ops False None s = (s', ops', None, EFI_SUCCESS) \<Longrightarrow>
    master_queue E c A False ops s = (s', map fst ops', EFI_SUCCESS)"
  by (simp add: master_queue_def)

text \<open>Setting an absent clock: success, and the bytes are lost.\<close>

lemma set_time_absent:
  assumes "sim_ok s" "config_ok c" "dev_addr s \<noteq> a" "bcd_ok B" "settable t"
  shows "\<exists>s'. LibSetTime B (master_queue sim_env c (ucast a) False) True t s = Some (s', EFI_SUCCESS) \<and>
    con s' = 0 \<and> \<not> addressing s' \<and> dev s' = dev s \<and> tpl s' = tpl s"
proof -
  obtain s' where s': "I2cStartRequest sim_env c (ucast a) [I2cWr (PCF8563_DATA_REG_OFFSET # datetime_bytes (clock_time t))] False None s =
      (s', [(I2cWr (PCF8563_DATA_REG_OFFSET # datetime_bytes (clock_time t)), 0)], None, EFI_SUCCESS)"
    "con s' = 0" "\<not> addressing s'" "dev s' = dev s" "tpl s' = tpl s"
    using request_nak_sim [OF assms(1-3), of "PCF8563_DATA_REG_OFFSET # datetime_bytes (clock_time t)" "[]"]
    by (auto simp: datetime_bytes_def)
  then show ?thesis
    using LibSetTime_queue [where queue = "master_queue sim_env c (ucast a) False", OF assms(4,5) master_queue_start [OF s'(1)]] by auto
qed

text \<open>
  C33: Reading the clock at an address that no device acknowledges. The first operation of the request
  ends with EFI_NO_RESPONSE and transfers nothing, the second is not tried, and the controller is
  stopped and disabled; but I2cStartRequest returns EFI_SUCCESS. So does LibGetTime, whatever seven
  bytes its uninitialised local variable held: the time it reports is the decoding of those bytes
  (or the build time, when they say that the clock has stopped), and it returns nothing only where the
  BCD library refuses one of them. The device on the bus is not touched. The BCD library converts
  numbers below one hundred as documented, and the build time is one the clock can hold.
\<close>

theorem rtc_absent_is_success:
  assumes "sim_ok s" "config_ok c" "dev_addr s \<noteq> a" "bcd_ok B" "settable built" "length stack = 7"
  shows "\<exists>s1 s2 s3. run_operations sim_env c (ucast a) 0 [I2cWr [PCF8563_DATA_REG_OFFSET], I2cRd stack]
        (if runtime s then s else s\<lparr>tpl := TPL_HIGH_LEVEL\<rparr>) =
      (s1, [(I2cWr [PCF8563_DATA_REG_OFFSET], 0), (I2cRd stack, 7)], Error EFI_NO_RESPONSE) \<and>
    I2cStartRequest sim_env c (ucast a) [I2cWr [PCF8563_DATA_REG_OFFSET], I2cRd stack] False None s =
      (s2, [(I2cWr [PCF8563_DATA_REG_OFFSET], 0), (I2cRd stack, 7)], None, EFI_SUCCESS) \<and>
    con s2 = 0 \<and> \<not> addressing s2 \<and> dev s2 = dev s \<and>
    LibGetTime B built (master_queue sim_env c (ucast a) False) True stack (Some t0) caps s =
      (case time_of_bytes B built t0 stack of
         None \<Rightarrow> None
       | Some t \<Rightarrow> Some (s3, Some t,
           if caps then Some \<lparr>Resolution = 1, Accuracy = 0, SetsToZero = True\<rparr> else None, EFI_SUCCESS)) \<and>
    con s3 = 0 \<and> \<not> addressing s3 \<and> dev s3 = dev s \<and> tpl s3 = tpl s"
proof -
  let ?ops = "[I2cWr [PCF8563_DATA_REG_OFFSET], I2cRd stack]" and ?q = "master_queue sim_env c (ucast a) False"
  obtain s1 s2 where r: "run_operations sim_env c (ucast a) 0 ?ops (if runtime s then s else s\<lparr>tpl := TPL_HIGH_LEVEL\<rparr>) =
      (s1, [(I2cWr [PCF8563_DATA_REG_OFFSET], 0), (I2cRd stack, 7)], Error EFI_NO_RESPONSE)"
    "I2cStartRequest sim_env c (ucast a) ?ops False None s =
      (s2, [(I2cWr [PCF8563_DATA_REG_OFFSET], 0), (I2cRd stack, 7)], None, EFI_SUCCESS)"
    "con s2 = 0" "\<not> addressing s2" "sim_ok s2" "dev s2 = dev s" "dev_addr s2 = dev_addr s" "tpl s2 = tpl s"
    using request_nak_sim [OF assms(1-3), of "[PCF8563_DATA_REG_OFFSET]" "[I2cRd stack]"] assms(6) by auto
  obtain s4 where s4: "LibSetTime B ?q True built s2 = Some (s4, EFI_SUCCESS)"
    "con s4 = 0" "\<not> addressing s4" "dev s4 = dev s2" "tpl s4 = tpl s2"
    using set_time_absent [OF r(5) assms(2) _ assms(4,5)] assms(3) r(7) by metis
  have q: "?q ?ops s = (s2, ?ops, EFI_SUCCESS)"
    using master_queue_start [OF r(2)] by simp
  let ?s3 = "if stack ! 0 AND PCF8563_CLOCK_INVALID \<noteq> 0 then s4 else s2"
  have "LibGetTime B built ?q True stack (Some t0) caps s =
      (case time_of_bytes B built t0 stack of
         None \<Rightarrow> None
       | Some t \<Rightarrow> Some (?s3, Some t,
           if caps then Some \<lparr>Resolution = 1, Accuracy = 0, SetsToZero = True\<rparr> else None, EFI_SUCCESS))"
    using q s4(1)
    by (auto simp: LibGetTime_def time_of_bytes_def datetime_of_def read_buffer_def Let_def split: bind_splits option.splits)
  then show ?thesis
    using r s4 by (intro exI [of _ s1] exI [of _ s2] exI [of _ ?s3]) simp
qed

text \<open>The simulated controller at rest, a standard BCD library and a time, for the witnesses.\<close>

definition bus0 :: i2c_sim where
  "bus0 = \<lparr>con = 0, ipd = 0, mrxaddr = 0, txd = (\<lambda>_. 0), rxd = (\<lambda>_. 0), pend = None, evt = 0, lat = (\<lambda>_. 5), addressing = False,
     dev_addr = 0x51, dev = \<lparr>want_ptr = False, dev_ptr = 0, dev_regs = (\<lambda>_. 0)\<rparr>, tpl = 4, runtime = False\<rparr>"

definition ctx0 :: I2C_MASTER_CONTEXT where
  "ctx0 = \<lparr>Config = 0x1100, Bus = 2, RuntimeSupport = False\<rparr>"

definition bcd0 :: bcd_lib where
  "bcd0 = \<lparr>BcdToDecimal8 = (\<lambda>b. Some (b div 16 * 10 + b mod 16)), DecimalToBcd8 = (\<lambda>v. Some (bcd v))\<rparr>"

definition time0 :: EFI_TIME where
  "time0 = \<lparr>Year = 2024, Month = 2, Day = 29, Hour = 23, Minute = 59, Second = 58, Nanosecond = 7\<rparr>"

lemma sim_ok_bus0: "sim_ok bus0" "config_ok ctx0" "dev_addr bus0 = 0x51" "\<not> want_ptr (dev bus0)" "\<not> runtime bus0"
  by (simp_all add: bus0_def ctx0_def sim_ok_def config_ok_def bit_numeral_rec)

lemma bus_idle_bus0: "bus_idle ctx0 0x51 hosted bus0"
  by (simp add: bus_idle_def sim_ok_bus0)

lemma bcd_ok_bcd0: "bcd_ok bcd0"
proof -
  have "bcd v div 16 * 10 + bcd v mod 16 = v" if "v < 100" for v
  proof -
    have v: "unat v < 100"
      using that by (simp add: word_less_nat_alt)
    have "unat (bcd v div 16) = unat v div 10" "unat (bcd v mod 16) = unat v mod 10"
      using unat_bcd [OF that] v by (simp_all add: unat_div unat_mod)
    then have "unat (bcd v div 16 * 10 + bcd v mod 16) = unat v"
      using v by (simp add: unat_word_ariths)
    then show ?thesis
      by (simp add: word_unat_eq_iff)
  qed
  then show ?thesis
    by (simp add: bcd_ok_def bcd0_def)
qed

lemma settable_time0: "settable time0" "2000 \<le> Year time0"
  by (simp_all add: settable_def time0_def)

theorem rtc_absent_is_success_witness:
  "\<exists>s1 s2 s3. run_operations sim_env ctx0 (ucast (0x50 :: 7 word)) 0 [I2cWr [PCF8563_DATA_REG_OFFSET], I2cRd [1, 2, 3, 4, 5, 6, 7]]
        (bus0\<lparr>tpl := TPL_HIGH_LEVEL\<rparr>) =
      (s1, [(I2cWr [PCF8563_DATA_REG_OFFSET], 0), (I2cRd [1, 2, 3, 4, 5, 6, 7], 7)], Error EFI_NO_RESPONSE) \<and>
    I2cStartRequest sim_env ctx0 (ucast (0x50 :: 7 word)) [I2cWr [PCF8563_DATA_REG_OFFSET], I2cRd [1, 2, 3, 4, 5, 6, 7]] False None bus0 =
      (s2, [(I2cWr [PCF8563_DATA_REG_OFFSET], 0), (I2cRd [1, 2, 3, 4, 5, 6, 7], 7)], None, EFI_SUCCESS) \<and>
    LibGetTime bcd0 time0 (master_queue sim_env ctx0 (ucast (0x50 :: 7 word)) False) True [1, 2, 3, 4, 5, 6, 7] (Some time0) True bus0 =
      Some (s3, Some \<lparr>Year = 2007, Month = 6, Day = 4, Hour = 3, Minute = 2, Second = 1, Nanosecond = 0\<rparr>,
        Some \<lparr>Resolution = 1, Accuracy = 0, SetsToZero = True\<rparr>, EFI_SUCCESS)"
proof -
  have t: "time_of_bytes bcd0 time0 time0 [1, 2, 3, 4, 5, 6, 7] =
      Some \<lparr>Year = 2007, Month = 6, Day = 4, Hour = 3, Minute = 2, Second = 1, Nanosecond = 0\<rparr>"
    by (simp add: time_of_bytes_def bcd0_def time0_def pcf_defs)
  have "dev_addr bus0 \<noteq> 0x50" "length [1, 2, 3, 4, 5, 6, 7 :: u8] = 7"
    by (simp_all add: sim_ok_bus0)
  from rtc_absent_is_success [OF sim_ok_bus0(1,2) this(1) bcd_ok_bcd0 settable_time0(1) this(2), of time0 True]
  show ?thesis
    unfolding t using sim_ok_bus0(5) by auto
qed

section \<open>The clock\<close>

text \<open>
  C32: The time that \<open>LibSetTime\<close> writes through the controller to the clock is the time that
  \<open>LibGetTime\<close> reads back, up to the year, of which the clock keeps two digits and one century bit:
  years from 2000 to 2199 come back as they are, earlier years as years of the twenty-first century.
\<close>

theorem rtc_roundtrip:
  assumes "bus_idle c a False s" "bcd_ok B" "settable t" "length stack = 7"
  shows "\<exists>s1 s2. LibSetTime B (master_queue sim_env c (ucast a) False) True t s = Some (s1, EFI_SUCCESS) \<and>
    LibGetTime B built (master_queue sim_env c (ucast a) False) True stack (Some t0) caps s1 = Some (s2,
      Some \<lparr>Year = clock_year (Year t), Month = Month t, Day = Day t, Hour = Hour t, Minute = Minute t,
        Second = Second t, Nanosecond = 0\<rparr>,
      if caps then Some \<lparr>Resolution = 1, Accuracy = 0, SetsToZero = True\<rparr> else None, EFI_SUCCESS) \<and>
    bus_idle c a False s2 \<and> (2000 \<le> Year t \<longrightarrow> clock_year (Year t) = Year t)"
proof -
  obtain s1 where s1: "LibSetTime B (master_queue sim_env c (ucast a) False) True t s = Some (s1, EFI_SUCCESS)" "bus_idle c a False s1"
    "clock_holds (clock_time t) (sim_regs s1)"
    using i2c.set_time [OF assms(1) _ assms(2,3)] by auto
  have "2000 \<le> Year t \<longrightarrow> clock_year (Year t) = Year t"
    using assms(3) by (auto simp: settable_def intro: clock_year_id)
  then show ?thesis
    using s1 i2c.get_time [OF s1(2) _ assms(2-4) s1(3), of built t0 caps] by auto
qed

lemma rtc_roundtrip_witness:
  "\<exists>s1 s2. LibSetTime bcd0 (master_queue sim_env ctx0 (ucast (0x51 :: 7 word)) False) True time0 bus0 = Some (s1, EFI_SUCCESS) \<and>
    LibGetTime bcd0 time0 (master_queue sim_env ctx0 (ucast (0x51 :: 7 word)) False) True (replicate 7 0) (Some time0) True s1 = Some (s2,
      Some \<lparr>Year = clock_year (Year time0), Month = Month time0, Day = Day time0, Hour = Hour time0, Minute = Minute time0,
        Second = Second time0, Nanosecond = 0\<rparr>,
      if True then Some \<lparr>Resolution = 1, Accuracy = 0, SetsToZero = True\<rparr> else None, EFI_SUCCESS) \<and>
    bus_idle ctx0 0x51 False s2 \<and> (2000 \<le> Year time0 \<longrightarrow> clock_year (Year time0) = Year time0)"
  by (rule rtc_roundtrip [OF bus_idle_bus0 bcd_ok_bcd0 settable_time0(1)]) simp


section \<open>The port expander\<close>

text \<open>
  C34: Setting the mode of a pin of the port expander through the controller and reading it back
  gives the mode, and the modes of the fifteen other pins are what they were.
\<close>

theorem pca_roundtrip:
  assumes "bus_idle c a True s" "pca_found E p k" "g mod 65536 = pin" "pin < 16" "mode \<noteq> GPIO_MODE_OTHER"
  shows "\<exists>s1 s2. Pca9555Set E (\<lambda>_. master_queue sim_env c (ucast a) True) (Some p) g mode s = Some (s1, EFI_SUCCESS) \<and>
    Pca9555GetMode E (\<lambda>_. master_queue sim_env c (ucast a) True) (Some p) g s1 = Some (s2, Inr mode) \<and> bus_idle c a True s2 \<and>
    (\<forall>x < 16. x \<noteq> pin \<longrightarrow> pin_mode (sim_regs s2) x = pin_mode (sim_regs s) x)"
proof -
  let ?q = "\<lambda>_. master_queue sim_env c (ucast a) True"
  obtain s1 where s1: "Pca9555Set E ?q (Some p) g mode s = Some (s1, EFI_SUCCESS)" "bus_idle c a True s1"
    "\<forall>x < 16. pin_input (sim_regs s1) x = (if x = pin then mode = GPIO_MODE_INPUT else pin_input (sim_regs s) x) \<and>
       pin_out (sim_regs s1) x = (if x = pin \<and> mode \<noteq> GPIO_MODE_INPUT then mode = GPIO_MODE_OUTPUT_1 else pin_out (sim_regs s) x)"
    using i2c.pca_set [OF assms(1) _ assms(2) _ assms(3-5), where q = ?q] by auto
  obtain s2 where s2: "Pca9555GetMode E ?q (Some p) g s1 = Some (s2, Inr (pin_mode (sim_regs s1) pin))" "bus_idle c a True s2"
    "sim_regs s2 = sim_regs s1"
    using i2c.pca_get_mode [OF s1(2) _ assms(2) _ assms(3,4), where q = ?q] by auto
  have "pin_mode (sim_regs s1) pin = mode"
    using s1(3) assms(4,5) by (cases mode) (auto simp: pin_mode_def)
  then show ?thesis
    using s1 s2 by (auto simp: pin_mode_def)
qed

definition pca0 :: pca_env where
  "pca0 = \<lparr>pca_pool = True, pca_located = EFI_SUCCESS, pca_handles = [(EFI_SUCCESS, 7), (EFI_SUCCESS, 0x20021)], GPIO_PIN = (\<lambda>g. g mod 65536)\<rparr>"

definition pca_dev0 :: PCA9555_CONTEXT where
  "pca_dev0 = \<lparr>I2cAddress = 0x21, I2cBus = 2\<rparr>"

lemma pca_found0: "pca_found pca0 pca_dev0 1"
  by (simp add: pca_found_def pca0_def pca_dev0_def Pca9555GetI2c_def I2C_DEVICE_INDEX_def)

lemma pca_roundtrip_witness:
  "\<exists>s1 s2. Pca9555Set pca0 (\<lambda>_. master_queue sim_env ctx0 (ucast (0x51 :: 7 word)) True) (Some pca_dev0) 0x10009 GPIO_MODE_OUTPUT_1 bus0 = Some (s1, EFI_SUCCESS) \<and>
    Pca9555GetMode pca0 (\<lambda>_. master_queue sim_env ctx0 (ucast (0x51 :: 7 word)) True) (Some pca_dev0) 0x10009 s1 = Some (s2, Inr GPIO_MODE_OUTPUT_1) \<and>
    bus_idle ctx0 0x51 True s2 \<and> (\<forall>x < 16. x \<noteq> 9 \<longrightarrow> pin_mode (sim_regs s2) x = pin_mode (sim_regs bus0) x)"
  by (rule pca_roundtrip [OF bus_idle_bus0 pca_found0]) simp_all


section \<open>The regulators\<close>

text \<open>
  C35: A supported voltage that is set on a regulator through the controller is read back rounded
  down to the chip's step, and setting it leaves the bits outside the voltage field alone.
\<close>

theorem rk860x_voltage_roundtrip:
  assumes "bus_idle c a True s" "pools_ok A" "C = chip_00_01 \<or> C = chip_02_03" "VselMin C \<le> v" "v \<le> RK860X_MAX_VOLTAGE"
  shows "\<exists>s1 s2. Rk860xRegulatorSetVoltage A (master_queue sim_env c (ucast a) True) C v suspend stack s = (s1, EFI_SUCCESS) \<and>
    Rk860xRegulatorGetVoltage A (master_queue sim_env c (ucast a) True) C suspend stack s1 =
      (s2, Inr ((v - VselMin C) div VselStep C * VselStep C + VselMin C)) \<and>
    sim_regs s2 (if suspend then SleepReg C else VolReg C) AND NOT (VolMask C) =
      sim_regs s (if suspend then SleepReg C else VolReg C) AND NOT (VolMask C) \<and>
    (\<forall>r. r \<noteq> (if suspend then SleepReg C else VolReg C) \<longrightarrow> sim_regs s2 r = sim_regs s r)"
proof -
  let ?q = "master_queue sim_env c (ucast a) True" and ?r = "if suspend then SleepReg C else VolReg C"
  let ?k = "ucast ((v - VselMin C) div VselStep C) :: u8"
  obtain s1 where s1: "Rk860xRegulatorSetVoltage A ?q C v suspend stack s = (s1, EFI_SUCCESS)" "bus_idle c a True s1"
    "sim_regs s1 = (sim_regs s)(?r := (sim_regs s ?r AND NOT (VolMask C)) OR ?k)"
    using i2c.set_voltage_ok [OF assms(1) _ assms(2), of C v suspend stack] by (auto simp: Let_def)
  obtain s2 where s2: "Rk860xRegulatorGetVoltage A ?q C suspend stack s1 =
      (s2, Inr (ucast (sim_regs s1 ?r AND VolMask C) * VselStep C + VselMin C))" "sim_regs s2 = sim_regs s1"
    using i2c.get_voltage_ok [OF s1(2) _ assms(2), of C suspend stack] by auto
  note code = voltage_code [OF assms(3-5)]
  have "sim_regs s1 ?r AND VolMask C = ?k"
    using code(2) s1(3) by (simp add: bit.conj_disj_distrib2 and.assoc)
  moreover have "?k AND NOT (VolMask C) = 0"
    using code(2) by (metis and.assoc and.right_neutral bit.conj_cancel_right bit.conj_zero_right)
  then have "sim_regs s1 ?r AND NOT (VolMask C) = sim_regs s ?r AND NOT (VolMask C)"
    using s1(3) by (simp add: bit.conj_disj_distrib2 and.assoc)
  ultimately show ?thesis
    using s1 s2 code(3) by auto
qed

lemma rk860x_voltage_roundtrip_witness:
  "\<exists>s1 s2. Rk860xRegulatorSetVoltage \<lparr>pool = True, data = True\<rparr> (master_queue sim_env ctx0 (ucast (0x51 :: 7 word)) True) chip_00_01 850000 False 0 bus0 = (s1, EFI_SUCCESS) \<and>
    Rk860xRegulatorGetVoltage \<lparr>pool = True, data = True\<rparr> (master_queue sim_env ctx0 (ucast (0x51 :: 7 word)) True) chip_00_01 False 0 s1 =
      (s2, Inr ((850000 - VselMin chip_00_01) div VselStep chip_00_01 * VselStep chip_00_01 + VselMin chip_00_01)) \<and>
    sim_regs s2 (if False then SleepReg chip_00_01 else VolReg chip_00_01) AND NOT (VolMask chip_00_01) =
      sim_regs bus0 (if False then SleepReg chip_00_01 else VolReg chip_00_01) AND NOT (VolMask chip_00_01) \<and>
    (\<forall>r. r \<noteq> (if False then SleepReg chip_00_01 else VolReg chip_00_01) \<longrightarrow> sim_regs s2 r = sim_regs bus0 r)"
  by (rule rk860x_voltage_roundtrip [OF bus_idle_bus0]) (simp_all add: pools_ok_def chip_00_01_def RK860X_MAX_VOLTAGE_def)


section \<open>The start condition\<close>

lemma start_poll_late:
  "pend s = Some (k, I2C_STARTIPD) \<Longrightarrow> ipd s = 0 \<Longrightarrow> n \<le> k \<Longrightarrow>
     start_loop sim_env n s = (s\<lparr>pend := Some (k - n, I2C_STARTIPD)\<rparr>, 0 - 1)"
proof (induction n arbitrary: s k)
  case (Suc n)
  then obtain k' where "k = Suc k'"
    by (cases k) auto
  then show ?case
    using Suc by (simp add: settle_def pass_time_def)
qed simp

text \<open>
  The time-out of a start condition is reported the wrong way round: when the start
  condition shows in the very last poll, the counter is 0 and \<open>I2cStartEnable\<close> reports a time-out;
  when it has not shown at all, the unsigned counter has wrapped and the result is success.
\<close>

theorem i2c_start_timeout:
  assumes "ipd s = 0" "pend s = None"
  shows "(lat s (evt s) = I2C_TIMEOUT_US - 1 \<longrightarrow> snd (I2cStartEnable sim_env c Con I2C_TIMEOUT_US s) = Error EFI_TIMEOUT) \<and>
    (I2C_TIMEOUT_US \<le> lat s (evt s) \<longrightarrow> snd (I2cStartEnable sim_env c Con I2C_TIMEOUT_US s) = EFI_SUCCESS)"
proof -
  let ?w = "I2C_CON_EN OR I2C_CON_START OR Con OR ucast (Config c)"
  let ?s = "s\<lparr>con := ?w, addressing := True, evt := evt s + 1, pend := Some (lat s (evt s), I2C_STARTIPD)\<rparr>"
  have w: "bit ?w 0" "bit ?w 3"
    by (simp_all add: i2c_defs bit_simps bit_numeral_rec)
  have s: "sim_wr (sim_wr (sim_wr s I2C_IPD I2C_IPD_ALL_CLEAN) I2C_IEN I2C_STARTIEN) I2C_CON ?w = ?s"
    using w assms by (simp add: settle_def sched_def)
  have "snd (I2cStartEnable sim_env c Con I2C_TIMEOUT_US s) = Error EFI_TIMEOUT" if "lat s (evt s) = I2C_TIMEOUT_US - 1"
    using start_poll [of ?s "lat s (evt s)" I2C_TIMEOUT_US] assms(1) that
    unfolding I2cStartEnable_def sim_env_simps Let_def s by (simp add: I2C_TIMEOUT_US_def)
  moreover have "snd (I2cStartEnable sim_env c Con I2C_TIMEOUT_US s) = EFI_SUCCESS" if "I2C_TIMEOUT_US \<le> lat s (evt s)"
    using start_poll_late [of ?s "lat s (evt s)" I2C_TIMEOUT_US] assms(1) that
    unfolding I2cStartEnable_def sim_env_simps Let_def s by simp
  ultimately show ?thesis
    by blast
qed

lemma i2c_start_timeout_witness:
  "snd (I2cStartEnable sim_env ctx0 0 I2C_TIMEOUT_US (bus0\<lparr>lat := \<lambda>_. 100000\<rparr>)) = EFI_SUCCESS"
  using i2c_start_timeout [of "bus0\<lparr>lat := \<lambda>_. 100000\<rparr>" ctx0 0] by (simp add: bus0_def I2C_TIMEOUT_US_def)


section \<open>Clock dividers\<close>

definition cdiv :: "nat \<Rightarrow> nat \<Rightarrow> nat" where
  "cdiv x y = (x + y - 1) div y"

lemma cdiv_ge:
  assumes "0 < y"
  shows "x \<le> y * cdiv x y"
proof -
  have "cdiv x y * y + (x + y - 1) mod y = x + y - 1" "(x + y - 1) mod y < y"
    using assms by (simp_all add: cdiv_def)
  then have "x \<le> cdiv x y * y"
    using assms by linarith
  then show ?thesis
    by (simp add: mult.commute)
qed

lemma cdiv_le:
  assumes "0 < y" "x \<le> y * k"
  shows "cdiv x y \<le> k"
proof -
  have "x + y - 1 < Suc k * y"
    using assms by (simp add: mult.commute)
  then have "cdiv x y < Suc k"
    unfolding cdiv_def by (rule less_mult_imp_div_less)
  then show ?thesis
    by simp
qed

lemma unat_DIV_ROUND_UP:
  "y \<noteq> 0 \<Longrightarrow> unat x + unat y < 2 ^ 32 \<Longrightarrow> unat (DIV_ROUND_UP x y) = cdiv (unat x) (unat y)"
proof -
  assume y: "y \<noteq> 0" and small: "unat x + unat y < 2 ^ 32"
  then have "unat (x + y) = unat x + unat y" "0 < unat y"
    by (simp_all add: unat_add_no_wrap unat_gt_0)
  moreover have "1 \<le> x + y"
    using calculation by (simp add: word_le_nat_alt)
  ultimately show ?thesis
    unfolding DIV_ROUND_UP_def cdiv_def by (simp add: unat_div unat_sub_no_wrap)
qed

lemma baud_nat:
  fixes K S P Q :: nat
  assumes K: "1000 \<le> K" "K \<le> 400000" and S: "1 \<le> S" "S \<le> 1000"
    and P: "380 \<le> P" "P \<le> 5000" and Q: "380 \<le> Q" "Q \<le> 5000"
  defines "Mtot \<equiv> cdiv K (S * 8)" and "Mhi \<equiv> cdiv (K * P) 8000000" and "Mlo \<equiv> cdiv (K * Q) 8000000"
  shows "Mtot \<le> 50000" "Mhi \<le> 250" "Mlo \<le> 250" "0 < Mhi" "0 < Mlo" "K \<le> 8 * S * Mtot"
    "K * P \<le> 8000000 * Mhi" "K * Q \<le> 8000000 * Mlo"
proof -
  have "K * P \<le> 400000 * 5000" "K * Q \<le> 400000 * 5000"
    using mult_le_mono [OF K(2) P(2)] mult_le_mono [OF K(2) Q(2)] by simp_all
  then show "Mhi \<le> 250" "Mlo \<le> 250"
    unfolding Mhi_def Mlo_def by (auto intro: cdiv_le)
  show "Mtot \<le> 50000"
    unfolding Mtot_def using K S by (intro cdiv_le) auto
  show "K \<le> 8 * S * Mtot"
    unfolding Mtot_def using cdiv_ge [of "S * 8" K] S by (simp add: mult.commute)
  show Mhi: "K * P \<le> 8000000 * Mhi"
    unfolding Mhi_def by (simp add: cdiv_ge)
  show Mlo: "K * Q \<le> 8000000 * Mlo"
    unfolding Mlo_def by (simp add: cdiv_ge)
  have "0 < K * P" "0 < K * Q"
    using K P Q by simp_all
  then show "0 < Mhi" "0 < Mlo"
    using Mhi Mlo by (auto intro: gr0I)
qed

lemma unat_small_mult: "unat x * unat y < 2 ^ 32 \<Longrightarrow> unat (x * y) = unat x * unat y" for x y :: u32
  by (simp add: unat_mult_no_wrap)

text \<open>The two divisors of the clock, as natural numbers.\<close>

lemma baud_divisors_bounds:
  fixes Spec :: I2C_SPEC_VALUES and K S :: u32
  defines "P \<equiv> unat (MaxRiseNs Spec + MinHighNs Spec)" and "Q \<equiv> unat (MaxFallNs Spec + MinLowNs Spec)"
  assumes K: "1000 \<le> unat K" "unat K \<le> 400000" and S: "1 \<le> unat S" "unat S \<le> 1000"
    and P: "380 \<le> P" "P \<le> 5000" and Q: "380 \<le> Q" "Q \<le> 5000"
    and HL: "baud_divisors Spec K S = (H, L)"
  shows "unat H < 60000" "unat L < 60000" "unat K \<le> 8 * unat S * (unat H + 1 + (unat L + 1))"
    "unat K * P \<le> 8000000 * (unat H + 1)" "unat K * Q \<le> 8000000 * (unat L + 1)"
proof -
  define Mtot where "Mtot = DIV_ROUND_UP K (S * 8)"
  define Mhi where "Mhi = DIV_ROUND_UP (K * (MaxRiseNs Spec + MinHighNs Spec)) (8 * 1000000)"
  define Mlo where "Mlo = DIV_ROUND_UP (K * (MaxFallNs Spec + MinLowNs Spec)) (8 * 1000000)"
  have KP: "unat K * P \<le> 2000000000" "unat K * Q \<le> 2000000000"
    using mult_le_mono [OF K(2) P(2)] mult_le_mono [OF K(2) Q(2)] by simp_all
  have S8: "unat (S * 8) = unat S * 8"
    using S by (subst unat_small_mult) auto
  have nat: "unat Mtot = cdiv (unat K) (unat S * 8)" "unat Mhi = cdiv (unat K * P) 8000000" "unat Mlo = cdiv (unat K * Q) 8000000"
  proof -
    have "S * 8 \<noteq> 0"
      using S8 S by (metis mult_is_0 not_one_le_zero unat_0 zero_neq_numeral)
    then show "unat Mtot = cdiv (unat K) (unat S * 8)"
      using unat_DIV_ROUND_UP [of "S * 8" K] S8 S K unfolding Mtot_def by simp
    have "unat (K * (MaxRiseNs Spec + MinHighNs Spec)) = unat K * P" "unat (K * (MaxFallNs Spec + MinLowNs Spec)) = unat K * Q"
      using KP unfolding P_def Q_def by (subst unat_small_mult; simp)+
    then show "unat Mhi = cdiv (unat K * P) 8000000" "unat Mlo = cdiv (unat K * Q) 8000000"
      using unat_DIV_ROUND_UP [of "8 * 1000000" "K * (MaxRiseNs Spec + MinHighNs Spec)"]
        unat_DIV_ROUND_UP [of "8 * 1000000" "K * (MaxFallNs Spec + MinLowNs Spec)"] KP
      unfolding Mhi_def Mlo_def by simp_all
  qed
  note b = baud_nat [OF K S P Q, folded nat]
  have pos: "\<not> Mhi < 1" "\<not> Mlo < 1"
    using b(4,5) by (simp_all add: word_less_nat_alt)
  have hold: "unat (Mhi + Mlo) = unat Mhi + unat Mlo"
    using b(2,3) by (intro unat_add_no_wrap) simp
  have one: "1 \<le> Mhi" "1 \<le> Mlo"
    using b(4,5) by (simp_all add: word_le_nat_alt)
  have HL': "(H, L) = (if Mtot \<le> Mhi + Mlo then (Mhi - 1, Mlo - 1)
      else (Mhi + (Mtot - (Mhi + Mlo) - DIV_ROUND_UP (Mlo * (Mtot - (Mhi + Mlo))) (Mhi + Mlo)) - 1,
            Mlo + DIV_ROUND_UP (Mlo * (Mtot - (Mhi + Mlo))) (Mhi + Mlo) - 1))"
    using HL [symmetric] unfolding baud_divisors_def Mtot_def [symmetric] Mhi_def [symmetric] Mlo_def [symmetric] Let_def
    by (simp only: pos if_False)
  have "unat H < 60000 \<and> unat L < 60000 \<and> unat Mtot \<le> unat H + 1 + (unat L + 1) \<and> unat Mhi \<le> unat H + 1 \<and> unat Mlo \<le> unat L + 1"
  proof (cases "Mtot \<le> Mhi + Mlo")
    case True
    then have "unat H = unat Mhi - 1" "unat L = unat Mlo - 1" "unat Mtot \<le> unat Mhi + unat Mlo"
      using HL' one hold by (simp_all add: unat_sub_no_wrap word_le_nat_alt)
    then show ?thesis
      using b(1-5) by (intro conjI; linarith)
  next
    case False
    define E where "E = Mtot - (Mhi + Mlo)"
    define X where "X = DIV_ROUND_UP (Mlo * E) (Mhi + Mlo)"
    have E: "unat E = unat Mtot - (unat Mhi + unat Mlo)" "unat Mhi + unat Mlo < unat Mtot"
      using False hold by (simp_all add: E_def unat_sub_no_wrap word_le_nat_alt not_le word_less_nat_alt)
    have "unat Mlo * unat E \<le> 250 * 50000"
      using b(1,3) E by (intro mult_le_mono) auto
    then have mult: "unat (Mlo * E) = unat Mlo * unat E" "unat Mlo * unat E \<le> 12500000"
      by (auto intro!: unat_small_mult)
    have "Mhi + Mlo \<noteq> 0"
      using hold b(4) by (metis add_gr_0 less_irrefl unat_0)
    then have X: "unat X = cdiv (unat Mlo * unat E) (unat Mhi + unat Mlo)"
      using unat_DIV_ROUND_UP [of "Mhi + Mlo" "Mlo * E"] mult hold b(2,3) by (simp add: X_def)
    have XE: "unat X \<le> unat E"
      unfolding X using b(4) by (intro cdiv_le) auto
    have "unat (E - X) = unat E - unat X"
      using XE by (simp add: unat_sub_no_wrap word_le_nat_alt)
    then have HX: "unat (Mhi + (E - X)) = unat Mhi + (unat E - unat X)"
      using E b by (subst unat_add_no_wrap) auto
    have LX: "unat (Mlo + X) = unat Mlo + unat X"
      using E b XE by (subst unat_add_no_wrap) auto
    have "1 \<le> Mhi + (E - X)" "1 \<le> Mlo + X"
      using HX LX b(4,5) by (simp_all add: word_le_nat_alt)
    moreover have "H = Mhi + (E - X) - 1" "L = Mlo + X - 1"
      using HL' False by (simp_all add: E_def X_def)
    ultimately have "unat H = unat Mhi + (unat E - unat X) - 1" "unat L = unat Mlo + unat X - 1"
      using HX LX by (simp_all add: unat_sub_no_wrap)
    then show ?thesis
      using b(1-5) E XE by (intro conjI; linarith)
  qed
  then have r: "unat H < 60000" "unat L < 60000" "unat Mtot \<le> unat H + 1 + (unat L + 1)" "unat Mhi \<le> unat H + 1" "unat Mlo \<le> unat L + 1"
    by blast+
  show "unat H < 60000" "unat L < 60000" "unat K \<le> 8 * unat S * (unat H + 1 + (unat L + 1))"
    "unat K * P \<le> 8000000 * (unat H + 1)" "unat K * Q \<le> 8000000 * (unat L + 1)"
    by (rule r(1), rule r(2), rule order.trans [OF b(6) mult_le_mono2 [OF r(3)]],
        rule order.trans [OF b(7) mult_le_mono2 [OF r(4)]], rule order.trans [OF b(8) mult_le_mono2 [OF r(5)]])
qed

lemma khz:
  assumes "x \<noteq> 0" "unat x \<le> 1000 * n" "n \<le> 4000000"
  shows "unat x \<le> 1000 * unat (DIV_ROUND_UP x 1000)" "unat (DIV_ROUND_UP x 1000) \<le> n" "0 < unat (DIV_ROUND_UP x 1000)"
proof -
  have u: "unat (DIV_ROUND_UP x 1000) = cdiv (unat x) 1000"
    using unat_DIV_ROUND_UP [of 1000 x] assms(2,3) by simp
  show ge: "unat x \<le> 1000 * unat (DIV_ROUND_UP x 1000)"
    unfolding u by (simp add: cdiv_ge)
  show "unat (DIV_ROUND_UP x 1000) \<le> n"
    unfolding u using assms(2) by (intro cdiv_le) auto
  show "0 < unat (DIV_ROUND_UP x 1000)"
    using ge assms(1) by (metis gr0I le_zero_eq mult_is_0 unat_eq_zero)
qed

lemma speed_mode_cases:
  assumes "speed_mode Target = Some (su, sp)"
  shows "Target \<noteq> 0" "unat Target \<le> 1000 * 1000" "su = 0 \<or> su = 1"
    "I2cGetSpec sp = StandardModeSpec \<or> I2cGetSpec sp = FastModeSpec \<or> I2cGetSpec sp = FastModeplusSpec"
proof -
  show "Target \<noteq> 0" "su = 0 \<or> su = 1"
    using assms by (auto simp: speed_mode_def split: if_splits)
  have "unat Target \<le> unat (1000000 :: u32)"
    unfolding word_le_nat_alt [symmetric] using assms by (auto simp: speed_mode_def split: if_splits intro: order.trans)
  then show "unat Target \<le> 1000 * 1000"
    by simp
qed (simp add: I2cGetSpec_def)

text \<open>
  C36: For every bus frequency that the driver accepts and a source clock from 1 MHz to 400 MHz,
  the divisors that it programs exist and fit their fields, the bus is not faster than asked for
  (rounded up to whole kHz), its high and low phases are at least as long as the mode demands,
  rise and fall times included, and the configuration bits that it keeps start no transfer.
\<close>

theorem i2c_baud_rate:
  assumes "speed_mode Target = Some (su, sp)" "1000000 \<le> ClkRate" "ClkRate \<le> 400000000"
  shows "\<exists>H L. I2cAdapterBaudRate E c Target ClkRate s = (MmioWrite E s I2C_CLKDIV (push_bit 16 H OR L),
      c\<lparr>Config := ucast (I2C_CON_SDA_CFG 1 OR I2C_CON_STA_CFG su)\<rparr>, EFI_SUCCESS) \<and>
    H \<le> 0xffff \<and> L \<le> 0xffff \<and>
    unat ClkRate \<le> 8 * (1000 * unat (DIV_ROUND_UP Target 1000)) * (unat H + 1 + (unat L + 1)) \<and>
    unat ClkRate * unat (MaxRiseNs (I2cGetSpec sp) + MinHighNs (I2cGetSpec sp)) \<le> 1000000000 * (8 * (unat H + 1)) \<and>
    unat ClkRate * unat (MaxFallNs (I2cGetSpec sp) + MinLowNs (I2cGetSpec sp)) \<le> 1000000000 * (8 * (unat L + 1)) \<and>
    config_ok (c\<lparr>Config := ucast (I2C_CON_SDA_CFG 1 OR I2C_CON_STA_CFG su)\<rparr>)"
proof -
  let ?K = "DIV_ROUND_UP ClkRate 1000" and ?S = "DIV_ROUND_UP Target 1000" and ?Spec = "I2cGetSpec sp"
  let ?P = "unat (MaxRiseNs ?Spec + MinHighNs ?Spec)" and ?Q = "unat (MaxFallNs ?Spec + MinLowNs ?Spec)"
  note mode = speed_mode_cases [OF assms(1)]
  have clk: "ClkRate \<noteq> 0" "1000000 \<le> unat ClkRate" "unat ClkRate \<le> 1000 * 400000"
    using assms(2,3) by (auto simp: word_le_nat_alt)
  have small: "400000 \<le> (4000000 :: nat)" "1000 \<le> (4000000 :: nat)"
    by simp_all
  note K = khz [OF clk(1,3) small(1)] and S = khz [OF mode(1,2) small(2)]
  have K1: "1000 \<le> unat ?K"
    using K(1) clk(2) by simp
  have PQ: "380 \<le> ?P" "?P \<le> 5000" "380 \<le> ?Q" "?Q \<le> 5000"
    using mode(4) by (auto simp: StandardModeSpec_def FastModeSpec_def FastModeplusSpec_def)
  obtain H L where HL: "baud_divisors ?Spec ?K ?S = (H, L)"
    by (cases "baud_divisors ?Spec ?K ?S")
  note b = baud_divisors_bounds [OF K1 _ _ _ PQ HL]
  have b: "unat H < 60000" "unat L < 60000" "unat ?K \<le> 8 * unat ?S * (unat H + 1 + (unat L + 1))"
    "unat ?K * ?P \<le> 8000000 * (unat H + 1)" "unat ?K * ?Q \<le> 8000000 * (unat L + 1)"
    using b K S by simp_all
  have scale: "unat ClkRate * p \<le> 1000000000 * (8 * h)" if "unat ?K * p \<le> 8000000 * h" for p h
  proof -
    have "unat ClkRate * p \<le> 1000 * unat ?K * p"
      using K(1) by (rule mult_le_mono1)
    also have "\<dots> \<le> 1000 * (8000000 * h)"
      using mult_le_mono2 [OF that, of 1000] by (simp only: mult.assoc)
    finally show ?thesis
      by simp
  qed
  have fit: "H \<le> 0xffff" "L \<le> 0xffff"
    using b(1,2) by (simp_all add: word_le_nat_alt)
  then have "I2cAdapterBaudRate E c Target ClkRate s = (MmioWrite E s I2C_CLKDIV (push_bit 16 H OR L),
      c\<lparr>Config := ucast (I2C_CON_SDA_CFG 1 OR I2C_CON_STA_CFG su)\<rparr>, EFI_SUCCESS)"
    using assms(1) HL by (auto simp: I2cAdapterBaudRate_def not_less)
  moreover have "unat ClkRate \<le> 8 * (1000 * unat ?S) * (unat H + 1 + (unat L + 1))"
    using K(1) b(3) by simp
  moreover have "unat ClkRate * ?P \<le> 1000000000 * (8 * (unat H + 1))" "unat ClkRate * ?Q \<le> 1000000000 * (8 * (unat L + 1))"
    using scale b(4,5) by blast+
  moreover have "config_ok (c\<lparr>Config := ucast (I2C_CON_SDA_CFG 1 OR I2C_CON_STA_CFG su)\<rparr>)"
    using mode(3) by (auto simp: config_ok_def i2c_defs)
  ultimately show ?thesis
    using fit by blast
qed

lemma i2c_baud_rate_witness:
  "\<exists>H L. I2cAdapterBaudRate sim_env ctx0 100000 200000000 bus0 = (MmioWrite sim_env bus0 I2C_CLKDIV (push_bit 16 H OR L),
      ctx0\<lparr>Config := ucast (I2C_CON_SDA_CFG 1 OR I2C_CON_STA_CFG 1)\<rparr>, EFI_SUCCESS) \<and>
    H \<le> 0xffff \<and> L \<le> 0xffff \<and>
    unat (200000000 :: u32) \<le> 8 * (1000 * unat (DIV_ROUND_UP 100000 1000)) * (unat H + 1 + (unat L + 1)) \<and>
    unat (200000000 :: u32) * unat (MaxRiseNs (I2cGetSpec 100) + MinHighNs (I2cGetSpec 100)) \<le> 1000000000 * (8 * (unat H + 1)) \<and>
    unat (200000000 :: u32) * unat (MaxFallNs (I2cGetSpec 100) + MinLowNs (I2cGetSpec 100)) \<le> 1000000000 * (8 * (unat L + 1)) \<and>
    config_ok (ctx0\<lparr>Config := ucast (I2C_CON_SDA_CFG 1 OR I2C_CON_STA_CFG 1)\<rparr>)"
  by (rule i2c_baud_rate) (simp_all add: speed_mode_def)


section \<open>Enumeration\<close>

text \<open>The addresses that the I2C bus driver gets when it enumerates until there is no further device.\<close>

fun enumeration :: "nat \<Rightarrow> (nat \<times> nat) list \<Rightarrow> I2C_MASTER_CONTEXT \<Rightarrow> device_ptr \<Rightarrow> nat list option" where
  "enumeration 0 pcds c ptr = None"
| "enumeration (Suc n) pcds c ptr = (case I2cEnumerate pcds c (True, True, True) ptr of
     Some (Device d, _) \<Rightarrow> map_option (Cons (hd (SlaveAddressArray d))) (enumeration n pcds c (Device d))
   | Some (NoDevice, _) \<Rightarrow> Some []
   | _ \<Rightarrow> None)"

definition on_bus :: "nat \<Rightarrow> (nat \<times> nat) list \<Rightarrow> nat list" where
  "on_bus bus pcds = map fst (filter (\<lambda>(a, b). b = bus) pcds)"

lemma first_on_bus: "first_on_bus bus pcds = (case on_bus bus pcds of [] \<Rightarrow> None | a # _ \<Rightarrow> Some a)"
  by (induction bus pcds rule: first_on_bus.induct) (auto simp: on_bus_def)

lemma next_on_bus_none: "a \<notin> set (on_bus bus pcds) \<Longrightarrow> next_on_bus bus a pcds = None"
  by (induction bus a pcds rule: next_on_bus.induct) (auto simp: on_bus_def split: if_splits)

lemma next_on_bus:
  assumes "on_bus bus pcds = xs @ a # ys" "distinct (on_bus bus pcds)"
  shows "next_on_bus bus a pcds = (case ys of [] \<Rightarrow> None | y # _ \<Rightarrow> Some y)"
  using assms
proof (induction pcds arbitrary: xs)
  case (Cons p pcds)
  obtain x b where p: "p = (x, b)"
    by (cases p)
  show ?case
  proof (cases "b = bus")
    case True
    then have L: "x # on_bus bus pcds = xs @ a # ys" "distinct (x # on_bus bus pcds)"
      using Cons.prems p by (simp_all add: on_bus_def)
    show ?thesis
    proof (cases xs)
      case Nil
      then have "x = a" "on_bus bus pcds = ys" "a \<notin> set (on_bus bus pcds)"
        using L by auto
      then show ?thesis
        using True p next_on_bus_none [of a bus pcds] by (simp add: first_on_bus split: list.splits)
    next
      case (Cons z zs)
      then have "on_bus bus pcds = zs @ a # ys" "x \<noteq> a"
        using L by auto
      then show ?thesis
        using True p Cons.IH L(2) by simp
    qed
  next
    case False
    then show ?thesis
      using Cons p by (simp add: on_bus_def)
  qed
qed (simp add: on_bus_def)

lemma device_index:
  assumes "y < 2 ^ 16"
  shows "((y AND 0xffff) OR push_bit 16 b) AND 0xffff = (y :: nat)"
proof -
  have "y AND 0xffff = take_bit 16 y" "z AND 0xffff = take_bit 16 z" for z :: nat
    by (simp_all add: take_bit_eq_mask mask_eq_exp_minus_1)
  then show ?thesis
    using assms by (simp only: take_bit_or take_bit_push_bit) (simp add: take_bit_nat_eq_self)
qed

lemma enumeration_from:
  assumes "distinct (on_bus (Bus c) pcds)" "on_bus (Bus c) pcds = xs @ a # ys" "\<forall>x \<in> set (on_bus (Bus c) pcds). x < 2 ^ 16"
    "length ys < n" "DeviceIndex d AND 0xffff = a"
  shows "enumeration n pcds c (Device d) = Some ys"
  using assms(2,4,5)
proof (induction ys arbitrary: n d xs a)
  case Nil
  then obtain m where "n = Suc m"
    by (cases n) auto
  then show ?case
    using next_on_bus [OF Nil.prems(1) assms(1)] Nil.prems by (simp add: I2cEnumerate_def)
next
  case (Cons y ys)
  then obtain m where m: "n = Suc m"
    by (cases n) auto
  let ?d = "\<lparr>DeviceIndex = (y AND 0xffff) OR push_bit 16 (Bus c), SlaveAddressArray = [y]\<rparr>"
  have "y < 2 ^ 16"
    using assms(3) Cons.prems(1) by simp
  then have "DeviceIndex ?d AND 0xffff = y"
    using device_index by simp
  then have "enumeration m pcds c (Device ?d) = Some ys"
    using Cons.prems m by (intro Cons.IH [of "xs @ [a]"]) auto
  then show ?case
    using next_on_bus [OF Cons.prems(1) assms(1)] Cons.prems(3) m
    by (simp add: I2cEnumerate_def I2cAllocDevice_def)
qed

text \<open>
  When the device addresses of a bus are distinct 16-bit numbers and the allocations succeed,
  the bus driver that enumerates a controller gets each device of its bus exactly once, in the order
  of the PCD, and then the end of the enumeration.
\<close>

theorem i2c_enumeration:
  assumes "distinct (on_bus (Bus c) pcds)" "\<forall>x \<in> set (on_bus (Bus c) pcds). x < 2 ^ 16" "length (on_bus (Bus c) pcds) < n"
  shows "enumeration n pcds c NoDevice = Some (on_bus (Bus c) pcds)"
proof (cases "on_bus (Bus c) pcds")
  case Nil
  then show ?thesis
    using assms(3) by (cases n) (simp_all add: I2cEnumerate_def first_on_bus)
next
  case (Cons a ys)
  obtain m where m: "n = Suc m" "length ys < m"
    using assms(3) Cons by (cases n) auto
  let ?d = "\<lparr>DeviceIndex = (a AND 0xffff) OR push_bit 16 (Bus c), SlaveAddressArray = [a]\<rparr>"
  have "a < 2 ^ 16"
    using assms(2) Cons by simp
  then have "enumeration m pcds c (Device ?d) = Some ys"
    using enumeration_from [OF assms(1) _ assms(2), of "[]" a ys m ?d] Cons m(2) device_index by simp
  then show ?thesis
    using m(1) Cons by (simp add: I2cEnumerate_def I2cAllocDevice_def first_on_bus)
qed

lemma i2c_enumeration_witness:
  "enumeration 4 [(0x51, 2), (0x21, 6), (0x42, 2)] ctx0 NoDevice = Some (on_bus (Bus ctx0) [(0x51, 2), (0x21, 6), (0x42, 2)])"
  by (rule i2c_enumeration) (simp_all add: on_bus_def ctx0_def)


end
