(* ===== verification/Mmio.thy ===== *)
theory Mmio
  imports Prelude
begin

text \<open>
  Memory-mapped registers of the clock, reset, pin multiplexing and GPIO blocks, and the contract of
  the registers in them that carry their own write mask: the upper half of a written word says which
  bits of the lower half are taken over. The clients are the pin library, the board libraries and the
  PCIe host bridge. A device can be wrapped to log what the code does with it, which is how
  properties of the order of accesses are stated.
\<close>

section \<open>Access\<close>

record 'h mmio =
  MmioRead32 :: "'h \<Rightarrow> u64 \<Rightarrow> u32 \<times> 'h"
  MmioWrite32 :: "'h \<Rightarrow> u64 \<Rightarrow> u32 \<Rightarrow> 'h"
  MmioWrite16 :: "'h \<Rightarrow> u64 \<Rightarrow> u16 \<Rightarrow> 'h"
  MicroSecondDelay :: "'h \<Rightarrow> nat \<Rightarrow> 'h"

definition MmioAndThenOr32 :: "'h mmio \<Rightarrow> 'h \<Rightarrow> u64 \<Rightarrow> u32 \<Rightarrow> u32 \<Rightarrow> 'h" where
  "MmioAndThenOr32 M s a And Or = (let (v, s) = MmioRead32 M s a in MmioWrite32 M s a ((v AND And) OR Or))"

definition MmioOr32 :: "'h mmio \<Rightarrow> 'h \<Rightarrow> u64 \<Rightarrow> u32 \<Rightarrow> 'h" where
  "MmioOr32 M s a Or = (let (v, s) = MmioRead32 M s a in MmioWrite32 M s a (v OR Or))"

definition MmioAnd32 :: "'h mmio \<Rightarrow> 'h \<Rightarrow> u64 \<Rightarrow> u32 \<Rightarrow> 'h" where
  "MmioAnd32 M s a And = (let (v, s) = MmioRead32 M s a in MmioWrite32 M s a (v AND And))"

definition MASK_TO_WE :: "u32 \<Rightarrow> u32" where
  "MASK_TO_WE msk = push_bit 16 msk"

definition VAL_MASK_WE :: "u32 \<Rightarrow> u32 \<Rightarrow> u32" where
  "VAL_MASK_WE msk val = MASK_TO_WE msk OR val"

section \<open>Registers with a write mask\<close>

definition hiword_update :: "u32 \<Rightarrow> u32 \<Rightarrow> u32" where
  "hiword_update old w = (old AND NOT (drop_bit 16 w)) OR (w AND drop_bit 16 w)"

lemma bit_hiword_update:
  "bit (hiword_update old w) n \<longleftrightarrow> (if n < 16 \<and> bit w (n + 16) then bit w n else bit old n)"
proof (cases "n < 16")
  case True
  then show ?thesis
    by (auto simp: hiword_update_def bit_simps add.commute)
next
  case False
  have "\<not> bit (drop_bit 16 w) n"
    using False by (auto simp: bit_simps dest: bit_imp_le_length)
  then show ?thesis
    using False by (auto simp: hiword_update_def bit_simps dest: bit_imp_le_length)
qed

text \<open>A field: the bits of a mask in the lower half of a register.\<close>

lemma hiword_update_field:
  assumes "take_bit 16 msk = msk" "take_bit 16 v = v"
  shows "hiword_update old (VAL_MASK_WE msk v) = (old AND NOT msk) OR (v AND msk)"
proof (rule bit_word_eqI)
  fix n
  assume n: "n < LENGTH(32)"
  have v: "bit v k \<longleftrightarrow> k < 16 \<and> bit v k" and m: "bit msk k \<longleftrightarrow> k < 16 \<and> bit msk k" for k
    by (metis assms(2) bit_take_bit_iff, metis assms(1) bit_take_bit_iff)
  have "bit (VAL_MASK_WE msk v) (n + 16) \<longleftrightarrow> bit msk n" if "n < 16"
    using v [of "n + 16"] that by (auto simp: VAL_MASK_WE_def MASK_TO_WE_def bit_simps)
  moreover have "bit (VAL_MASK_WE msk v) n \<longleftrightarrow> bit v n" if "n < 16"
    using that by (auto simp: VAL_MASK_WE_def MASK_TO_WE_def bit_simps)
  ultimately show "bit (hiword_update old (VAL_MASK_WE msk v)) n \<longleftrightarrow> bit ((old AND NOT msk) OR (v AND msk)) n"
    using n m [of n] by (auto simp: bit_hiword_update bit_simps)
qed

locale hiword_registers =
  fixes M :: "'h mmio"
    and reg :: "'h \<Rightarrow> u64 \<Rightarrow> u32"
    and masked :: "u64 set"
  assumes write_reg: "a \<in> masked \<Longrightarrow> reg (MmioWrite32 M s a w) = (reg s)(a := hiword_update (reg s a) w)"
    and read_value: "a \<in> masked \<Longrightarrow> fst (MmioRead32 M s a) = reg s a"
    and read_reg: "a \<in> masked \<Longrightarrow> reg (snd (MmioRead32 M s a)) = reg s"
    and delay_reg: "reg (MicroSecondDelay M s n) = reg s"
begin

lemma write_field:
  assumes "a \<in> masked" "take_bit 16 msk = msk" "take_bit 16 v = v"
  shows "reg (MmioWrite32 M s a (VAL_MASK_WE msk v)) = (reg s)(a := (reg s a AND NOT msk) OR (v AND msk))"
  by (simp add: write_reg assms hiword_update_field)

lemma write_field_same:
  assumes "a \<in> masked" "take_bit 16 msk = msk" "take_bit 16 v = v"
  shows "reg (MmioWrite32 M s a (VAL_MASK_WE msk v)) a AND msk = v AND msk"
  using assms by (simp add: write_field bit.conj_disj_distrib2 and.assoc)

lemma write_field_other:
  assumes "a \<in> masked" "take_bit 16 msk = msk" "take_bit 16 v = v" "b \<noteq> a \<or> msk AND f = 0"
  shows "reg (MmioWrite32 M s a (VAL_MASK_WE msk v)) b AND f = reg s b AND f"
proof (cases "b = a")
  case True
  then have "msk AND f = 0"
    using assms(4) by simp
  then have clear: "\<not> (bit msk n \<and> bit f n)" for n
    by (metis bit_0_eq bit_and_iff bot_apply bot_bool_def)
  have "(v AND msk) AND f = 0" "NOT msk AND f = f"
    by (rule bit_word_eqI, use clear in \<open>auto simp: bit_simps\<close>)+
  then show ?thesis
    using True assms(1-3) by (simp add: write_field bit.conj_disj_distrib2 and.assoc)
qed (use assms in \<open>simp add: write_field\<close>)

end

text \<open>A file of such registers, which provides the contract.\<close>

definition reg_file :: "(u64 \<Rightarrow> u32) mmio" where
  "reg_file =
     \<lparr>MmioRead32 = (\<lambda>s a. (s a, s)), MmioWrite32 = (\<lambda>s a w. s(a := hiword_update (s a) w)),
      MmioWrite16 = (\<lambda>s a w. s), MicroSecondDelay = (\<lambda>s n. s)\<rparr>"

interpretation reg_file: hiword_registers reg_file "\<lambda>s. s" UNIV
  by unfold_locales (simp_all add: reg_file_def)

section \<open>What the code does with a device\<close>

datatype io_event = Rd u64 | Wr u64 u32 | Wr16 u64 u16 | Wait nat

text \<open>A device and the list of what was done to it, the last access first.\<close>

definition logged :: "'h mmio \<Rightarrow> ('h \<times> io_event list) mmio" where
  "logged M =
     \<lparr>MmioRead32 = (\<lambda>(s, t) a. let (v, s) = MmioRead32 M s a in (v, (s, Rd a # t))),
      MmioWrite32 = (\<lambda>(s, t) a w. (MmioWrite32 M s a w, Wr a w # t)),
      MmioWrite16 = (\<lambda>(s, t) a w. (MmioWrite16 M s a w, Wr16 a w # t)),
      MicroSecondDelay = (\<lambda>(s, t) n. (MicroSecondDelay M s n, Wait n # t))\<rparr>"

text \<open>Logging keeps the contract.\<close>

lemma logged_contract:
  assumes "hiword_registers M reg masked"
  shows "hiword_registers (logged M) (\<lambda>s. reg (fst s)) masked"
  using assms by (simp add: hiword_registers_def logged_def split_beta)

interpretation logged_file: hiword_registers "logged reg_file" fst UNIV
  using logged_contract [OF reg_file.hiword_registers_axioms] by simp

text \<open>The values the writes of a log leave in registers with a write mask, whatever the device does.\<close>

fun masked_file :: "(u64 \<Rightarrow> u32) \<Rightarrow> io_event list \<Rightarrow> u64 \<Rightarrow> u32" where
  "masked_file r [] = r"
| "masked_file r (Wr a w # t) = (let r' = masked_file r t in r'(a := hiword_update (r' a) w))"
| "masked_file r (e # t) = masked_file r t"

text \<open>Every access of a kind happens only when the registers satisfy a condition.\<close>

fun guarded :: "(io_event \<Rightarrow> bool) \<Rightarrow> ((u64 \<Rightarrow> u32) \<Rightarrow> bool) \<Rightarrow> (u64 \<Rightarrow> u32) \<Rightarrow> io_event list \<Rightarrow> bool" where
  "guarded T P r [] = True"
| "guarded T P r (e # t) = (guarded T P r t \<and> (T e \<longrightarrow> P (masked_file r t)))"

lemma guarded_split: "guarded T P r (t @ e # t') \<Longrightarrow> T e \<Longrightarrow> P (masked_file r t')"
  by (induction t) auto

text \<open>Time that passes in a log.\<close>

fun waited :: "io_event list \<Rightarrow> nat" where
  "waited [] = 0"
| "waited (Wait n # t) = n + waited t"
| "waited (e # t) = waited t"

lemma waited_append [simp]: "waited (t @ t') = waited t + waited t'"
  by (induction t rule: waited.induct) auto

lemma masked_file_append: "masked_file r (t @ t') = masked_file (masked_file r t') t"
  by (induction r t rule: masked_file.induct) (simp_all add: Let_def)

named_theorems log_simps "accesses to a logged device"

lemma logged_read [log_simps]: "snd (snd (MmioRead32 (logged M) s a)) = Rd a # snd s"
  by (simp add: logged_def split: prod.splits)

lemma logged_write [log_simps]:
  "snd (MmioWrite32 (logged M) s a w) = Wr a w # snd s"
  "snd (MmioWrite16 (logged M) s a w') = Wr16 a w' # snd s"
  "snd (MicroSecondDelay (logged M) s n) = Wait n # snd s"
  by (simp_all add: logged_def split: prod.splits)

lemma logged_rmw:
  "\<exists>w. snd (MmioAndThenOr32 (logged M) s a x y) = Wr a w # Rd a # snd s"
  "\<exists>w. snd (MmioOr32 (logged M) s a y) = Wr a w # Rd a # snd s"
  "\<exists>w. snd (MmioAnd32 (logged M) s a x) = Wr a w # Rd a # snd s"
  by (auto simp: MmioAndThenOr32_def MmioOr32_def MmioAnd32_def logged_def split: prod.splits)

text \<open>Code that only adds events of some kind.\<close>

definition adds :: "(io_event \<Rightarrow> bool) \<Rightarrow> 'h \<times> io_event list \<Rightarrow> 'h \<times> io_event list \<Rightarrow> bool" where
  "adds P s s' \<longleftrightarrow> (\<exists>ev. snd s' = ev @ snd s \<and> (\<forall>e \<in> set ev. P e))"

named_theorems adds_intros "what a piece of code adds to the log"

lemma adds_refl [adds_intros]: "adds P s s"
  by (simp add: adds_def)

lemma adds_if [adds_intros]: "(b \<Longrightarrow> adds P s s1) \<Longrightarrow> (\<not> b \<Longrightarrow> adds P s s2) \<Longrightarrow> adds P s (if b then s1 else s2)"
  by simp

lemma adds_trans: "adds P s s' \<Longrightarrow> adds P s' s'' \<Longrightarrow> adds P s s''"
  unfolding adds_def by (metis UnE append.assoc set_append)

lemma adds_mono: "adds P s s' \<Longrightarrow> (\<And>e. P e \<Longrightarrow> Q e) \<Longrightarrow> adds Q s s'"
  unfolding adds_def by blast

lemma adds_cons: "adds P s s' \<Longrightarrow> snd s'' = e # snd s' \<Longrightarrow> P e \<Longrightarrow> adds P s s''"
  unfolding adds_def by (metis append_Cons set_ConsD)

lemma adds_read [adds_intros]: "adds P s s' \<Longrightarrow> P (Rd a) \<Longrightarrow> adds P s (snd (MmioRead32 (logged M) s' a))"
  by (erule adds_cons) (auto simp: log_simps)

lemma adds_write [adds_intros]: "adds P s s' \<Longrightarrow> P (Wr a w) \<Longrightarrow> adds P s (MmioWrite32 (logged M) s' a w)"
  "adds P s s' \<Longrightarrow> P (Wr16 a w') \<Longrightarrow> adds P s (MmioWrite16 (logged M) s' a w')"
  "adds P s s' \<Longrightarrow> P (Wait n) \<Longrightarrow> adds P s (MicroSecondDelay (logged M) s' n)"
  by (erule adds_cons, auto simp: log_simps)+

lemma adds_rmw [adds_intros]:
  "adds P s s' \<Longrightarrow> P (Rd a) \<Longrightarrow> (\<And>w. P (Wr a w)) \<Longrightarrow> adds P s (MmioAndThenOr32 (logged M) s' a x y)"
  "adds P s s' \<Longrightarrow> P (Rd a) \<Longrightarrow> (\<And>w. P (Wr a w)) \<Longrightarrow> adds P s (MmioOr32 (logged M) s' a y)"
  "adds P s s' \<Longrightarrow> P (Rd a) \<Longrightarrow> (\<And>w. P (Wr a w)) \<Longrightarrow> adds P s (MmioAnd32 (logged M) s' a x)"
  by (simp_all add: MmioAndThenOr32_def MmioOr32_def MmioAnd32_def split_beta adds_intros)

text \<open>Guards and register values across such code.\<close>

lemma guarded_adds:
  assumes "adds P s s'" "guarded T Q r (snd s)" "\<And>e. P e \<Longrightarrow> \<not> T e"
  shows "guarded T Q r (snd s')"
proof -
  have "guarded T Q r (ev @ t)" if "\<forall>e \<in> set ev. P e" "guarded T Q r t" for ev t
    using that assms(3) by (induction ev) auto
  then show ?thesis
    using assms(1,2) by (auto simp: adds_def)
qed

definition writes_reg :: "u64 \<Rightarrow> io_event \<Rightarrow> bool" where
  "writes_reg a e \<longleftrightarrow> (case e of Wr b w \<Rightarrow> b = a | _ \<Rightarrow> False)"

lemma masked_file_adds:
  assumes "adds P s s'" "\<And>e. P e \<Longrightarrow> \<not> writes_reg a e"
  shows "masked_file r (snd s') a = masked_file r (snd s) a"
proof -
  have "masked_file r (ev @ t) a = masked_file r t a" if "\<forall>e \<in> set ev. P e" for ev t
    using that
  proof (induction ev)
    case (Cons e ev)
    then show ?case
      using assms(2) [of e] by (cases e) (auto simp: Let_def writes_reg_def)
  qed simp
  then show ?thesis
    using assms(1) by (auto simp: adds_def)
qed

end
