(* ===== verification/Gpio.thy ===== *)
theory Gpio
  imports Mmio
begin

text \<open>
  The pin library (\<open>RK3576/Library/GpioLib/GpioLib.c\<close>): direction, value and pin multiplexing, in
  registers with a write mask.
\<close>

section \<open>Addresses and fields\<close>

definition GPIO_BASE :: "u8 \<Rightarrow> u64" where
  "GPIO_BASE n = (if n = 0 then 0x27320000 else 0x2AE10000 + (ucast n - 1) * 0x10000)"

definition GPIO_SWPORT_DR :: "u8 \<Rightarrow> u64" where
  "GPIO_SWPORT_DR Pin = (if Pin < 16 then 0x0000 else 0x0004)"

definition GPIO_SWPORT_DDR :: "u8 \<Rightarrow> u64" where
  "GPIO_SWPORT_DDR Pin = (if Pin < 16 then 0x0008 else 0x000C)"

definition GPIO_EXT_PORT :: u64 where
  "GPIO_EXT_PORT = 0x0070"

definition GPIO_WRITE_MASK :: "u8 \<Rightarrow> u32" where
  "GPIO_WRITE_MASK Pin = push_bit (unat (Pin mod 16) + 16) 1"

definition GPIO_VALUE_MASK :: "u8 \<Rightarrow> u32 \<Rightarrow> u32" where
  "GPIO_VALUE_MASK Pin Val = push_bit (unat (Pin mod 16)) Val"

definition RK3576_IOC_GRF_BASE :: u64 where
  "RK3576_IOC_GRF_BASE = 0x26040000"

definition IOMUX_SHIFT :: "u8 \<Rightarrow> nat" where
  "IOMUX_SHIFT Pin = unat (Pin mod 4) * 4"

definition IOMUX_MASK :: "u8 \<Rightarrow> u32" where
  "IOMUX_MASK Pin = push_bit (IOMUX_SHIFT Pin + 16) 0xF"

text \<open>The \<open>ASSERT\<close> of an unknown group is \<^term>\<open>None\<close>.\<close>

definition GpioIomuxReg :: "u8 \<Rightarrow> u8 \<Rightarrow> u64 run" where
  "GpioIomuxReg Group Pin =
     (if Group = 0
      then Some (if Pin < 16 then RK3576_IOC_GRF_BASE + ucast (Pin div 4) * 4
                 else RK3576_IOC_GRF_BASE + 0x2004 + ucast ((Pin - 16) div 4) * 4)
      else if Group = 1 then Some (RK3576_IOC_GRF_BASE + 0x4020 + ucast (Pin div 4) * 4)
      else if Group = 2 then Some (RK3576_IOC_GRF_BASE + 0x4040 + ucast (Pin div 4) * 4)
      else if Group = 3 then Some (RK3576_IOC_GRF_BASE + 0x4060 + ucast (Pin div 4) * 4)
      else if Group = 4
      then Some (if Pin < 16 then RK3576_IOC_GRF_BASE + 0x4080 + ucast (Pin div 4) * 4
                 else if Pin < 24 then RK3576_IOC_GRF_BASE + 0xA390 + ucast ((Pin - 16) div 4) * 4
                 else RK3576_IOC_GRF_BASE + 0xB398 + ucast ((Pin - 24) div 4) * 4)
      else None)"

section \<open>Operations\<close>

datatype GPIO_PIN_DIRECTION = GPIO_PIN_INPUT | GPIO_PIN_OUTPUT

fun direction_value :: "GPIO_PIN_DIRECTION \<Rightarrow> u32" where
  "direction_value GPIO_PIN_INPUT = 0"
| "direction_value GPIO_PIN_OUTPUT = 1"

definition GpioPinSetDirection :: "'h mmio \<Rightarrow> u8 \<Rightarrow> u8 \<Rightarrow> GPIO_PIN_DIRECTION \<Rightarrow> 'h \<Rightarrow> 'h" where
  "GpioPinSetDirection M Group Pin Direction s =
     MmioWrite32 M s (GPIO_BASE Group + GPIO_SWPORT_DDR Pin)
       (GPIO_WRITE_MASK Pin OR GPIO_VALUE_MASK Pin (direction_value Direction))"

definition GpioPinWrite :: "'h mmio \<Rightarrow> u8 \<Rightarrow> u8 \<Rightarrow> bool \<Rightarrow> 'h \<Rightarrow> 'h" where
  "GpioPinWrite M Group Pin Val s =
     MmioWrite32 M s (GPIO_BASE Group + GPIO_SWPORT_DR Pin) (GPIO_WRITE_MASK Pin OR GPIO_VALUE_MASK Pin (if Val then 1 else 0))"

definition GpioPinRead :: "'h mmio \<Rightarrow> u8 \<Rightarrow> u8 \<Rightarrow> 'h \<Rightarrow> bool \<times> 'h" where
  "GpioPinRead M Group Pin s =
     (let (Val, s) = MmioRead32 M s (GPIO_BASE Group + GPIO_SWPORT_DR Pin)
      in (Val AND GPIO_VALUE_MASK Pin 1 \<noteq> 0, s))"

definition GpioPinReadActual :: "'h mmio \<Rightarrow> u8 \<Rightarrow> u8 \<Rightarrow> 'h \<Rightarrow> bool \<times> 'h" where
  "GpioPinReadActual M Group Pin s =
     (let (Val, s) = MmioRead32 M s (GPIO_BASE Group + GPIO_EXT_PORT) in (Val AND push_bit (unat Pin) 1 \<noteq> 0, s))"

definition GpioPinSetFunction :: "'h mmio \<Rightarrow> u8 \<Rightarrow> u8 \<Rightarrow> u8 \<Rightarrow> 'h \<Rightarrow> 'h run" where
  "GpioPinSetFunction M Group Pin Function s = do {
     Reg \<leftarrow> GpioIomuxReg Group Pin;
     Some (MmioWrite32 M s Reg (IOMUX_MASK Pin OR push_bit (IOMUX_SHIFT Pin) (ucast Function)))
   }"

text \<open>Pull, drive and input settings are dropped, with a warning in the log.\<close>

definition GpioPinSetPull :: "u8 \<Rightarrow> u8 \<Rightarrow> u8 \<Rightarrow> 'h \<Rightarrow> 'h" where "GpioPinSetPull Group Pin Pull s = s"
definition GpioPinSetDrive :: "u8 \<Rightarrow> u8 \<Rightarrow> u8 \<Rightarrow> 'h \<Rightarrow> 'h" where "GpioPinSetDrive Group Pin Drive s = s"
definition GpioPinSetInput :: "u8 \<Rightarrow> u8 \<Rightarrow> u8 \<Rightarrow> 'h \<Rightarrow> 'h" where "GpioPinSetInput Group Pin InputEnable s = s"

definition GPIO_PIN_DRIVE_DEFAULT :: u8 where "GPIO_PIN_DRIVE_DEFAULT = 0xFF"

record GPIO_IOMUX_CONFIG =
  cfg_Group :: u8
  cfg_Pin :: u8
  cfg_Function :: u8
  cfg_Pull :: u8
  cfg_Drive :: u8

fun GpioSetIomuxConfig :: "'h mmio \<Rightarrow> GPIO_IOMUX_CONFIG list \<Rightarrow> 'h \<Rightarrow> 'h run" where
  "GpioSetIomuxConfig M [] s = Some s"
| "GpioSetIomuxConfig M (Mux # Configs) s = do {
     s \<leftarrow> GpioPinSetFunction M (cfg_Group Mux) (cfg_Pin Mux) (cfg_Function Mux) s;
     let s = GpioPinSetPull (cfg_Group Mux) (cfg_Pin Mux) (cfg_Pull Mux) s;
     let s = (if cfg_Drive Mux \<noteq> GPIO_PIN_DRIVE_DEFAULT then GpioPinSetDrive (cfg_Group Mux) (cfg_Pin Mux) (cfg_Drive Mux) s else s);
     GpioSetIomuxConfig M Configs s
   }"

section \<open>Registers of different pins\<close>

definition gpio_pin :: "u8 \<Rightarrow> u8 \<Rightarrow> bool" where
  "gpio_pin g p \<longleftrightarrow> g < 5 \<and> p < 32"

text \<open>The offset of the multiplexing register as a number.\<close>

definition iomux_offset :: "nat \<Rightarrow> nat \<Rightarrow> nat" where
  "iomux_offset g p =
     (if g = 0 then (if p < 16 then 4 * (p div 4) else 0x2004 + 4 * ((p - 16) div 4))
      else if g = 4 then (if p < 16 then 0x4080 + 4 * (p div 4) else if p < 24 then 0xA390 + 4 * ((p - 16) div 4) else 0xB398 + 4 * ((p - 24) div 4))
      else 0x4000 + 32 * g + 4 * (p div 4))"

definition quad_offset :: "nat \<Rightarrow> nat \<Rightarrow> nat" where
  "quad_offset g q =
     (if g = 0 then (if q < 4 then 4 * q else 0x1FF4 + 4 * q)
      else if g = 4 then (if q < 4 then 0x4080 + 4 * q else if q < 6 then 0xA380 + 4 * q else 0xB380 + 4 * q)
      else 0x4000 + 32 * g + 4 * q)"

lemma iomux_offset_quad: "iomux_offset g p = quad_offset g (p div 4)"
proof -
  have lt: "p < 16 \<longleftrightarrow> p div 4 < 4" "p < 24 \<longleftrightarrow> p div 4 < 6"
    by linarith+
  have "\<not> p < 4 * c \<Longrightarrow> p div 4 = c + (p - 4 * c) div 4" for c
    by (auto simp: not_less dest: le_Suc_ex)
  from this [of 4] this [of 6] have "\<not> p < 16 \<Longrightarrow> p div 4 = 4 + (p - 16) div 4" "\<not> p < 24 \<Longrightarrow> p div 4 = 6 + (p - 24) div 4"
    by simp_all
  then show ?thesis
    unfolding iomux_offset_def quad_offset_def lt [symmetric] by simp
qed

lemma quad_offset_inj:
  assumes "g < 5" "q < 8" "g' < 5" "q' < 8" "quad_offset g q = quad_offset g' q'"
  shows "g = g' \<and> q = q'"
proof -
  have "g = g'"
    using assms unfolding quad_offset_def by (simp split: if_splits; linarith)
  then show ?thesis
    using assms(2,4,5) unfolding quad_offset_def by (simp split: if_splits)
qed

lemma iomux_offset_inj:
  assumes "g < 5" "p < 32" "g' < 5" "p' < 32" "iomux_offset g p = iomux_offset g' p'"
  shows "g = g' \<and> p div 4 = p' div 4"
  using assms by (intro quad_offset_inj) (auto simp: iomux_offset_quad)

lemma GpioIomuxReg_offset:
  assumes "gpio_pin g p"
  shows "GpioIomuxReg g p = Some (of_nat (0x26040000 + iomux_offset (unat g) (unat p)))"
proof -
  have g: "g = 0 \<or> g = 1 \<or> g = 2 \<or> g = 3 \<or> g = 4"
  proof -
    have "unat g < 5"
      using assms by (simp add: gpio_pin_def word_less_nat_alt)
    then have "unat g = 0 \<or> unat g = 1 \<or> unat g = 2 \<or> unat g = 3 \<or> unat g = 4"
      by linarith
    then show ?thesis
      by (simp add: word_unat_eq_iff)
  qed
  have q: "ucast (x div 4) = (of_nat (unat x div 4) :: u64)" for x :: u8
    by (simp add: word_unat_eq_iff unsigned_ucast_eq unsigned_of_nat unat_div)
  have lt: "p < 16 \<longleftrightarrow> unat p < 16" "p < 24 \<longleftrightarrow> unat p < 24"
    by (simp_all add: word_less_nat_alt)
  have sub: "\<not> unat p < 16 \<Longrightarrow> unat (p - 16) = unat p - 16" "\<not> unat p < 24 \<Longrightarrow> unat (p - 24) = unat p - 24"
    by (simp_all add: unat_sub_no_wrap word_le_nat_alt)
  show ?thesis
    using g by (auto simp: GpioIomuxReg_def iomux_offset_def RK3576_IOC_GRF_BASE_def q lt sub)
qed

text \<open>The address and the field of a pin.\<close>

definition iomux_addr :: "u8 \<Rightarrow> u8 \<Rightarrow> u64" where
  "iomux_addr g p = of_nat (0x26040000 + iomux_offset (unat g) (unat p))"

definition pin_field :: "u8 \<Rightarrow> u32" where
  "pin_field p = push_bit (IOMUX_SHIFT p) 0xF"

lemma iomux_offset_bound: "g < 5 \<Longrightarrow> p < 32 \<Longrightarrow> iomux_offset g p < 0x10000"
  unfolding iomux_offset_quad quad_offset_def by (auto simp: less_mult_imp_div_less)

lemma gpio_pin_nat: "gpio_pin g p \<longleftrightarrow> unat g < 5 \<and> unat p < 32"
  by (simp add: gpio_pin_def word_less_nat_alt)

lemma unat_iomux_addr: "gpio_pin g p \<Longrightarrow> unat (iomux_addr g p) = 0x26040000 + iomux_offset (unat g) (unat p)"
  using iomux_offset_bound [of "unat g" "unat p"]
  unfolding iomux_addr_def gpio_pin_nat by (subst unat_of_nat_small) simp_all

lemma iomux_shift: "IOMUX_SHIFT p = 4 * (unat p mod 4)" "IOMUX_SHIFT p \<le> 12"
proof -
  show "IOMUX_SHIFT p = 4 * (unat p mod 4)"
    by (simp add: IOMUX_SHIFT_def unat_mod)
  moreover have "unat p mod 4 < 4"
    by simp
  ultimately show "IOMUX_SHIFT p \<le> 12"
    by linarith
qed

lemma pin_fields_disjoint:
  assumes "unat p mod 4 \<noteq> unat q mod 4"
  shows "pin_field p AND pin_field q = 0"
proof -
  have m: "unat x mod 4 = 0 \<or> unat x mod 4 = 1 \<or> unat x mod 4 = 2 \<or> unat x mod 4 = 3" for x :: u8
    by linarith
  show ?thesis
    using m [of p] m [of q] assms unfolding pin_field_def iomux_shift(1) by (elim disjE) simp_all
qed

text \<open>Different pins have different registers or disjoint fields.\<close>

lemma pins_disjoint:
  assumes "gpio_pin g p" "gpio_pin g' p'" "(g', p') \<noteq> (g, p)"
  shows "iomux_addr g' p' \<noteq> iomux_addr g p \<or> pin_field p AND pin_field p' = 0"
proof (rule disjCI)
  assume "\<not> pin_field p AND pin_field p' = 0"
  then have m: "unat p mod 4 = unat p' mod 4"
    using pin_fields_disjoint by blast
  show "iomux_addr g' p' \<noteq> iomux_addr g p"
  proof
    assume "iomux_addr g' p' = iomux_addr g p"
    then have "iomux_offset (unat g') (unat p') = iomux_offset (unat g) (unat p)"
      using unat_iomux_addr [OF assms(1)] unat_iomux_addr [OF assms(2)] by simp
    then have "unat g' = unat g \<and> unat p' div 4 = unat p div 4"
      using assms(1,2) by (intro iomux_offset_inj) (simp_all add: gpio_pin_nat)
    then have "unat g' = unat g" "unat p' = unat p"
      using m by (blast, metis div_mult_mod_eq)
    then show False
      using assms(3) by (simp add: word_unat_eq_iff)
  qed
qed

text \<open>The word written for a function is a masked write, unless the function spills out of the register's lower half.\<close>

definition fits_field :: "u8 \<Rightarrow> u8 \<Rightarrow> bool" where
  "fits_field p f \<longleftrightarrow> f < 16 \<or> p mod 4 \<noteq> 3"

lemma take_bit_16:
  assumes "unat (w :: u32) < 2 ^ 16"
  shows "take_bit 16 w = w"
  using assms by (simp add: word_unat_eq_iff unsigned_take_bit_eq take_bit_nat_eq_self)

lemma function_word:
  assumes "fits_field p f"
  shows "IOMUX_MASK p OR push_bit (IOMUX_SHIFT p) (ucast f) = VAL_MASK_WE (pin_field p) (push_bit (IOMUX_SHIFT p) (ucast f))"
    "take_bit 16 (pin_field p) = pin_field p"
    "take_bit 16 (push_bit (IOMUX_SHIFT p) (ucast f) :: u32) = push_bit (IOMUX_SHIFT p) (ucast f)"
proof -
  show "IOMUX_MASK p OR push_bit (IOMUX_SHIFT p) (ucast f) = VAL_MASK_WE (pin_field p) (push_bit (IOMUX_SHIFT p) (ucast f))"
    by (simp add: IOMUX_MASK_def VAL_MASK_WE_def MASK_TO_WE_def pin_field_def push_bit_push_bit add.commute)
  have m: "unat p mod 4 = 0 \<or> unat p mod 4 = 1 \<or> unat p mod 4 = 2 \<or> unat p mod 4 = 3"
    by linarith
  show "take_bit 16 (pin_field p) = pin_field p"
    using m unfolding pin_field_def iomux_shift(1) by (elim disjE) simp_all
  have three: "p mod 4 = 3 \<longleftrightarrow> unat p mod 4 = 3"
    by (simp add: word_unat_eq_iff unat_mod)
  have f: "bit f n \<Longrightarrow> IOMUX_SHIFT p + n < 16" for n
  proof (cases "unat p mod 4 = 3")
    case True
    then have "f < 16"
      using assms three by (simp add: fits_field_def)
    then have "take_bit 4 f = f"
      by (simp add: word_less_nat_alt word_unat_eq_iff unsigned_take_bit_eq take_bit_nat_eq_self)
    then show "bit f n \<Longrightarrow> IOMUX_SHIFT p + n < 16"
      using True bit_take_bit_iff [of 4 f n] unfolding iomux_shift(1) by simp
  next
    case False
    then have "unat p mod 4 \<le> 2"
      using m by linarith
    then show "bit f n \<Longrightarrow> IOMUX_SHIFT p + n < 16"
      unfolding iomux_shift(1) by (auto dest!: bit_imp_le_length)
  qed
  then show "take_bit 16 (push_bit (IOMUX_SHIFT p) (ucast f) :: u32) = push_bit (IOMUX_SHIFT p) (ucast f)"
    by (intro bit_word_eqI) (fastforce simp: bit_simps)
qed

section \<open>What the pins do, from the contract of the registers\<close>

text \<open>The function of a pin, its direction and its output value, read from the registers.\<close>

definition pin_function :: "(u64 \<Rightarrow> u32) \<Rightarrow> u8 \<Rightarrow> u8 \<Rightarrow> u32" where
  "pin_function r g p = drop_bit (IOMUX_SHIFT p) (r (iomux_addr g p) AND pin_field p)"

definition port_bit :: "u8 \<Rightarrow> u32" where
  "port_bit p = push_bit (unat (p mod 16)) 1"

definition pin_value :: "(u64 \<Rightarrow> u32) \<Rightarrow> u8 \<Rightarrow> u8 \<Rightarrow> bool" where
  "pin_value r g p \<longleftrightarrow> r (GPIO_BASE g + GPIO_SWPORT_DR p) AND port_bit p \<noteq> 0"

definition pin_is_output :: "(u64 \<Rightarrow> u32) \<Rightarrow> u8 \<Rightarrow> u8 \<Rightarrow> bool" where
  "pin_is_output r g p \<longleftrightarrow> r (GPIO_BASE g + GPIO_SWPORT_DDR p) AND port_bit p \<noteq> 0"

lemma field_of_function:
  assumes "fits_field p f"
  shows "drop_bit (IOMUX_SHIFT p) (push_bit (IOMUX_SHIFT p) (ucast f) AND pin_field p) = (ucast (f AND 0xF) :: u32)"
proof -
  have "IOMUX_SHIFT p \<le> 12"
    by (rule iomux_shift(2))
  moreover have "(0xF :: u32) = mask 4" "(0xF :: u8) = mask 4"
    by (simp_all add: mask_eq_exp_minus_1)
  ultimately show ?thesis
    unfolding pin_field_def by (intro bit_word_eqI) (auto simp: bit_simps dest: bit_imp_le_length)
qed

text \<open>The GPIO registers of different pins.\<close>

definition port_offset :: "nat \<Rightarrow> nat \<Rightarrow> nat" where
  "port_offset g p = (if p < 16 then 0 else 4) + (if g = 0 then 0x27320000 else 0x2AE10000 + (g - 1) * 0x10000)"

lemma no_4: "4 + a * 65536 \<noteq> b * (65536 :: nat)"
proof
  assume "4 + a * 65536 = b * (65536 :: nat)"
  then have "(4 + a * 65536) mod 65536 = b * 65536 mod (65536 :: nat)"
    by simp
  then show False
    by simp
qed

lemma no_8:
  "8 + (if t then 0 else 4) + a * 65536 \<noteq> (if t' then 0 else 4) + b * (65536 :: nat)"
proof
  assume "8 + (if t then 0 else 4) + a * 65536 = (if t' then 0 else 4) + b * (65536 :: nat)"
  then have "(8 + (if t then 0 else 4) + a * 65536) mod 65536 = ((if t' then 0 else 4) + b * 65536) mod (65536 :: nat)"
    by simp
  then show False
    by (auto split: if_splits)
qed

lemma port_offset_inj:
  "g < 5 \<Longrightarrow> g' < 5 \<Longrightarrow> port_offset g p = port_offset g' p' \<Longrightarrow> g = g' \<and> (p < 16 \<longleftrightarrow> p' < 16)"
  using no_4 [of "g - 1" "g' - 1"] no_4 [of "g' - 1" "g - 1"]
  unfolding port_offset_def by (auto split: if_splits)

lemma GPIO_port:
  assumes "g < 5"
  shows "GPIO_BASE g + GPIO_SWPORT_DR p = of_nat (port_offset (unat g) (unat p))"
    "GPIO_BASE g + GPIO_SWPORT_DDR p = of_nat (8 + port_offset (unat g) (unat p))"
proof -
  have "GPIO_BASE g = of_nat (if unat g = 0 then 0x27320000 else 0x2AE10000 + (unat g - 1) * 0x10000)"
  proof (cases "g = 0")
    case False
    then have "0 < unat g"
      by (simp add: unat_gt_0)
    then have "(ucast g - 1 :: u64) = of_nat (unat g - 1)"
      by (simp add: word_unat_eq_iff unsigned_ucast_eq of_nat_diff)
    then show ?thesis
      using False by (simp add: GPIO_BASE_def unat_eq_zero)
  qed (simp add: GPIO_BASE_def)
  then show "GPIO_BASE g + GPIO_SWPORT_DR p = of_nat (port_offset (unat g) (unat p))"
    "GPIO_BASE g + GPIO_SWPORT_DDR p = of_nat (8 + port_offset (unat g) (unat p))"
    by (auto simp: GPIO_SWPORT_DR_def GPIO_SWPORT_DDR_def port_offset_def word_less_nat_alt)
qed

lemma gpio_group: "gpio_pin g p \<Longrightarrow> g < 5"
  by (simp add: gpio_pin_def)

lemma port_regs:
  assumes "gpio_pin g p" "gpio_pin g' p'"
  shows "GPIO_BASE g + GPIO_SWPORT_DR p = GPIO_BASE g' + GPIO_SWPORT_DR p' \<longleftrightarrow> g = g' \<and> (p < 16 \<longleftrightarrow> p' < 16)"
    "GPIO_BASE g + GPIO_SWPORT_DDR p = GPIO_BASE g' + GPIO_SWPORT_DDR p' \<longleftrightarrow> g = g' \<and> (p < 16 \<longleftrightarrow> p' < 16)"
    "GPIO_BASE g + GPIO_SWPORT_DR p \<noteq> GPIO_BASE g' + GPIO_SWPORT_DDR p'"
proof -
  have lt: "unat g < 5" "unat g' < 5" "p < 16 \<longleftrightarrow> unat p < 16" "p' < 16 \<longleftrightarrow> unat p' < 16"
    using assms by (simp_all add: gpio_pin_nat word_less_nat_alt)
  have small: "port_offset a b < 2 ^ 32" if "a < 5" for a b
    using that unfolding port_offset_def by auto
  have inj: "(of_nat (k + port_offset (unat g) (unat p)) :: u64) = of_nat (k' + port_offset (unat g') (unat p')) \<longleftrightarrow>
      k + port_offset (unat g) (unat p) = k' + port_offset (unat g') (unat p')" if "k \<le> 8" "k' \<le> 8" for k k'
  proof
    assume eq: "(of_nat (k + port_offset (unat g) (unat p)) :: u64) = of_nat (k' + port_offset (unat g') (unat p'))"
    have "unat (of_nat (k + port_offset (unat g) (unat p)) :: u64) = k + port_offset (unat g) (unat p)"
      "unat (of_nat (k' + port_offset (unat g') (unat p')) :: u64) = k' + port_offset (unat g') (unat p')"
      using small [OF lt(1), of "unat p"] small [OF lt(2), of "unat p'"] that by (intro unat_of_nat_small, simp)+
    then show "k + port_offset (unat g) (unat p) = k' + port_offset (unat g') (unat p')"
      unfolding eq by simp
  qed simp
  have same: "port_offset (unat g) (unat p) = port_offset (unat g') (unat p') \<longleftrightarrow> g = g' \<and> (p < 16 \<longleftrightarrow> p' < 16)"
  proof
    assume "port_offset (unat g) (unat p) = port_offset (unat g') (unat p')"
    then show "g = g' \<and> (p < 16 \<longleftrightarrow> p' < 16)"
      using port_offset_inj [OF lt(1,2)] lt(3,4) by (auto simp: word_unat_eq_iff)
  qed (use lt(3,4) in \<open>auto simp: port_offset_def\<close>)
  note g = gpio_group [OF assms(1)] gpio_group [OF assms(2)]
  show "GPIO_BASE g + GPIO_SWPORT_DR p = GPIO_BASE g' + GPIO_SWPORT_DR p' \<longleftrightarrow> g = g' \<and> (p < 16 \<longleftrightarrow> p' < 16)"
    using inj [of 0 0] same unfolding GPIO_port [OF g(1)] GPIO_port [OF g(2)] by simp
  show "GPIO_BASE g + GPIO_SWPORT_DDR p = GPIO_BASE g' + GPIO_SWPORT_DDR p' \<longleftrightarrow> g = g' \<and> (p < 16 \<longleftrightarrow> p' < 16)"
    using inj [of 8 8] same unfolding GPIO_port [OF g(1)] GPIO_port [OF g(2)] by simp
  have "port_offset (unat g) (unat p) \<noteq> 8 + port_offset (unat g') (unat p')"
    using no_8 [of "unat p' < 16" "unat g' - 1" "unat p < 16" "unat g - 1"] lt(1,2) unfolding port_offset_def by (auto split: if_splits)
  then show "GPIO_BASE g + GPIO_SWPORT_DR p \<noteq> GPIO_BASE g' + GPIO_SWPORT_DDR p'"
    using inj [of 0 8] unfolding GPIO_port [OF g(1)] GPIO_port [OF g(2)] by simp
qed

text \<open>A one-bit masked write.\<close>

lemma port_word:
  "GPIO_WRITE_MASK p OR GPIO_VALUE_MASK p (if b then 1 else 0) = VAL_MASK_WE (port_bit p) (if b then port_bit p else 0)"
  "take_bit 16 (port_bit p) = port_bit p" "take_bit 16 (if b then port_bit p else 0) = (if b then port_bit p else 0)"
proof -
  show "GPIO_WRITE_MASK p OR GPIO_VALUE_MASK p (if b then 1 else 0) = VAL_MASK_WE (port_bit p) (if b then port_bit p else 0)"
    unfolding GPIO_WRITE_MASK_def GPIO_VALUE_MASK_def VAL_MASK_WE_def MASK_TO_WE_def port_bit_def push_bit_push_bit
    by (simp only: add.commute if_distrib [of "push_bit k" for k] push_bit_of_0)
  have "unat (p mod 16) < 16"
    by (simp add: unat_mod)
  then show "take_bit 16 (port_bit p) = port_bit p"
    unfolding port_bit_def by (intro bit_word_eqI) (auto simp: bit_simps)
  then show "take_bit 16 (if b then port_bit p else 0) = (if b then port_bit p else 0)"
    by simp
qed

lemma bit_port_bit: "bit (port_bit p) n \<longleftrightarrow> n = unat p mod 16"
proof -
  have "unat (p mod 16) = unat p mod 16"
    by (simp add: unat_mod)
  moreover have "unat p mod 16 < 16"
    by simp
  then have "unat p mod 16 < 32"
    by (rule less_trans) simp
  ultimately show ?thesis
    unfolding port_bit_def by (auto simp: bit_simps)
qed

lemma port_bit_test: "(v AND port_bit p \<noteq> 0) = bit v (unat p mod 16)"
proof -
  have "v AND port_bit p = (if bit v (unat p mod 16) then port_bit p else 0)"
    by (rule bit_word_eqI) (auto simp: bit_simps bit_port_bit)
  moreover have "port_bit p \<noteq> 0"
    using bit_port_bit [of p "unat p mod 16"] by (metis bit_0_eq bot_apply bot_bool_def)
  ultimately show ?thesis
    by simp
qed

lemma same_pin:
  assumes "gpio_pin g p" "gpio_pin g' p'" "g = g' \<and> (p < 16 \<longleftrightarrow> p' < 16)" "unat p mod 16 = unat p' mod 16"
  shows "g = g' \<and> p = p'"
proof -
  have "unat p < 32" "unat p' < 32" "unat p < 16 \<longleftrightarrow> unat p' < 16"
    using assms(1-3) by (simp_all add: gpio_pin_nat word_less_nat_alt)
  moreover have "x < 32 \<Longrightarrow> x div 16 = (if x < 16 then 0 else 1)" for x :: nat
    by (auto intro: div_nat_eqI)
  ultimately have "unat p div 16 = unat p' div 16"
    by auto
  then have "unat p = unat p'"
    using assms(4) by (metis div_mult_mod_eq)
  then show ?thesis
    using assms(3) by (simp add: word_unat_eq_iff)
qed

context hiword_registers
begin

lemma set_function:
  assumes "gpio_pin g p" "fits_field p f" "iomux_addr g p \<in> masked"
  shows "\<exists>s'. GpioPinSetFunction M g p f s = Some s' \<and>
    reg s' = (reg s)(iomux_addr g p := reg s' (iomux_addr g p)) \<and>
    (\<forall>g' p'. gpio_pin g' p' \<longrightarrow>
      pin_function (reg s') g' p' = (if g' = g \<and> p' = p then ucast (f AND 0xF) else pin_function (reg s) g' p'))"
proof -
  let ?v = "push_bit (IOMUX_SHIFT p) (ucast f) :: u32"
  let ?s = "MmioWrite32 M s (iomux_addr g p) (VAL_MASK_WE (pin_field p) ?v)"
  note w = function_word [OF assms(2)]
  have "GpioPinSetFunction M g p f s = Some ?s"
    using GpioIomuxReg_offset [OF assms(1)] by (simp add: GpioPinSetFunction_def w(1) iomux_addr_def)
  moreover have "reg ?s = (reg s)(iomux_addr g p := reg ?s (iomux_addr g p))"
    by (rule ext) (simp add: write_reg [OF assms(3)])
  moreover have "pin_function (reg ?s) g p = ucast (f AND 0xF)"
    by (simp only: pin_function_def write_field_same [OF assms(3) w(2,3)] field_of_function [OF assms(2)])
  moreover have "pin_function (reg ?s) g' p' = pin_function (reg s) g' p'" if "gpio_pin g' p'" "(g', p') \<noteq> (g, p)" for g' p'
    using write_field_other [OF assms(3) w(2,3) pins_disjoint [OF assms(1) that]] by (simp only: pin_function_def)
  ultimately show ?thesis
    by auto
qed

lemma write_port:
  assumes "a \<in> masked"
  shows "bit (reg (MmioWrite32 M s a (GPIO_WRITE_MASK p OR GPIO_VALUE_MASK p (if b then 1 else 0))) x) n =
    (if x = a \<and> n = unat p mod 16 then b else bit (reg s x) n)"
  by (simp add: port_word(1) write_field [OF assms port_word(2,3)]) (auto simp: bit_simps bit_port_bit dest: bit_imp_le_length)

lemma pin_write:
  assumes "gpio_pin g p" "GPIO_BASE g + GPIO_SWPORT_DR p \<in> masked" "gpio_pin g' p'"
  shows "pin_value (reg (GpioPinWrite M g p b s)) g' p' = (if g' = g \<and> p' = p then b else pin_value (reg s) g' p')"
    "pin_is_output (reg (GpioPinWrite M g p b s)) g' p' = pin_is_output (reg s) g' p'"
  using same_pin [OF assms(3,1)] port_regs [OF assms(3,1)] port_regs(3) [OF assms(1,3)]
  unfolding pin_value_def pin_is_output_def port_bit_test GpioPinWrite_def write_port [OF assms(2)] by auto

lemma pin_direction:
  assumes "gpio_pin g p" "GPIO_BASE g + GPIO_SWPORT_DDR p \<in> masked" "gpio_pin g' p'"
  shows "pin_is_output (reg (GpioPinSetDirection M g p d s)) g' p' = (if g' = g \<and> p' = p then d = GPIO_PIN_OUTPUT else pin_is_output (reg s) g' p')"
    "pin_value (reg (GpioPinSetDirection M g p d s)) g' p' = pin_value (reg s) g' p'"
proof -
  have "GpioPinSetDirection M g p d s = MmioWrite32 M s (GPIO_BASE g + GPIO_SWPORT_DDR p)
      (GPIO_WRITE_MASK p OR GPIO_VALUE_MASK p (if d = GPIO_PIN_OUTPUT then 1 else 0))"
    by (cases d) (simp_all add: GpioPinSetDirection_def)
  then show "pin_is_output (reg (GpioPinSetDirection M g p d s)) g' p' = (if g' = g \<and> p' = p then d = GPIO_PIN_OUTPUT else pin_is_output (reg s) g' p')"
    "pin_value (reg (GpioPinSetDirection M g p d s)) g' p' = pin_value (reg s) g' p'"
    using same_pin [OF assms(3,1)] port_regs [OF assms(3,1)] port_regs(3) [OF assms(3,1)]
    unfolding pin_value_def pin_is_output_def port_bit_test by (auto simp: write_port [OF assms(2)])
qed

lemma pin_read:
  assumes "GPIO_BASE g + GPIO_SWPORT_DR p \<in> masked"
  shows "fst (GpioPinRead M g p s) = pin_value (reg s) g p" "reg (snd (GpioPinRead M g p s)) = reg s"
  using read_value [OF assms, of s] read_reg [OF assms, of s]
  by (simp_all add: GpioPinRead_def split_beta pin_value_def GPIO_VALUE_MASK_def port_bit_def)

text \<open>The last entry of a configuration for a pin decides.\<close>

lemma iomux_config:
  assumes "\<forall>c \<in> set cs. gpio_pin (cfg_Group c) (cfg_Pin c) \<and> fits_field (cfg_Pin c) (cfg_Function c)" "masked = UNIV"
  shows "\<exists>s'. GpioSetIomuxConfig M cs s = Some s' \<and>
    (\<forall>g p. gpio_pin g p \<longrightarrow> pin_function (reg s') g p =
      (case find (\<lambda>c. cfg_Group c = g \<and> cfg_Pin c = p) (rev cs) of Some c \<Rightarrow> ucast (cfg_Function c AND 0xF) | None \<Rightarrow> pin_function (reg s) g p))"
  using assms(1)
proof (induction cs arbitrary: s)
  case (Cons c cs)
  obtain s1 where s1: "GpioPinSetFunction M (cfg_Group c) (cfg_Pin c) (cfg_Function c) s = Some s1"
    "\<And>g p. gpio_pin g p \<Longrightarrow> pin_function (reg s1) g p =
      (if g = cfg_Group c \<and> p = cfg_Pin c then ucast (cfg_Function c AND 0xF) else pin_function (reg s) g p)"
    using set_function [of "cfg_Group c" "cfg_Pin c" "cfg_Function c" s] Cons.prems assms(2) by auto
  obtain s2 where s2: "GpioSetIomuxConfig M cs s1 = Some s2"
    "\<And>g p. gpio_pin g p \<Longrightarrow> pin_function (reg s2) g p =
      (case find (\<lambda>c. cfg_Group c = g \<and> cfg_Pin c = p) (rev cs) of Some c \<Rightarrow> ucast (cfg_Function c AND 0xF) | None \<Rightarrow> pin_function (reg s1) g p)"
    using Cons.IH [of s1] Cons.prems by auto
  have "GpioSetIomuxConfig M (c # cs) s = Some s2"
    using s1(1) s2(1) by (simp add: GpioPinSetPull_def GpioPinSetDrive_def)
  moreover have "find P (xs @ [c]) = (case find P xs of Some x \<Rightarrow> Some x | None \<Rightarrow> if P c then Some c else None)" for P xs
    by (induction xs) auto
  ultimately show ?case
    using s1(2) s2(2) by (auto split: option.splits)
qed simp

end

text \<open>
  A function of 16 or more given to the last pin of a register spills into the write mask, so that
  the function of another pin is overwritten.
\<close>

lemma function_spill:
  "\<exists>s'. GpioPinSetFunction reg_file 1 3 0x11 (\<lambda>a. 0x00003333) = Some s' \<and>
    pin_function s' 1 0 = 2 \<and> pin_function (\<lambda>a. 0x00003333) 1 0 = 3"
  by (simp add: GpioPinSetFunction_def GpioIomuxReg_def pin_function_def iomux_addr_def iomux_offset_def pin_field_def IOMUX_MASK_def IOMUX_SHIFT_def reg_file_def hiword_update_def RK3576_IOC_GRF_BASE_def)

text \<open>
  C8: Applying a table of pin multiplexing entries whose functions fit their fields leaves every pin
  with the function of the last entry for it, and a pin no entry names with the function it had,
  whatever the registers held before.
\<close>

theorem gpio_iomux_config:
  assumes "\<forall>c \<in> set cs. gpio_pin (cfg_Group c) (cfg_Pin c) \<and> fits_field (cfg_Pin c) (cfg_Function c)"
  shows "\<exists>s'. GpioSetIomuxConfig reg_file cs s = Some s' \<and>
    (\<forall>g p. gpio_pin g p \<longrightarrow> pin_function s' g p =
      (case find (\<lambda>c. cfg_Group c = g \<and> cfg_Pin c = p) (rev cs) of Some c \<Rightarrow> ucast (cfg_Function c AND 0xF) | None \<Rightarrow> pin_function s g p))"
  by (rule reg_file.iomux_config [OF assms refl])

theorem gpio_iomux_config_witness:
  "\<exists>s'. GpioSetIomuxConfig reg_file [\<lparr>cfg_Group = 1, cfg_Pin = 3, cfg_Function = 9, cfg_Pull = 0, cfg_Drive = 0xFF\<rparr>] (\<lambda>a. 0) = Some s' \<and>
    pin_function s' 1 3 = 9 \<and> pin_function s' 4 31 = 0"
proof -
  obtain s' where "GpioSetIomuxConfig reg_file [\<lparr>cfg_Group = 1, cfg_Pin = 3, cfg_Function = 9, cfg_Pull = 0, cfg_Drive = 0xFF\<rparr>] (\<lambda>a. 0) = Some s'"
    "\<forall>g p. gpio_pin g p \<longrightarrow> pin_function s' g p =
      (case find (\<lambda>c. cfg_Group c = g \<and> cfg_Pin c = p) (rev [\<lparr>cfg_Group = 1, cfg_Pin = 3, cfg_Function = 9, cfg_Pull = 0, cfg_Drive = 0xFF\<rparr>]) of
        Some c \<Rightarrow> ucast (cfg_Function c AND 0xF) | None \<Rightarrow> pin_function (\<lambda>a. 0) g p)"
    using gpio_iomux_config [of "[\<lparr>cfg_Group = 1, cfg_Pin = 3, cfg_Function = 9, cfg_Pull = 0, cfg_Drive = 0xFF\<rparr>]" "\<lambda>a. 0"]
    by (auto simp: gpio_pin_def fits_field_def)
  then show ?thesis
    by (intro exI [of _ s']) (simp add: gpio_pin_def, simp add: pin_function_def)
qed

text \<open>
  Writing a pin changes the output value of that pin only: reading back any pin of any group
  returns the written value for it and the previous value for every other pin, and no pin changes
  its direction.
\<close>

theorem gpio_write_read:
  assumes "gpio_pin g p" "gpio_pin g' p'"
  shows "fst (GpioPinRead reg_file g' p' (GpioPinWrite reg_file g p b s)) =
      (if g' = g \<and> p' = p then b else fst (GpioPinRead reg_file g' p' s)) \<and>
    pin_is_output (GpioPinWrite reg_file g p b s) g' p' = pin_is_output s g' p'"
  using reg_file.pin_write [OF assms(1) _ assms(2), of b s] by (simp add: reg_file.pin_read)

theorem gpio_write_read_witness:
  "fst (GpioPinRead reg_file 4 31 (GpioPinWrite reg_file 0 5 True (\<lambda>a. 0xFFFF0000))) = False \<and>
   fst (GpioPinRead reg_file 0 5 (GpioPinWrite reg_file 0 5 True (\<lambda>a. 0xFFFF0000))) = True"
  using gpio_write_read [of 0 5 4 31 True "\<lambda>a. 0xFFFF0000"] gpio_write_read [of 0 5 0 5 True "\<lambda>a. 0xFFFF0000"]
  by (simp add: gpio_pin_def reg_file.pin_read pin_value_def port_bit_def GPIO_BASE_def GPIO_SWPORT_DR_def unat_mod)

end
