(* ===== verification/Board.thy ===== *)
theory Board
  imports Gpio
begin

text \<open>
  What the two board libraries (\<open>Platform/*/Library/RockchipPlatformLib\<close>) share: the clock and reset
  registers of the SoC (\<open>Soc.h\<close>), pin numbers, runs of register writes and of pin functions, and the
  interfaces the drivers use them through: the PCIe slot (\<open>pcie_board\<close>), the status LED
  (\<open>led_board\<close>) and the Ethernet PHY reset (\<open>phy_board\<close>).
\<close>

section \<open>Registers and pins of the SoC\<close>

definition CRU_BASE :: u64 where "CRU_BASE = 0x27200000"
definition PMU1CRU_BASE :: u64 where "PMU1CRU_BASE = 0x27220000"

definition CRU_CLKGATE_CON :: "nat \<Rightarrow> u64" where
  "CRU_CLKGATE_CON n = CRU_BASE + 0x800 + of_nat n * 4"

definition CRU_CLKSEL_CON :: "nat \<Rightarrow> u64" where
  "CRU_CLKSEL_CON n = CRU_BASE + 0x300 + of_nat n * 4"

definition CRU_SOFTRST_CON :: "nat \<Rightarrow> u64" where
  "CRU_SOFTRST_CON n = CRU_BASE + 0xA00 + of_nat n * 4"

definition USB2PHY0_BASE :: u64 where "USB2PHY0_BASE = 0x2602E000 + 0x0000"
definition USB2PHY1_BASE :: u64 where "USB2PHY1_BASE = 0x2602E000 + 0x2000"

lemmas soc_addr = CRU_BASE_def PMU1CRU_BASE_def CRU_CLKGATE_CON_def CRU_CLKSEL_CON_def CRU_SOFTRST_CON_def
  USB2PHY0_BASE_def USB2PHY1_BASE_def

abbreviation (input) PA :: "u8 \<Rightarrow> u8" where "PA n \<equiv> n"
abbreviation (input) PB :: "u8 \<Rightarrow> u8" where "PB n \<equiv> 8 + n"
abbreviation (input) PC :: "u8 \<Rightarrow> u8" where "PC n \<equiv> 16 + n"
abbreviation (input) PD :: "u8 \<Rightarrow> u8" where "PD n \<equiv> 24 + n"

type_synonym efi_guid = "u32 \<times> u16 \<times> u16 \<times> u8 list"

definition FDT_COMPAT_MODE_VENDOR :: u32 where "FDT_COMPAT_MODE_VENDOR = 1"
definition FDT_COMPAT_MODE_MAINLINE :: u32 where "FDT_COMPAT_MODE_MAINLINE = 2"

section \<open>Runs of writes\<close>

text \<open>Reads whose values only go to the log.\<close>

fun log_reads :: "'h mmio \<Rightarrow> u64 list \<Rightarrow> 'h \<Rightarrow> 'h" where
  "log_reads M [] s = s"
| "log_reads M (a # as) s = log_reads M as (snd (MmioRead32 M s a))"

text \<open>Consecutive \<open>MmioWrite32\<close> and \<open>GpioPinSetFunction\<close> calls.\<close>

fun writes :: "'h mmio \<Rightarrow> (u64 \<times> u32) list \<Rightarrow> 'h \<Rightarrow> 'h" where
  "writes M [] s = s"
| "writes M ((a, w) # ws) s = writes M ws (MmioWrite32 M s a w)"

fun pin_functions :: "'h mmio \<Rightarrow> (u8 \<times> u8 \<times> u8) list \<Rightarrow> 'h \<Rightarrow> 'h run" where
  "pin_functions M [] s = Some s"
| "pin_functions M ((g, p, f) # ps) s = do { s \<leftarrow> GpioPinSetFunction M g p f s; pin_functions M ps s }"

text \<open>\<open>(1U << (b + 16)) | (0U << b)\<close>: open the clock gate \<open>b\<close>.\<close>

definition gate_open :: "nat \<Rightarrow> u32" where
  "gate_open b = push_bit (b + 16) 1 OR push_bit b 0"

definition BIT :: "nat \<Rightarrow> u32" where
  "BIT b = push_bit b 1"

text \<open>What a pin drives: its direction is output and this is its level.\<close>

definition drives :: "(u64 \<Rightarrow> u32) \<Rightarrow> u8 \<Rightarrow> u8 \<Rightarrow> bool option" where
  "drives r g p = (if pin_is_output r g p then Some (pin_value r g p) else None)"

text \<open>The level first, the direction second.\<close>

definition drive_pin :: "'h mmio \<Rightarrow> u8 \<Rightarrow> u8 \<Rightarrow> bool \<Rightarrow> 'h \<Rightarrow> 'h" where
  "drive_pin M g p b s = GpioPinSetDirection M g p GPIO_PIN_OUTPUT (GpioPinWrite M g p b s)"

text \<open>Bits of registers after a run of masked writes: the last write that enables a bit decides.\<close>

fun last_bit :: "(u64 \<times> u32) list \<Rightarrow> u64 \<Rightarrow> nat \<Rightarrow> bool \<Rightarrow> bool" where
  "last_bit [] x n b = b"
| "last_bit ((a, w) # ws) x n b = last_bit ws x n (if x = a \<and> n < 16 \<and> bit w (n + 16) then bit w n else b)"

context hiword_registers
begin

lemma write_bit:
  assumes "a \<in> masked"
  shows "bit (reg (MmioWrite32 M s a w) x) n =
    (if x = a \<and> n < 16 \<and> bit w (n + 16) then bit w n else bit (reg s x) n)"
  by (simp add: write_reg [OF assms] bit_hiword_update)

lemma writes_bit:
  assumes "fst ` set ws \<subseteq> masked"
  shows "bit (reg (writes M ws s) x) n = last_bit ws x n (bit (reg s x) n)"
  using assms
proof (induction ws arbitrary: s)
  case (Cons w ws)
  then show ?case
    by (cases w) (simp add: write_bit)
qed simp

lemma drive_pin:
  assumes "gpio_pin g p" "masked = UNIV" "gpio_pin g' p'"
  shows "drives (reg (drive_pin M g p b s)) g' p' = (if g' = g \<and> p' = p then Some b else drives (reg s) g' p')"
  using pin_direction [OF assms(1) _ assms(3), of GPIO_PIN_OUTPUT "GpioPinWrite M g p b s"]
    pin_write [OF assms(1) _ assms(3), of b s] assms(2)
  by (cases "g' = g \<and> p' = p") (auto simp: drives_def drive_pin_def)

lemma pin_functions:
  assumes "\<forall>(g, p, f) \<in> set ps. gpio_pin g p \<and> f < 16" "masked = UNIV"
  shows "\<exists>s'. pin_functions M ps s = Some s' \<and>
    (\<forall>g p. gpio_pin g p \<longrightarrow> pin_function (reg s') g p =
      (case find (\<lambda>(g', p', f). g' = g \<and> p' = p) (rev ps) of Some (_, _, f) \<Rightarrow> ucast f | None \<Rightarrow> pin_function (reg s) g p))"
  using assms(1)
proof (induction ps arbitrary: s)
  case (Cons c ps)
  obtain g0 p0 f0 where c: "c = (g0, p0, f0)"
    by (cases c)
  have v: "gpio_pin g0 p0" "f0 < 16"
    using Cons.prems c by auto
  have small: "f0 AND 0xF = f0"
  proof -
    have "f0 AND mask 4 = take_bit 4 f0"
      by (simp add: take_bit_eq_mask and.commute)
    also have "\<dots> = f0"
      using v(2) by (simp add: word_less_nat_alt word_unat_eq_iff unsigned_take_bit_eq take_bit_nat_eq_self)
    finally show ?thesis
      by (simp add: mask_eq_exp_minus_1)
  qed
  obtain s1 where s1: "GpioPinSetFunction M g0 p0 f0 s = Some s1"
    "\<And>g p. gpio_pin g p \<Longrightarrow> pin_function (reg s1) g p = (if g = g0 \<and> p = p0 then ucast f0 else pin_function (reg s) g p)"
    using set_function [of g0 p0 f0 s] v small assms(2) by (auto simp: fits_field_def)
  obtain s2 where s2: "pin_functions M ps s1 = Some s2"
    "\<And>g p. gpio_pin g p \<Longrightarrow> pin_function (reg s2) g p =
      (case find (\<lambda>(g', p', f). g' = g \<and> p' = p) (rev ps) of Some (_, _, f) \<Rightarrow> ucast f | None \<Rightarrow> pin_function (reg s1) g p)"
    using Cons.IH [of s1] Cons.prems by auto
  have "find P (xs @ [d]) = (case find P xs of Some x \<Rightarrow> Some x | None \<Rightarrow> if P d then Some d else None)" for P xs and d :: "u8 \<times> u8 \<times> u8"
    by (induction xs) auto
  then show ?case
    using s1 s2 by (auto simp: c split: option.splits)
qed simp

end

section \<open>Pin functions and clocks together\<close>

text \<open>The window of the pin multiplexing registers.\<close>

definition ioc_reg :: "u64 \<Rightarrow> bool" where
  "ioc_reg a \<longleftrightarrow> 0x26040000 \<le> a \<and> a < 0x26050000"

lemma iomux_in_window: "gpio_pin g p \<Longrightarrow> ioc_reg (iomux_addr g p)"
  using iomux_offset_bound [of "unat g" "unat p"] unat_iomux_addr [of g p]
  by (simp add: ioc_reg_def word_le_nat_alt word_less_nat_alt gpio_pin_nat)

context hiword_registers
begin

lemma pin_functions_window:
  assumes "\<forall>(g, p, f) \<in> set ps. gpio_pin g p \<and> f < 16" "masked = UNIV" "pin_functions M ps s = Some s'" "\<not> ioc_reg x"
  shows "reg s' x = reg s x"
  using assms(1,3)
proof (induction ps arbitrary: s)
  case (Cons c ps)
  obtain g p f where c: "c = (g, p, f)"
    by (cases c)
  have v: "gpio_pin g p" "f < 16"
    using Cons.prems c by auto
  then obtain s1 where s1: "GpioPinSetFunction M g p f s = Some s1" "reg s1 = (reg s)(iomux_addr g p := reg s1 (iomux_addr g p))"
    using set_function [of g p f s] assms(2) by (auto simp: fits_field_def)
  have "reg s' x = reg s1 x"
    using Cons s1(1) c by simp
  also have "\<dots> = reg s x"
    using s1(2) iomux_in_window [OF v(1)] assms(4) by (metis fun_upd_other)
  finally show ?case .
qed simp

lemma writes_outside:
  assumes "masked = UNIV" "list_all (\<lambda>x. \<not> ioc_reg (fst x)) ws" "gpio_pin g p"
  shows "pin_function (reg (writes M ws s)) g p = pin_function (reg s) g p"
  using assms(2)
proof (induction ws arbitrary: s)
  case (Cons w ws)
  obtain a v where w: "w = (a, v)"
    by (cases w)
  have "iomux_addr g p \<noteq> a"
    using Cons.prems iomux_in_window [OF assms(3)] w by auto
  then have "pin_function (reg (MmioWrite32 M s a v)) g p = pin_function (reg s) g p"
    using assms(1) by (simp add: pin_function_def write_reg)
  then show ?case
    using Cons w by simp
qed simp

lemma clocks_and_pins:
  assumes "\<forall>(g, p, f) \<in> set ps. gpio_pin g p \<and> f < 16" "masked = UNIV" "list_all (\<lambda>x. \<not> ioc_reg (fst x)) ws"
  shows "\<exists>s'. pin_functions M ps (writes M ws s) = Some s' \<and>
    (\<forall>g p. gpio_pin g p \<longrightarrow> pin_function (reg s') g p =
      (case find (\<lambda>(g', p', f). g' = g \<and> p' = p) (rev ps) of Some (_, _, f) \<Rightarrow> ucast f | None \<Rightarrow> pin_function (reg s) g p)) \<and>
    (\<forall>x n. \<not> ioc_reg x \<longrightarrow> bit (reg s' x) n = last_bit ws x n (bit (reg s x) n))"
proof -
  obtain s' where s': "pin_functions M ps (writes M ws s) = Some s'"
    "\<And>g p. gpio_pin g p \<Longrightarrow> pin_function (reg s') g p =
      (case find (\<lambda>(g', p', f). g' = g \<and> p' = p) (rev ps) of Some (_, _, f) \<Rightarrow> ucast f | None \<Rightarrow> pin_function (reg (writes M ws s)) g p)"
    using pin_functions [OF assms(1,2), of "writes M ws s"] by blast
  then show ?thesis
    using pin_functions_window [OF assms(1,2) s'(1)] writes_bit [of ws s] writes_outside [OF assms(2,3)] assms(2)
    by (intro exI [of _ s']) (auto split: option.splits)
qed

end

section \<open>Logs of runs of writes and reads\<close>

lemma adds_log_reads [adds_intros]:
  "adds P s s' \<Longrightarrow> list_all (\<lambda>a. P (Rd a)) as \<Longrightarrow> adds P s (log_reads (logged M) as s')"
proof (induction as arbitrary: s')
  case (Cons a as)
  show ?case
    unfolding log_reads.simps by (rule Cons.IH, rule adds_read, rule Cons.prems) (use Cons.prems in auto)
qed simp

lemma adds_writes [adds_intros]:
  "adds P s s' \<Longrightarrow> list_all (\<lambda>x. P (Wr (fst x) (snd x))) ws \<Longrightarrow> adds P s (writes (logged M) ws s')"
proof (induction ws arbitrary: s')
  case (Cons x ws)
  show ?case
    using Cons.prems by (cases x) (auto simp del: split_paired_All split_paired_Ex intro!: Cons.IH adds_write(1))
qed simp

lemma waited_log_reads [simp]: "waited (snd (log_reads (logged M) as s)) = waited (snd s)"
  by (induction as arbitrary: s) (simp_all add: log_simps)

lemma waited_writes [simp]: "waited (snd (writes (logged M) ws s)) = waited (snd s)"
proof (induction ws arbitrary: s)
  case (Cons x ws)
  then show ?case
    by (cases x) (simp add: log_simps)
qed simp

lemma file_log_reads [simp]: "masked_file r (snd (log_reads (logged M) as s)) = masked_file r (snd s)"
  by (induction as arbitrary: s) (simp_all add: log_simps)

lemma file_writes_bit:
  "bit (masked_file r (snd (writes (logged M) ws s)) x) n = last_bit ws x n (bit (masked_file r (snd s) x) n)"
proof (induction ws arbitrary: s)
  case (Cons w ws)
  then show ?case
    by (cases w) (simp add: log_simps Let_def bit_hiword_update)
qed simp

section \<open>The interfaces\<close>

text \<open>Registers of the GPIO banks.\<close>

definition gpio_reg :: "u64 \<Rightarrow> bool" where
  "gpio_reg a \<longleftrightarrow> 0x27320000 \<le> a \<and> a < 0x27330000 \<or> 0x2AE10000 \<le> a \<and> a < 0x2AE50000"

fun gpio_event :: "io_event \<Rightarrow> bool" where
  "gpio_event (Wr a w) = gpio_reg a"
| "gpio_event e = False"

text \<open>A condition holds at every point of a log.\<close>

fun always :: "(io_event list \<Rightarrow> bool) \<Rightarrow> io_event list \<Rightarrow> bool" where
  "always Q [] = Q []"
| "always Q (e # t) = (Q (e # t) \<and> always Q t)"

lemma always_now: "always Q t \<Longrightarrow> Q t"
  by (cases t) auto

lemma always_suffix: "always Q (t @ t') \<Longrightarrow> Q t'"
  by (induction t) (auto intro: always_now)

lemma always_append:
  "always Q (ev @ t) \<longleftrightarrow> always (\<lambda>u. Q (u @ t)) ev \<and> always Q t"
  by (induction ev) (auto intro: always_now)

lemma always_mono: "always P t \<Longrightarrow> (\<And>u. P u \<Longrightarrow> Q u) \<Longrightarrow> always Q t"
  by (induction t) auto

section \<open>Logs of the pin library\<close>

definition direction_event :: "u8 \<Rightarrow> u8 \<Rightarrow> GPIO_PIN_DIRECTION \<Rightarrow> io_event" where
  "direction_event g p d = Wr (GPIO_BASE g + GPIO_SWPORT_DDR p) (GPIO_WRITE_MASK p OR GPIO_VALUE_MASK p (direction_value d))"

definition value_event :: "u8 \<Rightarrow> u8 \<Rightarrow> bool \<Rightarrow> io_event" where
  "value_event g p b = Wr (GPIO_BASE g + GPIO_SWPORT_DR p) (GPIO_WRITE_MASK p OR GPIO_VALUE_MASK p (if b then 1 else 0))"

lemma log_pins [log_simps]:
  "snd (GpioPinSetDirection (logged M) g p d s) = direction_event g p d # snd s"
  "snd (GpioPinWrite (logged M) g p b s) = value_event g p b # snd s"
  by (simp_all add: GpioPinSetDirection_def GpioPinWrite_def log_simps direction_event_def value_event_def)

lemma file_pins:
  "masked_file r (direction_event g p d # t) = GpioPinSetDirection reg_file g p d (masked_file r t)"
  "masked_file r (value_event g p b # t) = GpioPinWrite reg_file g p b (masked_file r t)"
  by (simp_all add: direction_event_def value_event_def GpioPinSetDirection_def GpioPinWrite_def reg_file_def Let_def)

lemma pins_of_file:
  assumes "gpio_pin g p" "gpio_pin g' p'"
  shows "pin_value (masked_file r (direction_event g p d # t)) g' p' = pin_value (masked_file r t) g' p'"
    "pin_value (masked_file r (value_event g p b # t)) g' p' = (if g' = g \<and> p' = p then b else pin_value (masked_file r t) g' p')"
    "pin_is_output (masked_file r (direction_event g p d # t)) g' p' = (if g' = g \<and> p' = p then d = GPIO_PIN_OUTPUT else pin_is_output (masked_file r t) g' p')"
    "pin_is_output (masked_file r (value_event g p b # t)) g' p' = pin_is_output (masked_file r t) g' p'"
  using reg_file.pin_direction [OF assms(1) _ assms(2)] reg_file.pin_write [OF assms(1) _ assms(2)]
  by (simp_all add: file_pins del: masked_file.simps)

lemma port_in_gpio:
  assumes "gpio_pin g p"
  shows "gpio_reg (GPIO_BASE g + GPIO_SWPORT_DR p)" "gpio_reg (GPIO_BASE g + GPIO_SWPORT_DDR p)"
proof -
  have g: "unat g < 5" "unat p < 32"
    using assms by (simp_all add: gpio_pin_nat)
  have small: "port_offset (unat g) (unat p) < 2 ^ 32"
    using g(1) unfolding port_offset_def by auto
  have "unat (GPIO_BASE g + GPIO_SWPORT_DR p) = port_offset (unat g) (unat p)"
    "unat (GPIO_BASE g + GPIO_SWPORT_DDR p) = 8 + port_offset (unat g) (unat p)"
    unfolding GPIO_port [OF gpio_group [OF assms]] by (rule unat_of_nat_small, use small in simp)+
  then show "gpio_reg (GPIO_BASE g + GPIO_SWPORT_DR p)" "gpio_reg (GPIO_BASE g + GPIO_SWPORT_DDR p)"
    using g(1) unfolding gpio_reg_def word_le_nat_alt word_less_nat_alt by (auto simp: port_offset_def)
qed

lemma gpio_event_pins: "gpio_pin g p \<Longrightarrow> gpio_event (direction_event g p d)" "gpio_pin g p \<Longrightarrow> gpio_event (value_event g p b)"
  by (simp_all add: direction_event_def value_event_def port_in_gpio)

lemma pin_value_other:
  assumes "gpio_pin g p" "\<not> gpio_reg a"
  shows "pin_value (r(a := v)) g p = pin_value r g p"
  using port_in_gpio(1) [OF assms(1)] assms(2) by (auto simp: pin_value_def)

end
