(* ===== verification/Rock4d.thy ===== *)
theory Rock4d
  imports Board
begin

text \<open>
  The board library of the Radxa ROCK 4D (\<open>Platform/Radxa/ROCK4D/Library/RockchipPlatformLib\<close>).
\<close>

section \<open>Pins and clocks of the devices\<close>

definition sdmmc_clocks_rock4d :: "(u64 \<times> u32) list" where
  "sdmmc_clocks_rock4d = [(CRU_CLKGATE_CON 42, gate_open 0), (CRU_CLKGATE_CON 43, gate_open 1), (CRU_CLKGATE_CON 43, gate_open 2)]"

definition sdmmc_pins_rock4d :: "(u8 \<times> u8 \<times> u8) list" where
  "sdmmc_pins_rock4d =
     [(2, PA 0, 1), (2, PA 1, 1), (2, PA 2, 1), (2, PA 3, 1), (2, PA 4, 1), (2, PA 5, 1), (0, PB 6, 1), (0, PA 7, 1)]"

definition SdmmcIoMux_rock4d :: "'h mmio \<Rightarrow> 'h \<Rightarrow> 'h run" where
  "SdmmcIoMux_rock4d M s = pin_functions M sdmmc_pins_rock4d (writes M sdmmc_clocks_rock4d s)"

definition emmc_clocks_rock4d :: "(u64 \<times> u32) list" where
  "emmc_clocks_rock4d = map (\<lambda>b. (CRU_CLKGATE_CON 33, gate_open b)) [0, 1, 8, 9, 10, 11, 12]"

definition emmc_pins_rock4d :: "(u8 \<times> u8 \<times> u8) list" where
  "emmc_pins_rock4d =
     [(1, PA 0, 1), (1, PA 1, 1), (1, PA 2, 1), (1, PA 3, 1), (1, PA 4, 1), (1, PA 5, 1), (1, PA 6, 1), (1, PA 7, 1),
      (1, PB 0, 1), (1, PB 1, 1), (1, PB 2, 1), (1, PB 3, 1)]"

definition SdhciEmmcIoMux_rock4d :: "'h mmio \<Rightarrow> 'h \<Rightarrow> 'h run" where
  "SdhciEmmcIoMux_rock4d M s = pin_functions M emmc_pins_rock4d (writes M emmc_clocks_rock4d s)"

definition NorFspiIomux_rock4d :: "'h \<Rightarrow> 'h" where
  "NorFspiIomux_rock4d s = s"

definition NorFspiEnableClock_rock4d :: "'h mmio \<Rightarrow> 'h \<Rightarrow> 'h" where
  "NorFspiEnableClock_rock4d M s = writes M (map (\<lambda>b. (CRU_CLKGATE_CON 33, gate_open b)) [0, 1, 6, 7]) s"

definition gmac_pins_rock4d :: "(u8 \<times> u8 \<times> u8) list" where
  "gmac_pins_rock4d =
     [(3, PA 5, 3), (3, PA 6, 3), (3, PA 7, 3), (3, PB 2, 3), (3, PB 1, 3), (3, PB 3, 3), (3, PB 5, 3), (3, PB 4, 3),
      (3, PD 1, 3), (3, PB 6, 3), (3, PD 3, 3), (3, PD 2, 3), (3, PC 3, 3), (3, PC 2, 3)]"

definition GmacIomux_rock4d :: "'h mmio \<Rightarrow> u32 \<Rightarrow> 'h \<Rightarrow> 'h run" where
  "GmacIomux_rock4d M n s =
     (if n \<noteq> 0 then Some s else pin_functions M (gmac_pins_rock4d @ [(3, PA 4, 3)]) s)"

definition GmacIoPhyReset_rock4d :: "'h mmio \<Rightarrow> u32 \<Rightarrow> bool \<Rightarrow> 'h \<Rightarrow> 'h" where
  "GmacIoPhyReset_rock4d M n Enable s =
     (if n \<noteq> 0 then s
      else GpioPinWrite M 2 (PB 5) (\<not> Enable) (GpioPinSetDirection M 2 (PB 5) GPIO_PIN_OUTPUT s))"

definition I2cIomux_rock4d :: "'h mmio \<Rightarrow> u32 \<Rightarrow> 'h \<Rightarrow> 'h run" where
  "I2cIomux_rock4d M n s =
     (if n = 1 then pin_functions M [(0, PB 2, 11), (0, PB 3, 11)] s
      else if n = 2 then pin_functions M [(0, PB 7, 9), (0, PC 0, 9)] s
      else Some s)"

section \<open>USB\<close>

definition UsbPortPowerEnable_rock4d :: "'h mmio \<Rightarrow> 'h \<Rightarrow> 'h" where
  "UsbPortPowerEnable_rock4d M s = drive_pin M 0 (PD 3) True s"

text \<open>The reads at the end are for the log only.\<close>

definition Usb2PhyResume_rock4d :: "'h mmio \<Rightarrow> 'h \<Rightarrow> 'h" where
  "Usb2PhyResume_rock4d M s =
     (let s = writes M [(CRU_CLKGATE_CON 47, 0xFFFF0000), (USB2PHY0_BASE + 0x0010, 0x20000000), (USB2PHY1_BASE + 0x0010, 0x20000000),
                (CRU_SOFTRST_CON 28, 0x00030003)] s;
          s = MicroSecondDelay M s 10;
          s = writes M [(CRU_SOFTRST_CON 28, 0x00030000)] s;
          s = MicroSecondDelay M s 150;
          s = writes M [(USB2PHY0_BASE + 0x000C, 0x0F000900), (USB2PHY1_BASE + 0x000C, 0x0F000900),
                (USB2PHY0_BASE + 0x0010, 0x00180010), (USB2PHY1_BASE + 0x0010, 0x00180010),
                (USB2PHY0_BASE + 0x0000, 0x01FF0000), (USB2PHY1_BASE + 0x0000, 0x01FF0000),
                (CRU_SOFTRST_CON 28, 0x00030003)] s;
          s = MicroSecondDelay M s 10;
          s = writes M [(CRU_SOFTRST_CON 28, 0x00030000)] s;
          s = MicroSecondDelay M s 150;
          s = MicroSecondDelay M s 2000;
          s = drive_pin M 2 (PD 2) True s
      in log_reads M
           [USB2PHY0_BASE + 0x0000, USB2PHY0_BASE + 0x0010, USB2PHY0_BASE + 0x0080,
            USB2PHY1_BASE + 0x0000, USB2PHY1_BASE + 0x0010, USB2PHY1_BASE + 0x0080] s)"

section \<open>The PCIe slot\<close>

definition PcieIoInit_rock4d :: "'h mmio \<Rightarrow> u32 \<Rightarrow> 'h \<Rightarrow> 'h" where
  "PcieIoInit_rock4d M Segment s =
     (if Segment = 0
      then GpioPinSetDirection M 2 (PB 4) GPIO_PIN_OUTPUT (GpioPinSetDirection M 2 (PD 3) GPIO_PIN_OUTPUT s)
      else s)"

definition PciePowerEn_rock4d :: "'h mmio \<Rightarrow> u32 \<Rightarrow> bool \<Rightarrow> 'h \<Rightarrow> 'h" where
  "PciePowerEn_rock4d M Segment Enable s = (if Segment = 0 then GpioPinWrite M 2 (PD 3) Enable s else s)"

definition PciePeReset_rock4d :: "'h mmio \<Rightarrow> u32 \<Rightarrow> bool \<Rightarrow> 'h \<Rightarrow> 'h" where
  "PciePeReset_rock4d M Segment Enable s = (if Segment = 0 then GpioPinWrite M 2 (PB 4) (\<not> Enable) s else s)"

section \<open>HDMI\<close>

text \<open>The reads are for the log only.\<close>

definition HdmiTxIomux_rock4d :: "'h mmio \<Rightarrow> u32 \<Rightarrow> 'h \<Rightarrow> 'h" where
  "HdmiTxIomux_rock4d M n s =
     (if n = 0 then
        let s = drive_pin M 2 (PB 0) True s;
            s = MicroSecondDelay M s (50 * 1000);
            s = log_reads M [0x2604A440] s;
            s = writes M [(CRU_CLKGATE_CON 61, 0x3F0D0000 OR 0x0000), (CRU_CLKGATE_CON 62, 0x00030000 OR 0x0000),
                  (CRU_CLKGATE_CON 63, 0x700B0000 OR 0x0000), (CRU_CLKGATE_CON 64, 0x03800000 OR 0x0000)] s;
            s = log_reads M [PMU1CRU_BASE + 0x800 + 1 * 4] s;
            s = writes M [(PMU1CRU_BASE + 0x800, push_bit 16 (BIT 1) OR 0), (PMU1CRU_BASE + 0x800 + 1 * 4, push_bit 16 (BIT 13) OR 0),
                  (PMU1CRU_BASE + 0x800 + 5 * 4, push_bit 16 (BIT 0) OR 0)] s;
            s = log_reads M [PMU1CRU_BASE + 0x800 + 1 * 4] s;
            s = writes M [(0x26032000, push_bit 16 (BIT 6 OR BIT 5) OR (BIT 6 OR BIT 5))] s;
            s = MicroSecondDelay M s 100;
            s = writes M [(CRU_SOFTRST_CON 64, push_bit 16 (BIT 9) OR 0), (CRU_SOFTRST_CON 75, push_bit 16 (BIT 1) OR 0),
                  (PMU1CRU_BASE + 0xA04, push_bit 16 (BIT 13) OR 0)] s;
            s = MicroSecondDelay M s (5 * 1000);
            s = log_reads M [0x26040000 + 0xA440] s
        in s
      else s)"

section \<open>Fan, LEDs, start-up\<close>

definition PwmFanIoSetup_rock4d :: "'h \<Rightarrow> 'h" where "PwmFanIoSetup_rock4d s = s"
definition PwmFanSetSpeed_rock4d :: "u32 \<Rightarrow> 'h \<Rightarrow> 'h" where "PwmFanSetSpeed_rock4d Percentage s = s"

definition PlatformInitLeds_rock4d :: "'h mmio \<Rightarrow> 'h \<Rightarrow> 'h" where
  "PlatformInitLeds_rock4d M s = drive_pin M 0 (PC 4) True (drive_pin M 0 (PB 4) False s)"

definition PlatformSetStatusLed_rock4d :: "'h mmio \<Rightarrow> bool \<Rightarrow> 'h \<Rightarrow> 'h" where
  "PlatformSetStatusLed_rock4d M Enable s = GpioPinWrite M 0 (PB 4) Enable s"

definition PlatformEarlyInit_rock4d :: "'h mmio \<Rightarrow> 'h \<Rightarrow> 'h" where
  "PlatformEarlyInit_rock4d M s = drive_pin M 2 (PD 1) True (drive_pin M 2 (PC 7) True s)"

text \<open>The file GUID of the device tree for a compatibility mode.\<close>

definition PlatformGetDtbFileGuid_rock4d :: "u32 \<Rightarrow> efi_guid option" where
  "PlatformGetDtbFileGuid_rock4d CompatMode =
     (if CompatMode = FDT_COMPAT_MODE_VENDOR then Some (0xa1b2c3d4, 0xe5f6, 0x4a7b, [0x8c, 0x9d, 0x0e, 0x1f, 0x2a, 0x3b, 0x4c, 0x5d])
      else if CompatMode = FDT_COMPAT_MODE_MAINLINE then Some (0xb2c3d4e5, 0xf6a7, 0x4b8c, [0x9d, 0x0e, 0x1f, 0x2a, 0x3b, 0x4c, 0x5d, 0x6e])
      else None)"

end
