(* ===== verification/Cm5io.thy ===== *)
theory Cm5io
  imports Board
begin

text \<open>
  The board library of the ArmSoM CM5-IO (\<open>Platform/ArmSoM/CM5IO/Library/RockchipPlatformLib\<close>).
\<close>

section \<open>Pins and clocks of the devices\<close>

definition sdmmc_clocks_cm5io :: "(u64 \<times> u32) list" where
  "sdmmc_clocks_cm5io = [(CRU_CLKGATE_CON 42, gate_open 0), (CRU_CLKGATE_CON 43, gate_open 1), (CRU_CLKGATE_CON 43, gate_open 2)]"

definition sdmmc_pins_cm5io :: "(u8 \<times> u8 \<times> u8) list" where
  "sdmmc_pins_cm5io =
     [(2, PA 0, 1), (2, PA 1, 1), (2, PA 2, 1), (2, PA 3, 1), (2, PA 4, 1), (2, PA 5, 1), (0, PB 6, 1), (0, PA 7, 1)]"

definition SdmmcIoMux_cm5io :: "'h mmio \<Rightarrow> 'h \<Rightarrow> 'h run" where
  "SdmmcIoMux_cm5io M s = pin_functions M sdmmc_pins_cm5io (writes M sdmmc_clocks_cm5io s)"

definition emmc_clocks_cm5io :: "(u64 \<times> u32) list" where
  "emmc_clocks_cm5io = map (\<lambda>b. (CRU_CLKGATE_CON 33, gate_open b)) [0, 1, 8, 9, 10, 11, 12]"

definition emmc_pins_cm5io :: "(u8 \<times> u8 \<times> u8) list" where
  "emmc_pins_cm5io =
     [(1, PA 0, 1), (1, PA 1, 1), (1, PA 2, 1), (1, PA 3, 1), (1, PA 4, 1), (1, PA 5, 1), (1, PA 6, 1), (1, PA 7, 1),
      (1, PB 0, 1), (1, PB 1, 1), (1, PB 2, 1), (1, PB 3, 1)]"

definition SdhciEmmcIoMux_cm5io :: "'h mmio \<Rightarrow> 'h \<Rightarrow> 'h run" where
  "SdhciEmmcIoMux_cm5io M s = pin_functions M emmc_pins_cm5io (writes M emmc_clocks_cm5io s)"

definition NorFspiIomux_cm5io :: "'h \<Rightarrow> 'h" where
  "NorFspiIomux_cm5io s = s"

definition NorFspiEnableClock_cm5io :: "'h mmio \<Rightarrow> 'h \<Rightarrow> 'h" where
  "NorFspiEnableClock_cm5io M s = writes M (map (\<lambda>b. (CRU_CLKGATE_CON 33, gate_open b)) [0, 1, 6, 7]) s"

definition gmac_pins_cm5io :: "(u8 \<times> u8 \<times> u8) list" where
  "gmac_pins_cm5io =
     [(3, PA 5, 3), (3, PA 6, 3), (3, PA 7, 3), (3, PB 2, 3), (3, PB 1, 3), (3, PB 3, 3), (3, PB 5, 3), (3, PB 4, 3),
      (3, PD 1, 3), (3, PB 6, 3), (3, PD 3, 3), (3, PD 2, 3), (3, PC 3, 3), (3, PC 2, 3)]"

text \<open>The reads of the clock registers before the change are for the log only.\<close>

definition GmacIomux_cm5io :: "'h mmio \<Rightarrow> u32 \<Rightarrow> 'h \<Rightarrow> 'h run" where
  "GmacIomux_cm5io M n s =
     (if n \<noteq> 0 then Some s
      else do {
        s \<leftarrow> pin_functions M gmac_pins_cm5io s;
        let s = log_reads M [CRU_CLKSEL_CON 36, CRU_CLKGATE_CON 5] s;
        let s = writes M [(CRU_CLKSEL_CON 36, push_bit 16 0xFF OR push_bit 7 1 OR (40 - 1)), (CRU_CLKGATE_CON 5, gate_open 10)] s;
        pin_functions M [(3, PA 4, 3)] s
      })"

definition GmacIoPhyReset_cm5io :: "'h mmio \<Rightarrow> u32 \<Rightarrow> bool \<Rightarrow> 'h \<Rightarrow> 'h" where
  "GmacIoPhyReset_cm5io M n Enable s =
     (if n \<noteq> 0 then s
      else GpioPinWrite M 2 (PB 3) (\<not> Enable) (GpioPinSetDirection M 2 (PB 3) GPIO_PIN_OUTPUT s))"

definition I2cIomux_cm5io :: "'h mmio \<Rightarrow> u32 \<Rightarrow> 'h \<Rightarrow> 'h run" where
  "I2cIomux_cm5io M n s =
     (if n = 1 then pin_functions M [(0, PB 2, 11), (0, PB 3, 11)] s
      else if n = 2 then pin_functions M [(0, PB 7, 9), (0, PC 0, 9)] s
      else Some s)"

section \<open>USB\<close>

definition UsbPortPowerEnable_cm5io :: "'h mmio \<Rightarrow> 'h \<Rightarrow> 'h" where
  "UsbPortPowerEnable_cm5io M s = drive_pin M 4 (PB 0) True s"

definition Usb2PhyResume_cm5io :: "'h mmio \<Rightarrow> 'h \<Rightarrow> 'h" where
  "Usb2PhyResume_cm5io M s =
     (let s = writes M [(CRU_CLKGATE_CON 47, 0xFFFF0000), (USB2PHY0_BASE + 0x0010, 0x20000000), (USB2PHY1_BASE + 0x0010, 0x20000000),
                (CRU_SOFTRST_CON 28, 0x00030003)] s;
          s = MicroSecondDelay M s 10;
          s = writes M [(CRU_SOFTRST_CON 28, 0x00030000)] s;
          s = MicroSecondDelay M s 150;
          s = writes M [(USB2PHY0_BASE + 0x000C, 0x0F000900), (USB2PHY1_BASE + 0x000C, 0x0F000900),
                (USB2PHY0_BASE + 0x0010, 0x00180010), (USB2PHY1_BASE + 0x0010, 0x00180010),
                (USB2PHY0_BASE + 0x0000, 0x01FF0000), (USB2PHY1_BASE + 0x0000, 0x01FF0000),
                (CRU_SOFTRST_CON 28, 0x00030003)] s;
          s = MicroSecondDelay M s 10;
          s = writes M [(CRU_SOFTRST_CON 28, 0x00030000)] s;
          s = MicroSecondDelay M s 150;
          s = MicroSecondDelay M s 2000;
          s = drive_pin M 2 (PB 6) True s
      in s)"

section \<open>The PCIe slot\<close>

definition PcieIoInit_cm5io :: "'h mmio \<Rightarrow> u32 \<Rightarrow> 'h \<Rightarrow> 'h" where
  "PcieIoInit_cm5io M Segment s =
     (if Segment = 0
      then GpioPinSetDirection M 2 (PB 1) GPIO_PIN_OUTPUT (GpioPinSetDirection M 0 (PC 3) GPIO_PIN_OUTPUT s)
      else s)"

definition PciePowerEn_cm5io :: "'h mmio \<Rightarrow> u32 \<Rightarrow> bool \<Rightarrow> 'h \<Rightarrow> 'h" where
  "PciePowerEn_cm5io M Segment Enable s = (if Segment = 0 then GpioPinWrite M 0 (PC 3) Enable s else s)"

definition PciePeReset_cm5io :: "'h mmio \<Rightarrow> u32 \<Rightarrow> bool \<Rightarrow> 'h \<Rightarrow> 'h" where
  "PciePeReset_cm5io M Segment Enable s = (if Segment = 0 then GpioPinWrite M 2 (PB 1) (\<not> Enable) s else s)"

section \<open>HDMI\<close>

definition HdmiTxIomux_cm5io :: "'h mmio \<Rightarrow> u32 \<Rightarrow> 'h \<Rightarrow> 'h" where
  "HdmiTxIomux_cm5io M n s =
     (if n = 0 then
        let s = MicroSecondDelay M s (50 * 1000);
            s = writes M [(CRU_CLKGATE_CON 61, 0x3F0D0000 OR 0x0000), (CRU_CLKGATE_CON 62, 0x00030000 OR 0x0000),
                  (CRU_CLKGATE_CON 63, 0x700B0000 OR 0x0000), (CRU_CLKGATE_CON 64, 0x03800000 OR 0x0000),
                  (PMU1CRU_BASE + 0x800, push_bit 16 (BIT 1) OR 0), (PMU1CRU_BASE + 0x800 + 4, push_bit 16 (BIT 13) OR 0),
                  (PMU1CRU_BASE + 0x800 + 20, push_bit 16 (BIT 0) OR 0),
                  (0x26032000, push_bit 16 (BIT 6 OR BIT 5) OR (BIT 6 OR BIT 5))] s;
            s = MicroSecondDelay M s 100;
            s = writes M [(CRU_SOFTRST_CON 64, push_bit 16 (BIT 9) OR 0), (CRU_SOFTRST_CON 75, push_bit 16 (BIT 1) OR 0),
                  (PMU1CRU_BASE + 0xA04, push_bit 16 (BIT 13) OR 0)] s;
            s = MicroSecondDelay M s (5 * 1000)
        in s
      else s)"

section \<open>Fan, LEDs, start-up\<close>

definition PwmFanIoSetup_cm5io :: "'h \<Rightarrow> 'h" where "PwmFanIoSetup_cm5io s = s"
definition PwmFanSetSpeed_cm5io :: "u32 \<Rightarrow> 'h \<Rightarrow> 'h" where "PwmFanSetSpeed_cm5io Percentage s = s"

definition PlatformInitLeds_cm5io :: "'h mmio \<Rightarrow> 'h \<Rightarrow> 'h" where
  "PlatformInitLeds_cm5io M s = drive_pin M 2 (PD 1) False (drive_pin M 2 (PD 0) False (drive_pin M 0 (PB 4) False s))"

definition PlatformSetStatusLed_cm5io :: "'h mmio \<Rightarrow> bool \<Rightarrow> 'h \<Rightarrow> 'h" where
  "PlatformSetStatusLed_cm5io M Enable s =
     GpioPinWrite M 2 (PD 1) False (GpioPinWrite M 2 (PD 0) Enable (GpioPinWrite M 0 (PB 4) Enable s))"

definition PlatformEarlyInit_cm5io :: "'h mmio \<Rightarrow> 'h \<Rightarrow> 'h" where
  "PlatformEarlyInit_cm5io M s =
     GpioPinSetDirection M 0 (PB 0) GPIO_PIN_INPUT (drive_pin M 1 (PC 7) True (drive_pin M 1 (PC 6) True s))"

text \<open>The file GUID of the device tree for a compatibility mode.\<close>

definition PlatformGetDtbFileGuid_cm5io :: "u32 \<Rightarrow> efi_guid option" where
  "PlatformGetDtbFileGuid_cm5io CompatMode =
     (if CompatMode = FDT_COMPAT_MODE_VENDOR then Some (0xe4f5a6b7, 0xc8d9, 0x4e0f, [0x1a, 0x2b, 0x3c, 0x4d, 0x5e, 0x6f, 0x7a, 0x8b])
      else if CompatMode = FDT_COMPAT_MODE_MAINLINE then Some (0xf5a6b7c8, 0xd9e0, 0x4f1a, [0x2b, 0x3c, 0x4d, 0x5e, 0x6f, 0x7a, 0x8b, 0x9c])
      else None)"

end
