(* ===== verification/PciHost.thy ===== *)
theory PciHost
  imports Board
begin

text \<open>
  The PCIe host bridge set-up (\<open>Rk3576PciHostBridgeLib/PciHostBridgeInit.c\<close>): clocks, power domain,
  resets, root complex mode, address translation, link training.
\<close>

section \<open>Registers\<close>

definition PCIE_SEGMENT_PCIE0 :: u32 where "PCIE_SEGMENT_PCIE0 = 0"
definition PCIE_SEGMENT_PCIE1 :: u32 where "PCIE_SEGMENT_PCIE1 = 1"
definition NUM_PCIE_CONTROLLER :: u32 where "NUM_PCIE_CONTROLLER = 2"

definition PCIE_DBI_BASE :: "u32 \<Rightarrow> u64" where "PCIE_DBI_BASE Segment = 0x22000000 + ucast Segment * 0x400000"
definition PCIE_APB_BASE :: "u32 \<Rightarrow> u64" where "PCIE_APB_BASE Segment = 0x2a200000 + ucast Segment * 0x10000"
definition PCIE_CFG_BASE :: "u32 \<Rightarrow> u64" where "PCIE_CFG_BASE Segment = 0x20000000 + ucast Segment * 0x1000000"
definition PCIE_MEM32_BASE :: "u32 \<Rightarrow> u64" where "PCIE_MEM32_BASE Segment = 0x20200000 + ucast Segment * 0x1000000"
definition PCIE_MEM32_SIZE :: u64 where "PCIE_MEM32_SIZE = 0x00E00000"

definition PCIE_CLIENT_GENERAL_CON :: u64 where "PCIE_CLIENT_GENERAL_CON = 0x0000"
definition DEVICE_TYPE_MASK :: u32 where "DEVICE_TYPE_MASK = push_bit 4 0xF"
definition DEVICE_TYPE_RC :: u32 where "DEVICE_TYPE_RC = push_bit 4 4"
definition LINK_REQ_RST_GRT :: u32 where "LINK_REQ_RST_GRT = BIT 3"
definition LTSSM_ENABLE :: u32 where "LTSSM_ENABLE = BIT 2"
definition PCIE_CLIENT_INTR_MASK_LEGACY :: u64 where "PCIE_CLIENT_INTR_MASK_LEGACY = 0x001C"
definition PCIE_CLIENT_POWER_CON :: u64 where "PCIE_CLIENT_POWER_CON = 0x002C"
definition APP_CLK_REQ_N :: u32 where "APP_CLK_REQ_N = BIT 0"
definition CLK_REQ_N_BYPASS :: u32 where "CLK_REQ_N_BYPASS = BIT 12"
definition CLK_REQ_N_CON :: u32 where "CLK_REQ_N_CON = BIT 13"
definition PCIE_CLIENT_HOT_RESET_CTRL :: u64 where "PCIE_CLIENT_HOT_RESET_CTRL = 0x0180"
definition APP_LSSTM_ENABLE_ENHANCE :: u32 where "APP_LSSTM_ENABLE_ENHANCE = BIT 4"
definition PCIE_CLIENT_LTSSM_STATUS :: u64 where "PCIE_CLIENT_LTSSM_STATUS = 0x0300"
definition RDLH_LINK_UP :: u32 where "RDLH_LINK_UP = BIT 17"
definition SMLH_LINK_UP :: u32 where "SMLH_LINK_UP = BIT 16"

definition PCI_DEVICE_CLASS :: u64 where "PCI_DEVICE_CLASS = 0x000A"
definition PCI_BAR0 :: u64 where "PCI_BAR0 = 0x0010"
definition PCI_BAR1 :: u64 where "PCI_BAR1 = 0x0014"
definition PCIE_LINK_CAPABILITY :: u64 where "PCIE_LINK_CAPABILITY = 0x007C"
definition PCIE_LINK_STATUS :: u64 where "PCIE_LINK_STATUS = 0x0080"
definition LINK_STATUS_WIDTH_SHIFT :: nat where "LINK_STATUS_WIDTH_SHIFT = 20"
definition LINK_STATUS_WIDTH_MASK :: u32 where "LINK_STATUS_WIDTH_MASK = push_bit LINK_STATUS_WIDTH_SHIFT 0xF"
definition LINK_STATUS_SPEED_SHIFT :: nat where "LINK_STATUS_SPEED_SHIFT = 16"
definition LINK_STATUS_SPEED_MASK :: u32 where "LINK_STATUS_SPEED_MASK = push_bit LINK_STATUS_SPEED_SHIFT 0xF"
definition PCIE_LINK_CTL_2 :: u64 where "PCIE_LINK_CTL_2 = 0x00A0"
definition PL_PORT_LINK_CTRL_OFF :: u64 where "PL_PORT_LINK_CTRL_OFF = 0x0710"
definition LINK_CAPABLE_SHIFT :: nat where "LINK_CAPABLE_SHIFT = 16"
definition LINK_CAPABLE_MASK :: u32 where "LINK_CAPABLE_MASK = push_bit LINK_CAPABLE_SHIFT 0x3F"
definition FAST_LINK_MODE :: u32 where "FAST_LINK_MODE = BIT 7"
definition DLL_LINK_EN :: u32 where "DLL_LINK_EN = BIT 5"
definition PL_GEN2_CTRL_OFF :: u64 where "PL_GEN2_CTRL_OFF = 0x080C"
definition DIRECT_SPEED_CHANGE :: u32 where "DIRECT_SPEED_CHANGE = BIT 17"
definition NUM_OF_LANES_SHIFT :: nat where "NUM_OF_LANES_SHIFT = 8"
definition NUM_OF_LANES_MASK :: u32 where "NUM_OF_LANES_MASK = push_bit NUM_OF_LANES_SHIFT 0x1F"
definition PL_MISC_CONTROL_1_OFF :: u64 where "PL_MISC_CONTROL_1_OFF = 0x08BC"
definition DBI_RO_WR_EN :: u32 where "DBI_RO_WR_EN = BIT 0"
definition PCIE_TYPE0_HDR_DBI2_OFFSET :: u64 where "PCIE_TYPE0_HDR_DBI2_OFFSET = 0x100000"
definition PCIE_LINK_TRAIN_RETRIES :: nat where "PCIE_LINK_TRAIN_RETRIES = 3"

definition IATU_REGION_CTRL_OUTBOUND :: "u32 \<Rightarrow> u64" where
  "IATU_REGION_CTRL_OUTBOUND n = ucast (0x300000 + push_bit 9 n)"

definition IATU_TYPE_MEM :: u32 where "IATU_TYPE_MEM = 0"
definition IATU_TYPE_CFG0 :: u32 where "IATU_TYPE_CFG0 = 4"
definition IATU_TYPE_CFG1 :: u32 where "IATU_TYPE_CFG1 = 5"
definition IATU_ENABLE :: u32 where "IATU_ENABLE = BIT 31"
definition IATU_CFG_SHIFT_MODE :: u32 where "IATU_CFG_SHIFT_MODE = BIT 28"

definition PHP_PMU_PWR_CON :: u64 where "PHP_PMU_PWR_CON = 0x27380000 + 0x210"
definition PHP_PMU_REPAIR_STATUS :: u64 where "PHP_PMU_REPAIR_STATUS = 0x27380000 + 0x570"
definition PHP_PMU_IDLE_REQ :: u64 where "PHP_PMU_IDLE_REQ = 0x27380000 + 0x110"
definition PHP_PMU_IDLE_ACK :: u64 where "PHP_PMU_IDLE_ACK = 0x27380000 + 0x120"
definition PHP_PMU_IDLE_STS :: u64 where "PHP_PMU_IDLE_STS = 0x27380000 + 0x128"
definition PHP_PMU_PWR_BIT :: u32 where "PHP_PMU_PWR_BIT = BIT 9"
definition PHP_PMU_IDLE_BIT :: u32 where "PHP_PMU_IDLE_BIT = BIT 15"

definition PCI_CLASS_BRIDGE :: u16 where "PCI_CLASS_BRIDGE = 0x06"
definition PCI_CLASS_BRIDGE_P2P :: u16 where "PCI_CLASS_BRIDGE_P2P = 0x04"
definition SIZE_1MB :: u64 where "SIZE_1MB = 0x100000"
definition SIZE_64KB :: u64 where "SIZE_64KB = 0x10000"

section \<open>Steps\<close>

definition COMBO_PHY_MODE_PCIE :: u32 where "COMBO_PHY_MODE_PCIE = 1"

definition IsPcieNumEnabled :: "u32 \<Rightarrow> u32 \<Rightarrow> u32 \<Rightarrow> bool" where
  "IsPcieNumEnabled ComboPhy0Mode ComboPhy1Mode PcieNum =
     (if PcieNum = PCIE_SEGMENT_PCIE0 then ComboPhy0Mode = COMBO_PHY_MODE_PCIE
      else if PcieNum = PCIE_SEGMENT_PCIE1 then ComboPhy1Mode = COMBO_PHY_MODE_PCIE
      else False)"

definition CRU_UNGATE :: "nat \<Rightarrow> nat \<Rightarrow> u64 \<times> u32" where
  "CRU_UNGATE n b = (CRU_CLKGATE_CON n, push_bit (b + 16) 1)"

definition PciSetupClocks :: "'h mmio \<Rightarrow> u32 \<Rightarrow> 'h \<Rightarrow> 'h" where
  "PciSetupClocks M Segment s =
     (let s = log_reads M [CRU_CLKGATE_CON 34, CRU_CLKGATE_CON 35] s;
          s = writes M [CRU_UNGATE 34 7] s;
          s = (if Segment = PCIE_SEGMENT_PCIE0
               then writes M [CRU_UNGATE 34 14, CRU_UNGATE 34 15, CRU_UNGATE 35 0, CRU_UNGATE 35 1] s
               else writes M [CRU_UNGATE 36 8, CRU_UNGATE 36 9, CRU_UNGATE 36 10, CRU_UNGATE 36 11] s)
      in log_reads M [CRU_CLKGATE_CON 34, CRU_CLKGATE_CON 35] s)"

definition PciSetRcMode :: "'h mmio \<Rightarrow> u64 \<Rightarrow> 'h \<Rightarrow> 'h" where
  "PciSetRcMode M ApbBase s =
     writes M
      [(ApbBase + PCIE_CLIENT_INTR_MASK_LEGACY, 0xFFFF0000),
       (ApbBase + PCIE_CLIENT_HOT_RESET_CTRL, push_bit 16 APP_LSSTM_ENABLE_ENHANCE OR APP_LSSTM_ENABLE_ENHANCE),
       (ApbBase + PCIE_CLIENT_POWER_CON, push_bit 16 APP_CLK_REQ_N),
       (ApbBase + PCIE_CLIENT_POWER_CON, push_bit 16 (CLK_REQ_N_BYPASS OR CLK_REQ_N_CON) OR CLK_REQ_N_BYPASS),
       (ApbBase + PCIE_CLIENT_GENERAL_CON, push_bit 16 DEVICE_TYPE_MASK OR DEVICE_TYPE_RC)] s"

definition PciSetupBars :: "'h mmio \<Rightarrow> u64 \<Rightarrow> 'h \<Rightarrow> 'h" where
  "PciSetupBars M DbiBase s =
     writes M [(DbiBase + PCIE_TYPE0_HDR_DBI2_OFFSET + PCI_BAR0, 0), (DbiBase + PCIE_TYPE0_HDR_DBI2_OFFSET + PCI_BAR1, 0)]
       (MmioWrite16 M s (DbiBase + PCI_DEVICE_CLASS) (push_bit 8 PCI_CLASS_BRIDGE OR PCI_CLASS_BRIDGE_P2P))"

definition PciSetupLinkSpeed :: "'h mmio \<Rightarrow> u64 \<Rightarrow> u32 \<Rightarrow> u32 \<Rightarrow> 'h \<Rightarrow> 'h" where
  "PciSetupLinkSpeed M DbiBase Speed NumLanes s =
     (let s = MmioAndThenOr32 M s (DbiBase + PCIE_LINK_CTL_2) (NOT 0xF) Speed;
          s = MmioAndThenOr32 M s (DbiBase + PCIE_LINK_CAPABILITY) (NOT 0xF) Speed;
          s = MmioAndThenOr32 M s (DbiBase + PL_PORT_LINK_CTRL_OFF) (NOT (LINK_CAPABLE_MASK OR FAST_LINK_MODE))
                (DLL_LINK_EN OR push_bit LINK_CAPABLE_SHIFT (NumLanes * 2 - 1))
      in MmioAndThenOr32 M s (DbiBase + PL_GEN2_CTRL_OFF) (NOT NUM_OF_LANES_MASK) (push_bit NUM_OF_LANES_SHIFT NumLanes))"

definition PciGetLinkSpeedWidth :: "'h mmio \<Rightarrow> u64 \<Rightarrow> 'h \<Rightarrow> (u32 \<times> u32) \<times> 'h" where
  "PciGetLinkSpeedWidth M DbiBase s =
     (let (Val, s) = MmioRead32 M s (DbiBase + PCIE_LINK_STATUS)
      in ((drop_bit LINK_STATUS_SPEED_SHIFT (Val AND LINK_STATUS_SPEED_MASK),
           drop_bit LINK_STATUS_WIDTH_SHIFT (Val AND LINK_STATUS_WIDTH_MASK)), s))"

definition PciEnableLtssm :: "'h mmio \<Rightarrow> u64 \<Rightarrow> bool \<Rightarrow> 'h \<Rightarrow> 'h" where
  "PciEnableLtssm M ApbBase Enable s =
     (let Val = push_bit 16 (LINK_REQ_RST_GRT OR LTSSM_ENABLE) OR LINK_REQ_RST_GRT;
          Val = (if Enable then Val OR LTSSM_ENABLE else Val)
      in MmioWrite32 M s (ApbBase + PCIE_CLIENT_GENERAL_CON) Val)"

definition PciIsLinkUp :: "'h mmio \<Rightarrow> u64 \<Rightarrow> 'h \<Rightarrow> bool \<times> 'h" where
  "PciIsLinkUp M ApbBase s =
     (let (Val, s) = MmioRead32 M s (ApbBase + PCIE_CLIENT_LTSSM_STATUS)
      in (Val AND RDLH_LINK_UP \<noteq> 0 \<and> Val AND SMLH_LINK_UP \<noteq> 0, s))"

definition PciSetupAtu :: "'h mmio \<Rightarrow> u64 \<Rightarrow> u32 \<Rightarrow> u32 \<Rightarrow> u64 \<Rightarrow> u64 \<Rightarrow> u64 \<Rightarrow> 'h \<Rightarrow> 'h" where
  "PciSetupAtu M DbiBase Index Type CpuBase BusBase Length s =
     (let Ctrl2Off = (if Type = IATU_TYPE_CFG0 \<or> Type = IATU_TYPE_CFG1 then IATU_ENABLE OR IATU_CFG_SHIFT_MODE else IATU_ENABLE);
          Region = DbiBase + IATU_REGION_CTRL_OUTBOUND Index
      in (\<lambda>s. MicroSecondDelay M s 10000)
           (writes M
             [(Region + 0x008, ucast CpuBase), (Region + 0x00C, ucast (drop_bit 32 CpuBase)),
              (Region + 0x010, ucast (CpuBase + Length - 1)),
              (Region + 0x014, ucast BusBase), (Region + 0x018, ucast (drop_bit 32 BusBase)),
              (Region + 0x000, Type), (Region + 0x004, Ctrl2Off)] s))"

definition PciValidateCfg0 :: "'h mmio \<Rightarrow> u64 \<Rightarrow> 'h \<Rightarrow> u32 \<times> 'h" where
  "PciValidateCfg0 M Cfg0Base s =
     (let (Cfg0, s) = MmioRead32 M s Cfg0Base in (Cfg0, log_reads M [Cfg0Base + 0x8000] s))"

text \<open>
  The polling loops count a timeout down and leave it when the register satisfies a condition; the
  result is the count that is left.
\<close>

fun poll_reg :: "'h mmio \<Rightarrow> u64 \<Rightarrow> (u32 \<Rightarrow> bool) \<Rightarrow> nat \<Rightarrow> 'h \<Rightarrow> nat \<times> 'h" where
  "poll_reg M a P 0 s = (0, s)"
| "poll_reg M a P (Suc Timeout) s =
     (let (v, s) = MmioRead32 M s a in if P v then (Suc Timeout, s) else poll_reg M a P Timeout s)"

definition POWER_DOMAIN_POLLS :: nat where "POWER_DOMAIN_POLLS = 100000"

definition PciPhpPowerDomain :: "'h mmio \<Rightarrow> 'h \<Rightarrow> 'h" where
  "PciPhpPowerDomain M s =
     (let s = log_reads M [PHP_PMU_PWR_CON, PHP_PMU_REPAIR_STATUS, PHP_PMU_IDLE_REQ, PHP_PMU_IDLE_ACK, PHP_PMU_IDLE_STS] s;
          (v, s) = MmioRead32 M s PHP_PMU_REPAIR_STATUS;
          s = (if v AND PHP_PMU_PWR_BIT = 0
               then let s = MmioWrite32 M s PHP_PMU_PWR_CON (push_bit 16 PHP_PMU_PWR_BIT OR 0);
                        (Timeout, s) = poll_reg M PHP_PMU_REPAIR_STATUS (\<lambda>v. v AND PHP_PMU_PWR_BIT \<noteq> 0) POWER_DOMAIN_POLLS s
                    in if Timeout = 0 then log_reads M [PHP_PMU_REPAIR_STATUS] s else s
               else s);
          s = MmioWrite32 M s PHP_PMU_IDLE_REQ (push_bit 16 PHP_PMU_IDLE_BIT OR 0);
          (Timeout, s) = poll_reg M PHP_PMU_IDLE_ACK (\<lambda>v. v AND PHP_PMU_IDLE_BIT = 0) POWER_DOMAIN_POLLS s;
          s = (if Timeout = 0 then log_reads M [PHP_PMU_IDLE_ACK] s else s);
          (Timeout, s) = poll_reg M PHP_PMU_IDLE_STS (\<lambda>v. v AND PHP_PMU_IDLE_BIT = 0) POWER_DOMAIN_POLLS s;
          s = (if Timeout = 0 then log_reads M [PHP_PMU_IDLE_STS] s else s)
      in log_reads M [PHP_PMU_PWR_CON, PHP_PMU_REPAIR_STATUS, PHP_PMU_IDLE_REQ, PHP_PMU_IDLE_STS] s)"

text \<open>The reset register of a segment and the word that asserts or releases its two resets.\<close>

definition pcie_reset_reg :: "u32 \<Rightarrow> u64" where
  "pcie_reset_reg Segment = (if Segment = PCIE_SEGMENT_PCIE0 then CRU_SOFTRST_CON 34 else CRU_SOFTRST_CON 36)"

definition pcie_reset_word :: "u32 \<Rightarrow> bool \<Rightarrow> u32" where
  "pcie_reset_word Segment Assert =
     (let (i, j) = (if Segment = PCIE_SEGMENT_PCIE0 then (13, 15) else (7, 9))
      in push_bit (i + 16) 1 OR push_bit (j + 16) 1 OR (if Assert then push_bit i 1 OR push_bit j 1 else 0))"

definition PciSetupResets :: "'h mmio \<Rightarrow> u32 \<Rightarrow> 'h \<Rightarrow> 'h" where
  "PciSetupResets M Segment s =
     (let s = log_reads M [pcie_reset_reg Segment] s;
          s = MmioWrite32 M s (pcie_reset_reg Segment) (pcie_reset_word Segment True);
          s = log_reads M [pcie_reset_reg Segment] s;
          s = MicroSecondDelay M s 1000;
          s = MmioWrite32 M s (pcie_reset_reg Segment) (pcie_reset_word Segment False);
          s = log_reads M [pcie_reset_reg Segment] s;
          s = MicroSecondDelay M s 1000
      in log_reads M [PCIE_DBI_BASE Segment] s)"

section \<open>Training\<close>

text \<open>The calls into the board library.\<close>

record 'h pcie_ops =
  PcieIoInit :: "u32 \<Rightarrow> 'h \<Rightarrow> 'h"
  PciePowerEn :: "u32 \<Rightarrow> bool \<Rightarrow> 'h \<Rightarrow> 'h"
  PciePeReset :: "u32 \<Rightarrow> bool \<Rightarrow> 'h \<Rightarrow> 'h"

fun link_wait :: "'h mmio \<Rightarrow> u64 \<Rightarrow> nat \<Rightarrow> 'h \<Rightarrow> bool \<times> 'h" where
  "link_wait M ApbBase 0 s = (False, s)"
| "link_wait M ApbBase (Suc Retry) s =
     (let (up, s) = PciIsLinkUp M ApbBase s
      in if up then (True, s) else link_wait M ApbBase Retry (MicroSecondDelay M s 10000))"

definition train_attempt :: "'h mmio \<Rightarrow> 'h pcie_ops \<Rightarrow> u32 \<Rightarrow> 'h \<Rightarrow> bool \<times> 'h" where
  "train_attempt M B Segment s =
     (let s = PciePeReset B Segment True s;
          s = PciEnableLtssm M (PCIE_APB_BASE Segment) False s;
          s = PciEnableLtssm M (PCIE_APB_BASE Segment) True s;
          s = MicroSecondDelay M s 100000;
          s = PciePeReset B Segment False s
      in link_wait M (PCIE_APB_BASE Segment) 50 s)"

fun train :: "'h mmio \<Rightarrow> 'h pcie_ops \<Rightarrow> u32 \<Rightarrow> nat \<Rightarrow> 'h \<Rightarrow> bool \<times> 'h" where
  "train M B Segment 0 s = (False, s)"
| "train M B Segment (Suc Attempts) s =
     (let (up, s) = train_attempt M B Segment s in if up then (True, s) else train M B Segment Attempts s)"

text \<open>Everything before the training.\<close>

definition prepare_host :: "'h mmio \<Rightarrow> 'h pcie_ops \<Rightarrow> u32 \<Rightarrow> 'h \<Rightarrow> 'h" where
  "prepare_host M B Segment s =
     (let s = PcieIoInit B Segment s;
          s = PciePowerEn B Segment True s;
          s = PciSetupClocks M Segment s;
          s = PciPhpPowerDomain M s
      in PciSetupResets M Segment s)"

definition configure_host :: "'h mmio \<Rightarrow> u32 \<Rightarrow> 'h \<Rightarrow> 'h" where
  "configure_host M Segment s =
     (let ApbBase = PCIE_APB_BASE Segment;
          DbiBase = PCIE_DBI_BASE Segment;
          CfgBase = PCIE_CFG_BASE Segment;
          s = log_reads M [ApbBase + PCIE_CLIENT_LTSSM_STATUS] s;
          s = PciSetRcMode M ApbBase s;
          s = log_reads M [ApbBase + PCIE_CLIENT_GENERAL_CON] s;
          s = MmioOr32 M s (DbiBase + PL_MISC_CONTROL_1_OFF) DBI_RO_WR_EN;
          s = PciSetupBars M DbiBase s;
          s = PciSetupAtu M DbiBase 0 IATU_TYPE_CFG0 (CfgBase + SIZE_1MB) (CfgBase + SIZE_1MB) SIZE_64KB s;
          s = PciSetupAtu M DbiBase 1 IATU_TYPE_MEM (PCIE_MEM32_BASE Segment) (PCIE_MEM32_BASE Segment) PCIE_MEM32_SIZE s;
          s = PciSetupLinkSpeed M DbiBase 2 1 s;
          s = MmioOr32 M s (DbiBase + PL_GEN2_CTRL_OFF) DIRECT_SPEED_CHANGE
      in MmioAnd32 M s (DbiBase + PL_MISC_CONTROL_1_OFF) (NOT DBI_RO_WR_EN))"

definition InitializePciHost :: "'h mmio \<Rightarrow> 'h pcie_ops \<Rightarrow> u32 \<Rightarrow> 'h \<Rightarrow> efi_status \<times> 'h" where
  "InitializePciHost M B Segment s =
     (if Segment \<ge> NUM_PCIE_CONTROLLER then (Error EFI_INVALID_PARAMETER, s)
      else
        let s = prepare_host M B Segment s;
            s = configure_host M Segment s;
            (up, s) = train M B Segment PCIE_LINK_TRAIN_RETRIES s
        in if \<not> up then (Error EFI_TIMEOUT, MmioWrite32 M s (pcie_reset_reg Segment) (pcie_reset_word Segment True))
           else
             let s = log_reads M [PCIE_APB_BASE Segment + PCIE_CLIENT_LTSSM_STATUS, PCIE_APB_BASE Segment + PCIE_CLIENT_LTSSM_STATUS] s;
                 (_, s) = PciGetLinkSpeedWidth M (PCIE_DBI_BASE Segment) s;
                 (_, s) = PciValidateCfg0 M (PCIE_CFG_BASE Segment + SIZE_1MB) s
             in (EFI_SUCCESS, s))"

end
