(* ===== verification/PciHostLog.thy ===== *)
theory PciHostLog
  imports PciHost
begin

text \<open>
  What the parts of the host bridge set-up add to the log of any device, and the interface through
  which the host bridge uses the board library.
\<close>

section \<open>The slot, as the host bridge sees it\<close>

text \<open>The time since the link state machine was last enabled.\<close>

fun since_ltssm :: "u64 \<Rightarrow> io_event list \<Rightarrow> nat option" where
  "since_ltssm a [] = None"
| "since_ltssm a (Wr b w # t) =
     (if b = a \<and> bit w 18 then (if bit w 2 then Some 0 else None) else since_ltssm a t)"
| "since_ltssm a (Wait n # t) = map_option ((+) n) (since_ltssm a t)"
| "since_ltssm a (e # t) = since_ltssm a t"

definition clock_stable :: "u64 \<Rightarrow> io_event list \<Rightarrow> bool" where
  "clock_stable a t \<longleftrightarrow> (case since_ltssm a t of None \<Rightarrow> False | Some n \<Rightarrow> 100000 \<le> n)"

fun quiet :: "io_event \<Rightarrow> bool" where
  "quiet (Wr a w) = (\<not> gpio_reg a)"
| "quiet e = True"

locale pcie_board =
  fixes B :: "('h \<times> io_event list) pcie_ops"
    and slot :: u32
    and level :: "(u64 \<Rightarrow> u32) \<Rightarrow> bool"
  assumes level_quiet: "\<not> gpio_reg a \<Longrightarrow> level (r(a := v)) = level r"
    and io_init: "\<exists>ev. snd (PcieIoInit B seg s) = ev @ snd s \<and> (\<forall>e \<in> set ev. gpio_event e) \<and>
      (\<forall>r. always (\<lambda>t. level (masked_file r t) = level r) ev)"
    and power_en: "\<exists>ev. snd (PciePowerEn B seg b s) = ev @ snd s \<and> (\<forall>e \<in> set ev. gpio_event e) \<and>
      (\<forall>r. always (\<lambda>t. level (masked_file r t) = level r) ev)"
    and pe_reset: "\<exists>ev. snd (PciePeReset B slot b s) = ev @ snd s \<and> (\<forall>e \<in> set ev. gpio_event e) \<and>
      (\<forall>r. always (\<lambda>t. level (masked_file r t) \<longrightarrow> level r \<or> \<not> b) ev \<and> level (masked_file r ev) = (\<not> b))"
    and pe_reset_events: "\<exists>ev. snd (PciePeReset B seg b s) = ev @ snd s \<and> (\<forall>e \<in> set ev. gpio_event e)"
begin

lemma board_adds:
  "adds gpio_event s (PcieIoInit B seg s)" "adds gpio_event s (PciePowerEn B seg b s)" "adds gpio_event s (PciePeReset B seg b s)"
  using io_init [of seg s] power_en [of seg b s] pe_reset_events [of seg b s] unfolding adds_def by blast+

end

section \<open>What the parts add to the log\<close>

lemma adds_poll_reg [adds_intros]:
  "adds P s s' \<Longrightarrow> P (Rd a) \<Longrightarrow> adds P s (snd (poll_reg (logged M) a Q n s'))"
proof (induction n arbitrary: s')
  case (Suc n)
  have "adds P s (snd (MmioRead32 (logged M) s' a))"
    by (intro adds_intros Suc.prems)
  then show ?case
    using Suc.IH Suc.prems(2) by (simp add: split_beta)
qed simp

lemma waited_poll_reg [simp]: "waited (snd (snd (poll_reg (logged M) a Q n s))) = waited (snd s)"
  by (induction n arbitrary: s) (simp_all add: split_beta log_simps)

lemma file_poll_reg [simp]: "masked_file r (snd (snd (poll_reg (logged M) a Q n s))) = masked_file r (snd s)"
  by (induction n arbitrary: s) (simp_all add: split_beta log_simps)

lemma adds_link_wait [adds_intros]:
  "adds P s s' \<Longrightarrow> P (Rd (apb + PCIE_CLIENT_LTSSM_STATUS)) \<Longrightarrow> P (Wait 10000) \<Longrightarrow> adds P s (snd (link_wait (logged M) apb n s'))"
proof (induction n arbitrary: s')
  case (Suc n)
  have "adds P s (snd (PciIsLinkUp (logged M) apb s'))"
    unfolding PciIsLinkUp_def split_beta Let_def snd_conv by (intro adds_intros Suc.prems)
  then show ?case
    using Suc.IH [OF adds_write(3)] Suc.prems(2,3) by (simp add: split_beta)
qed simp

lemma waited_link_wait: "waited (snd (snd (link_wait (logged M) apb n s))) \<le> waited (snd s) + n * 10000"
proof (induction n arbitrary: s)
  case (Suc n)
  have "snd (snd (PciIsLinkUp (logged M) apb s)) = Rd (apb + PCIE_CLIENT_LTSSM_STATUS) # snd s"
    by (simp add: PciIsLinkUp_def split_beta log_simps)
  then show ?case
    using Suc.IH [of "MicroSecondDelay (logged M) (snd (PciIsLinkUp (logged M) apb s)) 10000"]
    by (simp add: split_beta log_simps)
qed simp

text \<open>Addresses.\<close>

lemmas pcie_addr = PCIE_DBI_BASE_def PCIE_APB_BASE_def PCIE_CFG_BASE_def PCIE_MEM32_BASE_def PCIE_MEM32_SIZE_def
  PCIE_CLIENT_GENERAL_CON_def PCIE_CLIENT_INTR_MASK_LEGACY_def PCIE_CLIENT_POWER_CON_def PCIE_CLIENT_HOT_RESET_CTRL_def
  PCIE_CLIENT_LTSSM_STATUS_def PCI_DEVICE_CLASS_def PCI_BAR0_def PCI_BAR1_def PCIE_LINK_CAPABILITY_def PCIE_LINK_STATUS_def
  PCIE_LINK_CTL_2_def PL_PORT_LINK_CTRL_OFF_def PL_GEN2_CTRL_OFF_def PL_MISC_CONTROL_1_OFF_def PCIE_TYPE0_HDR_DBI2_OFFSET_def
  IATU_REGION_CTRL_OUTBOUND_def PHP_PMU_PWR_CON_def PHP_PMU_REPAIR_STATUS_def PHP_PMU_IDLE_REQ_def PHP_PMU_IDLE_ACK_def
  PHP_PMU_IDLE_STS_def SIZE_1MB_def SIZE_64KB_def pcie_reset_reg_def

lemma segment_cases: "seg < NUM_PCIE_CONTROLLER \<Longrightarrow> seg = PCIE_SEGMENT_PCIE0 \<or> seg = PCIE_SEGMENT_PCIE1"
  unfolding NUM_PCIE_CONTROLLER_def PCIE_SEGMENT_PCIE0_def PCIE_SEGMENT_PCIE1_def
  by (auto simp: word_less_nat_alt word_unat_eq_iff)

text \<open>The events of the preparation before the resets.\<close>

fun soc_event :: "io_event \<Rightarrow> bool" where
  "soc_event (Rd a) = (0x27000000 \<le> a \<and> a < 0x28000000)"
| "soc_event (Wr a w) = (0x27000000 \<le> a \<and> a < 0x28000000 \<and> \<not> gpio_reg a)"
| "soc_event (Wait n) = True"
| "soc_event (Wr16 a w) = False"

lemma soc_clocks: "n < 64 \<Longrightarrow> soc_event (Wr (CRU_CLKGATE_CON n) w)" "n < 64 \<Longrightarrow> soc_event (Rd (CRU_CLKGATE_CON n))"
proof -
  assume "n < 64"
  then have "unat (CRU_CLKGATE_CON n) = 0x27200800 + n * 4"
    by (simp add: soc_addr unat_word_ariths unat_of_nat)
  with \<open>n < 64\<close> show "soc_event (Wr (CRU_CLKGATE_CON n) w)" "soc_event (Rd (CRU_CLKGATE_CON n))"
    by (simp_all add: gpio_reg_def word_le_nat_alt word_less_nat_alt)
qed

lemma clocks_events: "adds soc_event s (PciSetupClocks (logged M) seg s)"
  unfolding PciSetupClocks_def Let_def CRU_UNGATE_def
  by (intro adds_intros) (simp_all add: soc_clocks del: soc_event.simps)

lemma soc_pmu:
  "soc_event (Wr PHP_PMU_PWR_CON w)" "soc_event (Wr PHP_PMU_IDLE_REQ w)" "soc_event (Rd PHP_PMU_PWR_CON)"
  "soc_event (Rd PHP_PMU_REPAIR_STATUS)" "soc_event (Rd PHP_PMU_IDLE_REQ)" "soc_event (Rd PHP_PMU_IDLE_ACK)"
  "soc_event (Rd PHP_PMU_IDLE_STS)"
  by (simp_all add: gpio_reg_def pcie_addr)

lemma power_events: "adds soc_event s (PciPhpPowerDomain (logged M) s)"
  unfolding PciPhpPowerDomain_def Let_def split_beta
  by (intro adds_intros) (simp_all add: soc_pmu del: soc_event.simps(1,2))

section \<open>Bus accesses\<close>

text \<open>The accesses that stall unless the controller is clocked, out of reset and its interconnect active.\<close>

definition in_range :: "u64 \<Rightarrow> u64 \<Rightarrow> u64 \<Rightarrow> bool" where
  "in_range a base len \<longleftrightarrow> base \<le> a \<and> a < base + len"

fun event_addr :: "io_event \<Rightarrow> u64 option" where
  "event_addr (Rd a) = Some a"
| "event_addr (Wr a w) = Some a"
| "event_addr (Wr16 a w) = Some a"
| "event_addr (Wait n) = None"

definition bus_access :: "u32 \<Rightarrow> io_event \<Rightarrow> bool" where
  "bus_access seg e \<longleftrightarrow> (\<exists>a. event_addr e = Some a \<and>
     (in_range a (PCIE_DBI_BASE seg) 0x400000 \<or> in_range a (PCIE_CFG_BASE seg + SIZE_1MB) SIZE_64KB))"

definition bus_ready :: "u32 \<Rightarrow> (u64 \<Rightarrow> u32) \<Rightarrow> bool" where
  "bus_ready seg r \<longleftrightarrow>
     \<not> bit (r (CRU_CLKGATE_CON 34)) 7 \<and>
     (if seg = PCIE_SEGMENT_PCIE0
      then \<not> bit (r (CRU_CLKGATE_CON 34)) 14 \<and> \<not> bit (r (CRU_CLKGATE_CON 34)) 15 \<and> \<not> bit (r (CRU_CLKGATE_CON 35)) 0 \<and>
        \<not> bit (r (CRU_CLKGATE_CON 35)) 1 \<and> \<not> bit (r (CRU_SOFTRST_CON 34)) 13 \<and> \<not> bit (r (CRU_SOFTRST_CON 34)) 15
      else (\<forall>b \<in> {8, 9, 10, 11}. \<not> bit (r (CRU_CLKGATE_CON 36)) b) \<and>
        \<not> bit (r (CRU_SOFTRST_CON 36)) 7 \<and> \<not> bit (r (CRU_SOFTRST_CON 36)) 9) \<and>
     \<not> bit (r PHP_PMU_IDLE_REQ) 15"

definition gates_open :: "u32 \<Rightarrow> (u64 \<Rightarrow> u32) \<Rightarrow> bool" where
  "gates_open seg r \<longleftrightarrow>
     \<not> bit (r (CRU_CLKGATE_CON 34)) 7 \<and>
     (if seg = PCIE_SEGMENT_PCIE0
      then \<not> bit (r (CRU_CLKGATE_CON 34)) 14 \<and> \<not> bit (r (CRU_CLKGATE_CON 34)) 15 \<and> \<not> bit (r (CRU_CLKGATE_CON 35)) 0 \<and>
        \<not> bit (r (CRU_CLKGATE_CON 35)) 1
      else (\<forall>b \<in> {8, 9, 10, 11}. \<not> bit (r (CRU_CLKGATE_CON 36)) b))"

lemma clocks_open: "gates_open seg (masked_file r (snd (PciSetupClocks (logged M) seg s)))"
  unfolding gates_open_def PciSetupClocks_def Let_def CRU_UNGATE_def
  by (simp add: file_writes_bit soc_addr bit_simps del: log_reads.simps writes.simps)

fun pmu_event :: "io_event \<Rightarrow> bool" where
  "pmu_event (Wr a w) = (0x27380000 \<le> a)"
| "pmu_event (Wr16 a w) = False"
| "pmu_event e = True"

lemma power_pmu: "adds pmu_event s (PciPhpPowerDomain (logged M) s)"
  unfolding PciPhpPowerDomain_def Let_def split_beta
  by (intro adds_intros) (simp_all add: PHP_PMU_PWR_CON_def PHP_PMU_IDLE_REQ_def)

lemma pmu_keeps:
  assumes "a < 0x27380000"
  shows "masked_file r (snd (PciPhpPowerDomain (logged M) s)) a = masked_file r (snd s) a"
  by (rule masked_file_adds [OF power_pmu])
    (use assms in \<open>auto simp: writes_reg_def split: io_event.splits\<close>)

lemma power_idle: "\<not> bit (masked_file r (snd (PciPhpPowerDomain (logged M) s)) PHP_PMU_IDLE_REQ) 15"
  unfolding PciPhpPowerDomain_def Let_def split_beta
  by (simp add: log_simps Let_def bit_hiword_update PHP_PMU_IDLE_BIT_def BIT_def bit_simps del: log_reads.simps)

text \<open>The resets up to the first access to the bus.\<close>

definition cycle_resets :: "'h mmio \<Rightarrow> u32 \<Rightarrow> 'h \<Rightarrow> 'h" where
  "cycle_resets M Segment s =
     (let s = log_reads M [pcie_reset_reg Segment] s;
          s = MmioWrite32 M s (pcie_reset_reg Segment) (pcie_reset_word Segment True);
          s = log_reads M [pcie_reset_reg Segment] s;
          s = MicroSecondDelay M s 1000;
          s = MmioWrite32 M s (pcie_reset_reg Segment) (pcie_reset_word Segment False);
          s = log_reads M [pcie_reset_reg Segment] s
      in MicroSecondDelay M s 1000)"

lemma PciSetupResets_cycle: "PciSetupResets M seg s = log_reads M [PCIE_DBI_BASE seg] (cycle_resets M seg s)"
  by (simp add: PciSetupResets_def cycle_resets_def Let_def)

lemma cycle_resets_file:
  "masked_file r (snd (cycle_resets (logged M) seg s)) =
    (let f = masked_file r (snd s); a = pcie_reset_reg seg
     in f(a := hiword_update (hiword_update (f a) (pcie_reset_word seg True)) (pcie_reset_word seg False)))"
  by (simp add: cycle_resets_def Let_def log_simps del: log_reads.simps)

lemma prepared:
  "bus_ready seg (masked_file r (snd (cycle_resets (logged M) seg (PciPhpPowerDomain (logged M) (PciSetupClocks (logged M) seg s)))))"
proof -
  let ?s = "PciPhpPowerDomain (logged M) (PciSetupClocks (logged M) seg s)"
  have regs: "masked_file r (snd (cycle_resets (logged M) seg ?s)) a = masked_file r (snd ?s) a" if "a \<noteq> pcie_reset_reg seg" for a
    using that by (simp add: cycle_resets_file Let_def)
  have cru: "CRU_CLKGATE_CON 34 < 0x27380000" "CRU_CLKGATE_CON 35 < 0x27380000" "CRU_CLKGATE_CON 36 < 0x27380000"
    by (simp_all add: soc_addr)
  have gates: "gates_open seg (masked_file r (snd ?s))"
    using clocks_open [of seg r M s] unfolding gates_open_def pmu_keeps [OF cru(1)] pmu_keeps [OF cru(2)] pmu_keeps [OF cru(3)] .
  have rst: "\<not> bit (masked_file r (snd (cycle_resets (logged M) seg ?s)) (pcie_reset_reg seg)) b"
    if "b \<in> (if seg = PCIE_SEGMENT_PCIE0 then {13, 15} else {7, 9})" for b
    using that by (auto simp: cycle_resets_file Let_def bit_hiword_update pcie_reset_word_def bit_simps split: if_splits)
  have other: "CRU_CLKGATE_CON 34 \<noteq> pcie_reset_reg seg" "CRU_CLKGATE_CON 35 \<noteq> pcie_reset_reg seg"
    "CRU_CLKGATE_CON 36 \<noteq> pcie_reset_reg seg" "PHP_PMU_IDLE_REQ \<noteq> pcie_reset_reg seg"
    by (simp_all add: pcie_reset_reg_def soc_addr PHP_PMU_IDLE_REQ_def)
  let ?f = "masked_file r (snd (cycle_resets (logged M) seg ?s))"
  have gates': "gates_open seg ?f"
    using gates unfolding gates_open_def regs [OF other(1)] regs [OF other(2)] regs [OF other(3)] .
  have idle: "\<not> bit (?f PHP_PMU_IDLE_REQ) 15"
    using power_idle unfolding regs [OF other(4)] .
  show ?thesis
  proof (cases "seg = PCIE_SEGMENT_PCIE0")
    case True
    then have "\<not> bit (?f (CRU_SOFTRST_CON 34)) 13" "\<not> bit (?f (CRU_SOFTRST_CON 34)) 15"
      using rst [of 13] rst [of 15] by (simp_all add: pcie_reset_reg_def)
    then show ?thesis
      using gates' idle True unfolding bus_ready_def gates_open_def by meson
  next
    case False
    then have "\<not> bit (?f (CRU_SOFTRST_CON 36)) 7" "\<not> bit (?f (CRU_SOFTRST_CON 36)) 9"
      using rst [of 7] rst [of 9] by (simp_all add: pcie_reset_reg_def)
    then show ?thesis
      using gates' idle False unfolding bus_ready_def gates_open_def by meson
  qed
qed

text \<open>Events that leave the clock, reset and power registers alone.\<close>

fun late_event :: "io_event \<Rightarrow> bool" where
  "late_event (Wr a w) = (\<not> (0x27200000 \<le> a \<and> a < 0x27300000 \<or> 0x27380000 \<le> a \<and> a < 0x27390000))"
| "late_event e = True"

lemma bus_ready_cong:
  assumes "\<And>a. a \<in> {CRU_CLKGATE_CON 34, CRU_CLKGATE_CON 35, CRU_CLKGATE_CON 36, CRU_SOFTRST_CON 34, CRU_SOFTRST_CON 36, PHP_PMU_IDLE_REQ} \<Longrightarrow> f a = g a"
  shows "bus_ready seg f = bus_ready seg g"
proof -
  have "f (CRU_CLKGATE_CON 34) = g (CRU_CLKGATE_CON 34)" "f (CRU_CLKGATE_CON 35) = g (CRU_CLKGATE_CON 35)"
    "f (CRU_CLKGATE_CON 36) = g (CRU_CLKGATE_CON 36)" "f (CRU_SOFTRST_CON 34) = g (CRU_SOFTRST_CON 34)"
    "f (CRU_SOFTRST_CON 36) = g (CRU_SOFTRST_CON 36)" "f PHP_PMU_IDLE_REQ = g PHP_PMU_IDLE_REQ"
    by (rule assms; blast)+
  then show ?thesis
    unfolding bus_ready_def by (simp only:)
qed

lemma late_regs:
  assumes "late_event (Wr b w)"
  shows "b \<notin> {CRU_CLKGATE_CON 34, CRU_CLKGATE_CON 35, CRU_CLKGATE_CON 36, CRU_SOFTRST_CON 34, CRU_SOFTRST_CON 36, PHP_PMU_IDLE_REQ}"
proof
  assume "b \<in> {CRU_CLKGATE_CON 34, CRU_CLKGATE_CON 35, CRU_CLKGATE_CON 36, CRU_SOFTRST_CON 34, CRU_SOFTRST_CON 36, PHP_PMU_IDLE_REQ}"
  then consider "b = 0x27200888" | "b = 0x2720088C" | "b = 0x27200890" | "b = 0x27200A88" | "b = 0x27200A90" | "b = 0x27380110"
    by (auto simp: soc_addr PHP_PMU_IDLE_REQ_def)
  then show False
    using assms by cases simp_all
qed

lemma late_ready:
  assumes "adds late_event s s'" "guarded T (bus_ready seg) r (snd s)" "bus_ready seg (masked_file r (snd s))"
  shows "guarded T (bus_ready seg) r (snd s') \<and> bus_ready seg (masked_file r (snd s'))"
proof -
  have "guarded T (bus_ready seg) r (ev @ t) \<and> bus_ready seg (masked_file r (ev @ t))"
    if "\<forall>e \<in> set ev. late_event e" "guarded T (bus_ready seg) r t" "bus_ready seg (masked_file r t)" for ev t
    using that
  proof (induction ev)
    case (Cons e ev)
    then have IH: "guarded T (bus_ready seg) r (ev @ t)" "bus_ready seg (masked_file r (ev @ t))"
      by simp_all
    have "masked_file r (e # ev @ t) a = masked_file r (ev @ t) a"
      if "a \<in> {CRU_CLKGATE_CON 34, CRU_CLKGATE_CON 35, CRU_CLKGATE_CON 36, CRU_SOFTRST_CON 34, CRU_SOFTRST_CON 36, PHP_PMU_IDLE_REQ}" for a
    proof (cases e)
      case (Wr b w)
      then have "a \<noteq> b"
        using Cons.prems(1) late_regs [of b w] that by auto
      then show ?thesis
        using Wr by (simp add: Let_def)
    qed simp_all
    then have "bus_ready seg (masked_file r (e # ev @ t))"
      using IH(2) bus_ready_cong [of "masked_file r (e # ev @ t)" "masked_file r (ev @ t)" seg] by blast
    then show ?case
      using IH by simp
  qed simp
  then show ?thesis
    using assms by (auto simp: adds_def)
qed

lemma seg_dest:
  assumes "seg < NUM_PCIE_CONTROLLER"
  obtains "seg = 0" | "seg = 1"
  using segment_cases [OF assms] by (auto simp: PCIE_SEGMENT_PCIE0_def PCIE_SEGMENT_PCIE1_def)

lemma gpio_late: "gpio_event e \<Longrightarrow> late_event e"
  by (cases e) (auto simp: gpio_reg_def word_le_nat_alt word_less_nat_alt)

lemma gpio_bus:
  assumes "seg < NUM_PCIE_CONTROLLER" "gpio_event e"
  shows "\<not> bus_access seg e"
  using assms(2) by (rule_tac seg_dest [OF assms(1)]; cases e) (auto simp: bus_access_def in_range_def gpio_reg_def pcie_addr word_le_nat_alt word_less_nat_alt)

lemma soc_bus:
  assumes "seg < NUM_PCIE_CONTROLLER" "soc_event e"
  shows "\<not> bus_access seg e"
  using assms(2) by (rule_tac seg_dest [OF assms(1)]; cases e) (auto simp: bus_access_def in_range_def pcie_addr word_le_nat_alt word_less_nat_alt)

lemma soc_resets: "soc_event (Wr (pcie_reset_reg seg) w)" "soc_event (Rd (pcie_reset_reg seg))"
  by (simp_all add: gpio_reg_def pcie_reset_reg_def soc_addr)

lemma resets_events: "adds soc_event s (cycle_resets (logged M) seg s)"
  unfolding cycle_resets_def Let_def
  by (intro adds_intros) (simp_all add: soc_resets del: soc_event.simps(1,2))

text \<open>The registers of the controller: neither system nor GPIO registers.\<close>

fun controller_event :: "u64 \<Rightarrow> io_event \<Rightarrow> bool" where
  "controller_event apb (Wr a w) = (a < 0x27000000 \<or> 0x2a200000 \<le> a \<and> a < 0x2a300000 \<and> (a = apb \<longrightarrow> \<not> bit w 18))"
| "controller_event apb e = True"

lemma controller_late: "controller_event apb e \<Longrightarrow> late_event e"
  by (cases e) (auto simp: word_le_nat_alt word_less_nat_alt)

lemma controller_quiet: "controller_event apb e \<Longrightarrow> quiet e"
  by (cases e) (auto simp: gpio_reg_def word_le_nat_alt word_less_nat_alt)

lemma rc_mode_events: "seg < NUM_PCIE_CONTROLLER \<Longrightarrow>
  adds (controller_event (PCIE_APB_BASE seg)) s (PciSetRcMode (logged M) (PCIE_APB_BASE seg) s)"
  unfolding PciSetRcMode_def
  by (erule seg_dest; intro adds_intros)
    (simp_all add: pcie_addr DEVICE_TYPE_MASK_def DEVICE_TYPE_RC_def)

lemma bars_events: "seg < NUM_PCIE_CONTROLLER \<Longrightarrow>
  adds (controller_event (PCIE_APB_BASE seg)) s (PciSetupBars (logged M) (PCIE_DBI_BASE seg) s)"
  unfolding PciSetupBars_def by (erule seg_dest; intro adds_intros) (simp_all add: pcie_addr)

lemma link_speed_events: "seg < NUM_PCIE_CONTROLLER \<Longrightarrow>
  adds (controller_event (PCIE_APB_BASE seg)) s (PciSetupLinkSpeed (logged M) (PCIE_DBI_BASE seg) x n s)"
  unfolding PciSetupLinkSpeed_def Let_def by (erule seg_dest; intro adds_intros) (simp_all add: pcie_addr)

lemma atu_events: "seg < NUM_PCIE_CONTROLLER \<Longrightarrow> i < 2 \<Longrightarrow>
  adds (controller_event (PCIE_APB_BASE seg)) s (PciSetupAtu (logged M) (PCIE_DBI_BASE seg) i ty c b l s)"
proof -
  assume "seg < NUM_PCIE_CONTROLLER" "i < 2"
  moreover have "i = 0 \<or> i = 1"
    using \<open>i < 2\<close> by (auto simp: word_less_nat_alt word_unat_eq_iff)
  ultimately show ?thesis
    unfolding PciSetupAtu_def Let_def by (elim seg_dest disjE; simp only:; intro adds_intros) (simp_all add: pcie_addr)
qed

lemma configure_events:
  assumes "seg < NUM_PCIE_CONTROLLER"
  shows "adds (controller_event (PCIE_APB_BASE seg)) s (configure_host (logged M) seg s)"
proof -
  note parts = rc_mode_events [OF assms] bars_events [OF assms] atu_events [OF assms] link_speed_events [OF assms]
  have dbi: "controller_event (PCIE_APB_BASE seg) (Wr (PCIE_DBI_BASE seg + PL_MISC_CONTROL_1_OFF) w)"
    "controller_event (PCIE_APB_BASE seg) (Wr (PCIE_DBI_BASE seg + PL_GEN2_CTRL_OFF) w)" for w
    by (rule seg_dest [OF assms]; simp add: pcie_addr)+
  show ?thesis
    unfolding configure_host_def Let_def
    by (intro adds_intros adds_trans [OF _ parts(1)] adds_trans [OF _ parts(2)] adds_trans [OF _ parts(3)] adds_trans [OF _ parts(4)] dbi)
      simp_all
qed

lemma configure_quiet: "seg < NUM_PCIE_CONTROLLER \<Longrightarrow> adds quiet s (configure_host (logged M) seg s)"
  by (rule adds_mono [OF configure_events]) (auto intro: controller_quiet)

lemma configure_late: "seg < NUM_PCIE_CONTROLLER \<Longrightarrow> adds late_event s (configure_host (logged M) seg s)"
  by (rule adds_mono [OF configure_events]) (auto intro: controller_late)

end
