(* ===== verification/PciHostProps.thy ===== *)
theory PciHostProps
  imports PciHostLog Rock4d Cm5io
begin

text \<open>
  What the set-up of the host bridge does to any device, in the order of its accesses: the endpoint
  leaves reset only after the reference clock has been stable for 100 ms, the bus is touched only
  behind open clocks, released resets and an active interconnect, and the code comes back in bounded
  time. The board library is an interface with two implementations.
\<close>

section \<open>The endpoint's reset\<close>

definition release_safe :: "((u64 \<Rightarrow> u32) \<Rightarrow> bool) \<Rightarrow> u64 \<Rightarrow> (u64 \<Rightarrow> u32) \<Rightarrow> io_event list \<Rightarrow> bool" where
  "release_safe level a r t \<longleftrightarrow> (level (masked_file r t) \<longrightarrow> clock_stable a t)"

definition keeps_ltssm :: "u64 \<Rightarrow> io_event \<Rightarrow> bool" where
  "keeps_ltssm a e \<longleftrightarrow> (case e of Wr b w \<Rightarrow> \<not> (b = a \<and> bit w 18) | _ \<Rightarrow> True)"

lemma stable_append:
  assumes "\<forall>e \<in> set ev. keeps_ltssm a e" "clock_stable a t"
  shows "clock_stable a (ev @ t)"
  using assms(1)
proof (induction ev)
  case (Cons e ev)
  then have IH: "clock_stable a (ev @ t)"
    by simp
  show ?case
    using IH Cons.prems by (cases e) (auto simp: clock_stable_def keeps_ltssm_def split: option.splits)
qed (use assms(2) in simp)

lemma always_stable:
  assumes "\<forall>e \<in> set ev. keeps_ltssm a e" "clock_stable a t" "always (release_safe level a r) t"
  shows "always (release_safe level a r) (ev @ t)"
  using assms(1)
proof (induction ev)
  case (Cons e ev)
  have "clock_stable a (e # ev @ t)"
    using stable_append [OF Cons.prems assms(2)] by simp
  then show ?case
    using Cons by (simp add: release_safe_def)
qed (use assms(3) in simp)

lemma stable_adds:
  assumes "adds P s s'" "\<And>e. P e \<Longrightarrow> keeps_ltssm a e" "clock_stable a (snd s)" "always (release_safe level a r) (snd s)"
  shows "clock_stable a (snd s')" "always (release_safe level a r) (snd s')"
proof -
  obtain ev where ev: "snd s' = ev @ snd s" "\<forall>e \<in> set ev. keeps_ltssm a e"
    using assms(1,2) by (auto simp: adds_def)
  show "clock_stable a (snd s')" "always (release_safe level a r) (snd s')"
    using stable_append [OF ev(2) assms(3)] always_stable [OF ev(2) assms(3,4)] ev(1) by simp_all
qed

context pcie_board
begin

lemma low_adds:
  assumes "adds quiet s s'" "\<not> level (masked_file r (snd s))" "always (release_safe level a r) (snd s)"
  shows "\<not> level (masked_file r (snd s'))" "always (release_safe level a r) (snd s')"
proof -
  obtain ev where ev: "snd s' = ev @ snd s" "\<forall>e \<in> set ev. quiet e"
    using assms(1) by (auto simp: adds_def)
  have "\<not> level (masked_file r (ev @ t)) \<and> always (release_safe level a r) (ev @ t)"
    if "\<not> level (masked_file r t)" "always (release_safe level a r) t" for t
    using ev(2)
  proof (induction ev)
    case (Cons e ev)
    then have IH: "\<not> level (masked_file r (ev @ t))" "always (release_safe level a r) (ev @ t)"
      by simp_all
    have "\<not> level (masked_file r (e # ev @ t))"
      using Cons.prems IH(1) by (cases e) (auto simp: Let_def level_quiet)
    then have "release_safe level a r (e # ev @ t)"
      by (simp add: release_safe_def)
    then show ?case
      using IH(2) \<open>\<not> level (masked_file r (e # ev @ t))\<close> by simp
  qed (use that in simp)
  then show "\<not> level (masked_file r (snd s'))" "always (release_safe level a r) (snd s')"
    using assms(2,3) ev(1) by simp_all
qed

lemma level_kept:
  assumes "snd s' = ev @ snd s" "\<forall>r. always (\<lambda>t. level (masked_file r t) = level r) ev"
    "\<not> level (masked_file r (snd s))" "always (release_safe level a r) (snd s)"
  shows "\<not> level (masked_file r (snd s'))" "always (release_safe level a r) (snd s')"
proof -
  have lv: "always (\<lambda>t. \<not> level (masked_file r (t @ snd s))) ev"
    using assms(2) [rule_format, of "masked_file r (snd s)"] by (rule always_mono) (simp add: masked_file_append assms(3))
  then show "\<not> level (masked_file r (snd s'))"
    using always_now [OF lv] assms(1) by simp
  show "always (release_safe level a r) (snd s')"
    unfolding assms(1) always_append using lv assms(4) by (auto elim!: always_mono simp: release_safe_def)
qed

lemma board_quiet_ltssm:
  assumes "gpio_event e" "\<not> gpio_reg a"
  shows "keeps_ltssm a e"
  using assms by (cases e) (auto simp: keeps_ltssm_def)

text \<open>Asserting the reset, whatever the level was.\<close>

lemma reset_asserted:
  assumes "\<not> level (masked_file r (snd s)) \<or> clock_stable a (snd s)" "always (release_safe level a r) (snd s)" "\<not> gpio_reg a"
  shows "\<not> level (masked_file r (snd (PciePeReset B slot True s)))" "always (release_safe level a r) (snd (PciePeReset B slot True s))"
proof -
  obtain ev where ev: "snd (PciePeReset B slot True s) = ev @ snd s" "\<forall>e \<in> set ev. gpio_event e"
    "\<forall>r. always (\<lambda>t. level (masked_file r t) \<longrightarrow> level r) ev \<and> \<not> level (masked_file r ev)"
    using pe_reset [of True s] by auto
  show "\<not> level (masked_file r (snd (PciePeReset B slot True s)))"
    using ev(1,3) by (simp add: masked_file_append)
  show "always (release_safe level a r) (snd (PciePeReset B slot True s))"
  proof (cases "level (masked_file r (snd s))")
    case True
    then show ?thesis
      unfolding ev(1) using assms ev(2) board_quiet_ltssm [OF _ assms(3)] by (intro always_stable) auto
  next
    case False
    have "always (\<lambda>t. \<not> level (masked_file r (t @ snd s))) ev"
      using ev(3) [rule_format, of "masked_file r (snd s)", THEN conjunct1]
      by (rule always_mono) (use False in \<open>simp add: masked_file_append\<close>)
    then show ?thesis
      unfolding ev(1) always_append using assms(2) by (auto elim!: always_mono simp: release_safe_def)
  qed
qed

text \<open>One training attempt.\<close>

lemma attempt:
  fixes a defines "a \<equiv> PCIE_APB_BASE slot"
  assumes "slot < NUM_PCIE_CONTROLLER" "always (release_safe level a r) (snd s)" "\<not> level (masked_file r (snd s)) \<or> clock_stable a (snd s)"
  shows "clock_stable a (snd (snd (train_attempt (logged M) B slot s)))"
    "always (release_safe level a r) (snd (snd (train_attempt (logged M) B slot s)))"
proof -
  have a: "\<not> gpio_reg a" "\<not> gpio_reg (a + PCIE_CLIENT_LTSSM_STATUS)" "a + PCIE_CLIENT_GENERAL_CON = a"
    unfolding a_def by (rule seg_dest [OF assms(2)]; simp add: gpio_reg_def pcie_addr)+
  define s1 where "s1 = PciePeReset B slot True s"
  define s2 where "s2 = PciEnableLtssm (logged M) a True (PciEnableLtssm (logged M) a False s1)"
  define s3 where "s3 = MicroSecondDelay (logged M) s2 100000"
  define s4 where "s4 = PciePeReset B slot False s3"
  note low = reset_asserted [OF assms(4,3) a(1), folded s1_def]
  have quiet: "adds quiet s1 s3"
    unfolding s3_def s2_def PciEnableLtssm_def Let_def by (intro adds_intros) (simp_all add: a)
  note low3 = low_adds [OF quiet low]
  have "snd s3 = Wait 100000 # Wr a ((push_bit 16 (LINK_REQ_RST_GRT OR LTSSM_ENABLE) OR LINK_REQ_RST_GRT) OR LTSSM_ENABLE) # snd (PciEnableLtssm (logged M) a False s1)"
    by (simp add: s3_def s2_def PciEnableLtssm_def [of _ _ True] Let_def log_simps a(3))
  then have stable3: "clock_stable a (snd s3)"
    by (simp add: clock_stable_def LINK_REQ_RST_GRT_def LTSSM_ENABLE_def BIT_def)
  have "adds gpio_event s3 s4"
    unfolding s4_def by (rule board_adds)
  note stable4 = stable_adds [OF this board_quiet_ltssm [OF _ a(1)] stable3 low3(2)]
  have wait: "adds (\<lambda>e. \<not> (\<exists>b w. e = Wr b w)) s4 (snd (link_wait (logged M) a 50 s4))"
    by (intro adds_intros) simp_all
  have "clock_stable a (snd (snd (link_wait (logged M) a 50 s4)))" "always (release_safe level a r) (snd (snd (link_wait (logged M) a 50 s4)))"
    by (rule stable_adds [OF wait _ stable4], auto simp: keeps_ltssm_def split: io_event.splits)+
  then show "clock_stable a (snd (snd (train_attempt (logged M) B slot s)))"
    "always (release_safe level a r) (snd (snd (train_attempt (logged M) B slot s)))"
    unfolding train_attempt_def Let_def a_def [symmetric] s1_def [symmetric] s2_def [symmetric] s3_def [symmetric] s4_def [symmetric] .
qed

lemma training:
  fixes a defines "a \<equiv> PCIE_APB_BASE slot"
  assumes "slot < NUM_PCIE_CONTROLLER" "always (release_safe level a r) (snd s)" "\<not> level (masked_file r (snd s)) \<or> clock_stable a (snd s)"
  shows "clock_stable a (snd (snd (train (logged M) B slot (Suc n) s)))"
    "always (release_safe level a r) (snd (snd (train (logged M) B slot (Suc n) s)))"
proof -
  have "clock_stable a (snd (snd (train (logged M) B slot (Suc n) s))) \<and> always (release_safe level a r) (snd (snd (train (logged M) B slot (Suc n) s)))"
    if "always (release_safe level a r) (snd s)" "\<not> level (masked_file r (snd s)) \<or> clock_stable a (snd s)" for s
    using that
  proof (induction n arbitrary: s)
    case 0
    then show ?case
      using attempt [OF assms(2), of r s M] unfolding a_def by (simp add: split_beta)
  next
    case (Suc n)
    note t = attempt [OF assms(2), of r s M, folded a_def, OF Suc.prems]
    show ?case
      using Suc.IH [of "snd (train_attempt (logged M) B slot s)"] t by (simp add: split_beta)
  qed
  then show "clock_stable a (snd (snd (train (logged M) B slot (Suc n) s)))"
    "always (release_safe level a r) (snd (snd (train (logged M) B slot (Suc n) s)))"
    using assms(3,4) by blast+
qed

text \<open>The whole set-up.\<close>

lemma soc_quiet: "soc_event e \<Longrightarrow> quiet e"
  by (cases e) auto

lemma prepare_low:
  assumes "\<not> level (masked_file r (snd s))" "always (release_safe level a r) (snd s)"
  shows "\<not> level (masked_file r (snd (prepare_host (logged M) B slot s)))"
    "always (release_safe level a r) (snd (prepare_host (logged M) B slot s))"
proof -
  define s1 where "s1 = PciePowerEn B slot True (PcieIoInit B slot s)"
  obtain ev where ev: "snd (PcieIoInit B slot s) = ev @ snd s" "\<forall>r. always (\<lambda>t. level (masked_file r t) = level r) ev"
    using io_init [of slot s] by blast
  obtain ev' where ev': "snd s1 = ev' @ snd (PcieIoInit B slot s)" "\<forall>r. always (\<lambda>t. level (masked_file r t) = level r) ev'"
    using power_en [of slot True "PcieIoInit B slot s"] unfolding s1_def by blast
  note low = level_kept [OF ev' level_kept [OF ev assms]]
  have "adds soc_event s1 (cycle_resets (logged M) slot (PciPhpPowerDomain (logged M) (PciSetupClocks (logged M) slot s1)))"
    by (rule adds_trans [OF adds_trans [OF clocks_events power_events] resets_events])
  then have "adds quiet s1 (prepare_host (logged M) B slot s)"
    unfolding prepare_host_def Let_def PciSetupResets_cycle s1_def [symmetric]
    by (intro adds_intros adds_mono [OF _ soc_quiet]) simp_all
  then show "\<not> level (masked_file r (snd (prepare_host (logged M) B slot s)))"
    "always (release_safe level a r) (snd (prepare_host (logged M) B slot s))"
    using low_adds [OF _ low] by blast+
qed

lemma host_release:
  assumes "slot < NUM_PCIE_CONTROLLER" "\<not> level r"
  shows "always (release_safe level (PCIE_APB_BASE slot) r) (snd (snd (InitializePciHost (logged M) B slot (h, []))))"
proof -
  let ?a = "PCIE_APB_BASE slot"
  define s1 where "s1 = configure_host (logged M) slot (prepare_host (logged M) B slot (h, []))"
  define s2 where "s2 = snd (train (logged M) B slot PCIE_LINK_TRAIN_RETRIES s1)"
  have "\<not> level (masked_file r (snd (h, [])))" "always (release_safe level ?a r) (snd (h, []))"
    using assms(2) by (simp_all add: release_safe_def)
  note low = low_adds [OF configure_quiet [OF assms(1)] prepare_low [OF this]]
  have "always (release_safe level ?a r) (snd s1)" "\<not> level (masked_file r (snd s1))"
    unfolding s1_def using low by blast+
  then have t: "clock_stable ?a (snd s2)" "always (release_safe level ?a r) (snd s2)"
    unfolding s2_def PCIE_LINK_TRAIN_RETRIES_def using training [OF assms(1), of r s1 M 2] by (simp_all add: numeral_3_eq_3)
  have rst: "pcie_reset_reg slot \<noteq> ?a"
    by (rule seg_dest [OF assms(1)]; simp add: pcie_addr soc_addr)
  show ?thesis
  proof (cases "fst (train (logged M) B slot PCIE_LINK_TRAIN_RETRIES s1)")
    case False
    have "adds (keeps_ltssm ?a) s2 (MmioWrite32 (logged M) s2 (pcie_reset_reg slot) (pcie_reset_word slot True))"
      by (intro adds_intros) (simp add: keeps_ltssm_def rst)
    from stable_adds(2) [OF this _ t] show ?thesis
      using assms(1) [folded not_le] False by (simp add: InitializePciHost_def Let_def split_beta s1_def s2_def)
  next
    case True
    let ?s3 = "snd (PciValidateCfg0 (logged M) (PCIE_CFG_BASE slot + SIZE_1MB) (snd (PciGetLinkSpeedWidth (logged M) (PCIE_DBI_BASE slot)
      (log_reads (logged M) [?a + PCIE_CLIENT_LTSSM_STATUS, ?a + PCIE_CLIENT_LTSSM_STATUS] s2))))"
    have "adds (keeps_ltssm ?a) s2 ?s3"
      unfolding PciValidateCfg0_def PciGetLinkSpeedWidth_def split_beta Let_def snd_conv by (intro adds_intros) (simp_all add: keeps_ltssm_def)
    from stable_adds(2) [OF this _ t] show ?thesis
      using assms(1) [folded not_le] True by (simp add: InitializePciHost_def Let_def split_beta s1_def s2_def del: log_reads.simps)
  qed
qed

text \<open>Training touches the system registers as little as the configuration.\<close>

lemma attempt_late:
  assumes "seg < NUM_PCIE_CONTROLLER"
  shows "adds late_event s (snd (train_attempt (logged M) B seg s))"
proof -
  have g: "late_event (Wr (PCIE_APB_BASE seg + PCIE_CLIENT_GENERAL_CON) w)" for w
    by (rule seg_dest [OF assms]; simp add: pcie_addr)
  note board = adds_trans [OF _ adds_mono [OF board_adds(3) gpio_late]]
  show ?thesis
    unfolding train_attempt_def Let_def PciEnableLtssm_def by (intro adds_intros board g) simp_all
qed

lemma train_late: "seg < NUM_PCIE_CONTROLLER \<Longrightarrow> adds late_event s (snd (train (logged M) B seg n s))"
proof (induction n arbitrary: s)
  case (Suc n)
  have "adds late_event s (snd (train_attempt (logged M) B seg s))"
    by (rule attempt_late [OF Suc.prems])
  moreover from this have "adds late_event s (snd (train (logged M) B seg n (snd (train_attempt (logged M) B seg s))))"
    using Suc.IH [OF Suc.prems] adds_trans by blast
  ultimately show ?case
    by (simp add: split_beta)
qed (simp add: adds_intros)

lemma host_guard:
  assumes "seg < NUM_PCIE_CONTROLLER"
  shows "guarded (bus_access seg) (bus_ready seg) r (snd (snd (InitializePciHost (logged M) B seg (h, []))))"
proof -
  define s0 where "s0 = PciePowerEn B seg True (PcieIoInit B seg (h, []))"
  define s1 where "s1 = cycle_resets (logged M) seg (PciPhpPowerDomain (logged M) (PciSetupClocks (logged M) seg s0))"
  define s2 where "s2 = configure_host (logged M) seg (prepare_host (logged M) B seg (h, []))"
  define s3 where "s3 = snd (train (logged M) B seg PCIE_LINK_TRAIN_RETRIES s2)"
  have "adds gpio_event (h, []) s0"
    unfolding s0_def using adds_trans [OF board_adds(1,2)] .
  then have "guarded (bus_access seg) (bus_ready seg) r (snd s0)"
    by (rule guarded_adds) (use gpio_bus [OF assms] in auto)
  moreover have "adds soc_event s0 s1"
    unfolding s1_def by (rule adds_trans [OF adds_trans [OF clocks_events power_events] resets_events])
  ultimately have g1: "guarded (bus_access seg) (bus_ready seg) r (snd s1)"
    using guarded_adds [of soc_event] soc_bus [OF assms] by blast
  have r1: "bus_ready seg (masked_file r (snd s1))"
    unfolding s1_def by (rule prepared)
  have "adds late_event s1 (prepare_host (logged M) B seg (h, []))"
    unfolding prepare_host_def Let_def PciSetupResets_cycle s0_def [symmetric] s1_def [symmetric] by (intro adds_intros) simp_all
  then have "adds late_event s1 s2"
    unfolding s2_def using adds_trans configure_late [OF assms] by blast
  then have "adds late_event s1 s3"
    unfolding s3_def using adds_trans train_late [OF assms] by blast
  note r3 = late_ready [OF this g1 r1]
  show ?thesis
  proof (cases "fst (train (logged M) B seg PCIE_LINK_TRAIN_RETRIES s2)")
    case False
    have "adds soc_event s3 (MmioWrite32 (logged M) s3 (pcie_reset_reg seg) (pcie_reset_word seg True))"
      by (intro adds_intros soc_resets)
    from guarded_adds [OF this _ soc_bus [OF assms]] show ?thesis
      using assms [folded not_le] False r3 by (simp add: InitializePciHost_def Let_def split_beta s2_def s3_def)
  next
    case True
    let ?s4 = "snd (PciValidateCfg0 (logged M) (PCIE_CFG_BASE seg + SIZE_1MB) (snd (PciGetLinkSpeedWidth (logged M) (PCIE_DBI_BASE seg)
      (log_reads (logged M) [PCIE_APB_BASE seg + PCIE_CLIENT_LTSSM_STATUS, PCIE_APB_BASE seg + PCIE_CLIENT_LTSSM_STATUS] s3))))"
    have "adds late_event s3 ?s4"
      unfolding PciValidateCfg0_def PciGetLinkSpeedWidth_def split_beta Let_def snd_conv by (intro adds_intros) simp_all
    from late_ready [OF this] show ?thesis
      using assms [folded not_le] True r3 by (simp add: InitializePciHost_def Let_def split_beta s2_def s3_def del: log_reads.simps)
  qed
qed

end

section \<open>Time and outcome\<close>

lemma waited_adds:
  assumes "adds P s s'" "\<And>e. P e \<Longrightarrow> \<not> (\<exists>n. e = Wait n)"
  shows "waited (snd s') = waited (snd s)"
proof -
  have "waited (ev @ t) = waited t" if "\<forall>e \<in> set ev. P e" for ev t
    using that
  proof (induction ev)
    case (Cons e ev)
    then show ?case
      using assms(2) [of e] by (cases e) auto
  qed simp
  then show ?thesis
    using assms(1) by (auto simp: adds_def)
qed

lemma waited_parts:
  "waited (snd (PciSetupClocks (logged M) seg s)) = waited (snd s)"
  "waited (snd (PciPhpPowerDomain (logged M) s)) = waited (snd s)"
  "waited (snd (PciSetupResets (logged M) seg s)) = waited (snd s) + 2000"
  "waited (snd (configure_host (logged M) seg s)) = waited (snd s) + 20000"
proof -
  show "waited (snd (PciSetupClocks (logged M) seg s)) = waited (snd s)"
    unfolding PciSetupClocks_def Let_def by (simp del: log_reads.simps writes.simps)
  show "waited (snd (PciPhpPowerDomain (logged M) s)) = waited (snd s)"
    unfolding PciPhpPowerDomain_def Let_def split_beta by (simp add: log_simps del: log_reads.simps)
  show "waited (snd (PciSetupResets (logged M) seg s)) = waited (snd s) + 2000"
    unfolding PciSetupResets_def Let_def by (simp add: log_simps del: log_reads.simps)
  have rmw: "waited (snd (MmioAndThenOr32 (logged M) t a x y)) = waited (snd t)" "waited (snd (MmioOr32 (logged M) t a y)) = waited (snd t)"
    "waited (snd (MmioAnd32 (logged M) t a x)) = waited (snd t)" for t :: "'a \<times> io_event list" and a x y
    using logged_rmw(1) [of M t a x y] logged_rmw(2) [of M t a y] logged_rmw(3) [of M t a x] by auto
  show "waited (snd (configure_host (logged M) seg s)) = waited (snd s) + 20000"
    unfolding configure_host_def PciSetRcMode_def PciSetupBars_def PciSetupAtu_def PciSetupLinkSpeed_def Let_def
    by (simp add: log_simps rmw del: log_reads.simps writes.simps)
qed

context pcie_board
begin

lemma waited_board:
  "waited (snd (PcieIoInit B seg s)) = waited (snd s)" "waited (snd (PciePowerEn B seg b s)) = waited (snd s)"
  "waited (snd (PciePeReset B seg b s)) = waited (snd s)"
  by (rule waited_adds [OF board_adds(1)], force, rule waited_adds [OF board_adds(2)], force, rule waited_adds [OF board_adds(3)], force)

lemma waited_train: "waited (snd (snd (train (logged M) B seg n s))) \<le> waited (snd s) + n * 600000"
proof (induction n arbitrary: s)
  case (Suc n)
  have "waited (snd (snd (train_attempt (logged M) B seg s))) \<le> waited (snd s) + 600000"
    unfolding train_attempt_def Let_def
    by (rule order_trans [OF waited_link_wait]) (simp add: waited_board log_simps PciEnableLtssm_def Let_def)
  then show ?case
    using Suc.IH [of "snd (train_attempt (logged M) B seg s)"] by (simp add: split_beta)
qed simp

lemma host_outcome:
  assumes "seg < NUM_PCIE_CONTROLLER" "InitializePciHost (logged M) B seg (h, []) = (status, s)"
  shows "(status = EFI_SUCCESS \<or> status = Error EFI_TIMEOUT) \<and> waited (snd s) \<le> 1822000 \<and>
    (status = Error EFI_TIMEOUT \<longrightarrow>
      (\<forall>b \<in> (if seg = PCIE_SEGMENT_PCIE0 then {13, 15} else {7, 9}). bit (masked_file r (snd s) (pcie_reset_reg seg)) b))"
proof -
  define s1 where "s1 = configure_host (logged M) seg (prepare_host (logged M) B seg (h, []))"
  have "waited (snd s1) = 22000"
    by (simp add: s1_def prepare_host_def Let_def waited_parts waited_board)
  then have w: "waited (snd (snd (train (logged M) B seg PCIE_LINK_TRAIN_RETRIES s1))) \<le> 1822000"
    using waited_train [of M seg 3 s1] by (simp add: PCIE_LINK_TRAIN_RETRIES_def)
  have bits: "\<forall>b \<in> (if seg = PCIE_SEGMENT_PCIE0 then {13, 15} else {7, 9}). bit (hiword_update old (pcie_reset_word seg True)) b" for old
    by (auto simp: bit_hiword_update pcie_reset_word_def bit_simps)
  show ?thesis
  proof (cases "fst (train (logged M) B seg PCIE_LINK_TRAIN_RETRIES s1)")
    case False
    then have run: "(status, s) = (Error EFI_TIMEOUT,
        MmioWrite32 (logged M) (snd (train (logged M) B seg PCIE_LINK_TRAIN_RETRIES s1)) (pcie_reset_reg seg) (pcie_reset_word seg True))"
      using assms(1) [folded not_le] assms(2) by (simp add: InitializePciHost_def Let_def split_beta s1_def)
    then show ?thesis
      using w bits by (simp add: log_simps Let_def)
  next
    case True
    then have "status = EFI_SUCCESS" "s = snd (PciValidateCfg0 (logged M) (PCIE_CFG_BASE seg + SIZE_1MB) (snd (PciGetLinkSpeedWidth (logged M) (PCIE_DBI_BASE seg)
        (log_reads (logged M) [PCIE_APB_BASE seg + PCIE_CLIENT_LTSSM_STATUS, PCIE_APB_BASE seg + PCIE_CLIENT_LTSSM_STATUS]
          (snd (train (logged M) B seg PCIE_LINK_TRAIN_RETRIES s1))))))"
      using assms(1) [folded not_le] assms(2) by (simp_all add: InitializePciHost_def Let_def split_beta s1_def del: log_reads.simps)
    then show ?thesis
      using w unfolding PciValidateCfg0_def PciGetLinkSpeedWidth_def split_beta Let_def snd_conv by (simp add: log_simps del: log_reads.simps)
  qed
qed

end

section \<open>The two boards\<close>

definition pcie_rock4d :: "'h mmio \<Rightarrow> 'h pcie_ops" where
  "pcie_rock4d M = \<lparr>PcieIoInit = PcieIoInit_rock4d M, PciePowerEn = PciePowerEn_rock4d M, PciePeReset = PciePeReset_rock4d M\<rparr>"

definition pcie_cm5io :: "'h mmio \<Rightarrow> 'h pcie_ops" where
  "pcie_cm5io M = \<lparr>PcieIoInit = PcieIoInit_cm5io M, PciePowerEn = PciePowerEn_cm5io M, PciePeReset = PciePeReset_cm5io M\<rparr>"

lemma slot_pins: "gpio_pin 2 12" "gpio_pin 2 27" "gpio_pin 2 9" "gpio_pin 0 19"
  by (simp_all add: gpio_pin_def)

lemmas slot_simps = log_simps gpio_event_pins slot_pins pins_of_file [OF slot_pins(1) slot_pins(1)] pins_of_file [OF slot_pins(2) slot_pins(1)]
  pins_of_file [OF slot_pins(3) slot_pins(3)] pins_of_file [OF slot_pins(4) slot_pins(3)]

interpretation rock4d: pcie_board "pcie_rock4d (logged M)" 0 "\<lambda>r. pin_value r 2 12" for M :: "'h mmio"
proof (unfold_locales)
  fix a and r :: "u64 \<Rightarrow> u32" and v
  show "\<not> gpio_reg a \<Longrightarrow> pin_value (r(a := v)) 2 12 = pin_value r 2 12"
    by (rule pin_value_other [OF slot_pins(1)])
next
  fix seg b and s :: "'h \<times> io_event list"
  show "\<exists>ev. snd (PcieIoInit (pcie_rock4d (logged M)) seg s) = ev @ snd s \<and> (\<forall>e \<in> set ev. gpio_event e) \<and>
      (\<forall>r. always (\<lambda>t. pin_value (masked_file r t) 2 12 = pin_value r 2 12) ev)"
    by (rule exI [of _ "if seg = 0 then [direction_event 2 12 GPIO_PIN_OUTPUT, direction_event 2 27 GPIO_PIN_OUTPUT] else []"])
      (simp add: pcie_rock4d_def PcieIoInit_rock4d_def slot_simps)
  show "\<exists>ev. snd (PciePowerEn (pcie_rock4d (logged M)) seg b s) = ev @ snd s \<and> (\<forall>e \<in> set ev. gpio_event e) \<and>
      (\<forall>r. always (\<lambda>t. pin_value (masked_file r t) 2 12 = pin_value r 2 12) ev)"
    by (rule exI [of _ "if seg = 0 then [value_event 2 27 b] else []"])
      (simp add: pcie_rock4d_def PciePowerEn_rock4d_def slot_simps)
  show "\<exists>ev. snd (PciePeReset (pcie_rock4d (logged M)) 0 b s) = ev @ snd s \<and> (\<forall>e \<in> set ev. gpio_event e) \<and>
      (\<forall>r. always (\<lambda>t. pin_value (masked_file r t) 2 12 \<longrightarrow> pin_value r 2 12 \<or> \<not> b) ev \<and> pin_value (masked_file r ev) 2 12 = (\<not> b))"
    by (rule exI [of _ "[value_event 2 12 (\<not> b)]"]) (simp add: pcie_rock4d_def PciePeReset_rock4d_def slot_simps)
  show "\<exists>ev. snd (PciePeReset (pcie_rock4d (logged M)) seg b s) = ev @ snd s \<and> (\<forall>e \<in> set ev. gpio_event e)"
    by (rule exI [of _ "if seg = 0 then [value_event 2 12 (\<not> b)] else []"]) (simp add: pcie_rock4d_def PciePeReset_rock4d_def slot_simps)
qed

interpretation cm5io: pcie_board "pcie_cm5io (logged M)" 0 "\<lambda>r. pin_value r 2 9" for M :: "'h mmio"
proof (unfold_locales)
  fix a and r :: "u64 \<Rightarrow> u32" and v
  show "\<not> gpio_reg a \<Longrightarrow> pin_value (r(a := v)) 2 9 = pin_value r 2 9"
    by (rule pin_value_other [OF slot_pins(3)])
next
  fix seg b and s :: "'h \<times> io_event list"
  show "\<exists>ev. snd (PcieIoInit (pcie_cm5io (logged M)) seg s) = ev @ snd s \<and> (\<forall>e \<in> set ev. gpio_event e) \<and>
      (\<forall>r. always (\<lambda>t. pin_value (masked_file r t) 2 9 = pin_value r 2 9) ev)"
    by (rule exI [of _ "if seg = 0 then [direction_event 2 9 GPIO_PIN_OUTPUT, direction_event 0 19 GPIO_PIN_OUTPUT] else []"])
      (simp add: pcie_cm5io_def PcieIoInit_cm5io_def slot_simps)
  show "\<exists>ev. snd (PciePowerEn (pcie_cm5io (logged M)) seg b s) = ev @ snd s \<and> (\<forall>e \<in> set ev. gpio_event e) \<and>
      (\<forall>r. always (\<lambda>t. pin_value (masked_file r t) 2 9 = pin_value r 2 9) ev)"
    by (rule exI [of _ "if seg = 0 then [value_event 0 19 b] else []"])
      (simp add: pcie_cm5io_def PciePowerEn_cm5io_def slot_simps)
  show "\<exists>ev. snd (PciePeReset (pcie_cm5io (logged M)) 0 b s) = ev @ snd s \<and> (\<forall>e \<in> set ev. gpio_event e) \<and>
      (\<forall>r. always (\<lambda>t. pin_value (masked_file r t) 2 9 \<longrightarrow> pin_value r 2 9 \<or> \<not> b) ev \<and> pin_value (masked_file r ev) 2 9 = (\<not> b))"
    by (rule exI [of _ "[value_event 2 9 (\<not> b)]"]) (simp add: pcie_cm5io_def PciePeReset_cm5io_def slot_simps)
  show "\<exists>ev. snd (PciePeReset (pcie_cm5io (logged M)) seg b s) = ev @ snd s \<and> (\<forall>e \<in> set ev. gpio_event e)"
    by (rule exI [of _ "if seg = 0 then [value_event 2 9 (\<not> b)] else []"]) (simp add: pcie_cm5io_def PciePeReset_cm5io_def slot_simps)
qed

section \<open>Properties of the set-up on both boards\<close>

text \<open>The board libraries and the pin of the endpoint's reset line.\<close>

definition pcie_boards :: "'h mmio \<Rightarrow> ('h pcie_ops \<times> u8) set" where
  "pcie_boards M = {(pcie_rock4d M, 12), (pcie_cm5io M, 9)}"

text \<open>The output latch of a pin is a bit of a masked register: only a write with its mask bit set changes it.\<close>

definition sets_pin :: "u8 \<Rightarrow> u8 \<Rightarrow> io_event \<Rightarrow> bool" where
  "sets_pin g p e \<longleftrightarrow> (case e of
     Wr a w \<Rightarrow> a = GPIO_BASE g + GPIO_SWPORT_DR p \<and> bit w (unat p mod 16 + 16)
   | _ \<Rightarrow> False)"

lemma pin_value_history:
  "pin_value (masked_file r t) g p =
    (if \<exists>e \<in> set t. sets_pin g p e then pin_value (masked_file r' t) g p else pin_value r g p)"
proof (induction t)
  case (Cons e t)
  then show ?case
    by (cases e) (auto simp: sets_pin_def pin_value_def port_bit_test bit_hiword_update Let_def split: if_splits)
qed simp

text \<open>
  C6: Whatever the device does, on both boards, at every moment of the host bridge set-up at which the
  output latch of the endpoint's reset line is high, the link state machine, and with it the reference
  clock, has been enabled for at least 100 ms, except as long as the latch still has the high level it
  had before the call and the set-up has not written it yet. The latch is meant, not the level on the
  line: the line is driven high only while the latch is high. A latch that is high before the call is
  driven out when the set-up makes the pin an output, before the clock is on; a latch that is low
  stays low until the clock has been stable.
\<close>

theorem pcie_perst_release:
  assumes "(B, p) \<in> pcie_boards (logged M)"
  shows "always (\<lambda>t. pin_value (masked_file r t) 2 p \<longrightarrow>
      clock_stable (PCIE_APB_BASE 0) t \<or> pin_value r 2 p \<and> (\<forall>e \<in> set t. \<not> sets_pin 2 p e))
    (snd (snd (InitializePciHost (logged M) B 0 (h, []))))"
proof -
  have "\<not> pin_value (\<lambda>a. 0) 2 p"
    by (simp add: pin_value_def)
  then have "always (release_safe (\<lambda>r. pin_value r 2 p) (PCIE_APB_BASE 0) (\<lambda>a. 0))
      (snd (snd (InitializePciHost (logged M) B 0 (h, []))))"
    using assms unfolding pcie_boards_def
    by (auto intro!: rock4d.host_release cm5io.host_release simp: NUM_PCIE_CONTROLLER_def)
  then show ?thesis
    by (rule always_mono) (use pin_value_history [of r _ 2 p "\<lambda>a. 0"] in \<open>auto simp: release_safe_def split: if_splits\<close>)
qed

theorem pcie_perst_release_witness:
  "always (\<lambda>t. pin_value (masked_file (\<lambda>a. - 1) t) 2 9 \<longrightarrow>
      clock_stable (PCIE_APB_BASE 0) t \<or> pin_value (\<lambda>a. - 1) 2 9 \<and> (\<forall>e \<in> set t. \<not> sets_pin 2 9 e))
    (snd (snd (InitializePciHost (logged reg_file) (pcie_cm5io (logged reg_file)) 0 ((\<lambda>a. - 1), []))))"
  by (rule pcie_perst_release) (simp add: pcie_boards_def)

text \<open>
  C7: Whatever the device does and whatever its registers held before, every access to the controller's
  DBI registers and to the endpoint's configuration space during the set-up happens with the
  controller's clocks open, its resets released and the idle request of its interconnect withdrawn.
\<close>

theorem pcie_bus_guard:
  assumes "(B, p) \<in> pcie_boards (logged M)" "seg < NUM_PCIE_CONTROLLER"
  shows "guarded (bus_access seg) (bus_ready seg) r (snd (snd (InitializePciHost (logged M) B seg (h, []))))"
  using assms unfolding pcie_boards_def by (auto intro!: rock4d.host_guard cm5io.host_guard)

theorem pcie_bus_guard_witness:
  "guarded (bus_access 1) (bus_ready 1) (\<lambda>a. 0xFFFF)
    (snd (snd (InitializePciHost (logged reg_file) (pcie_rock4d (logged reg_file)) 1 ((\<lambda>a. 0xFFFF), []))))"
  by (rule pcie_bus_guard [of _ 12]) (simp_all add: pcie_boards_def NUM_PCIE_CONTROLLER_def)

text \<open>
  C37: The set-up of a controller that exists ends with success or with a timeout, after at most 1.822
  seconds of waiting, whatever the device does; on a timeout it leaves the controller's two resets
  asserted. The bound is what the code does and not what its comments and log lines promise:
  PciHostBridgeInit.c lines 785-787 and 857-860 say that the host waits a full second after
  link-up, and the log line at 800 announces a settle of 200 ms before the reset is released. The
  second is nowhere waited and the settle is 100 ms; with either wait executed an attempt that
  comes up late would exceed the bound, so the bound also shows that they are missing.
\<close>

theorem pcie_outcome:
  assumes "(B, p) \<in> pcie_boards (logged M)" "seg < NUM_PCIE_CONTROLLER" "InitializePciHost (logged M) B seg (h, []) = (status, s)"
  shows "(status = EFI_SUCCESS \<or> status = Error EFI_TIMEOUT) \<and> waited (snd s) \<le> 1822000 \<and>
    (status = Error EFI_TIMEOUT \<longrightarrow>
      (\<forall>b \<in> (if seg = PCIE_SEGMENT_PCIE0 then {13, 15} else {7, 9}). bit (masked_file r (snd s) (pcie_reset_reg seg)) b))"
  using assms(1) unfolding pcie_boards_def
proof (elim insertE emptyE)
  assume "(B, p) = (pcie_rock4d (logged M), 12)"
  then show ?thesis
    using assms(2,3) by (intro rock4d.host_outcome) auto
next
  assume "(B, p) = (pcie_cm5io (logged M), 9)"
  then show ?thesis
    using assms(2,3) by (intro cm5io.host_outcome) auto
qed

theorem pcie_outcome_witness:
  "\<exists>status s. InitializePciHost (logged reg_file) (pcie_cm5io (logged reg_file)) 0 ((\<lambda>a. 0), []) = (status, s) \<and> waited (snd s) \<le> 1822000"
proof -
  obtain status s where run: "InitializePciHost (logged reg_file) (pcie_cm5io (logged reg_file)) 0 ((\<lambda>a. 0), []) = (status, s)"
    by (meson surj_pair)
  have "waited (snd s) \<le> 1822000"
    using pcie_outcome [OF _ _ run, of 9 "\<lambda>a. 0"] by (simp add: pcie_boards_def NUM_PCIE_CONTROLLER_def)
  then show ?thesis
    using run by blast
qed

end
