(* ===== verification/PciSegment.thy ===== *)
theory PciSegment
  imports PciHost
begin

text \<open>
  The configuration space of the PCIe controllers: the accessors of \<open>PciSegmentLib.c\<close>, which the PCI bus driver calls
  for every register of every device, and the description of the root bridges in \<open>PciHostBridgeLib.c\<close>. The bit field
  functions of BaseLib are the record \<open>bit_field_lib\<close>; \<^term>\<open>None\<close> is a failed ASSERT.
\<close>

section \<open>Address map\<close>

definition PCIE_IO_SIZE :: u64 where "PCIE_IO_SIZE = SIZE_1MB"
definition PCIE_MEM32_BUS_BASE :: u64 where "PCIE_MEM32_BUS_BASE = 0x20200000"
definition PCIE_IO_BUS_BASE :: u64 where "PCIE_IO_BUS_BASE = 0"
definition PCIE_IO_TRANSLATION :: "u32 \<Rightarrow> u64" where "PCIE_IO_TRANSLATION Segment = 0"
definition PCIE_BUS_COUNT :: u64 where "PCIE_BUS_COUNT = 16"
definition PCIE_BUS_BASE :: "u32 \<Rightarrow> u64" where "PCIE_BUS_BASE Segment = ucast Segment * 32"
definition PCIE_BUS_LIMIT :: "u32 \<Rightarrow> u64" where "PCIE_BUS_LIMIT Segment = PCIE_BUS_BASE Segment + PCIE_BUS_COUNT - 1"
definition PCIE_BUS_BASE_OFFSET :: "u32 \<Rightarrow> u64" where "PCIE_BUS_BASE_OFFSET Segment = PCIE_BUS_BASE Segment * SIZE_1MB"

section \<open>Addresses\<close>

datatype PCI_CFG_WIDTH = PciCfgWidthUint8 | PciCfgWidthUint16 | PciCfgWidthUint32 | PciCfgWidthMax

definition ASSERT_INVALID_PCI_SEGMENT_ADDRESS :: "u64 \<Rightarrow> u64 \<Rightarrow> unit run" where
  "ASSERT_INVALID_PCI_SEGMENT_ADDRESS A M = assert_that (A AND (0xffff0000f0000000 OR M) = 0)"

definition INVALID_PCI_ADDRESS :: u64 where "INVALID_PCI_ADDRESS = 0xffffffff"

definition GET_SEG_NUM :: "u64 \<Rightarrow> u64" where "GET_SEG_NUM Address = drop_bit 32 Address AND 0xFFFF"
definition GET_BUS_NUM :: "u64 \<Rightarrow> u64" where "GET_BUS_NUM Address = drop_bit 20 Address AND 0xFF"
definition GET_DEV_NUM :: "u64 \<Rightarrow> u64" where "GET_DEV_NUM Address = drop_bit 15 Address AND 0x1F"
definition GET_FUNC_NUM :: "u64 \<Rightarrow> u64" where "GET_FUNC_NUM Address = drop_bit 12 Address AND 0x07"
definition GET_REG_NUM :: "u64 \<Rightarrow> u64" where "GET_REG_NUM Address = Address AND 0xFFF"

definition PciSegmentLibGetConfigBase :: "u64 \<Rightarrow> u64 run" where
  "PciSegmentLibGetConfigBase Address =
     (let Segment = (ucast (ucast (GET_SEG_NUM Address) :: u16) :: u32);
          Bus = (ucast (ucast (GET_BUS_NUM Address) :: u8) :: u64);
          Device = (ucast (ucast (GET_DEV_NUM Address) :: u8) :: u64);
          Function = (ucast (ucast (GET_FUNC_NUM Address) :: u8) :: u64)
      in if Segment \<ge> NUM_PCIE_CONTROLLER then None
         else if (Bus = PCIE_BUS_BASE Segment \<and> Device + Function > 0) \<or> (Bus = PCIE_BUS_BASE Segment + 1 \<and> Device > 0)
         then Some INVALID_PCI_ADDRESS
         else let (Base, Address) =
                    (if Bus = PCIE_BUS_BASE Segment then (PCIE_DBI_BASE Segment, Address - PCIE_BUS_BASE_OFFSET Segment)
                     else (PCIE_CFG_BASE Segment, Address))
              in Some (Base + ucast (ucast Address :: u32)))"

section \<open>Accesses\<close>

record 'h config_mmio = "'h mmio" +
  MmioRead8 :: "'h \<Rightarrow> u64 \<Rightarrow> u8 \<times> 'h"
  MmioRead16 :: "'h \<Rightarrow> u64 \<Rightarrow> u16 \<times> 'h"
  MmioWrite8 :: "'h \<Rightarrow> u64 \<Rightarrow> u8 \<Rightarrow> 'h"

record 'w bit_field_lib =
  BitFieldRead :: "'w \<Rightarrow> u64 \<Rightarrow> u64 \<Rightarrow> 'w run"
  BitFieldWrite :: "'w \<Rightarrow> u64 \<Rightarrow> u64 \<Rightarrow> 'w \<Rightarrow> 'w run"
  BitFieldOr :: "'w \<Rightarrow> u64 \<Rightarrow> u64 \<Rightarrow> 'w \<Rightarrow> 'w run"
  BitFieldAnd :: "'w \<Rightarrow> u64 \<Rightarrow> u64 \<Rightarrow> 'w \<Rightarrow> 'w run"
  BitFieldAndThenOr :: "'w \<Rightarrow> u64 \<Rightarrow> u64 \<Rightarrow> 'w \<Rightarrow> 'w \<Rightarrow> 'w run"

definition PciSegmentLibReadWorker :: "'h config_mmio \<Rightarrow> u64 \<Rightarrow> PCI_CFG_WIDTH \<Rightarrow> 'h \<Rightarrow> (u32 \<times> 'h) run" where
  "PciSegmentLibReadWorker M Address Width s = do {
     Base \<leftarrow> PciSegmentLibGetConfigBase Address;
     if Base = INVALID_PCI_ADDRESS then Some (ucast Base, s)
     else case Width of
       PciCfgWidthUint8 \<Rightarrow> Some (map_prod ucast id (MmioRead8 M s Base))
     | PciCfgWidthUint16 \<Rightarrow> Some (map_prod ucast id (MmioRead16 M s Base))
     | PciCfgWidthUint32 \<Rightarrow> Some (MmioRead32 M s Base)
     | PciCfgWidthMax \<Rightarrow> None
   }"

definition PciSegmentLibWriteWorker :: "'h config_mmio \<Rightarrow> u64 \<Rightarrow> PCI_CFG_WIDTH \<Rightarrow> u32 \<Rightarrow> 'h \<Rightarrow> (u32 \<times> 'h) run" where
  "PciSegmentLibWriteWorker M Address Width Data s = do {
     Base \<leftarrow> PciSegmentLibGetConfigBase Address;
     if Base = INVALID_PCI_ADDRESS then Some (ucast Base, s)
     else case Width of
       PciCfgWidthUint8 \<Rightarrow> Some (Data, MmioWrite8 M s Base (ucast Data))
     | PciCfgWidthUint16 \<Rightarrow> Some (Data, MmioWrite16 M s Base (ucast Data))
     | PciCfgWidthUint32 \<Rightarrow> Some (Data, MmioWrite32 M s Base Data)
     | PciCfgWidthMax \<Rightarrow> None
   }"

definition PciSegmentRegisterForRuntimeAccess :: "u64 \<Rightarrow> efi_status run" where
  "PciSegmentRegisterForRuntimeAccess Address = do {
     ASSERT_INVALID_PCI_SEGMENT_ADDRESS Address 0;
     Some (Error EFI_UNSUPPORTED)
   }"


section \<open>Registers of 8 bits\<close>

definition PciSegmentRead8 :: "'h config_mmio \<Rightarrow> u64 \<Rightarrow> 'h \<Rightarrow> (u8 \<times> 'h) run" where
  "PciSegmentRead8 M Address s = do {
     ASSERT_INVALID_PCI_SEGMENT_ADDRESS Address 0;
     (v, s) \<leftarrow> PciSegmentLibReadWorker M Address PciCfgWidthUint8 s;
     Some (ucast v, s)
   }"

definition PciSegmentWrite8 :: "'h config_mmio \<Rightarrow> u64 \<Rightarrow> u8 \<Rightarrow> 'h \<Rightarrow> (u8 \<times> 'h) run" where
  "PciSegmentWrite8 M Address Val s = do {
     ASSERT_INVALID_PCI_SEGMENT_ADDRESS Address 0;
     (v, s) \<leftarrow> PciSegmentLibWriteWorker M Address PciCfgWidthUint8 (ucast Val) s;
     Some (ucast v, s)
   }"

definition PciSegmentOr8 :: "'h config_mmio \<Rightarrow> u64 \<Rightarrow> u8 \<Rightarrow> 'h \<Rightarrow> (u8 \<times> 'h) run" where
  "PciSegmentOr8 M Address OrData s = do {
     (v, s) \<leftarrow> PciSegmentRead8 M Address s;
     PciSegmentWrite8 M Address (v OR OrData) s
   }"

definition PciSegmentAnd8 :: "'h config_mmio \<Rightarrow> u64 \<Rightarrow> u8 \<Rightarrow> 'h \<Rightarrow> (u8 \<times> 'h) run" where
  "PciSegmentAnd8 M Address AndData s = do {
     (v, s) \<leftarrow> PciSegmentRead8 M Address s;
     PciSegmentWrite8 M Address (v AND AndData) s
   }"

definition PciSegmentAndThenOr8 :: "'h config_mmio \<Rightarrow> u64 \<Rightarrow> u8 \<Rightarrow> u8 \<Rightarrow> 'h \<Rightarrow> (u8 \<times> 'h) run" where
  "PciSegmentAndThenOr8 M Address AndData OrData s = do {
     (v, s) \<leftarrow> PciSegmentRead8 M Address s;
     PciSegmentWrite8 M Address ((v AND AndData) OR OrData) s
   }"

definition PciSegmentBitFieldRead8 :: "u8 bit_field_lib \<Rightarrow> 'h config_mmio \<Rightarrow> u64 \<Rightarrow> u64 \<Rightarrow> u64 \<Rightarrow> 'h \<Rightarrow> (u8 \<times> 'h) run" where
  "PciSegmentBitFieldRead8 B M Address StartBit EndBit s = do {
     (v, s) \<leftarrow> PciSegmentRead8 M Address s;
     f \<leftarrow> BitFieldRead B v StartBit EndBit;
     Some (f, s)
   }"

definition PciSegmentBitFieldWrite8 :: "u8 bit_field_lib \<Rightarrow> 'h config_mmio \<Rightarrow> u64 \<Rightarrow> u64 \<Rightarrow> u64 \<Rightarrow> u8 \<Rightarrow> 'h \<Rightarrow> (u8 \<times> 'h) run" where
  "PciSegmentBitFieldWrite8 B M Address StartBit EndBit Val s = do {
     (v, s) \<leftarrow> PciSegmentRead8 M Address s;
     w \<leftarrow> BitFieldWrite B v StartBit EndBit Val;
     PciSegmentWrite8 M Address w s
   }"

definition PciSegmentBitFieldOr8 :: "u8 bit_field_lib \<Rightarrow> 'h config_mmio \<Rightarrow> u64 \<Rightarrow> u64 \<Rightarrow> u64 \<Rightarrow> u8 \<Rightarrow> 'h \<Rightarrow> (u8 \<times> 'h) run" where
  "PciSegmentBitFieldOr8 B M Address StartBit EndBit OrData s = do {
     (v, s) \<leftarrow> PciSegmentRead8 M Address s;
     w \<leftarrow> BitFieldOr B v StartBit EndBit OrData;
     PciSegmentWrite8 M Address w s
   }"

definition PciSegmentBitFieldAnd8 :: "u8 bit_field_lib \<Rightarrow> 'h config_mmio \<Rightarrow> u64 \<Rightarrow> u64 \<Rightarrow> u64 \<Rightarrow> u8 \<Rightarrow> 'h \<Rightarrow> (u8 \<times> 'h) run" where
  "PciSegmentBitFieldAnd8 B M Address StartBit EndBit AndData s = do {
     (v, s) \<leftarrow> PciSegmentRead8 M Address s;
     w \<leftarrow> BitFieldAnd B v StartBit EndBit AndData;
     PciSegmentWrite8 M Address w s
   }"

definition PciSegmentBitFieldAndThenOr8 :: "u8 bit_field_lib \<Rightarrow> 'h config_mmio \<Rightarrow> u64 \<Rightarrow> u64 \<Rightarrow> u64 \<Rightarrow> u8 \<Rightarrow> u8 \<Rightarrow> 'h \<Rightarrow> (u8 \<times> 'h) run" where
  "PciSegmentBitFieldAndThenOr8 B M Address StartBit EndBit AndData OrData s = do {
     (v, s) \<leftarrow> PciSegmentRead8 M Address s;
     w \<leftarrow> BitFieldAndThenOr B v StartBit EndBit AndData OrData;
     PciSegmentWrite8 M Address w s
   }"


section \<open>Registers of 16 bits\<close>

definition PciSegmentRead16 :: "'h config_mmio \<Rightarrow> u64 \<Rightarrow> 'h \<Rightarrow> (u16 \<times> 'h) run" where
  "PciSegmentRead16 M Address s = do {
     ASSERT_INVALID_PCI_SEGMENT_ADDRESS Address 1;
     (v, s) \<leftarrow> PciSegmentLibReadWorker M Address PciCfgWidthUint16 s;
     Some (ucast v, s)
   }"

definition PciSegmentWrite16 :: "'h config_mmio \<Rightarrow> u64 \<Rightarrow> u16 \<Rightarrow> 'h \<Rightarrow> (u16 \<times> 'h) run" where
  "PciSegmentWrite16 M Address Val s = do {
     ASSERT_INVALID_PCI_SEGMENT_ADDRESS Address 1;
     (v, s) \<leftarrow> PciSegmentLibWriteWorker M Address PciCfgWidthUint16 (ucast Val) s;
     Some (ucast v, s)
   }"

definition PciSegmentOr16 :: "'h config_mmio \<Rightarrow> u64 \<Rightarrow> u16 \<Rightarrow> 'h \<Rightarrow> (u16 \<times> 'h) run" where
  "PciSegmentOr16 M Address OrData s = do {
     (v, s) \<leftarrow> PciSegmentRead16 M Address s;
     PciSegmentWrite16 M Address (v OR OrData) s
   }"

definition PciSegmentAnd16 :: "'h config_mmio \<Rightarrow> u64 \<Rightarrow> u16 \<Rightarrow> 'h \<Rightarrow> (u16 \<times> 'h) run" where
  "PciSegmentAnd16 M Address AndData s = do {
     (v, s) \<leftarrow> PciSegmentRead16 M Address s;
     PciSegmentWrite16 M Address (v AND AndData) s
   }"

definition PciSegmentAndThenOr16 :: "'h config_mmio \<Rightarrow> u64 \<Rightarrow> u16 \<Rightarrow> u16 \<Rightarrow> 'h \<Rightarrow> (u16 \<times> 'h) run" where
  "PciSegmentAndThenOr16 M Address AndData OrData s = do {
     (v, s) \<leftarrow> PciSegmentRead16 M Address s;
     PciSegmentWrite16 M Address ((v AND AndData) OR OrData) s
   }"

definition PciSegmentBitFieldRead16 :: "u16 bit_field_lib \<Rightarrow> 'h config_mmio \<Rightarrow> u64 \<Rightarrow> u64 \<Rightarrow> u64 \<Rightarrow> 'h \<Rightarrow> (u16 \<times> 'h) run" where
  "PciSegmentBitFieldRead16 B M Address StartBit EndBit s = do {
     (v, s) \<leftarrow> PciSegmentRead16 M Address s;
     f \<leftarrow> BitFieldRead B v StartBit EndBit;
     Some (f, s)
   }"

definition PciSegmentBitFieldWrite16 :: "u16 bit_field_lib \<Rightarrow> 'h config_mmio \<Rightarrow> u64 \<Rightarrow> u64 \<Rightarrow> u64 \<Rightarrow> u16 \<Rightarrow> 'h \<Rightarrow> (u16 \<times> 'h) run" where
  "PciSegmentBitFieldWrite16 B M Address StartBit EndBit Val s = do {
     (v, s) \<leftarrow> PciSegmentRead16 M Address s;
     w \<leftarrow> BitFieldWrite B v StartBit EndBit Val;
     PciSegmentWrite16 M Address w s
   }"

definition PciSegmentBitFieldOr16 :: "u16 bit_field_lib \<Rightarrow> 'h config_mmio \<Rightarrow> u64 \<Rightarrow> u64 \<Rightarrow> u64 \<Rightarrow> u16 \<Rightarrow> 'h \<Rightarrow> (u16 \<times> 'h) run" where
  "PciSegmentBitFieldOr16 B M Address StartBit EndBit OrData s = do {
     (v, s) \<leftarrow> PciSegmentRead16 M Address s;
     w \<leftarrow> BitFieldOr B v StartBit EndBit OrData;
     PciSegmentWrite16 M Address w s
   }"

definition PciSegmentBitFieldAnd16 :: "u16 bit_field_lib \<Rightarrow> 'h config_mmio \<Rightarrow> u64 \<Rightarrow> u64 \<Rightarrow> u64 \<Rightarrow> u16 \<Rightarrow> 'h \<Rightarrow> (u16 \<times> 'h) run" where
  "PciSegmentBitFieldAnd16 B M Address StartBit EndBit AndData s = do {
     (v, s) \<leftarrow> PciSegmentRead16 M Address s;
     w \<leftarrow> BitFieldAnd B v StartBit EndBit AndData;
     PciSegmentWrite16 M Address w s
   }"

definition PciSegmentBitFieldAndThenOr16 :: "u16 bit_field_lib \<Rightarrow> 'h config_mmio \<Rightarrow> u64 \<Rightarrow> u64 \<Rightarrow> u64 \<Rightarrow> u16 \<Rightarrow> u16 \<Rightarrow> 'h \<Rightarrow> (u16 \<times> 'h) run" where
  "PciSegmentBitFieldAndThenOr16 B M Address StartBit EndBit AndData OrData s = do {
     (v, s) \<leftarrow> PciSegmentRead16 M Address s;
     w \<leftarrow> BitFieldAndThenOr B v StartBit EndBit AndData OrData;
     PciSegmentWrite16 M Address w s
   }"


section \<open>Registers of 32 bits\<close>

definition PciSegmentRead32 :: "'h config_mmio \<Rightarrow> u64 \<Rightarrow> 'h \<Rightarrow> (u32 \<times> 'h) run" where
  "PciSegmentRead32 M Address s = do {
     ASSERT_INVALID_PCI_SEGMENT_ADDRESS Address 3;
     (v, s) \<leftarrow> PciSegmentLibReadWorker M Address PciCfgWidthUint32 s;
     Some (v, s)
   }"

definition PciSegmentWrite32 :: "'h config_mmio \<Rightarrow> u64 \<Rightarrow> u32 \<Rightarrow> 'h \<Rightarrow> (u32 \<times> 'h) run" where
  "PciSegmentWrite32 M Address Val s = do {
     ASSERT_INVALID_PCI_SEGMENT_ADDRESS Address 3;
     (v, s) \<leftarrow> PciSegmentLibWriteWorker M Address PciCfgWidthUint32 Val s;
     Some (v, s)
   }"

definition PciSegmentOr32 :: "'h config_mmio \<Rightarrow> u64 \<Rightarrow> u32 \<Rightarrow> 'h \<Rightarrow> (u32 \<times> 'h) run" where
  "PciSegmentOr32 M Address OrData s = do {
     (v, s) \<leftarrow> PciSegmentRead32 M Address s;
     PciSegmentWrite32 M Address (v OR OrData) s
   }"

definition PciSegmentAnd32 :: "'h config_mmio \<Rightarrow> u64 \<Rightarrow> u32 \<Rightarrow> 'h \<Rightarrow> (u32 \<times> 'h) run" where
  "PciSegmentAnd32 M Address AndData s = do {
     (v, s) \<leftarrow> PciSegmentRead32 M Address s;
     PciSegmentWrite32 M Address (v AND AndData) s
   }"

definition PciSegmentAndThenOr32 :: "'h config_mmio \<Rightarrow> u64 \<Rightarrow> u32 \<Rightarrow> u32 \<Rightarrow> 'h \<Rightarrow> (u32 \<times> 'h) run" where
  "PciSegmentAndThenOr32 M Address AndData OrData s = do {
     (v, s) \<leftarrow> PciSegmentRead32 M Address s;
     PciSegmentWrite32 M Address ((v AND AndData) OR OrData) s
   }"

definition PciSegmentBitFieldRead32 :: "u32 bit_field_lib \<Rightarrow> 'h config_mmio \<Rightarrow> u64 \<Rightarrow> u64 \<Rightarrow> u64 \<Rightarrow> 'h \<Rightarrow> (u32 \<times> 'h) run" where
  "PciSegmentBitFieldRead32 B M Address StartBit EndBit s = do {
     (v, s) \<leftarrow> PciSegmentRead32 M Address s;
     f \<leftarrow> BitFieldRead B v StartBit EndBit;
     Some (f, s)
   }"

definition PciSegmentBitFieldWrite32 :: "u32 bit_field_lib \<Rightarrow> 'h config_mmio \<Rightarrow> u64 \<Rightarrow> u64 \<Rightarrow> u64 \<Rightarrow> u32 \<Rightarrow> 'h \<Rightarrow> (u32 \<times> 'h) run" where
  "PciSegmentBitFieldWrite32 B M Address StartBit EndBit Val s = do {
     (v, s) \<leftarrow> PciSegmentRead32 M Address s;
     w \<leftarrow> BitFieldWrite B v StartBit EndBit Val;
     PciSegmentWrite32 M Address w s
   }"

definition PciSegmentBitFieldOr32 :: "u32 bit_field_lib \<Rightarrow> 'h config_mmio \<Rightarrow> u64 \<Rightarrow> u64 \<Rightarrow> u64 \<Rightarrow> u32 \<Rightarrow> 'h \<Rightarrow> (u32 \<times> 'h) run" where
  "PciSegmentBitFieldOr32 B M Address StartBit EndBit OrData s = do {
     (v, s) \<leftarrow> PciSegmentRead32 M Address s;
     w \<leftarrow> BitFieldOr B v StartBit EndBit OrData;
     PciSegmentWrite32 M Address w s
   }"

definition PciSegmentBitFieldAnd32 :: "u32 bit_field_lib \<Rightarrow> 'h config_mmio \<Rightarrow> u64 \<Rightarrow> u64 \<Rightarrow> u64 \<Rightarrow> u32 \<Rightarrow> 'h \<Rightarrow> (u32 \<times> 'h) run" where
  "PciSegmentBitFieldAnd32 B M Address StartBit EndBit AndData s = do {
     (v, s) \<leftarrow> PciSegmentRead32 M Address s;
     w \<leftarrow> BitFieldAnd B v StartBit EndBit AndData;
     PciSegmentWrite32 M Address w s
   }"

definition PciSegmentBitFieldAndThenOr32 :: "u32 bit_field_lib \<Rightarrow> 'h config_mmio \<Rightarrow> u64 \<Rightarrow> u64 \<Rightarrow> u64 \<Rightarrow> u32 \<Rightarrow> u32 \<Rightarrow> 'h \<Rightarrow> (u32 \<times> 'h) run" where
  "PciSegmentBitFieldAndThenOr32 B M Address StartBit EndBit AndData OrData s = do {
     (v, s) \<leftarrow> PciSegmentRead32 M Address s;
     w \<leftarrow> BitFieldAndThenOr B v StartBit EndBit AndData OrData;
     PciSegmentWrite32 M Address w s
   }"


section \<open>Ranges of registers\<close>

text \<open>Values in a buffer, lowest byte first; \<open>ReadUnaligned\<close> stops when the buffer ends before them.\<close>

definition bytes16 :: "u16 \<Rightarrow> u8 list" where
  "bytes16 v = [ucast v, ucast (drop_bit 8 v)]"

definition bytes32 :: "u32 \<Rightarrow> u8 list" where
  "bytes32 v = [ucast v, ucast (drop_bit 8 v), ucast (drop_bit 16 v), ucast (drop_bit 24 v)]"

definition word16 :: "u8 \<Rightarrow> u8 \<Rightarrow> u16" where
  "word16 a b = ucast a OR push_bit 8 (ucast b)"

definition word32 :: "u8 \<Rightarrow> u8 \<Rightarrow> u8 \<Rightarrow> u8 \<Rightarrow> u32" where
  "word32 a b c d = ucast a OR push_bit 8 (ucast b) OR push_bit 16 (ucast c) OR push_bit 24 (ucast d)"

fun ReadUnaligned8 :: "u8 list \<Rightarrow> u8 run" where
  "ReadUnaligned8 (a # bs) = Some a"
| "ReadUnaligned8 bs = None"

fun ReadUnaligned16 :: "u8 list \<Rightarrow> u16 run" where
  "ReadUnaligned16 (a # b # bs) = Some (word16 a b)"
| "ReadUnaligned16 bs = None"

fun ReadUnaligned32 :: "u8 list \<Rightarrow> u32 run" where
  "ReadUnaligned32 (a # b # c # d # bs) = Some (word32 a b c d)"
| "ReadUnaligned32 bs = None"

text \<open>The state of a read: the next address, the bytes left, what the buffer has got; and of a write.\<close>

type_synonym 'h read_state = "u64 \<times> u64 \<times> u8 list \<times> 'h"
type_synonym 'h write_state = "u64 \<times> u64 \<times> u8 list \<times> 'h"

fun read_byte :: "'h config_mmio \<Rightarrow> 'h read_state \<Rightarrow> 'h read_state run" where
  "read_byte M (StartAddress, Size, Buffer, s) = do {
     (v, s) \<leftarrow> PciSegmentRead8 M StartAddress s;
     Some (StartAddress + 1, Size - 1, Buffer @ [v], s)
   }"

fun read_word :: "'h config_mmio \<Rightarrow> 'h read_state \<Rightarrow> 'h read_state run" where
  "read_word M (StartAddress, Size, Buffer, s) = do {
     (v, s) \<leftarrow> PciSegmentRead16 M StartAddress s;
     Some (StartAddress + 2, Size - 2, Buffer @ bytes16 v, s)
   }"

function read_dwords :: "'h config_mmio \<Rightarrow> u64 \<Rightarrow> u64 \<Rightarrow> u8 list \<Rightarrow> 'h \<Rightarrow> 'h read_state run" where
  "read_dwords M StartAddress Size Buffer s =
     (if Size \<ge> 4 then do {
        (v, s) \<leftarrow> PciSegmentRead32 M StartAddress s;
        read_dwords M (StartAddress + 4) (Size - 4) (Buffer @ bytes32 v) s
      } else Some (StartAddress, Size, Buffer, s))"
  by pat_completeness auto
termination
  by (relation "measure (\<lambda>(M, A, n, B, s). unat n)") (auto simp: unat_sub word_le_nat_alt)

definition PciSegmentReadBuffer :: "'h config_mmio \<Rightarrow> u64 \<Rightarrow> u64 \<Rightarrow> bool \<Rightarrow> 'h \<Rightarrow> (u64 \<times> u8 list \<times> 'h) run" where
  "PciSegmentReadBuffer M StartAddress Size BufferNull s = do {
     ASSERT_INVALID_PCI_SEGMENT_ADDRESS StartAddress 0;
     assert_that ((StartAddress AND 0xFFF) + Size \<le> 0x1000);
     if Size = 0 then Some (Size, [], s)
     else do {
       assert_that (\<not> BufferNull);
       r \<leftarrow> (if StartAddress AND 1 \<noteq> 0 then read_byte M (StartAddress, Size, [], s) else Some (StartAddress, Size, [], s));
       r \<leftarrow> (case r of (A, n, _) \<Rightarrow> if n \<ge> 2 \<and> A AND 2 \<noteq> 0 then read_word M r else Some r);
       r \<leftarrow> (case r of (A, n, B, s) \<Rightarrow> read_dwords M A n B s);
       r \<leftarrow> (case r of (A, n, _) \<Rightarrow> if n \<ge> 2 then read_word M r else Some r);
       r \<leftarrow> (case r of (A, n, _) \<Rightarrow> if n \<ge> 1 then read_byte M r else Some r);
       (case r of (A, n, B, s) \<Rightarrow> Some (Size, B, s))
     }
   }"

fun write_byte :: "'h config_mmio \<Rightarrow> 'h write_state \<Rightarrow> 'h write_state run" where
  "write_byte M (StartAddress, Size, Buffer, s) = do {
     v \<leftarrow> ReadUnaligned8 Buffer;
     (_, s) \<leftarrow> PciSegmentWrite8 M StartAddress v s;
     Some (StartAddress + 1, Size - 1, drop 1 Buffer, s)
   }"

fun write_word :: "'h config_mmio \<Rightarrow> 'h write_state \<Rightarrow> 'h write_state run" where
  "write_word M (StartAddress, Size, Buffer, s) = do {
     v \<leftarrow> ReadUnaligned16 Buffer;
     (_, s) \<leftarrow> PciSegmentWrite16 M StartAddress v s;
     Some (StartAddress + 2, Size - 2, drop 2 Buffer, s)
   }"

function write_dwords :: "'h config_mmio \<Rightarrow> u64 \<Rightarrow> u64 \<Rightarrow> u8 list \<Rightarrow> 'h \<Rightarrow> 'h write_state run" where
  "write_dwords M StartAddress Size Buffer s =
     (if Size \<ge> 4 then do {
        v \<leftarrow> ReadUnaligned32 Buffer;
        (_, s) \<leftarrow> PciSegmentWrite32 M StartAddress v s;
        write_dwords M (StartAddress + 4) (Size - 4) (drop 4 Buffer) s
      } else Some (StartAddress, Size, Buffer, s))"
  by pat_completeness auto
termination
  by (relation "measure (\<lambda>(M, A, n, B, s). unat n)") (auto simp: unat_sub word_le_nat_alt)

declare read_dwords.simps [simp del] write_dwords.simps [simp del]

definition PciSegmentWriteBuffer :: "'h config_mmio \<Rightarrow> u64 \<Rightarrow> u64 \<Rightarrow> u8 list option \<Rightarrow> 'h \<Rightarrow> (u64 \<times> 'h) run" where
  "PciSegmentWriteBuffer M StartAddress Size Buffer s = do {
     ASSERT_INVALID_PCI_SEGMENT_ADDRESS StartAddress 0;
     assert_that ((StartAddress AND 0xFFF) + Size \<le> 0x1000);
     if Size = 0 then Some (0, s)
     else do {
       B \<leftarrow> Buffer;
       r \<leftarrow> (if StartAddress AND 1 \<noteq> 0 then write_byte M (StartAddress, Size, B, s) else Some (StartAddress, Size, B, s));
       r \<leftarrow> (case r of (A, n, _) \<Rightarrow> if n \<ge> 2 \<and> A AND 2 \<noteq> 0 then write_word M r else Some r);
       r \<leftarrow> (case r of (A, n, B, s) \<Rightarrow> write_dwords M A n B s);
       r \<leftarrow> (case r of (A, n, _) \<Rightarrow> if n \<ge> 2 then write_word M r else Some r);
       r \<leftarrow> (case r of (A, n, _) \<Rightarrow> if n \<ge> 1 then write_byte M r else Some r);
       (case r of (A, n, B, s) \<Rightarrow> Some (Size, s))
     }
   }"

section \<open>Root bridges\<close>

record PCI_ROOT_BRIDGE_APERTURE =
  Base :: u64
  Limit :: u64
  Translation :: u64

record PCI_ROOT_BRIDGE =
  Segment :: u32
  Supports :: u64
  Attributes :: u64
  DmaAbove4G :: bool
  NoExtendedConfigSpace :: bool
  ResourceAssigned :: bool
  AllocationAttributes :: u64
  Bus :: PCI_ROOT_BRIDGE_APERTURE
  Io :: PCI_ROOT_BRIDGE_APERTURE
  Mem :: PCI_ROOT_BRIDGE_APERTURE
  MemAbove4G :: PCI_ROOT_BRIDGE_APERTURE
  PMem :: PCI_ROOT_BRIDGE_APERTURE
  PMemAbove4G :: PCI_ROOT_BRIDGE_APERTURE
  DevicePath :: nat

text \<open>The attribute bits are constants of MdePkg and MdeModulePkg.\<close>

record pci_attributes =
  EFI_PCI_ATTRIBUTE_IDE_PRIMARY_IO :: u64
  EFI_PCI_ATTRIBUTE_IDE_SECONDARY_IO :: u64
  EFI_PCI_ATTRIBUTE_ISA_IO_16 :: u64
  EFI_PCI_ATTRIBUTE_ISA_MOTHERBOARD_IO :: u64
  EFI_PCI_ATTRIBUTE_VGA_MEMORY :: u64
  EFI_PCI_ATTRIBUTE_VGA_IO_16 :: u64
  EFI_PCI_ATTRIBUTE_VGA_PALETTE_IO_16 :: u64
  EFI_PCI_HOST_BRIDGE_COMBINE_MEM_PMEM :: u64

text \<open>An aperture of the static array keeps the translation it has, which is 0.\<close>

definition aperture :: "u64 \<Rightarrow> u64 \<Rightarrow> PCI_ROOT_BRIDGE_APERTURE" where
  "aperture b l = \<lparr>Base = b, Limit = l, Translation = 0\<rparr>"

definition bridge_supports :: "pci_attributes \<Rightarrow> u64" where
  "bridge_supports P =
     EFI_PCI_ATTRIBUTE_IDE_PRIMARY_IO P OR EFI_PCI_ATTRIBUTE_IDE_SECONDARY_IO P OR EFI_PCI_ATTRIBUTE_ISA_IO_16 P OR
     EFI_PCI_ATTRIBUTE_ISA_MOTHERBOARD_IO P OR EFI_PCI_ATTRIBUTE_VGA_MEMORY P OR EFI_PCI_ATTRIBUTE_VGA_IO_16 P OR
     EFI_PCI_ATTRIBUTE_VGA_PALETTE_IO_16 P"

definition root_bridge :: "pci_attributes \<Rightarrow> u32 \<Rightarrow> PCI_ROOT_BRIDGE" where
  "root_bridge P Idx =
     \<lparr>Segment = Idx, Supports = bridge_supports P, Attributes = bridge_supports P, DmaAbove4G = True,
      NoExtendedConfigSpace = False, ResourceAssigned = False,
      AllocationAttributes = EFI_PCI_HOST_BRIDGE_COMBINE_MEM_PMEM P,
      Bus = aperture (PCIE_BUS_BASE Idx) (PCIE_BUS_LIMIT Idx),
      Io = \<lparr>Base = PCIE_IO_BUS_BASE, Limit = PCIE_IO_BUS_BASE + PCIE_IO_SIZE - 1,
            Translation = - 1 - PCIE_IO_TRANSLATION Idx + 1\<rparr>,
      Mem = (let b = PCIE_MEM32_BUS_BASE + ucast Idx * PCIE_MEM32_SIZE in aperture b (b + PCIE_MEM32_SIZE - 1)),
      MemAbove4G = aperture (- 1) 0, PMem = aperture (- 1) 0, PMemAbove4G = aperture (- 1) 0, DevicePath = unat Idx\<rparr>"

primrec bridge_loop :: "'h mmio \<Rightarrow> 'h pcie_ops \<Rightarrow> u32 \<Rightarrow> u32 \<Rightarrow> pci_attributes \<Rightarrow> nat \<Rightarrow> PCI_ROOT_BRIDGE list \<Rightarrow> 'h
    \<Rightarrow> PCI_ROOT_BRIDGE list \<times> 'h" where
  "bridge_loop M B Mode0 Mode1 P 0 bridges s = (bridges, s)"
| "bridge_loop M B Mode0 Mode1 P (Suc n) bridges s =
     (let Idx = NUM_PCIE_CONTROLLER - of_nat (Suc n)
      in if \<not> IsPcieNumEnabled Mode0 Mode1 Idx then bridge_loop M B Mode0 Mode1 P n bridges s
         else let (Status, s) = InitializePciHost M B Idx s
              in if EFI_ERROR Status then bridge_loop M B Mode0 Mode1 P n bridges s
                 else bridge_loop M B Mode0 Mode1 P n
                        (bridges @ [root_bridge P Idx]) s)"

definition PciHostBridgeGetRootBridges :: "'h mmio \<Rightarrow> 'h pcie_ops \<Rightarrow> u32 \<Rightarrow> u32 \<Rightarrow> pci_attributes \<Rightarrow> 'h
    \<Rightarrow> nat \<times> PCI_ROOT_BRIDGE list option \<times> 'h" where
  "PciHostBridgeGetRootBridges M B Mode0 Mode1 P s =
     (let (bridges, s) = bridge_loop M B Mode0 Mode1 P (unat NUM_PCIE_CONTROLLER) [] s
      in (length bridges, if length bridges = 0 then None else Some bridges, s))"

definition PciHostBridgeFreeRootBridges :: "PCI_ROOT_BRIDGE list \<Rightarrow> nat \<Rightarrow> 'h \<Rightarrow> 'h" where
  "PciHostBridgeFreeRootBridges Bridges Count s = s"

end
