(* ===== verification/PciConfig.thy ===== *)
theory PciConfig
  imports PciSegment
begin

text \<open>
  Where the configuration accessors send each address, and what single accesses do on a configuration space that
  holds bytes: the locale \<open>config_memory\<close> is the contract of such a space, \<open>config_range\<close> a range of registers of one
  function, and \<open>config_access\<close> both.
\<close>

section \<open>Decoding\<close>

abbreviation pci_address :: "u64 \<Rightarrow> bool" where
  "pci_address A \<equiv> A AND 0xffff0000f0000000 = 0"

lemma reserved_bits: "pci_address A \<longleftrightarrow> (\<forall>n. bit A n \<longrightarrow> n < 28 \<or> (32 \<le> n \<and> n < 48))"
proof -
  have "(0xffff0000f0000000 :: u64) = push_bit 48 (mask 16) OR push_bit 28 (mask 4)"
    by (simp add: mask_eq_exp_minus_1 push_bit_eq_mult)
  then have b: "bit (0xffff0000f0000000 :: u64) n \<longleftrightarrow> (48 \<le> n \<and> n < 64) \<or> (28 \<le> n \<and> n < 32)" for n
    by (rule ssubst) (auto simp: bit_simps)
  have "pci_address A \<longleftrightarrow> (\<forall>n. \<not> (bit A n \<and> bit (0xffff0000f0000000 :: u64) n))"
    by (simp add: bit_eq_iff bit_simps)
  then show ?thesis
    unfolding b using bit_imp_le_length [of A] by fastforce
qed

lemma mask_fields:
  "(0xFFFF :: u64) = mask 16" "(0xFF :: u64) = mask 8" "(0x1F :: u64) = mask 5" "(0x07 :: u64) = mask 3" "(0xFFF :: u64) = mask 12"
  by (simp_all add: mask_eq_exp_minus_1)

lemma field_narrow:
  "(ucast (ucast (GET_BUS_NUM A) :: u8) :: u64) = GET_BUS_NUM A"
  "(ucast (ucast (GET_DEV_NUM A) :: u8) :: u64) = GET_DEV_NUM A"
  "(ucast (ucast (GET_FUNC_NUM A) :: u8) :: u64) = GET_FUNC_NUM A"
  "(ucast (ucast (GET_SEG_NUM A) :: u16) :: u32) = ucast (GET_SEG_NUM A)"
  by (rule bit_word_eqI;
      auto simp: GET_BUS_NUM_def GET_DEV_NUM_def GET_FUNC_NUM_def GET_SEG_NUM_def mask_fields bit_simps)+

lemma field_bounds:
  "unat (GET_SEG_NUM A) < 2 ^ 16" "unat (GET_BUS_NUM A) < 2 ^ 8" "unat (GET_DEV_NUM A) < 2 ^ 5" "unat (GET_FUNC_NUM A) < 2 ^ 3"
proof -
  have "unat (x AND mask k) < 2 ^ k" for x :: u64 and k
    by (metis take_bit_eq_mask unsigned_take_bit_eq take_bit_nat_less_exp)
  then show "unat (GET_SEG_NUM A) < 2 ^ 16" "unat (GET_BUS_NUM A) < 2 ^ 8" "unat (GET_DEV_NUM A) < 2 ^ 5"
    "unat (GET_FUNC_NUM A) < 2 ^ 3"
    unfolding GET_SEG_NUM_def GET_BUS_NUM_def GET_DEV_NUM_def GET_FUNC_NUM_def mask_fields by blast+
qed

text \<open>The part of an address that selects a page of 4 KiB.\<close>

lemma unat_offset: "unat (A AND 0xFFF :: u64) = unat A mod 4096"
proof -
  have "(A AND 0xFFF :: u64) = A mod 4096"
    by (simp add: mask_fields take_bit_eq_mod flip: take_bit_eq_mask)
  then show ?thesis
    by (simp only: unat_mod) simp
qed

lemma page_room:
  fixes x k m :: nat
  assumes "x < 4096 * m" "x mod 4096 + k < 4096"
  shows "x + k < 4096 * m"
proof -
  have "x div 4096 + 1 \<le> m"
    using assms(1) by (simp add: less_mult_imp_div_less mult.commute Suc_le_eq)
  then have "4096 * (x div 4096) + 4096 \<le> 4096 * m"
    by simp
  moreover have "x = 4096 * (x div 4096) + x mod 4096"
    by simp
  ultimately show ?thesis
    using assms(2) by linarith
qed

lemma same_page:
  fixes A k :: u64
  assumes "unat A mod 4096 + unat k < 4096"
  shows "unat (A + k) = unat A + unat k" "drop_bit 12 (A + k) = drop_bit 12 A" "(A + k) AND 0xFFF = (A AND 0xFFF) + k"
proof -
  have split: "unat A = 4096 * (unat A div 4096) + unat A mod 4096"
    by simp
  have "unat A + unat k < 4096 * 2 ^ 52"
    using unat_bound [of A] assms by (intro page_room) simp_all
  then show s: "unat (A + k) = unat A + unat k"
    by (intro unat_add_no_wrap) simp
  have "(4096 * q + r) div 4096 = q" if "r < 4096" for q r :: nat
    using that by simp
  then have "(4096 * (unat A div 4096) + (unat A mod 4096 + unat k)) div 4096 = unat A div 4096"
    using assms by blast
  then have "unat (A + k) div 4096 = unat A div 4096"
    using s by (metis split add.assoc)
  then show "drop_bit 12 (A + k) = drop_bit 12 A"
    by (intro word_eqI_unat) (simp add: drop_bit_eq_div unat_div)
  have "unat ((A + k) AND 0xFFF) = unat (A AND 0xFFF) + unat k"
    unfolding unat_offset s using assms by (metis mod_add_left_eq mod_less)
  also have "\<dots> = unat ((A AND 0xFFF) + k)"
    using assms by (intro unat_add_no_wrap [symmetric]) (simp add: unat_offset)
  finally show "(A + k) AND 0xFFF = (A AND 0xFFF) + k"
    by (rule word_eqI_unat)
qed

definition low32 :: "u64 \<Rightarrow> u64" where
  "low32 A = ucast (ucast A :: u32)"

lemma unat_low32: "unat (low32 A) = unat A mod 2 ^ 32"
  unfolding low32_def by (simp add: unsigned_ucast_eq take_bit_eq_mod unat_mod)

lemma low32_page: "unat A mod 4096 + unat k < 4096 \<Longrightarrow> low32 (A + k) = low32 A + k"
proof (rule word_eqI_unat)
  assume a: "unat A mod 4096 + unat k < 4096"
  have m: "unat A mod 2 ^ 32 mod 4096 = unat A mod 4096"
    by (rule mod_mod_cancel) simp
  then have r: "unat A mod 2 ^ 32 + unat k < 4096 * 2 ^ 20"
    using a by (intro page_room) simp_all
  have "unat (low32 (A + k)) = (unat A + unat k) mod 2 ^ 32"
    by (simp add: unat_low32 same_page(1) a)
  also have "\<dots> = unat A mod 2 ^ 32 + unat k"
    using r by (subst mod_add_left_eq [symmetric]) simp
  also have "\<dots> = unat (low32 A + k)"
    using r by (subst unat_add_no_wrap) (simp_all add: unat_low32)
  finally show "unat (low32 (A + k)) = unat (low32 A + k)" .
qed

definition config_base :: "u64 \<Rightarrow> u64" where
  "config_base A =
     (let n = ucast (GET_SEG_NUM A); Bus = GET_BUS_NUM A
      in if Bus = PCIE_BUS_BASE n
         then if GET_DEV_NUM A = 0 \<and> GET_FUNC_NUM A = 0 then PCIE_DBI_BASE n + GET_REG_NUM A else INVALID_PCI_ADDRESS
         else if Bus = PCIE_BUS_BASE n + 1 \<and> GET_DEV_NUM A > 0 then INVALID_PCI_ADDRESS
         else PCIE_CFG_BASE n + (A AND 0x0fffffff))"

lemma low32_address: "pci_address A \<Longrightarrow> low32 A = A AND 0x0fffffff"
proof -
  assume "pci_address A"
  then have b: "bit A n \<Longrightarrow> n < 28 \<or> (32 \<le> n \<and> n < 48)" for n
    by (simp add: reserved_bits)
  have m: "(0x0fffffff :: u64) = mask 28"
    by (simp add: mask_eq_exp_minus_1)
  show ?thesis
    unfolding m low32_def by (rule bit_word_eqI) (use b in \<open>force simp: bit_simps\<close>)
qed

lemma unat_low28: "pci_address A \<Longrightarrow> unat (A AND 0x0fffffff) = unat A mod 2 ^ 28"
proof -
  have "(A AND 0x0fffffff) = A mod 0x10000000"
    using take_bit_eq_mask [of 28 A] take_bit_eq_mod [of 28 A] by (simp add: mask_eq_exp_minus_1)
  then show ?thesis
    by (simp only: unat_mod) simp
qed

lemma root_port_address:
  assumes "pci_address A" "GET_SEG_NUM A = n" "n = 0 \<or> n = 1" "GET_BUS_NUM A = n * 32" "GET_DEV_NUM A = 0" "GET_FUNC_NUM A = 0"
  shows "A = n * 0x102000000 + GET_REG_NUM A"
proof -
  have k: "bit (n * 0x102000000) k \<longleftrightarrow> n = 1 \<and> (k = 25 \<or> k = 32)" for k
  proof -
    have e: "(0x102000000 :: u64) = 2 ^ 25 OR 2 ^ 32"
      by simp
    have "bit (0x102000000 :: u64) k \<longleftrightarrow> k = 25 \<or> k = 32"
      unfolding e bit_or_iff bit_exp_iff by auto
    then show ?thesis
      using assms(3) by auto
  qed
  have bus: "bit A (k + 20) \<longleftrightarrow> n = 1 \<and> k = 5" if "k < 8" for k
  proof -
    have "bit (n * 32) k \<longleftrightarrow> n = 1 \<and> k = 5"
      using assms(3) bit_exp_iff [where ?'a = "64 word", of 5 k] by auto
    moreover have "bit (GET_BUS_NUM A) k \<longleftrightarrow> bit A (k + 20)"
      using that by (simp add: GET_BUS_NUM_def mask_fields bit_simps add.commute)
    ultimately show ?thesis
      by (simp add: assms(4))
  qed
  have seg: "bit A (k + 32) \<longleftrightarrow> n = 1 \<and> k = 0" if "k < 16" for k
  proof -
    have "bit n k \<longleftrightarrow> n = 1 \<and> k = 0"
      using assms(3) by (auto simp: bit_1_iff)
    moreover have "bit (GET_SEG_NUM A) k \<longleftrightarrow> bit A (k + 32)"
      using that by (simp add: GET_SEG_NUM_def mask_fields bit_simps add.commute)
    ultimately show ?thesis
      by (simp add: assms(2))
  qed
  have dev: "\<not> bit A (k + 15)" if "k < 5" for k
  proof -
    have "\<not> bit (GET_DEV_NUM A) k"
      by (simp add: assms(5))
    then show ?thesis
      using that by (simp add: GET_DEV_NUM_def mask_fields bit_simps add.commute)
  qed
  have func: "\<not> bit A (k + 12)" if "k < 3" for k
  proof -
    have "\<not> bit (GET_FUNC_NUM A) k"
      by (simp add: assms(6))
    then show ?thesis
      using that by (simp add: GET_FUNC_NUM_def mask_fields bit_simps add.commute)
  qed
  have res: "bit A j \<Longrightarrow> j < 28 \<or> (32 \<le> j \<and> j < 48)" for j
    using assms(1) by (simp add: reserved_bits)
  have "bit A j \<longleftrightarrow> (n = 1 \<and> (j = 25 \<or> j = 32)) \<or> (bit A j \<and> j < 12)" for j
  proof -
    consider "j < 12" | "12 \<le> j" "j < 15" | "15 \<le> j" "j < 20" | "20 \<le> j" "j < 28" | "32 \<le> j" "j < 48" | "\<not> bit A j" "28 \<le> j \<and> j < 32 \<or> 48 \<le> j"
      using res [of j] by linarith
    then show ?thesis
      by cases (use func [of "j - 12"] dev [of "j - 15"] bus [of "j - 20"] seg [of "j - 32"] in auto)
  qed
  then have "A = n * 0x102000000 OR GET_REG_NUM A"
    by (intro bit_eqI) (simp add: k bit_or_iff GET_REG_NUM_def mask_fields bit_and_iff bit_mask_iff)
  moreover have "n * 0x102000000 AND GET_REG_NUM A = 0"
    by (rule bit_word_eqI) (auto simp: bit_simps k GET_REG_NUM_def mask_fields)
  ultimately show ?thesis
    by (metis disjunctive_add_eq_or)
qed

lemma controller_cases: "(n :: u64) < 2 \<Longrightarrow> n = 0 \<or> n = 1"
  by (auto simp: word_less_nat_alt word_unat_eq_iff)

lemma config_base_eq:
  assumes "pci_address A" "GET_SEG_NUM A < 2"
  shows "PciSegmentLibGetConfigBase A = Some (config_base A)"
proof -
  define n where "n = GET_SEG_NUM A"
  have n: "n = 0 \<or> n = 1"
    using assms(2) controller_cases by (simp add: n_def)
  have lim: "\<not> (ucast n :: u32) \<ge> NUM_PCIE_CONTROLLER"
    using n by (auto simp: NUM_PCIE_CONTROLLER_def word_le_nat_alt)
  have base: "PCIE_BUS_BASE (ucast n) = n * 32" "PCIE_BUS_BASE_OFFSET (ucast n) = n * 0x2000000"
    using n by (auto simp: PCIE_BUS_BASE_def PCIE_BUS_BASE_OFFSET_def SIZE_1MB_def)
  have root: "low32 (A - n * 0x2000000) = GET_REG_NUM A"
    if "GET_BUS_NUM A = n * 32" "GET_DEV_NUM A = 0" "GET_FUNC_NUM A = 0"
  proof -
    have r: "unat (GET_REG_NUM A) < 4096"
      by (simp add: GET_REG_NUM_def unat_offset)
    have "A - n * 0x2000000 = n * 0x100000000 + GET_REG_NUM A"
      using root_port_address [OF assms(1) n_def [symmetric] n that] n by auto
    moreover have "unat (n * 0x100000000 + GET_REG_NUM A) = unat n * 0x100000000 + unat (GET_REG_NUM A)"
      using n r by (auto simp: word_nat)
    ultimately have "unat (low32 (A - n * 0x2000000)) = unat (GET_REG_NUM A)"
      using r unfolding unat_low32 by (simp only:) simp
    then show ?thesis
      by (rule word_eqI_unat)
  qed
  have zero: "\<not> GET_DEV_NUM A + GET_FUNC_NUM A > 0 \<longleftrightarrow> GET_DEV_NUM A = 0 \<and> GET_FUNC_NUM A = 0"
  proof -
    have "unat (GET_DEV_NUM A + GET_FUNC_NUM A) = unat (GET_DEV_NUM A) + unat (GET_FUNC_NUM A)"
      using field_bounds(3,4) [of A] by (simp add: word_nat)
    then have "GET_DEV_NUM A + GET_FUNC_NUM A = 0 \<longleftrightarrow> GET_DEV_NUM A = 0 \<and> GET_FUNC_NUM A = 0"
      by (metis add_is_0 unat_eq_0)
    then show ?thesis
      by (simp add: word_gt_0)
  qed
  let ?D = "GET_DEV_NUM A" and ?F = "GET_FUNC_NUM A" and ?B = "GET_BUS_NUM A"
  have run: "PciSegmentLibGetConfigBase A =
      Some (if (?B = n * 32 \<and> ?D + ?F > 0) \<or> (?B = n * 32 + 1 \<and> ?D > 0) then INVALID_PCI_ADDRESS
            else if ?B = n * 32 then PCIE_DBI_BASE (ucast n) + low32 (A - n * 0x2000000) else PCIE_CFG_BASE (ucast n) + low32 A)"
    unfolding PciSegmentLibGetConfigBase_def field_narrow Let_def
    unfolding n_def [symmetric] base low32_def using lim by (simp only: if_False) simp
  have val: "config_base A =
      (if ?B = n * 32 then if ?D = 0 \<and> ?F = 0 then PCIE_DBI_BASE (ucast n) + GET_REG_NUM A else INVALID_PCI_ADDRESS
       else if ?B = n * 32 + 1 \<and> ?D > 0 then INVALID_PCI_ADDRESS else PCIE_CFG_BASE (ucast n) + low32 A)"
    unfolding config_base_def Let_def n_def [symmetric] base low32_address [OF assms(1)] by (rule refl)
  show ?thesis
  proof (cases "?B = n * 32")
    case True
    then have "?B \<noteq> n * 32 + 1"
      by simp
    then show ?thesis
      unfolding run val using True zero root by (cases "?D = 0 \<and> ?F = 0") (simp_all only: simp_thms if_True if_False)
  next
    case False
    then show ?thesis
      unfolding run val by (simp only: simp_thms if_False)
  qed
qed

lemma segment_number:
  "Some b = PciSegmentLibGetConfigBase A \<Longrightarrow> GET_SEG_NUM A < 2"
proof -
  assume a: "Some b = PciSegmentLibGetConfigBase A"
  have "unat (ucast (GET_SEG_NUM A) :: u32) = unat (GET_SEG_NUM A)"
    using field_bounds(1) [of A] by (intro unat_ucast_small) simp
  moreover have "\<not> (ucast (GET_SEG_NUM A) :: u32) \<ge> NUM_PCIE_CONTROLLER"
    using a by (auto simp: PciSegmentLibGetConfigBase_def field_narrow Let_def split: if_splits)
  ultimately show ?thesis
    by (simp add: NUM_PCIE_CONTROLLER_def word_le_nat_alt word_less_nat_alt)
qed

section \<open>A range within the registers of one function\<close>

lemma fields_page:
  assumes "drop_bit 12 A = drop_bit 12 B"
  shows "GET_SEG_NUM A = GET_SEG_NUM B" "GET_BUS_NUM A = GET_BUS_NUM B" "GET_DEV_NUM A = GET_DEV_NUM B"
    "GET_FUNC_NUM A = GET_FUNC_NUM B" "pci_address A = pci_address B"
proof -
  have d: "drop_bit (k + 12) A = drop_bit (k + 12) B" for k
    using arg_cong [OF assms, of "drop_bit k"] by (simp only: drop_bit_drop_bit)
  show "GET_SEG_NUM A = GET_SEG_NUM B" "GET_BUS_NUM A = GET_BUS_NUM B" "GET_DEV_NUM A = GET_DEV_NUM B"
    "GET_FUNC_NUM A = GET_FUNC_NUM B"
    using d [of 20] d [of 8] d [of 3] d [of 0]
    unfolding GET_SEG_NUM_def GET_BUS_NUM_def GET_DEV_NUM_def GET_FUNC_NUM_def
    by simp_all
  have "bit A (12 + k) = bit B (12 + k)" for k
    using assms by (metis bit_drop_bit_eq comp_apply)
  then have "bit A k = bit B k" if "12 \<le> k" for k
    using that by (metis le_add_diff_inverse)
  then have "(bit A k \<longrightarrow> k < 28 \<or> (32 \<le> k \<and> k < 48)) = (bit B k \<longrightarrow> k < 28 \<or> (32 \<le> k \<and> k < 48))" for k
    by (cases "12 \<le> k") auto
  then show "pci_address A = pci_address B"
    unfolding reserved_bits by (rule all_cong1)
qed

locale config_range =
  fixes A :: u64 and b :: u64 and n :: nat
  assumes address: "pci_address A"
    and base: "PciSegmentLibGetConfigBase A = Some b" "b \<noteq> INVALID_PCI_ADDRESS"
    and room: "unat A mod 4096 + n \<le> 4096"
begin

lemma valid: "GET_SEG_NUM A < 2"
  using base(1) segment_number by metis

lemma inside: "k < n \<Longrightarrow> unat A mod 4096 + unat (of_nat k :: u64) < 4096"
  using room by (simp add: unat_of_nat_small)

lemma base_value: "b = config_base A"
  using base(1) config_base_eq [OF address valid] by simp

lemma base_page: "unat b mod 4096 = unat A mod 4096 \<and> unat b + 4096 \<le> 0xffffffff"
proof -
  define s where "s = GET_SEG_NUM A"
  have s: "s = 0 \<or> s = 1"
    using valid controller_cases by (simp add: s_def)
  have m: "unat (A AND 0x0fffffff) = unat A mod 2 ^ 28"
    by (rule unat_low28 [OF address])
  have "b = PCIE_DBI_BASE (ucast s) + GET_REG_NUM A \<or> b = PCIE_CFG_BASE (ucast s) + (A AND 0x0fffffff)"
    using base_value base(2) unfolding config_base_def Let_def s_def by (auto split: if_splits)
  then show ?thesis
  proof
    assume b: "b = PCIE_DBI_BASE (ucast s) + GET_REG_NUM A"
    have v: "unat b = 0x22000000 + unat s * 0x400000 + unat A mod 4096"
      using s unfolding b by (auto simp: PCIE_DBI_BASE_def GET_REG_NUM_def unat_offset word_nat)
    have p: "(4096 * q + x mod 4096) mod 4096 = x mod 4096" for q x :: nat
      by simp
    from p [of "0x22000" "unat A"] p [of "0x22400" "unat A"]
    have "(0x22000000 + unat A mod 4096) mod 4096 = unat A mod 4096" "(0x22400000 + unat A mod 4096) mod 4096 = unat A mod 4096"
      by simp_all
    moreover have "unat A mod 4096 < 4096"
      by simp
    ultimately show ?thesis
      using s v by (auto simp del: mod_less_divisor)
  next
    assume b: "b = PCIE_CFG_BASE (ucast s) + (A AND 0x0fffffff)"
    have r: "unat A mod 2 ^ 28 < 2 ^ 28"
      by simp
    have "unat b = 0x20000000 + unat s * 0x1000000 + unat A mod 2 ^ 28"
      using s r unfolding b by (auto simp: PCIE_CFG_BASE_def m word_nat)
    moreover have "unat A mod 2 ^ 28 mod 4096 = unat A mod 4096"
      by (rule mod_mod_cancel) simp
    ultimately show ?thesis
      using s r by (auto simp: mod_add_eq [symmetric])
  qed
qed

lemma step:
  assumes "k < n"
  shows "PciSegmentLibGetConfigBase (A + of_nat k) = Some (b + of_nat k)" "b + of_nat k \<noteq> INVALID_PCI_ADDRESS"
    "pci_address (A + of_nat k)" "unat (A + of_nat k) = unat A + k" "unat (b + of_nat k) = unat b + k"
proof -
  let ?k = "of_nat k :: u64"
  have k: "unat ?k = k" "k < 4096"
    using assms room by (simp_all add: unat_of_nat_small)
  note in_page = inside [OF assms]
  have f: "GET_SEG_NUM (A + ?k) = GET_SEG_NUM A" "GET_BUS_NUM (A + ?k) = GET_BUS_NUM A" "GET_DEV_NUM (A + ?k) = GET_DEV_NUM A"
    "GET_FUNC_NUM (A + ?k) = GET_FUNC_NUM A" "pci_address (A + ?k) = pci_address A"
    using fields_page [OF same_page(2) [OF in_page]] by blast+
  then show v: "pci_address (A + ?k)"
    using address by blast
  show "unat (A + ?k) = unat A + k"
    using same_page(1) [OF in_page] by (simp add: k)
  have "unat b mod 4096 + unat ?k < 4096"
    using in_page base_page by simp
  then show b: "unat (b + ?k) = unat b + k"
    using same_page(1) by (simp add: k)
  then show "b + ?k \<noteq> INVALID_PCI_ADDRESS"
    using base_page k by (auto simp: INVALID_PCI_ADDRESS_def)
  have reg: "GET_REG_NUM (A + ?k) = GET_REG_NUM A + ?k"
    unfolding GET_REG_NUM_def by (rule same_page(3) [OF in_page])
  have low: "(A + ?k) AND 0x0fffffff = (A AND 0x0fffffff) + ?k"
    using low32_page [OF in_page] low32_address [OF v] low32_address [OF address] by simp
  have "config_base (A + ?k) = config_base A + ?k"
    using base(2) base_value unfolding config_base_def f reg low by (auto simp: Let_def)
  then show "PciSegmentLibGetConfigBase (A + ?k) = Some (b + ?k)"
    using config_base_eq [OF v] valid f base_value by simp
qed

end

section \<open>Values and bytes\<close>

lemma u8_high: "8 \<le> n \<Longrightarrow> \<not> bit (x :: u8) n"
  using bit_imp_le_length [of x n] by auto

lemma bytes_word [simp]:
  "bytes16 (word16 x y) = [x, y]"
  "bytes32 (word32 x y z w) = [x, y, z, w]"
  by (auto simp: bytes16_def word16_def bytes32_def word32_def intro!: bit_word_eqI simp: bit_simps u8_high)

lemma ucast_back [simp]: "(ucast (ucast (v :: u8) :: u32) :: u8) = v" "(ucast (ucast (v' :: u16) :: u32) :: u16) = v'"
  by (rule bit_word_eqI, auto simp: bit_simps)+

lemma low_bits:
  fixes A :: u64
  shows "A AND 1 = 0 \<longleftrightarrow> even (unat A)" "A AND 3 = 0 \<longleftrightarrow> unat A mod 4 = 0"
    "even (unat A) \<Longrightarrow> A AND 2 = 0 \<longleftrightarrow> unat A mod 4 = 0"
proof -
  have one: "A AND 1 = A mod 2" and three: "A AND 3 = A mod 4"
    using take_bit_eq_mask [of 1 A] take_bit_eq_mask [of 2 A] take_bit_eq_mod [of 1 A] take_bit_eq_mod [of 2 A]
    by (simp_all add: mask_eq_exp_minus_1)
  show 1: "A AND 1 = 0 \<longleftrightarrow> even (unat A)"
    unfolding one even_iff_mod_2_eq_zero unat_eq_0 [symmetric] unat_mod by simp
  show 3: "A AND 3 = 0 \<longleftrightarrow> unat A mod 4 = 0"
    unfolding three unat_eq_0 [symmetric] unat_mod by simp
  have "(3 :: u64) = 2 OR 1"
    by simp
  then have "A AND 3 = (A AND 2) OR (A AND 1)"
    by (metis bit.conj_disj_distrib)
  then show "A AND 2 = 0 \<longleftrightarrow> unat A mod 4 = 0" if "even (unat A)"
    using 1 3 that by simp
qed

lemma assert_address:
  "pci_address A \<Longrightarrow> A AND M = 0 \<Longrightarrow> ASSERT_INVALID_PCI_SEGMENT_ADDRESS A M = Some ()"
  by (simp add: ASSERT_INVALID_PCI_SEGMENT_ADDRESS_def assert_that_def bit.conj_disj_distrib)

definition patch :: "(u64 \<Rightarrow> u8) \<Rightarrow> u64 \<Rightarrow> u8 list \<Rightarrow> u64 \<Rightarrow> u8" where
  "patch m a bs = (\<lambda>x. if unat a \<le> unat x \<and> unat x < unat a + length bs then bs ! (unat x - unat a) else m x)"

lemma patch_Nil [simp]: "patch m a [] = m"
  by (rule ext) (auto simp: patch_def)

lemma patch_patch:
  assumes "unat a' = unat a + length xs"
  shows "patch (patch m a xs) a' ys = patch m a (xs @ ys)"
  by (rule ext) (auto simp: patch_def nth_append assms)

definition read_cells :: "(u64 \<Rightarrow> u8) \<Rightarrow> u64 \<Rightarrow> nat \<Rightarrow> u8 list" where
  "read_cells m a n = map (\<lambda>i. m (a + of_nat i)) [0..<n]"

lemma read_cells_patch:
  assumes "unat a + length bs \<le> 2 ^ 64" "n = length bs"
  shows "read_cells (patch m a bs) a n = bs"
proof (rule nth_equalityI)
  fix i
  assume "i < length (read_cells (patch m a bs) a n)"
  then have i: "i < length bs"
    by (simp add: read_cells_def assms)
  then have "unat (a + of_nat i) = unat a + i"
    using assms(1) by (simp add: unat_of_nat_small word_nat)
  then show "read_cells (patch m a bs) a n ! i = bs ! i"
    using i assms(2) by (simp add: read_cells_def patch_def)
qed (simp add: read_cells_def assms)

section \<open>Configuration space that holds bytes\<close>

locale config_memory =
  fixes M :: "'h config_mmio"
    and cells :: "'h \<Rightarrow> u64 \<Rightarrow> u8"
  assumes read8: "fst (MmioRead8 M s a) = cells s a"
    and read16: "even (unat a) \<Longrightarrow> fst (MmioRead16 M s a) = word16 (cells s a) (cells s (a + 1))"
    and read32: "unat a mod 4 = 0 \<Longrightarrow>
      fst (MmioRead32 M s a) = word32 (cells s a) (cells s (a + 1)) (cells s (a + 2)) (cells s (a + 3))"
    and read_keeps: "cells (snd (MmioRead8 M s a)) = cells s" "cells (snd (MmioRead16 M s a)) = cells s"
      "cells (snd (MmioRead32 M s a)) = cells s"
    and write8: "cells (MmioWrite8 M s a v) = patch (cells s) a [v]"
    and write16: "even (unat a) \<Longrightarrow> cells (MmioWrite16 M s a v') = patch (cells s) a (bytes16 v')"
    and write32: "unat a mod 4 = 0 \<Longrightarrow> cells (MmioWrite32 M s a v'') = patch (cells s) a (bytes32 v'')"

locale config_access = config_memory M cells + config_range A b n
  for M :: "'h config_mmio" and cells A b n
begin

lemma aligned: "k < n \<Longrightarrow> (unat (b + of_nat k)) mod 4 = (unat (A + of_nat k)) mod 4"
  "k < n \<Longrightarrow> even (unat (b + of_nat k)) = even (unat (A + of_nat k))"
proof -
  assume k: "k < n"
  have m4: "unat b mod 4 = unat A mod 4"
    using base_page mod_mod_cancel [of 4 4096 "unat b"] mod_mod_cancel [of 4 4096 "unat A"] by simp
  then show "(unat (b + of_nat k)) mod 4 = (unat (A + of_nat k)) mod 4"
    unfolding step(4,5) [OF k] by (rule mod_add_cong) simp
  then show "even (unat (b + of_nat k)) = even (unat (A + of_nat k))"
    by presburger
qed

lemma Read8: "k < n \<Longrightarrow> \<exists>s'. PciSegmentRead8 M (A + of_nat k) s = Some (cells s (b + of_nat k), s') \<and> cells s' = cells s"
  using step(1-3) [of k] read8 [of s "b + of_nat k"] read_keeps(1) [of s "b + of_nat k"]
  by (auto simp: PciSegmentRead8_def PciSegmentLibReadWorker_def assert_address map_prod_def split_beta)

lemma Read16:
  assumes "k + 1 < n" "even (unat A + k)"
  shows "\<exists>s'. PciSegmentRead16 M (A + of_nat k) s
    = Some (word16 (cells s (b + of_nat k)) (cells s (b + of_nat (k + 1))), s') \<and> cells s' = cells s"
proof -
  have k: "k < n"
    using assms(1) by simp
  have "A + of_nat k AND 1 = 0" "even (unat (b + of_nat k))"
    using aligned(2) [OF k] step(4) [OF k] assms(2) low_bits(1) by simp_all
  moreover have "b + of_nat (k + 1) = b + of_nat k + 1"
    by simp
  ultimately show ?thesis
    using step(1-3) [OF k] read16 [of "b + of_nat k" s] read_keeps(2) [of s "b + of_nat k"]
    by (simp only: PciSegmentRead16_def PciSegmentLibReadWorker_def assert_address) (simp add: map_prod_def split_beta)
qed

lemma Read32:
  assumes "k + 3 < n" "(unat A + k) mod 4 = 0"
  shows "\<exists>s'. PciSegmentRead32 M (A + of_nat k) s = Some (word32 (cells s (b + of_nat k)) (cells s (b + of_nat (k + 1)))
      (cells s (b + of_nat (k + 2))) (cells s (b + of_nat (k + 3))), s') \<and> cells s' = cells s"
proof -
  have k: "k < n"
    using assms(1) by simp
  have "A + of_nat k AND 3 = 0" "unat (b + of_nat k) mod 4 = 0"
    using aligned(1) [OF k] step(4) [OF k] assms(2) low_bits(2) by simp_all
  moreover have "b + of_nat (k + 1) = b + of_nat k + 1" "b + of_nat (k + 2) = b + of_nat k + 2" "b + of_nat (k + 3) = b + of_nat k + 3"
    by simp_all
  ultimately show ?thesis
    using step(1-3) [OF k] read32 [of "b + of_nat k" s] read_keeps(3) [of s "b + of_nat k"]
    by (simp only: PciSegmentRead32_def PciSegmentLibReadWorker_def assert_address) (simp add: split_beta prod_eq_iff)
qed

end

end
