(* ===== verification/PciSegmentProps.thy ===== *)
theory PciSegmentProps
  imports PciConfig PciHostLog
begin

text \<open>
  What the configuration accessors guarantee: ranges of registers are read and written as the bytes they hold, with
  aligned accesses only; which addresses reach a device; and the apertures of the root bridges against the windows the
  controllers are set up with.
\<close>

section \<open>The phases of a range\<close>

text \<open>
  Reading and writing cut a range in the same way: a byte and a word until the address is aligned, double words, then the
  word and the byte that are left. The locale takes an invariant of the state after \<open>k\<close> bytes and the three steps.
\<close>

locale buffer_phases = config_range A b n for A b n +
  fixes inv :: "nat \<Rightarrow> u64 \<times> u64 \<times> 'b \<times> 'h \<Rightarrow> bool"
    and byte word dwords :: "u64 \<times> u64 \<times> 'b \<times> 'h \<Rightarrow> (u64 \<times> u64 \<times> 'b \<times> 'h) run"
  assumes inv_state: "inv k r \<Longrightarrow> k \<le> n \<and> fst r = A + of_nat k \<and> fst (snd r) = of_nat (n - k)"
    and byte_step: "inv k r \<Longrightarrow> k < n \<Longrightarrow> \<exists>r'. byte r = Some r' \<and> inv (k + 1) r'"
    and word_step: "inv k r \<Longrightarrow> k + 1 < n \<Longrightarrow> even (unat A + k) \<Longrightarrow> \<exists>r'. word r = Some r' \<and> inv (k + 2) r'"
    and dword_step: "inv k r \<Longrightarrow> k + 3 < n \<Longrightarrow> (unat A + k) mod 4 = 0 \<Longrightarrow> \<exists>r'. dwords r = dwords r' \<and> inv (k + 4) r'"
    and dwords_end: "inv k r \<Longrightarrow> n < k + 4 \<Longrightarrow> dwords r = Some r"
begin

lemma left: "inv k r \<Longrightarrow> w \<le> fst (snd r) \<longleftrightarrow> k + unat w \<le> n"
proof -
  assume i: "inv k r"
  then have "unat (of_nat (n - k) :: u64) = n - k"
    using room by (intro unat_of_nat_small) simp
  then show ?thesis
    using inv_state [OF i] by (auto simp: word_le_nat_alt)
qed

lemma head:
  assumes "inv 0 r" "0 < n"
  shows "\<exists>r' k. (if A AND 1 \<noteq> 0 then byte r else Some r) = Some r' \<and> inv k r' \<and> even (unat A + k)"
proof (cases "A AND 1 = 0")
  case True
  then show ?thesis
    using assms(1) low_bits(1) [of A] by (intro exI [of _ r] exI [of _ 0]) simp
next
  case False
  then have "even (unat A + (0 + 1))"
    using low_bits(1) [of A] by simp
  moreover obtain r' where "byte r = Some r'" "inv (0 + 1) r'"
    using byte_step [OF assms] by blast
  ultimately show ?thesis
    using False by (intro exI [of _ r'] exI [of _ "0 + 1"]) simp
qed

lemma align:
  assumes "inv k r" "even (unat A + k)"
  shows "\<exists>r' k'. (if fst (snd r) \<ge> 2 \<and> fst r AND 2 \<noteq> 0 then word r else Some r) = Some r' \<and> inv k' r'
    \<and> even (unat A + k') \<and> (k' + 1 < n \<longrightarrow> (unat A + k') mod 4 = 0)"
proof (cases "k + 1 < n \<and> (unat A + k) mod 4 \<noteq> 0")
  case False
  have "\<not> (fst (snd r) \<ge> 2 \<and> fst r AND 2 \<noteq> 0)"
  proof (cases "k + 1 < n")
    case True
    then show ?thesis
      using False low_bits(3) [of "A + of_nat k"] step(4) [of k] assms(2) inv_state [OF assms(1)] by simp
  qed (use left [OF assms(1), of 2] in simp)
  then show ?thesis
    using False assms by (intro exI [of _ r] exI [of _ k]) auto
next
  case True
  then have "fst (snd r) \<ge> 2" "fst r AND 2 \<noteq> 0"
    using left [OF assms(1), of 2] low_bits(3) [of "A + of_nat k"] step(4) [of k] assms(2) inv_state [OF assms(1)] by simp_all
  moreover obtain r' where "word r = Some r'" "inv (k + 2) r'"
    using word_step [OF assms(1) _ assms(2)] True by blast
  moreover have "(unat A + (k + 2)) mod 4 = 0" "even (unat A + (k + 2))"
    using True assms(2) by presburger+
  ultimately show ?thesis
    by (intro exI [of _ r'] exI [of _ "k + 2"]) simp
qed

lemma middle:
  assumes "inv k r" "k + 3 < n \<longrightarrow> (unat A + k) mod 4 = 0"
  shows "\<exists>r' k'. dwords r = Some r' \<and> inv k' r' \<and> n < k' + 4 \<and> (unat A + k') mod 4 = (unat A + k) mod 4"
  using assms
proof (induction "n - k" arbitrary: k r rule: less_induct)
  case less
  show ?case
  proof (cases "k + 3 < n")
    case False
    then show ?thesis
      using dwords_end less.prems(1) by (intro exI [of _ r] exI [of _ k]) simp
  next
    case True
    then obtain r' where r': "dwords r = dwords r'" "inv (k + 4) r'"
      using dword_step [OF less.prems(1)] less.prems(2) by auto
    have m: "(unat A + (k + 4)) mod 4 = (unat A + k) mod 4"
      by presburger
    have "n - (k + 4) < n - k"
      using True by simp
    from less.hyps [OF this r'(2)] less.prems(2) True show ?thesis
      unfolding r'(1) m by simp
  qed
qed

lemma tail:
  assumes "inv k r" "even (unat A + k)" "n < k + 4"
  shows "\<exists>r' k'. (if fst (snd r) \<ge> 2 then word r else Some r) = Some r' \<and> inv k' r' \<and> n < k' + 2"
proof (cases "k + 1 < n")
  case False
  then show ?thesis
    using left [OF assms(1), of 2] assms(1) by (intro exI [of _ r] exI [of _ k]) simp
next
  case True
  then obtain r' where "word r = Some r'" "inv (k + 2) r'"
    using word_step [OF assms(1) _ assms(2)] by blast
  then show ?thesis
    using left [OF assms(1), of 2] True assms(3) by (intro exI [of _ r'] exI [of _ "k + 2"]) simp
qed

lemma last:
  assumes "inv k r" "n < k + 2"
  shows "\<exists>r'. (if fst (snd r) \<ge> 1 then byte r else Some r) = Some r' \<and> inv n r'"
proof (cases "k < n")
  case False
  then show ?thesis
    using left [OF assms(1), of 1] inv_state [OF assms(1)] assms(1) by (intro exI [of _ r]) simp
next
  case True
  then obtain r' where "byte r = Some r'" "inv (k + 1) r'"
    using byte_step [OF assms(1)] by blast
  moreover have "k + 1 = n"
    using True assms(2) by simp
  ultimately show ?thesis
    using left [OF assms(1), of 1] True by (intro exI [of _ r']) simp
qed

definition phases :: "u64 \<times> u64 \<times> 'b \<times> 'h \<Rightarrow> (u64 \<times> u64 \<times> 'b \<times> 'h) run" where
  "phases r = do {
     r \<leftarrow> (if A AND 1 \<noteq> 0 then byte r else Some r);
     r \<leftarrow> (if fst (snd r) \<ge> 2 \<and> fst r AND 2 \<noteq> 0 then word r else Some r);
     r \<leftarrow> dwords r;
     r \<leftarrow> (if fst (snd r) \<ge> 2 then word r else Some r);
     (if fst (snd r) \<ge> 1 then byte r else Some r)
   }"

lemma phases_done:
  assumes "inv 0 r" "0 < n"
  shows "\<exists>r'. phases r = Some r' \<and> inv n r'"
proof -
  obtain r1 k1 where 1: "(if A AND 1 \<noteq> 0 then byte r else Some r) = Some r1" "inv k1 r1" "even (unat A + k1)"
    using head [OF assms] by blast
  obtain r2 k2 where 2: "(if fst (snd r1) \<ge> 2 \<and> fst r1 AND 2 \<noteq> 0 then word r1 else Some r1) = Some r2" "inv k2 r2"
      "even (unat A + k2)" "k2 + 1 < n \<longrightarrow> (unat A + k2) mod 4 = 0"
    using align [OF 1(2,3)] by (elim exE conjE) (rule that)
  obtain r3 k3 where 3: "dwords r2 = Some r3" "inv k3 r3" "n < k3 + 4" "(unat A + k3) mod 4 = (unat A + k2) mod 4"
    using middle [OF 2(2)] 2(4) by auto
  have "even (unat A + k3)"
    using 2(3) 3(4) by presburger
  then obtain r4 k4 where 4: "(if fst (snd r3) \<ge> 2 then word r3 else Some r3) = Some r4" "inv k4 r4" "n < k4 + 2"
    using tail [OF 3(2)] 3(3) by blast
  obtain r5 where 5: "(if fst (snd r4) \<ge> 1 then byte r4 else Some r4) = Some r5" "inv n r5"
    using last [OF 4(2,3)] by blast
  show ?thesis
    unfolding phases_def 1(1) 2(1) 3(1) 4(1) 5(1) bind.simps using 5(2) by blast
qed

end

section \<open>Reading and writing ranges\<close>

context config_access
begin

lemma Write8: "k < n \<Longrightarrow> \<exists>s' v'. PciSegmentWrite8 M (A + of_nat k) v s = Some (v', s') \<and> cells s' = patch (cells s) (b + of_nat k) [v]"
  using step(1-3) [of k] write8 [of s "b + of_nat k" v]
  by (simp only: PciSegmentWrite8_def PciSegmentLibWriteWorker_def assert_address) (simp add: assert_address)

lemma Write16:
  assumes "k + 1 < n" "even (unat A + k)"
  shows "\<exists>s' v'. PciSegmentWrite16 M (A + of_nat k) v s = Some (v', s') \<and> cells s' = patch (cells s) (b + of_nat k) (bytes16 v)"
proof -
  have k: "k < n"
    using assms(1) by simp
  have "A + of_nat k AND 1 = 0" "even (unat (b + of_nat k))"
    using aligned(2) [OF k] step(4) [OF k] assms(2) low_bits(1) by simp_all
  then show ?thesis
    using step(1-3) [OF k] write16 [of "b + of_nat k" s v]
    by (simp only: PciSegmentWrite16_def PciSegmentLibWriteWorker_def assert_address) simp
qed

lemma Write32:
  assumes "k + 3 < n" "(unat A + k) mod 4 = 0"
  shows "\<exists>s' v'. PciSegmentWrite32 M (A + of_nat k) v s = Some (v', s') \<and> cells s' = patch (cells s) (b + of_nat k) (bytes32 v)"
proof -
  have k: "k < n"
    using assms(1) by simp
  have "A + of_nat k AND 3 = 0" "unat (b + of_nat k) mod 4 = 0"
    using aligned(1) [OF k] step(4) [OF k] assms(2) low_bits(2) by simp_all
  then show ?thesis
    using step(1-3) [OF k] write32 [of "b + of_nat k" s v]
    by (simp only: PciSegmentWrite32_def PciSegmentLibWriteWorker_def assert_address) simp
qed

text \<open>The state of a read after \<open>k\<close> bytes.\<close>

definition reading :: "(u64 \<Rightarrow> u8) \<Rightarrow> nat \<Rightarrow> 'h read_state \<Rightarrow> bool" where
  "reading m k r \<longleftrightarrow> k \<le> n \<and> (\<exists>s. r = (A + of_nat k, of_nat (n - k), read_cells m b k, s) \<and> cells s = m)"

lemma size: "k \<le> n \<Longrightarrow> unat (of_nat (n - k) :: u64) = n - k"
  using room by (intro unat_of_nat_small) simp

lemma left: "k \<le> n \<Longrightarrow> w \<le> (of_nat (n - k) :: u64) \<longleftrightarrow> k + unat w \<le> n"
  using size [of k] by (auto simp: word_le_nat_alt)

lemma size_step: "k + j \<le> n \<Longrightarrow> of_nat (n - k) - of_nat j = (of_nat (n - (k + j)) :: u64)"
  by (metis diff_diff_left le_diff_conv2 add_leD1 add.commute of_nat_diff)

lemma read_cells_Suc: "read_cells m b (Suc k) = read_cells m b k @ [m (b + of_nat k)]"
  by (simp add: read_cells_def)

lemma reading_byte:
  assumes "reading m k r" "k < n"
  shows "\<exists>r'. read_byte M r = Some r' \<and> reading m (k + 1) r'"
proof -
  obtain s where r: "r = (A + of_nat k, of_nat (n - k), read_cells m b k, s)" "cells s = m"
    using assms(1) by (auto simp: reading_def)
  obtain s' where s': "PciSegmentRead8 M (A + of_nat k) s = Some (cells s (b + of_nat k), s')" "cells s' = cells s"
    using Read8 [OF assms(2)] by blast
  show ?thesis
    using assms(2) r s' size_step [of k 1] by (simp add: reading_def read_cells_Suc add.assoc)
qed

lemma reading_word:
  assumes "reading m k r" "k + 1 < n" "even (unat A + k)"
  shows "\<exists>r'. read_word M r = Some r' \<and> reading m (k + 2) r'"
proof -
  obtain s where r: "r = (A + of_nat k, of_nat (n - k), read_cells m b k, s)" "cells s = m"
    using assms(1) by (auto simp: reading_def)
  obtain s' where s': "PciSegmentRead16 M (A + of_nat k) s = Some (word16 (m (b + of_nat k)) (m (b + of_nat (k + 1))), s')"
      "cells s' = m"
    using Read16 [OF assms(2,3), of s] r(2) by auto
  have "read_cells m b (k + 2) = read_cells m b k @ [m (b + of_nat k), m (b + of_nat (k + 1))]"
    by (simp add: read_cells_def)
  moreover have "A + of_nat (k + 2) = A + of_nat k + 2"
    by simp
  ultimately show ?thesis
    using assms(2) r s' size_step [of k 2] by (simp add: reading_def del: of_nat_add)
qed

lemma reading_dword:
  assumes "reading m k r" "k + 3 < n" "(unat A + k) mod 4 = 0"
  shows "\<exists>r'. (case r of (A', n', B, s) \<Rightarrow> read_dwords M A' n' B s) = (case r' of (A', n', B, s) \<Rightarrow> read_dwords M A' n' B s)
    \<and> reading m (k + 4) r'"
proof -
  obtain s where r: "r = (A + of_nat k, of_nat (n - k), read_cells m b k, s)" "cells s = m" and k: "k \<le> n"
    using assms(1) by (auto simp: reading_def)
  have l: "4 \<le> (of_nat (n - k) :: u64)"
    using left [OF k, of 4] assms(2) by simp
  obtain s' where s': "PciSegmentRead32 M (A + of_nat k) s = Some (word32 (m (b + of_nat k)) (m (b + of_nat (k + 1)))
      (m (b + of_nat (k + 2))) (m (b + of_nat (k + 3))), s')" "cells s' = m"
    using Read32 [OF assms(2,3), of s] r(2) by auto
  have c: "read_cells m b (k + 4) = read_cells m b k @ [m (b + of_nat k), m (b + of_nat (k + 1)), m (b + of_nat (k + 2)), m (b + of_nat (k + 3))]"
    by (simp add: read_cells_def numeral_eq_Suc)
  have a: "A + of_nat (k + 4) = A + of_nat k + 4" and z: "(of_nat (n - k) :: u64) - 4 = of_nat (n - (k + 4))"
    using size_step [of k 4] assms(2) by simp_all
  have "read_dwords M (A + of_nat k) (of_nat (n - k)) (read_cells m b k) s =
      read_dwords M (A + of_nat (k + 4)) (of_nat (n - (k + 4))) (read_cells m b (k + 4)) s'"
    using l s' by (subst read_dwords.simps) (simp only: a z c if_True bind.simps prod.case bytes_word)
  then show ?thesis
    using assms(2) s'(2) r by (intro exI [of _ "(A + of_nat (k + 4), of_nat (n - (k + 4)), read_cells m b (k + 4), s')"])
      (simp add: reading_def del: of_nat_add of_nat_diff)
qed

lemma reading_end:
  assumes "reading m k r" "n < k + 4"
  shows "(case r of (A', n', B, s) \<Rightarrow> read_dwords M A' n' B s) = Some r"
proof -
  obtain s where r: "r = (A + of_nat k, of_nat (n - k), read_cells m b k, s)" and k: "k \<le> n"
    using assms(1) by (auto simp: reading_def)
  show ?thesis
    using left [OF k, of 4] assms(2) by (simp add: r read_dwords.simps [of M "A + of_nat k"])
qed

lemma in_function: "(A AND 0xFFF) + of_nat n \<le> 0x1000"
proof -
  have "unat ((A AND 0xFFF) + of_nat n) = unat A mod 4096 + n"
    using room by (simp add: word_nat unat_offset unat_of_nat_small)
  then show ?thesis
    using room by (simp add: word_le_nat_alt)
qed

end

sublocale config_access \<subseteq> rd: buffer_phases A b n "reading m" "read_byte M" "read_word M"
  "\<lambda>(A', n', B, s). read_dwords M A' n' B s" for m
proof
  show "reading m k r \<Longrightarrow> k \<le> n \<and> fst r = A + of_nat k \<and> fst (snd r) = of_nat (n - k)" for k r
    by (auto simp: reading_def)
qed (fact reading_byte reading_word reading_dword reading_end)+

lemma fst_case: "(case r of (A, w, _) \<Rightarrow> f A w) = f (fst r) (fst (snd r))"
  by (simp add: split_beta)

context config_access
begin

lemma size_0: "0 < n \<Longrightarrow> (of_nat n :: u64) \<noteq> 0"
  using size [of 0] by (metis diff_zero le0 less_irrefl unsigned_0)

lemma buffer_checks:
  "ASSERT_INVALID_PCI_SEGMENT_ADDRESS A 0 = Some ()" "assert_that ((A AND 0xFFF) + of_nat n \<le> 0x1000) = Some ()"
  using in_function by (simp_all add: assert_address address assert_that_def)

lemma ReadBuffer:
  "\<exists>s'. PciSegmentReadBuffer M A (of_nat n) False s = Some (of_nat n, read_cells (cells s) b n, s') \<and> cells s' = cells s"
proof (cases "0 < n")
  case False
  then show ?thesis
    unfolding PciSegmentReadBuffer_def buffer_checks bind.simps by (simp add: read_cells_def)
next
  case True
  define m where "m = cells s"
  have "reading m 0 (A, of_nat n, [], s)"
    by (simp add: reading_def read_cells_def m_def)
  then obtain r where r: "rd.phases (A, of_nat n, [], s) = Some r" "reading m n r"
    using rd.phases_done [OF _ True] by blast
  then obtain s' where "r = (A + of_nat n, of_nat (n - n), read_cells m b n, s')" "cells s' = m"
    by (auto simp: reading_def)
  moreover have "PciSegmentReadBuffer M A (of_nat n) False s =
      rd.phases (A, of_nat n, [], s) \<bind> (\<lambda>(A', n', B, s). Some (of_nat n, B, s))"
    unfolding PciSegmentReadBuffer_def buffer_checks bind.simps fst_case rd.phases_def bind_assoc
    using size_0 [OF True] by (simp only: if_False assert_that_def not_False_eq_True if_True bind.simps)
  ultimately show ?thesis
    using r(1) by (simp add: m_def)
qed

text \<open>The state of a write of the bytes \<open>bs\<close> after \<open>k\<close> of them.\<close>

definition writing :: "u8 list \<Rightarrow> (u64 \<Rightarrow> u8) \<Rightarrow> nat \<Rightarrow> 'h write_state \<Rightarrow> bool" where
  "writing bs m k r \<longleftrightarrow> k \<le> n \<and> length bs = n \<and>
     (\<exists>s. r = (A + of_nat k, of_nat (n - k), drop k bs, s) \<and> cells s = patch m b (take k bs))"

lemma patch_step:
  assumes "k < n" "length bs = n" "take j (drop k bs) = xs"
  shows "patch (patch m b (take k bs)) (b + of_nat k) xs = patch m b (take (k + j) bs)"
  using assms step(5) [of k] by (subst patch_patch) (simp_all add: take_add [symmetric] flip: assms(3))

lemma writing_byte:
  assumes "writing bs m k r" "k < n"
  shows "\<exists>r'. write_byte M r = Some r' \<and> writing bs m (k + 1) r'"
proof -
  obtain s where r: "r = (A + of_nat k, of_nat (n - k), drop k bs, s)" "cells s = patch m b (take k bs)" and l: "length bs = n"
    using assms(1) by (auto simp: writing_def)
  have d: "drop k bs = bs ! k # drop (k + 1) bs"
    using assms(2) l by (simp add: Cons_nth_drop_Suc)
  obtain s' v' where s': "PciSegmentWrite8 M (A + of_nat k) (bs ! k) s = Some (v', s')" "cells s' = patch (cells s) (b + of_nat k) [bs ! k]"
    using Write8 [OF assms(2)] by blast
  have "cells s' = patch m b (take (k + 1) bs)"
    using s'(2) r(2) patch_step [OF assms(2) l, of 1] d by simp
  then show ?thesis
    using assms(2) r(1) s'(1) l d size_step [of k 1] by (simp add: writing_def add.assoc)
qed

lemma drop_cells:
  assumes "length bs = n"
  shows "k + 1 < n \<Longrightarrow> drop k bs = bs ! k # bs ! (k + 1) # drop (k + 2) bs"
    and "k + 3 < n \<Longrightarrow> drop k bs = bs ! k # bs ! (k + 1) # bs ! (k + 2) # bs ! (k + 3) # drop (k + 4) bs"
  using assms by (simp_all add: Cons_nth_drop_Suc numeral_eq_Suc)

lemma writing_word:
  assumes "writing bs m k r" "k + 1 < n" "even (unat A + k)"
  shows "\<exists>r'. write_word M r = Some r' \<and> writing bs m (k + 2) r'"
proof -
  obtain s where r: "r = (A + of_nat k, of_nat (n - k), drop k bs, s)" "cells s = patch m b (take k bs)" and l: "length bs = n"
    using assms(1) by (auto simp: writing_def)
  note d = drop_cells(1) [OF l assms(2)]
  have k: "k < n"
    using assms(2) by simp
  let ?v = "word16 (bs ! k) (bs ! (k + 1))"
  obtain s' v' where s': "PciSegmentWrite16 M (A + of_nat k) ?v s = Some (v', s')" "cells s' = patch (cells s) (b + of_nat k) (bytes16 ?v)"
    using Write16 [OF assms(2,3)] by blast
  have "take 2 (drop k bs) = bytes16 ?v"
    by (simp add: d)
  then have "cells s' = patch m b (take (k + 2) bs)"
    using s'(2) r(2) patch_step [OF k l, of 2] by simp
  moreover have "A + of_nat (k + 2) = A + of_nat k + 2"
    by simp
  moreover have "write_word M r = Some (A + of_nat k + 2, of_nat (n - k) - 2, drop (k + 2) bs, s')"
    using s'(1) by (simp add: r(1) d del: of_nat_diff)
  ultimately show ?thesis
    using assms(2) l size_step [of k 2] by (simp add: writing_def)
qed

lemma writing_dword:
  assumes "writing bs m k r" "k + 3 < n" "(unat A + k) mod 4 = 0"
  shows "\<exists>r'. (case r of (A', n', B, s) \<Rightarrow> write_dwords M A' n' B s) = (case r' of (A', n', B, s) \<Rightarrow> write_dwords M A' n' B s)
    \<and> writing bs m (k + 4) r'"
proof -
  obtain s where r: "r = (A + of_nat k, of_nat (n - k), drop k bs, s)" "cells s = patch m b (take k bs)" and l: "length bs = n"
    using assms(1) by (auto simp: writing_def)
  note d = drop_cells(2) [OF l assms(2)]
  have k: "k < n" and four: "4 \<le> (of_nat (n - k) :: u64)"
    using assms(2) left [of k 4] by simp_all
  let ?v = "word32 (bs ! k) (bs ! (k + 1)) (bs ! (k + 2)) (bs ! (k + 3))"
  obtain s' v' where s': "PciSegmentWrite32 M (A + of_nat k) ?v s = Some (v', s')" "cells s' = patch (cells s) (b + of_nat k) (bytes32 ?v)"
    using Write32 [OF assms(2,3)] by blast
  have "take 4 (drop k bs) = bytes32 ?v"
    by (simp add: d)
  then have c: "cells s' = patch m b (take (k + 4) bs)"
    using s'(2) r(2) patch_step [OF k l, of 4] by simp
  have a: "A + of_nat (k + 4) = A + of_nat k + 4" and z: "(of_nat (n - k) :: u64) - 4 = of_nat (n - (k + 4))"
    using size_step [of k 4] assms(2) by simp_all
  have u: "ReadUnaligned32 (drop k bs) = Some ?v" "drop 4 (drop k bs) = drop (k + 4) bs"
    by (simp add: d) (simp add: add.commute)
  have "write_dwords M (A + of_nat k) (of_nat (n - k)) (drop k bs) s =
      write_dwords M (A + of_nat (k + 4)) (of_nat (n - (k + 4))) (drop (k + 4) bs) s'"
    using four s'(1) by (subst write_dwords.simps) (simp only: a z u if_True bind.simps prod.case)
  then show ?thesis
    using assms(2) c l r(1) by (intro exI [of _ "(A + of_nat (k + 4), of_nat (n - (k + 4)), drop (k + 4) bs, s')"])
      (simp add: writing_def del: of_nat_add of_nat_diff)
qed

lemma writing_end:
  assumes "writing bs m k r" "n < k + 4"
  shows "(case r of (A', n', B, s) \<Rightarrow> write_dwords M A' n' B s) = Some r"
proof -
  obtain s where r: "r = (A + of_nat k, of_nat (n - k), drop k bs, s)" and k: "k \<le> n"
    using assms(1) by (auto simp: writing_def)
  show ?thesis
    using left [OF k, of 4] assms(2) by (simp add: r write_dwords.simps [of M "A + of_nat k"])
qed

end

sublocale config_access \<subseteq> wr: buffer_phases A b n "writing bs m" "write_byte M" "write_word M"
  "\<lambda>(A', n', B, s). write_dwords M A' n' B s" for bs m
proof
  show "writing bs m k r \<Longrightarrow> k \<le> n \<and> fst r = A + of_nat k \<and> fst (snd r) = of_nat (n - k)" for k r
    by (auto simp: writing_def)
qed (fact writing_byte writing_word writing_dword writing_end)+

context config_access
begin

lemma WriteBuffer:
  assumes "length bs = n"
  shows "\<exists>s'. PciSegmentWriteBuffer M A (of_nat n) (Some bs) s = Some (of_nat n, s') \<and> cells s' = patch (cells s) b bs"
proof (cases "0 < n")
  case False
  then show ?thesis
    unfolding PciSegmentWriteBuffer_def buffer_checks bind.simps using assms by simp
next
  case True
  have "writing bs (cells s) 0 (A, of_nat n, bs, s)"
    using assms by (simp add: writing_def)
  then obtain r where r: "wr.phases (A, of_nat n, bs, s) = Some r" "writing bs (cells s) n r"
    using wr.phases_done [OF _ True] by blast
  then obtain s' where "r = (A + of_nat n, of_nat (n - n), drop n bs, s')" "cells s' = patch (cells s) b bs"
    using assms by (auto simp: writing_def)
  moreover have "PciSegmentWriteBuffer M A (of_nat n) (Some bs) s =
      wr.phases (A, of_nat n, bs, s) \<bind> (\<lambda>(A', n', B, s). Some (of_nat n, s))"
    unfolding PciSegmentWriteBuffer_def buffer_checks bind.simps fst_case wr.phases_def bind_assoc
    using size_0 [OF True] by (simp only: if_False bind.simps)
  ultimately show ?thesis
    using r(1) by simp
qed

end

section \<open>A configuration space of bytes\<close>

definition byte_bus :: "(u64 \<Rightarrow> u8) config_mmio" where
  "byte_bus =
     \<lparr>MmioRead32 = (\<lambda>s a. (word32 (s a) (s (a + 1)) (s (a + 2)) (s (a + 3)), s)),
      MmioWrite32 = (\<lambda>s a w. patch s a (bytes32 w)), MmioWrite16 = (\<lambda>s a w. patch s a (bytes16 w)), MicroSecondDelay = (\<lambda>s n. s),
      MmioRead8 = (\<lambda>s a. (s a, s)), MmioRead16 = (\<lambda>s a. (word16 (s a) (s (a + 1)), s)), MmioWrite8 = (\<lambda>s a v. patch s a [v])\<rparr>"

interpretation byte_bus: config_memory byte_bus "\<lambda>s. s"
  by unfold_locales (simp_all add: byte_bus_def)

text \<open>The first 64 registers of the device behind the first controller.\<close>

definition nvme_address :: u64 where "nvme_address = 0x100000"

lemma nvme_range: "config_range nvme_address 0x20100000 64"
  by unfold_locales
    (simp_all add: nvme_address_def PciSegmentLibGetConfigBase_def GET_SEG_NUM_def GET_BUS_NUM_def GET_DEV_NUM_def GET_FUNC_NUM_def
      INVALID_PCI_ADDRESS_def NUM_PCIE_CONTROLLER_def PCIE_BUS_BASE_def PCIE_CFG_BASE_def)

interpretation nvme: config_access byte_bus "\<lambda>s. s" nvme_address "0x20100000" "64"
  using nvme_range byte_bus.config_memory_axioms by (rule config_access.intro [rotated])

section \<open>Windows\<close>

text \<open>The last value written to a register, and the range of a translation window as it was programmed.\<close>

fun last_written :: "io_event list \<Rightarrow> u64 \<Rightarrow> u32 option" where
  "last_written [] a = None"
| "last_written (Wr b w # t) a = (if b = a then Some w else last_written t a)"
| "last_written (e # t) a = last_written t a"

definition atu_window :: "io_event list \<Rightarrow> u32 \<Rightarrow> u32 \<Rightarrow> u32 option \<times> u32 option" where
  "atu_window t Controller Index =
     (let Region = PCIE_DBI_BASE Controller + IATU_REGION_CTRL_OUTBOUND Index
      in (last_written t (Region + 0x008), last_written t (Region + 0x010)))"

lemma last_written_adds:
  assumes "adds P s s'" "\<And>e. P e \<Longrightarrow> \<not> writes_reg a e"
  shows "last_written (snd s') a = last_written (snd s) a"
proof -
  have "last_written (ev @ t) a = last_written t a" if "\<forall>e \<in> set ev. P e" for ev t
    using that
  proof (induction ev)
    case (Cons e ev)
    then show ?case
      using assms(2) [of e] by (cases e) (auto simp: writes_reg_def)
  qed simp
  then show ?thesis
    using assms(1) by (auto simp: adds_def)
qed

lemma atu_window_set:
  fixes M :: "'h mmio"
  shows "atu_window (snd (PciSetupAtu (logged M) (PCIE_DBI_BASE n) i Type Cpu Target Len s)) n i
    = (Some (ucast Cpu), Some (ucast (Cpu + Len - 1)))"
  by (simp add: atu_window_def PciSetupAtu_def Let_def log_simps)

lemma atu_window_other:
  fixes M :: "'h mmio"
  assumes "n = 0 \<or> n = 1"
  shows "atu_window (snd (PciSetupAtu (logged M) (PCIE_DBI_BASE n) 1 Type Cpu Target Len s)) n 0 = atu_window (snd s) n 0"
  using assms by (auto simp: atu_window_def PciSetupAtu_def Let_def log_simps IATU_REGION_CTRL_OUTBOUND_def)

lemma atu_window_link:
  fixes M :: "'h mmio"
  assumes "n = 0 \<or> n = 1" "i = 0 \<or> i = 1"
  shows "atu_window (snd (PciSetupLinkSpeed (logged M) (PCIE_DBI_BASE n) 2 1 s)) n i = atu_window (snd s) n i"
    and "atu_window (snd (MmioOr32 (logged M) s (PCIE_DBI_BASE n + PL_GEN2_CTRL_OFF) v)) n i = atu_window (snd s) n i"
    and "atu_window (snd (MmioAnd32 (logged M) s (PCIE_DBI_BASE n + PL_MISC_CONTROL_1_OFF) v)) n i = atu_window (snd s) n i"
proof -
  define P where "P = (\<lambda>e. case e of Wr a w \<Rightarrow> unat a < unat (PCIE_DBI_BASE n) + 0x300000 | _ \<Rightarrow> True)"
  have other: "atu_window (snd s') n i = atu_window (snd s) n i" if "adds P s s'" for s'
  proof -
    have "\<not> writes_reg (PCIE_DBI_BASE n + IATU_REGION_CTRL_OUTBOUND i + k) e" if "P e" "k = 0x008 \<or> k = 0x010" for k e
      using that assms by (auto simp: P_def writes_reg_def PCIE_DBI_BASE_def IATU_REGION_CTRL_OUTBOUND_def split: io_event.splits)
    then show ?thesis
      unfolding atu_window_def Let_def using last_written_adds [OF that] by auto
  qed
  note defs = P_def PCIE_DBI_BASE_def PCIE_LINK_CTL_2_def PCIE_LINK_CAPABILITY_def PL_PORT_LINK_CTRL_OFF_def
    PL_GEN2_CTRL_OFF_def PL_MISC_CONTROL_1_OFF_def
  show "atu_window (snd (PciSetupLinkSpeed (logged M) (PCIE_DBI_BASE n) 2 1 s)) n i = atu_window (snd s) n i"
    unfolding PciSetupLinkSpeed_def Let_def
    by (rule other, intro adds_intros) (use assms(1) in \<open>auto simp: defs\<close>)
  show "atu_window (snd (MmioOr32 (logged M) s (PCIE_DBI_BASE n + PL_GEN2_CTRL_OFF) v)) n i = atu_window (snd s) n i"
    by (rule other, intro adds_intros) (use assms(1) in \<open>auto simp: defs\<close>)
  show "atu_window (snd (MmioAnd32 (logged M) s (PCIE_DBI_BASE n + PL_MISC_CONTROL_1_OFF) v)) n i = atu_window (snd s) n i"
    by (rule other, intro adds_intros) (use assms(1) in \<open>auto simp: defs\<close>)
qed

lemma configure_windows:
  fixes M :: "'h mmio"
  assumes "n = 0 \<or> n = 1"
  shows "atu_window (snd (configure_host (logged M) n s)) n 0
      = (Some (ucast (PCIE_CFG_BASE n + SIZE_1MB)), Some (ucast (PCIE_CFG_BASE n + SIZE_1MB + SIZE_64KB - 1)))"
    "atu_window (snd (configure_host (logged M) n s)) n 1
      = (Some (ucast (PCIE_MEM32_BASE n)), Some (ucast (PCIE_MEM32_BASE n + PCIE_MEM32_SIZE - 1)))"
  unfolding configure_host_def Let_def
  by (simp_all only: atu_window_link [OF assms] atu_window_other [OF assms] atu_window_set simp_thms)

section \<open>Root bridges\<close>

definition bridge_up :: "'h mmio \<Rightarrow> 'h pcie_ops \<Rightarrow> u32 \<Rightarrow> u32 \<Rightarrow> u32 \<Rightarrow> 'h \<Rightarrow> bool \<times> 'h" where
  "bridge_up M B Mode0 Mode1 n s =
     (if IsPcieNumEnabled Mode0 Mode1 n then let (Status, s) = InitializePciHost M B n s in (\<not> EFI_ERROR Status, s) else (False, s))"

lemma bridge_loop_run:
  "PciHostBridgeGetRootBridges M B Mode0 Mode1 P s =
     (let (up0, s) = bridge_up M B Mode0 Mode1 0 s; (up1, s) = bridge_up M B Mode0 Mode1 1 s;
          bridges = (if up0 then [root_bridge P 0] else []) @ (if up1 then [root_bridge P 1] else [])
      in (length bridges, if bridges = [] then None else Some bridges, s))"
proof -
  have n: "unat NUM_PCIE_CONTROLLER = Suc (Suc 0)" "NUM_PCIE_CONTROLLER - of_nat (Suc (Suc 0)) = 0"
      "NUM_PCIE_CONTROLLER - of_nat (Suc 0) = 1"
    by (simp_all add: NUM_PCIE_CONTROLLER_def)
  show ?thesis
    unfolding PciHostBridgeGetRootBridges_def n(1) bridge_loop.simps n(2,3) bridge_up_def Let_def
    by (simp split: prod.splits)
qed

lemma unat_fields: "unat (GET_BUS_NUM A) = unat A div 2 ^ 20 mod 2 ^ 8" "unat (GET_DEV_NUM A) = unat A div 2 ^ 15 mod 2 ^ 5"
proof -
  have "unat (drop_bit k A AND mask j) = unat A div 2 ^ k mod 2 ^ j" if "k = 20 \<or> k = 15" for k j
  proof -
    have "unat (drop_bit k A AND mask j) = take_bit j (unat (drop_bit k A))"
      by (metis take_bit_eq_mask unsigned_take_bit_eq)
    also have "unat (drop_bit k A) = unat A div 2 ^ k"
      using that by (auto simp: drop_bit_eq_div unat_div)
    finally show ?thesis
      by (simp add: take_bit_eq_mod)
  qed
  then show "unat (GET_BUS_NUM A) = unat A div 2 ^ 20 mod 2 ^ 8" "unat (GET_DEV_NUM A) = unat A div 2 ^ 15 mod 2 ^ 5"
    unfolding GET_BUS_NUM_def GET_DEV_NUM_def mask_fields by simp_all
qed

section \<open>Properties\<close>

text \<open>
  C11: A range of registers of one function, at any alignment and of any length up to the end of the function, is written
  as the bytes of the buffer and nothing else changes, and is read back as these bytes, on any configuration space that
  holds bytes and answers aligned accesses of 8, 16 and 32 bits; no access is misaligned, or an ASSERT would stop it.
\<close>

theorem pci_buffer_roundtrip:
  assumes "config_memory M cells" "A AND 0xffff0000f0000000 = 0" "PciSegmentLibGetConfigBase A = Some b" "b \<noteq> INVALID_PCI_ADDRESS"
    "unat A mod 4096 + length bs \<le> 4096"
  shows "\<exists>s' s''. PciSegmentWriteBuffer M A (of_nat (length bs)) (Some bs) s = Some (of_nat (length bs), s') \<and>
    cells s' = patch (cells s) b bs \<and>
    PciSegmentReadBuffer M A (of_nat (length bs)) False s' = Some (of_nat (length bs), bs, s'') \<and> cells s'' = cells s'"
proof -
  have range: "config_access M cells A b (length bs)"
    using assms by (intro config_access.intro config_range.intro)
  obtain s' where w: "PciSegmentWriteBuffer M A (of_nat (length bs)) (Some bs) s = Some (of_nat (length bs), s')"
      "cells s' = patch (cells s) b bs"
    using config_access.WriteBuffer [OF range refl] by blast
  obtain s'' where r: "PciSegmentReadBuffer M A (of_nat (length bs)) False s' = Some (of_nat (length bs), read_cells (cells s') b (length bs), s'')"
      "cells s'' = cells s'"
    using config_access.ReadBuffer [OF range] by blast
  have "unat b + 4096 \<le> 0xffffffff"
    using config_range.base_page [of A b "length bs"] range by (simp add: config_access_def)
  then have "read_cells (cells s') b (length bs) = bs"
    unfolding w(2) using assms(5) by (intro read_cells_patch) simp_all
  then show ?thesis
    using w r by auto
qed

theorem pci_buffer_roundtrip_witness:
  "\<exists>s' s''. PciSegmentWriteBuffer byte_bus 0x100001 7 (Some [1, 2, 3, 4, 5, 6, 7]) (\<lambda>_. 0) = Some (7, s') \<and>
    s' = patch (\<lambda>_. 0) 0x20100001 [1, 2, 3, 4, 5, 6, 7] \<and>
    PciSegmentReadBuffer byte_bus 0x100001 7 False s' = Some (7, [1, 2, 3, 4, 5, 6, 7], s'') \<and> s'' = s'"
  using pci_buffer_roundtrip [OF byte_bus.config_memory_axioms, of "0x100001" "0x20100001" "[1, 2, 3, 4, 5, 6, 7]" "\<lambda>_. 0"]
  by (simp add: PciSegmentLibGetConfigBase_def GET_SEG_NUM_def GET_BUS_NUM_def GET_DEV_NUM_def GET_FUNC_NUM_def
      INVALID_PCI_ADDRESS_def NUM_PCIE_CONTROLLER_def PCIE_BUS_BASE_def PCIE_CFG_BASE_def)

text \<open>
  C10: The registers of the device behind a controller are read and written through the first translation window of that
  controller. For the first controller every address of the device falls into the window the set-up has programmed; for
  the second none does, since its bus numbers start at 32 and are not subtracted: the accesses go to 0x23100000 and up,
  which is no configuration space.
\<close>

theorem pci_endpoint_window:
  assumes "A AND 0xffff0000f0000000 = 0" "GET_SEG_NUM A = ucast n" "n = 0 \<or> n = 1" "GET_BUS_NUM A = PCIE_BUS_BASE n + 1" "GET_DEV_NUM A = 0"
  shows "\<exists>b lo hi. PciSegmentLibGetConfigBase A = Some b \<and>
    atu_window (snd (configure_host (logged M) n s)) n 0 = (Some lo, Some hi) \<and>
    (if n = 0 then ucast lo \<le> b \<and> b \<le> ucast hi else ucast hi < b \<and> 0x23100000 \<le> b \<and> b < 0x23108000)"
proof -
  have off: "GET_BUS_NUM A \<noteq> PCIE_BUS_BASE n" "ucast (GET_SEG_NUM A) = n"
    using assms(2-4) by auto
  have seg: "GET_SEG_NUM A < 2"
    using assms(2,3) by auto
  let ?b = "PCIE_CFG_BASE n + (A AND 0x0fffffff)"
  have run: "PciSegmentLibGetConfigBase A = Some ?b"
    using config_base_eq [OF assms(1) seg] off assms(4,5) by (simp add: config_base_def Let_def)
  have "unat (A AND 0x0fffffff) = 0x100000 * unat (GET_BUS_NUM A) + (0x8000 * unat (GET_DEV_NUM A) + unat A mod 0x8000)"
    using mod_mult2_eq [of "unat A" "2 ^ 20" "2 ^ 8"] mod_mult2_eq [of "unat A" "2 ^ 15" "2 ^ 5"]
    by (simp add: unat_low28 [OF assms(1)] unat_fields)
  then have low: "unat (A AND 0x0fffffff) = (if n = 0 then 0x100000 else 0x2100000) + unat A mod 0x8000"
    using assms(3-5) by (auto simp: PCIE_BUS_BASE_def)
  have "unat A mod 0x8000 < 0x8000"
    by simp
  then have b: "unat ?b = (if n = 0 then 0x20100000 else 0x23100000) + unat A mod 0x8000" "unat A mod 0x8000 < 0x8000"
    using low assms(3) by (auto simp: PCIE_CFG_BASE_def word_nat)
  show ?thesis
    unfolding run configure_windows [OF assms(3)]
    using b assms(3)
    by (auto simp: PCIE_CFG_BASE_def SIZE_1MB_def SIZE_64KB_def word_le_nat_alt word_less_nat_alt)
qed

theorem pci_endpoint_window_witness:
  "\<exists>b lo hi. PciSegmentLibGetConfigBase 0x102100000 = Some b \<and>
    atu_window (snd (configure_host (logged reg_file) 1 (\<lambda>_. 0, []))) 1 0 = (Some lo, Some hi) \<and>
    ucast hi < b \<and> 0x23100000 \<le> b \<and> b < 0x23108000"
  using pci_endpoint_window [of "0x102100000" 1 reg_file "(\<lambda>_. 0, [])"]
  by (simp add: GET_SEG_NUM_def GET_BUS_NUM_def GET_DEV_NUM_def PCIE_BUS_BASE_def)

text \<open>
  C19: The memory aperture that a root bridge offers to the PCI bus driver is the second translation window of its
  controller for the first controller. For the second it starts 2 MiB too low, at the base of the configuration space:
  it takes in the configuration window, and its first 2 MiB are not translated.
\<close>

theorem pci_memory_window:
  assumes "n = 0 \<or> n = 1"
  shows "\<exists>lo hi lo' hi'. atu_window (snd (configure_host (logged M) n s)) n 1 = (Some lo, Some hi) \<and>
    atu_window (snd (configure_host (logged M) n s)) n 0 = (Some lo', Some hi') \<and>
    (let a = Mem (root_bridge P n)
     in if n = 0 then Base a = ucast lo \<and> Limit a = ucast hi \<and> ucast hi' < Base a
        else Base a + 0x200000 = ucast lo \<and> Limit a + 0x200000 = ucast hi \<and> Base a < ucast lo' \<and> ucast hi' < Limit a)"
  unfolding configure_windows [OF assms]
  using assms
  by (auto simp: root_bridge_def aperture_def PCIE_MEM32_BUS_BASE_def pcie_addr word_less_nat_alt Let_def)

definition demo_attributes :: pci_attributes where
  "demo_attributes =
     \<lparr>EFI_PCI_ATTRIBUTE_IDE_PRIMARY_IO = 0x40, EFI_PCI_ATTRIBUTE_IDE_SECONDARY_IO = 0x80, EFI_PCI_ATTRIBUTE_ISA_IO_16 = 0x10000,
      EFI_PCI_ATTRIBUTE_ISA_MOTHERBOARD_IO = 1, EFI_PCI_ATTRIBUTE_VGA_MEMORY = 8, EFI_PCI_ATTRIBUTE_VGA_IO_16 = 0x40000,
      EFI_PCI_ATTRIBUTE_VGA_PALETTE_IO_16 = 0x20000, EFI_PCI_HOST_BRIDGE_COMBINE_MEM_PMEM = 1\<rparr>"

theorem pci_memory_window_witness:
  "\<exists>lo hi lo' hi'. atu_window (snd (configure_host (logged reg_file) 1 (\<lambda>_. 0, []))) 1 1 = (Some lo, Some hi) \<and>
    atu_window (snd (configure_host (logged reg_file) 1 (\<lambda>_. 0, []))) 1 0 = (Some lo', Some hi') \<and>
    Base (Mem (root_bridge demo_attributes 1)) < ucast lo' \<and> ucast hi' < Limit (Mem (root_bridge demo_attributes 1))"
  using pci_memory_window [of 1 reg_file "(\<lambda>_. 0, [])" demo_attributes] by (simp add: Let_def) blast

end
