(* ===== verification/BoardProps.thy ===== *)
theory BoardProps
  imports Rock4d Cm5io
begin

text \<open>
  Properties of the board libraries: pins and clocks of the storage and network controllers, and the
  order in which the lines of the boards are driven.
\<close>

section \<open>Pins and clocks\<close>

text \<open>The function a table gives to a pin.\<close>

definition table_function :: "(u8 \<times> u8 \<times> u8) list \<Rightarrow> (u64 \<Rightarrow> u32) \<Rightarrow> u8 \<Rightarrow> u8 \<Rightarrow> u32" where
  "table_function ps r g p =
     (case find (\<lambda>(g', p', f). g' = g \<and> p' = p) ps of Some (_, _, f) \<Rightarrow> ucast f | None \<Rightarrow> pin_function r g p)"

lemma find_rev_distinct:
  assumes "distinct (map (\<lambda>(g, p, f). (g, p)) ps)"
  shows "find (\<lambda>(g', p', f). g' = g \<and> p' = p) (rev ps) = find (\<lambda>(g', p', f). g' = g \<and> p' = (p :: 'b)) (ps :: ('a \<times> 'b \<times> 'c) list)"
  using assms
proof (induction ps)
  case (Cons x ps)
  have app: "find P (xs @ [x]) = (case find P xs of Some y \<Rightarrow> Some y | None \<Rightarrow> if P x then Some x else None)" for P xs
    by (induction xs) auto
  show ?case
  proof (cases "(\<lambda>(g', p', f). g' = g \<and> p' = p) x")
    case True
    then have "find (\<lambda>(g', p', f). g' = g \<and> p' = p) ps = None"
      using Cons.prems by (force simp: find_None_iff)
    then show ?thesis
      using True Cons by (simp add: app)
  next
    case False
    then show ?thesis
      using Cons by (auto simp: app split: option.splits)
  qed
qed simp

lemma soc_clock_window: "\<not> ioc_reg (CRU_CLKGATE_CON 33)" "\<not> ioc_reg (CRU_CLKGATE_CON 42)" "\<not> ioc_reg (CRU_CLKGATE_CON 43)"
  "\<not> ioc_reg (CRU_CLKGATE_CON 5)" "\<not> ioc_reg (CRU_CLKSEL_CON 36)"
  by (simp_all add: ioc_reg_def soc_addr)

lemma gate_bits: "n < 16 \<Longrightarrow> b < 16 \<Longrightarrow> bit (gate_open b) (n + 16) = (n = b)" "n < 16 \<Longrightarrow> \<not> bit (gate_open b) n"
  by (auto simp: gate_open_def bit_simps)

lemma gate_inj: "c \<in> {33, 42, 43} \<Longrightarrow> d \<in> {33, 42, 43} \<Longrightarrow> CRU_CLKGATE_CON c = CRU_CLKGATE_CON d \<longleftrightarrow> c = d"
  by (auto simp: soc_addr)

lemma last_gates:
  assumes "c \<in> {33, 42, 43}" "n < 16" "\<forall>(d, b) \<in> set gs. d \<in> {33, 42, 43} \<and> b < 16"
  shows "last_bit (map (\<lambda>(d, b). (CRU_CLKGATE_CON d, gate_open b)) gs) (CRU_CLKGATE_CON c) n old = ((c, n) \<notin> set gs \<and> old)"
  using assms(3)
proof (induction gs arbitrary: old)
  case (Cons g gs)
  obtain d b where g: "g = (d, b)"
    by (cases g)
  show ?case
    using Cons assms(1,2) by (auto simp: g gate_bits gate_inj)
qed simp

lemma gate_window: "\<forall>(d, b) \<in> set gs. d \<in> {33, 42, 43} \<Longrightarrow>
  list_all (\<lambda>x. \<not> ioc_reg (fst x)) (map (\<lambda>(d, b). (CRU_CLKGATE_CON d, gate_open b)) gs)"
  using soc_clock_window by (auto simp: list_all_iff)

lemma storage_setup:
  assumes "\<forall>(g, p, f) \<in> set ps. gpio_pin g p \<and> f < 16" "distinct (map (\<lambda>(g, p, f). (g, p)) ps)"
    "\<forall>(d, b) \<in> set gs. d \<in> {33, 42, 43} \<and> b < 16"
  shows "\<exists>s'. pin_functions reg_file ps (writes reg_file (map (\<lambda>(d, b). (CRU_CLKGATE_CON d, gate_open b)) gs) s) = Some s' \<and>
    (\<forall>g p. gpio_pin g p \<longrightarrow> pin_function s' g p = table_function ps s g p) \<and>
    (\<forall>c \<in> {33, 42, 43}. \<forall>b < 16. bit (s' (CRU_CLKGATE_CON c)) b = ((c, b) \<notin> set gs \<and> bit (s (CRU_CLKGATE_CON c)) b))"
proof -
  let ?ws = "map (\<lambda>(d, b). (CRU_CLKGATE_CON d, gate_open b)) gs"
  have "list_all (\<lambda>x. \<not> ioc_reg (fst x)) ?ws"
    using assms(3) by (intro gate_window) auto
  then obtain s' where s': "pin_functions reg_file ps (writes reg_file ?ws s) = Some s'"
    "\<forall>g p. gpio_pin g p \<longrightarrow> pin_function s' g p =
      (case find (\<lambda>(g', p', f). g' = g \<and> p' = p) (rev ps) of Some (_, _, f) \<Rightarrow> ucast f | None \<Rightarrow> pin_function s g p)"
    "\<forall>x n. \<not> ioc_reg x \<longrightarrow> bit (s' x) n = last_bit ?ws x n (bit (s x) n)"
    using reg_file.clocks_and_pins [OF assms(1) refl, of ?ws s] by blast
  moreover have "\<forall>c \<in> {33, 42, 43}. \<forall>b < 16. bit (s' (CRU_CLKGATE_CON c)) b = ((c, b) \<notin> set gs \<and> bit (s (CRU_CLKGATE_CON c)) b)"
    using s'(3) last_gates [OF _ _ assms(3)] soc_clock_window by auto
  ultimately show ?thesis
    unfolding table_function_def find_rev_distinct [OF assms(2)] by blast
qed

lemma emmc_tables:
  "\<forall>(g, p, f) \<in> set emmc_pins_rock4d. gpio_pin g p \<and> f < 16" "\<forall>(g, p, f) \<in> set emmc_pins_cm5io. gpio_pin g p \<and> f < 16"
  "distinct (map (\<lambda>(g, p, f). (g, p)) emmc_pins_rock4d)" "distinct (map (\<lambda>(g, p, f). (g, p)) emmc_pins_cm5io)"
  by (simp_all add: emmc_pins_rock4d_def emmc_pins_cm5io_def gpio_pin_def)

lemma sdmmc_tables:
  "\<forall>(g, p, f) \<in> set sdmmc_pins_rock4d. gpio_pin g p \<and> f < 16" "\<forall>(g, p, f) \<in> set sdmmc_pins_cm5io. gpio_pin g p \<and> f < 16"
  "distinct (map (\<lambda>(g, p, f). (g, p)) sdmmc_pins_rock4d)" "distinct (map (\<lambda>(g, p, f). (g, p)) sdmmc_pins_cm5io)"
  by (simp_all add: sdmmc_pins_rock4d_def sdmmc_pins_cm5io_def gpio_pin_def)

lemma clock_lists:
  "emmc_clocks_rock4d = map (\<lambda>(d, b). (CRU_CLKGATE_CON d, gate_open b)) (map (Pair 33) [0, 1, 8, 9, 10, 11, 12])"
  "emmc_clocks_cm5io = map (\<lambda>(d, b). (CRU_CLKGATE_CON d, gate_open b)) (map (Pair 33) [0, 1, 8, 9, 10, 11, 12])"
  "sdmmc_clocks_rock4d = map (\<lambda>(d, b). (CRU_CLKGATE_CON d, gate_open b)) [(42, 0), (43, 1), (43, 2)]"
  "sdmmc_clocks_cm5io = map (\<lambda>(d, b). (CRU_CLKGATE_CON d, gate_open b)) [(42, 0), (43, 1), (43, 2)]"
  by (simp_all add: emmc_clocks_rock4d_def emmc_clocks_cm5io_def sdmmc_clocks_rock4d_def sdmmc_clocks_cm5io_def)

text \<open>
  On both boards the eMMC and the SD pin set-up gives exactly the pins of its table their function,
  leaves the function of every other pin alone, and opens exactly the clock gates of the controller
  in the clock registers it writes, whatever the registers held before.
\<close>

theorem storage_pins_and_clocks:
  assumes "(F, ps, gates) \<in>
    {(SdhciEmmcIoMux_rock4d reg_file, emmc_pins_rock4d, map (Pair 33) [0, 1, 8, 9, 10, 11, 12]),
     (SdhciEmmcIoMux_cm5io reg_file, emmc_pins_cm5io, map (Pair 33) [0, 1, 8, 9, 10, 11, 12]),
     (SdmmcIoMux_rock4d reg_file, sdmmc_pins_rock4d, [(42, 0), (43, 1), (43, 2)]),
     (SdmmcIoMux_cm5io reg_file, sdmmc_pins_cm5io, [(42, 0), (43, 1), (43, 2)])}"
  shows "\<exists>s'. F s = Some s' \<and>
    (\<forall>g p. gpio_pin g p \<longrightarrow> pin_function s' g p = table_function ps s g p) \<and>
    (\<forall>c \<in> {33, 42, 43}. \<forall>b < 16. bit (s' (CRU_CLKGATE_CON c)) b = ((c, b) \<notin> set gates \<and> bit (s (CRU_CLKGATE_CON c)) b))"
proof -
  have gates: "\<forall>(d, b) \<in> set gates. d \<in> {33, 42, 43} \<and> b < 16"
    using assms by auto
  have ps: "\<forall>(g, p, f) \<in> set ps. gpio_pin g p \<and> f < 16" "distinct (map (\<lambda>(g, p, f). (g, p)) ps)"
    using assms emmc_tables sdmmc_tables by auto
  have "F = (\<lambda>s. pin_functions reg_file ps (writes reg_file (map (\<lambda>(d, b). (CRU_CLKGATE_CON d, gate_open b)) gates) s))"
    using assms unfolding SdhciEmmcIoMux_rock4d_def SdhciEmmcIoMux_cm5io_def SdmmcIoMux_rock4d_def SdmmcIoMux_cm5io_def clock_lists
    by (elim insertE emptyE; simp only: prod.inject)
  then show ?thesis
    using storage_setup [OF ps gates, of s] by simp
qed

theorem storage_pins_and_clocks_witness:
  "\<exists>s'. SdmmcIoMux_cm5io reg_file (\<lambda>a. 0xFFFF) = Some s' \<and> pin_function s' 2 5 = 1 \<and> pin_function s' 2 6 = 15 \<and>
    \<not> bit (s' (CRU_CLKGATE_CON 43)) 1 \<and> bit (s' (CRU_CLKGATE_CON 43)) 3"
proof -
  obtain s' where s': "SdmmcIoMux_cm5io reg_file (\<lambda>a. 0xFFFF) = Some s'"
    "\<forall>g p. gpio_pin g p \<longrightarrow> pin_function s' g p = table_function sdmmc_pins_cm5io (\<lambda>a. 0xFFFF) g p"
    "\<forall>c \<in> {33, 42, 43}. \<forall>b < 16. bit (s' (CRU_CLKGATE_CON c)) b = ((c, b) \<notin> set [(42, 0), (43, 1), (43, 2)] \<and> bit (0xFFFF :: u32) b)"
    using storage_pins_and_clocks [of "SdmmcIoMux_cm5io reg_file" sdmmc_pins_cm5io "[(42, 0), (43, 1), (43, 2)]" "\<lambda>a. 0xFFFF"] by auto
  have "gpio_pin 2 5" "gpio_pin 2 6"
    by (simp_all add: gpio_pin_def)
  then have "pin_function s' 2 5 = table_function sdmmc_pins_cm5io (\<lambda>a. 0xFFFF) 2 5"
    "pin_function s' 2 6 = table_function sdmmc_pins_cm5io (\<lambda>a. 0xFFFF) 2 6"
    using s'(2) by blast+
  then have "pin_function s' 2 5 = 1" "pin_function s' 2 6 = 15"
    by (simp_all only: table_function_def sdmmc_pins_cm5io_def) (simp_all add: pin_function_def pin_field_def IOMUX_SHIFT_def)
  moreover have "\<not> bit (s' (CRU_CLKGATE_CON 43)) 1" "bit (s' (CRU_CLKGATE_CON 43)) 3"
    using s'(3) by simp_all
  ultimately show ?thesis
    using s'(1) by blast
qed

section \<open>Driving lines\<close>

text \<open>At every moment a pad drives what it drove at first or what it drives in the end.\<close>

definition glitch_free :: "(u64 \<Rightarrow> u32) \<Rightarrow> io_event list \<Rightarrow> bool" where
  "glitch_free r t \<longleftrightarrow> (\<forall>g p. gpio_pin g p \<longrightarrow>
     always (\<lambda>u. drives (masked_file r u) g p \<in> {drives r g p, drives (masked_file r t) g p}) t)"

lemma drive_log: "snd (drive_pin (logged M) g p b s) = direction_event g p GPIO_PIN_OUTPUT # value_event g p b # snd s"
  by (simp add: drive_pin_def log_simps)

lemma board_pins: "gpio_pin 0 27" "gpio_pin 4 8" "gpio_pin 0 12" "gpio_pin 0 20" "gpio_pin 2 24" "gpio_pin 2 25" "gpio_pin 2 23"
  "gpio_pin 1 22" "gpio_pin 1 23" "gpio_pin 0 8" "gpio_pin 2 12" "gpio_pin 2 13"
  by (simp_all add: gpio_pin_def)

lemmas pins_board = pins_of_file [OF board_pins(1)] pins_of_file [OF board_pins(2)] pins_of_file [OF board_pins(3)] pins_of_file [OF board_pins(4)]
  pins_of_file [OF board_pins(5)] pins_of_file [OF board_pins(6)] pins_of_file [OF board_pins(7)] pins_of_file [OF board_pins(8)]
  pins_of_file [OF board_pins(9)] pins_of_file [OF board_pins(10)]

lemma glitch_free_cases:
  "glitch_free r (snd (UsbPortPowerEnable_rock4d (logged M) (h, [])))"
  "glitch_free r (snd (UsbPortPowerEnable_cm5io (logged M) (h, [])))"
  "glitch_free r (snd (PlatformInitLeds_rock4d (logged M) (h, [])))"
  "glitch_free r (snd (PlatformInitLeds_cm5io (logged M) (h, [])))"
  "glitch_free r (snd (PlatformEarlyInit_rock4d (logged M) (h, [])))"
  "glitch_free r (snd (PlatformEarlyInit_cm5io (logged M) (h, [])))"
  unfolding glitch_free_def UsbPortPowerEnable_rock4d_def UsbPortPowerEnable_cm5io_def PlatformInitLeds_rock4d_def PlatformInitLeds_cm5io_def
    PlatformEarlyInit_rock4d_def PlatformEarlyInit_cm5io_def drive_log
  by (intro allI impI, simp add: drive_log log_simps drives_def pins_board board_pins del: masked_file.simps(2,3))+

text \<open>
  C38: Switching on the USB port power, setting up the LEDs and the early start-up drive their lines
  without a glitch on both boards: at every moment every pad drives what it drove before the call or
  what it drives after it, whatever the registers held.
\<close>

theorem board_glitch_free:
  assumes "F \<in> {UsbPortPowerEnable_rock4d, UsbPortPowerEnable_cm5io, PlatformInitLeds_rock4d, PlatformInitLeds_cm5io,
    PlatformEarlyInit_rock4d, PlatformEarlyInit_cm5io}"
  shows "glitch_free r (snd (F (logged M) (h, [])))"
  using assms glitch_free_cases [of r M h] by auto

theorem board_glitch_free_witness:
  "glitch_free (\<lambda>a. 0xFFFF) (snd (PlatformEarlyInit_cm5io (logged reg_file) ((\<lambda>a. 0xFFFF), [])))"
  by (rule board_glitch_free) simp

text \<open>
  Driving the direction first is not free of glitches: asserting the PHY reset of the ROCK 4D drives
  the line high for a moment when the latch was high before.
\<close>

lemma phy_reset_glitch:
  "\<not> glitch_free (\<lambda>a. if a = GPIO_BASE 2 + GPIO_SWPORT_DR 13 then 0xFFFF else 0)
    (snd (GmacIoPhyReset_rock4d (logged M) 0 True (h, [])))"
  unfolding glitch_free_def GmacIoPhyReset_rock4d_def
  by (simp add: log_simps) (rule exI [of _ 2], rule exI [of _ 13], simp add: drives_def pins_of_file [OF board_pins(12)] board_pins, 
     simp add: pin_value_def pin_is_output_def port_bit_def GPIO_BASE_def GPIO_SWPORT_DR_def GPIO_SWPORT_DDR_def)

end
