(* ===== verification/StatusLed.thy ===== *)
theory StatusLed
  imports BoardProps
begin

text \<open>
  The status LED driver (\<open>Drivers/StatusLedDxe/StatusLedDxe.c\<close>): pulse patterns played by a timer
  handler or by a loop, on top of the board library. A world is what the LED is attached to; firing
  the timer lets its period pass and runs the handler. The timer period is kept in milliseconds.
\<close>

definition REPEAT_INFINITE :: u32 where "REPEAT_INFINITE = 0xFFFFFFFF"
definition LONG_PULSE_PERIOD_MS :: u32 where "LONG_PULSE_PERIOD_MS = 840"
definition SHORT_PULSE_PERIOD_MS :: u32 where "SHORT_PULSE_PERIOD_MS = 140"

definition MILLIS_TO_MICROS :: "u32 \<Rightarrow> u32" where "MILLIS_TO_MICROS x = x * 1000"

record 'w led_ops =
  PlatformInitLeds :: "'w \<Rightarrow> 'w"
  PlatformSetStatusLed :: "bool \<Rightarrow> 'w \<Rightarrow> 'w"
  Stall :: "nat \<Rightarrow> 'w \<Rightarrow> 'w"

record led_state =
  AsyncLongPulseCount :: u32
  AsyncShortPulseCount :: u32
  AsyncRepeatCount :: u32
  AsyncPatternDelayMs :: u32
  AsyncContinueWithIdlePattern :: bool
  AsyncRepeatIndex :: u32
  AsyncShortPulseIndex :: u32
  AsyncLongPulseIndex :: u32
  LedEnabled :: bool
  Timer :: "u32 option"

definition SetLed :: "'w led_ops \<Rightarrow> bool \<Rightarrow> led_state \<times> 'w \<Rightarrow> led_state \<times> 'w" where
  "SetLed L Enable = (\<lambda>(st, w). (st\<lparr>LedEnabled := Enable\<rparr>, PlatformSetStatusLed L Enable w))"

definition SetTimer :: "u32 option \<Rightarrow> led_state \<times> 'w \<Rightarrow> led_state \<times> 'w" where
  "SetTimer Period = (\<lambda>(st, w). (st\<lparr>Timer := Period\<rparr>, w))"

definition BlinkLedAsync :: "'w led_ops \<Rightarrow> u32 \<Rightarrow> u32 \<Rightarrow> u32 \<Rightarrow> u32 \<Rightarrow> bool \<Rightarrow> led_state \<times> 'w \<Rightarrow> led_state \<times> 'w" where
  "BlinkLedAsync L LongPulseCount ShortPulseCount RepeatCount PatternDelayMs ContinueWithIdlePattern x =
     (let (st, w) = SetTimer None x;
          st = st\<lparr>AsyncLongPulseCount := LongPulseCount, AsyncShortPulseCount := ShortPulseCount, AsyncRepeatCount := RepeatCount,
                AsyncPatternDelayMs := PatternDelayMs, AsyncContinueWithIdlePattern := ContinueWithIdlePattern,
                AsyncRepeatIndex := 0, AsyncShortPulseIndex := 0, AsyncLongPulseIndex := 0\<rparr>
      in SetTimer (Some 0) (SetLed L False (st, w)))"

definition BlinkLedIdleAsync :: "'w led_ops \<Rightarrow> led_state \<times> 'w \<Rightarrow> led_state \<times> 'w" where
  "BlinkLedIdleAsync L = BlinkLedAsync L 0 1 REPEAT_INFINITE 2000 False"

definition TimerHandler :: "'w led_ops \<Rightarrow> led_state \<times> 'w \<Rightarrow> led_state \<times> 'w" where
  "TimerHandler L = (\<lambda>(st, w).
     if AsyncLongPulseIndex st < AsyncLongPulseCount st then
       let st' = (if LedEnabled st then st\<lparr>AsyncLongPulseIndex := AsyncLongPulseIndex st + 1\<rparr> else st)
       in SetTimer (Some LONG_PULSE_PERIOD_MS) (SetLed L (\<not> LedEnabled st') (st', w))
     else if AsyncShortPulseIndex st < AsyncShortPulseCount st then
       let st' = (if LedEnabled st then st\<lparr>AsyncShortPulseIndex := AsyncShortPulseIndex st + 1\<rparr> else st)
       in SetTimer (Some SHORT_PULSE_PERIOD_MS) (SetLed L (\<not> LedEnabled st') (st', w))
     else if AsyncRepeatIndex st > AsyncRepeatCount st then
       (if AsyncContinueWithIdlePattern st then BlinkLedIdleAsync L (st, w) else (st, w))
     else
       let st = (if AsyncRepeatIndex st < AsyncRepeatCount st then st\<lparr>AsyncShortPulseIndex := 0, AsyncLongPulseIndex := 0\<rparr> else st);
           st = (if AsyncRepeatCount st \<noteq> REPEAT_INFINITE then st\<lparr>AsyncRepeatIndex := AsyncRepeatIndex st + 1\<rparr> else st)
       in SetTimer (Some (AsyncPatternDelayMs st)) (st, w))"

text \<open>The loop of \<open>BlinkLedSync\<close>.\<close>

fun pulses :: "'w led_ops \<Rightarrow> u32 \<Rightarrow> nat \<Rightarrow> led_state \<times> 'w \<Rightarrow> led_state \<times> 'w" where
  "pulses L PeriodMs 0 x = x"
| "pulses L PeriodMs (Suc n) x =
     (let (st, w) = SetLed L True x;
          (st, w) = SetLed L False (st, Stall L (unat (MILLIS_TO_MICROS PeriodMs)) w)
      in pulses L PeriodMs n (st, Stall L (unat (MILLIS_TO_MICROS PeriodMs)) w))"

definition play_pattern :: "'w led_ops \<Rightarrow> u32 \<Rightarrow> u32 \<Rightarrow> u32 \<Rightarrow> led_state \<times> 'w \<Rightarrow> led_state \<times> 'w" where
  "play_pattern L LongPulseCount ShortPulseCount PatternDelayMs x =
     (let (st, w) = pulses L SHORT_PULSE_PERIOD_MS (unat ShortPulseCount) (pulses L LONG_PULSE_PERIOD_MS (unat LongPulseCount) x)
      in (st, Stall L (unat (MILLIS_TO_MICROS PatternDelayMs)) w))"

partial_function (option) repeat_pattern ::
  "'w led_ops \<Rightarrow> u32 \<Rightarrow> u32 \<Rightarrow> u32 \<Rightarrow> u32 \<Rightarrow> u32 \<Rightarrow> led_state \<times> 'w \<Rightarrow> (led_state \<times> 'w) option" where
  "repeat_pattern L LongPulseCount ShortPulseCount RepeatCount PatternDelayMs RepeatIndex x =
     (if RepeatIndex \<le> RepeatCount
      then repeat_pattern L LongPulseCount ShortPulseCount RepeatCount PatternDelayMs
             (if RepeatCount \<noteq> REPEAT_INFINITE then RepeatIndex + 1 else RepeatIndex)
             (play_pattern L LongPulseCount ShortPulseCount PatternDelayMs x)
      else Some x)"

definition BlinkLedSync :: "'w led_ops \<Rightarrow> u32 \<Rightarrow> u32 \<Rightarrow> u32 \<Rightarrow> u32 \<Rightarrow> bool \<Rightarrow> led_state \<times> 'w \<Rightarrow> (led_state \<times> 'w) option" where
  "BlinkLedSync L LongPulseCount ShortPulseCount RepeatCount PatternDelayMs ContinueWithIdlePattern x = do {
     x \<leftarrow> repeat_pattern L LongPulseCount ShortPulseCount RepeatCount PatternDelayMs 0 (SetLed L False (SetTimer None x));
     Some (if ContinueWithIdlePattern then BlinkLedIdleAsync L x else x)
   }"

definition NotifyPlatformBmAfterConsole :: "'w led_ops \<Rightarrow> led_state \<times> 'w \<Rightarrow> led_state \<times> 'w" where
  "NotifyPlatformBmAfterConsole L = BlinkLedIdleAsync L"

definition NotifyExitBootServices :: "'w led_ops \<Rightarrow> led_state \<times> 'w \<Rightarrow> led_state \<times> 'w" where
  "NotifyExitBootServices L = SetLed L False"

text \<open>The status of creating the timer event is an argument; the two later events are not checked.\<close>

definition StatusLedDxeInitialize :: "'w led_ops \<Rightarrow> efi_status \<Rightarrow> led_state \<times> 'w \<Rightarrow> efi_status \<times> led_state \<times> 'w" where
  "StatusLedDxeInitialize L CreateEvent = (\<lambda>(st, w).
     let w = PlatformInitLeds L w
     in if EFI_ERROR CreateEvent then (CreateEvent, st, w)
        else (EFI_SUCCESS, BlinkLedAsync L 0 1 REPEAT_INFINITE 0 False (st, w)))"

section \<open>Firing the timer\<close>

definition fire :: "'w led_ops \<Rightarrow> led_state \<times> 'w \<Rightarrow> led_state \<times> 'w" where
  "fire L = (\<lambda>(st, w). case Timer st of None \<Rightarrow> (st, w)
     | Some ms \<Rightarrow> TimerHandler L (st\<lparr>Timer := None\<rparr>, Stall L (unat ms * 1000) w))"

text \<open>
  Firing the timer leads from one state of the driver to another; the worlds are taken after the
  armed period has passed.
\<close>

definition played :: "'w led_ops \<Rightarrow> led_state \<times> 'w \<Rightarrow> led_state \<times> 'w \<Rightarrow> bool" where
  "played L x y \<longleftrightarrow> (\<forall>t w. Stall L (unat t * 1000) w = snd x \<longrightarrow>
     (\<exists>n t' w'. (fire L ^^ n) ((fst x)\<lparr>Timer := Some t\<rparr>, w) = ((fst y)\<lparr>Timer := Some t'\<rparr>, w') \<and> Stall L (unat t' * 1000) w' = snd y))"

lemma played_refl: "played L x x"
  unfolding played_def by (auto intro!: exI [of _ "0 :: nat"])

lemma played_trans:
  assumes "played L x y" "played L y z"
  shows "played L x z"
  unfolding played_def
proof (intro allI impI)
  fix t :: u32 and w
  assume "Stall L (unat t * 1000) w = snd x"
  then obtain n t' w' where n: "(fire L ^^ n) ((fst x)\<lparr>Timer := Some t\<rparr>, w) = ((fst y)\<lparr>Timer := Some t'\<rparr>, w')" "Stall L (unat t' * 1000) w' = snd y"
    using assms(1) unfolding played_def by blast
  obtain k t'' w'' where k: "(fire L ^^ k) ((fst y)\<lparr>Timer := Some t'\<rparr>, w') = ((fst z)\<lparr>Timer := Some t''\<rparr>, w'')" "Stall L (unat t'' * 1000) w'' = snd z"
    using assms(2) n(2) unfolding played_def by blast
  have "(fire L ^^ (k + n)) ((fst x)\<lparr>Timer := Some t\<rparr>, w) = ((fst z)\<lparr>Timer := Some t''\<rparr>, w'')"
    using n(1) k(1) by (simp add: funpow_add)
  then show "\<exists>n t' w'. (fire L ^^ n) ((fst x)\<lparr>Timer := Some t\<rparr>, w) = ((fst z)\<lparr>Timer := Some t'\<rparr>, w') \<and> Stall L (unat t' * 1000) w' = snd z"
    using k(2) by blast
qed

text \<open>What \<open>n\<close> pulses do to the world.\<close>

fun pulse_world :: "'w led_ops \<Rightarrow> nat \<Rightarrow> nat \<Rightarrow> 'w \<Rightarrow> 'w" where
  "pulse_world L us 0 w = w"
| "pulse_world L us (Suc n) w =
     pulse_world L us n (Stall L us (PlatformSetStatusLed L False (Stall L us (PlatformSetStatusLed L True w))))"

lemma pulses_world: "pulses L ms n (st, w) = ((if n = 0 then st else st\<lparr>LedEnabled := False\<rparr>), pulse_world L (unat (MILLIS_TO_MICROS ms)) n w)"
  by (induction n arbitrary: st w) (simp_all add: SetLed_def Let_def)

lemma period: "unat (MILLIS_TO_MICROS LONG_PULSE_PERIOD_MS) = 840000" "unat (MILLIS_TO_MICROS SHORT_PULSE_PERIOD_MS) = 140000"
  by (simp_all add: MILLIS_TO_MICROS_def LONG_PULSE_PERIOD_MS_def SHORT_PULSE_PERIOD_MS_def)

lemma fire_armed: "fire L (st\<lparr>Timer := Some t\<rparr>, w) = TimerHandler L (st\<lparr>Timer := None\<rparr>, Stall L (unat t * 1000) w)"
  by (simp add: fire_def)

lemma played_step:
  assumes "\<exists>t'. TimerHandler L (st\<lparr>Timer := None\<rparr>, v) = (st'\<lparr>Timer := Some t'\<rparr>, w') \<and> Stall L (unat t' * 1000) w' = v'"
  shows "played L (st, v) (st', v')"
  unfolding played_def
proof (intro allI impI)
  fix t :: u32 and w
  assume "Stall L (unat t * 1000) w = snd (st, v)"
  then have "fire L (st\<lparr>Timer := Some t\<rparr>, w) = TimerHandler L (st\<lparr>Timer := None\<rparr>, v)"
    by (simp add: fire_armed)
  then obtain t' where "(fire L ^^ 1) (st\<lparr>Timer := Some t\<rparr>, w) = (st'\<lparr>Timer := Some t'\<rparr>, w')" "Stall L (unat t' * 1000) w' = v'"
    using assms by auto
  then show "\<exists>n t' w'. (fire L ^^ n) ((fst (st, v))\<lparr>Timer := Some t\<rparr>, w) = ((fst (st', v'))\<lparr>Timer := Some t'\<rparr>, w') \<and>
      Stall L (unat t' * 1000) w' = snd (st', v')"
    by (intro exI [of _ "1 :: nat"] exI [of _ t'] exI [of _ w']) simp
qed

lemma unat_next: "i < c \<Longrightarrow> unat (i + 1) = Suc (unat i)" for i c :: u32
  proof -
  assume "i < c"
  moreover have "unat c < 2 ^ LENGTH(32)"
    by (rule unsigned_less)
  ultimately show ?thesis
    by (simp add: word_less_nat_alt unat_word_ariths)
qed

text \<open>One pulse is two firings.\<close>

lemma played_long:
  assumes "\<not> LedEnabled st" "AsyncLongPulseIndex st < AsyncLongPulseCount st"
  shows "played L (st, v) (st\<lparr>AsyncLongPulseIndex := AsyncLongPulseIndex st + 1\<rparr>, pulse_world L 840000 1 v)"
proof (rule played_trans)
  show "played L (st, v) (st\<lparr>LedEnabled := True\<rparr>, Stall L 840000 (PlatformSetStatusLed L True v))"
    by (rule played_step [where w' = "PlatformSetStatusLed L True v"])
      (use assms in \<open>auto simp: TimerHandler_def SetLed_def SetTimer_def LONG_PULSE_PERIOD_MS_def intro!: exI [of _ "840 :: u32"]\<close>)
  show "played L (st\<lparr>LedEnabled := True\<rparr>, Stall L 840000 (PlatformSetStatusLed L True v))
      (st\<lparr>AsyncLongPulseIndex := AsyncLongPulseIndex st + 1\<rparr>, pulse_world L 840000 1 v)"
    by (rule played_step [where w' = "PlatformSetStatusLed L False (Stall L 840000 (PlatformSetStatusLed L True v))"])
      (cases st, use assms in \<open>auto simp: TimerHandler_def SetLed_def SetTimer_def LONG_PULSE_PERIOD_MS_def intro!: exI [of _ "840 :: u32"]\<close>)
qed

lemma played_short:
  assumes "\<not> LedEnabled st" "\<not> AsyncLongPulseIndex st < AsyncLongPulseCount st" "AsyncShortPulseIndex st < AsyncShortPulseCount st"
  shows "played L (st, v) (st\<lparr>AsyncShortPulseIndex := AsyncShortPulseIndex st + 1\<rparr>, pulse_world L 140000 1 v)"
proof (rule played_trans)
  show "played L (st, v) (st\<lparr>LedEnabled := True\<rparr>, Stall L 140000 (PlatformSetStatusLed L True v))"
    by (rule played_step [where w' = "PlatformSetStatusLed L True v"])
      (use assms in \<open>auto simp: TimerHandler_def SetLed_def SetTimer_def SHORT_PULSE_PERIOD_MS_def intro!: exI [of _ "140 :: u32"]\<close>)
  show "played L (st\<lparr>LedEnabled := True\<rparr>, Stall L 140000 (PlatformSetStatusLed L True v))
      (st\<lparr>AsyncShortPulseIndex := AsyncShortPulseIndex st + 1\<rparr>, pulse_world L 140000 1 v)"
    by (rule played_step [where w' = "PlatformSetStatusLed L False (Stall L 140000 (PlatformSetStatusLed L True v))"])
      (cases st, use assms in \<open>auto simp: TimerHandler_def SetLed_def SetTimer_def SHORT_PULSE_PERIOD_MS_def intro!: exI [of _ "140 :: u32"]\<close>)
qed

lemma played_longs:
  "\<not> LedEnabled st \<Longrightarrow> unat (AsyncLongPulseIndex st) + k = unat (AsyncLongPulseCount st) \<Longrightarrow>
    played L (st, v) (st\<lparr>AsyncLongPulseIndex := AsyncLongPulseCount st\<rparr>, pulse_world L 840000 k v)"
proof (induction k arbitrary: st v)
  case 0
  then have "AsyncLongPulseIndex st = AsyncLongPulseCount st"
    by (simp add: word_unat_eq_iff)
  then show ?case
    by (cases st) (simp add: played_refl)
next
  case (Suc k)
  then have lt: "AsyncLongPulseIndex st < AsyncLongPulseCount st"
    by (simp add: word_less_nat_alt)
  then have "unat (AsyncLongPulseIndex st + 1) = Suc (unat (AsyncLongPulseIndex st))"
    by (rule unat_next)
  then have "played L (st\<lparr>AsyncLongPulseIndex := AsyncLongPulseIndex st + 1\<rparr>, pulse_world L 840000 1 v)
      (st\<lparr>AsyncLongPulseIndex := AsyncLongPulseCount st\<rparr>, pulse_world L 840000 k (pulse_world L 840000 1 v))"
    using Suc.IH [of "st\<lparr>AsyncLongPulseIndex := AsyncLongPulseIndex st + 1\<rparr>" "pulse_world L 840000 1 v"] Suc.prems by simp
  then show ?case
    using played_trans [OF played_long [OF Suc.prems(1) lt]] by simp
qed

lemma played_shorts:
  "\<not> LedEnabled st \<Longrightarrow> \<not> AsyncLongPulseIndex st < AsyncLongPulseCount st \<Longrightarrow>
    unat (AsyncShortPulseIndex st) + k = unat (AsyncShortPulseCount st) \<Longrightarrow>
    played L (st, v) (st\<lparr>AsyncShortPulseIndex := AsyncShortPulseCount st\<rparr>, pulse_world L 140000 k v)"
proof (induction k arbitrary: st v)
  case 0
  then have "AsyncShortPulseIndex st = AsyncShortPulseCount st"
    by (simp add: word_unat_eq_iff)
  then show ?case
    by (cases st) (simp add: played_refl)
next
  case (Suc k)
  then have lt: "AsyncShortPulseIndex st < AsyncShortPulseCount st"
    by (simp add: word_less_nat_alt)
  then have "unat (AsyncShortPulseIndex st + 1) = Suc (unat (AsyncShortPulseIndex st))"
    by (rule unat_next)
  then have "played L (st\<lparr>AsyncShortPulseIndex := AsyncShortPulseIndex st + 1\<rparr>, pulse_world L 140000 1 v)
      (st\<lparr>AsyncShortPulseIndex := AsyncShortPulseCount st\<rparr>, pulse_world L 140000 k (pulse_world L 140000 1 v))"
    using Suc.IH [of "st\<lparr>AsyncShortPulseIndex := AsyncShortPulseIndex st + 1\<rparr>" "pulse_world L 140000 1 v"] Suc.prems by simp
  then show ?case
    using played_trans [OF played_short [OF Suc.prems(1,2) lt]] by simp
qed


text \<open>One pattern, its pause included.\<close>

definition pattern_world :: "'w led_ops \<Rightarrow> nat \<Rightarrow> nat \<Rightarrow> nat \<Rightarrow> 'w \<Rightarrow> 'w" where
  "pattern_world L l s us w = Stall L us (pulse_world L 140000 s (pulse_world L 840000 l w))"

lemma played_pattern:
  assumes "\<not> LedEnabled st" "AsyncLongPulseIndex st = 0" "AsyncShortPulseIndex st = 0"
  shows "played L (st, v) (st\<lparr>AsyncLongPulseIndex := AsyncLongPulseCount st, AsyncShortPulseIndex := AsyncShortPulseCount st\<rparr>,
    pulse_world L 140000 (unat (AsyncShortPulseCount st)) (pulse_world L 840000 (unat (AsyncLongPulseCount st)) v))"
  by (rule played_trans [OF played_longs [where k = "unat (AsyncLongPulseCount st)"]], use assms in \<open>simp_all\<close>)
    (rule played_shorts [of "st\<lparr>AsyncLongPulseIndex := AsyncLongPulseCount st\<rparr>" "unat (AsyncShortPulseCount st)", simplified], use assms in \<open>simp_all\<close>)

lemma played_round:
  assumes "\<not> LedEnabled st" "AsyncLongPulseIndex st = 0" "AsyncShortPulseIndex st = 0" "AsyncRepeatCount st \<noteq> REPEAT_INFINITE"
    and lt: "AsyncRepeatIndex st < AsyncRepeatCount st"
  shows "played L (st, v) (st\<lparr>AsyncRepeatIndex := AsyncRepeatIndex st + 1\<rparr>, pattern_world L (unat (AsyncLongPulseCount st))
    (unat (AsyncShortPulseCount st)) (unat (AsyncPatternDelayMs st) * 1000) v)"
proof (rule played_trans [OF played_pattern [OF assms(1-3)]])
  let ?v = "pulse_world L 140000 (unat (AsyncShortPulseCount st)) (pulse_world L 840000 (unat (AsyncLongPulseCount st)) v)"
  show "played L (st\<lparr>AsyncLongPulseIndex := AsyncLongPulseCount st, AsyncShortPulseIndex := AsyncShortPulseCount st\<rparr>, ?v)
      (st\<lparr>AsyncRepeatIndex := AsyncRepeatIndex st + 1\<rparr>, pattern_world L (unat (AsyncLongPulseCount st))
        (unat (AsyncShortPulseCount st)) (unat (AsyncPatternDelayMs st) * 1000) v)"
    by (rule played_step [where w' = ?v], rule exI [of _ "AsyncPatternDelayMs st"], cases st)
      (use assms in \<open>simp add: TimerHandler_def SetTimer_def pattern_world_def not_less [symmetric] less_not_sym\<close>)
qed

lemma played_last:
  assumes "\<not> LedEnabled st" "AsyncLongPulseIndex st = 0" "AsyncShortPulseIndex st = 0" "AsyncRepeatCount st \<noteq> REPEAT_INFINITE"
    and eq: "AsyncRepeatIndex st = AsyncRepeatCount st"
  shows "played L (st, v) (st\<lparr>AsyncLongPulseIndex := AsyncLongPulseCount st, AsyncShortPulseIndex := AsyncShortPulseCount st,
    AsyncRepeatIndex := AsyncRepeatCount st + 1\<rparr>, pattern_world L (unat (AsyncLongPulseCount st))
    (unat (AsyncShortPulseCount st)) (unat (AsyncPatternDelayMs st) * 1000) v)"
proof (rule played_trans [OF played_pattern [OF assms(1-3)]])
  let ?v = "pulse_world L 140000 (unat (AsyncShortPulseCount st)) (pulse_world L 840000 (unat (AsyncLongPulseCount st)) v)"
  show "played L (st\<lparr>AsyncLongPulseIndex := AsyncLongPulseCount st, AsyncShortPulseIndex := AsyncShortPulseCount st\<rparr>, ?v)
      (st\<lparr>AsyncLongPulseIndex := AsyncLongPulseCount st, AsyncShortPulseIndex := AsyncShortPulseCount st,
        AsyncRepeatIndex := AsyncRepeatCount st + 1\<rparr>, pattern_world L (unat (AsyncLongPulseCount st))
        (unat (AsyncShortPulseCount st)) (unat (AsyncPatternDelayMs st) * 1000) v)"
    by (rule played_step [where w' = ?v], rule exI [of _ "AsyncPatternDelayMs st"], cases st)
      (use assms in \<open>simp add: TimerHandler_def SetTimer_def pattern_world_def\<close>)
qed

lemma played_rounds:
  "\<not> LedEnabled st \<Longrightarrow> AsyncLongPulseIndex st = 0 \<Longrightarrow> AsyncShortPulseIndex st = 0 \<Longrightarrow> AsyncRepeatCount st \<noteq> REPEAT_INFINITE \<Longrightarrow>
    unat (AsyncRepeatIndex st) + k = unat (AsyncRepeatCount st) \<Longrightarrow>
    played L (st, v) (st\<lparr>AsyncLongPulseIndex := AsyncLongPulseCount st, AsyncShortPulseIndex := AsyncShortPulseCount st,
      AsyncRepeatIndex := AsyncRepeatCount st + 1\<rparr>, (pattern_world L (unat (AsyncLongPulseCount st))
      (unat (AsyncShortPulseCount st)) (unat (AsyncPatternDelayMs st) * 1000) ^^ Suc k) v)"
proof (induction k arbitrary: st v)
  case 0
  then have "AsyncRepeatIndex st = AsyncRepeatCount st"
    by (simp add: word_unat_eq_iff)
  then show ?case
    using played_last 0 by simp
next
  case (Suc k)
  then have lt: "AsyncRepeatIndex st < AsyncRepeatCount st"
    by (simp add: word_less_nat_alt)
  let ?st = "st\<lparr>AsyncRepeatIndex := AsyncRepeatIndex st + 1\<rparr>"
  let ?p = "pattern_world L (unat (AsyncLongPulseCount st)) (unat (AsyncShortPulseCount st)) (unat (AsyncPatternDelayMs st) * 1000)"
  have "played L (?st, ?p v) (st\<lparr>AsyncLongPulseIndex := AsyncLongPulseCount st, AsyncShortPulseIndex := AsyncShortPulseCount st,
      AsyncRepeatIndex := AsyncRepeatCount st + 1\<rparr>, (?p ^^ Suc k) (?p v))"
    using Suc.IH [of ?st "?p v"] Suc.prems unat_next [OF lt] by (cases st) simp
  then show ?case
    using played_trans [OF played_round [OF Suc.prems(1-4) lt]] by (simp add: funpow_swap1)
qed

section \<open>The loop that waits\<close>

lemma play_pattern_world:
  assumes "\<not> LedEnabled st" "unat PatternDelayMs * 1000 < 2 ^ 32"
  shows "play_pattern L l s PatternDelayMs (st, w) = (st, pattern_world L (unat l) (unat s) (unat PatternDelayMs * 1000) w)"
proof -
  have "st\<lparr>LedEnabled := False\<rparr> = st"
    using assms(1) by (cases st) simp
  moreover have "unat (MILLIS_TO_MICROS PatternDelayMs) = unat PatternDelayMs * 1000"
    using assms(2) by (simp add: MILLIS_TO_MICROS_def unat_word_ariths)
  ultimately show ?thesis
    by (simp add: play_pattern_def pulses_world period pattern_world_def)
qed

lemma repeat_pattern_world:
  assumes "\<not> LedEnabled st" "unat PatternDelayMs * 1000 < 2 ^ 32" "c \<noteq> REPEAT_INFINITE"
  shows "unat i + k = unat c \<Longrightarrow> repeat_pattern L l s c PatternDelayMs i (st, w) =
    Some (st, (pattern_world L (unat l) (unat s) (unat PatternDelayMs * 1000) ^^ Suc k) w)"
proof (induction k arbitrary: i w)
  case 0
  then have "i = c"
    by (simp add: word_unat_eq_iff)
  moreover have "unat c < 2 ^ LENGTH(32)"
    by (rule unsigned_less)
  then have "\<not> c + 1 \<le> c"
    using assms(3) by (simp add: REPEAT_INFINITE_def word_le_nat_alt unat_word_ariths word_unat_eq_iff)
  ultimately show ?case
    using assms(3) play_pattern_world [OF assms(1,2), of L l s] by (simp add: repeat_pattern.simps [of L l s c _ c] repeat_pattern.simps [of L l s c _ "c + 1"])
next
  case (Suc k)
  then have lt: "i < c"
    by (simp add: word_less_nat_alt)
  then show ?case
    using Suc.IH [of "i + 1"] Suc.prems unat_next [OF lt] assms(3) play_pattern_world [OF assms(1,2), of L l s] less_imp_le [OF lt]
    by (subst repeat_pattern.simps) (simp add: funpow_swap1)
qed

lemma repeat_pattern_step:
  assumes "\<And>L l s c d i x y. f L l s c d i x = Some y \<Longrightarrow> c \<noteq> REPEAT_INFINITE"
    and "(if i \<le> c then f L l s c d (if c \<noteq> REPEAT_INFINITE then i + 1 else i) (play_pattern L l s d x) else Some x) = Some y"
  shows "c \<noteq> REPEAT_INFINITE"
proof (cases "i \<le> c")
  case True
  then show ?thesis
    using assms(2) by (auto dest: assms(1))
next
  case False
  moreover have "unat i < 2 ^ LENGTH(32)"
    by (rule unsigned_less)
  ultimately show ?thesis
    by (auto simp: REPEAT_INFINITE_def word_le_nat_alt)
qed

lemma repeat_pattern_forever: "repeat_pattern L l s REPEAT_INFINITE d i x = None"
proof (cases "repeat_pattern L l s REPEAT_INFINITE d i x")
  case (Some y)
  have "REPEAT_INFINITE \<noteq> REPEAT_INFINITE"
  proof (rule repeat_pattern.raw_induct [where P = "\<lambda>L l s c d i x y. c \<noteq> REPEAT_INFINITE"
        and xa = "((((((L, l), s), REPEAT_INFINITE), d), i), x)" and y = y, unfolded prod.case])
    show "repeat_pattern L l s REPEAT_INFINITE d i x = Some y"
      by (rule Some)
  qed (rule repeat_pattern_step)
  then show ?thesis
    by simp
qed

section \<open>Both play the same pattern\<close>

definition played_out :: "'w led_ops \<Rightarrow> u32 \<Rightarrow> u32 \<Rightarrow> u32 \<Rightarrow> u32 \<Rightarrow> 'w \<Rightarrow> 'w" where
  "played_out L l s c d w = (pattern_world L (unat l) (unat s) (unat d * 1000) ^^ Suc (unat c)) (PlatformSetStatusLed L False w)"

lemma BlinkLedSync_world:
  assumes "unat d * 1000 < 2 ^ 32" "c \<noteq> REPEAT_INFINITE"
  shows "BlinkLedSync L l s c d continue (st, w) =
    Some ((if continue then BlinkLedIdleAsync L else (\<lambda>x. x)) (st\<lparr>Timer := None, LedEnabled := False\<rparr>, played_out L l s c d w))"
  using repeat_pattern_world [OF _ assms, where L = L and l = l and s = s and st = "st\<lparr>Timer := None, LedEnabled := False\<rparr>" and i = 0 and k = "unat c"]
  by (simp add: BlinkLedSync_def SetTimer_def SetLed_def played_out_def)

lemma BlinkLedAsync_world:
  assumes "c \<noteq> REPEAT_INFINITE" and idle: "\<And>w. Stall L 0 w = w"
  shows "\<exists>n st'. (fire L ^^ n) (BlinkLedAsync L l s c d continue (st, w)) =
      (if continue then BlinkLedIdleAsync L else (\<lambda>x. x)) (st', played_out L l s c d w) \<and> Timer st' = None \<and> \<not> LedEnabled st'"
proof -
  define st\<^sub>0 where "st\<^sub>0 = fst (BlinkLedAsync L l s c d continue (st, w))\<lparr>Timer := None\<rparr>"
  have start: "BlinkLedAsync L l s c d continue (st, w) = (st\<^sub>0\<lparr>Timer := Some 0\<rparr>, PlatformSetStatusLed L False w)"
    by (simp add: BlinkLedAsync_def SetTimer_def SetLed_def st\<^sub>0_def Let_def)
  let ?st = "st\<^sub>0\<lparr>AsyncLongPulseIndex := l, AsyncShortPulseIndex := s, AsyncRepeatIndex := c + 1\<rparr>"
  have st\<^sub>0: "\<not> LedEnabled st\<^sub>0" "AsyncLongPulseIndex st\<^sub>0 = 0" "AsyncShortPulseIndex st\<^sub>0 = 0" "AsyncRepeatIndex st\<^sub>0 = 0"
    "AsyncLongPulseCount st\<^sub>0 = l" "AsyncShortPulseCount st\<^sub>0 = s" "AsyncRepeatCount st\<^sub>0 = c" "AsyncPatternDelayMs st\<^sub>0 = d"
    "AsyncContinueWithIdlePattern st\<^sub>0 = continue" "Timer st\<^sub>0 = None"
    by (simp_all add: st\<^sub>0_def BlinkLedAsync_def SetTimer_def SetLed_def Let_def)
  have "played L (st\<^sub>0, PlatformSetStatusLed L False w) (?st, played_out L l s c d w)"
    using played_rounds [of st\<^sub>0 "unat c" L "PlatformSetStatusLed L False w"] st\<^sub>0 assms(1) by (simp add: played_out_def)
  then obtain n t' w' where n: "(fire L ^^ n) (st\<^sub>0\<lparr>Timer := Some 0\<rparr>, PlatformSetStatusLed L False w) = (?st\<lparr>Timer := Some t'\<rparr>, w')"
    "Stall L (unat t' * 1000) w' = played_out L l s c d w"
    using idle unfolding played_def by (metis fst_conv snd_conv mult_zero_left unsigned_0)
  have "unat c < 2 ^ LENGTH(32)"
    by (rule unsigned_less)
  then have "c < c + 1"
    using assms(1) by (simp add: REPEAT_INFINITE_def word_less_nat_alt unat_word_ariths word_unat_eq_iff)
  moreover have "?st\<lparr>Timer := None\<rparr> = ?st"
    using st\<^sub>0(10) by (cases st\<^sub>0) simp
  ultimately have "fire L (?st\<lparr>Timer := Some t'\<rparr>, w') = (if continue then BlinkLedIdleAsync L else (\<lambda>x. x)) (?st, played_out L l s c d w)"
    using n(2) st\<^sub>0 by (simp only: fire_armed) (simp add: TimerHandler_def)
  then have "(fire L ^^ Suc n) (BlinkLedAsync L l s c d continue (st, w)) =
      (if continue then BlinkLedIdleAsync L else (\<lambda>x. x)) (?st, played_out L l s c d w)"
    using n(1) start by simp
  then show ?thesis
    using st\<^sub>0 by (intro exI [of _ "Suc n"] exI [of _ ?st]) simp
qed

lemma BlinkLedIdleAsync_forgets: "BlinkLedIdleAsync L (st, w) = BlinkLedIdleAsync L (st', w)"
  by (cases st, cases st') (simp add: BlinkLedIdleAsync_def BlinkLedAsync_def SetTimer_def SetLed_def Let_def)

text \<open> C39:
  The status LED driver plays the same pattern from its timer as in its loop. Let \<open>c\<close> be a repeat
  count other than \<open>REPEAT_INFINITE\<close>, the pause a number of milliseconds whose microseconds fit 32 bits,
  and let a stall of 0 do nothing. \<open>BlinkLedSync\<close> returns, and after finitely many firings of the timer
  started by \<open>BlinkLedAsync\<close> the LED has been switched on and off with the same stalls in the same
  order (the worlds are equal), the timer is in the same state (cancelled, or armed for the
  idle pattern where that was asked for), and so is the LED. With \<open>REPEAT_INFINITE\<close> \<open>BlinkLedSync\<close> never returns.
\<close>

theorem blink_async_sync:
  assumes "c \<noteq> REPEAT_INFINITE" "unat d * 1000 < 2 ^ 32" "\<And>w. Stall L 0 w = w"
  shows "(\<exists>n stA stS w'. (fire L ^^ n) (BlinkLedAsync L l s c d continue (st, w)) = (stA, w') \<and>
      BlinkLedSync L l s c d continue (st, w) = Some (stS, w') \<and>
      Timer stA = Timer stS \<and> LedEnabled stA = LedEnabled stS \<and> (continue \<longrightarrow> stA = stS)) \<and>
    BlinkLedSync L l s REPEAT_INFINITE d continue (st, w) = None"
proof (intro conjI)
  obtain n st' where n: "(fire L ^^ n) (BlinkLedAsync L l s c d continue (st, w)) =
      (if continue then BlinkLedIdleAsync L else (\<lambda>x. x)) (st', played_out L l s c d w)" "Timer st' = None" "\<not> LedEnabled st'"
    using BlinkLedAsync_world [OF assms(1,3)] by blast
  show "\<exists>n stA stS w'. (fire L ^^ n) (BlinkLedAsync L l s c d continue (st, w)) = (stA, w') \<and>
      BlinkLedSync L l s c d continue (st, w) = Some (stS, w') \<and>
      Timer stA = Timer stS \<and> LedEnabled stA = LedEnabled stS \<and> (continue \<longrightarrow> stA = stS)"
  proof (cases continue)
    case True
    then show ?thesis
      using n BlinkLedIdleAsync_forgets [of L st' "played_out L l s c d w"]
      by (cases "BlinkLedIdleAsync L (st', played_out L l s c d w)") (auto simp: BlinkLedSync_world [OF assms(2,1)])
  next
    case False
    then show ?thesis
      using n by (auto simp: BlinkLedSync_world [OF assms(2,1)])
  qed
  show "BlinkLedSync L l s REPEAT_INFINITE d continue (st, w) = None"
    by (simp add: BlinkLedSync_def SetTimer_def SetLed_def repeat_pattern_forever)
qed

definition led_diary :: "(bool + nat) list led_ops" where
  "led_diary = \<lparr>PlatformInitLeds = (\<lambda>w. w), PlatformSetStatusLed = (\<lambda>b w. w @ [Inl b]), Stall = (\<lambda>us w. if us = 0 then w else w @ [Inr us])\<rparr>"

theorem blink_async_sync_witness:
  "\<exists>n stA stS w'. (fire led_diary ^^ n) (BlinkLedAsync led_diary 1 2 3 500 True (undefined, [])) = (stA, w') \<and>
      BlinkLedSync led_diary 1 2 3 500 True (undefined, []) = Some (stS, w') \<and>
      Timer stA = Timer stS \<and> LedEnabled stA = LedEnabled stS \<and> stA = stS"
  using blink_async_sync [of 3 500 led_diary 1 2 True undefined "[]"] by (auto simp: REPEAT_INFINITE_def led_diary_def)

end
