(* ===== verification/Sdram.thy ===== *)
theory Sdram
  imports Mmio
begin

text \<open>
  The memory size the earlier boot stage left in the PMU registers (\<open>RK3576/Library/SdramLib/SdramLib.c\<close>).
  A register pair describes a bank of one or two channels; a channel has one or two ranks, each
  given by its numbers of row, column and bank address bits. The \<open>INT32\<close> variables of the code
  are integers here: the lemmas show that no value leaves the range. A shift by a negative count, which C leaves
  undefined, is a run that stops.
\<close>

section \<open>Fields of the registers\<close>

definition PMU1_GRF_BASE :: u64 where "PMU1_GRF_BASE = 0x26026000"

definition PMUGRF_OS_REG :: "nat \<Rightarrow> u64" where
  "PMUGRF_OS_REG n = 0x200 + of_nat n * 4"

definition SDRAM_OS_REG_BASE :: u64 where
  "SDRAM_OS_REG_BASE = PMU1_GRF_BASE + PMUGRF_OS_REG 2"

definition SDRAM_BANK_COUNT :: nat where "SDRAM_BANK_COUNT = 2"

definition SDRAM_DDR4 :: u32 where "SDRAM_DDR4 = 0"
definition SDRAM_LPDDR5 :: u32 where "SDRAM_LPDDR5 = 9"

definition SYS_REG_DDRTYPE :: "u32 \<Rightarrow> u32" where
  "SYS_REG_DDRTYPE x = drop_bit 13 x AND 0x7"

definition SYS_REG_CHANNELNUM :: "u32 \<Rightarrow> u32" where
  "SYS_REG_CHANNELNUM x = drop_bit 12 x AND 0x1"

definition SYS_REG_RANK_CH :: "u32 \<Rightarrow> nat \<Rightarrow> u32" where
  "SYS_REG_RANK_CH x c = drop_bit (if c \<noteq> 0 then 27 else 11) x AND 0x1"

definition SYS_REG_COL_CH :: "u32 \<Rightarrow> nat \<Rightarrow> u32" where
  "SYS_REG_COL_CH x c = drop_bit (if c \<noteq> 0 then 25 else 9) x AND 0x3"

definition SYS_REG_BK_CH :: "u32 \<Rightarrow> nat \<Rightarrow> u32" where
  "SYS_REG_BK_CH x c = drop_bit (if c \<noteq> 0 then 24 else 8) x AND 0x1"

definition SYS_REG_CS0_ROW_CH_LO :: "u32 \<Rightarrow> nat \<Rightarrow> u32" where
  "SYS_REG_CS0_ROW_CH_LO x c = drop_bit (if c \<noteq> 0 then 22 else 6) x AND 0x3"

definition SYS_REG_CS1_ROW_CH_LO :: "u32 \<Rightarrow> nat \<Rightarrow> u32" where
  "SYS_REG_CS1_ROW_CH_LO x c = drop_bit (if c \<noteq> 0 then 20 else 4) x AND 0x3"

definition SYS_REG_BW_CH :: "u32 \<Rightarrow> nat \<Rightarrow> u32" where
  "SYS_REG_BW_CH x c = drop_bit (if c \<noteq> 0 then 18 else 2) x AND 0x3"

definition SYS_REG_ROW34_CH :: "u32 \<Rightarrow> nat \<Rightarrow> u32" where
  "SYS_REG_ROW34_CH x c = drop_bit (if c \<noteq> 0 then 31 else 30) x AND 0x1"

definition SYS_REG_DBW_CH :: "u32 \<Rightarrow> nat \<Rightarrow> u32" where
  "SYS_REG_DBW_CH x c = drop_bit (if c \<noteq> 0 then 16 else 0) x AND 0x3"

definition SYS_REG1_VERSION :: "u32 \<Rightarrow> u32" where
  "SYS_REG1_VERSION x = drop_bit 28 x AND 0xF"

definition SYS_REG1_CS0_ROW_CH_HI :: "u32 \<Rightarrow> nat \<Rightarrow> u32" where
  "SYS_REG1_CS0_ROW_CH_HI x c = drop_bit (if c \<noteq> 0 then 7 else 5) x AND 0x1"

definition SYS_REG1_CS1_ROW_CH_HI :: "u32 \<Rightarrow> nat \<Rightarrow> u32" where
  "SYS_REG1_CS1_ROW_CH_HI x c = drop_bit (if c \<noteq> 0 then 6 else 4) x AND 0x1"

definition SYS_REG1_CS1_COL_CH :: "u32 \<Rightarrow> nat \<Rightarrow> u32" where
  "SYS_REG1_CS1_COL_CH x c = drop_bit (if c \<noteq> 0 then 2 else 0) x AND 0x3"

definition SYS_REG1_EXTENDED_DDRTYPE :: "u32 \<Rightarrow> u32" where
  "SYS_REG1_EXTENDED_DDRTYPE x = drop_bit 12 x AND 0x3"

section \<open>The geometry of a channel\<close>

text \<open>The address bits of a channel, as the loop over the channels computes them.\<close>

record geometry =
  Rank :: int
  Cs0Col :: int
  Cs1Col :: int
  Cs0Row :: int
  Cs1Row :: int
  Bk :: int
  Bw :: int
  Row34 :: bool
  Bg :: int

definition ddr_type :: "u32 \<Rightarrow> u32 \<Rightarrow> u32" where
  "ddr_type OsReg OsReg1 =
     (if SYS_REG1_VERSION OsReg1 \<ge> 3 then SYS_REG_DDRTYPE OsReg OR push_bit 3 (SYS_REG1_EXTENDED_DDRTYPE OsReg1)
      else SYS_REG_DDRTYPE OsReg)"

definition row_bits :: "u32 \<Rightarrow> u32 \<Rightarrow> int" where
  "row_bits hi lo = (if push_bit 2 hi + lo = 7 then 12 else uint (13 + push_bit 2 hi + lo))"

definition channel_geometry :: "u32 \<Rightarrow> u32 \<Rightarrow> nat \<Rightarrow> geometry" where
  "channel_geometry OsReg OsReg1 Ch =
     (let Version = SYS_REG1_VERSION OsReg1;
          DdrType = ddr_type OsReg OsReg1;
          Cs0Col = uint (9 + SYS_REG_COL_CH OsReg Ch)
      in \<lparr>Rank = uint (1 + SYS_REG_RANK_CH OsReg Ch),
          Cs0Col = Cs0Col,
          Cs1Col = (if Version \<ge> 0x2 then uint (9 + SYS_REG1_CS1_COL_CH OsReg1 Ch) else Cs0Col),
          Cs0Row = (if Version \<ge> 0x2 then row_bits (SYS_REG1_CS0_ROW_CH_HI OsReg1 Ch) (SYS_REG_CS0_ROW_CH_LO OsReg Ch)
                    else uint (13 + SYS_REG_CS0_ROW_CH_LO OsReg Ch)),
          Cs1Row = (if Version \<ge> 0x2 then row_bits (SYS_REG1_CS1_ROW_CH_HI OsReg1 Ch) (SYS_REG_CS1_ROW_CH_LO OsReg Ch)
                    else uint (13 + SYS_REG_CS1_ROW_CH_LO OsReg Ch)),
          Bk = (if DdrType = SDRAM_LPDDR5 then uint (3 + SYS_REG_BK_CH OsReg Ch) else uint (3 - SYS_REG_BK_CH OsReg Ch)),
          Bw = drop_bit (unat (SYS_REG_BW_CH OsReg Ch)) 2,
          Row34 = (SYS_REG_ROW34_CH OsReg Ch \<noteq> 0),
          Bg = (if DdrType = SDRAM_DDR4 \<and> Version \<noteq> 0x3 then (if SYS_REG_DBW_CH OsReg Ch = 2 then 2 else 1) else 0)\<rparr>)"

text \<open>\<open>1 << n\<close> and \<open>x >> n\<close> on \<open>int\<close>.\<close>

definition shl_one :: "int \<Rightarrow> int run" where
  "shl_one n = (if 0 \<le> n \<and> n < 31 then Some (2 ^ nat n) else None)"

definition shr_int :: "int \<Rightarrow> int \<Rightarrow> int run" where
  "shr_int x n = (if 0 \<le> n \<and> n < 32 then Some (x div 2 ^ nat n) else None)"

definition channel_size :: "geometry \<Rightarrow> int run" where
  "channel_size g = do {
     ChSizeMb \<leftarrow> shl_one (Cs0Row g + Cs0Col g + Bk g + Bg g + Bw g - 20);
     ChSizeMb \<leftarrow> (if Rank g > 1 then do {
         more \<leftarrow> shr_int ChSizeMb ((Cs0Row g - Cs1Row g) + (Cs0Col g - Cs1Col g));
         Some (ChSizeMb + more)
       } else Some ChSizeMb);
     Some (if Row34 g then ChSizeMb * 3 div 4 else ChSizeMb)
   }"

section \<open>The sum over banks and channels\<close>

fun channels_size :: "u32 \<Rightarrow> u32 \<Rightarrow> nat list \<Rightarrow> int \<Rightarrow> int run" where
  "channels_size OsReg OsReg1 [] SizeMb = Some SizeMb"
| "channels_size OsReg OsReg1 (Ch # Chs) SizeMb = do {
     ChSizeMb \<leftarrow> channel_size (channel_geometry OsReg OsReg1 Ch);
     channels_size OsReg OsReg1 Chs (SizeMb + ChSizeMb)
   }"

definition channel_list :: "u32 \<Rightarrow> nat list" where
  "channel_list OsReg = [0..<unat (1 + SYS_REG_CHANNELNUM OsReg)]"

fun banks_size :: "'h mmio \<Rightarrow> nat list \<Rightarrow> int \<Rightarrow> 'h \<Rightarrow> (int \<times> 'h) run" where
  "banks_size M [] SizeMb s = Some (SizeMb, s)"
| "banks_size M (Bank # Banks) SizeMb s =
     (let (OsReg, s) = MmioRead32 M s (SDRAM_OS_REG_BASE + 8 * of_nat Bank);
          (OsReg1, s) = MmioRead32 M s (SDRAM_OS_REG_BASE + 8 * of_nat Bank + 4)
      in if OsReg = 0 \<and> OsReg1 = 0 then banks_size M Banks SizeMb s
         else do {
           SizeMb \<leftarrow> channels_size OsReg OsReg1 (channel_list OsReg) SizeMb;
           banks_size M Banks SizeMb s
         })"

definition SdramGetMemorySize :: "'h mmio \<Rightarrow> 'h \<Rightarrow> (u64 \<times> 'h) run" where
  "SdramGetMemorySize M s = do {
     (SizeMb, s) \<leftarrow> banks_size M [0..<SDRAM_BANK_COUNT] 0 s;
     assert_that (SizeMb \<noteq> 0);
     Some (word_of_int SizeMb * 1024 * 1024, s)
   }"

section \<open>What a channel holds\<close>

text \<open>The capacity in bytes, from the address bits.\<close>

definition rank_bytes :: "geometry \<Rightarrow> int \<Rightarrow> int \<Rightarrow> int" where
  "rank_bytes g row col = 2 ^ nat (row + col + Bk g + Bg g + Bw g)"

definition channel_bytes :: "geometry \<Rightarrow> int" where
  "channel_bytes g =
     (let b = rank_bytes g (Cs0Row g) (Cs0Col g) + (if Rank g > 1 then rank_bytes g (Cs1Row g) (Cs1Col g) else 0)
      in if Row34 g then b * 3 div 4 else b)"

definition ranks_ordered :: "geometry \<Rightarrow> bool" where
  "ranks_ordered g \<longleftrightarrow> (Rank g > 1 \<longrightarrow> Cs1Row g + Cs1Col g \<le> Cs0Row g + Cs0Col g)"

definition fields_in_range :: "geometry \<Rightarrow> bool" where
  "fields_in_range g \<longleftrightarrow> 12 \<le> Cs0Row g \<and> Cs0Row g \<le> 19 \<and> 12 \<le> Cs1Row g \<and> Cs1Row g \<le> 19 \<and>
     9 \<le> Cs0Col g \<and> Cs0Col g \<le> 12 \<and> 9 \<le> Cs1Col g \<and> Cs1Col g \<le> 12 \<and>
     2 \<le> Bk g \<and> Bk g \<le> 4 \<and> 0 \<le> Bg g \<and> Bg g \<le> 2 \<and> 0 \<le> Bw g \<and> Bw g \<le> 2"

lemma and_field: "x AND 1 = 0 \<or> x AND 1 = 1" "x AND 3 = 0 \<or> x AND 3 = 1 \<or> x AND 3 = 2 \<or> x AND 3 = 3" for x :: u32
proof -
  have m: "x AND 1 = take_bit 1 x" "x AND 3 = take_bit 2 x"
    by (simp_all add: take_bit_eq_mask mask_numeral)
  have "unat (x AND 1) = 0 \<or> unat (x AND 1) = 1"
    using take_bit_nat_less_exp [of 1 "unat x"] by (simp only: m unsigned_take_bit_eq) (simp, arith)
  then show "x AND 1 = 0 \<or> x AND 1 = 1"
    by (simp only: word_unat_eq_iff) simp
  have "unat (x AND 3) = 0 \<or> unat (x AND 3) = 1 \<or> unat (x AND 3) = 2 \<or> unat (x AND 3) = 3"
    using take_bit_nat_less_exp [of 2 "unat x"] by (simp only: m unsigned_take_bit_eq) (simp, arith)
  then show "x AND 3 = 0 \<or> x AND 3 = 1 \<or> x AND 3 = 2 \<or> x AND 3 = 3"
    by (simp only: word_unat_eq_iff) simp
qed

lemma row_bits_range:
  assumes "hi = 0 \<or> hi = 1" "lo = 0 \<or> lo = 1 \<or> lo = 2 \<or> lo = 3"
  shows "12 \<le> row_bits hi lo" "row_bits hi lo \<le> 19"
  using assms by (auto simp: row_bits_def)

lemma channel_geometry_range: "fields_in_range (channel_geometry OsReg OsReg1 Ch)"
proof -
  define c where "c = SYS_REG_COL_CH OsReg Ch"
  define c1 where "c1 = SYS_REG1_CS1_COL_CH OsReg1 Ch"
  define h0 where "h0 = SYS_REG1_CS0_ROW_CH_HI OsReg1 Ch"
  define h1 where "h1 = SYS_REG1_CS1_ROW_CH_HI OsReg1 Ch"
  define l0 where "l0 = SYS_REG_CS0_ROW_CH_LO OsReg Ch"
  define l1 where "l1 = SYS_REG_CS1_ROW_CH_LO OsReg Ch"
  define b where "b = SYS_REG_BK_CH OsReg Ch"
  define w where "w = SYS_REG_BW_CH OsReg Ch"
  have f: "c = 0 \<or> c = 1 \<or> c = 2 \<or> c = 3" "c1 = 0 \<or> c1 = 1 \<or> c1 = 2 \<or> c1 = 3" "h0 = 0 \<or> h0 = 1" "h1 = 0 \<or> h1 = 1"
    "l0 = 0 \<or> l0 = 1 \<or> l0 = 2 \<or> l0 = 3" "l1 = 0 \<or> l1 = 1 \<or> l1 = 2 \<or> l1 = 3" "b = 0 \<or> b = 1" "w = 0 \<or> w = 1 \<or> w = 2 \<or> w = 3"
    unfolding c_def c1_def h0_def h1_def l0_def l1_def b_def w_def SYS_REG_COL_CH_def SYS_REG1_CS1_COL_CH_def
      SYS_REG1_CS0_ROW_CH_HI_def SYS_REG1_CS1_ROW_CH_HI_def SYS_REG_CS0_ROW_CH_LO_def SYS_REG_CS1_ROW_CH_LO_def
      SYS_REG_BK_CH_def SYS_REG_BW_CH_def by (rule and_field)+
  have r: "12 \<le> row_bits h0 l0" "row_bits h0 l0 \<le> 19" "12 \<le> row_bits h1 l1" "row_bits h1 l1 \<le> 19"
    by (rule row_bits_range [OF f(3,5)] row_bits_range [OF f(4,6)])+
  have n1: "uint (9 + c) \<in> {9..12}" "uint (9 + c1) \<in> {9..12}"
    using f(1) by auto (use f(2) in auto)
  have n2: "uint (13 + l0) \<in> {12..19}" "uint (13 + l1) \<in> {12..19}"
    using f(5) by auto (use f(6) in auto)
  have n3: "uint (3 + b) \<in> {2..4}" "uint (3 - b) \<in> {2..4}"
    using f(7) by auto
  have n4: "drop_bit (unat w) (2 :: int) \<in> {0..2}"
    using f(8) by (auto simp: drop_bit_eq_div)
  show ?thesis
    using n1 n2 n3 n4 r unfolding fields_in_range_def channel_geometry_def
    by (simp add: Let_def flip: c_def c1_def h0_def h1_def l0_def l1_def b_def w_def)
qed

lemma channel_size_bytes:
  assumes "fields_in_range g"
  shows "channel_size g = (if ranks_ordered g then Some (channel_bytes g div 2 ^ 20) else None)"
    and "2 ^ 20 dvd channel_bytes g" "2 ^ 20 \<le> channel_bytes g" "channel_bytes g \<le> 2 ^ 40"
proof -
  define i where "i = nat (Cs0Row g + Cs0Col g + Bk g + Bg g + Bw g - 23)"
  define j where "j = nat (Cs1Row g + Cs1Col g + Bk g + Bg g + Bw g - 23)"
  have ij: "Cs0Row g + Cs0Col g + Bk g + Bg g + Bw g = int i + 23" "Cs1Row g + Cs1Col g + Bk g + Bg g + Bw g = int j + 23"
    "i \<le> 16" "j \<le> 16"
    using assms by (auto simp: i_def j_def fields_in_range_def)
  have nat23: "nat (int k + 23) = k + 23" for k
    by simp
  define t :: int where "t = 2 ^ i + (if Rank g > 1 then 2 ^ j else 0)"
  have bytes: "channel_bytes g = 2 ^ 20 * (if Row34 g then 6 * t else 8 * t)"
    by (simp add: channel_bytes_def rank_bytes_def ij nat23 power_add t_def Let_def del: nat_add_distrib)
  have shr: "shr_int (8 * 2 ^ i) (int i - int j) = (if j \<le> i then Some (8 * 2 ^ j) else None)"
  proof (cases "j \<le> i")
    case True
    then have "(2 :: int) ^ i = 2 ^ (i - j) * 2 ^ j"
      by (simp flip: power_add)
    then show ?thesis
      using True ij by (simp add: shr_int_def flip: of_nat_diff)
  qed (simp add: shr_int_def)
  have shift: "Cs0Row g + Cs0Col g + Bk g + Bg g + Bw g - 20 = int (i + 3)"
    "(Cs0Row g - Cs1Row g) + (Cs0Col g - Cs1Col g) = int i - int j"
    using ij by simp_all
  have shl: "shl_one (int (i + 3)) = Some (8 * 2 ^ i)"
    using ij by (simp add: shl_one_def power_add nat_add_distrib)
  have ord: "ranks_ordered g \<longleftrightarrow> (Rank g > 1 \<longrightarrow> j \<le> i)"
    using ij by (auto simp: ranks_ordered_def)
  have bytes': "channel_bytes g div 2 ^ 20 = (if Row34 g then 6 * t else 8 * t)"
    by (simp add: bytes)
  show "channel_size g = (if ranks_ordered g then Some (channel_bytes g div 2 ^ 20) else None)"
    unfolding channel_size_def shift shl bytes' ord by (auto simp: shr t_def)
  show "2 ^ 20 dvd channel_bytes g"
    by (simp add: bytes)
  have "0 < (2 :: int) ^ i" "0 < (2 :: int) ^ j"
    by simp_all
  then have "1 \<le> t"
    by (auto simp: t_def simp del: zero_less_power)
  then show "2 ^ 20 \<le> channel_bytes g"
    by (simp add: bytes)
  have "(2 :: int) ^ i \<le> 2 ^ 16" "(2 :: int) ^ j \<le> 2 ^ 16"
    by (intro power_increasing; use ij in simp)+
  then have "t \<le> 2 ^ 17"
    by (simp add: t_def)
  then show "channel_bytes g \<le> 2 ^ 40"
    using \<open>1 \<le> t\<close> by (simp add: bytes)
qed

section \<open>The whole memory\<close>

definition os_regs :: "(u64 \<Rightarrow> u32) \<Rightarrow> nat \<Rightarrow> u32 \<times> u32" where
  "os_regs r Bank = (r (SDRAM_OS_REG_BASE + 8 * of_nat Bank), r (SDRAM_OS_REG_BASE + 8 * of_nat Bank + 4))"

definition populated_channels :: "(u64 \<Rightarrow> u32) \<Rightarrow> nat \<Rightarrow> geometry list" where
  "populated_channels r Bank =
     (let (OsReg, OsReg1) = os_regs r Bank
      in if OsReg = 0 \<and> OsReg1 = 0 then [] else map (channel_geometry OsReg OsReg1) (channel_list OsReg))"

definition memory_channels :: "(u64 \<Rightarrow> u32) \<Rightarrow> geometry list" where
  "memory_channels r = populated_channels r 0 @ populated_channels r 1"

definition memory_bytes :: "(u64 \<Rightarrow> u32) \<Rightarrow> int" where
  "memory_bytes r = sum_list (map channel_bytes (memory_channels r))"

lemma channels_size_sum:
  "channels_size OsReg OsReg1 Chs SizeMb =
     (if \<forall>g\<in>set (map (channel_geometry OsReg OsReg1) Chs). ranks_ordered g
      then Some (SizeMb + sum_list (map (\<lambda>g. channel_bytes g div 2 ^ 20) (map (channel_geometry OsReg OsReg1) Chs))) else None)"
  by (induction Chs arbitrary: SizeMb) (simp_all add: channel_size_bytes(1) [OF channel_geometry_range])

lemma banks_size_sum:
  "banks_size reg_file Banks SizeMb r =
     (if \<forall>g\<in>set (concat (map (populated_channels r) Banks)). ranks_ordered g
      then Some (SizeMb + sum_list (map (\<lambda>g. channel_bytes g div 2 ^ 20) (concat (map (populated_channels r) Banks))), r) else None)"
proof (induction Banks arbitrary: SizeMb)
  case (Cons Bank Banks)
  obtain OsReg OsReg1 where regs: "os_regs r Bank = (OsReg, OsReg1)"
    by (cases "os_regs r Bank")
  then have "banks_size reg_file (Bank # Banks) SizeMb r = (if OsReg = 0 \<and> OsReg1 = 0 then banks_size reg_file Banks SizeMb r
      else do { SizeMb \<leftarrow> channels_size OsReg OsReg1 (channel_list OsReg) SizeMb; banks_size reg_file Banks SizeMb r })"
    by (simp add: reg_file_def os_regs_def Let_def)
  moreover have "populated_channels r Bank = (if OsReg = 0 \<and> OsReg1 = 0 then [] else map (channel_geometry OsReg OsReg1) (channel_list OsReg))"
    by (simp add: populated_channels_def regs)
  ultimately show ?case
    by (cases "OsReg = 0 \<and> OsReg1 = 0") (simp_all only: Cons channels_size_sum bind.simps if_True if_False simp_thms refl,
      simp_all add: Cons channels_size_sum ball_Un add.assoc)
qed simp

lemma channel_list_cases: "channel_list OsReg = [0] \<or> channel_list OsReg = [0, 1]"
  using and_field(1) [of "drop_bit 12 OsReg"] by (auto simp: channel_list_def SYS_REG_CHANNELNUM_def upt_rec)

lemma memory_channels_range:
  "g \<in> set (memory_channels r) \<Longrightarrow> fields_in_range g" "length (memory_channels r) \<le> 4"
  "memory_channels r = [] \<longleftrightarrow> os_regs r 0 = (0, 0) \<and> os_regs r 1 = (0, 0)"
  using channel_list_cases [of "fst (os_regs r 0)"] channel_list_cases [of "fst (os_regs r 1)"]
  by (auto simp: memory_channels_def populated_channels_def channel_geometry_range Let_def split: prod.splits if_splits)

lemma sum_div: "(\<And>g. g \<in> set gs \<Longrightarrow> fields_in_range g) \<Longrightarrow>
    sum_list (map (\<lambda>g. channel_bytes g div 2 ^ 20) gs) * 2 ^ 20 = sum_list (map channel_bytes gs)"
proof (induction gs)
  case (Cons g gs)
  then have "channel_bytes g div 2 ^ 20 * 2 ^ 20 = channel_bytes g"
    using channel_size_bytes(2) [of g] by simp
  then show ?case
    using Cons by (simp add: ring_distribs)
qed simp

lemma sum_bounds: "(\<And>g. g \<in> set gs \<Longrightarrow> fields_in_range g) \<Longrightarrow>
    int (length gs) * 2 ^ 20 \<le> sum_list (map channel_bytes gs) \<and> sum_list (map channel_bytes gs) \<le> int (length gs) * 2 ^ 40"
proof (induction gs)
  case (Cons g gs)
  then show ?case
    using channel_size_bytes(3,4) [of g] by (simp add: ring_distribs)
qed simp

lemma sdram_state: "SdramGetMemorySize reg_file r = Some (v, r') \<Longrightarrow> r' = r"
  by (auto simp: SdramGetMemorySize_def banks_size_sum assert_that_def split: if_splits bind_splits)

text \<open> C40:
  The detected memory size is exact. The run ends unless no bank is populated or the second rank of
  some channel is larger than its first; then the size is the sum over the populated channels
  of the capacities of their ranks, two to the number of address bits each, three quarters
  of it where the rows are not a power of two, at most 4 TiB and so far from the limits of the \<open>INT32\<close> sum and of the result.
\<close>

theorem sdram_size:
  "SdramGetMemorySize reg_file r =
     (if memory_channels r \<noteq> [] \<and> list_all ranks_ordered (memory_channels r) then Some (word_of_int (memory_bytes r), r) else None) \<and>
   (memory_channels r = [] \<longleftrightarrow> list_all (\<lambda>Bank. os_regs r Bank = (0, 0)) [0..<SDRAM_BANK_COUNT]) \<and>
   0 \<le> memory_bytes r \<and> memory_bytes r \<le> 2 ^ 42"
proof -
  let ?mb = "sum_list (map (\<lambda>g. channel_bytes g div 2 ^ 20) (memory_channels r))"
  have sum: "?mb * 2 ^ 20 = memory_bytes r"
    unfolding memory_bytes_def by (rule sum_div) (rule memory_channels_range)
  have bounds: "int (length (memory_channels r)) * 2 ^ 20 \<le> memory_bytes r" "memory_bytes r \<le> int (length (memory_channels r)) * 2 ^ 40"
    using sum_bounds [of "memory_channels r"] memory_channels_range(1) unfolding memory_bytes_def by blast+
  have zero: "?mb = 0 \<longleftrightarrow> memory_channels r = []"
  proof
    assume "?mb = 0"
    then show "memory_channels r = []"
      using sum bounds(1) by simp
  qed simp
  have size: "word_of_int ?mb * 1024 * 1024 = (word_of_int (memory_bytes r) :: u64)"
    unfolding sum [symmetric] by simp
  have run: "banks_size reg_file [0..<SDRAM_BANK_COUNT] 0 r =
      (if \<forall>g\<in>set (memory_channels r). ranks_ordered g then Some (?mb, r) else None)"
    unfolding banks_size_sum by (simp add: SDRAM_BANK_COUNT_def memory_channels_def upt_rec)
  have "SdramGetMemorySize reg_file r =
     (if memory_channels r \<noteq> [] \<and> (\<forall>g\<in>set (memory_channels r). ranks_ordered g) then Some (word_of_int (memory_bytes r), r) else None)"
    unfolding SdramGetMemorySize_def run using zero size by (auto simp add: assert_that_def)
  moreover have "memory_bytes r \<le> 2 ^ 42" "0 \<le> memory_bytes r"
    using bounds memory_channels_range(2) [of r] by simp_all
  moreover have "memory_channels r = [] \<longleftrightarrow> (\<forall>Bank<SDRAM_BANK_COUNT. os_regs r Bank = (0, 0))"
    by (auto simp: memory_channels_range(3) SDRAM_BANK_COUNT_def less_Suc_eq numeral_2_eq_2)
  ultimately show ?thesis
    by (simp add: list_all_iff atLeast0LessThan Ball_def)
qed

end
