(* ===== verification/MemoryMap.thy ===== *)
theory MemoryMap
  imports Sdram
begin

text \<open>
  The memory map of the platform (\<open>RK3576/Library/PlatformLib/Rk3576Mem.c\<close>) and its registration with the
  core (\<open>RK3576/Library/MemoryInitPeiLib/MemoryInitPeiLib.c\<close>). The table of regions is a list that
  ends with an entry of length 0; a parallel list says how each region is registered. The PCDs
  are the record \<open>mem_pcds\<close>; the descriptor blocks the PEI phase hands on are a list of \<open>hob\<close>.
\<close>

section \<open>Regions\<close>

datatype ARM_MEMORY_REGION_ATTRIBUTES =
    ARM_MEMORY_REGION_ATTRIBUTE_UNCACHED_UNBUFFERED
  | ARM_MEMORY_REGION_ATTRIBUTE_WRITE_BACK
  | ARM_MEMORY_REGION_ATTRIBUTE_DEVICE

record ARM_MEMORY_REGION_DESCRIPTOR =
  PhysicalBase :: u64
  VirtualBase :: u64
  RegionLength :: u64
  Attributes :: ARM_MEMORY_REGION_ATTRIBUTES

definition RK3576_MEM_UNMAPPED_REGION :: nat where "RK3576_MEM_UNMAPPED_REGION = 0"
definition RK3576_MEM_BASIC_REGION :: nat where "RK3576_MEM_BASIC_REGION = 1"
definition RK3576_MEM_RUNTIME_REGION :: nat where "RK3576_MEM_RUNTIME_REGION = 2"
definition RK3576_MEM_RESERVED_REGION :: nat where "RK3576_MEM_RESERVED_REGION = 3"

record RK3576_MEMORY_REGION_INFO =
  RegionName :: string
  RegionType :: nat

definition MAX_VIRTUAL_MEMORY_MAP_DESCRIPTORS :: nat where
  "MAX_VIRTUAL_MEMORY_MAP_DESCRIPTORS = 16"

record mem_pcds =
  PcdFvBaseAddress :: u64
  PcdFvSize :: u32
  PcdFlashNvStorageVariableBase64 :: u64
  PcdFlashNvStorageVariableSize :: u32
  PcdFlashNvStorageFtwWorkingSize :: u32
  PcdFlashNvStorageFtwSpareSize :: u32
  PcdRkMtlMailBoxBase :: u64
  PcdPrePiProduceMemoryTypeInformationHob :: bool

definition VariablesBase :: "mem_pcds \<Rightarrow> u64" where
  "VariablesBase P = PcdFlashNvStorageVariableBase64 P"

definition VariablesSize :: "mem_pcds \<Rightarrow> u32" where
  "VariablesSize P = PcdFlashNvStorageVariableSize P + PcdFlashNvStorageFtwWorkingSize P + PcdFlashNvStorageFtwSpareSize P"

text \<open>The globals of the platform library.\<close>

record mem_globals =
  mSystemMemoryBase :: u64
  mSystemMemorySize :: u64
  VirtualMemoryInfoInitialized :: bool
  VirtualMemoryInfo :: "RK3576_MEMORY_REGION_INFO list"

type_synonym region = "ARM_MEMORY_REGION_DESCRIPTOR \<times> RK3576_MEMORY_REGION_INFO"

text \<open>The six assignments that fill an entry; every region is mapped to itself.\<close>

definition region :: "u64 \<Rightarrow> u64 \<Rightarrow> ARM_MEMORY_REGION_ATTRIBUTES \<Rightarrow> nat \<Rightarrow> string \<Rightarrow> region" where
  "region base len attr type name =
     (\<lparr>PhysicalBase = base, VirtualBase = base, RegionLength = len, Attributes = attr\<rparr>, \<lparr>RegionName = name, RegionType = type\<rparr>)"

definition end_of_table :: ARM_MEMORY_REGION_DESCRIPTOR where
  "end_of_table = \<lparr>PhysicalBase = 0, VirtualBase = 0, RegionLength = 0, Attributes = ARM_MEMORY_REGION_ATTRIBUTE_UNCACHED_UNBUFFERED\<rparr>"

section \<open>The table\<close>

definition RK3576_DRAM_BASE :: u64 where "RK3576_DRAM_BASE = 0x40000000"
definition RK3576_DRAM_SAFE_BASE :: u64 where "RK3576_DRAM_SAFE_BASE = 0x40200000"
definition RK3576_SECURE_TOP_RESERVE :: u64 where "RK3576_SECURE_TOP_RESERVE = 0x10000000"

definition EFI_PAGE_MASK :: u64 where "EFI_PAGE_MASK = 0xFFF"
definition EFI_PAGE_SIZE :: u64 where "EFI_PAGE_SIZE = 0x1000"

definition tfa_region :: region where
  "tfa_region = region 0x00000000 0x200000 ARM_MEMORY_REGION_ATTRIBUTE_UNCACHED_UNBUFFERED RK3576_MEM_UNMAPPED_REGION ''TF-A + Shared Memory''"

definition rk3576_regions :: "mem_pcds \<Rightarrow> u64 \<Rightarrow> region list run" where
  "rk3576_regions P MemSize =
     (let DramTop = (RK3576_DRAM_BASE + MemSize) - RK3576_SECURE_TOP_RESERVE;
          FvBase = PcdFvBaseAddress P;
          FvSize = ucast (PcdFvSize P)
      in do {
        assert_that (DramTop > RK3576_DRAM_SAFE_BASE);
        assert_that (FvBase \<ge> RK3576_DRAM_SAFE_BASE);
        assert_that (FvBase + FvSize \<le> DramTop);
        Some [tfa_region,
          region (PcdRkMtlMailBoxBase P AND NOT EFI_PAGE_MASK) EFI_PAGE_SIZE
            ARM_MEMORY_REGION_ATTRIBUTE_UNCACHED_UNBUFFERED RK3576_MEM_RESERVED_REGION ''SCMI Shared Memory'',
          region 0x20000000 0x10000000 ARM_MEMORY_REGION_ATTRIBUTE_DEVICE RK3576_MEM_UNMAPPED_REGION ''RK3576 MMIO'',
          region RK3576_DRAM_SAFE_BASE (FvBase - RK3576_DRAM_SAFE_BASE)
            ARM_MEMORY_REGION_ATTRIBUTE_WRITE_BACK RK3576_MEM_BASIC_REGION ''System RAM (< FV)'',
          region FvBase FvSize ARM_MEMORY_REGION_ATTRIBUTE_WRITE_BACK RK3576_MEM_RESERVED_REGION ''UEFI FV'',
          region (FvBase + FvSize) (DramTop - (FvBase + FvSize))
            ARM_MEMORY_REGION_ATTRIBUTE_WRITE_BACK RK3576_MEM_BASIC_REGION ''System RAM'']
      })"

definition rk3588_regions :: "mem_pcds \<Rightarrow> u64 \<Rightarrow> u64 \<Rightarrow> region list" where
  "rk3588_regions P base MemSize =
     (let ram = VariablesBase P + ucast (VariablesSize P);
          WB = ARM_MEMORY_REGION_ATTRIBUTE_WRITE_BACK
      in [tfa_region,
          region (PcdFvBaseAddress P) (ucast (PcdFvSize P)) WB RK3576_MEM_RESERVED_REGION ''UEFI FV'',
          region (VariablesBase P) (ucast (VariablesSize P)) WB RK3576_MEM_RUNTIME_REGION ''Variable Store'',
          region ram (min MemSize (0x08400000 - ram)) WB RK3576_MEM_BASIC_REGION ''System RAM (< OP-TEE)'',
          region 0x08400000 0x1000000 WB RK3576_MEM_RESERVED_REGION ''OP-TEE'',
          region (0x08400000 + 0x1000000) (min MemSize (0xF0000000 - (0x08400000 + 0x1000000))) WB RK3576_MEM_BASIC_REGION ''System RAM (< 4GB)'',
          region 0xF0000000 0x10000000 ARM_MEMORY_REGION_ATTRIBUTE_DEVICE RK3576_MEM_UNMAPPED_REGION ''MMIO'']
       @ (if MemSize > 0x100000000
          then [region 0x100000000 (MemSize - 0x100000000) WB RK3576_MEM_BASIC_REGION ''System RAM >= 4GB''] else [])
       @ [region 0x0000000900000000 0x0000000141400000 ARM_MEMORY_REGION_ATTRIBUTE_DEVICE RK3576_MEM_UNMAPPED_REGION ''MMIO > 32GB'']
       @ (if base + MemSize > 0x3fc000000
          then [region 0x3fc000000 0x500000 ARM_MEMORY_REGION_ATTRIBUTE_UNCACHED_UNBUFFERED RK3576_MEM_RESERVED_REGION ''BAD1'',
                region 0x3fff00000 0x100000 ARM_MEMORY_REGION_ATTRIBUTE_UNCACHED_UNBUFFERED RK3576_MEM_RESERVED_REGION ''BAD2'']
          else []))"

definition ArmPlatformGetVirtualMemoryMap ::
  "mem_pcds \<Rightarrow> 'h mmio \<Rightarrow> mem_globals \<Rightarrow> 'h \<Rightarrow> (ARM_MEMORY_REGION_DESCRIPTOR list \<times> mem_globals \<times> 'h) run" where
  "ArmPlatformGetVirtualMemoryMap P M g s = do {
     (MemSize, s) \<leftarrow> SdramGetMemorySize M s;
     regions \<leftarrow> (if VariablesBase P + ucast (VariablesSize P) > 0x08400000 then rk3576_regions P MemSize
                else Some (rk3588_regions P (mSystemMemoryBase g) MemSize));
     assert_that (length regions + 1 \<le> MAX_VIRTUAL_MEMORY_MAP_DESCRIPTORS);
     Some (map fst regions @ [end_of_table],
           g\<lparr>mSystemMemorySize := MemSize,
             VirtualMemoryInfo := map snd regions @ drop (length regions) (VirtualMemoryInfo g),
             VirtualMemoryInfoInitialized := True\<rparr>, s)
   }"

text \<open>\<open>None\<close> where the caller's pointer stays uninitialised.\<close>

definition Rk3576PlatformGetVirtualMemoryInfo :: "mem_globals \<Rightarrow> RK3576_MEMORY_REGION_INFO list option" where
  "Rk3576PlatformGetVirtualMemoryInfo g = (if \<not> VirtualMemoryInfoInitialized g then None else Some (VirtualMemoryInfo g))"

section \<open>Registration\<close>

datatype memory_type = EfiRuntimeServicesData | EfiReservedMemoryType

text \<open>Every resource descriptor is tested, present system memory.\<close>

datatype hob =
    ResourceDescriptorHob u64 u64
  | MemoryAllocationHob u64 u64 memory_type
  | MemoryTypeInformationHob

definition AddBasicMemoryRegion :: "ARM_MEMORY_REGION_DESCRIPTOR \<Rightarrow> hob list \<Rightarrow> hob list" where
  "AddBasicMemoryRegion Desc hobs = hobs @ [ResourceDescriptorHob (PhysicalBase Desc) (RegionLength Desc)]"

definition AddRuntimeServicesRegion :: "ARM_MEMORY_REGION_DESCRIPTOR \<Rightarrow> hob list \<Rightarrow> hob list" where
  "AddRuntimeServicesRegion Desc hobs =
     AddBasicMemoryRegion Desc hobs @ [MemoryAllocationHob (PhysicalBase Desc) (RegionLength Desc) EfiRuntimeServicesData]"

definition AddUnmappedMemoryRegion :: "ARM_MEMORY_REGION_DESCRIPTOR \<Rightarrow> hob list \<Rightarrow> hob list" where
  "AddUnmappedMemoryRegion Desc hobs = hobs"

definition AddReservedMemoryRegion :: "ARM_MEMORY_REGION_DESCRIPTOR \<Rightarrow> hob list \<Rightarrow> hob list" where
  "AddReservedMemoryRegion Desc hobs =
     AddBasicMemoryRegion Desc hobs @ [MemoryAllocationHob (PhysicalBase Desc) (RegionLength Desc) EfiReservedMemoryType]"

definition AddRegion :: "(ARM_MEMORY_REGION_DESCRIPTOR \<Rightarrow> hob list \<Rightarrow> hob list) list" where
  "AddRegion = [AddUnmappedMemoryRegion, AddBasicMemoryRegion, AddRuntimeServicesRegion, AddReservedMemoryRegion]"

fun register_regions :: "ARM_MEMORY_REGION_DESCRIPTOR list \<Rightarrow> RK3576_MEMORY_REGION_INFO list \<Rightarrow> hob list \<Rightarrow> hob list run" where
  "register_regions (Desc # MemoryTable) MemoryInfo hobs =
     (if RegionLength Desc = 0 then Some hobs
      else case MemoryInfo of [] \<Rightarrow> None
        | Info # MemoryInfo \<Rightarrow> do {
            assert_that (RegionType Info < length AddRegion);
            register_regions MemoryTable MemoryInfo ((AddRegion ! RegionType Info) Desc hobs)
          })"
| "register_regions [] MemoryInfo hobs = None"

text \<open>
  The result is the list of descriptor blocks and the table the MMU is configured from; the status of
  \<open>ArmConfigureMmu\<close> is only logged.
\<close>

definition MemoryPeim ::
  "mem_pcds \<Rightarrow> 'h mmio \<Rightarrow> mem_globals \<Rightarrow> 'h \<Rightarrow> (efi_status \<times> hob list \<times> ARM_MEMORY_REGION_DESCRIPTOR list \<times> mem_globals \<times> 'h) run" where
  "MemoryPeim P M g s = do {
     (MemoryTable, g, s) \<leftarrow> ArmPlatformGetVirtualMemoryMap P M g s;
     MemoryInfo \<leftarrow> Rk3576PlatformGetVirtualMemoryInfo g;
     hobs \<leftarrow> register_regions MemoryTable MemoryInfo [];
     Some (EFI_SUCCESS, hobs @ (if PcdPrePiProduceMemoryTypeInformationHob P then [MemoryTypeInformationHob] else []), MemoryTable, g, s)
   }"

section \<open>What is registered\<close>

fun in_range :: "u64 \<Rightarrow> u64 \<Rightarrow> nat \<Rightarrow> bool" where
  "in_range base len a \<longleftrightarrow> unat base \<le> a \<and> a < unat base + unat len"

definition system_memory :: "hob list \<Rightarrow> nat \<Rightarrow> bool" where
  "system_memory hobs a \<longleftrightarrow> (\<exists>base len. ResourceDescriptorHob base len \<in> set hobs \<and> in_range base len a)"

definition allocated :: "hob list \<Rightarrow> memory_type \<Rightarrow> nat \<Rightarrow> bool" where
  "allocated hobs t a \<longleftrightarrow> (\<exists>base len. MemoryAllocationHob base len t \<in> set hobs \<and> in_range base len a)"

definition described :: "ARM_MEMORY_REGION_DESCRIPTOR \<Rightarrow> nat \<Rightarrow> bool" where
  "described d a \<longleftrightarrow> in_range (PhysicalBase d) (RegionLength d) a"

text \<open>The layout of the boards: the firmware volume in mid-DRAM, the mailbox in the shared page below.\<close>

definition mid_dram :: "mem_pcds \<Rightarrow> nat \<Rightarrow> bool" where
  "mid_dram P bytes \<longleftrightarrow>
     VariablesBase P + ucast (VariablesSize P) > 0x08400000 \<and>
     0x40000000 \<le> unat (PcdRkMtlMailBoxBase P) \<and> unat (PcdRkMtlMailBoxBase P) < 0x40200000 \<and>
     0x40200000 \<le> unat (PcdFvBaseAddress P) \<and> 0 < unat (PcdFvSize P) \<and>
     unat (PcdFvBaseAddress P) + unat (PcdFvSize P) \<le> bytes + 0x30000000 \<and> bytes \<le> 2 ^ 42"

definition mailbox_page :: "mem_pcds \<Rightarrow> u64" where
  "mailbox_page P = PcdRkMtlMailBoxBase P AND NOT EFI_PAGE_MASK"

lemma mailbox_page_range:
  assumes "0x40000000 \<le> unat (PcdRkMtlMailBoxBase P)" "unat (PcdRkMtlMailBoxBase P) < 0x40200000"
  shows "0x40000000 \<le> unat (mailbox_page P)" "unat (mailbox_page P) + 0x1000 \<le> 0x40200000"
proof -
  have m: "EFI_PAGE_MASK = mask 12"
    by (simp add: EFI_PAGE_MASK_def mask_numeral)
  have "unat (mailbox_page P) = unat (PcdRkMtlMailBoxBase P) - unat (PcdRkMtlMailBoxBase P) mod 2 ^ 12"
    unfolding mailbox_page_def m by (rule unat_align_down)
  then have "unat (mailbox_page P) = unat (PcdRkMtlMailBoxBase P) - unat (PcdRkMtlMailBoxBase P) mod 4096"
    by simp
  then show "0x40000000 \<le> unat (mailbox_page P)" "unat (mailbox_page P) + 0x1000 \<le> 0x40200000"
    using div_le_mono [OF assms(1), where k = 4096] less_mult_imp_div_less [where m = "unat (PcdRkMtlMailBoxBase P)" and i = "0x40200" and n = 4096] assms(2)
    by (simp_all add: minus_mod_eq_mult_div)
qed

text \<open>The values the table is built from, as numbers.\<close>

lemma mid_dram_bounds:
  assumes "mid_dram P (unat MemSize)"
  shows "unat (RK3576_DRAM_BASE + MemSize - RK3576_SECURE_TOP_RESERVE) = unat MemSize + 0x30000000"
    and "unat (ucast (PcdFvSize P) :: u64) = unat (PcdFvSize P)"
    and "unat (PcdFvBaseAddress P + ucast (PcdFvSize P)) = unat (PcdFvBaseAddress P) + unat (PcdFvSize P)"
    and "unat (PcdFvBaseAddress P - RK3576_DRAM_SAFE_BASE) = unat (PcdFvBaseAddress P) - 0x40200000"
proof -
  have top: "RK3576_DRAM_BASE + MemSize - RK3576_SECURE_TOP_RESERVE = MemSize + 0x30000000"
    by (simp add: RK3576_DRAM_BASE_def RK3576_SECURE_TOP_RESERVE_def)
  show "unat (RK3576_DRAM_BASE + MemSize - RK3576_SECURE_TOP_RESERVE) = unat MemSize + 0x30000000"
    unfolding top using assms by (subst unat_add_no_wrap) (simp_all add: mid_dram_def)
  have "unat (PcdFvSize P) < 2 ^ LENGTH(32)"
    by (rule unat_bound)
  then show size: "unat (ucast (PcdFvSize P) :: u64) = unat (PcdFvSize P)"
    by (intro unat_ucast_small) simp
  show "unat (PcdFvBaseAddress P + ucast (PcdFvSize P)) = unat (PcdFvBaseAddress P) + unat (PcdFvSize P)"
    using assms by (subst unat_add_no_wrap) (simp_all add: size mid_dram_def)
  show "unat (PcdFvBaseAddress P - RK3576_DRAM_SAFE_BASE) = unat (PcdFvBaseAddress P) - 0x40200000"
    using assms by (subst unat_sub_no_wrap) (simp_all add: mid_dram_def RK3576_DRAM_SAFE_BASE_def word_le_nat_alt)
qed

definition board_regions :: "mem_pcds \<Rightarrow> u64 \<Rightarrow> region list" where
  "board_regions P MemSize =
     (let F = PcdFvBaseAddress P; E = F + ucast (PcdFvSize P)
      in [tfa_region,
          region (mailbox_page P) 0x1000 ARM_MEMORY_REGION_ATTRIBUTE_UNCACHED_UNBUFFERED 3 ''SCMI Shared Memory'',
          region 0x20000000 0x10000000 ARM_MEMORY_REGION_ATTRIBUTE_DEVICE 0 ''RK3576 MMIO'',
          region 0x40200000 (F - 0x40200000) ARM_MEMORY_REGION_ATTRIBUTE_WRITE_BACK 1 ''System RAM (< FV)'',
          region F (ucast (PcdFvSize P)) ARM_MEMORY_REGION_ATTRIBUTE_WRITE_BACK 3 ''UEFI FV'',
          region E (MemSize + 0x30000000 - E) ARM_MEMORY_REGION_ATTRIBUTE_WRITE_BACK 1 ''System RAM''])"

lemma rk3576_regions_board:
  assumes "mid_dram P (unat MemSize)"
  shows "rk3576_regions P MemSize = Some (board_regions P MemSize)"
proof -
  note b = mid_dram_bounds [OF assms]
  have top: "RK3576_DRAM_BASE + MemSize - RK3576_SECURE_TOP_RESERVE = MemSize + 0x30000000"
    by (simp add: RK3576_DRAM_BASE_def RK3576_SECURE_TOP_RESERVE_def)
  have "RK3576_DRAM_SAFE_BASE < MemSize + 0x30000000" "RK3576_DRAM_SAFE_BASE \<le> PcdFvBaseAddress P"
    "PcdFvBaseAddress P + ucast (PcdFvSize P) \<le> MemSize + 0x30000000"
    using assms b(1) unfolding top by (simp_all add: word_less_nat_alt word_le_nat_alt b mid_dram_def RK3576_DRAM_SAFE_BASE_def)
  then show ?thesis
    unfolding rk3576_regions_def top
    by (simp add: assert_that_def board_regions_def Let_def mailbox_page_def EFI_PAGE_SIZE_def RK3576_DRAM_SAFE_BASE_def
        RK3576_MEM_UNMAPPED_REGION_def RK3576_MEM_BASIC_REGION_def RK3576_MEM_RESERVED_REGION_def)
qed

lemma run_map:
  assumes "SdramGetMemorySize M s = Some (MemSize, s')" "mid_dram P (unat MemSize)"
  shows "ArmPlatformGetVirtualMemoryMap P M g s =
    Some (map fst (board_regions P MemSize) @ [end_of_table],
      g\<lparr>mSystemMemorySize := MemSize, VirtualMemoryInfoInitialized := True,
        VirtualMemoryInfo := map snd (board_regions P MemSize) @ drop 6 (VirtualMemoryInfo g)\<rparr>, s')"
proof -
  have "VariablesBase P + ucast (VariablesSize P) > 0x08400000"
    using assms(2) by (simp add: mid_dram_def)
  moreover have "length (board_regions P MemSize) = 6"
    by (simp add: board_regions_def Let_def)
  ultimately show ?thesis
    using assms(1) rk3576_regions_board [OF assms(2)]
    by (simp add: ArmPlatformGetVirtualMemoryMap_def assert_that_def MAX_VIRTUAL_MEMORY_MAP_DESCRIPTORS_def)
qed

lemmas add_region_simps = AddRegion_def AddBasicMemoryRegion_def AddReservedMemoryRegion_def AddUnmappedMemoryRegion_def
  assert_that_def numeral_3_eq_3

text \<open>What is registered; a volume at the very bottom leaves an entry of length 0, where the registration stops.\<close>

lemma run_registration:
  assumes "mid_dram P (unat MemSize)"
  defines "F \<equiv> PcdFvBaseAddress P" and "L \<equiv> ucast (PcdFvSize P) :: u64"
  defines "E \<equiv> F + L"
  shows "register_regions (map fst (board_regions P MemSize) @ [end_of_table]) (map snd (board_regions P MemSize) @ rest) [] =
    Some ([ResourceDescriptorHob (mailbox_page P) 0x1000, MemoryAllocationHob (mailbox_page P) 0x1000 EfiReservedMemoryType] @
      (if F = 0x40200000 then []
       else [ResourceDescriptorHob 0x40200000 (F - 0x40200000), ResourceDescriptorHob F L, MemoryAllocationHob F L EfiReservedMemoryType] @
         (if MemSize + 0x30000000 = E then [] else [ResourceDescriptorHob E (MemSize + 0x30000000 - E)])))"
proof -
  have "L \<noteq> 0"
    using mid_dram_bounds(2) [OF assms(1)] assms(1) by (auto simp: mid_dram_def L_def)
  moreover have "L = ucast (PcdFvSize P)" "F = PcdFvBaseAddress P" "E = F + L"
    by (simp_all add: L_def F_def E_def)
  ultimately show ?thesis
    by (simp add: board_regions_def tfa_region_def region_def end_of_table_def add_region_simps RK3576_MEM_UNMAPPED_REGION_def Let_def)
qed

lemma run_peim:
  assumes "SdramGetMemorySize M s = Some (MemSize, s')" "mid_dram P (unat MemSize)"
    "register_regions (map fst (board_regions P MemSize) @ [end_of_table]) (map snd (board_regions P MemSize) @ drop 6 (VirtualMemoryInfo g)) [] = Some hobs"
  shows "\<exists>g'. MemoryPeim P M g s = Some (EFI_SUCCESS, hobs @ (if PcdPrePiProduceMemoryTypeInformationHob P then [MemoryTypeInformationHob] else []),
    map fst (board_regions P MemSize) @ [end_of_table], g', s')"
  using run_map [OF assms(1,2), of g] assms(3)
  by (simp add: MemoryPeim_def Rk3576PlatformGetVirtualMemoryInfo_def)

section \<open>Properties\<close>

lemma system_memory_simps [simp]:
  "system_memory [] a \<longleftrightarrow> False"
  "system_memory (ResourceDescriptorHob b l # hobs) a \<longleftrightarrow> in_range b l a \<or> system_memory hobs a"
  "system_memory (MemoryAllocationHob b l t # hobs) a \<longleftrightarrow> system_memory hobs a"
  "system_memory (MemoryTypeInformationHob # hobs) a \<longleftrightarrow> system_memory hobs a"
  "system_memory (hobs @ hobs') a \<longleftrightarrow> system_memory hobs a \<or> system_memory hobs' a"
  by (auto simp: system_memory_def)

lemma allocated_simps [simp]:
  "allocated [] t a \<longleftrightarrow> False"
  "allocated (ResourceDescriptorHob b l # hobs) t a \<longleftrightarrow> allocated hobs t a"
  "allocated (MemoryAllocationHob b l u # hobs) t a \<longleftrightarrow> u = t \<and> in_range b l a \<or> allocated hobs t a"
  "allocated (MemoryTypeInformationHob # hobs) t a \<longleftrightarrow> allocated hobs t a"
  "allocated (hobs @ hobs') t a \<longleftrightarrow> allocated hobs t a \<or> allocated hobs' t a"
  by (auto simp: allocated_def)

lemma unat_top:
  assumes "mid_dram P (unat MemSize)"
  defines "E \<equiv> PcdFvBaseAddress P + ucast (PcdFvSize P)"
  shows "unat (MemSize + 0x30000000) = unat MemSize + 0x30000000" "unat E = unat (PcdFvBaseAddress P) + unat (PcdFvSize P)"
    "unat (MemSize + 0x30000000 - E) = unat MemSize + 0x30000000 - (unat (PcdFvBaseAddress P) + unat (PcdFvSize P))"
    "unat (PcdFvBaseAddress P - 0x40200000) = unat (PcdFvBaseAddress P) - 0x40200000"
proof -
  have top: "RK3576_DRAM_BASE + MemSize - RK3576_SECURE_TOP_RESERVE = MemSize + 0x30000000"
    by (simp add: RK3576_DRAM_BASE_def RK3576_SECURE_TOP_RESERVE_def)
  show t: "unat (MemSize + 0x30000000) = unat MemSize + 0x30000000" "unat E = unat (PcdFvBaseAddress P) + unat (PcdFvSize P)"
    using mid_dram_bounds [OF assms(1)] by (simp_all add: top E_def)
  then have "E \<le> MemSize + 0x30000000"
    using assms(1) by (simp add: word_le_nat_alt mid_dram_def)
  then show "unat (MemSize + 0x30000000 - E) = unat MemSize + 0x30000000 - (unat (PcdFvBaseAddress P) + unat (PcdFvSize P))"
    by (simp add: unat_sub_no_wrap t)
  show "unat (PcdFvBaseAddress P - 0x40200000) = unat (PcdFvBaseAddress P) - 0x40200000"
    using mid_dram_bounds(4) [OF assms(1)] by (simp add: RK3576_DRAM_SAFE_BASE_def)
qed

text \<open>No address is in two entries of a table.\<close>

fun apart :: "ARM_MEMORY_REGION_DESCRIPTOR list \<Rightarrow> bool" where
  "apart [] = True"
| "apart (d # ds) \<longleftrightarrow> (\<forall>e\<in>set ds. \<forall>a. \<not> (described d a \<and> described e a)) \<and> apart ds"

lemma board_regions_apart:
  assumes "mid_dram P (unat MemSize)"
  shows "apart (map fst (board_regions P MemSize) @ [end_of_table])"
  using mailbox_page_range [of P] assms unat_top [OF assms] mid_dram_bounds(2) [OF assms]
  by (simp add: board_regions_def tfa_region_def region_def end_of_table_def Let_def described_def mid_dram_def)

text \<open> C13:
  The boards register exactly their usable memory. Where the detected size leaves room for the firmware volume, which lies
  above the shared page area, the run succeeds and the descriptor blocks say: system
  memory is the page of the mailbox and everything from 0x40200000 to 256 MiB below the end of the DRAM;
  reserved in it are exactly the mailbox page and the firmware volume, so the variable store stays
  free for its driver; secure memory, the device aperture and the reserve at the top are in
  no block. The regions of the table do not overlap and each is mapped to itself.
\<close>

theorem memory_map_registered:
  assumes "SdramGetMemorySize M s = Some (MemSize, s')" "mid_dram P (unat MemSize)" "0x40200000 < unat (PcdFvBaseAddress P)"
  shows "\<exists>hobs MemoryTable g'. MemoryPeim P M g s = Some (EFI_SUCCESS, hobs, MemoryTable, g', s') \<and>
     (\<forall>a. system_memory hobs a \<longleftrightarrow> in_range (mailbox_page P) 0x1000 a \<or> 0x40200000 \<le> a \<and> a < unat MemSize + 0x30000000) \<and>
     (\<forall>a. allocated hobs EfiReservedMemoryType a \<longleftrightarrow>
        in_range (mailbox_page P) 0x1000 a \<or> in_range (PcdFvBaseAddress P) (ucast (PcdFvSize P)) a) \<and>
     (\<forall>a. \<not> allocated hobs EfiRuntimeServicesData a) \<and>
     apart MemoryTable \<and> (\<forall>d\<in>set MemoryTable. VirtualBase d = PhysicalBase d)"
proof -
  note u = unat_top [OF assms(2)] mid_dram_bounds(2) [OF assms(2)]
  have F: "PcdFvBaseAddress P \<noteq> 0x40200000"
    using assms(3) by auto
  have E: "MemSize + 0x30000000 = PcdFvBaseAddress P + ucast (PcdFvSize P) \<longleftrightarrow>
      unat MemSize + 0x30000000 = unat (PcdFvBaseAddress P) + unat (PcdFvSize P)"
    by (simp only: word_unat_eq_iff u)
  have fits: "unat (PcdFvBaseAddress P) + unat (PcdFvSize P) \<le> unat MemSize + 0x30000000"
    using assms(2) by (simp add: mid_dram_def)
  let ?E = "PcdFvBaseAddress P + ucast (PcdFvSize P)"
  let ?hobs = "[ResourceDescriptorHob (mailbox_page P) 0x1000, MemoryAllocationHob (mailbox_page P) 0x1000 EfiReservedMemoryType,
      ResourceDescriptorHob 0x40200000 (PcdFvBaseAddress P - 0x40200000),
      ResourceDescriptorHob (PcdFvBaseAddress P) (ucast (PcdFvSize P)),
      MemoryAllocationHob (PcdFvBaseAddress P) (ucast (PcdFvSize P)) EfiReservedMemoryType] @
      (if MemSize + 0x30000000 = ?E then [] else [ResourceDescriptorHob ?E (MemSize + 0x30000000 - ?E)]) @
      (if PcdPrePiProduceMemoryTypeInformationHob P then [MemoryTypeInformationHob] else [])"
  let ?table = "map fst (board_regions P MemSize) @ [end_of_table]"
  obtain g' where run: "MemoryPeim P M g s = Some (EFI_SUCCESS, ?hobs, ?table, g', s')"
    using run_peim [OF assms(1,2) run_registration [OF assms(2)], of g] F by auto
  have self: "\<forall>d\<in>set ?table. VirtualBase d = PhysicalBase d"
    by (simp add: board_regions_def tfa_region_def region_def end_of_table_def Let_def)
  have memory: "system_memory ?hobs a \<longleftrightarrow> in_range (mailbox_page P) 0x1000 a \<or> 0x40200000 \<le> a \<and> a < unat MemSize + 0x30000000" for a
    using assms(3) fits by (cases "MemSize + 0x30000000 = ?E"; cases "PcdPrePiProduceMemoryTypeInformationHob P")
      (simp_all only: if_True if_False system_memory_simps in_range.simps u append_Nil append_Cons E, auto)
  have reserved: "allocated ?hobs EfiReservedMemoryType a \<longleftrightarrow>
      in_range (mailbox_page P) 0x1000 a \<or> in_range (PcdFvBaseAddress P) (ucast (PcdFvSize P)) a" for a
    by simp
  have "\<not> allocated ?hobs EfiRuntimeServicesData a" for a
    by simp
  then show ?thesis
    using run memory reserved self board_regions_apart [OF assms(2)] by blast
qed

text \<open>
  A firmware volume at the very bottom of the safe range passes every assertion of the table and is
  lost: the region below it has length 0, which ends the registration, so that the
  volume, the memory above it and the variable store are not registered at all.
\<close>

theorem memory_map_empty_region:
  assumes "SdramGetMemorySize M s = Some (MemSize, s')" "mid_dram P (unat MemSize)" "unat (PcdFvBaseAddress P) = 0x40200000"
  shows "\<exists>hobs MemoryTable g'. MemoryPeim P M g s = Some (EFI_SUCCESS, hobs, MemoryTable, g', s') \<and>
     (\<forall>a. system_memory hobs a \<longleftrightarrow> in_range (mailbox_page P) 0x1000 a) \<and>
     (\<forall>a. allocated hobs EfiReservedMemoryType a \<longleftrightarrow> in_range (mailbox_page P) 0x1000 a)"
proof -
  have F: "PcdFvBaseAddress P = 0x40200000"
    using assms(3) by (intro word_eqI_unat) simp
  show ?thesis
    using run_peim [OF assms(1,2) run_registration [OF assms(2)], of g] F by fastforce
qed

text \<open>A board with 4 GiB.\<close>

definition demo_pcds :: "u64 \<Rightarrow> mem_pcds" where
  "demo_pcds fv = \<lparr>PcdFvBaseAddress = fv, PcdFvSize = 0x00D00000, PcdFlashNvStorageVariableBase64 = 0x415C0000,
     PcdFlashNvStorageVariableSize = 0x10000, PcdFlashNvStorageFtwWorkingSize = 0x10000, PcdFlashNvStorageFtwSpareSize = 0x10000,
     PcdRkMtlMailBoxBase = 0x4010f000, PcdPrePiProduceMemoryTypeInformationHob = True\<rparr>"

definition demo_os_regs :: "u64 \<Rightarrow> u32" where
  "demo_os_regs a = (if a = 0x26026208 then 0x000002C0 else if a = 0x2602620C then 0x20000000 else 0)"

lemma demo_size: "SdramGetMemorySize reg_file demo_os_regs = Some (0x100000000, demo_os_regs)"
proof -
  have "map_option fst (SdramGetMemorySize reg_file demo_os_regs) = Some 0x100000000"
    by code_simp
  then obtain r where "SdramGetMemorySize reg_file demo_os_regs = Some (0x100000000, r)"
    by (cases "SdramGetMemorySize reg_file demo_os_regs") auto
  then show ?thesis
    using sdram_state by blast
qed

lemma demo_mid_dram: "mid_dram (demo_pcds 0x40800000) (2 ^ 32)" "mid_dram (demo_pcds 0x40200000) (2 ^ 32)"
  by (simp_all add: mid_dram_def demo_pcds_def VariablesBase_def VariablesSize_def)

theorem memory_map_registered_witness:
  "\<exists>hobs MemoryTable g'. MemoryPeim (demo_pcds 0x40800000) reg_file undefined demo_os_regs = Some (EFI_SUCCESS, hobs, MemoryTable, g', demo_os_regs) \<and>
     (\<forall>a. system_memory hobs a \<longleftrightarrow> in_range (mailbox_page (demo_pcds 0x40800000)) 0x1000 a \<or> 0x40200000 \<le> a \<and> a < 0x130000000) \<and>
     apart MemoryTable"
proof -
  have "mid_dram (demo_pcds 0x40800000) (unat (0x100000000 :: u64))" "0x40200000 < unat (PcdFvBaseAddress (demo_pcds 0x40800000))"
    using demo_mid_dram(1) by (simp_all add: demo_pcds_def)
  then show ?thesis
    using memory_map_registered [OF demo_size, of "demo_pcds 0x40800000" undefined] by auto
qed

theorem memory_map_empty_region_witness:
  "\<exists>hobs MemoryTable g'. MemoryPeim (demo_pcds 0x40200000) reg_file undefined demo_os_regs = Some (EFI_SUCCESS, hobs, MemoryTable, g', demo_os_regs) \<and>
     (\<forall>a. system_memory hobs a \<longleftrightarrow> in_range (mailbox_page (demo_pcds 0x40200000)) 0x1000 a)"
proof -
  have "mid_dram (demo_pcds 0x40200000) (unat (0x100000000 :: u64))" "unat (PcdFvBaseAddress (demo_pcds 0x40200000)) = 0x40200000"
    using demo_mid_dram(2) by (simp_all add: demo_pcds_def)
  then show ?thesis
    using memory_map_empty_region [OF demo_size, of "demo_pcds 0x40200000" undefined] by auto
qed

end
