(* ===== verification/OhciReg.thy ===== *)
theory OhciReg
  imports Mmio
begin

text \<open>
  The operational registers of the OHCI controller (\<open>Drivers/OhciDxe/OhciReg.c\<close>, \<open>OhciReg.h\<close>). A register is
  a word; the bit-fields of its structure are a table of flags with the position and the width of
  the field each flag names. A setter goes through its table and assigns the fields whose flags are given; a getter
  returns the field of the one flag it is given, and asserts on any other.

  \<open>MmioWrite32\<close> returns the value it wrote, and \<open>OhciSetOperationalReg\<close> returns that value as a
  status: it is never an error, and \<open>EFI_SUCCESS\<close> only where 0 was written.
\<close>

section \<open>Registers and flags\<close>

definition HC_REVISION :: u32 where "HC_REVISION = 0x00"
definition HC_CONTROL :: u32 where "HC_CONTROL = 0x04"
definition HC_COMMAND_STATUS :: u32 where "HC_COMMAND_STATUS = 0x08"
definition HC_INTERRUPT_STATUS :: u32 where "HC_INTERRUPT_STATUS = 0x0C"
definition HC_INTERRUPT_ENABLE :: u32 where "HC_INTERRUPT_ENABLE = 0x10"
definition HC_INTERRUPT_DISABLE :: u32 where "HC_INTERRUPT_DISABLE = 0x14"
definition HC_HCCA :: u32 where "HC_HCCA = 0x18"
definition HC_CONTROL_HEAD :: u32 where "HC_CONTROL_HEAD = 0x20"
definition HC_BULK_HEAD :: u32 where "HC_BULK_HEAD = 0x28"
definition HC_FRM_INTERVAL :: u32 where "HC_FRM_INTERVAL = 0x34"
definition HC_FRM_REMAINING :: u32 where "HC_FRM_REMAINING = 0x38"
definition HC_FRM_NUMBER :: u32 where "HC_FRM_NUMBER = 0x3C"
definition HC_PERIODIC_START :: u32 where "HC_PERIODIC_START = 0x40"
definition HC_LS_THREASHOLD :: u32 where "HC_LS_THREASHOLD = 0x44"
definition HC_RH_DESC_A :: u32 where "HC_RH_DESC_A = 0x48"
definition HC_RH_DESC_B :: u32 where "HC_RH_DESC_B = 0x4C"
definition HC_RH_STATUS :: u32 where "HC_RH_STATUS = 0x50"
definition HC_RH_PORT_STATUS :: u32 where "HC_RH_PORT_STATUS = 0x54"
definition USBHOST_OFFSET_UHCHR :: u32 where "USBHOST_OFFSET_UHCHR = 0x64"

definition HC_STATE_RESET :: u32 where "HC_STATE_RESET = 0x0"
definition HC_STATE_RESUME :: u32 where "HC_STATE_RESUME = 0x1"
definition HC_STATE_OPERATIONAL :: u32 where "HC_STATE_OPERATIONAL = 0x2"
definition HC_STATE_SUSPEND :: u32 where "HC_STATE_SUSPEND = 0x3"

definition RESET_SYSTEM_BUS :: u64 where "RESET_SYSTEM_BUS = 0x1"
definition RESET_HOST_CONTROLLER :: u64 where "RESET_HOST_CONTROLLER = 0x2"
definition RESET_CLOCK_GENERATION :: u64 where "RESET_CLOCK_GENERATION = 0x4"
definition RESET_SSE_GLOBAL :: u64 where "RESET_SSE_GLOBAL = 0x20"
definition RESET_PSPL :: u64 where "RESET_PSPL = 0x40"
definition RESET_PCPL :: u64 where "RESET_PCPL = 0x80"
definition RESET_SSEP1 :: u64 where "RESET_SSEP1 = 0x200"
definition RESET_SSEP2 :: u64 where "RESET_SSEP2 = 0x400"
definition RESET_SSEP3 :: u64 where "RESET_SSEP3 = 0x800"
definition CONTROL_BULK_RATIO :: u64 where "CONTROL_BULK_RATIO = 0x10"
definition HC_FUNCTIONAL_STATE :: u64 where "HC_FUNCTIONAL_STATE = 0x20"
definition PERIODIC_ENABLE :: u64 where "PERIODIC_ENABLE = 0x01"
definition CONTROL_ENABLE :: u64 where "CONTROL_ENABLE = 0x04"
definition ISOCHRONOUS_ENABLE :: u64 where "ISOCHRONOUS_ENABLE = 0x02"
definition BULK_ENABLE :: u64 where "BULK_ENABLE = 0x08"
definition INTERRUPT_ROUTING :: u64 where "INTERRUPT_ROUTING = 0x40"
definition HC_RESET :: u64 where "HC_RESET = 0x01"
definition CONTROL_LIST_FILLED :: u64 where "CONTROL_LIST_FILLED = 0x02"
definition BULK_LIST_FILLED :: u64 where "BULK_LIST_FILLED = 0x04"
definition CHANGE_OWNER_REQUEST :: u64 where "CHANGE_OWNER_REQUEST = 0x08"
definition SCHEDULE_OVERRUN_COUNT :: u64 where "SCHEDULE_OVERRUN_COUNT = 0x10"
definition SCHEDULE_OVERRUN :: u64 where "SCHEDULE_OVERRUN = 0x00001"
definition WRITEBACK_DONE_HEAD :: u64 where "WRITEBACK_DONE_HEAD = 0x00002"
definition START_OF_FRAME :: u64 where "START_OF_FRAME = 0x00004"
definition RESUME_DETECT :: u64 where "RESUME_DETECT = 0x00008"
definition UNRECOVERABLE_ERROR :: u64 where "UNRECOVERABLE_ERROR = 0x00010"
definition FRAME_NUMBER_OVERFLOW :: u64 where "FRAME_NUMBER_OVERFLOW = 0x00020"
definition ROOTHUB_STATUS_CHANGE :: u64 where "ROOTHUB_STATUS_CHANGE = 0x00040"
definition OWNERSHIP_CHANGE :: u64 where "OWNERSHIP_CHANGE = 0x00080"
definition MASTER_INTERRUPT :: u64 where "MASTER_INTERRUPT = 0x00400"
definition FRAME_INTERVAL :: u64 where "FRAME_INTERVAL = 0x008"
definition FS_LARGEST_DATA_PACKET :: u64 where "FS_LARGEST_DATA_PACKET = 0x010"
definition FRMINT_TOGGLE :: u64 where "FRMINT_TOGGLE = 0x020"
definition FRAME_REMAINING :: u64 where "FRAME_REMAINING = 0x040"
definition FRAME_REMAIN_TOGGLE :: u64 where "FRAME_REMAIN_TOGGLE = 0x080"
definition RH_NUM_DS_PORTS :: u64 where "RH_NUM_DS_PORTS = 0x00004"
definition RH_NO_PSWITCH :: u64 where "RH_NO_PSWITCH = 0x00008"
definition RH_PSWITCH_MODE :: u64 where "RH_PSWITCH_MODE = 0x00010"
definition RH_DEVICE_TYPE :: u64 where "RH_DEVICE_TYPE = 0x00020"
definition RH_OC_PROT_MODE :: u64 where "RH_OC_PROT_MODE = 0x00040"
definition RH_NOC_PROT :: u64 where "RH_NOC_PROT = 0x00080"
definition RH_NO_POTPGT :: u64 where "RH_NO_POTPGT = 0x00200"
definition RH_DEV_REMOVABLE :: u64 where "RH_DEV_REMOVABLE = 0x00400"
definition RH_PORT_PWR_CTRL_MASK :: u64 where "RH_PORT_PWR_CTRL_MASK = 0x00800"
definition RH_LOCAL_PSTAT :: u64 where "RH_LOCAL_PSTAT = 0x00001"
definition RH_OC_ID :: u64 where "RH_OC_ID = 0x00002"
definition RH_REMOTE_WK_ENABLE :: u64 where "RH_REMOTE_WK_ENABLE = 0x00004"
definition RH_LOCAL_PSTAT_CHANGE :: u64 where "RH_LOCAL_PSTAT_CHANGE = 0x00008"
definition RH_OC_ID_CHANGE :: u64 where "RH_OC_ID_CHANGE = 0x00010"
definition RH_CLR_RMT_WK_ENABLE :: u64 where "RH_CLR_RMT_WK_ENABLE = 0x00020"
definition RH_CLEAR_PORT_ENABLE :: u64 where "RH_CLEAR_PORT_ENABLE = 0x0001"
definition RH_SET_PORT_ENABLE :: u64 where "RH_SET_PORT_ENABLE = 0x0002"
definition RH_SET_PORT_SUSPEND :: u64 where "RH_SET_PORT_SUSPEND = 0x0004"
definition RH_CLEAR_SUSPEND_STATUS :: u64 where "RH_CLEAR_SUSPEND_STATUS = 0x0008"
definition RH_SET_PORT_RESET :: u64 where "RH_SET_PORT_RESET = 0x0010"
definition RH_SET_PORT_POWER :: u64 where "RH_SET_PORT_POWER = 0x0020"
definition RH_CLEAR_PORT_POWER :: u64 where "RH_CLEAR_PORT_POWER = 0x0040"
definition RH_CONNECT_STATUS_CHANGE :: u64 where "RH_CONNECT_STATUS_CHANGE = 0x10000"
definition RH_PORT_ENABLE_STAT_CHANGE :: u64 where "RH_PORT_ENABLE_STAT_CHANGE = 0x20000"
definition RH_PORT_SUSPEND_STAT_CHANGE :: u64 where "RH_PORT_SUSPEND_STAT_CHANGE = 0x40000"
definition RH_OC_INDICATOR_CHANGE :: u64 where "RH_OC_INDICATOR_CHANGE = 0x80000"
definition RH_PORT_RESET_STAT_CHANGE :: u64 where "RH_PORT_RESET_STAT_CHANGE = 0x100000"
definition RH_CURR_CONNECT_STAT :: u64 where "RH_CURR_CONNECT_STAT = 0x0001"
definition RH_PORT_ENABLE_STAT :: u64 where "RH_PORT_ENABLE_STAT = 0x0002"
definition RH_PORT_SUSPEND_STAT :: u64 where "RH_PORT_SUSPEND_STAT = 0x0004"
definition RH_PORT_OC_INDICATOR :: u64 where "RH_PORT_OC_INDICATOR = 0x0008"
definition RH_PORT_RESET_STAT :: u64 where "RH_PORT_RESET_STAT = 0x0010"
definition RH_PORT_POWER_STAT :: u64 where "RH_PORT_POWER_STAT = 0x0020"
definition RH_LSDEVICE_ATTACHED :: u64 where "RH_LSDEVICE_ATTACHED = 0x0040"

section \<open>Bit-fields\<close>

type_synonym reg_field = "u64 \<times> nat \<times> nat"

definition get_bits :: "nat \<times> nat \<Rightarrow> u32 \<Rightarrow> u32" where
  "get_bits f w = take_bit (snd f) (drop_bit (fst f) w)"

definition set_bits :: "nat \<times> nat \<Rightarrow> u32 \<Rightarrow> u32 \<Rightarrow> u32" where
  "set_bits f v w = (w AND NOT (push_bit (fst f) (mask (snd f)))) OR push_bit (fst f) (take_bit (snd f) v)"

fun set_fields :: "reg_field list \<Rightarrow> u64 \<Rightarrow> u32 \<Rightarrow> u32 \<Rightarrow> u32" where
  "set_fields [] Fld v w = w"
| "set_fields ((flag, f) # fs) Fld v w = set_fields fs Fld v (if Fld AND flag \<noteq> 0 then set_bits f v w else w)"

fun get_field :: "reg_field list \<Rightarrow> u64 \<Rightarrow> u32 \<Rightarrow> u32 run" where
  "get_field [] Fld w = None"
| "get_field ((flag, f) # fs) Fld w = (if Fld = flag then Some (get_bits f w) else get_field fs Fld w)"

definition HcRESET_fields :: "reg_field list" where
  "HcRESET_fields =
     [(RESET_SYSTEM_BUS, 0, 1), (RESET_HOST_CONTROLLER, 1, 1), (RESET_CLOCK_GENERATION, 2, 1), (RESET_SSE_GLOBAL, 5, 1),
      (RESET_PSPL, 6, 1), (RESET_PCPL, 7, 1), (RESET_SSEP1, 9, 1), (RESET_SSEP2, 10, 1), (RESET_SSEP3, 11, 1)]"

definition HcCONTROL_fields :: "reg_field list" where
  "HcCONTROL_fields =
     [(CONTROL_BULK_RATIO, 0, 2), (HC_FUNCTIONAL_STATE, 6, 2), (PERIODIC_ENABLE, 2, 1), (CONTROL_ENABLE, 4, 1),
      (ISOCHRONOUS_ENABLE, 3, 1), (BULK_ENABLE, 5, 1), (INTERRUPT_ROUTING, 8, 1)]"

definition HcCOMMAND_STATUS_fields :: "reg_field list" where
  "HcCOMMAND_STATUS_fields =
     [(HC_RESET, 0, 1), (CONTROL_LIST_FILLED, 1, 1), (BULK_LIST_FILLED, 2, 1), (CHANGE_OWNER_REQUEST, 3, 1),
      (SCHEDULE_OVERRUN_COUNT, 16, 2)]"

definition HcINTERRUPT_STATUS_fields :: "reg_field list" where
  "HcINTERRUPT_STATUS_fields =
     [(SCHEDULE_OVERRUN, 0, 1), (WRITEBACK_DONE_HEAD, 1, 1), (START_OF_FRAME, 2, 1), (RESUME_DETECT, 3, 1),
      (UNRECOVERABLE_ERROR, 4, 1), (FRAME_NUMBER_OVERFLOW, 5, 1), (ROOTHUB_STATUS_CHANGE, 6, 1),
      (OWNERSHIP_CHANGE, 30, 1)]"

definition HcINTERRUPT_CONTROL_fields :: "reg_field list" where
  "HcINTERRUPT_CONTROL_fields =
     [(SCHEDULE_OVERRUN, 0, 1), (WRITEBACK_DONE_HEAD, 1, 1), (START_OF_FRAME, 2, 1), (RESUME_DETECT, 3, 1),
      (UNRECOVERABLE_ERROR, 4, 1), (FRAME_NUMBER_OVERFLOW, 5, 1), (ROOTHUB_STATUS_CHANGE, 6, 1),
      (OWNERSHIP_CHANGE, 30, 1), (MASTER_INTERRUPT, 31, 1)]"

definition HcFRM_INTERVAL_fields :: "reg_field list" where
  "HcFRM_INTERVAL_fields =
     [(FRAME_INTERVAL, 0, 14), (FS_LARGEST_DATA_PACKET, 16, 15), (FRMINT_TOGGLE, 31, 1)]"

definition HcFRAME_REMAINING_fields :: "reg_field list" where
  "HcFRAME_REMAINING_fields =
     [(FRAME_REMAINING, 0, 14), (FRAME_REMAIN_TOGGLE, 31, 1)]"

definition HcRH_DESC_A_fields :: "reg_field list" where
  "HcRH_DESC_A_fields =
     [(RH_NUM_DS_PORTS, 0, 8), (RH_NO_PSWITCH, 9, 1), (RH_PSWITCH_MODE, 8, 1), (RH_DEVICE_TYPE, 10, 1),
      (RH_OC_PROT_MODE, 11, 1), (RH_NOC_PROT, 12, 1), (RH_NO_POTPGT, 24, 8)]"

definition HcRH_DESC_B_fields :: "reg_field list" where
  "HcRH_DESC_B_fields =
     [(RH_DEV_REMOVABLE, 0, 16), (RH_PORT_PWR_CTRL_MASK, 16, 16)]"

definition HcRH_STATUS_fields :: "reg_field list" where
  "HcRH_STATUS_fields =
     [(RH_LOCAL_PSTAT, 0, 1), (RH_OC_ID, 1, 1), (RH_REMOTE_WK_ENABLE, 15, 1), (RH_LOCAL_PSTAT_CHANGE, 16, 1),
      (RH_OC_ID_CHANGE, 17, 1), (RH_CLR_RMT_WK_ENABLE, 31, 1)]"

definition HcRHPORT_STATUS_set_fields :: "reg_field list" where
  "HcRHPORT_STATUS_set_fields =
     [(RH_CLEAR_PORT_ENABLE, 0, 1), (RH_SET_PORT_ENABLE, 1, 1), (RH_SET_PORT_SUSPEND, 2, 1),
      (RH_CLEAR_SUSPEND_STATUS, 3, 1), (RH_SET_PORT_RESET, 4, 1), (RH_SET_PORT_POWER, 8, 1),
      (RH_CLEAR_PORT_POWER, 9, 1), (RH_CONNECT_STATUS_CHANGE, 16, 1), (RH_PORT_ENABLE_STAT_CHANGE, 17, 1),
      (RH_PORT_SUSPEND_STAT_CHANGE, 18, 1), (RH_OC_INDICATOR_CHANGE, 19, 1), (RH_PORT_RESET_STAT_CHANGE, 20, 1)]"

definition HcRHPORT_STATUS_fields :: "reg_field list" where
  "HcRHPORT_STATUS_fields =
     [(RH_CURR_CONNECT_STAT, 0, 1), (RH_PORT_ENABLE_STAT, 1, 1), (RH_PORT_SUSPEND_STAT, 2, 1),
      (RH_PORT_OC_INDICATOR, 3, 1), (RH_PORT_RESET_STAT, 4, 1), (RH_PORT_POWER_STAT, 8, 1),
      (RH_LSDEVICE_ATTACHED, 9, 1), (RH_CONNECT_STATUS_CHANGE, 16, 1), (RH_PORT_ENABLE_STAT_CHANGE, 17, 1),
      (RH_PORT_SUSPEND_STAT_CHANGE, 18, 1), (RH_OC_INDICATOR_CHANGE, 19, 1), (RH_PORT_RESET_STAT_CHANGE, 20, 1)]"

section \<open>Access\<close>

definition OhciGetOperationalReg :: "'h mmio \<Rightarrow> u32 \<Rightarrow> 'h \<Rightarrow> u32 \<Rightarrow> u32 \<times> 'h" where
  "OhciGetOperationalReg M base s Offset = MmioRead32 M s (ucast (base + Offset))"

definition OhciSetOperationalReg :: "'h mmio \<Rightarrow> u32 \<Rightarrow> 'h \<Rightarrow> u32 \<Rightarrow> u32 \<Rightarrow> efi_status \<times> 'h" where
  "OhciSetOperationalReg M base s Offset v = (Value (unat v), MmioWrite32 M s (ucast (base + Offset)) v)"

definition OhciGetHcRevision :: "'h mmio \<Rightarrow> u32 \<Rightarrow> 'h \<Rightarrow> u32 \<times> 'h" where
  "OhciGetHcRevision M base s = OhciGetOperationalReg M base s HC_REVISION"

text \<open>Read, change the fields, write back; and the getter of the same table.\<close>

definition modify_reg :: "'h mmio \<Rightarrow> u32 \<Rightarrow> u32 \<Rightarrow> (u32 \<Rightarrow> u32) \<Rightarrow> 'h \<Rightarrow> efi_status \<times> 'h" where
  "modify_reg M base Offset f s = (let (w, s) = OhciGetOperationalReg M base s Offset in OhciSetOperationalReg M base s Offset (f w))"

definition read_field :: "'h mmio \<Rightarrow> u32 \<Rightarrow> u32 \<Rightarrow> reg_field list \<Rightarrow> u64 \<Rightarrow> 'h \<Rightarrow> (u32 \<times> 'h) run" where
  "read_field M base Offset tab Fld s =
     (let (w, s) = OhciGetOperationalReg M base s Offset in do { v \<leftarrow> get_field tab Fld w; Some (v, s) })"

definition OhciSetHcReset :: "'h mmio \<Rightarrow> u32 \<Rightarrow> u32 \<Rightarrow> u32 \<Rightarrow> 'h \<Rightarrow> efi_status \<times> 'h" where
  "OhciSetHcReset M base Fld v s =
     (EFI_SUCCESS, snd (modify_reg M base USBHOST_OFFSET_UHCHR (set_fields HcRESET_fields (ucast Fld) v) s))"

definition OhciGetHcReset :: "'h mmio \<Rightarrow> u32 \<Rightarrow> u32 \<Rightarrow> 'h \<Rightarrow> (u32 \<times> 'h) run" where
  "OhciGetHcReset M base Fld s = read_field M base USBHOST_OFFSET_UHCHR HcRESET_fields (ucast Fld) s"

definition OhciSetHcControl :: "'h mmio \<Rightarrow> u32 \<Rightarrow> u64 \<Rightarrow> u32 \<Rightarrow> 'h \<Rightarrow> efi_status \<times> 'h" where
  "OhciSetHcControl M base Fld v s = modify_reg M base HC_CONTROL (set_fields HcCONTROL_fields Fld v) s"

definition OhciGetHcControl :: "'h mmio \<Rightarrow> u32 \<Rightarrow> u64 \<Rightarrow> 'h \<Rightarrow> (u32 \<times> 'h) run" where
  "OhciGetHcControl M base Fld s = read_field M base HC_CONTROL HcCONTROL_fields Fld s"

text \<open>These write a word that is zero but for the fields given.\<close>

definition OhciSetHcCommandStatus :: "'h mmio \<Rightarrow> u32 \<Rightarrow> u64 \<Rightarrow> u32 \<Rightarrow> 'h \<Rightarrow> efi_status \<times> 'h" where
  "OhciSetHcCommandStatus M base Fld v s =
     OhciSetOperationalReg M base s HC_COMMAND_STATUS (set_fields HcCOMMAND_STATUS_fields Fld v 0)"

definition OhciGetHcCommandStatus :: "'h mmio \<Rightarrow> u32 \<Rightarrow> u64 \<Rightarrow> 'h \<Rightarrow> (u32 \<times> 'h) run" where
  "OhciGetHcCommandStatus M base Fld s = read_field M base HC_COMMAND_STATUS HcCOMMAND_STATUS_fields Fld s"

definition OhciClearInterruptStatus :: "'h mmio \<Rightarrow> u32 \<Rightarrow> u64 \<Rightarrow> 'h \<Rightarrow> efi_status \<times> 'h" where
  "OhciClearInterruptStatus M base Fld s =
     OhciSetOperationalReg M base s HC_INTERRUPT_STATUS (set_fields HcINTERRUPT_STATUS_fields Fld 1 0)"

definition OhciGetHcInterruptStatus :: "'h mmio \<Rightarrow> u32 \<Rightarrow> u64 \<Rightarrow> 'h \<Rightarrow> (u32 \<times> 'h) run" where
  "OhciGetHcInterruptStatus M base Fld s = read_field M base HC_INTERRUPT_STATUS HcINTERRUPT_STATUS_fields Fld s"

definition OhciSetInterruptControl :: "'h mmio \<Rightarrow> u32 \<Rightarrow> bool \<Rightarrow> u64 \<Rightarrow> u32 \<Rightarrow> 'h \<Rightarrow> efi_status \<times> 'h" where
  "OhciSetInterruptControl M base StatEnable Fld v s =
     OhciSetOperationalReg M base s (if StatEnable then HC_INTERRUPT_ENABLE else HC_INTERRUPT_DISABLE)
       (set_fields HcINTERRUPT_CONTROL_fields Fld v 0)"

definition OhciGetHcInterruptControl :: "'h mmio \<Rightarrow> u32 \<Rightarrow> u64 \<Rightarrow> 'h \<Rightarrow> (u32 \<times> 'h) run" where
  "OhciGetHcInterruptControl M base Fld s = read_field M base HC_INTERRUPT_ENABLE HcINTERRUPT_CONTROL_fields Fld s"

section \<open>Memory pointers\<close>

text \<open>The loop until the register reads back the pointer, which has no bound.\<close>

partial_function (option) verify_pointer :: "'h mmio \<Rightarrow> u32 \<Rightarrow> u32 \<Rightarrow> u32 \<Rightarrow> 'h \<Rightarrow> 'h run" where
  "verify_pointer M base PointerType v s =
     (let (Verify, s) = OhciGetOperationalReg M base s PointerType
      in if Verify \<noteq> v then verify_pointer M base PointerType v (MicroSecondDelay M s 1000) else Some s)"

declare verify_pointer.simps [code]

definition OhciSetMemoryPointer :: "'h mmio \<Rightarrow> u32 \<Rightarrow> u32 \<Rightarrow> u32 \<Rightarrow> 'h \<Rightarrow> (efi_status \<times> 'h) run" where
  "OhciSetMemoryPointer M base PointerType v s =
     (let (Status, s) = OhciSetOperationalReg M base s PointerType v
      in if EFI_ERROR Status then Some (Status, s)
         else do { s \<leftarrow> verify_pointer M base PointerType v s; Some (Status, s) })"

definition OhciGetMemoryPointer :: "'h mmio \<Rightarrow> u32 \<Rightarrow> u32 \<Rightarrow> 'h \<Rightarrow> u32 \<times> 'h" where
  "OhciGetMemoryPointer M base PointerType s = OhciGetOperationalReg M base s PointerType"

section \<open>Frames\<close>

definition frame_interval_word :: "u64 \<Rightarrow> u32 \<Rightarrow> u32 \<Rightarrow> u32" where
  "frame_interval_word Fld v w =
     (let w = (if Fld AND FRAME_INTERVAL \<noteq> 0
               then set_bits (0, 14) v (set_bits (31, 1) (if get_bits (31, 1) w = 0 then 1 else 0) w) else w);
          w = (if Fld AND FS_LARGEST_DATA_PACKET \<noteq> 0 then set_bits (16, 15) v w else w)
      in if Fld AND FRMINT_TOGGLE \<noteq> 0 then set_bits (31, 1) v w else w)"

definition OhciSetFrameInterval :: "'h mmio \<Rightarrow> u32 \<Rightarrow> u64 \<Rightarrow> u32 \<Rightarrow> 'h \<Rightarrow> efi_status \<times> 'h" where
  "OhciSetFrameInterval M base Fld v s = modify_reg M base HC_FRM_INTERVAL (frame_interval_word Fld v) s"

definition OhciGetFrameInterval :: "'h mmio \<Rightarrow> u32 \<Rightarrow> u64 \<Rightarrow> 'h \<Rightarrow> (u32 \<times> 'h) run" where
  "OhciGetFrameInterval M base Fld s = read_field M base HC_FRM_INTERVAL HcFRM_INTERVAL_fields Fld s"

definition OhciSetFrameRemaining :: "'h mmio \<Rightarrow> u32 \<Rightarrow> u32 \<Rightarrow> 'h \<Rightarrow> efi_status \<times> 'h" where
  "OhciSetFrameRemaining M base v s =
     modify_reg M base HC_FRM_REMAINING
       (\<lambda>w. let w = set_bits (0, 14) v w in set_bits (31, 1) (if get_bits (31, 1) w = 0 then 1 else 0) w) s"

definition OhciGetFrameRemaining :: "'h mmio \<Rightarrow> u32 \<Rightarrow> u64 \<Rightarrow> 'h \<Rightarrow> (u32 \<times> 'h) run" where
  "OhciGetFrameRemaining M base Fld s = read_field M base HC_FRM_REMAINING HcFRAME_REMAINING_fields Fld s"

definition OhciSetFrameNumber :: "'h mmio \<Rightarrow> u32 \<Rightarrow> u32 \<Rightarrow> 'h \<Rightarrow> efi_status \<times> 'h" where
  "OhciSetFrameNumber M base v s = OhciSetOperationalReg M base s HC_FRM_NUMBER v"

definition OhciGetFrameNumber :: "'h mmio \<Rightarrow> u32 \<Rightarrow> 'h \<Rightarrow> u32 \<times> 'h" where
  "OhciGetFrameNumber M base s = OhciGetOperationalReg M base s HC_FRM_NUMBER"

definition OhciSetPeriodicStart :: "'h mmio \<Rightarrow> u32 \<Rightarrow> u32 \<Rightarrow> 'h \<Rightarrow> efi_status \<times> 'h" where
  "OhciSetPeriodicStart M base v s = OhciSetOperationalReg M base s HC_PERIODIC_START v"

definition OhciGetPeriodicStart :: "'h mmio \<Rightarrow> u32 \<Rightarrow> 'h \<Rightarrow> u32 \<times> 'h" where
  "OhciGetPeriodicStart M base s = OhciGetOperationalReg M base s HC_PERIODIC_START"

definition OhciSetLsThreshold :: "'h mmio \<Rightarrow> u32 \<Rightarrow> u32 \<Rightarrow> 'h \<Rightarrow> efi_status \<times> 'h" where
  "OhciSetLsThreshold M base v s = OhciSetOperationalReg M base s HC_LS_THREASHOLD v"

definition OhciGetLsThreshold :: "'h mmio \<Rightarrow> u32 \<Rightarrow> 'h \<Rightarrow> u32 \<times> 'h" where
  "OhciGetLsThreshold M base s = OhciGetOperationalReg M base s HC_LS_THREASHOLD"

section \<open>Root hub\<close>

definition OhciSetRootHubDescriptor :: "'h mmio \<Rightarrow> u32 \<Rightarrow> u64 \<Rightarrow> u32 \<Rightarrow> 'h \<Rightarrow> efi_status \<times> 'h" where
  "OhciSetRootHubDescriptor M base Fld v s =
     (if Fld AND (RH_DEV_REMOVABLE OR RH_PORT_PWR_CTRL_MASK) \<noteq> 0
      then modify_reg M base HC_RH_DESC_B (set_fields HcRH_DESC_B_fields Fld v) s
      else modify_reg M base HC_RH_DESC_A (set_fields HcRH_DESC_A_fields Fld v) s)"

text \<open>Both registers are read before the field is looked up.\<close>

definition OhciGetRootHubDescriptor :: "'h mmio \<Rightarrow> u32 \<Rightarrow> u64 \<Rightarrow> 'h \<Rightarrow> (u32 \<times> 'h) run" where
  "OhciGetRootHubDescriptor M base Fld s =
     (let (a, s) = OhciGetOperationalReg M base s HC_RH_DESC_A;
          (b, s) = OhciGetOperationalReg M base s HC_RH_DESC_B
      in do {
        v \<leftarrow> (if Fld = RH_DEV_REMOVABLE \<or> Fld = RH_PORT_PWR_CTRL_MASK
             then get_field HcRH_DESC_B_fields Fld b else get_field HcRH_DESC_A_fields Fld a);
        Some (v, s)
      })"

definition OhciSetRootHubStatus :: "'h mmio \<Rightarrow> u32 \<Rightarrow> u64 \<Rightarrow> 'h \<Rightarrow> efi_status \<times> 'h" where
  "OhciSetRootHubStatus M base Fld s = OhciSetOperationalReg M base s HC_RH_STATUS (set_fields HcRH_STATUS_fields Fld 1 0)"

definition OhciGetRootHubStatus :: "'h mmio \<Rightarrow> u32 \<Rightarrow> u64 \<Rightarrow> 'h \<Rightarrow> (u32 \<times> 'h) run" where
  "OhciGetRootHubStatus M base Fld s = read_field M base HC_RH_STATUS HcRH_STATUS_fields Fld s"

definition OhciSetRootHubPortStatus :: "'h mmio \<Rightarrow> u32 \<Rightarrow> u32 \<Rightarrow> u64 \<Rightarrow> 'h \<Rightarrow> efi_status \<times> 'h" where
  "OhciSetRootHubPortStatus M base Index Fld s =
     OhciSetOperationalReg M base s (HC_RH_PORT_STATUS + Index * 4) (set_fields HcRHPORT_STATUS_set_fields Fld 1 0)"

definition OhciReadRootHubPortStatus :: "'h mmio \<Rightarrow> u32 \<Rightarrow> u32 \<Rightarrow> u64 \<Rightarrow> 'h \<Rightarrow> (u32 \<times> 'h) run" where
  "OhciReadRootHubPortStatus M base Index Fld s =
     read_field M base (HC_RH_PORT_STATUS + Index * 4) HcRHPORT_STATUS_fields Fld s"

section \<open>What is set is read back\<close>

text \<open>
  A table whose flags differ and whose fields lie apart in the word. Then a getter after a setter returns
  what was set, cut to the width of the field, and the field's old value where its flag was not given.
\<close>

fun fields_ok :: "reg_field list \<Rightarrow> bool" where
  "fields_ok [] = True"
| "fields_ok ((flag, p, n) # fs) =
     (list_all (\<lambda>(flag', p', n'). flag \<noteq> flag' \<and> (p + n \<le> p' \<or> p' + n' \<le> p)) fs \<and> p + n \<le> 32 \<and> fields_ok fs)"

lemma bit_set_bits:
  "bit (set_bits (p, n) v w) i \<longleftrightarrow> (if p \<le> i \<and> i < p + n \<and> i < 32 then bit v (i - p) else bit w i)"
proof (cases "i < 32")
  case True
  then show ?thesis
    by (auto simp: set_bits_def bit_simps)
qed (auto simp: dest: bit_imp_le_length)

lemma bit_get_bits: "bit (get_bits (p, n) w) i \<longleftrightarrow> i < n \<and> bit w (p + i)"
  by (auto simp: get_bits_def bit_simps dest: bit_imp_le_length)

lemma get_set_bits_same: "p + n \<le> 32 \<Longrightarrow> get_bits (p, n) (set_bits (p, n) v w) = take_bit n v"
  by (rule bit_word_eqI) (auto simp: bit_get_bits bit_set_bits bit_simps)

lemma get_set_bits_apart: "p + n \<le> q \<or> q + m \<le> p \<Longrightarrow> get_bits (p, n) (set_bits (q, m) v w) = get_bits (p, n) w"
  by (rule bit_word_eqI) (auto simp: bit_get_bits bit_set_bits)

lemma set_fields_apart:
  "list_all (\<lambda>(flag', p', n'). flag \<noteq> flag' \<and> (p + n \<le> p' \<or> p' + n' \<le> p)) tab \<Longrightarrow>
   get_bits (p, n) (set_fields tab Fld v w) = get_bits (p, n) w"
  by (induction tab Fld v w rule: set_fields.induct) (auto simp: get_set_bits_apart)

lemma get_field_set_fields:
  "fields_ok tab \<Longrightarrow> (flag, p, n) \<in> set tab \<Longrightarrow>
   get_field tab flag (set_fields tab Fld v w) = Some (if Fld AND flag \<noteq> 0 then take_bit n v else get_bits (p, n) w)"
proof (induction tab Fld v w rule: set_fields.induct)
  case (2 flag' f fs Fld v w)
  obtain q m where f: "f = (q, m)"
    by (cases f)
  show ?case
  proof (cases "flag = flag'")
    case True
    then have "(p, n) = (q, m)"
      using 2 unfolding f by (auto simp: list_all_iff)
    then show ?thesis
      using 2 True unfolding f by (auto simp: set_fields_apart get_set_bits_same)
  next
    case False
    then have mem: "(flag, p, n) \<in> set fs"
      using 2 by auto
    then have "p + n \<le> q \<or> q + m \<le> p"
      using 2(2) unfolding f by (auto simp: list_all_iff)
    then have "get_bits (p, n) (if Fld AND flag' \<noteq> 0 then set_bits f v w else w) = get_bits (p, n) w"
      unfolding f by (auto simp: get_set_bits_apart)
    moreover have "get_field fs flag (set_fields fs Fld v (if Fld AND flag' \<noteq> 0 then set_bits f v w else w)) =
        Some (if Fld AND flag \<noteq> 0 then take_bit n v
              else get_bits (p, n) (if Fld AND flag' \<noteq> 0 then set_bits f v w else w))"
      using "2.IH" mem "2.prems"(1) f by simp
    ultimately show ?thesis
      using False by (simp only: set_fields.simps get_field.simps if_False)
  qed
qed simp

lemma get_field_mem: "fields_ok tab \<Longrightarrow> (flag, p, n) \<in> set tab \<Longrightarrow> get_field tab flag w = Some (get_bits (p, n) w)"
  using get_field_set_fields [of tab flag p n 0 0 w] by (induction tab) (auto simp: list_all_iff)

lemma tables_ok:
  "fields_ok HcRESET_fields" "fields_ok HcCONTROL_fields" "fields_ok HcCOMMAND_STATUS_fields"
  "fields_ok HcINTERRUPT_STATUS_fields" "fields_ok HcINTERRUPT_CONTROL_fields" "fields_ok HcFRM_INTERVAL_fields"
  "fields_ok HcFRAME_REMAINING_fields" "fields_ok HcRH_DESC_A_fields" "fields_ok HcRH_DESC_B_fields"
  "fields_ok HcRH_STATUS_fields" "fields_ok HcRHPORT_STATUS_set_fields" "fields_ok HcRHPORT_STATUS_fields"
  by code_simp+

text \<open>The contract of registers that keep what is written to them.\<close>

locale plain_registers =
  fixes M :: "'h mmio"
    and reg :: "'h \<Rightarrow> u64 \<Rightarrow> u32"
    and plain :: "u64 set"
  assumes write_reg: "a \<in> plain \<Longrightarrow> reg (MmioWrite32 M s a w) = (reg s)(a := w)"
    and read_value: "a \<in> plain \<Longrightarrow> fst (MmioRead32 M s a) = reg s a"
    and read_reg: "a \<in> plain \<Longrightarrow> reg (snd (MmioRead32 M s a)) = reg s"
begin

lemma modify_reg_plain:
  assumes "ucast (base + Offset) \<in> plain"
  shows "reg (snd (modify_reg M base Offset f s)) =
    (reg s)(ucast (base + Offset) := f (reg s (ucast (base + Offset))))"
  using assms
  by (simp add: modify_reg_def OhciGetOperationalReg_def OhciSetOperationalReg_def write_reg read_value read_reg split_beta)

lemma read_field_plain:
  assumes "ucast (base + Offset) \<in> plain" "fields_ok tab" "(flag, p, n) \<in> set tab"
  shows "map_option fst (read_field M base Offset tab flag s) = Some (get_bits (p, n) (reg s (ucast (base + Offset))))"
  using assms
  by (simp add: read_field_def OhciGetOperationalReg_def read_value get_field_mem split_beta)

lemma set_get_plain:
  assumes "ucast (base + Offset) \<in> plain" "fields_ok tab" "(flag, p, n) \<in> set tab"
  shows "map_option fst (read_field M base Offset tab flag (snd (modify_reg M base Offset (set_fields tab Fld v) s))) =
    Some (if Fld AND flag \<noteq> 0 then take_bit n v else get_bits (p, n) (reg s (ucast (base + Offset))))"
proof -
  have "get_bits (p, n) (set_fields tab Fld v w) = (if Fld AND flag \<noteq> 0 then take_bit n v else get_bits (p, n) w)" for w
    using get_field_set_fields [OF assms(2,3), of Fld v w] get_field_mem [OF assms(2,3)] by simp
  then show ?thesis
    unfolding read_field_plain [OF assms] by (simp add: modify_reg_plain assms(1))
qed

end

text \<open>A file of such registers.\<close>

definition plain_file :: "(u64 \<Rightarrow> u32) mmio" where
  "plain_file =
     \<lparr>MmioRead32 = (\<lambda>s a. (s a, s)), MmioWrite32 = (\<lambda>s a w. s(a := w)),
      MmioWrite16 = (\<lambda>s a w. s), MicroSecondDelay = (\<lambda>s n. s)\<rparr>"

interpretation plain_file: plain_registers plain_file "\<lambda>s. s" UNIV
  by unfold_locales (simp_all add: plain_file_def)

end
