(* ===== verification/OhciUrb.thy ===== *)
theory OhciUrb
  imports OhciReg
begin

text \<open>
  Endpoint and transfer descriptors of the OHCI driver (\<open>Drivers/OhciDxe/OhciUrb.c\<close>, \<open>Descriptor.h\<close>,
  and the device structure of \<open>Ohci.h\<close>). A descriptor is a record, its bit-fields words of their width. The
  descriptors live in two stores keyed by pointer, since the chains share tails and the claims are about sharing:
  a pointer outside its store is a NULL, freed or wild pointer, and using it stops the run. A pointer is 64 bits wide
  in a variable and 32 in a descriptor.

  The memory pool, the DMA library, the boot services and the controller are the record \<open>ohci_env\<close>. The
  controller sees the descriptors: its registers are an \<open>mmio\<close> over the whole state, so a register access or a
  stall may change any part of it, and what the hardware leaves alone is a contract stated where it is needed.
\<close>

section \<open>Descriptors\<close>

definition ED_FUNC_ADD :: u32 where "ED_FUNC_ADD = 0x0001"
definition ED_ENDPT_NUM :: u32 where "ED_ENDPT_NUM = 0x0002"
definition ED_DIR :: u32 where "ED_DIR = 0x0004"
definition ED_SPEED :: u32 where "ED_SPEED = 0x0008"
definition ED_SKIP :: u32 where "ED_SKIP = 0x0010"
definition ED_FORMAT :: u32 where "ED_FORMAT = 0x0020"
definition ED_MAX_PACKET :: u32 where "ED_MAX_PACKET = 0x0040"
definition ED_TDTAIL_PTR :: u32 where "ED_TDTAIL_PTR = 0x0080"
definition ED_HALTED :: u32 where "ED_HALTED = 0x0100"
definition ED_DTTOGGLE :: u32 where "ED_DTTOGGLE = 0x0200"
definition ED_TDHEAD_PTR :: u32 where "ED_TDHEAD_PTR = 0x0400"
definition ED_NEXT_EDPTR :: u32 where "ED_NEXT_EDPTR = 0x0800"
definition ED_PDATA :: u32 where "ED_PDATA = 0x1000"
definition ED_ZERO :: u32 where "ED_ZERO = 0x2000"

definition TD_BUFFER_ROUND :: u32 where "TD_BUFFER_ROUND = 0x0001"
definition TD_DIR_PID :: u32 where "TD_DIR_PID = 0x0002"
definition TD_DELAY_INT :: u32 where "TD_DELAY_INT = 0x0004"
definition TD_DT_TOGGLE :: u32 where "TD_DT_TOGGLE = 0x0008"
definition TD_ERROR_CNT :: u32 where "TD_ERROR_CNT = 0x0010"
definition TD_COND_CODE :: u32 where "TD_COND_CODE = 0x0020"
definition TD_CURR_BUFFER_PTR :: u32 where "TD_CURR_BUFFER_PTR = 0x0040"
definition TD_NEXT_PTR :: u32 where "TD_NEXT_PTR = 0x0080"
definition TD_BUFFER_END_PTR :: u32 where "TD_BUFFER_END_PTR = 0x0100"
definition TD_PDATA :: u32 where "TD_PDATA = 0x0200"

definition ED_FROM_TD_DIR :: u32 where "ED_FROM_TD_DIR = 0x0"
definition ED_OUT_DIR :: u8 where "ED_OUT_DIR = 0x1"
definition ED_IN_DIR :: u8 where "ED_IN_DIR = 0x2"
definition TD_SETUP_PID :: u32 where "TD_SETUP_PID = 0x00"
definition TD_OUT_PID :: u32 where "TD_OUT_PID = 0x01"
definition TD_IN_PID :: u32 where "TD_IN_PID = 0x02"
definition HI_SPEED :: u32 where "HI_SPEED = 0"

definition TD_NO_ERROR :: u32 where "TD_NO_ERROR = 0x00"
definition TD_CRC_ERROR :: u32 where "TD_CRC_ERROR = 0x01"
definition TD_BITSTUFFING_ERROR :: u32 where "TD_BITSTUFFING_ERROR = 0x02"
definition TD_DEVICE_STALL :: u32 where "TD_DEVICE_STALL = 0x04"
definition TD_NO_RESPONSE :: u32 where "TD_NO_RESPONSE = 0x05"
definition TD_BUFFER_OVERRUN :: u32 where "TD_BUFFER_OVERRUN = 0x0C"
definition TD_BUFFER_UNDERRUN :: u32 where "TD_BUFFER_UNDERRUN = 0x0D"
definition TD_TOBE_PROCESSED :: u32 where "TD_TOBE_PROCESSED = 0x0E"
definition TD_TOBE_PROCESSED_2 :: u32 where "TD_TOBE_PROCESSED_2 = 0x0F"
definition TD_NO_DELAY :: u32 where "TD_NO_DELAY = 0x7"

text \<open>\<open>Word0\<close> of a transfer descriptor comes first, then its pointers and the driver's own words.\<close>

record TD_DESCRIPTOR =
  td_Reserved :: "18 word"
  BufferRounding :: "1 word"
  DirPID :: "2 word"
  DelayInterrupt :: "3 word"
  td_DataToggle :: "2 word"
  ErrorCount :: "2 word"
  ConditionCode :: "4 word"
  CurrBufferPointer :: u32
  NextTD :: u32
  BufferEndPointer :: u32
  NextTDPointer :: u32
  td_DataBuffer :: u32
  td_ActualSendLength :: u32

record ED_DESCRIPTOR =
  FunctionAddress :: "7 word"
  ed_EndPointNum :: "4 word"
  Direction :: "2 word"
  Speed :: "1 word"
  Skip :: "1 word"
  Format :: "1 word"
  MaxPacketSize :: "11 word"
  FreeSpace :: "5 word"
  TdTailPointer :: u32
  Halted :: "1 word"
  ToggleCarry :: "1 word"
  Zero :: "2 word"
  TdHeadPointer :: "28 word"
  NextED :: u32

definition zero_td :: TD_DESCRIPTOR where
  "zero_td = \<lparr>td_Reserved = 0, BufferRounding = 0, DirPID = 0, DelayInterrupt = 0, td_DataToggle = 0, ErrorCount = 0,
     ConditionCode = 0, CurrBufferPointer = 0, NextTD = 0, BufferEndPointer = 0, NextTDPointer = 0, td_DataBuffer = 0,
     td_ActualSendLength = 0\<rparr>"

definition zero_ed :: ED_DESCRIPTOR where
  "zero_ed = \<lparr>FunctionAddress = 0, ed_EndPointNum = 0, Direction = 0, Speed = 0, Skip = 0, Format = 0,
     MaxPacketSize = 0, FreeSpace = 0, TdTailPointer = 0, Halted = 0, ToggleCarry = 0, Zero = 0, TdHeadPointer = 0,
     NextED = 0\<rparr>"

definition sizeof_TD :: u64 where "sizeof_TD = 32"
definition sizeof_ED :: u64 where "sizeof_ED = 16"

text \<open>
  The 28-bit field is promoted to \<open>int\<close> before the shift, so the conversion to a pointer extends the
  sign: a descriptor above 2 GiB does not come back.
\<close>

definition TD_PTR :: "28 word \<Rightarrow> u64" where
  "TD_PTR p = scast (push_bit 4 (ucast p) :: u32)"

definition RIGHT_SHIFT_4 :: "u32 \<Rightarrow> u32" where
  "RIGHT_SHIFT_4 p = drop_bit 4 p"

datatype DESCRIPTOR_LIST_TYPE = CONTROL_LIST | BULK_LIST | INTERRUPT_LIST | ISOCHRONOUS_LIST

section \<open>Fields\<close>

definition set_if :: "u32 \<Rightarrow> u32 \<Rightarrow> ('a \<Rightarrow> 'a) \<Rightarrow> 'a \<Rightarrow> 'a" where
  "set_if Fld flag f x = (if Fld AND flag \<noteq> 0 then f x else x)"

definition OhciSetEDField :: "u32 \<Rightarrow> u32 \<Rightarrow> ED_DESCRIPTOR \<Rightarrow> ED_DESCRIPTOR" where
  "OhciSetEDField Fld v e =
     (let e = set_if Fld ED_FUNC_ADD (\<lambda>e. e\<lparr>FunctionAddress := ucast v\<rparr>) e;
          e = set_if Fld ED_ENDPT_NUM (\<lambda>e. e\<lparr>ed_EndPointNum := ucast v\<rparr>) e;
          e = set_if Fld ED_DIR (\<lambda>e. e\<lparr>Direction := ucast v\<rparr>) e;
          e = set_if Fld ED_SPEED (\<lambda>e. e\<lparr>Speed := ucast v\<rparr>) e;
          e = set_if Fld ED_SKIP (\<lambda>e. e\<lparr>Skip := ucast v\<rparr>) e;
          e = set_if Fld ED_FORMAT (\<lambda>e. e\<lparr>Format := ucast v\<rparr>) e;
          e = set_if Fld ED_MAX_PACKET (\<lambda>e. e\<lparr>MaxPacketSize := ucast v\<rparr>) e;
          e = set_if Fld ED_PDATA (\<lambda>e. e\<lparr>FreeSpace := ucast v\<rparr>) e;
          e = set_if Fld ED_ZERO (\<lambda>e. e\<lparr>Zero := ucast v\<rparr>) e;
          e = set_if Fld ED_TDTAIL_PTR (\<lambda>e. e\<lparr>TdTailPointer := v\<rparr>) e;
          e = set_if Fld ED_HALTED (\<lambda>e. e\<lparr>Halted := ucast v\<rparr>) e;
          e = set_if Fld ED_DTTOGGLE (\<lambda>e. e\<lparr>ToggleCarry := ucast v\<rparr>) e;
          e = set_if Fld ED_TDHEAD_PTR (\<lambda>e. e\<lparr>TdHeadPointer := ucast (RIGHT_SHIFT_4 v)\<rparr>) e
      in set_if Fld ED_NEXT_EDPTR (\<lambda>e. e\<lparr>NextED := v\<rparr>) e)"

definition OhciGetEDField :: "ED_DESCRIPTOR \<Rightarrow> u32 \<Rightarrow> u32 run" where
  "OhciGetEDField e Fld =
     (if Fld = ED_FUNC_ADD then Some (ucast (FunctionAddress e))
      else if Fld = ED_ENDPT_NUM then Some (ucast (ed_EndPointNum e))
      else if Fld = ED_DIR then Some (ucast (Direction e))
      else if Fld = ED_SPEED then Some (ucast (Speed e))
      else if Fld = ED_SKIP then Some (ucast (Skip e))
      else if Fld = ED_FORMAT then Some (ucast (Format e))
      else if Fld = ED_MAX_PACKET then Some (ucast (MaxPacketSize e))
      else if Fld = ED_TDTAIL_PTR then Some (TdTailPointer e)
      else if Fld = ED_HALTED then Some (ucast (Halted e))
      else if Fld = ED_DTTOGGLE then Some (ucast (ToggleCarry e))
      else if Fld = ED_TDHEAD_PTR then Some (push_bit 4 (ucast (TdHeadPointer e)))
      else if Fld = ED_NEXT_EDPTR then Some (NextED e)
      else None)"

definition OhciSetTDField :: "u32 \<Rightarrow> u32 \<Rightarrow> TD_DESCRIPTOR \<Rightarrow> TD_DESCRIPTOR" where
  "OhciSetTDField Fld v t =
     (let t = set_if Fld TD_PDATA (\<lambda>t. t\<lparr>td_Reserved := ucast v\<rparr>) t;
          t = set_if Fld TD_BUFFER_ROUND (\<lambda>t. t\<lparr>BufferRounding := ucast v\<rparr>) t;
          t = set_if Fld TD_DIR_PID (\<lambda>t. t\<lparr>DirPID := ucast v\<rparr>) t;
          t = set_if Fld TD_DELAY_INT (\<lambda>t. t\<lparr>DelayInterrupt := ucast v\<rparr>) t;
          t = set_if Fld TD_DT_TOGGLE (\<lambda>t. t\<lparr>td_DataToggle := ucast (v OR 2)\<rparr>) t;
          t = set_if Fld TD_ERROR_CNT (\<lambda>t. t\<lparr>ErrorCount := ucast v\<rparr>) t;
          t = set_if Fld TD_COND_CODE (\<lambda>t. t\<lparr>ConditionCode := ucast v\<rparr>) t;
          t = set_if Fld TD_CURR_BUFFER_PTR (\<lambda>t. t\<lparr>CurrBufferPointer := v\<rparr>) t;
          t = set_if Fld TD_NEXT_PTR (\<lambda>t. t\<lparr>NextTD := v\<rparr>) t
      in set_if Fld TD_BUFFER_END_PTR (\<lambda>t. t\<lparr>BufferEndPointer := v\<rparr>) t)"

definition OhciGetTDField :: "TD_DESCRIPTOR \<Rightarrow> u32 \<Rightarrow> u32 run" where
  "OhciGetTDField t Fld =
     (if Fld = TD_BUFFER_ROUND then Some (ucast (BufferRounding t))
      else if Fld = TD_DIR_PID then Some (ucast (DirPID t))
      else if Fld = TD_DELAY_INT then Some (ucast (DelayInterrupt t))
      else if Fld = TD_DT_TOGGLE then Some (ucast (td_DataToggle t))
      else if Fld = TD_ERROR_CNT then Some (ucast (ErrorCount t))
      else if Fld = TD_COND_CODE then Some (ucast (ConditionCode t))
      else if Fld = TD_CURR_BUFFER_PTR then Some (CurrBufferPointer t)
      else if Fld = TD_NEXT_PTR then Some (NextTD t)
      else if Fld = TD_BUFFER_END_PTR then Some (BufferEndPointer t)
      else None)"

section \<open>The device\<close>

record INTERRUPT_CONTEXT_ENTRY =
  ie_DeviceAddress :: u8
  ie_EndPointAddress :: u8
  ie_Ed :: u64
  ie_DataTd :: u64
  ie_IsSlowDevice :: bool
  ie_MaximumPacketLength :: u8
  ie_PollingInterval :: u64
  ie_CallBackFunction :: u64
  ie_Context :: u64
  ie_IsPeriodic :: bool
  ie_DataLength :: u64
  ie_UCBuffer :: u64
  ie_UCBufferMapping :: u64
  NextEntry :: u64

text \<open>
  \<open>USB_OHCI_HC_DEV\<close> with the stores its pointers point into, the task priority level and
  the rest of the world.
\<close>

record ('p, 'd) ohci =
  MemPool :: 'p
  eds :: "u64 \<rightharpoonup> ED_DESCRIPTOR"
  tds :: "u64 \<rightharpoonup> TD_DESCRIPTOR"
  HccaInterruptTable :: "nat \<Rightarrow> u32"
  IntervalList :: "nat \<Rightarrow> nat \<Rightarrow> u64"
  InterruptContextList :: u64
  contexts :: "u64 \<rightharpoonup> INTERRUPT_CONTEXT_ENTRY"
  tpl :: nat
  world :: 'd

record 'p pool_ops =
  pool_alloc :: "'p \<Rightarrow> u64 \<Rightarrow> (u64 \<times> 'p) run"
  pool_free :: "'p \<Rightarrow> u64 \<Rightarrow> u64 \<Rightarrow> 'p run"

datatype dma_map_operation = MapOperationBusMasterRead | MapOperationBusMasterWrite | MapOperationBusMasterCommonBuffer

text \<open>
  The services around the driver: the registers, the pool of \<open>UsbHcMem.c\<close>, \<open>DmaMap\<close> (number
  of bytes, device address, mapping), \<open>DmaUnmap\<close>, \<open>DmaAllocateBuffer\<close>, \<open>DmaFreeBuffer\<close>, \<open>AllocatePool\<close>,
  \<open>FreePool\<close>, \<open>CopyMem\<close> and the callbacks of asynchronous transfers. \<open>UsbHcBaseAddress\<close> and
  \<open>HccaMemoryBlock\<close> are set once, when the driver starts.
\<close>

record ('p, 'd) ohci_env =
  hc :: "('p, 'd) ohci mmio"
  UsbHcBaseAddress :: u32
  HccaMemoryBlock :: u64
  pool :: "'p pool_ops"
  dma_map :: "dma_map_operation \<Rightarrow> u64 \<Rightarrow> u64 \<Rightarrow> 'd \<Rightarrow> (efi_error + u64 \<times> u64 \<times> u64) \<times> 'd"
  dma_unmap :: "u64 \<Rightarrow> 'd \<Rightarrow> 'd"
  dma_allocate :: "u64 \<Rightarrow> 'd \<Rightarrow> (efi_error + u64) \<times> 'd"
  dma_free :: "u64 \<Rightarrow> u64 \<Rightarrow> 'd \<Rightarrow> 'd"
  AllocatePool :: "u64 \<Rightarrow> 'd \<Rightarrow> u64 \<times> 'd"
  FreePool :: "u64 \<Rightarrow> 'd \<Rightarrow> 'd"
  CopyMem :: "u64 \<Rightarrow> u64 \<Rightarrow> u64 \<Rightarrow> 'd \<Rightarrow> 'd"
  call_back :: "u64 \<Rightarrow> u64 \<Rightarrow> u64 \<Rightarrow> u64 \<Rightarrow> u32 \<Rightarrow> ('p, 'd) ohci \<Rightarrow> ('p, 'd) ohci run"

definition TPL_NOTIFY :: nat where "TPL_NOTIFY = 16"

definition RaiseTPL :: "nat \<Rightarrow> ('p, 'd) ohci \<Rightarrow> nat \<times> ('p, 'd) ohci" where
  "RaiseTPL new s = (tpl s, s\<lparr>tpl := new\<rparr>)"

definition RestoreTPL :: "nat \<Rightarrow> ('p, 'd) ohci \<Rightarrow> ('p, 'd) ohci" where
  "RestoreTPL old s = s\<lparr>tpl := old\<rparr>"

text \<open>Assignments through a pointer.\<close>

definition upd_ed :: "u64 \<Rightarrow> (ED_DESCRIPTOR \<Rightarrow> ED_DESCRIPTOR) \<Rightarrow> ('p, 'd) ohci \<Rightarrow> ('p, 'd) ohci run" where
  "upd_ed p f s = do { e \<leftarrow> eds s p; Some (s\<lparr>eds := (eds s)(p \<mapsto> f e)\<rparr>) }"

definition upd_td :: "u64 \<Rightarrow> (TD_DESCRIPTOR \<Rightarrow> TD_DESCRIPTOR) \<Rightarrow> ('p, 'd) ohci \<Rightarrow> ('p, 'd) ohci run" where
  "upd_td p f s = do { t \<leftarrow> tds s p; Some (s\<lparr>tds := (tds s)(p \<mapsto> f t)\<rparr>) }"

section \<open>Creating and freeing descriptors\<close>

text \<open>The pool clears what it hands out.\<close>

definition OhciCreateTD :: "('p, 'd) ohci_env \<Rightarrow> ('p, 'd) ohci \<Rightarrow> (u64 \<times> ('p, 'd) ohci) run" where
  "OhciCreateTD E s = do {
     (Td, q) \<leftarrow> pool_alloc (pool E) (MemPool s) sizeof_TD;
     let s = s\<lparr>MemPool := q\<rparr>;
     if Td = 0 then Some (0, s)
     else Some (Td, s\<lparr>tds := (tds s)(Td \<mapsto> zero_td\<lparr>CurrBufferPointer := 0, NextTD := 0, BufferEndPointer := 0, NextTDPointer := 0\<rparr>)\<rparr>)
   }"

definition OhciFreeTD :: "('p, 'd) ohci_env \<Rightarrow> u64 \<Rightarrow> ('p, 'd) ohci \<Rightarrow> ('p, 'd) ohci run" where
  "OhciFreeTD E Td s =
     (if Td = 0 then Some s
      else do {
        q \<leftarrow> pool_free (pool E) (MemPool s) Td sizeof_TD;
        Some (s\<lparr>MemPool := q, tds := (tds s)(Td := None)\<rparr>)
      })"

definition OhciCreateED :: "('p, 'd) ohci_env \<Rightarrow> ('p, 'd) ohci \<Rightarrow> (u64 \<times> ('p, 'd) ohci) run" where
  "OhciCreateED E s = do {
     (Ed, q) \<leftarrow> pool_alloc (pool E) (MemPool s) sizeof_ED;
     let s = s\<lparr>MemPool := q\<rparr>;
     if Ed = 0 then Some (0, s)
     else Some (Ed, s\<lparr>eds := (eds s)(Ed \<mapsto> zero_ed\<lparr>Skip := 1, TdTailPointer := 0, TdHeadPointer := 0, NextED := 0\<rparr>)\<rparr>)
   }"

definition OhciFreeED :: "('p, 'd) ohci_env \<Rightarrow> u64 \<Rightarrow> ('p, 'd) ohci \<Rightarrow> ('p, 'd) ohci run" where
  "OhciFreeED E Ed s =
     (if Ed = 0 then Some s
      else do {
        q \<leftarrow> pool_free (pool E) (MemPool s) Ed sizeof_ED;
        Some (s\<lparr>MemPool := q, eds := (eds s)(Ed := None)\<rparr>)
      })"

text \<open>The chain up to the tail descriptor, which stays.\<close>

partial_function (option) free_tds_until :: "('p, 'd) ohci_env \<Rightarrow> u64 \<Rightarrow> u64 \<Rightarrow> ('p, 'd) ohci \<Rightarrow> ('p, 'd) ohci run" where
  "free_tds_until E Td TailTd s =
     (if Td \<noteq> TailTd
      then do {
        t \<leftarrow> tds s Td;
        s \<leftarrow> OhciFreeTD E Td s;
        free_tds_until E (ucast (NextTDPointer t)) TailTd s
      }
      else Some s)"

definition OhciFreeAllTDFromED :: "('p, 'd) ohci_env \<Rightarrow> u64 \<Rightarrow> ('p, 'd) ohci \<Rightarrow> ('p, 'd) ohci run" where
  "OhciFreeAllTDFromED E Ed s =
     (if Ed = 0 then Some s
      else do {
        e \<leftarrow> eds s Ed;
        free_tds_until E (TD_PTR (TdHeadPointer e)) (ucast (TdTailPointer e)) s
      })"

section \<open>Chains of endpoint descriptors\<close>

partial_function (option) OhciFindWorkingEd :: "(u64 \<rightharpoonup> ED_DESCRIPTOR) \<Rightarrow> u64 \<Rightarrow> u8 \<Rightarrow> u8 \<Rightarrow> u8 \<Rightarrow> u64 run" where
  "OhciFindWorkingEd T Ed DeviceAddress EndPointNum EdDir =
     (if Ed = 0 then Some 0
      else do {
        e \<leftarrow> T Ed;
        if Halted e = 0 \<and> Skip e = 0 \<and> ucast (FunctionAddress e) = DeviceAddress \<and> ucast (ed_EndPointNum e) = EndPointNum \<and>
           ucast (Direction e) = EdDir
        then Some Ed
        else OhciFindWorkingEd T (ucast (NextED e)) DeviceAddress EndPointNum EdDir
      })"

definition OhciAttachED :: "u64 \<Rightarrow> u64 \<Rightarrow> ('p, 'd) ohci \<Rightarrow> (efi_status \<times> ('p, 'd) ohci) run" where
  "OhciAttachED Ed NewEd s =
     (if Ed = 0 then Some (Error EFI_INVALID_PARAMETER, s)
      else do {
        e \<leftarrow> eds s Ed;
        if NextED e = 0
        then do {
          s \<leftarrow> upd_ed Ed (\<lambda>e. e\<lparr>NextED := ucast NewEd\<rparr>) s;
          Some (EFI_SUCCESS, s)
        }
        else do {
          let Temp = NextED e;
          s \<leftarrow> upd_ed Ed (\<lambda>e. e\<lparr>NextED := ucast NewEd\<rparr>) s;
          s \<leftarrow> upd_ed NewEd (\<lambda>e. e\<lparr>NextED := Temp\<rparr>) s;
          Some (EFI_SUCCESS, s)
        }
      })"

partial_function (option) count_eds :: "(u64 \<rightharpoonup> ED_DESCRIPTOR) \<Rightarrow> u64 \<Rightarrow> u64 \<Rightarrow> u64 run" where
  "count_eds T Ed Count =
     (if Ed = 0 then Some Count else do { e \<leftarrow> T Ed; count_eds T (ucast (NextED e)) (Count + 1) })"

definition CountEdNum :: "(u64 \<rightharpoonup> ED_DESCRIPTOR) \<Rightarrow> u64 \<Rightarrow> u64 run" where
  "CountEdNum T Ed = count_eds T Ed 0"

fun find_min_list :: "(u64 \<rightharpoonup> ED_DESCRIPTOR) \<Rightarrow> u64 list \<Rightarrow> u64 \<Rightarrow> u64 \<Rightarrow> u64 run" where
  "find_min_list T [] MinEdNum TempEd = Some TempEd"
| "find_min_list T (HeadEd # Heads) MinEdNum TempEd = do {
     EdNum \<leftarrow> CountEdNum T HeadEd;
     if EdNum < MinEdNum then find_min_list T Heads EdNum HeadEd else find_min_list T Heads MinEdNum TempEd
   }"

definition OhciFindMinInterruptEDList :: "nat \<Rightarrow> ('p, 'd) ohci \<Rightarrow> u64 run" where
  "OhciFindMinInterruptEDList Depth s =
     (if Depth > 5 then Some 0
      else do {
        TempEd \<leftarrow> find_min_list (eds s) (map (IntervalList s Depth) [0..<32 div 2 ^ Depth]) 0xFFFFFFFF 0;
        assert_that (TempEd \<noteq> 0);
        Some TempEd
      })"

definition attach_to_head :: "('p, 'd) ohci_env \<Rightarrow> u32 \<Rightarrow> u64 \<Rightarrow> ('p, 'd) ohci \<Rightarrow> (u64 \<times> ('p, 'd) ohci) run" where
  "attach_to_head E PointerType Ed s =
     (let (Head, s) = OhciGetMemoryPointer (hc E) (UsbHcBaseAddress E) PointerType s;
          HeadEd = ucast Head
      in if HeadEd = 0
         then do {
           (_, s) \<leftarrow> OhciSetMemoryPointer (hc E) (UsbHcBaseAddress E) PointerType (ucast Ed) s;
           Some (Ed, s)
         }
         else do {
           (_, s) \<leftarrow> OhciAttachED HeadEd Ed s;
           Some (HeadEd, s)
         })"

definition OhciAttachEDToList ::
  "('p, 'd) ohci_env \<Rightarrow> DESCRIPTOR_LIST_TYPE \<Rightarrow> u64 \<Rightarrow> u64 \<Rightarrow> ('p, 'd) ohci \<Rightarrow> (u64 \<times> ('p, 'd) ohci) run" where
  "OhciAttachEDToList E ListType Ed EdList s =
     (case ListType of
        CONTROL_LIST \<Rightarrow> attach_to_head E HC_CONTROL_HEAD Ed s
      | BULK_LIST \<Rightarrow> attach_to_head E HC_BULK_HEAD Ed s
      | INTERRUPT_LIST \<Rightarrow> do { (_, s) \<leftarrow> OhciAttachED EdList Ed s; Some (0, s) }
      | ISOCHRONOUS_LIST \<Rightarrow> None)"

section \<open>The interrupt tree\<close>

definition Leaf :: "nat list" where
  "Leaf = [0, 16, 8, 24, 4, 20, 12, 28, 2, 18, 10, 26, 6, 22, 14, 30, 1, 17,
           9, 25, 5, 21, 13, 29, 3, 19, 11, 27, 7, 23, 15, 31]"

text \<open>The leaves, whose addresses go to the table; \<open>None\<close> of the inner option is the early return.\<close>

fun create_leaves :: "('p, 'd) ohci_env \<Rightarrow> nat list \<Rightarrow> ('p, 'd) ohci \<Rightarrow> (efi_status \<times> ('p, 'd) ohci) run" where
  "create_leaves E [] s = Some (EFI_SUCCESS, s)"
| "create_leaves E (Index # Indices) s = do {
     (NewEd, s) \<leftarrow> OhciCreateED E s;
     if NewEd = 0 then Some (Error EFI_OUT_OF_RESOURCES, s)
     else create_leaves E Indices (s\<lparr>HccaInterruptTable := (HccaInterruptTable s)(Index := ucast NewEd)\<rparr>)
   }"

definition set_interval :: "nat \<Rightarrow> nat \<Rightarrow> u64 \<Rightarrow> ('p, 'd) ohci \<Rightarrow> ('p, 'd) ohci" where
  "set_interval Level Index Ed s = s\<lparr>IntervalList := (IntervalList s)(Level := (IntervalList s Level)(Index := Ed))\<rparr>"

definition list_leaves :: "('p, 'd) ohci \<Rightarrow> ('p, 'd) ohci" where
  "list_leaves s = fold (\<lambda>Index s. set_interval 0 Index (ucast (HccaInterruptTable s (Leaf ! Index))) s) [0..<32] s"

text \<open>The inner nodes, level by level; the check after an allocation looks at the table, not at the node.\<close>

definition create_node :: "('p, 'd) ohci_env \<Rightarrow> nat \<Rightarrow> nat \<Rightarrow> ('p, 'd) ohci \<Rightarrow> (efi_status \<times> ('p, 'd) ohci) run" where
  "create_node E Level Index s = do {
     (NewEd, s) \<leftarrow> OhciCreateED E s;
     let s = set_interval Level Index NewEd s;
     if HccaInterruptTable s Index = 0 then Some (Error EFI_OUT_OF_RESOURCES, s)
     else do {
       s \<leftarrow> upd_ed (IntervalList s (Level - 1) (Index * 2)) (\<lambda>e. e\<lparr>NextED := ucast (IntervalList s Level Index)\<rparr>) s;
       s \<leftarrow> upd_ed (IntervalList s (Level - 1) (Index * 2 + 1)) (\<lambda>e. e\<lparr>NextED := ucast (IntervalList s Level Index)\<rparr>) s;
       Some (EFI_SUCCESS, s)
     }
   }"

fun create_nodes :: "('p, 'd) ohci_env \<Rightarrow> (nat \<times> nat) list \<Rightarrow> ('p, 'd) ohci \<Rightarrow> (efi_status \<times> ('p, 'd) ohci) run" where
  "create_nodes E [] s = Some (EFI_SUCCESS, s)"
| "create_nodes E ((Level, Index) # Nodes) s = do {
     (Status, s) \<leftarrow> create_node E Level Index s;
     if EFI_ERROR Status then Some (Status, s) else create_nodes E Nodes s
   }"

definition tree_nodes :: "(nat \<times> nat) list" where
  "tree_nodes = concat (map (\<lambda>Level. map (Pair Level) [0..<32 div 2 ^ Level]) [1..<6])"

definition OhciInitializeInterruptList :: "('p, 'd) ohci_env \<Rightarrow> ('p, 'd) ohci \<Rightarrow> (efi_status \<times> ('p, 'd) ohci) run" where
  "OhciInitializeInterruptList E s = do {
     (Status, s) \<leftarrow> create_leaves E [0..<32] s;
     if EFI_ERROR Status then Some (Status, s)
     else create_nodes E tree_nodes (list_leaves s)
   }"

section \<open>Removing interrupt endpoints\<close>

text \<open>One chain: unlink and free every successor that matches.\<close>

partial_function (option) unlink_eds ::
  "('p, 'd) ohci_env \<Rightarrow> (u64 \<Rightarrow> ED_DESCRIPTOR \<Rightarrow> bool) \<Rightarrow> u64 \<Rightarrow> ('p, 'd) ohci \<Rightarrow> ('p, 'd) ohci run" where
  "unlink_eds E matches Ed s = do {
     e \<leftarrow> eds s Ed;
     if NextED e \<noteq> 0
     then do {
       let TempEd = ucast (NextED e);
       t \<leftarrow> eds s TempEd;
       if matches TempEd t
       then do {
         s \<leftarrow> upd_ed Ed (\<lambda>e. e\<lparr>NextED := NextED t\<rparr>) s;
         s \<leftarrow> OhciFreeED E TempEd s;
         unlink_eds E matches Ed s
       }
       else unlink_eds E matches TempEd s
     }
     else Some s
   }"

fun unlink_all ::
  "('p, 'd) ohci_env \<Rightarrow> (u64 \<Rightarrow> ED_DESCRIPTOR \<Rightarrow> bool) \<Rightarrow> nat list \<Rightarrow> ('p, 'd) ohci \<Rightarrow> ('p, 'd) ohci run" where
  "unlink_all E matches [] s = Some s"
| "unlink_all E matches (Index # Indices) s =
     (let Ed = ucast (HccaInterruptTable s Index)
      in if Ed = 0 then unlink_all E matches Indices s
         else do {
           s \<leftarrow> unlink_eds E matches Ed s;
           unlink_all E matches Indices s
         })"

definition OhciFreeInterruptEdByEd :: "('p, 'd) ohci_env \<Rightarrow> u64 \<Rightarrow> ('p, 'd) ohci \<Rightarrow> (efi_status \<times> ('p, 'd) ohci) run" where
  "OhciFreeInterruptEdByEd E IntEd s =
     (if IntEd = 0 then Some (EFI_SUCCESS, s)
      else do {
        s \<leftarrow> unlink_all E (\<lambda>p t. (ucast p :: u32) = ucast IntEd) [0..<32] s;
        Some (EFI_SUCCESS, s)
      })"

definition OhciFreeInterruptEdByAddr :: "('p, 'd) ohci_env \<Rightarrow> u8 \<Rightarrow> u8 \<Rightarrow> ('p, 'd) ohci \<Rightarrow> (efi_status \<times> ('p, 'd) ohci) run" where
  "OhciFreeInterruptEdByAddr E Address EndPointNum s = do {
     s \<leftarrow> unlink_all E (\<lambda>p t. ucast (FunctionAddress t) = Address \<and> ucast (ed_EndPointNum t) = EndPointNum) [0..<32] s;
     Some (EFI_SUCCESS, s)
   }"

section \<open>Chains of transfer descriptors\<close>

partial_function (option) last_td :: "(u64 \<rightharpoonup> TD_DESCRIPTOR) \<Rightarrow> u64 \<Rightarrow> u64 run" where
  "last_td T Td = do { t \<leftarrow> T Td; if NextTD t \<noteq> 0 then last_td T (ucast (NextTD t)) else Some Td }"

definition append_td :: "u64 \<Rightarrow> u64 \<Rightarrow> ('p, 'd) ohci \<Rightarrow> ('p, 'd) ohci run" where
  "append_td Td1 Td2 s = do {
     TempTd \<leftarrow> last_td (tds s) Td1;
     upd_td TempTd (\<lambda>t. t\<lparr>NextTD := ucast Td2, NextTDPointer := ucast Td2\<rparr>) s
   }"

definition OhciLinkTD :: "u64 \<Rightarrow> u64 \<Rightarrow> ('p, 'd) ohci \<Rightarrow> (efi_status \<times> ('p, 'd) ohci) run" where
  "OhciLinkTD Td1 Td2 s =
     (if Td1 = 0 then Some (Error EFI_INVALID_PARAMETER, s)
      else if Td1 = Td2 then Some (EFI_SUCCESS, s)
      else do { s \<leftarrow> append_td Td1 Td2 s; Some (EFI_SUCCESS, s) })"

definition OhciAttachTDListToED :: "u64 \<Rightarrow> u64 \<Rightarrow> ('p, 'd) ohci \<Rightarrow> ('p, 'd) ohci run" where
  "OhciAttachTDListToED Ed HeadTd s = do {
     e \<leftarrow> eds s Ed;
     let TempTd = TD_PTR (TdHeadPointer e);
     if TempTd \<noteq> 0 then append_td TempTd HeadTd s
     else upd_ed Ed (\<lambda>e. e\<lparr>TdHeadPointer := ucast (RIGHT_SHIFT_4 (ucast HeadTd))\<rparr>) s
   }"

text \<open>The loop that frees a chain through the driver's own links, used wherever a transfer is taken down.\<close>

partial_function (option) free_td_chain :: "('p, 'd) ohci_env \<Rightarrow> u64 \<Rightarrow> ('p, 'd) ohci \<Rightarrow> ('p, 'd) ohci run" where
  "free_td_chain E HeadTd s =
     (if HeadTd = 0 then Some s
      else do {
        t \<leftarrow> tds s HeadTd;
        s \<leftarrow> OhciFreeTD E HeadTd s;
        free_td_chain E (ucast (NextTDPointer t)) s
      })"

text \<open>The loops run: their equations are code.\<close>

declare free_tds_until.simps [code]
  OhciFindWorkingEd.simps [code]
  count_eds.simps [code]
  unlink_eds.simps [code]
  last_td.simps [code]
  free_td_chain.simps [code]

end
