(* ===== verification/OhciSched.thy ===== *)
theory OhciSched
  imports OhciUrb
begin

text \<open>
  Scheduling of the OHCI driver (\<open>Drivers/OhciDxe/OhciSched.c\<close>): the list of interrupt contexts, the
  results of a chain of transfer descriptors, and the timer that resubmits periodic transfers. The
  loops over pointers may not end or run into a wild pointer; both are \<open>None\<close>.
\<close>

definition EFI_USB_NOERROR :: u32 where "EFI_USB_NOERROR = 0x00"
definition EFI_USB_ERR_NOTEXECUTE :: u32 where "EFI_USB_ERR_NOTEXECUTE = 0x01"
definition EFI_USB_ERR_STALL :: u32 where "EFI_USB_ERR_STALL = 0x02"
definition EFI_USB_ERR_BUFFER :: u32 where "EFI_USB_ERR_BUFFER = 0x04"
definition EFI_USB_ERR_CRC :: u32 where "EFI_USB_ERR_CRC = 0x20"
definition EFI_USB_ERR_TIMEOUT :: u32 where "EFI_USB_ERR_TIMEOUT = 0x40"
definition EFI_USB_ERR_BITSTUFF :: u32 where "EFI_USB_ERR_BITSTUFF = 0x80"
definition EFI_USB_ERR_SYSTEM :: u32 where "EFI_USB_ERR_SYSTEM = 0x100"

section \<open>Interrupt contexts\<close>

partial_function (option) last_entry :: "(u64 \<rightharpoonup> INTERRUPT_CONTEXT_ENTRY) \<Rightarrow> u64 \<Rightarrow> u64 run" where
  "last_entry T Entry = do { c \<leftarrow> T Entry; if NextEntry c \<noteq> 0 then last_entry T (NextEntry c) else Some Entry }"

definition upd_entry ::
  "u64 \<Rightarrow> (INTERRUPT_CONTEXT_ENTRY \<Rightarrow> INTERRUPT_CONTEXT_ENTRY) \<Rightarrow> ('p, 'd) ohci \<Rightarrow> ('p, 'd) ohci run" where
  "upd_entry p f s = do { c \<leftarrow> contexts s p; Some (s\<lparr>contexts := (contexts s)(p \<mapsto> f c)\<rparr>) }"

definition OhciAddInterruptContextEntry :: "u64 \<Rightarrow> ('p, 'd) ohci \<Rightarrow> (efi_status \<times> ('p, 'd) ohci) run" where
  "OhciAddInterruptContextEntry NewEntry s = do {
     let (OriginalTPL, s) = RaiseTPL TPL_NOTIFY s;
     s \<leftarrow> (if InterruptContextList s = 0 then Some (s\<lparr>InterruptContextList := NewEntry\<rparr>)
          else do {
            Entry \<leftarrow> last_entry (contexts s) (InterruptContextList s);
            upd_entry Entry (\<lambda>c. c\<lparr>NextEntry := NewEntry\<rparr>) s
          });
     Some (EFI_SUCCESS, RestoreTPL OriginalTPL s)
   }"

definition EFI_SIZE_TO_PAGES :: "u64 \<Rightarrow> u64" where
  "EFI_SIZE_TO_PAGES n = drop_bit 12 n + (if n AND 0xFFF \<noteq> 0 then 1 else 0)"

definition on_world :: "('d \<Rightarrow> 'd) \<Rightarrow> ('p, 'd) ohci \<Rightarrow> ('p, 'd) ohci" where
  "on_world f s = s\<lparr>world := f (world s)\<rparr>"

definition OhciFreeInterruptContextEntry ::
  "('p, 'd) ohci_env \<Rightarrow> u64 \<Rightarrow> ('p, 'd) ohci \<Rightarrow> (efi_status \<times> ('p, 'd) ohci) run" where
  "OhciFreeInterruptContextEntry E Entry s =
     (if Entry = 0 then Some (Error EFI_INVALID_PARAMETER, s)
      else do {
        c \<leftarrow> contexts s Entry;
        let s = (if ie_UCBufferMapping c \<noteq> 0 then on_world (dma_unmap E (ie_UCBufferMapping c)) s else s);
        let s = (if ie_UCBuffer c \<noteq> 0
                 then on_world (dma_free E (EFI_SIZE_TO_PAGES (ie_DataLength c)) (ie_UCBuffer c)) s else s);
        s \<leftarrow> free_td_chain E (ie_DataTd c) s;
        Some (EFI_SUCCESS, on_world (FreePool E Entry) (s\<lparr>contexts := (contexts s)(Entry := None)\<rparr>))
      })"

text \<open>The toggle the caller passed a pointer for, if any, is overwritten for every entry removed.\<close>

definition save_toggle :: "u64 \<Rightarrow> u8 option \<Rightarrow> ('p, 'd) ohci \<Rightarrow> u8 option run" where
  "save_toggle Entry DataToggle s =
     (case DataToggle of
        None \<Rightarrow> Some None
      | Some _ \<Rightarrow> do {
          c \<leftarrow> contexts s Entry;
          t \<leftarrow> tds s (ie_DataTd c);
          Some (Some (ucast (td_DataToggle t) AND 1))
        })"

definition entry_matches :: "u8 \<Rightarrow> u8 \<Rightarrow> INTERRUPT_CONTEXT_ENTRY \<Rightarrow> bool" where
  "entry_matches Address EndPoint c \<longleftrightarrow> ie_DeviceAddress c = Address \<and> ie_EndPointAddress c = EndPoint"

partial_function (option) free_first_entries ::
  "('p, 'd) ohci_env \<Rightarrow> u8 \<Rightarrow> u8 \<Rightarrow> u8 option \<Rightarrow> ('p, 'd) ohci \<Rightarrow> (u8 option \<times> ('p, 'd) ohci) run" where
  "free_first_entries E Address EndPoint DataToggle s =
     (let TempEntry = InterruptContextList s
      in if TempEntry = 0 then Some (DataToggle, s)
         else do {
           c \<leftarrow> contexts s TempEntry;
           if entry_matches Address EndPoint c
           then do {
             let s = s\<lparr>InterruptContextList := NextEntry c\<rparr>;
             DataToggle \<leftarrow> save_toggle TempEntry DataToggle s;
             (_, s) \<leftarrow> OhciFreeInterruptContextEntry E TempEntry s;
             free_first_entries E Address EndPoint DataToggle s
           }
           else Some (DataToggle, s)
         })"

partial_function (option) free_next_entries ::
  "('p, 'd) ohci_env \<Rightarrow> u8 \<Rightarrow> u8 \<Rightarrow> u64 \<Rightarrow> u8 option \<Rightarrow> ('p, 'd) ohci \<Rightarrow> (u8 option \<times> ('p, 'd) ohci) run" where
  "free_next_entries E Address EndPoint Entry DataToggle s = do {
     c \<leftarrow> contexts s Entry;
     if NextEntry c = 0 then Some (DataToggle, s)
     else do {
       let TempEntry = NextEntry c;
       n \<leftarrow> contexts s TempEntry;
       if entry_matches Address EndPoint n
       then do {
         s \<leftarrow> upd_entry Entry (\<lambda>c. c\<lparr>NextEntry := NextEntry n\<rparr>) s;
         DataToggle \<leftarrow> save_toggle TempEntry DataToggle s;
         (_, s) \<leftarrow> OhciFreeInterruptContextEntry E TempEntry s;
         free_next_entries E Address EndPoint Entry DataToggle s
       }
       else free_next_entries E Address EndPoint TempEntry DataToggle s
     }
   }"

definition OhciFreeInterruptContext ::
  "('p, 'd) ohci_env \<Rightarrow> u8 \<Rightarrow> u8 \<Rightarrow> u8 option \<Rightarrow> ('p, 'd) ohci \<Rightarrow> (efi_status \<times> u8 option \<times> ('p, 'd) ohci) run" where
  "OhciFreeInterruptContext E Address EndPoint DataToggle s = do {
     let (OriginalTPL, s) = RaiseTPL TPL_NOTIFY s;
     (DataToggle, s) \<leftarrow> free_first_entries E Address EndPoint DataToggle s;
     let Entry = InterruptContextList s;
     if Entry = 0 then Some (EFI_SUCCESS, DataToggle, RestoreTPL OriginalTPL s)
     else do {
       (DataToggle, s) \<leftarrow> free_next_entries E Address EndPoint Entry DataToggle s;
       Some (EFI_SUCCESS, DataToggle, RestoreTPL OriginalTPL s)
     }
   }"

text \<open>
  \<open>OhciFreeDynamicIntMemory\<close>, \<open>OhciFreeFixedIntMemory\<close> and \<open>OhciFreeIntTransferMemory\<close> of
  \<open>OhciUrb.c\<close>, which use the contexts. \<open>Ohc\<close> is never NULL where they are called.
\<close>

partial_function (option) OhciFreeDynamicIntMemory :: "('p, 'd) ohci_env \<Rightarrow> ('p, 'd) ohci \<Rightarrow> ('p, 'd) ohci run" where
  "OhciFreeDynamicIntMemory E s =
     (let Entry = InterruptContextList s
      in if Entry = 0 then Some s
         else do {
           c \<leftarrow> contexts s Entry;
           let s = s\<lparr>InterruptContextList := NextEntry c\<rparr>;
           (_, s) \<leftarrow> OhciFreeInterruptEdByEd E (ie_Ed c) s;
           (_, s) \<leftarrow> OhciFreeInterruptContextEntry E Entry s;
           OhciFreeDynamicIntMemory E s
         })"

definition fixed_nodes :: "(nat \<times> nat) list" where
  "fixed_nodes = concat (map (\<lambda>Level. map (Pair Level) [0..<[32, 16, 8, 4, 2, 1] ! Level]) [0..<6])"

fun free_nodes :: "('p, 'd) ohci_env \<Rightarrow> (nat \<times> nat) list \<Rightarrow> ('p, 'd) ohci \<Rightarrow> ('p, 'd) ohci run" where
  "free_nodes E [] s = Some s"
| "free_nodes E ((Level, Index) # Nodes) s = do {
     s \<leftarrow> (if IntervalList s Level Index \<noteq> 0 then OhciFreeED E (IntervalList s Level Index) s else Some s);
     free_nodes E Nodes s
   }"

definition OhciFreeFixedIntMemory :: "('p, 'd) ohci_env \<Rightarrow> ('p, 'd) ohci \<Rightarrow> ('p, 'd) ohci run" where
  "OhciFreeFixedIntMemory E s = free_nodes E fixed_nodes s"

definition OhciFreeIntTransferMemory :: "('p, 'd) ohci_env \<Rightarrow> ('p, 'd) ohci \<Rightarrow> (efi_status \<times> ('p, 'd) ohci) run" where
  "OhciFreeIntTransferMemory E s = do {
     s \<leftarrow> OhciFreeDynamicIntMemory E s;
     s \<leftarrow> OhciFreeFixedIntMemory E s;
     Some (EFI_SUCCESS, s)
   }"

section \<open>Results\<close>

definition ConvertErrorCode :: "u32 \<Rightarrow> u32" where
  "ConvertErrorCode ErrorCode =
     (if ErrorCode = TD_NO_ERROR then EFI_USB_NOERROR
      else if ErrorCode = TD_TOBE_PROCESSED \<or> ErrorCode = TD_TOBE_PROCESSED_2 then EFI_USB_ERR_NOTEXECUTE
      else if ErrorCode = TD_DEVICE_STALL then EFI_USB_ERR_STALL
      else if ErrorCode = TD_BUFFER_OVERRUN \<or> ErrorCode = TD_BUFFER_UNDERRUN then EFI_USB_ERR_BUFFER
      else if ErrorCode = TD_CRC_ERROR then EFI_USB_ERR_CRC
      else if ErrorCode = TD_NO_RESPONSE then EFI_USB_ERR_TIMEOUT
      else if ErrorCode = TD_BITSTUFFING_ERROR then EFI_USB_ERR_BITSTUFF
      else EFI_USB_ERR_SYSTEM)"

partial_function (option) check_tds :: "(u64 \<rightharpoonup> TD_DESCRIPTOR) \<Rightarrow> u64 \<Rightarrow> u32 \<Rightarrow> (bool \<times> u32) run" where
  "check_tds T Td Result =
     (if Td = 0 then Some (True, Result)
      else do {
        t \<leftarrow> T Td;
        let Result = Result OR ConvertErrorCode (ucast (ConditionCode t));
        if Result \<noteq> 0 then Some (False, Result) else check_tds T (ucast (NextTDPointer t)) Result
      })"

definition OhciCheckTDsResults :: "(u64 \<rightharpoonup> TD_DESCRIPTOR) \<Rightarrow> u64 \<Rightarrow> (bool \<times> u32) run" where
  "OhciCheckTDsResults T Td = check_tds T Td EFI_USB_NOERROR"

record OHCI_ED_RESULT =
  ErrorCode :: u32
  NextToggle :: u8

text \<open>The last descriptor of the chain, the empty one, ends the walk.\<close>

partial_function (option) CheckEDStatus ::
  "('p, 'd) ohci \<Rightarrow> u64 \<Rightarrow> u64 \<Rightarrow> OHCI_ED_RESULT \<Rightarrow> (u32 \<times> OHCI_ED_RESULT) run" where
  "CheckEDStatus s Ed HeadTd EdResult =
     (if HeadTd \<noteq> 0
      then do {
        t \<leftarrow> tds s HeadTd;
        if NextTDPointer t = 0 then Some (TD_NO_ERROR, EdResult)
        else if ConditionCode t \<noteq> 0 then Some (ucast (ConditionCode t), EdResult)
        else CheckEDStatus s Ed (ucast (NextTDPointer t))
               (EdResult\<lparr>NextToggle := (ucast (td_DataToggle t) AND 1) XOR 1\<rparr>)
      }
      else do {
        e \<leftarrow> eds s Ed;
        h \<leftarrow> OhciGetEDField e ED_TDHEAD_PTR;
        t \<leftarrow> OhciGetEDField e ED_TDTAIL_PTR;
        Some (if h \<noteq> t then TD_TOBE_PROCESSED else TD_NO_ERROR, EdResult)
      })"

text \<open>Whether the controller still has the list to process.\<close>

definition list_filled :: "('p, 'd) ohci_env \<Rightarrow> DESCRIPTOR_LIST_TYPE \<Rightarrow> ('p, 'd) ohci \<Rightarrow> (bool \<times> ('p, 'd) ohci) run" where
  "list_filled E ListType s =
     (if ListType = CONTROL_LIST
      then do { (v, s) \<leftarrow> OhciGetHcCommandStatus (hc E) (UsbHcBaseAddress E) CONTROL_LIST_FILLED s; Some (v \<noteq> 0, s) }
      else if ListType = BULK_LIST
      then do { (v, s) \<leftarrow> OhciGetHcCommandStatus (hc E) (UsbHcBaseAddress E) BULK_LIST_FILLED s; Some (v \<noteq> 0, s) }
      else Some (False, s))"

definition CheckIfDone ::
  "('p, 'd) ohci_env \<Rightarrow> DESCRIPTOR_LIST_TYPE \<Rightarrow> u64 \<Rightarrow> u64 \<Rightarrow> OHCI_ED_RESULT \<Rightarrow> ('p, 'd) ohci \<Rightarrow>
     (efi_status \<times> OHCI_ED_RESULT \<times> ('p, 'd) ohci) run" where
  "CheckIfDone E ListType Ed HeadTd EdResult s = do {
     let EdResult = EdResult\<lparr>ErrorCode := TD_TOBE_PROCESSED\<rparr>;
     (filled, s) \<leftarrow> list_filled E ListType s;
     if filled then Some (Error EFI_NOT_READY, EdResult, s)
     else do {
       (Code, EdResult) \<leftarrow> CheckEDStatus s Ed HeadTd EdResult;
       let EdResult = EdResult\<lparr>ErrorCode := Code\<rparr>;
       Some (if Code = TD_NO_ERROR then EFI_SUCCESS
             else if Code = TD_TOBE_PROCESSED then Error EFI_NOT_READY
             else Error EFI_DEVICE_ERROR, EdResult, s)
     }
   }"

definition OhciTDConditionCodeToStatus :: "u32 \<Rightarrow> efi_status" where
  "OhciTDConditionCodeToStatus Code =
     (if Code = TD_NO_ERROR then EFI_SUCCESS
      else if Code = TD_TOBE_PROCESSED then Error EFI_NOT_READY
      else Error EFI_DEVICE_ERROR)"

section \<open>The timer\<close>

definition OhciInvokeInterruptCallBack ::
  "('p, 'd) ohci_env \<Rightarrow> INTERRUPT_CONTEXT_ENTRY \<Rightarrow> u32 \<Rightarrow> ('p, 'd) ohci \<Rightarrow> ('p, 'd) ohci run" where
  "OhciInvokeInterruptCallBack E c Result s =
     (if Result \<noteq> 0 then call_back E (ie_CallBackFunction c) 0 0 (ie_Context c) Result s
      else do {
        t \<leftarrow> tds s (ie_DataTd c);
        call_back E (ie_CallBackFunction c) (ucast (td_DataBuffer t)) (ucast (td_ActualSendLength t)) (ie_Context c) Result s
      })"

text \<open>The two passes over a completed chain: toggles, then everything the controller has changed.\<close>

partial_function (option) restore_toggles :: "u64 \<Rightarrow> u8 \<Rightarrow> ('p, 'd) ohci \<Rightarrow> ('p, 'd) ohci run" where
  "restore_toggles DataTd Toggle s =
     (if DataTd = 0 then Some s
      else do {
        t \<leftarrow> tds s DataTd;
        if NextTDPointer t = 0 then upd_td DataTd (\<lambda>t. t\<lparr>td_DataToggle := 0\<rparr>) s
        else do {
          s \<leftarrow> upd_td DataTd (OhciSetTDField TD_DT_TOGGLE (ucast Toggle)) s;
          restore_toggles (ucast (NextTDPointer t)) (Toggle XOR 1) s
        }
      })"

partial_function (option) restore_tds :: "u64 \<Rightarrow> ('p, 'd) ohci \<Rightarrow> (u64 \<times> ('p, 'd) ohci) run" where
  "restore_tds DataTd s =
     (if DataTd = 0 then Some (0, s)
      else do {
        t \<leftarrow> tds s DataTd;
        if NextTDPointer t = 0
        then do {
          s \<leftarrow> upd_td DataTd (OhciSetTDField (TD_ERROR_CNT OR TD_COND_CODE OR TD_CURR_BUFFER_PTR OR TD_NEXT_PTR) 0) s;
          Some (DataTd, s)
        }
        else do {
          s \<leftarrow> upd_td DataTd (\<lambda>t.
                 let t = OhciSetTDField TD_ERROR_CNT 0 t;
                     t = OhciSetTDField TD_COND_CODE TD_TOBE_PROCESSED t
                 in t\<lparr>NextTD := NextTDPointer t, CurrBufferPointer := td_DataBuffer t\<rparr>) s;
          restore_tds (ucast (NextTDPointer t)) s
        }
      })"

definition resubmit :: "INTERRUPT_CONTEXT_ENTRY \<Rightarrow> ('p, 'd) ohci \<Rightarrow> ('p, 'd) ohci run" where
  "resubmit c s = do {
     let Ed = ie_Ed c;
     let HeadTd = ie_DataTd c;
     s \<leftarrow> (if HeadTd \<noteq> 0 then upd_ed Ed (\<lambda>e. e\<lparr>Skip := 1\<rparr>) s else Some s);
     e \<leftarrow> eds s Ed;
     t \<leftarrow> OhciGetEDField e ED_DTTOGGLE;
     s \<leftarrow> restore_toggles HeadTd (ucast t) s;
     (DataTd, s) \<leftarrow> restore_tds HeadTd s;
     if DataTd \<noteq> 0
     then upd_ed Ed (\<lambda>e. (OhciSetEDField (ED_HALTED OR ED_DTTOGGLE) 0
                            (e\<lparr>TdHeadPointer := ucast (ucast (drop_bit 4 HeadTd) :: u32)\<rparr>))\<lparr>Skip := 0\<rparr>) s
     else Some s
   }"

text \<open>
  The returns on a missing endpoint or an error of a periodic entry leave the priority level raised.
  In the branch for other entries \<open>PreEntry = Entry\<close> makes the unlinking an assignment to the entry that
  is then freed, and with no entry before it the freeing is called with NULL.
\<close>

partial_function (option) keep_house ::
  "('p, 'd) ohci_env \<Rightarrow> nat \<Rightarrow> u64 \<Rightarrow> u64 \<Rightarrow> ('p, 'd) ohci \<Rightarrow> ('p, 'd) ohci run" where
  "keep_house E OriginalTPL PreEntry Entry s =
     (if Entry = 0 then Some (RestoreTPL OriginalTPL s)
      else do {
        c \<leftarrow> contexts s Entry;
        (_, Result) \<leftarrow> OhciCheckTDsResults (tds s) (ie_DataTd c);
        if Result AND EFI_USB_ERR_STALL = EFI_USB_ERR_STALL \<or> Result AND EFI_USB_ERR_NOTEXECUTE = EFI_USB_ERR_NOTEXECUTE
        then keep_house E OriginalTPL Entry (NextEntry c) s
        else do {
          s \<leftarrow> (if ie_CallBackFunction c \<noteq> 0 then OhciInvokeInterruptCallBack E c Result s else Some s);
          if ie_CallBackFunction c \<noteq> 0 \<and> InterruptContextList s = 0 then Some (RestoreTPL OriginalTPL s)
          else do {
            c \<leftarrow> contexts s Entry;
            if ie_IsPeriodic c
            then if Result = EFI_USB_NOERROR
                 then if ie_Ed c = 0 then Some s
                      else do {
                        s \<leftarrow> resubmit c s;
                        c \<leftarrow> contexts s Entry;
                        keep_house E OriginalTPL Entry (NextEntry c) s
                      }
                 else Some s
            else if PreEntry = 0
            then do {
              (_, s) \<leftarrow> OhciFreeInterruptContextEntry E 0 (s\<lparr>InterruptContextList := NextEntry c\<rparr>);
              Some (RestoreTPL OriginalTPL s)
            }
            else do {
              s \<leftarrow> upd_entry Entry (\<lambda>c. c\<lparr>NextEntry := NextEntry c\<rparr>) s;
              (_, s) \<leftarrow> OhciFreeInterruptContextEntry E Entry s;
              Some (RestoreTPL OriginalTPL s)
            }
          }
        }
      })"

definition OhciHouseKeeper :: "('p, 'd) ohci_env \<Rightarrow> ('p, 'd) ohci \<Rightarrow> ('p, 'd) ohci run" where
  "OhciHouseKeeper E s =
     (let (OriginalTPL, s) = RaiseTPL TPL_NOTIFY s
      in keep_house E OriginalTPL 0 (InterruptContextList s) s)"

text \<open>The loops run: their equations are code.\<close>

declare last_entry.simps [code]
  free_first_entries.simps [code]
  free_next_entries.simps [code]
  OhciFreeDynamicIntMemory.simps [code]
  check_tds.simps [code]
  CheckEDStatus.simps [code]
  restore_toggles.simps [code]
  restore_tds.simps [code]
  keep_house.simps [code]

end
