(* ===== verification/OhciHub.thy ===== *)
theory OhciHub
  imports OhciSched
begin

text \<open>
  The host controller protocol of the OHCI driver but for its transfers (\<open>Drivers/OhciDxe/Ohci.c\<close>):
  capabilities, reset, state, root hub ports, and starting and stopping the driver. A pointer argument
  that may be NULL is an option, or a truth value where only its presence matters.

  The status of an operation on a port or on the state is what \<open>MmioWrite32\<close> returned: the word written.
\<close>

definition EFI_USB_HC_RESET_GLOBAL :: u16 where "EFI_USB_HC_RESET_GLOBAL = 0x0001"
definition EFI_USB_HC_RESET_HOST_CONTROLLER :: u16 where "EFI_USB_HC_RESET_HOST_CONTROLLER = 0x0002"
definition EFI_USB_SPEED_FULL :: u8 where "EFI_USB_SPEED_FULL = 0x0000"
definition EFI_USB_SPEED_LOW :: u8 where "EFI_USB_SPEED_LOW = 0x0001"
definition MAX_RETRY_TIMES :: nat where "MAX_RETRY_TIMES = 100"

datatype EFI_USB_HC_STATE = EfiUsbHcStateHalt | EfiUsbHcStateOperational | EfiUsbHcStateSuspend | EfiUsbHcStateMaximum

datatype EFI_USB_PORT_FEATURE =
    EfiUsbPortEnable | EfiUsbPortSuspend | EfiUsbPortReset | EfiUsbPortPower | EfiUsbPortOwner
  | EfiUsbPortConnectChange | EfiUsbPortEnableChange | EfiUsbPortSuspendChange | EfiUsbPortOverCurrentChange
  | EfiUsbPortResetChange

definition USB_PORT_STAT_CONNECTION :: u16 where "USB_PORT_STAT_CONNECTION = 0x0001"
definition USB_PORT_STAT_ENABLE :: u16 where "USB_PORT_STAT_ENABLE = 0x0002"
definition USB_PORT_STAT_SUSPEND :: u16 where "USB_PORT_STAT_SUSPEND = 0x0004"
definition USB_PORT_STAT_OVERCURRENT :: u16 where "USB_PORT_STAT_OVERCURRENT = 0x0008"
definition USB_PORT_STAT_RESET :: u16 where "USB_PORT_STAT_RESET = 0x0010"
definition USB_PORT_STAT_POWER :: u16 where "USB_PORT_STAT_POWER = 0x0100"
definition USB_PORT_STAT_LOW_SPEED :: u16 where "USB_PORT_STAT_LOW_SPEED = 0x0200"
definition USB_PORT_STAT_C_CONNECTION :: u16 where "USB_PORT_STAT_C_CONNECTION = 0x0001"
definition USB_PORT_STAT_C_ENABLE :: u16 where "USB_PORT_STAT_C_ENABLE = 0x0002"
definition USB_PORT_STAT_C_SUSPEND :: u16 where "USB_PORT_STAT_C_SUSPEND = 0x0004"
definition USB_PORT_STAT_C_OVERCURRENT :: u16 where "USB_PORT_STAT_C_OVERCURRENT = 0x0008"
definition USB_PORT_STAT_C_RESET :: u16 where "USB_PORT_STAT_C_RESET = 0x0010"

section \<open>Capabilities and state\<close>

definition OhciGetCapability ::
  "('p, 'd) ohci_env \<Rightarrow> bool \<Rightarrow> bool \<Rightarrow> bool \<Rightarrow> ('p, 'd) ohci \<Rightarrow>
     (efi_status \<times> u8 option \<times> u8 option \<times> bool option \<times> ('p, 'd) ohci) run" where
  "OhciGetCapability E MaxSpeed PortNumber Is64BitCapable s =
     (if \<not> MaxSpeed \<and> \<not> PortNumber \<and> \<not> Is64BitCapable then Some (Error EFI_INVALID_PARAMETER, None, None, None, s)
      else do {
        (ports, s) \<leftarrow> (if PortNumber
                       then do {
                         (v, s) \<leftarrow> OhciGetRootHubDescriptor (hc E) (UsbHcBaseAddress E) RH_NUM_DS_PORTS s;
                         Some (Some (ucast v), s)
                       }
                       else Some (None, s));
        Some (EFI_SUCCESS, if MaxSpeed then Some EFI_USB_SPEED_FULL else None, ports,
              if Is64BitCapable then Some False else None, s)
      })"

definition num_of_ports :: "('p, 'd) ohci_env \<Rightarrow> ('p, 'd) ohci \<Rightarrow> (u8 \<times> ('p, 'd) ohci) run" where
  "num_of_ports E s = do {
     (_, _, ports, _, s) \<leftarrow> OhciGetCapability E False True False s;
     n \<leftarrow> ports;
     Some (n, s)
   }"

definition OhciGetState :: "('p, 'd) ohci_env \<Rightarrow> bool \<Rightarrow> ('p, 'd) ohci \<Rightarrow> (efi_status \<times> EFI_USB_HC_STATE option \<times> ('p, 'd) ohci) run" where
  "OhciGetState E State s =
     (if \<not> State then Some (Error EFI_INVALID_PARAMETER, None, s)
      else do {
        (FuncState, s) \<leftarrow> OhciGetHcControl (hc E) (UsbHcBaseAddress E) HC_FUNCTIONAL_STATE s;
        v \<leftarrow> (if FuncState = HC_STATE_RESET \<or> FuncState = HC_STATE_RESUME then Some EfiUsbHcStateHalt
             else if FuncState = HC_STATE_OPERATIONAL then Some EfiUsbHcStateOperational
             else if FuncState = HC_STATE_SUSPEND then Some EfiUsbHcStateSuspend
             else None);
        Some (EFI_SUCCESS, Some v, s)
      })"

definition gBS_Stall :: "('p, 'd) ohci_env \<Rightarrow> nat \<Rightarrow> ('p, 'd) ohci \<Rightarrow> ('p, 'd) ohci" where
  "gBS_Stall E n s = MicroSecondDelay (hc E) s n"

definition OhciSetState :: "('p, 'd) ohci_env \<Rightarrow> EFI_USB_HC_STATE \<Rightarrow> ('p, 'd) ohci \<Rightarrow> efi_status \<times> ('p, 'd) ohci" where
  "OhciSetState E State s =
     (let set = OhciSetHcControl (hc E) (UsbHcBaseAddress E) HC_FUNCTIONAL_STATE;
          (Status, s) =
            (case State of
               EfiUsbHcStateHalt \<Rightarrow> set HC_STATE_RESET s
             | EfiUsbHcStateOperational \<Rightarrow> set HC_STATE_OPERATIONAL s
             | EfiUsbHcStateSuspend \<Rightarrow> set HC_STATE_SUSPEND s
             | EfiUsbHcStateMaximum \<Rightarrow> (Error EFI_INVALID_PARAMETER, s))
      in (Status, gBS_Stall E 1000 s))"

section \<open>Root hub ports\<close>

definition port_bit :: "('p, 'd) ohci_env \<Rightarrow> u8 \<Rightarrow> u64 \<Rightarrow> ('p, 'd) ohci \<Rightarrow> (u32 \<times> ('p, 'd) ohci) run" where
  "port_bit E PortNumber Fld s = OhciReadRootHubPortStatus (hc E) (UsbHcBaseAddress E) (ucast PortNumber) Fld s"

fun gather :: "('p, 'd) ohci_env \<Rightarrow> u8 \<Rightarrow> (u64 \<times> u16) list \<Rightarrow> u16 \<Rightarrow> ('p, 'd) ohci \<Rightarrow> (u16 \<times> ('p, 'd) ohci) run" where
  "gather E PortNumber [] v s = Some (v, s)"
| "gather E PortNumber ((Fld, flag) # fs) v s = do {
     (b, s) \<leftarrow> port_bit E PortNumber Fld s;
     gather E PortNumber fs (if b \<noteq> 0 then v OR flag else v) s
   }"

definition port_status_flags :: "(u64 \<times> u16) list" where
  "port_status_flags =
     [(RH_CURR_CONNECT_STAT, USB_PORT_STAT_CONNECTION), (RH_PORT_ENABLE_STAT, USB_PORT_STAT_ENABLE),
      (RH_PORT_SUSPEND_STAT, USB_PORT_STAT_SUSPEND), (RH_PORT_OC_INDICATOR, USB_PORT_STAT_OVERCURRENT),
      (RH_PORT_RESET_STAT, USB_PORT_STAT_RESET), (RH_PORT_POWER_STAT, USB_PORT_STAT_POWER),
      (RH_LSDEVICE_ATTACHED, USB_PORT_STAT_LOW_SPEED)]"

definition port_change_flags :: "(u64 \<times> u16) list" where
  "port_change_flags =
     [(RH_PORT_ENABLE_STAT_CHANGE, USB_PORT_STAT_C_ENABLE), (RH_CONNECT_STATUS_CHANGE, USB_PORT_STAT_C_CONNECTION),
      (RH_PORT_SUSPEND_STAT_CHANGE, USB_PORT_STAT_C_SUSPEND), (RH_OC_INDICATOR_CHANGE, USB_PORT_STAT_C_OVERCURRENT),
      (RH_PORT_RESET_STAT_CHANGE, USB_PORT_STAT_C_RESET)]"

definition OhciGetRootHubPortStatus ::
  "('p, 'd) ohci_env \<Rightarrow> u8 \<Rightarrow> ('p, 'd) ohci \<Rightarrow> (efi_status \<times> (u16 \<times> u16) option \<times> ('p, 'd) ohci) run" where
  "OhciGetRootHubPortStatus E PortNumber s = do {
     (NumOfPorts, s) \<leftarrow> num_of_ports E s;
     if PortNumber \<ge> NumOfPorts then Some (Error EFI_INVALID_PARAMETER, None, s)
     else do {
       (PortStatus, s) \<leftarrow> gather E PortNumber port_status_flags 0 s;
       (PortChangeStatus, s) \<leftarrow> gather E PortNumber port_change_flags 0 s;
       Some (EFI_SUCCESS, Some (PortStatus, PortChangeStatus), s)
     }
   }"

text \<open>
  The verification loop, with the number of tries left: it stalls, evaluates its condition and goes on while that
  holds and tries are left. It fails when the tries are used up, even where the last one saw the port ready.
\<close>

fun verify_port ::
  "('p, 'd) ohci_env \<Rightarrow> (('p, 'd) ohci \<Rightarrow> (bool \<times> ('p, 'd) ohci) run) \<Rightarrow> nat \<Rightarrow> ('p, 'd) ohci \<Rightarrow> (bool \<times> ('p, 'd) ohci) run" where
  "verify_port E busy 0 s = Some (False, s)"
| "verify_port E busy (Suc n) s = do {
     let s = gBS_Stall E 1000 s;
     (again, s) \<leftarrow> busy s;
     if again \<and> n \<noteq> 0 then verify_port E busy n s else Some (n \<noteq> 0, s)
   }"

definition set_and_verify ::
  "('p, 'd) ohci_env \<Rightarrow> u8 \<Rightarrow> u64 \<Rightarrow> (('p, 'd) ohci \<Rightarrow> (bool \<times> ('p, 'd) ohci) run) \<Rightarrow> ('p, 'd) ohci \<Rightarrow>
     (efi_status \<times> ('p, 'd) ohci) run" where
  "set_and_verify E PortNumber Fld busy s = do {
     let (Status, s) = OhciSetRootHubPortStatus (hc E) (UsbHcBaseAddress E) (ucast PortNumber) Fld s;
     (ok, s) \<leftarrow> verify_port E busy MAX_RETRY_TIMES s;
     Some (if ok then Status else Error EFI_DEVICE_ERROR, s)
   }"

definition while_bit :: "('p, 'd) ohci_env \<Rightarrow> u8 \<Rightarrow> u64 \<Rightarrow> u32 \<Rightarrow> ('p, 'd) ohci \<Rightarrow> (bool \<times> ('p, 'd) ohci) run" where
  "while_bit E PortNumber Fld v s = do { (b, s) \<leftarrow> port_bit E PortNumber Fld s; Some (b = v, s) }"

definition while_resetting :: "('p, 'd) ohci_env \<Rightarrow> u8 \<Rightarrow> ('p, 'd) ohci \<Rightarrow> (bool \<times> ('p, 'd) ohci) run" where
  "while_resetting E PortNumber s = do {
     (b, s) \<leftarrow> port_bit E PortNumber RH_PORT_RESET_STAT_CHANGE s;
     if b = 0 then Some (True, s)
     else do { (b, s) \<leftarrow> port_bit E PortNumber RH_PORT_RESET_STAT s; Some (b = 1, s) }
   }"

definition OhciSetRootHubPortFeature ::
  "('p, 'd) ohci_env \<Rightarrow> u8 \<Rightarrow> EFI_USB_PORT_FEATURE \<Rightarrow> ('p, 'd) ohci \<Rightarrow> (efi_status \<times> ('p, 'd) ohci) run" where
  "OhciSetRootHubPortFeature E PortNumber PortFeature s = do {
     (NumOfPorts, s) \<leftarrow> num_of_ports E s;
     if PortNumber \<ge> NumOfPorts then Some (Error EFI_INVALID_PARAMETER, s)
     else case PortFeature of
       EfiUsbPortPower \<Rightarrow> set_and_verify E PortNumber RH_SET_PORT_POWER (while_bit E PortNumber RH_PORT_POWER_STAT 0) s
     | EfiUsbPortReset \<Rightarrow> do {
         (Status, s) \<leftarrow> set_and_verify E PortNumber RH_SET_PORT_RESET (while_resetting E PortNumber) s;
         if EFI_ERROR Status then Some (Status, s)
         else let (_, s) = OhciSetRootHubPortStatus (hc E) (UsbHcBaseAddress E) (ucast PortNumber) RH_PORT_RESET_STAT_CHANGE s
              in Some (Status, s)
       }
     | EfiUsbPortEnable \<Rightarrow> set_and_verify E PortNumber RH_SET_PORT_ENABLE (while_bit E PortNumber RH_PORT_ENABLE_STAT 0) s
     | EfiUsbPortSuspend \<Rightarrow> set_and_verify E PortNumber RH_SET_PORT_SUSPEND (while_bit E PortNumber RH_PORT_SUSPEND_STAT 0) s
     | _ \<Rightarrow> Some (Error EFI_INVALID_PARAMETER, s)
   }"

definition OhciClearRootHubPortFeature ::
  "('p, 'd) ohci_env \<Rightarrow> u8 \<Rightarrow> EFI_USB_PORT_FEATURE \<Rightarrow> ('p, 'd) ohci \<Rightarrow> (efi_status \<times> ('p, 'd) ohci) run" where
  "OhciClearRootHubPortFeature E PortNumber PortFeature s = do {
     (NumOfPorts, s) \<leftarrow> num_of_ports E s;
     if PortNumber \<ge> NumOfPorts then Some (Error EFI_INVALID_PARAMETER, s)
     else case PortFeature of
       EfiUsbPortEnable \<Rightarrow> set_and_verify E PortNumber RH_CLEAR_PORT_ENABLE (while_bit E PortNumber RH_PORT_ENABLE_STAT 1) s
     | EfiUsbPortSuspend \<Rightarrow> set_and_verify E PortNumber RH_CLEAR_SUSPEND_STATUS (while_bit E PortNumber RH_PORT_SUSPEND_STAT 1) s
     | EfiUsbPortReset \<Rightarrow> Some (EFI_SUCCESS, s)
     | EfiUsbPortPower \<Rightarrow> set_and_verify E PortNumber RH_CLEAR_PORT_POWER (while_bit E PortNumber RH_PORT_POWER_STAT 1) s
     | EfiUsbPortConnectChange \<Rightarrow>
         set_and_verify E PortNumber RH_CONNECT_STATUS_CHANGE (while_bit E PortNumber RH_CONNECT_STATUS_CHANGE 1) s
     | EfiUsbPortResetChange \<Rightarrow>
         set_and_verify E PortNumber RH_PORT_RESET_STAT_CHANGE (while_bit E PortNumber RH_PORT_RESET_STAT_CHANGE 1) s
     | EfiUsbPortEnableChange \<Rightarrow>
         set_and_verify E PortNumber RH_PORT_ENABLE_STAT_CHANGE (while_bit E PortNumber RH_PORT_ENABLE_STAT_CHANGE 1) s
     | EfiUsbPortSuspendChange \<Rightarrow>
         set_and_verify E PortNumber RH_PORT_SUSPEND_STAT_CHANGE (while_bit E PortNumber RH_PORT_SUSPEND_STAT_CHANGE 1) s
     | EfiUsbPortOverCurrentChange \<Rightarrow>
         set_and_verify E PortNumber RH_OC_INDICATOR_CHANGE (while_bit E PortNumber RH_OC_INDICATOR_CHANGE 1) s
     | EfiUsbPortOwner \<Rightarrow> Some (Error EFI_INVALID_PARAMETER, s)
   }"

section \<open>Reset\<close>

text \<open>The wait for the reset bit to clear: \<open>PowerOnGoodTime\<close> counts from 50 to 0, so there are 51 rounds.\<close>

fun wait_reset :: "('p, 'd) ohci_env \<Rightarrow> nat \<Rightarrow> ('p, 'd) ohci \<Rightarrow> bool \<times> ('p, 'd) ohci" where
  "wait_reset E 0 s = (False, s)"
| "wait_reset E (Suc n) s =
     (let s = gBS_Stall E 1000 s;
          (Data32, s) = OhciGetOperationalReg (hc E) (UsbHcBaseAddress E) s HC_COMMAND_STATUS
      in if Data32 AND ucast HC_RESET = 0 then (True, s) else wait_reset E n s)"

fun reset_ports :: "('p, 'd) ohci_env \<Rightarrow> nat list \<Rightarrow> ('p, 'd) ohci \<Rightarrow> ('p, 'd) ohci run" where
  "reset_ports E [] s = Some s"
| "reset_ports E (Index # Indices) s = do {
     (Status, s) \<leftarrow> OhciSetRootHubPortFeature E (of_nat Index) EfiUsbPortReset s;
     s \<leftarrow> (if \<not> EFI_ERROR Status
          then do {
            (_, s) \<leftarrow> OhciClearRootHubPortFeature E (of_nat Index) EfiUsbPortReset s;
            (_, s) \<leftarrow> OhciSetRootHubPortFeature E (of_nat Index) EfiUsbPortEnable s;
            Some s
          }
          else Some s);
     reset_ports E Indices s
   }"

partial_function (option) wait_sof :: "('p, 'd) ohci_env \<Rightarrow> ('p, 'd) ohci \<Rightarrow> ('p, 'd) ohci run" where
  "wait_sof E s = do {
     (v, s) \<leftarrow> OhciGetHcInterruptStatus (hc E) (UsbHcBaseAddress E) START_OF_FRAME s;
     if v = 0 then wait_sof E s else Some s
   }"

text \<open>The registers set before the ports, and what is started after them.\<close>

definition init_registers :: "('p, 'd) ohci_env \<Rightarrow> ('p, 'd) ohci \<Rightarrow> ('p, 'd) ohci" where
  "init_registers E s =
     (let M = hc E; base = UsbHcBaseAddress E;
          (_, s) = OhciSetFrameInterval M base FS_LARGEST_DATA_PACKET 0x2778 s;
          (_, s) = OhciSetFrameInterval M base FRAME_INTERVAL 0x2edf s;
          (_, s) = OhciSetPeriodicStart M base 0x2a2f s;
          (_, s) = OhciSetHcControl M base CONTROL_BULK_RATIO 0x3 s;
          (_, s) = OhciSetHcCommandStatus M base (CONTROL_LIST_FILLED OR BULK_LIST_FILLED) 0 s;
          (_, s) = OhciSetRootHubDescriptor M base RH_PSWITCH_MODE 0 s;
          (_, s) = OhciSetRootHubDescriptor M base (RH_NO_PSWITCH OR RH_NOC_PROT) 1 s;
          (_, s) = OhciSetRootHubDescriptor M base RH_DEV_REMOVABLE 0 s;
          (_, s) = OhciSetRootHubDescriptor M base RH_PORT_PWR_CTRL_MASK 0xffff s;
          (_, s) = OhciSetRootHubStatus M base RH_LOCAL_PSTAT_CHANGE s
      in snd (OhciSetRootHubPortStatus M base 0 RH_SET_PORT_POWER s))"

definition start_lists :: "('p, 'd) ohci_env \<Rightarrow> ('p, 'd) ohci \<Rightarrow> ('p, 'd) ohci run" where
  "start_lists E s = do {
     let M = hc E;
     let base = UsbHcBaseAddress E;
     (_, s) \<leftarrow> OhciSetMemoryPointer M base HC_HCCA (ucast (HccaMemoryBlock E)) s;
     (_, s) \<leftarrow> OhciSetMemoryPointer M base HC_CONTROL_HEAD 0 s;
     (_, s) \<leftarrow> OhciSetMemoryPointer M base HC_BULK_HEAD 0 s;
     let (_, s) = OhciSetHcControl M base (PERIODIC_ENABLE OR CONTROL_ENABLE OR BULK_ENABLE) 1 s;
     let (_, s) = OhciSetHcControl M base HC_FUNCTIONAL_STATE HC_STATE_OPERATIONAL s;
     s \<leftarrow> wait_sof E s;
     let (_, s) = OhciClearInterruptStatus M base START_OF_FRAME s;
     Some (gBS_Stall E 1000 s)
   }"

definition reset_controller :: "('p, 'd) ohci_env \<Rightarrow> ('p, 'd) ohci \<Rightarrow> bool \<times> ('p, 'd) ohci" where
  "reset_controller E s =
     (let (Status, s) = OhciSetHcCommandStatus (hc E) (UsbHcBaseAddress E) HC_RESET (ucast HC_RESET) s
      in if EFI_ERROR Status then (False, s) else wait_reset E 51 s)"

definition OhciReset :: "('p, 'd) ohci_env \<Rightarrow> u16 \<Rightarrow> ('p, 'd) ohci \<Rightarrow> (efi_status \<times> ('p, 'd) ohci) run" where
  "OhciReset E Attributes s =
     (if Attributes AND NOT (EFI_USB_HC_RESET_GLOBAL OR EFI_USB_HC_RESET_HOST_CONTROLLER) \<noteq> 0
      then Some (Error EFI_INVALID_PARAMETER, s)
      else do {
        let (ok, s) = (if Attributes AND EFI_USB_HC_RESET_HOST_CONTROLLER \<noteq> 0 then reset_controller E s else (True, s));
        if \<not> ok then Some (Error EFI_DEVICE_ERROR, s)
        else do {
          (_, s) \<leftarrow> OhciFreeIntTransferMemory E s;
          (Status, s) \<leftarrow> OhciInitializeInterruptList E s;
          let (_, s) = OhciSetFrameInterval (hc E) (UsbHcBaseAddress E) FRAME_INTERVAL 0x2edf s;
          let (Status, s) =
            (if Attributes AND EFI_USB_HC_RESET_GLOBAL \<noteq> 0
             then let (Status, s) = OhciSetHcControl (hc E) (UsbHcBaseAddress E) HC_FUNCTIONAL_STATE HC_STATE_RESET s
                  in (Status, gBS_Stall E 50000 s)
             else (Status, s));
          let s = init_registers E s;
          (NumOfPorts, s) \<leftarrow> num_of_ports E s;
          s \<leftarrow> reset_ports E [0..<unat NumOfPorts] s;
          s \<leftarrow> start_lists E s;
          Some (Status, s)
        }
      })"

definition OhcInitHC :: "('p, 'd) ohci_env \<Rightarrow> ('p, 'd) ohci \<Rightarrow> (efi_status \<times> ('p, 'd) ohci) run" where
  "OhcInitHC E s = OhciReset E (EFI_USB_HC_RESET_GLOBAL OR EFI_USB_HC_RESET_HOST_CONTROLLER) s"

definition stop_controller :: "('p, 'd) ohci_env \<Rightarrow> ('p, 'd) ohci \<Rightarrow> ('p, 'd) ohci run" where
  "stop_controller E s = do {
     let (_, s) = OhciSetHcControl (hc E) (UsbHcBaseAddress E)
                    (PERIODIC_ENABLE OR CONTROL_ENABLE OR ISOCHRONOUS_ENABLE OR BULK_ENABLE) 0 s;
     (_, s) \<leftarrow> OhciReset E EFI_USB_HC_RESET_GLOBAL s;
     let (_, s) = OhciSetState E EfiUsbHcStateHalt s;
     Some s
   }"

definition OhcExitBootService :: "('p, 'd) ohci_env \<Rightarrow> ('p, 'd) ohci \<Rightarrow> ('p, 'd) ohci run" where
  "OhcExitBootService E s = stop_controller E s"

section \<open>Starting the driver\<close>

text \<open>
  What \<open>OHCIDriverBindingStart\<close> acquires and gives back, as a log of events, the first one first. The
  services may fail one by one; \<open>init_status\<close> is the result of \<open>OhcInitHC\<close>. The log starts with
  the device structure, and reading a pointer in it after its release is the event \<open>Stale\<close>.
\<close>

datatype ohc_object =
  ObjOhc | ObjDeviceProtocol | ObjMemPool | ObjHcca | ObjUsb2Hc | ObjExitEvent | ObjTimerEvent

datatype ohc_event = Got ohc_object | Freed ohc_object | Stale ohc_object

record start_env =
  AllocateZeroPool_ok :: bool
  open_status :: efi_status
  UsbHcInitMemPool_ok :: bool
  alloc_status :: efi_status
  map_status :: efi_status
  map_bytes :: u64
  install_status :: efi_status
  exit_event_status :: efi_status
  timer_event_status :: efi_status
  init_status :: efi_status
  SetTimer_status :: efi_status

text \<open>\<open>OhciFreeDev\<close>: what the structure names is released, then the structure.\<close>

definition OhciFreeDev :: "ohc_object list \<Rightarrow> ohc_event list" where
  "OhciFreeDev held =
     map Freed (filter (\<lambda>x. x \<in> set held) [ObjTimerEvent, ObjExitEvent, ObjMemPool, ObjHcca]) @ [Freed ObjOhc]"

text \<open>The labels at the end, which fall through.\<close>

definition FREE_DEV_BUFFER :: "ohc_event list" where
  "FREE_DEV_BUFFER = [Freed ObjOhc]"

definition FREE_MEM_POOL :: "bool \<Rightarrow> ohc_event list" where
  "FREE_MEM_POOL freed = (if freed then [Stale ObjMemPool] else []) @ [Freed ObjMemPool] @ FREE_DEV_BUFFER"

definition FREE_MEM_PAGE :: "bool \<Rightarrow> ohc_event list" where
  "FREE_MEM_PAGE freed = [Freed ObjHcca] @ FREE_MEM_POOL freed"

definition UNINSTALL_USBHC :: "bool \<Rightarrow> ohc_event list" where
  "UNINSTALL_USBHC freed = [Freed ObjUsb2Hc, Freed ObjDeviceProtocol] @ FREE_MEM_PAGE freed"

definition FREE_OHC :: "ohc_object list \<Rightarrow> ohc_event list" where
  "FREE_OHC held = OhciFreeDev held @ UNINSTALL_USBHC True"

definition start_steps :: "start_env \<Rightarrow> efi_status \<times> ohc_event list" where
  "start_steps v =
     (if EFI_ERROR (install_status v) then (install_status v, FREE_OHC [ObjMemPool, ObjHcca])
      else if EFI_ERROR (exit_event_status v) then (exit_event_status v, Got ObjUsb2Hc # UNINSTALL_USBHC False)
      else if EFI_ERROR (timer_event_status v)
      then (timer_event_status v, [Got ObjUsb2Hc, Got ObjExitEvent] @ FREE_OHC [ObjMemPool, ObjHcca, ObjExitEvent])
      else if EFI_ERROR (init_status v)
      then (init_status v, [Got ObjUsb2Hc, Got ObjExitEvent, Got ObjTimerEvent] @ UNINSTALL_USBHC False)
      else if EFI_ERROR (SetTimer_status v)
      then (SetTimer_status v, [Got ObjUsb2Hc, Got ObjExitEvent, Got ObjTimerEvent] @
              FREE_OHC [ObjMemPool, ObjHcca, ObjExitEvent, ObjTimerEvent])
      else (EFI_SUCCESS, [Got ObjUsb2Hc, Got ObjExitEvent, Got ObjTimerEvent]))"

definition OHCIDriverBindingStart :: "start_env \<Rightarrow> efi_status \<times> ohc_event list" where
  "OHCIDriverBindingStart v =
     (if \<not> AllocateZeroPool_ok v then (Error EFI_OUT_OF_RESOURCES, [])
      else if EFI_ERROR (open_status v) then (open_status v, Got ObjOhc # FREE_OHC [])
      else if \<not> UsbHcInitMemPool_ok v then (open_status v, [Got ObjOhc, Got ObjDeviceProtocol] @ FREE_DEV_BUFFER)
      else if EFI_ERROR (alloc_status v)
      then (alloc_status v, [Got ObjOhc, Got ObjDeviceProtocol, Got ObjMemPool] @ FREE_MEM_POOL False)
      else if EFI_ERROR (map_status v) \<or> map_bytes v \<noteq> 4096
      then (map_status v, [Got ObjOhc, Got ObjDeviceProtocol, Got ObjMemPool, Got ObjHcca] @ FREE_MEM_PAGE False)
      else let (Status, ev) = start_steps v
           in (Status, [Got ObjOhc, Got ObjDeviceProtocol, Got ObjMemPool, Got ObjHcca] @ ev))"

text \<open>\<open>Supported\<close> opens the device protocol and closes it again; \<open>Stop\<close> and \<open>OhciCleanDevUp\<close>.\<close>

definition OHCIDriverBindingSupported :: "efi_status \<Rightarrow> efi_status \<times> ohc_event list" where
  "OHCIDriverBindingSupported open_st =
     (if EFI_ERROR open_st then (open_st, []) else (EFI_SUCCESS, [Got ObjDeviceProtocol, Freed ObjDeviceProtocol]))"

definition OhciCleanDevUp :: "('p, 'd) ohci_env \<Rightarrow> ('p, 'd) ohci \<Rightarrow> (('p, 'd) ohci \<times> ohc_event list) run" where
  "OhciCleanDevUp E s = do {
     s \<leftarrow> stop_controller E s;
     s \<leftarrow> OhciFreeDynamicIntMemory E s;
     s \<leftarrow> OhciFreeFixedIntMemory E s;
     Some (s, [Freed ObjUsb2Hc] @ OhciFreeDev [ObjTimerEvent, ObjExitEvent, ObjMemPool, ObjHcca])
   }"

definition OHCIDriverBindingStop ::
  "('p, 'd) ohci_env \<Rightarrow> efi_status \<Rightarrow> ('p, 'd) ohci \<Rightarrow> (efi_status \<times> ('p, 'd) ohci \<times> ohc_event list) run" where
  "OHCIDriverBindingStop E open_st s =
     (if EFI_ERROR open_st then Some (open_st, s, [])
      else do {
        (s, ev) \<leftarrow> OhciCleanDevUp E s;
        Some (EFI_SUCCESS, s, ev @ [Freed ObjDeviceProtocol])
      })"

text \<open>The loops run: their equations are code.\<close>

declare wait_sof.simps [code]

end
