(* ===== verification/OhciTransfer.thy ===== *)
theory OhciTransfer
  imports OhciHub
begin

text \<open>
  The transfers of the OHCI driver (\<open>Drivers/OhciDxe/Ohci.c\<close>): control, bulk and interrupt. A transfer
  creates an endpoint descriptor, links it to its list, maps the data, creates the chain of transfer descriptors,
  starts the list, polls, and takes everything down again in the order of its labels.

  A pointer that may be NULL is 0, and an argument the code writes through is an option whose new
  value is returned. The common part of the three is written once; where they differ it is a parameter.
\<close>

definition MAX_BYTES_PER_TD :: u64 where "MAX_BYTES_PER_TD = 0x1000"

definition EfiUsbDataIn :: u32 where "EfiUsbDataIn = 0"
definition EfiUsbDataOut :: u32 where "EfiUsbDataOut = 1"
definition EfiUsbNoData :: u32 where "EfiUsbNoData = 2"

definition sizeof_EFI_USB_DEVICE_REQUEST :: u64 where "sizeof_EFI_USB_DEVICE_REQUEST = 8"

section \<open>Descriptors of a transfer\<close>

definition ed_settings :: "u8 \<Rightarrow> u32 \<Rightarrow> u32 \<Rightarrow> u64 \<Rightarrow> (u32 \<times> u32) list" where
  "ed_settings DeviceAddress EndPointNum Spd MaximumPacketLength =
     [(ED_SKIP, 1), (ED_FUNC_ADD, ucast DeviceAddress), (ED_ENDPT_NUM, EndPointNum), (ED_DIR, ED_FROM_TD_DIR),
      (ED_SPEED, Spd), (ED_FORMAT OR ED_HALTED OR ED_DTTOGGLE, 0), (ED_MAX_PACKET, ucast MaximumPacketLength),
      (ED_PDATA, 0), (ED_ZERO, 0), (ED_TDHEAD_PTR, 0), (ED_TDTAIL_PTR, 0), (ED_NEXT_EDPTR, 0)]"

definition interrupt_ed_settings :: "u8 \<Rightarrow> u8 \<Rightarrow> bool \<Rightarrow> u8 \<Rightarrow> (u32 \<times> u32) list" where
  "interrupt_ed_settings DeviceAddress EndPointNum IsSlowDevice MaximumPacketLength =
     [(ED_SKIP, 1), (ED_FUNC_ADD, ucast DeviceAddress), (ED_ENDPT_NUM, ucast EndPointNum), (ED_DIR, ED_FROM_TD_DIR),
      (ED_SPEED, if IsSlowDevice then 1 else 0), (ED_FORMAT, 0), (ED_MAX_PACKET, ucast MaximumPacketLength),
      (ED_PDATA OR ED_ZERO OR ED_HALTED OR ED_DTTOGGLE, 0), (ED_TDHEAD_PTR, 0), (ED_TDTAIL_PTR, 0), (ED_NEXT_EDPTR, 0)]"

definition set_ed :: "(u32 \<times> u32) list \<Rightarrow> ED_DESCRIPTOR \<Rightarrow> ED_DESCRIPTOR" where
  "set_ed = fold (\<lambda>(Fld, v). OhciSetEDField Fld v)"

definition set_td :: "(u32 \<times> u32) list \<Rightarrow> u32 \<Rightarrow> u32 \<Rightarrow> TD_DESCRIPTOR \<Rightarrow> TD_DESCRIPTOR" where
  "set_td fs len buf t =
     (fold (\<lambda>(Fld, v). OhciSetTDField Fld v) fs t)\<lparr>td_ActualSendLength := len, td_DataBuffer := buf, NextTDPointer := 0\<rparr>"

definition setup_td :: "u64 \<Rightarrow> TD_DESCRIPTOR \<Rightarrow> TD_DESCRIPTOR" where
  "setup_td ReqMapPhyAddr =
     set_td [(TD_PDATA, 0), (TD_BUFFER_ROUND, 1), (TD_DIR_PID, TD_SETUP_PID), (TD_DELAY_INT, TD_NO_DELAY),
             (TD_DT_TOGGLE, 2), (TD_ERROR_CNT, 0), (TD_COND_CODE, TD_TOBE_PROCESSED),
             (TD_CURR_BUFFER_PTR, ucast ReqMapPhyAddr), (TD_NEXT_PTR, 0),
             (TD_BUFFER_END_PTR, ucast (ReqMapPhyAddr + sizeof_EFI_USB_DEVICE_REQUEST - 1))]
       (ucast sizeof_EFI_USB_DEVICE_REQUEST) (ucast ReqMapPhyAddr)"

definition data_td :: "u32 \<Rightarrow> u8 \<Rightarrow> u64 \<Rightarrow> u64 \<Rightarrow> TD_DESCRIPTOR \<Rightarrow> TD_DESCRIPTOR" where
  "data_td DataPidDir DataToggle addr n =
     set_td [(TD_PDATA, 0), (TD_BUFFER_ROUND, 1), (TD_DIR_PID, DataPidDir), (TD_DELAY_INT, TD_NO_DELAY),
             (TD_DT_TOGGLE, ucast DataToggle), (TD_ERROR_CNT, 0), (TD_COND_CODE, TD_TOBE_PROCESSED),
             (TD_CURR_BUFFER_PTR, ucast addr), (TD_BUFFER_END_PTR, ucast (addr + n - 1)), (TD_NEXT_PTR, 0)]
       (ucast n) (ucast addr)"

definition status_td :: "u32 \<Rightarrow> TD_DESCRIPTOR \<Rightarrow> TD_DESCRIPTOR" where
  "status_td StatusPidDir =
     set_td [(TD_PDATA, 0), (TD_BUFFER_ROUND, 1), (TD_DIR_PID, StatusPidDir), (TD_DELAY_INT, 7), (TD_DT_TOGGLE, 3),
             (TD_ERROR_CNT, 0), (TD_COND_CODE, TD_TOBE_PROCESSED), (TD_CURR_BUFFER_PTR, 0), (TD_NEXT_PTR, 0),
             (TD_BUFFER_END_PTR, 0)] 0 0"

definition empty_td :: "TD_DESCRIPTOR \<Rightarrow> TD_DESCRIPTOR" where
  "empty_td t =
     set_td [(TD_ERROR_CNT, 0), (TD_COND_CODE, 0), (TD_CURR_BUFFER_PTR, 0), (TD_BUFFER_END_PTR, 0), (TD_NEXT_PTR, 0)] 0 0
       ((set_td [(TD_PDATA, 0), (TD_BUFFER_ROUND, 0), (TD_DIR_PID, 0), (TD_DELAY_INT, 0)] 0 0 t)\<lparr>td_DataToggle := 0\<rparr>)"

text \<open>A new descriptor, filled in unless the pool is exhausted.\<close>

definition new_td ::
  "('p, 'd) ohci_env \<Rightarrow> (TD_DESCRIPTOR \<Rightarrow> TD_DESCRIPTOR) \<Rightarrow> ('p, 'd) ohci \<Rightarrow> (u64 \<times> ('p, 'd) ohci) run" where
  "new_td E f s = do {
     (Td, s) \<leftarrow> OhciCreateTD E s;
     if Td = 0 then Some (0, s) else do { s \<leftarrow> upd_td Td f s; Some (Td, s) }
   }"

text \<open>Linked at the end of the chain, of which it is the first where there is none.\<close>

definition chain_td :: "u64 \<Rightarrow> u64 \<Rightarrow> ('p, 'd) ohci \<Rightarrow> (u64 \<times> ('p, 'd) ohci) run" where
  "chain_td HeadTd Td s =
     (if HeadTd = 0 then Some (Td, s) else do { (_, s) \<leftarrow> OhciLinkTD HeadTd Td s; Some (HeadTd, s) })"

text \<open>The data stage: whether it was completed, the head of the chain, the next toggle.\<close>

partial_function (option) data_stage ::
  "('p, 'd) ohci_env \<Rightarrow> u32 \<Rightarrow> u64 \<Rightarrow> u64 \<Rightarrow> u8 \<Rightarrow> u64 \<Rightarrow> u64 \<Rightarrow> ('p, 'd) ohci \<Rightarrow>
     (bool \<times> u64 \<times> u8 \<times> ('p, 'd) ohci) run" where
  "data_stage E DataPidDir MaximumPacketLength HeadTd DataToggle addr LeftLength s =
     (if LeftLength > 0
      then do {
        let ActualSendLength = (if LeftLength > MaximumPacketLength then MaximumPacketLength else LeftLength);
        (DataTd, s) \<leftarrow> new_td E (data_td DataPidDir DataToggle addr ActualSendLength) s;
        if DataTd = 0 then Some (False, HeadTd, DataToggle, s)
        else do {
          (HeadTd, s) \<leftarrow> chain_td HeadTd DataTd s;
          data_stage E DataPidDir MaximumPacketLength HeadTd (DataToggle XOR 1) (addr + ActualSendLength)
            (LeftLength - ActualSendLength) s
        }
      }
      else Some (True, HeadTd, DataToggle, s))"

text \<open>The empty descriptor at the end, and the chain given to the endpoint.\<close>

definition finish_chain :: "('p, 'd) ohci_env \<Rightarrow> u64 \<Rightarrow> u64 \<Rightarrow> ('p, 'd) ohci \<Rightarrow> (bool \<times> ('p, 'd) ohci) run" where
  "finish_chain E Ed HeadTd s = do {
     (EmptyTd, s) \<leftarrow> new_td E empty_td s;
     if EmptyTd = 0 then Some (False, s)
     else do {
       (_, s) \<leftarrow> OhciLinkTD HeadTd EmptyTd s;
       s \<leftarrow> upd_ed Ed (\<lambda>e. e\<lparr>TdTailPointer := ucast EmptyTd\<rparr>) s;
       s \<leftarrow> OhciAttachTDListToED Ed HeadTd s;
       Some (True, s)
     }
   }"

text \<open>Polling until the list is done or the time is over.\<close>

partial_function (option) poll_done ::
  "('p, 'd) ohci_env \<Rightarrow> DESCRIPTOR_LIST_TYPE \<Rightarrow> u64 \<Rightarrow> u64 \<Rightarrow> u64 \<Rightarrow> u64 \<Rightarrow> efi_status \<Rightarrow> OHCI_ED_RESULT \<Rightarrow> ('p, 'd) ohci \<Rightarrow>
     (efi_status \<times> OHCI_ED_RESULT \<times> ('p, 'd) ohci) run" where
  "poll_done E ListType Ed HeadTd TimeCount TimeOut Status EdResult s =
     (if Status = Error EFI_NOT_READY \<and> TimeCount \<le> TimeOut
      then do {
        (Status, EdResult, s) \<leftarrow> CheckIfDone E ListType Ed HeadTd EdResult (gBS_Stall E 1000 s);
        poll_done E ListType Ed HeadTd (TimeCount + 1) TimeOut Status EdResult s
      }
      else Some (Status, EdResult, s))"

definition wait_done ::
  "('p, 'd) ohci_env \<Rightarrow> DESCRIPTOR_LIST_TYPE \<Rightarrow> u64 \<Rightarrow> u64 \<Rightarrow> u64 \<Rightarrow> OHCI_ED_RESULT \<Rightarrow> ('p, 'd) ohci \<Rightarrow>
     (efi_status \<times> OHCI_ED_RESULT \<times> ('p, 'd) ohci) run" where
  "wait_done E ListType Ed HeadTd TimeOut EdResult s = do {
     (Status, EdResult, s) \<leftarrow> CheckIfDone E ListType Ed HeadTd EdResult s;
     poll_done E ListType Ed HeadTd 0 TimeOut Status EdResult s
   }"

section \<open>Taking a transfer down\<close>

definition unlink_ed :: "('p, 'd) ohci_env \<Rightarrow> u32 \<Rightarrow> u64 \<Rightarrow> u64 \<Rightarrow> ('p, 'd) ohci \<Rightarrow> ('p, 'd) ohci run" where
  "unlink_ed E PointerType HeadEd Ed s = do {
     s \<leftarrow> upd_ed Ed (OhciSetEDField ED_SKIP 1) s;
     if HeadEd = Ed
     then do { (_, s) \<leftarrow> OhciSetMemoryPointer (hc E) (UsbHcBaseAddress E) PointerType 0 s; Some s }
     else do { e \<leftarrow> eds s Ed; upd_ed HeadEd (\<lambda>h. h\<lparr>NextED := NextED e\<rparr>) s }
   }"

definition unmap :: "('p, 'd) ohci_env \<Rightarrow> u64 \<Rightarrow> ('p, 'd) ohci \<Rightarrow> ('p, 'd) ohci" where
  "unmap E m s = (if m \<noteq> 0 then on_world (dma_unmap E m) s else s)"

definition map_buffer ::
  "('p, 'd) ohci_env \<Rightarrow> dma_map_operation \<Rightarrow> u64 \<Rightarrow> u64 \<Rightarrow> ('p, 'd) ohci \<Rightarrow> (efi_error + u64 \<times> u64 \<times> u64) \<times> ('p, 'd) ohci" where
  "map_buffer E MapOp buf len s = (let (r, w) = dma_map E MapOp buf len (world s) in (r, s\<lparr>world := w\<rparr>))"

section \<open>Control transfers\<close>

definition control_params_bad :: "u8 \<Rightarrow> u64 \<Rightarrow> u64 \<Rightarrow> u32 \<Rightarrow> u64 \<Rightarrow> u64 \<Rightarrow> bool" where
  "control_params_bad DeviceSpeed MaximumPacketLength Request TransferDirection Data len \<longleftrightarrow>
     (TransferDirection \<noteq> EfiUsbDataOut \<and> TransferDirection \<noteq> EfiUsbDataIn \<and> TransferDirection \<noteq> EfiUsbNoData) \<or>
     Request = 0 \<or>
     (TransferDirection = EfiUsbNoData \<and> (len \<noteq> 0 \<or> Data \<noteq> 0)) \<or>
     (TransferDirection \<noteq> EfiUsbNoData \<and> (len = 0 \<or> Data = 0)) \<or>
     (DeviceSpeed = EFI_USB_SPEED_LOW \<and> MaximumPacketLength \<noteq> 8) \<or>
     (MaximumPacketLength \<noteq> 8 \<and> MaximumPacketLength \<noteq> 16 \<and> MaximumPacketLength \<noteq> 32 \<and> MaximumPacketLength \<noteq> 64)"

text \<open>Data, status and empty stages; \<open>False\<close> is a jump to \<open>UNMAP_DATA_BUFF\<close>.\<close>

definition control_stages ::
  "('p, 'd) ohci_env \<Rightarrow> u32 \<Rightarrow> u64 \<Rightarrow> u64 \<Rightarrow> u64 \<Rightarrow> u64 \<Rightarrow> u64 \<Rightarrow> ('p, 'd) ohci \<Rightarrow> (bool \<times> ('p, 'd) ohci) run" where
  "control_stages E TransferDirection MaximumPacketLength Ed HeadTd addr len s = do {
     let DataPidDir = (if TransferDirection = EfiUsbDataIn then TD_IN_PID else TD_OUT_PID);
     let StatusPidDir = (if TransferDirection = EfiUsbDataIn then TD_OUT_PID else TD_IN_PID);
     (ok, HeadTd, _, s) \<leftarrow> data_stage E DataPidDir MaximumPacketLength HeadTd 1 addr len s;
     if \<not> ok then Some (False, s)
     else do {
       (StatusTd, s) \<leftarrow> new_td E (status_td StatusPidDir) s;
       if StatusTd = 0 then Some (False, s)
       else do {
         (_, s) \<leftarrow> OhciLinkTD HeadTd StatusTd s;
         finish_chain E Ed HeadTd s
       }
     }
   }"

text \<open>Starting the list, waiting, and the results.\<close>

definition control_run ::
  "('p, 'd) ohci_env \<Rightarrow> u64 \<Rightarrow> u64 \<Rightarrow> u64 \<Rightarrow> u64 \<Rightarrow> u32 \<Rightarrow> ('p, 'd) ohci \<Rightarrow> (efi_status \<times> u64 \<times> u32 \<times> ('p, 'd) ohci) run" where
  "control_run E Ed HeadTd TimeOut len TransferResult s = do {
     let M = hc E;
     let base = UsbHcBaseAddress E;
     s \<leftarrow> upd_ed Ed (OhciSetEDField ED_SKIP 0) s;
     let (Status, s) = OhciSetHcControl M base CONTROL_ENABLE 1 s;
     if EFI_ERROR Status then Some (Error EFI_DEVICE_ERROR, len, EFI_USB_ERR_SYSTEM, s)
     else do {
       let (Status, s) = OhciSetHcCommandStatus M base CONTROL_LIST_FILLED 1 s;
       if EFI_ERROR Status then Some (Error EFI_DEVICE_ERROR, len, EFI_USB_ERR_SYSTEM, s)
       else do {
         (Status, EdResult, s) \<leftarrow> wait_done E CONTROL_LIST Ed HeadTd TimeOut \<lparr>ErrorCode = 0, NextToggle = 0\<rparr> s;
         Some (Status, if ErrorCode EdResult \<noteq> TD_NO_ERROR then 0 else len, ConvertErrorCode (ErrorCode EdResult), s)
       }
     }
   }"

text \<open>The transfer from the setup descriptor on, down to the label \<open>UNMAP_SETUP_BUFF\<close>.\<close>

definition control_tds ::
  "('p, 'd) ohci_env \<Rightarrow> u64 \<Rightarrow> u32 \<Rightarrow> u64 \<Rightarrow> u64 \<Rightarrow> u64 \<Rightarrow> u64 \<Rightarrow> u64 \<Rightarrow> u64 \<Rightarrow> u32 \<Rightarrow> ('p, 'd) ohci \<Rightarrow>
     (efi_status \<times> u64 \<times> u32 \<times> ('p, 'd) ohci) run" where
  "control_tds E MaximumPacketLength TransferDirection Data TimeOut HeadEd Ed ReqMapPhyAddr len TransferResult s = do {
     (SetupTd, s) \<leftarrow> new_td E (setup_td ReqMapPhyAddr) s;
     if SetupTd = 0 then Some (Error EFI_OUT_OF_RESOURCES, len, TransferResult, s)
     else do {
       let MapOp = (if TransferDirection = EfiUsbDataIn then MapOperationBusMasterWrite else MapOperationBusMasterRead);
       let (r, s) = (if Data \<noteq> 0 \<and> len \<noteq> 0 then map_buffer E MapOp Data len s else (Inr (len, 0, 0), s));
       (Status, len, TransferResult, s) \<leftarrow>
         (case r of
            Inl e \<Rightarrow> Some (Error e, len, TransferResult, s)
          | Inr (DataMapLength, DataMapPhyAddr, DataMapping) \<Rightarrow> do {
              (ok, s) \<leftarrow> control_stages E TransferDirection MaximumPacketLength Ed SetupTd DataMapPhyAddr DataMapLength s;
              (Status, len, TransferResult, s) \<leftarrow>
                (if ok then control_run E Ed SetupTd TimeOut len TransferResult s
                 else Some (Error EFI_OUT_OF_RESOURCES, len, TransferResult, s));
              s \<leftarrow> unlink_ed E HC_CONTROL_HEAD HeadEd Ed s;
              Some (Status, len, TransferResult, unmap E DataMapping s)
            });
       s \<leftarrow> free_td_chain E SetupTd s;
       Some (Status, len, TransferResult, s)
     }
   }"

definition control_ed ::
  "('p, 'd) ohci_env \<Rightarrow> u8 \<Rightarrow> u8 \<Rightarrow> u64 \<Rightarrow> u64 \<Rightarrow> u32 \<Rightarrow> u64 \<Rightarrow> u64 \<Rightarrow> u64 \<Rightarrow> u32 \<Rightarrow> ('p, 'd) ohci \<Rightarrow>
     (efi_status \<times> u64 \<times> u32 \<times> ('p, 'd) ohci) run" where
  "control_ed E DeviceAddress DeviceSpeed MaximumPacketLength Request TransferDirection Data TimeOut len TransferResult s = do {
     (Ed, s) \<leftarrow> OhciCreateED E s;
     if Ed = 0 then Some (Error EFI_OUT_OF_RESOURCES, len, TransferResult, s)
     else do {
       s \<leftarrow> upd_ed Ed (set_ed (ed_settings DeviceAddress 0 (if DeviceSpeed = EFI_USB_SPEED_LOW then 1 else 0)
                                 MaximumPacketLength)) s;
       (HeadEd, s) \<leftarrow> OhciAttachEDToList E CONTROL_LIST Ed 0 s;
       let (r, s) = map_buffer E MapOperationBusMasterRead Request sizeof_EFI_USB_DEVICE_REQUEST s;
       (Status, len, TransferResult, s) \<leftarrow>
         (case r of
            Inl e \<Rightarrow> Some (Error e, len, TransferResult, s)
          | Inr (_, ReqMapPhyAddr, ReqMapping) \<Rightarrow> do {
              (Status, len, TransferResult, s) \<leftarrow>
                control_tds E MaximumPacketLength TransferDirection Data TimeOut HeadEd Ed ReqMapPhyAddr len TransferResult s;
              Some (Status, len, TransferResult, unmap E ReqMapping s)
            });
       s \<leftarrow> OhciFreeED E Ed s;
       Some (Status, len, TransferResult, s)
     }
   }"

definition OhciControlTransfer ::
  "('p, 'd) ohci_env \<Rightarrow> u8 \<Rightarrow> u8 \<Rightarrow> u64 \<Rightarrow> u64 \<Rightarrow> u32 \<Rightarrow> u64 \<Rightarrow> u64 option \<Rightarrow> u64 \<Rightarrow> u32 option \<Rightarrow> ('p, 'd) ohci \<Rightarrow>
     (efi_status \<times> u64 option \<times> u32 option \<times> ('p, 'd) ohci) run" where
  "OhciControlTransfer E DeviceAddress DeviceSpeed MaximumPacketLength Request TransferDirection Data DataLength TimeOut TransferResult s =
     (case (DataLength, TransferResult) of
        (Some len, Some result) \<Rightarrow>
          if control_params_bad DeviceSpeed MaximumPacketLength Request TransferDirection Data len \<or> len > MAX_BYTES_PER_TD
          then Some (Error EFI_INVALID_PARAMETER, DataLength, TransferResult, s)
          else do {
            let M = hc E;
            let base = UsbHcBaseAddress E;
            let (Status, s) = OhciSetHcControl M base CONTROL_ENABLE 0 s;
            if EFI_ERROR Status then Some (Error EFI_DEVICE_ERROR, DataLength, Some EFI_USB_ERR_SYSTEM, s)
            else do {
              let (Status, s) = OhciSetHcCommandStatus M base CONTROL_LIST_FILLED 0 s;
              if EFI_ERROR Status then Some (Error EFI_DEVICE_ERROR, DataLength, Some EFI_USB_ERR_SYSTEM, s)
              else do {
                (_, s) \<leftarrow> OhciSetMemoryPointer M base HC_CONTROL_HEAD 0 s;
                (Status, len, result, s) \<leftarrow>
                  control_ed E DeviceAddress DeviceSpeed MaximumPacketLength Request TransferDirection Data TimeOut len result s;
                Some (Status, Some len, Some result, s)
              }
            }
          }
      | _ \<Rightarrow> Some (Error EFI_INVALID_PARAMETER, DataLength, TransferResult, s))"

section \<open>Bulk transfers\<close>

definition bulk_params_bad :: "u64 \<Rightarrow> u64 \<Rightarrow> u8 \<Rightarrow> bool" where
  "bulk_params_bad MaximumPacketLength len toggle \<longleftrightarrow>
     len = 0 \<or> (toggle \<noteq> 0 \<and> toggle \<noteq> 1) \<or>
     (MaximumPacketLength \<noteq> 8 \<and> MaximumPacketLength \<noteq> 16 \<and> MaximumPacketLength \<noteq> 32 \<and> MaximumPacketLength \<noteq> 64)"

text \<open>Data and empty stages: the head of the chain, the next toggle, and whether they were completed.\<close>

definition bulk_stages ::
  "('p, 'd) ohci_env \<Rightarrow> u32 \<Rightarrow> u64 \<Rightarrow> u64 \<Rightarrow> u8 \<Rightarrow> u64 \<Rightarrow> u64 \<Rightarrow> ('p, 'd) ohci \<Rightarrow> (bool \<times> u64 \<times> u8 \<times> ('p, 'd) ohci) run" where
  "bulk_stages E DataPidDir MaximumPacketLength Ed toggle addr len s = do {
     (ok, HeadTd, toggle, s) \<leftarrow> data_stage E DataPidDir MaximumPacketLength 0 toggle addr len s;
     if \<not> ok then Some (False, HeadTd, toggle, s)
     else do {
       (ok, s) \<leftarrow> finish_chain E Ed HeadTd s;
       Some (ok, HeadTd, toggle, s)
     }
   }"

definition bulk_run ::
  "('p, 'd) ohci_env \<Rightarrow> u64 \<Rightarrow> u64 \<Rightarrow> u64 \<Rightarrow> u8 \<Rightarrow> u64 \<Rightarrow> u8 \<Rightarrow> u32 \<Rightarrow> ('p, 'd) ohci \<Rightarrow>
     (efi_status \<times> u64 \<times> u8 \<times> u32 \<times> ('p, 'd) ohci) run" where
  "bulk_run E Ed HeadTd TimeOut first len toggle TransferResult s = do {
     let M = hc E;
     let base = UsbHcBaseAddress E;
     s \<leftarrow> upd_ed Ed (OhciSetEDField ED_SKIP 0) s;
     let (Status, s) = OhciSetHcCommandStatus M base BULK_LIST_FILLED 1 s;
     if EFI_ERROR Status then Some (Error EFI_DEVICE_ERROR, len, toggle, EFI_USB_ERR_SYSTEM, s)
     else do {
       let (Status, s) = OhciSetHcControl M base BULK_ENABLE 1 s;
       if EFI_ERROR Status then Some (Error EFI_DEVICE_ERROR, len, toggle, EFI_USB_ERR_SYSTEM, s)
       else do {
         (Status, EdResult, s) \<leftarrow> wait_done E BULK_LIST Ed HeadTd TimeOut \<lparr>ErrorCode = 0, NextToggle = first\<rparr> s;
         let Code = ErrorCode EdResult;
         Some (Status, if Code \<noteq> TD_NO_ERROR then 0 else len,
               if Code \<noteq> TD_NO_ERROR \<and> Code \<noteq> TD_TOBE_PROCESSED then NextToggle EdResult else toggle,
               ConvertErrorCode Code, s)
       }
     }
   }"

definition bulk_ed ::
  "('p, 'd) ohci_env \<Rightarrow> u8 \<Rightarrow> u8 \<Rightarrow> u64 \<Rightarrow> u64 \<Rightarrow> u64 \<Rightarrow> u64 \<Rightarrow> u8 \<Rightarrow> u32 \<Rightarrow> ('p, 'd) ohci \<Rightarrow>
     (efi_status \<times> u64 \<times> u8 \<times> u32 \<times> ('p, 'd) ohci) run" where
  "bulk_ed E DeviceAddress EndPointAddress MaximumPacketLength TransferData TimeOut len toggle TransferResult s = do {
     let isin = (EndPointAddress AND 0x80 \<noteq> 0);
     (Ed, s) \<leftarrow> OhciCreateED E s;
     if Ed = 0 then Some (Error EFI_OUT_OF_RESOURCES, len, toggle, TransferResult, s)
     else do {
       s \<leftarrow> upd_ed Ed (set_ed (ed_settings DeviceAddress (ucast (EndPointAddress AND 0xF)) HI_SPEED MaximumPacketLength)) s;
       (HeadEd, s) \<leftarrow> OhciAttachEDToList E BULK_LIST Ed 0 s;
       let (r, s) = map_buffer E (if isin then MapOperationBusMasterWrite else MapOperationBusMasterRead) TransferData len s;
       (Status, len, toggle, TransferResult, s) \<leftarrow>
         (case r of
            Inl e \<Rightarrow> Some (Error e, len, toggle, TransferResult, s)
          | Inr (MapLength, MapPyhAddr, Mapping) \<Rightarrow> do {
              (ok, HeadTd, next, s) \<leftarrow>
                bulk_stages E (if isin then TD_IN_PID else TD_OUT_PID) MaximumPacketLength Ed toggle MapPyhAddr MapLength s;
              (Status, len, toggle, TransferResult, s) \<leftarrow>
                (if ok then bulk_run E Ed HeadTd TimeOut toggle len next TransferResult s
                 else Some (Error EFI_OUT_OF_RESOURCES, len, next, TransferResult, s));
              s \<leftarrow> unlink_ed E HC_BULK_HEAD HeadEd Ed s;
              s \<leftarrow> free_td_chain E HeadTd s;
              Some (Status, len, toggle, TransferResult, unmap E Mapping s)
            });
       s \<leftarrow> OhciFreeED E Ed s;
       Some (Status, len, toggle, TransferResult, s)
     }
   }"

text \<open>\<open>Data\<close> is the array of buffers, of which the first is used.\<close>

definition OhciBulkTransfer ::
  "('p, 'd) ohci_env \<Rightarrow> u8 \<Rightarrow> u8 \<Rightarrow> u64 \<Rightarrow> u64 option \<Rightarrow> u64 option \<Rightarrow> u8 option \<Rightarrow> u64 \<Rightarrow> u32 option \<Rightarrow> ('p, 'd) ohci \<Rightarrow>
     (efi_status \<times> u64 option \<times> u8 option \<times> u32 option \<times> ('p, 'd) ohci) run" where
  "OhciBulkTransfer E DeviceAddress EndPointAddress MaximumPacketLength Data DataLength DataToggle TimeOut TransferResult s =
     (case (Data, DataLength, DataToggle, TransferResult) of
        (Some TransferData, Some len, Some toggle, Some result) \<Rightarrow>
          if bulk_params_bad MaximumPacketLength len toggle \<or> TransferData = 0
          then Some (Error EFI_INVALID_PARAMETER, DataLength, DataToggle, TransferResult, s)
          else do {
            let M = hc E;
            let base = UsbHcBaseAddress E;
            let (Status, s) = OhciSetHcControl M base BULK_ENABLE 0 s;
            if EFI_ERROR Status then Some (Error EFI_DEVICE_ERROR, DataLength, DataToggle, Some EFI_USB_ERR_SYSTEM, s)
            else do {
              let (Status, s) = OhciSetHcCommandStatus M base BULK_LIST_FILLED 0 s;
              if EFI_ERROR Status then Some (Error EFI_DEVICE_ERROR, DataLength, DataToggle, Some EFI_USB_ERR_SYSTEM, s)
              else do {
                (_, s) \<leftarrow> OhciSetMemoryPointer M base HC_BULK_HEAD 0 s;
                (Status, len, toggle, result, s) \<leftarrow>
                  bulk_ed E DeviceAddress EndPointAddress MaximumPacketLength TransferData TimeOut len toggle result s;
                Some (Status, Some len, Some toggle, Some result, s)
              }
            }
          }
      | _ \<Rightarrow> Some (Error EFI_INVALID_PARAMETER, DataLength, DataToggle, TransferResult, s))"

section \<open>Interrupt transfers\<close>

definition sizeof_CONTEXT_ENTRY :: u64 where "sizeof_CONTEXT_ENTRY = 112"

text \<open>The level of the tree for a polling interval.\<close>

fun interval_depth :: "u64 \<Rightarrow> nat \<Rightarrow> u64 \<Rightarrow> nat" where
  "interval_depth PollingInterval 0 Index = 0"
| "interval_depth PollingInterval (Suc Depth) Index =
     (if PollingInterval \<ge> Index * 2 then interval_depth PollingInterval Depth (Index * 2) else Suc Depth)"

definition cancel_interrupt ::
  "('p, 'd) ohci_env \<Rightarrow> u8 \<Rightarrow> u8 \<Rightarrow> u8 option \<Rightarrow> ('p, 'd) ohci \<Rightarrow> (efi_status \<times> u8 option \<times> ('p, 'd) ohci) run" where
  "cancel_interrupt E DeviceAddress EndPointAddress DataToggle s = do {
     let M = hc E;
     let base = UsbHcBaseAddress E;
     let (OldTpl, s) = RaiseTPL TPL_NOTIFY s;
     let (_, s) = OhciSetHcControl M base PERIODIC_ENABLE 0 s;
     (_, DataToggle, s) \<leftarrow> OhciFreeInterruptContext E DeviceAddress EndPointAddress DataToggle s;
     (Status, s) \<leftarrow> OhciFreeInterruptEdByAddr E DeviceAddress (EndPointAddress AND 0xF) s;
     let (_, s) = OhciSetHcControl M base PERIODIC_ENABLE 1 s;
     Some (Status, DataToggle, RestoreTPL OldTpl s)
   }"

text \<open>The endpoint: one that is already scheduled, or a new one in the shortest list of its level.\<close>

definition interrupt_endpoint ::
  "('p, 'd) ohci_env \<Rightarrow> u8 \<Rightarrow> u8 \<Rightarrow> bool \<Rightarrow> u8 \<Rightarrow> u64 \<Rightarrow> ('p, 'd) ohci \<Rightarrow> (u64 \<times> u64 \<times> ('p, 'd) ohci) run" where
  "interrupt_endpoint E DeviceAddress EndPointAddress IsSlowDevice MaximumPacketLength PollingInterval s = do {
     let EdDir = (if EndPointAddress AND 0x80 \<noteq> 0 then ED_IN_DIR else ED_OUT_DIR);
     let EndPointNum = EndPointAddress AND 0xF;
     HeadEd \<leftarrow> OhciFindMinInterruptEDList (interval_depth PollingInterval 5 1) s;
     Ed \<leftarrow> OhciFindWorkingEd (eds s) HeadEd DeviceAddress EndPointNum EdDir;
     if Ed \<noteq> 0 then do { s \<leftarrow> upd_ed Ed (OhciSetEDField ED_SKIP 1) s; Some (HeadEd, Ed, s) }
     else do {
       (Ed, s) \<leftarrow> OhciCreateED E s;
       if Ed = 0 then Some (HeadEd, 0, s)
       else do {
         s \<leftarrow> upd_ed Ed (set_ed (interrupt_ed_settings DeviceAddress EndPointNum IsSlowDevice MaximumPacketLength)) s;
         (_, s) \<leftarrow> OhciAttachEDToList E INTERRUPT_LIST Ed HeadEd s;
         Some (HeadEd, Ed, s)
       }
     }
   }"

partial_function (option) pred_ed :: "(u64 \<rightharpoonup> ED_DESCRIPTOR) \<Rightarrow> u64 \<Rightarrow> u64 \<Rightarrow> u64 run" where
  "pred_ed T HeadEd Ed = do {
     e \<leftarrow> T HeadEd;
     if NextED e \<noteq> ucast Ed then pred_ed T (ucast (NextED e)) Ed else Some HeadEd
   }"

text \<open>The labels \<open>FREE_OHCI_TDBUFF\<close> and \<open>UNMAP_OHCI_XBUFF\<close>.\<close>

definition interrupt_undo ::
  "('p, 'd) ohci_env \<Rightarrow> u64 \<Rightarrow> u64 \<Rightarrow> u64 \<Rightarrow> u64 \<Rightarrow> ('p, 'd) ohci \<Rightarrow> ('p, 'd) ohci run" where
  "interrupt_undo E HeadEd Ed HeadTd Mapping s = do {
     s \<leftarrow> free_td_chain E HeadTd s;
     s \<leftarrow> (if HeadEd \<noteq> Ed \<and> HeadEd \<noteq> 0 \<and> Ed \<noteq> 0
          then do {
            p \<leftarrow> pred_ed (eds s) HeadEd Ed;
            e \<leftarrow> eds s Ed;
            s \<leftarrow> upd_ed p (\<lambda>h. h\<lparr>NextED := NextED e\<rparr>) s;
            OhciFreeED E Ed s
          }
          else Some s);
     Some (on_world (dma_unmap E Mapping) s)
   }"

record interrupt_request =
  rq_DeviceAddress :: u8
  rq_EndPointAddress :: u8
  rq_IsSlowDevice :: bool
  rq_MaximumPacketLength :: u8
  rq_PollingInterval :: u64
  rq_UCBuffer :: u64
  rq_DataLength :: u64
  rq_CallBackFunction :: u64
  rq_Context :: u64
  rq_IsPeriodic :: bool

definition context_entry :: "interrupt_request \<Rightarrow> u64 \<Rightarrow> u64 \<Rightarrow> u64 \<Rightarrow> INTERRUPT_CONTEXT_ENTRY" where
  "context_entry rq Ed HeadTd Mapping =
     \<lparr>ie_DeviceAddress = rq_DeviceAddress rq, ie_EndPointAddress = rq_EndPointAddress rq, ie_Ed = Ed, ie_DataTd = HeadTd,
      ie_IsSlowDevice = rq_IsSlowDevice rq, ie_MaximumPacketLength = rq_MaximumPacketLength rq,
      ie_PollingInterval = rq_PollingInterval rq, ie_CallBackFunction = rq_CallBackFunction rq,
      ie_Context = rq_Context rq, ie_IsPeriodic = rq_IsPeriodic rq, ie_DataLength = rq_DataLength rq,
      ie_UCBuffer = rq_UCBuffer rq, ie_UCBufferMapping = Mapping, NextEntry = 0\<rparr>"

text \<open>The context entry, when there is a callback; \<open>False\<close> when no memory is left for it.\<close>

definition register_context ::
  "('p, 'd) ohci_env \<Rightarrow> interrupt_request \<Rightarrow> u64 \<Rightarrow> u64 \<Rightarrow> u64 \<Rightarrow> ('p, 'd) ohci \<Rightarrow> (bool \<times> ('p, 'd) ohci) run" where
  "register_context E rq Ed HeadTd Mapping s =
     (if rq_CallBackFunction rq = 0 then Some (True, s)
      else do {
        let (Entry, w) = AllocatePool E sizeof_CONTEXT_ENTRY (world s);
        let s = s\<lparr>world := w\<rparr>;
        if Entry = 0 then Some (False, s)
        else do {
          (_, s) \<leftarrow> OhciAddInterruptContextEntry Entry
                     (s\<lparr>contexts := (contexts s)(Entry \<mapsto> context_entry rq Ed HeadTd Mapping)\<rparr>);
          Some (True, s)
        }
      })"

definition activate_interrupt :: "('p, 'd) ohci_env \<Rightarrow> u64 \<Rightarrow> ('p, 'd) ohci \<Rightarrow> ('p, 'd) ohci run" where
  "activate_interrupt E Ed s = do {
     let M = hc E;
     let base = UsbHcBaseAddress E;
     s \<leftarrow> upd_ed Ed (OhciSetEDField ED_SKIP 0) s;
     (v, s) \<leftarrow> OhciGetHcControl M base PERIODIC_ENABLE s;
     if v = 0
     then let (_, s) = OhciSetHcControl M base PERIODIC_ENABLE 1 s in Some (gBS_Stall E 1000 s)
     else Some s
   }"

text \<open>
  Result: status, next toggle, the descriptors put out. A failed allocation of the context entry
  jumps to the cleanup with the status of the mapping, which is a success.
\<close>

definition submit_interrupt ::
  "('p, 'd) ohci_env \<Rightarrow> interrupt_request \<Rightarrow> u8 \<Rightarrow> ('p, 'd) ohci \<Rightarrow> (efi_status \<times> u8 \<times> u64 \<times> u64 \<times> ('p, 'd) ohci) run" where
  "submit_interrupt E rq toggle s = do {
     let (r, s) = map_buffer E MapOperationBusMasterWrite (rq_UCBuffer rq) (rq_DataLength rq) s;
     case r of
       Inl e \<Rightarrow> Some (Error e, toggle, 0, 0, s)
     | Inr (MapLength, MapPyhAddr, Mapping) \<Rightarrow> do {
         (HeadEd, Ed, s) \<leftarrow> interrupt_endpoint E (rq_DeviceAddress rq) (rq_EndPointAddress rq) (rq_IsSlowDevice rq)
                              (rq_MaximumPacketLength rq) (rq_PollingInterval rq) s;
         if Ed = 0 then Some (Error EFI_OUT_OF_RESOURCES, toggle, 0, 0, on_world (dma_unmap E Mapping) s)
         else do {
           (ok, HeadTd, toggle, s) \<leftarrow>
             bulk_stages E (if rq_EndPointAddress rq AND 0x80 \<noteq> 0 then TD_IN_PID else TD_OUT_PID)
               (ucast (rq_MaximumPacketLength rq)) Ed toggle MapPyhAddr MapLength s;
           if \<not> ok
           then do {
             s \<leftarrow> interrupt_undo E HeadEd Ed HeadTd Mapping s;
             Some (Error EFI_OUT_OF_RESOURCES, toggle, 0, 0, s)
           }
           else do {
             (ok, s) \<leftarrow> register_context E rq Ed HeadTd Mapping s;
             if \<not> ok
             then do {
               s \<leftarrow> interrupt_undo E HeadEd Ed HeadTd Mapping s;
               Some (EFI_SUCCESS, toggle, Ed, HeadTd, s)
             }
             else do {
               s \<leftarrow> activate_interrupt E Ed s;
               Some (EFI_SUCCESS, toggle, Ed, HeadTd, s)
             }
           }
         }
       }
   }"

definition OhciInterruptTransfer ::
  "('p, 'd) ohci_env \<Rightarrow> interrupt_request \<Rightarrow> bool \<Rightarrow> u8 option \<Rightarrow> ('p, 'd) ohci \<Rightarrow>
     (efi_status \<times> u8 option \<times> u64 \<times> u64 \<times> ('p, 'd) ohci) run" where
  "OhciInterruptTransfer E rq IsNewTransfer DataToggle s =
     (if rq_DataLength rq > MAX_BYTES_PER_TD then Some (Error EFI_INVALID_PARAMETER, DataToggle, 0, 0, s)
      else if \<not> IsNewTransfer
      then do {
        (Status, DataToggle, s) \<leftarrow> cancel_interrupt E (rq_DeviceAddress rq) (rq_EndPointAddress rq) DataToggle s;
        Some (Status, DataToggle, 0, 0, s)
      }
      else do {
        toggle \<leftarrow> DataToggle;
        (Status, toggle, Ed, HeadTd, s) \<leftarrow> submit_interrupt E rq toggle s;
        Some (Status, Some toggle, Ed, HeadTd, s)
      })"

definition OhciAsyncInterruptTransfer ::
  "('p, 'd) ohci_env \<Rightarrow> u8 \<Rightarrow> u8 \<Rightarrow> u8 \<Rightarrow> u64 \<Rightarrow> bool \<Rightarrow> u8 option \<Rightarrow> u64 \<Rightarrow> u64 \<Rightarrow> u64 \<Rightarrow> u64 \<Rightarrow> ('p, 'd) ohci \<Rightarrow>
     (efi_status \<times> u8 option \<times> ('p, 'd) ohci) run" where
  "OhciAsyncInterruptTransfer E DeviceAddress EndPointAddress DeviceSpeed MaximumPacketLength IsNewTransfer DataToggle
       PollingInterval DataLength CallBackFunction Context s =
     (case DataToggle of
        None \<Rightarrow> Some (Error EFI_INVALID_PARAMETER, DataToggle, s)
      | Some toggle \<Rightarrow>
          if EndPointAddress AND 0x80 = 0 \<or>
             (IsNewTransfer \<and> (DataLength = 0 \<or> (toggle \<noteq> 0 \<and> toggle \<noteq> 1) \<or> PollingInterval < 1 \<or> PollingInterval > 255))
          then Some (Error EFI_INVALID_PARAMETER, DataToggle, s)
          else do {
            let Pages = EFI_SIZE_TO_PAGES DataLength;
            let (r, s) = (if IsNewTransfer then let (r, w) = dma_allocate E Pages (world s) in (r, s\<lparr>world := w\<rparr>) else (Inr 0, s));
            case r of
              Inl _ \<Rightarrow> Some (Error EFI_OUT_OF_RESOURCES, DataToggle, s)
            | Inr UCBuffer \<Rightarrow> do {
                (Status, DataToggle, _, _, s) \<leftarrow>
                  OhciInterruptTransfer E
                    \<lparr>rq_DeviceAddress = DeviceAddress, rq_EndPointAddress = EndPointAddress,
                     rq_IsSlowDevice = (DeviceSpeed = EFI_USB_SPEED_LOW), rq_MaximumPacketLength = ucast MaximumPacketLength,
                     rq_PollingInterval = PollingInterval, rq_UCBuffer = UCBuffer, rq_DataLength = DataLength,
                     rq_CallBackFunction = CallBackFunction, rq_Context = Context, rq_IsPeriodic = True\<rparr>
                    IsNewTransfer DataToggle s;
                Some (Status, DataToggle,
                      if UCBuffer \<noteq> 0 \<and> EFI_ERROR Status then on_world (dma_free E Pages UCBuffer) s else s)
              }
          })"

text \<open>The synchronous transfer polls while its time-out lasts, then cancels.\<close>

partial_function (option) poll_sync ::
  "('p, 'd) ohci_env \<Rightarrow> u64 \<Rightarrow> u64 \<Rightarrow> u64 \<Rightarrow> efi_status \<Rightarrow> OHCI_ED_RESULT \<Rightarrow> ('p, 'd) ohci \<Rightarrow>
     (efi_status \<times> OHCI_ED_RESULT \<times> ('p, 'd) ohci) run" where
  "poll_sync E Ed HeadTd TimeOut Status EdResult s =
     (if Status = Error EFI_NOT_READY \<and> TimeOut > 0
      then do {
        (Status, EdResult, s) \<leftarrow> CheckIfDone E INTERRUPT_LIST Ed HeadTd EdResult (gBS_Stall E 1000 s);
        poll_sync E Ed HeadTd (TimeOut - 1) Status EdResult s
      }
      else Some (Status, EdResult, s))"

definition sync_params_bad :: "u8 \<Rightarrow> u8 \<Rightarrow> u64 \<Rightarrow> u64 \<Rightarrow> u64 \<Rightarrow> u8 \<Rightarrow> bool" where
  "sync_params_bad EndPointAddress DeviceSpeed MaximumPacketLength Data len toggle \<longleftrightarrow>
     EndPointAddress AND 0x80 = 0 \<or> Data = 0 \<or> len = 0 \<or>
     (DeviceSpeed = EFI_USB_SPEED_LOW \<and> MaximumPacketLength > 8) \<or>
     (DeviceSpeed \<noteq> EFI_USB_SPEED_LOW \<and> MaximumPacketLength > 64) \<or>
     (toggle \<noteq> 0 \<and> toggle \<noteq> 1)"

definition sync_request :: "u8 \<Rightarrow> u8 \<Rightarrow> u8 \<Rightarrow> u64 \<Rightarrow> u64 \<Rightarrow> u64 \<Rightarrow> u64 \<Rightarrow> interrupt_request" where
  "sync_request DeviceAddress EndPointAddress DeviceSpeed MaximumPacketLength PollingInterval UCBuffer len =
     \<lparr>rq_DeviceAddress = DeviceAddress, rq_EndPointAddress = EndPointAddress,
      rq_IsSlowDevice = (DeviceSpeed = EFI_USB_SPEED_LOW), rq_MaximumPacketLength = ucast MaximumPacketLength,
      rq_PollingInterval = PollingInterval, rq_UCBuffer = UCBuffer, rq_DataLength = len,
      rq_CallBackFunction = 0, rq_Context = 0, rq_IsPeriodic = False\<rparr>"

definition OhciSyncInterruptTransfer ::
  "('p, 'd) ohci_env \<Rightarrow> u8 \<Rightarrow> u8 \<Rightarrow> u8 \<Rightarrow> u64 \<Rightarrow> u64 \<Rightarrow> u64 option \<Rightarrow> u8 option \<Rightarrow> u64 \<Rightarrow> u32 option \<Rightarrow> ('p, 'd) ohci \<Rightarrow>
     (efi_status \<times> u8 option \<times> u32 option \<times> ('p, 'd) ohci) run" where
  "OhciSyncInterruptTransfer E DeviceAddress EndPointAddress DeviceSpeed MaximumPacketLength Data DataLength DataToggle
       TimeOut TransferResult s =
     (case (DataLength, DataToggle, TransferResult) of
        (Some len, Some toggle, Some result) \<Rightarrow>
          if sync_params_bad EndPointAddress DeviceSpeed MaximumPacketLength Data len toggle
          then Some (Error EFI_INVALID_PARAMETER, DataToggle, TransferResult, s)
          else do {
            let (UCBuffer, w) = AllocatePool E len (world s);
            let s = s\<lparr>world := w\<rparr>;
            if UCBuffer = 0 then Some (Error EFI_OUT_OF_RESOURCES, DataToggle, TransferResult, s)
            else do {
              (Status, DataToggle, Ed, HeadTd, s) \<leftarrow>
                OhciInterruptTransfer E
                  (sync_request DeviceAddress EndPointAddress DeviceSpeed MaximumPacketLength 1 UCBuffer len) True DataToggle s;
              (result, s) \<leftarrow>
                (if \<not> EFI_ERROR Status
                 then do {
                   (Status, EdResult, s) \<leftarrow> CheckIfDone E INTERRUPT_LIST Ed HeadTd \<lparr>ErrorCode = 0, NextToggle = 0\<rparr> s;
                   (Status, EdResult, s) \<leftarrow> poll_sync E Ed HeadTd TimeOut Status EdResult s;
                   Some (ConvertErrorCode (ErrorCode EdResult), s)
                 }
                 else Some (result, s));
              let s = on_world (CopyMem E Data UCBuffer len) s;
              (Status, DataToggle, _, _, s) \<leftarrow>
                OhciInterruptTransfer E
                  (sync_request DeviceAddress EndPointAddress DeviceSpeed MaximumPacketLength 0 0 0) False DataToggle s;
              Some (Status, DataToggle, Some result, s)
            }
          }
      | _ \<Rightarrow> Some (Error EFI_INVALID_PARAMETER, DataToggle, TransferResult, s))"

section \<open>Isochronous transfers\<close>

definition OhciIsochronousTransfer :: "u64 \<Rightarrow> u64 \<Rightarrow> u64 \<Rightarrow> efi_status" where
  "OhciIsochronousTransfer Data DataLength TransferResult =
     (if Data = 0 \<or> DataLength = 0 \<or> TransferResult = 0 then Error EFI_INVALID_PARAMETER else Error EFI_UNSUPPORTED)"

definition OhciAsyncIsochronousTransfer :: "u64 \<Rightarrow> u64 \<Rightarrow> efi_status" where
  "OhciAsyncIsochronousTransfer Data DataLength =
     (if Data = 0 \<or> DataLength = 0 then Error EFI_INVALID_PARAMETER else Error EFI_UNSUPPORTED)"

text \<open>The loops run: their equations are code.\<close>

declare data_stage.simps [code]
  poll_done.simps [code]
  pred_ed.simps [code]
  poll_sync.simps [code]

end
