(* ===== verification/OhciChain.thy ===== *)
theory OhciChain
  imports OhciTransfer "HOL-Library.Multiset"
begin

text \<open>
  Chains of transfer descriptors and the memory they live in. The pool is the locale \<open>descriptor_pool\<close>: what
  the driver needs of \<open>UsbHcMem.c\<close>. The controller and the services are the locale \<open>ohci_system\<close>, whose
  laws are what the OHCI specification lets a controller change. The lemmas say what the
  driver's loops over chains compute, and that no descriptor is lost.
\<close>

section \<open>The pool\<close>

text \<open>Addresses that fit a descriptor's pointer fields and come back from them.\<close>

definition desc_addr :: "u64 \<Rightarrow> bool" where
  "desc_addr a \<longleftrightarrow> a \<noteq> 0 \<and> unat a < 2 ^ 32 \<and> 16 dvd unat a"

definition desc_sizes :: "u64 set" where
  "desc_sizes = {sizeof_TD, sizeof_ED}"

locale descriptor_pool =
  fixes ops :: "'p pool_ops"
    and pool_ok :: "'p \<Rightarrow> (u64 \<times> u64) set \<Rightarrow> bool"
  assumes alloc: "pool_ok p live \<Longrightarrow> n \<in> desc_sizes \<Longrightarrow>
      \<exists>a p'. pool_alloc ops p n = Some (a, p') \<and>
        (if a = 0 then pool_ok p' live else desc_addr a \<and> a \<notin> fst ` live \<and> pool_ok p' (insert (a, n) live))"
    and free: "pool_ok p live \<Longrightarrow> (a, n) \<in> live \<Longrightarrow>
      \<exists>p'. pool_free ops p a n = Some p' \<and> pool_ok p' (live - {(a, n)})"

lemma desc_addr_cut: "desc_addr a \<Longrightarrow> ucast (ucast a :: u32) = a"
proof -
  assume a: "desc_addr a"
  have "unat (ucast (ucast a :: u32) :: u64) = unat a"
    using a by (simp add: desc_addr_def unsigned_ucast_eq unsigned_take_bit_eq take_bit_nat_eq_self)
  then show ?thesis
    by (rule word_eqI_unat)
qed

lemma desc_addr_nonzero: "desc_addr a \<Longrightarrow> (ucast a :: u32) \<noteq> 0"
  using desc_addr_cut [of a] by (auto simp: desc_addr_def)

section \<open>The controller and the services\<close>

text \<open>What a controller may change in a descriptor; an endpoint marked to be skipped it leaves alone.\<close>

definition hw_td :: "TD_DESCRIPTOR \<Rightarrow> TD_DESCRIPTOR \<Rightarrow> bool" where
  "hw_td t t' \<longleftrightarrow> t' = t\<lparr>td_DataToggle := td_DataToggle t', ErrorCount := ErrorCount t', ConditionCode := ConditionCode t',
     CurrBufferPointer := CurrBufferPointer t', NextTD := NextTD t'\<rparr>"

definition hw_ed :: "ED_DESCRIPTOR \<Rightarrow> ED_DESCRIPTOR \<Rightarrow> bool" where
  "hw_ed e e' \<longleftrightarrow> (Skip e = 1 \<longrightarrow> e' = e) \<and>
     e' = e\<lparr>Halted := Halted e', ToggleCarry := ToggleCarry e', TdHeadPointer := TdHeadPointer e'\<rparr>"

definition hw_keeps :: "('p, 'd) ohci \<Rightarrow> ('p, 'd) ohci \<Rightarrow> bool" where
  "hw_keeps s s' \<longleftrightarrow>
     MemPool s' = MemPool s \<and> (\<forall>a. rel_option hw_td (tds s a) (tds s' a)) \<and> (\<forall>a. rel_option hw_ed (eds s a) (eds s' a)) \<and>
     HccaInterruptTable s' = HccaInterruptTable s \<and> IntervalList s' = IntervalList s \<and>
     InterruptContextList s' = InterruptContextList s \<and> contexts s' = contexts s \<and> tpl s' = tpl s"

definition list_heads :: "u32 set" where
  "list_heads = {HC_CONTROL_HEAD, HC_BULK_HEAD}"

text \<open>
  What the controller and the DMA library do from now on is the script of the device, which the driver does not
  change: \<open>looked\<close> says that a register read gave a value while the descriptors in memory were as they are,
  \<open>answered\<close> that a mapping was granted with a length and a bus address, \<open>denied\<close> that one was refused.
\<close>

locale ohci_system = descriptor_pool "pool E" pool_ok
  for E :: "('p, 'd) ohci_env" and pool_ok :: "'p \<Rightarrow> (u64 \<times> u64) set \<Rightarrow> bool" +
  fixes head :: "'d \<Rightarrow> u32 \<Rightarrow> u32"
    and mapped :: "'d \<Rightarrow> u64 multiset"
    and script :: "'d \<Rightarrow> 'e"
    and looked :: "'e \<Rightarrow> u64 \<Rightarrow> u32 \<Rightarrow> (u64 \<rightharpoonup> TD_DESCRIPTOR) \<Rightarrow> bool"
    and answered :: "'e \<Rightarrow> u64 \<times> u64 \<Rightarrow> bool"
    and denied :: "'e \<Rightarrow> efi_error \<Rightarrow> bool"
  assumes read_keeps: "hw_keeps s (snd (MmioRead32 (hc E) s a))"
    and write_keeps: "hw_keeps s (MmioWrite32 (hc E) s a w)"
    and delay_keeps: "hw_keeps s (MicroSecondDelay (hc E) s k)"
    and read_head: "R \<in> list_heads \<Longrightarrow> fst (MmioRead32 (hc E) s (ucast (UsbHcBaseAddress E + R))) = head (world s) R"
    and write_head: "R \<in> list_heads \<Longrightarrow> w AND 15 = 0 \<Longrightarrow>
      head (world (MmioWrite32 (hc E) s (ucast (UsbHcBaseAddress E + R)) w)) = (head (world s))(R := w)"
    and write_other: "a \<notin> (\<lambda>R. ucast (UsbHcBaseAddress E + R)) ` list_heads \<Longrightarrow>
      head (world (MmioWrite32 (hc E) s a w)) = head (world s)"
    and read_other: "head (world (snd (MmioRead32 (hc E) s a))) = head (world s)"
    and delay_other: "head (world (MicroSecondDelay (hc E) s k)) = head (world s)"
    and hw_mapped: "mapped (world (snd (MmioRead32 (hc E) s a))) = mapped (world s)"
      "mapped (world (MmioWrite32 (hc E) s a w)) = mapped (world s)"
      "mapped (world (MicroSecondDelay (hc E) s k)) = mapped (world s)"
    and looks: "a \<notin> (\<lambda>R. ucast (UsbHcBaseAddress E + R)) ` list_heads \<Longrightarrow>
      looked (script (world s)) a (fst (MmioRead32 (hc E) s a)) (tds (snd (MmioRead32 (hc E) s a)))"
    and hw_script: "script (world (snd (MmioRead32 (hc E) s a))) = script (world s)"
      "script (world (MmioWrite32 (hc E) s a w)) = script (world s)"
      "script (world (MicroSecondDelay (hc E) s k)) = script (world s)"
    and map_fails: "dma_map E f b n d = (Inl e, d') \<Longrightarrow>
      mapped d' = mapped d \<and> head d' = head d \<and> script d' = script d \<and> denied (script d) e"
    and map_works: "dma_map E f b n d = (Inr (len, addr, m), d') \<Longrightarrow>
      m \<noteq> 0 \<and> mapped d' = add_mset m (mapped d) \<and> head d' = head d \<and> script d' = script d \<and> answered (script d) (len, addr)"
    and unmap_works: "mapped (dma_unmap E m d) = mapped d - {#m#}" "head (dma_unmap E m d) = head d"

section \<open>Chains\<close>

definition first_link :: "(u64 \<times> TD_DESCRIPTOR) list \<Rightarrow> u32" where
  "first_link xs = (case xs of [] \<Rightarrow> 0 | x # _ \<Rightarrow> ucast (fst x))"

fun links :: "(u64 \<times> TD_DESCRIPTOR) list \<Rightarrow> u64 \<rightharpoonup> TD_DESCRIPTOR" where
  "links [] = Map.empty"
| "links ((a, c) # xs) = (links xs)(a \<mapsto> c\<lparr>NextTD := first_link xs, NextTDPointer := first_link xs\<rparr>)"

lemma dom_links [simp]: "dom (links xs) = fst ` set xs"
  by (induction xs rule: links.induct) (simp_all del: fun_upd_apply)

lemma first_link_append: "first_link (xs @ ys) = (if xs = [] then first_link ys else first_link xs)"
  by (cases xs) (auto simp: first_link_def)

lemma links_snoc:
  assumes "distinct (map fst (xs @ [(a, c), (b, d)]))"
  shows "links (xs @ [(a, c), (b, d)]) =
    (links (xs @ [(a, c)]))(a \<mapsto> c\<lparr>NextTD := ucast b, NextTDPointer := ucast b\<rparr>, b \<mapsto> d\<lparr>NextTD := 0, NextTDPointer := 0\<rparr>)"
  using assms
proof (induction xs)
  case Nil
  then show ?case
    by (auto simp: first_link_def fun_upd_twist)
next
  case (Cons x xs)
  obtain u v where x: "x = (u, v)"
    by (cases x)
  have "u \<noteq> a" "u \<noteq> b"
    using Cons.prems x by auto
  moreover have "first_link (xs @ [(a, c), (b, d)]) = first_link (xs @ [(a, c)])"
    by (cases xs) (auto simp: first_link_def)
  ultimately show ?case
    using Cons by (simp add: x fun_upd_twist del: fun_upd_apply)
qed

lemma last_td_links:
  "links xs \<subseteq>\<^sub>m T \<Longrightarrow> xs \<noteq> [] \<Longrightarrow> distinct (map fst xs) \<Longrightarrow> (\<And>a. a \<in> fst ` set xs \<Longrightarrow> desc_addr a) \<Longrightarrow>
   last_td T (fst (hd xs)) = Some (fst (last xs))"
proof (induction xs rule: links.induct)
  case (2 a c xs)
  have here: "T a = Some (c\<lparr>NextTD := first_link xs, NextTDPointer := first_link xs\<rparr>)"
    using 2(2) by (force simp: map_le_def simp del: dom_links)
  show ?case
  proof (cases xs)
    case Nil
    then show ?thesis
      using here by (simp add: last_td.simps first_link_def)
  next
    case (Cons y ys)
    have "links xs \<subseteq>\<^sub>m T"
    proof -
      have "links xs \<subseteq>\<^sub>m links ((a, c) # xs)"
        using 2(4) by (auto simp: map_le_def)
      then show ?thesis
        by (rule map_le_trans [OF _ 2(2)])
    qed
    then have IH: "last_td T (fst (hd xs)) = Some (fst (last xs))"
      using 2 Cons by auto
    have "first_link xs = ucast (fst y)" "desc_addr (fst y)"
      using Cons 2(5) by (auto simp: first_link_def)
    then show ?thesis
      using here IH Cons desc_addr_cut [of "fst y"] desc_addr_nonzero [of "fst y"]
      by (simp add: last_td.simps [of T a])
  qed
qed simp

lemma links_last: "distinct (map fst (ys @ [(a, c)])) \<Longrightarrow> links (ys @ [(a, c)]) a = Some (c\<lparr>NextTD := 0, NextTDPointer := 0\<rparr>)"
  by (induction ys rule: links.induct) (auto simp: first_link_def)

text \<open>Linking a new descriptor at the end.\<close>

lemma OhciLinkTD_links:
  assumes T: "tds s = (T0 ++ links xs)(b \<mapsto> d)" and d: "NextTD d = 0" "NextTDPointer d = 0"
    and xs: "xs \<noteq> []" "distinct (map fst (xs @ [(b, d)]))" "\<And>a. a \<in> fst ` set xs \<Longrightarrow> desc_addr a"
  shows "OhciLinkTD (fst (hd xs)) b s = Some (EFI_SUCCESS, s\<lparr>tds := T0 ++ links (xs @ [(b, d)])\<rparr>)"
proof -
  obtain ys a c where ys: "xs = ys @ [(a, c)]"
    using xs(1) by (metis rev_exhaust surj_pair)
  have "links xs \<subseteq>\<^sub>m tds s"
    using xs(2) unfolding T by (auto simp: map_le_def map_add_dom_app_simps(1) simp del: map_add_dom_app_simps(3))
  then have last: "last_td (tds s) (fst (hd xs)) = Some a"
    using last_td_links [of xs "tds s"] xs ys by simp
  have distinct: "distinct (map fst (ys @ [(a, c), (b, d)]))"
    using xs(2) ys by simp
  have "tds s a = links xs a" "links xs a = Some (c\<lparr>NextTD := 0, NextTDPointer := 0\<rparr>)"
    using distinct unfolding T ys
    by (simp_all add: map_add_dom_app_simps(1) links_last)
  moreover have "fst (hd xs) \<noteq> 0" "fst (hd xs) \<noteq> b"
    using xs by (cases xs; auto simp: desc_addr_def)+
  moreover have "d\<lparr>NextTD := 0, NextTDPointer := 0\<rparr> = d"
    using d by simp
  ultimately show ?thesis
    using last links_snoc [OF distinct] distinct
    by (simp add: OhciLinkTD_def append_td_def upd_td_def T ys fun_upd_twist)
qed

section \<open>Stores and pool\<close>

definition live_of :: "('p, 'd) ohci \<Rightarrow> (u64 \<times> u64) set" where
  "live_of s = dom (tds s) \<times> {sizeof_TD} \<union> dom (eds s) \<times> {sizeof_ED}"

definition stores_ok :: "('p \<Rightarrow> (u64 \<times> u64) set \<Rightarrow> bool) \<Rightarrow> ('p, 'd) ohci \<Rightarrow> bool" where
  "stores_ok pool_ok s \<longleftrightarrow> pool_ok (MemPool s) (live_of s) \<and> dom (tds s) \<inter> dom (eds s) = {} \<and>
     (\<forall>a \<in> dom (tds s) \<union> dom (eds s). desc_addr a)"

lemma sizes_differ [simp]: "sizeof_TD \<noteq> sizeof_ED" "sizeof_ED \<noteq> sizeof_TD"
  by (simp_all add: sizeof_TD_def sizeof_ED_def)

lemma fst_live_of: "fst ` live_of s = dom (tds s) \<union> dom (eds s)"
  by (force simp: live_of_def)

lemma hw_keeps_dom:
  assumes "hw_keeps s s'"
  shows "dom (tds s') = dom (tds s)" "dom (eds s') = dom (eds s)"
proof -
  have "rel_option hw_td (tds s a) (tds s' a)" "rel_option hw_ed (eds s a) (eds s' a)" for a
    using assms by (auto simp: hw_keeps_def)
  then show "dom (tds s') = dom (tds s)" "dom (eds s') = dom (eds s)"
    by (simp add: dom_def set_eq_iff, metis option.rel_distinct not_None_eq)+
qed

lemma hw_keeps_stores: "hw_keeps s s' \<Longrightarrow> stores_ok ok s \<Longrightarrow> stores_ok ok s'"
  using hw_keeps_dom [of s s'] by (simp add: stores_ok_def live_of_def) (simp add: hw_keeps_def)

lemma hw_td_refl [simp]: "hw_td t t" and hw_ed_refl [simp]: "hw_ed e e"
  by (simp_all add: hw_td_def hw_ed_def)

lemma hw_td_link: "hw_td t t' \<Longrightarrow> NextTDPointer t' = NextTDPointer t"
  unfolding hw_td_def by (drule arg_cong [of _ _ NextTDPointer]) simp

lemma hw_ed_next: "hw_ed e e' \<Longrightarrow> NextED e' = NextED e"
  unfolding hw_ed_def by (elim conjE) (drule arg_cong [of _ _ NextED], simp)

lemma hw_ed_skipped: "hw_ed e e' \<Longrightarrow> Skip e = 1 \<Longrightarrow> e' = e"
  by (simp add: hw_ed_def)

lemma hw_td_trans: "hw_td t u \<Longrightarrow> hw_td u v \<Longrightarrow> hw_td t v"
  by (cases t; cases u; cases v) (simp add: hw_td_def)

lemma hw_ed_trans: "hw_ed t u \<Longrightarrow> hw_ed u v \<Longrightarrow> hw_ed t v"
  by (cases t; cases u; cases v) (auto simp: hw_ed_def)

lemma hw_keeps_refl [simp]: "hw_keeps s s"
  by (simp add: hw_keeps_def option.rel_refl)

lemma hw_keeps_trans: "hw_keeps s t \<Longrightarrow> hw_keeps t u \<Longrightarrow> hw_keeps s u"
proof -
  have td: "transp (rel_option hw_td)" and ed: "transp (rel_option hw_ed)"
    by (intro option.rel_transp transpI, erule (1) hw_td_trans hw_ed_trans)+
  assume st: "hw_keeps s t" and tu: "hw_keeps t u"
  then have "rel_option hw_td (tds s a) (tds u a)" "rel_option hw_ed (eds s a) (eds u a)" for a
    using transpD [OF td, of "tds s a" "tds t a" "tds u a"] transpD [OF ed, of "eds s a" "eds t a" "eds u a"]
    by (auto simp: hw_keeps_def)
  then show ?thesis
    using st tu by (simp add: hw_keeps_def)
qed

lemma hw_keeps_td:
  assumes "hw_keeps s s'" "tds s a = Some t"
  obtains t' where "tds s' a = Some t'" "hw_td t t'"
proof -
  have "rel_option hw_td (Some t) (tds s' a)"
    using assms by (metis hw_keeps_def)
  then show thesis
    using that by (cases "tds s' a") auto
qed

lemma hw_keeps_ed:
  assumes "hw_keeps s s'" "eds s a = Some e"
  obtains e' where "eds s' a = Some e'" "hw_ed e e'"
proof -
  have "rel_option hw_ed (Some e) (eds s' a)"
    using assms by (metis hw_keeps_def)
  then show thesis
    using that by (cases "eds s' a") auto
qed

text \<open>The driver's own links, which the controller does not touch.\<close>

fun nchain :: "(u64 \<rightharpoonup> TD_DESCRIPTOR) \<Rightarrow> u64 \<Rightarrow> u64 list \<Rightarrow> bool" where
  "nchain T p [] \<longleftrightarrow> p = 0"
| "nchain T p (a # as) \<longleftrightarrow> p = a \<and> a \<noteq> 0 \<and> (\<exists>t. T a = Some t \<and> nchain T (ucast (NextTDPointer t)) as)"

lemma nchain_hw: "nchain (tds s) p as \<Longrightarrow> hw_keeps s s' \<Longrightarrow> nchain (tds s') p as"
proof (induction as arbitrary: p)
  case (Cons a as)
  then obtain t where t: "p = a" "a \<noteq> 0" "tds s a = Some t" "nchain (tds s) (ucast (NextTDPointer t)) as"
    by auto
  obtain t' where t': "tds s' a = Some t'" "hw_td t t'"
    using hw_keeps_td [OF Cons.prems(2) t(3)] .
  have "NextTDPointer t' = NextTDPointer t"
    by (rule hw_td_link [OF t'(2)])
  then show ?case
    using t t' Cons.IH [OF t(4) Cons.prems(2)] by auto
qed simp

lemma nchain_links:
  "links xs \<subseteq>\<^sub>m T \<Longrightarrow> distinct (map fst xs) \<Longrightarrow> (\<And>a. a \<in> fst ` set xs \<Longrightarrow> desc_addr a) \<Longrightarrow>
   nchain T (if xs = [] then 0 else fst (hd xs)) (map fst xs)"
proof (induction xs rule: links.induct)
  case (2 a c xs)
  have here: "T a = Some (c\<lparr>NextTD := first_link xs, NextTDPointer := first_link xs\<rparr>)"
    using 2(2) by (force simp: map_le_def simp del: dom_links)
  have "links xs \<subseteq>\<^sub>m links ((a, c) # xs)"
    using 2(3) by (auto simp: map_le_def)
  then have "links xs \<subseteq>\<^sub>m T"
    by (rule map_le_trans [OF _ 2(2)])
  then have "nchain T (if xs = [] then 0 else fst (hd xs)) (map fst xs)"
    using 2 by auto
  moreover have "ucast (first_link xs) = (if xs = [] then 0 else fst (hd xs))"
    using 2(4) desc_addr_cut by (cases xs) (auto simp: first_link_def)
  ultimately show ?case
    using here 2(4) by (auto simp: desc_addr_def)
qed simp

lemma nchain_drop: "nchain T p as \<Longrightarrow> a \<notin> set as \<Longrightarrow> nchain (T(a := x)) p as"
  by (induction as arbitrary: p) auto

section \<open>Descriptors come from the pool and go back to it\<close>

context descriptor_pool
begin

text \<open>State \<open>q\<close> of the pool is one after it refused a descriptor.\<close>

definition refused :: "u64 \<Rightarrow> 'p \<Rightarrow> bool" where
  "refused n q \<longleftrightarrow> (\<exists>p live. pool_ok p live \<and> pool_alloc ops p n = Some (0, q))"

lemma create_td:
  assumes "stores_ok pool_ok s" "pool E = ops"
  obtains (full) q where "new_td E f s = Some (0, s\<lparr>MemPool := q\<rparr>)" "stores_ok pool_ok (s\<lparr>MemPool := q\<rparr>)" "refused sizeof_TD q"
  | (new) a q where "new_td E f s = Some (a, s\<lparr>MemPool := q, tds := (tds s)(a \<mapsto> f zero_td)\<rparr>)" "desc_addr a"
      "a \<notin> dom (tds s)" "a \<notin> dom (eds s)" "stores_ok pool_ok (s\<lparr>MemPool := q, tds := (tds s)(a \<mapsto> f zero_td)\<rparr>)"
proof -
  have ok: "pool_ok (MemPool s) (live_of s)" "dom (tds s) \<inter> dom (eds s) = {}" "\<forall>a \<in> dom (tds s) \<union> dom (eds s). desc_addr a"
    using assms(1) by (auto simp: stores_ok_def)
  obtain a q where al: "pool_alloc ops (MemPool s) sizeof_TD = Some (a, q)"
    "if a = 0 then pool_ok q (live_of s)
     else desc_addr a \<and> a \<notin> fst ` live_of s \<and> pool_ok q (insert (a, sizeof_TD) (live_of s))"
    using alloc [OF ok(1), of sizeof_TD] by (auto simp: desc_sizes_def)
  have zero: "zero_td\<lparr>CurrBufferPointer := 0, NextTD := 0, BufferEndPointer := 0, NextTDPointer := 0\<rparr> = zero_td"
    by (simp add: zero_td_def)
  show thesis
  proof (cases "a = 0")
    case True
    then have "refused sizeof_TD q"
      using al(1) ok(1) by (auto simp: refused_def)
    then show thesis
      by (intro full [of q]) (use True al ok assms(2) in \<open>simp_all add: new_td_def OhciCreateTD_def stores_ok_def live_of_def\<close>)
  next
    case False
    let ?s = "s\<lparr>MemPool := q, tds := (tds s)(a \<mapsto> f zero_td)\<rparr>"
    have a: "desc_addr a" "a \<notin> dom (tds s)" "a \<notin> dom (eds s)" "pool_ok q (insert (a, sizeof_TD) (live_of s))"
      using al(2) False by (simp_all add: fst_live_of)
    have "live_of ?s = insert (a, sizeof_TD) (live_of s)"
      by (auto simp: live_of_def)
    then have "stores_ok pool_ok ?s"
      using ok a by (auto simp: stores_ok_def)
    then show thesis
      using False al(1) assms(2) a by (intro new [of a q]) (simp_all add: new_td_def OhciCreateTD_def zero upd_td_def)
  qed
qed

lemma create_ed:
  assumes "stores_ok pool_ok s" "pool E = ops"
  obtains (full) q where "OhciCreateED E s = Some (0, s\<lparr>MemPool := q\<rparr>)" "stores_ok pool_ok (s\<lparr>MemPool := q\<rparr>)"
      "refused sizeof_ED q"
  | (new) a q where "OhciCreateED E s = Some (a, s\<lparr>MemPool := q, eds := (eds s)(a \<mapsto> zero_ed\<lparr>Skip := 1\<rparr>)\<rparr>)" "desc_addr a"
      "a \<notin> dom (tds s)" "a \<notin> dom (eds s)" "stores_ok pool_ok (s\<lparr>MemPool := q, eds := (eds s)(a \<mapsto> zero_ed\<lparr>Skip := 1\<rparr>)\<rparr>)"
proof -
  have ok: "pool_ok (MemPool s) (live_of s)" "dom (tds s) \<inter> dom (eds s) = {}" "\<forall>a \<in> dom (tds s) \<union> dom (eds s). desc_addr a"
    using assms(1) by (auto simp: stores_ok_def)
  obtain a q where al: "pool_alloc ops (MemPool s) sizeof_ED = Some (a, q)"
    "if a = 0 then pool_ok q (live_of s)
     else desc_addr a \<and> a \<notin> fst ` live_of s \<and> pool_ok q (insert (a, sizeof_ED) (live_of s))"
    using alloc [OF ok(1), of sizeof_ED] by (auto simp: desc_sizes_def)
  have zero: "zero_ed\<lparr>Skip := 1, TdTailPointer := 0, TdHeadPointer := 0, NextED := 0\<rparr> = zero_ed\<lparr>Skip := 1\<rparr>"
    by (simp add: zero_ed_def)
  show thesis
  proof (cases "a = 0")
    case True
    have "refused sizeof_ED q"
      using al(1) ok(1) True by (auto simp: refused_def)
    then show thesis
      by (intro full [of q]) (use True al ok assms(2) in \<open>simp_all add: OhciCreateED_def stores_ok_def live_of_def\<close>)
  next
    case False
    let ?s = "s\<lparr>MemPool := q, eds := (eds s)(a \<mapsto> zero_ed\<lparr>Skip := 1\<rparr>)\<rparr>"
    have a: "desc_addr a" "a \<notin> dom (tds s)" "a \<notin> dom (eds s)" "pool_ok q (insert (a, sizeof_ED) (live_of s))"
      using al(2) False by (simp_all add: fst_live_of)
    have "live_of ?s = insert (a, sizeof_ED) (live_of s)"
      by (auto simp: live_of_def)
    then have "stores_ok pool_ok ?s"
      using ok a by (auto simp: stores_ok_def)
    then show thesis
      using False al(1) assms(2) a by (intro new [of a q]) (simp_all add: OhciCreateED_def zero)
  qed
qed

lemma free_td:
  assumes "stores_ok pool_ok s" "pool E = ops" "a \<in> dom (tds s)"
  obtains q where "OhciFreeTD E a s = Some (s\<lparr>MemPool := q, tds := (tds s)(a := None)\<rparr>)"
    "stores_ok pool_ok (s\<lparr>MemPool := q, tds := (tds s)(a := None)\<rparr>)"
proof -
  have ok: "pool_ok (MemPool s) (live_of s)" "dom (tds s) \<inter> dom (eds s) = {}" "\<forall>a \<in> dom (tds s) \<union> dom (eds s). desc_addr a"
    using assms(1) by (auto simp: stores_ok_def)
  have "(a, sizeof_TD) \<in> live_of s"
    using assms(3) by (simp add: live_of_def)
  then obtain q where fr: "pool_free ops (MemPool s) a sizeof_TD = Some q" "pool_ok q (live_of s - {(a, sizeof_TD)})"
    using free [OF ok(1)] by blast
  let ?s = "s\<lparr>MemPool := q, tds := (tds s)(a := None)\<rparr>"
  have "live_of ?s = live_of s - {(a, sizeof_TD)}"
    using ok(2) assms(3) by (auto simp: live_of_def)
  then have "stores_ok pool_ok ?s"
    using ok fr(2) by (auto simp: stores_ok_def)
  moreover have "a \<noteq> 0"
    using ok(3) assms(3) by (auto simp: desc_addr_def)
  ultimately show thesis
    using that [of q] fr(1) assms(2) by (simp add: OhciFreeTD_def)
qed

lemma free_ed:
  assumes "stores_ok pool_ok s" "pool E = ops" "a \<in> dom (eds s)"
  obtains q where "OhciFreeED E a s = Some (s\<lparr>MemPool := q, eds := (eds s)(a := None)\<rparr>)"
    "stores_ok pool_ok (s\<lparr>MemPool := q, eds := (eds s)(a := None)\<rparr>)"
proof -
  have ok: "pool_ok (MemPool s) (live_of s)" "dom (tds s) \<inter> dom (eds s) = {}" "\<forall>a \<in> dom (tds s) \<union> dom (eds s). desc_addr a"
    using assms(1) by (auto simp: stores_ok_def)
  have "(a, sizeof_ED) \<in> live_of s"
    using assms(3) by (simp add: live_of_def)
  then obtain q where fr: "pool_free ops (MemPool s) a sizeof_ED = Some q" "pool_ok q (live_of s - {(a, sizeof_ED)})"
    using free [OF ok(1)] by blast
  let ?s = "s\<lparr>MemPool := q, eds := (eds s)(a := None)\<rparr>"
  have "live_of ?s = live_of s - {(a, sizeof_ED)}"
    using ok(2) assms(3) by (auto simp: live_of_def)
  then have "stores_ok pool_ok ?s"
    using ok fr(2) by (auto simp: stores_ok_def)
  moreover have "a \<noteq> 0"
    using ok(3) assms(3) by (auto simp: desc_addr_def)
  ultimately show thesis
    using that [of q] fr(1) assms(2) by (simp add: OhciFreeED_def)
qed

lemma free_td_chain_nchain:
  assumes "nchain (tds s) p as" "distinct as" "stores_ok pool_ok s" "pool E = ops"
  shows "\<exists>q. free_td_chain E p s = Some (s\<lparr>MemPool := q, tds := (tds s) |` (- set as)\<rparr>) \<and>
    stores_ok pool_ok (s\<lparr>MemPool := q, tds := (tds s) |` (- set as)\<rparr>)"
  using assms
proof (induction as arbitrary: p s)
  case Nil
  have "s = s\<lparr>MemPool := MemPool s, tds := tds s\<rparr>"
    by simp
  then show ?case
    using Nil by (intro exI [of _ "MemPool s"]) (simp add: free_td_chain.simps)
next
  case (Cons a as)
  obtain t where t: "p = a" "a \<noteq> 0" "tds s a = Some t" "nchain (tds s) (ucast (NextTDPointer t)) as"
    using Cons.prems(1) by auto
  obtain q where q: "OhciFreeTD E a s = Some (s\<lparr>MemPool := q, tds := (tds s)(a := None)\<rparr>)"
    "stores_ok pool_ok (s\<lparr>MemPool := q, tds := (tds s)(a := None)\<rparr>)"
    using free_td [OF Cons.prems(3,4)] t(3) by blast
  let ?s = "s\<lparr>MemPool := q, tds := (tds s)(a := None)\<rparr>"
  have rest: "nchain (tds ?s) (ucast (NextTDPointer t)) as" "distinct as"
    using nchain_drop [OF t(4)] Cons.prems(2) by simp_all
  obtain q' where "free_td_chain E (ucast (NextTDPointer t)) ?s = Some (?s\<lparr>MemPool := q', tds := tds ?s |` (- set as)\<rparr>)"
    "stores_ok pool_ok (?s\<lparr>MemPool := q', tds := tds ?s |` (- set as)\<rparr>)"
    using Cons.IH [OF rest q(2) Cons.prems(4)] by blast
  moreover have "(tds s)(a := None) |` (- set as) = tds s |` (- set (a # as))"
    by (auto simp: restrict_map_def fun_eq_iff)
  ultimately show ?case
    using t q(1) by (auto simp: free_td_chain.simps [of E a])
qed

end

section \<open>Building a chain\<close>

definition chain_head :: "(u64 \<times> TD_DESCRIPTOR) list \<Rightarrow> u64" where
  "chain_head xs = (if xs = [] then 0 else fst (hd xs))"

definition chain_ok_td :: "(u64 \<times> TD_DESCRIPTOR) list \<Rightarrow> bool" where
  "chain_ok_td xs \<longleftrightarrow> distinct (map fst xs) \<and> (\<forall>a \<in> fst ` set xs. desc_addr a)"

lemma chain_ok_snoc:
  "chain_ok_td xs \<Longrightarrow> desc_addr b \<Longrightarrow> b \<notin> fst ` set xs \<Longrightarrow> chain_ok_td (xs @ [(b, d)])"
  by (auto simp: chain_ok_td_def)

lemma chain_head_zero: "chain_ok_td xs \<Longrightarrow> chain_head xs = 0 \<longleftrightarrow> xs = []"
  by (cases xs) (auto simp: chain_head_def chain_ok_td_def desc_addr_def)

lemma chain_head_snoc: "chain_head (xs @ ys) = (if xs = [] then chain_head ys else chain_head xs)"
  by (simp add: chain_head_def)

lemma chain_td_links:
  assumes T: "tds s = (T0 ++ links xs)(b \<mapsto> d)" and d: "NextTD d = 0" "NextTDPointer d = 0"
    and ok: "chain_ok_td xs" "desc_addr b" "b \<notin> fst ` set xs"
  shows "chain_td (chain_head xs) b s = Some (chain_head (xs @ [(b, d)]), s\<lparr>tds := T0 ++ links (xs @ [(b, d)])\<rparr>)"
proof (cases "xs = []")
  case True
  have "d\<lparr>NextTD := 0, NextTDPointer := 0\<rparr> = d"
    using d by simp
  then have "s\<lparr>tds := T0 ++ links [(b, d)]\<rparr> = s"
    using T True by (simp add: first_link_def)
  then show ?thesis
    using True by (simp add: chain_td_def chain_head_def)
next
  case False
  have "distinct (map fst (xs @ [(b, d)]))" "\<And>a. a \<in> fst ` set xs \<Longrightarrow> desc_addr a"
    using ok by (auto simp: chain_ok_td_def)
  then have "OhciLinkTD (chain_head xs) b s = Some (EFI_SUCCESS, s\<lparr>tds := T0 ++ links (xs @ [(b, d)])\<rparr>)"
    using OhciLinkTD_links [OF T d False] False by (simp add: chain_head_def)
  then show ?thesis
    using False chain_head_zero [OF ok(1)] by (simp add: chain_td_def chain_head_snoc)
qed

text \<open>The pieces of a buffer: toggle, address and length of each.\<close>

function pieces :: "u64 \<Rightarrow> u8 \<Rightarrow> u64 \<Rightarrow> u64 \<Rightarrow> (u8 \<times> u64 \<times> u64) list" where
  "pieces mps toggle addr left =
     (if left = 0 \<or> mps = 0 then []
      else let n = (if left > mps then mps else left)
           in (toggle, addr, n) # pieces mps (toggle XOR 1) (addr + n) (left - n))"
  by pat_completeness auto
termination
proof (relation "measure (\<lambda>(mps, toggle, addr, left). unat left)")
  fix mps :: u64 and toggle :: u8 and addr left n :: u64
  assume left: "\<not> (left = 0 \<or> mps = 0)" and n: "n = (if left > mps then mps else left)"
  then have "n \<le> left" "n \<noteq> 0"
    by (auto simp: not_less)
  then have "unat (left - n) < unat left"
  proof -
    have "unat n \<noteq> 0" "unat n \<le> unat left"
      using \<open>n \<le> left\<close> \<open>n \<noteq> 0\<close> by (simp_all add: word_le_nat_alt unsigned_eq_0_iff)
    then show ?thesis
      using unat_sub [OF \<open>n \<le> left\<close>] by linarith
  qed
  then show "((mps, toggle XOR 1, addr + n, left - n), mps, toggle, addr, left) \<in> measure (\<lambda>(mps, toggle, addr, left). unat left)"
    by simp
qed simp

declare pieces.simps [simp del]

definition data_tds :: "u32 \<Rightarrow> (u8 \<times> u64 \<times> u64) list \<Rightarrow> TD_DESCRIPTOR list" where
  "data_tds pid = map (\<lambda>(toggle, addr, n). data_td pid toggle addr n zero_td)"

lemma data_td_unlinked: "NextTD (data_td pid toggle addr n zero_td) = 0" "NextTDPointer (data_td pid toggle addr n zero_td) = 0"
  by (simp_all add: data_td_def set_td_def OhciSetTDField_def set_if_def TD_PDATA_def TD_BUFFER_ROUND_def TD_DIR_PID_def
      TD_DELAY_INT_def TD_DT_TOGGLE_def TD_ERROR_CNT_def TD_COND_CODE_def TD_CURR_BUFFER_PTR_def TD_BUFFER_END_PTR_def
      TD_NEXT_PTR_def zero_td_def)

context descriptor_pool
begin

text \<open>
  The data stage appends one descriptor per piece of the buffer, as many as the pool has room for,
  and is completed when that is all of them.
\<close>

lemma data_stage_pieces:
  assumes "stores_ok pool_ok s" "pool E = ops" "tds s = T0 ++ links xs" "chain_ok_td xs" "mps \<noteq> 0"
  shows "\<exists>as q. let ps = pieces mps toggle addr left; k = length as; ys = xs @ zip as (data_tds pid ps);
      s' = s\<lparr>MemPool := q, tds := T0 ++ links ys\<rparr>
    in k \<le> length ps \<and> chain_ok_td ys \<and> set as \<inter> (dom (tds s) \<union> dom (eds s)) = {} \<and> stores_ok pool_ok s' \<and> (k < length ps \<longrightarrow> refused sizeof_TD q) \<and>
      data_stage E pid mps (chain_head xs) toggle addr left s =
        Some (k = length ps, chain_head ys, if odd k then toggle XOR 1 else toggle, s')"
  using assms
proof (induction mps toggle addr left arbitrary: xs s rule: pieces.induct)
  case (1 mps toggle addr left)
  let ?n = "if left > mps then mps else left"
  let ?d = "data_td pid toggle addr ?n zero_td"
  show ?case
  proof (cases "left = 0")
    case True
    have same: "s\<lparr>tds := T0 ++ links xs\<rparr> = s"
      using "1.prems"(3) by (cases s) simp
    have "stores_ok pool_ok (s\<lparr>tds := T0 ++ links xs\<rparr>)" "pieces mps toggle addr 0 = []"
      unfolding same by (rule "1.prems"(1), simp add: pieces.simps)
    then show ?thesis
      using True "1.prems"(4) same by (intro exI [of _ "[]"] exI [of _ "MemPool s"])
        (simp add: data_stage.simps [of E pid mps] Let_def data_tds_def)
  next
    case False
    then have pos: "left > 0" "\<not> (left = 0 \<or> mps = 0)"
      using "1.prems"(5) by (simp_all add: word_gt_0)
    have ps: "pieces mps toggle addr left = (toggle, addr, ?n) # pieces mps (toggle XOR 1) (addr + ?n) (left - ?n)"
      by (simp only: pieces.simps [of mps toggle addr left] pos(2) if_False Let_def)
    show ?thesis
    proof (cases rule: create_td [OF "1.prems"(1,2), of "data_td pid toggle addr ?n", case_names full new])
      case (full q)
      have same: "s\<lparr>MemPool := q, tds := T0 ++ links xs\<rparr> = s\<lparr>MemPool := q\<rparr>"
        using "1.prems"(3) by (cases s) simp
      show ?thesis
        using full "1.prems"(4) pos(1) same by (intro exI [of _ "[]"] exI [of _ q])
          (simp add: ps data_stage.simps [of E pid mps] Let_def data_tds_def)
    next
      case (new a q)
      let ?s1 = "s\<lparr>MemPool := q, tds := (tds s)(a \<mapsto> ?d)\<rparr>"
      let ?ys = "xs @ [(a, ?d)]"
      have fresh: "a \<notin> fst ` set xs"
        using new(3) "1.prems"(3) by auto
      have link: "chain_td (chain_head xs) a ?s1 = Some (chain_head ?ys, ?s1\<lparr>tds := T0 ++ links ?ys\<rparr>)"
        by (rule chain_td_links) (use "1.prems" new fresh in \<open>simp_all add: data_td_unlinked\<close>)
      let ?s2 = "s\<lparr>MemPool := q, tds := T0 ++ links ?ys\<rparr>"
      have dom: "dom (tds ?s2) = insert a (dom (tds s))"
        using "1.prems"(3) by auto
      have ok2: "stores_ok pool_ok ?s2"
        using new(5) dom by (simp add: stores_ok_def live_of_def)
      have nz: "a \<noteq> 0"
        using new(2) by (simp add: desc_addr_def)
      let ?ps = "pieces mps (toggle XOR 1) (addr + ?n) (left - ?n)"
      have step: "chain_ok_td ?ys"
        using chain_ok_snoc [OF "1.prems"(4) new(2) fresh] .
      have "tds ?s2 = T0 ++ links ?ys"
        by simp
      note ex = "1.IH" [OF pos(2) refl ok2 "1.prems"(2) this step "1.prems"(5), unfolded Let_def]
      obtain as q' where IH0: "length as \<le> length ?ps" "chain_ok_td (?ys @ zip as (data_tds pid ?ps))"
        "set as \<inter> (dom (tds ?s2) \<union> dom (eds ?s2)) = {}"
        "stores_ok pool_ok (?s2\<lparr>MemPool := q', tds := T0 ++ links (?ys @ zip as (data_tds pid ?ps))\<rparr>)"
        "length as < length ?ps \<longrightarrow> refused sizeof_TD q'"
        "data_stage E pid mps (chain_head ?ys) (toggle XOR 1) (addr + ?n) (left - ?n) ?s2 =
           Some (length as = length ?ps, chain_head (?ys @ zip as (data_tds pid ?ps)),
             if odd (length as) then (toggle XOR 1) XOR 1 else toggle XOR 1,
             ?s2\<lparr>MemPool := q', tds := T0 ++ links (?ys @ zip as (data_tds pid ?ps))\<rparr>)"
        using ex by (elim exE conjE) (rule that, assumption+)
      have twice: "(toggle XOR 1) XOR 1 = toggle"
        by (simp add: xor.assoc)
      note IH = IH0 [unfolded twice]
      have run: "data_stage E pid mps (chain_head xs) toggle addr left s =
          data_stage E pid mps (chain_head ?ys) (toggle XOR 1) (addr + ?n) (left - ?n) ?s2"
        unfolding data_stage.simps [of E pid mps "chain_head xs"] using pos(1) new(1) link nz by (simp add: Let_def)
      have dis: "set (a # as) \<inter> (dom (tds s) \<union> dom (eds s)) = {}"
        using IH(3) new(3,4) unfolding dom by auto
      have more: "data_tds pid ((toggle, addr, ?n) # ?ps) = ?d # data_tds pid ?ps"
        by (simp add: data_tds_def)
      show ?thesis
        unfolding run ps Let_def more
        by (intro exI [of _ "a # as"] exI [of _ q'] conjI) (use IH dis in simp_all)
    qed
  qed
qed

end

end
