(* ===== verification/OhciSystem.thy ===== *)
theory OhciSystem
  imports OhciChain
begin

text \<open>
  A transfer from beginning to end in a system of a controller, a pool and a DMA library that keep their
  contracts: what the registers do, what polling returns, and that the state after a transfer is the
  state before it, up to what the controller may write into descriptors.
\<close>

section \<open>The state around a transfer\<close>

text \<open>
  State \<open>s'\<close> is state \<open>s\<close> but for the endpoint \<open>Ed\<close> of the transfer and the chain \<open>as\<close> that starts at \<open>p\<close>; everything
  else is as it was, up to what the controller may change.
\<close>

definition with_chain :: "u64 \<Rightarrow> ('p, 'd) ohci \<Rightarrow> ('p, 'd) ohci \<Rightarrow> u64 \<Rightarrow> u64 list \<Rightarrow> bool" where
  "with_chain Ed s s' p as \<longleftrightarrow>
     (\<forall>a. a \<notin> set as \<longrightarrow> rel_option hw_td (tds s a) (tds s' a)) \<and> set as \<inter> dom (tds s) = {} \<and> distinct as \<and>
     nchain (tds s') p as \<and> (\<forall>a. a \<noteq> Ed \<longrightarrow> rel_option hw_ed (eds s a) (eds s' a)) \<and> Ed \<in> dom (eds s') \<and>
     HccaInterruptTable s' = HccaInterruptTable s \<and> IntervalList s' = IntervalList s \<and>
     InterruptContextList s' = InterruptContextList s \<and> contexts s' = contexts s \<and> tpl s' = tpl s"

lemma with_chain_simps [simp]:
  "with_chain Ed s (s'\<lparr>MemPool := q\<rparr>) p as = with_chain Ed s s' p as"
  "with_chain Ed s (s'\<lparr>world := w\<rparr>) p as = with_chain Ed s s' p as"
  by (simp_all add: with_chain_def)

lemma rel_option_trans:
  "(\<And>x y z. R x y \<Longrightarrow> R y z \<Longrightarrow> R x z) \<Longrightarrow> rel_option R a b \<Longrightarrow> rel_option R b c \<Longrightarrow> rel_option R a c"
  by (cases a; cases b; cases c) auto

lemma with_chain_hw: "with_chain Ed s s' p as \<Longrightarrow> hw_keeps s' s'' \<Longrightarrow> with_chain Ed s s'' p as"
  using nchain_hw [of s' p as s''] hw_keeps_dom [of s' s''] rel_option_trans [of hw_td, OF hw_td_trans]
    rel_option_trans [of hw_ed, OF hw_ed_trans]
  by (auto simp: with_chain_def hw_keeps_def)

lemma with_chain_ed: "with_chain Ed s s' p as \<Longrightarrow> with_chain Ed s (s'\<lparr>eds := (eds s')(Ed \<mapsto> e)\<rparr>) p as"
  by (auto simp: with_chain_def)

lemma with_chain_links:
  assumes "with_chain Ed s s1 0 []" "tds s' = tds s1 ++ links ys" "chain_ok_td ys" "fst ` set ys \<inter> dom (tds s1) = {}"
    and "eds s' = (eds s1)(Ed \<mapsto> e) \<or> eds s' = eds s1"
    and "HccaInterruptTable s' = HccaInterruptTable s1" "IntervalList s' = IntervalList s1"
      "InterruptContextList s' = InterruptContextList s1" "contexts s' = contexts s1" "tpl s' = tpl s1"
  shows "with_chain Ed s s' (chain_head ys) (map fst ys)"
proof -
  have "links ys \<subseteq>\<^sub>m tds s'"
    unfolding assms(2) by (simp add: map_le_map_add)
  then have "nchain (tds s') (chain_head ys) (map fst ys)"
    unfolding chain_head_def using assms(3) by (intro nchain_links) (auto simp: chain_ok_td_def)
  moreover have "rel_option hw_td (tds s a) (tds s' a)" if "a \<notin> fst ` set ys" for a
  proof -
    have "tds s' a = tds s1 a"
      using that assms(2) by (simp add: map_add_dom_app_simps(3))
    then show ?thesis
      using assms(1) by (simp add: with_chain_def)
  qed
  moreover have "\<forall>a \<in> fst ` set ys. tds s a = None"
  proof
    fix a assume "a \<in> fst ` set ys"
    then have "tds s1 a = None"
      using assms(4) by blast
    moreover have "rel_option hw_td (tds s a) (tds s1 a)"
      using assms(1) by (simp add: with_chain_def)
    ultimately show "tds s a = None"
      by simp
  qed
  then have "set (map fst ys) \<inter> dom (tds s) = {}"
    by force
  ultimately show ?thesis
    using assms by (auto simp: with_chain_def chain_ok_td_def)
qed

lemma stores_ok_ed: "stores_ok ok s \<Longrightarrow> Ed \<in> dom (eds s) \<Longrightarrow> stores_ok ok (s\<lparr>eds := (eds s)(Ed \<mapsto> e)\<rparr>)"
  by (simp add: stores_ok_def live_of_def insert_absorb)

lemma stores_ok_world [simp]: "stores_ok ok (s\<lparr>world := w\<rparr>) = stores_ok ok s"
  by (simp add: stores_ok_def live_of_def)

lemma ucast_u32_inj: "(ucast (x :: u32) :: u64) = ucast y \<longleftrightarrow> x = y"
  by transfer simp

section \<open>The code of a chain\<close>

text \<open>
  The first condition code that is not zero in a chain, the empty descriptor at its end left aside, and the
  code of a control transfer when the command status register is \<open>v\<close>: the list still being filled is a
  transfer that is not done.
\<close>

definition first_code :: "(u64 \<rightharpoonup> TD_DESCRIPTOR) \<Rightarrow> u64 list \<Rightarrow> u32" where
  "first_code T as =
     (case filter (\<lambda>a. ConditionCode (the (T a)) \<noteq> 0) (butlast as) of
        [] \<Rightarrow> TD_NO_ERROR
      | a # _ \<Rightarrow> ucast (ConditionCode (the (T a))))"

definition transfer_code :: "u32 \<Rightarrow> (u64 \<rightharpoonup> TD_DESCRIPTOR) \<Rightarrow> u64 list \<Rightarrow> u32" where
  "transfer_code v T as = (if bit v 1 then TD_TOBE_PROCESSED else first_code T as)"

section \<open>Registers\<close>

context ohci_system
begin

definition quiet :: "('p, 'd) ohci \<Rightarrow> ('p, 'd) ohci \<Rightarrow> bool" where
  "quiet s s' \<longleftrightarrow> hw_keeps s s' \<and> mapped (world s') = mapped (world s) \<and> head (world s') = head (world s) \<and>
     script (world s') = script (world s)"

lemma quiet_refl [simp]: "quiet s s"
  by (simp add: quiet_def)

lemma quiet_trans: "quiet s t \<Longrightarrow> quiet t u \<Longrightarrow> quiet s u"
  by (auto simp: quiet_def intro: hw_keeps_trans)

lemma quiet_read: "quiet s (snd (MmioRead32 (hc E) s a))"
  by (simp add: quiet_def read_keeps read_other hw_mapped hw_script)

lemma quiet_stall: "quiet s (gBS_Stall E k s)"
  by (simp add: quiet_def gBS_Stall_def delay_keeps delay_other hw_mapped hw_script)

lemma offset_inj: "(ucast (UsbHcBaseAddress E + R) :: u64) = ucast (UsbHcBaseAddress E + R') \<longleftrightarrow> R = R'"
proof
  assume "(ucast (UsbHcBaseAddress E + R) :: u64) = ucast (UsbHcBaseAddress E + R')"
  then show "R = R'"
    using ucast_u32_inj by simp
qed simp

lemma quiet_write: "R \<notin> list_heads \<Longrightarrow> quiet s (MmioWrite32 (hc E) s (ucast (UsbHcBaseAddress E + R)) w)"
  by (auto simp: quiet_def write_keeps hw_mapped hw_script intro!: write_other simp: offset_inj)

lemma head_regs [simp]:
  "HC_CONTROL \<notin> list_heads" "HC_COMMAND_STATUS \<notin> list_heads" "HC_CONTROL_HEAD \<in> list_heads" "HC_BULK_HEAD \<in> list_heads"
  by (simp_all add: list_heads_def HC_CONTROL_def HC_COMMAND_STATUS_def HC_CONTROL_HEAD_def HC_BULK_HEAD_def)

lemma set_control:
  obtains n s' where "OhciSetHcControl (hc E) (UsbHcBaseAddress E) Fld v s = (Value n, s')" "quiet s s'"
proof -
  let ?s1 = "snd (MmioRead32 (hc E) s (ucast (UsbHcBaseAddress E + HC_CONTROL)))"
  have "quiet s (MmioWrite32 (hc E) ?s1 (ucast (UsbHcBaseAddress E + HC_CONTROL)) w)" for w
    using quiet_read quiet_write by (rule quiet_trans) simp
  then show thesis
    using that by (auto simp: OhciSetHcControl_def modify_reg_def OhciGetOperationalReg_def OhciSetOperationalReg_def split_beta)
qed

lemma set_command:
  obtains n s' where "OhciSetHcCommandStatus (hc E) (UsbHcBaseAddress E) Fld v s = (Value n, s')" "quiet s s'"
  using that quiet_write [of HC_COMMAND_STATUS s] by (auto simp: OhciSetHcCommandStatus_def OhciSetOperationalReg_def)

lemma get_command:
  assumes "(Fld, p, n) \<in> set HcCOMMAND_STATUS_fields"
  obtains v s' where "OhciGetHcCommandStatus (hc E) (UsbHcBaseAddress E) Fld s = Some (v, s')" "quiet s s'"
  using that quiet_read get_field_mem [OF tables_ok(3) assms]
  by (auto simp: OhciGetHcCommandStatus_def read_field_def OhciGetOperationalReg_def split_beta)

lemma get_head:
  assumes "R \<in> list_heads"
  obtains s' where "OhciGetMemoryPointer (hc E) (UsbHcBaseAddress E) R s = (head (world s) R, s')" "quiet s s'"
  using that [of "snd (MmioRead32 (hc E) s (ucast (UsbHcBaseAddress E + R)))"] read_head [OF assms, of s]
    quiet_read [of s "ucast (UsbHcBaseAddress E + R)"]
  by (cases "MmioRead32 (hc E) s (ucast (UsbHcBaseAddress E + R))") (auto simp: OhciGetMemoryPointer_def OhciGetOperationalReg_def)

text \<open>Writing a list head comes back at once when the register keeps what is written.\<close>

lemma set_head:
  assumes "R \<in> list_heads" "w AND 15 = 0"
  obtains s' where "OhciSetMemoryPointer (hc E) (UsbHcBaseAddress E) R w s = Some (Value (unat w), s')"
    "hw_keeps s s'" "mapped (world s') = mapped (world s)" "head (world s') = (head (world s))(R := w)"
    "script (world s') = script (world s)"
proof -
  let ?a = "ucast (UsbHcBaseAddress E + R)"
  let ?s1 = "MmioWrite32 (hc E) s ?a w"
  have head1: "head (world ?s1) = (head (world s))(R := w)"
    by (rule write_head [OF assms])
  obtain v s2 where rd: "MmioRead32 (hc E) ?s1 ?a = (v, s2)"
    by (cases "MmioRead32 (hc E) ?s1 ?a")
  have v: "v = w"
    using read_head [OF assms(1), of ?s1] head1 rd by simp
  have q: "quiet ?s1 s2"
    using quiet_read [of ?s1 ?a] rd by simp
  have "OhciSetMemoryPointer (hc E) (UsbHcBaseAddress E) R w s = Some (Value (unat w), s2)"
    using rd v by (simp add: OhciSetMemoryPointer_def OhciSetOperationalReg_def verify_pointer.simps [of "hc E"] OhciGetOperationalReg_def)
  moreover have "hw_keeps s s2"
    using write_keeps [of s ?a w] q by (auto simp: quiet_def intro: hw_keeps_trans)
  ultimately show thesis
    using that [of s2] head1 q by (simp add: quiet_def hw_mapped hw_script)
qed

lemma quiet_stores: "quiet s s' \<Longrightarrow> stores_ok pool_ok s \<Longrightarrow> stores_ok pool_ok s'"
  by (auto simp: quiet_def intro: hw_keeps_stores)

lemma quiet_chain: "with_chain Ed s s' p as \<Longrightarrow> quiet s' s'' \<Longrightarrow> with_chain Ed s s'' p as"
  by (auto simp: quiet_def intro: with_chain_hw)

section \<open>Polling\<close>

lemma CheckEDStatus_code:
  "nchain (tds s) p as \<Longrightarrow> as \<noteq> [] \<Longrightarrow> \<exists>r. CheckEDStatus s Ed p res = Some (first_code (tds s) as, r)"
proof (induction as arbitrary: p res)
  case (Cons a as)
  then obtain t where t: "p = a" "a \<noteq> 0" "tds s a = Some t" "nchain (tds s) (ucast (NextTDPointer t)) as"
    by auto
  have ends: "NextTDPointer t = 0 \<longleftrightarrow> as = []"
    using t(4) ucast_u32_inj [of "NextTDPointer t" 0] by (cases as) auto
  show ?case
  proof (cases as)
    case Nil
    then show ?thesis
      using t ends by (simp add: CheckEDStatus.simps [of s Ed a] first_code_def)
  next
    case (Cons b bs)
    then show ?thesis
      using t ends Cons.IH [of "ucast (NextTDPointer t)"] by (simp add: CheckEDStatus.simps [of s Ed a] first_code_def)
  qed
qed simp

text \<open>The result is what the chain shows after one look at the command status register.\<close>

definition seen :: "('p, 'd) ohci \<Rightarrow> u64 list \<Rightarrow> OHCI_ED_RESULT \<Rightarrow> bool" where
  "seen s as r \<longleftrightarrow> (\<exists>v. looked (script (world s)) (ucast (UsbHcBaseAddress E + HC_COMMAND_STATUS)) v (tds s) \<and>
     ErrorCode r = transfer_code v (tds s) as)"

lemma control_filled:
  obtains v s' where "list_filled E CONTROL_LIST s = Some (bit v 1, s')" "quiet s s'"
    "looked (script (world s')) (ucast (UsbHcBaseAddress E + HC_COMMAND_STATUS)) v (tds s')"
proof -
  let ?a = "ucast (UsbHcBaseAddress E + HC_COMMAND_STATUS) :: u64"
  obtain v s' where rd: "MmioRead32 (hc E) s ?a = (v, s')"
    by (cases "MmioRead32 (hc E) s ?a")
  have "get_bits (1, 1) v \<noteq> 0 \<longleftrightarrow> bit v 1"
  proof
    show "bit v 1 \<Longrightarrow> get_bits (1, 1) v \<noteq> 0"
      using bit_get_bits [of 1 1 v 0] by (metis add_0_right bit_0_eq bot_fun_def bot_bool_def less_one)
    assume "get_bits (1, 1) v \<noteq> 0"
    then obtain i where "bit (get_bits (1, 1) v) i"
      by (auto simp: bit_eq_iff)
    then show "bit v 1"
      by (auto simp: bit_get_bits)
  qed
  moreover have "get_field HcCOMMAND_STATUS_fields CONTROL_LIST_FILLED v = Some (get_bits (1, 1) v)"
    by (rule get_field_mem [OF tables_ok(3)]) (simp add: HcCOMMAND_STATUS_fields_def)
  ultimately have "list_filled E CONTROL_LIST s = Some (bit v 1, s')"
    using rd by (simp add: list_filled_def OhciGetHcCommandStatus_def read_field_def OhciGetOperationalReg_def)
  moreover have "quiet s s'"
    using quiet_read [of s ?a] rd by simp
  moreover have "?a \<notin> (\<lambda>R. ucast (UsbHcBaseAddress E + R)) ` list_heads"
    using head_regs(2) by (auto simp: offset_inj)
  then have "looked (script (world s')) ?a v (tds s')"
    using looks [of ?a s] hw_script(1) [of s ?a] rd by simp
  ultimately show thesis
    by (rule that)
qed

lemma CheckIfDone_sees:
  assumes "with_chain Ed s s' p as" "as \<noteq> []"
  obtains r s'' where "CheckIfDone E CONTROL_LIST Ed p res s' = Some (OhciTDConditionCodeToStatus (ErrorCode r), r, s'')"
    "quiet s' s''" "seen s'' as r"
proof -
  obtain v s1 where f: "list_filled E CONTROL_LIST s' = Some (bit v 1, s1)" "quiet s' s1"
      "looked (script (world s1)) (ucast (UsbHcBaseAddress E + HC_COMMAND_STATUS)) v (tds s1)"
    by (rule control_filled)
  have chain: "nchain (tds s1) p as"
    using quiet_chain [OF assms(1) f(2)] by (simp add: with_chain_def)
  obtain r where c: "CheckEDStatus s1 Ed p (res\<lparr>ErrorCode := TD_TOBE_PROCESSED\<rparr>) = Some (first_code (tds s1) as, r)"
    using CheckEDStatus_code [OF chain assms(2)] by blast
  let ?r = "(if bit v 1 then res else r)\<lparr>ErrorCode := transfer_code v (tds s1) as\<rparr>"
  have "CheckIfDone E CONTROL_LIST Ed p res s' = Some (OhciTDConditionCodeToStatus (ErrorCode ?r), ?r, s1)"
    using f(1) c
    by (simp add: CheckIfDone_def OhciTDConditionCodeToStatus_def transfer_code_def TD_TOBE_PROCESSED_def TD_NO_ERROR_def)
  moreover have "seen s1 as ?r"
    using f(3) by (auto simp: seen_def)
  ultimately show thesis
    using that f(2) by blast
qed

lemma poll_done_sees:
  assumes "with_chain Ed s s' p as" "as \<noteq> []" "TimeOut \<noteq> - 1" "seen s' as r"
  shows "\<exists>r' s''. poll_done E CONTROL_LIST Ed p TimeCount TimeOut (OhciTDConditionCodeToStatus (ErrorCode r)) r s' =
    Some (OhciTDConditionCodeToStatus (ErrorCode r'), r', s'') \<and> quiet s' s'' \<and> seen s'' as r'"
  using assms(1,4)
proof (induction "Suc (unat TimeOut) - unat TimeCount" arbitrary: TimeCount r s')
  case 0
  then have "\<not> TimeCount \<le> TimeOut"
    by (simp add: word_le_nat_alt)
  then show ?case
    using 0 by (simp add: poll_done.simps [of E])
next
  case (Suc k)
  show ?case
  proof (cases "OhciTDConditionCodeToStatus (ErrorCode r) = Error EFI_NOT_READY \<and> TimeCount \<le> TimeOut")
    case False
    then show ?thesis
      using Suc.prems(2) by (auto simp: poll_done.simps [of E])
  next
    case True
    have quiet1: "quiet s' (gBS_Stall E 1000 s')"
      by (rule quiet_stall)
    obtain r1 s1 where c: "CheckIfDone E CONTROL_LIST Ed p r (gBS_Stall E 1000 s') =
        Some (OhciTDConditionCodeToStatus (ErrorCode r1), r1, s1)" "quiet (gBS_Stall E 1000 s') s1" "seen s1 as r1"
      using CheckIfDone_sees [OF quiet_chain [OF Suc.prems(1) quiet1] assms(2)] by blast
    have q: "quiet s' s1"
      using quiet1 c(2) by (rule quiet_trans)
    have "TimeOut < - 1"
      using assms(3) by (simp add: word_order.not_eq_extremum)
    then have "TimeCount < - 1"
      using True by (meson le_less_trans)
    then have "unat TimeCount < 2 ^ 64 - 1"
      by (simp add: word_less_nat_alt unsigned_minus_1_eq_mask mask_eq_exp_minus_1)
    then have "unat (TimeCount + 1) = Suc (unat TimeCount)"
      by (simp add: unat_word_ariths)
    then have "k = Suc (unat TimeOut) - unat (TimeCount + 1)"
      using Suc.hyps(2) by linarith
    from Suc.hyps(1) [OF this quiet_chain [OF Suc.prems(1) q] c(3)] obtain r' s'' where
      "poll_done E CONTROL_LIST Ed p (TimeCount + 1) TimeOut (OhciTDConditionCodeToStatus (ErrorCode r1)) r1 s1 =
        Some (OhciTDConditionCodeToStatus (ErrorCode r'), r', s'')" "quiet s1 s''" "seen s'' as r'"
      by blast
    then show ?thesis
      using True c(1) quiet_trans [OF q] by (auto simp: poll_done.simps [of E CONTROL_LIST Ed p TimeCount])
  qed
qed

lemma wait_done_sees:
  assumes "with_chain Ed s s' p as" "as \<noteq> []" "TimeOut \<noteq> - 1"
  obtains r' s'' where "wait_done E CONTROL_LIST Ed p TimeOut r s' = Some (OhciTDConditionCodeToStatus (ErrorCode r'), r', s'')"
    "quiet s' s''" "seen s'' as r'"
proof -
  obtain r1 s1 where c: "CheckIfDone E CONTROL_LIST Ed p r s' = Some (OhciTDConditionCodeToStatus (ErrorCode r1), r1, s1)"
      "quiet s' s1" "seen s1 as r1"
    by (rule CheckIfDone_sees [OF assms(1,2)])
  obtain r' s'' where "poll_done E CONTROL_LIST Ed p 0 TimeOut (OhciTDConditionCodeToStatus (ErrorCode r1)) r1 s1 =
      Some (OhciTDConditionCodeToStatus (ErrorCode r'), r', s'')" "quiet s1 s''" "seen s'' as r'"
    using poll_done_sees [OF quiet_chain [OF assms(1) c(2)] assms(2,3) c(3)] by blast
  then show thesis
    using that [of r' s''] c quiet_trans [OF c(2)] by (simp add: wait_done_def)
qed

end

section \<open>Building the chain of a transfer\<close>

lemma with_zero_links: "NextTD (f zero_td) = 0 \<Longrightarrow> NextTDPointer (f zero_td) = 0 \<Longrightarrow>
    (f zero_td)\<lparr>NextTD := 0, NextTDPointer := 0\<rparr> = f zero_td"
  by simp

lemmas td_field_defs = OhciSetTDField_def set_if_def TD_PDATA_def TD_BUFFER_ROUND_def TD_DIR_PID_def
  TD_DELAY_INT_def TD_DT_TOGGLE_def TD_ERROR_CNT_def TD_COND_CODE_def TD_CURR_BUFFER_PTR_def TD_BUFFER_END_PTR_def
  TD_NEXT_PTR_def

lemma stage_tds_unlinked:
  "NextTD (setup_td a zero_td) = 0" "NextTDPointer (setup_td a zero_td) = 0"
  "NextTD (status_td pid zero_td) = 0" "NextTDPointer (status_td pid zero_td) = 0"
  "NextTD (empty_td zero_td) = 0" "NextTDPointer (empty_td zero_td) = 0"
  by (simp_all add: setup_td_def status_td_def empty_td_def set_td_def td_field_defs zero_td_def)

text \<open>The chain a stage starts from and the one it leaves.\<close>

definition grown :: "('p \<Rightarrow> (u64 \<times> u64) set \<Rightarrow> bool) \<Rightarrow> ('p, 'd) ohci \<Rightarrow> (u64 \<rightharpoonup> TD_DESCRIPTOR) \<Rightarrow>
    (u64 \<times> TD_DESCRIPTOR) list \<Rightarrow> (u64 \<times> TD_DESCRIPTOR) list \<Rightarrow> 'p \<Rightarrow> bool" where
  "grown pool_ok s T0 ys ys' q \<longleftrightarrow>
     stores_ok pool_ok (s\<lparr>MemPool := q, tds := T0 ++ links ys'\<rparr>) \<and> chain_ok_td ys' \<and>
     (\<exists>zs. ys' = ys @ zs \<and> fst ` set zs \<inter> (dom (tds s) \<union> dom (eds s)) = {})"

lemma grown_head: "grown pool_ok s T0 ys ys' q \<Longrightarrow> ys \<noteq> [] \<Longrightarrow> chain_head ys' = chain_head ys"
  by (auto simp: grown_def chain_head_def)

lemma grown_trans:
  assumes "grown pool_ok s T0 ys ys' q" "tds s = T0 ++ links ys"
    "grown pool_ok (s\<lparr>MemPool := q, tds := T0 ++ links ys'\<rparr>) T0 ys' ys'' q'"
  shows "grown pool_ok s T0 ys ys'' q'"
proof -
  obtain zs where zs: "ys' = ys @ zs" "fst ` set zs \<inter> (dom (tds s) \<union> dom (eds s)) = {}"
    using assms(1) by (auto simp: grown_def)
  obtain ws where ws: "ys'' = ys' @ ws" "fst ` set ws \<inter> (dom (T0 ++ links ys') \<union> dom (eds s)) = {}"
    using assms(3) by (auto simp: grown_def)
  have "dom (tds s) \<subseteq> dom (T0 ++ links ys')"
    using zs(1) by (auto simp: assms(2))
  then have "fst ` set (zs @ ws) \<inter> (dom (tds s) \<union> dom (eds s)) = {}"
    using zs(2) ws(2) by (simp add: image_Un Int_Un_distrib2) blast
  then show ?thesis
    using assms(3) zs(1) ws(1) by (simp add: grown_def)
qed

context descriptor_pool
begin

lemma link_new:
  assumes "stores_ok pool_ok s" "pool E = ops" "tds s = T0 ++ links ys" "chain_ok_td ys" "ys \<noteq> []"
    and f: "NextTD (f zero_td) = 0" "NextTDPointer (f zero_td) = 0"
  obtains (full) q where "new_td E f s = Some (0, s\<lparr>MemPool := q\<rparr>)" "grown pool_ok s T0 ys ys q" "refused sizeof_TD q"
  | (new) b q s2 where "new_td E f s = Some (b, s2)" "desc_addr b"
      "OhciLinkTD (chain_head ys) b s2 = Some (EFI_SUCCESS, s\<lparr>MemPool := q, tds := T0 ++ links (ys @ [(b, f zero_td)])\<rparr>)"
      "grown pool_ok s T0 ys (ys @ [(b, f zero_td)]) q"
proof (cases rule: create_td [OF assms(1,2), of f, case_names none some])
  case (none q)
  have "s\<lparr>MemPool := q, tds := T0 ++ links ys\<rparr> = s\<lparr>MemPool := q\<rparr>"
    using assms(3) by (cases s) simp
  then show thesis
    using full [OF none(1) _ none(3)] none(2) assms(4) by (simp add: grown_def)
next
  case (some b q)
  let ?s2 = "s\<lparr>MemPool := q, tds := (tds s)(b \<mapsto> f zero_td)\<rparr>"
  let ?ys = "ys @ [(b, f zero_td)]"
  have fresh: "b \<notin> fst ` set ys"
    using some(3) assms(3) by auto
  have ok: "chain_ok_td ?ys"
    using chain_ok_snoc [OF assms(4) some(2) fresh] .
  have "tds ?s2 = (T0 ++ links ys)(b \<mapsto> f zero_td)"
    using assms(3) by simp
  then have "OhciLinkTD (chain_head ys) b ?s2 = Some (EFI_SUCCESS, ?s2\<lparr>tds := T0 ++ links ?ys\<rparr>)"
    unfolding chain_head_def using OhciLinkTD_links [of ?s2 T0 ys b "f zero_td"] f assms(5) ok
    by (auto simp: chain_ok_td_def)
  moreover have "dom (T0 ++ links ?ys) = dom (tds ?s2)"
    using assms(3) by auto
  then have "stores_ok pool_ok (s\<lparr>MemPool := q, tds := T0 ++ links ?ys\<rparr>)"
    using some(5) by (simp add: stores_ok_def live_of_def)
  then have "grown pool_ok s T0 ys ?ys q"
    using ok some(3,4) by (simp add: grown_def)
  ultimately show thesis
    using new [OF some(1,2)] by simp
qed

lemma finish_chain_spec:
  assumes "stores_ok pool_ok s" "pool E = ops" "tds s = T0 ++ links ys" "chain_ok_td ys" "ys \<noteq> []"
    and e: "eds s Ed = Some e" "TdHeadPointer e = 0"
  shows "\<exists>ok ys' e' q. finish_chain E Ed (chain_head ys) s =
      Some (ok, s\<lparr>MemPool := q, tds := T0 ++ links ys', eds := (eds s)(Ed \<mapsto> e')\<rparr>) \<and> grown pool_ok s T0 ys ys' q \<and>
    (ok \<longrightarrow> map snd ys' = map snd ys @ [empty_td zero_td] \<and>
       e' = e\<lparr>TdTailPointer := ucast (fst (last ys')), TdHeadPointer := ucast (RIGHT_SHIFT_4 (ucast (chain_head ys)))\<rparr>) \<and>
    (\<not> ok \<longrightarrow> refused sizeof_TD q)"
proof (cases rule: link_new [OF assms(1-5), of empty_td, case_names unl1 unl2 full new])
  case (full q)
  have "s\<lparr>MemPool := q, tds := T0 ++ links ys, eds := (eds s)(Ed \<mapsto> e)\<rparr> = s\<lparr>MemPool := q\<rparr>"
    using assms(3) e(1) by (cases s) (auto simp: fun_eq_iff)
  then show ?thesis
    using full by (intro exI [of _ False] exI [of _ ys] exI [of _ e] exI [of _ q]) (simp add: finish_chain_def)
next
  case (new b q s2)
  have "b \<noteq> 0"
    using new(2) by (simp add: desc_addr_def)
  have "TD_PTR 0 = 0"
    by (simp add: TD_PTR_def)
  then show ?thesis
    using new e \<open>b \<noteq> 0\<close>
    by (intro exI [of _ True] exI [of _ "ys @ [(b, empty_td zero_td)]"]
          exI [of _ "e\<lparr>TdTailPointer := ucast b, TdHeadPointer := ucast (RIGHT_SHIFT_4 (ucast (chain_head ys)))\<rparr>"] exI [of _ q])
      (simp add: finish_chain_def upd_ed_def OhciAttachTDListToED_def)
qed (simp_all add: stage_tds_unlinked)

end

end
