(* ===== verification/OhciControl.thy ===== *)
theory OhciControl
  imports OhciSystem
begin

text \<open>
  The control transfer of the OHCI driver under the contracts of its environment: the chain it builds, and that
  a transfer always comes back with the state it found.
\<close>

section \<open>The chain of a control transfer\<close>

definition data_pid :: "u32 \<Rightarrow> u32" where
  "data_pid TransferDirection = (if TransferDirection = EfiUsbDataIn then TD_IN_PID else TD_OUT_PID)"

definition status_pid :: "u32 \<Rightarrow> u32" where
  "status_pid TransferDirection = (if TransferDirection = EfiUsbDataIn then TD_OUT_PID else TD_IN_PID)"

definition control_chain :: "u32 \<Rightarrow> u64 \<Rightarrow> u64 \<Rightarrow> u64 \<Rightarrow> TD_DESCRIPTOR list" where
  "control_chain TransferDirection mps addr len =
     data_tds (data_pid TransferDirection) (pieces mps 1 addr len) @ [status_td (status_pid TransferDirection) zero_td, empty_td zero_td]"

text \<open>The endpoint once the chain is attached.\<close>

definition armed :: "ED_DESCRIPTOR \<Rightarrow> (u64 \<times> TD_DESCRIPTOR) list \<Rightarrow> ED_DESCRIPTOR" where
  "armed e ys = e\<lparr>TdTailPointer := ucast (fst (last ys)), TdHeadPointer := ucast (RIGHT_SHIFT_4 (ucast (chain_head ys)))\<rparr>"

lemma map_snd_zip_all: "length as = length ds \<Longrightarrow> map snd (zip as ds) = ds"
  by simp

context descriptor_pool
begin

lemma control_stages_spec:
  assumes "stores_ok pool_ok s" "pool E = ops" "tds s = T0 ++ links ys" "chain_ok_td ys" "ys \<noteq> []" "mps \<noteq> 0"
    and e: "eds s Ed = Some e" "TdHeadPointer e = 0"
  shows "\<exists>ok ys' e' q. control_stages E dir mps Ed (chain_head ys) addr len s =
      Some (ok, s\<lparr>MemPool := q, tds := T0 ++ links ys', eds := (eds s)(Ed \<mapsto> e')\<rparr>) \<and> grown pool_ok s T0 ys ys' q \<and>
    (ok \<longrightarrow> map snd ys' = map snd ys @ control_chain dir mps addr len \<and> e' = armed e ys') \<and> (\<not> ok \<longrightarrow> refused sizeof_TD q)"
proof -
  let ?ps = "pieces mps 1 addr len"
  obtain as q1 where d: "length as \<le> length ?ps" "chain_ok_td (ys @ zip as (data_tds (data_pid dir) ?ps))"
      "set as \<inter> (dom (tds s) \<union> dom (eds s)) = {}"
      "stores_ok pool_ok (s\<lparr>MemPool := q1, tds := T0 ++ links (ys @ zip as (data_tds (data_pid dir) ?ps))\<rparr>)"
      "length as < length ?ps \<longrightarrow> refused sizeof_TD q1"
      "data_stage E (data_pid dir) mps (chain_head ys) 1 addr len s =
         Some (length as = length ?ps, chain_head (ys @ zip as (data_tds (data_pid dir) ?ps)),
           if odd (length as) then 1 XOR 1 else 1,
           s\<lparr>MemPool := q1, tds := T0 ++ links (ys @ zip as (data_tds (data_pid dir) ?ps))\<rparr>)"
    using data_stage_pieces [OF assms(1-4,6), of 1 addr len "data_pid dir", unfolded Let_def]
    by (elim exE conjE) (rule that, assumption+)
  let ?ys1 = "ys @ zip as (data_tds (data_pid dir) ?ps)"
  let ?s1 = "s\<lparr>MemPool := q1, tds := T0 ++ links ?ys1\<rparr>"
  have zs: "fst ` set (zip as (data_tds (data_pid dir) ?ps)) \<subseteq> set as"
    by (auto dest: set_zip_leftD)
  have g1: "grown pool_ok s T0 ys ?ys1 q1"
    using d(2,3,4) zs by (auto simp: grown_def)
  have h1: "chain_head ?ys1 = chain_head ys" "?ys1 \<noteq> []"
    using assms(5) by (simp_all add: chain_head_snoc)
  have pids: "(if dir = EfiUsbDataIn then TD_IN_PID else TD_OUT_PID) = data_pid dir"
    "(if dir = EfiUsbDataIn then TD_OUT_PID else TD_IN_PID) = status_pid dir"
    by (simp_all add: data_pid_def status_pid_def)
  have same: "(eds s)(Ed \<mapsto> e) = eds s"
    using e(1) by auto
  show ?thesis
  proof (cases "length as = length ?ps")
    case False
    then show ?thesis
      using d(1,5,6) g1 same h1 False
      by (intro exI [of _ False] exI [of _ ?ys1] exI [of _ e] exI [of _ q1])
        (simp add: control_stages_def pids)
  next
    case True
    have snd1: "map snd ?ys1 = map snd ys @ data_tds (data_pid dir) ?ps"
      using True by (simp add: data_tds_def)
    show ?thesis
    proof (cases rule: link_new [OF d(4) assms(2) _ d(2) h1(2), of T0 "status_td (status_pid dir)", case_names T unl1 unl2 full new])
      case (full q)
      have "grown pool_ok s T0 ys ?ys1 q"
        by (rule grown_trans [OF g1 assms(3) full(2)])
      then show ?thesis
        using d(6) full(1,3) same h1 True
        by (intro exI [of _ False] exI [of _ ?ys1] exI [of _ e] exI [of _ q])
          (simp add: control_stages_def pids)
    next
      case (new b q s2)
      let ?ys2 = "?ys1 @ [(b, status_td (status_pid dir) zero_td)]"
      let ?s3 = "?s1\<lparr>MemPool := q, tds := T0 ++ links ?ys2\<rparr>"
      have g2: "grown pool_ok s T0 ys ?ys2 q"
        by (rule grown_trans [OF g1 assms(3) new(4)])
      have h2: "chain_head ?ys2 = chain_head ys"
        using assms(5) by (simp add: chain_head_snoc)
      have b: "b \<noteq> 0"
        using new(2) by (simp add: desc_addr_def)
      have "stores_ok pool_ok ?s3" "chain_ok_td ?ys2"
        using new(4) by (simp_all add: grown_def)
      moreover have "tds ?s3 = T0 ++ links ?ys2" "?ys2 \<noteq> []" "eds ?s3 Ed = Some e"
        using e(1) by simp_all
      ultimately obtain ok ys' e' q' where f: "finish_chain E Ed (chain_head ?ys2) ?s3 =
          Some (ok, ?s3\<lparr>MemPool := q', tds := T0 ++ links ys', eds := (eds ?s3)(Ed \<mapsto> e')\<rparr>)" "grown pool_ok ?s3 T0 ?ys2 ys' q'"
        "ok \<longrightarrow> map snd ys' = map snd ?ys2 @ [empty_td zero_td] \<and>
          e' = e\<lparr>TdTailPointer := ucast (fst (last ys')), TdHeadPointer := ucast (RIGHT_SHIFT_4 (ucast (chain_head ?ys2)))\<rparr>"
        "\<not> ok \<longrightarrow> refused sizeof_TD q'"
        using finish_chain_spec [OF _ assms(2) _ _ _ _ e(2), of ?s3 T0 ?ys2 Ed] by blast
      have h3: "chain_head ys' = chain_head ?ys2"
        using grown_head [OF f(2)] by simp
      have "grown pool_ok s T0 ys ys' q'"
        by (rule grown_trans [OF g2 assms(3)]) (use f(2) in simp)
      then show ?thesis
        using d(6) new(1,3) f b True h1 h2 h3 snd1
        by (intro exI [of _ ok] exI [of _ ys'] exI [of _ e'] exI [of _ q'])
          (simp add: control_stages_def pids control_chain_def armed_def)
    qed (simp_all add: stage_tds_unlinked)
  qed
qed

end

section \<open>Running a transfer\<close>

text \<open>What the caller is told for a condition code.\<close>

definition told :: "u32 \<Rightarrow> u64 \<Rightarrow> efi_status \<Rightarrow> u64 \<Rightarrow> u32 \<Rightarrow> bool" where
  "told code len Status len' TransferResult \<longleftrightarrow>
     (if code = TD_NO_ERROR then Status = EFI_SUCCESS \<and> len' = len \<and> TransferResult = EFI_USB_NOERROR
      else Status = Error (if code = TD_TOBE_PROCESSED then EFI_NOT_READY else EFI_DEVICE_ERROR) \<and> len' = 0 \<and>
        TransferResult = ConvertErrorCode code \<and> TransferResult \<noteq> EFI_USB_NOERROR)"

lemma told_code: "told code len (OhciTDConditionCodeToStatus code) (if code \<noteq> TD_NO_ERROR then 0 else len) (ConvertErrorCode code)"
  by (simp add: told_def OhciTDConditionCodeToStatus_def ConvertErrorCode_def EFI_USB_NOERROR_def EFI_USB_ERR_NOTEXECUTE_def
      EFI_USB_ERR_STALL_def EFI_USB_ERR_BUFFER_def EFI_USB_ERR_CRC_def EFI_USB_ERR_TIMEOUT_def EFI_USB_ERR_BITSTUFF_def
      EFI_USB_ERR_SYSTEM_def)

text \<open>The answer for a chain after one look at the controller.\<close>

definition answer_seen ::
  "(u64 \<Rightarrow> u32 \<Rightarrow> (u64 \<rightharpoonup> TD_DESCRIPTOR) \<Rightarrow> bool) \<Rightarrow> u64 \<Rightarrow> (u64 \<times> TD_DESCRIPTOR) list \<Rightarrow>
     u64 \<Rightarrow> efi_status \<Rightarrow> u64 \<Rightarrow> u32 \<Rightarrow> bool" where
  "answer_seen look cmd ys len Status len' result' \<longleftrightarrow>
     (\<exists>v T. look cmd v T \<and> (\<forall>b \<in> fst ` set ys. rel_option hw_td (links ys b) (T b)) \<and>
        told (transfer_code v T (map fst ys)) len Status len' result')"

text \<open>What is left in the list head: nothing, or the address of the endpoint that has been freed.\<close>

definition head_left :: "('p, 'd) ohci \<Rightarrow> u32 \<Rightarrow> bool" where
  "head_left s' h \<longleftrightarrow> h = 0 \<or> (\<exists>Ed. desc_addr Ed \<and> eds s' Ed = None \<and> h = ucast Ed)"

lemma upd_ed_dom:
  assumes "Ed \<in> dom (eds s)"
  obtains e where "eds s Ed = Some e" "upd_ed Ed f s = Some (s\<lparr>eds := (eds s)(Ed \<mapsto> f e)\<rparr>)"
  using assms by (auto simp: upd_ed_def)

context ohci_system
begin

lemma quiet_eds: "quiet s s' \<Longrightarrow> dom (eds s') = dom (eds s)"
  by (simp add: quiet_def hw_keeps_dom)

lemma control_run_sees:
  assumes "with_chain Ed s s' p as" "as \<noteq> []" "stores_ok pool_ok s'" "TimeOut \<noteq> - 1"
  obtains Status len' result' s'' v where
    "control_run E Ed p TimeOut len result s' = Some (Status, len', result', s'')"
    "looked (script (world s')) (ucast (UsbHcBaseAddress E + HC_COMMAND_STATUS)) v (tds s'')"
    "told (transfer_code v (tds s'') as) len Status len' result'"
    "with_chain Ed s s'' p as" "stores_ok pool_ok s''" "mapped (world s'') = mapped (world s')" "head (world s'') = head (world s')"
    "\<forall>b. rel_option hw_td (tds s' b) (tds s'' b)"
proof -
  have "Ed \<in> dom (eds s')"
    using assms(1) by (simp add: with_chain_def)
  then obtain e where e: "eds s' Ed = Some e"
      "upd_ed Ed (OhciSetEDField ED_SKIP 0) s' = Some (s'\<lparr>eds := (eds s')(Ed \<mapsto> OhciSetEDField ED_SKIP 0 e)\<rparr>)"
    by (rule upd_ed_dom)
  let ?s1 = "s'\<lparr>eds := (eds s')(Ed \<mapsto> OhciSetEDField ED_SKIP 0 e)\<rparr>"
  have 1: "with_chain Ed s ?s1 p as" "stores_ok pool_ok ?s1"
    using with_chain_ed [OF assms(1)] stores_ok_ed [OF assms(3)] e(1) by auto
  obtain n2 s2 where 2: "OhciSetHcControl (hc E) (UsbHcBaseAddress E) CONTROL_ENABLE 1 ?s1 = (Value n2, s2)" "quiet ?s1 s2"
    by (rule set_control)
  obtain n3 s3 where 3: "OhciSetHcCommandStatus (hc E) (UsbHcBaseAddress E) CONTROL_LIST_FILLED 1 s2 = (Value n3, s3)" "quiet s2 s3"
    by (rule set_command)
  have q3: "quiet ?s1 s3"
    using 2(2) 3(2) by (rule quiet_trans)
  obtain r s4 where 4: "wait_done E CONTROL_LIST Ed p TimeOut \<lparr>ErrorCode = 0, NextToggle = 0\<rparr> s3 =
      Some (OhciTDConditionCodeToStatus (ErrorCode r), r, s4)" "quiet s3 s4" "seen s4 as r"
    by (rule wait_done_sees [OF quiet_chain [OF 1(1) q3] assms(2,4)])
  have q4: "quiet ?s1 s4"
    using q3 4(2) by (rule quiet_trans)
  have same: "mapped (world s4) = mapped (world s')" "head (world s4) = head (world s')" "script (world s4) = script (world s')"
    "\<forall>b. rel_option hw_td (tds s' b) (tds s4 b)"
    using q4 by (simp_all add: quiet_def hw_keeps_def)
  obtain v where v: "looked (script (world s')) (ucast (UsbHcBaseAddress E + HC_COMMAND_STATUS)) v (tds s4)"
      "ErrorCode r = transfer_code v (tds s4) as"
    using 4(3) same(3) by (auto simp: seen_def)
  let ?code = "transfer_code v (tds s4) as"
  have run: "control_run E Ed p TimeOut len result s' = Some (OhciTDConditionCodeToStatus ?code,
      if ?code \<noteq> TD_NO_ERROR then 0 else len, ConvertErrorCode ?code, s4)"
    unfolding control_run_def using v(2) by (simp add: e(2) 2(1) 3(1) 4(1))
  show thesis
    by (rule that [OF run v(1) told_code quiet_chain [OF 1(1) q4] quiet_stores [OF q4 1(2)] same(1,2,4)])
qed

text \<open>Taking down a transfer that is alone in its list.\<close>

lemma unlink_ed_alone:
  assumes "with_chain Ed s s' p as" "stores_ok pool_ok s'" "R \<in> list_heads"
  obtains s'' where "unlink_ed E R Ed Ed s' = Some s''" "with_chain Ed s s'' p as" "stores_ok pool_ok s''"
    "mapped (world s'') = mapped (world s')" "head (world s'') = (head (world s'))(R := 0)"
proof -
  have "Ed \<in> dom (eds s')"
    using assms(1) by (simp add: with_chain_def)
  then obtain e where e: "eds s' Ed = Some e"
      "upd_ed Ed (OhciSetEDField ED_SKIP 1) s' = Some (s'\<lparr>eds := (eds s')(Ed \<mapsto> OhciSetEDField ED_SKIP 1 e)\<rparr>)"
    by (rule upd_ed_dom)
  let ?s1 = "s'\<lparr>eds := (eds s')(Ed \<mapsto> OhciSetEDField ED_SKIP 1 e)\<rparr>"
  have 1: "with_chain Ed s ?s1 p as" "stores_ok pool_ok ?s1"
    using with_chain_ed [OF assms(1)] stores_ok_ed [OF assms(2)] e(1) by auto
  obtain s2 where 2: "OhciSetMemoryPointer (hc E) (UsbHcBaseAddress E) R 0 ?s1 = Some (Value (unat (0::u32)), s2)"
      "hw_keeps ?s1 s2" "mapped (world s2) = mapped (world ?s1)" "head (world s2) = (head (world ?s1))(R := 0)"
    by (rule set_head [OF assms(3), of 0 ?s1]) simp
  show thesis
    by (rule that [OF _ with_chain_hw [OF 1(1) 2(2)] hw_keeps_stores [OF 2(2) 1(2)]])
      (use e(2) 2 in \<open>simp_all add: unlink_ed_def\<close>)
qed

lemma free_chain_restores:
  assumes "with_chain Ed s s' p as" "stores_ok pool_ok s'"
  obtains s'' where "free_td_chain E p s' = Some s''" "with_chain Ed s s'' 0 []" "stores_ok pool_ok s''"
    "world s'' = world s'" "eds s'' = eds s'"
proof -
  have w: "nchain (tds s') p as" "distinct as" "set as \<inter> dom (tds s) = {}"
    using assms(1) by (simp_all add: with_chain_def)
  obtain q where q: "free_td_chain E p s' = Some (s'\<lparr>MemPool := q, tds := tds s' |` (- set as)\<rparr>)"
      "stores_ok pool_ok (s'\<lparr>MemPool := q, tds := tds s' |` (- set as)\<rparr>)"
    using free_td_chain_nchain [OF w(1,2) assms(2) refl] by blast
  have "rel_option hw_td (tds s a) ((tds s' |` (- set as)) a)" for a
  proof (cases "a \<in> set as")
    case True
    then have "tds s a = None"
      using w(3) by blast
    then show ?thesis
      using True by simp
  qed (use assms(1) in \<open>simp add: with_chain_def\<close>)
  then have "with_chain Ed s (s'\<lparr>MemPool := q, tds := tds s' |` (- set as)\<rparr>) 0 []"
    using assms(1) by (simp add: with_chain_def)
  then show thesis
    using that [OF q(1) _ q(2)] by simp
qed

lemma unmap_data:
  assumes "with_chain Ed s s' p as" "stores_ok pool_ok s'"
  shows "with_chain Ed s (unmap E m s') p as" "stores_ok pool_ok (unmap E m s')"
    "mapped (world (unmap E m s')) = (if m = 0 then mapped (world s') else mapped (world s') - {#m#})"
    "head (world (unmap E m s')) = head (world s')"
  using assms by (simp_all add: unmap_def on_world_def unmap_works)

lemma control_finish:
  assumes w: "with_chain Ed s s' p (map fst ys)" and ys: "ys \<noteq> []" "tds s' = T0 ++ links ys" and ok: "stores_ok pool_ok s'"
    and "TimeOut \<noteq> - 1"
  obtains Status len' result' s'' s3 where
    "(if okay then control_run E Ed p TimeOut len result s' else Some (Error EFI_OUT_OF_RESOURCES, len, result, s')) =
       Some (Status, len', result', s'')"
    "if okay then answer_seen (looked (script (world s'))) (ucast (UsbHcBaseAddress E + HC_COMMAND_STATUS)) ys len Status len' result'
     else Status = Error EFI_OUT_OF_RESOURCES \<and> len' = len \<and> result' = result"
    "unlink_ed E HC_CONTROL_HEAD Ed Ed s'' = Some s3" "with_chain Ed s s3 p (map fst ys)" "stores_ok pool_ok s3"
    "mapped (world s3) = mapped (world s')" "head (world s3) = (head (world s'))(HC_CONTROL_HEAD := 0)"
proof -
  obtain Status len' result' s'' where 1:
    "(if okay then control_run E Ed p TimeOut len result s' else Some (Error EFI_OUT_OF_RESOURCES, len, result, s')) =
       Some (Status, len', result', s'')"
    "if okay then answer_seen (looked (script (world s'))) (ucast (UsbHcBaseAddress E + HC_COMMAND_STATUS)) ys len Status len' result'
     else Status = Error EFI_OUT_OF_RESOURCES \<and> len' = len \<and> result' = result"
    "with_chain Ed s s'' p (map fst ys)" "stores_ok pool_ok s''" "mapped (world s'') = mapped (world s')"
    "head (world s'') = head (world s')"
  proof (cases okay)
    case True
    obtain Status len' result' s'' v where r:
      "control_run E Ed p TimeOut len result s' = Some (Status, len', result', s'')"
      "looked (script (world s')) (ucast (UsbHcBaseAddress E + HC_COMMAND_STATUS)) v (tds s'')"
      "told (transfer_code v (tds s'') (map fst ys)) len Status len' result'"
      "with_chain Ed s s'' p (map fst ys)" "stores_ok pool_ok s''" "mapped (world s'') = mapped (world s')"
      "head (world s'') = head (world s')" "\<forall>b. rel_option hw_td (tds s' b) (tds s'' b)"
      by (rule control_run_sees [OF w _ ok assms(5), of len result]) (use ys(1) in simp)
    have "rel_option hw_td (links ys b) (tds s'' b)" if b: "b \<in> fst ` set ys" for b
      using spec [OF r(8), of b] b unfolding ys(2) by (simp add: map_add_dom_app_simps(1))
    then have "answer_seen (looked (script (world s'))) (ucast (UsbHcBaseAddress E + HC_COMMAND_STATUS)) ys len Status len' result'"
      unfolding answer_seen_def using r(2,3) by blast
    then show thesis
      using that r True by simp
  qed (use that w ok in simp)
  show thesis
    by (rule unlink_ed_alone [OF 1(3,4), of HC_CONTROL_HEAD]) (use that 1 in simp_all)
qed

text \<open>A transfer that stops early: a service was refused; the transfer that runs; what both leave in the list head.\<close>

definition can_refuse :: bool where
  "can_refuse \<longleftrightarrow> (\<exists>n \<in> desc_sizes. \<exists>q. refused n q)"

definition stopped :: "'e \<Rightarrow> efi_status \<Rightarrow> bool \<Rightarrow> bool" where
  "stopped sc Status stale \<longleftrightarrow> (\<exists>e. Status = Error e \<and> (denied sc e \<and> stale \<or> e = EFI_OUT_OF_RESOURCES \<and> can_refuse))"

definition carried_out :: "'e \<Rightarrow> u32 \<Rightarrow> u64 \<Rightarrow> u64 \<Rightarrow> u64 \<Rightarrow> u64 \<Rightarrow> efi_status \<Rightarrow> u64 \<Rightarrow> u32 \<Rightarrow> bool" where
  "carried_out sc dir mps Data len ra Status len' result' \<longleftrightarrow>
     (\<exists>n ad ys. (if Data \<noteq> 0 \<and> len \<noteq> 0 then answered sc (n, ad) else n = len \<and> ad = 0) \<and>
        chain_ok_td ys \<and> map snd ys = setup_td ra zero_td # control_chain dir mps ad n \<and>
        answer_seen (looked sc) (ucast (UsbHcBaseAddress E + HC_COMMAND_STATUS)) ys len Status len' result')"

lemma refuse_TD: "refused sizeof_TD q \<Longrightarrow> can_refuse" and refuse_ED: "refused sizeof_ED q \<Longrightarrow> can_refuse"
  by (auto simp: can_refuse_def desc_sizes_def)

lemma map_data:
  assumes "world s = W"
  obtains r d where "(if Data \<noteq> 0 \<and> len \<noteq> 0 then map_buffer E mop Data len s else (Inr (len, 0, 0), s)) = (r, s\<lparr>world := d\<rparr>)"
    "head d = head W" "script d = script W"
    "case r of Inl e \<Rightarrow> mapped d = mapped W \<and> denied (script d) e
     | Inr (n, ad, m) \<Rightarrow> mapped d = (if m = 0 then mapped W else add_mset m (mapped W)) \<and>
         (if Data \<noteq> 0 \<and> len \<noteq> 0 then answered (script d) (n, ad) else n = len \<and> ad = 0)"
proof (cases "Data \<noteq> 0 \<and> len \<noteq> 0")
  case True
  obtain r d where m: "dma_map E mop Data len W = (r, d)"
    by (cases "dma_map E mop Data len W")
  show thesis
  proof (cases r)
    case (Inl e)
    then show thesis
      using that [of r d] m True map_fails [of mop Data len W e d] by (simp add: map_buffer_def assms)
  next
    case (Inr x)
    then show thesis
      using that [of r d] m True map_works [of mop Data len W "fst x" "fst (snd x)" "snd (snd x)" d]
      by (cases x) (simp add: map_buffer_def assms)
  qed
next
  case False
  show thesis
    by (rule that [of "Inr (len, 0, 0)" W]) (use False assms in auto)
qed

lemma control_tds_ends:
  assumes w: "with_chain Ed s s1 0 []" and ok: "stores_ok pool_ok s1" and e: "eds s1 Ed = Some e" "TdHeadPointer e = 0"
    and "TimeOut \<noteq> - 1" "mps \<noteq> 0" and h: "head (world s1) HC_CONTROL_HEAD \<noteq> 0"
  obtains Status len' result' s' h where
    "control_tds E mps dir Data TimeOut Ed Ed ra len result s1 = Some (Status, len', result', s')"
    "with_chain Ed s s' 0 []" "stores_ok pool_ok s'" "mapped (world s') = mapped (world s1)"
    "head (world s') = (head (world s1))(HC_CONTROL_HEAD := h)" "h = 0 \<or> h = head (world s1) HC_CONTROL_HEAD"
    "len' = len \<and> result' = result \<and> stopped (script (world s1)) Status (h \<noteq> 0) \<or>
     h = 0 \<and> carried_out (script (world s1)) dir mps Data len ra Status len' result'"
proof (cases rule: create_td [OF ok refl, of "setup_td ra", case_names full new])
  case (full q)
  show thesis
    by (rule that [of "Error EFI_OUT_OF_RESOURCES" len result "s1\<lparr>MemPool := q\<rparr>" "head (world s1) HC_CONTROL_HEAD"])
      (use full w refuse_TD in \<open>simp_all add: control_tds_def stopped_def\<close>)
next
  case (new a q)
  let ?ys = "[(a, setup_td ra zero_td)]"
  let ?s2 = "s1\<lparr>MemPool := q, tds := (tds s1)(a \<mapsto> setup_td ra zero_td)\<rparr>"
  have nz: "a \<noteq> 0"
    using new(2) by (simp add: desc_addr_def)
  have chain: "chain_ok_td ?ys" "chain_head ?ys = a"
    using new(2) by (simp_all add: chain_ok_td_def chain_head_def)
  have T: "tds ?s2 = tds s1 ++ links ?ys"
    using with_zero_links [of "setup_td ra", OF stage_tds_unlinked(1,2)] by (simp add: first_link_def)
  have w2: "with_chain Ed s ?s2 a [a]"
    using with_chain_links [OF w T chain(1)] chain(2) new(3) by simp
  define mop where "mop = (if dir = EfiUsbDataIn then MapOperationBusMasterWrite else MapOperationBusMasterRead)"
  obtain r d where rd: "(if Data \<noteq> 0 \<and> len \<noteq> 0 then map_buffer E mop Data len ?s2 else (Inr (len, 0, 0), ?s2)) = (r, ?s2\<lparr>world := d\<rparr>)"
    "head d = head (world s1)" "script d = script (world s1)"
    "case r of Inl e \<Rightarrow> mapped d = mapped (world s1) \<and> denied (script d) e
     | Inr (n, ad, m) \<Rightarrow> mapped d = (if m = 0 then mapped (world s1) else add_mset m (mapped (world s1))) \<and>
         (if Data \<noteq> 0 \<and> len \<noteq> 0 then answered (script d) (n, ad) else n = len \<and> ad = 0)"
    by (rule map_data [of ?s2 "world s1" Data len mop]) simp_all
  let ?s3 = "?s2\<lparr>world := d\<rparr>"
  have w3: "with_chain Ed s ?s3 a [a]" and ok3: "stores_ok pool_ok ?s3"
    using w2 new(5) by (simp_all only: with_chain_simps stores_ok_world)
  show thesis
  proof (cases r)
    case (Inl err)
    obtain s4 where 4: "free_td_chain E a ?s3 = Some s4" "with_chain Ed s s4 0 []" "stores_ok pool_ok s4" "world s4 = d"
      by (rule free_chain_restores [OF w3 ok3]) simp
    have "control_tds E mps dir Data TimeOut Ed Ed ra len result s1 = Some (Error err, len, result, s4)"
      unfolding control_tds_def mop_def [symmetric]
      using new(1) nz rd(1) Inl 4(1) by (simp cong: if_cong)
    then show thesis
      using that [of "Error err" len result s4 "head (world s1) HC_CONTROL_HEAD"] rd(2-4) Inl 4 h by (simp add: stopped_def)
  next
    case (Inr x)
    obtain n ad m where x: "x = (n, ad, m)"
      by (cases x)
    have e3: "eds ?s3 Ed = Some e" "tds ?s3 = tds s1 ++ links ?ys"
      using e(1) T by simp_all
    obtain okay ys' e' q' where st: "control_stages E dir mps Ed (chain_head ?ys) ad n ?s3 =
        Some (okay, ?s3\<lparr>MemPool := q', tds := tds s1 ++ links ys', eds := (eds ?s3)(Ed \<mapsto> e')\<rparr>)"
        "grown pool_ok ?s3 (tds s1) ?ys ys' q'"
        "okay \<longrightarrow> map snd ys' = map snd ?ys @ control_chain dir mps ad n" "\<not> okay \<longrightarrow> can_refuse"
      using control_stages_spec [OF ok3 refl e3(2) chain(1) _ assms(6) e3(1) e(2)] refuse_TD by blast
    let ?s4 = "?s3\<lparr>MemPool := q', tds := tds s1 ++ links ys', eds := (eds ?s3)(Ed \<mapsto> e')\<rparr>"
    have head: "chain_head ys' = a"
      using grown_head [OF st(2)] chain(2) by simp
    obtain zs where zs: "ys' = ?ys @ zs" "fst ` set zs \<inter> (dom (tds ?s3) \<union> dom (eds ?s3)) = {}"
      using st(2) by (auto simp: grown_def)
    have "fst ` set zs \<inter> dom (tds s1) = {}"
      using zs(2) by (simp add: Int_Un_distrib)
    then have g: "chain_ok_td ys'" "stores_ok pool_ok (?s3\<lparr>MemPool := q', tds := tds s1 ++ links ys'\<rparr>)"
      "fst ` set ys' \<inter> dom (tds s1) = {}"
      using st(2) new(3) zs(1) by (simp_all add: grown_def)
    have w4: "with_chain Ed s ?s4 a (map fst ys')"
      using with_chain_links [OF w _ g(1,3), of ?s4 e'] head by simp
    have ok4: "stores_ok pool_ok ?s4"
      using stores_ok_ed [OF g(2), of Ed e'] e(1) by auto
    obtain Status len' result' s5 s6 where fin:
      "(if okay then control_run E Ed a TimeOut len result ?s4 else Some (Error EFI_OUT_OF_RESOURCES, len, result, ?s4)) =
         Some (Status, len', result', s5)"
      "if okay then answer_seen (looked (script (world ?s4))) (ucast (UsbHcBaseAddress E + HC_COMMAND_STATUS)) ys' len Status len' result'
       else Status = Error EFI_OUT_OF_RESOURCES \<and> len' = len \<and> result' = result"
      "unlink_ed E HC_CONTROL_HEAD Ed Ed s5 = Some s6" "with_chain Ed s s6 a (map fst ys')" "stores_ok pool_ok s6"
      "mapped (world s6) = mapped (world ?s4)" "head (world s6) = (head (world ?s4))(HC_CONTROL_HEAD := 0)"
      by (rule control_finish [OF w4 _ _ ok4 assms(5), where ?T0.0 = "tds s1" and okay = okay and len = len and result = result])
        (use zs(1) in auto)
    obtain s7 where 7: "free_td_chain E a (unmap E m s6) = Some s7" "with_chain Ed s s7 0 []" "stores_ok pool_ok s7"
        "world s7 = world (unmap E m s6)"
      by (rule free_chain_restores [OF unmap_data(1,2) [OF fin(4,5)]])
    have m7: "mapped (world s7) = mapped (world s1)" and h7: "head (world s7) = (head (world s1))(HC_CONTROL_HEAD := 0)"
      using 7(4) unmap_data(3,4) [OF fin(4,5), of m] fin(6,7) rd(2-4) Inr x by simp_all
    have run: "control_tds E mps dir Data TimeOut Ed Ed ra len result s1 = Some (Status, len', result', s7)"
      unfolding control_tds_def mop_def [symmetric]
      using new(1) nz rd(1) Inr x st(1) chain(2) fin(1,3) 7(1) by (simp cong: if_cong)
    have "len' = len \<and> result' = result \<and> stopped (script (world s1)) Status False \<or>
        carried_out (script (world s1)) dir mps Data len ra Status len' result'"
    proof (cases okay)
      case True
      have "if Data \<noteq> 0 \<and> len \<noteq> 0 then answered (script (world s1)) (n, ad) else n = len \<and> ad = 0"
        using rd(3,4) Inr x by (auto split: if_splits)
      moreover have "map snd ys' = setup_td ra zero_td # control_chain dir mps ad n"
        "answer_seen (looked (script (world s1))) (ucast (UsbHcBaseAddress E + HC_COMMAND_STATUS)) ys' len Status len' result'"
        using st(3) fin(2) rd(3) True by simp_all
      ultimately show ?thesis
        unfolding carried_out_def using g(1)
        by - (rule disjI2, rule exI, rule exI, rule exI, intro conjI, assumption+)
    next
      case False
      then show ?thesis
        using fin(2) st(4) by (simp add: stopped_def)
    qed
    then show thesis
      using that [OF run 7(2,3) m7 h7] by simp
  qed
qed

end

section \<open>A transfer restores the state\<close>

text \<open>
  Every descriptor made is freed, every mapping undone: state \<open>s'\<close> is state \<open>s\<close> but for the pool's own
  bookkeeping, the services and what the controller may change.
\<close>

definition restored ::
  "('p \<Rightarrow> (u64 \<times> u64) set \<Rightarrow> bool) \<Rightarrow> ('d \<Rightarrow> u64 multiset) \<Rightarrow> ('p, 'd) ohci \<Rightarrow> ('p, 'd) ohci \<Rightarrow> bool" where
  "restored pool_ok mapped s s' \<longleftrightarrow>
     stores_ok pool_ok s' \<and> hw_keeps (s\<lparr>MemPool := MemPool s'\<rparr>) s' \<and> mapped (world s') = mapped (world s)"

lemmas ed_field_defs = OhciSetEDField_def set_if_def ED_FUNC_ADD_def ED_ENDPT_NUM_def ED_DIR_def ED_SPEED_def ED_SKIP_def
  ED_FORMAT_def ED_MAX_PACKET_def ED_PDATA_def ED_ZERO_def ED_TDTAIL_PTR_def ED_HALTED_def ED_DTTOGGLE_def ED_TDHEAD_PTR_def
  ED_NEXT_EDPTR_def

lemma ed_settings_skip: "Skip (set_ed (ed_settings a n sp mps) (zero_ed\<lparr>Skip := 1\<rparr>)) = 1"
  and ed_settings_head: "TdHeadPointer (set_ed (ed_settings a n sp mps) (zero_ed\<lparr>Skip := 1\<rparr>)) = 0"
  by (simp_all add: set_ed_def ed_settings_def ed_field_defs RIGHT_SHIFT_4_def zero_ed_def)

lemma desc_addr_low_bits:
  assumes "desc_addr a"
  shows "(ucast a :: u32) AND 15 = 0"
proof -
  have "unat (ucast a :: u32) = unat a"
    using assms by (simp add: desc_addr_def unsigned_ucast_eq unsigned_take_bit_eq take_bit_nat_eq_self)
  then have "16 dvd unat (ucast a :: u32)"
    using assms by (simp add: desc_addr_def)
  then have "take_bit 4 (unat (ucast a :: u32)) = 0"
    by (simp add: take_bit_eq_mod dvd_eq_mod_eq_0)
  then have "take_bit 4 (ucast a :: u32) = 0"
    by (simp add: unsigned_take_bit_eq [symmetric] unsigned_eq_0_iff)
  then show ?thesis
    by (simp add: take_bit_eq_mask mask_eq_exp_minus_1)
qed

context ohci_system
begin

lemma attach_alone:
  assumes ok: "stores_ok pool_ok s" and Ed: "desc_addr Ed" "eds s Ed = Some e" "Skip e = 1"
    and "R \<in> list_heads" "head (world s) R = 0"
  obtains s' where "attach_to_head E R Ed s = Some (Ed, s')" "hw_keeps s s'" "eds s' Ed = Some e"
    "mapped (world s') = mapped (world s)" "head (world s') = (head (world s))(R := ucast Ed)" "script (world s') = script (world s)"
proof -
  obtain s1 where 1: "OhciGetMemoryPointer (hc E) (UsbHcBaseAddress E) R s = (0, s1)" "quiet s s1"
    using get_head [OF assms(5), of s] assms(6) by metis
  obtain s2 where 2: "OhciSetMemoryPointer (hc E) (UsbHcBaseAddress E) R (ucast Ed) s1 = Some (Value (unat (ucast Ed :: u32)), s2)"
      "hw_keeps s1 s2" "mapped (world s2) = mapped (world s1)" "head (world s2) = (head (world s1))(R := ucast Ed)"
      "script (world s2) = script (world s1)"
    by (rule set_head [OF assms(5) desc_addr_low_bits [OF Ed(1)]])
  have keeps: "hw_keeps s s2"
    using 1(2) 2(2) by (auto simp: quiet_def intro: hw_keeps_trans)
  obtain e' where e': "eds s2 Ed = Some e'" "hw_ed e e'"
    by (rule hw_keeps_ed [OF keeps Ed(2)])
  show thesis
    by (rule that [of s2]) (use 1 2 keeps e' hw_ed_skipped [OF e'(2) Ed(3)] in \<open>simp_all add: attach_to_head_def quiet_def\<close>)
qed

lemma free_endpoint:
  assumes "with_chain Ed s s' 0 []" "stores_ok pool_ok s'" "eds s Ed = None" "mapped (world s') = mapped (world s)"
  obtains s'' where "OhciFreeED E Ed s' = Some s''" "restored pool_ok mapped s s''" "eds s'' Ed = None" "world s'' = world s'"
proof -
  have "Ed \<in> dom (eds s')"
    using assms(1) by (simp add: with_chain_def)
  then obtain q where q: "OhciFreeED E Ed s' = Some (s'\<lparr>MemPool := q, eds := (eds s')(Ed := None)\<rparr>)"
    "stores_ok pool_ok (s'\<lparr>MemPool := q, eds := (eds s')(Ed := None)\<rparr>)"
    using free_ed [OF assms(2) refl] by blast
  have "hw_keeps (s\<lparr>MemPool := q\<rparr>) (s'\<lparr>MemPool := q, eds := (eds s')(Ed := None)\<rparr>)"
    using assms(1,3) by (simp add: hw_keeps_def with_chain_def)
  then show thesis
    using that [OF q(1)] q(2) assms(4) by (simp add: restored_def)
qed

lemma control_ed_ends:
  assumes ok: "stores_ok pool_ok s" and h0: "head (world s) HC_CONTROL_HEAD = 0" and "TimeOut \<noteq> - 1" "mps \<noteq> 0"
  obtains Status len' result' s' h where
    "control_ed E addr speed mps Req dir Data TimeOut len result s = Some (Status, len', result', s')"
    "restored pool_ok mapped s s'" "head (world s') = (head (world s))(HC_CONTROL_HEAD := h)" "head_left s' h"
    "len' = len \<and> result' = result \<and> stopped (script (world s)) Status (h \<noteq> 0) \<or>
     h = 0 \<and> (\<exists>n ra. answered (script (world s)) (n, ra) \<and> carried_out (script (world s)) dir mps Data len ra Status len' result')"
proof (cases rule: create_ed [OF ok refl, case_names full new])
  case (full q)
  have "(head (world s))(HC_CONTROL_HEAD := 0) = head (world s)"
    using h0 by auto
  then show thesis
    by (intro that [of "Error EFI_OUT_OF_RESOURCES" len result "s\<lparr>MemPool := q\<rparr>" 0])
      (use full refuse_ED in \<open>simp_all add: control_ed_def stopped_def restored_def head_left_def\<close>)
next
  case (new Ed q)
  let ?cfg = "set_ed (ed_settings addr 0 (if speed = EFI_USB_SPEED_LOW then 1 else 0) mps)"
  let ?e = "?cfg (zero_ed\<lparr>Skip := 1\<rparr>)"
  let ?s1 = "s\<lparr>MemPool := q, eds := (eds s)(Ed \<mapsto> ?e)\<rparr>"
  let ?h = "ucast Ed :: u32"
  have nz: "Ed \<noteq> 0" "?h \<noteq> 0"
    using new(2) desc_addr_nonzero by (simp_all add: desc_addr_def)
  have none: "eds s Ed = None"
    using new(4) by blast
  have ok1: "stores_ok pool_ok ?s1"
    using stores_ok_ed [OF new(5), of Ed ?e] by simp
  have w1: "with_chain Ed s ?s1 0 []"
    by (simp add: with_chain_def option.rel_refl)
  obtain s2 where 2: "attach_to_head E HC_CONTROL_HEAD Ed ?s1 = Some (Ed, s2)" "hw_keeps ?s1 s2" "eds s2 Ed = Some ?e"
      "mapped (world s2) = mapped (world s)" "head (world s2) = (head (world s))(HC_CONTROL_HEAD := ?h)"
      "script (world s2) = script (world s)"
    by (rule attach_alone [OF ok1 new(2), of ?e HC_CONTROL_HEAD]) (simp_all add: ed_settings_skip h0)
  have ok2: "stores_ok pool_ok s2" and w2: "with_chain Ed s s2 0 []"
    using hw_keeps_stores [OF 2(2) ok1] with_chain_hw [OF w1 2(2)] .
  obtain r d where rd: "dma_map E MapOperationBusMasterRead Req sizeof_EFI_USB_DEVICE_REQUEST (world s2) = (r, d)"
    by (cases "dma_map E MapOperationBusMasterRead Req sizeof_EFI_USB_DEVICE_REQUEST (world s2)")
  let ?s3 = "s2\<lparr>world := d\<rparr>"
  have ok3: "stores_ok pool_ok ?s3" and w3: "with_chain Ed s ?s3 0 []"
    using ok2 w2 by (simp_all only: with_chain_simps stores_ok_world)
  have start: "control_ed E addr speed mps Req dir Data TimeOut len result s = do {
      (Status, len, result, s) \<leftarrow>
        (case r of
           Inl e \<Rightarrow> Some (Error e, len, result, ?s3)
         | Inr (_, ad, m) \<Rightarrow> do {
             (Status, len, result, s) \<leftarrow> control_tds E mps dir Data TimeOut Ed Ed ad len result ?s3;
             Some (Status, len, result, unmap E m s)
           });
      s \<leftarrow> OhciFreeED E Ed s;
      Some (Status, len, result, s)
    }"
    unfolding control_ed_def using new(1) nz(1) 2(1) rd by (simp add: upd_ed_def OhciAttachEDToList_def map_buffer_def)
  have left: "head_left s' h" if "eds s' Ed = None" "h = 0 \<or> h = ?h" for s' :: "('p, 'd) ohci" and h
    using that new(2) by (auto simp: head_left_def)
  show thesis
  proof (cases r)
    case (Inl err)
    have d: "mapped d = mapped (world s)" "head d = (head (world s))(HC_CONTROL_HEAD := ?h)" "denied (script (world s)) err"
      using map_fails [OF rd [unfolded Inl]] 2(4-6) by simp_all
    then obtain s4 where 4: "OhciFreeED E Ed ?s3 = Some s4" "restored pool_ok mapped s s4" "eds s4 Ed = None" "world s4 = d"
      using free_endpoint [OF w3 ok3 none] by auto
    show thesis
      by (rule that [of "Error err" len result s4 ?h])
        (use start Inl 4 d nz left [OF 4(3), of ?h] in \<open>simp_all add: stopped_def\<close>)
  next
    case (Inr x)
    obtain n ad m where x: "x = (n, ad, m)"
      by (cases x)
    have e3: "eds ?s3 Ed = Some ?e"
      using 2(3) by simp
    have m: "m \<noteq> 0" "mapped d = add_mset m (mapped (world s))" "head d = (head (world s))(HC_CONTROL_HEAD := ?h)"
      "script d = script (world s)" "answered (script (world s)) (n, ad)"
      using map_works [OF rd [unfolded Inr x]] 2(4-6) by simp_all
    have h3: "head (world ?s3) HC_CONTROL_HEAD \<noteq> 0"
      using m(3) nz(2) by simp
    obtain Status len' result' s4 h where 4: "control_tds E mps dir Data TimeOut Ed Ed ad len result ?s3 = Some (Status, len', result', s4)"
        "with_chain Ed s s4 0 []" "stores_ok pool_ok s4" "mapped (world s4) = mapped (world ?s3)"
        "head (world s4) = (head (world ?s3))(HC_CONTROL_HEAD := h)" "h = 0 \<or> h = head (world ?s3) HC_CONTROL_HEAD"
        "len' = len \<and> result' = result \<and> stopped (script (world ?s3)) Status (h \<noteq> 0) \<or>
         h = 0 \<and> carried_out (script (world ?s3)) dir mps Data len ad Status len' result'"
      by (rule control_tds_ends [OF w3 ok3 e3 ed_settings_head assms(3,4) h3])
    have "mapped (world (unmap E m s4)) = mapped (world s)"
      using unmap_data(3) [OF 4(2,3), of m] 4(4) m by simp
    then obtain s5 where 5: "OhciFreeED E Ed (unmap E m s4) = Some s5" "restored pool_ok mapped s s5" "eds s5 Ed = None"
        "world s5 = world (unmap E m s4)"
      using free_endpoint [OF unmap_data(1,2) [OF 4(2,3)] none] by metis
    have h5: "head (world s5) = (head (world s))(HC_CONTROL_HEAD := h)" "h = 0 \<or> h = ?h"
      using 5(4) unmap_data(4) [OF 4(2,3), of m] 4(5,6) m(3) by simp_all
    show thesis
      by (rule that [of Status len' result' s5 h])
        (use start Inr x 4(1,7) 5(1,2) h5 left [OF 5(3) h5(2)] m(4,5) in auto)
  qed
qed

lemma restored_after: "hw_keeps s s1 \<Longrightarrow> mapped (world s1) = mapped (world s) \<Longrightarrow> restored pool_ok mapped s1 s' \<Longrightarrow>
    restored pool_ok mapped s s'"
  by (auto simp: restored_def hw_keeps_def intro: rel_option_trans [of hw_td, OF hw_td_trans] rel_option_trans [of hw_ed, OF hw_ed_trans])

lemma control_transfer:
  assumes ok: "stores_ok pool_ok s" and "TimeOut \<noteq> - 1"
  shows "\<exists>Status len' result' s'.
    OhciControlTransfer E addr speed mps Req dir Data len TimeOut result s = Some (Status, len', result', s') \<and>
    (case (len, result) of
       (Some n, Some r) \<Rightarrow>
         if control_params_bad speed mps Req dir Data n \<or> n > MAX_BYTES_PER_TD
         then Status = Error EFI_INVALID_PARAMETER \<and> len' = len \<and> result' = result \<and> s' = s
         else restored pool_ok mapped s s' \<and>
           (\<exists>h. head (world s') = (head (world s))(HC_CONTROL_HEAD := h) \<and> head_left s' h \<and>
              (len' = len \<and> result' = result \<and> stopped (script (world s)) Status (h \<noteq> 0) \<or>
               h = 0 \<and> (\<exists>n' r' k ra. len' = Some n' \<and> result' = Some r' \<and> answered (script (world s)) (k, ra) \<and>
                 carried_out (script (world s)) dir mps Data n ra Status n' r')))
     | _ \<Rightarrow> Status = Error EFI_INVALID_PARAMETER \<and> len' = len \<and> result' = result \<and> s' = s)"
proof (cases "\<exists>n r. len = Some n \<and> result = Some r \<and> \<not> (control_params_bad speed mps Req dir Data n \<or> n > MAX_BYTES_PER_TD)")
  case False
  then show ?thesis
    by (cases len; cases result) (auto simp: OhciControlTransfer_def)
next
  case True
  then obtain n r where nr: "len = Some n" "result = Some r" "\<not> control_params_bad speed mps Req dir Data n" "\<not> n > MAX_BYTES_PER_TD"
    by auto
  have mps: "mps \<noteq> 0"
    using nr(3) by (auto simp: control_params_bad_def)
  obtain n1 s1 where 1: "OhciSetHcControl (hc E) (UsbHcBaseAddress E) CONTROL_ENABLE 0 s = (Value n1, s1)" "quiet s s1"
    by (rule set_control)
  obtain n2 s2 where 2: "OhciSetHcCommandStatus (hc E) (UsbHcBaseAddress E) CONTROL_LIST_FILLED 0 s1 = (Value n2, s2)" "quiet s1 s2"
    by (rule set_command)
  have q2: "quiet s s2"
    using 1(2) 2(2) by (rule quiet_trans)
  obtain s3 where 3: "OhciSetMemoryPointer (hc E) (UsbHcBaseAddress E) HC_CONTROL_HEAD 0 s2 = Some (Value (unat (0::u32)), s3)"
      "hw_keeps s2 s3" "mapped (world s3) = mapped (world s2)" "head (world s3) = (head (world s2))(HC_CONTROL_HEAD := 0)"
      "script (world s3) = script (world s2)"
    by (rule set_head [of HC_CONTROL_HEAD 0 s2]) simp_all
  have keeps: "hw_keeps s s3" and m3: "mapped (world s3) = mapped (world s)" "script (world s3) = script (world s)"
    using q2 3(2,3,5) by (auto simp: quiet_def intro: hw_keeps_trans)
  have h3: "head (world s3) = (head (world s))(HC_CONTROL_HEAD := 0)"
    using q2 3(4) by (simp add: quiet_def)
  have ok3: "stores_ok pool_ok s3" and z3: "head (world s3) HC_CONTROL_HEAD = 0"
    using hw_keeps_stores [OF keeps ok] h3 by simp_all
  obtain Status len' result' s4 h where 4:
      "control_ed E addr speed mps Req dir Data TimeOut n r s3 = Some (Status, len', result', s4)"
      "restored pool_ok mapped s3 s4" "head (world s4) = (head (world s3))(HC_CONTROL_HEAD := h)" "head_left s4 h"
      "len' = n \<and> result' = r \<and> stopped (script (world s3)) Status (h \<noteq> 0) \<or>
       h = 0 \<and> (\<exists>k ra. answered (script (world s3)) (k, ra) \<and> carried_out (script (world s3)) dir mps Data n ra Status len' result')"
    by (rule control_ed_ends [OF ok3 z3 assms(2) mps])
  have run: "OhciControlTransfer E addr speed mps Req dir Data len TimeOut result s = Some (Status, Some len', Some result', s4)"
    unfolding OhciControlTransfer_def using nr 1(1) 2(1) 3(1) 4(1) by simp
  have h4: "head (world s4) = (head (world s))(HC_CONTROL_HEAD := h)"
    using 4(3) h3 by simp
  show ?thesis
    using run nr restored_after [OF keeps m3(1) 4(2)] h4 4(4,5) m3(2) by auto
qed

end

end
