(* ===== verification/OhciSim.thy ===== *)
theory OhciSim
  imports OhciControl UsbHcMem
begin

text \<open>
  The environment of the OHCI driver put together: the pool of \<open>UsbHcMem.c\<close> over a DMA library that
  hands out low memory or refuses, and a controller that may do to descriptors, at every access, all that the
  OHCI specification lets it do. What the library and the controller answer is free, so the theorems hold for
  every device and every failure.
\<close>

section \<open>The pool\<close>

record dma_pool =
  usb_pool :: usbhc_mem_pool
  answers :: "nat \<Rightarrow> dma_env"
  asked :: nat

text \<open>
  The DMA library: an answer is used when its buffer is aligned to the memory units, does not straddle a boundary of
  4 GiB and is nobody else's, and the bus address of a buffer is its address. The driver's pointers have 32 bits; that
  the pool has no buffer above 4 GiB is its own check (\<open>Check4G\<close>, \<open>Which4G\<close>), not the library's.
\<close>

definition free_buffer :: "nat \<Rightarrow> nat \<Rightarrow> usbhc_mem_block list \<Rightarrow> bool" where
  "free_buffer host n bs \<longleftrightarrow> 0 < host \<and> 64 dvd host \<and> host + n \<le> 2 ^ 64 \<and> (host + n - 1) div 2 ^ 32 = host div 2 ^ 32 \<and>
     list_all (\<lambda>b. host + n \<le> BufHost b \<or> BufHost b + BufLen b \<le> host) bs"

definition services :: "dma_pool \<Rightarrow> u64 \<Rightarrow> dma_env" where
  "services p n =
     (let e = (answers p (asked p))\<lparr>EFI_PAGE_SIZE := 4096\<rparr>
      in case DmaAllocateBuffer e of
           None \<Rightarrow> e
         | Some host \<Rightarrow> if free_buffer host (pages_for e (64 * units_of n) * 4096) (Blocks (usb_pool p))
                        then e\<lparr>DmaMap := map_option (\<lambda>(bytes, _, m). (bytes, host, m)) (DmaMap e)\<rparr>
                        else e\<lparr>DmaAllocateBuffer := None\<rparr>)"

definition usb_alloc :: "dma_pool \<Rightarrow> u64 \<Rightarrow> (u64 \<times> dma_pool) run" where
  "usb_alloc p n = do {
     (q, _, r, _) \<leftarrow> UsbHcAllocateMem (services p n) (usb_pool p) (\<lambda>_. 0) n;
     Some (case r of None \<Rightarrow> 0 | Some a \<Rightarrow> of_nat a, p\<lparr>usb_pool := q, asked := Suc (asked p)\<rparr>)
   }"

definition usb_free :: "dma_pool \<Rightarrow> u64 \<Rightarrow> u64 \<Rightarrow> dma_pool run" where
  "usb_free p a n = do {
     (q, _) \<leftarrow> UsbHcFreeMem (services p n) (usb_pool p) (unat a) n;
     Some (p\<lparr>usb_pool := q\<rparr>)
   }"

definition usb_ops :: "dma_pool pool_ops" where
  "usb_ops = \<lparr>pool_alloc = usb_alloc, pool_free = usb_free\<rparr>"

definition low_block :: "usbhc_mem_block \<Rightarrow> bool" where
  "low_block b \<longleftrightarrow> 0 < BufHost b \<and> 64 dvd BufHost b \<and> BufHost b + BufLen b \<le> 2 ^ 32"

definition usb_live :: "(u64 \<times> u64) set \<Rightarrow> (nat \<times> u64) set" where
  "usb_live live = (\<lambda>(a, n). (unat a, n)) ` live"

text \<open>A pool made by \<open>UsbHcInitMemPool (TRUE, 0)\<close>, over the library \<open>A\<close>.\<close>

definition usb_pool_ok :: "(nat \<Rightarrow> dma_env) \<Rightarrow> dma_pool \<Rightarrow> (u64 \<times> u64) set \<Rightarrow> bool" where
  "usb_pool_ok A p live \<longleftrightarrow> answers p = A \<and> Check4G (usb_pool p) \<and> Which4G (usb_pool p) = 0 \<and>
     pool_inv (usb_pool p) (usb_live live) \<and> (\<forall>b \<in> set (Blocks (usb_pool p)). low_block b)"

lemma low_block_shape: "low_block (shape b) = low_block b"
  by (simp add: low_block_def shape_def)

lemma services_page [simp]: "EFI_PAGE_SIZE (services p n) = 4096"
  by (simp add: services_def Let_def split: option.split)

lemma pages_for_env: "EFI_PAGE_SIZE e = EFI_PAGE_SIZE e' \<Longrightarrow> pages_for e n = pages_for e' n"
  by (simp add: pages_for_def)

lemma services_free:
  assumes "DmaAllocateBuffer (services p n) = Some host"
  shows "free_buffer host (pages_for (services p n) (64 * units_of n) * 4096) (Blocks (usb_pool p))"
    "DmaMap (services p n) = Some (bytes, mapped, m) \<Longrightarrow> mapped = host"
proof -
  let ?e = "(answers p (asked p))\<lparr>EFI_PAGE_SIZE := 4096\<rparr>"
  have "pages_for (services p n) k = pages_for ?e k" for k
    by (rule pages_for_env) simp
  then show "free_buffer host (pages_for (services p n) (64 * units_of n) * 4096) (Blocks (usb_pool p))"
    using assms by (auto simp: services_def Let_def split: option.splits if_splits)
  show "DmaMap (services p n) = Some (bytes, mapped, m) \<Longrightarrow> mapped = host"
    using assms by (auto simp: services_def Let_def split: option.splits if_splits)
qed

lemma services_ok: "env_ok (services p n) (Blocks (usb_pool p)) (pages_for (services p n) (64 * units_of n))"
  unfolding env_ok_def
proof (intro conjI allI impI ballI)
  fix host b assume h: "DmaAllocateBuffer (services p n) = Some host" and b: "b \<in> set (Blocks (usb_pool p))"
  show "{host..<host + pages_for (services p n) (64 * units_of n) * EFI_PAGE_SIZE (services p n)} \<inter> block_range b = {}"
    using services_free(1) [OF h] b by (auto simp: free_buffer_def list_all_iff block_range_def)
qed simp_all

text \<open>The check of the pool makes a new block a low one.\<close>

lemma new_block_low:
  assumes "UsbHcAllocMemBlock (services p n) (usb_pool p) (pages_for (services p n) (64 * units_of n)) = (Some b, ev)"
    and "Check4G (usb_pool p)" "Which4G (usb_pool p) = 0" "units_of n \<noteq> 0"
  shows "low_block b"
proof -
  let ?len = "pages_for (services p n) (64 * units_of n) * 4096"
  obtain host bytes mapped m where h: "DmaAllocateBuffer (services p n) = Some host" "DmaMap (services p n) = Some (bytes, mapped, m)"
      "USB_HC_HIGH_32BIT mapped = 0" "BufHost b = host" "BufLen b = ?len"
    using assms(1-3) by (auto simp: UsbHcAllocMemBlock_def Let_def split: option.splits if_splits)
  have f: "free_buffer host ?len (Blocks (usb_pool p))" and m: "mapped = host"
    using services_free [OF h(1)] h(2) by auto
  have "64 * units_of n \<le> ?len"
    using pages_for_enough [of "services p n" "64 * units_of n"] by simp
  then have "0 < ?len"
    using assms(4) by linarith
  moreover have "host < 2 ^ 64"
    using f calculation by (simp add: free_buffer_def)
  then have "host div 2 ^ 32 < 2 ^ 32"
    by (simp add: less_mult_imp_div_less)
  then have "host div 2 ^ 32 = 0"
    using h(3) m by (simp add: USB_HC_HIGH_32BIT_def)
  then have "(host + ?len - 1) div 2 ^ 32 = 0"
    using f by (simp add: free_buffer_def)
  then have "host + ?len - 1 < 2 ^ 32"
    by (simp add: div_eq_0_iff)
  ultimately have "host + ?len \<le> 2 ^ 32"
    by linarith
  then show ?thesis
    using f h(4,5) by (simp add: low_block_def free_buffer_def)
qed

lemma usb_live_insert: "usb_live (insert (a, n) live) = insert (unat a, n) (usb_live live)"
  by (simp add: usb_live_def)

lemma usb_live_remove: "usb_live (live - {(a, n)}) = usb_live live - {(unat a, n)}"
  by (auto simp: usb_live_def dest: word_eqI_unat)

lemma desc_units: "n \<in> desc_sizes \<Longrightarrow> units_of n = 1"
  by (auto simp: desc_sizes_def sizeof_TD_def sizeof_ED_def units_of_def USBHC_MEM_ROUND_def)

lemma UsbHcFreeMem_4G: "UsbHcFreeMem env p a n = Some (q, ev) \<Longrightarrow> Check4G q = Check4G p \<and> Which4G q = Which4G p"
  by (auto simp: UsbHcFreeMem_def split: Option.bind_splits if_splits)

lemma usb_pool_alloc:
  assumes ok: "usb_pool_ok A p live" and n: "n \<in> desc_sizes"
  shows "\<exists>a p'. usb_alloc p n = Some (a, p') \<and>
    (if a = 0 then usb_pool_ok A p' live else desc_addr a \<and> a \<notin> fst ` live \<and> usb_pool_ok A p' (insert (a, n) live))"
proof -
  have inv: "pool_inv (usb_pool p) (usb_live live)" and low: "\<forall>b \<in> set (Blocks (usb_pool p)). low_block b"
    and four: "Check4G (usb_pool p)" "Which4G (usb_pool p) = 0" and A: "answers p = A"
    using ok by (simp_all add: usb_pool_ok_def)
  have n0: "units_of n \<noteq> 0"
    using desc_units [OF n] by simp
  then obtain q m r ev where run: "UsbHcAllocateMem (services p n) (usb_pool p) (\<lambda>_. 0) n = Some (q, m, r, ev)"
    using UsbHcAllocateMem_total [OF inv services_ok] by (metis not_None_eq prod_cases4)
  note post = UsbHcAllocateMem_inv [OF inv services_ok run]
  let ?p = "p\<lparr>usb_pool := q, asked := Suc (asked p)\<rparr>"
  have kept: "(\<forall>c \<in> set (Blocks q). low_block c) \<and> Check4G q \<and> Which4G q = 0"
  proof (cases rule: UsbHcAllocateMem_cases [OF inv services_ok n0 run, case_names here full grown])
    case (here bs a)
    have "chain_ok (Blocks (usb_pool p))"
      using inv by (simp add: pool_inv_def)
    then have "map shape bs = map shape (Blocks (usb_pool p))"
      using alloc_in_blocks_spec [OF _ n0] here(1) by fastforce
    then have "shape ` set bs = shape ` set (Blocks (usb_pool p))"
      by (metis list.set_map)
    then have "\<forall>c \<in> set bs. low_block c"
      using low low_block_shape by (metis image_iff)
    then show ?thesis
      using here(2) four by simp
  next
    case (grown b b' a h rest)
    have "low_block b"
      by (rule new_block_low [OF grown(1) four n0])
    then have "low_block b'"
      using alloc_marks [OF UsbHcAllocMemBlock_fresh(1) [OF grown(1) services_ok] n0 grown(2)] low_block_shape by metis
    then show ?thesis
      using grown(3,4) low four by simp
  qed (use low four in simp)
  then have low': "low_block c" if "c \<in> set (Blocks q)" for c
    using that by blast
  have four': "Check4G q" "Which4G q = 0"
    using kept by simp_all
  show ?thesis
  proof (cases r)
    case None
    then show ?thesis
      using run post(1) low' four' A by (auto simp: usb_alloc_def usb_pool_ok_def)
  next
    case (Some a)
    have inv': "pool_inv q (insert (a, n) (usb_live live))"
      using post(1) Some by simp
    then obtain b where b: "b \<in> set (Blocks q)" "in_block b a (units_of n)" "block_ok b"
      by (auto simp: pool_inv_def live_ok_def in_chain_def chain_ok_def)
    then obtain k where k: "a = BufHost b + 64 * k" "k + 1 \<le> 8 * BitsLen b" "BufLen b = 512 * BitsLen b"
      by (auto simp: in_block_def block_ok_def desc_units [OF n])
    have a: "0 < a" "a < 2 ^ 32" "64 dvd a"
      using k low' [OF b(1)] by (auto simp: low_block_def)
    have un: "unat (of_nat a :: u64) = a"
      using a(2) by (simp add: unat_of_nat take_bit_nat_eq_self)
    then have desc: "desc_addr (of_nat a)"
      using a dvd_trans [of 16 64 a] by (auto simp: desc_addr_def)
    have fresh: "(of_nat a :: u64) \<notin> fst ` live"
    proof
      assume "(of_nat a :: u64) \<in> fst ` live"
      then obtain n' where "(of_nat a, n') \<in> live"
        by auto
      then have "(a, n') \<in> usb_live live"
        by (force simp: usb_live_def un)
      moreover have "live_ok (Blocks (usb_pool p)) (usb_live live)"
        using inv by (simp add: pool_inv_def)
      ultimately have "a \<in> live_region (a, n')" "live_region (a, n') \<subseteq> chain_bytes (Blocks (usb_pool p))"
        by (auto simp: live_ok_def live_region_def region_nonempty)
      moreover have "a \<in> live_region (a, n)"
        by (simp add: live_region_def region_nonempty desc_units [OF n])
      ultimately show False
        using post(5) [OF Some] by blast
    qed
    have "(of_nat a :: u64) \<noteq> 0"
      using desc by (simp add: desc_addr_def)
    then show ?thesis
      using run Some inv' low' four' A desc fresh un by (auto simp: usb_alloc_def usb_pool_ok_def usb_live_insert)
  qed
qed

lemma usb_pool_free:
  assumes ok: "usb_pool_ok A p live" and live: "(a, n) \<in> live"
  shows "\<exists>p'. usb_free p a n = Some p' \<and> usb_pool_ok A p' (live - {(a, n)})"
proof -
  have inv: "pool_inv (usb_pool p) (usb_live live)" and low: "\<forall>b \<in> set (Blocks (usb_pool p)). low_block b"
    using ok by (simp_all add: usb_pool_ok_def)
  have "(unat a, n) \<in> usb_live live"
    using live by (force simp: usb_live_def)
  then obtain q ev where q: "UsbHcFreeMem (services p n) (usb_pool p) (unat a) n = Some (q, ev)"
      "pool_inv q (usb_live live - {(unat a, n)})" "shape ` set (Blocks q) \<subseteq> shape ` set (Blocks (usb_pool p))"
    using UsbHcFreeMem_inv [OF inv] by blast
  have "\<forall>b \<in> set (Blocks q). low_block b"
    using q(3) low low_block_shape by (metis image_iff image_subset_iff)
  then show ?thesis
    using q(1,2) UsbHcFreeMem_4G [OF q(1)] ok by (simp add: usb_free_def usb_pool_ok_def usb_live_remove)
qed

interpretation usb_pool: descriptor_pool usb_ops "usb_pool_ok A" for A
  by unfold_locales (simp_all add: usb_ops_def usb_pool_alloc usb_pool_free)

section \<open>The controller\<close>

text \<open>
  What the device and the DMA library answer, by the number of the access; the two list heads, which a
  controller does not write; the mappings that are in force.
\<close>

record device =
  steps :: nat
  readings :: "nat \<Rightarrow> u64 \<Rightarrow> u32"
  heads :: "u32 \<Rightarrow> u32"
  retire_td :: "nat \<Rightarrow> u64 \<Rightarrow> TD_DESCRIPTOR \<Rightarrow> TD_DESCRIPTOR"
  retire_ed :: "nat \<Rightarrow> u64 \<Rightarrow> ED_DESCRIPTOR \<Rightarrow> ED_DESCRIPTOR"
  dma_answers :: "nat \<Rightarrow> (u64 \<times> u64 \<times> u64) option"
  mappings :: "u64 list"

definition hw_td_step :: "(TD_DESCRIPTOR \<Rightarrow> TD_DESCRIPTOR) \<Rightarrow> TD_DESCRIPTOR \<Rightarrow> TD_DESCRIPTOR" where
  "hw_td_step f t =
     (let u = f t
      in t\<lparr>td_DataToggle := td_DataToggle u, ErrorCount := ErrorCount u, ConditionCode := ConditionCode u,
           CurrBufferPointer := CurrBufferPointer u, NextTD := NextTD u\<rparr>)"

definition hw_ed_step :: "(ED_DESCRIPTOR \<Rightarrow> ED_DESCRIPTOR) \<Rightarrow> ED_DESCRIPTOR \<Rightarrow> ED_DESCRIPTOR" where
  "hw_ed_step f e =
     (if Skip e = 1 then e
      else let u = f e in e\<lparr>Halted := Halted u, ToggleCarry := ToggleCarry u, TdHeadPointer := TdHeadPointer u\<rparr>)"

definition hw_step :: "('p, device) ohci \<Rightarrow> ('p, device) ohci" where
  "hw_step s =
     (let d = world s
      in s\<lparr>tds := (\<lambda>a. map_option (hw_td_step (retire_td d (steps d) a)) (tds s a)),
           eds := (\<lambda>a. map_option (hw_ed_step (retire_ed d (steps d) a)) (eds s a)),
           world := d\<lparr>steps := Suc (steps d)\<rparr>\<rparr>)"

definition head_at :: "u32 \<Rightarrow> u64 \<Rightarrow> u32 option" where
  "head_at base a =
     (if a = ucast (base + HC_CONTROL_HEAD) then Some HC_CONTROL_HEAD
      else if a = ucast (base + HC_BULK_HEAD) then Some HC_BULK_HEAD else None)"

definition sim_hc :: "u32 \<Rightarrow> ('p, device) ohci mmio" where
  "sim_hc base =
     \<lparr>MmioRead32 = (\<lambda>s a. (case head_at base a of Some R \<Rightarrow> heads (world s) R | None \<Rightarrow> readings (world s) (steps (world s)) a,
                             hw_step s)),
      MmioWrite32 = (\<lambda>s a w. case head_at base a of
                                  Some R \<Rightarrow> (hw_step s)\<lparr>world := (world (hw_step s))\<lparr>heads := (heads (world s))(R := w)\<rparr>\<rparr>
                                | None \<Rightarrow> hw_step s),
      MmioWrite16 = (\<lambda>s a w. s),
      MicroSecondDelay = (\<lambda>s n. hw_step s)\<rparr>"

definition sim_map :: "dma_map_operation \<Rightarrow> u64 \<Rightarrow> u64 \<Rightarrow> device \<Rightarrow> (efi_error + u64 \<times> u64 \<times> u64) \<times> device" where
  "sim_map op buf n d =
     (let d' = d\<lparr>steps := Suc (steps d)\<rparr>
      in case dma_answers d (steps d) of
           None \<Rightarrow> (Inl EFI_OUT_OF_RESOURCES, d')
         | Some (len, addr, m) \<Rightarrow> if m = 0 then (Inl EFI_OUT_OF_RESOURCES, d')
                                 else (Inr (len, addr, m), d'\<lparr>mappings := m # mappings d\<rparr>))"

definition sim_env :: "u32 \<Rightarrow> (dma_pool, device) ohci_env" where
  "sim_env base =
     \<lparr>hc = sim_hc base, UsbHcBaseAddress = base, HccaMemoryBlock = 0, pool = usb_ops, dma_map = sim_map,
      dma_unmap = (\<lambda>m d. d\<lparr>mappings := remove1 m (mappings d)\<rparr>), dma_allocate = (\<lambda>n d. (Inl EFI_OUT_OF_RESOURCES, d)),
      dma_free = (\<lambda>n b d. d), AllocatePool = (\<lambda>n d. (0, d)), FreePool = (\<lambda>p d. d), CopyMem = (\<lambda>a b n d. d),
      call_back = (\<lambda>f b n c r s. Some s)\<rparr>"

definition mapped_by :: "device \<Rightarrow> u64 multiset" where
  "mapped_by d = mset (mappings d)"

lemma hw_td_stepped: "hw_td t (hw_td_step f t)" and hw_ed_stepped: "hw_ed e (hw_ed_step g e)"
  by (simp_all add: hw_td_def hw_td_step_def hw_ed_def hw_ed_step_def Let_def)

lemma hw_step_keeps: "hw_keeps s (hw_step s)"
  by (simp add: hw_keeps_def hw_step_def Let_def option.rel_map option.rel_refl hw_td_stepped hw_ed_stepped)

lemma hw_keeps_world [simp]: "hw_keeps s (s'\<lparr>world := w\<rparr>) = hw_keeps s s'"
  by (simp add: hw_keeps_def)

lemma hw_step_world [simp]: "world (hw_step s) = (world s)\<lparr>steps := Suc (steps (world s))\<rparr>"
  by (simp add: hw_step_def Let_def)

lemma head_at_list:
  "R \<in> list_heads \<Longrightarrow> head_at base (ucast (base + R)) = Some R"
  "a \<notin> (\<lambda>R. ucast (base + R)) ` list_heads \<Longrightarrow> head_at base a = None"
  by (auto simp: head_at_def list_heads_def ucast_u32_inj HC_CONTROL_HEAD_def HC_BULK_HEAD_def)

text \<open>
  The script: what registers read, what becomes of descriptors and what the DMA library answers, by the number of the
  access. A look at a register is access \<open>k\<close>, and every descriptor in memory is then as access \<open>k\<close> leaves it.
\<close>

type_synonym script =
  "(nat \<Rightarrow> u64 \<Rightarrow> u32) \<times> (nat \<Rightarrow> u64 \<Rightarrow> TD_DESCRIPTOR \<Rightarrow> TD_DESCRIPTOR) \<times> (nat \<Rightarrow> (u64 \<times> u64 \<times> u64) option)"

definition script_of :: "device \<Rightarrow> script" where
  "script_of d = (readings d, retire_td d, dma_answers d)"

definition looked_at :: "script \<Rightarrow> u64 \<Rightarrow> u32 \<Rightarrow> (u64 \<rightharpoonup> TD_DESCRIPTOR) \<Rightarrow> bool" where
  "looked_at sc a v T \<longleftrightarrow>
     (\<exists>k. v = fst sc k a \<and> (\<forall>b t. T b = Some t \<longrightarrow> (\<exists>u. t = hw_td_step (fst (snd sc) k b) u)))"

definition map_granted :: "script \<Rightarrow> u64 \<times> u64 \<Rightarrow> bool" where
  "map_granted sc x \<longleftrightarrow> (\<exists>k m. m \<noteq> 0 \<and> snd (snd sc) k = Some (fst x, snd x, m))"

definition map_denied :: "script \<Rightarrow> efi_error \<Rightarrow> bool" where
  "map_denied sc e \<longleftrightarrow> e = EFI_OUT_OF_RESOURCES \<and>
     (\<exists>k. case snd (snd sc) k of None \<Rightarrow> True | Some (len, addr, m) \<Rightarrow> m = 0)"

lemma sim_map_cases:
  "sim_map f b n d = (Inl e, d') \<Longrightarrow>
     mapped_by d' = mapped_by d \<and> heads d' = heads d \<and> script_of d' = script_of d \<and> map_denied (script_of d) e"
  "sim_map f b n d = (Inr (len, addr, m), d') \<Longrightarrow> m \<noteq> 0 \<and> mapped_by d' = add_mset m (mapped_by d) \<and> heads d' = heads d \<and>
     script_of d' = script_of d \<and> map_granted (script_of d) (len, addr)"
proof -
  show "sim_map f b n d = (Inl e, d') \<Longrightarrow>
     mapped_by d' = mapped_by d \<and> heads d' = heads d \<and> script_of d' = script_of d \<and> map_denied (script_of d) e"
    by (auto simp: sim_map_def mapped_by_def script_of_def map_denied_def Let_def split: option.splits if_splits
        intro!: exI [of _ "steps d"])
  show "sim_map f b n d = (Inr (len, addr, m), d') \<Longrightarrow> m \<noteq> 0 \<and> mapped_by d' = add_mset m (mapped_by d) \<and> heads d' = heads d \<and>
     script_of d' = script_of d \<and> map_granted (script_of d) (len, addr)"
    by (auto simp: sim_map_def mapped_by_def script_of_def map_granted_def Let_def split: option.splits if_splits
        intro!: exI [of _ "steps d"])
qed

lemma hw_step_looked: "tds (hw_step s) b = Some t \<Longrightarrow> \<exists>u. t = hw_td_step (retire_td (world s) (steps (world s)) b) u"
  by (auto simp: hw_step_def Let_def)

interpretation sim: ohci_system "sim_env base" "usb_pool_ok A" heads mapped_by script_of looked_at map_granted map_denied
  for base :: u32 and A
proof unfold_locales
  fix a :: u64 and s :: "(dma_pool, device) ohci"
  assume "a \<notin> (\<lambda>R. ucast (UsbHcBaseAddress (sim_env base) + R)) ` list_heads"
  then have "head_at base a = None"
    by (intro head_at_list(2)) (simp add: sim_env_def)
  then show "looked_at (script_of (world s)) a (fst (MmioRead32 (hc (sim_env base)) s a))
      (tds (snd (MmioRead32 (hc (sim_env base)) s a)))"
    by (auto simp: looked_at_def script_of_def sim_env_def sim_hc_def dest: hw_step_looked)
qed (auto simp: sim_env_def sim_hc_def usb_ops_def usb_pool_alloc usb_pool_free hw_step_keeps head_at_list mapped_by_def
    script_of_def sim_map_cases [unfolded mapped_by_def script_of_def] split: option.split)

end
