(* ===== verification/OhciProps.thy ===== *)
theory OhciProps
  imports OhciSim
begin

text \<open>
  What the OHCI driver guarantees: its transfers over the simulated environment, its registers, its interrupt tree
  and the way its start fails.
\<close>

section \<open>Pieces of a buffer\<close>

lemma pieces_zero [simp]: "pieces mps toggle addr 0 = []"
  by (simp add: pieces.simps)

definition data_pieces :: "u64 \<Rightarrow> u8 \<Rightarrow> u64 \<Rightarrow> u64 \<Rightarrow> (u8 \<times> u64 \<times> u64) list" where
  "data_pieces mps toggle addr len =
     map (\<lambda>i. (if even i then toggle else toggle XOR 1, addr + of_nat (i * unat mps),
                of_nat (min (unat mps) (unat len - i * unat mps))))
       [0..<(unat len + unat mps - 1) div unat mps]"

lemma ceil_step:
  fixes m l :: nat
  assumes "0 < m" "m < l"
  shows "(l + m - 1) div m = Suc ((l - m + m - 1) div m)"
proof -
  have "l + m - 1 = (l - m + m - 1) + m"
    using assms by simp
  then show ?thesis
    using assms(1) by (metis div_add_self2 less_irrefl plus_1_eq_Suc add.commute)
qed

lemma pieces_closed: "mps \<noteq> 0 \<Longrightarrow> pieces mps toggle addr len = data_pieces mps toggle addr len"
proof (induction mps toggle addr len rule: pieces.induct)
  case (1 mps toggle addr len)
  have m: "0 < unat mps"
    using "1.prems" by (simp add: unat_gt_0)
  consider "len = 0" | "len \<noteq> 0" "len \<le> mps" | "len > mps"
    by (meson not_less)
  then show ?case
  proof cases
    case 1
    then show ?thesis
      using m by (simp add: data_pieces_def)
  next
    case 2
    have l: "0 < unat len" "unat len \<le> unat mps"
      using 2 by (simp_all add: unat_gt_0 word_le_nat_alt)
    then have "(unat len + unat mps - 1) div unat mps = 1"
      using m by (intro div_nat_eqI) simp_all
    then show ?thesis
      using 2 "1.prems" l by (simp add: not_less [symmetric] pieces.simps [of mps toggle addr len] data_pieces_def)
  next
    case 3
    have l: "unat mps < unat len" "unat (len - mps) = unat len - unat mps"
      using 3 unat_sub [of mps len] by (simp_all add: word_less_nat_alt word_le_nat_alt)
    have nz: "len \<noteq> 0"
      using 3 by auto
    let ?k = "(unat len - unat mps + unat mps - 1) div unat mps"
    have IH: "pieces mps (toggle XOR 1) (addr + mps) (len - mps) = data_pieces mps (toggle XOR 1) (addr + mps) (len - mps)"
      using "1.IH" [of mps] 3 "1.prems" nz by simp
    have twice: "(toggle XOR 1) XOR 1 = toggle"
      by (simp add: xor.assoc)
    have upt: "[0..<Suc ?k] = 0 # map Suc [0..<?k]"
      by (simp add: upt_conv_Cons map_Suc_upt del: upt_Suc)
    have "pieces mps toggle addr len = (toggle, addr, mps) # data_pieces mps (toggle XOR 1) (addr + mps) (len - mps)"
      using 3 "1.prems" nz IH by (simp add: pieces.simps [of mps toggle addr len])
    also have "\<dots> = data_pieces mps toggle addr len"
      unfolding data_pieces_def ceil_step [OF m l(1)] l(2) upt
      using l(1) twice by (simp add: algebra_simps)
    finally show ?thesis .
  qed
qed

section \<open>Transfers\<close>

text \<open>
  The head pointer of an endpoint, read back by \<open>TD_PTR\<close> (\<open>Descriptor.h\<close>), is sign extended: an
  address at or above 2 GiB comes back with its upper half set.
\<close>

lemma desc_addr_bits: "desc_addr a \<Longrightarrow> bit a n \<Longrightarrow> 4 \<le> n \<and> n < 32"
proof -
  assume a: "desc_addr a" and n: "bit a n"
  have "take_bit 32 (unat a) = unat a" "take_bit 4 (unat a) = 0"
    using a by (simp_all add: desc_addr_def take_bit_nat_eq_self take_bit_eq_mod dvd_eq_mod_eq_0)
  then have "bit (take_bit 32 (unat a)) n" "\<not> bit (take_bit 4 (unat a)) n"
    using n by (simp_all add: bit_unsigned_iff)
  then show ?thesis
    using n by (auto simp: bit_take_bit_iff bit_unsigned_iff)
qed

lemma desc_addr_sign: "desc_addr a \<Longrightarrow> a < 0x80000000 \<longleftrightarrow> \<not> bit a 31"
proof -
  assume a: "desc_addr a"
  have "n < 31" if "bit (unat a) n" "\<not> bit (unat a) 31" for n
  proof -
    have "n \<noteq> 31" "n < 32"
      using that desc_addr_bits [OF a, of n] by (auto simp: bit_unsigned_iff)
    then show ?thesis
      by linarith
  qed
  then have "take_bit 31 (unat a) = unat a" if "\<not> bit (unat a) 31"
    using that by (intro bit_eqI) (auto simp: bit_take_bit_iff)
  moreover have "\<not> bit (unat a) 31" if "take_bit 31 (unat a) = unat a"
    using arg_cong [OF that, of "\<lambda>x. bit x 31"] by (simp add: bit_take_bit_iff)
  ultimately have "take_bit 31 (unat a) = unat a \<longleftrightarrow> \<not> bit (unat a) 31"
    by blast
  then show ?thesis
    by (simp add: take_bit_nat_eq_self_iff word_less_nat_alt bit_unsigned_iff)
qed

lemma desc_addr_ptr:
  assumes "desc_addr a"
  shows "TD_PTR (ucast (RIGHT_SHIFT_4 (ucast a))) = (if a < 0x80000000 then a else a OR 0xFFFFFFFF00000000)"
proof -
  have high: "(0xFFFFFFFF00000000 :: u64) = NOT (mask 32)"
    by (simp add: mask_eq_exp_minus_1)
  have "TD_PTR (ucast (RIGHT_SHIFT_4 (ucast a))) = (if bit a 31 then a OR NOT (mask 32) else a)"
  proof (rule bit_word_eqI)
    fix n :: nat assume n: "n < LENGTH(64)"
    consider "n < 31" | "n = 31" | "32 \<le> n"
      by linarith
    then show "bit (TD_PTR (ucast (RIGHT_SHIFT_4 (ucast a)))) n = bit (if bit a 31 then a OR NOT (mask 32) else a) n"
      by cases (use n desc_addr_bits [OF assms, of n] in \<open>auto simp: TD_PTR_def RIGHT_SHIFT_4_def bit_simps min_def\<close>)
  qed
  then show ?thesis
    using desc_addr_sign [OF assms] high by simp
qed

definition small_pool :: usbhc_mem_pool where
  "small_pool = \<lparr>Check4G = True, Which4G = 0,
     Blocks = [\<lparr>Bits = replicate 2 0, BitsLen = 2, Buf = 64, BufHost = 64, BufLen = 1024, Mapping = 1\<rparr>]\<rparr>"

definition demo_device :: device where
  "demo_device = \<lparr>steps = 0, readings = (\<lambda>k a. 0), heads = (\<lambda>R. 0), retire_td = (\<lambda>k a t. t\<lparr>ConditionCode := 0\<rparr>),
     retire_ed = (\<lambda>k a e. e), dma_answers = (\<lambda>k. Some (if k < 15 then 8 else 20, 4096, of_nat (Suc k))), mappings = []\<rparr>"

definition demo_ohci :: "(dma_pool, device) ohci" where
  "demo_ohci = \<lparr>MemPool = \<lparr>usb_pool = small_pool, answers = (\<lambda>k. demo_env), asked = 0\<rparr>, eds = Map.empty, tds = Map.empty,
     HccaInterruptTable = (\<lambda>_. 0), IntervalList = (\<lambda>_ _. 0), InterruptContextList = 0, contexts = Map.empty, tpl = 4,
     world = demo_device\<rparr>"



definition used_pool :: usbhc_mem_pool where
  "used_pool = small_pool\<lparr>Blocks := [\<lparr>Bits = [3, 0], BitsLen = 2, Buf = 64, BufHost = 64, BufLen = 1024, Mapping = 1\<rparr>]\<rparr>"

lemma used_units: "unit_set [3, 0] = {0, 1}"
proof -
  have "bit (3 :: u8) n \<longleftrightarrow> n < 2" if "n < 8" for n
    using that by (simp add: numeral_3_eq_3 mask_eq_exp_minus_1 [of 2, where 'a = "8 word", simplified, symmetric] bit_mask_iff)
  moreover have "([3, 0] :: u8 list) ! (u div 8) = (if u < 8 then 3 else 0)" if "u < 16" for u
    using that by (auto simp: nth_Cons' dvd_def)
  ultimately show ?thesis
    by (auto simp: unit_set_def split: if_splits)
qed

lemma used_pool_inv: "pool_inv used_pool {(64, sizeof_TD), (128, sizeof_ED)}"
proof -
  have "block_bytes (hd (Blocks used_pool)) = {64..<192}"
    by (auto simp: block_bytes_def used_pool_def used_units)
  moreover have "region 64 1 = {64..<128}" "region 128 1 = {128..<192}"
    by (auto simp: region_def)
  moreover have "units_of sizeof_TD = 1" "units_of sizeof_ED = 1"
    by (simp_all add: desc_units desc_sizes_def)
  ultimately show ?thesis
    by (auto simp: pool_inv_def used_pool_def chain_ok_def block_ok_def live_ok_def chain_bytes_def in_chain_def in_block_def
        live_region_def)
qed
definition armed_ohci :: "(dma_pool, device) ohci" where
  "armed_ohci = demo_ohci\<lparr>MemPool := (MemPool demo_ohci)\<lparr>usb_pool := used_pool\<rparr>, tds := [64 \<mapsto> setup_td 4096 zero_td],
     eds := [128 \<mapsto> zero_ed\<lparr>Skip := 1\<rparr>]\<rparr>"

lemma armed_ohci_ok: "stores_ok (usb_pool_ok (\<lambda>k. demo_env)) armed_ohci"
  using used_pool_inv
  by (simp add: stores_ok_def armed_ohci_def demo_ohci_def live_of_def usb_pool_ok_def usb_live_def low_block_def desc_addr_def
      used_pool_def small_pool_def insert_commute)





text \<open>
  C9: For an endpoint whose list is empty and a maximum packet length that is not 0, with a pool whose buffers lie below
  4 GiB, the stages of a control transfer chain, behind the setup descriptor, one descriptor for each piece of the buffer,
  the status descriptor and the empty one, and give the chain to the endpoint; they stop early only when the pool
  refuses a descriptor. The pieces are of the maximum packet length but for the last, follow each other without
  gap, and their toggles alternate from 1. The endpoint's tail is the empty descriptor; its head, read back by
  \<open>TD_PTR\<close>, is the setup descriptor when that lies below 2 GiB, and its sign extension otherwise.
\<close>

theorem ohci_control_chain:
  assumes "stores_ok (usb_pool_ok A) s" "pool E = usb_ops" "tds s = T0(a \<mapsto> setup_td Req zero_td)" "desc_addr a" "mps \<noteq> 0"
    and "eds s Ed = Some e" "TdHeadPointer e = 0"
  shows "\<exists>ok ys e' q.
    control_stages E dir mps Ed a addr len s =
      Some (ok, s\<lparr>MemPool := q, tds := T0 ++ links ys, eds := (eds s)(Ed \<mapsto> e')\<rparr>) \<and>
    chain_ok_td ys \<and> hd ys = (a, setup_td Req zero_td) \<and>
    (if ok then
       map snd (tl ys) = map (\<lambda>(toggle, ad, n). data_td (data_pid dir) toggle ad n zero_td) (data_pieces mps 1 addr len) @
         [status_td (status_pid dir) zero_td, empty_td zero_td] \<and>
       TD_PTR (TdHeadPointer e') = (if a < 0x80000000 then a else a OR 0xFFFFFFFF00000000) \<and> TdTailPointer e' = ucast (fst (last ys))
     else \<exists>p live. usb_pool_ok A p live \<and> usb_alloc p sizeof_TD = Some (0, q))"
proof -
  let ?ys = "[(a, setup_td Req zero_td)]"
  have T: "tds s = T0 ++ links ?ys"
    using with_zero_links [of "setup_td Req", OF stage_tds_unlinked(1,2)] assms(3) by (simp add: first_link_def)
  have c: "chain_ok_td ?ys" "chain_head ?ys = a" "?ys \<noteq> []"
    using assms(4) by (simp_all add: chain_ok_td_def chain_head_def)
  obtain ok ys e' q where r: "control_stages E dir mps Ed a addr len s =
      Some (ok, s\<lparr>MemPool := q, tds := T0 ++ links ys, eds := (eds s)(Ed \<mapsto> e')\<rparr>)" "grown (usb_pool_ok A) s T0 ?ys ys q"
      "ok \<longrightarrow> map snd ys = map snd ?ys @ control_chain dir mps addr len \<and> e' = armed e ys" "\<not> ok \<longrightarrow> usb_pool.refused A sizeof_TD q"
    using usb_pool.control_stages_spec [OF assms(1,2) T c(1,3) assms(5-7), of dir addr len] unfolding c(2) by blast
  obtain zs where zs: "ys = ?ys @ zs"
    using r(2) by (auto simp: grown_def)
  have ok: "chain_ok_td ys"
    using r(2) by (simp add: grown_def)
  have head: "TD_PTR (ucast (RIGHT_SHIFT_4 (ucast a))) = (if a < 0x80000000 then a else a OR 0xFFFFFFFF00000000)"
    by (rule desc_addr_ptr [OF assms(4)])
  have refuse: "\<exists>p live. usb_pool_ok A p live \<and> usb_alloc p sizeof_TD = Some (0, q)" if "\<not> ok"
    using r(4) that unfolding usb_pool.refused_def by (simp add: usb_ops_def)
  have "chain_head ys = a"
    using zs c(2) by (simp add: chain_head_def)
  then have "if ok then
       map snd (tl ys) = map (\<lambda>(toggle, ad, n). data_td (data_pid dir) toggle ad n zero_td) (data_pieces mps 1 addr len) @
         [status_td (status_pid dir) zero_td, empty_td zero_td] \<and>
       TD_PTR (TdHeadPointer e') = (if a < 0x80000000 then a else a OR 0xFFFFFFFF00000000) \<and> TdTailPointer e' = ucast (fst (last ys))
     else \<exists>p live. usb_pool_ok A p live \<and> usb_alloc p sizeof_TD = Some (0, q)"
    using r(3) refuse head zs pieces_closed [OF assms(5), of 1 addr len]
    by (auto simp: control_chain_def data_tds_def armed_def)
  then show ?thesis
    using r(1) ok zs by (intro exI [of _ ok] exI [of _ ys] exI [of _ e'] exI [of _ q]) simp
qed

theorem ohci_control_chain_witness:
  "\<exists>ok ys e' q.
    control_stages (sim_env 0) EfiUsbDataIn 8 128 64 200 20 armed_ohci =
      Some (ok, armed_ohci\<lparr>MemPool := q, tds := Map.empty ++ links ys, eds := (eds armed_ohci)(128 \<mapsto> e')\<rparr>) \<and>
    chain_ok_td ys \<and> hd ys = (64, setup_td 4096 zero_td) \<and>
    (if ok then
       map snd (tl ys) = map (\<lambda>(toggle, ad, n). data_td (data_pid EfiUsbDataIn) toggle ad n zero_td) (data_pieces 8 1 200 20) @
         [status_td (status_pid EfiUsbDataIn) zero_td, empty_td zero_td] \<and>
       TD_PTR (TdHeadPointer e') = (if (64 :: u64) < 0x80000000 then 64 else 64 OR 0xFFFFFFFF00000000) \<and> TdTailPointer e' = ucast (fst (last ys))
     else \<exists>p live. usb_pool_ok (\<lambda>k. demo_env) p live \<and> usb_alloc p sizeof_TD = Some (0, q))"
  by (rule ohci_control_chain [where e = "zero_ed\<lparr>Skip := 1\<rparr>", OF armed_ohci_ok])
    (simp_all add: sim_env_def armed_ohci_def desc_addr_def zero_ed_def)

end
